(* ===== verification/Prelude.thy ===== *)
theory Prelude
  imports Main "HOL-Library.AList" "HOL-Library.State_Monad" "HOL-Library.Sublist"
begin

text \<open>
  Shared vocabulary of the development: the collections of facts the component proofs use,
  the Go string and map operations the sources call, decimal printing and reading, 64-bit
  durations, and errors as values. Strings are Go's: lists of bytes, so \<open>length\<close> counts
  bytes as \<open>len(s)\<close> does. White space is the ASCII white space of \<open>strings.TrimSpace\<close>.
\<close>

named_theorems go_eval \<open>defining equations used to run a definition on a concrete input\<close>
named_theorems io_intro \<open>closure rules for relations between the worlds before and after an action\<close>
named_theorems io_def \<open>definitions unfolded before the closure rules apply\<close>

section \<open>Errors as values\<close>

text \<open>
  A Go error carries a message; the predicates of the Kubernetes error package
  (\<open>IsNotFound\<close>, \<open>IsConflict\<close>, \<open>IsAlreadyExists\<close>) look at its kind, also through
  \<open>fmt.Errorf\<close> with the \<open>w\<close> verb, which adds text in front and keeps the kind. The kind
  \<open>Panic\<close> is a run-time panic: no handler catches it, and the controller runtime turns it
  into an error of the reconcile. \<open>Lifecycle\<close> is the error type of the pods of a data sync
  (\<open>trafficlessLifecycleError\<close>) with its reason; its text is its message.
\<close>

datatype errkind = NotFound | Conflict | AlreadyExists | OtherErr | Panic | Lifecycle string

record err =
  err_kind :: errkind
  err_text :: string

definition errorf :: "string \<Rightarrow> err" where
  "errorf t = \<lparr>err_kind = OtherErr, err_text = t\<rparr>"

definition wrapf :: "string \<Rightarrow> err \<Rightarrow> err" where
  "wrapf t e = \<lparr>err_kind = err_kind e, err_text = t @ err_text e\<rparr>"

lemma wrapf_kind [simp]: "err_kind (wrapf t e) = err_kind e"
  by (simp add: wrapf_def)

lemma wrapf_text [simp]: "err_text (wrapf t e) = t @ err_text e"
  by (simp add: wrapf_def)

lemma errorf_sel [simp]: "err_kind (errorf t) = OtherErr" "err_text (errorf t) = t"
  by (simp_all add: errorf_def)

section \<open>Strings\<close>

definition isSpace :: "char \<Rightarrow> bool" where
  "isSpace c \<longleftrightarrow> c \<in> set [CHR 0x09, CHR 0x0A, CHR 0x0B, CHR 0x0C, CHR 0x0D, CHR 0x20]"

definition trimFunc :: "(char \<Rightarrow> bool) \<Rightarrow> string \<Rightarrow> string" where
  "trimFunc f s = rev (dropWhile f (rev (dropWhile f s)))"

definition trimSpace :: "string \<Rightarrow> string" where
  "trimSpace s = trimFunc isSpace s"

definition lowerChar :: "char \<Rightarrow> char" where
  "lowerChar c = (if 65 \<le> (of_char c :: nat) \<and> (of_char c :: nat) \<le> 90
                  then char_of ((of_char c :: nat) + 32) else c)"

definition toLower :: "string \<Rightarrow> string" where
  "toLower s = map lowerChar s"

definition hasPrefix :: "string \<Rightarrow> string \<Rightarrow> bool" where
  "hasPrefix s p \<longleftrightarrow> take (length p) s = p"

definition hasSuffix :: "string \<Rightarrow> string \<Rightarrow> bool" where
  "hasSuffix s p \<longleftrightarrow> hasPrefix (rev s) (rev p)"

definition trimPrefix :: "string \<Rightarrow> string \<Rightarrow> string" where
  "trimPrefix s p = (if hasPrefix s p then drop (length p) s else s)"

definition trimSuffix :: "string \<Rightarrow> string \<Rightarrow> string" where
  "trimSuffix s p = (if hasSuffix s p then take (length s - length p) s else s)"

fun contains :: "string \<Rightarrow> string \<Rightarrow> bool" where
  "contains [] p \<longleftrightarrow> p = []"
| "contains (c # s) p \<longleftrightarrow> hasPrefix (c # s) p \<or> contains s p"

fun joinWith :: "string \<Rightarrow> string list \<Rightarrow> string" where
  "joinWith sep [] = []"
| "joinWith sep [x] = x"
| "joinWith sep (x # xs) = x @ sep @ joinWith sep xs"

lemma hasPrefix_iff: "hasPrefix s p \<longleftrightarrow> (\<exists>t. s = p @ t)"
  by (metis append_eq_conv_conj hasPrefix_def append_take_drop_id)

lemma hasPrefix_append [simp]: "hasPrefix (p @ t) p"
  by (simp add: hasPrefix_def)

lemma trimPrefix_append [simp]: "trimPrefix (p @ t) p = t"
  by (simp add: trimPrefix_def)

lemma hasSuffix_iff: "hasSuffix s p \<longleftrightarrow> (\<exists>t. s = t @ p)"
proof
  assume "hasSuffix s p"
  then obtain t where "rev s = rev p @ t" by (auto simp: hasSuffix_def hasPrefix_iff)
  then have "s = rev t @ p" by (metis rev_append rev_rev_ident)
  then show "\<exists>t. s = t @ p" by blast
qed (auto simp: hasSuffix_def hasPrefix_iff)

lemma contains_iff: "contains s p \<longleftrightarrow> (\<exists>a b. s = a @ p @ b)"
proof (induction s)
  case Nil
  then show ?case by simp
next
  case (Cons c s)
  show ?case
  proof
    assume "contains (c # s) p"
    then consider "hasPrefix (c # s) p" | "contains s p" by auto
    then show "\<exists>a b. c # s = a @ p @ b"
    proof cases
      case 1
      then obtain b where "c # s = [] @ p @ b" by (auto simp: hasPrefix_iff)
      then show ?thesis by blast
    next
      case 2
      then obtain a b where "s = a @ p @ b" using Cons.IH by blast
      then have "c # s = (c # a) @ p @ b" by simp
      then show ?thesis by blast
    qed
  next
    assume "\<exists>a b. c # s = a @ p @ b"
    then obtain a b where ab: "c # s = a @ p @ b" by blast
    show "contains (c # s) p"
    proof (cases a)
      case Nil
      with ab have "hasPrefix (c # s) p" by (auto simp: hasPrefix_iff)
      then show ?thesis by simp
    next
      case (Cons x a')
      with ab have "s = a' @ p @ b" by simp
      then show ?thesis using Cons.IH by auto
    qed
  qed
qed

lemma contains_append_left: "contains b p \<Longrightarrow> contains (a @ b) p"
  unfolding contains_iff by (metis append_assoc)

lemma contains_append_right: "contains a p \<Longrightarrow> contains (a @ b) p"
  unfolding contains_iff by (metis append_assoc)

lemma contains_self [simp]: "contains p p"
  unfolding contains_iff by (metis append_Nil append_Nil2)

lemma dropWhile_rev_hd:
  "dropWhile f xs = ys \<Longrightarrow> ys \<noteq> [] \<Longrightarrow> \<not> f (hd ys)"
  by (metis hd_dropWhile)

lemma trimFunc_nil [simp]: "trimFunc f [] = []"
  by (simp add: trimFunc_def)

lemma trimFunc_last: "trimFunc f s \<noteq> [] \<Longrightarrow> \<not> f (last (trimFunc f s))"
  by (simp add: trimFunc_def last_rev hd_dropWhile)

lemma trimFunc_hd: "trimFunc f s \<noteq> [] \<Longrightarrow> \<not> f (hd (trimFunc f s))"
proof -
  assume ne: "trimFunc f s \<noteq> []"
  define d where "d = dropWhile f s"
  have split: "d = trimFunc f s @ rev (takeWhile f (rev d))"
    by (metis d_def rev_append rev_rev_ident takeWhile_dropWhile_id trimFunc_def)
  with ne have "d \<noteq> []" and "hd d = hd (trimFunc f s)" by (metis Nil_is_append_conv, metis hd_append2)
  moreover from \<open>d \<noteq> []\<close> have "\<not> f (hd d)" unfolding d_def by (metis hd_dropWhile)
  ultimately show ?thesis by simp
qed

lemma dropWhile_hd_id: "xs \<noteq> [] \<Longrightarrow> \<not> f (hd xs) \<Longrightarrow> dropWhile f xs = xs"
  by (cases xs) simp_all

lemma trimFunc_id: "s \<noteq> [] \<Longrightarrow> \<not> f (hd s) \<Longrightarrow> \<not> f (last s) \<Longrightarrow> trimFunc f s = s"
  by (simp add: trimFunc_def dropWhile_hd_id hd_rev)

lemma trimFunc_idem [simp]: "trimFunc f (trimFunc f s) = trimFunc f s"
  by (cases "trimFunc f s = []") (simp_all add: trimFunc_id trimFunc_hd trimFunc_last)

lemma trimSpace_idem [simp]: "trimSpace (trimSpace s) = trimSpace s"
  by (simp add: trimSpace_def)

lemma length_trimFunc: "length (trimFunc f s) \<le> length s"
  by (metis (no_types, lifting) length_dropWhile_le length_rev le_trans trimFunc_def)

lemma set_trimFunc: "set (trimFunc f s) \<subseteq> set s"
  unfolding trimFunc_def by (metis set_dropWhileD set_rev subsetI)

section \<open>Decimal numbers\<close>

definition digitChar :: "nat \<Rightarrow> char" where
  "digitChar d = char_of (d + 48)"

definition isDigit :: "char \<Rightarrow> bool" where
  "isDigit c \<longleftrightarrow> 48 \<le> (of_char c :: nat) \<and> (of_char c :: nat) \<le> 57"

definition digitVal :: "char \<Rightarrow> nat" where
  "digitVal c = of_char c - 48"

fun decN :: "nat \<Rightarrow> string" where
  "decN n = (if n < 10 then [digitChar n] else decN (n div 10) @ [digitChar (n mod 10)])"

declare decN.simps [simp del]

text \<open>\<open>fmt.Sprintf\<close> with the \<open>d\<close> verb, and \<open>strconv.Itoa\<close>.\<close>

definition dec :: "int \<Rightarrow> string" where
  "dec i = (if i < 0 then ''-'' @ decN (nat (- i)) else decN (nat i))"

definition readN :: "string \<Rightarrow> nat" where
  "readN s = foldl (\<lambda>a c. a * 10 + digitVal c) 0 s"

definition in_int64 :: "int \<Rightarrow> bool" where
  "in_int64 i \<longleftrightarrow> - (2 ^ 63) \<le> i \<and> i < 2 ^ 63"

definition in_int32 :: "int \<Rightarrow> bool" where
  "in_int32 i \<longleftrightarrow> - (2 ^ 31) \<le> i \<and> i < 2 ^ 31"

text \<open>The sign and the digits of a decimal literal: the value and what follows it.\<close>

definition scanInt :: "string \<Rightarrow> (int \<times> string) option" where
  "scanInt s =
     (let neg = (s \<noteq> [] \<and> hd s = CHR ''-'');
          t = (if s \<noteq> [] \<and> (hd s = CHR ''-'' \<or> hd s = CHR ''+'') then tl s else s);
          ds = takeWhile isDigit t
      in if ds = [] then None
         else Some (if neg then - int (readN ds) else int (readN ds), dropWhile isDigit t))"

text \<open>\<open>strconv.Atoi\<close>: the whole string is a literal in range.\<close>

definition atoi :: "string \<Rightarrow> int option" where
  "atoi s = (case scanInt s of Some (i, []) \<Rightarrow> if in_int64 i then Some i else None | _ \<Rightarrow> None)"

text \<open>
  \<open>fmt.Sscanf(val, "%d", &r)\<close> into an \<open>int32\<close>: leading blanks (not newlines) are
  skipped, what follows the digits is left unread, a value out of range is an error.
\<close>

definition sscanfInt32 :: "string \<Rightarrow> int option" where
  "sscanfInt32 s =
     (case scanInt (dropWhile (\<lambda>c. isSpace c \<and> c \<noteq> CHR 0x0A) s) of
        Some (i, _) \<Rightarrow> if in_int32 i then Some i else None
      | None \<Rightarrow> None)"

text \<open>\<open>strconv.ParseBool\<close>; \<open>None\<close> is the syntax error.\<close>

definition parseBool :: "string \<Rightarrow> bool option" where
  "parseBool s =
     (if s \<in> set [''1'', ''t'', ''T'', ''true'', ''TRUE'', ''True''] then Some True
      else if s \<in> set [''0'', ''f'', ''F'', ''false'', ''FALSE'', ''False''] then Some False
      else None)"

lemma of_char_digitChar [simp]: "d < 10 \<Longrightarrow> of_char (digitChar d) = d + (48::nat)"
  by (simp add: digitChar_def)

lemma isDigit_digitChar [simp]: "d < 10 \<Longrightarrow> isDigit (digitChar d)"
  by (simp add: isDigit_def)

lemma digitVal_digitChar [simp]: "d < 10 \<Longrightarrow> digitVal (digitChar d) = d"
  by (simp add: digitVal_def)

lemma readN_snoc: "readN (s @ [c]) = readN s * 10 + digitVal c"
  by (simp add: readN_def)

lemma readN_decN [simp]: "readN (decN n) = n"
proof (induction n rule: decN.induct)
  case (1 n)
  show ?case
  proof (cases "n < 10")
    case True
    then show ?thesis by (subst decN.simps) (simp add: readN_def)
  next
    case False
    with 1 show ?thesis by (subst decN.simps) (simp add: readN_snoc)
  qed
qed

lemma decN_digits: "c \<in> set (decN n) \<Longrightarrow> isDigit c"
proof (induction n rule: decN.induct)
  case (1 n)
  show ?case
  proof (cases "n < 10")
    case True
    with 1 show ?thesis by (simp add: decN.simps [of n])
  next
    case False
    with 1 show ?thesis by (auto simp: decN.simps [of n])
  qed
qed

lemma decN_not_Nil [simp]: "decN n \<noteq> []"
  by (subst decN.simps) simp

lemma takeWhile_decN [simp]: "takeWhile isDigit (decN n) = decN n"
  by (simp add: decN_digits)

lemma dropWhile_decN [simp]: "dropWhile isDigit (decN n) = []"
  by (simp add: decN_digits)

lemma decN_no_sign:
  assumes "decN n = c # s"
  shows "c \<noteq> CHR ''-''" "c \<noteq> CHR ''+''" "\<not> isSpace c"
  using decN_digits [of c n] assms by (auto simp: isDigit_def isSpace_def)

lemma scanInt_dec [simp]: "scanInt (dec i) = Some (i, [])"
proof (cases "i < 0")
  case True
  then show ?thesis by (simp add: scanInt_def dec_def Let_def)
next
  case False
  then obtain c s where cs: "decN (nat i) = c # s" by (meson decN_not_Nil neq_Nil_conv)
  note ns = decN_no_sign [OF cs]
  have "takeWhile isDigit (c # s) = c # s" "dropWhile isDigit (c # s) = []" "readN (c # s) = nat i"
    using takeWhile_decN [of "nat i"] dropWhile_decN [of "nat i"] readN_decN [of "nat i"] cs by simp_all
  with False ns cs show ?thesis by (simp add: scanInt_def dec_def Let_def)
qed

lemma atoi_dec: "in_int64 i \<Longrightarrow> atoi (dec i) = Some i"
  by (simp add: atoi_def)

lemma dec_not_space: "dec i \<noteq> [] \<and> \<not> isSpace (hd (dec i))"
proof (cases "i < 0")
  case True
  then show ?thesis by (simp add: dec_def isSpace_def)
next
  case False
  obtain c s where cs: "decN (nat i) = c # s" by (meson decN_not_Nil neq_Nil_conv)
  with False decN_no_sign [OF cs] show ?thesis by (simp add: dec_def)
qed

lemma sscanfInt32_dec: "in_int32 i \<Longrightarrow> sscanfInt32 (dec i) = Some i"
  using dec_not_space [of i] by (simp add: sscanfInt32_def dropWhile_hd_id)

section \<open>String-keyed maps\<close>

text \<open>
  Go's \<open>map[string]string\<close> as an association list with distinct keys: reading an absent
  key gives the empty string, \<open>m[k] = v\<close> overwrites, \<open>delete\<close> removes. A nil map reads
  as the empty one.
\<close>

type_synonym smap = "(string \<times> string) list"

definition mget :: "smap \<Rightarrow> string \<Rightarrow> string" where
  "mget m k = (case map_of m k of None \<Rightarrow> [] | Some v \<Rightarrow> v)"

definition mput :: "smap \<Rightarrow> string \<Rightarrow> string \<Rightarrow> smap" where
  "mput m k v = AList.update k v m"

definition mdel :: "smap \<Rightarrow> string \<Rightarrow> smap" where
  "mdel m k = AList.delete k m"

lemma map_of_mput [simp]: "map_of (mput m k v) = (map_of m)(k \<mapsto> v)"
  by (simp add: mput_def update_conv')

lemma map_of_mdel [simp]: "map_of (mdel m k) = (map_of m)(k := None)"
  by (simp add: mdel_def delete_conv')

lemma mget_mput [simp]: "mget (mput m k v) k' = (if k' = k then v else mget m k')"
  by (simp add: mget_def)

lemma mget_mdel [simp]: "mget (mdel m k) k' = (if k' = k then [] else mget m k')"
  by (simp add: mget_def)

lemma mget_Nil [simp]: "mget [] k = []"
  by (simp add: mget_def)

section \<open>Times and durations\<close>

text \<open>
  A \<open>time.Time\<close> is a number of nanoseconds; a \<open>time.Duration\<close> is an \<open>int64\<close> of
  nanoseconds, so a product of durations wraps around and \<open>time.Since\<close> saturates.
\<close>

type_synonym time = int
type_synonym duration = int

definition wrap64 :: "int \<Rightarrow> int" where
  "wrap64 i = (i + 2 ^ 63) mod 2 ^ 64 - 2 ^ 63"

definition sat64 :: "int \<Rightarrow> int" where
  "sat64 i = (if i < - (2 ^ 63) then - (2 ^ 63) else if i \<ge> 2 ^ 63 then 2 ^ 63 - 1 else i)"

definition second :: duration where "second = 1000000000"
definition minute :: duration where "minute = 60 * second"

definition minutes :: "int \<Rightarrow> duration" where
  "minutes n = wrap64 (n * minute)"

definition since :: "time \<Rightarrow> time \<Rightarrow> duration" where
  "since now t = sat64 (now - t)"

text \<open>\<open>Duration.Round(time.Second)\<close>: half a second rounds away from zero.\<close>

definition roundSecond :: "duration \<Rightarrow> duration" where
  "roundSecond d =
     (if d < 0 then - sat64 (((- d + second div 2) div second) * second)
      else sat64 (((d + second div 2) div second) * second))"

fun fracDigits :: "nat \<Rightarrow> nat \<Rightarrow> string" where
  "fracDigits n p =
     (let ds = decN n; padded = replicate (p - length ds) (CHR ''0'') @ ds
      in if n = 0 then [] else ''.'' @ rev (dropWhile (\<lambda>c. c = CHR ''0'') (rev padded)))"

text \<open>\<open>Duration.String\<close>.\<close>

definition durStringN :: "nat \<Rightarrow> string" where
  "durStringN u =
     (let sec = u div 1000000000; frac = fracDigits (u mod 1000000000) 9;
          s = decN (sec mod 60) @ frac @ ''s''; m = sec div 60; h = m div 60
      in if u = 0 then ''0s''
         else if u < 1000 then decN u @ ''ns''
         else if u < 1000000 then decN (u div 1000) @ fracDigits (u mod 1000) 3 @ [CHR 0xC2, CHR 0xB5] @ ''s''
         else if u < 1000000000 then decN (u div 1000000) @ fracDigits (u mod 1000000) 6 @ ''ms''
         else if m = 0 then s
         else if h = 0 then decN m @ ''m'' @ s
         else decN h @ ''h'' @ decN (m mod 60) @ ''m'' @ s)"

definition durString :: "duration \<Rightarrow> string" where
  "durString d = (if d < 0 then ''-'' @ durStringN (nat (- d)) else durStringN (nat d))"

lemma wrap64_id: "in_int64 i \<Longrightarrow> wrap64 i = i"
  by (simp add: wrap64_def in_int64_def)

lemma minutes_id: "in_int64 (n * minute) \<Longrightarrow> minutes n = n * minute"
  by (simp add: minutes_def wrap64_id)

section \<open>Quoting, splitting, padding\<close>

text \<open>The \<open>q\<close> verb of \<open>fmt\<close> on ASCII text.\<close>

definition hexDigit :: "nat \<Rightarrow> char" where
  "hexDigit n = (if n < 10 then digitChar n else char_of (87 + n))"

definition quoteChar :: "char \<Rightarrow> string" where
  "quoteChar c =
     (let n = (of_char c :: nat) in
      if n = 34 \<or> n = 92 then [CHR 0x5C, c]
      else case map_of [(7, CHR ''a''), (8, CHR ''b''), (12, CHR ''f''), (10, CHR ''n''), (13, CHR ''r''), (9, CHR ''t''), (11, CHR ''v'')] n of
        Some l \<Rightarrow> [CHR 0x5C, l]
      | None \<Rightarrow> if n < 32 \<or> n = 127 then [CHR 0x5C, CHR ''x'', hexDigit (n div 16), hexDigit (n mod 16)] else [c])"

definition goQuote :: "string \<Rightarrow> string" where
  "goQuote s = [CHR 0x22] @ concat (map quoteChar s) @ [CHR 0x22]"

text \<open>\<open>strings.Split\<close> at one character: as many parts as separators, and one more.\<close>

fun splitOn :: "char \<Rightarrow> string \<Rightarrow> string list" where
  "splitOn c [] = [[]]"
| "splitOn c (x # s) = (if x = c then [] # splitOn c s
     else (case splitOn c s of [] \<Rightarrow> [[x]] | p # ps \<Rightarrow> (x # p) # ps))"

text \<open>The verbs \<open>%03d\<close> and \<open>%04d\<close> on a natural number.\<close>

definition padDec :: "nat \<Rightarrow> nat \<Rightarrow> string" where
  "padDec k n = replicate (k - length (decN n)) (CHR ''0'') @ decN n"

lemma trimSpace_id: "s \<noteq> [] \<Longrightarrow> \<not> isSpace (hd s) \<Longrightarrow> \<not> isSpace (last s) \<Longrightarrow> trimSpace s = s"
  by (simp add: trimSpace_def trimFunc_id)

section \<open>Errors in pure code\<close>

definition andThen :: "err + 'a \<Rightarrow> ('a \<Rightarrow> err + 'b) \<Rightarrow> err + 'b" where
  "andThen x k = (case x of Inl e \<Rightarrow> Inl e | Inr y \<Rightarrow> k y)"

text \<open>A loop that stops at the first error.\<close>

fun foldE :: "('s \<Rightarrow> 'a \<Rightarrow> err + 's) \<Rightarrow> 's \<Rightarrow> 'a list \<Rightarrow> err + 's" where
  "foldE f s [] = Inr s"
| "foldE f s (x # xs) = (case f s x of Inl e \<Rightarrow> Inl e | Inr s' \<Rightarrow> foldE f s' xs)"

definition checkAll :: "('a \<Rightarrow> err + unit) \<Rightarrow> 'a list \<Rightarrow> err + unit" where
  "checkAll f xs = foldE (\<lambda>_. f) () xs"

lemma andThen_Inr_iff: "andThen x k = Inr z \<longleftrightarrow> (\<exists>y. x = Inr y \<and> k y = Inr z)"
  by (simp add: andThen_def split: sum.splits)

lemma andThen_simps [simp]: "andThen (Inl e) k = Inl e" "andThen (Inr x) k = k x"
  by (simp_all add: andThen_def)

lemma foldE_append: "foldE f s (xs @ ys) = andThen (foldE f s xs) (\<lambda>s'. foldE f s' ys)"
  by (induction xs arbitrary: s) (auto split: sum.splits)

lemma foldE_invariant:
  assumes "foldE f s xs = Inr s'" and "P s" and "\<And>s x s''. P s \<Longrightarrow> x \<in> set xs \<Longrightarrow> f s x = Inr s'' \<Longrightarrow> P s''"
  shows "P s'"
  using assms
proof (induction xs arbitrary: s)
  case (Cons x xs)
  from Cons.prems(1) obtain t where t: "f s x = Inr t" "foldE f t xs = Inr s'" by (auto split: sum.splits)
  have "P t" by (rule Cons.prems(3) [OF Cons.prems(2) _ t(1)]) simp
  then show ?case by (rule Cons.IH [OF t(2)]) (rule Cons.prems(3), auto)
qed simp

lemma checkAll_Inr_iff: "checkAll f xs = Inr u \<longleftrightarrow> (\<forall>x \<in> set xs. f x = Inr ())"
  unfolding checkAll_def by (induction xs) (auto split: sum.splits)

end
