(* ===== verification/RestoreTypes.thy ===== *)
theory RestoreTypes
  imports Prelude
begin

text \<open>
  The data of a restore (\<open>apprestore_types.go\<close> and the restore policy of
  \<open>disasterinstance_types.go\<close>): the modifier rules that rewrite the objects of a backup while
  they are restored, the policy that selects and maps what is restored, and the
  \<open>AppRestore\<close> that asks for a restore. Enumerations whose values the code compares after
  trimming them are kept as strings. Of the Velero restore template the fields the
  repository sets are kept; of a restore hook only what it does is opaque.
\<close>

text \<open>
  Of a label selector the labels to match are kept; its expressions are opaque. Kubernetes
  turns a selector into a predicate on label maps.
\<close>

record LabelSelector =
  ls_matchLabels :: smap
  ls_matchExpressions :: string

text \<open>
  Three library functions: the canonical text of a label selector, the predicate it stands
  for, and the compilation of a regular expression, of which the size of the program is
  observed.
\<close>

record matchers =
  mt_selector :: "LabelSelector \<Rightarrow> err + string"
  mt_matches :: "LabelSelector \<Rightarrow> err + (smap \<Rightarrow> bool)"
  mt_regex :: "string \<Rightarrow> err + nat"

section \<open>Modifier rules\<close>

record Conditions =
  co_groupResource :: string
  co_resourceNameRegex :: string
  co_namespaces :: "string list"
  co_labelSelector :: "LabelSelector option"

record JSONPatch =
  jp_operation :: string
  jp_path :: string
  jp_value :: string
  jp_from :: string

record ResourceModifierRule =
  mr_conditions :: Conditions
  mr_patches :: "JSONPatch list"

record RestoreModifierPair =
  pa_path :: string
  pa_sourceValue :: string
  pa_targetValue :: string

record RestoreModifierVeleroRule =
  vr_patches :: "JSONPatch list"
  vr_mergePatches :: "string list"
  vr_strategicPatches :: "string list"

record RestoreModifierRule =
  rm_id :: string
  rm_mode :: string
  rm_enabled :: "bool option"
  rm_applyTo :: "string list"
  rm_priority :: int
  rm_conditions :: Conditions
  rm_veleroRule :: "RestoreModifierVeleroRule option"
  rm_pair :: "RestoreModifierPair option"
  rm_directionPolicy :: string
  rm_onConflict :: string

text \<open>Of a bulk action the engine reads what it does and whether it is enabled, and the image
  rewriting; the values to replace and the keys to remove are for the generator of the
  snapshot.\<close>

record DynamicImageRewriteConfig =
  ir_sourcePrefix :: string
  ir_targetPrefix :: string
  ir_unmatchedPolicy :: string
  ir_digestPolicy :: string

record BulkModifierAction =
  ba_id :: string
  ba_action :: string
  ba_enabled :: "bool option"
  ba_applyTo :: "string list"
  ba_directionPolicy :: string
  ba_imageRewrite :: "DynamicImageRewriteConfig option"

section \<open>The restore policy\<close>

record RestoreClassMapping =
  cma_sourceClass :: string
  cma_targetClass :: string
  cma_namespaces :: "string list"

record RestoreClassMappingPolicy =
  cmp_mappings :: "RestoreClassMapping list"
  cmp_unmatchedPolicy :: string
  cmp_strict :: bool

record RestoreResourceSelectionPolicy =
  rs_includedNamespaces :: "string list"
  rs_excludedNamespaces :: "string list"
  rs_includedResources :: "string list"
  rs_excludedResources :: "string list"
  rs_includedNamespaceScoped :: "string list"
  rs_excludedNamespaceScoped :: "string list"
  rs_includedClusterScoped :: "string list"
  rs_excludedClusterScoped :: "string list"
  rs_labelSelector :: "LabelSelector option"
  rs_includeClusterResources :: "bool option"

record RestoreExecutionPolicy =
  ex_existingResourcePolicy :: string
  ex_restorePVs :: "bool option"
  ex_itemOperationTimeout :: "duration option"

record RestorePolicy =
  rp_resourceSelection :: "RestoreResourceSelectionPolicy option"
  rp_execution :: "RestoreExecutionPolicy option"
  rp_storageClassMapping :: "RestoreClassMappingPolicy option"
  rp_ingressClassMapping :: "RestoreClassMappingPolicy option"
  rp_bulkModifierActions :: "BulkModifierAction list"
  rp_modifierRules :: "RestoreModifierRule list"
  rp_modifierRuleSnapshot :: "RestoreModifierRule list"
  rp_modifierRuleSnapshotHash :: string
  rp_useUnifiedDirectionResolver :: "bool option"

section \<open>Restore hooks\<close>

text \<open>What a hook runs, in an init container or in a container of the pod, is opaque.\<close>

record RestoreResourceHook =
  rh_init :: "string option"
  rh_exec :: "string option"

record RestoreResourceHookSpec =
  rhs_name :: string
  rhs_includedNamespaces :: "string list"
  rhs_excludedNamespaces :: "string list"
  rhs_includedResources :: "string list"
  rhs_excludedResources :: "string list"
  rhs_labelSelector :: "LabelSelector option"
  rhs_postHooks :: "RestoreResourceHook list"

type_synonym RestoreHooks = "RestoreResourceHookSpec list"

text \<open>The hooks of backups are opaque.\<close>

record DisasterVeleroHooks =
  vh_dataBackup :: "string option"
  vh_dataRestore :: "RestoreHooks option"

section \<open>The restore itself\<close>

record RestoreTemplate =
  rt_backupName :: string
  rt_includedNamespaces :: "string list"
  rt_excludedNamespaces :: "string list"
  rt_includedResources :: "string list"
  rt_excludedResources :: "string list"
  rt_labelSelector :: "LabelSelector option"
  rt_includeClusterResources :: "bool option"
  rt_namespaceMapping :: smap
  rt_restorePVs :: "bool option"
  rt_preserveNodePorts :: "bool option"
  rt_existingResourcePolicy :: string
  rt_itemOperationTimeout :: duration
  rt_hooks :: RestoreHooks

record AppRestoreSpec =
  ars_backupSource :: string
  ars_cluster :: string
  ars_template :: RestoreTemplate
  ars_sourceCluster :: string
  ars_storageRepository :: string
  ars_modifierRules :: "ResourceModifierRule list"
  ars_timeout :: "duration option"

datatype AppRestorePhase = PhaseNone | PhasePending | PhaseInitiating | PhaseRestoring | PhaseSucceeded | PhaseFailed
  | PhasePartiallyFailed | PhaseCancelled | PhaseDeleting | PhaseUnknown

fun phaseString :: "AppRestorePhase \<Rightarrow> string" where
  "phaseString PhaseNone = []"
| "phaseString PhasePending = ''Pending''"
| "phaseString PhaseInitiating = ''Initiating''"
| "phaseString PhaseRestoring = ''Restoring''"
| "phaseString PhaseSucceeded = ''Succeeded''"
| "phaseString PhaseFailed = ''Failed''"
| "phaseString PhasePartiallyFailed = ''PartiallyFailed''"
| "phaseString PhaseCancelled = ''Cancelled''"
| "phaseString PhaseDeleting = ''Deleting''"
| "phaseString PhaseUnknown = ''Unknown''"

definition IsTerminalAppRestorePhase :: "AppRestorePhase \<Rightarrow> bool" where
  "IsTerminalAppRestorePhase p \<longleftrightarrow> List.member [PhaseSucceeded, PhaseFailed, PhasePartiallyFailed, PhaseCancelled] p"

definition IsFailedAppRestorePhase :: "AppRestorePhase \<Rightarrow> bool" where
  "IsFailedAppRestorePhase p \<longleftrightarrow> p = PhaseFailed \<or> p = PhasePartiallyFailed"

end
