(* ===== verification/Types.thy ===== *)
theory Types
  imports RestoreTypes
begin

text \<open>
  The API types of \<open>pkg/apis/disaster/v1\<close> that the controllers read and write, field for
  field where the modelled code uses the field. Go's string-typed enumerations are
  datatypes; a pointer field is an \<open>option\<close>; \<open>metav1.Time\<close> is a number of nanoseconds.
\<close>

section \<open>Object metadata and conditions\<close>

record OwnerReference =
  ow_kind :: string
  ow_name :: string
  ow_uid :: string
  ow_controller :: bool

record ObjectMeta =
  m_ns :: string
  m_name :: string
  m_uid :: string
  m_rv :: nat
  m_ann :: smap
  m_labels :: smap
  m_owners :: "OwnerReference list"
  m_finalizers :: "string list"
  m_deletion :: "time option"
  m_creation :: "time option"
  m_generation :: int

datatype ConditionStatus = ConditionTrue | ConditionFalse | ConditionUnknown

record Condition =
  c_type :: string
  c_status :: ConditionStatus
  c_reason :: string
  c_message :: string
  c_ltt :: time
  c_observedGeneration :: int

section \<open>DisasterOperation\<close>

datatype OperationType =
    OpFailover | OpReprotect | OpPause | OpResume | OpSyncOnce | OpSyncData | OpSyncResource
  | OpUndo | OpCancel | OpDrill | OpDrillCleanup | OpUnknown string

fun opTypeString :: "OperationType \<Rightarrow> string" where
  "opTypeString OpFailover = ''failover''"
| "opTypeString OpReprotect = ''reprotect''"
| "opTypeString OpPause = ''pause''"
| "opTypeString OpResume = ''resume''"
| "opTypeString OpSyncOnce = ''synconce''"
| "opTypeString OpSyncData = ''syncdata''"
| "opTypeString OpSyncResource = ''syncresource''"
| "opTypeString OpUndo = ''undo''"
| "opTypeString OpCancel = ''cancel''"
| "opTypeString OpDrill = ''drill''"
| "opTypeString OpDrillCleanup = ''drill-cleanup''"
| "opTypeString (OpUnknown s) = s"

datatype OperationState = OpStateNone | OpPending | OpRunning | OpCompleted | OpFailed

fun opStateString :: "OperationState \<Rightarrow> string" where
  "opStateString OpStateNone = []"
| "opStateString OpPending = ''Pending''"
| "opStateString OpRunning = ''Running''"
| "opStateString OpCompleted = ''Completed''"
| "opStateString OpFailed = ''Failed''"

datatype AutoCancelStatus = AcNone | AcNotTriggered | AcRunning | AcSucceeded | AcFailed
datatype AutoCancelMode = AcmNone | DirectRollback | CancelPath | NoAutoCancel

text \<open>Step names are strings in the status; these are the constants the code compares with.\<close>

definition StepPreCheck :: string where "StepPreCheck = ''PreCheck''"
definition StepPauseSchedules :: string where "StepPauseSchedules = ''PauseSchedules''"
definition StepScaleDownSource :: string where "StepScaleDownSource = ''ScaleDownSource''"
definition StepFinalSync :: string where "StepFinalSync = ''FinalSync''"
definition StepScaleUpTarget :: string where "StepScaleUpTarget = ''ScaleUpTarget''"
definition StepCheckReplicas :: string where "StepCheckReplicas = ''CheckReplicas''"
definition StepSwitchRoles :: string where "StepSwitchRoles = ''SwitchRoles''"
definition StepResumeSchedules :: string where "StepResumeSchedules = ''ResumeSchedules''"
definition StepScaleDownTarget :: string where "StepScaleDownTarget = ''ScaleDownTarget''"
definition StepScaleUpSource :: string where "StepScaleUpSource = ''ScaleUpSource''"
definition StepRestoreResource :: string where "StepRestoreResource = ''RestoreResource''"
definition StepRestoreData :: string where "StepRestoreData = ''RestoreData''"
definition StepScaleUp :: string where "StepScaleUp = ''ScaleUp''"

lemmas step_name_defs =
  StepPreCheck_def StepPauseSchedules_def StepScaleDownSource_def StepFinalSync_def
  StepScaleUpTarget_def StepCheckReplicas_def StepSwitchRoles_def StepResumeSchedules_def
  StepScaleDownTarget_def StepScaleUpSource_def StepRestoreResource_def StepRestoreData_def
  StepScaleUp_def

datatype StepState = StepNone | StepPending | StepRunning | StepCompleted | StepFailed | StepSkipped

record StepStatus =
  st_name :: string
  st_state :: StepState
  st_start :: "time option"
  st_completion :: "time option"
  st_msg :: string

record RoleStatus =
  role_primary :: string
  role_secondary :: string

record RetryPolicy =
  maxRetries :: int
  retryIntervalSeconds :: int

datatype RestoreMode = ModeUnset | FullRestore | ResourceOnly | ModeMixed | ModeOther string

record DrillConfig =
  dc_targetCluster :: string
  dc_restoreMode :: RestoreMode
  dc_instanceRestoreModes :: "(string \<times> RestoreMode) list"
  dc_namespaceMapping :: smap
  dc_skipValidation :: bool
  dc_restorePolicy :: "RestorePolicy option"
  dc_veleroHooks :: "DisasterVeleroHooks option"

record DisasterOperationSpec =
  sp_instanceName :: string
  sp_groupName :: string
  sp_operationType :: OperationType
  sp_drillConfig :: "DrillConfig option"
  sp_force :: bool
  sp_skipFinalSync :: bool
  sp_skipScaleDownSource :: bool
  sp_timeoutMinutes :: int
  sp_skipPodReadyCheck :: "bool option"
  sp_waitUntilReady :: bool
  sp_retryPolicy :: "RetryPolicy option"

text \<open>The progress of a group: no controller writes it, and the drill controller copies it.\<close>

record GroupStatus =
  gst_totalLevels :: int
  gst_currentLevelIndex :: int

record DisasterOperationStatus =
  os_state :: OperationState
  os_reason :: string
  os_startTime :: "time option"
  os_completionTime :: "time option"
  os_currentStep :: string
  os_steps :: "StepStatus list"
  os_acTriggered :: bool
  os_acStatus :: AutoCancelStatus
  os_acMode :: AutoCancelMode
  os_acReason :: string
  os_acTriggerStep :: string
  os_acCurrentStep :: string
  os_acSteps :: "StepStatus list"
  os_acTriggeredAt :: "time option"
  os_acCompletionTime :: "time option"
  os_manualIntervention :: bool
  os_roleStatus :: "RoleStatus option"
  os_retryCount :: int
  os_nextRetryTime :: "time option"
  os_message :: string
  os_resourceRestoreName :: string
  os_dataRestoreName :: string
  os_groupStatus :: "GroupStatus option"
  os_conditions :: "Condition list"

record DisasterOperation =
  op_meta :: ObjectMeta
  op_spec :: DisasterOperationSpec
  op_status :: DisasterOperationStatus

section \<open>DisasterInstance\<close>

datatype FsmState =
    FsmNone | FsmPending | FsmInitializing | FsmProtected | FsmPaused | FsmFailingOver
  | FsmActive | FsmFailingBack | FsmConfigError | FsmFailed | FsmOther string

fun fsmString :: "FsmState \<Rightarrow> string" where
  "fsmString FsmNone = []"
| "fsmString FsmPending = ''Pending''"
| "fsmString FsmInitializing = ''Initializing''"
| "fsmString FsmProtected = ''Protected''"
| "fsmString FsmPaused = ''Paused''"
| "fsmString FsmFailingOver = ''FailingOver''"
| "fsmString FsmActive = ''Active''"
| "fsmString FsmFailingBack = ''FailingBack''"
| "fsmString FsmConfigError = ''ConfigError''"
| "fsmString FsmFailed = ''Failed''"
| "fsmString (FsmOther s) = s"

record DisasterInstanceSpec =
  di_config :: string
  di_namespaces :: "string list"
  di_operationTimeoutMinutes :: int
  di_restorePolicy :: "RestorePolicy option"
  di_skipPodReadyCheck :: "bool option"
  di_dataSyncPolicy :: string
  di_resourceSyncPolicy :: string
  di_labelSelector :: "LabelSelector option"
  di_veleroHooks :: "DisasterVeleroHooks option"

record DisasterInstanceStatus =
  is_fsmState :: FsmState
  is_reason :: string
  is_message :: string
  is_lastStableFsmState :: FsmState
  is_primaryCluster :: string
  is_secondaryCluster :: string
  is_lastDataSyncTime :: "time option"
  is_lastResourceSyncTime :: "time option"
  is_availableOperations :: "string list"
  is_dataSyncName :: string
  is_resourceSyncName :: string
  is_conditions :: "Condition list"

record DisasterInstance =
  in_meta :: ObjectMeta
  in_spec :: DisasterInstanceSpec
  in_status :: DisasterInstanceStatus

section \<open>DataSync and ResourceSync\<close>

text \<open>
  The fields the operation controller reads and writes are the same in both kinds, so one
  record serves for both.
\<close>

datatype SyncState = SyncNone | SyncReady | SyncInProgress | SyncFailed

fun syncStateString :: "SyncState \<Rightarrow> string" where
  "syncStateString SyncNone = []"
| "syncStateString SyncReady = ''Ready''"
| "syncStateString SyncInProgress = ''InProgress''"
| "syncStateString SyncFailed = ''Failed''"

record TriggerSpec =
  tr_schedule :: string
  tr_manual :: string

record StandbyModifierConfig =
  sm_scaleToZero :: bool
  sm_originalReplicaAnnotation :: string

record TrafficlessConfig =
  tc_image :: string
  tc_command :: "string list"

text \<open>The standby modifier belongs to resource syncs, the trafficless runtime to data syncs.\<close>

record SyncSpec =
  ss_instance :: string
  ss_trigger :: TriggerSpec
  ss_paused :: bool
  ss_standbyModifier :: "StandbyModifierConfig option"
  ss_trafficless :: "TrafficlessConfig option"

text \<open>How many hooks Velero ran, and how many of them failed.\<close>

record HookStatus =
  hs_attempted :: int
  hs_failed :: int

record SyncHistoryRecord =
  shr_startTime :: "time option"
  shr_completionTime :: "time option"
  shr_duration :: string
  shr_backupName :: string
  shr_restoreName :: string
  shr_backupResourceCount :: int
  shr_restoreResourceCount :: int
  shr_backupHookStatus :: "HookStatus option"
  shr_restoreHookStatus :: "HookStatus option"
  shr_status :: string

record SyncStatus =
  ss_state :: SyncState
  ss_reason :: string
  ss_message :: string
  ss_lastSyncTime :: "time option"
  ss_lastBackupName :: string
  ss_lastRestoreName :: string
  ss_history :: "SyncHistoryRecord list"
  ss_conditions :: "Condition list"
  ss_lastClusterRestoreName :: string
  ss_clusterRestoreStatus :: AppRestorePhase
  ss_lastNamespaceRestoreName :: string
  ss_namespaceRestoreStatus :: AppRestorePhase

record SyncObject =
  so_meta :: ObjectMeta
  so_spec :: SyncSpec
  so_status :: SyncStatus

section \<open>DisasterDrill\<close>

datatype DrillState =
    DrillNone | DrillPending | DrillReady | DrillExecuting | DrillCompleted | DrillCleaningUp | DrillCleanedUp
  | DrillFailed | DrillOther string

record DisasterDrillSpec =
  ds_instanceName :: string
  ds_groupName :: string
  ds_targetCluster :: string
  ds_namespaceMapping :: smap
  ds_skipValidation :: bool
  ds_confirmed :: bool
  ds_waitUntilReady :: bool
  ds_restorePolicy :: "RestorePolicy option"
  ds_veleroHooks :: "DisasterVeleroHooks option"
  ds_cleanUp :: bool

record DrillValidationResults =
  vr_instanceValid :: bool
  vr_clusterReachable :: bool
  vr_backupAvailable :: bool
  vr_lastDataSyncTime :: "time option"
  vr_lastResourceSyncTime :: "time option"

record DisasterDrillStatus =
  dst_state :: DrillState
  dst_reason :: string
  dst_operationName :: string
  dst_targetCluster :: string
  dst_restoreMode :: RestoreMode
  dst_instanceRestoreModes :: "(string \<times> RestoreMode) list"
  dst_currentStep :: string
  dst_steps :: "StepStatus list"
  dst_startTime :: "time option"
  dst_readyTime :: "time option"
  dst_executionTime :: "time option"
  dst_completionTime :: "time option"
  dst_message :: string
  dst_validationResults :: "DrillValidationResults option"
  dst_groupProgress :: "GroupStatus option"

record DisasterDrill =
  dr_meta :: ObjectMeta
  dr_spec :: DisasterDrillSpec
  dr_status :: DisasterDrillStatus

section \<open>The other objects\<close>

datatype ConfigState = CfgNone | CfgPending | CfgReady | CfgNotReady | CfgError

fun configStateString :: "ConfigState \<Rightarrow> string" where
  "configStateString CfgNone = []"
| "configStateString CfgPending = ''Pending''"
| "configStateString CfgReady = ''Ready''"
| "configStateString CfgNotReady = ''NotReady''"
| "configStateString CfgError = ''Error''"

record ImageSourceMapping =
  ism_source :: string
  ism_target :: string

record ImageRewriteConfig =
  irc_enabled :: bool
  irc_applyTo :: "string list"
  irc_unmatchedPolicy :: string
  irc_mappings :: "ImageSourceMapping list"

record DisasterConfig =
  cfg_meta :: ObjectMeta
  cfg_sourceCluster :: string
  cfg_targetCluster :: string
  cfg_dataSyncPolicy :: string
  cfg_resourceSyncPolicy :: string
  cfg_storageRepository :: string
  cfg_imageRewrite :: "ImageRewriteConfig option"
  cfg_status :: ConfigState
  cfg_reason :: string
  cfg_message :: string

datatype PolicyState = PolicyEnabled | PolicyDisabled

record DisasterPolicy =
  pol_meta :: ObjectMeta
  pol_schedule :: string
  pol_state :: PolicyState

record ImageSource =
  isrc_name :: string
  isrc_registry :: string

record VeleroInstallSpec =
  vi_imageRegistry :: string
  vi_credentialSecret :: "string option"

record Cluster =
  cl_meta :: ObjectMeta
  cl_kubeConfig :: string
  cl_token :: string
  cl_endpoint :: string
  cl_imageSources :: "ImageSource list"
  cl_veleroInstall :: "VeleroInstallSpec option"
  cl_status :: string
  cl_message :: string

record DisasterGroupStatus =
  gs_total :: int
  gs_ready :: int
  gs_reason :: string
  gs_message :: string
  gs_conditions :: "Condition list"

record DisasterGroup =
  gr_meta :: ObjectMeta
  gr_levels :: "string list list"
  gr_failPolicy :: string
  gr_status :: DisasterGroupStatus

text \<open>
  A value of a ConfigMap: the JSON text of a replica map, kept decoded, or any other text.
\<close>

datatype ConfigValue = JsonReplicas "(string \<times> int) list" | RawText string

record ConfigMap =
  cm_meta :: ObjectMeta
  cm_data :: "(string \<times> ConfigValue) list"

record AppRestore =
  ar_meta :: ObjectMeta
  ar_spec :: AppRestoreSpec
  ar_phase :: AppRestorePhase
  ar_reason :: string
  ar_message :: string
  ar_itemsRestored :: "int option"
  ar_hookStatus :: "HookStatus option"

section \<open>Backups and their storage\<close>

text \<open>Of the backup template of Velero, the fields the repository sets.\<close>

record BackupTemplate =
  bt_includedNamespaces :: "string list"
  bt_excludedNamespaces :: "string list"
  bt_includedResources :: "string list"
  bt_excludedResources :: "string list"
  bt_labelSelector :: "LabelSelector option"
  bt_storageLocation :: string
  bt_snapshotVolumes :: "bool option"
  bt_defaultVolumesToFsBackup :: "bool option"
  bt_parallelFilesUpload :: "int option"
  bt_hooks :: "string option"
  bt_includeClusterResources :: "bool option"
  bt_includedNamespaceScopedResources :: "string list"
  bt_excludedNamespaceScopedResources :: "string list"
  bt_includedClusterScopedResources :: "string list"
  bt_excludedClusterScopedResources :: "string list"

record BackupAction =
  bac_type :: string
  bac_requestAt :: time

record AppBackupSpec =
  abs_cluster :: string
  abs_template :: BackupTemplate
  abs_action :: "BackupAction option"
  abs_timeout :: "duration option"

text \<open>Of the status of Velero, the number of items once there is one, and the hooks.\<close>

record BackupRecord =
  br_name :: string
  br_phase :: string
  br_managedStatus :: string
  br_start :: "time option"
  br_itemsBackedUp :: "int option"
  br_hookStatus :: "HookStatus option"

record AppBackupStatus =
  abt_status :: string
  abt_message :: string
  abt_history :: "BackupRecord list"

record AppBackup =
  ab_meta :: ObjectMeta
  ab_spec :: AppBackupSpec
  ab_status :: AppBackupStatus

record StorageRepository =
  sr_meta :: ObjectMeta
  sr_status :: string
  sr_message :: string

text \<open>The statistics object of one operation.\<close>

record OperationStatistics =
  sts_meta :: ObjectMeta
  sts_total :: int
  sts_completed :: int
  sts_failed :: int
  sts_inProgress :: int
  sts_updateReason :: string

section \<open>Scheduled jobs\<close>

text \<open>What a cron job of the scheduler calls back: the trigger of one of the sync controllers.\<close>

datatype syncCallback = TriggerDataSync | TriggerResourceSync

record syncJob =
  job_schedule :: string
  job_callback :: syncCallback

section \<open>Objects of the managed clusters\<close>

text \<open>The images of the containers, init containers and ephemeral containers of a pod.\<close>

record PodSpec =
  ps_images :: "string list"
  ps_initImages :: "string list"
  ps_ephemeralImages :: "string list"

text \<open>Deployments and StatefulSets have the same fields here.\<close>

record Workload =
  wl_meta :: ObjectMeta
  wl_replicas :: "int option"
  wl_ready :: int
  wl_available :: int
  wl_unavailable :: int
  wl_podSpec :: PodSpec

text \<open>The other objects with a pod template: daemon sets, replica sets, jobs and so on.\<close>

record TemplateObject =
  to_meta :: ObjectMeta
  to_podSpec :: PodSpec

record Secret =
  sec_meta :: ObjectMeta
  sec_type :: string
  sec_data :: smap

record ContainerWaiting =
  cw_waitingReason :: "string option"

record Pod =
  pod_meta :: ObjectMeta
  pod_phase :: string
  pod_initWaiting :: "ContainerWaiting list"
  pod_waiting :: "ContainerWaiting list"
  pod_conditions :: "Condition list"
  pod_reason :: string
  pod_spec :: PodSpec
  pod_claims :: "string list"

record Pvc =
  pvc_meta :: ObjectMeta
  pvc_phase :: string
  pvc_storageClassName :: "string option"
  pvc_conditionReasons :: "string list"

record Namespace =
  nsp_meta :: ObjectMeta

text \<open>Of a daemon set, its status; of the restore of a pod volume by Velero, its progress.\<close>

record DaemonSet =
  dmn_meta :: ObjectMeta
  dmn_desired :: int
  dmn_ready :: int

record PodVolumeRestore =
  pvr_meta :: ObjectMeta
  pvr_phase :: string
  pvr_message :: string
  pvr_start :: "time option"
  pvr_accepted :: "time option"

end
