(* ===== verification/Kube.thy ===== *)
theory Kube
  imports Types
begin

text \<open>
  The environment of the controllers: what the API server of the management cluster stores,
  what the managed clusters store, and the calls the reconcilers make. A reconciler runs as
  an action of the state monad over \<open>world\<close>; a Go pair (value, error) is a sum with the
  error on the left.

  The API server is not part of the repository. It enters as the state it keeps and a
  schedule of faults that is a parameter of every theorem: each call takes the next entry of
  \<open>w_faults\<close> and is carried out, refused, or carried out with the answer lost. Writes use
  optimistic concurrency (a stale resource version is a conflict) and the status subresource
  (an update keeps the stored status, a status update keeps the rest), as the Kubernetes API
  documents. The laws of a kind of object are the locale \<open>kube_kind\<close>, and the components
  rest on its lemmas.
\<close>

section \<open>The world\<close>

datatype fault = RefusedConflict string | Refused string | Lost string

record event =
  ev_object :: string
  ev_reason :: string

record world =
  w_ops :: "DisasterOperation list"
  w_insts :: "DisasterInstance list"
  w_ds :: "SyncObject list"
  w_rs :: "SyncObject list"
  w_cfgs :: "DisasterConfig list"
  w_policies :: "DisasterPolicy list"
  w_clusters :: "Cluster list"
  w_groups :: "DisasterGroup list"
  w_cms :: "ConfigMap list"
  w_restores :: "AppRestore list"
  w_stats :: "OperationStatistics list"
  w_drills :: "DisasterDrill list"
  w_mgmtSecrets :: "Secret list"
  w_appBackups :: "AppBackup list"
  w_storageRepos :: "StorageRepository list"
  w_deploys :: "string \<Rightarrow> Workload list"
  w_sts :: "string \<Rightarrow> Workload list"
  w_pods :: "string \<Rightarrow> Pod list"
  w_pvcs :: "string \<Rightarrow> Pvc list"
  w_scs :: "string \<Rightarrow> string list"
  w_ics :: "string \<Rightarrow> string list"
  w_nss :: "string \<Rightarrow> Namespace list"
  w_templates :: "string \<Rightarrow> string \<Rightarrow> TemplateObject list"
  w_secrets :: "string \<Rightarrow> Secret list"
  w_daemonSets :: "string \<Rightarrow> DaemonSet list"
  w_pvrs :: "string \<Rightarrow> PodVolumeRestore list"
  w_jobs :: "(string \<times> syncJob) list"
  w_events :: "event list"
  w_faults :: "fault option list"

type_synonym key = "string \<times> string"
type_synonym 'a action = "(world, 'a) state"
type_synonym 'a result = "(world, err + 'a) state"

abbreviation ret :: "'a \<Rightarrow> 'a action" where "ret \<equiv> State_Monad.return"
abbreviation ok :: "'a \<Rightarrow> 'a result" where "ok x \<equiv> State_Monad.return (Inr x)"
abbreviation fail :: "err \<Rightarrow> 'a result" where "fail e \<equiv> State_Monad.return (Inl e)"

text \<open>\<open>x, err := m; if err != nil { return err }; k\<close>\<close>

definition chk :: "'a result \<Rightarrow> ('a \<Rightarrow> 'b result) \<Rightarrow> 'b result" where
  "chk m k = State_Monad.bind m (\<lambda>r. case r of Inl e \<Rightarrow> fail e | Inr x \<Rightarrow> k x)"

text \<open>The same, with the error wrapped by \<open>fmt.Errorf\<close>.\<close>

definition chkWrap :: "string \<Rightarrow> 'a result \<Rightarrow> ('a \<Rightarrow> 'b result) \<Rightarrow> 'b result" where
  "chkWrap t m k = State_Monad.bind m (\<lambda>r. case r of Inl e \<Rightarrow> fail (wrapf t e) | Inr x \<Rightarrow> k x)"

text \<open>A loop that stops at the first error, with an accumulator.\<close>

fun forEach :: "('a \<Rightarrow> 's \<Rightarrow> 's result) \<Rightarrow> 'a list \<Rightarrow> 's \<Rightarrow> 's result" where
  "forEach f [] s = ok s"
| "forEach f (x # xs) s = chk (f x s) (forEach f xs)"

section \<open>Calls of the client\<close>

definition popFault :: "fault option action" where
  "popFault = State (\<lambda>w. case w_faults w of [] \<Rightarrow> (None, w) | f # fs \<Rightarrow> (f, w\<lparr>w_faults := fs\<rparr>))"

definition faultErr :: "fault \<Rightarrow> err" where
  "faultErr f = (case f of RefusedConflict t \<Rightarrow> \<lparr>err_kind = Conflict, err_text = t\<rparr>
                         | Refused t \<Rightarrow> errorf t | Lost t \<Rightarrow> errorf t)"

definition notFoundErr :: "key \<Rightarrow> err" where
  "notFoundErr k = \<lparr>err_kind = NotFound, err_text = snd k @ '' not found''\<rparr>"

definition conflictErr :: "key \<Rightarrow> err" where
  "conflictErr k = \<lparr>err_kind = Conflict, err_text = snd k @ '': the object has been modified''\<rparr>"

definition existsErr :: "key \<Rightarrow> err" where
  "existsErr k = \<lparr>err_kind = AlreadyExists, err_text = snd k @ '' already exists''\<rparr>"

record 'o kind =
  k_objs :: "world \<Rightarrow> 'o list"
  k_put :: "'o list \<Rightarrow> world \<Rightarrow> world"
  k_meta :: "'o \<Rightarrow> ObjectMeta"
  k_setMeta :: "ObjectMeta \<Rightarrow> 'o \<Rightarrow> 'o"
  k_mergeSpec :: "'o \<Rightarrow> 'o \<Rightarrow> 'o"
  k_mergeStatus :: "'o \<Rightarrow> 'o \<Rightarrow> 'o"

definition metaKey :: "ObjectMeta \<Rightarrow> key" where
  "metaKey m = (m_ns m, m_name m)"

definition keyOf :: "'o kind \<Rightarrow> 'o \<Rightarrow> key" where
  "keyOf K x = metaKey (k_meta K x)"

definition lookup :: "'o kind \<Rightarrow> world \<Rightarrow> key \<Rightarrow> 'o option" where
  "lookup K w k = find (\<lambda>x. keyOf K x = k) (k_objs K w)"

definition replaceObj :: "'o kind \<Rightarrow> 'o \<Rightarrow> world \<Rightarrow> world" where
  "replaceObj K x w = k_put K (map (\<lambda>y. if keyOf K y = keyOf K x then x else y) (k_objs K w)) w"

definition bumpRv :: "'o kind \<Rightarrow> 'o \<Rightarrow> 'o \<Rightarrow> 'o" where
  "bumpRv K stored x =
     k_setMeta K ((k_meta K x)\<lparr>m_ns := m_ns (k_meta K stored), m_name := m_name (k_meta K stored),
                    m_uid := m_uid (k_meta K stored), m_creation := m_creation (k_meta K stored),
                    m_deletion := m_deletion (k_meta K stored), m_rv := Suc (m_rv (k_meta K stored))\<rparr>) x"

definition apiGet :: "'o kind \<Rightarrow> key \<Rightarrow> 'o result" where
  "apiGet K k = do {
     f \<leftarrow> popFault;
     (case f of Some f \<Rightarrow> fail (faultErr f)
      | None \<Rightarrow> State (\<lambda>w. (case lookup K w k of None \<Rightarrow> Inl (notFoundErr k) | Some x \<Rightarrow> Inr x, w)))
   }"

definition apiListRaw :: "(world \<Rightarrow> 'o list) \<Rightarrow> ('o \<Rightarrow> bool) \<Rightarrow> 'o list result" where
  "apiListRaw objs P = do {
     f \<leftarrow> popFault;
     (case f of Some f \<Rightarrow> fail (faultErr f) | None \<Rightarrow> State (\<lambda>w. (Inr (filter P (objs w)), w)))
   }"

definition inNamespace :: "'o kind \<Rightarrow> string \<Rightarrow> 'o \<Rightarrow> bool" where
  "inNamespace K ns x \<longleftrightarrow> ns = [] \<or> m_ns (k_meta K x) = ns"

definition apiList :: "'o kind \<Rightarrow> string \<Rightarrow> 'o list result" where
  "apiList K ns = apiListRaw (k_objs K) (inNamespace K ns)"

text \<open>A write: \<open>merge stored new\<close> is what the server stores for \<open>new\<close>.\<close>

definition storeWrite :: "'o kind \<Rightarrow> ('o \<Rightarrow> 'o \<Rightarrow> 'o) \<Rightarrow> 'o \<Rightarrow> 'o result" where
  "storeWrite K merge x = State (\<lambda>w. case lookup K w (keyOf K x) of
       None \<Rightarrow> (Inl (notFoundErr (keyOf K x)), w)
     | Some s \<Rightarrow> if m_rv (k_meta K s) \<noteq> m_rv (k_meta K x) then (Inl (conflictErr (keyOf K x)), w)
                 else let s' = bumpRv K s (merge s x) in (Inr s', replaceObj K s' w))"

definition answerLost :: "string \<Rightarrow> 'a result \<Rightarrow> 'a result" where
  "answerLost t m = do { _ \<leftarrow> m; fail (errorf t) }"

definition faulty :: "'a result \<Rightarrow> 'a result" where
  "faulty m = do {
     f \<leftarrow> popFault;
     (case f of None \<Rightarrow> m | Some (Lost t) \<Rightarrow> answerLost t m | Some f \<Rightarrow> fail (faultErr f))
   }"

definition apiUpdate :: "'o kind \<Rightarrow> 'o \<Rightarrow> 'o result" where
  "apiUpdate K x = faulty (storeWrite K (k_mergeSpec K) x)"

definition apiStatusUpdate :: "'o kind \<Rightarrow> 'o \<Rightarrow> 'o result" where
  "apiStatusUpdate K x = faulty (storeWrite K (k_mergeStatus K) x)"

definition storeCreate :: "'o kind \<Rightarrow> 'o \<Rightarrow> 'o result" where
  "storeCreate K x = State (\<lambda>w. case lookup K w (keyOf K x) of
       Some _ \<Rightarrow> (Inl (existsErr (keyOf K x)), w)
     | None \<Rightarrow> let x' = k_setMeta K ((k_meta K x)\<lparr>m_rv := 1\<rparr>) x in (Inr x', k_put K (k_objs K w @ [x']) w))"

definition apiCreate :: "'o kind \<Rightarrow> 'o \<Rightarrow> 'o result" where
  "apiCreate K x = faulty (storeCreate K x)"

text \<open>A merge patch of one annotation, which has no resource version to compare.\<close>

definition storePatchAnnotation :: "'o kind \<Rightarrow> key \<Rightarrow> string \<Rightarrow> string \<Rightarrow> 'o result" where
  "storePatchAnnotation K k a v = State (\<lambda>w. case lookup K w k of
       None \<Rightarrow> (Inl (notFoundErr k), w)
     | Some s \<Rightarrow> let m = k_meta K s;
                     s' = k_setMeta K (m\<lparr>m_ann := mput (m_ann m) a v, m_rv := Suc (m_rv m)\<rparr>) s
                 in (Inr s', replaceObj K s' w))"

definition apiPatchAnnotation :: "'o kind \<Rightarrow> key \<Rightarrow> string \<Rightarrow> string \<Rightarrow> 'o result" where
  "apiPatchAnnotation K k a v = faulty (storePatchAnnotation K k a v)"

text \<open>
  A merge patch of the finalizers. An object that is being deleted disappears with its last
  finalizer.
\<close>

definition storePatchFinalizers :: "'o kind \<Rightarrow> key \<Rightarrow> string list \<Rightarrow> unit result" where
  "storePatchFinalizers K k fs = State (\<lambda>w. case lookup K w k of
       None \<Rightarrow> (Inl (notFoundErr k), w)
     | Some s \<Rightarrow> (Inr (),
         if m_deletion (k_meta K s) \<noteq> None \<and> fs = [] then k_put K (filter (\<lambda>x. keyOf K x \<noteq> k) (k_objs K w)) w
         else replaceObj K (k_setMeta K ((k_meta K s)\<lparr>m_finalizers := fs, m_rv := Suc (m_rv (k_meta K s))\<rparr>) s) w))"

definition apiPatchFinalizers :: "'o kind \<Rightarrow> key \<Rightarrow> string list \<Rightarrow> unit result" where
  "apiPatchFinalizers K k fs = faulty (storePatchFinalizers K k fs)"

text \<open>
  \<open>controllerutil.CreateOrUpdate\<close>: the object is read, changed by the callback, and created when
  it was missing, updated when it changed.
\<close>

definition createOrUpdate :: "'o kind \<Rightarrow> 'o \<Rightarrow> ('o \<Rightarrow> err + 'o) \<Rightarrow> 'o result" where
  "createOrUpdate K fresh mutate = do {
     g \<leftarrow> apiGet K (keyOf K fresh);
     (case g of
        Inl e \<Rightarrow>
          if err_kind e = NotFound then (case mutate fresh of Inl e \<Rightarrow> fail e | Inr x \<Rightarrow> apiCreate K x)
          else fail e
      | Inr s \<Rightarrow> (case mutate s of Inl e \<Rightarrow> fail e | Inr x \<Rightarrow> if x = s then ok s else apiUpdate K x))
   }"

text \<open>
  A delete: an object with finalizers stays, marked with the time of the deletion; one
  without is removed.
\<close>

definition storeDelete :: "time \<Rightarrow> 'o kind \<Rightarrow> key \<Rightarrow> unit result" where
  "storeDelete now K k = State (\<lambda>w. case lookup K w k of
     None \<Rightarrow> (Inl (notFoundErr k), w)
   | Some s \<Rightarrow>
       if m_finalizers (k_meta K s) = [] then (Inr (), k_put K (filter (\<lambda>x. keyOf K x \<noteq> k) (k_objs K w)) w)
       else if m_deletion (k_meta K s) \<noteq> None then (Inr (), w)
       else (Inr (), replaceObj K (k_setMeta K ((k_meta K s)\<lparr>m_deletion := Some now, m_rv := Suc (m_rv (k_meta K s))\<rparr>) s) w))"

definition apiDelete :: "time \<Rightarrow> 'o kind \<Rightarrow> key \<Rightarrow> unit result" where
  "apiDelete now K k = faulty (storeDelete now K k)"

text \<open>An update of an object that is being deleted removes it when no finalizer is left.\<close>

definition storeUpdateDeleting :: "'o kind \<Rightarrow> 'o \<Rightarrow> unit result" where
  "storeUpdateDeleting K x = chk (storeWrite K (k_mergeSpec K) x) (\<lambda>s. State (\<lambda>w. (Inr (),
     if m_deletion (k_meta K s) \<noteq> None \<and> m_finalizers (k_meta K s) = []
     then k_put K (filter (\<lambda>y. keyOf K y \<noteq> keyOf K s) (k_objs K w)) w else w)))"

text \<open>A call of other code outside the repository whose only visible effect is to fail or not.\<close>

definition extCall :: "unit result" where
  "extCall = faulty (ok ())"

text \<open>An event is written for observation only; its failure is ignored by the reporters.\<close>

definition emit :: "string \<Rightarrow> string \<Rightarrow> unit action" where
  "emit obj reason = State (\<lambda>w. ((), w\<lparr>w_events := w_events w @ [\<lparr>ev_object = obj, ev_reason = reason\<rparr>]\<rparr>))"

text \<open>\<open>retry.RetryOnConflict\<close> with a number of attempts that is a parameter.\<close>

fun retryOnConflict :: "nat \<Rightarrow> 'a result \<Rightarrow> 'a result" where
  "retryOnConflict 0 m = m"
| "retryOnConflict (Suc n) m = do {
     r \<leftarrow> m;
     (case r of Inl e \<Rightarrow> if err_kind e = Conflict then retryOnConflict n m else fail e
      | Inr x \<Rightarrow> ok x)
   }"

definition ignoreNotFound :: "err \<Rightarrow> unit result" where
  "ignoreNotFound e = (if err_kind e = NotFound then ok () else fail e)"

section \<open>The kinds\<close>

definition opKind :: "DisasterOperation kind" where
  "opKind = \<lparr>k_objs = w_ops, k_put = (\<lambda>xs w. w\<lparr>w_ops := xs\<rparr>), k_meta = op_meta,
     k_setMeta = (\<lambda>m x. x\<lparr>op_meta := m\<rparr>),
     k_mergeSpec = (\<lambda>s x. x\<lparr>op_status := op_status s\<rparr>),
     k_mergeStatus = (\<lambda>s x. s\<lparr>op_status := op_status x\<rparr>)\<rparr>"

definition instKind :: "DisasterInstance kind" where
  "instKind = \<lparr>k_objs = w_insts, k_put = (\<lambda>xs w. w\<lparr>w_insts := xs\<rparr>), k_meta = in_meta,
     k_setMeta = (\<lambda>m x. x\<lparr>in_meta := m\<rparr>),
     k_mergeSpec = (\<lambda>s x. x\<lparr>in_status := in_status s\<rparr>),
     k_mergeStatus = (\<lambda>s x. s\<lparr>in_status := in_status x\<rparr>)\<rparr>"

definition dsKind :: "SyncObject kind" where
  "dsKind = \<lparr>k_objs = w_ds, k_put = (\<lambda>xs w. w\<lparr>w_ds := xs\<rparr>), k_meta = so_meta,
     k_setMeta = (\<lambda>m x. x\<lparr>so_meta := m\<rparr>),
     k_mergeSpec = (\<lambda>s x. x\<lparr>so_status := so_status s\<rparr>),
     k_mergeStatus = (\<lambda>s x. s\<lparr>so_status := so_status x\<rparr>)\<rparr>"

definition rsKind :: "SyncObject kind" where
  "rsKind = \<lparr>k_objs = w_rs, k_put = (\<lambda>xs w. w\<lparr>w_rs := xs\<rparr>), k_meta = so_meta,
     k_setMeta = (\<lambda>m x. x\<lparr>so_meta := m\<rparr>),
     k_mergeSpec = (\<lambda>s x. x\<lparr>so_status := so_status s\<rparr>),
     k_mergeStatus = (\<lambda>s x. s\<lparr>so_status := so_status x\<rparr>)\<rparr>"

text \<open>Kinds without a status the controllers write.\<close>

definition cfgKind :: "DisasterConfig kind" where
  "cfgKind = \<lparr>k_objs = w_cfgs, k_put = (\<lambda>xs w. w\<lparr>w_cfgs := xs\<rparr>), k_meta = cfg_meta,
     k_setMeta = (\<lambda>m x. x\<lparr>cfg_meta := m\<rparr>), k_mergeSpec = (\<lambda>s x. x), k_mergeStatus = (\<lambda>s x. s)\<rparr>"

definition policyKind :: "DisasterPolicy kind" where
  "policyKind = \<lparr>k_objs = w_policies, k_put = (\<lambda>xs w. w\<lparr>w_policies := xs\<rparr>), k_meta = pol_meta,
     k_setMeta = (\<lambda>m x. x\<lparr>pol_meta := m\<rparr>), k_mergeSpec = (\<lambda>s x. x), k_mergeStatus = (\<lambda>s x. s)\<rparr>"

definition clusterKind :: "Cluster kind" where
  "clusterKind = \<lparr>k_objs = w_clusters, k_put = (\<lambda>xs w. w\<lparr>w_clusters := xs\<rparr>), k_meta = cl_meta,
     k_setMeta = (\<lambda>m x. x\<lparr>cl_meta := m\<rparr>), k_mergeSpec = (\<lambda>s x. x), k_mergeStatus = (\<lambda>s x. s)\<rparr>"

definition groupKind :: "DisasterGroup kind" where
  "groupKind = \<lparr>k_objs = w_groups, k_put = (\<lambda>xs w. w\<lparr>w_groups := xs\<rparr>), k_meta = gr_meta,
     k_setMeta = (\<lambda>m x. x\<lparr>gr_meta := m\<rparr>), k_mergeSpec = (\<lambda>s x. x\<lparr>gr_status := gr_status s\<rparr>),
     k_mergeStatus = (\<lambda>s x. s\<lparr>gr_status := gr_status x\<rparr>)\<rparr>"

definition restoreKind :: "AppRestore kind" where
  "restoreKind = \<lparr>k_objs = w_restores, k_put = (\<lambda>xs w. w\<lparr>w_restores := xs\<rparr>), k_meta = ar_meta,
     k_setMeta = (\<lambda>m x. x\<lparr>ar_meta := m\<rparr>), k_mergeSpec = (\<lambda>s x. s\<lparr>ar_meta := ar_meta x, ar_spec := ar_spec x\<rparr>),
     k_mergeStatus = (\<lambda>s x. x\<lparr>ar_meta := ar_meta s, ar_spec := ar_spec s\<rparr>)\<rparr>"

definition cmKind :: "ConfigMap kind" where
  "cmKind = \<lparr>k_objs = w_cms, k_put = (\<lambda>xs w. w\<lparr>w_cms := xs\<rparr>), k_meta = cm_meta,
     k_setMeta = (\<lambda>m x. x\<lparr>cm_meta := m\<rparr>), k_mergeSpec = (\<lambda>s x. x), k_mergeStatus = (\<lambda>s x. s)\<rparr>"

definition statsKind :: "OperationStatistics kind" where
  "statsKind = \<lparr>k_objs = w_stats, k_put = (\<lambda>xs w. w\<lparr>w_stats := xs\<rparr>), k_meta = sts_meta,
     k_setMeta = (\<lambda>m x. x\<lparr>sts_meta := m\<rparr>), k_mergeSpec = (\<lambda>s x. s\<lparr>sts_meta := sts_meta x\<rparr>),
     k_mergeStatus = (\<lambda>s x. x\<lparr>sts_meta := sts_meta s\<rparr>)\<rparr>"

definition drillKind :: "DisasterDrill kind" where
  "drillKind = \<lparr>k_objs = w_drills, k_put = (\<lambda>xs w. w\<lparr>w_drills := xs\<rparr>), k_meta = dr_meta,
     k_setMeta = (\<lambda>m x. x\<lparr>dr_meta := m\<rparr>),
     k_mergeSpec = (\<lambda>s x. x\<lparr>dr_status := dr_status s\<rparr>),
     k_mergeStatus = (\<lambda>s x. s\<lparr>dr_status := dr_status x\<rparr>)\<rparr>"

text \<open>The secrets of the management cluster.\<close>

definition mgmtSecretKind :: "Secret kind" where
  "mgmtSecretKind = \<lparr>k_objs = w_mgmtSecrets, k_put = (\<lambda>xs w. w\<lparr>w_mgmtSecrets := xs\<rparr>), k_meta = sec_meta,
     k_setMeta = (\<lambda>m x. x\<lparr>sec_meta := m\<rparr>), k_mergeSpec = (\<lambda>s x. x), k_mergeStatus = (\<lambda>s x. s)\<rparr>"

definition appBackupKind :: "AppBackup kind" where
  "appBackupKind = \<lparr>k_objs = w_appBackups, k_put = (\<lambda>xs w. w\<lparr>w_appBackups := xs\<rparr>), k_meta = ab_meta,
     k_setMeta = (\<lambda>m x. x\<lparr>ab_meta := m\<rparr>), k_mergeSpec = (\<lambda>s x. x\<lparr>ab_status := ab_status s\<rparr>), k_mergeStatus = (\<lambda>s x. s\<lparr>ab_status := ab_status x\<rparr>)\<rparr>"

definition storageKind :: "StorageRepository kind" where
  "storageKind = \<lparr>k_objs = w_storageRepos, k_put = (\<lambda>xs w. w\<lparr>w_storageRepos := xs\<rparr>), k_meta = sr_meta,
     k_setMeta = (\<lambda>m x. x\<lparr>sr_meta := m\<rparr>), k_mergeSpec = (\<lambda>s x. x), k_mergeStatus = (\<lambda>s x. s)\<rparr>"

text \<open>The objects of one managed cluster; their status belongs to that cluster.\<close>

definition podKind :: "string \<Rightarrow> Pod kind" where
  "podKind c = \<lparr>k_objs = (\<lambda>w. w_pods w c), k_put = (\<lambda>xs w. w\<lparr>w_pods := (w_pods w)(c := xs)\<rparr>),
     k_meta = pod_meta, k_setMeta = (\<lambda>m x. x\<lparr>pod_meta := m\<rparr>), k_mergeSpec = (\<lambda>s x. x), k_mergeStatus = (\<lambda>s x. s)\<rparr>"

definition secretKind :: "string \<Rightarrow> Secret kind" where
  "secretKind c = \<lparr>k_objs = (\<lambda>w. w_secrets w c), k_put = (\<lambda>xs w. w\<lparr>w_secrets := (w_secrets w)(c := xs)\<rparr>),
     k_meta = sec_meta, k_setMeta = (\<lambda>m x. x\<lparr>sec_meta := m\<rparr>), k_mergeSpec = (\<lambda>s x. x), k_mergeStatus = (\<lambda>s x. s)\<rparr>"

definition deployKind :: "string \<Rightarrow> Workload kind" where
  "deployKind c = \<lparr>k_objs = (\<lambda>w. w_deploys w c), k_put = (\<lambda>xs w. w\<lparr>w_deploys := (w_deploys w)(c := xs)\<rparr>),
     k_meta = wl_meta, k_setMeta = (\<lambda>m x. x\<lparr>wl_meta := m\<rparr>),
     k_mergeSpec = (\<lambda>s x. x\<lparr>wl_ready := wl_ready s, wl_available := wl_available s, wl_unavailable := wl_unavailable s\<rparr>),
     k_mergeStatus = (\<lambda>s x. s\<lparr>wl_ready := wl_ready x, wl_available := wl_available x, wl_unavailable := wl_unavailable x\<rparr>)\<rparr>"

definition nsKind :: "string \<Rightarrow> Namespace kind" where
  "nsKind c = \<lparr>k_objs = (\<lambda>w. w_nss w c), k_put = (\<lambda>xs w. w\<lparr>w_nss := (w_nss w)(c := xs)\<rparr>),
     k_meta = nsp_meta, k_setMeta = (\<lambda>m x. x\<lparr>nsp_meta := m\<rparr>), k_mergeSpec = (\<lambda>s x. x), k_mergeStatus = (\<lambda>s x. s)\<rparr>"

definition stsKind :: "string \<Rightarrow> Workload kind" where
  "stsKind c = \<lparr>k_objs = (\<lambda>w. w_sts w c), k_put = (\<lambda>xs w. w\<lparr>w_sts := (w_sts w)(c := xs)\<rparr>),
     k_meta = wl_meta, k_setMeta = (\<lambda>m x. x\<lparr>wl_meta := m\<rparr>),
     k_mergeSpec = (\<lambda>s x. x\<lparr>wl_ready := wl_ready s, wl_available := wl_available s, wl_unavailable := wl_unavailable s\<rparr>),
     k_mergeStatus = (\<lambda>s x. s\<lparr>wl_ready := wl_ready x, wl_available := wl_available x, wl_unavailable := wl_unavailable x\<rparr>)\<rparr>"

definition pvcKind :: "string \<Rightarrow> Pvc kind" where
  "pvcKind c = \<lparr>k_objs = (\<lambda>w. w_pvcs w c), k_put = (\<lambda>xs w. w\<lparr>w_pvcs := (w_pvcs w)(c := xs)\<rparr>),
     k_meta = pvc_meta, k_setMeta = (\<lambda>m x. x\<lparr>pvc_meta := m\<rparr>), k_mergeSpec = (\<lambda>s x. x), k_mergeStatus = (\<lambda>s x. s)\<rparr>"

definition daemonSetKind :: "string \<Rightarrow> DaemonSet kind" where
  "daemonSetKind c = \<lparr>k_objs = (\<lambda>w. w_daemonSets w c), k_put = (\<lambda>xs w. w\<lparr>w_daemonSets := (w_daemonSets w)(c := xs)\<rparr>),
     k_meta = dmn_meta, k_setMeta = (\<lambda>m x. x\<lparr>dmn_meta := m\<rparr>), k_mergeSpec = (\<lambda>s x. x), k_mergeStatus = (\<lambda>s x. s)\<rparr>"

definition pvrKind :: "string \<Rightarrow> PodVolumeRestore kind" where
  "pvrKind c = \<lparr>k_objs = (\<lambda>w. w_pvrs w c), k_put = (\<lambda>xs w. w\<lparr>w_pvrs := (w_pvrs w)(c := xs)\<rparr>),
     k_meta = pvr_meta, k_setMeta = (\<lambda>m x. x\<lparr>pvr_meta := m\<rparr>), k_mergeSpec = (\<lambda>s x. x), k_mergeStatus = (\<lambda>s x. s)\<rparr>"

lemmas kind_defs = opKind_def instKind_def dsKind_def rsKind_def cfgKind_def policyKind_def clusterKind_def
  groupKind_def cmKind_def statsKind_def deployKind_def stsKind_def restoreKind_def nsKind_def drillKind_def mgmtSecretKind_def
  podKind_def secretKind_def appBackupKind_def storageKind_def pvcKind_def daemonSetKind_def pvrKind_def

lemma opKind_sel [simp]: "k_objs opKind = w_ops" "k_meta opKind = op_meta"
    "k_put opKind xs w = w\<lparr>w_ops := xs\<rparr>"
  by (simp_all add: opKind_def)

lemma instKind_sel [simp]: "k_objs instKind = w_insts" "k_meta instKind = in_meta"
    "k_put instKind xs w = w\<lparr>w_insts := xs\<rparr>"
  by (simp_all add: instKind_def)

lemma dsKind_sel [simp]: "k_objs dsKind = w_ds" "k_meta dsKind = so_meta"
    "k_put dsKind xs w = w\<lparr>w_ds := xs\<rparr>"
  by (simp_all add: dsKind_def)

lemma rsKind_sel [simp]: "k_objs rsKind = w_rs" "k_meta rsKind = so_meta"
    "k_put rsKind xs w = w\<lparr>w_rs := xs\<rparr>"
  by (simp_all add: rsKind_def)

lemma cfgKind_sel [simp]: "k_objs cfgKind = w_cfgs" "k_meta cfgKind = cfg_meta"
    "k_put cfgKind xs w = w\<lparr>w_cfgs := xs\<rparr>"
  by (simp_all add: cfgKind_def)

lemma policyKind_sel [simp]: "k_objs policyKind = w_policies" "k_meta policyKind = pol_meta"
    "k_put policyKind xs w = w\<lparr>w_policies := xs\<rparr>"
  by (simp_all add: policyKind_def)

lemma clusterKind_sel [simp]: "k_objs clusterKind = w_clusters" "k_meta clusterKind = cl_meta"
    "k_put clusterKind xs w = w\<lparr>w_clusters := xs\<rparr>"
  by (simp_all add: clusterKind_def)

lemma groupKind_sel [simp]: "k_objs groupKind = w_groups" "k_meta groupKind = gr_meta"
    "k_put groupKind xs w = w\<lparr>w_groups := xs\<rparr>"
  by (simp_all add: groupKind_def)

lemma restoreKind_sel [simp]: "k_objs restoreKind = w_restores" "k_meta restoreKind = ar_meta"
    "k_put restoreKind xs w = w\<lparr>w_restores := xs\<rparr>"
  by (simp_all add: restoreKind_def)

lemma nsKind_sel [simp]: "k_objs (nsKind c) = (\<lambda>w. w_nss w c)" "k_meta (nsKind c) = nsp_meta"
    "k_put (nsKind c) xs w = w\<lparr>w_nss := (w_nss w)(c := xs)\<rparr>"
  by (simp_all add: nsKind_def)

lemma drillKind_sel [simp]: "k_objs drillKind = w_drills" "k_meta drillKind = dr_meta"
    "k_put drillKind xs w = w\<lparr>w_drills := xs\<rparr>"
  by (simp_all add: drillKind_def)

lemma mgmtSecretKind_sel [simp]: "k_objs mgmtSecretKind = w_mgmtSecrets" "k_meta mgmtSecretKind = sec_meta"
    "k_put mgmtSecretKind xs w = w\<lparr>w_mgmtSecrets := xs\<rparr>"
  by (simp_all add: mgmtSecretKind_def)

lemma podKind_sel [simp]: "k_objs (podKind c) = (\<lambda>w. w_pods w c)" "k_meta (podKind c) = pod_meta"
    "k_put (podKind c) xs w = w\<lparr>w_pods := (w_pods w)(c := xs)\<rparr>"
  by (simp_all add: podKind_def)

lemma secretKind_sel [simp]: "k_objs (secretKind c) = (\<lambda>w. w_secrets w c)" "k_meta (secretKind c) = sec_meta"
    "k_put (secretKind c) xs w = w\<lparr>w_secrets := (w_secrets w)(c := xs)\<rparr>"
  by (simp_all add: secretKind_def)

lemma cmKind_sel [simp]: "k_objs cmKind = w_cms" "k_meta cmKind = cm_meta"
    "k_put cmKind xs w = w\<lparr>w_cms := xs\<rparr>"
  by (simp_all add: cmKind_def)

lemma statsKind_sel [simp]: "k_objs statsKind = w_stats" "k_meta statsKind = sts_meta"
    "k_put statsKind xs w = w\<lparr>w_stats := xs\<rparr>"
  by (simp_all add: statsKind_def)

lemma deployKind_sel [simp]: "k_objs (deployKind c) = (\<lambda>w. w_deploys w c)" "k_meta (deployKind c) = wl_meta"
    "k_put (deployKind c) xs w = w\<lparr>w_deploys := (w_deploys w)(c := xs)\<rparr>"
  by (simp_all add: deployKind_def)

lemma stsKind_sel [simp]: "k_objs (stsKind c) = (\<lambda>w. w_sts w c)" "k_meta (stsKind c) = wl_meta"
    "k_put (stsKind c) xs w = w\<lparr>w_sts := (w_sts w)(c := xs)\<rparr>"
  by (simp_all add: stsKind_def)

lemma appBackupKind_sel [simp]: "k_objs appBackupKind = w_appBackups" "k_meta appBackupKind = ab_meta"
    "k_put appBackupKind xs w = w\<lparr>w_appBackups := xs\<rparr>"
  by (simp_all add: appBackupKind_def)

lemma storageKind_sel [simp]: "k_objs storageKind = w_storageRepos" "k_meta storageKind = sr_meta"
    "k_put storageKind xs w = w\<lparr>w_storageRepos := xs\<rparr>"
  by (simp_all add: storageKind_def)

lemma pvcKind_sel [simp]: "k_objs (pvcKind c) = (\<lambda>w. w_pvcs w c)" "k_meta (pvcKind c) = pvc_meta"
    "k_put (pvcKind c) xs w = w\<lparr>w_pvcs := (w_pvcs w)(c := xs)\<rparr>"
  by (simp_all add: pvcKind_def)

lemma daemonSetKind_sel [simp]: "k_objs (daemonSetKind c) = (\<lambda>w. w_daemonSets w c)" "k_meta (daemonSetKind c) = dmn_meta"
    "k_put (daemonSetKind c) xs w = w\<lparr>w_daemonSets := (w_daemonSets w)(c := xs)\<rparr>"
  by (simp_all add: daemonSetKind_def)

lemma pvrKind_sel [simp]: "k_objs (pvrKind c) = (\<lambda>w. w_pvrs w c)" "k_meta (pvrKind c) = pvr_meta"
    "k_put (pvrKind c) xs w = w\<lparr>w_pvrs := (w_pvrs w)(c := xs)\<rparr>"
  by (simp_all add: pvrKind_def)

text \<open>The metadata of an object the code builds, before the server completes it.\<close>

definition newMeta :: "string \<Rightarrow> string \<Rightarrow> ObjectMeta" where
  "newMeta ns n = \<lparr>m_ns = ns, m_name = n, m_uid = [], m_rv = 0, m_ann = [], m_labels = [], m_owners = [],
     m_finalizers = [], m_deletion = None, m_creation = None, m_generation = 0\<rparr>"

section \<open>The laws of a kind\<close>

locale kube_kind =
  fixes K :: "'o kind"
  assumes objs_put: "k_objs K (k_put K xs w) = xs"
    and objs_faults: "k_objs K (w\<lparr>w_faults := fs\<rparr>) = k_objs K w"
    and objs_events: "k_objs K (w\<lparr>w_events := es\<rparr>) = k_objs K w"
    and meta_setMeta: "k_meta K (k_setMeta K m x) = m"
begin

lemma keyOf_bumpRv [simp]: "keyOf K (bumpRv K s x) = keyOf K s"
  by (simp add: keyOf_def bumpRv_def meta_setMeta metaKey_def)

lemma rv_bumpRv [simp]: "m_rv (k_meta K (bumpRv K s x)) = Suc (m_rv (k_meta K s))"
  by (simp add: bumpRv_def meta_setMeta)

lemma find_replace:
  "find (\<lambda>y. keyOf K y = k) (map (\<lambda>y. if keyOf K y = keyOf K x then x else y) xs) =
     (if k = keyOf K x then (if find (\<lambda>y. keyOf K y = k) xs = None then None else Some x)
      else find (\<lambda>y. keyOf K y = k) xs)"
  by (induction xs) auto

lemma lookup_replaceObj:
  "lookup K (replaceObj K x w) k =
     (if k = keyOf K x then (if lookup K w k = None then None else Some x) else lookup K w k)"
  by (simp add: lookup_def replaceObj_def objs_put find_replace)

lemma lookup_key: "lookup K w k = Some x \<Longrightarrow> keyOf K x = k"
  by (simp add: lookup_def find_Some_iff) blast

lemma lookup_self: "lookup K w k = Some x \<Longrightarrow> lookup K w (keyOf K x) = Some x"
  using lookup_key [of w k x] by simp

lemma lookup_popFault [simp]: "lookup K (snd (run_state popFault w)) k = lookup K w k"
  by (simp add: popFault_def lookup_def objs_faults split: list.splits)

lemma lookup_faults [simp]: "lookup K (w\<lparr>w_faults := fs\<rparr>) k = lookup K w k"
  by (simp add: lookup_def objs_faults)

lemma lookup_events [simp]: "lookup K (w\<lparr>w_events := es\<rparr>) k = lookup K w k"
  by (simp add: lookup_def objs_events)

lemma objs_replaceObj: "k_objs K (replaceObj K x w) = map (\<lambda>y. if keyOf K y = keyOf K x then x else y) (k_objs K w)"
  by (simp add: replaceObj_def objs_put)

lemma find_snoc: "find P (xs @ [x]) = (case find P xs of None \<Rightarrow> if P x then Some x else None | Some y \<Rightarrow> Some y)"
  by (induction xs) auto

lemma lookup_create:
  "lookup K w k = None \<Longrightarrow> keyOf K x = k \<Longrightarrow> lookup K (k_put K (k_objs K w @ [x]) w) k = Some x"
  by (simp add: lookup_def objs_put find_snoc)

lemma lookup_storeWrite_other:
  "k \<noteq> keyOf K x \<Longrightarrow> lookup K (snd (run_state (storeWrite K mg x) w)) k = lookup K w k"
  by (auto simp: storeWrite_def lookup_replaceObj Let_def split: option.splits dest: lookup_key)

lemma storeWrite_cases:
  assumes "run_state (storeWrite K mg x) w = (r, w')"
  obtains (unchanged) e where "r = Inl e" and "w' = w"
  | (written) s where "lookup K w (keyOf K x) = Some s" and "m_rv (k_meta K s) = m_rv (k_meta K x)"
      and "r = Inr (bumpRv K s (mg s x))" and "w' = replaceObj K (bumpRv K s (mg s x)) w"
  using assms by (auto simp: storeWrite_def Let_def split: option.splits if_splits)

end

interpretation opK: kube_kind opKind
  by unfold_locales (simp_all add: opKind_def)

interpretation instK: kube_kind instKind
  by unfold_locales (simp_all add: instKind_def)

interpretation dsK: kube_kind dsKind
  by unfold_locales (simp_all add: dsKind_def)

interpretation rsK: kube_kind rsKind
  by unfold_locales (simp_all add: rsKind_def)

interpretation cfgK: kube_kind cfgKind
  by unfold_locales (simp_all add: cfgKind_def)

interpretation policyK: kube_kind policyKind
  by unfold_locales (simp_all add: policyKind_def)

interpretation clusterK: kube_kind clusterKind
  by unfold_locales (simp_all add: clusterKind_def)

interpretation groupK: kube_kind groupKind
  by unfold_locales (simp_all add: groupKind_def)

interpretation cmK: kube_kind cmKind
  by unfold_locales (simp_all add: cmKind_def)

interpretation statsK: kube_kind statsKind
  by unfold_locales (simp_all add: statsKind_def)

interpretation restoreK: kube_kind restoreKind
  by unfold_locales (simp_all add: restoreKind_def)

interpretation drillK: kube_kind drillKind
  by unfold_locales (simp_all add: drillKind_def)

interpretation mgmtSecretK: kube_kind mgmtSecretKind
  by unfold_locales (simp_all add: mgmtSecretKind_def)

interpretation podK: kube_kind "podKind c" for c
  by unfold_locales (simp_all add: podKind_def)

interpretation secretK: kube_kind "secretKind c" for c
  by unfold_locales (simp_all add: secretKind_def)

interpretation nsK: kube_kind "nsKind c" for c
  by unfold_locales (simp_all add: nsKind_def)

interpretation deployK: kube_kind "deployKind c" for c
  by unfold_locales (simp_all add: deployKind_def)

interpretation stsK: kube_kind "stsKind c" for c
  by unfold_locales (simp_all add: stsKind_def)

interpretation appBackupK: kube_kind appBackupKind
  by unfold_locales (simp_all add: appBackupKind_def)

interpretation storageK: kube_kind storageKind
  by unfold_locales (simp_all add: storageKind_def)

interpretation pvcK: kube_kind "pvcKind c" for c
  by unfold_locales (simp_all add: pvcKind_def)

interpretation daemonSetK: kube_kind "daemonSetKind c" for c
  by unfold_locales (simp_all add: daemonSetKind_def)

interpretation pvrK: kube_kind "pvrKind c" for c
  by unfold_locales (simp_all add: pvrKind_def)

end
