(* ===== verification/Actions.thy ===== *)
theory Actions
  imports Kube
begin

text \<open>
  Two ways to reason about actions. The locale \<open>world_rel\<close> is the contract of a relation
  between the world before and after an action: reflexive, transitive and blind to the fault
  schedule and the event log. Inside it the relation is lifted, once, through every
  combinator and call of the client; a component interprets it for the frame it needs.
  The second is a weakest-precondition calculus \<open>wp\<close> for functional behaviour.
\<close>

section \<open>Relations kept by actions\<close>

locale world_rel =
  fixes R :: "world \<Rightarrow> world \<Rightarrow> bool"
  assumes R_refl: "R w w"
    and R_trans: "R a b \<Longrightarrow> R b c \<Longrightarrow> R a c"
    and R_faults: "R w (w\<lparr>w_faults := fs\<rparr>)"
    and R_events: "R w (w\<lparr>w_events := es\<rparr>)"
begin

lemma rel_ret: "state_io_rel R (ret x)"
  by (rule state_io_relI) (simp add: R_refl)

lemma rel_bind:
  assumes "state_io_rel R m" and "\<And>x. state_io_rel R (f x)"
  shows "state_io_rel R (State_Monad.bind m f)"
proof (rule state_io_relI)
  fix a w w'
  assume "run_state (State_Monad.bind m f) w = (a, w')"
  then obtain x v where "run_state m w = (x, v)" and "run_state (f x) v = (a, w')"
    by (auto split: prod.splits)
  with assms show "R w w'" by (meson R_trans state_io_relD)
qed

lemma rel_sum: "(\<And>a. state_io_rel R (f a)) \<Longrightarrow> (\<And>b. state_io_rel R (g b)) \<Longrightarrow>
    state_io_rel R (case x of Inl a \<Rightarrow> f a | Inr b \<Rightarrow> g b)"
  by (cases x) simp_all

lemma rel_option: "state_io_rel R n \<Longrightarrow> (\<And>b. x = Some b \<Longrightarrow> state_io_rel R (g b)) \<Longrightarrow>
    state_io_rel R (case x of None \<Rightarrow> n | Some b \<Rightarrow> g b)"
  by (cases x) simp_all

lemma rel_prod: "(\<And>a b. state_io_rel R (f a b)) \<Longrightarrow> state_io_rel R (case x of (a, b) \<Rightarrow> f a b)"
  by (cases x) simp

lemma rel_if: "(b \<Longrightarrow> state_io_rel R m) \<Longrightarrow> (\<not> b \<Longrightarrow> state_io_rel R n) \<Longrightarrow> state_io_rel R (if b then m else n)"
  by simp

lemma rel_chk: "state_io_rel R m \<Longrightarrow> (\<And>x. state_io_rel R (f x)) \<Longrightarrow> state_io_rel R (chk m f)"
  unfolding chk_def by (intro rel_bind rel_sum rel_ret)

lemma rel_chkWrap: "state_io_rel R m \<Longrightarrow> (\<And>x. state_io_rel R (f x)) \<Longrightarrow> state_io_rel R (chkWrap t m f)"
  unfolding chkWrap_def by (intro rel_bind rel_sum rel_ret)

lemma rel_forEach: "(\<And>x s. x \<in> set xs \<Longrightarrow> state_io_rel R (f x s)) \<Longrightarrow> state_io_rel R (forEach f xs s)"
  by (induction xs arbitrary: s) (simp_all add: rel_ret rel_chk)

lemma rel_popFault: "state_io_rel R popFault"
  by (rule state_io_relI) (auto simp: popFault_def R_refl R_faults split: list.splits)

lemma rel_pure: "(\<And>w. snd (f w) = w) \<Longrightarrow> state_io_rel R (State f)"
  by (rule state_io_relI) (metis R_refl snd_conv state.sel)

lemma rel_apiGet: "state_io_rel R (apiGet K k)"
  unfolding apiGet_def by (intro rel_bind rel_popFault rel_option rel_ret rel_pure) simp

lemma rel_apiListRaw: "state_io_rel R (apiListRaw objs P)"
  unfolding apiListRaw_def by (intro rel_bind rel_popFault rel_option rel_ret rel_pure) simp

lemma rel_apiList: "state_io_rel R (apiList K ns)"
  unfolding apiList_def by (rule rel_apiListRaw)

lemma rel_faulty: "state_io_rel R m \<Longrightarrow> state_io_rel R (faulty m)"
  unfolding faulty_def answerLost_def
  by (rule rel_bind [OF rel_popFault]) (auto intro!: rel_ret rel_bind split: option.splits fault.splits)

lemma rel_extCall: "state_io_rel R extCall"
  unfolding extCall_def by (intro rel_faulty rel_ret)

lemma rel_emit: "state_io_rel R (emit a b)"
  unfolding emit_def by (rule state_io_relI) (auto simp: R_events)

lemma rel_retry: "state_io_rel R m \<Longrightarrow> state_io_rel R (retryOnConflict n m)"
  by (induction n) (auto intro!: rel_bind rel_ret rel_sum rel_if)

lemma rel_ignoreNotFound: "state_io_rel R (ignoreNotFound e)"
  unfolding ignoreNotFound_def by (intro rel_if rel_ret)

lemma rel_storeWrite:
  assumes "\<And>s w. lookup K w (keyOf K x) = Some s \<Longrightarrow> m_rv (k_meta K s) = m_rv (k_meta K x) \<Longrightarrow>
      R w (replaceObj K (bumpRv K s (mg s x)) w)"
  shows "state_io_rel R (storeWrite K mg x)"
  by (rule state_io_relI) (auto simp: storeWrite_def Let_def R_refl intro: assms split: option.splits if_splits)

lemma rel_apiUpdate:
  assumes "\<And>s w. lookup K w (keyOf K x) = Some s \<Longrightarrow> m_rv (k_meta K s) = m_rv (k_meta K x) \<Longrightarrow>
      R w (replaceObj K (bumpRv K s (k_mergeSpec K s x)) w)"
  shows "state_io_rel R (apiUpdate K x)"
  unfolding apiUpdate_def by (intro rel_faulty rel_storeWrite assms)

lemma rel_apiStatusUpdate:
  assumes "\<And>s w. lookup K w (keyOf K x) = Some s \<Longrightarrow> m_rv (k_meta K s) = m_rv (k_meta K x) \<Longrightarrow>
      R w (replaceObj K (bumpRv K s (k_mergeStatus K s x)) w)"
  shows "state_io_rel R (apiStatusUpdate K x)"
  unfolding apiStatusUpdate_def by (intro rel_faulty rel_storeWrite assms)

lemma rel_apiCreate:
  assumes "\<And>w. lookup K w (keyOf K x) = None \<Longrightarrow> R w (k_put K (k_objs K w @ [k_setMeta K ((k_meta K x)\<lparr>m_rv := 1\<rparr>) x]) w)"
  shows "state_io_rel R (apiCreate K x)"
  unfolding apiCreate_def storeCreate_def
  by (rule rel_faulty, rule state_io_relI) (auto simp: Let_def R_refl intro: assms [simplified] split: option.splits)

lemma rel_apiPatch:
  assumes "\<And>s w. lookup K w k = Some s \<Longrightarrow>
      R w (replaceObj K (k_setMeta K ((k_meta K s)\<lparr>m_ann := mput (m_ann (k_meta K s)) a v,
                                                   m_rv := Suc (m_rv (k_meta K s))\<rparr>) s) w)"
  shows "state_io_rel R (apiPatchAnnotation K k a v)"
  unfolding apiPatchAnnotation_def storePatchAnnotation_def
  by (rule rel_faulty, rule state_io_relI) (auto simp: Let_def R_refl intro: assms split: option.splits)

lemma rel_apiPatchFinalizers:
  assumes "\<And>s w. lookup K w k = Some s \<Longrightarrow>
      R w (replaceObj K (k_setMeta K ((k_meta K s)\<lparr>m_finalizers := fs, m_rv := Suc (m_rv (k_meta K s))\<rparr>) s) w)"
    and "\<And>w. R w (k_put K (filter (\<lambda>x. keyOf K x \<noteq> k) (k_objs K w)) w)"
  shows "state_io_rel R (apiPatchFinalizers K k fs)"
  unfolding apiPatchFinalizers_def storePatchFinalizers_def
  by (rule rel_faulty, rule state_io_relI) (auto simp: Let_def R_refl intro: assms split: option.splits if_splits)

lemma rel_createOrUpdate:
  assumes "\<And>x. state_io_rel R (apiUpdate K x)" and "\<And>x. state_io_rel R (apiCreate K x)"
  shows "state_io_rel R (createOrUpdate K y f)"
  unfolding createOrUpdate_def by (intro rel_bind rel_apiGet rel_sum rel_if rel_ret assms)

lemmas rel_intros = rel_ret rel_bind rel_sum rel_option rel_prod rel_if rel_chk rel_chkWrap
  rel_forEach rel_popFault rel_apiGet rel_apiListRaw rel_apiList rel_extCall rel_emit rel_retry rel_ignoreNotFound

end

text \<open>A frame: the part of the world that an action must not change.\<close>

locale world_frame =
  fixes proj :: "world \<Rightarrow> 'p"
  assumes proj_faults: "proj (w\<lparr>w_faults := fs\<rparr>) = proj w"
    and proj_events: "proj (w\<lparr>w_events := es\<rparr>) = proj w"
begin

definition same :: "world \<Rightarrow> world \<Rightarrow> bool" where
  "same w w' \<longleftrightarrow> proj w' = proj w"

end

sublocale world_frame \<subseteq> world_rel same
  by unfold_locales (simp_all add: same_def proj_faults proj_events)

section \<open>Weakest preconditions\<close>

definition wp :: "'a action \<Rightarrow> ('a \<Rightarrow> world \<Rightarrow> bool) \<Rightarrow> world \<Rightarrow> bool" where
  "wp m Q w \<longleftrightarrow> (case run_state m w of (a, w') \<Rightarrow> Q a w')"

lemma wp_ret [simp]: "wp (ret x) Q w \<longleftrightarrow> Q x w"
  by (simp add: wp_def)

lemma wp_bind [simp]: "wp (State_Monad.bind m f) Q w \<longleftrightarrow> wp m (\<lambda>x. wp (f x) Q) w"
  by (simp add: wp_def split: prod.splits)

lemma wp_chk [simp]: "wp (chk m f) Q w \<longleftrightarrow> wp m (\<lambda>r w'. case r of Inl e \<Rightarrow> Q (Inl e) w' | Inr x \<Rightarrow> wp (f x) Q w') w"
  by (simp add: chk_def) (simp add: wp_def split: prod.splits sum.splits)

lemma wp_chkWrap [simp]:
  "wp (chkWrap t m f) Q w \<longleftrightarrow> wp m (\<lambda>r w'. case r of Inl e \<Rightarrow> Q (Inl (wrapf t e)) w' | Inr x \<Rightarrow> wp (f x) Q w') w"
  by (simp add: chkWrap_def) (simp add: wp_def split: prod.splits sum.splits)

lemma wp_emit [simp]: "wp (emit a b) Q w \<longleftrightarrow> Q () (w\<lparr>w_events := w_events w @ [\<lparr>ev_object = a, ev_reason = b\<rparr>]\<rparr>)"
  by (simp add: wp_def emit_def)

lemma wp_if [simp]: "wp (if b then m else n) Q w \<longleftrightarrow> (if b then wp m Q w else wp n Q w)"
  by simp

lemma wp_mono: "wp m Q w \<Longrightarrow> (\<And>a w'. Q a w' \<Longrightarrow> P a w') \<Longrightarrow> wp m P w"
  by (auto simp: wp_def split: prod.splits)

lemma wp_any: "(\<And>x w'. Q x w') \<Longrightarrow> wp m Q w"
  by (simp add: wp_def split: prod.splits)

lemma wp_conj: "wp m Q w \<Longrightarrow> wp m P w \<Longrightarrow> wp m (\<lambda>a w'. Q a w' \<and> P a w') w"
  by (auto simp: wp_def)

lemma wp_io: "state_io_rel R m \<Longrightarrow> wp m (\<lambda>_. R w) w"
  by (auto simp: wp_def split: prod.splits)

lemma wp_run: "wp m Q w \<Longrightarrow> run_state m w = (a, w') \<Longrightarrow> Q a w'"
  by (simp add: wp_def)

lemma wp_snd: "wp m (\<lambda>_. P) w \<longleftrightarrow> P (snd (run_state m w))"
  by (simp add: wp_def split: prod.splits)

lemma wp_success: "wp m (\<lambda>r w'. \<forall>z. r = Inr z \<longrightarrow> Q z w') w \<Longrightarrow> fst (run_state m w) = Inr z \<Longrightarrow> Q z (snd (run_state m w))"
  by (cases "run_state m w") (simp add: wp_def)

lemma wp_popFault:
  "(\<And>f fs. Q f (w\<lparr>w_faults := fs\<rparr>)) \<Longrightarrow> wp popFault Q w"
proof -
  assume *: "\<And>f fs. Q f (w\<lparr>w_faults := fs\<rparr>)"
  have "w\<lparr>w_faults := w_faults w\<rparr> = w" by simp
  with * [of None "w_faults w"] have "Q None w" by metis
  with * show ?thesis by (auto simp: wp_def popFault_def split: list.splits)
qed

lemma wp_apiGet:
  assumes "\<And>e fs. Q (Inl e) (w\<lparr>w_faults := fs\<rparr>)"
    and "\<And>x fs. lookup K (w\<lparr>w_faults := fs\<rparr>) k = Some x \<Longrightarrow> Q (Inr x) (w\<lparr>w_faults := fs\<rparr>)"
  shows "wp (apiGet K k) Q w"
  unfolding apiGet_def wp_bind
  by (rule wp_popFault) (auto simp: assms wp_def split: option.splits)

text \<open>A not-found answer means that the object is not there.\<close>

lemma wp_apiGet_notFound:
  assumes "\<And>e fs. (err_kind e = NotFound \<Longrightarrow> lookup K (w\<lparr>w_faults := fs\<rparr>) k = None) \<Longrightarrow> Q (Inl e) (w\<lparr>w_faults := fs\<rparr>)"
    and "\<And>x fs. lookup K (w\<lparr>w_faults := fs\<rparr>) k = Some x \<Longrightarrow> Q (Inr x) (w\<lparr>w_faults := fs\<rparr>)"
  shows "wp (apiGet K k) Q w"
proof -
  have "err_kind (faultErr f) \<noteq> NotFound" for f by (cases f) (simp_all add: faultErr_def errorf_def)
  then show ?thesis
    unfolding apiGet_def wp_bind by (intro wp_popFault) (auto simp: wp_def intro!: assms split: option.splits)
qed

lemma wp_apiListRaw:
  assumes "\<And>e fs. Q (Inl e) (w\<lparr>w_faults := fs\<rparr>)"
    and "\<And>fs. Q (Inr (filter P (objs (w\<lparr>w_faults := fs\<rparr>)))) (w\<lparr>w_faults := fs\<rparr>)"
  shows "wp (apiListRaw objs P) Q w"
  unfolding apiListRaw_def wp_bind
  by (rule wp_popFault) (auto simp: assms wp_def split: option.splits)

lemma wp_apiList:
  assumes "\<And>e fs. Q (Inl e) (w\<lparr>w_faults := fs\<rparr>)"
    and "\<And>fs. Q (Inr (filter (inNamespace K ns) (k_objs K (w\<lparr>w_faults := fs\<rparr>)))) (w\<lparr>w_faults := fs\<rparr>)"
  shows "wp (apiList K ns) Q w"
  unfolding apiList_def by (rule wp_apiListRaw) (rule assms)+

lemma wp_faulty:
  assumes "\<And>e fs. Q (Inl e) (w\<lparr>w_faults := fs\<rparr>)"
    and "\<And>fs. wp m (\<lambda>r w'. Q r w' \<and> (\<forall>e. Q (Inl e) w')) (w\<lparr>w_faults := fs\<rparr>)"
  shows "wp (faulty m) Q w"
  unfolding faulty_def wp_bind answerLost_def
  apply (rule wp_popFault)
  subgoal for f fs
    using assms(2) [of fs] by (cases f) (auto simp: assms(1) elim: wp_mono split: fault.splits)
  done

lemma wp_storeWrite:
  assumes "\<And>e. Q (Inl e) w"
    and "\<And>s. lookup K w (keyOf K x) = Some s \<Longrightarrow> m_rv (k_meta K s) = m_rv (k_meta K x) \<Longrightarrow>
      Q (Inr (bumpRv K s (mg s x))) (replaceObj K (bumpRv K s (mg s x)) w)"
  shows "wp (storeWrite K mg x) Q w"
  using assms by (auto simp: wp_def storeWrite_def Let_def split: option.splits)

lemma wp_apiStatusUpdate:
  assumes "\<And>e fs. Q (Inl e) (w\<lparr>w_faults := fs\<rparr>)"
    and "\<And>s fs. lookup K (w\<lparr>w_faults := fs\<rparr>) (keyOf K x) = Some s \<Longrightarrow> m_rv (k_meta K s) = m_rv (k_meta K x) \<Longrightarrow>
      (let s' = bumpRv K s (k_mergeStatus K s x); w' = replaceObj K s' (w\<lparr>w_faults := fs\<rparr>)
       in Q (Inr s') w' \<and> (\<forall>e. Q (Inl e) w'))"
  shows "wp (apiStatusUpdate K x) Q w"
  unfolding apiStatusUpdate_def
  by (rule wp_faulty, rule assms, rule wp_storeWrite) (use assms in \<open>auto simp: Let_def\<close>)

lemma wp_apiUpdate:
  assumes "\<And>e fs. Q (Inl e) (w\<lparr>w_faults := fs\<rparr>)"
    and "\<And>s fs. lookup K (w\<lparr>w_faults := fs\<rparr>) (keyOf K x) = Some s \<Longrightarrow> m_rv (k_meta K s) = m_rv (k_meta K x) \<Longrightarrow>
      (let s' = bumpRv K s (k_mergeSpec K s x); w' = replaceObj K s' (w\<lparr>w_faults := fs\<rparr>)
       in Q (Inr s') w' \<and> (\<forall>e. Q (Inl e) w'))"
  shows "wp (apiUpdate K x) Q w"
  unfolding apiUpdate_def
  by (rule wp_faulty, rule assms, rule wp_storeWrite) (use assms in \<open>auto simp: Let_def\<close>)

text \<open>What holds after a success is passed on to the continuation.\<close>

lemma wp_chkI:
  assumes "wp m (\<lambda>r w'. \<forall>z. r = Inr z \<longrightarrow> P z w') w" and "\<And>z w'. P z w' \<Longrightarrow> wp (f z) (\<lambda>r w'. \<forall>z. r = Inr z \<longrightarrow> Q z w') w'"
  shows "wp (chk m f) (\<lambda>r w'. \<forall>z. r = Inr z \<longrightarrow> Q z w') w"
  unfolding wp_chk using assms(1) by (rule wp_mono) (auto split: sum.splits intro: assms(2))

text \<open>A loop keeps an invariant that each iteration keeps, errors included.\<close>

lemma wp_forEach:
  assumes step: "\<And>x s w. x \<in> set xs \<Longrightarrow> I w \<Longrightarrow> wp (f x s) (\<lambda>_. I) w"
    and "I w"
  shows "wp (forEach f xs s) (\<lambda>_. I) w"
  using assms
proof (induction xs arbitrary: s w)
  case Nil
  then show ?case by simp
next
  case (Cons x xs)
  have IH: "wp (forEach f xs s) (\<lambda>_. I) w" if "I w" for s w
    by (rule Cons.IH) (use Cons.prems that in auto)
  have "wp (f x s) (\<lambda>_. I) w" using Cons.prems by simp
  then show ?case
    by (simp, elim wp_mono) (auto intro: IH split: sum.splits)
qed

text \<open>A retried action keeps what each attempt keeps, and a success is the success of an attempt.\<close>

lemma wp_retry:
  assumes "\<And>w. I w \<Longrightarrow> wp m (\<lambda>x w'. I w' \<and> (\<forall>y. x = Inr y \<longrightarrow> Q y w')) w" and "I w"
  shows "wp (retryOnConflict n m) (\<lambda>x w'. I w' \<and> (\<forall>y. x = Inr y \<longrightarrow> Q y w')) w"
  using assms(2)
proof (induction n arbitrary: w)
  case 0
  then show ?case by (simp add: assms(1))
next
  case (Suc n)
  show ?case
    by (simp, rule wp_mono [OF assms(1) [OF Suc.prems]]) (auto intro: Suc.IH split: sum.splits)
qed

end
