(* ===== verification/Messages.thy ===== *)
theory Messages
  imports Prelude
begin

text \<open>
  The status messages of the operation controller, byte for byte (UTF-8). The first group
  holds the key words from which \<open>mapOperationFailureMessageToReason\<close> derives a reason.
\<close>

text \<open>unknown operation type\<close>

definition kwUnknownType :: "string" where
  "kwUnknownType =
     [CHR 0xE6, CHR 0x9C, CHR 0xAA, CHR 0xE7, CHR 0x9F, CHR 0xA5, CHR 0xE7, CHR 0x9A, CHR 0x84,
     CHR 0xE6, CHR 0x93, CHR 0x8D, CHR 0xE4, CHR 0xBD, CHR 0x9C, CHR 0xE7, CHR 0xB1, CHR 0xBB,
     CHR 0xE5, CHR 0x9E, CHR 0x8B]"

text \<open>not found\<close>

definition kwNotFound :: "string" where
  "kwNotFound =
     [CHR 0xE6, CHR 0x9C, CHR 0xAA, CHR 0xE6, CHR 0x89, CHR 0xBE, CHR 0xE5, CHR 0x88, CHR 0xB0]"

text \<open>timed out\<close>

definition kwTimeout :: "string" where
  "kwTimeout =
     [CHR 0xE8, CHR 0xB6, CHR 0x85, CHR 0xE6, CHR 0x97, CHR 0xB6]"

text \<open>sync failed\<close>

definition kwSyncFailed :: "string" where
  "kwSyncFailed =
     [CHR 0xE5, CHR 0x90, CHR 0x8C, CHR 0xE6, CHR 0xAD, CHR 0xA5, CHR 0xE5, CHR 0xA4, CHR 0xB1,
     CHR 0xE8, CHR 0xB4, CHR 0xA5]"

text \<open>cannot connect\<close>

definition kwCannotConnect :: "string" where
  "kwCannotConnect =
     [CHR 0xE6, CHR 0x97, CHR 0xA0, CHR 0xE6, CHR 0xB3, CHR 0x95, CHR 0xE8, CHR 0xBF, CHR 0x9E,
     CHR 0xE6, CHR 0x8E, CHR 0xA5]"

text \<open>must be in\<close>

definition kwMustBeIn :: "string" where
  "kwMustBeIn =
     [CHR 0xE5, CHR 0xBF, CHR 0x85, CHR 0xE9, CHR 0xA1, CHR 0xBB, CHR 0xE5, CHR 0x9C, CHR 0xA8]"

text \<open>cannot run\<close>

definition kwCannotRun :: "string" where
  "kwCannotRun =
     [CHR 0xE6, CHR 0x97, CHR 0xA0, CHR 0xE6, CHR 0xB3, CHR 0x95, CHR 0xE6, CHR 0x89, CHR 0xA7,
     CHR 0xE8, CHR 0xA1, CHR 0x8C]"

text \<open>failed\<close>

definition kwFailed :: "string" where
  "kwFailed =
     [CHR 0xE5, CHR 0xA4, CHR 0xB1, CHR 0xE8, CHR 0xB4, CHR 0xA5]"

text \<open>DisasterInstance not found\<close>

definition msgInstanceNotFound :: "string" where
  "msgInstanceNotFound =
     ''DisasterInstance '' @ [CHR 0xE6, CHR 0x9C, CHR 0xAA, CHR 0xE6, CHR 0x89, CHR 0xBE, CHR 0xE5,
     CHR 0x88, CHR 0xB0]"

text \<open>done\<close>

definition msgDone :: "string" where
  "msgDone =
     [CHR 0xE5, CHR 0xB7, CHR 0xB2, CHR 0xE5, CHR 0xAE, CHR 0x8C, CHR 0xE6, CHR 0x88, CHR 0x90]"

text \<open>execution failed: err\<close>

definition msgStepExecFailed :: "string \<Rightarrow> string" where
  "msgStepExecFailed a =
     [CHR 0xE6, CHR 0x89, CHR 0xA7, CHR 0xE8, CHR 0xA1, CHR 0x8C, CHR 0xE5, CHR 0xA4, CHR 0xB1,
     CHR 0xE8, CHR 0xB4, CHR 0xA5] @ '': '' @ a"

text \<open>step s failed: err\<close>

definition msgStepFailed :: "string \<Rightarrow> string \<Rightarrow> string" where
  "msgStepFailed a b =
     [CHR 0xE6, CHR 0xAD, CHR 0xA5, CHR 0xE9, CHR 0xAA, CHR 0xA4] @ '' '' @ a @ '' '' @ [CHR 0xE6,
     CHR 0x89, CHR 0xA7, CHR 0xE8, CHR 0xA1, CHR 0x8C, CHR 0xE5, CHR 0xA4, CHR 0xB1, CHR 0xE8,
     CHR 0xB4, CHR 0xA5] @ '': '' @ b"

text \<open>step s failed, no compensation at this stage, manual intervention: err\<close>

definition msgNoAutoCancel :: "string \<Rightarrow> string \<Rightarrow> string" where
  "msgNoAutoCancel a b =
     [CHR 0xE6, CHR 0xAD, CHR 0xA5, CHR 0xE9, CHR 0xAA, CHR 0xA4] @ '' '' @ a @ '' '' @ [CHR 0xE5,
     CHR 0xA4, CHR 0xB1, CHR 0xE8, CHR 0xB4, CHR 0xA5, CHR 0xEF, CHR 0xBC, CHR 0x8C, CHR 0xE5,
     CHR 0xBD, CHR 0x93, CHR 0xE5, CHR 0x89, CHR 0x8D, CHR 0xE9, CHR 0x98, CHR 0xB6, CHR 0xE6,
     CHR 0xAE, CHR 0xB5, CHR 0xE4, CHR 0xB8, CHR 0x8D, CHR 0xE6, CHR 0x94, CHR 0xAF, CHR 0xE6,
     CHR 0x8C, CHR 0x81, CHR 0xE8, CHR 0x87, CHR 0xAA, CHR 0xE5, CHR 0x8A, CHR 0xA8, CHR 0xE8,
     CHR 0xA1, CHR 0xA5, CHR 0xE5, CHR 0x81, CHR 0xBF, CHR 0xEF, CHR 0xBC, CHR 0x8C, CHR 0xE8,
     CHR 0xAF, CHR 0xB7, CHR 0xE4, CHR 0xBA, CHR 0xBA, CHR 0xE5, CHR 0xB7, CHR 0xA5, CHR 0xE4,
     CHR 0xBB, CHR 0x8B, CHR 0xE5, CHR 0x85, CHR 0xA5] @ '': '' @ b"

text \<open>step s failed, instance set back to Protected: err\<close>

definition msgDirectRollback :: "string \<Rightarrow> string \<Rightarrow> string" where
  "msgDirectRollback a b =
     [CHR 0xE6, CHR 0xAD, CHR 0xA5, CHR 0xE9, CHR 0xAA, CHR 0xA4] @ '' '' @ a @ '' '' @ [CHR 0xE5,
     CHR 0xA4, CHR 0xB1, CHR 0xE8, CHR 0xB4, CHR 0xA5, CHR 0xEF, CHR 0xBC, CHR 0x8C, CHR 0xE7,
     CHR 0xB3, CHR 0xBB, CHR 0xE7, CHR 0xBB, CHR 0x9F, CHR 0xE5, CHR 0xB7, CHR 0xB2, CHR 0xE8,
     CHR 0x87, CHR 0xAA, CHR 0xE5, CHR 0x8A, CHR 0xA8, CHR 0xE8, CHR 0xA1, CHR 0xA5, CHR 0xE5,
     CHR 0x81, CHR 0xBF, CHR 0xE5, CHR 0xB9, CHR 0xB6, CHR 0xE5, CHR 0xB0, CHR 0x86, CHR 0xE5,
     CHR 0xAE, CHR 0x9E, CHR 0xE4, CHR 0xBE, CHR 0x8B, CHR 0xE5, CHR 0x9B, CHR 0x9E, CHR 0xE7,
     CHR 0xBD, CHR 0xAE, CHR 0xE4, CHR 0xB8, CHR 0xBA] @ '' Protected: '' @ b"

text \<open>step s failed, compensation triggered: err\<close>

definition msgAutoCancelStarted :: "string \<Rightarrow> string \<Rightarrow> string" where
  "msgAutoCancelStarted a b =
     [CHR 0xE6, CHR 0xAD, CHR 0xA5, CHR 0xE9, CHR 0xAA, CHR 0xA4] @ '' '' @ a @ '' '' @ [CHR 0xE5,
     CHR 0xA4, CHR 0xB1, CHR 0xE8, CHR 0xB4, CHR 0xA5, CHR 0xEF, CHR 0xBC, CHR 0x8C, CHR 0xE5,
     CHR 0xB7, CHR 0xB2, CHR 0xE8, CHR 0xA7, CHR 0xA6, CHR 0xE5, CHR 0x8F, CHR 0x91, CHR 0xE8,
     CHR 0x87, CHR 0xAA, CHR 0xE5, CHR 0x8A, CHR 0xA8, CHR 0xE8, CHR 0xA1, CHR 0xA5, CHR 0xE5,
     CHR 0x81, CHR 0xBF] @ '': '' @ b"

text \<open>compensation after failure in step s failed in step t: err\<close>

definition msgAutoCancelFailed :: "string \<Rightarrow> string \<Rightarrow> string \<Rightarrow> string" where
  "msgAutoCancelFailed a b c =
     [CHR 0xE6, CHR 0x95, CHR 0x85, CHR 0xE9, CHR 0x9A, CHR 0x9C, CHR 0xE5, CHR 0x88, CHR 0x87,
     CHR 0xE6, CHR 0x8D, CHR 0xA2, CHR 0xE5, CHR 0x9C, CHR 0xA8, CHR 0xE6, CHR 0xAD, CHR 0xA5,
     CHR 0xE9, CHR 0xAA, CHR 0xA4] @ '' '' @ a @ '' '' @ [CHR 0xE5, CHR 0xA4, CHR 0xB1, CHR 0xE8,
     CHR 0xB4, CHR 0xA5, CHR 0xE5, CHR 0x90, CHR 0x8E, CHR 0xE8, CHR 0xA7, CHR 0xA6, CHR 0xE5,
     CHR 0x8F, CHR 0x91, CHR 0xE7, CHR 0x9A, CHR 0x84, CHR 0xE8, CHR 0x87, CHR 0xAA, CHR 0xE5,
     CHR 0x8A, CHR 0xA8, CHR 0xE8, CHR 0xA1, CHR 0xA5, CHR 0xE5, CHR 0x81, CHR 0xBF, CHR 0xE5,
     CHR 0xA4, CHR 0xB1, CHR 0xE8, CHR 0xB4, CHR 0xA5, CHR 0xEF, CHR 0xBC, CHR 0x8C, CHR 0xE8,
     CHR 0xA1, CHR 0xA5, CHR 0xE5, CHR 0x81, CHR 0xBF, CHR 0xE6, CHR 0xAD, CHR 0xA5, CHR 0xE9,
     CHR 0xAA, CHR 0xA4] @ '' '' @ b @ '' '' @ [CHR 0xE5, CHR 0x87, CHR 0xBA, CHR 0xE9, CHR 0x94,
     CHR 0x99] @ '': '' @ c"

text \<open>compensated after failure in step s, instance is back to f\<close>

definition msgAutoCancelDone :: "string \<Rightarrow> string \<Rightarrow> string" where
  "msgAutoCancelDone a b =
     [CHR 0xE6, CHR 0x95, CHR 0x85, CHR 0xE9, CHR 0x9A, CHR 0x9C, CHR 0xE5, CHR 0x88, CHR 0x87,
     CHR 0xE6, CHR 0x8D, CHR 0xA2, CHR 0xE5, CHR 0x9C, CHR 0xA8, CHR 0xE6, CHR 0xAD, CHR 0xA5,
     CHR 0xE9, CHR 0xAA, CHR 0xA4] @ '' '' @ a @ '' '' @ [CHR 0xE5, CHR 0xA4, CHR 0xB1, CHR 0xE8,
     CHR 0xB4, CHR 0xA5, CHR 0xE5, CHR 0x90, CHR 0x8E, CHR 0xE5, CHR 0xB7, CHR 0xB2, CHR 0xE8,
     CHR 0x87, CHR 0xAA, CHR 0xE5, CHR 0x8A, CHR 0xA8, CHR 0xE8, CHR 0xA1, CHR 0xA5, CHR 0xE5,
     CHR 0x81, CHR 0xBF, CHR 0xEF, CHR 0xBC, CHR 0x8C, CHR 0xE5, CHR 0xAE, CHR 0x9E, CHR 0xE4,
     CHR 0xBE, CHR 0x8B, CHR 0xE5, CHR 0xB7, CHR 0xB2, CHR 0xE6, CHR 0x81, CHR 0xA2, CHR 0xE5,
     CHR 0xA4, CHR 0x8D, CHR 0xE4, CHR 0xB8, CHR 0xBA] @ '' '' @ b"

text \<open>compensation step t started after failure in s\<close>

definition msgAcStepStarted :: "string \<Rightarrow> string \<Rightarrow> string" where
  "msgAcStepStarted a b =
     [CHR 0xE6, CHR 0x95, CHR 0x85, CHR 0xE9, CHR 0x9A, CHR 0x9C, CHR 0xE5, CHR 0x88, CHR 0x87,
     CHR 0xE6, CHR 0x8D, CHR 0xA2, CHR 0xE5, CHR 0x9C, CHR 0xA8, CHR 0xE6, CHR 0xAD, CHR 0xA5,
     CHR 0xE9, CHR 0xAA, CHR 0xA4] @ '' '' @ a @ '' '' @ [CHR 0xE5, CHR 0xA4, CHR 0xB1, CHR 0xE8,
     CHR 0xB4, CHR 0xA5, CHR 0xE5, CHR 0x90, CHR 0x8E, CHR 0xEF, CHR 0xBC, CHR 0x8C, CHR 0xE8,
     CHR 0x87, CHR 0xAA, CHR 0xE5, CHR 0x8A, CHR 0xA8, CHR 0xE8, CHR 0xA1, CHR 0xA5, CHR 0xE5,
     CHR 0x81, CHR 0xBF, CHR 0xE6, CHR 0xAD, CHR 0xA5, CHR 0xE9, CHR 0xAA, CHR 0xA4] @ '' '' @ b @
     '' '' @ [CHR 0xE5, CHR 0xB7, CHR 0xB2, CHR 0xE5, CHR 0xBC, CHR 0x80, CHR 0xE5, CHR 0xA7,
     CHR 0x8B]"

text \<open>compensation step t running after failure in s: m\<close>

definition msgAcStepRunning :: "string \<Rightarrow> string \<Rightarrow> string \<Rightarrow> string" where
  "msgAcStepRunning a b c =
     [CHR 0xE6, CHR 0x95, CHR 0x85, CHR 0xE9, CHR 0x9A, CHR 0x9C, CHR 0xE5, CHR 0x88, CHR 0x87,
     CHR 0xE6, CHR 0x8D, CHR 0xA2, CHR 0xE5, CHR 0x9C, CHR 0xA8, CHR 0xE6, CHR 0xAD, CHR 0xA5,
     CHR 0xE9, CHR 0xAA, CHR 0xA4] @ '' '' @ a @ '' '' @ [CHR 0xE5, CHR 0xA4, CHR 0xB1, CHR 0xE8,
     CHR 0xB4, CHR 0xA5, CHR 0xE5, CHR 0x90, CHR 0x8E, CHR 0xEF, CHR 0xBC, CHR 0x8C, CHR 0xE8,
     CHR 0x87, CHR 0xAA, CHR 0xE5, CHR 0x8A, CHR 0xA8, CHR 0xE8, CHR 0xA1, CHR 0xA5, CHR 0xE5,
     CHR 0x81, CHR 0xBF, CHR 0xE6, CHR 0xAD, CHR 0xA5, CHR 0xE9, CHR 0xAA, CHR 0xA4] @ '' '' @ b @
     '' '' @ [CHR 0xE8, CHR 0xBF, CHR 0x9B, CHR 0xE8, CHR 0xA1, CHR 0x8C, CHR 0xE4, CHR 0xB8,
     CHR 0xAD] @ '': '' @ c"

text \<open>compensation step t done after failure in s\<close>

definition msgAcStepDone :: "string \<Rightarrow> string \<Rightarrow> string" where
  "msgAcStepDone a b =
     [CHR 0xE6, CHR 0x95, CHR 0x85, CHR 0xE9, CHR 0x9A, CHR 0x9C, CHR 0xE5, CHR 0x88, CHR 0x87,
     CHR 0xE6, CHR 0x8D, CHR 0xA2, CHR 0xE5, CHR 0x9C, CHR 0xA8, CHR 0xE6, CHR 0xAD, CHR 0xA5,
     CHR 0xE9, CHR 0xAA, CHR 0xA4] @ '' '' @ a @ '' '' @ [CHR 0xE5, CHR 0xA4, CHR 0xB1, CHR 0xE8,
     CHR 0xB4, CHR 0xA5, CHR 0xE5, CHR 0x90, CHR 0x8E, CHR 0xEF, CHR 0xBC, CHR 0x8C, CHR 0xE8,
     CHR 0x87, CHR 0xAA, CHR 0xE5, CHR 0x8A, CHR 0xA8, CHR 0xE8, CHR 0xA1, CHR 0xA5, CHR 0xE5,
     CHR 0x81, CHR 0xBF, CHR 0xE6, CHR 0xAD, CHR 0xA5, CHR 0xE9, CHR 0xAA, CHR 0xA4] @ '' '' @ b @
     '' '' @ [CHR 0xE5, CHR 0xB7, CHR 0xB2, CHR 0xE5, CHR 0xAE, CHR 0x8C, CHR 0xE6, CHR 0x88,
     CHR 0x90]"

text \<open>taken over by type(name), the current type is stopped\<close>

definition msgSuperseded :: "string \<Rightarrow> string \<Rightarrow> string \<Rightarrow> string" where
  "msgSuperseded a b c =
     [CHR 0xE6, CHR 0x93, CHR 0x8D, CHR 0xE4, CHR 0xBD, CHR 0x9C, CHR 0xE8, CHR 0xA2, CHR 0xAB] @
     '' '' @ a @ ''('' @ b @ '') '' @ [CHR 0xE6, CHR 0x8E, CHR 0xA5, CHR 0xE7, CHR 0xAE, CHR 0xA1,
     CHR 0xEF, CHR 0xBC, CHR 0x8C, CHR 0xE5, CHR 0xBD, CHR 0x93, CHR 0xE5, CHR 0x89, CHR 0x8D] @
     '' '' @ c @ '' '' @ [CHR 0xE6, CHR 0xB5, CHR 0x81, CHR 0xE7, CHR 0xA8, CHR 0x8B, CHR 0xE7,
     CHR 0xBB, CHR 0x88, CHR 0xE6, CHR 0xAD, CHR 0xA2]"

text \<open>instance i already has the failover o in state s, refused\<close>

definition msgConcurrentFailover :: "string \<Rightarrow> string \<Rightarrow> string \<Rightarrow> string" where
  "msgConcurrentFailover a b c =
     [CHR 0xE5, CHR 0xAE, CHR 0x9E, CHR 0xE4, CHR 0xBE, CHR 0x8B] @ '' '' @ a @ '' '' @ [CHR 0xE5,
     CHR 0xB7, CHR 0xB2, CHR 0xE5, CHR 0xAD, CHR 0x98, CHR 0xE5, CHR 0x9C, CHR 0xA8, CHR 0xE8,
     CHR 0xBF, CHR 0x9B, CHR 0xE8, CHR 0xA1, CHR 0x8C, CHR 0xE4, CHR 0xB8, CHR 0xAD, CHR 0xE7,
     CHR 0x9A, CHR 0x84] @ '' failover '' @ [CHR 0xE6, CHR 0x93, CHR 0x8D, CHR 0xE4, CHR 0xBD,
     CHR 0x9C] @ '' '' @ b @ '' (state='' @ c @ '')'' @ [CHR 0xEF, CHR 0xBC, CHR 0x8C, CHR 0xE6,
     CHR 0x8B, CHR 0x92, CHR 0xE7, CHR 0xBB, CHR 0x9D, CHR 0xE5, CHR 0xB9, CHR 0xB6, CHR 0xE5,
     CHR 0x8F, CHR 0x91, CHR 0xE6, CHR 0x89, CHR 0xA7, CHR 0xE8, CHR 0xA1, CHR 0x8C]"

text \<open>instance is in state f, failover impossible\<close>

definition msgFailoverState :: "string \<Rightarrow> string" where
  "msgFailoverState a =
     [CHR 0xE5, CHR 0xAE, CHR 0x9E, CHR 0xE4, CHR 0xBE, CHR 0x8B, CHR 0xE5, CHR 0xA4, CHR 0x84,
     CHR 0xE4, CHR 0xBA, CHR 0x8E] @ '' '' @ a @ '' '' @ [CHR 0xE7, CHR 0x8A, CHR 0xB6, CHR 0xE6,
     CHR 0x80, CHR 0x81, CHR 0xEF, CHR 0xBC, CHR 0x8C, CHR 0xE6, CHR 0x97, CHR 0xA0, CHR 0xE6,
     CHR 0xB3, CHR 0x95, CHR 0xE6, CHR 0x89, CHR 0xA7, CHR 0xE8, CHR 0xA1, CHR 0x8C, CHR 0xE6,
     CHR 0x95, CHR 0x85, CHR 0xE9, CHR 0x9A, CHR 0x9C, CHR 0xE5, CHR 0x88, CHR 0x87, CHR 0xE6,
     CHR 0x8D, CHR 0xA2, CHR 0xEF, CHR 0xBC, CHR 0x88, CHR 0xE5, CHR 0xBF, CHR 0x85, CHR 0xE9,
     CHR 0xA1, CHR 0xBB, CHR 0xE4, CHR 0xB8, CHR 0xBA] @ '' Protected '' @ [CHR 0xE6, CHR 0x88,
     CHR 0x96] @ '' FailingOver'' @ [CHR 0xEF, CHR 0xBC, CHR 0x89]"

text \<open>failover completed\<close>

definition msgFailoverDone :: "string" where
  "msgFailoverDone =
     [CHR 0xE6, CHR 0x95, CHR 0x85, CHR 0xE9, CHR 0x9A, CHR 0x9C, CHR 0xE5, CHR 0x88, CHR 0x87,
     CHR 0xE6, CHR 0x8D, CHR 0xA2, CHR 0xE6, CHR 0x88, CHR 0x90, CHR 0xE5, CHR 0x8A, CHR 0x9F,
     CHR 0xE5, CHR 0xAE, CHR 0x8C, CHR 0xE6, CHR 0x88, CHR 0x90]"

text \<open>instance is in state f, reprotect impossible\<close>

definition msgReprotectState :: "string \<Rightarrow> string" where
  "msgReprotectState a =
     [CHR 0xE5, CHR 0xAE, CHR 0x9E, CHR 0xE4, CHR 0xBE, CHR 0x8B, CHR 0xE5, CHR 0xA4, CHR 0x84,
     CHR 0xE4, CHR 0xBA, CHR 0x8E] @ '' '' @ a @ '' '' @ [CHR 0xE7, CHR 0x8A, CHR 0xB6, CHR 0xE6,
     CHR 0x80, CHR 0x81, CHR 0xEF, CHR 0xBC, CHR 0x8C, CHR 0xE6, CHR 0x97, CHR 0xA0, CHR 0xE6,
     CHR 0xB3, CHR 0x95, CHR 0xE6, CHR 0x89, CHR 0xA7, CHR 0xE8, CHR 0xA1, CHR 0x8C, CHR 0xE5,
     CHR 0x9B, CHR 0x9E, CHR 0xE5, CHR 0x88, CHR 0x87, CHR 0xEF, CHR 0xBC, CHR 0x88, CHR 0xE5,
     CHR 0xBF, CHR 0x85, CHR 0xE9, CHR 0xA1, CHR 0xBB, CHR 0xE4, CHR 0xB8, CHR 0xBA] @ '' Active'' @
     [CHR 0xEF, CHR 0xBC, CHR 0x89]"

text \<open>step s timed out: m\<close>

definition msgStepTimeout :: "string \<Rightarrow> string \<Rightarrow> string" where
  "msgStepTimeout a b =
     [CHR 0xE6, CHR 0xAD, CHR 0xA5, CHR 0xE9, CHR 0xAA, CHR 0xA4] @ '' '' @ a @ '' '' @ [CHR 0xE8,
     CHR 0xB6, CHR 0x85, CHR 0xE6, CHR 0x97, CHR 0xB6] @ '': '' @ b"

text \<open>reprotect completed\<close>

definition msgReprotectDone :: "string" where
  "msgReprotectDone =
     [CHR 0xE5, CHR 0x8F, CHR 0x8D, CHR 0xE5, CHR 0x90, CHR 0x91, CHR 0xE4, CHR 0xBF, CHR 0x9D,
     CHR 0xE6, CHR 0x8A, CHR 0xA4, CHR 0xE6, CHR 0x88, CHR 0x90, CHR 0xE5, CHR 0x8A, CHR 0x9F,
     CHR 0xE5, CHR 0xAE, CHR 0x8C, CHR 0xE6, CHR 0x88, CHR 0x90] @ '' ('' @ [CHR 0xE5, CHR 0x8F,
     CHR 0x8D, CHR 0xE5, CHR 0x90, CHR 0x91, CHR 0xE5, CHR 0x90, CHR 0x8C, CHR 0xE6, CHR 0xAD,
     CHR 0xA5, CHR 0xE5, CHR 0xB7, CHR 0xB2, CHR 0xE5, CHR 0xBB, CHR 0xBA, CHR 0xE7, CHR 0xAB,
     CHR 0x8B] @ '')''"

text \<open>sync paused\<close>

definition msgPaused :: "string" where
  "msgPaused =
     [CHR 0xE5, CHR 0x90, CHR 0x8C, CHR 0xE6, CHR 0xAD, CHR 0xA5, CHR 0xE5, CHR 0xB7, CHR 0xB2,
     CHR 0xE6, CHR 0x9A, CHR 0x82, CHR 0xE5, CHR 0x81, CHR 0x9C]"

text \<open>sync resumed\<close>

definition msgResumed :: "string" where
  "msgResumed =
     [CHR 0xE5, CHR 0x90, CHR 0x8C, CHR 0xE6, CHR 0xAD, CHR 0xA5, CHR 0xE5, CHR 0xB7, CHR 0xB2,
     CHR 0xE6, CHR 0x81, CHR 0xA2, CHR 0xE5, CHR 0xA4, CHR 0x8D]"

text \<open>undo needs Active or FailingOver\<close>

definition msgUndoState :: "string \<Rightarrow> string" where
  "msgUndoState a =
     [CHR 0xE5, CHR 0xBF, CHR 0x85, CHR 0xE9, CHR 0xA1, CHR 0xBB, CHR 0xE5, CHR 0x9C, CHR 0xA8] @
     '' Active '' @ [CHR 0xE6, CHR 0x88, CHR 0x96] @ '' FailingOver '' @ [CHR 0xE7, CHR 0x8A,
     CHR 0xB6, CHR 0xE6, CHR 0x80, CHR 0x81, CHR 0xE4, CHR 0xB8, CHR 0x8B, CHR 0xE6, CHR 0x89,
     CHR 0x8D, CHR 0xE8, CHR 0x83, CHR 0xBD] @ '' Undo ('' @ [CHR 0xE5, CHR 0xBD, CHR 0x93, CHR 0xE5,
     CHR 0x89, CHR 0x8D] @ '': '' @ a @ '')''"

text \<open>undo completed\<close>

definition msgUndoDone :: "string" where
  "msgUndoDone =
     [CHR 0xE6, CHR 0x92, CHR 0xA4, CHR 0xE9, CHR 0x94, CHR 0x80, CHR 0xE5, CHR 0x88, CHR 0x87,
     CHR 0xE6, CHR 0x8D, CHR 0xA2, CHR 0xE6, CHR 0x88, CHR 0x90, CHR 0xE5, CHR 0x8A, CHR 0x9F,
     CHR 0xE5, CHR 0xAE, CHR 0x8C, CHR 0xE6, CHR 0x88, CHR 0x90] @ '' ('' @ [CHR 0xE5, CHR 0x8E,
     CHR 0x9F, CHR 0xE9, CHR 0x9B, CHR 0x86, CHR 0xE7, CHR 0xBE, CHR 0xA4, CHR 0xE5, CHR 0xB7,
     CHR 0xB2, CHR 0xE6, CHR 0x81, CHR 0xA2, CHR 0xE5, CHR 0xA4, CHR 0x8D] @ '')''"

text \<open>cancel needs FailingOver or Failed\<close>

definition msgCancelState :: "string \<Rightarrow> string" where
  "msgCancelState a =
     [CHR 0xE5, CHR 0xBF, CHR 0x85, CHR 0xE9, CHR 0xA1, CHR 0xBB, CHR 0xE5, CHR 0x9C, CHR 0xA8] @
     '' FailingOver '' @ [CHR 0xE6, CHR 0x88, CHR 0x96] @ '' Failed '' @ [CHR 0xE7, CHR 0x8A,
     CHR 0xB6, CHR 0xE6, CHR 0x80, CHR 0x81, CHR 0xE4, CHR 0xB8, CHR 0x8B, CHR 0xE6, CHR 0x89,
     CHR 0x8D, CHR 0xE8, CHR 0x83, CHR 0xBD] @ '' Cancel ('' @ [CHR 0xE5, CHR 0xBD, CHR 0x93,
     CHR 0xE5, CHR 0x89, CHR 0x8D] @ '': '' @ a @ '')''"

text \<open>already Protected, but resuming the schedules failed\<close>

definition msgCancelResumeFailed :: "string \<Rightarrow> string" where
  "msgCancelResumeFailed a =
     [CHR 0xE5, CHR 0xAE, CHR 0x9E, CHR 0xE4, CHR 0xBE, CHR 0x8B, CHR 0xE5, CHR 0xB7, CHR 0xB2,
     CHR 0xE5, CHR 0xA4, CHR 0x84, CHR 0xE4, CHR 0xBA, CHR 0x8E] @ '' Protected'' @ [CHR 0xEF,
     CHR 0xBC, CHR 0x8C, CHR 0xE4, CHR 0xBD, CHR 0x86, CHR 0xE6, CHR 0x81, CHR 0xA2, CHR 0xE5,
     CHR 0xA4, CHR 0x8D, CHR 0xE5, CHR 0x90, CHR 0x8C, CHR 0xE6, CHR 0xAD, CHR 0xA5, CHR 0xE8,
     CHR 0xB0, CHR 0x83, CHR 0xE5, CHR 0xBA, CHR 0xA6, CHR 0xE5, CHR 0xA4, CHR 0xB1, CHR 0xE8,
     CHR 0xB4, CHR 0xA5] @ '': '' @ a"

text \<open>already Protected, cancel is complete\<close>

definition msgCancelIdempotent :: "string" where
  "msgCancelIdempotent =
     [CHR 0xE5, CHR 0xAE, CHR 0x9E, CHR 0xE4, CHR 0xBE, CHR 0x8B, CHR 0xE5, CHR 0xB7, CHR 0xB2,
     CHR 0xE5, CHR 0xA4, CHR 0x84, CHR 0xE4, CHR 0xBA, CHR 0x8E] @ '' Protected'' @ [CHR 0xEF,
     CHR 0xBC, CHR 0x8C] @ ''Cancel '' @ [CHR 0xE5, CHR 0xB7, CHR 0xB2, CHR 0xE6, CHR 0x8C, CHR 0x89,
     CHR 0xE5, CHR 0xB9, CHR 0x82, CHR 0xE7, CHR 0xAD, CHR 0x89, CHR 0xE6, CHR 0x93, CHR 0x8D,
     CHR 0xE4, CHR 0xBD, CHR 0x9C, CHR 0xE5, CHR 0xAE, CHR 0x8C, CHR 0xE6, CHR 0x88, CHR 0x90]"

text \<open>step timed out (waited d, limit n minutes)\<close>

definition msgTimeoutBase :: "string \<Rightarrow> string \<Rightarrow> string" where
  "msgTimeoutBase a b =
     [CHR 0xE6, CHR 0xAD, CHR 0xA5, CHR 0xE9, CHR 0xAA, CHR 0xA4, CHR 0xE8, CHR 0xB6, CHR 0x85,
     CHR 0xE6, CHR 0x97, CHR 0xB6] @ '' ('' @ [CHR 0xE5, CHR 0xB7, CHR 0xB2, CHR 0xE7, CHR 0xAD,
     CHR 0x89, CHR 0xE5, CHR 0xBE, CHR 0x85] @ '' '' @ a @ [CHR 0xEF, CHR 0xBC, CHR 0x8C, CHR 0xE8,
     CHR 0xB6, CHR 0x85, CHR 0xE6, CHR 0x97, CHR 0xB6, CHR 0xE8, CHR 0xAE, CHR 0xBE, CHR 0xE7,
     CHR 0xBD, CHR 0xAE] @ '' '' @ b @ '' '' @ [CHR 0xE5, CHR 0x88, CHR 0x86, CHR 0xE9, CHR 0x92,
     CHR 0x9F] @ '')''"

text \<open>step timed out\<close>

definition msgTimeoutPrefix :: "string" where
  "msgTimeoutPrefix =
     [CHR 0xE6, CHR 0xAD, CHR 0xA5, CHR 0xE9, CHR 0xAA, CHR 0xA4, CHR 0xE8, CHR 0xB6, CHR 0x85,
     CHR 0xE6, CHR 0x97, CHR 0xB6]"

text \<open>base; blocked by: detail\<close>

definition msgTimeoutDetail :: "string \<Rightarrow> string \<Rightarrow> string" where
  "msgTimeoutDetail a b =
     a @ [CHR 0xEF, CHR 0xBC, CHR 0x9B, CHR 0xE9, CHR 0x98, CHR 0xBB, CHR 0xE5, CHR 0xA1, CHR 0x9E,
     CHR 0xE8, CHR 0xAF, CHR 0xA6, CHR 0xE6, CHR 0x83, CHR 0x85] @ '': '' @ b"

text \<open>trigger failed, will retry\<close>

definition msgSyncTriggerFailed :: "string \<Rightarrow> string" where
  "msgSyncTriggerFailed a =
     [CHR 0xE5, CHR 0x90, CHR 0x8C, CHR 0xE6, CHR 0xAD, CHR 0xA5, CHR 0xE8, CHR 0xA7, CHR 0xA6,
     CHR 0xE5, CHR 0x8F, CHR 0x91, CHR 0xE5, CHR 0xA4, CHR 0xB1, CHR 0xE8, CHR 0xB4, CHR 0xA5,
     CHR 0xEF, CHR 0xBC, CHR 0x8C, CHR 0xE7, CHR 0xAD, CHR 0x89, CHR 0xE5, CHR 0xBE, CHR 0x85,
     CHR 0xE9, CHR 0x87, CHR 0x8D, CHR 0xE8, CHR 0xAF, CHR 0x95] @ '': '' @ a"

text \<open>sync triggered at t, waiting\<close>

definition msgSyncTriggered :: "string \<Rightarrow> string" where
  "msgSyncTriggered a =
     [CHR 0xE5, CHR 0x90, CHR 0x8C, CHR 0xE6, CHR 0xAD, CHR 0xA5, CHR 0xE5, CHR 0xB7, CHR 0xB2,
     CHR 0xE4, CHR 0xBA, CHR 0x8E] @ '' '' @ a @ '' '' @ [CHR 0xE8, CHR 0xA7, CHR 0xA6, CHR 0xE5,
     CHR 0x8F, CHR 0x91, CHR 0xEF, CHR 0xBC, CHR 0x8C, CHR 0xE7, CHR 0xAD, CHR 0x89, CHR 0xE5,
     CHR 0xBE, CHR 0x85, CHR 0xE5, CHR 0xAE, CHR 0x8C, CHR 0xE6, CHR 0x88, CHR 0x90] @ ''...''"

text \<open>sync failed, retry in d (n/m)\<close>

definition msgSyncRetry :: "string \<Rightarrow> string \<Rightarrow> string \<Rightarrow> string \<Rightarrow> string" where
  "msgSyncRetry a b c d =
     [CHR 0xE5, CHR 0x90, CHR 0x8C, CHR 0xE6, CHR 0xAD, CHR 0xA5, CHR 0xE5, CHR 0xA4, CHR 0xB1,
     CHR 0xE8, CHR 0xB4, CHR 0xA5] @ '' ('' @ a @ '')'' @ [CHR 0xEF, CHR 0xBC, CHR 0x8C, CHR 0xE5,
     CHR 0xB0, CHR 0x86, CHR 0xE5, CHR 0x9C, CHR 0xA8] @ '' '' @ b @ '' '' @ [CHR 0xE5, CHR 0x90,
     CHR 0x8E, CHR 0xE9, CHR 0x87, CHR 0x8D, CHR 0xE8, CHR 0xAF, CHR 0x95] @ '' ('' @ c @ ''/'' @ d @
     '')''"

text \<open>sync failed: err\<close>

definition msgSyncFailed :: "string \<Rightarrow> string" where
  "msgSyncFailed a =
     [CHR 0xE5, CHR 0x90, CHR 0x8C, CHR 0xE6, CHR 0xAD, CHR 0xA5, CHR 0xE5, CHR 0xA4, CHR 0xB1,
     CHR 0xE8, CHR 0xB4, CHR 0xA5] @ '': '' @ a"

text \<open>sync timed out\<close>

definition msgSyncTimeout :: "string \<Rightarrow> string \<Rightarrow> string" where
  "msgSyncTimeout a b =
     [CHR 0xE5, CHR 0x90, CHR 0x8C, CHR 0xE6, CHR 0xAD, CHR 0xA5, CHR 0xE8, CHR 0xB6, CHR 0x85,
     CHR 0xE6, CHR 0x97, CHR 0xB6] @ '' ('' @ [CHR 0xE5, CHR 0xB7, CHR 0xB2, CHR 0xE7, CHR 0xAD,
     CHR 0x89, CHR 0xE5, CHR 0xBE, CHR 0x85] @ '' '' @ a @ [CHR 0xEF, CHR 0xBC, CHR 0x8C, CHR 0xE8,
     CHR 0xB6, CHR 0x85, CHR 0xE6, CHR 0x97, CHR 0xB6, CHR 0xE8, CHR 0xAE, CHR 0xBE, CHR 0xE7,
     CHR 0xBD, CHR 0xAE] @ '' '' @ b @ '' '' @ [CHR 0xE5, CHR 0x88, CHR 0x86, CHR 0xE9, CHR 0x92,
     CHR 0x9F] @ '')''"

text \<open>waiting for the sync\<close>

definition msgSyncWaiting :: "string \<Rightarrow> string" where
  "msgSyncWaiting a =
     [CHR 0xE7, CHR 0xAD, CHR 0x89, CHR 0xE5, CHR 0xBE, CHR 0x85, CHR 0xE5, CHR 0x90, CHR 0x8C,
     CHR 0xE6, CHR 0xAD, CHR 0xA5, CHR 0xE5, CHR 0xAE, CHR 0x8C, CHR 0xE6, CHR 0x88, CHR 0x90] @
     '': '' @ a"

text \<open>sync completed\<close>

definition msgSyncDone :: "string" where
  "msgSyncDone =
     [CHR 0xE5, CHR 0x90, CHR 0x8C, CHR 0xE6, CHR 0xAD, CHR 0xA5, CHR 0xE5, CHR 0xB7, CHR 0xB2,
     CHR 0xE5, CHR 0xAE, CHR 0x8C, CHR 0xE6, CHR 0x88, CHR 0x90]"

text \<open>group not found\<close>

definition msgGroupNotFound :: "string \<Rightarrow> string" where
  "msgGroupNotFound a =
     ''DisasterGroup '' @ a @ '' '' @ [CHR 0xE6, CHR 0x9C, CHR 0xAA, CHR 0xE6, CHR 0x89, CHR 0xBE,
     CHR 0xE5, CHR 0x88, CHR 0xB0]"

text \<open>all n levels completed\<close>

definition msgGroupDone :: "string \<Rightarrow> string" where
  "msgGroupDone a =
     [CHR 0xE5, CHR 0x8D, CHR 0xB3, CHR 0xE6, CHR 0x89, CHR 0x80, CHR 0xE6, CHR 0x9C, CHR 0x89] @
     '' '' @ a @ '' '' @ [CHR 0xE5, CHR 0xB1, CHR 0x82, CHR 0xE7, CHR 0xBA, CHR 0xA7, CHR 0xE6,
     CHR 0x93, CHR 0x8D, CHR 0xE4, CHR 0xBD, CHR 0x9C, CHR 0xE5, CHR 0xB7, CHR 0xB2, CHR 0xE5,
     CHR 0xAE, CHR 0x8C, CHR 0xE6, CHR 0x88, CHR 0x90]"

text \<open>instance not found\<close>

definition msgChildNotFound :: "string \<Rightarrow> string" where
  "msgChildNotFound a =
     ''DisasterInstance '' @ a @ '' '' @ [CHR 0xE6, CHR 0x9C, CHR 0xAA, CHR 0xE6, CHR 0x89, CHR 0xBE,
     CHR 0xE5, CHR 0x88, CHR 0xB0]"

text \<open>instance i failed: m\<close>

definition msgChildFailed :: "string \<Rightarrow> string \<Rightarrow> string" where
  "msgChildFailed a b =
     ''Instance '' @ a @ '' '' @ [CHR 0xE6, CHR 0x93, CHR 0x8D, CHR 0xE4, CHR 0xBD, CHR 0x9C,
     CHR 0xE5, CHR 0xA4, CHR 0xB1, CHR 0xE8, CHR 0xB4, CHR 0xA5] @ '': '' @ b"

text \<open>level n in progress\<close>

definition msgGroupProgress :: "string \<Rightarrow> string \<Rightarrow> string" where
  "msgGroupProgress a b =
     ''Level-'' @ a @ '' '' @ [CHR 0xE6, CHR 0x89, CHR 0xA7, CHR 0xE8, CHR 0xA1, CHR 0x8C, CHR 0xE4,
     CHR 0xB8, CHR 0xAD] @ '' ['' @ b @ '']''"

text \<open>group drill config has no restore mode for i\<close>

definition msgDrillModeMissing :: "string \<Rightarrow> string" where
  "msgDrillModeMissing a =
     [CHR 0xE7, CHR 0xBB, CHR 0x84] @ '' DrillConfig '' @ [CHR 0xE7, CHR 0xBC, CHR 0xBA, CHR 0xE5,
     CHR 0xB0, CHR 0x91, CHR 0xE5, CHR 0xAE, CHR 0x9E, CHR 0xE4, CHR 0xBE, CHR 0x8B] @ '' '' @ a @
     '' '' @ [CHR 0xE7, CHR 0x9A, CHR 0x84, CHR 0xE6, CHR 0x81, CHR 0xA2, CHR 0xE5, CHR 0xA4,
     CHR 0x8D, CHR 0xE6, CHR 0xA8, CHR 0xA1, CHR 0xE5, CHR 0xBC, CHR 0x8F]"

text \<open>group drill config has an invalid restore mode for i\<close>

definition msgDrillModeInvalid :: "string \<Rightarrow> string \<Rightarrow> string" where
  "msgDrillModeInvalid a b =
     [CHR 0xE7, CHR 0xBB, CHR 0x84] @ '' DrillConfig '' @ [CHR 0xE4, CHR 0xB8, CHR 0xAD, CHR 0xE5,
     CHR 0xAE, CHR 0x9E, CHR 0xE4, CHR 0xBE, CHR 0x8B] @ '' '' @ a @ '' '' @ [CHR 0xE7, CHR 0x9A,
     CHR 0x84, CHR 0xE6, CHR 0x81, CHR 0xA2, CHR 0xE5, CHR 0xA4, CHR 0x8D, CHR 0xE6, CHR 0xA8,
     CHR 0xA1, CHR 0xE5, CHR 0xBC, CHR 0x8F, CHR 0xE6, CHR 0x97, CHR 0xA0, CHR 0xE6, CHR 0x95,
     CHR 0x88] @ '': '' @ b"

lemmas keyword_defs = kwUnknownType_def kwNotFound_def kwTimeout_def kwSyncFailed_def kwCannotConnect_def kwMustBeIn_def kwCannotRun_def kwFailed_def

end
