(* ===== verification/OpCore.thy ===== *)
theory OpCore
  imports Actions Messages
begin

text \<open>
  The pure part of the operation controller
  (\<open>internal/controller/disasteroperation/controller.go\<close> and \<open>controller_retry.go\<close>):
  the decisions its handlers take on the operation, the instance and the sync objects,
  without touching the API server.
\<close>

section \<open>The reconciler\<close>

text \<open>
  What a reconcile reads besides the API server: the clock (one reading per reconcile), the
  runtime configuration snapshot, the attempts of \<open>retry.RetryOnConflict\<close> beyond the
  first, the time format, the digests in hexadecimal, and the configured namespace of the
  management plane.
\<close>

record reconciler =
  r_now :: time
  r_retrySteps :: nat
  r_defaultTimeoutMinutes :: int
  r_stepStartRequeue :: duration
  r_stepRunningRequeue :: duration
  r_defaultRetryInterval :: duration
  r_fmtTime :: "time \<Rightarrow> string"
  r_fmtTimeNano :: "time \<Rightarrow> string"
  r_parseTime :: "string \<Rightarrow> time option"
  r_sha256hex :: "string \<Rightarrow> string"
  r_md5hex :: "string \<Rightarrow> string"
  r_matchers :: matchers
  r_managementNamespace :: string

record Result =
  requeue :: bool
  requeueAfter :: duration

definition done_result :: Result where "done_result = \<lparr>requeue = False, requeueAfter = 0\<rparr>"
definition requeue_result :: Result where "requeue_result = \<lparr>requeue = True, requeueAfter = 0\<rparr>"
definition after_result :: "duration \<Rightarrow> Result" where "after_result d = \<lparr>requeue = False, requeueAfter = d\<rparr>"

section \<open>Readiness and drill options\<close>

definition resolveWaitUntilReady :: "DisasterInstance option \<Rightarrow> DisasterOperation option \<Rightarrow> bool" where
  "resolveWaitUntilReady inst op =
     (case Option.bind op (\<lambda>o'. sp_skipPodReadyCheck (op_spec o')) of
        Some b \<Rightarrow> \<not> b
      | None \<Rightarrow>
          if (case op of Some o' \<Rightarrow> sp_waitUntilReady (op_spec o') | None \<Rightarrow> False) then True
          else case Option.bind inst (\<lambda>i. di_skipPodReadyCheck (in_spec i)) of
                 Some b \<Rightarrow> \<not> b
               | None \<Rightarrow> (case op of Some o' \<Rightarrow> sp_waitUntilReady (op_spec o') | None \<Rightarrow> False))"

definition resolveCheckReplicasWaitUntilReady :: "DisasterInstance option \<Rightarrow> DisasterOperation option \<Rightarrow> bool" where
  "resolveCheckReplicasWaitUntilReady inst op =
     (case Option.bind op (\<lambda>o'. sp_skipPodReadyCheck (op_spec o')) of
        Some b \<Rightarrow> \<not> b
      | None \<Rightarrow>
          if (case op of Some o' \<Rightarrow> sp_waitUntilReady (op_spec o') | None \<Rightarrow> False) then True
          else case Option.bind inst (\<lambda>i. di_skipPodReadyCheck (in_spec i)) of
                 Some b \<Rightarrow> \<not> b
               | None \<Rightarrow> True)"

definition effectiveDrillRestoreMode :: "DrillConfig option \<Rightarrow> RestoreMode" where
  "effectiveDrillRestoreMode c =
     (case c of Some c' \<Rightarrow> if dc_restoreMode c' = ResourceOnly then ResourceOnly else FullRestore
      | None \<Rightarrow> FullRestore)"

definition drillOperationSteps :: "RestoreMode \<Rightarrow> string list" where
  "drillOperationSteps m =
     [StepRestoreResource] @ (if m \<noteq> ResourceOnly then [StepRestoreData] else []) @ [StepScaleUp]"

fun restoreModeString :: "RestoreMode \<Rightarrow> string" where
  "restoreModeString ModeUnset = []"
| "restoreModeString FullRestore = ''FullRestore''"
| "restoreModeString ResourceOnly = ''ResourceOnly''"
| "restoreModeString ModeMixed = ''Mixed''"
| "restoreModeString (ModeOther s) = s"

definition drillConfigForGroupChild ::
  "DrillConfig option \<Rightarrow> OperationType \<Rightarrow> string \<Rightarrow> err + DrillConfig option" where
  "drillConfigForGroupChild parent ty inst =
     (case parent of
        None \<Rightarrow> Inr None
      | Some p \<Rightarrow>
          if ty \<noteq> OpDrill then Inr (Some p)
          else if dc_instanceRestoreModes p \<noteq> [] then
            (case map_of (dc_instanceRestoreModes p) inst of
               None \<Rightarrow> Inl (errorf (msgDrillModeMissing inst))
             | Some m \<Rightarrow>
                 if m \<noteq> FullRestore \<and> m \<noteq> ResourceOnly
                 then Inl (errorf (msgDrillModeInvalid inst (restoreModeString m)))
                 else Inr (Some (p\<lparr>dc_restoreMode := m, dc_instanceRestoreModes := []\<rparr>)))
          else Inr (Some (p\<lparr>dc_restoreMode := effectiveDrillRestoreMode parent, dc_instanceRestoreModes := []\<rparr>)))"

section \<open>Failure reasons\<close>

definition mapOperationFailureMessageToReason :: "string \<Rightarrow> string" where
  "mapOperationFailureMessageToReason m =
     (if m = [] then []
      else if contains m kwUnknownType then ''InvalidOperationType''
      else if contains m kwNotFound then ''ResourceNotFound''
      else if contains m kwTimeout then ''TimeoutExceeded''
      else if contains m kwSyncFailed then ''SyncFailed''
      else if contains m kwCannotConnect then ''ClusterConnectionFailed''
      else if contains m kwMustBeIn \<or> contains m kwCannotRun then ''InvalidState''
      else if contains m kwFailed \<or> contains (toLower m) ''failed'' then ''StepFailed''
      else [])"

definition deriveOperationFailureReason :: "DisasterOperationStatus \<Rightarrow> string" where
  "deriveOperationFailureReason s =
     (case find (\<lambda>c. c_status c = ConditionTrue \<and> c_reason c \<noteq> []) (rev (os_conditions s)) of
        Some c \<Rightarrow> c_reason c
      | None \<Rightarrow>
          if mapOperationFailureMessageToReason (os_message s) \<noteq> []
          then mapOperationFailureMessageToReason (os_message s)
          else case find (\<lambda>t. st_state t = StepFailed) (rev (os_steps s)) of
                 Some t \<Rightarrow> if mapOperationFailureMessageToReason (st_msg t) \<noteq> []
                           then mapOperationFailureMessageToReason (st_msg t) else ''StepFailed''
               | None \<Rightarrow> ''OperationFailed'')"

text \<open>The new status and whether it changed.\<close>

definition normalizeOperationStatusError :: "DisasterOperation \<Rightarrow> DisasterOperation \<times> bool" where
  "normalizeOperationStatusError op =
     (let s = op_status op in
      if os_state s = OpFailed then
        if os_reason s = [] then
          (let rs = deriveOperationFailureReason s in (op\<lparr>op_status := s\<lparr>os_reason := rs\<rparr>\<rparr>, rs \<noteq> []))
        else (op, False)
      else if os_reason s \<noteq> [] then (op\<lparr>op_status := s\<lparr>os_reason := []\<rparr>\<rparr>, True)
      else (op, False))"

section \<open>Steps\<close>

definition pendingStep :: "string \<Rightarrow> StepStatus" where
  "pendingStep n = \<lparr>st_name = n, st_state = StepPending, st_start = None, st_completion = None, st_msg = []\<rparr>"

text \<open>
  Every handler scans its steps from the first for one that is pending or running and acts
  on it; completed, failed and skipped steps are passed over.
\<close>

fun activeStep :: "StepStatus list \<Rightarrow> nat option" where
  "activeStep [] = None"
| "activeStep (s # ss) =
     (if st_state s = StepPending \<or> st_state s = StepRunning then Some 0
      else map_option Suc (activeStep ss))"

definition failoverSteps :: "string list" where
  "failoverSteps = [StepPreCheck, StepPauseSchedules, StepFinalSync, StepScaleDownSource,
     StepScaleUpTarget, StepCheckReplicas, StepSwitchRoles]"

definition reprotectSteps :: "string list" where
  "reprotectSteps = [StepPreCheck, StepPauseSchedules]"

definition undoSteps :: "string list" where
  "undoSteps = [StepScaleDownTarget, StepScaleUpSource, StepSwitchRoles, StepResumeSchedules]"

definition cancelSteps :: "string list" where
  "cancelSteps = [StepScaleDownTarget, StepScaleUpSource, StepResumeSchedules]"

definition startStep :: "time \<Rightarrow> StepStatus \<Rightarrow> StepStatus" where
  "startStep now s = s\<lparr>st_state := StepRunning, st_start := Some now\<rparr>"

definition completeStep :: "time \<Rightarrow> StepStatus \<Rightarrow> StepStatus" where
  "completeStep now s = s\<lparr>st_state := StepCompleted, st_completion := Some now, st_msg := msgDone\<rparr>"

definition markStepFailed :: "time \<Rightarrow> string \<Rightarrow> StepStatus \<Rightarrow> StepStatus" where
  "markStepFailed now m s = s\<lparr>st_state := StepFailed, st_msg := m, st_completion := Some now\<rparr>"

definition buildStepTimeoutMessage :: "StepStatus option \<Rightarrow> duration \<Rightarrow> int \<Rightarrow> string" where
  "buildStepTimeoutMessage step elapsed tmo =
     (let base = msgTimeoutBase (durString (roundSecond elapsed)) (dec tmo) in
      case step of None \<Rightarrow> base
      | Some s \<Rightarrow>
          let detail = trimSpace (st_msg s) in
          if detail = [] \<or> detail = msgDone \<or> hasPrefix detail msgTimeoutPrefix then base
          else msgTimeoutDetail base detail)"

definition effectiveOperationTimeoutMinutes :: "reconciler \<Rightarrow> DisasterOperation \<Rightarrow> DisasterInstance \<Rightarrow> int" where
  "effectiveOperationTimeoutMinutes r op inst =
     (if sp_timeoutMinutes (op_spec op) > 0 then sp_timeoutMinutes (op_spec op)
      else if di_operationTimeoutMinutes (in_spec inst) > 0 then di_operationTimeoutMinutes (in_spec inst)
      else r_defaultTimeoutMinutes r)"

text \<open>The time a running step has taken, when that is more than the limit.\<close>

definition stepOverdue :: "reconciler \<Rightarrow> int \<Rightarrow> StepStatus \<Rightarrow> duration option" where
  "stepOverdue r tmo s =
     (case st_start s of
        Some t \<Rightarrow> if tmo > 0 \<and> since (r_now r) t > minutes tmo then Some (since (r_now r) t) else None
      | None \<Rightarrow> None)"

section \<open>Automatic compensation of a failed failover\<close>

definition resolveFailoverAutoCancelMode :: "string \<Rightarrow> AutoCancelMode" where
  "resolveFailoverAutoCancelMode n =
     (if n = StepPreCheck then DirectRollback
      else if n \<in> set [StepPauseSchedules, StepFinalSync, StepScaleDownSource, StepScaleUpTarget, StepCheckReplicas]
      then CancelPath
      else NoAutoCancel)"

definition shouldRollbackFailoverToProtected :: "string \<Rightarrow> bool" where
  "shouldRollbackFailoverToProtected n \<longleftrightarrow> resolveFailoverAutoCancelMode n = DirectRollback"

definition initializeAutoCancelSteps :: "StepStatus list" where
  "initializeAutoCancelSteps = map pendingStep cancelSteps"

section \<open>Concurrent operations\<close>

definition isInFlightOperationState :: "OperationState \<Rightarrow> bool" where
  "isInFlightOperationState s \<longleftrightarrow> s = OpStateNone \<or> s = OpPending \<or> s = OpRunning"

definition shouldSupersedeOperation :: "OperationType \<Rightarrow> OperationType \<Rightarrow> bool" where
  "shouldSupersedeOperation cur cand =
     (case cur of OpCancel \<Rightarrow> cand = OpFailover | OpUndo \<Rightarrow> cand = OpFailover | _ \<Rightarrow> False)"

definition canRunCancel :: "FsmState \<Rightarrow> bool" where
  "canRunCancel s \<longleftrightarrow> s = FsmFailingOver \<or> s = FsmFailed"

definition annotationSkipScaleDownSource :: string where
  "annotationSkipScaleDownSource = ''testudo.softcdata.com/skip-scale-down-source''"

definition shouldSkipScaleDownSource :: "DisasterOperation \<Rightarrow> bool" where
  "shouldSkipScaleDownSource op =
     (if sp_skipScaleDownSource (op_spec op) then True
      else case map_of (m_ann (op_meta op)) annotationSkipScaleDownSource of
             None \<Rightarrow> False
           | Some raw \<Rightarrow> if trimSpace raw = [] then False
                         else (case parseBool raw of None \<Rightarrow> False | Some b \<Rightarrow> b))"

text \<open>
  A cancel that finds the instance protected completes its steps: the ones recorded are
  completed where they had not ended, the missing ones are appended. A step name occurs at
  its last position in the index.
\<close>

fun lastIndexOf :: "string \<Rightarrow> StepStatus list \<Rightarrow> nat option" where
  "lastIndexOf n [] = None"
| "lastIndexOf n (s # ss) =
     (case lastIndexOf n ss of Some i \<Rightarrow> Some (Suc i) | None \<Rightarrow> if st_name s = n then Some 0 else None)"

definition completeCancelStep :: "time \<Rightarrow> StepStatus \<Rightarrow> StepStatus" where
  "completeCancelStep t s =
     (let s1 = (if st_state s \<in> set [StepNone, StepPending, StepRunning] then s\<lparr>st_state := StepCompleted\<rparr> else s)
      in if st_completion s1 = None then s1\<lparr>st_completion := Some t\<rparr> else s1)"

definition completeCancelStepsForProtectedIdempotency :: "time \<Rightarrow> StepStatus list \<Rightarrow> StepStatus list" where
  "completeCancelStepsForProtectedIdempotency t steps =
     foldl (\<lambda>acc n. case lastIndexOf n steps of
              None \<Rightarrow> acc @ [(pendingStep n)\<lparr>st_state := StepCompleted, st_completion := Some t\<rparr>]
            | Some i \<Rightarrow> acc[i := completeCancelStep t (acc ! i)])
       steps cancelSteps"

section \<open>Retries of a sync operation\<close>

definition shouldRetry :: "DisasterOperation \<Rightarrow> bool" where
  "shouldRetry op =
     (case sp_retryPolicy (op_spec op) of
        None \<Rightarrow> False
      | Some p \<Rightarrow> if maxRetries p \<le> 0 then False
                  else if os_retryCount (op_status op) \<ge> maxRetries p then False else True)"

definition retryWaitDuration :: "reconciler \<Rightarrow> DisasterOperation \<Rightarrow> duration" where
  "retryWaitDuration r op =
     (case sp_retryPolicy (op_spec op) of
        None \<Rightarrow> r_defaultRetryInterval r
      | Some p \<Rightarrow> if retryIntervalSeconds p \<le> 0 then r_defaultRetryInterval r
                  else wrap64 (retryIntervalSeconds p * second))"

definition syncRetryWaitRemaining :: "DisasterOperation \<Rightarrow> time \<Rightarrow> duration option" where
  "syncRetryWaitRemaining op now =
     (case os_nextRetryTime (op_status op) of
        None \<Rightarrow> None
      | Some t \<Rightarrow> if sat64 (t - now) \<le> 0 then None else Some (sat64 (t - now)))"

section \<open>Failures of a sync object\<close>

text \<open>\<open>triggeredAt\<close> is \<open>None\<close> for Go's zero time.\<close>

definition syncFailureDetail :: "SyncStatus \<Rightarrow> string \<Rightarrow> string" where
  "syncFailureDetail s fb = (if ss_message s \<noteq> [] then ss_message s else if ss_reason s \<noteq> [] then ss_reason s else fb)"

definition syncFailedSince :: "string list \<Rightarrow> SyncStatus \<Rightarrow> time option \<Rightarrow> string option" where
  "syncFailedSince codes s triggeredAt =
     (if ss_state s = SyncFailed \<and>
         (case triggeredAt of None \<Rightarrow> True
          | Some t \<Rightarrow> (case ss_lastSyncTime s of None \<Rightarrow> False | Some l \<Rightarrow> \<not> l < t))
      then Some (syncFailureDetail s ''state=Failed'')
      else case find (\<lambda>c. c_status c = ConditionTrue \<and> (c_type c \<in> set codes \<or> c_reason c \<in> set codes) \<and>
                      (case triggeredAt of None \<Rightarrow> True | Some t \<Rightarrow> \<not> c_ltt c < t))
                 (rev (ss_conditions s)) of
             None \<Rightarrow> None
           | Some c \<Rightarrow> Some (if c_message c \<noteq> [] then c_message c else if c_reason c \<noteq> [] then c_reason c else c_type c))"

definition hasDataSyncFailureSince :: "SyncStatus \<Rightarrow> time option \<Rightarrow> string option" where
  "hasDataSyncFailureSince = syncFailedSince [''SyncFailed'', ''BackupFailed'', ''RestoreFailed'']"

definition hasResourceSyncFailureSince :: "SyncStatus \<Rightarrow> time option \<Rightarrow> string option" where
  "hasResourceSyncFailureSince =
     syncFailedSince [''BuildRestoreSpecFailed'', ''BackupFailed'', ''SyncFailed'', ''RestoreFailed'']"

section \<open>Owner references and label values\<close>

definition hasOwnerReference :: "OwnerReference list \<Rightarrow> string \<Rightarrow> string option \<Rightarrow> bool" where
  "hasOwnerReference refs k name \<longleftrightarrow>
     (\<exists>r \<in> set refs. ow_kind r = k \<and> (case name of None \<Rightarrow> True | Some n \<Rightarrow> ow_name r = n))"

definition truncateLabelValue :: "reconciler \<Rightarrow> string \<Rightarrow> string" where
  "truncateLabelValue r s =
     (if length s \<le> 63 then s
      else (if length s > 50 then take 50 s else s) @ ''-'' @ take 12 (r_md5hex r s))"

end
