(* ===== verification/OpExec.thy ===== *)
theory OpExec
  imports OpCore
begin

text \<open>
  The step executors of the operation controller: what a step of a failover, cancel, undo or
  reprotect does to the sync objects of the management cluster and to the workloads of the
  managed clusters (\<open>controller.go\<close> from \<open>getClusterRESTConfig\<close> on, and
  \<open>controller_check.go\<close>).
\<close>

section \<open>Names of objects\<close>

definition annTraceID :: string where "annTraceID = ''testudo.softcdata.com/trace-id''"
definition annLastTraceID :: string where "annLastTraceID = ''testudo.softcdata.com/last-trace-id''"
definition annOriginalReplicas :: string where "annOriginalReplicas = ''testudo.softcdata.com/original-replicas''"

definition opKey :: "DisasterOperation \<Rightarrow> key" where "opKey op = metaKey (op_meta op)"
definition instKey :: "DisasterInstance \<Rightarrow> key" where "instKey i = metaKey (in_meta i)"
definition instNs :: "DisasterInstance \<Rightarrow> string" where "instNs i = m_ns (in_meta i)"
definition instName :: "DisasterInstance \<Rightarrow> string" where "instName i = m_name (in_meta i)"

section \<open>Clients of the managed clusters\<close>

definition getClusterRESTConfig :: "string \<Rightarrow> unit result" where
  "getClusterRESTConfig c =
     chkWrap (''failed to get cluster '' @ c @ '': '') (apiGet clusterKind ([], c)) (\<lambda>cl.
       if cl_kubeConfig cl \<noteq> [] \<or> (cl_token cl \<noteq> [] \<and> cl_endpoint cl \<noteq> [])
       then chkWrap (''failed to build rest config for cluster '' @ c @ '': '') extCall ok
       else fail (errorf (''cluster '' @ c @ '' has no valid access credentials (kubeconfig or token)'')))"

definition getClusterClient :: "string \<Rightarrow> unit result" where
  "getClusterClient c = chk (getClusterRESTConfig c) (\<lambda>_. extCall)"

definition primaryOr :: "DisasterInstance \<Rightarrow> DisasterConfig \<Rightarrow> string" where
  "primaryOr i cfg = (if is_primaryCluster (in_status i) = [] then cfg_sourceCluster cfg else is_primaryCluster (in_status i))"

definition secondaryOr :: "DisasterInstance \<Rightarrow> DisasterConfig \<Rightarrow> string" where
  "secondaryOr i cfg = (if is_secondaryCluster (in_status i) = [] then cfg_targetCluster cfg else is_secondaryCluster (in_status i))"

definition getConfig :: "string \<Rightarrow> DisasterInstance \<Rightarrow> (DisasterConfig \<Rightarrow> 'a result) \<Rightarrow> 'a result" where
  "getConfig t i k = chkWrap t (apiGet cfgKind ([], di_config (in_spec i))) k"

definition configErr :: "DisasterInstance \<Rightarrow> string" where
  "configErr i = ''failed to get config '' @ di_config (in_spec i) @ '': ''"

section \<open>Replica counts\<close>

definition workloadKey :: "string \<Rightarrow> string \<Rightarrow> Workload \<Rightarrow> string" where
  "workloadKey ns plural d = ns @ ''/'' @ plural @ ''/'' @ m_name (wl_meta d)"

text \<open>\<open>-1\<close> when neither the recorded map nor the annotation knows the workload.\<close>

definition expectedReplicas :: "(string \<times> int) list \<Rightarrow> string \<Rightarrow> string \<Rightarrow> Workload \<Rightarrow> int" where
  "expectedReplicas m ns plural d =
     (case map_of m (workloadKey ns plural d) of
        Some v \<Rightarrow> v
      | None \<Rightarrow> (case map_of (m_ann (wl_meta d)) annOriginalReplicas of
                   Some v \<Rightarrow> (case sscanfInt32 v of Some n \<Rightarrow> n | None \<Rightarrow> -1)
                 | None \<Rightarrow> -1))"

definition recordWorkloads :: "string \<Rightarrow> string \<Rightarrow> Workload list \<Rightarrow> (string \<times> int) list \<Rightarrow> (string \<times> int) list" where
  "recordWorkloads ns plural ds m =
     foldl (\<lambda>m d. case wl_replicas d of
              Some n \<Rightarrow> if n > 0 then AList.update (workloadKey ns plural d) n m else m
            | None \<Rightarrow> m) m ds"

definition replicasCmName :: "DisasterInstance \<Rightarrow> string" where
  "replicasCmName i =
     (if is_resourceSyncName (in_status i) = [] then ''replicas-dr-rs-'' @ instName i
      else ''replicas-'' @ is_resourceSyncName (in_status i))"

definition collectReplicas :: "string \<Rightarrow> string list \<Rightarrow> (string \<times> int) list result" where
  "collectReplicas c nss = forEach (\<lambda>ns m.
     chkWrap (''failed to list deployments in namespace '' @ ns @ '': '') (apiList (deployKind c) ns) (\<lambda>ds.
     chkWrap (''failed to list statefulsets in namespace '' @ ns @ '': '') (apiList (stsKind c) ns) (\<lambda>ss.
     ok (recordWorkloads ns ''statefulsets'' ss (recordWorkloads ns ''deployments'' ds m))))) nss []"

definition withTrace :: "DisasterOperation \<Rightarrow> ObjectMeta \<Rightarrow> ObjectMeta" where
  "withTrace op m =
     (case map_of (m_ann (op_meta op)) annTraceID of
        None \<Rightarrow> m | Some t \<Rightarrow> m\<lparr>m_ann := mput (m_ann m) annTraceID t\<rparr>)"

definition saveReplicas :: "DisasterInstance \<Rightarrow> DisasterOperation \<Rightarrow> (string \<times> int) list \<Rightarrow> unit result" where
  "saveReplicas i op m = do {
     g \<leftarrow> apiGet cmKind (instNs i, replicasCmName i);
     (case g of
        Inl e \<Rightarrow>
          if err_kind e = NotFound then
            chkWrap ''failed to create replicas ConfigMap: ''
              (apiCreate cmKind \<lparr>cm_meta = withTrace op \<lparr>m_ns = instNs i, m_name = replicasCmName i, m_uid = [], m_rv = 0,
                   m_ann = [], m_labels = [(''testudo.softcdata.com/instance'', instName i),
                                           (''testudo.softcdata.com/type'', ''replicas-record'')], m_owners = [], m_finalizers = [], m_deletion = None, m_creation = None, m_generation = 0\<rparr>,
                 cm_data = [(''replicas'', JsonReplicas m)]\<rparr>) (\<lambda>_. ok ())
          else fail (wrapf ''failed to get replicas ConfigMap: '' e)
      | Inr cm \<Rightarrow>
          chkWrap ''failed to update replicas ConfigMap: ''
            (apiUpdate cmKind (cm\<lparr>cm_meta := withTrace op (cm_meta cm),
                                  cm_data := AList.update ''replicas'' (JsonReplicas m) (cm_data cm)\<rparr>)) (\<lambda>_. ok ()))
   }"

definition recordReplicasBeforeScaleDown :: "DisasterInstance \<Rightarrow> string \<Rightarrow> DisasterOperation \<Rightarrow> unit result" where
  "recordReplicasBeforeScaleDown i c op =
     chk (collectReplicas c (di_namespaces (in_spec i))) (\<lambda>m. if m = [] then ok () else saveReplicas i op m)"

definition replicasOf :: "ConfigMap \<Rightarrow> (string \<times> int) list" where
  "replicasOf cm = (case map_of (cm_data cm) ''replicas'' of Some (JsonReplicas m) \<Rightarrow> m | _ \<Rightarrow> [])"

text \<open>The recorded map, and whether the ConfigMap could not be read.\<close>

definition readReplicasMap :: "DisasterInstance \<Rightarrow> ((string \<times> int) list \<times> bool) action" where
  "readReplicasMap i =
     (if is_resourceSyncName (in_status i) = [] then ret ([], False)
      else do {
        g \<leftarrow> apiGet cmKind (instNs i, ''replicas-'' @ is_resourceSyncName (in_status i));
        ret (case g of Inl _ \<Rightarrow> ([], True) | Inr cm \<Rightarrow> (replicasOf cm, False))
      })"

definition fetchReplicasMap :: "DisasterInstance \<Rightarrow> (string \<times> int) list action" where
  "fetchReplicasMap i = do { x \<leftarrow> readReplicasMap i; ret (fst x) }"

section \<open>Scaling\<close>

definition scaleTo :: "int \<Rightarrow> Workload \<Rightarrow> Workload" where
  "scaleTo n d = d\<lparr>wl_replicas := Some n\<rparr>"

definition scaleDownOne :: "Workload kind \<Rightarrow> bool \<Rightarrow> Workload \<Rightarrow> unit result" where
  "scaleDownOne K annotate d =
     (case wl_replicas d of
        Some n \<Rightarrow>
          if n \<noteq> 0 then
            chk (apiUpdate K (scaleTo 0 (if annotate then d\<lparr>wl_meta := (wl_meta d)\<lparr>m_ann := mput (m_ann (wl_meta d)) annOriginalReplicas (dec n)\<rparr>\<rparr> else d)))
              (\<lambda>_. ok ())
          else ok ()
      | None \<Rightarrow> ok ())"

definition scaleDownNamespace :: "string \<Rightarrow> bool \<Rightarrow> string \<Rightarrow> unit result" where
  "scaleDownNamespace c annotate ns =
     chk (apiList (deployKind c) ns) (\<lambda>ds.
     chk (forEach (\<lambda>d _. scaleDownOne (deployKind c) annotate d) ds ()) (\<lambda>_.
     chk (apiList (stsKind c) ns) (\<lambda>ss.
     forEach (\<lambda>d _. scaleDownOne (stsKind c) annotate d) ss ())))"

definition scaleDownAll :: "string \<Rightarrow> bool \<Rightarrow> string list \<Rightarrow> unit result" where
  "scaleDownAll c annotate nss = forEach (\<lambda>ns _. scaleDownNamespace c annotate ns) nss ()"

definition doScaleDown :: "DisasterInstance \<Rightarrow> string \<Rightarrow> bool result" where
  "doScaleDown i c = chk (getClusterClient c) (\<lambda>_.
     chk (scaleDownAll c False (di_namespaces (in_spec i))) (\<lambda>_. ok True))"

definition executeScaleDownSource :: "DisasterInstance \<Rightarrow> DisasterOperation \<Rightarrow> bool result" where
  "executeScaleDownSource i op =
     (if shouldSkipScaleDownSource op then do { emit (instName i) ''ScaleDownSourceSkipped''; ok True }
      else getConfig (configErr i) i (\<lambda>cfg.
        let c = primaryOr i cfg in
        chk (getClusterClient c) (\<lambda>_. do {
          rec \<leftarrow> recordReplicasBeforeScaleDown i c op;
          emit (instName i) (case rec of Inl _ \<Rightarrow> ''RecordReplicasFailed'' | Inr _ \<Rightarrow> ''ReplicasRecorded'');
          chk (scaleDownAll c True (di_namespaces (in_spec i))) (\<lambda>_. ok True)
        })))"

definition scaleUpTargetOne :: "Workload kind \<Rightarrow> (string \<times> int) list \<Rightarrow> DisasterInstance \<Rightarrow> string \<Rightarrow> string \<Rightarrow> Workload \<Rightarrow> unit result" where
  "scaleUpTargetOne K m i ns plural d =
     (if wl_replicas d = Some 0 then
        (let t = expectedReplicas m ns plural d in
         if t \<noteq> -1 then do { emit (instName i) ''ScalingUp''; chk (apiUpdate K (scaleTo t d)) (\<lambda>_. ok ()) }
         else do { emit (instName i) ''ScaleUpSkipped''; ok () })
      else ok ())"

definition scaleUpTargetNamespace :: "string \<Rightarrow> (string \<times> int) list \<Rightarrow> DisasterInstance \<Rightarrow> string \<Rightarrow> unit result" where
  "scaleUpTargetNamespace c m i ns =
     chk (apiList (deployKind c) ns) (\<lambda>ds.
     chk (forEach (\<lambda>d _. scaleUpTargetOne (deployKind c) m i ns ''deployments'' d) ds ()) (\<lambda>_.
     chk (apiList (stsKind c) ns) (\<lambda>ss.
     forEach (\<lambda>d _. scaleUpTargetOne (stsKind c) m i ns ''statefulsets'' d) ss ())))"

definition executeScaleUpTarget :: "DisasterInstance \<Rightarrow> bool result" where
  "executeScaleUpTarget i =
     getConfig (configErr i) i (\<lambda>cfg.
       let c = secondaryOr i cfg in
       chk (getClusterClient c) (\<lambda>_. do {
         x \<leftarrow> readReplicasMap i;
         (if snd x then emit (instName i) ''ReplicasConfigMapNotFound'' else ret ());
         chk (forEach (\<lambda>ns _. scaleUpTargetNamespace c (fst x) i ns) (di_namespaces (in_spec i)) ()) (\<lambda>_. ok True)
       }))"

definition mapNamespace :: "smap \<Rightarrow> string \<Rightarrow> string" where
  "mapNamespace m ns = (case map_of m ns of Some t \<Rightarrow> t | None \<Rightarrow> ns)"

definition doScaleUpOne :: "Workload kind \<Rightarrow> (string \<times> int) list \<Rightarrow> string \<Rightarrow> string \<Rightarrow> Workload \<Rightarrow> unit result" where
  "doScaleUpOne K m ns plural d =
     (if wl_replicas d = Some 0 \<and> expectedReplicas m ns plural d > 0
      then chk (apiUpdate K (scaleTo (expectedReplicas m ns plural d) d)) (\<lambda>_. ok ())
      else ok ())"

definition doScaleUpNamespace :: "string \<Rightarrow> (string \<times> int) list \<Rightarrow> smap \<Rightarrow> string \<Rightarrow> unit result" where
  "doScaleUpNamespace c m nsmap ns =
     chk (apiList (deployKind c) (mapNamespace nsmap ns)) (\<lambda>ds.
     chk (forEach (\<lambda>d _. doScaleUpOne (deployKind c) m ns ''deployments'' d) ds ()) (\<lambda>_.
     chk (apiList (stsKind c) (mapNamespace nsmap ns)) (\<lambda>ss.
     forEach (\<lambda>d _. doScaleUpOne (stsKind c) m ns ''statefulsets'' d) ss ())))"

definition notYetReady :: "Workload \<Rightarrow> bool" where
  "notYetReady d \<longleftrightarrow> (case wl_replicas d of Some n \<Rightarrow> n > 0 \<and> wl_ready d < n | None \<Rightarrow> False)"

fun checkScaledUp :: "string \<Rightarrow> smap \<Rightarrow> string list \<Rightarrow> bool result" where
  "checkScaledUp c nsmap [] = ok True"
| "checkScaledUp c nsmap (ns # nss) =
     chk (apiList (deployKind c) (mapNamespace nsmap ns)) (\<lambda>ds.
       if list_ex notYetReady ds then ok False
       else chk (apiList (stsKind c) (mapNamespace nsmap ns)) (\<lambda>ss.
         if list_ex notYetReady ss then ok False else checkScaledUp c nsmap nss))"

definition doScaleUp :: "DisasterInstance \<Rightarrow> string \<Rightarrow> (string \<times> int) list \<Rightarrow> bool \<Rightarrow> smap \<Rightarrow> bool result" where
  "doScaleUp i c m waitUntilReady nsmap =
     chk (getClusterClient c) (\<lambda>_.
     chk (forEach (\<lambda>ns _. doScaleUpNamespace c m nsmap ns) (di_namespaces (in_spec i)) ()) (\<lambda>_.
       if \<not> waitUntilReady then ok True else checkScaledUp c nsmap (di_namespaces (in_spec i))))"

section \<open>Schedules\<close>

definition pauseOne :: "SyncObject kind \<Rightarrow> string \<Rightarrow> SyncObject \<Rightarrow> unit result" where
  "pauseOne K iname s =
     (if ss_instance (so_spec s) = iname \<and> \<not> ss_paused (so_spec s)
      then chk (apiUpdate K (s\<lparr>so_spec := (so_spec s)\<lparr>ss_paused := True\<rparr>\<rparr>)) (\<lambda>_. ok ())
      else ok ())"

definition pauseKind :: "SyncObject kind \<Rightarrow> DisasterInstance \<Rightarrow> unit result" where
  "pauseKind K i = chk (apiList K (instNs i)) (\<lambda>xs. forEach (\<lambda>s _. pauseOne K (instName i) s) xs ())"

definition executePauseSchedules :: "DisasterInstance \<Rightarrow> bool result" where
  "executePauseSchedules i = chk (pauseKind dsKind i) (\<lambda>_. chk (pauseKind rsKind i) (\<lambda>_. ok True))"

text \<open>The set of seen names is the list itself: a name is recorded exactly when it is appended.\<close>

definition appendUniqueScheduleName :: "string list \<Rightarrow> string \<Rightarrow> string list" where
  "appendUniqueScheduleName names n =
     (let n' = trimSpace n in if n' = [] \<or> n' \<in> set names then names else names @ [n'])"

definition scheduleNames :: "string \<Rightarrow> string \<Rightarrow> SyncObject list \<Rightarrow> string list" where
  "scheduleNames statusName iname xs =
     foldl (\<lambda>names s. if ss_instance (so_spec s) = iname then appendUniqueScheduleName names (m_name (so_meta s)) else names)
       (appendUniqueScheduleName [] statusName) xs"

definition resumeSchedule :: "reconciler \<Rightarrow> SyncObject kind \<Rightarrow> string \<Rightarrow> string \<Rightarrow> unit result" where
  "resumeSchedule r K ns n = retryOnConflict (r_retrySteps r) (do {
     g \<leftarrow> apiGet K (ns, n);
     (case g of Inl e \<Rightarrow> ignoreNotFound e
      | Inr s \<Rightarrow> if \<not> ss_paused (so_spec s) then ok ()
                 else chk (apiUpdate K (s\<lparr>so_spec := (so_spec s)\<lparr>ss_paused := False\<rparr>\<rparr>)) (\<lambda>_. ok ()))
   })"

definition resumeKind :: "reconciler \<Rightarrow> SyncObject kind \<Rightarrow> string \<Rightarrow> DisasterInstance \<Rightarrow> unit result" where
  "resumeKind r K statusName i =
     chk (apiList K (instNs i)) (\<lambda>xs.
       forEach (\<lambda>n _. resumeSchedule r K (instNs i) n) (scheduleNames statusName (instName i) xs) ())"

definition executeResumeSchedules :: "reconciler \<Rightarrow> DisasterInstance \<Rightarrow> bool result" where
  "executeResumeSchedules r i =
     chk (resumeKind r dsKind (is_dataSyncName (in_status i)) i) (\<lambda>_.
     chk (resumeKind r rsKind (is_resourceSyncName (in_status i)) i) (\<lambda>_. ok True))"

section \<open>Final sync\<close>

definition triggerSyncManualAtWithRetry :: "reconciler \<Rightarrow> SyncObject kind \<Rightarrow> key \<Rightarrow> string \<Rightarrow> string \<Rightarrow> unit result" where
  "triggerSyncManualAtWithRetry r K k manualTime traceID =
     (let t = (if manualTime = [] then r_fmtTime r (r_now r) else manualTime) in
      retryOnConflict (r_retrySteps r) (chk (apiGet K k) (\<lambda>s.
        if ss_state (so_status s) = SyncInProgress then ok ()
        else let m = so_meta s;
                 m' = (if traceID \<noteq> [] then m\<lparr>m_ann := mput (m_ann m) annLastTraceID traceID\<rparr> else m)
             in chk (apiUpdate K (s\<lparr>so_meta := m', so_spec := (so_spec s)\<lparr>ss_trigger := (ss_trigger (so_spec s))\<lparr>tr_manual := t\<rparr>\<rparr>\<rparr>)) (\<lambda>_. ok ()))))"

definition finalSyncOne :: "reconciler \<Rightarrow> SyncObject kind \<Rightarrow> (SyncStatus \<Rightarrow> time option \<Rightarrow> string option) \<Rightarrow> string \<Rightarrow>
    DisasterInstance \<Rightarrow> StepStatus \<Rightarrow> string \<Rightarrow> SyncObject \<Rightarrow> bool \<Rightarrow> bool result" where
  "finalSyncOne r K failedSince kname i step traceID s allSynced =
     (if ss_instance (so_spec s) \<noteq> instName i then ok allSynced
      else case failedSince (so_status s) (st_start step) of
        Some reason \<Rightarrow> fail (errorf (kname @ '' '' @ m_name (so_meta s) @ '' is Failed: '' @ reason))
      | None \<Rightarrow>
          if (case ss_lastSyncTime (so_status s) of None \<Rightarrow> True
              | Some l \<Rightarrow> (case st_start step of None \<Rightarrow> False | Some t \<Rightarrow> l < t))
          then (if ss_state (so_status s) \<noteq> SyncInProgress
                then chk (triggerSyncManualAtWithRetry r K (metaKey (so_meta s)) (r_fmtTime r (r_now r)) traceID) (\<lambda>_. ok False)
                else ok False)
          else ok (allSynced \<and> ss_state (so_status s) = SyncReady))"

definition executeFinalSync :: "reconciler \<Rightarrow> DisasterInstance \<Rightarrow> StepStatus \<Rightarrow> DisasterOperation \<Rightarrow> bool result" where
  "executeFinalSync r i step op =
     (if sp_skipFinalSync (op_spec op) then do { emit (instName i) ''FinalSyncSkipped''; ok True }
      else let traceID = mget (m_ann (op_meta op)) annTraceID in
        chk (apiList dsKind (instNs i)) (\<lambda>xs.
        chk (forEach (finalSyncOne r dsKind hasDataSyncFailureSince ''DataSync'' i step traceID) xs True) (\<lambda>a.
        chk (apiList rsKind (instNs i)) (\<lambda>ys.
        forEach (finalSyncOne r rsKind hasResourceSyncFailureSince ''ResourceSync'' i step traceID) ys a))))"

end
