(* ===== verification/Labels.thy ===== *)
theory Labels
  imports Prelude "HOL-Library.Char_ord" "HOL-Library.List_Lexorder" "HOL-Library.Product_Lexorder"
begin

text \<open>
  The dependency and cleanup labels of \<open>pkg/metadata\<close>: a resource carries a token derived
  from its UID, and one \<open>dependency-to-\<close> label per resource it depends on. Label maps are
  association lists with distinct keys; a string is valid UTF-8, so the runes of a string
  are its bytes without the continuation bytes. The digest is a parameter.
\<close>

section \<open>Tokens and codes\<close>

definition LabelDependencyToken :: string where
  "LabelDependencyToken = ''testudo.softcdata.com/dependency-token''"

definition LabelDependencyToPrefix :: string where
  "LabelDependencyToPrefix = ''testudo.softcdata.com/dependency-to-''"

record DependencyEdge =
  de_targetToken :: string
  de_relationCode :: string

definition isAlphaNum :: "char \<Rightarrow> bool" where
  "isAlphaNum c \<longleftrightarrow> (let n = (of_char c :: nat) in
     (48 \<le> n \<and> n \<le> 57) \<or> (97 \<le> n \<and> n \<le> 122) \<or> (65 \<le> n \<and> n \<le> 90))"

definition isHexLower :: "char \<Rightarrow> bool" where
  "isHexLower c \<longleftrightarrow> (let n = (of_char c :: nat) in (48 \<le> n \<and> n \<le> 57) \<or> (97 \<le> n \<and> n \<le> 102))"

definition isContinuation :: "char \<Rightarrow> bool" where
  "isContinuation c \<longleftrightarrow> (let n = (of_char c :: nat) in 128 \<le> n \<and> n \<le> 191)"

definition BuildDependencyToken :: "(string \<Rightarrow> string) \<Rightarrow> string \<Rightarrow> string" where
  "BuildDependencyToken sha256hex uid = (let u = trimSpace uid in if u = [] then [] else take 16 (sha256hex u))"

definition EnsureDependencyTokenLabel :: "(string \<Rightarrow> string) \<Rightarrow> smap \<Rightarrow> string \<Rightarrow> smap \<times> string \<times> bool" where
  "EnsureDependencyTokenLabel sha256hex labels uid =
     (let token = BuildDependencyToken sha256hex uid in
      if token = [] then (labels, [], False)
      else if mget labels LabelDependencyToken = token then (labels, token, False)
      else (mput labels LabelDependencyToken token, token, True))"

definition DependencyToLabelKey :: "string \<Rightarrow> string" where
  "DependencyToLabelKey token = LabelDependencyToPrefix @ trimSpace (toLower token)"

definition normalizeToken :: "string \<Rightarrow> string" where
  "normalizeToken token =
     (let t = filter isHexLower (trimSpace (toLower token)) in if length t > 32 then take 32 t else t)"

definition labelRune :: "char \<Rightarrow> char" where
  "labelRune c = (if isAlphaNum c \<or> c = CHR ''-'' \<or> c = CHR ''_'' \<or> c = CHR ''.'' then c else CHR ''-'')"

definition NormalizeRelationCode :: "string \<Rightarrow> string" where
  "NormalizeRelationCode code =
     (let c = trimSpace code in
      if c = [] then ''unknown''
      else let n = trimFunc (\<lambda>r. \<not> isAlphaNum r) (map labelRune (filter (\<lambda>b. \<not> isContinuation b) c)) in
        if n = [] then ''unknown''
        else if length n > 63 then
          (let n2 = trimFunc (\<lambda>r. \<not> isAlphaNum r) (take 63 n) in if n2 = [] then ''unknown'' else n2)
        else n)"

section \<open>Dependency labels\<close>

definition nextLabels :: "DependencyEdge list \<Rightarrow> smap" where
  "nextLabels edges = foldl (\<lambda>m e.
     let t = normalizeToken (de_targetToken e) in
     if t = [] then m else mput m (DependencyToLabelKey t) (NormalizeRelationCode (de_relationCode e))) [] edges"

definition isDependencyTo :: "string \<Rightarrow> bool" where
  "isDependencyTo k \<longleftrightarrow> hasPrefix k LabelDependencyToPrefix"

definition putAll :: "smap \<Rightarrow> smap \<Rightarrow> smap" where
  "putAll m xs = foldl (\<lambda>m (k, v). mput m k v) m xs"

definition RebuildDependencyToLabels :: "smap \<Rightarrow> DependencyEdge list \<Rightarrow> smap \<times> bool" where
  "RebuildDependencyToLabels labels edges =
     (let next = nextLabels edges;
          changed = list_ex (\<lambda>(k, v). isDependencyTo k \<and> map_of next k \<noteq> Some v) labels \<or>
                    list_ex (\<lambda>(k, v). map_of labels k \<noteq> Some v) next
      in if \<not> changed then (labels, False)
         else (putAll (filter (\<lambda>(k, v). \<not> isDependencyTo k) labels) next, True))"

definition BuildUpstreamLabelKeyFromTargetLabels :: "smap \<Rightarrow> string option" where
  "BuildUpstreamLabelKeyFromTargetLabels labels =
     (let t = normalizeToken (mget labels LabelDependencyToken) in if t = [] then None else Some (DependencyToLabelKey t))"

definition parseEdge :: "string \<times> string \<Rightarrow> DependencyEdge option" where
  "parseEdge kv =
     (if \<not> isDependencyTo (fst kv) then None
      else let t = normalizeToken (trimPrefix (fst kv) LabelDependencyToPrefix) in
        if t = [] then None else Some \<lparr>de_targetToken = t, de_relationCode = NormalizeRelationCode (snd kv)\<rparr>)"

definition ParseDownstreamFromLabels :: "smap \<Rightarrow> DependencyEdge list" where
  "ParseDownstreamFromLabels labels =
     sort_key (\<lambda>e. (de_targetToken e, de_relationCode e)) (List.map_filter parseEdge labels)"

definition CanDeleteFromUpstreamCount :: "int \<Rightarrow> bool" where
  "CanDeleteFromUpstreamCount n \<longleftrightarrow> n = 0"

section \<open>Cleanup labels\<close>

definition LabelCleanupManagedBy :: string where "LabelCleanupManagedBy = ''testudo.softcdata.com/cleanup-managed-by''"
definition LabelCleanupOwnerToken :: string where "LabelCleanupOwnerToken = ''testudo.softcdata.com/cleanup-owner-token''"
definition LabelCleanupRelation :: string where "LabelCleanupRelation = ''testudo.softcdata.com/cleanup-relation''"
definition LabelCleanupStrategy :: string where "LabelCleanupStrategy = ''testudo.softcdata.com/cleanup-strategy''"

definition cleanupKeys :: "string list" where
  "cleanupKeys = [LabelCleanupOwnerToken, LabelCleanupRelation, LabelCleanupStrategy, LabelCleanupManagedBy]"

record CleanupDescriptor =
  cd_ownerUID :: string
  cd_relationCode :: string
  cd_strategy :: string

definition nextCleanup :: "(string \<Rightarrow> string) \<Rightarrow> CleanupDescriptor \<Rightarrow> smap" where
  "nextCleanup sha256hex d =
     (let owner = BuildDependencyToken sha256hex (cd_ownerUID d);
          relation = NormalizeRelationCode (cd_relationCode d);
          s = NormalizeRelationCode (cd_strategy d);
          strategy = (if s = ''unknown'' then ''delete'' else s)
      in [(LabelCleanupManagedBy, ''disaster-operator'')] @
         (if owner \<noteq> [] then [(LabelCleanupOwnerToken, owner)] else []) @
         (if relation \<noteq> [] then [(LabelCleanupRelation, relation)] else []) @
         (if strategy \<noteq> [] then [(LabelCleanupStrategy, strategy)] else []))"

definition EnsureCleanupLabels :: "(string \<Rightarrow> string) \<Rightarrow> smap \<Rightarrow> CleanupDescriptor \<Rightarrow> smap \<times> bool" where
  "EnsureCleanupLabels sha256hex labels d =
     (let next = nextCleanup sha256hex d;
          changed = list_ex (\<lambda>(k, v). mget labels k \<noteq> v) next \<or>
                    list_ex (\<lambda>k. map_of next k = None \<and> mget labels k \<noteq> []) cleanupKeys
      in if \<not> changed then (labels, False)
         else (putAll (foldl mdel labels cleanupKeys) next, True))"

section \<open>What the labels say\<close>

lemma distinct_mput: "distinct (map fst m) \<Longrightarrow> distinct (map fst (mput m k v))"
  by (simp add: mput_def distinct_update)

lemma map_of_putAll: "distinct (map fst xs) \<Longrightarrow> map_of (putAll m xs) = map_of m ++ map_of xs"
proof (induction xs arbitrary: m)
  case Nil
  then show ?case by (simp add: putAll_def)
next
  case (Cons x xs)
  obtain k v where x: "x = (k, v)" by (cases x)
  with Cons.prems have k: "map_of xs k = None" by (auto simp: map_of_eq_None_iff)
  have "map_of (putAll m (x # xs)) = map_of (putAll (mput m k v) xs)"
    by (simp add: putAll_def x)
  also have "\<dots> = (map_of m)(k \<mapsto> v) ++ map_of xs"
    using Cons by simp
  also have "\<dots> = map_of m ++ map_of (x # xs)"
    using k by (auto simp: x map_add_def fun_eq_iff split: option.splits)
  finally show ?case .
qed

lemma distinct_nextLabels: "distinct (map fst (nextLabels edges))"
proof -
  have "distinct (map fst (foldl (\<lambda>m e. let t = normalizeToken (de_targetToken e) in
     if t = [] then m else mput m (DependencyToLabelKey t) (NormalizeRelationCode (de_relationCode e))) m edges))"
    if "distinct (map fst m)" for m
    using that by (induction edges arbitrary: m) (auto simp: Let_def distinct_mput)
  from this [of "[]"] show ?thesis by (simp add: nextLabels_def)
qed

lemma isDependencyTo_key [simp]: "isDependencyTo (DependencyToLabelKey t)"
  by (simp add: isDependencyTo_def DependencyToLabelKey_def)

lemma nextLabels_keys: "(k, v) \<in> set (nextLabels edges) \<Longrightarrow> isDependencyTo k"
proof -
  have step: "isDependencyTo k" if "(k, v) \<in> set (foldl (\<lambda>m e. let t = normalizeToken (de_targetToken e) in
     if t = [] then m else mput m (DependencyToLabelKey t) (NormalizeRelationCode (de_relationCode e))) m edges)"
    and "\<forall>(k, v) \<in> set m. isDependencyTo k" for m
    using that
  proof (induction edges arbitrary: m)
    case Nil
    then show ?case by auto
  next
    case (Cons e es)
    have "\<forall>(k, v) \<in> set (mput m (DependencyToLabelKey t) c). isDependencyTo k" for t c
      using Cons.prems(2) by (induction m) (auto simp: mput_def split: if_splits)
    with Cons show ?case by (auto simp: Let_def split: if_splits)
  qed
  assume "(k, v) \<in> set (nextLabels edges)"
  then show ?thesis using step [of "[]"] by (simp add: nextLabels_def)
qed

lemma map_of_filter_keys: "map_of (filter (\<lambda>(k, v). P k) m) k = (if P k then map_of m k else None)"
  by (induction m) auto

lemma nextLabels_None: "\<not> isDependencyTo k \<Longrightarrow> map_of (nextLabels edges) k = None"
  by (metis map_of_SomeD nextLabels_keys not_None_eq)

lemma rebuild_changed_iff:
  assumes "distinct (map fst labels)"
  shows "snd (RebuildDependencyToLabels labels edges) \<longleftrightarrow>
     (\<exists>k. isDependencyTo k \<and> map_of labels k \<noteq> map_of (nextLabels edges) k)"
    (is "?l \<longleftrightarrow> ?r")
proof
  assume ?l
  then consider k v where "(k, v) \<in> set labels" "isDependencyTo k" "map_of (nextLabels edges) k \<noteq> Some v"
    | k v where "(k, v) \<in> set (nextLabels edges)" "map_of labels k \<noteq> Some v"
    by (auto simp: RebuildDependencyToLabels_def Let_def list_ex_iff split: if_splits)
  then show ?r
  proof cases
    case 1
    then show ?thesis using assms by (metis map_of_is_SomeI)
  next
    case 2
    then show ?thesis by (metis distinct_nextLabels map_of_is_SomeI nextLabels_keys)
  qed
next
  assume ?r
  then obtain k where k: "isDependencyTo k" "map_of labels k \<noteq> map_of (nextLabels edges) k" by blast
  show ?l
  proof (cases "map_of labels k")
    case None
    with k obtain v where "map_of (nextLabels edges) k = Some v" by (metis option.exhaust)
    with None have "(k, v) \<in> set (nextLabels edges)" "map_of labels k \<noteq> Some v" by (auto dest: map_of_SomeD)
    then show ?thesis by (force simp: RebuildDependencyToLabels_def Let_def list_ex_iff)
  next
    case (Some v)
    with k have "(k, v) \<in> set labels" "map_of (nextLabels edges) k \<noteq> Some v" by (auto dest: map_of_SomeD)
    with k(1) show ?thesis by (force simp: RebuildDependencyToLabels_def Let_def list_ex_iff)
  qed
qed

lemma rebuild_lookup:
  assumes "distinct (map fst labels)"
  shows "map_of (fst (RebuildDependencyToLabels labels edges)) k =
     (if isDependencyTo k then map_of (nextLabels edges) k else map_of labels k)"
proof (cases "snd (RebuildDependencyToLabels labels edges)")
  case True
  then have "fst (RebuildDependencyToLabels labels edges) =
      putAll (filter (\<lambda>(k, v). \<not> isDependencyTo k) labels) (nextLabels edges)"
    by (auto simp: RebuildDependencyToLabels_def Let_def)
  moreover have "map_of (filter (\<lambda>(k, v). \<not> isDependencyTo k) labels) k = (if isDependencyTo k then None else map_of labels k)"
    by (simp add: map_of_filter_keys)
  ultimately show ?thesis
    by (simp add: map_of_putAll [OF distinct_nextLabels] map_add_def nextLabels_None split: option.splits)
next
  case False
  then have "fst (RebuildDependencyToLabels labels edges) = labels"
    by (auto simp: RebuildDependencyToLabels_def Let_def)
  with False show ?thesis using rebuild_changed_iff [OF assms] by auto
qed

end
