(* ===== verification/Modifier.thy ===== *)
theory Modifier
  imports Types Labels
begin

text \<open>
  The engine that compiles the modifier rules of a restore (\<open>restore/modifier_engine.go\<close>,
  \<open>modifier_governance_limits.go\<close>, \<open>modifier_snapshot.go\<close>, and the JSON pointers of
  \<open>velero_value_semantics.go\<close> and \<open>modifier_submission_validation.go\<close>): which direction a
  restore has, which rules apply, which patches are forbidden, and how rules that patch the
  same field are merged. A Go pair (value, error) is a sum. The counters the compiler keeps
  are returned with the rules; those of a rejected compilation are dropped, as every caller
  does.
\<close>

section \<open>Limits\<close>

definition maxModifierRulesPerInstance :: int where "maxModifierRulesPerInstance = 1000"
definition maxPatchesPerRule :: int where "maxPatchesPerRule = 50"
definition maxJSONPointerDepth :: int where "maxJSONPointerDepth = 32"
definition maxResourceNameRegexLength :: int where "maxResourceNameRegexLength = 256"
definition maxResourceNameRegexProgramSize :: int where "maxResourceNameRegexProgramSize = 1024"

definition ModifierErrorDirectionResolveFailed :: string where "ModifierErrorDirectionResolveFailed = ''DirectionResolveFailed''"
definition ModifierErrorRuleRejected :: string where "ModifierErrorRuleRejected = ''ModifierRuleRejected''"
definition ModifierErrorRuleNotReversible :: string where "ModifierErrorRuleNotReversible = ''ModifierRuleNotReversible''"
definition ModifierErrorRuleConflict :: string where "ModifierErrorRuleConflict = ''ModifierRuleConflict''"
definition ModifierErrorFeatureDisabled :: string where "ModifierErrorFeatureDisabled = ''ModifierFeatureDisabled''"

definition rejected :: "string \<Rightarrow> err + 'a" where
  "rejected t = Inl (errorf (ModifierErrorRuleRejected @ '': '' @ t))"

definition notReversible :: "string \<Rightarrow> err + 'a" where
  "notReversible t = Inl (errorf (ModifierErrorRuleNotReversible @ '': '' @ t))"

definition unresolved :: "string \<Rightarrow> err + 'a" where
  "unresolved t = Inl (errorf (ModifierErrorDirectionResolveFailed @ '': '' @ t))"

definition validateRuleCountLimit :: "int \<Rightarrow> err + unit" where
  "validateRuleCountLimit n =
     (if n > maxModifierRulesPerInstance
      then rejected (''modifier rule count '' @ dec n @ '' exceeds limit '' @ dec maxModifierRulesPerInstance)
      else Inr ())"

definition parseGroupResource :: "string \<Rightarrow> err + string \<times> string" where
  "parseGroupResource raw0 =
     (let raw = trimSpace raw0 in
      if raw = [] then rejected ''conditions.groupResource is required''
      else let parts = splitOn (CHR ''.'') raw; resource = trimSpace (hd parts) in
        if resource = [] then rejected (''invalid groupResource='' @ raw)
        else Inr (if length parts > 1 then trimSpace (joinWith ''.'' (tl parts)) else [], resource))"

definition compileResourceNameRegex :: "matchers \<Rightarrow> string \<Rightarrow> err + unit" where
  "compileResourceNameRegex M raw0 =
     (let raw = trimSpace raw0 in
      if raw = [] then Inr ()
      else if int (length raw) > maxResourceNameRegexLength
      then rejected (''resourceNameRegex length '' @ dec (int (length raw)) @ '' exceeds limit '' @ dec maxResourceNameRegexLength)
      else case mt_regex M raw of
        Inl e \<Rightarrow> rejected (''invalid resourceNameRegex: '' @ err_text e)
      | Inr n \<Rightarrow>
          if int n > maxResourceNameRegexProgramSize
          then rejected (''resourceNameRegex program size '' @ dec (int n) @ '' exceeds limit '' @ dec maxResourceNameRegexProgramSize)
          else Inr ())"

definition validateConditionsGovernance :: "matchers \<Rightarrow> Conditions \<Rightarrow> err + unit" where
  "validateConditionsGovernance M c =
     andThen (parseGroupResource (co_groupResource c)) (\<lambda>_.
     andThen (case co_labelSelector c of
         None \<Rightarrow> Inr ()
       | Some sel \<Rightarrow> (case mt_selector M sel of Inl e \<Rightarrow> Inl (errorf (''invalid labelSelector: '' @ err_text e)) | Inr _ \<Rightarrow> Inr ())) (\<lambda>_.
     compileResourceNameRegex M (co_resourceNameRegex c)))"

definition validateResourceModifierRuleComplexity :: "matchers \<Rightarrow> string \<Rightarrow> ResourceModifierRule \<Rightarrow> err + unit" where
  "validateResourceModifierRuleComplexity M ruleID rule =
     (case validateConditionsGovernance M (mr_conditions rule) of
        Inl e \<Rightarrow> rejected (''rule='' @ ruleID @ '' '' @ err_text e)
      | Inr _ \<Rightarrow>
          if int (length (mr_patches rule)) > maxPatchesPerRule
          then rejected (''rule='' @ ruleID @ '' patch count '' @ dec (int (length (mr_patches rule))) @ '' exceeds limit '' @ dec maxPatchesPerRule)
          else Inr ())"

definition jsonPointerDepth :: "string \<Rightarrow> int" where
  "jsonPointerDepth path0 =
     (let path = trimSpace path0 in
      if path = [] \<or> path = ''/'' then 0
      else if \<not> hasPrefix path ''/'' then 0
      else int (length (filter (\<lambda>t. t \<noteq> []) (splitOn (CHR ''/'') (tl path)))))"

section \<open>JSON pointers\<close>

fun decodeJSONPointerToken :: "string \<Rightarrow> err + string" where
  "decodeJSONPointerToken [] = Inr []"
| "decodeJSONPointerToken (c # s) =
     (if c \<noteq> CHR ''~'' then andThen (decodeJSONPointerToken s) (\<lambda>t. Inr (c # t))
      else case s of
        [] \<Rightarrow> Inl (errorf ''invalid JSON Pointer escape at end'')
      | d # s' \<Rightarrow>
          if d = CHR ''0'' then andThen (decodeJSONPointerToken s') (\<lambda>t. Inr (CHR ''~'' # t))
          else if d = CHR ''1'' then andThen (decodeJSONPointerToken s') (\<lambda>t. Inr (CHR ''/'' # t))
          else Inl (errorf (''invalid JSON Pointer escape ~'' @ [d])))"

definition decodeJSONPointerPath :: "string \<Rightarrow> err + string list" where
  "decodeJSONPointerPath path0 =
     (let path = trimSpace path0 in
      if path = [] then Inl (errorf ''patch path is empty'')
      else if path = ''/'' then Inl (errorf ''path / is not allowed'')
      else if \<not> hasPrefix path ''/'' then Inl (errorf ''path must start with /'')
      else foldE (\<lambda>ts raw. andThen (decodeJSONPointerToken raw) (\<lambda>t. Inr (ts @ [t]))) [] (splitOn (CHR ''/'') (tl path)))"

text \<open>\<open>strings.ReplaceAll\<close> of one character.\<close>

definition replaceChar :: "char \<Rightarrow> string \<Rightarrow> string \<Rightarrow> string" where
  "replaceChar c r s = concat (map (\<lambda>x. if x = c then r else [x]) s)"

definition escapeJSONPointerSegment :: "string \<Rightarrow> string" where
  "escapeJSONPointerSegment s = replaceChar (CHR ''/'') ''~1'' (replaceChar (CHR ''~'') ''~0'' s)"

fun metadataMapIn :: "string list \<Rightarrow> bool" where
  "metadataMapIn (a # b # c # ts) \<longleftrightarrow>
     (a = ''metadata'' \<and> (b = ''annotations'' \<or> b = ''labels'')) \<or> metadataMapIn (b # c # ts)"
| "metadataMapIn _ \<longleftrightarrow> False"

definition pathUsesStringPreservingMetadataMap :: "string \<Rightarrow> bool" where
  "pathUsesStringPreservingMetadataMap path =
     (case decodeJSONPointerPath path of Inl _ \<Rightarrow> False | Inr ts \<Rightarrow> metadataMapIn ts)"

definition encodePairValueForVeleroPath :: "string \<Rightarrow> string \<Rightarrow> string" where
  "encodePairValueForVeleroPath path v = (if \<not> pathUsesStringPreservingMetadataMap path then v else goQuote v)"

section \<open>The direction of a restore\<close>

datatype modifierFlow = FlowForward | FlowReverse

fun flowString :: "modifierFlow \<Rightarrow> string" where
  "flowString FlowForward = ''forward''"
| "flowString FlowReverse = ''reverse''"

definition resolveModifierFlow :: "string \<Rightarrow> string \<Rightarrow> string \<Rightarrow> string \<Rightarrow> err + modifierFlow \<times> string" where
  "resolveModifierFlow baselineSource baselineTarget runtimePrimary runtimeSecondary =
     (let bs = trimSpace baselineSource; bt = trimSpace baselineTarget; p = trimSpace runtimePrimary; s = trimSpace runtimeSecondary in
      if p = [] \<and> s = [] then Inr (FlowForward, ''baselineFallback'')
      else if p = [] \<or> s = [] then unresolved ''runtime primary/secondary is incomplete''
      else if bs = [] \<or> bt = [] then unresolved ''baseline source/target is required when runtime role exists''
      else if p = bs \<and> s = bt then Inr (FlowForward, ''runtimeStatus'')
      else if p = bt \<and> s = bs then Inr (FlowReverse, ''runtimeStatus'')
      else unresolved ''runtime role does not match baseline'')"

section \<open>Options and rule attributes\<close>

record ApplyInstanceRestorePolicyOptions =
  ao_baselineSourceCluster :: string
  ao_baselineTargetCluster :: string
  ao_applyTarget :: string
  ao_systemRules :: "ResourceModifierRule list"
  ao_systemProtectRules :: "ResourceModifierRule list"
  ao_runtimeModifierRules :: "RestoreModifierRule list"
  ao_restorePolicyOverride :: "RestorePolicy option"

definition defaultApplyInstanceRestorePolicyOptions :: ApplyInstanceRestorePolicyOptions where
  "defaultApplyInstanceRestorePolicyOptions =
     \<lparr>ao_baselineSourceCluster = [], ao_baselineTargetCluster = [], ao_applyTarget = [], ao_systemRules = [],
      ao_systemProtectRules = [], ao_runtimeModifierRules = [], ao_restorePolicyOverride = None\<rparr>"

definition WithBaselineClusters :: "string \<Rightarrow> string \<Rightarrow> ApplyInstanceRestorePolicyOptions \<Rightarrow> ApplyInstanceRestorePolicyOptions" where
  "WithBaselineClusters s t ao = ao\<lparr>ao_baselineSourceCluster := trimSpace s, ao_baselineTargetCluster := trimSpace t\<rparr>"

definition isUnifiedDirectionResolverEnabled :: "RestorePolicy \<Rightarrow> bool" where
  "isUnifiedDirectionResolverEnabled p = (rp_useUnifiedDirectionResolver p = Some True)"

definition bulkModifierActionEnabled :: "BulkModifierAction \<Rightarrow> bool" where
  "bulkModifierActionEnabled a = (case ba_enabled a of None \<Rightarrow> True | Some b \<Rightarrow> b)"

definition effectiveBulkModifierActions :: "RestorePolicy \<Rightarrow> BulkModifierAction list" where
  "effectiveBulkModifierActions p = filter bulkModifierActionEnabled (rp_bulkModifierActions p)"

definition bulkModifierActionRequiresSnapshot :: "BulkModifierAction \<Rightarrow> bool" where
  "bulkModifierActionRequiresSnapshot a \<longleftrightarrow> ba_action a \<noteq> ''rewriteImage''"

definition effectiveSnapshotBulkModifierActions :: "RestorePolicy \<Rightarrow> BulkModifierAction list" where
  "effectiveSnapshotBulkModifierActions p = filter bulkModifierActionRequiresSnapshot (effectiveBulkModifierActions p)"

definition hasSnapshotBulkModifierActions :: "RestorePolicy \<Rightarrow> bool" where
  "hasSnapshotBulkModifierActions p \<longleftrightarrow> effectiveSnapshotBulkModifierActions p \<noteq> []"

definition hasNewDSLRules :: "RestorePolicy \<Rightarrow> bool" where
  "hasNewDSLRules p \<longleftrightarrow> hasSnapshotBulkModifierActions p \<or> rp_modifierRules p \<noteq> []"

definition effectiveModifierRuleInput :: "RestorePolicy \<Rightarrow> err + RestoreModifierRule list" where
  "effectiveModifierRuleInput p =
     (if \<not> hasSnapshotBulkModifierActions p then Inr (rp_modifierRules p)
      else if rp_modifierRuleSnapshot p = []
      then rejected ''bulk modifier snapshot is required when enabled bulkModifierActions exist''
      else if trimSpace (rp_modifierRuleSnapshotHash p) = []
      then rejected ''modifierRuleSnapshotHash is required when enabled bulkModifierActions exist''
      else Inr (rp_modifierRuleSnapshot p))"

definition modifierRuleEnabled :: "RestoreModifierRule \<Rightarrow> bool" where
  "modifierRuleEnabled x = (case rm_enabled x of None \<Rightarrow> True | Some b \<Rightarrow> b)"

definition modifierRuleAppliesToTarget :: "RestoreModifierRule \<Rightarrow> string \<Rightarrow> bool" where
  "modifierRuleAppliesToTarget x target \<longleftrightarrow> target = [] \<or> rm_applyTo x = [] \<or> list_ex (\<lambda>t. t = target) (rm_applyTo x)"

definition normalizeMode :: "string \<Rightarrow> string" where
  "normalizeMode mode =
     (let m = trimSpace mode in if m = ''veleroNative'' then ''veleroNative'' else if m = ''reversible'' then ''reversible'' else mode)"

definition normalizeDirectionPolicy :: "string \<Rightarrow> string" where
  "normalizeDirectionPolicy p =
     (let m = trimSpace p in if m = ''ForwardOnly'' then ''ForwardOnly'' else if m = ''ReverseOnly'' then ''ReverseOnly'' else ''Auto'')"

definition directionPolicyAllows :: "string \<Rightarrow> modifierFlow \<Rightarrow> bool" where
  "directionPolicyAllows p flow =
     (let n = normalizeDirectionPolicy p in
      if n = ''ForwardOnly'' then flow = FlowForward else if n = ''ReverseOnly'' then flow = FlowReverse else True)"

definition normalizeOnConflict :: "string \<Rightarrow> string" where
  "normalizeOnConflict p = (if trimSpace p = ''Skip'' then ''Skip'' else ''Fail'')"

definition normalizedRuleID :: "RestoreModifierRule \<Rightarrow> nat \<Rightarrow> string" where
  "normalizedRuleID x idx = (if trimSpace (rm_id x) \<noteq> [] then trimSpace (rm_id x) else ''rule-'' @ padDec 4 idx)"

section \<open>Governance of a patch\<close>

text \<open>What \<open>json.Unmarshal\<close> into a slice accepts with no element: an empty array or null.\<close>

definition isEmptyJSONArrayLiteral :: "string \<Rightarrow> bool" where
  "isEmptyJSONArrayLiteral raw0 =
     (let raw = trimSpace raw0 in
      raw = ''null'' \<or> (length raw \<ge> 2 \<and> hd raw = CHR ''['' \<and> last raw = CHR '']'' \<and>
        list_all (\<lambda>c. List.member [CHR 0x20, CHR 0x09, CHR 0x0A, CHR 0x0D] c) (butlast (tl raw))))"

definition isTrafficlessOwnerReferenceException :: "Conditions \<Rightarrow> JSONPatch \<Rightarrow> bool" where
  "isTrafficlessOwnerReferenceException c p =
     (let opn = toLower (trimSpace (jp_operation p)) in
      trimSpace (jp_path p) = ''/metadata/ownerReferences'' \<and> toLower (trimSpace (co_groupResource c)) = ''pods'' \<and>
      (opn = ''remove'' \<or> (opn = ''add'' \<and> isEmptyJSONArrayLiteral (jp_value p))))"

definition forbiddenPath :: "string \<Rightarrow> err + unit" where
  "forbiddenPath path = rejected (''patch path '' @ path @ '' is forbidden'')"

definition validatePatchGovernance :: "Conditions \<Rightarrow> JSONPatch \<Rightarrow> bool \<Rightarrow> err + unit" where
  "validatePatchGovernance c p fromSystemRule =
     (let path = trimSpace (jp_path p); depth = jsonPointerDepth path in
      if path = [] then rejected ''patch path cannot be empty''
      else if depth > maxJSONPointerDepth
      then rejected (''patch path depth '' @ dec depth @ '' exceeds limit '' @ dec maxJSONPointerDepth)
      else if hasPrefix path ''/status/'' \<or> path = ''/status'' then forbiddenPath path
      else if path = ''/metadata/finalizers'' \<or> hasPrefix path ''/metadata/finalizers/'' then forbiddenPath path
      else if path = ''/metadata/ownerReferences'' \<or> hasPrefix path ''/metadata/ownerReferences/'' then
        (if fromSystemRule \<and> isTrafficlessOwnerReferenceException c p then Inr () else forbiddenPath path)
      else Inr ())"

section \<open>The value of a reversible rule\<close>

definition reSpace :: "char \<Rightarrow> bool" where
  "reSpace c \<longleftrightarrow> List.member [CHR 0x09, CHR 0x0A, CHR 0x0C, CHR 0x0D, CHR 0x20] c"

text \<open>A match of \<open>pairPlaceholderPattern\<close> at the front: the name in it and the rest of the text.\<close>

definition placeholderAt :: "string \<Rightarrow> (string \<times> string) option" where
  "placeholderAt s =
     (if \<not> hasPrefix s ''{{'' then None
      else let t = dropWhile reSpace (drop 2 s) in
        if \<not> hasPrefix t ''.'' then None
        else case find (hasPrefix (tl t)) [''SourceCluster'', ''TargetCluster'', ''Flow''] of
            None \<Rightarrow> None
          | Some n \<Rightarrow>
              let u = dropWhile reSpace (drop (length n) (tl t)) in
              if hasPrefix u ''}}'' then Some (n, drop 2 u) else None)"

lemma placeholderAt_shorter: "placeholderAt s = Some (n, rest) \<Longrightarrow> length rest < length s"
proof -
  assume a: "placeholderAt s = Some (n, rest)"
  let ?t = "dropWhile reSpace (drop 2 s)"
  from a have "hasPrefix ?t ''.''" "rest = drop 2 (dropWhile reSpace (drop (length n) (tl ?t)))"
    by (auto simp: placeholderAt_def Let_def split: if_splits option.splits)
  moreover have "length (dropWhile P xs) \<le> length xs" for P and xs :: string
    by (simp add: length_dropWhile_le)
  then have "length rest \<le> length (tl ?t)" unfolding calculation(2)
    by (metis diff_le_self dual_order.trans length_drop)
  moreover have "?t \<noteq> []" using calculation(1) by (metis hasPrefix_def list.distinct(1) take_Nil)
  then have "length (tl ?t) < length ?t" by simp
  moreover have "length ?t \<le> length s" by (metis diff_le_self dual_order.trans length_drop length_dropWhile_le)
  ultimately show ?thesis by linarith
qed

function renderPlaceholders :: "(string \<Rightarrow> string) \<Rightarrow> string \<Rightarrow> string" where
  "renderPlaceholders v s =
     (case s of
        [] \<Rightarrow> []
      | c # s' \<Rightarrow> (case placeholderAt s of Some (n, rest) \<Rightarrow> v n @ renderPlaceholders v rest | None \<Rightarrow> c # renderPlaceholders v s'))"
  by pat_completeness auto
termination
  by (relation "measure (\<lambda>(v, s). length s)") (fastforce dest: placeholderAt_shorter)+

declare renderPlaceholders.simps [simp del]

definition placeholderValue :: "modifierFlow \<Rightarrow> ApplyInstanceRestorePolicyOptions \<Rightarrow> string \<Rightarrow> string" where
  "placeholderValue flow ao n =
     (if n = ''SourceCluster'' then ao_baselineSourceCluster ao
      else if n = ''TargetCluster'' then ao_baselineTargetCluster ao
      else flowString flow)"

definition renderRestrictedPairValue :: "string \<Rightarrow> modifierFlow \<Rightarrow> ApplyInstanceRestorePolicyOptions \<Rightarrow> err + string" where
  "renderRestrictedPairValue raw flow ao =
     (if \<not> contains raw ''{{'' then Inr raw
      else if trimSpace (ao_baselineSourceCluster ao) = [] \<or> trimSpace (ao_baselineTargetCluster ao) = []
      then unresolved ''pair placeholders require baseline source/target clusters''
      else let rendered = renderPlaceholders (placeholderValue flow ao) raw in
        if contains rendered ''{{'' \<or> contains rendered ''}}''
        then rejected ''pair value contains unsupported placeholder; only {{ .SourceCluster }}, {{ .TargetCluster }}, {{ .Flow }} are allowed''
        else Inr rendered)"

definition resolvePairValue :: "RestoreModifierPair \<Rightarrow> modifierFlow \<Rightarrow> ApplyInstanceRestorePolicyOptions \<Rightarrow> err + string" where
  "resolvePairValue p flow ao =
     (let raw = (if flow = FlowReverse then trimSpace (pa_sourceValue p) else trimSpace (pa_targetValue p)) in
      if flow = FlowForward \<and> raw = [] then notReversible ''reversible rule missing pair.targetValue''
      else if flow = FlowReverse \<and> raw = [] then notReversible ''reversible rule missing pair.sourceValue''
      else renderRestrictedPairValue raw flow ao)"

section \<open>Compilation of one rule\<close>

record compiledCandidate =
  cc_rule :: ResourceModifierRule
  cc_ruleID :: string
  cc_priority :: int
  cc_onConflict :: string
  cc_isSystem :: bool
  cc_isSystemProtect :: bool

definition userCandidate :: "Conditions \<Rightarrow> JSONPatch list \<Rightarrow> compiledCandidate" where
  "userCandidate c ps = \<lparr>cc_rule = \<lparr>mr_conditions = c, mr_patches = ps\<rparr>, cc_ruleID = [], cc_priority = 0, cc_onConflict = [],
     cc_isSystem = False, cc_isSystemProtect = False\<rparr>"

definition compileVeleroNativeRule :: "RestoreModifierRule \<Rightarrow> err + compiledCandidate" where
  "compileVeleroNativeRule x =
     (case rm_veleroRule x of
        None \<Rightarrow> rejected ''veleroNative rule missing veleroRule''
      | Some v \<Rightarrow>
          if vr_mergePatches v \<noteq> [] \<or> vr_strategicPatches v \<noteq> []
          then rejected ''mergePatches/strategicPatches are not supported in phase 1''
          else if vr_patches v = [] then rejected ''veleroNative rule patches cannot be empty''
          else andThen (checkAll (\<lambda>p. validatePatchGovernance (rm_conditions x) p False) (vr_patches v))
                 (\<lambda>_. Inr (userCandidate (rm_conditions x) (vr_patches v))))"

definition compileReversibleRule :: "RestoreModifierRule \<Rightarrow> modifierFlow \<Rightarrow> ApplyInstanceRestorePolicyOptions \<Rightarrow> err + compiledCandidate" where
  "compileReversibleRule x flow ao =
     (case rm_pair x of
        None \<Rightarrow> notReversible ''reversible rule must use pair canonical form (pair.path, pair.sourceValue, pair.targetValue)''
      | Some pr \<Rightarrow>
          let path = trimSpace (pa_path pr) in
          if path = [] then notReversible ''reversible rule missing pair.path''
          else if hasSuffix path ''/-'' then notReversible ''reversible rule does not support append path /-''
          else andThen (resolvePairValue pr flow ao) (\<lambda>v.
            let p = \<lparr>jp_operation = ''add'', jp_path = path, jp_value = encodePairValueForVeleroPath path v, jp_from = []\<rparr> in
            andThen (validatePatchGovernance (rm_conditions x) p False) (\<lambda>_. Inr (userCandidate (rm_conditions x) [p]))))"

definition compileOneModifierRule :: "matchers \<Rightarrow> RestoreModifierRule \<Rightarrow> modifierFlow \<Rightarrow> ApplyInstanceRestorePolicyOptions \<Rightarrow> err + compiledCandidate" where
  "compileOneModifierRule M x flow ao =
     (case validateConditionsGovernance M (rm_conditions x) of
        Inl e \<Rightarrow> rejected (err_text e)
      | Inr _ \<Rightarrow>
          let mode = normalizeMode (rm_mode x) in
          if mode = ''veleroNative'' then compileVeleroNativeRule x
          else if mode = ''reversible'' then compileReversibleRule x flow ao
          else rejected (''unsupported mode='' @ rm_mode x))"

section \<open>System rules\<close>

definition systemCandidate :: "matchers \<Rightarrow> string \<Rightarrow> bool \<Rightarrow> nat \<times> ResourceModifierRule \<Rightarrow> err + compiledCandidate" where
  "systemCandidate M idPrefix isProtect = (\<lambda>(idx, rule).
     let ruleID = idPrefix @ ''-'' @ padDec 4 idx in
     andThen (validateResourceModifierRuleComplexity M ruleID rule) (\<lambda>_.
       if mr_patches rule = [] then rejected (idPrefix @ '' rule['' @ dec (int idx) @ ''] patches cannot be empty'')
       else andThen (checkAll (\<lambda>p. validatePatchGovernance (mr_conditions rule) p True) (mr_patches rule)) (\<lambda>_.
         Inr \<lparr>cc_rule = rule, cc_ruleID = ruleID, cc_priority = 0, cc_onConflict = ''Fail'', cc_isSystem = True,
              cc_isSystemProtect = isProtect\<rparr>)))"

definition compileSystemRules :: "matchers \<Rightarrow> string \<Rightarrow> bool \<Rightarrow> ResourceModifierRule list \<Rightarrow> compiledCandidate list \<Rightarrow> err + compiledCandidate list" where
  "compileSystemRules M idPrefix isProtect rules cs =
     foldE (\<lambda>cs x. andThen (systemCandidate M idPrefix isProtect x) (\<lambda>c. Inr (cs @ [c]))) cs (List.enumerate 0 rules)"

definition compileSystemRuleCandidates :: "matchers \<Rightarrow> ApplyInstanceRestorePolicyOptions \<Rightarrow> err + compiledCandidate list" where
  "compileSystemRuleCandidates M ao =
     andThen (compileSystemRules M ''system'' False (ao_systemRules ao) [])
       (compileSystemRules M ''system-protect'' True (ao_systemProtectRules ao))"

section \<open>Merging\<close>

definition normalizedConditions :: "matchers \<Rightarrow> Conditions \<Rightarrow> string" where
  "normalizedConditions M c =
     ''groupResource='' @ trimSpace (co_groupResource c) @ ''|resourceNameRegex='' @ trimSpace (co_resourceNameRegex c) @
     ''|namespaces='' @ joinWith '','' (sort (co_namespaces c)) @ ''|labelSelector='' @
     (case co_labelSelector c of None \<Rightarrow> [] | Some sel \<Rightarrow> (case mt_selector M sel of Inl _ \<Rightarrow> [] | Inr t \<Rightarrow> t))"

definition makeConflictKey :: "matchers \<Rightarrow> Conditions \<Rightarrow> JSONPatch \<Rightarrow> string" where
  "makeConflictKey M c p =
     normalizedConditions M c @ ''|'' @ toLower (trimSpace (jp_operation p)) @ ''|'' @ trimSpace (jp_path p)"

record selectedPatch =
  sl_candidate :: compiledCandidate
  sl_patch :: JSONPatch

record mergeState =
  mg_selected :: "(string \<times> selectedPatch) list"
  mg_order :: "string list"
  mg_skipped :: int

definition ruleOrder :: "compiledCandidate \<Rightarrow> int \<times> string" where
  "ruleOrder c = (- cc_priority c, cc_ruleID c)"

definition patchesOf :: "compiledCandidate list \<Rightarrow> (compiledCandidate \<times> JSONPatch) list" where
  "patchesOf cs = concat (map (\<lambda>c. map (Pair c) (mr_patches (cc_rule c))) cs)"

definition mergePatch :: "matchers \<Rightarrow> mergeState \<Rightarrow> compiledCandidate \<times> JSONPatch \<Rightarrow> err + mergeState" where
  "mergePatch M st = (\<lambda>(c, p).
     let key = makeConflictKey M (mr_conditions (cc_rule c)) p;
         new = \<lparr>sl_candidate = c, sl_patch = p\<rparr>;
         skip = Inr (st\<lparr>mg_skipped := mg_skipped st + 1\<rparr>);
         replace = Inr (st\<lparr>mg_selected := AList.update key new (mg_selected st)\<rparr>) in
     case map_of (mg_selected st) key of
       None \<Rightarrow> Inr (st\<lparr>mg_selected := AList.update key new (mg_selected st), mg_order := mg_order st @ [key]\<rparr>)
     | Some ex \<Rightarrow>
         let e = sl_candidate ex in
         if jp_value (sl_patch ex) = jp_value p then skip
         else if cc_isSystemProtect e \<and> \<not> cc_isSystemProtect c then skip
         else if cc_isSystemProtect c \<and> \<not> cc_isSystemProtect e then replace
         else if cc_priority c = cc_priority e then
           (if cc_onConflict c = ''Skip'' then skip
            else Inl (errorf (ModifierErrorRuleConflict @ '': conflict key='' @ key @ '' existingRule='' @ cc_ruleID e @
                   '' currentRule='' @ cc_ruleID c)))
         else if cc_priority c > cc_priority e then replace
         else skip)"

definition selectedRule :: "selectedPatch \<Rightarrow> ResourceModifierRule" where
  "selectedRule s = \<lparr>mr_conditions = mr_conditions (cc_rule (sl_candidate s)), mr_patches = [sl_patch s]\<rparr>"

text \<open>The compiled rules and the number of skipped candidates.\<close>

definition mergeCompiledCandidates :: "matchers \<Rightarrow> compiledCandidate list \<Rightarrow> int \<Rightarrow> err + ResourceModifierRule list \<times> int" where
  "mergeCompiledCandidates M rules skipped =
     andThen (foldE (mergePatch M) \<lparr>mg_selected = [], mg_order = [], mg_skipped = skipped\<rparr> (patchesOf (sort_key ruleOrder rules)))
       (\<lambda>st. Inr (map (\<lambda>k. selectedRule (the (map_of (mg_selected st) k))) (mg_order st), mg_skipped st))"

section \<open>Compilation of a policy\<close>

text \<open>\<open>None\<close> when the rule does not take part.\<close>

definition compileRule :: "matchers \<Rightarrow> modifierFlow \<Rightarrow> ApplyInstanceRestorePolicyOptions \<Rightarrow> nat \<times> RestoreModifierRule \<Rightarrow> err + compiledCandidate option" where
  "compileRule M flow ao = (\<lambda>(idx, x).
     if \<not> modifierRuleEnabled x then Inr None
     else if \<not> modifierRuleAppliesToTarget x (ao_applyTarget ao) then Inr None
     else if \<not> directionPolicyAllows (rm_directionPolicy x) flow then Inr None
     else andThen (compileOneModifierRule M x flow ao) (\<lambda>c.
       Inr (Some (c\<lparr>cc_priority := rm_priority x, cc_ruleID := normalizedRuleID x idx, cc_onConflict := normalizeOnConflict (rm_onConflict x)\<rparr>))))"

definition compileRules :: "matchers \<Rightarrow> modifierFlow \<Rightarrow> ApplyInstanceRestorePolicyOptions \<Rightarrow> RestoreModifierRule list \<Rightarrow>
    compiledCandidate list \<times> int \<Rightarrow> err + compiledCandidate list \<times> int" where
  "compileRules M flow ao rules s =
     foldE (\<lambda>t x. andThen (compileRule M flow ao x) (\<lambda>y.
       Inr (case y of None \<Rightarrow> (fst t, snd t + 1) | Some c \<Rightarrow> (fst t @ [c], snd t)))) s (List.enumerate 0 rules)"

record ModifierCompileSummary =
  mcs_flow :: string
  mcs_directionSource :: string
  mcs_applied :: int
  mcs_skipped :: int

definition finishCompile :: "matchers \<Rightarrow> string \<Rightarrow> string \<Rightarrow> compiledCandidate list \<times> int \<Rightarrow> err + ResourceModifierRule list \<times> ModifierCompileSummary" where
  "finishCompile M flow source s =
     andThen (mergeCompiledCandidates M (fst s) (snd s)) (\<lambda>(rules, skipped).
       Inr (rules, \<lparr>mcs_flow = flow, mcs_directionSource = source, mcs_applied = int (length rules), mcs_skipped = skipped\<rparr>))"

definition compileModifierRulesForInstance :: "matchers \<Rightarrow> DisasterInstance \<Rightarrow> ApplyInstanceRestorePolicyOptions \<Rightarrow>
    err + ResourceModifierRule list \<times> ModifierCompileSummary" where
  "compileModifierRulesForInstance M i ao =
     andThen (compileSystemRuleCandidates M ao) (\<lambda>system.
       case di_restorePolicy (in_spec i) of
         None \<Rightarrow> finishCompile M [] [] (system, 0)
       | Some policy \<Rightarrow>
           andThen (effectiveModifierRuleInput policy) (\<lambda>input.
           andThen (validateRuleCountLimit (int (length (ao_systemRules ao) + length (ao_systemProtectRules ao) +
                      length (ao_runtimeModifierRules ao) + length input))) (\<lambda>_.
             if \<not> isUnifiedDirectionResolverEnabled policy \<and> hasNewDSLRules policy
             then Inl (errorf (ModifierErrorFeatureDisabled @ '': unified direction resolver is disabled for modifierRules''))
             else if \<not> isUnifiedDirectionResolverEnabled policy \<and> ao_runtimeModifierRules ao = []
             then finishCompile M [] [] (system, 0)
             else if input = [] \<and> ao_runtimeModifierRules ao = [] then finishCompile M [] [] (system, 0)
             else
               andThen (resolveModifierFlow (ao_baselineSourceCluster ao) (ao_baselineTargetCluster ao)
                          (is_primaryCluster (in_status i)) (is_secondaryCluster (in_status i))) (\<lambda>(flow, source).
               andThen (compileRules M flow ao (ao_runtimeModifierRules ao) (system, 0)) (\<lambda>s1.
               andThen (compileRules M flow ao input s1) (finishCompile M (flowString flow) source))))))"

end
