(* ===== verification/RestorePolicies.thy ===== *)
theory RestorePolicies
  imports Kube Modifier
begin

text \<open>
  The restore policy of an instance applied to the specification of a restore
  (\<open>restore/policy.go\<close> and \<open>restore/builder.go\<close>): selection of resources, execution settings,
  mapping of storage and ingress classes with the classes of the target cluster, and the
  compilation of the modifier rules. The result is the specification with a summary of what
  was applied.
\<close>

section \<open>The effective policy\<close>

definition overrideWith :: "'a option \<Rightarrow> 'a option \<Rightarrow> 'a option" where
  "overrideWith new old = (case new of None \<Rightarrow> old | Some x \<Rightarrow> Some x)"

definition EffectiveRestorePolicy :: "DisasterInstance \<Rightarrow> RestorePolicy option \<Rightarrow> RestorePolicy option" where
  "EffectiveRestorePolicy i ov =
     (case di_restorePolicy (in_spec i) of
        None \<Rightarrow> ov
      | Some p \<Rightarrow> (case ov of
          None \<Rightarrow> Some p
        | Some q \<Rightarrow> Some (p\<lparr>rp_resourceSelection := overrideWith (rp_resourceSelection q) (rp_resourceSelection p),
            rp_execution := overrideWith (rp_execution q) (rp_execution p),
            rp_storageClassMapping := overrideWith (rp_storageClassMapping q) (rp_storageClassMapping p),
            rp_ingressClassMapping := overrideWith (rp_ingressClassMapping q) (rp_ingressClassMapping p),
            rp_useUnifiedDirectionResolver := overrideWith (rp_useUnifiedDirectionResolver q) (rp_useUnifiedDirectionResolver p),
            rp_bulkModifierActions := rp_bulkModifierActions q, rp_modifierRules := rp_modifierRules q,
            rp_modifierRuleSnapshot := rp_modifierRuleSnapshot q,
            rp_modifierRuleSnapshotHash := trimSpace (rp_modifierRuleSnapshotHash q)\<rparr>)))"

definition RequiresTargetClassValidationWithOverride :: "DisasterInstance \<Rightarrow> RestorePolicy option \<Rightarrow> bool" where
  "RequiresTargetClassValidationWithOverride i ov =
     (case EffectiveRestorePolicy i ov of
        None \<Rightarrow> False
      | Some p \<Rightarrow>
          (case rp_storageClassMapping p of None \<Rightarrow> False | Some m \<Rightarrow> cmp_strict m) \<or>
          (case rp_ingressClassMapping p of None \<Rightarrow> False | Some m \<Rightarrow> cmp_strict m))"

section \<open>Selection and execution\<close>

definition includeClusterResourcesIsTrue :: "bool option \<Rightarrow> bool" where
  "includeClusterResourcesIsTrue v \<longleftrightarrow> v = Some True"

definition hasScopedResourceFilters :: "RestoreResourceSelectionPolicy \<Rightarrow> bool" where
  "hasScopedResourceFilters p \<longleftrightarrow> rs_includedNamespaceScoped p \<noteq> [] \<or> rs_excludedNamespaceScoped p \<noteq> [] \<or>
     rs_includedClusterScoped p \<noteq> [] \<or> rs_excludedClusterScoped p \<noteq> []"

definition mergeUniqueStringsInOrder :: "string list list \<Rightarrow> string list" where
  "mergeUniqueStringsInOrder parts =
     foldl (\<lambda>out item. let v = trimSpace item in if v = [] then out else if List.member out v then out else out @ [v]) [] (concat parts)"

definition resolveScopedIncludeClusterResources :: "string list \<Rightarrow> string list \<Rightarrow> bool option" where
  "resolveScopedIncludeClusterResources inc exc =
     (if length exc = 1 \<and> trimSpace (hd exc) = ''*'' then Some False
      else if inc \<noteq> [] \<or> exc \<noteq> [] then Some True else None)"

definition orKeep :: "'a list \<Rightarrow> 'a list \<Rightarrow> 'a list" where
  "orKeep new old = (if new \<noteq> [] then new else old)"

definition onTemplate :: "(RestoreTemplate \<Rightarrow> RestoreTemplate) \<Rightarrow> AppRestoreSpec \<Rightarrow> AppRestoreSpec" where
  "onTemplate f s = s\<lparr>ars_template := f (ars_template s)\<rparr>"

definition plainResources :: "RestoreResourceSelectionPolicy \<Rightarrow> AppRestoreSpec \<Rightarrow> AppRestoreSpec" where
  "plainResources p = onTemplate (\<lambda>t. t\<lparr>rt_includedResources := orKeep (rs_includedResources p) (rt_includedResources t),
     rt_excludedResources := orKeep (rs_excludedResources p) (rt_excludedResources t)\<rparr>)"

text \<open>The specification and the mode of the selection.\<close>

definition applyResourceSelectionPolicy :: "RestoreResourceSelectionPolicy option \<Rightarrow> AppRestoreSpec \<Rightarrow> AppRestoreSpec \<times> string" where
  "applyResourceSelectionPolicy sel spec =
     (case sel of
        None \<Rightarrow> (spec, [])
      | Some p \<Rightarrow>
          let s = onTemplate (\<lambda>t. t\<lparr>rt_includedNamespaces := orKeep (rs_includedNamespaces p) (rt_includedNamespaces t),
                    rt_excludedNamespaces := orKeep (rs_excludedNamespaces p) (rt_excludedNamespaces t),
                    rt_labelSelector := overrideWith (rs_labelSelector p) (rt_labelSelector t)\<rparr>) spec in
          if includeClusterResourcesIsTrue (rs_includeClusterResources p)
          then (onTemplate (\<lambda>t. t\<lparr>rt_includeClusterResources := rs_includeClusterResources p\<rparr>) (plainResources p s), ''old'')
          else if hasScopedResourceFilters p
          then (onTemplate (\<lambda>t. t\<lparr>
                  rt_includedResources := mergeUniqueStringsInOrder [rs_includedNamespaceScoped p, rs_includedClusterScoped p],
                  rt_excludedResources := mergeUniqueStringsInOrder [rs_excludedNamespaceScoped p, rs_excludedClusterScoped p],
                  rt_includeClusterResources := resolveScopedIncludeClusterResources (rs_includedClusterScoped p) (rs_excludedClusterScoped p)\<rparr>) s,
                ''scoped'')
          else (onTemplate (\<lambda>t. t\<lparr>rt_includeClusterResources := overrideWith (rs_includeClusterResources p) (rt_includeClusterResources t)\<rparr>)
                  (plainResources p s),
                if rs_includedResources p \<noteq> [] \<or> rs_excludedResources p \<noteq> [] \<or> rs_includeClusterResources p \<noteq> None then ''old'' else []))"

definition applyExecutionPolicy :: "RestoreExecutionPolicy option \<Rightarrow> AppRestoreSpec \<Rightarrow> err + AppRestoreSpec" where
  "applyExecutionPolicy ex spec =
     (case ex of
        None \<Rightarrow> Inr spec
      | Some p \<Rightarrow>
          let n = toLower (trimSpace (ex_existingResourcePolicy p)) in
          andThen (if ex_existingResourcePolicy p = [] then Inr spec
                   else if n = ''none'' \<or> n = ''update'' then Inr (onTemplate (\<lambda>t. t\<lparr>rt_existingResourcePolicy := n\<rparr>) spec)
                   else Inl (errorf (''ClassMappingInvalid: invalid existingResourcePolicy='' @ ex_existingResourcePolicy p))) (\<lambda>s.
          Inr (onTemplate (\<lambda>t. t\<lparr>rt_restorePVs := overrideWith (ex_restorePVs p) (rt_restorePVs t),
                 rt_itemOperationTimeout := (case ex_itemOperationTimeout p of None \<Rightarrow> rt_itemOperationTimeout t | Some d \<Rightarrow> d)\<rparr>) s)))"

section \<open>Class mappings\<close>

definition classInvalid :: "string \<Rightarrow> err" where
  "classInvalid t = errorf (''ClassMappingInvalid: '' @ t)"

definition mappingKey :: "RestoreClassMapping \<Rightarrow> string" where
  "mappingKey m = trimSpace (cma_sourceClass m) @ ''|'' @ joinWith '','' (sort (cma_namespaces m))"

definition validateClassMapping :: "smap \<Rightarrow> RestoreClassMapping \<Rightarrow> err + smap" where
  "validateClassMapping seen m =
     (let source = trimSpace (cma_sourceClass m); target = trimSpace (cma_targetClass m); key = mappingKey m in
      if source = [] \<or> target = [] then Inl (classInvalid ''sourceClass/targetClass must be non-empty'')
      else case map_of seen key of
        Some prev \<Rightarrow>
          if prev \<noteq> target
          then Inl (classInvalid (''duplicate sourceClass='' @ source @ '' with conflicting targetClass ('' @ prev @ '','' @ target @ '')''))
          else Inr (mput seen key target)
      | None \<Rightarrow> Inr (mput seen key target))"

definition validateClassMappings :: "RestoreClassMapping list \<Rightarrow> err + unit" where
  "validateClassMappings ms = andThen (foldE validateClassMapping [] ms) (\<lambda>_. Inr ())"

definition reverseClassMappings :: "RestoreClassMapping list \<Rightarrow> RestoreClassMapping list" where
  "reverseClassMappings ms = map (\<lambda>m. m\<lparr>cma_sourceClass := cma_targetClass m, cma_targetClass := cma_sourceClass m\<rparr>) ms"

definition normalizedUnmatchedPolicy :: "string \<Rightarrow> string" where
  "normalizedUnmatchedPolicy p = (if p = ''Fail'' then ''Fail'' else ''Keep'')"

record mappingSummary =
  ms_mappingCount :: int
  ms_unmatchedPolicy :: string
  ms_strictValidation :: bool

definition summaryOf :: "RestoreClassMappingPolicy option \<Rightarrow> mappingSummary" where
  "summaryOf x = (case x of
     None \<Rightarrow> \<lparr>ms_mappingCount = 0, ms_unmatchedPolicy = ''Keep'', ms_strictValidation = False\<rparr>
   | Some p \<Rightarrow> \<lparr>ms_mappingCount = int (length (cmp_mappings p)), ms_unmatchedPolicy = normalizedUnmatchedPolicy (cmp_unmatchedPolicy p),
       ms_strictValidation = cmp_strict p\<rparr>)"

text \<open>The mappings in the direction of the restore, checked.\<close>

definition effectiveMappings :: "string \<Rightarrow> RestoreClassMappingPolicy \<Rightarrow> modifierFlow \<Rightarrow> err + RestoreClassMapping list" where
  "effectiveMappings field p flow =
     (if normalizedUnmatchedPolicy (cmp_unmatchedPolicy p) = ''Fail'' \<and> cmp_mappings p = []
      then Inl (classInvalid (field @ ''.mappings is required when unmatchedPolicy=Fail''))
      else andThen (validateClassMappings (cmp_mappings p)) (\<lambda>_.
        if flow = FlowReverse
        then andThen (validateClassMappings (reverseClassMappings (cmp_mappings p))) (\<lambda>_. Inr (reverseClassMappings (cmp_mappings p)))
        else Inr (cmp_mappings p)))"

text \<open>\<open>validateStorageClassTargets\<close> and \<open>validateIngressClassTargets\<close>, which differ in the list and the code of the error.\<close>

definition validateClassTargets :: "string \<Rightarrow> string \<Rightarrow> (world \<Rightarrow> string list) \<Rightarrow> RestoreClassMapping list \<Rightarrow> unit result" where
  "validateClassTargets code noun classes ms =
     chkWrap (code @ '': list '' @ noun @ '' failed: '') (apiListRaw classes (\<lambda>_. True)) (\<lambda>available.
       case find (\<lambda>m. \<not> List.member available (cma_targetClass m)) ms of
         None \<Rightarrow> ok ()
       | Some m \<Rightarrow> fail (errorf (code @ '': '' @ cma_targetClass m)))"

text \<open>
  The strict check. The code prepares a fallback to the reversed mappings, enabled when the
  policy is not strict; inside the strict branch it is never enabled, so a missing target
  class is an error.
\<close>

definition strictCheck :: "string option \<Rightarrow> RestoreClassMappingPolicy \<Rightarrow> (string \<Rightarrow> unit result) \<Rightarrow> unit result" where
  "strictCheck target p check =
     (if \<not> cmp_strict p then ok ()
      else case target of
        None \<Rightarrow> fail (classInvalid ''strictTargetValidation requires target cluster client'')
      | Some c \<Rightarrow> check c)"

definition addRule :: "string \<Rightarrow> string list \<Rightarrow> string \<Rightarrow> string \<Rightarrow> ResourceModifierRule" where
  "addRule resource nss path v =
     \<lparr>mr_conditions = \<lparr>co_groupResource = resource, co_resourceNameRegex = [], co_namespaces = nss, co_labelSelector = None\<rparr>,
      mr_patches = [\<lparr>jp_operation = ''add'', jp_path = path, jp_value = v, jp_from = []\<rparr>]\<rparr>"

definition classRules :: "string \<Rightarrow> string \<Rightarrow> string list \<Rightarrow> RestoreClassMapping list \<Rightarrow> ResourceModifierRule list" where
  "classRules resource path defaultNamespaces ms =
     map (\<lambda>m. addRule resource (if cma_namespaces m = [] then defaultNamespaces else cma_namespaces m) path (cma_targetClass m)) ms"

definition storageRules :: "string list \<Rightarrow> RestoreClassMapping list \<Rightarrow> err + ResourceModifierRule list" where
  "storageRules defaultNamespaces ms =
     (let rules = classRules ''persistentvolumeclaims'' ''/spec/storageClassName'' defaultNamespaces ms;
          targets = sort (remdups (map cma_targetClass ms)) in
      if length targets > 1
      then Inl (classInvalid (''storageClassMapping generates multiple target classes for PV: '' @ joinWith '','' targets))
      else Inr (if length targets = 1 then rules @ [addRule ''persistentvolumes'' [] ''/spec/storageClassName'' (hd targets)] else rules))"

definition lift :: "err + 'a \<Rightarrow> 'a result" where
  "lift x = ret x"

definition buildStorageClassRules :: "string option \<Rightarrow> RestoreClassMappingPolicy option \<Rightarrow> string list \<Rightarrow> modifierFlow \<Rightarrow> ResourceModifierRule list result" where
  "buildStorageClassRules target x defaultNamespaces flow =
     (case x of
        None \<Rightarrow> ok []
      | Some p \<Rightarrow>
          chk (lift (effectiveMappings ''storageClassMapping'' p flow)) (\<lambda>ms.
          chk (strictCheck target p (\<lambda>c. validateClassTargets ''StorageClassTargetNotFound'' ''storageclasses'' (\<lambda>w. w_scs w c) ms)) (\<lambda>_.
          lift (storageRules defaultNamespaces ms))))"

definition buildIngressClassRules :: "string option \<Rightarrow> RestoreClassMappingPolicy option \<Rightarrow> string list \<Rightarrow> modifierFlow \<Rightarrow> ResourceModifierRule list result" where
  "buildIngressClassRules target x defaultNamespaces flow =
     (case x of
        None \<Rightarrow> ok []
      | Some p \<Rightarrow>
          chk (lift (effectiveMappings ''ingressClassMapping'' p flow)) (\<lambda>ms.
          chk (strictCheck target p (\<lambda>c. validateClassTargets ''IngressClassTargetNotFound'' ''ingressclasses'' (\<lambda>w. w_ics w c) ms)) (\<lambda>_.
          ok (classRules ''ingresses.networking.k8s.io'' ''/spec/ingressClassName'' defaultNamespaces ms))))"

section \<open>Applying the policy\<close>

record PolicySummary =
  ps_source :: string
  ps_storageRuleCount :: int
  ps_ingressRuleCount :: int
  ps_storage :: mappingSummary
  ps_ingress :: mappingSummary
  ps_flow :: string
  ps_directionSource :: string
  ps_applied :: int
  ps_skipped :: int
  ps_modifierSource :: string
  ps_bulkActionCount :: int
  ps_snapshotHash :: string
  ps_selectionMode :: string

definition defaultPolicySummary :: PolicySummary where
  "defaultPolicySummary = \<lparr>ps_source = ''default'', ps_storageRuleCount = 0, ps_ingressRuleCount = 0,
     ps_storage = \<lparr>ms_mappingCount = 0, ms_unmatchedPolicy = [], ms_strictValidation = False\<rparr>,
     ps_ingress = \<lparr>ms_mappingCount = 0, ms_unmatchedPolicy = [], ms_strictValidation = False\<rparr>,
     ps_flow = [], ps_directionSource = [], ps_applied = 0, ps_skipped = 0, ps_modifierSource = [], ps_bulkActionCount = 0,
     ps_snapshotHash = [], ps_selectionMode = []\<rparr>"

definition bulkSummary :: "RestorePolicy \<Rightarrow> PolicySummary \<Rightarrow> PolicySummary" where
  "bulkSummary p s =
     (let actions = effectiveBulkModifierActions p; snap = effectiveSnapshotBulkModifierActions p in
      if actions = [] then s
      else s\<lparr>ps_modifierSource := (if snap \<noteq> [] \<and> length snap < length actions then ''bulkActionsMixed''
               else if snap \<noteq> [] then ''bulkActions'' else ''runtimeBulkActions''),
             ps_bulkActionCount := int (length actions),
             ps_snapshotHash := (if snap \<noteq> [] then trimSpace (rp_modifierRuleSnapshotHash p) else [])\<rparr>)"

text \<open>The direction of the class mappings.\<close>

definition mappingDirection :: "DisasterInstance \<Rightarrow> RestorePolicy \<Rightarrow> ApplyInstanceRestorePolicyOptions \<Rightarrow> err + modifierFlow \<times> string \<times> string" where
  "mappingDirection i p ao =
     (if isUnifiedDirectionResolverEnabled p \<and> (rp_storageClassMapping p \<noteq> None \<or> rp_ingressClassMapping p \<noteq> None)
      then andThen (resolveModifierFlow (ao_baselineSourceCluster ao) (ao_baselineTargetCluster ao)
               (is_primaryCluster (in_status i)) (is_secondaryCluster (in_status i))) (\<lambda>(flow, source). Inr (flow, flowString flow, source))
      else Inr (FlowForward, [], []))"

definition ApplyInstanceRestorePolicy :: "matchers \<Rightarrow> AppRestoreSpec \<Rightarrow> DisasterInstance \<Rightarrow> string option \<Rightarrow>
    ApplyInstanceRestorePolicyOptions \<Rightarrow> (AppRestoreSpec \<times> PolicySummary) result" where
  "ApplyInstanceRestorePolicy M spec i target ao =
     (case EffectiveRestorePolicy i (ao_restorePolicyOverride ao) of
        None \<Rightarrow> ok (spec, defaultPolicySummary)
      | Some p \<Rightarrow>
          let s0 = bulkSummary p (defaultPolicySummary\<lparr>ps_source := (if ao_restorePolicyOverride ao \<noteq> None then ''drillOverride'' else ''instance'')\<rparr>);
              sel = applyResourceSelectionPolicy (rp_resourceSelection p) spec in
          chk (lift (applyExecutionPolicy (rp_execution p) (fst sel))) (\<lambda>spec1.
          chk (lift (mappingDirection i p ao)) (\<lambda>(flow, fs, src).
          chk (buildStorageClassRules target (rp_storageClassMapping p) (di_namespaces (in_spec i)) flow) (\<lambda>storage.
          chk (buildIngressClassRules target (rp_ingressClassMapping p) (di_namespaces (in_spec i)) flow) (\<lambda>ingress.
          chk (lift (compileModifierRulesForInstance M (i\<lparr>in_spec := (in_spec i)\<lparr>di_restorePolicy := Some p\<rparr>\<rparr>)
                 (ao\<lparr>ao_systemRules := ars_modifierRules spec1 @ storage @ ingress @ ao_systemRules ao\<rparr>))) (\<lambda>(rules, cs).
          ok (spec1\<lparr>ars_modifierRules := rules\<rparr>,
              s0\<lparr>ps_selectionMode := snd sel, ps_storageRuleCount := int (length storage), ps_ingressRuleCount := int (length ingress),
                 ps_storage := summaryOf (rp_storageClassMapping p), ps_ingress := summaryOf (rp_ingressClassMapping p),
                 ps_flow := (if mcs_flow cs \<noteq> [] then mcs_flow cs else fs),
                 ps_directionSource := (if mcs_directionSource cs \<noteq> [] then mcs_directionSource cs else src),
                 ps_applied := mcs_applied cs, ps_skipped := mcs_skipped cs\<rparr>)))))))"

end
