(* ===== verification/ModifierSubmission.thy ===== *)
theory ModifierSubmission
  imports RestorePolicies
begin

text \<open>
  Validation of a restore policy when an instance is submitted
  (\<open>restore/modifier_submission_validation.go\<close>, \<open>resource_selection_validation.go\<close> and the
  webhook \<open>webhook/disasterinstance/validator.go\<close>), also run by the pre-check of a failover.
  What the rules select in the live source cluster, and whether their paths exist there, is a
  call whose outcome is left open.
\<close>

section \<open>Selection of resources\<close>

definition normalizeResourceFilterValues :: "string list \<Rightarrow> string list" where
  "normalizeResourceFilterValues vs = filter (\<lambda>v. v \<noteq> []) (map trimSpace vs)"

definition selectionInvalid :: "string \<Rightarrow> err + 'a" where
  "selectionInvalid t = Inl (errorf (''ResourceSelectionInvalid: '' @ t))"

definition validateResourceFilterSet :: "string \<Rightarrow> string \<Rightarrow> string list \<Rightarrow> string list \<Rightarrow> err + unit" where
  "validateResourceFilterSet includeField excludeField includeRaw excludeRaw =
     (let inc = normalizeResourceFilterValues includeRaw; exc = normalizeResourceFilterValues excludeRaw;
          ip = ''spec.restorePolicy.resourceSelection.'' @ includeField; ep = ''spec.restorePolicy.resourceSelection.'' @ excludeField in
      if inc = [] \<or> exc = [] then Inr ()
      else if List.member inc ''*'' then selectionInvalid (ip @ '' contains '' @ [CHR 0x27] @ ''*'' @ [CHR 0x27] @ '' and cannot be combined with '' @ ep)
      else if List.member exc ''*'' then selectionInvalid (ep @ '' contains '' @ [CHR 0x27] @ ''*'' @ [CHR 0x27] @ '' and cannot be combined with '' @ ip)
      else case find (List.member exc) inc of
        None \<Rightarrow> Inr ()
      | Some x \<Rightarrow> selectionInvalid (ip @ '' and '' @ ep @ '' conflict on resource '' @ goQuote x))"

definition ValidateRestoreResourceSelectionAtSubmission :: "RestoreResourceSelectionPolicy option \<Rightarrow> err + unit" where
  "ValidateRestoreResourceSelectionAtSubmission sel =
     (case sel of
        None \<Rightarrow> Inr ()
      | Some p \<Rightarrow>
          let plain = validateResourceFilterSet ''includedResources'' ''excludedResources'' (rs_includedResources p) (rs_excludedResources p) in
          if includeClusterResourcesIsTrue (rs_includeClusterResources p) then plain
          else if hasScopedResourceFilters p then
            andThen (validateResourceFilterSet ''includedNamespaceScopedResources'' ''excludedNamespaceScopedResources''
                (rs_includedNamespaceScoped p) (rs_excludedNamespaceScoped p)) (\<lambda>_.
              validateResourceFilterSet ''includedClusterScopedResources'' ''excludedClusterScopedResources''
                (rs_includedClusterScoped p) (rs_excludedClusterScoped p))
          else plain)"

section \<open>Modifier rules\<close>

definition submissionValidationApplyTargets :: "string list" where
  "submissionValidationApplyTargets = [''dataSync'', ''resourceSync'', ''drill'']"

definition withRoles :: "string \<Rightarrow> string \<Rightarrow> DisasterInstance \<Rightarrow> DisasterInstance" where
  "withRoles p s i = i\<lparr>in_status := (in_status i)\<lparr>is_primaryCluster := p, is_secondaryCluster := s\<rparr>\<rparr>"

definition validateModifierCompileAtSubmission :: "matchers \<Rightarrow> DisasterInstance \<Rightarrow> string \<Rightarrow> string \<Rightarrow> err + unit" where
  "validateModifierCompileAtSubmission M i bs bt =
     checkAll (\<lambda>(p, s).
       checkAll (\<lambda>target.
         andThen (compileModifierRulesForInstance M (withRoles p s i)
             (defaultApplyInstanceRestorePolicyOptions\<lparr>ao_baselineSourceCluster := bs, ao_baselineTargetCluster := bt, ao_applyTarget := target\<rparr>))
           (\<lambda>_. Inr ())) submissionValidationApplyTargets)
       [(bs, bt), (bt, bs)]"

definition validateRuleNamespaceScope :: "string \<Rightarrow> string list \<Rightarrow> string list \<Rightarrow> err + unit" where
  "validateRuleNamespaceScope ruleID ruleNamespaces instanceNamespaces =
     (let allowed = filter (\<lambda>n. n \<noteq> []) (map trimSpace instanceNamespaces) in
      if ruleNamespaces = [] \<or> instanceNamespaces = [] \<or> allowed = [] then Inr ()
      else case find (\<lambda>n. n \<noteq> [] \<and> \<not> List.member allowed n) (map trimSpace ruleNamespaces) of
        None \<Rightarrow> Inr ()
      | Some n \<Rightarrow> rejected (''rule='' @ ruleID @ '' namespace='' @ n @ '' is outside instance namespaces''))"

text \<open>The operation and path of every patch of a rule.\<close>

definition extractSubmissionRulePatches :: "RestoreModifierRule \<Rightarrow> err + (string \<times> string) list" where
  "extractSubmissionRulePatches x =
     (let mode = normalizeMode (rm_mode x) in
      if mode = ''veleroNative'' then
        (case rm_veleroRule x of
           None \<Rightarrow> rejected ''veleroNative rule missing veleroRule''
         | Some v \<Rightarrow> Inr (map (\<lambda>p. (trimSpace (jp_operation p), trimSpace (jp_path p))) (vr_patches v)))
      else if mode = ''reversible'' then
        (case rm_pair x of
           None \<Rightarrow> notReversible ''reversible rule must use pair canonical form (pair.path, pair.sourceValue, pair.targetValue)''
         | Some pr \<Rightarrow> Inr [(''add'', trimSpace (pa_path pr))])
      else rejected (''unsupported mode='' @ rm_mode x))"

definition validateSingleRuleTargetsAndPaths :: "string list \<Rightarrow> nat \<times> RestoreModifierRule \<Rightarrow> unit result" where
  "validateSingleRuleTargetsAndPaths defaultNamespaces = (\<lambda>(idx, x).
     let ruleID = normalizedRuleID x idx in
     chk (lift (validateRuleNamespaceScope ruleID (co_namespaces (rm_conditions x)) defaultNamespaces)) (\<lambda>_.
     chk (lift (extractSubmissionRulePatches x)) (\<lambda>patches.
       if patches = [] then lift (rejected (''rule='' @ ruleID @ '' has no patch path for validation''))
       else extCall)))"

definition ValidateModifierRulesAtSubmission :: "matchers \<Rightarrow> DisasterInstance \<Rightarrow> string \<Rightarrow> string \<Rightarrow> unit result" where
  "ValidateModifierRulesAtSubmission M i baselineSource baselineTarget =
     (case di_restorePolicy (in_spec i) of
        None \<Rightarrow> ok ()
      | Some p \<Rightarrow>
          let bs = trimSpace baselineSource; bt = trimSpace baselineTarget in
          if rp_modifierRules p = [] then ok ()
          else if isUnifiedDirectionResolverEnabled p \<and> (bs = [] \<or> bt = [])
          then lift (rejected ''baseline source/target cluster is required for submission validation'')
          else chk (lift (validateModifierCompileAtSubmission M i bs bt)) (\<lambda>_.
            forEach (\<lambda>x _. validateSingleRuleTargetsAndPaths (di_namespaces (in_spec i)) x)
              (filter (\<lambda>x. modifierRuleEnabled (snd x)) (List.enumerate 0 (rp_modifierRules p))) ()))"

section \<open>The webhook\<close>

text \<open>The client of the source cluster and the locator of live objects are built by libraries.\<close>

definition clusterRESTConfig :: "Cluster \<Rightarrow> unit result" where
  "clusterRESTConfig cl =
     (if cl_kubeConfig cl \<noteq> [] \<or> (cl_token cl \<noteq> [] \<and> cl_endpoint cl \<noteq> []) then extCall
      else fail (errorf (''cluster '' @ m_name (cl_meta cl) @ '' has no kubeconfig or token/endpoint'')))"

definition rejectedf :: "string \<Rightarrow> string" where
  "rejectedf t = ModifierErrorRuleRejected @ '': '' @ t"

definition validateSourceCluster :: "matchers \<Rightarrow> DisasterInstance \<Rightarrow> string \<Rightarrow> string \<Rightarrow> unit result" where
  "validateSourceCluster M shadow source target =
     chkWrap (rejectedf (''load source cluster '' @ source @ '' failed: '')) (apiGet clusterKind ([], source)) (\<lambda>cl.
     chkWrap (rejectedf ''build source cluster config failed: '') (clusterRESTConfig cl) (\<lambda>_.
     chkWrap (rejectedf ''build source cluster resource locator failed: '') extCall (\<lambda>_.
     ValidateModifierRulesAtSubmission M shadow source target)))"

definition validateRestorePolicy :: "matchers \<Rightarrow> DisasterInstance \<Rightarrow> unit result" where
  "validateRestorePolicy M i =
     (case di_restorePolicy (in_spec i) of
        None \<Rightarrow> ok ()
      | Some p \<Rightarrow>
          chk (lift (ValidateRestoreResourceSelectionAtSubmission (rp_resourceSelection p))) (\<lambda>_.
          chk (lift (effectiveModifierRuleInput p)) (\<lambda>input.
            let configName = trimSpace (di_config (in_spec i)) in
            if input = [] then ok ()
            else if configName = [] then lift (rejected ''spec.config is required when modifierRules are configured'')
            else chkWrap (rejectedf (''load disasterConfig '' @ configName @ '' failed: '')) (apiGet cfgKind ([], configName)) (\<lambda>cfg.
              let source = trimSpace (cfg_sourceCluster cfg); target = trimSpace (cfg_targetCluster cfg) in
              if source = [] \<or> target = []
              then lift (rejected (''disasterConfig '' @ configName @ '' must define sourceCluster and targetCluster''))
              else validateSourceCluster M
                     (i\<lparr>in_spec := (in_spec i)\<lparr>di_restorePolicy := Some (p\<lparr>rp_modifierRules := input\<rparr>)\<rparr>\<rparr>) source target))))"

datatype admission = Allowed string | Denied string | Errored string

datatype admissionOperation = AdmitCreate | AdmitUpdate | AdmitOther

text \<open>The request carries the decoded object, or nothing when it cannot be decoded.\<close>

definition handleInstanceAdmission :: "matchers \<Rightarrow> admissionOperation \<Rightarrow> DisasterInstance option \<Rightarrow> admission action" where
  "handleInstanceAdmission M opn obj =
     (if opn = AdmitOther then ret (Allowed ''operation skipped'')
      else case obj of
        None \<Rightarrow> ret (Errored ''bad request'')
      | Some i \<Rightarrow> do {
          x \<leftarrow> validateRestorePolicy M i;
          ret (case x of Inl e \<Rightarrow> Denied (err_text e) | Inr _ \<Rightarrow> Allowed ''restore policy rules are valid'') })"

end
