(* ===== verification/OpCheck.thy ===== *)
theory OpCheck
  imports OpExec ModifierSubmission
begin

text \<open>
  The checks of a failover: the pre-check before it starts and the replica check before the
  roles are switched (\<open>executePreCheck\<close> in \<open>controller.go\<close>, and \<open>controller_check.go\<close>),
  and the dispatch of a step to its executor.
\<close>

section \<open>Pre-check\<close>

text \<open>
  The dry run applies the restore policy to an empty specification for the two sync paths;
  the rules are then validated against the source cluster as at submission.
\<close>

definition emptyRestoreSpec :: AppRestoreSpec where
  "emptyRestoreSpec = \<lparr>ars_backupSource = [], ars_cluster = [],
     ars_template = \<lparr>rt_backupName = [], rt_includedNamespaces = [], rt_excludedNamespaces = [], rt_includedResources = [],
       rt_excludedResources = [], rt_labelSelector = None, rt_includeClusterResources = None, rt_namespaceMapping = [],
       rt_restorePVs = None, rt_preserveNodePorts = None, rt_existingResourcePolicy = [], rt_itemOperationTimeout = 0, rt_hooks = []\<rparr>,
     ars_sourceCluster = [], ars_storageRepository = [], ars_modifierRules = [], ars_timeout = None\<rparr>"

definition restorePolicyDryRun :: "reconciler \<Rightarrow> DisasterInstance \<Rightarrow> DisasterConfig \<Rightarrow> string \<Rightarrow> DisasterOperation \<Rightarrow> unit result" where
  "restorePolicyDryRun r i cfg target op =
     (if di_restorePolicy (in_spec i) = None then ok ()
      else forEach (\<lambda>tgt _.
        chkWrap (''pre-check failed: restore policy validation failed (applyTarget='' @ tgt @ ''): '')
          (ApplyInstanceRestorePolicy (r_matchers r) emptyRestoreSpec i (Some target)
             ((WithBaselineClusters (cfg_sourceCluster cfg) (cfg_targetCluster cfg) defaultApplyInstanceRestorePolicyOptions)\<lparr>ao_applyTarget := tgt\<rparr>))
          (\<lambda>_. do { emit (m_name (op_meta op)) ''ExecutionProgress''; ok () })) [''dataSync'', ''resourceSync''] ())"

definition validateModifierRulesForPreCheck :: "reconciler \<Rightarrow> DisasterInstance \<Rightarrow> string \<Rightarrow> string \<Rightarrow> string \<Rightarrow> unit result" where
  "validateModifierRulesForPreCheck r i baselineSource baselineTarget source =
     (case di_restorePolicy (in_spec i) of
        None \<Rightarrow> ok ()
      | Some p \<Rightarrow>
          if rp_modifierRules p = [] then ok ()
          else chk (getClusterRESTConfig source) (\<lambda>_.
               chkWrap ''build source cluster resource locator failed: '' extCall (\<lambda>_.
               ValidateModifierRulesAtSubmission (r_matchers r) i baselineSource baselineTarget)))"

definition executePreCheck :: "reconciler \<Rightarrow> DisasterInstance \<Rightarrow> DisasterOperation \<Rightarrow> bool result" where
  "executePreCheck r i op =
     getConfig ''failed to get config: '' i (\<lambda>cfg.
       let target = secondaryOr i cfg; source = primaryOr i cfg in
       chkWrap (''pre-check failed: target cluster '' @ target @ '' unreachable: '') (getClusterClient target) (\<lambda>_.
       chk (restorePolicyDryRun r i cfg target op) (\<lambda>_.
       chkWrap ''pre-check failed: restore policy submission validation failed: ''
         (validateModifierRulesForPreCheck r i (cfg_sourceCluster cfg) (cfg_targetCluster cfg) source) (\<lambda>_.
       chk (if sp_force (op_spec op) then ok ()
            else chkWrap (''pre-check failed: source cluster '' @ source @ '' unreachable (use force=true to skip): '')
                   (getClusterClient source) ok) (\<lambda>_.
       if is_dataSyncName (in_status i) = [] then ok True
       else do { _ \<leftarrow> apiGet dsKind (instNs i, is_dataSyncName (in_status i)); ok True })))))"

section \<open>Replica check\<close>

record checkState =
  ck_allReady :: bool
  ck_blocker :: string
  ck_storageClasses :: "string list option"

definition block :: "string \<Rightarrow> checkState \<Rightarrow> checkState" where
  "block m st =
     (let st1 = st\<lparr>ck_allReady := False\<rparr> in
      if trimSpace m = [] \<or> ck_blocker st1 \<noteq> [] then st1 else st1\<lparr>ck_blocker := trimSpace m\<rparr>)"

definition int32PtrString :: "int option \<Rightarrow> string" where
  "int32PtrString v = (case v of None \<Rightarrow> ''<nil>'' | Some n \<Rightarrow> dec n)"

text \<open>One workload; the flag says whether its expected count is known.\<close>

definition checkWorkload :: "bool \<Rightarrow> (string \<times> int) list \<Rightarrow> string \<Rightarrow> string \<Rightarrow> string \<Rightarrow> Workload \<Rightarrow>
    checkState \<times> bool \<Rightarrow> checkState \<times> bool" where
  "checkWorkload wait m title plural ns d acc =
     (let st = fst acc; e = expectedReplicas m ns plural d;
          path = title @ '' '' @ ns @ ''/'' @ m_name (wl_meta d) in
      if e \<noteq> -1 then
        (let st1 = (if wl_replicas d \<noteq> Some e
                    then block (path @ '' spec.replicas='' @ int32PtrString (wl_replicas d) @ '' expected='' @ dec e) st else st);
             st2 = (if wait \<and> wl_ready d < e
                    then block (path @ '' readyReplicas='' @ dec (wl_ready d) @ '' expected='' @ dec e) st1 else st1)
         in (st2, True))
      else if (case wl_replicas d of None \<Rightarrow> 0 | Some n \<Rightarrow> n) = 0
      then (block (path @ '' missing expected replicas metadata (current=0)'') st, snd acc)
      else acc)"

definition describePendingPVC :: "Pvc \<Rightarrow> string" where
  "describePendingPVC p =
     (let path = ''PVC '' @ m_ns (pvc_meta p) @ ''/'' @ m_name (pvc_meta p) @ '' Pending'' in
      case find (\<lambda>s. trimSpace s \<noteq> []) (pvc_conditionReasons p) of
        None \<Rightarrow> path | Some s \<Rightarrow> path @ '' (reason='' @ trimSpace s @ '')'')"

definition waitingReason :: "ContainerWaiting list \<Rightarrow> string option" where
  "waitingReason cs = map_option trimSpace (find (\<lambda>s. trimSpace s \<noteq> []) (List.map_filter cw_waitingReason cs))"

definition extractPendingPodReason :: "Pod \<Rightarrow> string" where
  "extractPendingPodReason p =
     (case waitingReason (pod_initWaiting p) of Some s \<Rightarrow> s
      | None \<Rightarrow> (case waitingReason (pod_waiting p) of Some s \<Rightarrow> s
        | None \<Rightarrow> (case find (\<lambda>c. c_type c = ''PodScheduled'' \<and> c_status c = ConditionFalse \<and> trimSpace (c_reason c) \<noteq> []) (pod_conditions p) of
                     Some c \<Rightarrow> trimSpace (c_reason c) | None \<Rightarrow> trimSpace (pod_reason p))))"

definition describePendingPod :: "Pod \<Rightarrow> string" where
  "describePendingPod p =
     (let path = ''Pod '' @ m_ns (pod_meta p) @ ''/'' @ m_name (pod_meta p) @ '' Pending''; rs = extractPendingPodReason p in
      if rs = [] then path else path @ '' (reason='' @ rs @ '')'')"

definition storageClassExists :: "string \<Rightarrow> string \<Rightarrow> string list option \<Rightarrow> (bool \<times> string list) result" where
  "storageClassExists c sc known =
     (case known of
        Some l \<Rightarrow> ok (sc \<in> set l, l)
      | None \<Rightarrow> chkWrap ''CheckReplicasBlocked: list storageclasses failed: ''
                  (apiListRaw (\<lambda>w. w_scs w c) (\<lambda>_. True)) (\<lambda>l. ok (sc \<in> set l, l)))"

definition checkPvc :: "string \<Rightarrow> string \<Rightarrow> Pvc \<Rightarrow> checkState \<Rightarrow> checkState result" where
  "checkPvc c ns p st =
     (if pvc_phase p \<noteq> ''Pending'' then ok st
      else case pvc_storageClassName p of
        Some s \<Rightarrow>
          if trimSpace s \<noteq> [] then
            chk (storageClassExists c (trimSpace s) (ck_storageClasses st)) (\<lambda>x.
              if \<not> fst x
              then fail (errorf (''CheckReplicasBlocked: PVC '' @ ns @ ''/'' @ m_name (pvc_meta p) @ '' Pending because StorageClass '' @ trimSpace s @ '' not found''))
              else ok (block (describePendingPVC p) (st\<lparr>ck_storageClasses := Some (snd x)\<rparr>)))
          else ok (block (describePendingPVC p) st)
      | None \<Rightarrow> ok (block (describePendingPVC p) st))"

definition checkPods :: "Pod list \<Rightarrow> checkState \<Rightarrow> checkState" where
  "checkPods ps st = foldl (\<lambda>st p. if m_deletion (pod_meta p) = None \<and> pod_phase p = ''Pending'' then block (describePendingPod p) st else st) st ps"

definition checkNamespacePendingReadiness :: "string \<Rightarrow> string \<Rightarrow> checkState \<Rightarrow> checkState result" where
  "checkNamespacePendingReadiness c ns st =
     chk (apiListRaw (\<lambda>w. w_pvcs w c) (\<lambda>p. ns = [] \<or> m_ns (pvc_meta p) = ns)) (\<lambda>pvcs.
     chk (forEach (checkPvc c ns) pvcs st) (\<lambda>st1.
     chk (apiListRaw (\<lambda>w. w_pods w c) (\<lambda>p. ns = [] \<or> m_ns (pod_meta p) = ns)) (\<lambda>pods.
     ok (checkPods pods st1))))"

definition checkWorkloads :: "bool \<Rightarrow> (string \<times> int) list \<Rightarrow> string \<Rightarrow> Workload list \<Rightarrow> Workload list \<Rightarrow> checkState \<Rightarrow> checkState" where
  "checkWorkloads wait m ns ds ss st =
     (let a1 = foldl (\<lambda>a d. checkWorkload wait m ''Deployment'' ''deployments'' ns d a) (st, False) ds;
          a2 = foldl (\<lambda>a d. checkWorkload wait m ''StatefulSet'' ''statefulsets'' ns d a) a1 ss
      in if (ds \<noteq> [] \<or> ss \<noteq> []) \<and> \<not> snd a2
         then block (''Namespace '' @ ns @ '' has workloads but missing expected replicas metadata'') (fst a2)
         else fst a2)"

definition checkNamespace :: "string \<Rightarrow> bool \<Rightarrow> (string \<times> int) list \<Rightarrow> string \<Rightarrow> checkState \<Rightarrow> checkState result" where
  "checkNamespace c wait m ns st =
     chk (apiList (deployKind c) ns) (\<lambda>ds.
     chk (apiList (stsKind c) ns) (\<lambda>ss.
     checkNamespacePendingReadiness c ns (checkWorkloads wait m ns ds ss st)))"

fun setStepMessage :: "string \<Rightarrow> string \<Rightarrow> StepStatus list \<Rightarrow> StepStatus list" where
  "setStepMessage n m [] = []"
| "setStepMessage n m (s # ss) = (if st_name s = n then s\<lparr>st_msg := m\<rparr> # ss else s # setStepMessage n m ss)"

definition setCheckReplicasBlockerMessage :: "DisasterOperation \<Rightarrow> string \<Rightarrow> DisasterOperation" where
  "setCheckReplicasBlockerMessage op b =
     op\<lparr>op_status := (op_status op)\<lparr>os_steps := setStepMessage StepCheckReplicas (trimSpace b) (os_steps (op_status op))\<rparr>\<rparr>"

definition executeCheckReplicas :: "DisasterInstance \<Rightarrow> DisasterOperation \<Rightarrow> (bool \<times> DisasterOperation) result" where
  "executeCheckReplicas i op =
     getConfig (configErr i) i (\<lambda>cfg.
       let c = secondaryOr i cfg; wait = resolveCheckReplicasWaitUntilReady (Some i) (Some op) in
       chk (getClusterClient c) (\<lambda>_. do {
         m \<leftarrow> fetchReplicasMap i;
         chk (forEach (checkNamespace c wait m) (di_namespaces (in_spec i))
               \<lparr>ck_allReady = True, ck_blocker = [], ck_storageClasses = None\<rparr>) (\<lambda>st.
           ok (ck_allReady st, setCheckReplicasBlockerMessage op (ck_blocker st)))
       }))"

section \<open>Dispatch of a step\<close>

definition withOp :: "DisasterOperation \<Rightarrow> bool result \<Rightarrow> (bool \<times> DisasterOperation) result" where
  "withOp op m = chk m (\<lambda>b. ok (b, op))"

definition executeFailoverStep :: "reconciler \<Rightarrow> StepStatus \<Rightarrow> DisasterInstance \<Rightarrow> DisasterOperation \<Rightarrow> (bool \<times> DisasterOperation) result" where
  "executeFailoverStep r step i op =
     (if st_name step = StepPreCheck then withOp op (executePreCheck r i op)
      else if st_name step = StepPauseSchedules then withOp op (executePauseSchedules i)
      else if st_name step = StepScaleDownSource then withOp op (executeScaleDownSource i op)
      else if st_name step = StepFinalSync then withOp op (executeFinalSync r i step op)
      else if st_name step = StepScaleUpTarget then withOp op (executeScaleUpTarget i)
      else if st_name step = StepCheckReplicas then executeCheckReplicas i op
      else if st_name step = StepResumeSchedules then withOp op (executeResumeSchedules r i)
      else ok (True, op))"

definition executeCancelStep :: "reconciler \<Rightarrow> StepStatus \<Rightarrow> DisasterInstance \<Rightarrow> bool result" where
  "executeCancelStep r step i =
     getConfig ''failed to get config: '' i (\<lambda>cfg.
       if st_name step = StepScaleDownTarget then doScaleDown i (cfg_targetCluster cfg)
       else if st_name step = StepScaleUpSource then do {
         m \<leftarrow> fetchReplicasMap i;
         doScaleUp i (cfg_sourceCluster cfg) m True [] }
       else if st_name step = StepResumeSchedules then executeResumeSchedules r i
       else ok True)"

text \<open>The instance is returned with the status the step left in memory.\<close>

definition executeUndoStep :: "reconciler \<Rightarrow> StepStatus \<Rightarrow> DisasterInstance \<Rightarrow> DisasterOperation \<Rightarrow> (bool \<times> DisasterInstance) result" where
  "executeUndoStep r step i op =
     (if st_name step = StepScaleDownTarget then chk (executeScaleDownSource i op) (\<lambda>b. ok (b, i))
      else if st_name step = StepScaleUpSource then chk (executeScaleUpTarget i) (\<lambda>b. ok (b, i))
      else if st_name step = StepSwitchRoles then
        getConfig ''failed to get config: '' i (\<lambda>cfg.
        chk (apiGet instKind (instKey i)) (\<lambda>latest.
        chk (apiStatusUpdate instKind (latest\<lparr>in_status := (in_status latest)\<lparr>is_primaryCluster := cfg_sourceCluster cfg,
               is_secondaryCluster := cfg_targetCluster cfg\<rparr>\<rparr>)) (\<lambda>l.
        ok (True, i\<lparr>in_status := in_status l\<rparr>))))
      else if st_name step = StepResumeSchedules then chk (executeResumeSchedules r i) (\<lambda>b. ok (b, i))
      else ok (True, i))"

end
