(* ===== verification/OpHandlers.thy ===== *)
theory OpHandlers
  imports OpCheck
begin

text \<open>
  The handlers of the operation controller, one reconcile at a time: failover with its
  automatic compensation, reprotect, undo, cancel, pause and resume
  (\<open>handleFailover\<close> to \<open>handleUndo\<close> in \<open>controller.go\<close>). A handler that persists the
  operation and stops is \<open>saveOp\<close>; Go's ignored errors are ignored here too.
\<close>

section \<open>Persisting\<close>

definition opName :: "DisasterOperation \<Rightarrow> string" where "opName op = m_name (op_meta op)"

definition setStatus :: "(DisasterOperationStatus \<Rightarrow> DisasterOperationStatus) \<Rightarrow> DisasterOperation \<Rightarrow> DisasterOperation" where
  "setStatus f op = op\<lparr>op_status := f (op_status op)\<rparr>"

definition setSteps :: "nat \<Rightarrow> StepStatus \<Rightarrow> DisasterOperation \<Rightarrow> DisasterOperation" where
  "setSteps i s op = setStatus (\<lambda>st. st\<lparr>os_steps := (os_steps st)[i := s]\<rparr>) op"

text \<open>\<open>return res, r.Status().Update(ctx, operation)\<close>\<close>

definition saveOp :: "DisasterOperation \<Rightarrow> Result \<Rightarrow> Result result" where
  "saveOp op res = chk (apiStatusUpdate opKind op) (\<lambda>_. ok res)"

definition failOp :: "string \<Rightarrow> DisasterOperation \<Rightarrow> Result result" where
  "failOp m op = saveOp (setStatus (\<lambda>s. s\<lparr>os_state := OpFailed, os_message := m\<rparr>) op) done_result"

definition rejectOp :: "reconciler \<Rightarrow> string \<Rightarrow> DisasterOperation \<Rightarrow> Result result" where
  "rejectOp r m op = saveOp (setStatus (\<lambda>s. s\<lparr>os_state := OpFailed, os_reason := ''InvalidState'', os_message := m,
      os_completionTime := Some (r_now r)\<rparr>) op) done_result"

definition rolesOf :: "DisasterInstance \<Rightarrow> RoleStatus" where
  "rolesOf i = \<lparr>role_primary = is_primaryCluster (in_status i), role_secondary = is_secondaryCluster (in_status i)\<rparr>"

definition setFsm :: "FsmState \<Rightarrow> DisasterInstance \<Rightarrow> DisasterInstance" where
  "setFsm f i = i\<lparr>in_status := (in_status i)\<lparr>is_fsmState := f\<rparr>\<rparr>"

definition fsm :: "DisasterInstance \<Rightarrow> FsmState" where "fsm i = is_fsmState (in_status i)"

definition clearStatusError :: "DisasterInstance \<Rightarrow> DisasterInstance" where
  "clearStatusError i = i\<lparr>in_status := (in_status i)\<lparr>is_reason := [], is_message := []\<rparr>\<rparr>"

definition setStatusError :: "string \<Rightarrow> string \<Rightarrow> DisasterInstance \<Rightarrow> DisasterInstance" where
  "setStatusError rs m i = i\<lparr>in_status := (in_status i)\<lparr>is_reason := rs, is_message := m\<rparr>\<rparr>"

section \<open>The instance after a failed step\<close>

definition expectedTransient :: "OperationType \<Rightarrow> FsmState option" where
  "expectedTransient ty =
     (case ty of OpFailover \<Rightarrow> Some FsmFailingOver | OpCancel \<Rightarrow> Some FsmFailingOver
      | OpReprotect \<Rightarrow> Some FsmFailingBack | _ \<Rightarrow> None)"

definition settledInstance :: "OperationType \<Rightarrow> string \<Rightarrow> string \<Rightarrow> DisasterInstance \<Rightarrow> DisasterInstance" where
  "settledInstance ty step m latest =
     (if ty = OpFailover \<and> shouldRollbackFailoverToProtected step
      then clearStatusError (setFsm FsmProtected latest)
      else setStatusError ''StepFailed'' (opTypeString ty @ '' step '' @ step @ '' failed: '' @ m) (setFsm FsmFailed latest))"

definition settleInstanceStateOnStepFailure ::
  "reconciler \<Rightarrow> OperationType \<Rightarrow> DisasterInstance \<Rightarrow> string \<Rightarrow> string \<Rightarrow> DisasterInstance action" where
  "settleInstanceStateOnStepFailure r ty inst step errMessage =
     (if step = [] then ret inst
      else let m = (if trimSpace errMessage = [] then ''unknown error'' else errMessage) in
        do {
          s \<leftarrow> retryOnConflict (r_retrySteps r) (chk (apiGet instKind (instKey inst)) (\<lambda>latest.
                 if (case expectedTransient ty of None \<Rightarrow> False | Some f \<Rightarrow> fsm latest \<noteq> f)
                 then ok (in_status latest)
                 else chk (apiStatusUpdate instKind (settledInstance ty step m latest)) (\<lambda>l. ok (in_status l))));
          ret (case s of Inl _ \<Rightarrow> inst | Inr st \<Rightarrow> inst\<lparr>in_status := st\<rparr>)
        })"

definition failOperationOnStepError :: "reconciler \<Rightarrow> DisasterOperation \<Rightarrow> nat \<Rightarrow> StepStatus \<Rightarrow> err \<Rightarrow> unit result" where
  "failOperationOnStepError r op idx step e =
     chk (apiStatusUpdate opKind (setStatus (\<lambda>s. s\<lparr>os_state := OpFailed, os_completionTime := Some (r_now r),
            os_currentStep := st_name step, os_message := msgStepFailed (st_name step) (err_text e)\<rparr>)
          (setSteps idx (markStepFailed (r_now r) (msgStepExecFailed (err_text e)) step) op))) (\<lambda>_. ok ())"

section \<open>Failover: compensation of a failed step\<close>

definition markFailoverNoAutoCancel ::
  "reconciler \<Rightarrow> DisasterOperation \<Rightarrow> DisasterInstance \<Rightarrow> nat \<Rightarrow> StepStatus \<Rightarrow> string \<Rightarrow> Result result" where
  "markFailoverNoAutoCancel r op inst idx step m =
     (let op1 = setStatus (\<lambda>s. s\<lparr>os_state := OpFailed, os_completionTime := Some (r_now r), os_currentStep := st_name step,
          os_acTriggered := False, os_acStatus := AcNotTriggered, os_acMode := NoAutoCancel, os_acReason := m,
          os_acTriggerStep := st_name step, os_acCurrentStep := [], os_acSteps := [], os_acTriggeredAt := None,
          os_acCompletionTime := None, os_manualIntervention := True, os_message := msgNoAutoCancel (st_name step) m\<rparr>)
        (setSteps idx (markStepFailed (r_now r) m step) op)
      in do {
        _ \<leftarrow> settleInstanceStateOnStepFailure r OpFailover inst (st_name step) m;
        emit (opName op) ''FailoverFailed'';
        emit (opName op) ''FailoverFailedManualIntervention'';
        saveOp op1 done_result
      })"

text \<open>The roles reported are those of the instance as read at the start of the reconcile.\<close>

definition markFailoverDirectRollbackSuccess ::
  "reconciler \<Rightarrow> DisasterOperation \<Rightarrow> DisasterInstance \<Rightarrow> nat \<Rightarrow> StepStatus \<Rightarrow> string \<Rightarrow> Result result" where
  "markFailoverDirectRollbackSuccess r op inst idx step m =
     (let op1 = setStatus (\<lambda>s. s\<lparr>os_state := OpFailed, os_completionTime := Some (r_now r), os_currentStep := st_name step,
          os_acTriggered := True, os_acStatus := AcSucceeded, os_acMode := DirectRollback, os_acReason := m,
          os_acTriggerStep := st_name step, os_acCurrentStep := [], os_acSteps := [], os_acTriggeredAt := Some (r_now r),
          os_acCompletionTime := Some (r_now r), os_manualIntervention := False, os_roleStatus := Some (rolesOf inst),
          os_message := msgDirectRollback (st_name step) m\<rparr>)
        (setSteps idx (markStepFailed (r_now r) m step) op)
      in do {
        _ \<leftarrow> settleInstanceStateOnStepFailure r OpFailover inst (st_name step) m;
        emit (opName op) ''FailoverFailed'';
        emit (opName op) ''AutoCancelTriggered'';
        emit (opName op) ''AutoCancelSucceeded'';
        emit (opName op) ''FailoverFailedAutoCancelSucceeded'';
        saveOp op1 done_result
      })"

definition startFailoverAutoCancelPath ::
  "reconciler \<Rightarrow> DisasterOperation \<Rightarrow> nat \<Rightarrow> StepStatus \<Rightarrow> string \<Rightarrow> Result result" where
  "startFailoverAutoCancelPath r op idx step m =
     (let op1 = setStatus (\<lambda>s. s\<lparr>os_state := OpRunning, os_completionTime := None, os_currentStep := st_name step,
          os_acTriggered := True, os_acStatus := AcRunning, os_acMode := CancelPath, os_acReason := m,
          os_acTriggerStep := st_name step, os_acCurrentStep := [],
          os_acSteps := (if os_acSteps s = [] then initializeAutoCancelSteps else os_acSteps s),
          os_acTriggeredAt := Some (r_now r), os_acCompletionTime := None, os_manualIntervention := False,
          os_message := msgAutoCancelStarted (st_name step) m\<rparr>)
        (setSteps idx (markStepFailed (r_now r) m step) op)
      in do {
        emit (opName op) ''FailoverFailed'';
        emit (opName op) ''AutoCancelTriggered'';
        emit (opName op) ''FailoverFailedAutoCancelStarted'';
        saveOp op1 requeue_result
      })"

definition handleFailoverStepFailure ::
  "reconciler \<Rightarrow> DisasterOperation \<Rightarrow> DisasterInstance \<Rightarrow> nat \<Rightarrow> StepStatus \<Rightarrow> string \<Rightarrow> Result result" where
  "handleFailoverStepFailure r op inst idx step m =
     (case resolveFailoverAutoCancelMode (st_name step) of
        DirectRollback \<Rightarrow> markFailoverDirectRollbackSuccess r op inst idx step m
      | CancelPath \<Rightarrow> startFailoverAutoCancelPath r op idx step m
      | _ \<Rightarrow> markFailoverNoAutoCancel r op inst idx step m)"

definition setAcSteps :: "nat \<Rightarrow> StepStatus \<Rightarrow> DisasterOperation \<Rightarrow> DisasterOperation" where
  "setAcSteps i s op = setStatus (\<lambda>st. st\<lparr>os_acSteps := (os_acSteps st)[i := s]\<rparr>) op"

definition failFailoverAutoCancel ::
  "reconciler \<Rightarrow> DisasterOperation \<Rightarrow> DisasterInstance \<Rightarrow> nat \<Rightarrow> StepStatus \<Rightarrow> string \<Rightarrow> Result result" where
  "failFailoverAutoCancel r op inst idx step m =
     (let op1 = setStatus (\<lambda>s. s\<lparr>os_state := OpFailed, os_completionTime := Some (r_now r),
          os_currentStep := os_acTriggerStep s, os_acStatus := AcFailed, os_acReason := m, os_acCurrentStep := st_name step,
          os_acCompletionTime := Some (r_now r), os_manualIntervention := True,
          os_message := msgAutoCancelFailed (os_acTriggerStep s) (st_name step) m\<rparr>)
        (setAcSteps idx (markStepFailed (r_now r) m step) op)
      in do {
        _ \<leftarrow> settleInstanceStateOnStepFailure r OpCancel inst (st_name step) m;
        emit (opName op) ''AutoCancelFailed'';
        emit (opName op) ''FailoverFailedAutoCancelFailed'';
        saveOp op1 done_result
      })"

definition completeFailoverAutoCancel :: "reconciler \<Rightarrow> DisasterOperation \<Rightarrow> DisasterInstance \<Rightarrow> Result result" where
  "completeFailoverAutoCancel r op inst =
     chk (apiGet instKind (instKey inst)) (\<lambda>latest.
     chk (apiStatusUpdate instKind (clearStatusError (setFsm FsmProtected latest))) (\<lambda>l. do {
       emit (opName op) ''AutoCancelSucceeded'';
       emit (opName op) ''FailoverFailedAutoCancelSucceeded'';
       saveOp (setStatus (\<lambda>s. s\<lparr>os_state := OpFailed, os_completionTime := Some (r_now r),
          os_currentStep := os_acTriggerStep s, os_acStatus := AcSucceeded, os_acCurrentStep := [],
          os_acCompletionTime := Some (r_now r), os_manualIntervention := False, os_roleStatus := Some (rolesOf l),
          os_message := msgAutoCancelDone (os_acTriggerStep s) (fsmString FsmProtected)\<rparr>) op) done_result
     }))"

text \<open>
  The executor of a compensation step never writes the step's message, so the update of the
  source for a changed message of an unfinished step has no case here.
\<close>

definition autoCancelRunning :: "reconciler \<Rightarrow> DisasterOperation \<Rightarrow> DisasterInstance \<Rightarrow> nat \<Rightarrow> StepStatus \<Rightarrow> Result result" where
  "autoCancelRunning r op inst idx step =
     (let tmo = effectiveOperationTimeoutMinutes r op inst in
      case stepOverdue r tmo step of
        Some el \<Rightarrow> failFailoverAutoCancel r op inst idx step (buildStepTimeoutMessage (Some step) el tmo)
      | None \<Rightarrow> do {
          x \<leftarrow> executeCancelStep r step inst;
          (case x of
             Inl e \<Rightarrow> failFailoverAutoCancel r op inst idx step (err_text e)
           | Inr completed \<Rightarrow>
               if \<not> completed then ok (after_result (r_stepRunningRequeue r))
               else saveOp (setStatus (\<lambda>s. s\<lparr>os_message := msgAcStepDone (os_acTriggerStep s) (st_name step)\<rparr>)
                      (setAcSteps idx (completeStep (r_now r) step) op)) requeue_result)
        })"

definition handleFailoverAutoCancelPath :: "reconciler \<Rightarrow> DisasterOperation \<Rightarrow> DisasterInstance \<Rightarrow> Result result" where
  "handleFailoverAutoCancelPath r op inst =
     (case activeStep (os_acSteps (op_status op)) of
        None \<Rightarrow> completeFailoverAutoCancel r op inst
      | Some idx \<Rightarrow>
          let step = os_acSteps (op_status op) ! idx in
          if st_state step = StepPending then
            saveOp (setStatus (\<lambda>s. s\<lparr>os_acCurrentStep := st_name step,
                      os_message := msgAcStepStarted (os_acTriggerStep s) (st_name step)\<rparr>)
                    (setAcSteps idx (startStep (r_now r) step) op)) (after_result (r_stepStartRequeue r))
          else autoCancelRunning r op inst idx step)"

section \<open>Failover\<close>

definition findOtherInFlightOperation :: "string \<Rightarrow> string \<Rightarrow> OperationType \<Rightarrow> string \<Rightarrow> DisasterOperation option result" where
  "findOtherInFlightOperation ns inst ty self =
     (if ns = [] \<or> inst = [] then ok None
      else chk (apiList opKind ns) (\<lambda>ops.
        ok (find (\<lambda>c. opName c \<noteq> self \<and> sp_instanceName (op_spec c) = inst \<and> sp_operationType (op_spec c) = ty \<and>
                      isInFlightOperationState (os_state (op_status c))) ops)))"

definition initSteps :: "string list \<Rightarrow> DisasterOperation \<Rightarrow> Result result" where
  "initSteps names op =
     saveOp (setStatus (\<lambda>s. s\<lparr>os_steps := map pendingStep names, os_currentStep := hd names\<rparr>) op) requeue_result"

definition annTargetPrimary :: string where "annTargetPrimary = ''testudo.softcdata.com/target-primary''"
definition annTargetSecondary :: string where "annTargetSecondary = ''testudo.softcdata.com/target-secondary''"

definition failoverInit :: "DisasterOperation \<Rightarrow> DisasterInstance \<Rightarrow> Result result" where
  "failoverInit op inst =
     (let m = op_meta op in
      if mget (m_ann m) annTargetPrimary = [] then
        chk (apiUpdate opKind (op\<lparr>op_meta := m\<lparr>m_ann :=
               mput (mput (m_ann m) annTargetPrimary (is_secondaryCluster (in_status inst)))
                 annTargetSecondary (is_primaryCluster (in_status inst))\<rparr>\<rparr>)) (\<lambda>_. ok requeue_result)
      else initSteps failoverSteps op)"

definition failoverRunning :: "reconciler \<Rightarrow> DisasterOperation \<Rightarrow> DisasterInstance \<Rightarrow> nat \<Rightarrow> StepStatus \<Rightarrow> Result result" where
  "failoverRunning r op inst idx step =
     (case stepOverdue r (sp_timeoutMinutes (op_spec op)) step of
        Some el \<Rightarrow> do {
          emit (opName op) ''StepTimeout'';
          handleFailoverStepFailure r op inst idx step (buildStepTimeoutMessage (Some step) el (sp_timeoutMinutes (op_spec op))) }
      | None \<Rightarrow> do {
          x \<leftarrow> executeFailoverStep r step inst op;
          (case x of
             Inl e \<Rightarrow> do { emit (opName op) ''StepFailed'';
                            handleFailoverStepFailure r op inst idx step (msgStepExecFailed (err_text e)) }
           | Inr y \<Rightarrow>
               let op1 = snd y; step1 = os_steps (op_status op1) ! idx in
               if \<not> fst y then
                 (if st_msg step1 \<noteq> st_msg step
                  then chk (apiStatusUpdate opKind op1) (\<lambda>_. ok (after_result (r_stepRunningRequeue r)))
                  else ok (after_result (r_stepRunningRequeue r)))
               else do {
                 emit (opName op) ''StepCompleted'';
                 emit (opName op) ''ExecutionProgress'';
                 saveOp (setSteps idx (completeStep (r_now r) step1) op1) requeue_result }) })"

definition swapRoles :: "DisasterInstance \<Rightarrow> DisasterInstance" where
  "swapRoles i = i\<lparr>in_status := (in_status i)\<lparr>is_fsmState := FsmActive,
       is_primaryCluster := is_secondaryCluster (in_status i), is_secondaryCluster := is_primaryCluster (in_status i)\<rparr>\<rparr>"

definition failoverFinish :: "reconciler \<Rightarrow> DisasterOperation \<Rightarrow> DisasterInstance \<Rightarrow> Result result" where
  "failoverFinish r op inst =
     chk (apiGet instKind (instKey inst)) (\<lambda>latest.
     chk (if fsm latest = FsmFailingOver then apiStatusUpdate instKind (swapRoles latest)
          else if fsm latest = FsmActive then ok latest
          else fail (errorf (''unexpected FsmState at end of Failover: '' @ fsmString (fsm latest)))) (\<lambda>l.
     chk (apiStatusUpdate opKind (setStatus (\<lambda>s. s\<lparr>os_state := OpCompleted, os_completionTime := Some (r_now r),
            os_currentStep := [], os_roleStatus := Some (rolesOf l), os_message := msgFailoverDone\<rparr>) op)) (\<lambda>_. do {
       emit (opName op) ''Completed'';
       emit (instName inst) ''FailoverCompleted'';
       ok done_result })))"

definition failoverSteps_run :: "reconciler \<Rightarrow> DisasterOperation \<Rightarrow> DisasterInstance \<Rightarrow> Result result" where
  "failoverSteps_run r op inst =
     (case activeStep (os_steps (op_status op)) of
        None \<Rightarrow> failoverFinish r op inst
      | Some idx \<Rightarrow>
          let step = os_steps (op_status op) ! idx in
          if st_state step = StepPending then do {
            emit (opName op) ''StepStarted'';
            emit (opName op) ''ExecutionProgress'';
            saveOp (setStatus (\<lambda>s. s\<lparr>os_currentStep := st_name step\<rparr>) (setSteps idx (startStep (r_now r) step) op))
              (after_result (r_stepStartRequeue r)) }
          else failoverRunning r op inst idx step)"

definition failoverProceed :: "reconciler \<Rightarrow> DisasterOperation \<Rightarrow> DisasterInstance \<Rightarrow> Result result" where
  "failoverProceed r op inst =
     (if os_steps (op_status op) = [] then failoverInit op inst
      else if os_acStatus (op_status op) = AcRunning \<and> os_acSteps (op_status op) \<noteq> []
      then handleFailoverAutoCancelPath r op inst
      else failoverSteps_run r op inst)"

definition handleFailover :: "reconciler \<Rightarrow> DisasterOperation \<Rightarrow> Result result" where
  "handleFailover r op = do {
     g \<leftarrow> apiGet instKind (m_ns (op_meta op), sp_instanceName (op_spec op));
     (case g of
        Inl e \<Rightarrow> if err_kind e = NotFound then failOp msgInstanceNotFound op else fail e
      | Inr inst \<Rightarrow>
          chk (findOtherInFlightOperation (m_ns (op_meta op)) (sp_instanceName (op_spec op)) OpFailover (opName op)) (\<lambda>c.
            case c of
              Some o' \<Rightarrow> rejectOp r (msgConcurrentFailover (sp_instanceName (op_spec op)) (opName o') (opStateString (os_state (op_status o')))) op
            | None \<Rightarrow>
                if fsm inst \<noteq> FsmProtected \<and> fsm inst \<noteq> FsmFailingOver
                then rejectOp r (msgFailoverState (fsmString (fsm inst))) op
                else chk (if fsm inst = FsmProtected then apiStatusUpdate instKind (setFsm FsmFailingOver inst) else ok inst)
                       (failoverProceed r op)))
   }"

section \<open>Steps shared by reprotect and undo\<close>

definition stepTimedOut :: "reconciler \<Rightarrow> OperationType \<Rightarrow> int \<Rightarrow> DisasterOperation \<Rightarrow> DisasterInstance \<Rightarrow> nat \<Rightarrow> StepStatus \<Rightarrow> duration \<Rightarrow> Result result" where
  "stepTimedOut r ty tmo op inst idx step el =
     (let m = buildStepTimeoutMessage (Some step) el tmo;
          op1 = setStatus (\<lambda>s. s\<lparr>os_state := OpFailed, os_completionTime := Some (r_now r),
                  os_message := msgStepTimeout (st_name step) m\<rparr>)
                (setSteps idx (markStepFailed (r_now r) m step) op)
      in do {
        emit (opName op) ''StepTimeout'';
        _ \<leftarrow> settleInstanceStateOnStepFailure r ty inst (st_name step) m;
        saveOp op1 done_result
      })"

definition stepErrored :: "reconciler \<Rightarrow> OperationType \<Rightarrow> DisasterOperation \<Rightarrow> DisasterInstance \<Rightarrow> nat \<Rightarrow> StepStatus \<Rightarrow> err \<Rightarrow> Result result" where
  "stepErrored r ty op inst idx step e = do {
     _ \<leftarrow> settleInstanceStateOnStepFailure r ty inst (st_name step) (err_text e);
     chk (failOperationOnStepError r op idx step e) (\<lambda>_. do {
       emit (opName op) ''StepFailed'';
       emit (opName op) ''ExecutionProgress'';
       ok done_result })
   }"

section \<open>Reprotect\<close>

definition triggerOne :: "SyncObject kind \<Rightarrow> string \<Rightarrow> string \<Rightarrow> string \<Rightarrow> unit action" where
  "triggerOne K ns n now =
     (if n = [] then ret ()
      else do {
        g \<leftarrow> apiGet K (ns, n);
        (case g of Inl _ \<Rightarrow> ret ()
         | Inr s \<Rightarrow> do {
             _ \<leftarrow> apiUpdate K (s\<lparr>so_spec := (so_spec s)\<lparr>ss_trigger := (ss_trigger (so_spec s))\<lparr>tr_manual := now\<rparr>\<rparr>\<rparr>);
             ret () })
      })"

definition reprotectFinish :: "reconciler \<Rightarrow> DisasterOperation \<Rightarrow> DisasterInstance \<Rightarrow> Result result" where
  "reprotectFinish r op inst =
     chk (executeResumeSchedules r inst) (\<lambda>_. do {
       (if sp_skipFinalSync (op_spec op) then ret ()
        else do {
          triggerOne dsKind (instNs inst) (is_dataSyncName (in_status inst)) (r_fmtTime r (r_now r));
          triggerOne rsKind (instNs inst) (is_resourceSyncName (in_status inst)) (r_fmtTime r (r_now r)) });
       chk (apiStatusUpdate instKind (setFsm FsmProtected inst)) (\<lambda>l.
       chk (apiStatusUpdate opKind (setStatus (\<lambda>s. s\<lparr>os_state := OpCompleted, os_completionTime := Some (r_now r),
              os_currentStep := [], os_roleStatus := Some (rolesOf l), os_message := msgReprotectDone\<rparr>) op)) (\<lambda>_. do {
         emit (opName op) ''Completed'';
         emit (instName inst) ''ReprotectCompleted'';
         ok done_result }))
     })"

definition reprotectRunning :: "reconciler \<Rightarrow> DisasterOperation \<Rightarrow> DisasterInstance \<Rightarrow> nat \<Rightarrow> StepStatus \<Rightarrow> Result result" where
  "reprotectRunning r op inst idx step =
     (case stepOverdue r (sp_timeoutMinutes (op_spec op)) step of
        Some el \<Rightarrow> stepTimedOut r OpReprotect (sp_timeoutMinutes (op_spec op)) op inst idx step el
      | None \<Rightarrow> do {
          x \<leftarrow> executeFailoverStep r step inst op;
          (case x of
             Inl e \<Rightarrow> stepErrored r OpReprotect op inst idx step e
           | Inr y \<Rightarrow>
               if \<not> fst y then ok (after_result (r_stepRunningRequeue r))
               else do {
                 emit (opName op) ''StepCompleted'';
                 emit (opName op) ''ExecutionProgress'';
                 saveOp (setSteps idx (completeStep (r_now r) step) (snd y)) requeue_result }) })"

definition reprotectProceed :: "reconciler \<Rightarrow> DisasterOperation \<Rightarrow> DisasterInstance \<Rightarrow> Result result" where
  "reprotectProceed r op inst =
     (if os_steps (op_status op) = [] then initSteps reprotectSteps op
      else case activeStep (os_steps (op_status op)) of
        None \<Rightarrow> reprotectFinish r op inst
      | Some idx \<Rightarrow>
          let step = os_steps (op_status op) ! idx in
          if st_state step = StepPending then do {
            emit (opName op) ''StepStarted'';
            emit (opName op) ''ExecutionProgress'';
            saveOp (setStatus (\<lambda>s. s\<lparr>os_currentStep := st_name step\<rparr>) (setSteps idx (startStep (r_now r) step) op))
              (after_result (r_stepStartRequeue r)) }
          else reprotectRunning r op inst idx step)"

definition handleReprotect :: "reconciler \<Rightarrow> DisasterOperation \<Rightarrow> Result result" where
  "handleReprotect r op = do {
     g \<leftarrow> apiGet instKind (m_ns (op_meta op), sp_instanceName (op_spec op));
     (case g of
        Inl e \<Rightarrow> if err_kind e = NotFound then failOp msgInstanceNotFound op else fail e
      | Inr inst \<Rightarrow>
          if fsm inst \<noteq> FsmActive then
            (if fsm inst \<noteq> FsmFailingBack then failOp (msgReprotectState (fsmString (fsm inst))) op
             else reprotectProceed r op inst)
          else chk (apiStatusUpdate instKind (setFsm FsmFailingBack inst)) (reprotectProceed r op))
   }"

section \<open>Pause and resume\<close>

definition pauseNamed :: "SyncObject kind \<Rightarrow> string \<Rightarrow> string \<Rightarrow> unit action" where
  "pauseNamed K ns n =
     (if n = [] then ret ()
      else do {
        g \<leftarrow> apiGet K (ns, n);
        (case g of Inl _ \<Rightarrow> ret ()
         | Inr s \<Rightarrow> do { _ \<leftarrow> apiUpdate K (s\<lparr>so_spec := (so_spec s)\<lparr>ss_paused := True\<rparr>\<rparr>); ret () })
      })"

definition handlePause :: "reconciler \<Rightarrow> DisasterOperation \<Rightarrow> Result result" where
  "handlePause r op = do {
     g \<leftarrow> apiGet instKind (m_ns (op_meta op), sp_instanceName (op_spec op));
     (case g of
        Inl e \<Rightarrow> failOp msgInstanceNotFound op
      | Inr inst \<Rightarrow> do {
          pauseNamed dsKind (instNs inst) (is_dataSyncName (in_status inst));
          pauseNamed rsKind (instNs inst) (is_resourceSyncName (in_status inst));
          chk (apiStatusUpdate instKind (setFsm FsmPaused inst)) (\<lambda>_. do {
            emit (instName inst) ''Paused'';
            saveOp (setStatus (\<lambda>s. s\<lparr>os_state := OpCompleted, os_completionTime := Some (r_now r), os_message := msgPaused\<rparr>) op) done_result })
        })
   }"

definition handleResume :: "reconciler \<Rightarrow> DisasterOperation \<Rightarrow> Result result" where
  "handleResume r op = do {
     g \<leftarrow> apiGet instKind (m_ns (op_meta op), sp_instanceName (op_spec op));
     (case g of
        Inl e \<Rightarrow> failOp msgInstanceNotFound op
      | Inr inst \<Rightarrow>
          chk (executeResumeSchedules r inst) (\<lambda>_.
          chk (apiStatusUpdate instKind (setFsm FsmProtected inst)) (\<lambda>_. do {
            emit (instName inst) ''Resumed'';
            saveOp (setStatus (\<lambda>s. s\<lparr>os_state := OpCompleted, os_completionTime := Some (r_now r), os_message := msgResumed\<rparr>) op) done_result })))
   }"

section \<open>Cancel\<close>

text \<open>\<open>r.Status().Update(ctx, operation)\<close> with its error ignored.\<close>

definition saveOpIgnoring :: "DisasterOperation \<Rightarrow> Result \<Rightarrow> Result result" where
  "saveOpIgnoring op res = do { _ \<leftarrow> apiStatusUpdate opKind op; ok res }"

definition cancelProtected :: "reconciler \<Rightarrow> DisasterOperation \<Rightarrow> DisasterInstance \<Rightarrow> Result result" where
  "cancelProtected r op inst = do {
     x \<leftarrow> executeResumeSchedules r inst;
     (case x of
        Inl e \<Rightarrow> failOp (msgCancelResumeFailed (err_text e)) op
      | Inr _ \<Rightarrow> saveOp (setStatus (\<lambda>s. s\<lparr>os_steps := completeCancelStepsForProtectedIdempotency (r_now r) (os_steps s),
                   os_state := OpCompleted, os_completionTime := Some (r_now r), os_currentStep := [], os_reason := [],
                   os_message := msgCancelIdempotent, os_roleStatus := Some (rolesOf inst)\<rparr>) op) done_result)
   }"

definition cancelRunning :: "reconciler \<Rightarrow> DisasterOperation \<Rightarrow> DisasterInstance \<Rightarrow> nat \<Rightarrow> StepStatus \<Rightarrow> Result result" where
  "cancelRunning r op inst idx step =
     (let tmo = effectiveOperationTimeoutMinutes r op inst in
      case stepOverdue r tmo step of
        Some el \<Rightarrow> stepTimedOut r OpCancel tmo op inst idx step el
      | None \<Rightarrow> do {
          x \<leftarrow> executeCancelStep r step inst;
          (case x of
             Inl e \<Rightarrow> stepErrored r OpCancel op inst idx step e
           | Inr completed \<Rightarrow>
               if \<not> completed then ok (after_result (r_stepRunningRequeue r))
               else saveOpIgnoring (setSteps idx (step\<lparr>st_state := StepCompleted, st_completion := Some (r_now r)\<rparr>) op) requeue_result) })"

definition cancelFinish :: "reconciler \<Rightarrow> DisasterOperation \<Rightarrow> DisasterInstance \<Rightarrow> Result result" where
  "cancelFinish r op inst =
     chk (apiGet instKind (instKey inst)) (\<lambda>latest.
     chk (apiStatusUpdate instKind (setFsm FsmProtected latest)) (\<lambda>l.
       saveOpIgnoring (setStatus (\<lambda>s. s\<lparr>os_state := OpCompleted, os_completionTime := Some (r_now r),
         os_roleStatus := Some (rolesOf l)\<rparr>) op) done_result))"

definition cancelProceed :: "reconciler \<Rightarrow> DisasterOperation \<Rightarrow> DisasterInstance \<Rightarrow> Result result" where
  "cancelProceed r op inst =
     (if os_steps (op_status op) = [] then initSteps cancelSteps op
      else case activeStep (os_steps (op_status op)) of
        None \<Rightarrow> cancelFinish r op inst
      | Some idx \<Rightarrow>
          let step = os_steps (op_status op) ! idx in
          if st_state step = StepPending then
            saveOpIgnoring (setStatus (\<lambda>s. s\<lparr>os_currentStep := st_name step\<rparr>) (setSteps idx (startStep (r_now r) step) op))
              (after_result (r_stepStartRequeue r))
          else cancelRunning r op inst idx step)"

definition handleCancel :: "reconciler \<Rightarrow> DisasterOperation \<Rightarrow> Result result" where
  "handleCancel r op = do {
     g \<leftarrow> apiGet instKind (m_ns (op_meta op), sp_instanceName (op_spec op));
     (case g of
        Inl e \<Rightarrow> failOp msgInstanceNotFound op
      | Inr inst \<Rightarrow>
          if fsm inst = FsmProtected then cancelProtected r op inst
          else if \<not> canRunCancel (fsm inst) then failOp (msgCancelState (fsmString (fsm inst))) op
          else cancelProceed r op inst)
   }"

section \<open>Undo\<close>

definition undoRunning :: "reconciler \<Rightarrow> DisasterOperation \<Rightarrow> DisasterInstance \<Rightarrow> nat \<Rightarrow> StepStatus \<Rightarrow> Result result" where
  "undoRunning r op inst idx step =
     (case stepOverdue r (sp_timeoutMinutes (op_spec op)) step of
        Some el \<Rightarrow> stepTimedOut r OpUndo (sp_timeoutMinutes (op_spec op)) op inst idx step el
      | None \<Rightarrow> do {
          x \<leftarrow> executeUndoStep r step inst op;
          (case x of
             Inl e \<Rightarrow> stepErrored r OpUndo op inst idx step e
           | Inr y \<Rightarrow>
               if \<not> fst y then ok (after_result (r_stepRunningRequeue r))
               else do {
                 emit (opName op) ''StepCompleted'';
                 emit (opName op) ''ExecutionProgress'';
                 saveOpIgnoring (setSteps idx (completeStep (r_now r) step) op) requeue_result }) })"

definition undoFinish :: "reconciler \<Rightarrow> DisasterOperation \<Rightarrow> DisasterInstance \<Rightarrow> Result result" where
  "undoFinish r op inst =
     chk (apiGet instKind (instKey inst)) (\<lambda>latest.
     chk (if fsm latest \<noteq> FsmProtected then apiStatusUpdate instKind (setFsm FsmProtected latest) else ok latest) (\<lambda>l.
     chk (apiStatusUpdate opKind (setStatus (\<lambda>s. s\<lparr>os_state := OpCompleted, os_completionTime := Some (r_now r),
            os_currentStep := [], os_roleStatus := Some (rolesOf l), os_message := msgUndoDone\<rparr>) op)) (\<lambda>_. do {
       emit (opName op) ''Completed'';
       emit (instName inst) ''UndoCompleted'';
       ok done_result })))"

definition undoProceed :: "reconciler \<Rightarrow> DisasterOperation \<Rightarrow> DisasterInstance \<Rightarrow> Result result" where
  "undoProceed r op inst =
     (if os_steps (op_status op) = [] then initSteps undoSteps op
      else case activeStep (os_steps (op_status op)) of
        None \<Rightarrow> undoFinish r op inst
      | Some idx \<Rightarrow>
          let step = os_steps (op_status op) ! idx in
          if st_state step = StepPending then do {
            emit (opName op) ''StepStarted'';
            emit (opName op) ''ExecutionProgress'';
            saveOpIgnoring (setStatus (\<lambda>s. s\<lparr>os_currentStep := st_name step\<rparr>) (setSteps idx (startStep (r_now r) step) op))
              (after_result (r_stepStartRequeue r)) }
          else undoRunning r op inst idx step)"

definition handleUndo :: "reconciler \<Rightarrow> DisasterOperation \<Rightarrow> Result result" where
  "handleUndo r op = do {
     g \<leftarrow> apiGet instKind (m_ns (op_meta op), sp_instanceName (op_spec op));
     (case g of
        Inl e \<Rightarrow> failOp msgInstanceNotFound op
      | Inr inst \<Rightarrow>
          if fsm inst \<noteq> FsmActive \<and> fsm inst \<noteq> FsmFailingOver then failOp (msgUndoState (fsmString (fsm inst))) op
          else undoProceed r op inst)
   }"

end
