(* ===== verification/OpFrames.thy ===== *)
theory OpFrames
  imports OpHandlers
begin

text \<open>
  What the step executors leave alone. The contract of a projection of the world that does
  not see sync objects is the locale \<open>sync_frame\<close>, extended by \<open>exec_frame\<close> for one that
  does not see ConfigMaps and workloads either; inside them every executor of a failover,
  cancel or reprotect step is shown to keep the projection, whatever the faults. The first
  is interpreted on the workloads, the second on the objects of the management cluster that
  the handlers own (operations, instances, configurations, clusters, groups, statistics).
  The locale \<open>world_inv\<close> is the contract of an invariant.
\<close>

section \<open>Invariants\<close>

locale world_inv =
  fixes I :: "world \<Rightarrow> bool"
  assumes inv_faults: "I w \<Longrightarrow> I (w\<lparr>w_faults := fs\<rparr>)"
    and inv_events: "I w \<Longrightarrow> I (w\<lparr>w_events := es\<rparr>)"
begin

definition keeps :: "world \<Rightarrow> world \<Rightarrow> bool" where
  "keeps w w' \<longleftrightarrow> (I w \<longrightarrow> I w')"

lemma wp_keeps: "state_io_rel keeps m \<Longrightarrow> I w \<Longrightarrow> wp m (\<lambda>_. I) w"
  using wp_io [of keeps m w] by (rule wp_mono) (auto simp: keeps_def)

lemma keeps_wp: "(\<And>w. I w \<Longrightarrow> wp m (\<lambda>_. I) w) \<Longrightarrow> state_io_rel keeps m"
  by (rule state_io_relI) (force simp: keeps_def wp_def)

end

sublocale world_inv \<subseteq> world_rel keeps
  by unfold_locales (auto simp: keeps_def inv_faults inv_events)

text \<open>Using what is known of the result of an action in its continuation.\<close>

context world_rel
begin

lemma rel_bind_result:
  assumes "\<And>w. wp m (\<lambda>x _. P x) w" and "state_io_rel R m" and "\<And>x. P x \<Longrightarrow> state_io_rel R (f x)"
  shows "state_io_rel R (State_Monad.bind m f)"
proof (rule state_io_relI)
  fix a w w'
  assume "run_state (State_Monad.bind m f) w = (a, w')"
  then obtain x v where m: "run_state m w = (x, v)" and f: "run_state (f x) v = (a, w')"
    by (auto split: prod.splits)
  have "P x" using assms(1) m by (rule wp_run)
  then have "R v w'" using assms(3) f by (blast dest: state_io_relD)
  moreover have "R w v" using assms(2) m by (rule state_io_relD)
  ultimately show "R w w'" by (rule R_trans [rotated])
qed

lemma rel_chk_result:
  assumes "\<And>w. wp m (\<lambda>r _. \<forall>x. r = Inr x \<longrightarrow> P x) w" and "state_io_rel R m" and "\<And>x. P x \<Longrightarrow> state_io_rel R (f x)"
  shows "state_io_rel R (chk m f)"
  unfolding chk_def by (rule rel_bind_result [OF assms(1,2)]) (auto intro: assms(3) rel_ret split: sum.splits)

end

section \<open>Frames of the executors\<close>

context world_frame
begin

lemma frame_update: "(\<And>xs w. proj (k_put K xs w) = proj w) \<Longrightarrow> state_io_rel same (apiUpdate K x)"
  by (rule rel_apiUpdate) (simp add: same_def replaceObj_def)

lemma frame_statusUpdate: "(\<And>xs w. proj (k_put K xs w) = proj w) \<Longrightarrow> state_io_rel same (apiStatusUpdate K x)"
  by (rule rel_apiStatusUpdate) (simp add: same_def replaceObj_def)

lemma frame_create: "(\<And>xs w. proj (k_put K xs w) = proj w) \<Longrightarrow> state_io_rel same (apiCreate K x)"
  by (rule rel_apiCreate) (simp add: same_def)

lemma frame_patch: "(\<And>xs w. proj (k_put K xs w) = proj w) \<Longrightarrow> state_io_rel same (apiPatchAnnotation K k a v)"
  by (rule rel_apiPatch) (simp add: same_def replaceObj_def)

lemma wp_same: "state_io_rel same m \<Longrightarrow> wp m (\<lambda>_ w'. proj w' = proj w) w"
  unfolding wp_def by (auto simp: same_def dest: state_io_relD split: prod.splits)

lemma frame_clusterClient: "state_io_rel same (getClusterClient c)"
  unfolding getClusterClient_def getClusterRESTConfig_def by (intro rel_intros)

lemma frame_getConfig: "(\<And>c. state_io_rel same (k c)) \<Longrightarrow> state_io_rel same (getConfig t i k)"
  unfolding getConfig_def by (intro rel_intros)

lemma frame_readReplicas: "state_io_rel same (readReplicasMap i)"
  unfolding readReplicasMap_def by (intro rel_intros)

lemma frame_fetchReplicas: "state_io_rel same (fetchReplicasMap i)"
  unfolding fetchReplicasMap_def by (intro rel_intros frame_readReplicas)

lemma frame_applyPolicy: "state_io_rel same (ApplyInstanceRestorePolicy M spec i t ao)"
  unfolding ApplyInstanceRestorePolicy_def Let_def buildStorageClassRules_def buildIngressClassRules_def strictCheck_def
    validateClassTargets_def lift_def
  by (intro rel_intros)

lemma frame_checkScaledUp: "state_io_rel same (checkScaledUp c m nss)"
  by (induction nss) (auto intro!: rel_intros)

end

locale sync_frame = world_frame proj for proj :: "world \<Rightarrow> 'p" +
  assumes proj_ds: "proj (w\<lparr>w_ds := xs\<rparr>) = proj w"
    and proj_rs: "proj (w\<lparr>w_rs := xs\<rparr>) = proj w"
begin

lemma put_ds: "proj (k_put dsKind xs w) = proj w" by (simp add: proj_ds)
lemma put_rs: "proj (k_put rsKind xs w) = proj w" by (simp add: proj_rs)

lemmas sync_writes = put_ds put_rs frame_update

lemma frame_pauseSchedules: "state_io_rel same (executePauseSchedules i)"
  unfolding executePauseSchedules_def pauseKind_def pauseOne_def by (intro rel_intros sync_writes)

lemma frame_resumeSchedules: "state_io_rel same (executeResumeSchedules r i)"
  unfolding executeResumeSchedules_def resumeKind_def resumeSchedule_def by (intro rel_intros sync_writes)

lemma frame_trigger:
  "(\<And>xs w. proj (k_put K xs w) = proj w) \<Longrightarrow> state_io_rel same (triggerSyncManualAtWithRetry r K k t tr)"
  unfolding triggerSyncManualAtWithRetry_def Let_def by (intro rel_intros frame_update)

lemma frame_finalSync: "state_io_rel same (executeFinalSync r i step op)"
  unfolding executeFinalSync_def finalSyncOne_def Let_def
  by (intro rel_intros frame_trigger put_ds put_rs)

lemma frame_submission: "state_io_rel same (ValidateModifierRulesAtSubmission M i bs bt)"
  unfolding ValidateModifierRulesAtSubmission_def validateSingleRuleTargetsAndPaths_def Let_def lift_def
  by (intro rel_intros)

lemma frame_preCheck: "state_io_rel same (executePreCheck r i op)"
  unfolding executePreCheck_def Let_def restorePolicyDryRun_def validateModifierRulesForPreCheck_def getClusterRESTConfig_def
  by (intro rel_intros frame_getConfig frame_clusterClient frame_applyPolicy frame_submission)

lemma frame_checkPvc: "state_io_rel same (checkPvc c ns p st)"
  unfolding checkPvc_def storageClassExists_def by (intro rel_intros)

lemma frame_checkReplicas: "state_io_rel same (executeCheckReplicas i op)"
  unfolding executeCheckReplicas_def checkNamespace_def checkNamespacePendingReadiness_def Let_def
  by (intro rel_intros frame_getConfig frame_clusterClient frame_fetchReplicas frame_checkPvc)

lemma frame_triggerOne: "(\<And>xs w. proj (k_put K xs w) = proj w) \<Longrightarrow> state_io_rel same (triggerOne K ns n t)"
  unfolding triggerOne_def by (intro rel_intros frame_update)

lemma frame_pauseNamed: "(\<And>xs w. proj (k_put K xs w) = proj w) \<Longrightarrow> state_io_rel same (pauseNamed K ns n)"
  unfolding pauseNamed_def by (intro rel_intros frame_update)

text \<open>The steps of a failover that do not scale anything.\<close>

lemma frame_syncStep:
  assumes "st_name step \<noteq> StepScaleDownSource" and "st_name step \<noteq> StepScaleUpTarget"
  shows "state_io_rel same (executeFailoverStep r step i op)"
  using assms unfolding executeFailoverStep_def withOp_def
  by (auto intro!: rel_intros frame_preCheck frame_pauseSchedules frame_finalSync frame_checkReplicas frame_resumeSchedules)

end

locale exec_frame = sync_frame proj for proj :: "world \<Rightarrow> 'p" +
  assumes proj_cms: "proj (w\<lparr>w_cms := cs\<rparr>) = proj w"
    and proj_deploys: "proj (w\<lparr>w_deploys := ds\<rparr>) = proj w"
    and proj_sts: "proj (w\<lparr>w_sts := ss\<rparr>) = proj w"
begin

lemma put_cm: "proj (k_put cmKind cs w) = proj w" by (simp add: proj_cms)
lemma put_deploy: "proj (k_put (deployKind c) ds w) = proj w" by (simp add: proj_deploys)
lemma put_sts: "proj (k_put (stsKind c) ss w) = proj w" by (simp add: proj_sts)

lemmas exec_writes = put_ds put_rs put_cm put_deploy put_sts frame_update frame_create

lemma frame_recordReplicas: "state_io_rel same (recordReplicasBeforeScaleDown i c op)"
  unfolding recordReplicasBeforeScaleDown_def collectReplicas_def saveReplicas_def
  by (intro rel_intros exec_writes)

lemma frame_scaleDownAll: "state_io_rel same (scaleDownAll c b nss)"
  unfolding scaleDownAll_def scaleDownNamespace_def scaleDownOne_def
  by (intro rel_intros exec_writes)

lemma frame_doScaleDown: "state_io_rel same (doScaleDown i c)"
  unfolding doScaleDown_def by (intro rel_intros frame_clusterClient frame_scaleDownAll)

lemma frame_scaleDownSource: "state_io_rel same (executeScaleDownSource i op)"
  unfolding executeScaleDownSource_def Let_def
  by (intro rel_intros frame_getConfig frame_clusterClient frame_recordReplicas frame_scaleDownAll)

lemma frame_scaleUpTarget: "state_io_rel same (executeScaleUpTarget i)"
  unfolding executeScaleUpTarget_def Let_def scaleUpTargetNamespace_def scaleUpTargetOne_def
  by (intro rel_intros frame_getConfig frame_clusterClient frame_readReplicas exec_writes)

lemma frame_doScaleUp: "state_io_rel same (doScaleUp i c m b n)"
  unfolding doScaleUp_def doScaleUpNamespace_def doScaleUpOne_def
  by (intro rel_intros frame_clusterClient frame_checkScaledUp exec_writes)

lemma frame_failoverStep: "state_io_rel same (executeFailoverStep r step i op)"
  unfolding executeFailoverStep_def withOp_def
  by (intro rel_intros frame_preCheck frame_pauseSchedules frame_scaleDownSource frame_finalSync frame_scaleUpTarget
      frame_checkReplicas frame_resumeSchedules)

lemma frame_cancelStep: "state_io_rel same (executeCancelStep r step i)"
  unfolding executeCancelStep_def
  by (intro rel_intros frame_getConfig frame_doScaleDown frame_fetchReplicas frame_doScaleUp frame_resumeSchedules)

end

text \<open>The objects of the management cluster that only the handlers write.\<close>

definition managed :: "world \<Rightarrow> DisasterOperation list \<times> DisasterInstance list \<times> DisasterConfig list \<times> Cluster list \<times>
    DisasterGroup list \<times> OperationStatistics list" where
  "managed w = (w_ops w, w_insts w, w_cfgs w, w_clusters w, w_groups w, w_stats w)"

interpretation managedF: exec_frame managed
  by unfold_locales (simp_all add: managed_def)

text \<open>Everything but operations, and everything but operations and instances.\<close>

definition plant :: "world \<Rightarrow> (SyncObject list \<times> SyncObject list \<times> ConfigMap list) \<times>
    (string \<Rightarrow> Workload list) \<times> (string \<Rightarrow> Workload list)" where
  "plant w = ((w_ds w, w_rs w, w_cms w), w_deploys w, w_sts w)"

definition workloads :: "world \<Rightarrow> (string \<Rightarrow> Workload list) \<times> (string \<Rightarrow> Workload list)" where
  "workloads w = (w_deploys w, w_sts w)"

interpretation plantF: world_frame plant
  by unfold_locales (simp_all add: plant_def)

interpretation workloadsF: sync_frame workloads
  by unfold_locales (simp_all add: workloads_def)

interpretation instsF: world_frame w_insts
  by unfold_locales simp_all

interpretation opsF: world_frame w_ops
  by unfold_locales simp_all

section \<open>Objects a projection does not see\<close>

text \<open>The contract of a projection of the world that does not see the objects of one kind under certain keys.\<close>

locale key_frame = world_frame proj + kube_kind K for proj :: "world \<Rightarrow> 'p" and K :: "'o kind" +
  fixes p :: "key \<Rightarrow> bool"
  assumes put_hidden: "filter (\<lambda>x. \<not> p (keyOf K x)) xs = filter (\<lambda>x. \<not> p (keyOf K x)) (k_objs K w) \<Longrightarrow> proj (k_put K xs w) = proj w"
begin

lemma filter_replace:
  "p k \<Longrightarrow> keyOf K x = k \<Longrightarrow> filter (\<lambda>x. \<not> p (keyOf K x)) (map (\<lambda>y. if keyOf K y = k then x else y) xs) = filter (\<lambda>x. \<not> p (keyOf K x)) xs"
  by (induction xs) auto

lemma hidden_replace: "p (keyOf K x) \<Longrightarrow> proj (replaceObj K x w) = proj w"
  unfolding replaceObj_def by (intro put_hidden filter_replace) simp_all

lemma hidden_update: "p (keyOf K x) \<Longrightarrow> state_io_rel same (apiUpdate K x)"
  by (rule rel_apiUpdate) (auto simp: same_def dest: lookup_key intro!: hidden_replace)

lemma hidden_statusUpdate: "p (keyOf K x) \<Longrightarrow> state_io_rel same (apiStatusUpdate K x)"
  by (rule rel_apiStatusUpdate) (auto simp: same_def dest: lookup_key intro!: hidden_replace)

lemma hidden_create: "p (keyOf K x) \<Longrightarrow> state_io_rel same (apiCreate K x)"
  by (rule rel_apiCreate) (auto simp: same_def keyOf_def meta_setMeta metaKey_def intro!: put_hidden)

lemma hidden_delete:
  assumes "p k"
  shows "state_io_rel same (apiDelete t K k)"
proof -
  have gone: "proj (k_put K (filter (\<lambda>x. keyOf K x \<noteq> k) (k_objs K w)) w) = proj w" for w
    by (rule put_hidden) (use assms in \<open>auto intro!: filter_cong\<close>)
  have mark: "proj (replaceObj K (k_setMeta K ((k_meta K s)\<lparr>m_deletion := Some t, m_rv := n\<rparr>) s) w) = proj w"
    if "lookup K w k = Some s" for s w n
    using assms lookup_key [OF that] by (intro hidden_replace) (simp add: keyOf_def meta_setMeta metaKey_def)
  show ?thesis
    unfolding apiDelete_def storeDelete_def
    by (rule rel_faulty, rule state_io_relI) (auto simp: same_def gone mark split: option.splits if_splits)
qed

lemma hidden_deleting:
  assumes "p (keyOf K x)"
  shows "state_io_rel same (faulty (storeUpdateDeleting K x))"
proof -
  have gone: "proj (k_put K (filter (\<lambda>y. keyOf K y \<noteq> q) (k_objs K w)) w) = proj w" if "p q" for q w
    by (rule put_hidden) (use that in \<open>auto intro!: filter_cong\<close>)
  have "wp (storeUpdateDeleting K x) (\<lambda>_ u. proj u = proj v) v" for v
    unfolding storeUpdateDeleting_def wp_chk
  proof (rule wp_storeWrite, goal_cases)
    case (2 s)
    let ?s = "bumpRv K s (k_mergeSpec K s x)"
    have "p (keyOf K ?s)" using lookup_key [OF 2(1)] assms by simp
    then show ?case using gone hidden_replace by (simp add: wp_def)
  qed simp
  then have "same v u" if "run_state (storeUpdateDeleting K x) v = (y, u)" for v y u
    using wp_run [OF \<open>wp (storeUpdateDeleting K x) (\<lambda>_ u. proj u = proj v) v\<close> that] by (simp add: same_def)
  then show ?thesis by (intro rel_faulty state_io_relI)
qed

lemma hidden_finalizers:
  assumes "p k"
  shows "state_io_rel same (apiPatchFinalizers K k fs)"
proof (rule rel_apiPatchFinalizers)
  fix s w assume s: "lookup K w k = Some s"
  show "same w (replaceObj K (k_setMeta K ((k_meta K s)\<lparr>m_finalizers := fs, m_rv := Suc (m_rv (k_meta K s))\<rparr>) s) w)"
    unfolding same_def using assms lookup_key [OF s] by (intro hidden_replace) (simp add: keyOf_def meta_setMeta metaKey_def)
next
  fix w
  show "same w (k_put K (filter (\<lambda>x. keyOf K x \<noteq> k) (k_objs K w)) w)"
    unfolding same_def by (rule put_hidden) (use assms in \<open>auto intro!: filter_cong\<close>)
qed

end

end
