(* ===== verification/OpReconcile.thy ===== *)
theory OpReconcile
  imports OpHandlers Labels
begin

text \<open>
  The rest of the operation controller: manual syncs with retries, the orchestration of a
  group, taking over running failovers, and the reconcile loop that routes an operation to
  its handler (\<open>controller.go\<close>). The two drill handlers are parameters of the dispatch.
\<close>

section \<open>Updates with retry\<close>

definition updateOperationMetadataWithRetry :: "reconciler \<Rightarrow> key \<Rightarrow> (DisasterOperation \<Rightarrow> DisasterOperation) \<Rightarrow> unit result" where
  "updateOperationMetadataWithRetry r k mutate = retryOnConflict (r_retrySteps r)
     (chk (apiGet opKind k) (\<lambda>latest. chk (apiUpdate opKind (mutate latest)) (\<lambda>_. ok ())))"

definition updateOperationStatusWithRetry :: "reconciler \<Rightarrow> key \<Rightarrow> (DisasterOperation \<Rightarrow> DisasterOperation) \<Rightarrow> unit result" where
  "updateOperationStatusWithRetry r k mutate = retryOnConflict (r_retrySteps r)
     (chk (apiGet opKind k) (\<lambda>latest. chk (apiStatusUpdate opKind (mutate latest)) (\<lambda>_. ok ())))"

definition setAnn :: "string \<Rightarrow> string \<Rightarrow> DisasterOperation \<Rightarrow> DisasterOperation" where
  "setAnn k v op = op\<lparr>op_meta := (op_meta op)\<lparr>m_ann := mput (m_ann (op_meta op)) k v\<rparr>\<rparr>"

definition delAnn :: "string \<Rightarrow> DisasterOperation \<Rightarrow> DisasterOperation" where
  "delAnn k op = op\<lparr>op_meta := (op_meta op)\<lparr>m_ann := mdel (m_ann (op_meta op)) k\<rparr>\<rparr>"

section \<open>Manual sync\<close>

definition triggerKey :: string where "triggerKey = ''testudo.softcdata.com/sync-triggered-at''"

definition triggerSync :: "reconciler \<Rightarrow> bool \<Rightarrow> SyncObject kind \<Rightarrow> string \<Rightarrow> string \<Rightarrow> string \<Rightarrow> string \<Rightarrow> string \<Rightarrow> string list action" where
  "triggerSync r want K kname ns n triggerAt traceID =
     (if want \<and> n \<noteq> [] then do {
        x \<leftarrow> triggerSyncManualAtWithRetry r K (ns, n) triggerAt traceID;
        ret (case x of Inl e \<Rightarrow> [kname @ ''('' @ n @ ''): '' @ err_text e] | Inr _ \<Rightarrow> []) }
      else ret [])"

definition syncFirstTrigger :: "reconciler \<Rightarrow> DisasterOperation \<Rightarrow> DisasterInstance \<Rightarrow> bool \<Rightarrow> bool \<Rightarrow> Result result" where
  "syncFirstTrigger r op inst syncData syncResource =
     (let triggerAt = r_fmtTime r (r_now r); traceID = mget (m_ann (op_meta op)) annTraceID in do {
        e1 \<leftarrow> triggerSync r syncData dsKind ''DataSync'' (instNs inst) (is_dataSyncName (in_status inst)) triggerAt traceID;
        e2 \<leftarrow> triggerSync r syncResource rsKind ''ResourceSync'' (instNs inst) (is_resourceSyncName (in_status inst)) triggerAt traceID;
        (if e1 @ e2 \<noteq> [] then do {
           emit (opName op) ''SyncTriggerFailed'';
           emit (opName op) ''ExecutionProgress'';
           saveOp (setStatus (\<lambda>s. s\<lparr>os_message := msgSyncTriggerFailed (joinWith ''; '' (e1 @ e2))\<rparr>) op) (after_result (3 * second)) }
         else chk (updateOperationMetadataWithRetry r (opKey op) (setAnn triggerKey triggerAt)) (\<lambda>_.
              chk (updateOperationStatusWithRetry r (opKey op) (setStatus (\<lambda>s. s\<lparr>os_nextRetryTime := None,
                     os_message := msgSyncTriggered triggerAt\<rparr>))) (\<lambda>_. do {
                emit (instName inst) ''SyncTriggered'';
                emit (opName op) ''ExecutionProgress'';
                ok (after_result (3 * second)) })))
      })"

text \<open>The state of the syncs: whether all are ready, what is pending, and the first failure.\<close>

record syncCheck =
  sc_allReady :: bool
  sc_pending :: "string list"
  sc_failed :: "string option"

definition isCurrentSync :: "SyncStatus \<Rightarrow> time option \<Rightarrow> bool" where
  "isCurrentSync s triggered =
     (case ss_lastSyncTime s of None \<Rightarrow> False
      | Some l \<Rightarrow> (case triggered of None \<Rightarrow> True | Some t \<Rightarrow> \<not> l < t))"

definition waitFor :: "string \<Rightarrow> syncCheck \<Rightarrow> syncCheck" where
  "waitFor m c = c\<lparr>sc_allReady := False, sc_pending := sc_pending c @ [m]\<rparr>"

definition judgeSync :: "string \<Rightarrow> SyncObject \<Rightarrow> time option \<Rightarrow> syncCheck \<Rightarrow> syncCheck" where
  "judgeSync kname s triggered c =
     (let n = m_name (so_meta s) in
      if \<not> isCurrentSync (so_status s) triggered then waitFor (kname @ ''('' @ n @ '')=WaitingStart'') c
      else if ss_state (so_status s) = SyncFailed then c\<lparr>sc_failed := Some (kname @ '' '' @ n @ '' is Failed'')\<rparr>
      else if ss_state (so_status s) \<noteq> SyncReady
      then waitFor (kname @ ''('' @ n @ '')='' @ syncStateString (ss_state (so_status s))) c
      else c)"

definition checkDataSync :: "bool \<Rightarrow> DisasterInstance \<Rightarrow> time option \<Rightarrow> syncCheck \<Rightarrow> syncCheck action" where
  "checkDataSync want inst triggered c =
     (if want \<and> is_dataSyncName (in_status inst) \<noteq> [] then do {
        g \<leftarrow> apiGet dsKind (instNs inst, is_dataSyncName (in_status inst));
        ret (case g of Inl _ \<Rightarrow> waitFor (''DataSync('' @ is_dataSyncName (in_status inst) @ '')=GetError'') c
             | Inr s \<Rightarrow> judgeSync ''DataSync'' s triggered c) }
      else ret c)"

definition checkResourceSync :: "bool \<Rightarrow> DisasterInstance \<Rightarrow> time option \<Rightarrow> syncCheck \<Rightarrow> syncCheck action" where
  "checkResourceSync want inst triggered c =
     (if want \<and> is_resourceSyncName (in_status inst) \<noteq> [] \<and> sc_failed c = None then do {
        g \<leftarrow> apiGet rsKind (instNs inst, is_resourceSyncName (in_status inst));
        ret (case g of Inl _ \<Rightarrow> waitFor (''ResourceSync('' @ is_resourceSyncName (in_status inst) @ '')=GetError'') c
             | Inr s \<Rightarrow> (case hasResourceSyncFailureSince (so_status s) triggered of
                 Some reason \<Rightarrow> c\<lparr>sc_failed := Some (''ResourceSync '' @ m_name (so_meta s) @ '' is Failed: '' @ reason)\<rparr>
               | None \<Rightarrow> judgeSync ''ResourceSync'' s triggered c)) }
      else ret c)"

definition syncRetry :: "reconciler \<Rightarrow> DisasterOperation \<Rightarrow> string \<Rightarrow> Result result" where
  "syncRetry r op failed =
     (let wait = retryWaitDuration r op; n = os_retryCount (op_status op) + 1;
          mx = (case sp_retryPolicy (op_spec op) of None \<Rightarrow> 0 | Some p \<Rightarrow> maxRetries p);
          m = msgSyncRetry failed (durString wait) (dec n) (dec mx)
      in do {
        emit (opName op) ''Retrying'';
        emit (opName op) ''ExecutionProgress'';
        chk (updateOperationMetadataWithRetry r (opKey op) (delAnn triggerKey)) (\<lambda>_.
        chk (updateOperationStatusWithRetry r (opKey op) (setStatus (\<lambda>s. s\<lparr>os_retryCount := n,
               os_nextRetryTime := Some (r_now r + wait), os_message := m\<rparr>))) (\<lambda>_.
        ok (after_result wait)))
      })"

definition syncConclude :: "reconciler \<Rightarrow> DisasterOperation \<Rightarrow> DisasterInstance \<Rightarrow> syncCheck \<Rightarrow> Result result" where
  "syncConclude r op inst c =
     (case sc_failed c of
        Some failed \<Rightarrow>
          if shouldRetry op then syncRetry r op failed
          else do {
            emit (opName op) ''SyncFailed'';
            emit (opName op) ''ExecutionProgress'';
            saveOp (setStatus (\<lambda>s. s\<lparr>os_state := OpFailed, os_nextRetryTime := None, os_message := msgSyncFailed failed\<rparr>) op) done_result }
      | None \<Rightarrow>
          (let tmo = sp_timeoutMinutes (op_spec op);
               overdue = (case os_startTime (op_status op) of None \<Rightarrow> None
                 | Some t \<Rightarrow> if tmo > 0 \<and> since (r_now r) t > minutes tmo then Some (since (r_now r) t) else None)
           in case overdue of
             Some el \<Rightarrow> do {
               emit (opName op) ''SyncTimeout'';
               emit (opName op) ''ExecutionProgress'';
               saveOp (setStatus (\<lambda>s. s\<lparr>os_state := OpFailed, os_completionTime := Some (r_now r), os_nextRetryTime := None,
                 os_message := msgSyncTimeout (durString (roundSecond el)) (dec tmo)\<rparr>) op) done_result }
           | None \<Rightarrow>
               if \<not> sc_allReady c then do {
                 emit (opName op) ''ExecutionProgress'';
                 saveOpIgnoring (setStatus (\<lambda>s. s\<lparr>os_message := msgSyncWaiting (joinWith '', '' (sc_pending c))\<rparr>) op)
                   (after_result (r_stepRunningRequeue r)) }
               else do {
                 emit (instName inst) ''SyncCompleted'';
                 saveOp (setStatus (\<lambda>s. s\<lparr>os_state := OpCompleted, os_completionTime := Some (r_now r), os_nextRetryTime := None,
                   os_message := msgSyncDone\<rparr>) op) done_result }))"

definition handleSync :: "reconciler \<Rightarrow> bool \<Rightarrow> bool \<Rightarrow> DisasterOperation \<Rightarrow> Result result" where
  "handleSync r syncData syncResource op = do {
     g \<leftarrow> apiGet instKind (m_ns (op_meta op), sp_instanceName (op_spec op));
     (case g of
        Inl e \<Rightarrow> failOp msgInstanceNotFound op
      | Inr inst \<Rightarrow>
          (case syncRetryWaitRemaining op (r_now r) of
             Some remaining \<Rightarrow> ok (after_result remaining)
           | None \<Rightarrow>
               let triggeredAt = mget (m_ann (op_meta op)) triggerKey in
               if triggeredAt = [] then syncFirstTrigger r op inst syncData syncResource
               else do {
                 c1 \<leftarrow> checkDataSync syncData inst (r_parseTime r triggeredAt) \<lparr>sc_allReady = True, sc_pending = [], sc_failed = None\<rparr>;
                 c2 \<leftarrow> checkResourceSync syncResource inst (r_parseTime r triggeredAt) c1;
                 syncConclude r op inst c2 }))
   }"

section \<open>Groups\<close>

record groupProgress =
  gp_allCompleted :: bool
  gp_failed :: "string option"
  gp_children :: "string list"

definition childName :: "DisasterOperation \<Rightarrow> string \<Rightarrow> string" where
  "childName op inst = opName op @ ''-'' @ inst"

definition childAnnotations :: "DisasterOperation \<Rightarrow> smap" where
  "childAnnotations op =
     (let a = m_ann (op_meta op);
          a1 = (case map_of a annTraceID of None \<Rightarrow> [] | Some t \<Rightarrow> [(annTraceID, t)]) in
      case map_of a annotationSkipScaleDownSource of
        None \<Rightarrow> a1 | Some raw \<Rightarrow> if trimSpace raw = [] then a1 else mput a1 annotationSkipScaleDownSource raw)"

definition emptyOpStatus :: DisasterOperationStatus where
  "emptyOpStatus = \<lparr>os_state = OpStateNone, os_reason = [], os_startTime = None, os_completionTime = None, os_currentStep = [],
     os_steps = [], os_acTriggered = False, os_acStatus = AcNone, os_acMode = AcmNone, os_acReason = [], os_acTriggerStep = [],
     os_acCurrentStep = [], os_acSteps = [], os_acTriggeredAt = None, os_acCompletionTime = None, os_manualIntervention = False,
     os_roleStatus = None, os_retryCount = 0, os_nextRetryTime = None, os_message = [], os_resourceRestoreName = [],
     os_dataRestoreName = [], os_groupStatus = None, os_conditions = []\<rparr>"

definition newChildOp :: "reconciler \<Rightarrow> DisasterOperation \<Rightarrow> int \<Rightarrow> string \<Rightarrow> DrillConfig option \<Rightarrow> DisasterOperation" where
  "newChildOp r op level inst dc =
     \<lparr>op_meta = \<lparr>m_ns = m_ns (op_meta op), m_name = childName op inst, m_uid = [], m_rv = 0, m_ann = childAnnotations op,
        m_labels = [(''testudo.softcdata.com/owner-operation'', truncateLabelValue r (opName op)),
                    (''testudo.softcdata.com/instance'', truncateLabelValue r inst),
                    (''testudo.softcdata.com/level'', dec level)],
        m_owners = [\<lparr>ow_kind = ''DisasterOperation'', ow_name = opName op, ow_uid = m_uid (op_meta op), ow_controller = True\<rparr>], m_finalizers = [], m_deletion = None, m_creation = None, m_generation = 0\<rparr>,
      op_spec = \<lparr>sp_instanceName = inst, sp_groupName = [], sp_operationType = sp_operationType (op_spec op),
        sp_drillConfig = dc, sp_force = sp_force (op_spec op), sp_skipFinalSync = sp_skipFinalSync (op_spec op),
        sp_skipScaleDownSource = sp_skipScaleDownSource (op_spec op), sp_timeoutMinutes = 0,
        sp_skipPodReadyCheck = sp_skipPodReadyCheck (op_spec op), sp_waitUntilReady = sp_waitUntilReady (op_spec op),
        sp_retryPolicy = sp_retryPolicy (op_spec op)\<rparr>,
      op_status = emptyOpStatus\<rparr>"

definition childState :: "string \<Rightarrow> DisasterOperation \<Rightarrow> groupProgress \<Rightarrow> string \<Rightarrow> groupProgress" where
  "childState policy child g inst =
     (let st = op_status child; note = (\<lambda>m. gp_children g @ [inst @ ''='' @ m]) in
      if os_state st = OpFailed then
        (if policy = ''Continue'' then g\<lparr>gp_children := note ''Failed''\<rparr>
         else g\<lparr>gp_failed := Some (msgChildFailed inst (os_message st))\<rparr>)
      else if os_state st \<noteq> OpCompleted then
        g\<lparr>gp_allCompleted := False, gp_children := note (opStateString (os_state st) @
            (if os_currentStep st \<noteq> [] then ''('' @ os_currentStep st @ '')'' else []))\<rparr>
      else g\<lparr>gp_children := note ''Completed''\<rparr>)"

definition createChild :: "reconciler \<Rightarrow> DisasterOperation \<Rightarrow> int \<Rightarrow> string \<Rightarrow> groupProgress \<Rightarrow> groupProgress result" where
  "createChild r op level inst g =
     (case drillConfigForGroupChild (sp_drillConfig (op_spec op)) (sp_operationType (op_spec op)) inst of
        Inl e \<Rightarrow> ok (g\<lparr>gp_failed := Some (err_text e)\<rparr>)
      | Inr dc \<Rightarrow> do {
          x \<leftarrow> apiCreate opKind (newChildOp r op level inst dc);
          (case x of
             Inl e \<Rightarrow> if err_kind e = AlreadyExists then ok (g\<lparr>gp_allCompleted := False\<rparr>) else fail e
           | Inr _ \<Rightarrow> ok (g\<lparr>gp_allCompleted := False\<rparr>)) })"

definition groupChild :: "reconciler \<Rightarrow> DisasterOperation \<Rightarrow> string \<Rightarrow> int \<Rightarrow> string \<Rightarrow> groupProgress \<Rightarrow> groupProgress result" where
  "groupChild r op policy level inst g =
     (if gp_failed g \<noteq> None then ok g
      else do {
        gi \<leftarrow> apiGet instKind (m_ns (op_meta op), inst);
        (case gi of
           Inl e \<Rightarrow>
             if err_kind e = NotFound then do {
               emit (opName op) ''InstanceNotFound'';
               (if policy = ''Continue'' then ok (g\<lparr>gp_children := gp_children g @ [inst @ ''=NotFound'']\<rparr>)
                else ok (g\<lparr>gp_failed := Some (msgChildNotFound inst)\<rparr>)) }
             else fail e
         | Inr _ \<Rightarrow> do {
             gc \<leftarrow> apiGet opKind (m_ns (op_meta op), childName op inst);
             (case gc of
                Inl e \<Rightarrow> if err_kind e = NotFound then createChild r op level inst g else fail e
              | Inr child \<Rightarrow> ok (childState policy child g inst)) })
      })"

definition levelPrefix :: string where "levelPrefix = ''Level-''"

definition currentLevel :: "string \<Rightarrow> int" where
  "currentLevel cs =
     (if hasPrefix cs levelPrefix then (case atoi (trimPrefix cs levelPrefix) of Some n \<Rightarrow> n | None \<Rightarrow> 0) else 0)"

definition groupLevelDone :: "reconciler \<Rightarrow> DisasterOperation \<Rightarrow> int \<Rightarrow> groupProgress \<Rightarrow> Result result" where
  "groupLevelDone r op level g =
     (case gp_failed g of
        Some m \<Rightarrow> do {
          emit (opName op) ''ChildFailed'';
          emit (opName op) ''ExecutionProgress'';
          failOp m op }
      | None \<Rightarrow>
          if gp_allCompleted g then do {
            emit (opName op) ''LevelCompleted'';
            emit (opName op) ''ExecutionProgress'';
            saveOp (setStatus (\<lambda>s. s\<lparr>os_currentStep := levelPrefix @ dec (level + 1)\<rparr>) op) requeue_result }
          else let m = msgGroupProgress (dec level) (joinWith '', '' (gp_children g)) in
            (if os_message (op_status op) \<noteq> m
             then saveOpIgnoring (setStatus (\<lambda>s. s\<lparr>os_message := m\<rparr>) op) (after_result (r_stepRunningRequeue r))
             else ok (after_result (r_stepRunningRequeue r))))"

definition handleGroupOperation :: "reconciler \<Rightarrow> DisasterOperation \<Rightarrow> Result result" where
  "handleGroupOperation r op = do {
     gg \<leftarrow> apiGet groupKind (m_ns (op_meta op), sp_groupName (op_spec op));
     (case gg of
        Inl e \<Rightarrow> if err_kind e = NotFound then failOp (msgGroupNotFound (sp_groupName (op_spec op))) op else fail e
      | Inr grp \<Rightarrow>
          if os_currentStep (op_status op) = []
          then saveOp (setStatus (\<lambda>s. s\<lparr>os_currentStep := levelPrefix @ ''0''\<rparr>) op) requeue_result
          else let level = currentLevel (os_currentStep (op_status op)) in
            if level \<ge> int (length (gr_levels grp)) then do {
              emit (opName op) ''Completed'';
              emit (opName op) ''ExecutionProgress'';
              saveOp (setStatus (\<lambda>s. s\<lparr>os_state := OpCompleted, os_completionTime := Some (r_now r),
                os_message := msgGroupDone (dec (int (length (gr_levels grp))))\<rparr>) op) done_result }
            else if level < 0 then fail (errorf ''panic: index out of range'')
            else chk (forEach (groupChild r op (gr_failPolicy grp) level) (gr_levels grp ! nat level)
                       \<lparr>gp_allCompleted = True, gp_failed = None, gp_children = []\<rparr>)
                   (groupLevelDone r op level))
   }"

section \<open>Taking over a running failover\<close>

definition supersededStatus :: "reconciler \<Rightarrow> DisasterOperation \<Rightarrow> DisasterOperation \<Rightarrow> DisasterOperation" where
  "supersededStatus r op latest =
     (let m = msgSuperseded (opTypeString (sp_operationType (op_spec op))) (opName op) (opTypeString (sp_operationType (op_spec latest)))
      in setStatus (\<lambda>s. s\<lparr>os_state := OpFailed, os_reason := ''SupersededByNewOperation'', os_message := m,
           os_completionTime := Some (r_now r),
           os_steps := map (\<lambda>t. if st_state t = StepRunning then markStepFailed (r_now r) m t else t) (os_steps s)\<rparr>) latest)"

definition toSupersede :: "DisasterOperation \<Rightarrow> DisasterOperation \<Rightarrow> bool" where
  "toSupersede op cand \<longleftrightarrow>
     opName cand \<noteq> opName op \<and> isInFlightOperationState (os_state (op_status cand)) \<and>
     shouldSupersedeOperation (sp_operationType (op_spec op)) (sp_operationType (op_spec cand)) \<and>
     ((sp_instanceName (op_spec op) \<noteq> [] \<and> sp_instanceName (op_spec cand) = sp_instanceName (op_spec op)) \<or>
      (sp_groupName (op_spec op) \<noteq> [] \<and> sp_groupName (op_spec cand) = sp_groupName (op_spec op)))"

definition supersedeOne :: "reconciler \<Rightarrow> DisasterOperation \<Rightarrow> DisasterOperation \<Rightarrow> unit result" where
  "supersedeOne r op cand =
     (if \<not> toSupersede op cand then ok ()
      else retryOnConflict (r_retrySteps r) (do {
        g \<leftarrow> apiGet opKind (opKey cand);
        (case g of
           Inl e \<Rightarrow> ignoreNotFound e
         | Inr latest \<Rightarrow>
             if \<not> isInFlightOperationState (os_state (op_status latest)) then ok ()
             else chk (apiStatusUpdate opKind (supersededStatus r op latest)) (\<lambda>_. ok ())) }))"

definition supersedeInFlightOperations :: "reconciler \<Rightarrow> DisasterOperation \<Rightarrow> unit result" where
  "supersedeInFlightOperations r op =
     (if \<not> shouldSupersedeOperation (sp_operationType (op_spec op)) OpFailover then ok ()
      else chk (apiList opKind (m_ns (op_meta op))) (\<lambda>ops. forEach (\<lambda>c _. supersedeOne r op c) ops ()))"

section \<open>Owner references, labels, statistics, events\<close>

definition addOwner :: "string \<Rightarrow> ObjectMeta \<Rightarrow> DisasterOperation \<Rightarrow> bool \<times> DisasterOperation" where
  "addOwner k m op =
     (if m_name m = [] \<or> m_uid m = [] \<or> hasOwnerReference (m_owners (op_meta op)) k (Some (m_name m)) then (False, op)
      else (True, op\<lparr>op_meta := (op_meta op)\<lparr>m_owners := m_owners (op_meta op) @
              [\<lparr>ow_kind = k, ow_name = m_name m, ow_uid = m_uid m, ow_controller = False\<rparr>]\<rparr>\<rparr>))"

definition ensureOwnerReferences :: "DisasterOperation \<Rightarrow> (bool \<times> DisasterOperation) result" where
  "ensureOwnerReferences op =
     (if sp_operationType (op_spec op) = OpDrill \<or> sp_operationType (op_spec op) = OpDrillCleanup then ok (False, op)
      else if hasOwnerReference (m_owners (op_meta op)) ''DisasterDrill'' None then ok (False, op)
      else if sp_instanceName (op_spec op) \<noteq> [] then do {
        g \<leftarrow> apiGet instKind (m_ns (op_meta op), sp_instanceName (op_spec op));
        (case g of Inl e \<Rightarrow> if err_kind e = NotFound then ok (False, op) else fail e
         | Inr i \<Rightarrow> ok (addOwner ''DisasterInstance'' (in_meta i) op)) }
      else if sp_groupName (op_spec op) \<noteq> [] then do {
        g \<leftarrow> apiGet groupKind (m_ns (op_meta op), sp_groupName (op_spec op));
        (case g of Inl e \<Rightarrow> if err_kind e = NotFound then ok (False, op) else fail e
         | Inr gr \<Rightarrow> ok (addOwner ''DisasterGroup'' (gr_meta gr) op)) }
      else ok (False, op))"

definition edgeTo :: "reconciler \<Rightarrow> string \<Rightarrow> string \<Rightarrow> DependencyEdge" where
  "edgeTo r uid code = \<lparr>de_targetToken = BuildDependencyToken (r_sha256hex r) uid, de_relationCode = code\<rparr>"

definition syncDependencyLabels :: "reconciler \<Rightarrow> DisasterOperation \<Rightarrow> (bool \<times> DisasterOperation) result" where
  "syncDependencyLabels r op =
     (let tk = EnsureDependencyTokenLabel (r_sha256hex r) (m_labels (op_meta op)) (m_uid (op_meta op)) in do {
        e1 \<leftarrow> (if sp_instanceName (op_spec op) \<noteq> [] then do {
                 g \<leftarrow> apiGet instKind (m_ns (op_meta op), sp_instanceName (op_spec op));
                 ret (case g of Inl _ \<Rightarrow> [] | Inr i \<Rightarrow> [edgeTo r (m_uid (in_meta i)) ''spec.instanceName'']) }
               else ret []);
        e2 \<leftarrow> (if sp_groupName (op_spec op) \<noteq> [] then do {
                 g \<leftarrow> apiGet groupKind (m_ns (op_meta op), sp_groupName (op_spec op));
                 ret (case g of Inl _ \<Rightarrow> [] | Inr i \<Rightarrow> [edgeTo r (m_uid (gr_meta i)) ''spec.groupName'']) }
               else ret []);
        (let rb = RebuildDependencyToLabels (fst tk) (e1 @ e2) in
         ok (snd (snd tk) \<or> snd rb, op\<lparr>op_meta := (op_meta op)\<lparr>m_labels := fst rb\<rparr>\<rparr>))
      })"

definition statsName :: "DisasterOperation \<Rightarrow> string" where
  "statsName op = ''op-'' @ opName op @ ''-stats''"

definition statsLabels :: "DisasterOperation \<Rightarrow> smap \<Rightarrow> smap" where
  "statsLabels op m = mput (mput (mput m ''testudo.softcdata.com/owner-kind'' ''DisasterOperation'')
     ''testudo.softcdata.com/operation-type'' (opTypeString (sp_operationType (op_spec op)))) ''disaster.io/scope-uid'' (m_uid (op_meta op))"

text \<open>\<open>controllerutil.CreateOrUpdate\<close> of the statistics object, then its status.\<close>

definition syncStatistics :: "DisasterOperation \<Rightarrow> unit result" where
  "syncStatistics op =
     (let k = (m_ns (op_meta op), statsName op);
          fresh = \<lparr>sts_meta = \<lparr>m_ns = m_ns (op_meta op), m_name = statsName op, m_uid = [], m_rv = 0, m_ann = [],
                     m_labels = statsLabels op [], m_owners = [], m_finalizers = [], m_deletion = None, m_creation = None, m_generation = 0\<rparr>,
                   sts_total = 0, sts_completed = 0, sts_failed = 0, sts_inProgress = 0, sts_updateReason = []\<rparr> in
      chk (do {
             g \<leftarrow> apiGet statsKind k;
             (case g of
                Inl e \<Rightarrow> if err_kind e = NotFound then apiCreate statsKind fresh else fail e
              | Inr s \<Rightarrow>
                  let s1 = s\<lparr>sts_meta := (sts_meta s)\<lparr>m_labels := statsLabels op (m_labels (sts_meta s))\<rparr>\<rparr> in
                  if s1 = s then ok s else apiUpdate statsKind s1) }) (\<lambda>s.
      chk (apiStatusUpdate statsKind (s\<lparr>sts_total := 1,
             sts_completed := (if os_state (op_status op) = OpCompleted then 1 else 0),
             sts_failed := (if os_state (op_status op) = OpFailed then 1 else 0),
             sts_inProgress := (if os_state (op_status op) = OpRunning then 1 else 0),
             sts_updateReason := opStateString (os_state (op_status op))\<rparr>)) (\<lambda>_. ok ())))"

definition annTaskStarted :: string where "annTaskStarted = ''testudo.softcdata.com/task-started-emitted''"
definition annTaskFinished :: string where "annTaskFinished = ''testudo.softcdata.com/task-finished-emitted''"

definition markOperationTaskEvent :: "reconciler \<Rightarrow> DisasterOperation \<Rightarrow> string \<Rightarrow> DisasterOperation action" where
  "markOperationTaskEvent r op a =
     (if mget (m_ann (op_meta op)) a \<noteq> [] then ret op
      else do {
        g \<leftarrow> apiGet opKind (opKey op);
        (case g of
           Inl _ \<Rightarrow> ret op
         | Inr latest \<Rightarrow>
             if mget (m_ann (op_meta latest)) a \<noteq> [] then ret op
             else do {
               p \<leftarrow> apiPatchAnnotation opKind (opKey op) a (r_fmtTimeNano r (r_now r));
               (case p of
                  Inl _ \<Rightarrow> ret op
                | Inr _ \<Rightarrow> do {
                    g2 \<leftarrow> apiGet opKind (opKey op);
                    (let op1 = (case g2 of Inl _ \<Rightarrow> op | Inr fresh \<Rightarrow> op\<lparr>op_meta := (op_meta op)\<lparr>m_rv := m_rv (op_meta fresh)\<rparr>\<rparr>)
                     in ret (setAnn a (r_fmtTimeNano r (r_now r)) op1)) }) })
      })"

definition getOperationInstance :: "DisasterOperation \<Rightarrow> DisasterInstance option action" where
  "getOperationInstance op =
     (if sp_instanceName (op_spec op) = [] then ret None
      else do {
        g \<leftarrow> apiGet instKind (m_ns (op_meta op), sp_instanceName (op_spec op));
        ret (case g of Inl _ \<Rightarrow> None | Inr i \<Rightarrow> Some i) })"

definition announce :: "reconciler \<Rightarrow> DisasterOperation \<Rightarrow> string \<Rightarrow> string \<Rightarrow> DisasterOperation action" where
  "announce r op a reason =
     (if mget (m_ann (op_meta op)) a \<noteq> [] then ret op
      else do { _ \<leftarrow> getOperationInstance op; emit (opName op) reason; markOperationTaskEvent r op a })"

section \<open>The reconcile loop\<close>

definition reconcileTerminal :: "reconciler \<Rightarrow> DisasterOperation \<Rightarrow> Result result" where
  "reconcileTerminal r op =
     (let n = normalizeOperationStatusError op in
      chk (if snd n then apiStatusUpdate opKind (fst n) else ok (fst n)) (\<lambda>op1. do {
        op2 \<leftarrow> announce r op1 annTaskFinished ''ExecutionFinished'';
        _ \<leftarrow> syncStatistics op2;
        ok done_result }))"

definition reconcileBegin :: "reconciler \<Rightarrow> DisasterOperation \<Rightarrow> Result result" where
  "reconcileBegin r op =
     chk (apiStatusUpdate opKind (setStatus (\<lambda>s. s\<lparr>os_state := OpRunning, os_startTime := Some (r_now r)\<rparr>) op)) (\<lambda>_. do {
       emit (opName op) ''Started'';
       ok requeue_result })"

definition reconcilePending :: "reconciler \<Rightarrow> DisasterOperation \<Rightarrow> Result result" where
  "reconcilePending r op =
     (if sp_timeoutMinutes (op_spec op) = 0 \<and> sp_instanceName (op_spec op) \<noteq> [] then do {
        g \<leftarrow> apiGet instKind (m_ns (op_meta op), sp_instanceName (op_spec op));
        (case g of
           Inl _ \<Rightarrow> reconcileBegin r op
         | Inr i \<Rightarrow>
             if di_operationTimeoutMinutes (in_spec i) > 0 then
               chk (apiUpdate opKind (op\<lparr>op_spec := (op_spec op)\<lparr>sp_timeoutMinutes := di_operationTimeoutMinutes (in_spec i)\<rparr>\<rparr>))
                 (\<lambda>_. ok requeue_result)
             else reconcileBegin r op) }
      else reconcileBegin r op)"

definition unknownOperation :: "reconciler \<Rightarrow> DisasterOperation \<Rightarrow> Result result" where
  "unknownOperation r op =
     (let op1 = setStatus (\<lambda>s. s\<lparr>os_state := OpFailed, os_message := kwUnknownType\<rparr>) op in do {
        _ \<leftarrow> getOperationInstance op1;
        emit (opName op) ''ExecutionFinished'';
        op2 \<leftarrow> markOperationTaskEvent r op1 annTaskFinished;
        saveOp op2 done_result })"

definition routeOperation :: "(DisasterOperation \<Rightarrow> Result result) \<Rightarrow> (DisasterOperation \<Rightarrow> Result result) \<Rightarrow> reconciler \<Rightarrow>
    DisasterOperation \<Rightarrow> Result result" where
  "routeOperation drill cleanup r op =
     (if sp_groupName (op_spec op) \<noteq> [] then handleGroupOperation r op
      else case sp_operationType (op_spec op) of
        OpFailover \<Rightarrow> handleFailover r op
      | OpReprotect \<Rightarrow> handleReprotect r op
      | OpUndo \<Rightarrow> handleUndo r op
      | OpCancel \<Rightarrow> handleCancel r op
      | OpPause \<Rightarrow> handlePause r op
      | OpResume \<Rightarrow> handleResume r op
      | OpSyncOnce \<Rightarrow> handleSync r True True op
      | OpSyncData \<Rightarrow> handleSync r True False op
      | OpSyncResource \<Rightarrow> handleSync r False True op
      | OpDrill \<Rightarrow> drill op
      | OpDrillCleanup \<Rightarrow> cleanup op
      | OpUnknown _ \<Rightarrow> unknownOperation r op)"

definition reconcileRunning :: "(DisasterOperation \<Rightarrow> Result result) \<Rightarrow> (DisasterOperation \<Rightarrow> Result result) \<Rightarrow> reconciler \<Rightarrow>
    DisasterOperation \<Rightarrow> Result result" where
  "reconcileRunning drill cleanup r op = do {
     op1 \<leftarrow> announce r op annTaskStarted ''ExecutionStarted'';
     chk (supersedeInFlightOperations r op1) (\<lambda>_. routeOperation drill cleanup r op1)
   }"

definition reconcileState :: "(DisasterOperation \<Rightarrow> Result result) \<Rightarrow> (DisasterOperation \<Rightarrow> Result result) \<Rightarrow> reconciler \<Rightarrow>
    DisasterOperation \<Rightarrow> Result result" where
  "reconcileState drill cleanup r op =
     (let st = os_state (op_status op); n = normalizeOperationStatusError op in
      if st \<noteq> OpCompleted \<and> st \<noteq> OpFailed \<and> snd n then saveOp (fst n) requeue_result
      else if st = OpCompleted \<or> st = OpFailed then reconcileTerminal r op
      else if st = OpStateNone \<or> st = OpPending then reconcilePending r op
      else reconcileRunning drill cleanup r op)"

definition Reconcile :: "(DisasterOperation \<Rightarrow> Result result) \<Rightarrow> (DisasterOperation \<Rightarrow> Result result) \<Rightarrow> reconciler \<Rightarrow> key \<Rightarrow> Result result" where
  "Reconcile drill cleanup r k = do {
     g \<leftarrow> apiGet opKind k;
     (case g of
        Inl e \<Rightarrow> if err_kind e = NotFound then ok done_result else fail e
      | Inr op \<Rightarrow>
          chk (ensureOwnerReferences op) (\<lambda>x.
            if fst x then chk (apiUpdate opKind (snd x)) (\<lambda>_. ok requeue_result)
            else chk (syncDependencyLabels r (snd x)) (\<lambda>y.
              if fst y then chk (apiUpdate opKind (snd y)) (\<lambda>_. ok requeue_result)
              else reconcileState drill cleanup r (snd y))))
   }"

end
