(* ===== verification/Samples.thy ===== *)
theory Samples
  imports OpReconcile
begin

text \<open>
  Concrete objects: one protected application with its configuration, two clusters, a data
  and a resource sync, and operations on it. The witnesses evaluate the controllers on them.
\<close>

definition sMeta :: "string \<Rightarrow> string \<Rightarrow> ObjectMeta" where
  "sMeta ns n = \<lparr>m_ns = ns, m_name = n, m_uid = n, m_rv = 1, m_ann = [], m_labels = [], m_owners = [],
     m_finalizers = [], m_deletion = None, m_creation = Some 0, m_generation = 1\<rparr>"

definition sRec :: reconciler where
  "sRec = \<lparr>r_now = 0, r_retrySteps = 4, r_defaultTimeoutMinutes = 60, r_stepStartRequeue = second,
     r_stepRunningRequeue = 5 * second, r_defaultRetryInterval = 30 * second, r_fmtTime = (\<lambda>_. ''now''), r_fmtTimeNano = (\<lambda>_. ''now''),
     r_parseTime = (\<lambda>s. if s = ''now'' then Some 0 else None), r_sha256hex = (\<lambda>s. s), r_md5hex = (\<lambda>s. s),
     r_matchers = \<lparr>mt_selector = (\<lambda>s. Inr (ls_matchExpressions s)), mt_matches = (\<lambda>s. Inr (\<lambda>l. True)), mt_regex = (\<lambda>s. Inr (length s))\<rparr>, r_managementNamespace = []\<rparr>"

definition sSpec :: "OperationType \<Rightarrow> DisasterOperationSpec" where
  "sSpec ty = \<lparr>sp_instanceName = ''app'', sp_groupName = [], sp_operationType = ty, sp_drillConfig = None, sp_force = False,
     sp_skipFinalSync = False, sp_skipScaleDownSource = False, sp_timeoutMinutes = 0, sp_skipPodReadyCheck = None,
     sp_waitUntilReady = False, sp_retryPolicy = None\<rparr>"

definition sStep :: "string \<Rightarrow> StepState \<Rightarrow> StepStatus" where
  "sStep n st = (pendingStep n)\<lparr>st_state := st\<rparr>"

text \<open>An operation that is running, with the steps given.\<close>

definition sOp :: "string \<Rightarrow> OperationType \<Rightarrow> StepStatus list \<Rightarrow> DisasterOperation" where
  "sOp n ty steps = \<lparr>op_meta = sMeta ''ns'' n, op_spec = sSpec ty,
     op_status = emptyOpStatus\<lparr>os_state := OpRunning, os_steps := steps\<rparr>\<rparr>"

definition sInst :: "FsmState \<Rightarrow> string \<Rightarrow> string \<Rightarrow> DisasterInstance" where
  "sInst f p s = \<lparr>in_meta = sMeta ''ns'' ''app'',
     in_spec = \<lparr>di_config = ''cfg'', di_namespaces = [''web''], di_operationTimeoutMinutes = 0, di_restorePolicy = None,
       di_skipPodReadyCheck = None, di_dataSyncPolicy = [], di_resourceSyncPolicy = [], di_labelSelector = None, di_veleroHooks = None\<rparr>,
     in_status = \<lparr>is_fsmState = f, is_reason = [], is_message = [], is_lastStableFsmState = FsmProtected, is_primaryCluster = p,
       is_secondaryCluster = s, is_lastDataSyncTime = None, is_lastResourceSyncTime = None, is_availableOperations = [],
       is_dataSyncName = ''dr-ds-app'', is_resourceSyncName = ''dr-rs-app'', is_conditions = []\<rparr>\<rparr>"

definition sSync :: "string \<Rightarrow> bool \<Rightarrow> SyncObject" where
  "sSync n p = \<lparr>so_meta = sMeta ''ns'' n, so_spec = \<lparr>ss_instance = ''app'', ss_trigger = \<lparr>tr_schedule = ''@hourly'', tr_manual = []\<rparr>,
       ss_paused = p, ss_standbyModifier = None, ss_trafficless = None\<rparr>,
     so_status = \<lparr>ss_state = SyncReady, ss_reason = [], ss_message = [], ss_lastSyncTime = Some 5, ss_lastBackupName = ''bk'', ss_lastRestoreName = [], ss_history = [], ss_conditions = [],
       ss_lastClusterRestoreName = [], ss_clusterRestoreStatus = PhaseNone, ss_lastNamespaceRestoreName = [], ss_namespaceRestoreStatus = PhaseNone\<rparr>\<rparr>"

definition sWorkload :: "string \<Rightarrow> int \<Rightarrow> Workload" where
  "sWorkload n k = \<lparr>wl_meta = sMeta ''web'' n, wl_replicas = Some k, wl_ready = k, wl_available = k, wl_unavailable = 0,
     wl_podSpec = \<lparr>ps_images = [''east.example/srv:1''], ps_initImages = [], ps_ephemeralImages = []\<rparr>\<rparr>"

definition sCluster :: "string \<Rightarrow> Cluster" where
  "sCluster n = \<lparr>cl_meta = sMeta [] n, cl_kubeConfig = ''kc'', cl_token = [], cl_endpoint = [],
     cl_imageSources = [\<lparr>isrc_name = ''main'', isrc_registry = n @ ''.example''\<rparr>], cl_veleroInstall = None, cl_status = ''Ready'', cl_message = []\<rparr>"

definition sCfg :: DisasterConfig where
  "sCfg = \<lparr>cfg_meta = sMeta [] ''cfg'', cfg_sourceCluster = ''east'', cfg_targetCluster = ''west'',
     cfg_dataSyncPolicy = [], cfg_resourceSyncPolicy = [], cfg_storageRepository = ''repo'', cfg_imageRewrite = None, cfg_status = CfgReady, cfg_reason = [], cfg_message = []\<rparr>"

text \<open>The web server runs three replicas in the east and none in the west, or the other way round.\<close>

definition sWorld :: "DisasterOperation list \<Rightarrow> DisasterInstance \<Rightarrow> string \<Rightarrow> world" where
  "sWorld ops i active = \<lparr>w_ops = ops, w_insts = [i], w_ds = [sSync ''dr-ds-app'' False], w_rs = [sSync ''dr-rs-app'' False],
     w_cfgs = [sCfg], w_policies = [], w_clusters = [sCluster ''east'', sCluster ''west''], w_groups = [], w_cms = [], w_restores = [], w_stats = [],
     w_drills = [], w_mgmtSecrets = [], w_appBackups = [], w_storageRepos = [],
     w_deploys = (\<lambda>c. if c = active then [sWorkload ''srv'' 3] else if c = ''east'' \<or> c = ''west'' then [sWorkload ''srv'' 0] else []),
     w_sts = (\<lambda>c. []), w_pods = (\<lambda>c. []), w_pvcs = (\<lambda>c. []), w_scs = (\<lambda>c. []), w_ics = (\<lambda>c. []), w_nss = (\<lambda>c. []),
     w_templates = (\<lambda>c g. []), w_secrets = (\<lambda>c. []), w_daemonSets = (\<lambda>c. []), w_pvrs = (\<lambda>c. []), w_jobs = [], w_events = [], w_faults = []\<rparr>"

lemmas sample_defs = sMeta_def sRec_def sSpec_def sStep_def sOp_def sInst_def sSync_def sWorkload_def sCluster_def sCfg_def sWorld_def

end
