(* ===== verification/OpSteps.thy ===== *)
theory OpSteps
  imports OpFrames Samples
begin

text \<open>
  The steps of a failover as its status records them. \<open>statusInv\<close> is the invariant that the
  stored status of one operation satisfies a predicate; the instance of \<open>world_inv\<close> for it
  reduces the preservation of the predicate by a handler to the statuses the handler writes.
  It is used for the order of the steps and for what may change while a step runs.
\<close>

section \<open>Invariants of the stored status of an operation\<close>

definition statusInv :: "key \<Rightarrow> (DisasterOperationStatus \<Rightarrow> bool) \<Rightarrow> world \<Rightarrow> bool" where
  "statusInv k P w \<longleftrightarrow> (\<forall>o'. lookup opKind w k = Some o' \<longrightarrow> P (op_status o'))"

interpretation statI: world_inv "statusInv k P" for k P
  by unfold_locales (simp_all add: statusInv_def)

lemma lookup_ops_cong: "w_ops w' = w_ops w \<Longrightarrow> lookup opKind w' k = lookup opKind w k"
  by (simp add: lookup_def)

lemma statusInv_same: "w_ops w' = w_ops w \<Longrightarrow> statusInv k P w \<Longrightarrow> statusInv k P w'"
  using lookup_ops_cong [of w' w k] by (simp add: statusInv_def)

lemma statI_exec: "state_io_rel managedF.same m \<Longrightarrow> state_io_rel (statI.keeps k P) m"
  by (rule statI.keeps_wp, rule wp_mono, erule managedF.wp_same, erule statusInv_same [rotated], simp add: managed_def)

lemma bump_op_status: "op_status (bumpRv opKind s x) = op_status x"
  by (simp add: bumpRv_def opKind_def)

lemma merge_op_status [simp]: "op_status (k_mergeStatus opKind s x) = op_status x" "op_status (k_mergeSpec opKind s x) = op_status s"
  by (simp_all add: opKind_def)

lemma statusInv_replace:
  assumes "lookup opKind w (keyOf opKind s) = Some s" and "P (op_status s) \<Longrightarrow> P (op_status x)" and "statusInv k P w"
  shows "statusInv k P (replaceObj opKind (bumpRv opKind s x) w)"
  using assms by (auto simp: statusInv_def opK.lookup_replaceObj bump_op_status)

lemma statI_opStatus: "P (op_status x) \<Longrightarrow> state_io_rel (statI.keeps k P) (apiStatusUpdate opKind x)"
  by (rule statI.rel_apiStatusUpdate)
    (auto simp: statI.keeps_def intro!: statusInv_replace dest: opK.lookup_self)

lemma statI_opUpdate: "state_io_rel (statI.keeps k P) (apiUpdate opKind x)"
  by (rule statI.rel_apiUpdate)
    (auto simp: statI.keeps_def intro!: statusInv_replace dest: opK.lookup_self)

lemma statI_inst: "state_io_rel (statI.keeps k P) (apiStatusUpdate instKind x)"
  by (rule statI.rel_apiStatusUpdate)
    (auto simp: statI.keeps_def replaceObj_def elim!: statusInv_same [rotated])

lemma statI_saveOp: "P (op_status op) \<Longrightarrow> state_io_rel (statI.keeps k P) (saveOp op res)"
  unfolding saveOp_def by (intro statI.rel_intros statI_opStatus)

lemma statI_saveOpIgnoring: "P (op_status op) \<Longrightarrow> state_io_rel (statI.keeps k P) (saveOpIgnoring op res)"
  unfolding saveOpIgnoring_def by (intro statI.rel_intros statI_opStatus)

lemma statI_settle: "state_io_rel (statI.keeps k P) (settleInstanceStateOnStepFailure r ty inst step m)"
  unfolding settleInstanceStateOnStepFailure_def Let_def by (intro statI.rel_intros statI_inst)

lemmas statI_rules = statI.rel_intros statI_opUpdate statI_inst statI_settle

section \<open>The shape of a list of steps\<close>

text \<open>Completed steps, then at most one that has started or failed, then pending ones.\<close>

fun stepShape :: "StepStatus list \<Rightarrow> bool" where
  "stepShape [] = True"
| "stepShape (s # ss) =
     (if st_state s = StepCompleted then stepShape ss
      else st_state s \<in> set [StepPending, StepRunning, StepFailed] \<and> list_all (\<lambda>t. st_state t = StepPending) ss)"

definition noneFailed :: "StepStatus list \<Rightarrow> bool" where
  "noneFailed ss \<longleftrightarrow> list_all (\<lambda>t. st_state t \<noteq> StepFailed) ss"

lemma list_all_states: "list_all (\<lambda>t. st_state t = x) ss = list_all (\<lambda>y. y = x) (map st_state ss)"
  by (simp add: list.pred_map comp_def)

lemma noneFailed_states: "noneFailed ss \<longleftrightarrow> StepFailed \<notin> set (map st_state ss)"
  by (force simp: noneFailed_def list_all_iff)

lemma stepShape_cong: "map st_state a = map st_state b \<Longrightarrow> stepShape a = stepShape b"
proof (induction a arbitrary: b)
  case Nil
  then show ?case by simp
next
  case (Cons s a)
  then obtain t b' where b: "b = t # b'" "st_state s = st_state t" "map st_state a = map st_state b'"
    by (cases b) auto
  have "list_all (\<lambda>t. st_state t = StepPending) a = list_all (\<lambda>t. st_state t = StepPending) b'"
    using list_all_states [of StepPending a] list_all_states [of StepPending b'] b(3) by simp
  then show ?case using Cons.IH [OF b(3)] b by simp
qed

lemma activeStep_before:
  assumes "stepShape ss" and "noneFailed ss" and "activeStep ss = Some i"
  shows "i < length ss \<and> (\<forall>j < i. st_state (ss ! j) = StepCompleted)"
  using assms
proof (induction ss arbitrary: i)
  case (Cons s ss)
  show ?case
  proof (cases "st_state s = StepCompleted")
    case True
    with Cons.prems obtain i' where i: "i = Suc i'" "activeStep ss = Some i'" by auto
    with Cons True have "i' < length ss \<and> (\<forall>j < i'. st_state (ss ! j) = StepCompleted)"
      by (simp add: noneFailed_def)
    with True i show ?thesis by (auto simp: nth_Cons split: nat.splits)
  next
    case False
    with Cons.prems show ?thesis by (auto simp: noneFailed_def)
  qed
qed simp

lemma activeStep_none: "stepShape ss \<Longrightarrow> noneFailed ss \<Longrightarrow> activeStep ss = None \<Longrightarrow> list_all (\<lambda>t. st_state t = StepCompleted) ss"
  by (induction ss) (auto simp: noneFailed_def split: if_splits)

lemma stepShape_update:
  assumes "stepShape ss" and "noneFailed ss" and "activeStep ss = Some i"
    and "st_state s \<in> set [StepRunning, StepCompleted, StepFailed]"
  shows "stepShape (ss[i := s])"
  using assms
proof (induction ss arbitrary: i)
  case (Cons t ss)
  have pend: "list_all (\<lambda>t. st_state t = StepPending) ss \<Longrightarrow> stepShape ss" by (cases ss) auto
  show ?case
  proof (cases "st_state t = StepCompleted")
    case True
    with Cons.prems obtain i' where "i = Suc i'" "activeStep ss = Some i'" by auto
    with Cons True show ?thesis by (simp add: noneFailed_def)
  next
    case False
    with Cons.prems have "i = 0" by (auto simp: noneFailed_def)
    with False Cons.prems pend show ?thesis by auto
  qed
qed simp

lemma noneFailed_update: "noneFailed ss \<Longrightarrow> st_state s \<noteq> StepFailed \<Longrightarrow> noneFailed (ss[i := s])"
  unfolding noneFailed_def list_all_iff using set_update_subset_insert by fastforce

section \<open>Well-formed failovers\<close>

definition failoverWf :: "DisasterOperationStatus \<Rightarrow> bool" where
  "failoverWf s \<longleftrightarrow> (os_steps s = [] \<or> map st_name (os_steps s) = failoverSteps) \<and> stepShape (os_steps s) \<and>
     (noneFailed (os_steps s) \<or> os_state s = OpFailed \<or> (os_acStatus s = AcRunning \<and> os_acSteps s \<noteq> []))"

lemma failoverWf_running:
  assumes "failoverWf (op_status op)" and "os_state (op_status op) = OpRunning"
    and "\<not> (os_acStatus (op_status op) = AcRunning \<and> os_acSteps (op_status op) \<noteq> [])"
  shows "stepShape (os_steps (op_status op))" and "noneFailed (os_steps (op_status op))"
  using assms by (auto simp: failoverWf_def)

lemma setStatus_status [simp]: "op_status (setStatus f op) = f (op_status op)"
  by (simp add: setStatus_def)

lemma setSteps_status: "op_status (setSteps i s op) = (op_status op)\<lparr>os_steps := (os_steps (op_status op))[i := s]\<rparr>"
  by (simp add: setSteps_def)

lemma setAcSteps_status: "op_status (setAcSteps i s op) = (op_status op)\<lparr>os_acSteps := (os_acSteps (op_status op))[i := s]\<rparr>"
  by (simp add: setAcSteps_def)

lemma names_update: "i < length ss \<Longrightarrow> st_name s = st_name (ss ! i) \<Longrightarrow> map st_name (ss[i := s]) = map st_name ss"
  by (simp add: map_update list_update_same_conv)

text \<open>Writing the active step keeps a status well formed.\<close>

lemma failoverWf_step:
  assumes wf: "failoverWf st" and nf: "noneFailed (os_steps st)" and a: "activeStep (os_steps st) = Some i"
    and s: "st_name s = st_name (os_steps st ! i)" "st_state s \<in> set [StepRunning, StepCompleted, StepFailed]"
    and st': "os_steps st' = (os_steps st)[i := s]"
    and fl: "st_state s = StepFailed \<Longrightarrow> os_state st' = OpFailed \<or> (os_acStatus st' = AcRunning \<and> os_acSteps st' \<noteq> [])"
  shows "failoverWf st'"
proof -
  from wf have sh: "stepShape (os_steps st)" by (simp add: failoverWf_def)
  note i = activeStep_before [OF sh nf a]
  have "stepShape (os_steps st')" unfolding st' by (rule stepShape_update [OF sh nf a s(2)])
  moreover have "map st_name (os_steps st') = map st_name (os_steps st)"
    unfolding st' using i s(1) by (intro names_update) auto
  moreover have "noneFailed (os_steps st') \<or> os_state st' = OpFailed \<or> (os_acStatus st' = AcRunning \<and> os_acSteps st' \<noteq> [])"
    using fl noneFailed_update [OF nf, of s i] by (cases "st_state s = StepFailed") (auto simp: st')
  ultimately show ?thesis using wf i by (auto simp: failoverWf_def)
qed

lemma step_fields [simp]:
  "st_name (startStep t s) = st_name s" "st_state (startStep t s) = StepRunning"
  "st_name (completeStep t s) = st_name s" "st_state (completeStep t s) = StepCompleted"
  "st_name (markStepFailed t m s) = st_name s" "st_state (markStepFailed t m s) = StepFailed"
  by (simp_all add: startStep_def completeStep_def markStepFailed_def)

text \<open>The executor of a step returns the operation with at most a message changed.\<close>

lemma setStepMessage_fields:
  "map st_name (setStepMessage n m ss) = map st_name ss" "map st_state (setStepMessage n m ss) = map st_state ss"
  by (induction ss) auto

definition sameSteps :: "DisasterOperation \<Rightarrow> DisasterOperation \<Rightarrow> bool" where
  "sameSteps op op' \<longleftrightarrow> op_meta op' = op_meta op \<and> op_spec op' = op_spec op \<and>
     op_status op'\<lparr>os_steps := os_steps (op_status op)\<rparr> = op_status op \<and>
     map st_name (os_steps (op_status op')) = map st_name (os_steps (op_status op)) \<and>
     map st_state (os_steps (op_status op')) = map st_state (os_steps (op_status op))"

lemma sameSteps_refl [simp]: "sameSteps op op"
  by (simp add: sameSteps_def)

lemma sameSteps_blocker [simp]: "sameSteps op (setCheckReplicasBlockerMessage op b)"
  by (simp add: sameSteps_def setCheckReplicasBlockerMessage_def setStepMessage_fields)

lemma executor_result: "wp (executeFailoverStep r step i op) (\<lambda>x _. case x of Inl e \<Rightarrow> True | Inr y \<Rightarrow> sameSteps op (snd y)) w"
proof -
  have w: "wp (withOp op m) (\<lambda>x _. case x of Inl e \<Rightarrow> True | Inr y \<Rightarrow> sameSteps op (snd y)) w" for m w
    unfolding withOp_def by (auto intro!: wp_any split: sum.splits)
  have c: "wp (executeCheckReplicas i op) (\<lambda>x _. case x of Inl e \<Rightarrow> True | Inr y \<Rightarrow> sameSteps op (snd y)) w" for w
    unfolding executeCheckReplicas_def getConfig_def Let_def
    by (auto intro!: wp_any [where m = "apiGet _ _"] wp_any [where m = "getClusterClient _"] wp_any [where m = "fetchReplicasMap _"]
        wp_any [where m = "forEach _ _ _"] split: sum.splits)
  show ?thesis unfolding executeFailoverStep_def using w c by simp
qed

lemma sameSteps_fields:
  assumes "sameSteps op op'"
  shows "os_state (op_status op') = os_state (op_status op)" and "os_acStatus (op_status op') = os_acStatus (op_status op)"
    and "os_acSteps (op_status op') = os_acSteps (op_status op)"
proof -
  from assms have E: "op_status op'\<lparr>os_steps := os_steps (op_status op)\<rparr> = op_status op" by (simp add: sameSteps_def)
  show "os_state (op_status op') = os_state (op_status op)" "os_acStatus (op_status op') = os_acStatus (op_status op)"
    "os_acSteps (op_status op') = os_acSteps (op_status op)"
    using arg_cong [OF E, of os_state] arg_cong [OF E, of os_acStatus] arg_cong [OF E, of os_acSteps] by simp_all
qed

lemma sameSteps_wf:
  assumes "sameSteps op op'"
  shows "failoverWf (op_status op') = failoverWf (op_status op)" and "noneFailed (os_steps (op_status op')) = noneFailed (os_steps (op_status op))"
proof -
  from assms have *: "map st_name (os_steps (op_status op')) = map st_name (os_steps (op_status op))"
    "map st_state (os_steps (op_status op')) = map st_state (os_steps (op_status op))"
    by (simp_all add: sameSteps_def)
  show n: "noneFailed (os_steps (op_status op')) = noneFailed (os_steps (op_status op))"
    using *(2) by (simp add: noneFailed_states del: set_map list.set_map)
  have e: "os_steps (op_status op') = [] \<longleftrightarrow> os_steps (op_status op) = []"
    using *(1) by (metis map_is_Nil_conv)
  show "failoverWf (op_status op') = failoverWf (op_status op)"
    using sameSteps_fields [OF assms] stepShape_cong [OF *(2)] *(1) n e by (simp add: failoverWf_def)
qed

lemma activeStep_cong: "map st_state a = map st_state b \<Longrightarrow> activeStep a = activeStep b"
proof (induction a arbitrary: b)
  case (Cons s a)
  then show ?case by (cases b) auto
qed simp

section \<open>The order of the steps is kept\<close>

lemma keeps_stepFailure:
  assumes "failoverWf (op_status op)" and "noneFailed (os_steps (op_status op))" and "activeStep (os_steps (op_status op)) = Some idx"
    and "step = os_steps (op_status op) ! idx"
  shows "state_io_rel (statI.keeps k failoverWf) (handleFailoverStepFailure r op inst idx step m)"
proof -
  have wf: "failoverWf st'" if "os_steps st' = (os_steps (op_status op))[idx := markStepFailed t m step]"
    "os_state st' = OpFailed \<or> (os_acStatus st' = AcRunning \<and> os_acSteps st' \<noteq> [])" for st' t
    by (rule failoverWf_step [OF assms(1-3), where s = "markStepFailed t m step"]) (use that assms(4) in auto)
  show ?thesis
    unfolding handleFailoverStepFailure_def markFailoverDirectRollbackSuccess_def startFailoverAutoCancelPath_def
      markFailoverNoAutoCancel_def Let_def
    by (auto split: AutoCancelMode.splits if_splits intro!: statI_rules statI_saveOp wf
        simp: setSteps_status initializeAutoCancelSteps_def cancelSteps_def)
qed

lemma keeps_autoCancel:
  assumes "failoverWf (op_status op)" and "os_acStatus (op_status op) = AcRunning" and "os_acSteps (op_status op) \<noteq> []"
  shows "state_io_rel (statI.keeps k failoverWf) (handleFailoverAutoCancelPath r op inst)"
proof -
  have "failoverWf st'" if "os_steps st' = os_steps (op_status op)"
    "os_state st' = OpFailed \<or> (os_acStatus st' = AcRunning \<and> os_acSteps st' \<noteq> [])" for st'
    using assms(1) that by (auto simp: failoverWf_def)
  then show ?thesis
    unfolding handleFailoverAutoCancelPath_def autoCancelRunning_def failFailoverAutoCancel_def completeFailoverAutoCancel_def Let_def
    using assms(2,3)
    by (auto split: option.splits sum.splits intro!: statI_rules statI_saveOp managedF.frame_cancelStep [THEN statI_exec]
        simp: setAcSteps_status)
qed

lemma keeps_failoverRunning:
  assumes "failoverWf (op_status op)" and "noneFailed (os_steps (op_status op))" and "activeStep (os_steps (op_status op)) = Some idx"
    and "step = os_steps (op_status op) ! idx"
  shows "state_io_rel (statI.keeps k failoverWf) (failoverRunning r op inst idx step)"
proof -
  have wf: "failoverWf (op_status op')" if "sameSteps op op'" for op'
    using sameSteps_wf(1) [OF that] assms(1) by simp
  have fin: "failoverWf (op_status (setSteps idx (completeStep t (os_steps (op_status op') ! idx)) op'))"
    if s: "sameSteps op op'" for op' t
  proof -
    have "map st_state (os_steps (op_status op')) = map st_state (os_steps (op_status op))" using s by (simp add: sameSteps_def)
    then have a: "activeStep (os_steps (op_status op')) = Some idx" using assms(3) activeStep_cong by metis
    have nf: "noneFailed (os_steps (op_status op'))" using sameSteps_wf(2) [OF s] assms(2) by simp
    show ?thesis by (rule failoverWf_step [OF wf [OF s] nf a]) (auto simp: setSteps_status)
  qed
  note cont = statI.rel_bind_result [OF executor_result managedF.frame_failoverStep [THEN statI_exec]]
  show ?thesis
    unfolding failoverRunning_def Let_def
    by (cases "stepOverdue r (sp_timeoutMinutes (op_spec op)) step"; simp, (rule cont)?)
      (auto split: sum.splits intro!: statI_rules keeps_stepFailure [OF assms] statI_saveOp statI_opStatus wf fin)
qed

lemma keeps_failover:
  assumes "failoverWf (op_status op)" and "os_state (op_status op) = OpRunning"
  shows "state_io_rel (statI.keeps k failoverWf) (handleFailover r op)"
proof -
  let ?st = "op_status op"
  have plain: "failoverWf st'" if "os_steps st' = os_steps ?st" "os_state st' = OpFailed" for st'
    using assms(1) that by (auto simp: failoverWf_def)
  have same: "failoverWf st'" if "os_steps st' = os_steps ?st" "noneFailed (os_steps ?st)" for st'
    using assms(1) that by (auto simp: failoverWf_def)
  have new: "failoverWf (?st\<lparr>os_steps := map pendingStep failoverSteps, os_currentStep := c\<rparr>)" for c
    by (simp add: failoverWf_def noneFailed_def failoverSteps_def pendingStep_def)
  have started: "failoverWf (?st\<lparr>os_steps := (os_steps ?st)[i := startStep t (os_steps ?st ! i)], os_currentStep := c\<rparr>)"
    if "noneFailed (os_steps ?st)" "activeStep (os_steps ?st) = Some i" for i t c
    by (rule failoverWf_step [OF assms(1) that]) auto
  have run: "state_io_rel (statI.keeps k failoverWf) (failoverSteps_run r op inst)" if "noneFailed (os_steps ?st)" for inst
    unfolding failoverSteps_run_def failoverFinish_def Let_def
    using that by (auto split: option.splits intro!: statI_rules statI_saveOp statI_opStatus keeps_failoverRunning [OF assms(1)]
        intro: same simp: setSteps_status started)
  have "state_io_rel (statI.keeps k failoverWf) (failoverProceed r op inst)" for inst
    unfolding failoverProceed_def failoverInit_def initSteps_def Let_def
    using failoverWf_running(2) [OF assms] keeps_autoCancel [OF assms(1)]
    by (auto intro!: statI_rules statI_saveOp run simp: new)
  then show ?thesis
    unfolding handleFailover_def failOp_def rejectOp_def findOtherInFlightOperation_def
    by (auto split: sum.splits option.splits intro!: statI_rules statI_saveOp plain)
qed

text \<open>C16. Invariant: while a failover runs, whatever the API server answers, the steps it records are those of a
  failover in their order, completed ones first, at most one started or failed, pending ones
  last; and once a step has failed the operation has failed or its compensation runs.\<close>

theorem failover_steps_in_order:
  assumes "failoverWf (op_status op)" and "os_state (op_status op) = OpRunning" and "lookup opKind w (opKey op) = Some op"
    and "lookup opKind (snd (run_state (handleFailover r op) w)) (opKey op) = Some op'"
  shows "failoverWf (op_status op')"
proof -
  have "statusInv (opKey op) failoverWf w" using assms(1,3) by (simp add: statusInv_def)
  from statI.wp_keeps [OF keeps_failover [OF assms(1,2)] this] assms(4) show ?thesis
    unfolding wp_snd by (auto simp: statusInv_def)
qed

text \<open>A failover whose first step is being started; the write of its status is lost on the way back.\<close>

theorem failover_steps_in_order_witness:
  "let op = sOp ''fo'' OpFailover (map pendingStep failoverSteps);
       w = (sWorld [op] (sInst FsmFailingOver ''east'' ''west'') ''east'')\<lparr>w_faults := [None, None, Some (Lost ''timeout'')]\<rparr>
   in failoverWf (op_status op) \<and> (\<exists>op'. lookup opKind (snd (run_state (handleFailover sRec op) w)) (opKey op) = Some op' \<and>
        failoverWf (op_status op') \<and> st_state (hd (os_steps (op_status op'))) = StepRunning)"
proof -
  let ?op = "sOp ''fo'' OpFailover (map pendingStep failoverSteps)"
  let ?w = "(sWorld [?op] (sInst FsmFailingOver ''east'' ''west'') ''east'')\<lparr>w_faults := [None, None, Some (Lost ''timeout'')]\<rparr>"
  have wf: "failoverWf (op_status ?op)" by code_simp
  have r: "os_state (op_status ?op) = OpRunning" by code_simp
  have l: "lookup opKind ?w (opKey ?op) = Some ?op" by code_simp
  have "map_option (\<lambda>o'. st_state (hd (os_steps (op_status o')))) (lookup opKind (snd (run_state (handleFailover sRec ?op) ?w)) (opKey ?op)) =
      Some StepRunning" by code_simp
  then obtain op' where "lookup opKind (snd (run_state (handleFailover sRec ?op) ?w)) (opKey ?op) = Some op'"
    "st_state (hd (os_steps (op_status op'))) = StepRunning" by auto
  with failover_steps_in_order [OF wf r l] wf show ?thesis unfolding Let_def by blast
qed

end
