(* ===== verification/OpFsm.thy ===== *)
theory OpFsm
  imports OpFrames OpReconcile
begin

text \<open>
  The state machine of a protected instance, as an abstract specification, and the
  refinement of it by the handlers. An abstract state is the state of the instance with its
  two roles; \<open>opEdge\<close> lists the transitions an operation may take. A handler refines it
  when, whatever the API server answers, the instance the operation names moves along edges
  of the operation's type and every other instance is left as it was.
\<close>

section \<open>The abstract machine\<close>

type_synonym roleState = "FsmState \<times> string \<times> string"

definition roleStateOf :: "DisasterInstance \<Rightarrow> roleState" where
  "roleStateOf i = (fsm i, is_primaryCluster (in_status i), is_secondaryCluster (in_status i))"

inductive opEdge :: "DisasterConfig list \<Rightarrow> OperationType \<Rightarrow> roleState \<Rightarrow> roleState \<Rightarrow> bool" for cfgs where
  failover_start: "opEdge cfgs OpFailover (FsmProtected, p, s) (FsmFailingOver, p, s)"
| failover_switch: "opEdge cfgs OpFailover (FsmFailingOver, p, s) (FsmActive, s, p)"
| failover_rollback: "opEdge cfgs OpFailover (FsmFailingOver, p, s) (FsmProtected, p, s)"
| failover_failed: "opEdge cfgs OpFailover (FsmFailingOver, p, s) (FsmFailed, p, s)"
| reprotect_start: "opEdge cfgs OpReprotect (FsmActive, p, s) (FsmFailingBack, p, s)"
| reprotect_done: "opEdge cfgs OpReprotect (FsmFailingBack, p, s) (FsmProtected, p, s)"
| reprotect_failed: "opEdge cfgs OpReprotect (FsmFailingBack, p, s) (FsmFailed, p, s)"
| cancel_done: "f = FsmFailingOver \<or> f = FsmFailed \<Longrightarrow> opEdge cfgs OpCancel (f, p, s) (FsmProtected, p, s)"
| cancel_failed: "opEdge cfgs OpCancel (FsmFailingOver, p, s) (FsmFailed, p, s)"
| undo_switch: "f = FsmActive \<or> f = FsmFailingOver \<Longrightarrow> cfg \<in> set cfgs \<Longrightarrow>
    opEdge cfgs OpUndo (f, p, s) (f, cfg_sourceCluster cfg, cfg_targetCluster cfg)"
| undo_done: "f = FsmActive \<or> f = FsmFailingOver \<Longrightarrow> opEdge cfgs OpUndo (f, p, s) (FsmProtected, p, s)"
| undo_failed: "f = FsmActive \<or> f = FsmFailingOver \<Longrightarrow> opEdge cfgs OpUndo (f, p, s) (FsmFailed, p, s)"
| pause_done: "opEdge cfgs OpPause (f, p, s) (FsmPaused, p, s)"
| resume_done: "opEdge cfgs OpResume (f, p, s) (FsmProtected, p, s)"

inductive_cases failoverEdgeE: "opEdge cfgs OpFailover a b"

definition roles :: "world \<Rightarrow> key \<Rightarrow> roleState option" where
  "roles w k = map_option roleStateOf (lookup instKind w k)"

definition fsmRefines :: "OperationType \<Rightarrow> key \<Rightarrow> world \<Rightarrow> world \<Rightarrow> bool" where
  "fsmRefines ty k w w' \<longleftrightarrow>
     w_cfgs w' = w_cfgs w \<and> (\<forall>k'. k' \<noteq> k \<longrightarrow> lookup instKind w' k' = lookup instKind w k') \<and>
     rel_option (opEdge (w_cfgs w) ty)\<^sup>*\<^sup>* (roles w k) (roles w' k)"

lemma rel_option_trans: "transp E \<Longrightarrow> rel_option E a b \<Longrightarrow> rel_option E b c \<Longrightarrow> rel_option E a c"
  by (cases a; cases b; cases c) (auto dest: transpD)

lemma rel_option_refl: "(\<And>x. E x x) \<Longrightarrow> rel_option E a a"
  by (cases a) simp_all

lemma fsmRefines_refl [simp]: "fsmRefines ty k w w"
  by (simp add: fsmRefines_def rel_option_refl)

lemma fsmRefines_trans: "fsmRefines ty k a b \<Longrightarrow> fsmRefines ty k b c \<Longrightarrow> fsmRefines ty k a c"
  using rel_option_trans [of "(opEdge (w_cfgs a) ty)\<^sup>*\<^sup>*"] by (auto simp: fsmRefines_def intro: transpI)

lemma lookup_insts_cong: "w_insts w' = w_insts w \<Longrightarrow> lookup instKind w' k = lookup instKind w k"
  by (simp add: lookup_def instKind_def)

lemma fsmRefines_same:
  assumes "w_insts w' = w_insts w" and "w_cfgs w' = w_cfgs w"
  shows "fsmRefines ty k w w'"
  using assms(2) by (simp add: fsmRefines_def roles_def lookup_insts_cong [OF assms(1)] rel_option_refl)

lemma fsmRefines_managed: "managed w' = managed w \<Longrightarrow> fsmRefines ty k w w'"
  by (rule fsmRefines_same) (simp_all add: managed_def)

lemma fsmRefines_faults [simp]: "fsmRefines ty k w0 (w\<lparr>w_faults := fs\<rparr>) \<longleftrightarrow> fsmRefines ty k w0 w"
  by (simp add: fsmRefines_def roles_def)

lemma fsmRefines_events [simp]: "fsmRefines ty k w0 (w\<lparr>w_events := es\<rparr>) \<longleftrightarrow> fsmRefines ty k w0 w"
  by (simp add: fsmRefines_def roles_def)

interpretation fsmR: world_rel "fsmRefines ty k" for ty k
proof unfold_locales
  show "fsmRefines ty k a c" if "fsmRefines ty k a b" "fsmRefines ty k b c" for a b c
    using that by (rule fsmRefines_trans)
qed (simp_all add: fsmRefines_same)

section \<open>Steps of the refinement\<close>

lemma fsmR_exec: "state_io_rel managedF.same m \<Longrightarrow> state_io_rel (fsmRefines ty k) m"
  by (rule state_io_relI, rule fsmRefines_managed, drule managedF.wp_same, erule wp_run)

lemma fsmR_opUpdate: "state_io_rel (fsmRefines ty k) (apiUpdate opKind x)"
  by (rule fsmR.rel_apiUpdate) (simp add: opKind_def replaceObj_def fsmRefines_same)

lemma fsmR_opStatus: "state_io_rel (fsmRefines ty k) (apiStatusUpdate opKind x)"
  by (rule fsmR.rel_apiStatusUpdate) (simp add: opKind_def replaceObj_def fsmRefines_same)

lemma fsmR_opPatch: "state_io_rel (fsmRefines ty k) (apiPatchAnnotation opKind k' a v)"
  by (rule fsmR.rel_apiPatch) (simp add: opKind_def replaceObj_def fsmRefines_same)

lemma fsmR_opCreate: "state_io_rel (fsmRefines ty k) (apiCreate opKind x)"
  by (rule fsmR.rel_apiCreate) (simp add: opKind_def fsmRefines_same)

lemma fsmR_saveOp: "state_io_rel (fsmRefines ty k) (saveOp op res)"
  unfolding saveOp_def by (intro fsmR.rel_intros fsmR_opStatus)

lemma fsmR_saveOpIgnoring: "state_io_rel (fsmRefines ty k) (saveOpIgnoring op res)"
  unfolding saveOpIgnoring_def by (intro fsmR.rel_intros fsmR_opStatus)

lemmas fsmR_execs = managedF.frame_failoverStep [THEN fsmR_exec] managedF.frame_cancelStep [THEN fsmR_exec]
  managedF.frame_scaleDownSource [THEN fsmR_exec] managedF.frame_scaleUpTarget [THEN fsmR_exec]
  managedF.frame_resumeSchedules [THEN fsmR_exec]
  managedF.frame_pauseNamed [OF managedF.put_ds, THEN fsmR_exec] managedF.frame_pauseNamed [OF managedF.put_rs, THEN fsmR_exec]
  managedF.frame_triggerOne [OF managedF.put_ds, THEN fsmR_exec] managedF.frame_triggerOne [OF managedF.put_rs, THEN fsmR_exec]
  managedF.frame_trigger [OF managedF.put_ds, THEN fsmR_exec] managedF.frame_trigger [OF managedF.put_rs, THEN fsmR_exec]

lemmas fsmR_rules = fsmR.rel_intros fsmR_opUpdate fsmR_opStatus fsmR_opPatch fsmR_opCreate fsmR_saveOp fsmR_saveOpIgnoring

text \<open>The write of an instance status, when the edge holds for the instance stored.\<close>

lemma roleStateOf_bump:
  "roleStateOf (bumpRv instKind s (k_mergeStatus instKind s x)) = roleStateOf x"
  by (simp add: roleStateOf_def fsm_def bumpRv_def instKind_def)

lemma fsmRefines_write:
  assumes "lookup instKind w k = Some s" and "(opEdge (w_cfgs w) ty)\<^sup>*\<^sup>* (roleStateOf s) (roleStateOf x)"
  shows "fsmRefines ty k w (replaceObj instKind (bumpRv instKind s (k_mergeStatus instKind s x)) w)"
proof -
  have k: "keyOf instKind s = k" using assms(1) by (rule instK.lookup_key)
  have "w_cfgs (replaceObj instKind y w) = w_cfgs w" for y
    by (simp add: replaceObj_def instKind_def)
  then show ?thesis
    using assms k by (simp add: fsmRefines_def roles_def instK.lookup_replaceObj roleStateOf_bump)
qed

lemma wp_instStatus:
  assumes "fsmRefines ty k w0 w" and "keyOf instKind x = k"
    and "\<And>s. lookup instKind w k = Some s \<Longrightarrow> m_rv (in_meta s) = m_rv (in_meta x) \<Longrightarrow>
      (opEdge (w_cfgs w) ty)\<^sup>*\<^sup>* (roleStateOf s) (roleStateOf x)"
  shows "wp (apiStatusUpdate instKind x) (\<lambda>_. fsmRefines ty k w0) w"
proof (rule wp_apiStatusUpdate)
  show f: "fsmRefines ty k w0 (w\<lparr>w_faults := fs\<rparr>)" for fs
    using assms(1) by (rule fsmRefines_trans) (simp add: fsmRefines_same)
  fix s fs
  assume s: "lookup instKind (w\<lparr>w_faults := fs\<rparr>) (keyOf instKind x) = Some s"
    "m_rv (k_meta instKind s) = m_rv (k_meta instKind x)"
  then have s': "lookup instKind w k = Some s" "m_rv (in_meta s) = m_rv (in_meta x)"
    by (simp_all add: assms(2))
  then have "fsmRefines ty k (w\<lparr>w_faults := fs\<rparr>)
      (replaceObj instKind (bumpRv instKind s (k_mergeStatus instKind s x)) (w\<lparr>w_faults := fs\<rparr>))"
    by (intro fsmRefines_write) (use assms(3) [OF s'] in simp_all)
  then have "fsmRefines ty k w0 (replaceObj instKind (bumpRv instKind s (k_mergeStatus instKind s x)) (w\<lparr>w_faults := fs\<rparr>))"
    using fsmRefines_trans [OF f] by blast
  then show "let s' = bumpRv instKind s (k_mergeStatus instKind s x); w' = replaceObj instKind s' (w\<lparr>w_faults := fs\<rparr>)
       in fsmRefines ty k w0 w' \<and> (\<forall>e. fsmRefines ty k w0 w')"
    by (simp add: Let_def)
qed

lemma wp_rel_from: "state_io_rel (fsmRefines ty k) m \<Longrightarrow> fsmRefines ty k w0 w \<Longrightarrow> wp m (\<lambda>_. fsmRefines ty k w0) w"
  using wp_io [of "fsmRefines ty k" m w] by (rule wp_mono) (auto intro: fsmRefines_trans)

lemma fsmR_get:
  assumes "\<And>w0 w x. fsmRefines ty k w0 w \<Longrightarrow> lookup instKind w k = Some x \<Longrightarrow> wp (f x) (\<lambda>_. fsmRefines ty k w0) w"
  shows "state_io_rel (fsmRefines ty k) (chk (apiGet instKind k) f)"
proof (rule state_io_relI)
  fix a w w'
  assume run: "run_state (chk (apiGet instKind k) f) w = (a, w')"
  have "wp (chk (apiGet instKind k) f) (\<lambda>_. fsmRefines ty k w) w"
    unfolding wp_chk by (rule wp_apiGet) (auto simp: fsmRefines_same intro: assms)
  then show "fsmRefines ty k w w'" using run by (rule wp_run)
qed

lemma instKey_keyOf: "keyOf instKind i = instKey i"
  by (simp add: keyOf_def instKey_def)

lemma instKey_update [simp]: "instKey (i\<lparr>in_status := s\<rparr>) = instKey i"
  by (simp add: instKey_def)

lemma instKey_setFsm [simp]: "instKey (setFsm f i) = instKey i"
  by (simp add: setFsm_def)

lemma instKey_clear [simp]: "instKey (clearStatusError i) = instKey i"
  by (simp add: clearStatusError_def)

lemma instKey_settled [simp]: "instKey (settledInstance ty st m i) = instKey i"
  by (simp add: settledInstance_def setStatusError_def)

lemma instKey_swap [simp]: "instKey (swapRoles i) = instKey i"
  by (simp add: swapRoles_def)

lemma lookup_instKey: "lookup instKind w k = Some i \<Longrightarrow> instKey i = k"
  using instK.lookup_key [of w k i] by (simp add: instKey_keyOf)

lemma fsm_setFsm [simp]: "fsm (setFsm f i) = f"
  by (simp add: fsm_def setFsm_def)

lemma roleStateOf_setFsm [simp]: "roleStateOf (setFsm f i) = (f, is_primaryCluster (in_status i), is_secondaryCluster (in_status i))"
  by (simp add: roleStateOf_def setFsm_def fsm_def)

lemma roleStateOf_clear [simp]: "roleStateOf (clearStatusError i) = roleStateOf i"
  by (simp add: roleStateOf_def clearStatusError_def fsm_def)

lemma roleStateOf_setError [simp]: "roleStateOf (setStatusError a b i) = roleStateOf i"
  by (simp add: roleStateOf_def setStatusError_def fsm_def)

lemma roleStateOf_swap [simp]: "roleStateOf (swapRoles i) = (FsmActive, is_secondaryCluster (in_status i), is_primaryCluster (in_status i))"
  by (simp add: roleStateOf_def swapRoles_def fsm_def)

lemma roleStateOf_eq: "roleStateOf i = (fsm i, is_primaryCluster (in_status i), is_secondaryCluster (in_status i))"
  by (simp add: roleStateOf_def)

text \<open>An instance read with the current version is the one stored.\<close>

lemma wp_instStatus_read:
  assumes "fsmRefines ty k w0 w" and "lookup instKind w k = Some i" and "instKey x = k"
    and "(opEdge (w_cfgs w) ty)\<^sup>*\<^sup>* (roleStateOf i) (roleStateOf x)"
  shows "wp (apiStatusUpdate instKind x) (\<lambda>_. fsmRefines ty k w0) w"
  using assms by (intro wp_instStatus) (auto simp: instKey_keyOf)

lemma wp_then:
  assumes "wp m (\<lambda>_. fsmRefines ty k w0) w" and "\<And>x. state_io_rel (fsmRefines ty k) (f x)"
  shows "wp (chk m f) (\<lambda>_. fsmRefines ty k w0) w"
  unfolding wp_chk using assms(1)
  by (rule wp_mono) (auto intro: wp_rel_from assms(2) split: sum.splits)

section \<open>Settling a failed step\<close>

lemma roleStateOf_settled [simp]:
  "roleStateOf (settledInstance ty st m i) =
     (if ty = OpFailover \<and> shouldRollbackFailoverToProtected st then FsmProtected else FsmFailed,
      is_primaryCluster (in_status i), is_secondaryCluster (in_status i))"
  by (simp add: settledInstance_def)

lemma settled_edge:
  "expectedTransient ty = Some (fsm i) \<Longrightarrow> (opEdge cfgs ty)\<^sup>*\<^sup>* (roleStateOf i) (roleStateOf (settledInstance ty st m i))"
  by (rule r_into_rtranclp)
    (auto simp: expectedTransient_def roleStateOf_eq [of i] intro: opEdge.intros split: OperationType.splits)

lemma fsmR_settle_general:
  assumes "instKey inst = k" and "expectedTransient t = Some f"
    and "\<And>cfgs i st m. fsm i = f \<Longrightarrow> (opEdge cfgs ty)\<^sup>*\<^sup>* (roleStateOf i) (roleStateOf (settledInstance t st m i))"
  shows "state_io_rel (fsmRefines ty k) (settleInstanceStateOnStepFailure r t inst step m)"
proof -
  have *: "state_io_rel (fsmRefines ty k) (chk (apiGet instKind k) (\<lambda>latest.
           if (case expectedTransient t of None \<Rightarrow> False | Some f \<Rightarrow> fsm latest \<noteq> f)
           then ok (in_status latest)
           else chk (apiStatusUpdate instKind (settledInstance t step e latest)) (\<lambda>l. ok (in_status l))))" for e
    by (rule fsmR_get)
      (auto simp: assms(2) simp del: wp_chk intro!: wp_then wp_instStatus_read assms(3) fsmR.rel_ret dest: lookup_instKey)
  show ?thesis
    unfolding settleInstanceStateOnStepFailure_def Let_def assms(1)
    by (intro fsmR.rel_if fsmR.rel_ret fsmR.rel_bind fsmR.rel_retry *)
qed

lemma fsmR_settle:
  assumes "instKey inst = k" and "expectedTransient ty = Some f"
  shows "state_io_rel (fsmRefines ty k) (settleInstanceStateOnStepFailure r ty inst step m)"
  using assms by (rule fsmR_settle_general) (rule settled_edge, simp add: assms(2))

lemma edge_failed: "fsm i = FsmFailingOver \<Longrightarrow>
    opEdge cfgs OpFailover (roleStateOf i) (FsmFailed, is_primaryCluster (in_status i), is_secondaryCluster (in_status i))"
  by (simp add: roleStateOf_eq failover_failed)

text \<open>A compensation step of a failover is settled as a step of a cancel.\<close>

lemma fsmR_settle_compensation:
  assumes "instKey inst = k"
  shows "state_io_rel (fsmRefines OpFailover k) (settleInstanceStateOnStepFailure r OpCancel inst step m)"
  using assms by (rule fsmR_settle_general [where f = FsmFailingOver])
    (simp_all add: expectedTransient_def edge_failed r_into_rtranclp)

section \<open>Failover\<close>

lemma fsmR_stepFailure:
  assumes "instKey inst = k"
  shows "state_io_rel (fsmRefines OpFailover k) (handleFailoverStepFailure r op inst idx step m)"
  unfolding handleFailoverStepFailure_def markFailoverDirectRollbackSuccess_def startFailoverAutoCancelPath_def
    markFailoverNoAutoCancel_def Let_def
  by (auto split: AutoCancelMode.splits simp: expectedTransient_def intro!: fsmR_rules fsmR_settle [OF assms])

lemma fsmR_completeAutoCancel:
  assumes "instKey inst = k" and "fsmRefines OpFailover k w0 w" and "lookup instKind w k = Some i" and "fsm i = FsmFailingOver"
  shows "wp (completeFailoverAutoCancel r op inst) (\<lambda>_. fsmRefines OpFailover k w0) w"
proof -
  have *: "wp (chk (apiStatusUpdate instKind (clearStatusError (setFsm FsmProtected i))) g) (\<lambda>_. fsmRefines OpFailover k w0)
      (w\<lparr>w_faults := fs\<rparr>)"
    if "\<And>x. state_io_rel (fsmRefines OpFailover k) (g x)" for g fs
    using assms that
    by (intro wp_then wp_instStatus_read [where i = i])
      (auto simp: roleStateOf_eq [of i] intro: opEdge.intros dest: lookup_instKey)
  have "wp (chk (apiStatusUpdate instKind (clearStatusError (setFsm FsmProtected x))) g) (\<lambda>_. fsmRefines OpFailover k w0)
      (w\<lparr>w_faults := fs\<rparr>)"
    if "lookup instKind (w\<lparr>w_faults := fs\<rparr>) k = Some x" "\<And>x. state_io_rel (fsmRefines OpFailover k) (g x)" for g fs x
    using that assms(3) * [of g fs] by simp
  note this [intro]
  show ?thesis
    unfolding completeFailoverAutoCancel_def wp_chk [where m = "apiGet _ _"] assms(1)
    by (rule wp_apiGet) (auto simp: assms(2) simp del: wp_chk intro!: fsmR_rules)
qed

lemma fsmR_failoverFinish:
  assumes "instKey inst = k"
  shows "state_io_rel (fsmRefines OpFailover k) (failoverFinish r op inst)"
proof -
  have *: "wp (chk (if fsm l = FsmFailingOver then apiStatusUpdate instKind (swapRoles l)
          else if fsm l = FsmActive then ok l else fail e) g) (\<lambda>_. fsmRefines OpFailover k w0) w"
    if "fsmRefines OpFailover k w0 w" "lookup instKind w k = Some l" "\<And>x. state_io_rel (fsmRefines OpFailover k) (g x)"
    for l e g w w0
    using that
    by (intro wp_then) (auto simp: roleStateOf_eq [of l] intro!: wp_instStatus_read opEdge.intros dest: lookup_instKey)
  show ?thesis
    unfolding failoverFinish_def assms by (rule fsmR_get, rule *) (auto intro!: fsmR_rules)
qed

lemma fsmR_failoverRunning:
  assumes "instKey inst = k"
  shows "state_io_rel (fsmRefines OpFailover k) (failoverRunning r op inst idx step)"
  unfolding failoverRunning_def Let_def
  by (auto split: option.splits sum.splits intro!: fsmR_rules fsmR_stepFailure [OF assms] fsmR_execs)

lemma fsmR_failoverStepsRun:
  assumes "instKey inst = k"
  shows "state_io_rel (fsmRefines OpFailover k) (failoverSteps_run r op inst)"
  unfolding failoverSteps_run_def Let_def
  by (auto split: option.splits intro!: fsmR_rules fsmR_failoverFinish [OF assms] fsmR_failoverRunning [OF assms])

lemma fsmR_autoCancelRunning:
  assumes "instKey inst = k"
  shows "state_io_rel (fsmRefines OpFailover k) (autoCancelRunning r op inst idx step)"
  unfolding autoCancelRunning_def failFailoverAutoCancel_def Let_def
  by (auto split: option.splits sum.splits intro!: fsmR_rules fsmR_settle_compensation [OF assms] fsmR_execs)

lemma fsmR_failoverProceed:
  assumes "instKey inst = k" and "fsmRefines OpFailover k w0 w" and "lookup instKind w k = Some i" and "fsm i = FsmFailingOver"
  shows "wp (failoverProceed r op inst) (\<lambda>_. fsmRefines OpFailover k w0) w"
proof -
  have "state_io_rel (fsmRefines OpFailover k) (failoverInit op inst)"
    unfolding failoverInit_def initSteps_def Let_def by (intro fsmR_rules)
  then show ?thesis
    unfolding failoverProceed_def handleFailoverAutoCancelPath_def Let_def
    using assms fsmR_completeAutoCancel [OF assms]
    by (auto split: option.splits intro!: wp_rel_from fsmR_rules fsmR_failoverStepsRun fsmR_autoCancelRunning)
qed

lemma wp_findOther:
  assumes "\<And>x fs. Q x (w\<lparr>w_faults := fs\<rparr>)" and "\<And>x. Q x w"
  shows "wp (findOtherInFlightOperation ns inst ty self) Q w"
  unfolding findOtherInFlightOperation_def
  by (auto simp: assms(2) simp del: wp_chk) (auto simp: assms intro!: wp_apiList)

lemma bump_fsm: "fsm (bumpRv instKind s (k_mergeStatus instKind s x)) = fsm x"
  by (simp add: fsm_def bumpRv_def instKind_def)

text \<open>Entering the failing-over state, then the rest of the handler.\<close>

lemma wp_enter:
  assumes "fsmRefines ty k w0 w" and "lookup instKind w k = Some i" and "opEdge (w_cfgs w) ty (roleStateOf i) (roleStateOf (setFsm f i))"
    and "\<And>w l. fsmRefines ty k w0 w \<Longrightarrow> lookup instKind w k = Some l \<Longrightarrow> fsm l = f \<Longrightarrow>
      wp (m l) (\<lambda>_. fsmRefines ty k w0) w"
  shows "wp (chk (apiStatusUpdate instKind (setFsm f i)) m) (\<lambda>_. fsmRefines ty k w0) w"
  unfolding wp_chk
proof (rule wp_apiStatusUpdate)
  show "case Inl e of Inl e \<Rightarrow> fsmRefines ty k w0 (w\<lparr>w_faults := fs\<rparr>)
      | Inr l \<Rightarrow> wp (m l) (\<lambda>_. fsmRefines ty k w0) (w\<lparr>w_faults := fs\<rparr>)" for e fs
    using assms(1) by simp
next
  fix s fs
  assume "lookup instKind (w\<lparr>w_faults := fs\<rparr>) (keyOf instKind (setFsm f i)) = Some s"
  moreover have k: "instKey i = k" using assms(2) by (rule lookup_instKey)
  ultimately have s: "s = i" using assms(2) by (simp add: instKey_keyOf)
  let ?s = "bumpRv instKind i (k_mergeStatus instKind i (setFsm f i))"
  let ?w = "replaceObj instKind ?s (w\<lparr>w_faults := fs\<rparr>)"
  have "fsmRefines ty k (w\<lparr>w_faults := fs\<rparr>) ?w"
    by (rule fsmRefines_write) (use assms(2,3) in auto)
  then have r: "fsmRefines ty k w0 ?w"
    using assms(1) fsmRefines_trans [of ty k w0 "w\<lparr>w_faults := fs\<rparr>" ?w] by simp
  have "lookup instKind ?w k = Some ?s"
    using assms(2) instK.lookup_key [OF assms(2)] by (simp add: instK.lookup_replaceObj)
  then have "wp (m ?s) (\<lambda>_. fsmRefines ty k w0) ?w"
    by (intro assms(4) r) (simp_all add: bump_fsm)
  then show "let s' = bumpRv instKind s (k_mergeStatus instKind s (setFsm f i)); w' = replaceObj instKind s' (w\<lparr>w_faults := fs\<rparr>)
       in (case Inr s' of Inl e \<Rightarrow> fsmRefines ty k w0 w' | Inr l \<Rightarrow> wp (m l) (\<lambda>_. fsmRefines ty k w0) w') \<and>
          (\<forall>e. case Inl e of Inl e \<Rightarrow> fsmRefines ty k w0 w' | Inr l \<Rightarrow> wp (m l) (\<lambda>_. fsmRefines ty k w0) w')"
    using r by (simp add: s Let_def)
qed

definition instanceKey :: "DisasterOperation \<Rightarrow> key" where
  "instanceKey op = (m_ns (op_meta op), sp_instanceName (op_spec op))"

lemma fsmR_failOp: "state_io_rel (fsmRefines ty k) (failOp m op)"
  unfolding failOp_def by (intro fsmR_rules)

lemma fsmR_rejectOp: "state_io_rel (fsmRefines ty k) (rejectOp r m op)"
  unfolding rejectOp_def by (intro fsmR_rules)

lemma wp_handler:
  assumes "\<And>fs e. wp (f (Inl e)) (\<lambda>_. fsmRefines ty k w) (w\<lparr>w_faults := fs\<rparr>)"
    and "\<And>w0 w x. fsmRefines ty k w0 w \<Longrightarrow> lookup instKind w k = Some x \<Longrightarrow> wp (f (Inr x)) (\<lambda>_. fsmRefines ty k w0) w"
  shows "wp (State_Monad.bind (apiGet instKind k) f) (\<lambda>_. fsmRefines ty k w) w"
  unfolding wp_bind using assms by (intro wp_apiGet) auto

lemma failover_refines: "wp (handleFailover r op) (\<lambda>_. fsmRefines OpFailover (instanceKey op) w) w"
proof -
  let ?k = "instanceKey op"
  have enter: "wp (chk (if fsm i = FsmProtected then apiStatusUpdate instKind (setFsm FsmFailingOver i) else ok i) (failoverProceed r op))
      (\<lambda>_. fsmRefines OpFailover ?k w0) w"
    if "fsmRefines OpFailover ?k w0 w" "lookup instKind w ?k = Some i" "fsm i = FsmProtected \<or> fsm i = FsmFailingOver" for i w0 w
  proof (cases "fsm i = FsmProtected")
    case True
    then have "opEdge (w_cfgs w) OpFailover (roleStateOf i) (roleStateOf (setFsm FsmFailingOver i))"
      by (simp add: roleStateOf_eq [of i] failover_start)
    with that True show ?thesis
      by (auto simp del: wp_chk intro!: wp_enter fsmR_failoverProceed dest: lookup_instKey)
  next
    case False
    with that show ?thesis by (auto intro!: fsmR_failoverProceed dest: lookup_instKey)
  qed
  show ?thesis
    unfolding handleFailover_def instanceKey_def [symmetric]
    apply (rule wp_handler)
    subgoal by (auto intro!: wp_rel_from fsmR_failOp fsmR_rules)
    subgoal for w0 w i
      unfolding sum.case wp_chk [where m = "findOtherInFlightOperation _ _ _ _"]
      using enter [of w0 _ i]
      by (intro wp_findOther) (auto simp del: wp_chk intro!: wp_rel_from [OF fsmR_rejectOp] split: sum.splits option.splits)
    done
qed

section \<open>Reprotect, pause, resume\<close>

lemma wp_exec_bind:
  assumes "state_io_rel managedF.same m" and "fsmRefines ty k w0 w" and "lookup instKind w k = Some i"
    and "\<And>x w. fsmRefines ty k w0 w \<Longrightarrow> lookup instKind w k = Some i \<Longrightarrow> wp (f x) (\<lambda>_. fsmRefines ty k w0) w"
  shows "wp (State_Monad.bind m f) (\<lambda>_. fsmRefines ty k w0) w"
  unfolding wp_bind
proof (rule wp_mono [OF managedF.wp_same [OF assms(1)]])
  fix x w'
  assume "managed w' = managed w"
  then have "fsmRefines ty k w w'" "lookup instKind w' k = lookup instKind w k"
    by (auto intro: fsmRefines_managed lookup_insts_cong simp: managed_def)
  then show "wp (f x) (\<lambda>_. fsmRefines ty k w0) w'"
    by (intro assms(4)) (use assms(2,3) fsmRefines_trans in auto)
qed

lemma wp_exec_chk:
  assumes "state_io_rel managedF.same m" and "fsmRefines ty k w0 w" and "lookup instKind w k = Some i"
    and "\<And>x w. fsmRefines ty k w0 w \<Longrightarrow> lookup instKind w k = Some i \<Longrightarrow> wp (f x) (\<lambda>_. fsmRefines ty k w0) w"
  shows "wp (chk m f) (\<lambda>_. fsmRefines ty k w0) w"
  unfolding chk_def
  by (rule wp_exec_bind [OF assms(1-3)]) (auto intro: assms(4) split: sum.splits)

lemmas managed_execs = managedF.frame_resumeSchedules managedF.frame_pauseNamed [OF managedF.put_ds]
  managedF.frame_pauseNamed [OF managedF.put_rs] managedF.frame_triggerOne [OF managedF.put_ds]
  managedF.frame_triggerOne [OF managedF.put_rs]

text \<open>The last write of a handler: one edge from the instance as it was read.\<close>

lemma wp_last_write:
  assumes "opEdge (w_cfgs w) ty (roleStateOf i) (roleStateOf (setFsm f i))"
    and "fsmRefines ty k w0 w" and "lookup instKind w k = Some i"
    and "\<And>x. state_io_rel (fsmRefines ty k) (g x)"
  shows "wp (chk (apiStatusUpdate instKind (setFsm f i)) g) (\<lambda>_. fsmRefines ty k w0) w"
  using assms by (intro wp_then wp_instStatus_read [where i = i]) (auto dest: lookup_instKey)

lemma edges_read:
  "fsm i = FsmFailingBack \<Longrightarrow> opEdge cfgs OpReprotect (roleStateOf i) (FsmProtected, is_primaryCluster (in_status i), is_secondaryCluster (in_status i))"
  "fsm i = FsmActive \<Longrightarrow> opEdge cfgs OpReprotect (roleStateOf i) (FsmFailingBack, is_primaryCluster (in_status i), is_secondaryCluster (in_status i))"
  "opEdge cfgs OpPause (roleStateOf i) (FsmPaused, is_primaryCluster (in_status i), is_secondaryCluster (in_status i))"
  "opEdge cfgs OpResume (roleStateOf i) (FsmProtected, is_primaryCluster (in_status i), is_secondaryCluster (in_status i))"
  "fsm i = FsmFailingOver \<or> fsm i = FsmFailed \<Longrightarrow> opEdge cfgs OpCancel (roleStateOf i) (FsmProtected, is_primaryCluster (in_status i), is_secondaryCluster (in_status i))"
  "fsm i = FsmActive \<or> fsm i = FsmFailingOver \<Longrightarrow> opEdge cfgs OpUndo (roleStateOf i) (FsmProtected, is_primaryCluster (in_status i), is_secondaryCluster (in_status i))"
  by (auto simp: roleStateOf_eq [of i] intro: opEdge.intros)

lemma fsmR_reprotectFinish:
  assumes "fsmRefines OpReprotect k w0 w" and "lookup instKind w k = Some inst" and "fsm inst = FsmFailingBack"
  shows "wp (reprotectFinish r op inst) (\<lambda>_. fsmRefines OpReprotect k w0) w"
  unfolding reprotectFinish_def
  by (rule wp_exec_chk [OF managedF.frame_resumeSchedules assms(1,2)], rule wp_exec_bind)
    (auto simp del: wp_chk simp: edges_read assms(3) intro!: wp_last_write fsmR_rules managedF.rel_if managedF.rel_bind managedF.rel_ret managed_execs)

lemma fsmR_stepTimedOut:
  assumes "instKey inst = k" and "expectedTransient ty = Some f"
  shows "state_io_rel (fsmRefines ty k) (stepTimedOut r ty tmo op inst idx step el)"
  unfolding stepTimedOut_def Let_def by (intro fsmR_rules fsmR_settle [OF assms])

lemma fsmR_failOnStep: "state_io_rel (fsmRefines ty k) (failOperationOnStepError r op idx step e)"
  unfolding failOperationOnStepError_def by (intro fsmR_rules)

lemma fsmR_stepErrored:
  assumes "instKey inst = k" and "expectedTransient ty = Some f"
  shows "state_io_rel (fsmRefines ty k) (stepErrored r ty op inst idx step e)"
  unfolding stepErrored_def by (intro fsmR_rules fsmR_settle [OF assms] fsmR_failOnStep)

lemma transient_simps [simp]:
  "expectedTransient OpReprotect = Some FsmFailingBack" "expectedTransient OpCancel = Some FsmFailingOver"
  "expectedTransient OpFailover = Some FsmFailingOver" "expectedTransient OpUndo = None"
  by (simp_all add: expectedTransient_def)

lemma fsmR_reprotectRunning:
  assumes "instKey inst = k"
  shows "state_io_rel (fsmRefines OpReprotect k) (reprotectRunning r op inst idx step)"
  unfolding reprotectRunning_def
  by (auto split: option.splits sum.splits
      intro!: fsmR_rules fsmR_stepTimedOut [OF assms] fsmR_stepErrored [OF assms] fsmR_execs)

lemma fsmR_initSteps: "state_io_rel (fsmRefines ty k) (initSteps ns op)"
  unfolding initSteps_def by (intro fsmR_rules)

lemma fsmR_reprotectProceed:
  assumes "fsmRefines OpReprotect k w0 w" and "lookup instKind w k = Some inst" and "fsm inst = FsmFailingBack"
  shows "wp (reprotectProceed r op inst) (\<lambda>_. fsmRefines OpReprotect k w0) w"
  using assms lookup_instKey [OF assms(2)] fsmR_reprotectFinish [OF assms] unfolding reprotectProceed_def Let_def
  by (auto simp del: wp_bind split: option.splits intro!: wp_rel_from fsmR_rules fsmR_initSteps fsmR_reprotectRunning)

lemma reprotect_refines: "wp (handleReprotect r op) (\<lambda>_. fsmRefines OpReprotect (instanceKey op) w) w"
  unfolding handleReprotect_def instanceKey_def [symmetric]
  apply (rule wp_handler)
  subgoal by (auto intro!: wp_rel_from fsmR_failOp fsmR_rules)
  subgoal for w0 w i
    by (auto simp del: wp_chk intro!: wp_rel_from [OF fsmR_failOp] wp_enter fsmR_reprotectProceed edges_read)
  done

lemma pause_refines: "wp (handlePause r op) (\<lambda>_. fsmRefines OpPause (instanceKey op) w) w"
  unfolding handlePause_def instanceKey_def [symmetric]
  apply (rule wp_handler)
  subgoal by (auto intro!: wp_rel_from fsmR_failOp)
  subgoal for w0 w i
    unfolding sum.case
    by (rule wp_exec_bind, rule managed_execs, assumption, assumption, rule wp_exec_bind, rule managed_execs)
      (auto simp del: wp_chk simp: edges_read intro!: wp_last_write fsmR_rules)
  done

lemma resume_refines: "wp (handleResume r op) (\<lambda>_. fsmRefines OpResume (instanceKey op) w) w"
  unfolding handleResume_def instanceKey_def [symmetric]
  apply (rule wp_handler)
  subgoal by (auto intro!: wp_rel_from fsmR_failOp)
  subgoal for w0 w i
    unfolding sum.case
    by (rule wp_exec_chk, rule managed_execs) (auto simp del: wp_chk simp: edges_read intro!: wp_last_write fsmR_rules)
  done

section \<open>Cancel\<close>

lemma fsmR_cancelRunning:
  assumes "instKey inst = k"
  shows "state_io_rel (fsmRefines OpCancel k) (cancelRunning r op inst idx step)"
  unfolding cancelRunning_def Let_def
  by (auto split: option.splits sum.splits
      intro!: fsmR_rules fsmR_stepTimedOut [OF assms] fsmR_stepErrored [OF assms] fsmR_execs)

text \<open>Reading the instance again gives the one stored.\<close>

lemma wp_reread:
  assumes "fsmRefines ty k w0 w" and "lookup instKind w k = Some i" and "instKey inst = k"
    and "\<And>w. fsmRefines ty k w0 w \<Longrightarrow> lookup instKind w k = Some i \<Longrightarrow> wp (f i) (\<lambda>_. fsmRefines ty k w0) w"
  shows "wp (chk (apiGet instKind (instKey inst)) f) (\<lambda>_. fsmRefines ty k w0) w"
  unfolding wp_chk by (rule wp_apiGet) (use assms in auto)

lemma fsmR_cancelProceed:
  assumes "fsmRefines OpCancel k w0 w" and "lookup instKind w k = Some inst" and "fsm inst = FsmFailingOver \<or> fsm inst = FsmFailed"
  shows "wp (cancelProceed r op inst) (\<lambda>_. fsmRefines OpCancel k w0) w"
proof -
  note k = lookup_instKey [OF assms(2)]
  have "wp (cancelFinish r op inst) (\<lambda>_. fsmRefines OpCancel k w0) w"
    unfolding cancelFinish_def using assms k
    by (intro wp_reread [where i = inst]) (auto simp del: wp_chk simp: edges_read intro!: wp_last_write fsmR_rules)
  then show ?thesis
    using assms k unfolding cancelProceed_def Let_def
    by (auto simp del: wp_bind split: option.splits intro!: wp_rel_from fsmR_rules fsmR_initSteps fsmR_cancelRunning)
qed

lemma cancel_refines: "wp (handleCancel r op) (\<lambda>_. fsmRefines OpCancel (instanceKey op) w) w"
  unfolding handleCancel_def instanceKey_def [symmetric]
  apply (rule wp_handler)
  subgoal by (auto intro!: wp_rel_from fsmR_failOp)
  subgoal for w0 w i
    unfolding cancelProtected_def
    by (auto simp del: wp_chk wp_bind simp: canRunCancel_def
        intro!: wp_rel_from [OF fsmR_failOp] wp_exec_bind [OF managedF.frame_resumeSchedules] fsmR_cancelProceed wp_rel_from [OF fsmR_saveOp]
        split: sum.splits)
  done

section \<open>Undo\<close>

definition undoOk :: "key \<Rightarrow> FsmState set \<Rightarrow> world \<Rightarrow> world \<Rightarrow> bool" where
  "undoOk k F w0 w \<longleftrightarrow> fsmRefines OpUndo k w0 w \<and> (\<exists>i. lookup instKind w k = Some i \<and> fsm i \<in> F)"

interpretation undoI: world_inv "undoOk k F w0" for k F w0
  by unfold_locales (simp_all add: undoOk_def)

lemma undo_write:
  assumes "undoOk k F w0 w" and "lookup instKind w k = Some i" and "instKey x = k" and "fsm x \<in> F"
    and "(opEdge (w_cfgs w) OpUndo)\<^sup>*\<^sup>* (roleStateOf i) (roleStateOf x)"
  shows "wp (apiStatusUpdate instKind x) (\<lambda>_. undoOk k F w0) w"
proof (rule wp_apiStatusUpdate)
  fix s fs
  assume "lookup instKind (w\<lparr>w_faults := fs\<rparr>) (keyOf instKind x) = Some s"
  then have s: "s = i" using assms(2,3) by (simp add: instKey_keyOf)
  let ?s = "bumpRv instKind i (k_mergeStatus instKind i x)"
  let ?w = "replaceObj instKind ?s (w\<lparr>w_faults := fs\<rparr>)"
  have "fsmRefines OpUndo k (w\<lparr>w_faults := fs\<rparr>) ?w"
    by (rule fsmRefines_write) (use assms in auto)
  then have "fsmRefines OpUndo k w0 ?w"
    using assms(1) fsmRefines_trans [of OpUndo k w0 "w\<lparr>w_faults := fs\<rparr>" ?w] by (simp add: undoOk_def)
  moreover have "lookup instKind ?w k = Some ?s"
    using assms(2) instK.lookup_key [OF assms(2)] by (simp add: instK.lookup_replaceObj)
  ultimately show "let s' = bumpRv instKind s (k_mergeStatus instKind s x); w' = replaceObj instKind s' (w\<lparr>w_faults := fs\<rparr>)
       in undoOk k F w0 w' \<and> (\<forall>e. undoOk k F w0 w')"
    using assms(4) by (simp add: s Let_def undoOk_def bump_fsm)
qed (use assms(1) in \<open>simp add: undoI.inv_faults\<close>)

lemma undoOk_same:
  assumes "undoOk k F w0 w" and "w_insts w' = w_insts w" and "w_cfgs w' = w_cfgs w"
  shows "undoOk k F w0 w'"
  using assms(1) fsmRefines_trans [OF _ fsmRefines_same [OF assms(2,3)]] lookup_insts_cong [OF assms(2)]
  by (simp add: undoOk_def)

lemma undoI_exec: "state_io_rel managedF.same m \<Longrightarrow> state_io_rel (undoI.keeps k F w0) m"
proof (rule undoI.keeps_wp)
  fix w
  assume m: "state_io_rel managedF.same m" and "undoOk k F w0 w"
  then show "wp m (\<lambda>_. undoOk k F w0) w"
    by (intro wp_mono [OF managedF.wp_same [OF m]]) (erule undoOk_same, simp_all add: managed_def)
qed

lemma undoI_op: "state_io_rel (undoI.keeps k F w0) (apiStatusUpdate opKind x)"
  by (rule undoI.rel_apiStatusUpdate) (unfold undoI.keeps_def, rule impI, erule undoOk_same, simp_all add: replaceObj_def)

lemma undoI_saveOp: "state_io_rel (undoI.keeps k F w0) (saveOp op res)" "state_io_rel (undoI.keeps k F w0) (saveOpIgnoring op res)"
  unfolding saveOp_def saveOpIgnoring_def by (intro undoI.rel_intros undoI_op)+

lemma undoI_get:
  assumes "\<And>w x. undoOk k F w0 w \<Longrightarrow> lookup instKind w k = Some x \<Longrightarrow> fsm x \<in> F \<Longrightarrow> wp (f x) (\<lambda>_. undoOk k F w0) w"
  shows "state_io_rel (undoI.keeps k F w0) (chk (apiGet instKind k) f)"
proof (rule undoI.keeps_wp)
  fix w
  assume "undoOk k F w0 w"
  then show "wp (chk (apiGet instKind k) f) (\<lambda>_. undoOk k F w0) w"
    unfolding wp_chk by (intro wp_apiGet) (auto simp: undoI.inv_faults, auto simp: undoOk_def intro!: assms)
qed

lemma undoI_settle:
  assumes "instKey inst = k" and F: "F = {FsmActive, FsmFailingOver, FsmFailed}"
  shows "state_io_rel (undoI.keeps k F w0) (settleInstanceStateOnStepFailure r OpUndo inst step m)"
proof -
  have e: "(opEdge cfgs OpUndo)\<^sup>*\<^sup>* (roleStateOf i) (FsmFailed, is_primaryCluster (in_status i), is_secondaryCluster (in_status i))"
    if "fsm i \<in> F" for i cfgs
    using that by (auto simp: F roleStateOf_eq intro: undo_failed)
  have "fsm (settledInstance OpUndo st e i) = FsmFailed" for st e i
    by (simp add: settledInstance_def setStatusError_def fsm_def setFsm_def)
  then have w: "wp (apiStatusUpdate instKind (settledInstance OpUndo step e x)) (\<lambda>_. undoOk k F w0) w"
    if "undoOk k F w0 w" "lookup instKind w k = Some x" "fsm x \<in> F" for w x e
    using that by (intro undo_write [where i = x]) (auto simp: F e dest: lookup_instKey)
  have *: "state_io_rel (undoI.keeps k F w0) (chk (apiGet instKind k) (\<lambda>latest.
           if (case expectedTransient OpUndo of None \<Rightarrow> False | Some f \<Rightarrow> fsm latest \<noteq> f)
           then ok (in_status latest)
           else chk (apiStatusUpdate instKind (settledInstance OpUndo step e latest)) (\<lambda>l. ok (in_status l))))" for e
    by (rule undoI_get) (auto intro: wp_mono [OF w] split: sum.splits)
  show ?thesis
    unfolding settleInstanceStateOnStepFailure_def Let_def assms(1)
    by (intro undoI.rel_if undoI.rel_ret undoI.rel_bind undoI.rel_retry *)
qed

lemma undoI_weaken: "state_io_rel (undoI.keeps k F w0) m \<Longrightarrow> undoOk k F w0 w \<Longrightarrow> wp m (\<lambda>_. fsmRefines OpUndo k w0) w"
  by (rule wp_mono [OF undoI.wp_keeps]) (auto simp: undoOk_def)

abbreviation undoStates :: "FsmState set" where "undoStates \<equiv> {FsmActive, FsmFailingOver, FsmFailed}"

text \<open>Switching the roles back keeps the state and takes the roles of a configuration.\<close>

lemma undo_switch_write:
  assumes "undoOk k F w0 w" and "lookup instKind w k = Some i" and "fsm i \<in> F" and "F = {FsmActive, FsmFailingOver}"
    and "cfg \<in> set (w_cfgs w)"
  shows "wp (apiStatusUpdate instKind (i\<lparr>in_status := (in_status i)\<lparr>is_primaryCluster := cfg_sourceCluster cfg,
       is_secondaryCluster := cfg_targetCluster cfg\<rparr>\<rparr>)) (\<lambda>_. undoOk k F w0) w"
proof -
  have "opEdge (w_cfgs w) OpUndo (roleStateOf i) (fsm i, cfg_sourceCluster cfg, cfg_targetCluster cfg)"
    using assms(3-5) by (auto simp: roleStateOf_eq intro: undo_switch)
  then show ?thesis
    using assms by (intro undo_write [where i = i]) (auto simp: roleStateOf_def fsm_def dest: lookup_instKey)
qed

lemma lookup_in: "lookup K w k = Some x \<Longrightarrow> x \<in> set (k_objs K w)"
  by (auto simp: lookup_def find_Some_iff)

lemma undoI_step:
  assumes "instKey inst = k" and F: "F = {FsmActive, FsmFailingOver}"
  shows "state_io_rel (undoI.keeps k F w0) (executeUndoStep r step inst op)"
proof -
  let ?sw = "\<lambda>cfg latest. apiStatusUpdate instKind (latest\<lparr>in_status := (in_status latest)\<lparr>is_primaryCluster := cfg_sourceCluster cfg,
         is_secondaryCluster := cfg_targetCluster cfg\<rparr>\<rparr>)"
  have get: "wp (chk (apiGet instKind k) (\<lambda>latest. chk (?sw cfg latest) (\<lambda>l. ok (g l)))) (\<lambda>_. undoOk k F w0) w"
    if "undoOk k F w0 w" "cfg \<in> set (w_cfgs w)" for w cfg and g :: "DisasterInstance \<Rightarrow> bool \<times> DisasterInstance"
    unfolding wp_chk [where m = "apiGet _ _"]
  proof (rule wp_apiGet)
    fix x fs
    assume "lookup instKind (w\<lparr>w_faults := fs\<rparr>) k = Some x"
    moreover from this that(1) have "fsm x \<in> F" by (simp add: undoOk_def)
    ultimately have "wp (?sw cfg x) (\<lambda>_. undoOk k F w0) (w\<lparr>w_faults := fs\<rparr>)"
      using that by (intro undo_switch_write) (auto simp: F undoI.inv_faults)
    then show "case Inr x of Inl e \<Rightarrow> undoOk k F w0 (w\<lparr>w_faults := fs\<rparr>)
        | Inr l \<Rightarrow> wp (chk (?sw cfg l) (\<lambda>l. ok (g l))) (\<lambda>_. undoOk k F w0) (w\<lparr>w_faults := fs\<rparr>)"
      by (simp, elim wp_mono) (simp split: sum.splits)
  qed (simp add: undoI.inv_faults that(1))
  have sw: "state_io_rel (undoI.keeps k F w0) (getConfig t inst (\<lambda>cfg. chk (apiGet instKind k) (\<lambda>latest. chk (?sw cfg latest) (\<lambda>l. ok (g l)))))"
    for t and g :: "DisasterInstance \<Rightarrow> bool \<times> DisasterInstance"
    unfolding getConfig_def
    by (rule undoI.keeps_wp, unfold wp_chkWrap, rule wp_apiGet)
      (auto simp del: wp_chk simp: undoI.inv_faults intro!: get dest: lookup_in)
  show ?thesis
    unfolding executeUndoStep_def assms(1)
    by (intro undoI.rel_if undoI.rel_chk undoI.rel_ret sw managedF.frame_scaleDownSource [THEN undoI_exec]
        managedF.frame_scaleUpTarget [THEN undoI_exec] managedF.frame_resumeSchedules [THEN undoI_exec])
qed

lemma undoOk_mono: "undoOk k F w0 w \<Longrightarrow> F \<subseteq> G \<Longrightarrow> undoOk k G w0 w"
  by (auto simp: undoOk_def)

lemma undo_running:
  assumes "instKey inst = k" and "undoOk k {FsmActive, FsmFailingOver} w0 w"
  shows "wp (undoRunning r op inst idx step) (\<lambda>_. fsmRefines OpUndo k w0) w"
proof -
  let ?F = "{FsmActive, FsmFailingOver}"
  have settled: "state_io_rel (undoI.keeps k undoStates w0) (stepTimedOut r OpUndo tmo op inst idx step el)"
    "state_io_rel (undoI.keeps k undoStates w0) (stepErrored r OpUndo op inst idx step e)" for tmo el e
    unfolding stepTimedOut_def stepErrored_def failOperationOnStepError_def Let_def
    by (intro undoI.rel_intros undoI_saveOp undoI_op undoI_settle assms(1) refl)+
  have saved: "wp (saveOpIgnoring o' res) (\<lambda>_. fsmRefines OpUndo k w0) w"
    if "fsmRefines OpUndo k w0 w" for w o' res
    using that by (rule wp_rel_from [OF fsmR_saveOpIgnoring])
  have "wp (executeUndoStep r step inst op) (\<lambda>_. undoOk k ?F w0) w"
    by (rule undoI.wp_keeps [OF undoI_step]) (use assms in auto)
  then show ?thesis
    unfolding undoRunning_def
    by (auto split: option.splits intro!: undoI_weaken [OF settled(1)] undoOk_mono [OF assms(2)])
      (erule wp_mono, auto simp: undoOk_def intro!: saved undoI_weaken [OF settled(2)] split: sum.splits)
qed

lemma fsmR_undoProceed:
  assumes "fsmRefines OpUndo k w0 w" and "lookup instKind w k = Some inst" and "fsm inst = FsmActive \<or> fsm inst = FsmFailingOver"
  shows "wp (undoProceed r op inst) (\<lambda>_. fsmRefines OpUndo k w0) w"
proof -
  note k = lookup_instKey [OF assms(2)]
  have "wp (undoFinish r op inst) (\<lambda>_. fsmRefines OpUndo k w0) w"
    unfolding undoFinish_def using assms k
    by (intro wp_reread [where i = inst]) (auto simp del: wp_chk simp: edges_read intro!: wp_last_write fsmR_rules)
  moreover have "undoOk k {FsmActive, FsmFailingOver} w0 w" using assms by (auto simp: undoOk_def)
  ultimately show ?thesis
    using assms undo_running [OF k] unfolding undoProceed_def Let_def
    by (auto simp del: wp_bind split: option.splits intro!: wp_rel_from [OF fsmR_initSteps]
        wp_rel_from [where m = "State_Monad.bind _ _"] fsmR_rules)
qed

lemma undo_refines: "wp (handleUndo r op) (\<lambda>_. fsmRefines OpUndo (instanceKey op) w) w"
  unfolding handleUndo_def instanceKey_def [symmetric]
  apply (rule wp_handler)
  subgoal by (auto intro!: wp_rel_from fsmR_failOp)
  subgoal for w0 w i
    by (auto simp del: wp_chk wp_bind intro!: wp_rel_from [OF fsmR_failOp] fsmR_undoProceed)
  done

end
