(* ===== verification/OpOrder.thy ===== *)
theory OpOrder
  imports OpSteps OpSafety
begin

text \<open>
  What a failover may touch, and when: the roles of an instance change only after every step
  has completed, and workloads are scaled only by the two scaling steps, each after all the
  steps before it.
\<close>

section \<open>No role changes before the end\<close>

definition notActive :: "key \<Rightarrow> world \<Rightarrow> bool" where
  "notActive k w \<longleftrightarrow> (\<forall>i. lookup instKind w k = Some i \<longrightarrow> fsm i \<noteq> FsmActive)"

interpretation actI: world_inv "notActive k" for k
  by unfold_locales (simp_all add: notActive_def)

lemma notActive_same: "w_insts w' = w_insts w \<Longrightarrow> notActive k w \<Longrightarrow> notActive k w'"
  using lookup_insts_cong [of w' w k] by (simp add: notActive_def)

lemma actI_exec: "state_io_rel managedF.same m \<Longrightarrow> state_io_rel (actI.keeps k) m"
  by (rule actI.keeps_wp, rule wp_mono, erule managedF.wp_same, erule notActive_same [rotated], simp add: managed_def)

lemma actI_op: "state_io_rel (actI.keeps k) (apiStatusUpdate opKind x)" "state_io_rel (actI.keeps k) (apiUpdate opKind x)"
  by (rule actI.rel_apiStatusUpdate, auto simp: actI.keeps_def replaceObj_def elim!: notActive_same [rotated])
    (rule actI.rel_apiUpdate, auto simp: actI.keeps_def replaceObj_def elim!: notActive_same [rotated])

lemma actI_inst: "fsm x \<noteq> FsmActive \<Longrightarrow> state_io_rel (actI.keeps k) (apiStatusUpdate instKind x)"
  by (rule actI.rel_apiStatusUpdate)
    (auto simp: actI.keeps_def notActive_def instK.lookup_replaceObj bump_fsm)

lemma fsm_settled: "fsm (settledInstance ty st m i) \<noteq> FsmActive" "fsm (clearStatusError i) = fsm i"
  by (simp_all add: settledInstance_def clearStatusError_def setStatusError_def fsm_def setFsm_def)

lemma actI_settle: "state_io_rel (actI.keeps k) (settleInstanceStateOnStepFailure r ty inst step m)"
  unfolding settleInstanceStateOnStepFailure_def Let_def
  by (intro actI.rel_intros actI_inst fsm_settled)

lemma actI_saveOp: "state_io_rel (actI.keeps k) (saveOp op res)"
  unfolding saveOp_def by (intro actI.rel_intros actI_op)

lemmas actI_rules = actI.rel_intros actI_op actI_settle actI_saveOp

lemma actI_stepFailure: "state_io_rel (actI.keeps k) (handleFailoverStepFailure r op inst idx step m)"
  unfolding handleFailoverStepFailure_def markFailoverDirectRollbackSuccess_def startFailoverAutoCancelPath_def
    markFailoverNoAutoCancel_def Let_def
  by (auto split: AutoCancelMode.splits intro!: actI_rules)

lemma actI_running: "state_io_rel (actI.keeps k) (failoverRunning r op inst idx step)"
  unfolding failoverRunning_def Let_def
  by (auto split: option.splits sum.splits intro!: actI_rules actI_stepFailure managedF.frame_failoverStep [THEN actI_exec])

lemma actI_autoCancel: "state_io_rel (actI.keeps k) (handleFailoverAutoCancelPath r op inst)"
  unfolding handleFailoverAutoCancelPath_def autoCancelRunning_def failFailoverAutoCancel_def completeFailoverAutoCancel_def Let_def
  by (auto split: option.splits sum.splits intro!: actI_rules actI_inst managedF.frame_cancelStep [THEN actI_exec] simp: fsm_settled)

lemma actI_failover:
  assumes "os_steps (op_status op) = [] \<or> activeStep (os_steps (op_status op)) \<noteq> None \<or>
    (os_acStatus (op_status op) = AcRunning \<and> os_acSteps (op_status op) \<noteq> [])"
  shows "state_io_rel (actI.keeps k) (handleFailover r op)"
proof -
  have "state_io_rel (actI.keeps k) (failoverSteps_run r op inst)" if "activeStep (os_steps (op_status op)) = Some i" for inst i
    unfolding failoverSteps_run_def Let_def that by (auto intro!: actI_rules actI_running)
  moreover have "state_io_rel (actI.keeps k) (failoverInit op inst)" for inst
    unfolding failoverInit_def initSteps_def Let_def by (intro actI_rules)
  ultimately have "state_io_rel (actI.keeps k) (failoverProceed r op inst)" for inst
    using assms unfolding failoverProceed_def by (auto intro!: actI_autoCancel)
  then show ?thesis
    unfolding handleFailover_def failOp_def rejectOp_def findOtherInFlightOperation_def
    by (auto split: sum.splits option.splits intro!: actI_rules actI_inst)
qed

text \<open>C12. Safety: a reconcile of a running failover changes the roles of an instance only when every one of its
  seven steps has completed, the check of the target's replicas included, and no compensation
  is running.\<close>

theorem roles_switch_after_all_steps:
  assumes "failoverWf (op_status op)" and "os_state (op_status op) = OpRunning"
    and "map_option snd (roles (snd (run_state (handleFailover r op) w)) k) \<noteq> map_option snd (roles w k)"
  shows "map st_name (os_steps (op_status op)) = failoverSteps \<and> list_all (\<lambda>t. st_state t = StepCompleted) (os_steps (op_status op)) \<and>
    \<not> (os_acStatus (op_status op) = AcRunning \<and> os_acSteps (op_status op) \<noteq> [])"
proof -
  let ?w = "snd (run_state (handleFailover r op) w)"
  have "fsmRefines OpFailover (instanceKey op) w ?w"
    using failover_refines [of r op w] by (simp add: wp_snd)
  note path = fsmRefines_other [OF this, of k]
  obtain x y where x: "roles w k = Some x" and y: "roles ?w k = Some y" and e: "(opEdge (w_cfgs w) OpFailover)\<^sup>*\<^sup>* x y"
    using path assms(3) by (cases "roles w k"; cases "roles ?w k") auto
  obtain f p s where xf: "x = (f, p, s)" by (cases x)
  have ya: "y = (FsmActive, s, p)" and "snd y \<noteq> snd x"
    using failover_path [of "w_cfgs w" f p s y] e xf assms(3) x y by auto
  with e xf have "f \<noteq> FsmActive" using failover_from_active by auto
  then have "notActive k w" using x xf by (auto simp: notActive_def roles_def roleStateOf_def)
  moreover have "\<not> notActive k ?w" using y ya by (auto simp: notActive_def roles_def roleStateOf_def)
  ultimately have "\<not> state_io_rel (actI.keeps k) (handleFailover r op)"
    using actI.wp_keeps [of k "handleFailover r op" w] by (auto simp: wp_snd)
  then have *: "os_steps (op_status op) \<noteq> []" "activeStep (os_steps (op_status op)) = None"
    "\<not> (os_acStatus (op_status op) = AcRunning \<and> os_acSteps (op_status op) \<noteq> [])"
    using actI_failover [of op k r] by auto
  then show ?thesis
    using assms(1) failoverWf_running [OF assms(1,2)] activeStep_none by (auto simp: failoverWf_def)
qed

theorem roles_switch_after_all_steps_witness:
  "let op = sOp ''fo'' OpFailover (map (\<lambda>n. sStep n StepCompleted) failoverSteps);
       w = sWorld [op] (sInst FsmFailingOver ''east'' ''west'') ''east''; w' = snd (run_state (handleFailover sRec op) w)
   in roles w' (''ns'', ''app'') = Some (FsmActive, ''west'', ''east'') \<and>
      list_all (\<lambda>t. st_state t = StepCompleted) (os_steps (op_status op))"
proof -
  let ?op = "sOp ''fo'' OpFailover (map (\<lambda>n. sStep n StepCompleted) failoverSteps)"
  let ?w = "sWorld [?op] (sInst FsmFailingOver ''east'' ''west'') ''east''"
  have r: "roles (snd (run_state (handleFailover sRec ?op) ?w)) (''ns'', ''app'') = Some (FsmActive, ''west'', ''east'')" by code_simp
  have "roles ?w (''ns'', ''app'') = Some (FsmFailingOver, ''east'', ''west'')" by code_simp
  moreover have "failoverWf (op_status ?op)" by code_simp
  moreover have "os_state (op_status ?op) = OpRunning" by code_simp
  ultimately show ?thesis
    using r roles_switch_after_all_steps [of ?op sRec ?w "(''ns'', ''app'')"] by (simp add: Let_def)
qed

section \<open>Workloads are scaled in order\<close>

lemma workF_op: "state_io_rel workloadsF.same (apiStatusUpdate opKind x)" "state_io_rel workloadsF.same (apiUpdate opKind x)"
  "state_io_rel workloadsF.same (apiStatusUpdate instKind y)"
  by (rule workloadsF.frame_statusUpdate workloadsF.frame_update, simp add: workloads_def)+

lemma workF_saveOp: "state_io_rel workloadsF.same (saveOp op res)"
  unfolding saveOp_def by (intro workloadsF.rel_intros workF_op)

lemma workF_settle: "state_io_rel workloadsF.same (settleInstanceStateOnStepFailure r ty inst step m)"
  unfolding settleInstanceStateOnStepFailure_def Let_def by (intro workloadsF.rel_intros workF_op)

lemmas workF_rules = workloadsF.rel_intros workF_op workF_saveOp workF_settle

lemma workF_stepFailure: "state_io_rel workloadsF.same (handleFailoverStepFailure r op inst idx step m)"
  unfolding handleFailoverStepFailure_def markFailoverDirectRollbackSuccess_def startFailoverAutoCancelPath_def
    markFailoverNoAutoCancel_def Let_def
  by (auto split: AutoCancelMode.splits intro!: workF_rules)

text \<open>The step a reconcile of a failover executes, if any.\<close>

definition executedStep :: "DisasterOperation \<Rightarrow> StepStatus option" where
  "executedStep op = (case activeStep (os_steps (op_status op)) of None \<Rightarrow> None
     | Some i \<Rightarrow> if st_state (os_steps (op_status op) ! i) = StepRunning then Some (os_steps (op_status op) ! i) else None)"

lemma workF_running:
  assumes "st_name step \<noteq> StepScaleDownSource" and "st_name step \<noteq> StepScaleUpTarget"
  shows "state_io_rel workloadsF.same (failoverRunning r op inst idx step)"
  unfolding failoverRunning_def Let_def
  by (auto split: option.splits sum.splits intro!: workF_rules workF_stepFailure workloadsF.frame_syncStep [OF assms])

lemma activeStep_state: "activeStep ss = Some i \<Longrightarrow> st_state (ss ! i) = StepPending \<or> st_state (ss ! i) = StepRunning"
  by (induction ss arbitrary: i) (auto split: if_splits)

lemma workF_failover:
  assumes "\<not> (os_acStatus (op_status op) = AcRunning \<and> os_acSteps (op_status op) \<noteq> [])"
    and "\<And>s. executedStep op = Some s \<Longrightarrow> st_name s \<noteq> StepScaleDownSource \<and> st_name s \<noteq> StepScaleUpTarget"
  shows "state_io_rel workloadsF.same (handleFailover r op)"
proof -
  have "state_io_rel workloadsF.same (failoverSteps_run r op inst)" for inst
  proof (cases "activeStep (os_steps (op_status op))")
    case None
    then show ?thesis unfolding failoverSteps_run_def failoverFinish_def by (auto intro!: workF_rules)
  next
    case (Some i)
    with assms(2) activeStep_state [OF Some] show ?thesis
      unfolding failoverSteps_run_def Let_def
      by (auto simp: executedStep_def intro!: workF_rules workF_running)
  qed
  moreover have "state_io_rel workloadsF.same (failoverInit op inst)" for inst
    unfolding failoverInit_def initSteps_def Let_def by (intro workF_rules)
  ultimately have "state_io_rel workloadsF.same (failoverProceed r op inst)" for inst
    using assms(1) unfolding failoverProceed_def by auto
  then show ?thesis
    unfolding handleFailover_def failOp_def rejectOp_def findOtherInFlightOperation_def
    by (auto split: sum.splits option.splits intro!: workF_rules)
qed

lemma failoverSteps_nth: "n < 7 \<Longrightarrow> failoverSteps ! n = StepScaleDownSource \<Longrightarrow> n = 3" "n < 7 \<Longrightarrow> failoverSteps ! n = StepScaleUpTarget \<Longrightarrow> n = 4"
  by (auto simp: failoverSteps_def step_name_defs less_Suc_eq numeral_eq_Suc)

text \<open>C13. Safety: a reconcile of a running failover outside its compensation changes deployments or stateful
  sets of any cluster only while its scale-down or its scale-up step runs, and then every
  earlier step has completed: the final sync before the source is scaled down, and the
  scale-down of the source before the target is scaled up.\<close>

theorem failover_scales_in_order:
  assumes "failoverWf (op_status op)" and "os_state (op_status op) = OpRunning" and "os_acStatus (op_status op) \<noteq> AcRunning"
    and "workloads (snd (run_state (handleFailover r op) w)) \<noteq> workloads w"
  shows "\<exists>n \<in> {3, 4}. st_name (os_steps (op_status op) ! n) = [StepScaleDownSource, StepScaleUpTarget] ! (n - 3) \<and>
    st_state (os_steps (op_status op) ! n) = StepRunning \<and> (\<forall>j < n. st_state (os_steps (op_status op) ! j) = StepCompleted)"
proof -
  let ?ss = "os_steps (op_status op)"
  have "\<not> state_io_rel workloadsF.same (handleFailover r op)"
    using workloadsF.wp_same [of "handleFailover r op" w] assms(4) by (auto simp: wp_snd)
  then obtain s where s: "executedStep op = Some s" "st_name s = StepScaleDownSource \<or> st_name s = StepScaleUpTarget"
    using workF_failover [of op r] assms(3) by blast
  then obtain i where i: "activeStep ?ss = Some i" "st_state (?ss ! i) = StepRunning" "s = ?ss ! i"
    by (auto simp: executedStep_def split: option.splits if_splits)
  from failoverWf_running [OF assms(1,2)] assms(3) have sh: "stepShape ?ss" "noneFailed ?ss" by auto
  note b = activeStep_before [OF sh i(1)]
  from b have "?ss \<noteq> []" by auto
  with assms(1) have names: "map st_name ?ss = failoverSteps" by (simp add: failoverWf_def)
  have "length failoverSteps = 7" by (simp add: failoverSteps_def)
  then have "length ?ss = 7" by (simp flip: names)
  then have i7: "i < 7" using b by simp
  have ni: "st_name (?ss ! i) = failoverSteps ! i" using b nth_map [of i ?ss st_name] by (simp add: names)
  then have "i = 3 \<and> st_name (?ss ! i) = StepScaleDownSource \<or> i = 4 \<and> st_name (?ss ! i) = StepScaleUpTarget"
    using s(2) i(3) i7 failoverSteps_nth [of i] by auto
  with b i(2) show ?thesis by auto
qed

theorem failover_scales_in_order_witness:
  "let op = sOp ''fo'' OpFailover (map (\<lambda>n. sStep n StepCompleted) (take 3 failoverSteps) @ [sStep StepScaleDownSource StepRunning] @
              map pendingStep (drop 4 failoverSteps));
       w = sWorld [op] (sInst FsmFailingOver ''east'' ''west'') ''east''; w' = snd (run_state (handleFailover sRec op) w)
   in map wl_replicas (w_deploys w' ''east'') = [Some 0] \<and> st_state (os_steps (op_status op) ! 3) = StepRunning \<and>
      (\<exists>n \<in> {3, 4}. st_state (os_steps (op_status op) ! n) = StepRunning \<and> (\<forall>j < n. st_state (os_steps (op_status op) ! j) = StepCompleted))"
proof -
  let ?op = "sOp ''fo'' OpFailover (map (\<lambda>n. sStep n StepCompleted) (take 3 failoverSteps) @ [sStep StepScaleDownSource StepRunning] @
              map pendingStep (drop 4 failoverSteps))"
  let ?w = "sWorld [?op] (sInst FsmFailingOver ''east'' ''west'') ''east''"
  have a: "failoverWf (op_status ?op)" by code_simp
  have b: "os_state (op_status ?op) = OpRunning" by code_simp
  have c: "os_acStatus (op_status ?op) \<noteq> AcRunning" by code_simp
  have d: "map wl_replicas (w_deploys (snd (run_state (handleFailover sRec ?op) ?w)) ''east'') = [Some 0]" by code_simp
  have "map wl_replicas (w_deploys ?w ''east'') = [Some 3]" by code_simp
  with d have e: "workloads (snd (run_state (handleFailover sRec ?op) ?w)) \<noteq> workloads ?w"
    by (auto simp: workloads_def)
  have f: "st_state (os_steps (op_status ?op) ! 3) = StepRunning" by code_simp
  show ?thesis
    unfolding Let_def using d f failover_scales_in_order [OF a b c e] by blast
qed

end
