(* ===== verification/UpdateLoops.thy ===== *)
theory UpdateLoops
  imports OpFrames Samples
begin

text \<open>
  Loops that list objects and update some of them one by one, as the executors do. The
  server's state after a loop that succeeds is computed exactly, once for every kind of
  object in the locale \<open>kube_kind\<close>: each object selected has been replaced by what the
  server stores for it and nothing else has changed.
\<close>

section \<open>The loop\<close>

definition updateIf :: "'o kind \<Rightarrow> ('o \<Rightarrow> bool) \<Rightarrow> ('o \<Rightarrow> 'o) \<Rightarrow> 'o \<Rightarrow> unit \<Rightarrow> unit result" where
  "updateIf K P g x u = (if P x then chk (apiUpdate K (g x)) (\<lambda>_. ok ()) else ok ())"

definition stored :: "'o kind \<Rightarrow> ('o \<Rightarrow> 'o) \<Rightarrow> 'o \<Rightarrow> 'o" where
  "stored K g x = bumpRv K x (k_mergeSpec K x (g x))"

definition keysDistinct :: "'o kind \<Rightarrow> world \<Rightarrow> bool" where
  "keysDistinct K w \<longleftrightarrow> distinct (map (keyOf K) (k_objs K w))"

context kube_kind
begin

lemma find_member: "distinct (map f xs) \<Longrightarrow> x \<in> set xs \<Longrightarrow> find (\<lambda>y. f y = f x) xs = Some x"
  by (induction xs) (auto simp: image_iff)

lemma lookup_member: "keysDistinct K w \<Longrightarrow> x \<in> set (k_objs K w) \<Longrightarrow> lookup K w (keyOf K x) = Some x"
  by (simp add: lookup_def keysDistinct_def find_member)

lemma keysDistinct_faults [simp]: "keysDistinct K (w\<lparr>w_faults := fs\<rparr>) = keysDistinct K w"
  by (simp add: keysDistinct_def objs_faults)

lemma keyOf_stored [simp]: "keyOf K (stored K g x) = keyOf K x"
  by (simp add: stored_def)

lemma key_inj: "keysDistinct K w \<Longrightarrow> x \<in> set (k_objs K w) \<Longrightarrow> y \<in> set (k_objs K w) \<Longrightarrow> keyOf K y = keyOf K x \<longleftrightarrow> y = x"
  unfolding keysDistinct_def distinct_map by (auto dest: inj_onD)

text \<open>One update.\<close>

lemma update_one:
  assumes "\<And>x. keyOf K (g x) = keyOf K x" and "keysDistinct K w" and "x \<in> set (k_objs K w)"
  shows "wp (updateIf K P g x u) (\<lambda>r w'. r = Inr () \<longrightarrow>
     k_objs K w' = map (\<lambda>y. if y = x \<and> P y then stored K g y else y) (k_objs K w)) w"
proof (cases "P x")
  case True
  have eq: "map (\<lambda>y. if keyOf K y = keyOf K x then z else y) (k_objs K w) = map (\<lambda>y. if y = x then z else y) (k_objs K w)" for z
    by (rule map_cong) (use key_inj [OF assms(2,3)] in auto)
  have "wp (apiUpdate K (g x)) (\<lambda>r w'. \<forall>z. r = Inr z \<longrightarrow> k_objs K w' = map (\<lambda>y. if y = x \<and> P y then stored K g y else y) (k_objs K w)) w"
  proof (rule wp_apiUpdate, goal_cases)
    case (2 s fs)
    then have "s = x" using lookup_member [OF assms(2,3)] by (simp add: assms(1))
    then have s: "bumpRv K s (k_mergeSpec K s (g x)) = stored K g x" by (simp add: stored_def)
    have "map (\<lambda>y. if y = x then stored K g x else y) (k_objs K w) = map (\<lambda>y. if y = x \<and> P y then stored K g y else y) (k_objs K w)"
      using True by (intro map_cong) auto
    with eq [of "stored K g x"] show ?case
      unfolding s Let_def objs_replaceObj objs_faults keyOf_stored by metis
  qed simp
  then show ?thesis using True unfolding updateIf_def by simp (elim wp_mono, auto split: sum.splits)
next
  case False
  then have "map (\<lambda>y. if y = x \<and> P y then stored K g y else y) (k_objs K w) = k_objs K w"
    by (intro map_idI) auto
  with False show ?thesis unfolding updateIf_def by simp
qed

lemma update_loop:
  assumes "\<And>x. keyOf K (g x) = keyOf K x" and "keysDistinct K w" and "set xs \<subseteq> set (k_objs K w)" and "distinct xs"
  shows "wp (forEach (updateIf K P g) xs u) (\<lambda>r w'. \<forall>z. r = Inr z \<longrightarrow>
     k_objs K w' = map (\<lambda>y. if y \<in> set xs \<and> P y then stored K g y else y) (k_objs K w)) w"
  using assms(2-4)
proof (induction xs arbitrary: w u)
  case Nil
  then show ?case by simp
next
  case (Cons x xs)
  let ?step = "\<lambda>y. if y = x \<and> P y then stored K g y else y"
  have "wp (forEach (updateIf K P g) xs u') (\<lambda>r w'. \<forall>z. r = Inr z \<longrightarrow>
      k_objs K w' = map (\<lambda>y. if y \<in> set (x # xs) \<and> P y then stored K g y else y) (k_objs K w)) w'"
    if w': "k_objs K w' = map ?step (k_objs K w)" for w' u'
  proof -
    have keys: "map (keyOf K) (map ?step ys) = map (keyOf K) ys" for ys by (induction ys) auto
    then have d: "keysDistinct K w'" using Cons.prems(1) w' by (simp add: keysDistinct_def del: map_map)
    have xs: "y \<in> set (k_objs K w') \<and> keyOf K y \<noteq> keyOf K x" if "y \<in> set xs" for y
    proof
      have y: "y \<in> set (k_objs K w)" "y \<noteq> x" using that Cons.prems by auto
      then show "y \<in> set (k_objs K w')" unfolding w' by (auto simp: image_iff intro!: bexI [of _ y])
      show "keyOf K y \<noteq> keyOf K x" using y Cons.prems key_inj by auto
    qed
    have "map (\<lambda>y. if y \<in> set xs \<and> P y then stored K g y else y) (k_objs K w') =
        map (\<lambda>y. if y \<in> set (x # xs) \<and> P y then stored K g y else y) (k_objs K w)"
      unfolding w' map_map by (rule map_cong) (use xs Cons.prems(3) in \<open>auto dest: xs\<close>)
    with Cons.IH [OF d, of u'] xs Cons.prems(3) show ?thesis by auto
  qed
  with update_one [OF assms(1) Cons.prems(1), of x P u] Cons.prems(2) show ?case
    by simp (elim wp_mono, auto split: sum.splits)
qed

text \<open>Listing a namespace, then updating.\<close>

lemma list_and_update:
  assumes "\<And>x. keyOf K (g x) = keyOf K x" and "keysDistinct K w"
  shows "wp (chk (apiList K ns) (\<lambda>xs. forEach (updateIf K P g) xs ())) (\<lambda>r w'. \<forall>z. r = Inr z \<longrightarrow>
     k_objs K w' = map (\<lambda>y. if inNamespace K ns y \<and> P y then stored K g y else y) (k_objs K w)) w"
  unfolding wp_chk
proof (rule wp_apiList, goal_cases)
  case (2 fs)
  have "distinct (k_objs K w)" using assms(2) by (simp add: keysDistinct_def distinct_map)
  then have "wp (forEach (updateIf K P g) (filter (inNamespace K ns) (k_objs K w)) ()) (\<lambda>r w'. \<forall>z. r = Inr z \<longrightarrow>
     k_objs K w' = map (\<lambda>y. if y \<in> set (filter (inNamespace K ns) (k_objs K w)) \<and> P y then stored K g y else y) (k_objs K w)) (w\<lparr>w_faults := fs\<rparr>)"
    using update_loop [OF assms(1), of "w\<lparr>w_faults := fs\<rparr>" "filter (inNamespace K ns) (k_objs K w)" P "()"] assms(2)
    by (simp add: objs_faults)
  moreover have "map (\<lambda>y. if y \<in> set (filter (inNamespace K ns) (k_objs K w)) \<and> P y then stored K g y else y) (k_objs K w) =
      map (\<lambda>y. if inNamespace K ns y \<and> P y then stored K g y else y) (k_objs K w)"
    by (rule map_cong) auto
  ultimately show ?case by (simp add: objs_faults cong: map_cong)
qed simp

end

end
