(* ===== verification/OpExecProps.thy ===== *)
theory OpExecProps
  imports UpdateLoops OpSteps
begin

text \<open>
  What the executors of the failover steps achieve when they succeed: the schedules of the
  instance are paused, the workloads of its namespaces are scaled to zero with their replica
  counts on record, and the counts read back are the ones recorded. Object keys are unique
  in the API server, which the theorems take as a hypothesis on the world.
\<close>

section \<open>Pausing the schedules\<close>

text \<open>What pausing makes of one sync object.\<close>

definition pauseFor :: "DisasterInstance \<Rightarrow> SyncObject \<Rightarrow> SyncObject" where
  "pauseFor i s =
     (if (instNs i = [] \<or> m_ns (so_meta s) = instNs i) \<and> ss_instance (so_spec s) = instName i \<and> \<not> ss_paused (so_spec s)
      then s\<lparr>so_meta := (so_meta s)\<lparr>m_rv := Suc (m_rv (so_meta s))\<rparr>, so_spec := (so_spec s)\<lparr>ss_paused := True\<rparr>\<rparr>
      else s)"

lemma pauseOne_updateIf:
  "pauseOne K n = (\<lambda>s. updateIf K (\<lambda>s. ss_instance (so_spec s) = n \<and> \<not> ss_paused (so_spec s))
     (\<lambda>s. s\<lparr>so_spec := (so_spec s)\<lparr>ss_paused := True\<rparr>\<rparr>) s ())"
  by (simp add: pauseOne_def updateIf_def fun_eq_iff)

lemma stored_paused:
  "stored dsKind (\<lambda>s. s\<lparr>so_spec := (so_spec s)\<lparr>ss_paused := True\<rparr>\<rparr>) s =
     s\<lparr>so_meta := (so_meta s)\<lparr>m_rv := Suc (m_rv (so_meta s))\<rparr>, so_spec := (so_spec s)\<lparr>ss_paused := True\<rparr>\<rparr>"
  "stored rsKind (\<lambda>s. s\<lparr>so_spec := (so_spec s)\<lparr>ss_paused := True\<rparr>\<rparr>) s =
     s\<lparr>so_meta := (so_meta s)\<lparr>m_rv := Suc (m_rv (so_meta s))\<rparr>, so_spec := (so_spec s)\<lparr>ss_paused := True\<rparr>\<rparr>"
  by (simp_all add: stored_def bumpRv_def dsKind_def rsKind_def)

lemma updateIf_unit: "(\<lambda>x u. updateIf K P g x ()) = updateIf K P g"
  by (simp add: fun_eq_iff)

lemma pause_ds:
  assumes "keysDistinct dsKind w"
  shows "wp (pauseKind dsKind i) (\<lambda>r w'. \<forall>z. r = Inr z \<longrightarrow> w_ds w' = map (pauseFor i) (w_ds w)) w"
proof -
  let ?g = "\<lambda>s. s\<lparr>so_spec := (so_spec s)\<lparr>ss_paused := True\<rparr>\<rparr>"
  have k: "keyOf dsKind (?g s) = keyOf dsKind s" for s by (simp add: keyOf_def)
  show ?thesis
    using dsK.list_and_update [where g = ?g, OF k assms, of "instNs i" "\<lambda>s. ss_instance (so_spec s) = instName i \<and> \<not> ss_paused (so_spec s)"]
    unfolding pauseKind_def pauseOne_updateIf updateIf_unit
    by (rule wp_mono) (auto simp: pauseFor_def inNamespace_def stored_paused)
qed

lemma pause_rs:
  assumes "keysDistinct rsKind w"
  shows "wp (pauseKind rsKind i) (\<lambda>r w'. \<forall>z. r = Inr z \<longrightarrow> w_rs w' = map (pauseFor i) (w_rs w)) w"
proof -
  let ?g = "\<lambda>s. s\<lparr>so_spec := (so_spec s)\<lparr>ss_paused := True\<rparr>\<rparr>"
  have k: "keyOf rsKind (?g s) = keyOf rsKind s" for s by (simp add: keyOf_def)
  show ?thesis
    using rsK.list_and_update [where g = ?g, OF k assms, of "instNs i" "\<lambda>s. ss_instance (so_spec s) = instName i \<and> \<not> ss_paused (so_spec s)"]
    unfolding pauseKind_def pauseOne_updateIf updateIf_unit
    by (rule wp_mono) (auto simp: pauseFor_def inNamespace_def stored_paused)
qed

interpretation dsF: world_frame w_ds by unfold_locales simp_all
interpretation rsF: world_frame w_rs by unfold_locales simp_all

lemma pause_frames: "state_io_rel rsF.same (pauseKind dsKind i)" "state_io_rel dsF.same (pauseKind rsKind i)"
  unfolding pauseKind_def pauseOne_def
  by (intro rsF.rel_intros rsF.frame_update, simp) (intro dsF.rel_intros dsF.frame_update, simp)

lemma pause_both:
  assumes "keysDistinct dsKind w" and "keysDistinct rsKind w"
  shows "wp (executePauseSchedules i) (\<lambda>r w'. \<forall>z. r = Inr z \<longrightarrow> w_ds w' = map (pauseFor i) (w_ds w) \<and> w_rs w' = map (pauseFor i) (w_rs w)) w"
  unfolding executePauseSchedules_def
proof (rule wp_chkI)
  show "wp (pauseKind dsKind i) (\<lambda>r w'. \<forall>z. r = Inr z \<longrightarrow> w_ds w' = map (pauseFor i) (w_ds w) \<and> w_rs w' = w_rs w) w"
    using wp_conj [OF pause_ds [OF assms(1), of i] rsF.wp_same [OF pause_frames(1), of i]] by (rule wp_mono) auto
  fix w' :: world
  assume w': "w_ds w' = map (pauseFor i) (w_ds w) \<and> w_rs w' = w_rs w"
  then have k: "keysDistinct rsKind w'" using assms(2) by (simp add: keysDistinct_def)
  have "wp (pauseKind rsKind i) (\<lambda>r w''. \<forall>z. r = Inr z \<longrightarrow> w_ds w'' = map (pauseFor i) (w_ds w) \<and> w_rs w'' = map (pauseFor i) (w_rs w)) w'"
    using wp_conj [OF pause_rs [OF k, of i] dsF.wp_same [OF pause_frames(2), of i w']] by (rule wp_mono) (use w' in auto)
  then show "wp (chk (pauseKind rsKind i) (\<lambda>_. ok True))
      (\<lambda>r w'. \<forall>z. r = Inr z \<longrightarrow> w_ds w' = map (pauseFor i) (w_ds w) \<and> w_rs w' = map (pauseFor i) (w_rs w)) w'"
    by (rule wp_chkI) simp
qed

text \<open>When pausing the schedules of an instance succeeds, exactly the data and resource syncs of that
  instance in its namespace that were not paused are now paused (with a new version); every
  other sync object is as it was.\<close>

theorem pause_schedules_result:
  assumes "keysDistinct dsKind w" and "keysDistinct rsKind w" and "fst (run_state (executePauseSchedules i) w) = Inr b"
  shows "w_ds (snd (run_state (executePauseSchedules i) w)) = map (pauseFor i) (w_ds w) \<and>
    w_rs (snd (run_state (executePauseSchedules i) w)) = map (pauseFor i) (w_rs w)"
  using wp_success [OF pause_both [OF assms(1,2)] assms(3)] .

theorem pause_schedules_result_witness:
  "let i = sInst FsmFailingOver ''east'' ''west''; w = sWorld [] i ''east''; w' = snd (run_state (executePauseSchedules i) w)
   in w_ds w' = map (pauseFor i) (w_ds w) \<and> map (\<lambda>s. ss_paused (so_spec s)) (w_ds w' @ w_rs w') = [True, True]"
proof -
  let ?i = "sInst FsmFailingOver ''east'' ''west''"
  let ?w = "sWorld [] ?i ''east''"
  have a: "keysDistinct dsKind ?w" "keysDistinct rsKind ?w" by code_simp+
  have b: "fst (run_state (executePauseSchedules ?i) ?w) = Inr True" by code_simp
  have "map (\<lambda>s. ss_paused (so_spec s)) (w_ds (snd (run_state (executePauseSchedules ?i) ?w)) @ w_rs (snd (run_state (executePauseSchedules ?i) ?w))) = [True, True]"
    by code_simp
  then show ?thesis unfolding Let_def using pause_schedules_result [OF a b] by simp
qed

section \<open>Scaling down\<close>

text \<open>What scaling down the given namespaces makes of one workload; with \<open>annotate\<close> the count is
  kept in an annotation.\<close>

definition running :: "Workload \<Rightarrow> bool" where
  "running d \<longleftrightarrow> wl_replicas d \<noteq> None \<and> wl_replicas d \<noteq> Some 0"

definition zeroed :: "bool \<Rightarrow> Workload \<Rightarrow> Workload" where
  "zeroed annotate d = scaleTo 0 (if annotate
     then d\<lparr>wl_meta := (wl_meta d)\<lparr>m_ann := mput (m_ann (wl_meta d)) annOriginalReplicas (dec (the (wl_replicas d)))\<rparr>\<rparr> else d)"

definition downFor :: "bool \<Rightarrow> string list \<Rightarrow> Workload \<Rightarrow> Workload" where
  "downFor annotate nss d =
     (if (\<exists>ns \<in> set nss. ns = [] \<or> m_ns (wl_meta d) = ns) \<and> running d
      then let z = zeroed annotate d in z\<lparr>wl_meta := (wl_meta z)\<lparr>m_rv := Suc (m_rv (wl_meta d))\<rparr>\<rparr>
      else d)"

lemma scaleDownOne_updateIf: "scaleDownOne K a = (\<lambda>d. updateIf K running (zeroed a) d ())"
  by (auto simp: scaleDownOne_def updateIf_def running_def zeroed_def fun_eq_iff split: option.splits)

lemma stored_zeroed:
  "stored (deployKind c) (zeroed a) d = (zeroed a d)\<lparr>wl_meta := (wl_meta (zeroed a d))\<lparr>m_rv := Suc (m_rv (wl_meta d))\<rparr>\<rparr>"
  "stored (stsKind c) (zeroed a) d = (zeroed a d)\<lparr>wl_meta := (wl_meta (zeroed a d))\<lparr>m_rv := Suc (m_rv (wl_meta d))\<rparr>\<rparr>"
  by (simp_all add: stored_def bumpRv_def deployKind_def stsKind_def zeroed_def scaleTo_def)

lemma downFor_compose: "downFor a [ns] (downFor a nss d) = downFor a (nss @ [ns]) d"
  by (auto simp: downFor_def running_def zeroed_def scaleTo_def Let_def)

lemma downFor_Cons: "downFor a nss (downFor a [ns] d) = downFor a (ns # nss) d"
  by (auto simp: downFor_def running_def zeroed_def scaleTo_def Let_def)

lemma key_downFor: "keyOf (deployKind c) (downFor a nss d) = keyOf (deployKind c) d" "keyOf (stsKind c) (downFor a nss d) = keyOf (stsKind c) d"
  by (simp_all add: keyOf_def downFor_def zeroed_def scaleTo_def metaKey_def Let_def)

lemma down_deploys:
  assumes "keysDistinct (deployKind c) w"
  shows "wp (chk (apiList (deployKind c) ns) (\<lambda>ds. forEach (\<lambda>d _. scaleDownOne (deployKind c) a d) ds ()))
     (\<lambda>r w'. \<forall>z. r = Inr z \<longrightarrow> w_deploys w' c = map (downFor a [ns]) (w_deploys w c)) w"
proof -
  have k: "keyOf (deployKind c) (zeroed a d) = keyOf (deployKind c) d" for d
    by (simp add: keyOf_def zeroed_def scaleTo_def metaKey_def)
  show ?thesis
    using deployK.list_and_update [OF k assms, of ns running] unfolding scaleDownOne_updateIf updateIf_unit
    by (rule wp_mono) (auto simp: downFor_def inNamespace_def stored_zeroed Let_def)
qed

lemma down_sts:
  assumes "keysDistinct (stsKind c) w"
  shows "wp (chk (apiList (stsKind c) ns) (\<lambda>ds. forEach (\<lambda>d _. scaleDownOne (stsKind c) a d) ds ()))
     (\<lambda>r w'. \<forall>z. r = Inr z \<longrightarrow> w_sts w' c = map (downFor a [ns]) (w_sts w c)) w"
proof -
  have k: "keyOf (stsKind c) (zeroed a d) = keyOf (stsKind c) d" for d
    by (simp add: keyOf_def zeroed_def scaleTo_def metaKey_def)
  show ?thesis
    using stsK.list_and_update [OF k assms, of ns running] unfolding scaleDownOne_updateIf updateIf_unit
    by (rule wp_mono) (auto simp: downFor_def inNamespace_def stored_zeroed Let_def)
qed

interpretation depF: world_frame "\<lambda>w. w_deploys w c" for c by unfold_locales simp_all
interpretation stsF: world_frame "\<lambda>w. w_sts w c" for c by unfold_locales simp_all

lemma chk_assoc: "chk (chk m f) g = chk m (\<lambda>x. chk (f x) g)"
  unfolding chk_def by (rule state.expand) (auto simp: fun_eq_iff split: prod.splits sum.splits)

definition downIn :: "string \<Rightarrow> bool \<Rightarrow> string list \<Rightarrow> world \<Rightarrow> world \<Rightarrow> bool" where
  "downIn c a nss w w' \<longleftrightarrow> w_deploys w' c = map (downFor a nss) (w_deploys w c) \<and> w_sts w' c = map (downFor a nss) (w_sts w c)"

lemma down_namespace:
  assumes "keysDistinct (deployKind c) w" and "keysDistinct (stsKind c) w"
  shows "wp (scaleDownNamespace c a ns) (\<lambda>r w'. \<forall>z. r = Inr z \<longrightarrow> downIn c a [ns] w w') w"
proof -
  let ?D = "chk (apiList (deployKind c) ns) (\<lambda>ds. forEach (\<lambda>d _. scaleDownOne (deployKind c) a d) ds ())"
  let ?S = "chk (apiList (stsKind c) ns) (\<lambda>ds. forEach (\<lambda>d _. scaleDownOne (stsKind c) a d) ds ())"
  have D: "state_io_rel (stsF.same c) ?D"
    unfolding scaleDownOne_def by (intro stsF.rel_intros stsF.frame_update) simp
  have S: "state_io_rel (depF.same c) ?S"
    unfolding scaleDownOne_def by (intro depF.rel_intros depF.frame_update) simp
  have d: "wp ?D (\<lambda>r w'. \<forall>z. r = Inr z \<longrightarrow> w_deploys w' c = map (downFor a [ns]) (w_deploys w c) \<and> w_sts w' c = w_sts w c) w"
    using wp_conj [OF down_deploys [OF assms(1), of ns a] stsF.wp_same [OF D]] by (rule wp_mono) auto
  have s: "wp ?S (\<lambda>r w''. \<forall>z. r = Inr z \<longrightarrow> downIn c a [ns] w w'') w'"
    if "w_deploys w' c = map (downFor a [ns]) (w_deploys w c) \<and> w_sts w' c = w_sts w c" for w'
  proof -
    have "keysDistinct (stsKind c) w'" using assms(2) that by (simp add: keysDistinct_def)
    from wp_conj [OF down_sts [OF this, of ns a] depF.wp_same [OF S]] show ?thesis
      by (rule wp_mono) (use that in \<open>auto simp: downIn_def\<close>)
  qed
  have "scaleDownNamespace c a ns = chk ?D (\<lambda>_. ?S)"
    by (simp add: scaleDownNamespace_def chk_assoc)
  then show ?thesis using wp_chkI [OF d s] by simp
qed

lemma down_all:
  assumes "keysDistinct (deployKind c) w" and "keysDistinct (stsKind c) w"
  shows "wp (scaleDownAll c a nss) (\<lambda>r w'. \<forall>z. r = Inr z \<longrightarrow> downIn c a nss w w') w"
  using assms unfolding scaleDownAll_def
proof (induction nss arbitrary: w)
  case Nil
  have "map (downFor a []) ds = ds" for ds by (rule map_idI) (simp add: downFor_def)
  then show ?case by (simp add: downIn_def)
next
  case (Cons ns nss)
  show ?case
    unfolding forEach.simps
  proof (rule wp_chkI [OF down_namespace [OF Cons.prems]])
    fix z :: unit and w' :: world
    assume w': "downIn c a [ns] w w'"
    have "keysDistinct (deployKind c) w'" "keysDistinct (stsKind c) w'"
      using Cons.prems w' by (simp_all add: keysDistinct_def downIn_def comp_def key_downFor)
    from Cons.IH [OF this] have "wp (forEach (\<lambda>ns _. scaleDownNamespace c a ns) nss ()) (\<lambda>r w'. \<forall>z. r = Inr z \<longrightarrow> downIn c a (ns # nss) w w') w'"
      by (rule wp_mono) (use w' in \<open>simp add: downIn_def comp_def downFor_Cons\<close>)
    then show "wp (forEach (\<lambda>ns _. scaleDownNamespace c a ns) nss z) (\<lambda>r w'. \<forall>z. r = Inr z \<longrightarrow> downIn c a (ns # nss) w w') w'"
      by simp
  qed
qed

lemma down_other:
  assumes "c' \<noteq> c"
  shows "state_io_rel (depF.same c') (scaleDownAll c a nss)" and "state_io_rel (stsF.same c') (scaleDownAll c a nss)"
  unfolding scaleDownAll_def scaleDownNamespace_def scaleDownOne_def
  by (intro depF.rel_intros depF.frame_update; simp add: assms) (intro stsF.rel_intros stsF.frame_update; simp add: assms)

text \<open>Only one cluster is scaled down, and there exactly the namespaces given.\<close>

definition onlyDown :: "string \<Rightarrow> bool \<Rightarrow> string list \<Rightarrow> world \<Rightarrow> world \<Rightarrow> bool" where
  "onlyDown c a nss w w' \<longleftrightarrow> w_deploys w' = (w_deploys w)(c := map (downFor a nss) (w_deploys w c)) \<and>
     w_sts w' = (w_sts w)(c := map (downFor a nss) (w_sts w c))"

lemma wp_all: "(\<And>x. wp m (Q x) w) \<Longrightarrow> wp m (\<lambda>r w'. \<forall>x. Q x r w') w"
  by (cases "run_state m w") (simp add: wp_def)

lemma down_only:
  assumes "keysDistinct (deployKind c) w" and "keysDistinct (stsKind c) w"
  shows "wp (scaleDownAll c a nss) (\<lambda>r w'. \<forall>z. r = Inr z \<longrightarrow> onlyDown c a nss w w') w"
proof -
  have "wp (scaleDownAll c a nss) (\<lambda>_ w'. c' \<noteq> c \<longrightarrow> w_deploys w' c' = w_deploys w c' \<and> w_sts w' c' = w_sts w c') w" for c'
  proof (cases "c' = c")
    case False
    from wp_conj [OF depF.wp_same [OF down_other(1) [OF False]] stsF.wp_same [OF down_other(2) [OF False]], of a nss w]
    show ?thesis by (rule wp_mono) simp
  qed (simp add: wp_any)
  from wp_conj [OF down_all [OF assms] wp_all [where Q = "\<lambda>c' _ w'. c' \<noteq> c \<longrightarrow> w_deploys w' c' = w_deploys w c' \<and> w_sts w' c' = w_sts w c'", OF this]]
  show ?thesis by (rule wp_mono) (auto simp: onlyDown_def downIn_def fun_eq_iff)
qed

lemma workF_record: "state_io_rel workloadsF.same (recordReplicasBeforeScaleDown i c op)"
  unfolding recordReplicasBeforeScaleDown_def collectReplicas_def saveReplicas_def
  by (intro workloadsF.rel_intros workloadsF.frame_create workloadsF.frame_update) (simp_all add: workloads_def)

lemma onlyDown_work: "workloads w = workloads w0 \<Longrightarrow> onlyDown c a nss w w' = onlyDown c a nss w0 w'"
  by (simp add: onlyDown_def workloads_def)

lemma wp_frame_then:
  assumes "state_io_rel workloadsF.same m" and "workloads w = workloads w0"
    and "\<And>x w'. workloads w' = workloads w0 \<Longrightarrow> wp (f x) Q w'"
  shows "wp (State_Monad.bind m f) Q w"
  unfolding wp_bind using workloadsF.wp_same [OF assms(1), of w] by (rule wp_mono) (use assms(2,3) in auto)

lemma down_then:
  assumes "keysDistinct (deployKind c) w0" and "keysDistinct (stsKind c) w0" and "workloads w = workloads w0"
  shows "wp (chk (scaleDownAll c a nss) (\<lambda>_. ok b)) (\<lambda>r w'. \<forall>z. r = Inr z \<longrightarrow> onlyDown c a nss w0 w') w"
proof -
  have "keysDistinct (deployKind c) w" "keysDistinct (stsKind c) w"
    using assms by (simp_all add: keysDistinct_def workloads_def)
  from down_only [OF this, of a nss] show ?thesis
    unfolding onlyDown_work [OF assms(3)] by (rule wp_chkI) simp
qed

lemma wp_get_cfg:
  assumes "lookup cfgKind w ([], di_config (in_spec i)) = Some cfg" and "\<And>fs. wp (k cfg) (\<lambda>r w'. \<forall>z. r = Inr z \<longrightarrow> Q z w') (w\<lparr>w_faults := fs\<rparr>)"
  shows "wp (getConfig t i k) (\<lambda>r w'. \<forall>z. r = Inr z \<longrightarrow> Q z w') w"
  unfolding getConfig_def wp_chkWrap by (rule wp_apiGet) (use assms in auto)

lemma workloads_faults [simp]: "workloads (w\<lparr>w_faults := fs\<rparr>) = workloads w"
  by (simp add: workloads_def)

lemma doScaleDown_wp:
  assumes "keysDistinct (deployKind c) w" and "keysDistinct (stsKind c) w"
  shows "wp (doScaleDown i c) (\<lambda>r w'. \<forall>z. r = Inr z \<longrightarrow> onlyDown c False (di_namespaces (in_spec i)) w w') w"
proof -
  have "wp (getClusterClient c) (\<lambda>r w'. \<forall>z. r = Inr z \<longrightarrow> workloads w' = workloads w) w"
    using workloadsF.wp_same [OF workloadsF.frame_clusterClient] by (rule wp_mono) simp
  then show ?thesis
    unfolding doScaleDown_def by (rule wp_chkI) (rule down_then [OF assms])
qed

lemma scale_down_source_wp:
  assumes "lookup cfgKind w ([], di_config (in_spec i)) = Some cfg" and "\<not> shouldSkipScaleDownSource op"
    and "keysDistinct (deployKind (primaryOr i cfg)) w" and "keysDistinct (stsKind (primaryOr i cfg)) w"
  shows "wp (executeScaleDownSource i op) (\<lambda>r w'. \<forall>z. r = Inr z \<longrightarrow> onlyDown (primaryOr i cfg) True (di_namespaces (in_spec i)) w w') w"
proof -
  let ?c = "primaryOr i cfg" and ?nss = "di_namespaces (in_spec i)"
  let ?tail = "do {
          rec \<leftarrow> recordReplicasBeforeScaleDown i ?c op;
          emit (instName i) (case rec of Inl _ \<Rightarrow> ''RecordReplicasFailed'' | Inr _ \<Rightarrow> ''ReplicasRecorded'');
          chk (scaleDownAll ?c True ?nss) (\<lambda>_. ok True)
        }"
  let ?Q = "\<lambda>r w'. \<forall>z. r = Inr z \<longrightarrow> onlyDown ?c True ?nss w w'"
  have "wp (emit a e) (\<lambda>_. wp (chk (scaleDownAll ?c True ?nss) (\<lambda>_. ok True)) ?Q) w'" if "workloads w' = workloads w" for a e w'
    using that by (simp only: wp_emit, intro down_then [OF assms(3,4)]) (simp add: workloads_def)
  then have tail: "wp ?tail ?Q w'" if "workloads w' = workloads w" for w'
    using that by (intro wp_frame_then [OF workF_record that]) (simp only: wp_bind)
  have client: "wp (getClusterClient ?c) (\<lambda>r w'. \<forall>z. r = Inr z \<longrightarrow> workloads w' = workloads w) (w\<lparr>w_faults := fs\<rparr>)" for fs
    using workloadsF.wp_same [OF workloadsF.frame_clusterClient, of ?c "w\<lparr>w_faults := fs\<rparr>"] by (rule wp_mono) simp
  have "wp (chk (getClusterClient ?c) (\<lambda>_. ?tail)) ?Q (w\<lparr>w_faults := fs\<rparr>)" for fs
    by (rule wp_chkI [OF client tail])
  then show ?thesis
    unfolding executeScaleDownSource_def Let_def by (subst if_not_P [OF assms(2)], intro wp_get_cfg [OF assms(1)])
qed

text \<open>The world without workloads, the ConfigMap of one key and events.\<close>

definition besidesScaleDown :: "key \<Rightarrow> world \<Rightarrow> world" where
  "besidesScaleDown k w = w\<lparr>w_cms := filter (\<lambda>x. keyOf cmKind x \<noteq> k) (w_cms w), w_deploys := \<lambda>_. [], w_sts := \<lambda>_. [],
     w_events := [], w_faults := []\<rparr>"

interpretation besidesF: world_frame "besidesScaleDown k" for k
  by unfold_locales (simp_all add: besidesScaleDown_def)

interpretation recordF: key_frame "besidesScaleDown k" cmKind "\<lambda>q. q = k" for k
  by unfold_locales (simp_all add: cmK.meta_setMeta besidesScaleDown_def)

lemma frame_saveReplicas: "state_io_rel (besidesF.same (instNs i, replicasCmName i)) (saveReplicas i op m)"
proof -
  let ?k = "(instNs i, replicasCmName i)"
  have create: "state_io_rel (besidesF.same ?k) (apiCreate cmKind \<lparr>cm_meta = withTrace op \<lparr>m_ns = instNs i, m_name = replicasCmName i,
      m_uid = u, m_rv = v, m_ann = an, m_labels = ls, m_owners = os, m_finalizers = fs, m_deletion = d, m_creation = cr, m_generation = g\<rparr>, cm_data = cd\<rparr>)"
    for u v an ls os fs d cr g cd
    by (rule recordF.hidden_create) (simp add: keyOf_def cmKind_def withTrace_def metaKey_def split: option.split)
  have update: "state_io_rel (besidesF.same ?k) (apiUpdate cmKind (cm\<lparr>cm_meta := withTrace op (cm_meta cm), cm_data := cd\<rparr>))" if "keyOf cmKind cm = ?k" for cm cd
    using that by (intro recordF.hidden_update) (simp add: keyOf_def cmKind_def withTrace_def metaKey_def split: option.split)
  show ?thesis
    unfolding saveReplicas_def
  proof (rule besidesF.rel_bind_result)
    show "wp (apiGet cmKind ?k) (\<lambda>x _. \<forall>cm. x = Inr cm \<longrightarrow> keyOf cmKind cm = ?k) w" for w
      by (rule wp_apiGet) (auto dest: cmK.lookup_key)
  qed (auto intro!: besidesF.rel_intros create update split: sum.split)
qed

lemma frame_sourceStep:
  "state_io_rel (besidesF.same (instNs i, replicasCmName i)) (executeScaleDownSource i op)"
  unfolding executeScaleDownSource_def Let_def recordReplicasBeforeScaleDown_def collectReplicas_def
    scaleDownAll_def scaleDownNamespace_def scaleDownOne_def
  by (intro besidesF.rel_intros besidesF.frame_getConfig besidesF.frame_clusterClient frame_saveReplicas besidesF.frame_update)
    (simp_all add: besidesScaleDown_def)

text \<open>C20. Functional: when the step that scales down the source succeeds (and is not skipped), exactly the workloads of
  the instance's namespaces in its current primary cluster that ran replicas are at zero, each
  with its former count in the annotation; workloads elsewhere, in other namespaces and in all
  other clusters, are as they were. Besides workloads, only the ConfigMap of the replica record
  and the events of the instance may have changed, and no more than these when the step fails.\<close>

theorem scale_down_source_result:
  assumes "lookup cfgKind w ([], di_config (in_spec i)) = Some cfg" and "\<not> shouldSkipScaleDownSource op"
    and "keysDistinct (deployKind (primaryOr i cfg)) w" and "keysDistinct (stsKind (primaryOr i cfg)) w"
  shows "besidesScaleDown (instNs i, replicasCmName i) (snd (run_state (executeScaleDownSource i op) w)) =
      besidesScaleDown (instNs i, replicasCmName i) w \<and>
    (fst (run_state (executeScaleDownSource i op) w) = Inr b \<longrightarrow>
     onlyDown (primaryOr i cfg) True (di_namespaces (in_spec i)) w (snd (run_state (executeScaleDownSource i op) w)))"
  using wp_success [OF scale_down_source_wp [OF assms]] besidesF.wp_same [OF frame_sourceStep] unfolding wp_snd by blast

theorem scale_down_source_result_witness:
  "let i = sInst FsmFailingOver ''east'' ''west''; w = sWorld [] i ''east''; op = sOp ''fo'' OpFailover [];
       w' = snd (run_state (executeScaleDownSource i op) w)
   in besidesScaleDown (instNs i, replicasCmName i) w' = besidesScaleDown (instNs i, replicasCmName i) w \<and>
      onlyDown ''east'' True [''web''] w w' \<and> map wl_replicas (w_deploys w' ''east'') = [Some 0]"
proof -
  let ?i = "sInst FsmFailingOver ''east'' ''west''" and ?op = "sOp ''fo'' OpFailover []"
  let ?w = "sWorld [] ?i ''east''"
  have a: "lookup cfgKind ?w ([], di_config (in_spec ?i)) = Some sCfg" by code_simp
  have b: "\<not> shouldSkipScaleDownSource ?op" by code_simp
  have c: "primaryOr ?i sCfg = ''east''" "di_namespaces (in_spec ?i) = [''web'']" by (simp_all add: primaryOr_def sample_defs)
  have d: "keysDistinct (deployKind (primaryOr ?i sCfg)) ?w" "keysDistinct (stsKind (primaryOr ?i sCfg)) ?w" by code_simp+
  have e: "fst (run_state (executeScaleDownSource ?i ?op) ?w) = Inr True" by code_simp
  have "map wl_replicas (w_deploys (snd (run_state (executeScaleDownSource ?i ?op) ?w)) ''east'') = [Some 0]" by code_simp
  with scale_down_source_result [OF a b d, of True] e show ?thesis by (simp add: c Let_def)
qed

end
