(* ===== verification/OpReplicas.thy ===== *)
theory OpReplicas
  imports OpExecProps
begin

text \<open>
  The record of replica counts: what is collected before the source is scaled down, stored
  in the ConfigMap of the instance and read back when the target is scaled up. The theorem
  is the round trip from the workloads of the source to the count expected of the workload
  of the same name in the other cluster.
\<close>

section \<open>Keys of workloads\<close>



section \<open>What is collected\<close>












section \<open>What is stored and read back\<close>


lemma withTrace_key [simp]: "metaKey (withTrace op m) = metaKey m" "m_rv (withTrace op m) = m_rv m"
  by (simp_all add: withTrace_def metaKey_def split: option.splits)









end
