(* ===== verification/OpLifecycle.thy ===== *)
theory OpLifecycle
  imports OpSteps
begin

text \<open>
  The life of an operation across reconciles: a finished operation stays as it is and does
  nothing more, a failover is refused while another one of the same instance is in flight,
  and a cancel or undo takes over the failovers in flight.
\<close>

section \<open>Finished operations\<close>

text \<open>The stored operation keeps its specification and the outcome of \<open>st\<close>; instances, sync
  objects and workloads are those of \<open>w0\<close>.\<close>

definition sameOutcome :: "DisasterOperationStatus \<Rightarrow> DisasterOperationStatus \<Rightarrow> bool" where
  "sameOutcome st st' \<longleftrightarrow> os_state st' = os_state st \<and> os_steps st' = os_steps st \<and> os_acSteps st' = os_acSteps st \<and>
     os_completionTime st' = os_completionTime st \<and> os_message st' = os_message st \<and> os_roleStatus st' = os_roleStatus st"

definition settled :: "key \<Rightarrow> DisasterOperation \<Rightarrow> world \<Rightarrow> world \<Rightarrow> bool" where
  "settled k op w0 w \<longleftrightarrow> w_insts w = w_insts w0 \<and> plant w = plant w0 \<and>
     (\<exists>o'. lookup opKind w k = Some o' \<and> op_spec o' = op_spec op \<and> sameOutcome (op_status op) (op_status o'))"

interpretation setI: world_inv "settled k op w0" for k op w0
  by unfold_locales (simp_all add: settled_def plant_def)

lemma settled_replace:
  assumes "settled k op w0 w" and "lookup opKind w (keyOf opKind s) = Some s"
    and "op_spec s = op_spec op \<Longrightarrow> sameOutcome (op_status op) (op_status s) \<Longrightarrow> op_spec x = op_spec op \<and> sameOutcome (op_status op) (op_status x)"
  shows "settled k op w0 (replaceObj opKind (bumpRv opKind s x) w)"
proof -
  have "op_spec (bumpRv opKind s x) = op_spec x" "op_status (bumpRv opKind s x) = op_status x"
    by (simp_all add: bumpRv_def opKind_def)
  moreover have "w_insts (replaceObj opKind y w) = w_insts w" "plant (replaceObj opKind y w) = plant w" for y
    by (simp_all add: replaceObj_def plant_def)
  ultimately show ?thesis
    using assms by (auto simp: settled_def opK.lookup_replaceObj)
qed

lemma setI_status: "sameOutcome (op_status op) (op_status x) \<Longrightarrow> state_io_rel (setI.keeps k op w0) (apiStatusUpdate opKind x)"
  by (rule setI.rel_apiStatusUpdate)
    (auto simp: setI.keeps_def opKind_def [THEN arg_cong, of k_mergeStatus] intro!: settled_replace dest: opK.lookup_self)

lemma setI_update: "op_spec x = op_spec op \<Longrightarrow> state_io_rel (setI.keeps k op w0) (apiUpdate opKind x)"
  by (rule setI.rel_apiUpdate)
    (auto simp: setI.keeps_def opKind_def [THEN arg_cong, of k_mergeSpec] intro!: settled_replace dest: opK.lookup_self)

lemma setI_patch: "state_io_rel (setI.keeps k op w0) (apiPatchAnnotation opKind k' a v)"
proof (rule setI.rel_apiPatch, unfold setI.keeps_def, rule impI)
  fix s w
  assume s: "lookup opKind w k' = Some s" and I: "settled k op w0 w"
  let ?x = "k_setMeta opKind ((k_meta opKind s)\<lparr>m_ann := mput (m_ann (k_meta opKind s)) a v, m_rv := Suc (m_rv (k_meta opKind s))\<rparr>) s"
  have k: "keyOf opKind ?x = keyOf opKind s" by (simp add: keyOf_def opKind_def metaKey_def)
  have "op_spec ?x = op_spec s" "op_status ?x = op_status s" by (simp_all add: opKind_def)
  moreover have "lookup opKind w (keyOf opKind s) = Some s" using s by (rule opK.lookup_self)
  moreover have "w_insts (replaceObj opKind y w) = w_insts w" "plant (replaceObj opKind y w) = plant w" for y
    by (simp_all add: replaceObj_def plant_def)
  ultimately show "settled k op w0 (replaceObj opKind ?x w)"
    using I k by (auto simp: settled_def opK.lookup_replaceObj)
qed

lemma settled_same:
  assumes "w_ops w' = w_ops w" and "w_insts w' = w_insts w" and "plant w' = plant w" and "settled k op w0 w"
  shows "settled k op w0 w'"
  using assms(4) unfolding settled_def lookup_ops_cong [OF assms(1)] assms(2,3) .

lemma setI_stats: "state_io_rel (setI.keeps k op w0) (apiStatusUpdate statsKind x)" "state_io_rel (setI.keeps k op w0) (apiUpdate statsKind x)"
  "state_io_rel (setI.keeps k op w0) (apiCreate statsKind x)"
proof -
  have "settled k op w0 (w\<lparr>w_stats := xs\<rparr>)" if "settled k op w0 w" for w xs
    by (rule settled_same [OF _ _ _ that]) (simp_all add: plant_def)
  then have *: "setI.keeps k op w0 w (w\<lparr>w_stats := xs\<rparr>)" for w xs
    by (simp add: setI.keeps_def)
  show "state_io_rel (setI.keeps k op w0) (apiStatusUpdate statsKind x)" "state_io_rel (setI.keeps k op w0) (apiUpdate statsKind x)"
    "state_io_rel (setI.keeps k op w0) (apiCreate statsKind x)"
    by (rule setI.rel_apiStatusUpdate, simp add: * replaceObj_def, rule setI.rel_apiUpdate, simp add: * replaceObj_def,
        rule setI.rel_apiCreate, simp add: *)
qed

lemmas setI_rules = setI.rel_intros setI_patch setI_stats

lemma setI_announce: "state_io_rel (setI.keeps k op w0) (announce r x a b)"
  unfolding announce_def getOperationInstance_def markOperationTaskEvent_def Let_def by (intro setI_rules)

lemma setI_statistics: "state_io_rel (setI.keeps k op w0) (syncStatistics x)"
  unfolding syncStatistics_def Let_def by (intro setI_rules)

definition likeOp :: "DisasterOperation \<Rightarrow> DisasterOperation \<Rightarrow> bool" where
  "likeOp op o' \<longleftrightarrow> op_spec o' = op_spec op \<and> sameOutcome (op_status op) (op_status o')"

lemma normalize_outcome: "os_state (op_status op) \<in> {OpCompleted, OpFailed} \<Longrightarrow> sameOutcome (op_status op) (op_status (fst (normalizeOperationStatusError op)))"
  by (simp add: normalizeOperationStatusError_def sameOutcome_def Let_def)

lemma sameOutcome_trans: "sameOutcome a b \<Longrightarrow> sameOutcome b c \<Longrightarrow> sameOutcome a c"
  by (simp add: sameOutcome_def)

lemma setI_terminal:
  assumes "likeOp op x" and "os_state (op_status op) \<in> {OpCompleted, OpFailed}"
  shows "state_io_rel (setI.keeps k op w0) (reconcileTerminal r x)"
proof -
  have "os_state (op_status x) \<in> {OpCompleted, OpFailed}" using assms by (auto simp: likeOp_def sameOutcome_def)
  from normalize_outcome [OF this] assms(1) have "sameOutcome (op_status op) (op_status (fst (normalizeOperationStatusError x)))"
    by (auto simp: likeOp_def intro: sameOutcome_trans)
  then show ?thesis
    unfolding reconcileTerminal_def Let_def by (intro setI_rules setI_announce setI_statistics setI_status)
qed

lemma owner_result: "wp (ensureOwnerReferences op) (\<lambda>x _. case x of Inl e \<Rightarrow> True | Inr y \<Rightarrow> op_spec (snd y) = op_spec op \<and> op_status (snd y) = op_status op) w"
  unfolding ensureOwnerReferences_def addOwner_def
  by (auto intro!: wp_any [where m = "apiGet _ _"] split: sum.splits)

lemma labels_result: "wp (syncDependencyLabels r op) (\<lambda>x _. case x of Inl e \<Rightarrow> True | Inr y \<Rightarrow> op_spec (snd y) = op_spec op \<and> op_status (snd y) = op_status op) w"
  unfolding syncDependencyLabels_def Let_def
  by (auto intro!: wp_any [where m = "apiGet _ _"] split: sum.splits)

lemma setI_owner: "state_io_rel (setI.keeps k op w0) (ensureOwnerReferences x)"
  unfolding ensureOwnerReferences_def by (intro setI_rules)

lemma setI_labels: "state_io_rel (setI.keeps k op w0) (syncDependencyLabels r x)"
  unfolding syncDependencyLabels_def Let_def by (intro setI_rules)

lemma rel_chk_setI:
  assumes "\<And>w. wp m (\<lambda>x _. case x of Inl e \<Rightarrow> True | Inr y \<Rightarrow> P y) w" and "state_io_rel (setI.keeps k op w0) m"
    and "\<And>y. P y \<Longrightarrow> state_io_rel (setI.keeps k op w0) (f y)"
  shows "state_io_rel (setI.keeps k op w0) (chk m f)"
  unfolding chk_def
  by (rule setI.rel_bind_result [OF assms(1,2)]) (auto split: sum.splits intro: assms(3) setI.rel_ret)

lemma setI_reconcile:
  assumes "likeOp op x" and t: "os_state (op_status op) \<in> {OpCompleted, OpFailed}"
  shows "state_io_rel (setI.keeps k op w0) (chk (ensureOwnerReferences x) (\<lambda>x.
            if fst x then chk (apiUpdate opKind (snd x)) (\<lambda>_. ok requeue_result)
            else chk (syncDependencyLabels r (snd x)) (\<lambda>y.
              if fst y then chk (apiUpdate opKind (snd y)) (\<lambda>_. ok requeue_result)
              else reconcileState drill cleanup r (snd y))))"
proof (rule rel_chk_setI [OF owner_result setI_owner], rule setI.rel_if)
  fix y :: "bool \<times> DisasterOperation"
  assume y: "op_spec (snd y) = op_spec x \<and> op_status (snd y) = op_status x"
  then have sp: "op_spec (snd y) = op_spec op" using assms(1) by (simp add: likeOp_def)
  then show "state_io_rel (setI.keeps k op w0) (chk (apiUpdate opKind (snd y)) (\<lambda>_. ok requeue_result))"
    by (intro setI_rules setI_update)
  show "state_io_rel (setI.keeps k op w0) (chk (syncDependencyLabels r (snd y)) (\<lambda>y.
              if fst y then chk (apiUpdate opKind (snd y)) (\<lambda>_. ok requeue_result)
              else reconcileState drill cleanup r (snd y)))"
  proof (rule rel_chk_setI [OF labels_result setI_labels], rule setI.rel_if)
    fix z :: "bool \<times> DisasterOperation"
    assume z: "op_spec (snd z) = op_spec (snd y) \<and> op_status (snd z) = op_status (snd y)"
    with sp show "state_io_rel (setI.keeps k op w0) (chk (apiUpdate opKind (snd z)) (\<lambda>_. ok requeue_result))"
      by (intro setI_rules setI_update) simp
    have l: "likeOp op (snd z)" using assms(1) y z by (simp add: likeOp_def)
    then have "os_state (op_status (snd z)) \<in> {OpCompleted, OpFailed}" using t by (auto simp: likeOp_def sameOutcome_def)
    then show "state_io_rel (setI.keeps k op w0) (reconcileState drill cleanup r (snd z))"
      unfolding reconcileState_def Let_def using setI_terminal [OF l t] by auto
  qed
qed

lemma settled_reconcile:
  assumes "settled k op w0 w" and "os_state (op_status op) \<in> {OpCompleted, OpFailed}"
  shows "wp (Reconcile drill cleanup r k) (\<lambda>_. settled k op w0) w"
  unfolding Reconcile_def wp_bind
proof (rule wp_apiGet)
  show "wp (case Inl e of Inl e \<Rightarrow> if err_kind e = NotFound then ok done_result else fail e | Inr x \<Rightarrow> f x) (\<lambda>_. settled k op w0) (w\<lparr>w_faults := fs\<rparr>)"
    for e fs f using setI.inv_faults [OF assms(1)] by simp
next
  fix x fs
  assume x: "lookup opKind (w\<lparr>w_faults := fs\<rparr>) k = Some x"
  then have "likeOp op x" using assms(1) by (auto simp: settled_def likeOp_def)
  then show "wp (case Inr x of Inl e \<Rightarrow> if err_kind e = NotFound then ok done_result else fail e
      | Inr op \<Rightarrow> chk (ensureOwnerReferences op) (\<lambda>x.
            if fst x then chk (apiUpdate opKind (snd x)) (\<lambda>_. ok requeue_result)
            else chk (syncDependencyLabels r (snd x)) (\<lambda>y.
              if fst y then chk (apiUpdate opKind (snd y)) (\<lambda>_. ok requeue_result)
              else reconcileState drill cleanup r (snd y)))) (\<lambda>_. settled k op w0) (w\<lparr>w_faults := fs\<rparr>)"
    unfolding sum.case by (rule setI.wp_keeps [OF setI_reconcile [OF _ assms(2)] setI.inv_faults [OF assms(1)]])
qed

text \<open>Any number of reconciles of one operation, each with its own clock and faults.\<close>

inductive reconciles :: "(DisasterOperation \<Rightarrow> Result result) \<Rightarrow> (DisasterOperation \<Rightarrow> Result result) \<Rightarrow> key \<Rightarrow> world \<Rightarrow> world \<Rightarrow> bool"
  for drill cleanup k w0 where
  reconciles_start: "reconciles drill cleanup k w0 w0"
| reconciles_step: "reconciles drill cleanup k w0 w \<Longrightarrow>
    reconciles drill cleanup k w0 (snd (run_state (Reconcile drill cleanup r k) (w\<lparr>w_faults := fs\<rparr>)))"

text \<open>C17. Safety: a completed or failed operation is final. However often it is reconciled and whatever the API
  server answers, it keeps its state, steps, completion time, message, roles and
  specification, and no instance, sync object, ConfigMap or workload is touched.\<close>

theorem terminal_operation_is_final:
  assumes "lookup opKind w0 k = Some op" and "os_state (op_status op) \<in> {OpCompleted, OpFailed}"
    and "reconciles drill cleanup k w0 w"
  shows "w_insts w = w_insts w0 \<and> plant w = plant w0 \<and>
     (\<exists>op'. lookup opKind w k = Some op' \<and> op_spec op' = op_spec op \<and> sameOutcome (op_status op) (op_status op'))"
  using assms(3)
proof (induction rule: reconciles.induct)
  case reconciles_start
  then show ?case using assms(1) by (simp add: sameOutcome_def)
next
  case (reconciles_step w r fs)
  then have "settled k op w0 (w\<lparr>w_faults := fs\<rparr>)" by (simp add: settled_def plant_def)
  from settled_reconcile [OF this assms(2), of drill cleanup r] show ?case by (simp add: wp_snd settled_def)
qed

theorem terminal_operation_is_final_witness:
  "let op = (sOp ''fo'' OpFailover [])\<lparr>op_status := emptyOpStatus\<lparr>os_state := OpFailed, os_message := ''x''\<rparr>\<rparr>;
       d = (\<lambda>_. ok done_result); v = sWorld [op] (sInst FsmFailed ''east'' ''west'') ''east'';
       w = snd (run_state (Reconcile d d sRec (''ns'', ''fo'')) (v\<lparr>w_faults := [None, Some (Lost ''timeout'')]\<rparr>))
   in reconciles d d (''ns'', ''fo'') v w \<and> w_insts w = w_insts v \<and> plant w = plant v \<and>
      map_option (\<lambda>o'. os_state (op_status o')) (lookup opKind w (''ns'', ''fo'')) = Some OpFailed"
proof -
  let ?op = "(sOp ''fo'' OpFailover [])\<lparr>op_status := emptyOpStatus\<lparr>os_state := OpFailed, os_message := ''x''\<rparr>\<rparr>"
  let ?d = "\<lambda>_. ok done_result"
  let ?v = "sWorld [?op] (sInst FsmFailed ''east'' ''west'') ''east''"
  let ?w = "snd (run_state (Reconcile ?d ?d sRec (''ns'', ''fo'')) (?v\<lparr>w_faults := [None, Some (Lost ''timeout'')]\<rparr>))"
  have r: "reconciles ?d ?d (''ns'', ''fo'') ?v ?w" by (intro reconciles.intros)
  have l: "lookup opKind ?v (''ns'', ''fo'') = Some ?op" by code_simp
  have t: "os_state (op_status ?op) \<in> {OpCompleted, OpFailed}" by simp
  from terminal_operation_is_final [OF l t r] r show ?thesis
    by (auto simp: Let_def sameOutcome_def)
qed

section \<open>One failover at a time\<close>

lemma opKey_keyOf: "keyOf opKind op = opKey op"
  by (simp add: keyOf_def opKey_def)

text \<open>A save that succeeds has stored the status.\<close>

lemma wp_saveOp:
  "wp (saveOp op res) (\<lambda>x w'. \<forall>y. x = Inr y \<longrightarrow> y = res \<and> (\<exists>o'. lookup opKind w' (opKey op) = Some o' \<and> op_status o' = op_status op)) w"
  unfolding saveOp_def wp_chk
  by (rule wp_apiStatusUpdate)
    (auto simp: Let_def opK.lookup_replaceObj opKey_keyOf [symmetric] bump_op_status dest: opK.lookup_key)

definition inFlightFailover :: "DisasterOperation \<Rightarrow> DisasterOperation \<Rightarrow> bool" where
  "inFlightFailover op c \<longleftrightarrow> opName c \<noteq> opName op \<and> sp_instanceName (op_spec c) = sp_instanceName (op_spec op) \<and>
     sp_operationType (op_spec c) = OpFailover \<and> isInFlightOperationState (os_state (op_status c))"

text \<open>The world without one operation, and what a status update leaves of the operation itself. The view of an operation
  is both: all there is but the status of the operation.\<close>

definition otherThanOp :: "key \<Rightarrow> world \<Rightarrow> world" where
  "otherThanOp k w = w\<lparr>w_ops := filter (\<lambda>c. keyOf opKind c \<noteq> k) (w_ops w), w_faults := []\<rparr>"

definition withoutStatus :: "DisasterOperation \<Rightarrow> DisasterOperation" where
  "withoutStatus op = op\<lparr>op_status := emptyOpStatus, op_meta := (op_meta op)\<lparr>m_rv := 0\<rparr>\<rparr>"

definition viewOfOp :: "key \<Rightarrow> world \<Rightarrow> world \<times> DisasterOperation option" where
  "viewOfOp k w = (otherThanOp k w, map_option withoutStatus (lookup opKind w k))"

lemma view_faults [simp]: "viewOfOp k (w\<lparr>w_faults := fs\<rparr>) = viewOfOp k w"
  by (simp add: viewOfOp_def otherThanOp_def lookup_def opKind_def)

lemma filter_replaced: "f x = k \<Longrightarrow> filter (\<lambda>y. f y \<noteq> k) (map (\<lambda>y. if f y = k then x else y) xs) = filter (\<lambda>y. f y \<noteq> k) xs"
  by (induction xs) auto

lemma keyOf_written: "lookup opKind w k = Some s \<Longrightarrow> keyOf opKind (bumpRv opKind s (k_mergeStatus opKind s x)) = k"
  using opK.lookup_key [of w k s] by (simp add: bumpRv_def keyOf_def opKind_def metaKey_def)

lemma view_written:
  assumes s: "lookup opKind w k = Some s"
  shows "viewOfOp k (replaceObj opKind (bumpRv opKind s (k_mergeStatus opKind s x)) w) = viewOfOp k w"
proof -
  let ?s = "bumpRv opKind s (k_mergeStatus opKind s x)"
  have k: "keyOf opKind ?s = k" by (rule keyOf_written [OF s])
  have "otherThanOp k (replaceObj opKind ?s w) = otherThanOp k w"
  proof -
    have "k_objs opKind = w_ops" "k_put opKind xs w = w\<lparr>w_ops := xs\<rparr>" for xs by (simp_all add: opKind_def)
    then show ?thesis using filter_replaced [where f = "keyOf opKind" and xs = "w_ops w", OF k] by (simp add: otherThanOp_def replaceObj_def k opK.lookup_key [OF s])
  qed
  moreover have "withoutStatus ?s = withoutStatus s" by (simp add: withoutStatus_def bumpRv_def opKind_def)
  ultimately show ?thesis using s k by (simp add: viewOfOp_def opK.lookup_replaceObj)
qed

lemma wp_failed:
  assumes "os_state (op_status o') = OpFailed" and "opKey o' = opKey op" and "viewOfOp (opKey op) w = v"
  shows "wp (saveOp o' res) (\<lambda>x w'. viewOfOp (opKey op) w' = v \<and>
     (isl x \<or> (\<exists>o'. lookup opKind w' (opKey op) = Some o' \<and> os_state (op_status o') = OpFailed))) w"
  unfolding saveOp_def wp_chk
proof (rule wp_apiStatusUpdate, goal_cases)
  case (1 e fs)
  then show ?case using assms by simp
next
  case (2 s fs)
  let ?w = "replaceObj opKind (bumpRv opKind s (k_mergeStatus opKind s o')) (w\<lparr>w_faults := fs\<rparr>)"
  have k: "keyOf opKind o' = opKey op" using assms(2) by (simp add: opKey_keyOf)
  have "viewOfOp (opKey op) ?w = v" using view_written [OF 2(1) [unfolded k]] assms(3) by simp
  moreover have "lookup opKind ?w (opKey op) = Some (bumpRv opKind s (k_mergeStatus opKind s o'))"
    using 2(1) keyOf_written [OF 2(1)] by (simp add: k opK.lookup_replaceObj)
  ultimately show ?case using assms(1) by (simp add: Let_def bump_op_status)
qed

text \<open>C18. Safety: while another failover of the same instance is in flight, a reconcile of a failover changes nothing
  at all but its own status, whatever the API server answers: the other operation, every instance, sync object, ConfigMap,
  workload and event, and its own specification and metadata (the resource version apart) stay. When it succeeds, the operation is stored as failed.\<close>

theorem concurrent_failover_rejected:
  assumes "c \<in> set (w_ops w)" and "inFlightFailover op c" and "m_ns (op_meta c) = m_ns (op_meta op)"
    and "m_ns (op_meta op) \<noteq> []" and "sp_instanceName (op_spec op) \<noteq> []"
  shows "viewOfOp (opKey op) (snd (run_state (handleFailover r op) w)) = viewOfOp (opKey op) w \<and>
    (isl (fst (run_state (handleFailover r op) w)) \<or>
     (\<exists>op'. lookup opKind (snd (run_state (handleFailover r op) w)) (opKey op) = Some op' \<and> os_state (op_status op') = OpFailed))"
proof -
  let ?Q = "\<lambda>x w'. viewOfOp (opKey op) w' = viewOfOp (opKey op) w \<and>
     (isl x \<or> (\<exists>o'. lookup opKind w' (opKey op) = Some o' \<and> os_state (op_status o') = OpFailed))"
  let ?p = "\<lambda>c. opName c \<noteq> opName op \<and> sp_instanceName (op_spec c) = sp_instanceName (op_spec op) \<and>
      sp_operationType (op_spec c) = OpFailover \<and> isInFlightOperationState (os_state (op_status c))"
  have "find ?p (filter (inNamespace opKind (m_ns (op_meta op))) (w_ops w)) \<noteq> None"
    using assms(1-3) by (auto simp: find_None_iff inFlightFailover_def inNamespace_def)
  then obtain o' where o': "find ?p (filter (inNamespace opKind (m_ns (op_meta op))) (w_ops w)) = Some o'" by auto
  have fail: "wp (failOp m op) ?Q (w\<lparr>w_faults := fs\<rparr>)" "wp (rejectOp r m op) ?Q (w\<lparr>w_faults := fs\<rparr>)" for m fs
    unfolding failOp_def rejectOp_def by (rule wp_failed; simp add: opKey_def setStatus_def)+
  have "wp (handleFailover r op) ?Q w"
    unfolding handleFailover_def findOtherInFlightOperation_def wp_bind
  proof (rule wp_apiGet, goal_cases)
    case (1 e fs)
    then show ?case using fail by simp
  next
    case (2 i fs)
    have *: "(w\<lparr>w_faults := fs\<rparr>)\<lparr>w_faults := gs\<rparr> = w\<lparr>w_faults := gs\<rparr>" for gs by simp
    show ?case
      using assms(4,5) by (simp only: sum.case if_False simp_thms wp_chk, intro wp_apiList) (auto simp: * o' fail simp del: wp_bind)
  qed
  then show ?thesis by (cases "run_state (handleFailover r op) w"; cases "fst (run_state (handleFailover r op) w)") (auto simp: wp_def)
qed

theorem concurrent_failover_rejected_witness:
  "let op = sOp ''fo2'' OpFailover []; c = sOp ''fo1'' OpFailover []; w = sWorld [c, op] (sInst FsmProtected ''east'' ''west'') ''east''
   in inFlightFailover op c \<and> viewOfOp (opKey op) (snd (run_state (handleFailover sRec op) w)) = viewOfOp (opKey op) w \<and>
      map (\<lambda>o'. os_state (op_status o')) (w_ops (snd (run_state (handleFailover sRec op) w))) = [OpRunning, OpFailed]"
proof -
  let ?op = "sOp ''fo2'' OpFailover []" and ?c = "sOp ''fo1'' OpFailover []"
  let ?w = "sWorld [?c, ?op] (sInst FsmProtected ''east'' ''west'') ''east''"
  have a: "?c \<in> set (w_ops ?w)" by (simp add: sWorld_def)
  have b: "inFlightFailover ?op ?c" by code_simp
  have "map (\<lambda>o'. os_state (op_status o')) (w_ops (snd (run_state (handleFailover sRec ?op) ?w))) = [OpRunning, OpFailed]" by code_simp
  then show ?thesis
    unfolding Let_def using b concurrent_failover_rejected [OF a b, of sRec] by (simp add: sample_defs)
qed

section \<open>Taking over\<close>

definition superseded :: "DisasterOperation \<Rightarrow> key \<Rightarrow> world \<Rightarrow> bool" where
  "superseded op k w \<longleftrightarrow> (\<forall>c. lookup opKind w k = Some c \<and> inNamespace opKind (m_ns (op_meta op)) c \<longrightarrow> \<not> toSupersede op c)"

interpretation supI: world_inv "superseded op k" for op k
  by unfold_locales (simp_all add: superseded_def)

lemma toSupersede_status: "os_state (op_status c) = OpFailed \<Longrightarrow> \<not> toSupersede op c"
  by (simp add: toSupersede_def isInFlightOperationState_def)

lemma superseded_failed:
  assumes "lookup opKind w (keyOf opKind s) = Some s" and "os_state (op_status x) = OpFailed"
  shows "superseded op (keyOf opKind s) (replaceObj opKind (bumpRv opKind s x) w)"
    and "superseded op k w \<Longrightarrow> superseded op k (replaceObj opKind (bumpRv opKind s x) w)"
  using assms by (auto simp: superseded_def opK.lookup_replaceObj bump_op_status toSupersede_status)

text \<open>One attempt: what was superseded stays so, and on success the candidate is too.\<close>

lemma supersede_attempt:
  assumes "\<forall>k' \<in> Ks. superseded op k' w"
  shows "wp (do {
        g \<leftarrow> apiGet opKind k;
        (case g of
           Inl e \<Rightarrow> ignoreNotFound e
         | Inr latest \<Rightarrow>
             if \<not> isInFlightOperationState (os_state (op_status latest)) then ok ()
             else chk (apiStatusUpdate opKind (supersededStatus r op latest)) (\<lambda>_. ok ())) })
     (\<lambda>x w'. (\<forall>k' \<in> Ks. superseded op k' w') \<and> (\<forall>y. x = Inr y \<longrightarrow> superseded op k w')) w"
  unfolding wp_bind
proof (rule wp_apiGet_notFound, goal_cases)
  case (1 e fs)
  then show ?case using assms by (auto simp: ignoreNotFound_def superseded_def)
next
  case (2 x fs)
  let ?v = "w\<lparr>w_faults := fs\<rparr>"
  have k: "keyOf opKind x = k" using 2 by (rule opK.lookup_key)
  have Ks: "\<forall>k' \<in> Ks. superseded op k' (?v\<lparr>w_faults := gs\<rparr>)" for gs using assms by (simp add: superseded_def)
  have key: "keyOf opKind (supersededStatus r op x) = k"
    using k by (simp add: supersededStatus_def Let_def setStatus_def keyOf_def)
  have failed: "os_state (op_status (supersededStatus r op x)) = OpFailed"
    by (simp add: supersededStatus_def Let_def)
  show ?case
  proof (cases "isInFlightOperationState (os_state (op_status x))")
    case False
    then show ?thesis using 2 Ks [of fs] by (auto simp: superseded_def toSupersede_def)
  next
    case True
    have "wp (apiStatusUpdate opKind (supersededStatus r op x)) (\<lambda>x w'. (\<forall>k' \<in> Ks. superseded op k' w') \<and> (\<forall>y. x = Inr y \<longrightarrow> superseded op k w')) ?v"
    proof (rule wp_apiStatusUpdate, goal_cases)
      case (1 e gs)
      then show ?case using Ks by simp
    next
      case (2 s gs)
      then have "lookup opKind (?v\<lparr>w_faults := gs\<rparr>) (keyOf opKind s) = Some s" and "keyOf opKind s = k"
        by (auto simp: key dest: opK.lookup_key)
      with superseded_failed [of "?v\<lparr>w_faults := gs\<rparr>" s "k_mergeStatus opKind s (supersededStatus r op x)" op] failed Ks [of gs]
      show ?case by (simp add: Let_def)
    qed
    with True show ?thesis by simp (elim wp_mono, auto split: sum.splits)
  qed
qed

lemma supersede_one:
  assumes "\<forall>k' \<in> Ks. superseded op k' w" and "toSupersede op c"
  shows "wp (supersedeOne r op c) (\<lambda>x w'. (\<forall>k' \<in> Ks. superseded op k' w') \<and> (\<forall>y. x = Inr y \<longrightarrow> superseded op (opKey c) w')) w"
proof -
  have "\<not> \<not> toSupersede op c" using assms(2) by simp
  then show ?thesis
    unfolding supersedeOne_def by (subst if_not_P, assumption, intro wp_retry supersede_attempt assms(1))
qed

lemma supersede_loop:
  assumes "\<And>k. superseded op k w \<or> (\<exists>c \<in> set cs. opKey c = k \<and> toSupersede op c)"
  shows "wp (forEach (\<lambda>c _. supersedeOne r op c) cs ()) (\<lambda>x w'. \<forall>y. x = Inr y \<longrightarrow> (\<forall>k. superseded op k w')) w"
  using assms
proof (induction cs arbitrary: w)
  case Nil
  then show ?case by simp
next
  case (Cons c cs)
  show ?case
  proof (cases "toSupersede op c")
    case True
    let ?Ks = "{k. superseded op k w}"
    have "wp (supersedeOne r op c) (\<lambda>x w'. (\<forall>k' \<in> ?Ks. superseded op k' w') \<and> (\<forall>y. x = Inr y \<longrightarrow> superseded op (opKey c) w')) w"
      by (rule supersede_one) (use True in auto)
    then show ?thesis
      unfolding forEach.simps wp_chk
    proof (rule wp_mono)
      fix x :: "err + unit" and w'
      assume x: "(\<forall>k' \<in> ?Ks. superseded op k' w') \<and> (\<forall>y. x = Inr y \<longrightarrow> superseded op (opKey c) w')"
      have "wp (forEach (\<lambda>c _. supersedeOne r op c) cs ()) (\<lambda>x w'. \<forall>y. x = Inr y \<longrightarrow> (\<forall>k. superseded op k w')) w'" if "x = Inr ()"
      proof (rule Cons.IH)
        show "superseded op k w' \<or> (\<exists>c \<in> set cs. opKey c = k \<and> toSupersede op c)" for k
          using Cons.prems [of k] x that by (cases "opKey c = k") (auto simp del: split_paired_All)
      qed
      then show "case x of Inl e \<Rightarrow> \<forall>y. Inl e = Inr y \<longrightarrow> (\<forall>k. superseded op k w')
          | Inr z \<Rightarrow> wp (forEach (\<lambda>c _. supersedeOne r op c) cs z) (\<lambda>x w'. \<forall>y. x = Inr y \<longrightarrow> (\<forall>k. superseded op k w')) w'"
        by (cases x) simp_all
    qed
  next
    case False
    then have "supersedeOne r op c = ok ()" by (simp add: supersedeOne_def)
    moreover have "wp (forEach (\<lambda>c _. supersedeOne r op c) cs ()) (\<lambda>x w'. \<forall>y. x = Inr y \<longrightarrow> (\<forall>k. superseded op k w')) w"
      by (rule Cons.IH) (use False Cons.prems in \<open>auto simp del: split_paired_All\<close>)
    ultimately show ?thesis by (simp del: split_paired_All)
  qed
qed

text \<open>C19. Safety: when a cancel or an undo has taken over successfully, its namespace stores no other failover of the same
  instance (or of the same group) that is still in flight, whatever conflicts the retries met.\<close>

theorem supersede_leaves_none_in_flight:
  assumes "fst (run_state (supersedeInFlightOperations r op) w) = Inr ()"
    and "sp_operationType (op_spec op) = OpCancel \<or> sp_operationType (op_spec op) = OpUndo"
    and "lookup opKind (snd (run_state (supersedeInFlightOperations r op) w)) k = Some c" and "m_ns (op_meta c) = m_ns (op_meta op)"
  shows "\<not> toSupersede op c"
proof -
  have P: "superseded op k (w\<lparr>w_faults := fs\<rparr>) \<or>
      (\<exists>c \<in> set (filter (inNamespace opKind (m_ns (op_meta op))) (w_ops (w\<lparr>w_faults := fs\<rparr>))). opKey c = k \<and> toSupersede op c)" for k fs
  proof (cases "superseded op k (w\<lparr>w_faults := fs\<rparr>)")
    case False
    then obtain c where c: "lookup opKind w k = Some c" "inNamespace opKind (m_ns (op_meta op)) c" "toSupersede op c"
      by (auto simp: superseded_def)
    have "c \<in> set (w_ops w)" using c(1) by (auto simp: lookup_def find_Some_iff)
    moreover have "opKey c = k" using opK.lookup_key [OF c(1)] by (simp add: opKey_keyOf)
    ultimately show ?thesis using c by auto
  qed simp
  have "wp (supersedeInFlightOperations r op) (\<lambda>x w'. \<forall>y. x = Inr y \<longrightarrow> (\<forall>k. superseded op k w')) w"
  proof -
    have s: "\<not> \<not> shouldSupersedeOperation (sp_operationType (op_spec op)) OpFailover"
      using assms(2) by (auto simp: shouldSupersedeOperation_def)
    have "wp (forEach (\<lambda>c _. supersedeOne r op c) (filter (inNamespace opKind (m_ns (op_meta op))) (w_ops (w\<lparr>w_faults := fs\<rparr>))) ())
        (\<lambda>x w'. \<forall>y. x = Inr y \<longrightarrow> (\<forall>k. superseded op k w')) (w\<lparr>w_faults := fs\<rparr>)" for fs
      by (rule supersede_loop) (rule P)
    then show ?thesis
      unfolding supersedeInFlightOperations_def by (subst if_not_P [OF s], unfold wp_chk, intro wp_apiList) simp_all
  qed
  then have "superseded op k (snd (run_state (supersedeInFlightOperations r op) w))"
    using assms(1) by (cases "run_state (supersedeInFlightOperations r op) w") (simp add: wp_def del: split_paired_All)
  with assms(3,4) show ?thesis by (simp add: superseded_def inNamespace_def)
qed

theorem supersede_leaves_none_in_flight_witness:
  "let op = sOp ''ca'' OpCancel []; f = sOp ''fo'' OpFailover [];
       w = (sWorld [f, op] (sInst FsmFailingOver ''east'' ''west'') ''east'')\<lparr>w_faults := [None, None, Some (RefusedConflict ''rv'')]\<rparr>;
       w' = snd (run_state (supersedeInFlightOperations sRec op) w)
   in toSupersede op f \<and> (\<exists>c. lookup opKind w' (''ns'', ''fo'') = Some c \<and> os_state (op_status c) = OpFailed \<and> \<not> toSupersede op c)"
proof -
  let ?op = "sOp ''ca'' OpCancel []" and ?f = "sOp ''fo'' OpFailover []"
  let ?w = "(sWorld [?f, ?op] (sInst FsmFailingOver ''east'' ''west'') ''east'')\<lparr>w_faults := [None, None, Some (RefusedConflict ''rv'')]\<rparr>"
  let ?v = "snd (run_state (supersedeInFlightOperations sRec ?op) ?w)"
  have a: "fst (run_state (supersedeInFlightOperations sRec ?op) ?w) = Inr ()" by code_simp
  have b: "toSupersede ?op ?f" by code_simp
  have "map_option (\<lambda>c. (os_state (op_status c), m_ns (op_meta c))) (lookup opKind ?v (''ns'', ''fo'')) = Some (OpFailed, ''ns'')" by code_simp
  then obtain c where c: "lookup opKind ?v (''ns'', ''fo'') = Some c" "os_state (op_status c) = OpFailed" "m_ns (op_meta c) = ''ns''" by auto
  have t: "sp_operationType (op_spec ?op) = OpCancel" "m_ns (op_meta ?op) = ''ns''" by (simp_all add: sample_defs)
  have "\<not> toSupersede ?op c"
    by (rule supersede_leaves_none_in_flight [OF a _ c(1)]) (use c(3) t in simp_all)
  with b c(1,2) show ?thesis unfolding Let_def by blast
qed

end
