(* ===== verification/OpFindings.thy ===== *)
theory OpFindings
  imports OpReplicas OpLifecycle OpFsm
begin

text \<open>
  Behaviour of the operation controller that differs from what its comments say or from the
  roles it records: a failover that has switched the roles but could not be saved is later
  recorded as failed, compensation and undo act on the clusters of the configuration and not
  on the current roles, and two options and records reach further, or less far, than stated.
\<close>

section \<open>A finished failover that could not be saved\<close>

lemma wp_reject:
  "wp (rejectOp r m op) (\<lambda>x w'. \<forall>y. x = Inr y \<longrightarrow> (\<exists>o'. lookup opKind w' (opKey op) = Some o' \<and>
     os_state (op_status o') = OpFailed \<and> os_reason (op_status o') = ''InvalidState'')) w"
  unfolding rejectOp_def using wp_saveOp by (rule wp_mono) (auto simp: opKey_def setStatus_def)

text \<open>Error: once the instance is active, every reconcile of a failover that succeeds stores the failover as failed
  with an invalid state, also one whose steps have all completed and which itself made the
  instance active: the branch that is to recognise a switch done before is never reached.\<close>

theorem failover_of_active_instance_fails:
  assumes "lookup instKind w (instanceKey op) = Some i" and "fsm i = FsmActive" and "fst (run_state (handleFailover r op) w) = Inr res"
  shows "\<exists>op'. lookup opKind (snd (run_state (handleFailover r op) w)) (opKey op) = Some op' \<and>
    os_state (op_status op') = OpFailed \<and> os_reason (op_status op') = ''InvalidState''"
proof -
  let ?Q = "\<lambda>x w'. \<forall>y. x = Inr y \<longrightarrow> (\<exists>o'. lookup opKind w' (opKey op) = Some o' \<and>
     os_state (op_status o') = OpFailed \<and> os_reason (op_status o') = ''InvalidState'')"
  have "wp (handleFailover r op) ?Q w"
    unfolding handleFailover_def wp_bind instanceKey_def [symmetric]
  proof (rule wp_apiGet_notFound, goal_cases)
    case (1 e fs)
    then show ?case using assms(1) by auto
  next
    case (2 x fs)
    then have x: "x = i" using assms(1) by simp
    let ?k = "\<lambda>c. case c of
              Some o' \<Rightarrow> rejectOp r (msgConcurrentFailover (sp_instanceName (op_spec op)) (opName o') (opStateString (os_state (op_status o')))) op
            | None \<Rightarrow>
                if fsm x \<noteq> FsmProtected \<and> fsm x \<noteq> FsmFailingOver
                then rejectOp r (msgFailoverState (fsmString (fsm x))) op
                else chk (if fsm x = FsmProtected then apiStatusUpdate instKind (setFsm FsmFailingOver x) else ok x)
                       (failoverProceed r op)"
    have "wp (?k c) ?Q w'" for c w' using wp_reject assms(2) x by (cases c) auto
    then have "wp (chk m ?k) ?Q w'" for m w'
      by (intro wp_chkI [where P = "\<lambda>_ _. True"]) (auto intro: wp_any)
    then show ?case by simp
  qed
  from wp_success [OF this assms(3)] show ?thesis .
qed

text \<open>The roles are switched, the status of the operation is refused, and the next reconcile fails the operation.\<close>

theorem failover_of_active_instance_fails_witness:
  "let op = sOp ''fo'' OpFailover (map (\<lambda>n. sStep n StepCompleted) failoverSteps);
       v = (sWorld [op] (sInst FsmFailingOver ''east'' ''west'') ''east'')\<lparr>w_faults := [None, None, None, None, Some (Refused ''down'')]\<rparr>;
       w = snd (run_state (handleFailover sRec op) v)
   in roles w (''ns'', ''app'') = Some (FsmActive, ''west'', ''east'') \<and>
      (\<exists>op'. lookup opKind (snd (run_state (handleFailover sRec op) w)) (opKey op) = Some op' \<and>
         os_state (op_status op') = OpFailed \<and> os_reason (op_status op') = ''InvalidState'')"
proof -
  let ?op = "sOp ''fo'' OpFailover (map (\<lambda>n. sStep n StepCompleted) failoverSteps)"
  let ?v = "(sWorld [?op] (sInst FsmFailingOver ''east'' ''west'') ''east'')\<lparr>w_faults := [None, None, None, None, Some (Refused ''down'')]\<rparr>"
  let ?w = "snd (run_state (handleFailover sRec ?op) ?v)"
  have a: "roles ?w (''ns'', ''app'') = Some (FsmActive, ''west'', ''east'')" by code_simp
  then obtain i where i: "lookup instKind ?w (''ns'', ''app'') = Some i" "fsm i = FsmActive"
    by (auto simp: roles_def roleStateOf_def)
  have k: "instanceKey ?op = (''ns'', ''app'')" by (simp add: instanceKey_def sample_defs)
  have "fst (run_state (handleFailover sRec ?op) ?w) = Inr done_result" by code_simp
  with failover_of_active_instance_fails [of ?w ?op i sRec] i k a show ?thesis by (simp add: Let_def)
qed

section \<open>Compensation and undo act on the configured clusters\<close>

text \<open>C36. Error: the step of a cancel, or of the compensation of a failed failover, that scales down the target takes
  the target of the configuration. When the roles are reversed (after a failover and a
  reprotect), that is the primary cluster of the instance, and its workloads go to zero.\<close>

theorem cancel_of_reversed_roles_stops_primary:
  assumes "lookup cfgKind w ([], di_config (in_spec i)) = Some cfg" and "is_primaryCluster (in_status i) = cfg_targetCluster cfg"
    and "st_name step = StepScaleDownTarget"
    and "keysDistinct (deployKind (cfg_targetCluster cfg)) w" and "keysDistinct (stsKind (cfg_targetCluster cfg)) w"
    and "fst (run_state (executeCancelStep r step i) w) = Inr b"
  shows "onlyDown (is_primaryCluster (in_status i)) False (di_namespaces (in_spec i)) w (snd (run_state (executeCancelStep r step i) w))"
proof -
  let ?c = "cfg_targetCluster cfg"
  have "wp (doScaleDown i ?c) (\<lambda>r w'. \<forall>z. r = Inr z \<longrightarrow> onlyDown ?c False (di_namespaces (in_spec i)) w w') (w\<lparr>w_faults := fs\<rparr>)" for fs
    using doScaleDown_wp [of ?c "w\<lparr>w_faults := fs\<rparr>" i] assms(4,5) by (simp add: onlyDown_def)
  then have "wp (executeCancelStep r step i) (\<lambda>r w'. \<forall>z. r = Inr z \<longrightarrow> onlyDown ?c False (di_namespaces (in_spec i)) w w') w"
    unfolding executeCancelStep_def by (intro wp_get_cfg [OF assms(1)]) (simp add: assms(3) step_name_defs)
  from wp_success [OF this assms(6)] assms(2) show ?thesis by simp
qed

theorem cancel_of_reversed_roles_stops_primary_witness:
  "let i = sInst FsmFailingOver ''west'' ''east''; w = sWorld [] i ''west''; step = sStep StepScaleDownTarget StepRunning;
       w' = snd (run_state (executeCancelStep sRec step i) w)
   in onlyDown ''west'' False [''web''] w w' \<and> map wl_replicas (w_deploys w ''west'') = [Some 3] \<and> map wl_replicas (w_deploys w' ''west'') = [Some 0]"
proof -
  let ?i = "sInst FsmFailingOver ''west'' ''east''" and ?st = "sStep StepScaleDownTarget StepRunning"
  let ?w = "sWorld [] ?i ''west''"
  have a: "lookup cfgKind ?w ([], di_config (in_spec ?i)) = Some sCfg" by code_simp
  have b: "is_primaryCluster (in_status ?i) = cfg_targetCluster sCfg" "st_name ?st = StepScaleDownTarget" by code_simp+
  have c: "keysDistinct (deployKind (cfg_targetCluster sCfg)) ?w" "keysDistinct (stsKind (cfg_targetCluster sCfg)) ?w" by code_simp+
  have d: "fst (run_state (executeCancelStep sRec ?st ?i) ?w) = Inr True" by code_simp
  have "map wl_replicas (w_deploys ?w ''west'') = [Some 3]" "map wl_replicas (w_deploys (snd (run_state (executeCancelStep sRec ?st ?i) ?w)) ''west'') = [Some 0]"
    by code_simp+
  moreover have "is_primaryCluster (in_status ?i) = ''west''" "di_namespaces (in_spec ?i) = [''web'']" by (simp_all add: sample_defs)
  ultimately show ?thesis using cancel_of_reversed_roles_stops_primary [OF a b c d] by (simp add: Let_def)
qed

lemma lookup_updated:
  "wp (apiStatusUpdate instKind x) (\<lambda>r w'. \<forall>z. r = Inr z \<longrightarrow> (\<exists>l. lookup instKind w' (instKey x) = Some l \<and> in_status l = in_status x)) w"
proof (rule wp_apiStatusUpdate, goal_cases)
  case (2 s fs)
  then have "keyOf instKind s = keyOf instKind x" by (auto dest: instK.lookup_key)
  with 2 show ?case
    by (simp add: Let_def instK.lookup_replaceObj instKey_keyOf [symmetric]) (simp add: bumpRv_def instKind_def)
qed simp

lemma undo_switch_wp:
  assumes "lookup cfgKind w ([], di_config (in_spec i)) = Some cfg" and "st_name step = StepSwitchRoles"
  shows "wp (executeUndoStep r step i op) (\<lambda>x w'. \<forall>z. x = Inr z \<longrightarrow>
    (\<exists>l. lookup instKind w' (instKey i) = Some l \<and> is_primaryCluster (in_status l) = cfg_sourceCluster cfg \<and>
         is_secondaryCluster (in_status l) = cfg_targetCluster cfg)) w"
proof -
  let ?Q = "\<lambda>x w'. \<forall>z. x = Inr z \<longrightarrow> (\<exists>l. lookup instKind w' (instKey i) = Some l \<and>
      is_primaryCluster (in_status l) = cfg_sourceCluster cfg \<and> is_secondaryCluster (in_status l) = cfg_targetCluster cfg)"
  have "wp (chk (apiGet instKind (instKey i)) (\<lambda>latest.
        chk (apiStatusUpdate instKind (latest\<lparr>in_status := (in_status latest)\<lparr>is_primaryCluster := cfg_sourceCluster cfg,
               is_secondaryCluster := cfg_targetCluster cfg\<rparr>\<rparr>)) (\<lambda>l. ok (True, i\<lparr>in_status := in_status l\<rparr>)))) ?Q w'" for w'
  proof (rule wp_chkI [where P = "\<lambda>x _. instKey x = instKey i"])
    show "wp (apiGet instKind (instKey i)) (\<lambda>r w'. \<forall>z. r = Inr z \<longrightarrow> instKey z = instKey i) w'"
      by (rule wp_apiGet) (auto dest: lookup_instKey)
  next
    fix x :: DisasterInstance and w'
    assume "instKey x = instKey i"
    then show "wp (chk (apiStatusUpdate instKind (x\<lparr>in_status := (in_status x)\<lparr>is_primaryCluster := cfg_sourceCluster cfg,
               is_secondaryCluster := cfg_targetCluster cfg\<rparr>\<rparr>)) (\<lambda>l. ok (True, i\<lparr>in_status := in_status l\<rparr>))) ?Q w'"
      by (intro wp_chkI [OF lookup_updated]) auto
  qed
  then have "wp (getConfig t i (\<lambda>cfg. chk (apiGet instKind (instKey i)) (\<lambda>latest.
        chk (apiStatusUpdate instKind (latest\<lparr>in_status := (in_status latest)\<lparr>is_primaryCluster := cfg_sourceCluster cfg,
               is_secondaryCluster := cfg_targetCluster cfg\<rparr>\<rparr>)) (\<lambda>l. ok (True, i\<lparr>in_status := in_status l\<rparr>))))) ?Q w" for t
    by (intro wp_get_cfg [OF assms(1)])
  note switch = this
  have n: "st_name step \<noteq> StepScaleDownTarget" "st_name step \<noteq> StepScaleUpSource"
    using assms(2) by (simp_all add: step_name_defs)
  show ?thesis
    unfolding executeUndoStep_def if_not_P [OF n(1)] if_not_P [OF n(2)] if_P [OF assms(2)] by (rule switch)
qed

text \<open>Error: an undo scales down the current primary cluster and then records the source of the configuration as
  primary. When that source is the current primary (a failover of reversed roles is undone),
  the cluster that was just stopped stays the recorded primary.\<close>

theorem undo_of_reversed_roles_records_stopped_primary:
  assumes "lookup cfgKind w ([], di_config (in_spec i)) = Some cfg" and "is_primaryCluster (in_status i) = cfg_sourceCluster cfg"
    and "cfg_sourceCluster cfg \<noteq> []" and "\<not> shouldSkipScaleDownSource op"
    and "keysDistinct (deployKind (cfg_sourceCluster cfg)) w" and "keysDistinct (stsKind (cfg_sourceCluster cfg)) w"
    and "st_name down = StepScaleDownTarget" and "st_name switch = StepSwitchRoles"
    and "fst (run_state (executeUndoStep r down i op) w) = Inr b"
    and "lookup cfgKind w2 ([], di_config (in_spec i)) = Some cfg" and "fst (run_state (executeUndoStep r2 switch i op) w2) = Inr b2"
  shows "onlyDown (cfg_sourceCluster cfg) True (di_namespaces (in_spec i)) w (snd (run_state (executeUndoStep r down i op) w)) \<and>
    (\<exists>l. lookup instKind (snd (run_state (executeUndoStep r2 switch i op) w2)) (instKey i) = Some l \<and>
         is_primaryCluster (in_status l) = cfg_sourceCluster cfg)"
proof
  have c: "primaryOr i cfg = cfg_sourceCluster cfg" using assms(2,3) by (simp add: primaryOr_def)
  have e: "executeUndoStep r down i op = chk (executeScaleDownSource i op) (\<lambda>b. ok (b, i))"
    using assms(7) by (simp add: executeUndoStep_def)
  have "wp (executeScaleDownSource i op) (\<lambda>r w'. \<forall>z. r = Inr z \<longrightarrow> onlyDown (cfg_sourceCluster cfg) True (di_namespaces (in_spec i)) w w') w"
    by (rule scale_down_source_wp [OF assms(1,4), unfolded c, OF assms(5,6)])
  then have "wp (executeUndoStep r down i op) (\<lambda>r w'. \<forall>z. r = Inr z \<longrightarrow> onlyDown (cfg_sourceCluster cfg) True (di_namespaces (in_spec i)) w w') w"
    unfolding e by (rule wp_chkI) simp
  from wp_success [OF this assms(9)]
  show "onlyDown (cfg_sourceCluster cfg) True (di_namespaces (in_spec i)) w (snd (run_state (executeUndoStep r down i op) w))" .
  from wp_success [OF undo_switch_wp [OF assms(10,8)] assms(11)]
  show "\<exists>l. lookup instKind (snd (run_state (executeUndoStep r2 switch i op) w2)) (instKey i) = Some l \<and>
         is_primaryCluster (in_status l) = cfg_sourceCluster cfg" by blast
qed

theorem undo_of_reversed_roles_records_stopped_primary_witness:
  "let i = sInst FsmActive ''east'' ''west''; op = sOp ''un'' OpUndo []; w = sWorld [] i ''east'';
       w2 = snd (run_state (executeUndoStep sRec (sStep StepScaleDownTarget StepRunning) i op) w);
       w3 = snd (run_state (executeUndoStep sRec (sStep StepSwitchRoles StepRunning) i op) w2)
   in onlyDown ''east'' True [''web''] w w2 \<and> map wl_replicas (w_deploys w2 ''east'') = [Some 0] \<and>
      (\<exists>l. lookup instKind w3 (''ns'', ''app'') = Some l \<and> is_primaryCluster (in_status l) = ''east'')"
proof -
  let ?i = "sInst FsmActive ''east'' ''west''" and ?op = "sOp ''un'' OpUndo []"
  let ?w = "sWorld [] ?i ''east''"
  let ?dn = "sStep StepScaleDownTarget StepRunning" and ?sw = "sStep StepSwitchRoles StepRunning"
  let ?v = "snd (run_state (executeUndoStep sRec ?dn ?i ?op) ?w)"
  have a: "lookup cfgKind ?w ([], di_config (in_spec ?i)) = Some sCfg" "lookup cfgKind ?v ([], di_config (in_spec ?i)) = Some sCfg" by code_simp+
  have b: "is_primaryCluster (in_status ?i) = cfg_sourceCluster sCfg" "cfg_sourceCluster sCfg \<noteq> []" "\<not> shouldSkipScaleDownSource ?op" by code_simp+
  have c: "keysDistinct (deployKind (cfg_sourceCluster sCfg)) ?w" "keysDistinct (stsKind (cfg_sourceCluster sCfg)) ?w" by code_simp+
  have d: "st_name ?dn = StepScaleDownTarget" "st_name ?sw = StepSwitchRoles" by (simp_all add: sStep_def pendingStep_def)
  have e: "fst (run_state (executeUndoStep sRec ?dn ?i ?op) ?w) = Inr (True, ?i)" by code_simp
  have "\<not> isl (fst (run_state (executeUndoStep sRec ?sw ?i ?op) ?v))" by code_simp
  then obtain b2 where f: "fst (run_state (executeUndoStep sRec ?sw ?i ?op) ?v) = Inr b2" by (metis isl_def sum.exhaust)
  have "map wl_replicas (w_deploys ?v ''east'') = [Some 0]" by code_simp
  moreover have "cfg_sourceCluster sCfg = ''east''" "di_namespaces (in_spec ?i) = [''web'']" "instKey ?i = (''ns'', ''app'')"
    by (simp_all add: sample_defs instKey_def metaKey_def)
  ultimately show ?thesis
    using undo_of_reversed_roles_records_stopped_primary [OF a(1) b c d e a(2) f] by (simp add: Let_def)
qed

section \<open>Options and records\<close>

text \<open>The option to skip the scale-down of the source, documented for failovers only, also acts on an undo:
  its step that scales down the active side reports completion and changes no workload.\<close>

theorem undo_skips_scale_down:
  assumes "shouldSkipScaleDownSource op" and "st_name step = StepScaleDownTarget"
  shows "fst (run_state (executeUndoStep r step i op) w) = Inr (True, i) \<and> workloads (snd (run_state (executeUndoStep r step i op) w)) = workloads w"
  using assms by (simp add: executeUndoStep_def executeScaleDownSource_def chk_def emit_def workloads_def)

theorem undo_skips_scale_down_witness:
  "let op = (sOp ''un'' OpUndo [])\<lparr>op_spec := (sSpec OpUndo)\<lparr>sp_skipScaleDownSource := True\<rparr>\<rparr>; i = sInst FsmActive ''west'' ''east'';
       w = sWorld [] i ''west''; step = sStep StepScaleDownTarget StepRunning
   in fst (run_state (executeUndoStep sRec step i op) w) = Inr (True, i) \<and>
      map wl_replicas (w_deploys (snd (run_state (executeUndoStep sRec step i op) w)) ''west'') = [Some 3]"
proof -
  let ?op = "(sOp ''un'' OpUndo [])\<lparr>op_spec := (sSpec OpUndo)\<lparr>sp_skipScaleDownSource := True\<rparr>\<rparr>" and ?i = "sInst FsmActive ''west'' ''east''"
  let ?w = "sWorld [] ?i ''west''" and ?st = "sStep StepScaleDownTarget StepRunning"
  have "shouldSkipScaleDownSource ?op" "st_name ?st = StepScaleDownTarget" by (simp_all add: shouldSkipScaleDownSource_def sStep_def pendingStep_def)
  from undo_skips_scale_down [OF this, of sRec ?i ?w] show ?thesis by (simp add: workloads_def sWorld_def sWorkload_def)
qed

end
