(* ===== verification/OpGroupSync.thy ===== *)
theory OpGroupSync
  imports OpLifecycle
begin

text \<open>
  Operations on groups and manual syncs. A group moves to its next level only when every
  instance of the current one is done; a sync operation completes only when the syncs it
  triggered are ready, and its retries are bounded by its policy.
\<close>

section \<open>Status writes of the handlers\<close>

lemma statI_failOp: "P ((op_status op)\<lparr>os_state := OpFailed, os_message := m\<rparr>) \<Longrightarrow> state_io_rel (statI.keeps k P) (failOp m op)"
  unfolding failOp_def by (intro statI_saveOp) simp

lemma statI_metadataRetry: "state_io_rel (statI.keeps k P) (updateOperationMetadataWithRetry r k' f)"
  unfolding updateOperationMetadataWithRetry_def by (intro statI_rules)

text \<open>The status written on top of the latest one.\<close>

lemma statI_statusRetry:
  assumes "\<And>s. P s \<Longrightarrow> P (f s)"
  shows "state_io_rel (statI.keeps k P) (updateOperationStatusWithRetry r k (setStatus f))"
proof -
  have "state_io_rel (statI.keeps k P) (chk (apiGet opKind k) (\<lambda>latest. chk (apiStatusUpdate opKind (setStatus f latest)) (\<lambda>_. ok ())))"
  proof (rule statI.keeps_wp)
    fix w
    assume I: "statusInv k P w"
    show "wp (chk (apiGet opKind k) (\<lambda>latest. chk (apiStatusUpdate opKind (setStatus f latest)) (\<lambda>_. ok ()))) (\<lambda>_. statusInv k P) w"
      unfolding wp_chk [where m = "apiGet _ _"]
    proof (rule wp_apiGet, goal_cases)
      case (1 e fs)
      then show ?case using statI.inv_faults [OF I] by simp
    next
      case (2 x fs)
      then have "P (op_status (setStatus f x))" using I assms by (auto simp: statusInv_def)
      then have "state_io_rel (statI.keeps k P) (chk (apiStatusUpdate opKind (setStatus f x)) (\<lambda>_. ok ()))"
        by (intro statI_rules statI_opStatus)
      then show ?case unfolding sum.case by (rule statI.wp_keeps [OF _ statI.inv_faults [OF I]])
    qed
  qed
  then show ?thesis unfolding updateOperationStatusWithRetry_def by (rule statI.rel_retry)
qed

section \<open>Groups\<close>

definition childDone :: "string \<Rightarrow> DisasterOperation \<Rightarrow> world \<Rightarrow> string \<Rightarrow> bool" where
  "childDone policy op w inst \<longleftrightarrow>
     (policy = ''Continue'' \<and> lookup instKind w (m_ns (op_meta op), inst) = None) \<or>
     (\<exists>c. lookup opKind w (m_ns (op_meta op), childName op inst) = Some c \<and>
        (os_state (op_status c) = OpCompleted \<or> policy = ''Continue'' \<and> os_state (op_status c) = OpFailed))"

definition completed :: "groupProgress \<Rightarrow> bool" where
  "completed g \<longleftrightarrow> gp_allCompleted g \<and> gp_failed g = None"

definition sameObjs :: "world \<Rightarrow> world \<Rightarrow> bool" where
  "sameObjs w w' \<longleftrightarrow> w_ops w' = w_ops w \<and> w_insts w' = w_insts w"

lemma childDone_same: "sameObjs w w' \<Longrightarrow> childDone policy op w' inst = childDone policy op w inst"
  by (simp add: childDone_def sameObjs_def lookup_def)

lemma groupChild_wp:
  "wp (groupChild r op policy level inst g) (\<lambda>x w'. \<forall>g'. x = Inr g' \<longrightarrow> completed g' \<longrightarrow>
     completed g \<and> sameObjs w w' \<and> childDone policy op w inst) w"
proof (cases "gp_failed g = None")
  case True
  have create: "wp (createChild r op level inst g) (\<lambda>x w'. \<forall>g'. x = Inr g' \<longrightarrow> \<not> completed g') w'" for w'
    unfolding createChild_def using True
    by (auto simp: completed_def split: sum.splits intro!: wp_any [where m = "apiCreate _ _"])
  have nf: "\<not> gp_failed g \<noteq> None" using True by simp
  show ?thesis
    unfolding groupChild_def if_not_P [OF nf] wp_bind
  proof (rule wp_apiGet_notFound, goal_cases)
    case (1 e fs)
    then show ?case by (auto simp: completed_def sameObjs_def childDone_def)
  next
    case (2 i fs)
    show ?case
      unfolding sum.case wp_bind
    proof (rule wp_apiGet_notFound, goal_cases)
      case (1 e gs)
      then show ?case using create [of "w\<lparr>w_faults := gs\<rparr>"] by (auto elim!: wp_mono)
    next
      case (2 c gs)
      then show ?case by (auto simp: childState_def completed_def sameObjs_def childDone_def Let_def split: if_splits)
    qed
  qed
next
  case False
  then show ?thesis by (auto simp: groupChild_def completed_def)
qed

lemma group_loop:
  "wp (forEach (groupChild r op policy level) insts g) (\<lambda>x w'. \<forall>g'. x = Inr g' \<longrightarrow> completed g' \<longrightarrow>
     completed g \<and> sameObjs w w' \<and> (\<forall>inst \<in> set insts. childDone policy op w inst)) w"
proof (induction insts arbitrary: g w)
  case Nil
  then show ?case by (simp add: sameObjs_def)
next
  case (Cons inst insts)
  show ?case
    unfolding forEach.simps
  proof (rule wp_chkI [OF groupChild_wp])
    fix g1 w1
    assume step: "completed g1 \<longrightarrow> completed g \<and> sameObjs w w1 \<and> childDone policy op w inst"
    show "wp (forEach (groupChild r op policy level) insts g1) (\<lambda>x w'. \<forall>g'. x = Inr g' \<longrightarrow> completed g' \<longrightarrow>
        completed g \<and> sameObjs w w' \<and> (\<forall>inst \<in> set (inst # insts). childDone policy op w inst)) w1"
      using step childDone_same [of w w1 policy op] by (intro wp_mono [OF Cons.IH]) (auto simp: sameObjs_def)
  qed
qed

text \<open>Creating a child leaves the operation itself alone.\<close>

lemma statI_create: "opKey x \<noteq> k \<Longrightarrow> state_io_rel (statI.keeps k P) (apiCreate opKind x)"
  by (rule statI.rel_apiCreate)
    (auto simp: statI.keeps_def statusInv_def lookup_def opK.objs_put opK.find_snoc keyOf_def opKey_def opKind_def metaKey_def split: option.splits)

lemma opKey_child: "opKey (newChildOp r op level inst dc) \<noteq> opKey op"
  by (simp add: opKey_def metaKey_def newChildOp_def childName_def opName_def)

lemma statI_groupChild: "state_io_rel (statI.keeps (opKey op) P) (groupChild r op policy level inst g)"
  unfolding groupChild_def createChild_def by (intro statI_rules statI_create opKey_child)

text \<open>What the step of a group operation may become, and when the operation may complete.\<close>

definition groupMoves :: "world \<Rightarrow> DisasterOperation \<Rightarrow> DisasterOperationStatus \<Rightarrow> bool" where
  "groupMoves w op s \<longleftrightarrow>
     (let old = os_currentStep (op_status op); level = currentLevel old in
      (os_currentStep s = old \<or>
       old = [] \<and> os_currentStep s = ''Level-0'' \<or>
       (\<exists>grp. lookup groupKind w (m_ns (op_meta op), sp_groupName (op_spec op)) = Some grp \<and> 0 \<le> level \<and> level < int (length (gr_levels grp)) \<and>
          (\<forall>inst \<in> set (gr_levels grp ! nat level). childDone (gr_failPolicy grp) op w inst) \<and>
          os_currentStep s = ''Level-'' @ dec (level + 1))) \<and>
      (os_state s = OpCompleted \<longrightarrow> os_state (op_status op) = OpCompleted \<or>
        (\<exists>grp. lookup groupKind w (m_ns (op_meta op), sp_groupName (op_spec op)) = Some grp \<and> old \<noteq> [] \<and>
          int (length (gr_levels grp)) \<le> level)))"

lemma groupMoves_same: "os_currentStep s = os_currentStep (op_status op) \<Longrightarrow> os_state s \<noteq> OpCompleted \<or> os_state s = os_state (op_status op) \<Longrightarrow> groupMoves w op s"
  by (auto simp: groupMoves_def Let_def)

lemma group_advances:
  assumes "lookup opKind w (opKey op) = Some op"
  shows "wp (handleGroupOperation r op) (\<lambda>_. statusInv (opKey op) (groupMoves w op)) w"
proof -
  let ?I = "statusInv (opKey op) (groupMoves w op)"
  have I: "?I (w\<lparr>w_faults := fs\<rparr>)" for fs
    using assms by (simp add: statusInv_def groupMoves_same)
  have k: "wp m (\<lambda>_. ?I) w'" if "state_io_rel (statI.keeps (opKey op) (groupMoves w op)) m" "?I w'" for m :: "Result result" and w'
    using statI.wp_keeps [OF that] .
  show ?thesis
    unfolding handleGroupOperation_def wp_bind
  proof (rule wp_apiGet, goal_cases)
    case (1 e fs)
    show ?case unfolding sum.case by (rule k [OF _ I]) (auto intro!: statI_rules statI_failOp groupMoves_same)
  next
    case (2 grp fs)
    let ?level = "currentLevel (os_currentStep (op_status op))"
    let ?g = "\<lparr>gp_allCompleted = True, gp_failed = None, gp_children = []\<rparr>"
    have grp: "lookup groupKind w (m_ns (op_meta op), sp_groupName (op_spec op)) = Some grp" using 2 by simp
    have loop: "wp (chk (forEach (groupChild r op (gr_failPolicy grp) ?level) (gr_levels grp ! nat ?level) ?g) (groupLevelDone r op ?level))
        (\<lambda>_. ?I) (w\<lparr>w_faults := fs\<rparr>)" if l: "\<not> ?level \<ge> int (length (gr_levels grp))" "\<not> ?level < 0"
      unfolding wp_chk
    proof (rule wp_mono [OF wp_conj [OF group_loop statI.wp_keeps [OF statI.rel_forEach I]]], rule statI_groupChild, goal_cases)
      case (1 x w')
      have adv: "groupMoves w op (op_status op\<lparr>os_currentStep := levelPrefix @ dec (?level + 1)\<rparr>)" if "x = Inr g'" "completed g'" for g'
      proof -
        have "\<forall>inst \<in> set (gr_levels grp ! nat ?level). childDone (gr_failPolicy grp) op w inst"
          using 1 that by (simp add: childDone_def)
        then show ?thesis using grp l by (auto simp: groupMoves_def levelPrefix_def Let_def)
      qed
      have "state_io_rel (statI.keeps (opKey op) (groupMoves w op)) (groupLevelDone r op ?level g')" if "x = Inr g'" for g'
        unfolding groupLevelDone_def Let_def
        by (auto split: option.splits intro!: statI_rules statI_saveOp statI_saveOpIgnoring statI_failOp adv [OF that]
            intro: groupMoves_same simp: completed_def)
      then show ?case using 1 k by (cases x) auto
    qed
    have other: "state_io_rel (statI.keeps (opKey op) (groupMoves w op)) (saveOp (setStatus f op) res)"
      if "groupMoves w op (f (op_status op))" for f res
      using that by (intro statI_saveOp) simp
    have first: "groupMoves w op (op_status op\<lparr>os_currentStep := levelPrefix @ ''0''\<rparr>)" if "os_currentStep (op_status op) = []"
      using that by (auto simp: groupMoves_def levelPrefix_def)
    have fin: "groupMoves w op (op_status op\<lparr>os_state := OpCompleted, os_completionTime := t, os_message := m\<rparr>)"
      if "?level \<ge> int (length (gr_levels grp))" "os_currentStep (op_status op) \<noteq> []" for t m
      using that grp by (auto simp: groupMoves_def Let_def)
    show ?case
      unfolding sum.case Let_def
      using loop I by (auto simp del: wp_chk wp_bind intro!: k [OF _ I] statI_rules other first fin)
  qed
qed

text \<open>C38. Safety: a group operation moves from one level to the next only if every instance of the
  level is done, that is, its child operation has completed (or, when the policy of the group
  is to continue, has failed or its instance is missing); it starts at level 0, and it
  completes only past the last level. This holds whatever the API server answers.\<close>

theorem group_advances_after_level:
  assumes "lookup opKind w (opKey op) = Some op"
    and "lookup opKind (snd (run_state (handleGroupOperation r op) w)) (opKey op) = Some op'"
  shows "groupMoves w op (op_status op')"
  using group_advances [OF assms(1), of r] assms(2) by (simp add: wp_snd statusInv_def)

text \<open>A group of one level with one instance, whose child has completed.\<close>

definition sGroup :: DisasterGroup where
  "sGroup = \<lparr>gr_meta = sMeta ''ns'' ''grp'', gr_levels = [[''app'']], gr_failPolicy = ''Fail'',
     gr_status = \<lparr>gs_total = 0, gs_ready = 0, gs_reason = [], gs_message = [], gs_conditions = []\<rparr>\<rparr>"

definition sGroupOp :: DisasterOperation where
  "sGroupOp = (let op = sOp ''go'' OpFailover [] in
     op\<lparr>op_spec := (op_spec op)\<lparr>sp_instanceName := [], sp_groupName := ''grp''\<rparr>,
        op_status := (op_status op)\<lparr>os_currentStep := ''Level-0''\<rparr>\<rparr>)"

definition sChild :: "OperationState \<Rightarrow> DisasterOperation" where
  "sChild st = (let op = sOp ''go-app'' OpFailover [] in op\<lparr>op_status := (op_status op)\<lparr>os_state := st\<rparr>\<rparr>)"

theorem group_advances_after_level_witness:
  "let w = (sWorld [sGroupOp, sChild OpCompleted] (sInst FsmActive ''west'' ''east'') ''west'')\<lparr>w_groups := [sGroup]\<rparr>
   in \<exists>op'. lookup opKind (snd (run_state (handleGroupOperation sRec sGroupOp) w)) (opKey sGroupOp) = Some op' \<and>
        os_currentStep (op_status op') = ''Level-1'' \<and> childDone ''Fail'' sGroupOp w ''app''"
proof -
  let ?w = "(sWorld [sGroupOp, sChild OpCompleted] (sInst FsmActive ''west'' ''east'') ''west'')\<lparr>w_groups := [sGroup]\<rparr>"
  have l: "lookup opKind ?w (opKey sGroupOp) = Some sGroupOp" by code_simp
  have "map_option (\<lambda>o'. os_currentStep (op_status o')) (lookup opKind (snd (run_state (handleGroupOperation sRec sGroupOp) ?w)) (opKey sGroupOp)) =
      Some ''Level-1''" by code_simp
  then obtain op' where op': "lookup opKind (snd (run_state (handleGroupOperation sRec sGroupOp) ?w)) (opKey sGroupOp) = Some op'"
    "os_currentStep (op_status op') = ''Level-1''" by auto
  have g: "lookup groupKind ?w (m_ns (op_meta sGroupOp), sp_groupName (op_spec sGroupOp)) = Some sGroup" by code_simp
  have c: "currentLevel (os_currentStep (op_status sGroupOp)) = 0" "os_currentStep (op_status sGroupOp) = ''Level-0''"
    "gr_levels sGroup = [[''app'']]" "gr_failPolicy sGroup = ''Fail''" by code_simp+
  have "childDone ''Fail'' sGroupOp ?w ''app''"
    using group_advances_after_level [OF l op'(1)] op'(2) g c by (auto simp: groupMoves_def Let_def)
  with op' show ?thesis unfolding Let_def by blast
qed

section \<open>Manual syncs\<close>

text \<open>A sync is done when it has a result of this run and the result is good.\<close>

definition syncDone :: "SyncObject kind \<Rightarrow> world \<Rightarrow> key \<Rightarrow> time option \<Rightarrow> bool" where
  "syncDone K w k triggered \<longleftrightarrow>
     (\<exists>s. lookup K w k = Some s \<and> ss_state (so_status s) = SyncReady \<and> isCurrentSync (so_status s) triggered)"

definition sound :: "syncCheck \<Rightarrow> bool" where
  "sound c \<longleftrightarrow> sc_allReady c \<and> sc_failed c = None"

lemma judgeSync_sound:
  "sound (judgeSync n s t c) \<Longrightarrow> sound c \<and> ss_state (so_status s) = SyncReady \<and> isCurrentSync (so_status s) t"
  by (auto simp: judgeSync_def waitFor_def sound_def Let_def split: if_splits)

lemma waitFor_sound [simp]: "\<not> sound (waitFor m c)" "sc_failed c = Some e \<Longrightarrow> \<not> sound c"
  by (simp_all add: sound_def waitFor_def)

lemma checkDataSync_wp:
  "wp (checkDataSync want inst t c) (\<lambda>c' w'. w_ops w' = w_ops w \<and> w_rs w' = w_rs w \<and> (sound c' \<longrightarrow> sound c \<and>
     (want \<and> is_dataSyncName (in_status inst) \<noteq> [] \<longrightarrow> syncDone dsKind w (instNs inst, is_dataSyncName (in_status inst)) t))) w"
  unfolding checkDataSync_def
  by (auto intro!: wp_apiGet simp: syncDone_def dest: judgeSync_sound)

lemma checkResourceSync_wp:
  "wp (checkResourceSync want inst t c) (\<lambda>c' w'. w_ops w' = w_ops w \<and> (sound c' \<longrightarrow> sound c \<and>
     (want \<and> is_resourceSyncName (in_status inst) \<noteq> [] \<longrightarrow> syncDone rsKind w (instNs inst, is_resourceSyncName (in_status inst)) t))) w"
  unfolding checkResourceSync_def
  by (auto intro!: wp_apiGet simp: syncDone_def dest: judgeSync_sound split: option.splits)

lemma statI_firstTrigger:
  assumes "\<And>m. P ((op_status op)\<lparr>os_message := m\<rparr>)" and "\<And>s m. P s \<Longrightarrow> P (s\<lparr>os_nextRetryTime := None, os_message := m\<rparr>)"
  shows "state_io_rel (statI.keeps (opKey op) P) (syncFirstTrigger r op inst d s)"
  unfolding syncFirstTrigger_def triggerSync_def Let_def
  by (auto intro!: statI_rules statI_saveOp statI_metadataRetry statI_statusRetry assms
      managedF.frame_trigger [THEN statI_exec] simp: managed_def split: sum.splits)

text \<open>What a conclusion writes, by the outcome of the checks.\<close>

lemma statI_conclude:
  assumes "\<And>st t n m. st \<noteq> OpCompleted \<or> sound c \<Longrightarrow> st \<in> {OpFailed, OpCompleted} \<Longrightarrow>
      P ((op_status op)\<lparr>os_state := st, os_completionTime := t, os_nextRetryTime := n, os_message := m\<rparr>)"
    and "\<And>n m. P ((op_status op)\<lparr>os_state := OpFailed, os_nextRetryTime := n, os_message := m\<rparr>)"
    and "\<And>m. P ((op_status op)\<lparr>os_message := m\<rparr>)"
    and "\<And>s t m. shouldRetry op \<Longrightarrow> P s \<Longrightarrow> P (s\<lparr>os_retryCount := os_retryCount (op_status op) + 1, os_nextRetryTime := t, os_message := m\<rparr>)"
  shows "state_io_rel (statI.keeps (opKey op) P) (syncConclude r op inst c)"
  unfolding syncConclude_def syncRetry_def Let_def
  by (auto intro!: statI_rules statI_saveOp statI_saveOpIgnoring statI_metadataRetry statI_statusRetry assms
      simp: sound_def split: option.splits)

definition allSynced :: "reconciler \<Rightarrow> bool \<Rightarrow> bool \<Rightarrow> DisasterOperation \<Rightarrow> world \<Rightarrow> bool" where
  "allSynced r syncData syncResource op w \<longleftrightarrow>
     (let at = mget (m_ann (op_meta op)) triggerKey; t = r_parseTime r at in
      at \<noteq> [] \<and> (\<exists>inst. lookup instKind w (m_ns (op_meta op), sp_instanceName (op_spec op)) = Some inst \<and>
        (syncData \<and> is_dataSyncName (in_status inst) \<noteq> [] \<longrightarrow> syncDone dsKind w (instNs inst, is_dataSyncName (in_status inst)) t) \<and>
        (syncResource \<and> is_resourceSyncName (in_status inst) \<noteq> [] \<longrightarrow> syncDone rsKind w (instNs inst, is_resourceSyncName (in_status inst)) t)))"

lemma sync_status:
  assumes "lookup opKind w (opKey op) = Some op" and "P (op_status op)"
    and "\<And>st t n m. st \<noteq> OpCompleted \<or> allSynced r d s op w \<Longrightarrow> st \<in> {OpFailed, OpCompleted} \<Longrightarrow>
      P ((op_status op)\<lparr>os_state := st, os_completionTime := t, os_nextRetryTime := n, os_message := m\<rparr>)"
    and "\<And>n m. P ((op_status op)\<lparr>os_state := OpFailed, os_nextRetryTime := n, os_message := m\<rparr>)"
    and "\<And>m. P ((op_status op)\<lparr>os_state := OpFailed, os_message := m\<rparr>)"
    and "\<And>m. P ((op_status op)\<lparr>os_message := m\<rparr>)"
    and "\<And>s t m. shouldRetry op \<Longrightarrow> P s \<Longrightarrow> P (s\<lparr>os_retryCount := os_retryCount (op_status op) + 1, os_nextRetryTime := t, os_message := m\<rparr>)"
    and "\<And>s m. P s \<Longrightarrow> P (s\<lparr>os_nextRetryTime := None, os_message := m\<rparr>)"
  shows "wp (handleSync r d s op) (\<lambda>_. statusInv (opKey op) P) w"
proof -
  let ?I = "statusInv (opKey op) P"
  have I: "?I w'" if "w_ops w' = w_ops w" for w'
    using assms(1,2) lookup_ops_cong [OF that] by (simp add: statusInv_def)
  have k: "wp m (\<lambda>_. ?I) w'" if "w_ops w' = w_ops w" "state_io_rel (statI.keeps (opKey op) P) m" for m :: "Result result" and w'
    using statI.wp_keeps [OF that(2) I [OF that(1)]] .
  show ?thesis
    unfolding handleSync_def wp_bind
  proof (rule wp_apiGet, goal_cases)
    case (1 e fs)
    show ?case unfolding sum.case by (rule k) (auto intro!: statI_failOp assms)
  next
    case (2 inst fs)
    let ?at = "mget (m_ann (op_meta op)) triggerKey"
    let ?c = "\<lparr>sc_allReady = True, sc_pending = [], sc_failed = None\<rparr>"
    have i: "lookup instKind w (m_ns (op_meta op), sp_instanceName (op_spec op)) = Some inst" using 2 by simp
    have checks: "wp (checkDataSync d inst (r_parseTime r ?at) ?c) (\<lambda>c1. wp (checkResourceSync s inst (r_parseTime r ?at) c1)
        (\<lambda>c2. wp (syncConclude r op inst c2) (\<lambda>_. ?I))) (w\<lparr>w_faults := fs\<rparr>)" if at: "?at \<noteq> []"
    proof (rule wp_mono [OF checkDataSync_wp], rule wp_mono [OF checkResourceSync_wp], goal_cases)
      case (1 c1 w1 c2 w2)
      have "syncDone rsKind w1 x t = syncDone rsKind w x t" for x t
        using 1 by (simp add: syncDone_def lookup_def)
      then have "sound c2 \<Longrightarrow> allSynced r d s op w" using 1 i at by (auto simp: allSynced_def syncDone_def Let_def)
      then show ?case using 1 by (intro k statI_conclude assms) auto
    qed
    show ?case
      unfolding sum.case Let_def using checks [unfolded wp_bind [symmetric]]
      by (auto split: option.splits intro!: k statI_firstTrigger assms I simp del: wp_bind)
  qed
qed

text \<open>C39. Safety: a sync operation is recorded as completed only if it had recorded its trigger and its instance exists, and of the
  requested data and resource syncs each one that the instance names exists, is ready, and has a last result, which is
  at least as new as the trigger when the recorded trigger can be parsed. (A requested sync the instance does not name is not waited for.)\<close>

theorem sync_completes_only_when_synced:
  assumes "lookup opKind w (opKey op) = Some op" and "os_state (op_status op) \<noteq> OpCompleted"
    and "lookup opKind (snd (run_state (handleSync r syncData syncResource op) w)) (opKey op) = Some op'"
    and "os_state (op_status op') = OpCompleted"
  shows "allSynced r syncData syncResource op w"
proof -
  let ?P = "\<lambda>s. os_state s = OpCompleted \<longrightarrow> allSynced r syncData syncResource op w"
  have "wp (handleSync r syncData syncResource op) (\<lambda>_. statusInv (opKey op) ?P) w"
    by (rule sync_status [OF assms(1)]) (use assms(2) in auto)
  with assms(3,4) show ?thesis by (simp add: wp_snd statusInv_def)
qed

theorem sync_completes_only_when_synced_witness:
  "let op = setAnn triggerKey ''now'' (sOp ''sy'' OpSyncOnce []);
       w = sWorld [op] (sInst FsmProtected ''east'' ''west'') ''east'';
       w' = snd (run_state (handleSync sRec True True op) w)
   in (\<exists>op'. lookup opKind w' (opKey op) = Some op' \<and> os_state (op_status op') = OpCompleted) \<and> allSynced sRec True True op w"
proof -
  let ?op = "setAnn triggerKey ''now'' (sOp ''sy'' OpSyncOnce [])"
  let ?w = "sWorld [?op] (sInst FsmProtected ''east'' ''west'') ''east''"
  let ?v = "snd (run_state (handleSync sRec True True ?op) ?w)"
  have l: "lookup opKind ?w (opKey ?op) = Some ?op" by code_simp
  have n: "os_state (op_status ?op) \<noteq> OpCompleted" by code_simp
  have "map_option (\<lambda>o'. os_state (op_status o')) (lookup opKind ?v (opKey ?op)) = Some OpCompleted" by code_simp
  then obtain op' where op': "lookup opKind ?v (opKey ?op) = Some op'" "os_state (op_status op') = OpCompleted" by auto
  from sync_completes_only_when_synced [OF l n op'] op' show ?thesis unfolding Let_def by blast
qed

text \<open>An instance that names no syncs completes a requested sync with nothing synced, and with a trigger that cannot be parsed
  an old result completes it.\<close>

lemma sync_of_nothing_completes:
  "let op = setAnn triggerKey ''now'' (sOp ''sy'' OpSyncOnce []); i = sInst FsmProtected ''east'' ''west'';
       w = sWorld [op] (i\<lparr>in_status := (in_status i)\<lparr>is_dataSyncName := [], is_resourceSyncName := []\<rparr>\<rparr>) ''east'' in
   map_option (\<lambda>o'. os_state (op_status o')) (lookup opKind (snd (run_state (handleSync sRec True True op) w)) (opKey op)) = Some OpCompleted"
  by code_simp

lemma unreadable_trigger_accepts_old_result:
  "let op = setAnn triggerKey ''soon'' (sOp ''sy'' OpSyncOnce []); w = sWorld [op] (sInst FsmProtected ''east'' ''west'') ''east'' in
   r_parseTime sRec ''soon'' = None \<and>
   map_option (\<lambda>o'. os_state (op_status o')) (lookup opKind (snd (run_state (handleSync sRec True True op) w)) (opKey op)) = Some OpCompleted"
  by code_simp


definition retriesBounded :: "DisasterOperation \<Rightarrow> DisasterOperationStatus \<Rightarrow> bool" where
  "retriesBounded op s \<longleftrightarrow> os_retryCount s \<le> (case sp_retryPolicy (op_spec op) of None \<Rightarrow> 0 | Some p \<Rightarrow> max 0 (maxRetries p))"

text \<open>C40. Bounds: the retries of a sync operation never exceed the maximum of its policy (none without one),
  whatever the API server answers.\<close>

theorem sync_retries_bounded:
  assumes "lookup opKind w (opKey op) = Some op" and "retriesBounded op (op_status op)"
    and "lookup opKind (snd (run_state (handleSync r syncData syncResource op) w)) (opKey op) = Some op'"
  shows "retriesBounded op (op_status op')"
proof -
  have "retriesBounded op (s\<lparr>os_retryCount := os_retryCount (op_status op) + 1, os_nextRetryTime := t, os_message := m\<rparr>)"
    if "shouldRetry op" for s t m
    using that by (auto simp: retriesBounded_def shouldRetry_def split: option.splits if_splits)
  then have "wp (handleSync r syncData syncResource op) (\<lambda>_. statusInv (opKey op) (retriesBounded op)) w"
    by (intro sync_status [OF assms(1)]) (use assms(2) in \<open>auto simp: retriesBounded_def\<close>)
  with assms(3) show ?thesis by (simp add: wp_snd statusInv_def)
qed

text \<open>The resource sync failed and both retries are used up.\<close>

definition sRetryOp :: DisasterOperation where
  "sRetryOp = (let op = setAnn triggerKey ''now'' (sOp ''sy'' OpSyncOnce []) in
     op\<lparr>op_spec := (op_spec op)\<lparr>sp_retryPolicy := Some \<lparr>maxRetries = 2, retryIntervalSeconds = 10\<rparr>\<rparr>,
        op_status := (op_status op)\<lparr>os_retryCount := 2\<rparr>\<rparr>)"

definition sRetryWorld :: world where
  "sRetryWorld = (let s = sSync ''dr-rs-app'' False in
     (sWorld [sRetryOp] (sInst FsmProtected ''east'' ''west'') ''east'')\<lparr>w_rs := [s\<lparr>so_status := (so_status s)\<lparr>ss_state := SyncFailed\<rparr>\<rparr>]\<rparr>)"

theorem sync_retries_bounded_witness:
  "\<exists>op'. lookup opKind (snd (run_state (handleSync sRec True True sRetryOp) sRetryWorld)) (opKey sRetryOp) = Some op' \<and>
     os_retryCount (op_status op') = 2 \<and> os_state (op_status op') = OpFailed \<and> retriesBounded sRetryOp (op_status op')"
proof -
  let ?v = "snd (run_state (handleSync sRec True True sRetryOp) sRetryWorld)"
  have l: "lookup opKind sRetryWorld (opKey sRetryOp) = Some sRetryOp" by code_simp
  have n: "retriesBounded sRetryOp (op_status sRetryOp)" by code_simp
  have "map_option (\<lambda>o'. (os_retryCount (op_status o'), os_state (op_status o'))) (lookup opKind ?v (opKey sRetryOp)) = Some (2, OpFailed)" by code_simp
  then obtain op' where op': "lookup opKind ?v (opKey sRetryOp) = Some op'" "os_retryCount (op_status op') = 2" "os_state (op_status op') = OpFailed"
    by auto
  from sync_retries_bounded [OF l n op'(1)] op' show ?thesis by blast
qed

end
