(* ===== verification/InstCore.thy ===== *)
theory InstCore
  imports OpReconcile
begin

text \<open>
  The decisions of the instance controller (\<open>disasterinstance/controller.go\<close> and
  \<open>role_drift.go\<close>): which operations an instance offers, what counts as a recoverable sync
  failure, the view of an instance's operations that the watchdog takes, and the comparison
  of the recorded roles with the replicas that really run in the two clusters.
\<close>

section \<open>The reconciler\<close>

text \<open>
  The runtime settings, and the library functions the controller calls on metadata and
  conditions: setting a condition, setting the controller reference of an object, and the
  predicate of a label selector.
\<close>

record instReconciler =
  ir_base :: reconciler
  ir_transitionWatchdogTimeout :: duration
  ir_minTransitionWatchdogTimeout :: duration
  ir_initializingRequeue :: duration
  ir_steadyRequeue :: duration
  ir_failedRequeue :: duration
  ir_setCondition :: "Condition \<Rightarrow> Condition list \<Rightarrow> Condition list"
  ir_setController :: "ObjectMeta \<Rightarrow> ObjectMeta \<Rightarrow> err + ObjectMeta"
  ir_selector :: "LabelSelector \<Rightarrow> err + (smap \<Rightarrow> bool)"

section \<open>Operations an instance offers\<close>

definition protectedOps :: "string list" where
  "protectedOps = [''failover'', ''pause'', ''synconce'', ''syncdata'', ''syncresource'']"

definition activeOps :: "string list" where
  "activeOps = [''reprotect'', ''undo'']"

definition containsOperation :: "string list \<Rightarrow> string \<Rightarrow> bool" where
  "containsOperation ops o' \<longleftrightarrow> list_ex (\<lambda>x. x = o') ops"

definition appendOperation :: "string list \<Rightarrow> string \<Rightarrow> string list" where
  "appendOperation ops o' = (if containsOperation ops o' then ops else ops @ [o'])"

definition isRecoverableSyncFailureReason :: "string \<Rightarrow> bool" where
  "isRecoverableSyncFailureReason reason \<longleftrightarrow>
     List.member [''DataSyncFailed'', ''ResourceSyncFailed'', ''InitializationFailed'', ''BackupFailed'',
       ''BuildRestoreSpecFailed'', ''RestoreFailed'', ''DependencyFailed'', ''StorageUnavailable''] (trimSpace reason)"

definition syncFailed :: "SyncObject option \<Rightarrow> bool" where
  "syncFailed s = (case s of None \<Rightarrow> False | Some s \<Rightarrow> ss_state (so_status s) = SyncFailed)"

definition syncFailureAvailableOperations :: "string \<Rightarrow> SyncObject option \<Rightarrow> SyncObject option \<Rightarrow> string list" where
  "syncFailureAvailableOperations reason ds rs =
     (let ops = [''reset''] in
      if \<not> isRecoverableSyncFailureReason reason then ops
      else let ops1 = (if syncFailed ds then appendOperation ops ''syncdata'' else ops);
               ops2 = (if syncFailed rs then appendOperation ops1 ''syncresource'' else ops1) in
        if length ops2 > 1 then ops2
        else if trimSpace reason = ''DataSyncFailed'' then appendOperation ops2 ''syncdata''
        else if trimSpace reason = ''ResourceSyncFailed'' then appendOperation ops2 ''syncresource''
        else appendOperation (appendOperation ops2 ''syncdata'') ''syncresource'')"

section \<open>Reasons of a failure\<close>

definition orElse :: "string \<Rightarrow> string \<Rightarrow> string" where
  "orElse s d = (if s = [] then d else s)"

definition deriveInstanceInitializationFailure :: "SyncObject option \<Rightarrow> SyncObject option \<Rightarrow> string \<times> string" where
  "deriveInstanceInitializationFailure ds rs =
     (case (if syncFailed ds then ds else None) of
        Some d \<Rightarrow> (orElse (ss_reason (so_status d)) ''DataSyncFailed'',
                  orElse (ss_message (so_status d)) ''initialization failed: data sync failed'')
      | None \<Rightarrow>
          (case (if syncFailed rs then rs else None) of
             Some s \<Rightarrow> (orElse (ss_reason (so_status s)) ''ResourceSyncFailed'',
                       orElse (ss_message (so_status s)) ''initialization failed: resource sync failed'')
           | None \<Rightarrow> (''InitializationFailed'', ''initialization failed'')))"

definition deriveInstanceSteadyFailure :: "SyncObject option \<Rightarrow> SyncObject option \<Rightarrow> string \<times> string" where
  "deriveInstanceSteadyFailure ds rs =
     (case (if syncFailed ds then ds else None) of
        Some d \<Rightarrow> (orElse (trimSpace (ss_reason (so_status d))) ''DataSyncFailed'',
                  orElse (trimSpace (ss_message (so_status d))) ''data sync failed'')
      | None \<Rightarrow>
          (case (if syncFailed rs then rs else None) of
             Some s \<Rightarrow> (orElse (trimSpace (ss_reason (so_status s))) ''ResourceSyncFailed'',
                       orElse (trimSpace (ss_message (so_status s))) ''resource sync failed'')
           | None \<Rightarrow> ([], [])))"

definition applyFailedStateFromOperation :: "DisasterOperation \<Rightarrow> string \<Rightarrow> string \<Rightarrow> DisasterInstance \<Rightarrow> DisasterInstance" where
  "applyFailedStateFromOperation op defaultReason defaultMessage i =
     setStatusError (orElse (trimSpace (os_reason (op_status op))) defaultReason)
       (orElse (trimSpace (os_message (op_status op))) defaultMessage) i"

section \<open>Policies\<close>

definition effectiveDataSyncPolicyName :: "DisasterInstance \<Rightarrow> DisasterConfig \<Rightarrow> string" where
  "effectiveDataSyncPolicyName i c =
     (if trimSpace (di_dataSyncPolicy (in_spec i)) \<noteq> [] then trimSpace (di_dataSyncPolicy (in_spec i))
      else trimSpace (cfg_dataSyncPolicy c))"

definition effectiveResourceSyncPolicyName :: "DisasterInstance \<Rightarrow> DisasterConfig \<Rightarrow> string" where
  "effectiveResourceSyncPolicyName i c =
     (if trimSpace (di_resourceSyncPolicy (in_spec i)) \<noteq> [] then trimSpace (di_resourceSyncPolicy (in_spec i))
      else trimSpace (cfg_resourceSyncPolicy c))"

section \<open>The watchdog of a transition\<close>

text \<open>Go's zero time is \<open>None\<close>; \<open>afterTime a b\<close> is \<open>a.After(b)\<close>.\<close>

fun afterTime :: "time option \<Rightarrow> time option \<Rightarrow> bool" where
  "afterTime None _ = False"
| "afterTime (Some a) None = True"
| "afterTime (Some a) (Some b) = (a > b)"

definition operationProgressTime :: "DisasterOperation \<Rightarrow> time option" where
  "operationProgressTime op =
     (case os_completionTime (op_status op) of Some t \<Rightarrow> Some t
      | None \<Rightarrow> (case os_startTime (op_status op) of Some t \<Rightarrow> Some t | None \<Rightarrow> m_creation (op_meta op)))"

definition isOperationInFlight :: "OperationState \<Rightarrow> bool" where
  "isOperationInFlight s \<longleftrightarrow> s = OpStateNone \<or> s = OpPending \<or> s = OpRunning"

record operationWatchdogSnapshot =
  ws_runningCount :: int
  ws_latestObserved :: "time option"
  ws_latestTerminal :: "DisasterOperation option"

definition observeOperation :: "DisasterInstance \<Rightarrow> OperationType \<Rightarrow> operationWatchdogSnapshot \<Rightarrow> DisasterOperation \<Rightarrow> operationWatchdogSnapshot" where
  "observeOperation i ty s op =
     (if sp_instanceName (op_spec op) \<noteq> instName i \<or> sp_operationType (op_spec op) \<noteq> ty then s
      else let at = operationProgressTime op;
               s1 = (if afterTime at (ws_latestObserved s) then s\<lparr>ws_latestObserved := at\<rparr> else s);
               st = os_state (op_status op) in
        if isOperationInFlight st then s1\<lparr>ws_runningCount := ws_runningCount s1 + 1\<rparr>
        else if st \<noteq> OpCompleted \<and> st \<noteq> OpFailed then s1
        else (case ws_latestTerminal s1 of
                None \<Rightarrow> s1\<lparr>ws_latestTerminal := Some op\<rparr>
              | Some l \<Rightarrow> if afterTime at (operationProgressTime l) then s1\<lparr>ws_latestTerminal := Some op\<rparr> else s1))"

definition snapshotOf :: "DisasterInstance \<Rightarrow> OperationType \<Rightarrow> DisasterOperation list \<Rightarrow> operationWatchdogSnapshot" where
  "snapshotOf i ty ops =
     (let s = foldl (observeOperation i ty) \<lparr>ws_runningCount = 0, ws_latestObserved = None, ws_latestTerminal = None\<rparr> ops in
      if ws_latestObserved s = None then s\<lparr>ws_latestObserved := m_creation (in_meta i)\<rparr> else s)"

definition collectOperationWatchdogSnapshot :: "DisasterInstance \<Rightarrow> OperationType \<Rightarrow> operationWatchdogSnapshot result" where
  "collectOperationWatchdogSnapshot i ty = chk (apiList opKind (instNs i)) (\<lambda>ops. ok (snapshotOf i ty ops))"

definition transitionWatchdogTimeout :: "instReconciler \<Rightarrow> DisasterInstance \<Rightarrow> duration" where
  "transitionWatchdogTimeout r i =
     (let t = (if di_operationTimeoutMinutes (in_spec i) > 0 then minutes (di_operationTimeoutMinutes (in_spec i))
               else ir_transitionWatchdogTimeout r) in
      if t < ir_minTransitionWatchdogTimeout r then ir_minTransitionWatchdogTimeout r else t)"

definition transitionWatchdogExceeded :: "instReconciler \<Rightarrow> DisasterInstance \<Rightarrow> time option \<Rightarrow> bool" where
  "transitionWatchdogExceeded r i latest =
     (case latest of None \<Rightarrow> False | Some t \<Rightarrow> since (r_now (ir_base r)) t \<ge> transitionWatchdogTimeout r i)"

definition failoverFailedStep :: "DisasterOperation \<Rightarrow> string" where
  "failoverFailedStep op =
     (case find (\<lambda>s. st_state s = StepFailed \<and> st_name s \<noteq> []) (os_steps (op_status op)) of
        Some s \<Rightarrow> st_name s | None \<Rightarrow> os_currentStep (op_status op))"

definition failoverRecoveredByAutoCancel :: "DisasterOperation \<Rightarrow> bool" where
  "failoverRecoveredByAutoCancel op \<longleftrightarrow> os_acTriggered (op_status op) \<and> os_acStatus (op_status op) = AcSucceeded"

definition shouldRollbackFailoverStepToProtected :: "string \<Rightarrow> bool" where
  "shouldRollbackFailoverStepToProtected n \<longleftrightarrow> n = StepPreCheck \<or> n = StepPauseSchedules \<or> n = StepFinalSync"

section \<open>Role drift\<close>

datatype sampledClusterRole = RoleActive | RoleStandby | RoleUnknown

fun sampledRoleString :: "sampledClusterRole \<Rightarrow> string" where
  "sampledRoleString RoleActive = ''Active''"
| "sampledRoleString RoleStandby = ''Standby''"
| "sampledRoleString RoleUnknown = ''Unknown''"

record clusterReplicaSample =
  cs_clusterName :: string
  cs_role :: sampledClusterRole
  cs_workloadCount :: int
  cs_nonZero :: int
  cs_zero :: int
  cs_desiredTotal :: int

text \<open>The total is an \<open>int32\<close> and wraps.\<close>

definition wrap32 :: "int \<Rightarrow> int" where
  "wrap32 i = (i + 2 ^ 31) mod 2 ^ 32 - 2 ^ 31"

definition addWorkload :: "int \<Rightarrow> clusterReplicaSample \<Rightarrow> clusterReplicaSample" where
  "addWorkload n s =
     (let s1 = s\<lparr>cs_workloadCount := cs_workloadCount s + 1, cs_desiredTotal := wrap32 (cs_desiredTotal s + n)\<rparr> in
      if n > 0 then s1\<lparr>cs_nonZero := cs_nonZero s1 + 1\<rparr> else s1\<lparr>cs_zero := cs_zero s1 + 1\<rparr>)"

definition sampleReplicas :: "Workload \<Rightarrow> int" where
  "sampleReplicas d = (case wl_replicas d of None \<Rightarrow> 1 | Some n \<Rightarrow> n)"

definition addWorkloads :: "Workload list \<Rightarrow> clusterReplicaSample \<Rightarrow> clusterReplicaSample" where
  "addWorkloads ds s = foldl (\<lambda>s d. addWorkload (sampleReplicas d) s) s ds"

text \<open>What the list options select: the namespace unless blank, and the labels.\<close>

definition roleDriftListOptions :: "instReconciler \<Rightarrow> DisasterInstance \<Rightarrow> string \<Rightarrow> err + (Workload \<Rightarrow> bool)" where
  "roleDriftListOptions r i ns =
     (let inNs = (\<lambda>d. trimSpace ns = [] \<or> m_ns (wl_meta d) = ns) in
      case di_labelSelector (in_spec i) of
        None \<Rightarrow> Inr inNs
      | Some sel \<Rightarrow> (case ir_selector r sel of Inl e \<Rightarrow> Inl e | Inr p \<Rightarrow> Inr (\<lambda>d. inNs d \<and> p (m_labels (wl_meta d)))))"

definition sampledRole :: "clusterReplicaSample \<Rightarrow> sampledClusterRole" where
  "sampledRole s = (if cs_workloadCount s = 0 then RoleUnknown else if cs_nonZero s > 0 then RoleActive else RoleStandby)"

definition GetKubeClientSet :: "string \<Rightarrow> unit result" where
  "GetKubeClientSet c =
     chk (apiGet clusterKind ([], c)) (\<lambda>cl.
     chk (if cl_kubeConfig cl \<noteq> [] \<or> (cl_token cl \<noteq> [] \<and> cl_endpoint cl \<noteq> []) then extCall
          else fail (errorf ''neither kubeconfig nor token/endpoint provided'')) (\<lambda>_. extCall))"

definition sampleNamespace :: "instReconciler \<Rightarrow> DisasterInstance \<Rightarrow> string \<Rightarrow> string \<Rightarrow> clusterReplicaSample \<Rightarrow> clusterReplicaSample result" where
  "sampleNamespace r i c ns s =
     (case roleDriftListOptions r i ns of
        Inl e \<Rightarrow> fail e
      | Inr p \<Rightarrow>
          chk (apiListRaw (k_objs (deployKind c)) p) (\<lambda>ds.
          chk (apiListRaw (k_objs (stsKind c)) p) (\<lambda>ss. ok (addWorkloads ss (addWorkloads ds s)))))"

definition sampleClusterReplicaRole :: "instReconciler \<Rightarrow> DisasterInstance \<Rightarrow> string \<Rightarrow> clusterReplicaSample result" where
  "sampleClusterReplicaRole r i c =
     chk (GetKubeClientSet c) (\<lambda>_.
     chk (forEach (sampleNamespace r i c) (if di_namespaces (in_spec i) = [] then [[]] else di_namespaces (in_spec i))
            \<lparr>cs_clusterName = c, cs_role = RoleUnknown, cs_workloadCount = 0, cs_nonZero = 0, cs_zero = 0, cs_desiredTotal = 0\<rparr>)
       (\<lambda>s. ok (s\<lparr>cs_role := sampledRole s\<rparr>)))"

definition formatClusterReplicaSample :: "clusterReplicaSample \<Rightarrow> string" where
  "formatClusterReplicaSample s =
     ''role='' @ sampledRoleString (cs_role s) @ '' workloads='' @ dec (cs_workloadCount s) @ '' nonZeroWorkloads='' @
     dec (cs_nonZero s) @ '' zeroWorkloads='' @ dec (cs_zero s) @ '' desiredReplicas='' @ dec (cs_desiredTotal s)"

text \<open>The samples themselves, which the code keeps in the evaluation, are read only by tests.\<close>

record roleDriftEvaluation =
  rd_status :: ConditionStatus
  rd_reason :: string
  rd_message :: string
  rd_hardFailure :: bool

definition judgeRoles :: "string \<Rightarrow> string \<Rightarrow> clusterReplicaSample \<Rightarrow> clusterReplicaSample \<Rightarrow> roleDriftEvaluation" where
  "judgeRoles p s ps ss =
     (let m = ''expectedPrimary='' @ p @ '' '' @ formatClusterReplicaSample ps @ ''; expectedSecondary='' @ s @ '' '' @
              formatClusterReplicaSample ss in
      case (cs_role ps, cs_role ss) of
        (RoleActive, RoleStandby) \<Rightarrow>
          \<lparr>rd_status = ConditionFalse, rd_reason = ''ExpectedRoleMatched'', rd_message = m, rd_hardFailure = False\<rparr>
      | (RoleActive, RoleActive) \<Rightarrow>
          \<lparr>rd_status = ConditionFalse, rd_reason = ''BothActiveObserved'', rd_message = m @
             ''; both clusters have non-zero replicas, which is recorded as dual-active observation and is not treated as hard role drift'',
            rd_hardFailure = False\<rparr>
      | (RoleStandby, RoleActive) \<Rightarrow>
          \<lparr>rd_status = ConditionTrue, rd_reason = ''RoleReversed'', rd_message = m @
             ''; expected primary is scaled to zero while expected secondary has non-zero replicas'', rd_hardFailure = True\<rparr>
      | (RoleStandby, RoleStandby) \<Rightarrow>
          \<lparr>rd_status = ConditionTrue, rd_reason = ''BothStandby'', rd_message = m @ ''; both clusters are scaled to zero'',
            rd_hardFailure = True\<rparr>
      | _ \<Rightarrow>
          \<lparr>rd_status = ConditionUnknown, rd_reason = ''NoWorkloadObserved'', rd_message =
             ''cannot evaluate role drift because sampled workloads are incomplete: '' @ m, rd_hardFailure = False\<rparr>)"

definition errOr :: "err + 'a \<Rightarrow> string" where
  "errOr x = (case x of Inl e \<Rightarrow> err_text e | Inr _ \<Rightarrow> ''<nil>'')"

definition evaluateRoleDrift :: "instReconciler \<Rightarrow> DisasterInstance \<Rightarrow> roleDriftEvaluation action" where
  "evaluateRoleDrift r i =
     (let p = trimSpace (is_primaryCluster (in_status i)); s = trimSpace (is_secondaryCluster (in_status i)) in
      if p = [] \<or> s = [] then
        ret \<lparr>rd_status = ConditionUnknown, rd_reason = ''CheckFailed'', rd_message =
           ''cannot evaluate role drift because expected primary/secondary is incomplete: primary='' @ goQuote p @ '' secondary='' @ goQuote s,
           rd_hardFailure = False\<rparr>
      else do {
        ps \<leftarrow> sampleClusterReplicaRole r i p;
        ss \<leftarrow> sampleClusterReplicaRole r i s;
        ret (case (ps, ss) of
               (Inr a, Inr b) \<Rightarrow> judgeRoles p s a b
             | _ \<Rightarrow> \<lparr>rd_status = ConditionUnknown, rd_reason = ''CheckFailed'', rd_message =
                      ''failed to evaluate role drift: primary='' @ p @ '' err='' @ errOr ps @ '' secondary='' @ s @ '' err='' @ errOr ss,
                      rd_hardFailure = False\<rparr>)
      })"

definition applyRoleDriftCondition :: "instReconciler \<Rightarrow> roleDriftEvaluation \<Rightarrow> DisasterInstance \<Rightarrow> DisasterInstance" where
  "applyRoleDriftCondition r e i =
     i\<lparr>in_status := (in_status i)\<lparr>is_conditions := ir_setCondition r
         \<lparr>c_type = ''RoleDrift'', c_status = rd_status e, c_reason = rd_reason e, c_message = rd_message e,
           c_ltt = r_now (ir_base r), c_observedGeneration = m_generation (in_meta i)\<rparr> (is_conditions (in_status i))\<rparr>\<rparr>"

end
