(* ===== verification/InstController.thy ===== *)
theory InstController
  imports InstCore
begin

text \<open>
  The instance controller (\<open>disasterinstance/controller.go\<close>): the state machine that takes an
  instance from its creation to the protected state, watches its syncs, its configuration and
  the replicas in its clusters, and settles a transition whose operation has ended. The
  handlers are actions over the same \<open>world\<close> as those of the operation controller.
\<close>

section \<open>Helpers\<close>

definition finalizerName :: string where
  "finalizerName = ''testudo.softcdata.com/disasterinstance-finalizer''"

definition saveInst :: "DisasterInstance \<Rightarrow> Result \<Rightarrow> Result result" where
  "saveInst i res = chk (apiStatusUpdate instKind i) (\<lambda>_. ok res)"

definition setOps :: "string list \<Rightarrow> DisasterInstance \<Rightarrow> DisasterInstance" where
  "setOps ops i = i\<lparr>in_status := (in_status i)\<lparr>is_availableOperations := ops\<rparr>\<rparr>"

definition setSyncTimes :: "time option \<Rightarrow> time option \<Rightarrow> DisasterInstance \<Rightarrow> DisasterInstance" where
  "setSyncTimes d s i = i\<lparr>in_status := (in_status i)\<lparr>is_lastDataSyncTime := d, is_lastResourceSyncTime := s\<rparr>\<rparr>"

definition setRoles :: "RoleStatus option \<Rightarrow> DisasterInstance \<Rightarrow> DisasterInstance" where
  "setRoles rs i = (case rs of None \<Rightarrow> i
     | Some x \<Rightarrow> i\<lparr>in_status := (in_status i)\<lparr>is_primaryCluster := role_primary x, is_secondaryCluster := role_secondary x\<rparr>\<rparr>)"

text \<open>The status is written on top of the latest one, unless the change turns out to be void.\<close>

definition updateInstanceStatusWithRetry :: "instReconciler \<Rightarrow> DisasterInstance \<Rightarrow> (DisasterInstance \<Rightarrow> DisasterInstance option) \<Rightarrow> unit result" where
  "updateInstanceStatusWithRetry r i mutate = retryOnConflict (r_retrySteps (ir_base r))
     (chk (apiGet instKind (instKey i)) (\<lambda>latest.
        case mutate latest of None \<Rightarrow> ok () | Some x \<Rightarrow> chk (apiStatusUpdate instKind x) (\<lambda>_. ok ())))"

section \<open>The sync objects of an instance\<close>

definition freshSync :: "DisasterInstance \<Rightarrow> string \<Rightarrow> SyncObject" where
  "freshSync i n = \<lparr>so_meta = \<lparr>m_ns = instNs i, m_name = n, m_uid = [], m_rv = 0, m_ann = [], m_labels = [], m_owners = [],
       m_finalizers = [], m_deletion = None, m_creation = None, m_generation = 0\<rparr>,
     so_spec = \<lparr>ss_instance = [], ss_trigger = \<lparr>tr_schedule = [], tr_manual = []\<rparr>, ss_paused = False, ss_standbyModifier = None, ss_trafficless = None\<rparr>,
     so_status = \<lparr>ss_state = SyncNone, ss_reason = [], ss_message = [], ss_lastSyncTime = None, ss_lastBackupName = [], ss_lastRestoreName = [], ss_history = [], ss_conditions = [],
       ss_lastClusterRestoreName = [], ss_clusterRestoreStatus = PhaseNone, ss_lastNamespaceRestoreName = [], ss_namespaceRestoreStatus = PhaseNone\<rparr>\<rparr>"

definition ownSync :: "instReconciler \<Rightarrow> DisasterInstance \<Rightarrow> string \<Rightarrow> SyncObject \<Rightarrow> err + SyncObject" where
  "ownSync r i relation s =
     (let trace = mget (m_ann (in_meta i)) annTraceID;
          m = so_meta s;
          m1 = (if trace \<noteq> [] then m\<lparr>m_ann := mput (m_ann m) annTraceID trace\<rparr> else m);
          m2 = m1\<lparr>m_labels := fst (EnsureCleanupLabels (r_sha256hex (ir_base r)) (m_labels m1)
                  \<lparr>cd_ownerUID = m_uid (in_meta i), cd_relationCode = relation, cd_strategy = ''owner_reference''\<rparr>)\<rparr>
      in case ir_setController r (in_meta i) m2 of
           Inl e \<Rightarrow> Inl e
         | Inr m3 \<Rightarrow> Inr (s\<lparr>so_meta := m3, so_spec := (so_spec s)\<lparr>ss_instance := instName i\<rparr>\<rparr>))"

definition defaultStandby :: "SyncObject \<Rightarrow> SyncObject" where
  "defaultStandby s = (if ss_standbyModifier (so_spec s) = None
     then s\<lparr>so_spec := (so_spec s)\<lparr>ss_standbyModifier := Some \<lparr>sm_scaleToZero = True,
            sm_originalReplicaAnnotation = ''testudo.softcdata.com/original-replica-count''\<rparr>\<rparr>\<rparr>
     else s)"

text \<open>The schedule of a policy, empty when it is disabled; or the time to wait for the policy to exist.\<close>

definition resolveScheduleFromPolicy :: "DisasterInstance \<Rightarrow> string \<Rightarrow> (string \<times> duration) result" where
  "resolveScheduleFromPolicy i name = do {
     g \<leftarrow> apiGet policyKind (instNs i, name);
     (case g of
        Inl e \<Rightarrow> if err_kind e = NotFound then ok ([], 30 * second) else fail e
      | Inr p \<Rightarrow> if pol_state p = PolicyDisabled then ok ([], 0) else ok (pol_schedule p, 0)) }"

definition setSchedule :: "string \<Rightarrow> SyncObject \<Rightarrow> SyncObject" where
  "setSchedule c s = s\<lparr>so_spec := (so_spec s)\<lparr>ss_trigger := (ss_trigger (so_spec s))\<lparr>tr_schedule := c\<rparr>\<rparr>\<rparr>"

text \<open>\<open>Some d\<close> is \<open>policyNotReadyError\<close> with the time to wait.\<close>

definition alignSchedule :: "SyncObject kind \<Rightarrow> DisasterInstance \<Rightarrow> string \<Rightarrow> SyncObject \<Rightarrow> duration option result" where
  "alignSchedule K i policy s =
     chk (if policy \<noteq> [] then resolveScheduleFromPolicy i policy else ok ([], 0)) (\<lambda>(sched, wait).
       if wait > 0 then ok (Some wait)
       else if tr_schedule (ss_trigger (so_spec s)) \<noteq> sched then chk (apiUpdate K (setSchedule sched s)) (\<lambda>_. ok None)
       else ok None)"

definition ensureDataSync :: "instReconciler \<Rightarrow> DisasterInstance \<Rightarrow> DisasterConfig \<Rightarrow> string \<Rightarrow> duration option result" where
  "ensureDataSync r i c n =
     chk (createOrUpdate dsKind (freshSync i n) (ownSync r i ''ownerReference.dataSync''))
       (alignSchedule dsKind i (effectiveDataSyncPolicyName i c))"

definition ensureResourceSync :: "instReconciler \<Rightarrow> DisasterInstance \<Rightarrow> DisasterConfig \<Rightarrow> string \<Rightarrow> duration option result" where
  "ensureResourceSync r i c n =
     chk (createOrUpdate rsKind (freshSync i n) (\<lambda>s. ownSync r i ''ownerReference.resourceSync'' (defaultStandby s)))
       (alignSchedule rsKind i (effectiveResourceSyncPolicyName i c))"

definition dataSyncNameOf :: "DisasterInstance \<Rightarrow> string" where "dataSyncNameOf i = ''dr-ds-'' @ instName i"
definition resourceSyncNameOf :: "DisasterInstance \<Rightarrow> string" where "resourceSyncNameOf i = ''dr-rs-'' @ instName i"

section \<open>Pending and initializing\<close>

definition provisionInstance :: "instReconciler \<Rightarrow> DisasterInstance \<Rightarrow> DisasterConfig \<Rightarrow> Result result" where
  "provisionInstance r i c =
     chk (ensureDataSync r i c (dataSyncNameOf i)) (\<lambda>x. case x of
       Some d \<Rightarrow> do { emit (instName i) ''PolicyNotReady''; ok (after_result d) }
     | None \<Rightarrow> chk (ensureResourceSync r i c (resourceSyncNameOf i)) (\<lambda>y. case y of
         Some d \<Rightarrow> do { emit (instName i) ''PolicyNotReady''; ok (after_result d) }
       | None \<Rightarrow> do {
           emit (instName i) ''TaskStarted'';
           emit (instName i) ''TaskProgress'';
           chk (apiStatusUpdate instKind (i\<lparr>in_status := (in_status i)\<lparr>is_dataSyncName := dataSyncNameOf i,
                  is_resourceSyncName := resourceSyncNameOf i, is_primaryCluster := cfg_sourceCluster c,
                  is_secondaryCluster := cfg_targetCluster c, is_fsmState := FsmInitializing\<rparr>\<rparr>)) (\<lambda>_. do {
             emit (instName i) ''Initializing'';
             ok requeue_result }) }))"

definition handlePending :: "instReconciler \<Rightarrow> DisasterInstance \<Rightarrow> Result result" where
  "handlePending r i = do {
     g \<leftarrow> apiGet cfgKind ([], di_config (in_spec i));
     (case g of
        Inl e \<Rightarrow> if err_kind e = NotFound then do { emit (instName i) ''ConfigNotFound''; ok (after_result (30 * second)) } else fail e
      | Inr c \<Rightarrow> provisionInstance r i c) }"

definition syncReady :: "SyncObject \<Rightarrow> bool" where
  "syncReady s \<longleftrightarrow> ss_state (so_status s) = SyncReady \<and> ss_lastSyncTime (so_status s) \<noteq> None"

definition initializingOutcome :: "instReconciler \<Rightarrow> DisasterInstance \<Rightarrow> SyncObject \<Rightarrow> SyncObject \<Rightarrow> Result result" where
  "initializingOutcome r i ds rs =
     (let times = setSyncTimes (ss_lastSyncTime (so_status ds)) (ss_lastSyncTime (so_status rs)) in
      if syncFailed (Some ds) \<or> syncFailed (Some rs) then
        (let (reason, m) = deriveInstanceInitializationFailure (Some ds) (Some rs) in
         chk (apiStatusUpdate instKind (times (setOps (syncFailureAvailableOperations reason (Some ds) (Some rs))
                (setStatusError reason m (setFsm FsmFailed i))))) (\<lambda>_. do {
           emit (instName i) ''InitializationFailed'';
           emit (instName i) ''TaskFinished'';
           ok done_result }))
      else if syncReady ds \<and> syncReady rs then
        chk (apiStatusUpdate instKind (times (setOps protectedOps (clearStatusError (setFsm FsmProtected i))))) (\<lambda>_. do {
          emit (instName i) ''Protected'';
          emit (instName i) ''TaskFinished'';
          ok done_result })
      else do {
        emit (instName i) ''TaskProgress'';
        ok (after_result (ir_initializingRequeue r)) })"

definition handleInitializing :: "instReconciler \<Rightarrow> DisasterInstance \<Rightarrow> Result result" where
  "handleInitializing r i = do {
     gd \<leftarrow> apiGet dsKind (instNs i, is_dataSyncName (in_status i));
     (case gd of
        Inl e \<Rightarrow> if err_kind e = NotFound then ok (after_result (ir_initializingRequeue r)) else fail e
      | Inr ds \<Rightarrow> do {
          gr \<leftarrow> apiGet rsKind (instNs i, is_resourceSyncName (in_status i));
          (case gr of
             Inl e \<Rightarrow> if err_kind e = NotFound then ok (after_result (ir_initializingRequeue r)) else fail e
           | Inr rs \<Rightarrow> initializingOutcome r i ds rs) })
   }"

section \<open>Steady states\<close>

text \<open>The schedules follow the policies; a missing configuration or policy is skipped.\<close>

definition reconcileSyncSchedules :: "instReconciler \<Rightarrow> DisasterInstance \<Rightarrow> DisasterInstance result" where
  "reconcileSyncSchedules r i = do {
     g \<leftarrow> apiGet cfgKind ([], di_config (in_spec i));
     (case g of
        Inl e \<Rightarrow> if err_kind e = NotFound then ok i else fail e
      | Inr c \<Rightarrow>
          let dn = orElse (is_dataSyncName (in_status i)) (dataSyncNameOf i) in
          chk (ensureDataSync r i c dn) (\<lambda>x. case x of
            Some _ \<Rightarrow> ok i
          | None \<Rightarrow>
              let i1 = i\<lparr>in_status := (in_status i)\<lparr>is_dataSyncName := dn\<rparr>\<rparr>;
                  rn = orElse (is_resourceSyncName (in_status i1)) (resourceSyncNameOf i1) in
              chk (ensureResourceSync r i1 c rn) (\<lambda>y. case y of
                Some _ \<Rightarrow> ok i1
              | None \<Rightarrow> ok (i1\<lparr>in_status := (in_status i1)\<lparr>is_resourceSyncName := rn\<rparr>\<rparr>))))
   }"

definition getSync :: "SyncObject kind \<Rightarrow> string \<Rightarrow> string \<Rightarrow> SyncObject option result" where
  "getSync K ns n =
     (if n = [] then ok None
      else do {
        g \<leftarrow> apiGet K (ns, n);
        (case g of Inl e \<Rightarrow> if err_kind e = NotFound then ok None else fail e | Inr s \<Rightarrow> ok (Some s)) })"

definition lastSync :: "SyncObject option \<Rightarrow> time option" where
  "lastSync s = (case s of None \<Rightarrow> None | Some s \<Rightarrow> ss_lastSyncTime (so_status s))"

text \<open>The reason and message of a failure (an empty reason is none) and the times of the last syncs.\<close>

definition evaluateSteadySyncHealth :: "DisasterInstance \<Rightarrow> ((string \<times> string) \<times> time option \<times> time option) result" where
  "evaluateSteadySyncHealth i =
     chk (getSync dsKind (instNs i) (is_dataSyncName (in_status i))) (\<lambda>ds.
     chk (getSync rsKind (instNs i) (is_resourceSyncName (in_status i))) (\<lambda>rs.
       ok (deriveInstanceSteadyFailure ds rs, lastSync ds, lastSync rs)))"

definition tryGetSync :: "SyncObject kind \<Rightarrow> string \<Rightarrow> string \<Rightarrow> SyncObject option action" where
  "tryGetSync K ns n =
     (if trimSpace n = [] then ret None
      else do { g \<leftarrow> apiGet K (ns, n); ret (case g of Inl _ \<Rightarrow> None | Inr s \<Rightarrow> Some s) })"

definition currentSyncFailureAvailableOperations :: "DisasterInstance \<Rightarrow> string \<Rightarrow> string list action" where
  "currentSyncFailureAvailableOperations i reason =
     (if \<not> isRecoverableSyncFailureReason reason then ret [''reset'']
      else do {
        ds \<leftarrow> tryGetSync dsKind (instNs i) (is_dataSyncName (in_status i));
        rs \<leftarrow> tryGetSync rsKind (instNs i) (is_resourceSyncName (in_status i));
        ret (syncFailureAvailableOperations reason ds rs) })"

text \<open>\<open>True\<close> when the drift was a hard failure and has been recorded.\<close>

definition guardByRoleDrift :: "instReconciler \<Rightarrow> DisasterInstance \<Rightarrow> (bool \<times> DisasterInstance) result" where
  "guardByRoleDrift r i = do {
     e \<leftarrow> evaluateRoleDrift r i;
     let i1 = applyRoleDriftCondition r e i;
     (if \<not> rd_hardFailure e then ok (False, i1)
      else chk (apiStatusUpdate instKind (setOps [] (setStatusError ''RoleDriftDetected'' (rd_message e) (setFsm FsmFailed i1)))) (\<lambda>i2. do {
        emit (instName i) ''RoleDriftDetected'';
        ok (True, i2) })) }"

definition steadyFailed :: "DisasterInstance \<Rightarrow> string \<Rightarrow> string \<Rightarrow> time option \<Rightarrow> time option \<Rightarrow> Result result" where
  "steadyFailed i reason m ld lr = do {
     ops \<leftarrow> currentSyncFailureAvailableOperations i reason;
     chk (apiStatusUpdate instKind (setSyncTimes ld lr (setOps ops (setStatusError reason m (setFsm FsmFailed i))))) (\<lambda>_. do {
       emit (instName i) ''SteadySyncFailed'';
       ok done_result }) }"

definition steadyHealthy :: "instReconciler \<Rightarrow> string list \<Rightarrow> duration \<Rightarrow> DisasterInstance \<Rightarrow> time option \<Rightarrow> time option \<Rightarrow> Result result" where
  "steadyHealthy r ops driftRequeue i ld lr =
     chk (guardByRoleDrift r i) (\<lambda>x.
       if fst x then ok (after_result driftRequeue)
       else saveInst (setSyncTimes ld lr (setOps ops (clearStatusError (snd x)))) (after_result (ir_steadyRequeue r)))"

definition handleSteady :: "instReconciler \<Rightarrow> string list \<Rightarrow> duration \<Rightarrow> DisasterInstance \<Rightarrow> Result result" where
  "handleSteady r ops driftRequeue i0 =
     chk (reconcileSyncSchedules r i0) (\<lambda>i.
     chk (evaluateSteadySyncHealth i) (\<lambda>((reason, m), ld, lr).
       if reason \<noteq> [] then steadyFailed i reason m ld lr else steadyHealthy r ops driftRequeue i ld lr))"

definition handleProtected :: "instReconciler \<Rightarrow> DisasterInstance \<Rightarrow> Result result" where
  "handleProtected r i = handleSteady r protectedOps (ir_failedRequeue r) i"

definition handleActive :: "instReconciler \<Rightarrow> DisasterInstance \<Rightarrow> Result result" where
  "handleActive r i = handleSteady r activeOps (ir_steadyRequeue r) i"

definition handlePaused :: "instReconciler \<Rightarrow> DisasterInstance \<Rightarrow> Result result" where
  "handlePaused r i = saveInst (setOps [''resume''] (clearStatusError i)) (after_result (ir_steadyRequeue r))"

section \<open>Transitions\<close>

text \<open>A change that applies only while the instance is still in the transition.\<close>

definition whileIn :: "FsmState \<Rightarrow> (DisasterInstance \<Rightarrow> DisasterInstance) \<Rightarrow> DisasterInstance \<Rightarrow> DisasterInstance option" where
  "whileIn f g latest = (if fsm latest \<noteq> f then None else Some (g latest))"

definition hideOps :: "FsmState \<Rightarrow> DisasterInstance \<Rightarrow> DisasterInstance option" where
  "hideOps f latest =
     (if fsm latest \<noteq> f then None
      else if is_availableOperations (in_status latest) = [] then None else Some (setOps [] latest))"

definition settleFailoverFailed :: "DisasterOperation \<Rightarrow> DisasterInstance \<Rightarrow> DisasterInstance" where
  "settleFailoverFailed op latest =
     (if shouldRollbackFailoverStepToProtected (failoverFailedStep op)
      then setOps protectedOps (clearStatusError (setFsm FsmProtected latest))
      else setOps [''reset'', ''cancel''] (applyFailedStateFromOperation op ''FailoverOperationFailed'' ''failover operation failed''
             (setFsm FsmFailed latest)))"

definition settleTo :: "FsmState \<Rightarrow> string list \<Rightarrow> DisasterOperation \<Rightarrow> DisasterInstance \<Rightarrow> DisasterInstance" where
  "settleTo f ops op latest = setOps ops (clearStatusError (setRoles (os_roleStatus (op_status op)) (setFsm f latest)))"

definition settleVia :: "instReconciler \<Rightarrow> DisasterInstance \<Rightarrow> (DisasterInstance \<Rightarrow> DisasterInstance option) \<Rightarrow> Result \<Rightarrow> Result result" where
  "settleVia r i g res = chk (updateInstanceStatusWithRetry r i g) (\<lambda>_. ok res)"

definition lostTransition :: "string \<Rightarrow> string \<Rightarrow> DisasterInstance \<Rightarrow> DisasterInstance" where
  "lostTransition reason m l = setOps [''reset''] (setStatusError reason m (setFsm FsmFailed l))"

definition settleFailingOver :: "instReconciler \<Rightarrow> DisasterInstance \<Rightarrow> operationWatchdogSnapshot \<Rightarrow> Result result" where
  "settleFailingOver r i snap =
     (if ws_runningCount snap > 0 then
        (if is_availableOperations (in_status i) \<noteq> [] then settleVia r i (hideOps FsmFailingOver) (after_result (ir_initializingRequeue r))
         else ok (after_result (ir_initializingRequeue r)))
      else case ws_latestTerminal snap of
        None \<Rightarrow>
          if \<not> transitionWatchdogExceeded r i (ws_latestObserved snap) then ok (after_result (ir_initializingRequeue r))
          else settleVia r i (whileIn FsmFailingOver (lostTransition ''FailoverOperationMissing''
                 ''FailingOver timeout exceeded without running failover operation'')) (after_result (ir_steadyRequeue r))
      | Some op \<Rightarrow>
          if failoverRecoveredByAutoCancel op then settleVia r i (whileIn FsmFailingOver (settleTo FsmProtected protectedOps op)) requeue_result
          else if os_state (op_status op) = OpCompleted then settleVia r i (whileIn FsmFailingOver (settleTo FsmActive activeOps op)) requeue_result
          else if os_state (op_status op) = OpFailed then settleVia r i (whileIn FsmFailingOver (settleFailoverFailed op)) (after_result (ir_failedRequeue r))
          else ok (after_result (ir_initializingRequeue r)))"

definition handleFailingOver :: "instReconciler \<Rightarrow> DisasterInstance \<Rightarrow> Result result" where
  "handleFailingOver r i = chk (collectOperationWatchdogSnapshot i OpFailover) (settleFailingOver r i)"

definition settleReprotectFailed :: "DisasterOperation \<Rightarrow> DisasterInstance \<Rightarrow> DisasterInstance" where
  "settleReprotectFailed op latest = setOps [''reset'']
     (applyFailedStateFromOperation op ''FailbackOperationFailed'' ''reprotect operation failed'' (setFsm FsmFailed latest))"

definition settleFailingBack :: "instReconciler \<Rightarrow> DisasterInstance \<Rightarrow> operationWatchdogSnapshot \<Rightarrow> Result result" where
  "settleFailingBack r i snap =
     (if ws_runningCount snap > 0 then
        (if is_availableOperations (in_status i) \<noteq> [] then settleVia r i (hideOps FsmFailingBack) (after_result (ir_initializingRequeue r))
         else ok (after_result (ir_initializingRequeue r)))
      else case ws_latestTerminal snap of
        None \<Rightarrow>
          if \<not> transitionWatchdogExceeded r i (ws_latestObserved snap) then ok (after_result (ir_initializingRequeue r))
          else settleVia r i (whileIn FsmFailingBack (lostTransition ''FailbackOperationMissing''
                 ''FailingBack timeout exceeded without running reprotect operation'')) (after_result (ir_failedRequeue r))
      | Some op \<Rightarrow>
          if os_state (op_status op) = OpCompleted then settleVia r i (whileIn FsmFailingBack (settleTo FsmProtected protectedOps op)) requeue_result
          else if os_state (op_status op) = OpFailed then settleVia r i (whileIn FsmFailingBack (settleReprotectFailed op)) (after_result (ir_failedRequeue r))
          else ok (after_result (ir_initializingRequeue r)))"

definition handleFailingBack :: "instReconciler \<Rightarrow> DisasterInstance \<Rightarrow> Result result" where
  "handleFailingBack r i = chk (collectOperationWatchdogSnapshot i OpReprotect) (settleFailingBack r i)"

section \<open>Failed\<close>

definition resolveRecoveredSteadyState :: "DisasterInstance \<Rightarrow> (FsmState \<times> string list) action" where
  "resolveRecoveredSteadyState i =
     (if trimSpace (di_config (in_spec i)) = [] then ret (FsmProtected, protectedOps)
      else do {
        g \<leftarrow> apiGet cfgKind ([], di_config (in_spec i));
        ret (case g of
               Inl _ \<Rightarrow> (FsmProtected, protectedOps)
             | Inr c \<Rightarrow>
                 if trimSpace (is_primaryCluster (in_status i)) = trimSpace (cfg_targetCluster c) \<and>
                    trimSpace (is_secondaryCluster (in_status i)) = trimSpace (cfg_sourceCluster c)
                 then (FsmActive, activeOps) else (FsmProtected, protectedOps)) })"

definition recoverInst :: "string \<Rightarrow> DisasterInstance \<Rightarrow> Result result" where
  "recoverInst ev i = do {
     x \<leftarrow> resolveRecoveredSteadyState i;
     chk (apiStatusUpdate instKind (setOps (snd x) (clearStatusError (setFsm (fst x) i)))) (\<lambda>_. do {
       emit (instName i) ev;
       ok requeue_result }) }"

definition explainFailure :: "DisasterInstance \<Rightarrow> DisasterInstance" where
  "explainFailure i =
     (if is_reason (in_status i) = [] \<or> is_message (in_status i) = []
      then setStatusError (orElse (is_reason (in_status i)) ''InstanceFailed'')
             (orElse (is_message (in_status i)) ''instance entered Failed state'') i
      else i)"

definition failedSync :: "instReconciler \<Rightarrow> DisasterInstance \<Rightarrow> Result result" where
  "failedSync r i0 =
     chk (evaluateSteadySyncHealth i0) (\<lambda>((reason, m), ld, lr).
       let i = setSyncTimes ld lr i0; rec = isRecoverableSyncFailureReason (is_reason (in_status i)) in
       if rec \<and> reason = [] \<and> ld \<noteq> None \<and> lr \<noteq> None then recoverInst ''SteadySyncRecovered'' i
       else let i1 = explainFailure (if rec \<and> reason \<noteq> [] then setStatusError reason m i else i) in
         do {
           ops \<leftarrow> (if isRecoverableSyncFailureReason (is_reason (in_status i1))
                   then currentSyncFailureAvailableOperations i1 (is_reason (in_status i1))
                   else ret (if containsOperation (is_availableOperations (in_status i1)) ''cancel''
                             then appendOperation [''reset''] ''cancel'' else [''reset'']));
           saveInst (setOps ops i1) (after_result (ir_failedRequeue r)) })"

definition handleFailed :: "instReconciler \<Rightarrow> DisasterInstance \<Rightarrow> Result result" where
  "handleFailed r i =
     (if trimSpace (is_reason (in_status i)) = ''RoleDriftDetected'' then do {
        e \<leftarrow> evaluateRoleDrift r i;
        let i1 = applyRoleDriftCondition r e i;
        (if rd_status e = ConditionFalse then recoverInst ''RoleDriftRecovered'' i1
         else if rd_hardFailure e \<or> rd_status e = ConditionUnknown
         then saveInst (setOps [] (setStatusError ''RoleDriftDetected'' (rd_message e) i1)) (after_result (ir_failedRequeue r))
         else failedSync r i1) }
      else failedSync r i)"

section \<open>The guard on the configuration\<close>

definition isConfigGuardManagedState :: "FsmState \<Rightarrow> bool" where
  "isConfigGuardManagedState f \<longleftrightarrow>
     List.member [FsmPending, FsmInitializing, FsmProtected, FsmPaused, FsmActive, FsmConfigError] f"

text \<open>\<open>None\<close> when the configuration is healthy, the reason and message otherwise.\<close>

definition evaluateConfigHealth :: "DisasterInstance \<Rightarrow> (string \<times> string) option result" where
  "evaluateConfigHealth i =
     (let n = di_config (in_spec i);
          bad = (\<lambda>c d. Some (orElse (cfg_reason c) d,
                  orElse (cfg_message c) (''DisasterConfig '' @ n @ '' status='' @ configStateString (cfg_status c)))) in
      if n = [] then ok None
      else do {
        g \<leftarrow> apiGet cfgKind ([], n);
        (case g of
           Inl e \<Rightarrow> if err_kind e = NotFound then ok (Some (''ConfigNotFound'', ''DisasterConfig '' @ n @ '' not found'')) else fail e
         | Inr c \<Rightarrow> if cfg_status c = CfgError then ok (bad c ''ConfigError'')
                    else if cfg_status c = CfgNotReady then ok (bad c ''ConfigNotReady'')
                    else ok None) })"

text \<open>\<open>Some res\<close> when the guard has handled the reconcile.\<close>

definition guardByConfigHealth :: "DisasterInstance \<Rightarrow> Result option result" where
  "guardByConfigHealth i =
     (if \<not> isConfigGuardManagedState (fsm i) then ok None
      else chk (evaluateConfigHealth i) (\<lambda>h.
        let save = (\<lambda>j res. chk (apiStatusUpdate instKind j) (\<lambda>_. ok (Some res))) in
        if fsm i = FsmConfigError then
          (case h of
             None \<Rightarrow>
               if is_lastStableFsmState (in_status i) = FsmNone
               then save (setStatusError ''LastStableStateMissing'' ''lastStableFsmState is empty, cannot recover from ConfigError''
                      (setOps [] i)) (after_result (30 * second))
               else save (clearStatusError (i\<lparr>in_status := (in_status i)\<lparr>is_fsmState := is_lastStableFsmState (in_status i),
                      is_lastStableFsmState := FsmNone\<rparr>\<rparr>)) requeue_result
           | Some (reason, m) \<Rightarrow> save (setStatusError reason m (setOps [] i)) (after_result (30 * second)))
        else case h of
          None \<Rightarrow> ok None
        | Some (reason, m) \<Rightarrow>
            save (setStatusError reason m (setOps [] (i\<lparr>in_status := (in_status i)\<lparr>is_lastStableFsmState := fsm i,
              is_fsmState := FsmConfigError\<rparr>\<rparr>))) (after_result (5 * second))))"

definition handleConfigError :: "DisasterInstance \<Rightarrow> Result result" where
  "handleConfigError i = saveInst (setOps [] i) (after_result (30 * second))"

section \<open>The reconcile loop\<close>

definition instHandleDeletion :: "DisasterInstance \<Rightarrow> Result result" where
  "instHandleDeletion i = do {
     emit (instName i) ''TaskStarted'';
     g \<leftarrow> apiGet instKind (instKey i);
     (case g of
        Inl e \<Rightarrow> if err_kind e = NotFound then ok done_result else fail e
      | Inr latest \<Rightarrow> do {
          p \<leftarrow> apiPatchFinalizers instKind (instKey i) (filter (\<lambda>f. f \<noteq> finalizerName) (m_finalizers (in_meta latest)));
          emit (instName i) ''TaskFinished'';
          (case p of Inl e \<Rightarrow> fail e
           | Inr _ \<Rightarrow> do { emit (instName i) ''Deleted''; ok done_result }) }) }"

definition instSyncDependencyLabels :: "instReconciler \<Rightarrow> DisasterInstance \<Rightarrow> (bool \<times> DisasterInstance) action" where
  "instSyncDependencyLabels r i =
     (let tk = EnsureDependencyTokenLabel (r_sha256hex (ir_base r)) (m_labels (in_meta i)) (m_uid (in_meta i)) in do {
        es \<leftarrow> (if di_config (in_spec i) \<noteq> [] then do {
                 g \<leftarrow> apiGet cfgKind ([], di_config (in_spec i));
                 ret (case g of Inl _ \<Rightarrow> [] | Inr c \<Rightarrow> [edgeTo (ir_base r) (m_uid (cfg_meta c)) ''spec.config'']) }
               else ret []);
        (let rb = RebuildDependencyToLabels (fst tk) es in
         ret (snd (snd tk) \<or> snd rb, i\<lparr>in_meta := (in_meta i)\<lparr>m_labels := fst rb\<rparr>\<rparr>)) })"

definition routeInstance :: "instReconciler \<Rightarrow> DisasterInstance \<Rightarrow> Result result" where
  "routeInstance r i =
     (case fsm i of
        FsmPending \<Rightarrow> handlePending r i
      | FsmInitializing \<Rightarrow> handleInitializing r i
      | FsmProtected \<Rightarrow> handleProtected r i
      | FsmPaused \<Rightarrow> handlePaused r i
      | FsmFailingOver \<Rightarrow> handleFailingOver r i
      | FsmActive \<Rightarrow> handleActive r i
      | FsmFailingBack \<Rightarrow> handleFailingBack r i
      | FsmConfigError \<Rightarrow> handleConfigError i
      | FsmFailed \<Rightarrow> handleFailed r i
      | _ \<Rightarrow> saveInst (setFsm FsmPending i) requeue_result)"

definition reconcileInstance :: "instReconciler \<Rightarrow> DisasterInstance \<Rightarrow> Result result" where
  "reconcileInstance r i0 =
     (if m_deletion (in_meta i0) \<noteq> None then instHandleDeletion i0
      else if \<not> List.member (m_finalizers (in_meta i0)) finalizerName
      then chk (apiUpdate instKind (i0\<lparr>in_meta := (in_meta i0)\<lparr>m_finalizers := m_finalizers (in_meta i0) @ [finalizerName]\<rparr>\<rparr>))
             (\<lambda>_. ok requeue_result)
      else do {
        x \<leftarrow> instSyncDependencyLabels r i0;
        (if fst x then chk (apiUpdate instKind (snd x)) (\<lambda>_. ok requeue_result)
         else if fsm (snd x) = FsmNone then saveInst (setFsm FsmPending (snd x)) requeue_result
         else chk (guardByConfigHealth (snd x)) (\<lambda>h. case h of
           Some res \<Rightarrow> ok res
         | None \<Rightarrow> routeInstance r (snd x))) })"

definition instReconcile :: "instReconciler \<Rightarrow> key \<Rightarrow> Result result" where
  "instReconcile r k = do {
     g \<leftarrow> apiGet instKind k;
     (case g of
        Inl e \<Rightarrow> if err_kind e = NotFound then ok done_result else fail e
      | Inr i \<Rightarrow> reconcileInstance r i) }"

end
