(* ===== verification/InstFrame.thy ===== *)
theory InstFrame
  imports InstController OpFrames
begin

text \<open>
  What a reconcile of an instance leaves alone: a projection that sees neither the instance nor sync objects is
  kept by every handler, because what a handler writes has the key of the instance it was given.
\<close>

section \<open>The key of what is written\<close>

lemma instKey_written [simp]:
  "instKey (i\<lparr>in_status := s\<rparr>) = instKey i" "instKey (setFsm f i) = instKey i" "instKey (setOps ops i) = instKey i"
  "instKey (setSyncTimes d t i) = instKey i" "instKey (setRoles rs i) = instKey i" "instKey (setStatusError a b i) = instKey i"
  "instKey (clearStatusError i) = instKey i" "instKey (applyRoleDriftCondition r e i) = instKey i" "instKey (explainFailure i) = instKey i"
  "instKey (applyFailedStateFromOperation op a b i) = instKey i"
  by (simp_all add: instKey_def setFsm_def setOps_def setSyncTimes_def setRoles_def setStatusError_def clearStatusError_def
      applyRoleDriftCondition_def explainFailure_def applyFailedStateFromOperation_def split: option.split)

lemma instKey_outcomes [simp]:
  "instKey (settleFailoverFailed op i) = instKey i" "instKey (settleTo f ops op i) = instKey i" "instKey (lostTransition a b i) = instKey i"
  "instKey (settleReprotectFailed op i) = instKey i"
  by (simp_all add: settleFailoverFailed_def settleTo_def lostTransition_def settleReprotectFailed_def)

lemma keyOf_inst: "keyOf instKind i = instKey i"
  by (simp add: keyOf_def instKey_def instKind_def)

section \<open>A frame of the controller\<close>

locale inst_frame = own: key_frame proj instKind "\<lambda>q. q = k" for proj :: "world \<Rightarrow> 'p" and k :: key +
  assumes proj_syncs: "proj (w\<lparr>w_ds := xs\<rparr>) = proj w" "proj (w\<lparr>w_rs := xs\<rparr>) = proj w"

context inst_frame
begin

lemma frame_write: "instKey i = k \<Longrightarrow> state_io_rel own.same (apiStatusUpdate instKind i)"
  "instKey i = k \<Longrightarrow> state_io_rel own.same (apiUpdate instKind i)"
  by (intro own.hidden_statusUpdate own.hidden_update; simp add: keyOf_inst)+

lemma frame_saveInst: "instKey i = k \<Longrightarrow> state_io_rel own.same (saveInst i res)"
  unfolding saveInst_def by (intro own.rel_intros frame_write)

lemma frame_retry:
  assumes "instKey i = k" and "\<And>x y. mutate x = Some y \<Longrightarrow> instKey y = instKey x"
  shows "state_io_rel own.same (updateInstanceStatusWithRetry r i mutate)"
proof -
  have "state_io_rel own.same (chk (apiGet instKind (instKey i)) (\<lambda>latest.
      case mutate latest of None \<Rightarrow> ok () | Some x \<Rightarrow> chk (apiStatusUpdate instKind x) (\<lambda>_. ok ())))"
  proof (rule own.rel_chk_result)
    show "wp (apiGet instKind (instKey i)) (\<lambda>y _. \<forall>x. y = Inr x \<longrightarrow> instKey x = k) w" for w
      by (rule wp_apiGet) (auto simp: assms(1) keyOf_inst dest: instK.lookup_key)
  qed (auto intro!: own.rel_intros frame_write dest: assms(2) split: option.split)
  then show ?thesis unfolding updateInstanceStatusWithRetry_def by (rule own.rel_retry)
qed

lemma frame_settle:
  "instKey i = k \<Longrightarrow> (\<And>x. instKey (g x) = instKey x) \<Longrightarrow> state_io_rel own.same (settleVia r i (whileIn f g) res)"
  "instKey i = k \<Longrightarrow> state_io_rel own.same (settleVia r i (hideOps f) res)"
  unfolding settleVia_def by (intro own.rel_intros frame_retry; auto simp: whileIn_def hideOps_def split: if_splits)+

lemma frame_ensure: "state_io_rel own.same (ensureDataSync r i c n)" "state_io_rel own.same (ensureResourceSync r i c n)"
  unfolding ensureDataSync_def ensureResourceSync_def alignSchedule_def resolveScheduleFromPolicy_def
  by (auto intro!: own.rel_intros own.rel_createOrUpdate own.frame_update own.frame_create simp: proj_syncs split: prod.splits)

lemma frame_schedules: "state_io_rel own.same (reconcileSyncSchedules r i)"
  unfolding reconcileSyncSchedules_def Let_def by (intro own.rel_intros frame_ensure)

lemma frame_health: "state_io_rel own.same (evaluateSteadySyncHealth i)"
  unfolding evaluateSteadySyncHealth_def getSync_def by (intro own.rel_intros)

lemma frame_currentOps: "state_io_rel own.same (currentSyncFailureAvailableOperations i reason)"
  unfolding currentSyncFailureAvailableOperations_def tryGetSync_def by (intro own.rel_intros)

lemma frame_drift: "state_io_rel own.same (evaluateRoleDrift r i)"
  unfolding evaluateRoleDrift_def sampleClusterReplicaRole_def sampleNamespace_def GetKubeClientSet_def Let_def
  by (auto intro!: own.rel_intros split: sum.splits)

lemma frame_recover: "instKey i = k \<Longrightarrow> state_io_rel own.same (recoverInst ev i)"
  unfolding recoverInst_def resolveRecoveredSteadyState_def by (intro own.rel_intros frame_write) simp

lemma frame_pending: "instKey i = k \<Longrightarrow> state_io_rel own.same (handlePending r i)"
  unfolding handlePending_def provisionInstance_def by (intro own.rel_intros frame_ensure frame_write) simp

lemma frame_initializing: "instKey i = k \<Longrightarrow> state_io_rel own.same (handleInitializing r i)"
  unfolding handleInitializing_def initializingOutcome_def Let_def
  by (auto intro!: own.rel_intros frame_write split: prod.splits)

lemma schedules_key: "wp (reconcileSyncSchedules r i) (\<lambda>x _. \<forall>j. x = Inr j \<longrightarrow> instKey j = instKey i) v"
  unfolding reconcileSyncSchedules_def Let_def
  by (auto intro!: wp_any [where m = "apiGet _ _"] wp_any [where m = "ensureDataSync _ _ _ _"] wp_any [where m = "ensureResourceSync _ _ _ _"]
      split: sum.splits option.splits)

lemma drift_key: "wp (guardByRoleDrift r i) (\<lambda>x _. \<forall>y. x = Inr y \<longrightarrow> \<not> fst y \<longrightarrow> instKey (snd y) = instKey i) v"
  unfolding guardByRoleDrift_def Let_def
  by (auto intro!: wp_any [where m = "evaluateRoleDrift _ _"] wp_any [where m = "apiStatusUpdate _ _"] split: sum.splits)

lemma frame_guardDrift: "instKey i = k \<Longrightarrow> state_io_rel own.same (guardByRoleDrift r i)"
  unfolding guardByRoleDrift_def Let_def by (auto intro!: own.rel_intros frame_drift frame_write)

lemma frame_steady:
  assumes "instKey i = k"
  shows "state_io_rel own.same (handleSteady r ops d i)"
  unfolding handleSteady_def
proof (rule own.rel_chk_result [OF schedules_key frame_schedules])
  fix j assume "instKey j = instKey i"
  then have j: "instKey j = k" using assms by simp
  have "state_io_rel own.same (steadyFailed j reason m ld lr)" for reason m ld lr
    unfolding steadyFailed_def by (intro own.rel_intros frame_currentOps frame_write) (simp add: j)
  moreover have "state_io_rel own.same (steadyHealthy r ops d j ld lr)" for ld lr
    unfolding steadyHealthy_def
    by (rule own.rel_chk_result [OF drift_key frame_guardDrift [OF j]]) (auto simp: j intro!: own.rel_intros frame_saveInst)
  ultimately show "state_io_rel own.same (chk (evaluateSteadySyncHealth j) (\<lambda>((reason, m), ld, lr).
       if reason \<noteq> [] then steadyFailed j reason m ld lr else steadyHealthy r ops d j ld lr))"
    by (auto intro!: own.rel_chk frame_health split: prod.split)
qed

lemma frame_failedSync: "instKey i = k \<Longrightarrow> state_io_rel own.same (failedSync r i)"
  unfolding failedSync_def Let_def
  by (auto intro!: own.rel_intros frame_health frame_currentOps frame_saveInst frame_recover
      simp: if_distrib [of instKey] cong: if_cong split: prod.splits)

lemma frame_failed: "instKey i = k \<Longrightarrow> state_io_rel own.same (handleFailed r i)"
  unfolding handleFailed_def Let_def
  by (intro own.rel_intros frame_drift frame_recover frame_saveInst frame_failedSync; simp)

lemma frame_transitions:
  "instKey i = k \<Longrightarrow> state_io_rel own.same (handleFailingOver r i)" "instKey i = k \<Longrightarrow> state_io_rel own.same (handleFailingBack r i)"
  unfolding handleFailingOver_def settleFailingOver_def handleFailingBack_def settleFailingBack_def collectOperationWatchdogSnapshot_def
  by (intro own.rel_intros frame_settle; simp)+

lemma frame_guard: "instKey i = k \<Longrightarrow> state_io_rel own.same (guardByConfigHealth i)"
  unfolding guardByConfigHealth_def evaluateConfigHealth_def Let_def
  by (intro own.rel_intros frame_write; simp)

lemma frame_route: "instKey i = k \<Longrightarrow> state_io_rel own.same (routeInstance r i)"
  unfolding routeInstance_def handleProtected_def handleActive_def handlePaused_def handleConfigError_def
  by (auto split: FsmState.split intro!: frame_saveInst frame_pending frame_initializing frame_steady frame_failed frame_transitions)

lemma edges_key: "wp (instSyncDependencyLabels r i) (\<lambda>x _. instKey (snd x) = instKey i) v"
  unfolding instSyncDependencyLabels_def Let_def by (auto intro!: wp_any [where m = "apiGet _ _"] simp: instKey_def metaKey_def)

lemma frame_reconcile:
  assumes "instKey i = k"
  shows "state_io_rel own.same (reconcileInstance r i)"
proof -
  have deleted: "state_io_rel own.same (instHandleDeletion i)"
    unfolding instHandleDeletion_def by (intro own.rel_intros own.hidden_finalizers) (simp add: assms)
  have edges: "state_io_rel own.same (instSyncDependencyLabels r i)"
    unfolding instSyncDependencyLabels_def Let_def by (intro own.rel_intros)
  have marked: "instKey (i\<lparr>in_meta := (in_meta i)\<lparr>m_finalizers := fs\<rparr>\<rparr>) = k" for fs
    using assms by (simp add: instKey_def metaKey_def)
  have body: "state_io_rel own.same (if fst x then chk (apiUpdate instKind (snd x)) (\<lambda>_. ok requeue_result)
         else if fsm (snd x) = FsmNone then saveInst (setFsm FsmPending (snd x)) requeue_result
         else chk (guardByConfigHealth (snd x)) (\<lambda>h. case h of Some res \<Rightarrow> ok res | None \<Rightarrow> routeInstance r (snd x)))"
    if "instKey (snd x) = instKey i" for x
    using that assms by (intro own.rel_intros frame_write frame_saveInst frame_guard frame_route; simp)
  show ?thesis
    unfolding reconcileInstance_def
    by (intro own.rel_if deleted own.rel_chk frame_write own.rel_ret own.rel_bind_result [OF edges_key edges] body marked)
qed

end

text \<open>The world without the instance, the sync objects and the events.\<close>

definition outsideInst :: "key \<Rightarrow> world \<Rightarrow> world" where
  "outsideInst k v = v\<lparr>w_insts := filter (\<lambda>x. keyOf instKind x \<noteq> k) (w_insts v), w_ds := [], w_rs := [], w_events := [], w_faults := []\<rparr>"

interpretation outI: world_frame "outsideInst k" for k
  by unfold_locales (simp_all add: outsideInst_def)

interpretation ownI: inst_frame "outsideInst k" k for k
  by unfold_locales (simp_all add: instK.meta_setMeta outsideInst_def)

lemma reconcile_outside: "lookup instKind w k = Some i \<Longrightarrow> outsideInst k (snd (run_state (instReconcile r k) w)) = outsideInst k w"
proof -
  assume "lookup instKind w k = Some i"
  then have i: "instKey i = k" using instK.lookup_key [of w k i] by (simp add: keyOf_inst)
  have "wp (instReconcile r k) (\<lambda>_ v. outsideInst k v = outsideInst k w) w"
    unfolding instReconcile_def wp_bind
  proof (rule wp_apiGet, goal_cases)
    case (1 e fs)
    then show ?case by (simp add: outI.proj_faults)
  next
    case (2 x fs)
    then have "instKey x = k" using instK.lookup_key [OF 2] by (simp add: keyOf_inst)
    then show ?case unfolding sum.case by (intro wp_mono [OF outI.wp_same [OF ownI.frame_reconcile]]) (simp_all add: outI.proj_faults)
  qed
  then show ?thesis by (simp add: wp_snd)
qed

end
