(* ===== verification/InstFsm.thy ===== *)
theory InstFsm
  imports InstFrame OpFsm Samples
begin

text \<open>
  The state machine the instance controller implements, as an abstract specification: the
  state of an instance, its roles and the state remembered during a configuration error, and
  the edges between them, some guarded by the operations and configurations that exist. The
  refinement theorem says that one reconcile takes at most one edge, whatever the API server
  answers. The invariant \<open>tracked\<close> follows the stored instance through a reconcile.
\<close>

section \<open>The abstract machine\<close>

type_synonym instState = "FsmState \<times> string \<times> string \<times> FsmState"

definition stateOf :: "DisasterInstanceStatus \<Rightarrow> instState" where
  "stateOf s = (is_fsmState s, is_primaryCluster s, is_secondaryCluster s, is_lastStableFsmState s)"

text \<open>The operations of an instance that are still running, and those that have ended.\<close>

definition opsOf :: "world \<Rightarrow> key \<Rightarrow> OperationType \<Rightarrow> DisasterOperation set" where
  "opsOf w k ty = {op \<in> set (w_ops w). inNamespace opKind (fst k) op \<and> sp_instanceName (op_spec op) = snd k \<and>
     sp_operationType (op_spec op) = ty}"

definition inFlightOf :: "world \<Rightarrow> key \<Rightarrow> OperationType \<Rightarrow> bool" where
  "inFlightOf w k ty \<longleftrightarrow> (\<exists>op \<in> opsOf w k ty. isOperationInFlight (os_state (op_status op)))"

definition rolesAfter :: "DisasterOperation \<Rightarrow> string \<Rightarrow> string \<Rightarrow> string \<times> string" where
  "rolesAfter op p s = (case os_roleStatus (op_status op) of None \<Rightarrow> (p, s) | Some x \<Rightarrow> (role_primary x, role_secondary x))"

inductive instEdge :: "world \<Rightarrow> key \<Rightarrow> instState \<Rightarrow> instState \<Rightarrow> bool" for w k where
  admit: "f = FsmNone \<or> (\<exists>x. f = FsmOther x) \<Longrightarrow> instEdge w k (f, p, s, l) (FsmPending, p, s, l)"
| provision: "c \<in> set (w_cfgs w) \<Longrightarrow>
    instEdge w k (FsmPending, p, s, l) (FsmInitializing, cfg_sourceCluster c, cfg_targetCluster c, l)"
| initialized: "instEdge w k (FsmInitializing, p, s, l) (FsmProtected, p, s, l)"
| failed: "f = FsmInitializing \<or> f = FsmProtected \<or> f = FsmActive \<Longrightarrow> instEdge w k (f, p, s, l) (FsmFailed, p, s, l)"
| recovered: "f = FsmProtected \<or> f = FsmActive \<Longrightarrow> instEdge w k (FsmFailed, p, s, l) (f, p, s, l)"
| config_bad: "isConfigGuardManagedState f \<Longrightarrow> f \<noteq> FsmConfigError \<Longrightarrow> instEdge w k (f, p, s, l) (FsmConfigError, p, s, f)"
| config_ok: "l \<noteq> FsmNone \<Longrightarrow> instEdge w k (FsmConfigError, p, s, l) (l, p, s, FsmNone)"
| failover_done: "\<not> inFlightOf w k OpFailover \<Longrightarrow> op \<in> opsOf w k OpFailover \<Longrightarrow> os_state (op_status op) = OpCompleted \<Longrightarrow>
    rolesAfter op p s = (p', s') \<Longrightarrow> instEdge w k (FsmFailingOver, p, s, l) (FsmActive, p', s', l)"
| failover_compensated: "\<not> inFlightOf w k OpFailover \<Longrightarrow> op \<in> opsOf w k OpFailover \<Longrightarrow> failoverRecoveredByAutoCancel op \<Longrightarrow>
    rolesAfter op p s = (p', s') \<Longrightarrow> instEdge w k (FsmFailingOver, p, s, l) (FsmProtected, p', s', l)"
| failover_rolled_back: "\<not> inFlightOf w k OpFailover \<Longrightarrow> op \<in> opsOf w k OpFailover \<Longrightarrow> os_state (op_status op) = OpFailed \<Longrightarrow>
    shouldRollbackFailoverStepToProtected (failoverFailedStep op) \<Longrightarrow> instEdge w k (FsmFailingOver, p, s, l) (FsmProtected, p, s, l)"
| failover_lost: "\<not> inFlightOf w k OpFailover \<Longrightarrow> instEdge w k (FsmFailingOver, p, s, l) (FsmFailed, p, s, l)"
| reprotect_done: "\<not> inFlightOf w k OpReprotect \<Longrightarrow> op \<in> opsOf w k OpReprotect \<Longrightarrow> os_state (op_status op) = OpCompleted \<Longrightarrow>
    rolesAfter op p s = (p', s') \<Longrightarrow> instEdge w k (FsmFailingBack, p, s, l) (FsmProtected, p', s', l)"
| reprotect_lost: "\<not> inFlightOf w k OpReprotect \<Longrightarrow> instEdge w k (FsmFailingBack, p, s, l) (FsmFailed, p, s, l)"

inductive_cases fromFailingOver: "instEdge w k (FsmFailingOver, p, s, l) b"
inductive_cases fromFailingBack: "instEdge w k (FsmFailingBack, p, s, l) b"

section \<open>The watchdog's snapshot\<close>

lemma observe_running:
  "ws_runningCount (observeOperation i ty s op) = ws_runningCount s +
     (if sp_instanceName (op_spec op) = instName i \<and> sp_operationType (op_spec op) = ty \<and> isOperationInFlight (os_state (op_status op)) then 1 else 0)"
  by (auto simp: observeOperation_def Let_def isOperationInFlight_def split: option.splits)

definition relevant :: "DisasterInstance \<Rightarrow> OperationType \<Rightarrow> DisasterOperation \<Rightarrow> bool" where
  "relevant i ty op \<longleftrightarrow> sp_instanceName (op_spec op) = instName i \<and> sp_operationType (op_spec op) = ty"

lemma snapshot_running:
  "ws_runningCount (foldl (observeOperation i ty) s ops) = ws_runningCount s +
     int (length (filter (\<lambda>op. relevant i ty op \<and> isOperationInFlight (os_state (op_status op))) ops))"
  by (induction ops arbitrary: s) (auto simp: observe_running relevant_def)

lemma snapshot_none_running:
  "ws_runningCount (snapshotOf i ty ops) > 0 \<longleftrightarrow> (\<exists>op \<in> set ops. relevant i ty op \<and> isOperationInFlight (os_state (op_status op)))"
  by (auto simp: snapshotOf_def Let_def snapshot_running filter_empty_conv)

text \<open>The terminal operation of a snapshot is one of the list.\<close>

definition terminalOp :: "DisasterInstance \<Rightarrow> OperationType \<Rightarrow> DisasterOperation \<Rightarrow> bool" where
  "terminalOp i ty op \<longleftrightarrow> relevant i ty op \<and> (os_state (op_status op) = OpCompleted \<or> os_state (op_status op) = OpFailed)"

lemma snapshot_terminal:
  "ws_latestTerminal (foldl (observeOperation i ty) s ops) = Some op \<Longrightarrow>
     ws_latestTerminal s = Some op \<or> (op \<in> set ops \<and> terminalOp i ty op)"
proof (induction ops arbitrary: s)
  case (Cons o' ops)
  then have "ws_latestTerminal (observeOperation i ty s o') = Some op \<or> (op \<in> set ops \<and> terminalOp i ty op)" by simp
  then show ?case
    by (auto simp: observeOperation_def terminalOp_def relevant_def Let_def isOperationInFlight_def split: if_splits option.splits)
qed simp

lemma snapshotOf_terminal: "ws_latestTerminal (snapshotOf i ty ops) = Some op \<Longrightarrow> op \<in> set ops \<and> terminalOp i ty op"
  using snapshot_terminal by (fastforce simp: snapshotOf_def Let_def split: if_splits)

lemma relevant_opsOf:
  assumes "instKey i = k"
  shows "{op \<in> set (filter (inNamespace opKind (instNs i)) (w_ops w)). relevant i ty op} = opsOf w k ty"
  using assms by (auto simp: opsOf_def relevant_def instKey_def metaKey_def instNs_def instName_def)

section \<open>Following the stored instance\<close>

definition tracked :: "world \<Rightarrow> key \<Rightarrow> (DisasterInstanceStatus \<Rightarrow> bool) \<Rightarrow> world \<Rightarrow> bool" where
  "tracked w k P v \<longleftrightarrow> w_cfgs v = w_cfgs w \<and> w_ops v = w_ops w \<and> (\<forall>x. lookup instKind v k = Some x \<longrightarrow> P (in_status x))"

interpretation trackI: world_inv "tracked w k P" for w k P
  by unfold_locales (simp_all add: tracked_def)

lemma tracked_same: "w_insts v' = w_insts v \<Longrightarrow> w_cfgs v' = w_cfgs v \<Longrightarrow> w_ops v' = w_ops v \<Longrightarrow> tracked w k P v \<Longrightarrow> tracked w k P v'"
  using lookup_insts_cong [of v' v k] by (simp add: tracked_def)

lemma merge_inst_status [simp]: "in_status (k_mergeStatus instKind s x) = in_status x" "in_status (k_mergeSpec instKind s x) = in_status s"
  "in_status (k_setMeta instKind m x) = in_status x"
  by (simp_all add: instKind_def)

lemma bump_inst_status: "in_status (bumpRv instKind s x) = in_status x"
  by (simp add: bumpRv_def)

lemma tracked_replace:
  assumes "lookup instKind v (keyOf instKind s) = Some s" and "P (in_status s) \<Longrightarrow> P (in_status x)" and "keyOf instKind x = keyOf instKind s"
    and "tracked w k P v"
  shows "tracked w k P (replaceObj instKind x v)"
proof -
  have "w_cfgs (replaceObj instKind x v) = w_cfgs v" "w_ops (replaceObj instKind x v) = w_ops v" by (simp_all add: replaceObj_def)
  with assms show ?thesis by (auto simp: tracked_def instK.lookup_replaceObj)
qed

lemma keyOf_bump [simp]: "keyOf instKind (bumpRv instKind s x) = keyOf instKind s"
  by (simp add: keyOf_def bumpRv_def instKind_def metaKey_def)

lemma trackI_status: "P (in_status x) \<Longrightarrow> state_io_rel (trackI.keeps w k P) (apiStatusUpdate instKind x)"
  by (rule trackI.rel_apiStatusUpdate)
    (auto simp: trackI.keeps_def bump_inst_status intro!: tracked_replace dest: instK.lookup_self)

lemma trackI_update: "state_io_rel (trackI.keeps w k P) (apiUpdate instKind x)"
  by (rule trackI.rel_apiUpdate)
    (auto simp: trackI.keeps_def bump_inst_status intro!: tracked_replace dest: instK.lookup_self)

lemma find_filter_keep: "(\<And>y. Q y \<Longrightarrow> R y) \<Longrightarrow> find Q (filter R xs) = find Q xs"
  by (induction xs) auto

lemma trackI_finalizers: "state_io_rel (trackI.keeps w k P) (apiPatchFinalizers instKind k' fs)"
proof (rule trackI.rel_apiPatchFinalizers)
  fix s v
  assume "lookup instKind v k' = Some s"
  moreover have "keyOf instKind (k_setMeta instKind (in_meta s\<lparr>m_finalizers := fs, m_rv := n\<rparr>) s) = keyOf instKind s" for n
    by (simp add: keyOf_def instKind_def metaKey_def)
  ultimately show "trackI.keeps w k P v (replaceObj instKind (k_setMeta instKind (k_meta instKind s\<lparr>m_finalizers := fs,
      m_rv := Suc (m_rv (k_meta instKind s))\<rparr>) s) v)"
    by (auto simp: trackI.keeps_def intro!: tracked_replace dest: instK.lookup_self)
next
  fix v
  have "lookup instKind (v\<lparr>w_insts := filter (\<lambda>x. keyOf instKind x \<noteq> k') (w_insts v)\<rparr>) k = (if k = k' then None else lookup instKind v k)"
    using find_filter_keep [of "\<lambda>x. keyOf instKind x = k" "\<lambda>x. keyOf instKind x \<noteq> k'" "w_insts v"]
    by (auto simp: lookup_def find_None_iff)
  then show "trackI.keeps w k P v (k_put instKind (filter (\<lambda>x. keyOf instKind x \<noteq> k') (k_objs instKind v)) v)"
    by (auto simp: trackI.keeps_def tracked_def split: if_splits)
qed

lemma trackI_ds: "state_io_rel (trackI.keeps w k P) (apiUpdate dsKind x)" "state_io_rel (trackI.keeps w k P) (apiCreate dsKind x)"
  by (rule trackI.rel_apiUpdate trackI.rel_apiCreate; simp add: trackI.keeps_def replaceObj_def tracked_same)+

lemma trackI_rs: "state_io_rel (trackI.keeps w k P) (apiUpdate rsKind x)" "state_io_rel (trackI.keeps w k P) (apiCreate rsKind x)"
  by (rule trackI.rel_apiUpdate trackI.rel_apiCreate; simp add: trackI.keeps_def replaceObj_def tracked_same)+

lemma trackI_saveInst: "P (in_status x) \<Longrightarrow> state_io_rel (trackI.keeps w k P) (saveInst x res)"
  unfolding saveInst_def by (intro trackI.rel_intros trackI_status)

lemmas trackI_rules = trackI.rel_intros trackI_update trackI_finalizers trackI_ds trackI_rs trackI.rel_createOrUpdate

lemma trackI_ensure: "state_io_rel (trackI.keeps w k P) (ensureDataSync r i c n)" "state_io_rel (trackI.keeps w k P) (ensureResourceSync r i c n)"
  unfolding ensureDataSync_def ensureResourceSync_def alignSchedule_def resolveScheduleFromPolicy_def
  by (auto intro!: trackI_rules split: prod.splits)

lemma trackI_schedules: "state_io_rel (trackI.keeps w k P) (reconcileSyncSchedules r i)"
  unfolding reconcileSyncSchedules_def Let_def by (intro trackI_rules trackI_ensure)

lemma trackI_health: "state_io_rel (trackI.keeps w k P) (evaluateSteadySyncHealth i)"
  unfolding evaluateSteadySyncHealth_def getSync_def by (intro trackI_rules)

lemma trackI_currentOps: "state_io_rel (trackI.keeps w k P) (currentSyncFailureAvailableOperations i reason)"
  unfolding currentSyncFailureAvailableOperations_def tryGetSync_def by (intro trackI_rules)

lemma trackI_drift: "state_io_rel (trackI.keeps w k P) (evaluateRoleDrift r i)"
  unfolding evaluateRoleDrift_def sampleClusterReplicaRole_def sampleNamespace_def GetKubeClientSet_def Let_def
  by (auto intro!: trackI_rules split: sum.splits)

lemma trackI_recoveredState: "state_io_rel (trackI.keeps w k P) (resolveRecoveredSteadyState i)"
  unfolding resolveRecoveredSteadyState_def by (intro trackI_rules)

text \<open>The changes of a status that are not seen by the machine.\<close>

lemma stateOf_changes [simp]:
  "stateOf (in_status (setOps ops i)) = stateOf (in_status i)"
  "stateOf (in_status (setSyncTimes t u i)) = stateOf (in_status i)"
  "stateOf (in_status (setStatusError a b i)) = stateOf (in_status i)"
  "stateOf (in_status (clearStatusError i)) = stateOf (in_status i)"
  "stateOf (in_status (applyRoleDriftCondition r e i)) = stateOf (in_status i)"
  "stateOf (in_status (explainFailure i)) = stateOf (in_status i)"
  "stateOf (in_status (applyFailedStateFromOperation op a b i)) = stateOf (in_status i)"
  by (simp_all add: stateOf_def setOps_def setSyncTimes_def setStatusError_def clearStatusError_def applyRoleDriftCondition_def
      explainFailure_def applyFailedStateFromOperation_def)

lemma stateOf_setFsm [simp]: "stateOf (in_status (setFsm f i)) = (f, snd (stateOf (in_status i)))"
  by (simp add: stateOf_def setFsm_def)

lemma stateOf_fsm: "stateOf (in_status i) = a \<Longrightarrow> fsm i = f \<Longrightarrow> a = (f, snd a)"
  by (auto simp: stateOf_def fsm_def)

lemma stateOf_eq: "stateOf (in_status i) =
    (fsm i, is_primaryCluster (in_status i), is_secondaryCluster (in_status i), is_lastStableFsmState (in_status i))"
  by (simp add: stateOf_def fsm_def)

section \<open>At most one edge\<close>

definition moved :: "world \<Rightarrow> key \<Rightarrow> instState \<Rightarrow> DisasterInstanceStatus \<Rightarrow> bool" where
  "moved w k a s \<longleftrightarrow> stateOf s = a \<or> instEdge w k a (stateOf s)"

lemma movedI: "stateOf s = a \<Longrightarrow> moved w k a s" "instEdge w k a (stateOf s) \<Longrightarrow> moved w k a s"
  by (simp_all add: moved_def)

abbreviation keepsMoved :: "world \<Rightarrow> key \<Rightarrow> instState \<Rightarrow> 'a action \<Rightarrow> bool" where
  "keepsMoved w k a m \<equiv> state_io_rel (trackI.keeps w k (moved w k a)) m"

text \<open>The edges that keep the roles.\<close>

lemma plain_edges:
  "f = FsmInitializing \<or> f = FsmProtected \<or> f = FsmActive \<Longrightarrow> instEdge w k (f, x) (FsmFailed, x)"
  "instEdge w k (FsmInitializing, x) (FsmProtected, x)"
  "f = FsmProtected \<or> f = FsmActive \<Longrightarrow> instEdge w k (FsmFailed, x) (f, x)"
  by (cases x, auto intro: instEdge.intros)+

lemma fsm_drift [simp]: "fsm (applyRoleDriftCondition r e i) = fsm i"
  by (simp add: fsm_def applyRoleDriftCondition_def)

lemma fst_stateOf: "fst (stateOf (in_status i)) = fsm i"
  by (simp add: stateOf_def fsm_def)

lemma edge_setFsm:
  assumes "stateOf (in_status j) = a" and "fsm j = f" and "\<And>x. instEdge w k (f, x) (g, x)"
  shows "instEdge w k a (stateOf (in_status (setFsm g j)))"
proof -
  have "a = (f, snd a)" using stateOf_fsm [OF assms(1,2)] .
  then show ?thesis using assms(1) assms(3) [of "snd a"] by simp
qed

lemma moved_initializing:
  assumes "stateOf (in_status i) = a" and "fsm i = FsmInitializing"
  shows "keepsMoved w k a (handleInitializing r i)"
proof -
  have e: "instEdge w k a (stateOf (in_status (setFsm FsmFailed i)))" "instEdge w k a (stateOf (in_status (setFsm FsmProtected i)))"
    by (auto intro!: edge_setFsm [OF assms] plain_edges simp del: stateOf_setFsm)
  show ?thesis
    unfolding handleInitializing_def initializingOutcome_def Let_def
    by (auto split: prod.splits intro!: trackI_rules trackI_status movedI(2) e [simplified])
qed

lemma schedules_result:
  "wp (reconcileSyncSchedules r i) (\<lambda>x _. \<forall>j. x = Inr j \<longrightarrow> stateOf (in_status j) = stateOf (in_status i) \<and> fsm j = fsm i) v"
  unfolding reconcileSyncSchedules_def Let_def
  by (auto intro!: wp_any [where m = "apiGet _ _"] wp_any [where m = "ensureDataSync _ _ _ _"] wp_any [where m = "ensureResourceSync _ _ _ _"]
      split: sum.splits option.splits simp: stateOf_def fsm_def)

lemma drift_result:
  "wp (guardByRoleDrift r i) (\<lambda>x _. \<forall>y. x = Inr y \<longrightarrow> \<not> fst y \<longrightarrow> stateOf (in_status (snd y)) = stateOf (in_status i)) v"
  unfolding guardByRoleDrift_def Let_def
  by (auto intro!: wp_any [where m = "evaluateRoleDrift _ _"] wp_any [where m = "apiStatusUpdate _ _"] split: sum.splits)

lemma moved_steady:
  assumes "stateOf (in_status i) = a" and "fsm i = FsmProtected \<or> fsm i = FsmActive"
  shows "keepsMoved w k a (handleSteady r ops d i)"
  unfolding handleSteady_def
proof (rule trackI.rel_chk_result [OF schedules_result trackI_schedules])
  fix j
  assume j: "stateOf (in_status j) = stateOf (in_status i) \<and> fsm j = fsm i"
  have "instEdge w k a (stateOf (in_status (setFsm FsmFailed j)))"
    using assms j by (auto intro!: edge_setFsm plain_edges(1) simp del: stateOf_setFsm)
  then have fl: "instEdge w k a (FsmFailed, snd (stateOf (in_status j)))" by simp
  have "keepsMoved w k a (steadyFailed j reason m ld lr)" for reason m ld lr
    unfolding steadyFailed_def by (auto intro!: trackI_rules trackI_currentOps trackI_status movedI(2) simp: fl)
  moreover have drift: "keepsMoved w k a (guardByRoleDrift r j)"
    unfolding guardByRoleDrift_def Let_def by (auto intro!: trackI_rules trackI_drift trackI_status movedI(2) simp: fl)
  have "keepsMoved w k a (steadyHealthy r ops d j ld lr)" for ld lr
    unfolding steadyHealthy_def
    by (rule trackI.rel_chk_result [OF drift_result drift]) (use j assms(1) in \<open>auto intro!: trackI_rules trackI_saveInst movedI(1)\<close>)
  ultimately show "keepsMoved w k a (chk (evaluateSteadySyncHealth j) (\<lambda>((reason, m), ld, lr).
       if reason \<noteq> [] then steadyFailed j reason m ld lr else steadyHealthy r ops d j ld lr))"
    by (intro trackI.rel_chk [OF trackI_health]) (auto split: prod.split)
qed

lemma moved_failed:
  assumes "stateOf (in_status i) = a" and "fsm i = FsmFailed"
  shows "keepsMoved w k a (handleFailed r i)"
proof -
  have rec: "keepsMoved w k a (recoverInst ev j)" if "stateOf (in_status j) = a" for ev j
  proof -
    have "instEdge w k a (stateOf (in_status (setFsm f j)))" if "f = FsmProtected \<or> f = FsmActive" for f
      using that \<open>stateOf (in_status j) = a\<close> plain_edges(3) assms fst_stateOf [of i] fst_stateOf [of j]
      by (intro edge_setFsm [where f = FsmFailed]) auto
    moreover have res: "wp (resolveRecoveredSteadyState j) (\<lambda>x _. fst x = FsmProtected \<or> fst x = FsmActive) v" for v
      unfolding resolveRecoveredSteadyState_def
      by (auto intro!: wp_any [where m = "apiGet _ _"] split: sum.splits)
    ultimately show ?thesis
      unfolding recoverInst_def
      by (intro trackI.rel_bind_result [OF res trackI_recoveredState]) (auto intro!: trackI_rules trackI_status movedI(2))
  qed
  have sync: "keepsMoved w k a (failedSync r j)" if "stateOf (in_status j) = a" for j
    unfolding failedSync_def Let_def
    by (auto intro!: trackI.rel_chk trackI_health trackI_rules trackI_currentOps trackI_saveInst movedI(1) rec simp: that split: prod.splits if_splits)
  show ?thesis
    unfolding handleFailed_def Let_def
    by (auto intro!: trackI_rules trackI_drift trackI_saveInst movedI(1) rec sync simp: assms(1))
qed

text \<open>A transition is settled only when no operation drives it any more.\<close>

lemma trackI_updateRetry:
  assumes "instKey i = k" and "\<And>x y. P (in_status x) \<Longrightarrow> g x = Some y \<Longrightarrow> P (in_status y)"
  shows "state_io_rel (trackI.keeps w k P) (updateInstanceStatusWithRetry r i g)"
proof -
  have "state_io_rel (trackI.keeps w k P) (chk (apiGet instKind (instKey i)) (\<lambda>latest.
        case g latest of None \<Rightarrow> ok () | Some x \<Rightarrow> chk (apiStatusUpdate instKind x) (\<lambda>_. ok ())))"
  proof (rule trackI.keeps_wp)
    fix v
    assume I: "tracked w k P v"
    show "wp (chk (apiGet instKind (instKey i)) (\<lambda>latest.
        case g latest of None \<Rightarrow> ok () | Some x \<Rightarrow> chk (apiStatusUpdate instKind x) (\<lambda>_. ok ()))) (\<lambda>_. tracked w k P) v"
      unfolding wp_chk [where m = "apiGet _ _"]
    proof (rule wp_apiGet, goal_cases)
      case (1 e fs)
      then show ?case using trackI.inv_faults [OF I] by simp
    next
      case (2 x fs)
      then have x: "P (in_status x)" using I assms(1) by (simp add: tracked_def)
      have "state_io_rel (trackI.keeps w k P) (case g x of None \<Rightarrow> ok () | Some y \<Rightarrow> chk (apiStatusUpdate instKind y) (\<lambda>_. ok ()))"
        using assms(2) [OF x] by (auto intro!: trackI_rules trackI_status split: option.splits)
      then show ?case unfolding sum.case by (rule trackI.wp_keeps [OF _ trackI.inv_faults [OF I]])
    qed
  qed
  then show ?thesis unfolding updateInstanceStatusWithRetry_def by (rule trackI.rel_retry)
qed

text \<open>A change while in a transition, when the transition has an edge for it.\<close>

lemma whileIn_moved:
  assumes "fst a = f" and "\<And>b. instEdge w k a b \<Longrightarrow> fst b \<noteq> f"
    and "\<And>l. stateOf (in_status l) = a \<Longrightarrow> stateOf (in_status (g l)) = a \<or> instEdge w k a (stateOf (in_status (g l)))"
    and "moved w k a (in_status x)" and "whileIn f g x = Some y"
  shows "moved w k a (in_status y)"
proof -
  from assms(5) have y: "y = g x" "fsm x = f" by (auto simp: whileIn_def split: if_splits)
  then have "\<not> instEdge w k a (stateOf (in_status x))" using assms(2) fst_stateOf [of x] by metis
  with assms(4) have "stateOf (in_status x) = a" by (simp add: moved_def)
  with assms(3) y show ?thesis by (simp add: moved_def)
qed

lemma hideOps_moved: "moved w k a (in_status x) \<Longrightarrow> hideOps f x = Some y \<Longrightarrow> moved w k a (in_status y)"
  by (auto simp: hideOps_def moved_def split: if_splits)

lemma leaving: "instEdge w k (FsmFailingOver, x) b \<Longrightarrow> fst b \<noteq> FsmFailingOver" "instEdge w k (FsmFailingBack, x) b \<Longrightarrow> fst b \<noteq> FsmFailingBack"
  by (cases x, auto elim: fromFailingOver fromFailingBack)+

lemma stateOf_settleTo: "stateOf (in_status l) = (f', p, s, ls) \<Longrightarrow>
    stateOf (in_status (settleTo f ops op l)) = (f, fst (rolesAfter op p s), snd (rolesAfter op p s), ls)"
  by (auto simp: settleTo_def setRoles_def rolesAfter_def setFsm_def stateOf_def setOps_def clearStatusError_def split: option.splits)

text \<open>The two transitions read the operations of the instance first.\<close>

lemma snapshot_wp:
  assumes "instKey i = k" and "tracked w k P v"
    and "\<And>snap. (ws_runningCount snap > 0 \<longleftrightarrow> inFlightOf w k ty) \<Longrightarrow>
      (\<And>op. ws_latestTerminal snap = Some op \<Longrightarrow> op \<in> opsOf w k ty \<and> (os_state (op_status op) = OpCompleted \<or> os_state (op_status op) = OpFailed)) \<Longrightarrow>
      state_io_rel (trackI.keeps w k P) (f snap)"
  shows "wp (chk (collectOperationWatchdogSnapshot i ty) f) (\<lambda>_. tracked w k P) v"
proof -
  have ops: "w_ops v = w_ops w" using assms(2) by (simp add: tracked_def)
  let ?snap = "snapshotOf i ty (filter (inNamespace opKind (instNs i)) (w_ops w))"
  have rel: "op \<in> opsOf w k ty \<longleftrightarrow> op \<in> set (filter (inNamespace opKind (instNs i)) (w_ops w)) \<and> relevant i ty op" for op
    using relevant_opsOf [OF assms(1), of w ty] by blast
  have "state_io_rel (trackI.keeps w k P) (f ?snap)"
    by (intro assms(3)) (auto simp: rel snapshot_none_running inFlightOf_def terminalOp_def dest!: snapshotOf_terminal)
  then have "wp (f ?snap) (\<lambda>_. tracked w k P) (v\<lparr>w_faults := fs\<rparr>)" for fs
    by (rule trackI.wp_keeps) (rule trackI.inv_faults [OF assms(2)])
  then show ?thesis
    unfolding collectOperationWatchdogSnapshot_def wp_chk
    by (intro wp_apiList) (auto simp: ops trackI.inv_faults [OF assms(2)])
qed

lemma moved_settleVia:
  assumes "fst a = f" and "\<And>b. instEdge w k a b \<Longrightarrow> fst b \<noteq> f" and "instKey i = k"
    and "\<And>x. stateOf (in_status x) = a \<Longrightarrow> instEdge w k a (stateOf (in_status (g x)))"
  shows "keepsMoved w k a (settleVia r i (whileIn f g) res)"
  unfolding settleVia_def
proof (intro trackI.rel_chk trackI.rel_ret trackI_updateRetry [OF assms(3)])
  fix x y
  assume "moved w k a (in_status x)" "whileIn f g x = Some y"
  then show "moved w k a (in_status y)" using assms(1,2,4) by (intro whileIn_moved [of a f w k g x y]) blast+
qed

lemma moved_hideOps: "instKey i = k \<Longrightarrow> keepsMoved w k a (settleVia r i (hideOps f) res)"
  unfolding settleVia_def by (intro trackI.rel_chk trackI.rel_ret trackI_updateRetry) (simp, erule (1) hideOps_moved)

lemma moved_failingOver:
  assumes "stateOf (in_status i) = a" and "fsm i = FsmFailingOver" and "instKey i = k"
  shows "keepsMoved w k a (handleFailingOver r i)"
  unfolding handleFailingOver_def
proof (rule trackI.keeps_wp, rule snapshot_wp [OF assms(3)], assumption)
  fix snap :: operationWatchdogSnapshot
  assume run: "ws_runningCount snap > 0 \<longleftrightarrow> inFlightOf w k OpFailover"
    and trm: "\<And>op. ws_latestTerminal snap = Some op \<Longrightarrow> op \<in> opsOf w k OpFailover \<and> (os_state (op_status op) = OpCompleted \<or> os_state (op_status op) = OpFailed)"
  obtain p s l where a: "a = (FsmFailingOver, p, s, l)" using stateOf_fsm [OF assms(1,2)] by (metis prod.exhaust)
  have upd: "keepsMoved w k a (settleVia r i (whileIn FsmFailingOver g) res)"
    if "\<And>x. stateOf (in_status x) = a \<Longrightarrow> instEdge w k a (stateOf (in_status (g x)))" for g res
    using that leaving(1) by (intro moved_settleVia assms(3)) (auto simp: a)
  show "keepsMoved w k a (settleFailingOver r i snap)"
  proof (cases "inFlightOf w k OpFailover")
    case True
    then show ?thesis
      using run moved_hideOps [OF assms(3)] by (auto simp: settleFailingOver_def intro: trackI.rel_ret)
  next
    case False
    have lost: "instEdge w k a (FsmFailed, snd a)" using False by (simp add: a failover_lost)
    have settled: "instEdge w k a (stateOf (in_status (settleTo f ops op x)))"
      if "op \<in> opsOf w k OpFailover" "stateOf (in_status x) = a"
        "f = FsmActive \<and> os_state (op_status op) = OpCompleted \<or> f = FsmProtected \<and> failoverRecoveredByAutoCancel op" for f ops op x
      using that False by (auto simp: a stateOf_settleTo [of x FsmFailingOver p s l] intro: failover_done failover_compensated)
    have flr: "instEdge w k a (stateOf (in_status (settleFailoverFailed op x)))"
      if "op \<in> opsOf w k OpFailover" "stateOf (in_status x) = a" "os_state (op_status op) = OpFailed" for op x
      using that lost False by (auto simp: settleFailoverFailed_def a intro: failover_rolled_back)
    have "keepsMoved w k a (settleVia r i (whileIn FsmFailingOver (lostTransition x y)) res)" for x y res
      using lost by (intro upd) (simp add: lostTransition_def)
    moreover have "keepsMoved w k a (settleVia r i (whileIn FsmFailingOver (settleFailoverFailed op)) res)"
      if "op \<in> opsOf w k OpFailover" "os_state (op_status op) = OpFailed" for op res
      using that by (intro upd flr)
    moreover have "keepsMoved w k a (settleVia r i (whileIn FsmFailingOver (settleTo f ops op)) res)"
      if "op \<in> opsOf w k OpFailover" "f = FsmActive \<and> os_state (op_status op) = OpCompleted \<or> f = FsmProtected \<and> failoverRecoveredByAutoCancel op"
      for f ops op res
      using that by (intro upd settled)
    ultimately show ?thesis
      using False run unfolding settleFailingOver_def
      by (auto intro!: trackI.rel_ret dest: trm split: option.split)
  qed
qed

lemma moved_failingBack:
  assumes "stateOf (in_status i) = a" and "fsm i = FsmFailingBack" and "instKey i = k"
  shows "keepsMoved w k a (handleFailingBack r i)"
  unfolding handleFailingBack_def
proof (rule trackI.keeps_wp, rule snapshot_wp [OF assms(3)], assumption)
  fix snap :: operationWatchdogSnapshot
  assume run: "ws_runningCount snap > 0 \<longleftrightarrow> inFlightOf w k OpReprotect"
    and trm: "\<And>op. ws_latestTerminal snap = Some op \<Longrightarrow> op \<in> opsOf w k OpReprotect \<and> (os_state (op_status op) = OpCompleted \<or> os_state (op_status op) = OpFailed)"
  obtain p s l where a: "a = (FsmFailingBack, p, s, l)" using stateOf_fsm [OF assms(1,2)] by (metis prod.exhaust)
  have upd: "keepsMoved w k a (settleVia r i (whileIn FsmFailingBack g) res)"
    if "\<And>x. stateOf (in_status x) = a \<Longrightarrow> instEdge w k a (stateOf (in_status (g x)))" for g res
    using that leaving(2) by (intro moved_settleVia assms(3)) (auto simp: a)
  show "keepsMoved w k a (settleFailingBack r i snap)"
  proof (cases "inFlightOf w k OpReprotect")
    case True
    then show ?thesis
      using run moved_hideOps [OF assms(3)] by (auto simp: settleFailingBack_def intro: trackI.rel_ret)
  next
    case False
    have lost: "instEdge w k a (FsmFailed, snd a)" using False by (simp add: a reprotect_lost)
    have settled: "instEdge w k a (stateOf (in_status (settleTo FsmProtected ops op x)))"
      if "op \<in> opsOf w k OpReprotect" "stateOf (in_status x) = a" "os_state (op_status op) = OpCompleted" for ops op x
      using that False by (auto simp: a stateOf_settleTo [of x FsmFailingBack p s l] intro: reprotect_done)
    have "keepsMoved w k a (settleVia r i (whileIn FsmFailingBack (lostTransition x y)) res)"
      "keepsMoved w k a (settleVia r i (whileIn FsmFailingBack (settleReprotectFailed op)) res)" for x y op res
      using lost by (intro upd; simp add: lostTransition_def settleReprotectFailed_def)+
    moreover have "keepsMoved w k a (settleVia r i (whileIn FsmFailingBack (settleTo FsmProtected ops op)) res)"
      if "op \<in> opsOf w k OpReprotect" "os_state (op_status op) = OpCompleted" for ops op res
      using that by (intro upd settled)
    ultimately show ?thesis
      using False run unfolding settleFailingBack_def
      by (auto intro!: trackI.rel_ret dest: trm split: option.split)
  qed
qed

lemma moved_pending:
  assumes "stateOf (in_status i) = a" and "fsm i = FsmPending"
  shows "keepsMoved w k a (handlePending r i)"
proof (rule trackI.keeps_wp)
  fix v
  assume I: "tracked w k (moved w k a) v"
  show "wp (handlePending r i) (\<lambda>_. tracked w k (moved w k a)) v"
    unfolding handlePending_def wp_bind
  proof (rule wp_apiGet, goal_cases)
    case (1 e fs)
    then show ?case using trackI.inv_faults [OF I] by (auto intro: trackI.inv_events)
  next
    case (2 c fs)
    then have c: "c \<in> set (w_cfgs w)" using I by (auto simp: lookup_def tracked_def find_Some_iff)
    have "instEdge w k a (stateOf ((in_status i)\<lparr>is_dataSyncName := n, is_resourceSyncName := n', is_primaryCluster := cfg_sourceCluster c,
        is_secondaryCluster := cfg_targetCluster c, is_fsmState := FsmInitializing\<rparr>))" for n n'
      using assms by (auto simp: stateOf_def fsm_def intro: provision [OF c])
    then have "keepsMoved w k a (provisionInstance r i c)"
      unfolding provisionInstance_def by (intro trackI_rules trackI_ensure trackI_status movedI(2)) simp
    then show ?case unfolding sum.case by (rule trackI.wp_keeps) (rule trackI.inv_faults [OF I])
  qed
qed

lemma moved_guard:
  assumes "stateOf (in_status i) = a"
  shows "keepsMoved w k a (guardByConfigHealth i)"
proof -
  obtain f p s l where a: "a = (f, p, s, l)" by (metis prod.exhaust)
  with assms have i: "is_fsmState (in_status i) = f" "is_primaryCluster (in_status i) = p" "is_secondaryCluster (in_status i) = s"
    "is_lastStableFsmState (in_status i) = l" "fsm i = f"
    by (auto simp: stateOf_def fsm_def)
  have bad: "instEdge w k a (stateOf ((in_status i)\<lparr>is_lastStableFsmState := f, is_fsmState := FsmConfigError\<rparr>))"
    if "isConfigGuardManagedState f" "f \<noteq> FsmConfigError"
    using config_bad [OF that] by (simp add: a i stateOf_def)
  have good: "instEdge w k a (stateOf ((in_status i)\<lparr>is_fsmState := l, is_lastStableFsmState := FsmNone\<rparr>))"
    if "f = FsmConfigError" "l \<noteq> FsmNone"
    using config_ok [OF that(2)] by (simp add: a i stateOf_def that(1))
  show ?thesis
    unfolding guardByConfigHealth_def evaluateConfigHealth_def Let_def i
    by (auto intro!: trackI_rules trackI_status split: option.splits simp: moved_def assms bad good)
qed

lemma moved_route:
  assumes "stateOf (in_status i) = a" and "instKey i = k"
  shows "keepsMoved w k a (routeInstance r i)"
proof -
  have adm: "instEdge w k a (FsmPending, snd a)" if "fsm i = FsmNone \<or> (\<exists>x. fsm i = FsmOther x)"
    using that admit [of "fsm i"] stateOf_fsm [OF assms(1) refl] by (cases a) (auto simp: stateOf_def fsm_def)
  show ?thesis
    unfolding routeInstance_def handleProtected_def handleActive_def handlePaused_def handleConfigError_def
    using adm
    by (auto split: FsmState.split intro!: trackI_saveInst moved_pending moved_initializing moved_steady moved_failed moved_failingOver
        moved_failingBack assms intro: movedI simp: assms(1))
qed

lemma moved_reconcile:
  assumes "stateOf (in_status i) = a" and "instKey i = k"
  shows "keepsMoved w k a (reconcileInstance r i)"
proof -
  have res: "wp (instSyncDependencyLabels r i) (\<lambda>x _. in_status (snd x) = in_status i \<and> instKey (snd x) = instKey i) v" for v
    unfolding instSyncDependencyLabels_def Let_def
    by (auto intro!: wp_any [where m = "apiGet _ _"] simp: instKey_def metaKey_def)
  have io: "keepsMoved w k a (instSyncDependencyLabels r i)"
    unfolding instSyncDependencyLabels_def Let_def by (intro trackI_rules)
  have adm: "instEdge w k a (stateOf (in_status (setFsm FsmPending j)))" if "in_status j = in_status i" "fsm j = FsmNone" for j
    using that assms(1) admit [of FsmNone] by (cases a) (auto simp: stateOf_def fsm_def setFsm_def)
  have body: "keepsMoved w k a (if fst x then chk (apiUpdate instKind (snd x)) (\<lambda>_. ok requeue_result)
         else if fsm (snd x) = FsmNone then saveInst (setFsm FsmPending (snd x)) requeue_result
         else chk (guardByConfigHealth (snd x)) (\<lambda>h. case h of Some res \<Rightarrow> ok res | None \<Rightarrow> routeInstance r (snd x)))"
    if "in_status (snd x) = in_status i \<and> instKey (snd x) = instKey i" for x
    using that assms by (intro trackI_rules trackI_saveInst movedI(2) adm moved_guard moved_route) auto
  have del: "keepsMoved w k a (instHandleDeletion i)"
    unfolding instHandleDeletion_def by (intro trackI_rules)
  show ?thesis
    unfolding reconcileInstance_def
    by (intro trackI.rel_if trackI.rel_bind_result [OF res io] del trackI.rel_chk trackI_update trackI.rel_ret body)
qed

text \<open>C3. Refinement: one reconcile of the instance controller, whatever the API server answers, takes the stored
  instance along at most one edge of the abstract machine: it provisions from a configuration,
  settles a transition only when no failover (reprotect) of the instance is in flight, to the
  outcome of an operation that has ended, remembers the state left for a configuration error
  and goes back to exactly it, and changes the roles on no other occasion. All other instances, the operations, the
  configurations and the member clusters stay as they are; only this instance, sync objects and events are written.\<close>

theorem instance_refines_fsm:
  assumes "lookup instKind w k = Some i"
  shows "(\<forall>i'. lookup instKind (snd (run_state (instReconcile r k) w)) k = Some i' \<longrightarrow>
      stateOf (in_status i') = stateOf (in_status i) \<or> instEdge w k (stateOf (in_status i)) (stateOf (in_status i'))) \<and>
    outsideInst k (snd (run_state (instReconcile r k) w)) = outsideInst k w"
proof -
  let ?a = "stateOf (in_status i)"
  have I: "tracked w k (moved w k ?a) (w\<lparr>w_faults := fs\<rparr>)" for fs
    using assms by (simp add: tracked_def moved_def)
  have "wp (instReconcile r k) (\<lambda>_. tracked w k (moved w k ?a)) w"
    unfolding instReconcile_def wp_bind
  proof (rule wp_apiGet, goal_cases)
    case (1 e fs)
    then show ?case using I by simp
  next
    case (2 x fs)
    then have "x = i" "instKey i = k" using assms lookup_instKey [of w k i] by auto
    then show ?case unfolding sum.case using trackI.wp_keeps [OF moved_reconcile I, of i] by simp
  qed
  with reconcile_outside [OF assms] show ?thesis by (simp add: wp_snd tracked_def moved_def)
qed

end
