(* ===== verification/Runs.thy ===== *)
theory Runs
  imports Actions
begin

text \<open>
  Runs without faults: what a call of the client returns, and what it leaves, when the API
  server carries out every request. The collection \<open>runs\<close> evaluates a handler symbolically.
\<close>

named_theorems runs "runs of actions when the API server answers every call"

lemma run_bind [runs]: "run_state (State_Monad.bind m f) w = (case run_state m w of (x, w') \<Rightarrow> run_state (f x) w')"
  by (simp add: State_Monad.bind_def split: prod.splits)

lemma run_ret [runs]: "run_state (ret x) w = (x, w)"
  by (simp add: State_Monad.return_def)

lemma run_chk [runs]: "run_state (chk m f) w = (case run_state m w of (Inl e, w') \<Rightarrow> (Inl e, w') | (Inr x, w') \<Rightarrow> run_state (f x) w')"
  by (simp add: chk_def run_bind run_ret split: prod.splits sum.splits)

lemma run_emit [runs]: "run_state (emit a b) w = ((), w\<lparr>w_events := w_events w @ [\<lparr>ev_object = a, ev_reason = b\<rparr>]\<rparr>)"
  by (simp add: emit_def)

lemma run_popFault [runs]: "w_faults w = [] \<Longrightarrow> run_state popFault w = (None, w)"
  by (simp add: popFault_def)

lemma run_faulty [runs]: "w_faults w = [] \<Longrightarrow> run_state (faulty m) w = run_state m w"
  by (simp add: faulty_def run_bind run_popFault)

lemma run_apiGet [runs]: "w_faults w = [] \<Longrightarrow> run_state (apiGet K k) w = (case lookup K w k of None \<Rightarrow> Inl (notFoundErr k) | Some x \<Rightarrow> Inr x, w)"
  by (simp add: apiGet_def run_bind run_popFault)

lemma run_apiListRaw [runs]: "w_faults w = [] \<Longrightarrow> run_state (apiListRaw f P) w = (Inr (filter P (f w)), w)"
  by (simp add: apiListRaw_def run_bind run_popFault)

lemma run_apiList [runs]: "w_faults w = [] \<Longrightarrow> run_state (apiList K ns) w = (Inr (filter (inNamespace K ns) (k_objs K w)), w)"
  by (simp add: apiList_def run_apiListRaw)

lemma run_extCall [runs]: "w_faults w = [] \<Longrightarrow> run_state extCall w = (Inr (), w)"
  by (simp add: extCall_def run_faulty run_ret)

lemma run_status:
  assumes "w_faults w = []" and "lookup K w (keyOf K x) = Some s" and "m_rv (k_meta K s) = m_rv (k_meta K x)"
  shows "run_state (apiStatusUpdate K x) w =
    (Inr (bumpRv K s (k_mergeStatus K s x)), replaceObj K (bumpRv K s (k_mergeStatus K s x)) w)"
  using assms by (simp add: apiStatusUpdate_def run_faulty storeWrite_def Let_def)

lemma run_retry: "run_state m w = (Inr x, w') \<Longrightarrow> run_state (retryOnConflict n m) w = (Inr x, w')"
  by (cases n) (simp_all add: run_bind run_ret)

lemma run_forEach:
  "run_state (forEach f [] s) w = (Inr s, w)"
  "run_state (forEach f (x # xs) s) w = (case run_state (f x s) w of (Inl e, w') \<Rightarrow> (Inl e, w') | (Inr s', w') \<Rightarrow> run_state (forEach f xs s') w')"
  by (simp_all add: run_chk run_ret)

lemma notFound_kind [simp]: "err_kind (notFoundErr k) = NotFound"
  by (simp add: notFoundErr_def)

text \<open>Writing a status that was read from the server.\<close>

context kube_kind
begin

lemma run_statusUpdate:
  assumes "w_faults w = []" and "lookup K w k = Some s" and "keyOf K x = k" and "m_rv (k_meta K x) = m_rv (k_meta K s)"
  shows "run_state (apiStatusUpdate K x) w =
    (Inr (bumpRv K s (k_mergeStatus K s x)), replaceObj K (bumpRv K s (k_mergeStatus K s x)) w)"
  using assms by (intro run_status) simp_all

lemma lookup_after_status:
  assumes "lookup K w k = Some s"
  shows "lookup K (replaceObj K (bumpRv K s y) w) k = Some (bumpRv K s y)"
  using assms lookup_key [OF assms] by (simp add: lookup_replaceObj)

end

end
