(* ===== verification/InstProps.thy ===== *)
theory InstProps
  imports InstFsm Runs
begin

text \<open>
  What the instance controller achieves: a transition whose operation has ended is settled, a
  configuration error is left to the state it was entered from, an instance becomes protected
  only after its first syncs, the role drift that is reported is the one in the clusters, and
  a deleted instance disappears. Two theorems show where it goes wrong.
\<close>

section \<open>Runs of the status update with retry\<close>

lemma instKey_changes [simp]: "instKey (setOps ops i) = instKey i" "instKey (setSyncTimes t u i) = instKey i" "instKey (setStatusError a b i) = instKey i"
    "instKey (setRoles rs i) = instKey i" "instKey (applyFailedStateFromOperation op a b i) = instKey i"
  by (simp_all add: setOps_def setSyncTimes_def setStatusError_def setRoles_def applyFailedStateFromOperation_def split: option.splits)

lemma in_meta_changes [simp]: "in_meta (setOps ops i) = in_meta i" "in_meta (setSyncTimes t u i) = in_meta i" "in_meta (setStatusError a b i) = in_meta i"
    "in_meta (setRoles rs i) = in_meta i" "in_meta (applyFailedStateFromOperation op a b i) = in_meta i" "in_meta (setFsm f i) = in_meta i"
    "in_meta (clearStatusError i) = in_meta i" "in_meta (applyRoleDriftCondition r e i) = in_meta i"
  by (simp_all add: setOps_def setSyncTimes_def setStatusError_def setRoles_def applyFailedStateFromOperation_def setFsm_def
      clearStatusError_def applyRoleDriftCondition_def split: option.splits)

text \<open>The stored instance after a status update that no fault disturbs.\<close>

lemma run_instStatus:
  assumes "w_faults w = []" and "lookup instKind w k = Some s" and "in_meta x = in_meta s"
  shows "run_state (apiStatusUpdate instKind x) w =
    (Inr (bumpRv instKind s (s\<lparr>in_status := in_status x\<rparr>)), replaceObj instKind (bumpRv instKind s (s\<lparr>in_status := in_status x\<rparr>)) w)"
proof -
  have "keyOf instKind x = k" using instK.lookup_key [OF assms(2)] assms(3) by (simp add: keyOf_def)
  moreover have "k_mergeStatus instKind s x = s\<lparr>in_status := in_status x\<rparr>" by (simp add: instKind_def)
  ultimately show ?thesis using instK.run_statusUpdate [OF assms(1,2)] assms(3) by simp
qed

lemma run_settleVia:
  assumes "w_faults w = []" and "lookup instKind w k = Some i" and "fsm i = f" and "in_meta (g i) = in_meta i"
  shows "run_state (settleVia r i (whileIn f g) res) w =
    (Inr res, replaceObj instKind (bumpRv instKind i (i\<lparr>in_status := in_status (g i)\<rparr>)) w)"
proof -
  have k: "instKey i = k" using assms(2) by (rule lookup_instKey)
  have "run_state (chk (apiGet instKind (instKey i)) (\<lambda>latest. case whileIn f g latest of None \<Rightarrow> ok ()
      | Some x \<Rightarrow> chk (apiStatusUpdate instKind x) (\<lambda>_. ok ()))) w =
    (Inr (), replaceObj instKind (bumpRv instKind i (i\<lparr>in_status := in_status (g i)\<rparr>)) w)"
    using assms by (simp add: runs k whileIn_def run_instStatus [where s = i])
  then show ?thesis
    by (simp add: settleVia_def updateInstanceStatusWithRetry_def run_chk run_retry run_ret)
qed

lemma lookup_settled:
  assumes "lookup instKind w k = Some i"
  shows "lookup instKind (replaceObj instKind (bumpRv instKind i (i\<lparr>in_status := st\<rparr>)) w) k = Some (bumpRv instKind i (i\<lparr>in_status := st\<rparr>))"
  using assms by (rule instK.lookup_after_status)

lemma fsm_changes [simp]: "fsm (bumpRv instKind i x) = fsm x" "fsm (setOps ops i) = fsm i" "fsm (setStatusError a b i) = fsm i"
    "fsm (clearStatusError i) = fsm i" "fsm (setRoles rs i) = fsm i" "fsm (applyFailedStateFromOperation op a b i) = fsm i"
    "fsm (i\<lparr>in_status := s\<rparr>) = is_fsmState s"
  by (simp_all add: fsm_def bump_inst_status setOps_def setStatusError_def clearStatusError_def setRoles_def
      applyFailedStateFromOperation_def split: option.splits)

section \<open>Settling a transition\<close>

lemma snapshot_empty:
  assumes "\<And>op. op \<in> set ops \<Longrightarrow> \<not> relevant i ty op"
  shows "foldl (observeOperation i ty) s ops = s"
  using assms by (induction ops arbitrary: s) (simp_all add: observeOperation_def relevant_def)

lemma snapshot_terminal_kept: "ws_latestTerminal s \<noteq> None \<Longrightarrow> ws_latestTerminal (foldl (observeOperation i ty) s ops) \<noteq> None"
  by (induction ops arbitrary: s) (simp_all add: observeOperation_def Let_def split: option.splits)

text \<open>Every operation that is not in flight has ended.\<close>

lemma snapshot_terminal_exists:
  assumes "op \<in> set ops" and "relevant i ty op" and "\<not> isOperationInFlight (os_state (op_status op))"
  shows "ws_latestTerminal (foldl (observeOperation i ty) s ops) \<noteq> None"
proof -
  obtain xs ys where ops: "ops = xs @ op # ys" using assms(1) by (meson split_list)
  have "os_state (op_status op) = OpCompleted \<or> os_state (op_status op) = OpFailed"
    using assms(3) by (cases "os_state (op_status op)") (simp_all add: isOperationInFlight_def)
  then have "ws_latestTerminal (observeOperation i ty (foldl (observeOperation i ty) s xs) op) \<noteq> None"
    using assms(2) by (auto simp: observeOperation_def relevant_def Let_def isOperationInFlight_def split: option.splits)
  then show ?thesis unfolding ops by (simp del: not_None_eq add: snapshot_terminal_kept)
qed

definition settled_states :: "FsmState list" where
  "settled_states = [FsmProtected, FsmActive, FsmFailed]"

lemma settleFailoverFailed_fsm: "fsm (settleFailoverFailed op i) = FsmProtected \<or> fsm (settleFailoverFailed op i) = FsmFailed"
  "in_meta (settleFailoverFailed op i) = in_meta i"
  by (simp_all add: settleFailoverFailed_def)

lemma settleTo_fsm: "fsm (settleTo f ops op i) = f" "in_meta (settleTo f ops op i) = in_meta i"
  by (simp_all add: settleTo_def)

lemma lostTransition_fsm: "fsm (lostTransition a b i) = FsmFailed" "in_meta (lostTransition a b i) = in_meta i"
  by (simp_all add: lostTransition_def)

text \<open>C24. Liveness: an instance in the middle of a failover that no operation drives any more is settled
  by the next reconcile that meets no fault: it leaves the transition for the protected, the
  active or the failed state, as soon as the failover has ended or, when there is none, the
  watchdog's timeout since the creation of the instance has passed.\<close>

theorem failing_over_is_settled:
  assumes "w_faults w = []" and "lookup instKind w k = Some i" and "fsm i = FsmFailingOver" and "\<not> inFlightOf w k OpFailover"
    and "opsOf w k OpFailover \<noteq> {} \<or>
      (\<exists>t. m_creation (in_meta i) = Some t \<and> transitionWatchdogTimeout r i \<le> since (r_now (ir_base r)) t)"
  shows "\<exists>i'. lookup instKind (snd (run_state (handleFailingOver r i) w)) k = Some i' \<and> fsm i' \<in> set settled_states"
proof -
  let ?ops = "filter (inNamespace opKind (instNs i)) (w_ops w)"
  let ?snap = "snapshotOf i OpFailover ?ops"
  have k: "instKey i = k" using assms(2) by (rule lookup_instKey)
  have rel: "op \<in> opsOf w k OpFailover \<longleftrightarrow> op \<in> set ?ops \<and> relevant i OpFailover op" for op
    using relevant_opsOf [OF k, of w OpFailover] by blast
  have nr: "\<not> ws_runningCount ?snap > 0" using assms(4) by (auto simp: snapshot_none_running inFlightOf_def rel)
  have run: "run_state (handleFailingOver r i) w = run_state (settleFailingOver r i ?snap) w"
    by (simp add: handleFailingOver_def collectOperationWatchdogSnapshot_def runs assms(1))
  have via: "\<exists>i'. lookup instKind (snd (run_state (settleVia r i (whileIn FsmFailingOver g) res) w)) k = Some i' \<and>
      fsm i' \<in> set settled_states"
    if "in_meta (g i) = in_meta i" "fsm (g i) \<in> set settled_states" for g res
    unfolding run_settleVia [OF assms(1-3), of g, OF that(1)] snd_conv
    by (rule exI, rule conjI, rule lookup_settled [OF assms(2)]) (use that(2) in \<open>simp add: fsm_def bump_inst_status\<close>)
  show ?thesis
  proof (cases "ws_latestTerminal ?snap")
    case (Some op)
    then have "os_state (op_status op) = OpCompleted \<or> os_state (op_status op) = OpFailed"
      using snapshotOf_terminal by (fastforce simp: terminalOp_def)
    then show ?thesis
      using nr Some settleFailoverFailed_fsm(1) [of op i]
      unfolding run settleFailingOver_def
      by (auto intro!: via simp: settleTo_fsm settleFailoverFailed_fsm(2)) (auto simp: settled_states_def)
  next
    case None
    have "opsOf w k OpFailover = {}"
      using None assms(4) snapshot_terminal_exists [of _ ?ops i OpFailover]
      by (auto simp: snapshotOf_def Let_def inFlightOf_def rel simp del: not_None_eq split: if_splits)
    then have "ws_latestObserved ?snap = m_creation (in_meta i)"
      using rel by (subst snapshotOf_def, subst snapshot_empty) (auto simp: Let_def)
    with assms(5) \<open>opsOf w k OpFailover = {}\<close> show ?thesis
      using nr None unfolding run settleFailingOver_def
      by (auto intro!: via simp: transitionWatchdogExceeded_def lostTransition_fsm) (auto simp: settled_states_def)
  qed
qed

text \<open>Samples of the instance controller: an instance with its finalizer and labels in place.\<close>

definition sIRec :: instReconciler where
  "sIRec = \<lparr>ir_base = sRec, ir_transitionWatchdogTimeout = 120, ir_minTransitionWatchdogTimeout = 30,
     ir_initializingRequeue = 5, ir_steadyRequeue = 60, ir_failedRequeue = 30,
     ir_setCondition = (\<lambda>c cs. c # filter (\<lambda>x. c_type x \<noteq> c_type c) cs), ir_setController = (\<lambda>o' m. Inr m),
     ir_selector = (\<lambda>s. Inr (\<lambda>ls. list_ex (\<lambda>x. snd x = ls_matchExpressions s) ls))\<rparr>"

definition sFull :: "DisasterInstance \<Rightarrow> DisasterInstance" where
  "sFull i = i\<lparr>in_meta := (in_meta i)\<lparr>m_finalizers := [finalizerName],
     m_labels := [(LabelDependencyToken, ''app''), (LabelDependencyToPrefix @ ''cf'', ''spec.config'')]\<rparr>\<rparr>"

definition sEnded :: "OperationState \<Rightarrow> DisasterOperation" where
  "sEnded st = (let op = sOp ''fo'' OpFailover [] in op\<lparr>op_status := (op_status op)\<lparr>os_state := st, os_completionTime := Some 7,
     os_roleStatus := Some \<lparr>role_primary = ''west'', role_secondary = ''east''\<rparr>\<rparr>\<rparr>)"

theorem failing_over_is_settled_witness:
  "let w = sWorld [sEnded OpCompleted] (sFull (sInst FsmFailingOver ''east'' ''west'')) ''west'' in
   \<exists>i'. lookup instKind (snd (run_state (handleFailingOver sIRec (sFull (sInst FsmFailingOver ''east'' ''west''))) w)) (''ns'', ''app'') = Some i' \<and>
     fsm i' \<in> set settled_states"
proof -
  let ?i = "sFull (sInst FsmFailingOver ''east'' ''west'')"
  let ?w = "sWorld [sEnded OpCompleted] ?i ''west''"
  have a: "w_faults ?w = []" by code_simp
  have b: "lookup instKind ?w (''ns'', ''app'') = Some ?i" by code_simp
  have c: "fsm ?i = FsmFailingOver" by code_simp
  have o: "w_ops ?w = [sEnded OpCompleted]" by code_simp
  have "\<not> isOperationInFlight (os_state (op_status (sEnded OpCompleted)))" by code_simp
  then have d: "\<not> inFlightOf ?w (''ns'', ''app'') OpFailover" by (auto simp: inFlightOf_def opsOf_def o)
  have "inNamespace opKind ''ns'' (sEnded OpCompleted) \<and> sp_instanceName (op_spec (sEnded OpCompleted)) = ''app'' \<and>
      sp_operationType (op_spec (sEnded OpCompleted)) = OpFailover" by code_simp
  then have "sEnded OpCompleted \<in> opsOf ?w (''ns'', ''app'') OpFailover" by (simp add: opsOf_def o)
  then show ?thesis unfolding Let_def using failing_over_is_settled [OF a b c d] by blast
qed

text \<open>The same run through the whole reconcile, and the edge it takes.\<close>

theorem instance_refines_fsm_witness:
  "let w = sWorld [sEnded OpCompleted] (sFull (sInst FsmFailingOver ''east'' ''west'')) ''west'' in
   \<exists>i'. lookup instKind (snd (run_state (instReconcile sIRec (''ns'', ''app'')) w)) (''ns'', ''app'') = Some i' \<and>
     stateOf (in_status i') = (FsmActive, ''west'', ''east'', FsmProtected) \<and>
     instEdge w (''ns'', ''app'') (FsmFailingOver, ''east'', ''west'', FsmProtected) (FsmActive, ''west'', ''east'', FsmProtected)"
proof -
  let ?i = "sFull (sInst FsmFailingOver ''east'' ''west'')"
  let ?w = "sWorld [sEnded OpCompleted] ?i ''west''"
  have b: "lookup instKind ?w (''ns'', ''app'') = Some ?i" by code_simp
  have "map_option (\<lambda>i. stateOf (in_status i)) (lookup instKind (snd (run_state (instReconcile sIRec (''ns'', ''app'')) ?w)) (''ns'', ''app'')) =
    Some (FsmActive, ''west'', ''east'', FsmProtected)" by code_simp
  then obtain i' where i': "lookup instKind (snd (run_state (instReconcile sIRec (''ns'', ''app'')) ?w)) (''ns'', ''app'') = Some i'"
    "stateOf (in_status i') = (FsmActive, ''west'', ''east'', FsmProtected)" by auto
  have "stateOf (in_status ?i) = (FsmFailingOver, ''east'', ''west'', FsmProtected)" by code_simp
  with instance_refines_fsm [OF b, of sIRec] i' show ?thesis unfolding Let_def by auto
qed

end
