(* ===== verification/InstHealth.thy ===== *)
theory InstHealth
  imports InstProps
begin

text \<open>
  The health checks of the instance controller: the round trip through a configuration error,
  the first protection of an instance, the sampling of the clusters behind the role drift, and
  the deletion of an instance.
\<close>

section \<open>Configuration errors\<close>

text \<open>The verdict on the configuration of an instance.\<close>

definition configHealth :: "world \<Rightarrow> DisasterInstance \<Rightarrow> (string \<times> string) option" where
  "configHealth w i =
     (case fst (run_state (evaluateConfigHealth i) w) of Inl _ \<Rightarrow> None | Inr h \<Rightarrow> h)"

lemma run_health:
  assumes "w_faults w = []"
  shows "run_state (evaluateConfigHealth i) w = (Inr (configHealth w i), w)"
  using assms by (auto simp: configHealth_def evaluateConfigHealth_def Let_def runs split: option.splits)

text \<open>Reconciles of an instance in the configuration error. In between anything but the instances may change, and
  any call may fail; the chain stops at the reconcile that leaves the state.\<close>

inductive awaits :: "key \<Rightarrow> world \<Rightarrow> world \<Rightarrow> bool" for k w where
  entered: "awaits k w w"
| again: "awaits k w v \<Longrightarrow> lookup instKind v k = Some j \<Longrightarrow> fsm j = FsmConfigError \<Longrightarrow> w_insts u = w_insts v \<Longrightarrow>
    awaits k w (snd (run_state (instReconcile r k) u))"

text \<open>The state kept during a configuration error, the state reached by leaving it, and the status in either.\<close>

definition errorState :: "DisasterInstance \<Rightarrow> instState" where
  "errorState i = (FsmConfigError, is_primaryCluster (in_status i), is_secondaryCluster (in_status i), fsm i)"

definition backState :: "DisasterInstance \<Rightarrow> instState" where
  "backState i = (fsm i, is_primaryCluster (in_status i), is_secondaryCluster (in_status i), FsmNone)"

definition awaitingStatus :: "DisasterInstance \<Rightarrow> DisasterInstanceStatus \<Rightarrow> bool" where
  "awaitingStatus i s \<longleftrightarrow> (stateOf s = errorState i \<or> stateOf s = backState i) \<and> is_availableOperations s = []"

lemma awaiting_changes [simp]:
  "awaitingStatus i (in_status (setOps [] j)) \<longleftrightarrow> stateOf (in_status j) = errorState i \<or> stateOf (in_status j) = backState i"
  "is_availableOperations (in_status (setStatusError a b j)) = is_availableOperations (in_status j)"
  "is_availableOperations (in_status (clearStatusError j)) = is_availableOperations (in_status j)"
  "is_availableOperations (in_status (setOps ops j)) = ops"
  by (simp_all add: awaitingStatus_def setOps_def setStatusError_def clearStatusError_def stateOf_def)

lemma error_not_back:
  assumes "awaitingStatus i (in_status j)" and "fsm j = FsmConfigError" and "fsm i \<noteq> FsmConfigError"
  shows "stateOf (in_status j) = errorState i \<and> is_lastStableFsmState (in_status j) = fsm i"
  using assms by (auto simp: awaitingStatus_def stateOf_def errorState_def backState_def fsm_def)

lemma awaiting_guard:
  assumes "awaitingStatus i (in_status j)" and "fsm j = FsmConfigError" and "fsm i \<noteq> FsmConfigError"
  shows "state_io_rel (trackI.keeps w k (awaitingStatus i)) (guardByConfigHealth j)"
proof -
  note e = error_not_back [OF assms]
  have kept: "awaitingStatus i ((in_status j)\<lparr>is_fsmState := fsm i, is_lastStableFsmState := FsmNone\<rparr>)"
    using assms(1) e by (auto simp: awaitingStatus_def stateOf_def errorState_def backState_def)
  show ?thesis
    unfolding guardByConfigHealth_def evaluateConfigHealth_def Let_def
    by (auto intro!: trackI_rules trackI_status split: option.splits simp: assms(2) e)
      (use assms(1) e kept in \<open>auto simp: awaitingStatus_def\<close>)
qed

lemma awaiting_reconcile:
  assumes "awaitingStatus i (in_status j)" and "fsm j = FsmConfigError" and "fsm i \<noteq> FsmConfigError"
  shows "state_io_rel (trackI.keeps w k (awaitingStatus i)) (reconcileInstance r j)"
proof -
  have res: "wp (instSyncDependencyLabels r j) (\<lambda>x _. in_status (snd x) = in_status j) v" for v
    unfolding instSyncDependencyLabels_def Let_def by (auto intro!: wp_any [where m = "apiGet _ _"])
  have io: "state_io_rel (trackI.keeps w k (awaitingStatus i)) (instSyncDependencyLabels r j)"
    unfolding instSyncDependencyLabels_def Let_def by (intro trackI_rules)
  have body: "state_io_rel (trackI.keeps w k (awaitingStatus i)) (if fst x then chk (apiUpdate instKind (snd x)) (\<lambda>_. ok requeue_result)
         else if fsm (snd x) = FsmNone then saveInst (setFsm FsmPending (snd x)) requeue_result
         else chk (guardByConfigHealth (snd x)) (\<lambda>h. case h of Some res \<Rightarrow> ok res | None \<Rightarrow> routeInstance r (snd x)))"
    if x: "in_status (snd x) = in_status j" for x
  proof -
    have f: "fsm (snd x) = FsmConfigError" "awaitingStatus i (in_status (snd x))" using x assms(1,2) by (simp_all add: fsm_def)
    have "state_io_rel (trackI.keeps w k (awaitingStatus i)) (routeInstance r (snd x))"
      using f error_not_back [OF f(2,1) assms(3)] unfolding routeInstance_def f(1) handleConfigError_def FsmState.case by (intro trackI_saveInst) simp
    with f awaiting_guard [OF f(2,1) assms(3), of w k] show ?thesis by (auto intro!: trackI_rules split: option.split)
  qed
  have del: "state_io_rel (trackI.keeps w k (awaitingStatus i)) (instHandleDeletion j)"
    unfolding instHandleDeletion_def by (intro trackI_rules)
  show ?thesis
    unfolding reconcileInstance_def
    by (intro trackI.rel_if trackI.rel_bind_result [OF res io] del trackI.rel_chk trackI_update trackI.rel_ret body)
qed

lemma awaits_status:
  assumes "awaits k w v" and "fsm i \<noteq> FsmConfigError" and "\<forall>j. lookup instKind w k = Some j \<longrightarrow> awaitingStatus i (in_status j)"
  shows "\<forall>j. lookup instKind v k = Some j \<longrightarrow> awaitingStatus i (in_status j)"
  using assms
proof (induction rule: awaits.induct)
  case (again v j u r)
  then have j: "lookup instKind u k = Some j" "awaitingStatus i (in_status j)" "fsm j = FsmConfigError"
    using lookup_insts_cong [of u v k] by auto
  have I: "tracked u k (awaitingStatus i) (u\<lparr>w_faults := fs\<rparr>)" for fs using j by (simp add: tracked_def)
  have "wp (instReconcile r k) (\<lambda>_. tracked u k (awaitingStatus i)) u"
    unfolding instReconcile_def wp_bind
  proof (rule wp_apiGet, goal_cases)
    case (1 e fs)
    then show ?case using I by simp
  next
    case (2 x fs)
    then have "x = j" using j(1) by simp
    then show ?case unfolding sum.case using trackI.wp_keeps [OF awaiting_reconcile [OF j(2,3) again.prems(1)] I] by simp
  qed
  then show ?case by (simp add: wp_snd tracked_def)
qed simp

text \<open>What the guard stores when it enters the error.\<close>

lemma enters_error:
  assumes "lookup instKind w k = Some i" and "isConfigGuardManagedState (fsm i)" and "fsm i \<noteq> FsmConfigError"
    and "lookup instKind (snd (run_state (guardByConfigHealth i) w)) k = Some j" and "fsm j = FsmConfigError"
  shows "awaitingStatus i (in_status j)"
proof -
  let ?P = "\<lambda>s. is_fsmState s = FsmConfigError \<longrightarrow> awaitingStatus i s"
  have I: "tracked w k ?P w" using assms(1,3) by (simp add: tracked_def fsm_def)
  have "state_io_rel (trackI.keeps w k ?P) (guardByConfigHealth i)"
    unfolding guardByConfigHealth_def evaluateConfigHealth_def Let_def
    by (auto intro!: trackI_rules trackI_status split: option.splits simp: assms(2,3))
      (simp_all add: awaitingStatus_def errorState_def stateOf_def setOps_def setStatusError_def fsm_def)
  from trackI.wp_keeps [OF this I] show ?thesis using assms(4,5) by (simp add: wp_snd tracked_def fsm_def)
qed

text \<open>The metadata of an instance that is not being deleted, has its finalizer and the right labels.\<close>

definition settledMeta :: "instReconciler \<Rightarrow> world \<Rightarrow> DisasterInstance \<Rightarrow> bool" where
  "settledMeta r w j \<longleftrightarrow> m_deletion (in_meta j) = None \<and> List.member (m_finalizers (in_meta j)) finalizerName \<and>
     fst (run_state (instSyncDependencyLabels r j) w) = (False, j)"

lemma run_labels: "w_faults w = [] \<Longrightarrow> snd (run_state (instSyncDependencyLabels r j) w) = w"
  by (simp add: instSyncDependencyLabels_def Let_def runs split: option.split)

lemma guard_settles:
  assumes "w_faults u = []" and "lookup instKind u k = Some j" and "settledMeta r u j" and "fsm j = FsmConfigError"
    and "is_lastStableFsmState (in_status j) \<noteq> FsmNone"
  shows "map_option fsm (lookup instKind (snd (run_state (instReconcile r k) u)) k) =
    Some (if configHealth u j = None then is_lastStableFsmState (in_status j) else FsmConfigError)"
proof -
  let ?s = "case configHealth u j of None \<Rightarrow> clearStatusError (j\<lparr>in_status := (in_status j)\<lparr>is_fsmState := is_lastStableFsmState (in_status j), is_lastStableFsmState := FsmNone\<rparr>\<rparr>)
      | Some (reason, m) \<Rightarrow> setStatusError reason m (setOps [] j)"
  have s: "?s = j\<lparr>in_status := in_status ?s\<rparr>"
    by (simp add: clearStatusError_def setStatusError_def setOps_def split: option.split prod.split)
  have "\<exists>res. run_state (guardByConfigHealth j) u = (Inr (Some res), replaceObj instKind (bumpRv instKind j (j\<lparr>in_status := in_status ?s\<rparr>)) u)"
    using assms s run_instStatus [where s = j]
    by (cases "configHealth u j") (auto simp: guardByConfigHealth_def isConfigGuardManagedState_def runs run_health Let_def split: prod.splits)
  then obtain res where g: "run_state (guardByConfigHealth j) u = (Inr (Some res), replaceObj instKind (bumpRv instKind j (j\<lparr>in_status := in_status ?s\<rparr>)) u)" ..
  have "snd (run_state (instReconcile r k) u) = replaceObj instKind (bumpRv instKind j (j\<lparr>in_status := in_status ?s\<rparr>)) u"
    using assms run_labels [OF assms(1), of r j]
    by (simp add: instReconcile_def reconcileInstance_def settledMeta_def runs g split_beta)
  then have "lookup instKind (snd (run_state (instReconcile r k) u)) k = Some (bumpRv instKind j (j\<lparr>in_status := in_status ?s\<rparr>))"
    using lookup_settled [OF assms(2)] by simp
  then show ?thesis
    using assms(4) by (auto simp: fsm_def bump_inst_status clearStatusError_def setStatusError_def setOps_def split: option.splits)
qed

text \<open>C25. Round trip: an instance enters the configuration error because its configuration is unhealthy. However often it
  is reconciled there, whatever calls fail and whatever else than instances changes meanwhile, it offers no operation, keeps
  its roles, and is either still in the error and remembers the state it came from, or has gone back to exactly that state.
  A reconcile without faults, its metadata being in order, keeps it in the error while the configuration is unhealthy and
  takes it back when it is healthy.\<close>

theorem config_error_roundtrip:
  assumes "lookup instKind w k = Some i" and "isConfigGuardManagedState (fsm i)" and "fsm i \<noteq> FsmConfigError"
    and "lookup instKind (snd (run_state (guardByConfigHealth i) w)) k = Some i1" and "fsm i1 = FsmConfigError"
    and "awaits k (snd (run_state (guardByConfigHealth i) w)) v" and "lookup instKind v k = Some j"
  shows "(stateOf (in_status j) = errorState i \<or> stateOf (in_status j) = backState i) \<and> is_availableOperations (in_status j) = [] \<and>
    (fsm j = FsmConfigError \<and> w_insts u = w_insts v \<and> w_faults u = [] \<and> settledMeta r u j \<longrightarrow>
      map_option fsm (lookup instKind (snd (run_state (instReconcile r k) u)) k) = Some (if configHealth u j = None then fsm i else FsmConfigError))"
proof -
  have "\<forall>x. lookup instKind (snd (run_state (guardByConfigHealth i) w)) k = Some x \<longrightarrow> awaitingStatus i (in_status x)"
    using enters_error [OF assms(1-3)] assms(4,5) by simp
  with awaits_status [OF assms(6,3)] assms(7) have j: "awaitingStatus i (in_status j)" by blast
  have "map_option fsm (lookup instKind (snd (run_state (instReconcile r k) u)) k) = Some (if configHealth u j = None then fsm i else FsmConfigError)"
    if "fsm j = FsmConfigError" "w_insts u = w_insts v" "w_faults u = []" "settledMeta r u j"
  proof -
    have l: "is_lastStableFsmState (in_status j) = fsm i" using error_not_back [OF j that(1) assms(3)] by simp
    have n: "is_lastStableFsmState (in_status j) \<noteq> FsmNone" using assms(2) l by (auto simp: isConfigGuardManagedState_def)
    have u: "lookup instKind u k = Some j" using lookup_insts_cong [OF that(2), of k] assms(7) by simp
    show ?thesis using guard_settles [OF that(3) u that(4,1) n] unfolding l .
  qed
  with j show ?thesis by (simp add: awaitingStatus_def)
qed

text \<open>The configuration of an active instance is reported as broken, the next reconcile loses a call, and then the
  configuration is in order again.\<close>

definition sBadConfig :: world where
  "sBadConfig = (sWorld [] (sFull (sInst FsmActive ''west'' ''east'')) ''west'')\<lparr>w_cfgs := [sCfg\<lparr>cfg_status := CfgError\<rparr>]\<rparr>"

definition sBroken :: world where
  "sBroken = snd (run_state (guardByConfigHealth (sFull (sInst FsmActive ''west'' ''east''))) sBadConfig)"

definition sAwaiting :: world where
  "sAwaiting = snd (run_state (instReconcile sIRec (''ns'', ''app'')) (sBroken\<lparr>w_faults := [None, None, None, Some (Lost ''timeout'')]\<rparr>))"

theorem config_error_roundtrip_witness:
  "awaits (''ns'', ''app'') sBroken sAwaiting \<and>
   map_option fsm (lookup instKind sAwaiting (''ns'', ''app'')) = Some FsmConfigError \<and>
   map_option fsm (lookup instKind (snd (run_state (instReconcile sIRec (''ns'', ''app'')) (sAwaiting\<lparr>w_cfgs := [sCfg], w_faults := []\<rparr>))) (''ns'', ''app'')) = Some FsmActive"
proof -
  let ?i = "sFull (sInst FsmActive ''west'' ''east'')"
  let ?u = "sAwaiting\<lparr>w_cfgs := [sCfg], w_faults := []\<rparr>"
  define i1 where "i1 = the (lookup instKind sBroken (''ns'', ''app''))"
  define j where "j = the (lookup instKind sAwaiting (''ns'', ''app''))"
  have a: "lookup instKind sBadConfig (''ns'', ''app'') = Some ?i" by code_simp
  have b: "isConfigGuardManagedState (fsm ?i)" "fsm ?i \<noteq> FsmConfigError" by code_simp+
  have c: "lookup instKind sBroken (''ns'', ''app'') = Some i1" unfolding i1_def by code_simp
  have d: "fsm i1 = FsmConfigError" unfolding i1_def by code_simp
  have v: "awaits (''ns'', ''app'') sBroken sAwaiting"
    unfolding sAwaiting_def by (rule again [OF entered c d]) simp
  have l: "lookup instKind sAwaiting (''ns'', ''app'') = Some j" unfolding j_def by code_simp
  have f: "fsm j = FsmConfigError" unfolding j_def by code_simp
  have m: "m_deletion (in_meta j) = None" "List.member (m_finalizers (in_meta j)) finalizerName" unfolding j_def by code_simp+
  have e: "fst (run_state (instSyncDependencyLabels sIRec j) ?u) = (False, j)" unfolding j_def by code_simp
  have h: "configHealth ?u j = None" unfolding j_def by code_simp
  have "fsm ?i = FsmActive" by code_simp
  with config_error_roundtrip [OF a b c [unfolded sBroken_def] d v [unfolded sBroken_def] l, of ?u sIRec] show ?thesis
    using v l f m e h by (simp add: settledMeta_def)
qed

section \<open>The first protection\<close>

text \<open>The syncs of an instance have both run once and are ready.\<close>

definition firstSynced :: "world \<Rightarrow> DisasterInstance \<Rightarrow> bool" where
  "firstSynced w i \<longleftrightarrow>
     (\<exists>d s. lookup dsKind w (instNs i, is_dataSyncName (in_status i)) = Some d \<and> syncReady d \<and>
            lookup rsKind w (instNs i, is_resourceSyncName (in_status i)) = Some s \<and> syncReady s)"

text \<open>C26. Safety: an initializing instance is recorded as protected only if its data sync and its resource
  sync both exist, are ready and have completed a sync.\<close>

theorem protected_after_first_sync:
  assumes "lookup instKind w k = Some i" and "fsm i = FsmInitializing"
    and "lookup instKind (snd (run_state (handleInitializing r i) w)) k = Some i'" and "fsm i' = FsmProtected"
  shows "firstSynced w i"
proof -
  let ?P = "\<lambda>s. is_fsmState s = FsmProtected \<longrightarrow> firstSynced w i"
  have I: "tracked w k ?P (w\<lparr>w_faults := fs\<rparr>)" for fs
    using assms(1,2) by (simp add: tracked_def fsm_def)
  have out: "state_io_rel (trackI.keeps w k ?P) (initializingOutcome r i ds rs)"
    if "syncReady ds \<and> syncReady rs \<longrightarrow> firstSynced w i" for ds rs
    using that unfolding initializingOutcome_def Let_def
    by (auto split: prod.splits intro!: trackI_rules trackI_status
        simp: setSyncTimes_def setOps_def setStatusError_def clearStatusError_def setFsm_def)
  have "wp (handleInitializing r i) (\<lambda>_. tracked w k ?P) w"
    unfolding handleInitializing_def wp_bind
  proof (rule wp_apiGet, goal_cases)
    case (1 e fs)
    then show ?case using I by simp
  next
    case ds: (2 ds fs)
    show ?case
      unfolding sum.case wp_bind
    proof (rule wp_apiGet, goal_cases)
      case (1 e fs)
      then show ?case using I by simp
    next
      case (2 rs gs)
      have "state_io_rel (trackI.keeps w k ?P) (initializingOutcome r i ds rs)"
        using ds 2 by (intro out) (auto simp: firstSynced_def)
      from trackI.wp_keeps [OF this I] show ?case unfolding sum.case by simp
    qed
  qed
  with assms(3,4) show ?thesis by (simp add: wp_snd tracked_def fsm_def)
qed

theorem protected_after_first_sync_witness:
  "let i = sInst FsmInitializing ''east'' ''west''; w = sWorld [] i ''east''; w' = snd (run_state (handleInitializing sIRec i) w) in
   (\<exists>i'. lookup instKind w' (''ns'', ''app'') = Some i' \<and> fsm i' = FsmProtected) \<and> firstSynced w i"
proof -
  let ?i = "sInst FsmInitializing ''east'' ''west''"
  let ?w = "sWorld [] ?i ''east''"
  have a: "lookup instKind ?w (''ns'', ''app'') = Some ?i" by code_simp
  have b: "fsm ?i = FsmInitializing" by code_simp
  have "map_option fsm (lookup instKind (snd (run_state (handleInitializing sIRec ?i) ?w)) (''ns'', ''app'')) = Some FsmProtected" by code_simp
  then obtain i' where i': "lookup instKind (snd (run_state (handleInitializing sIRec ?i) ?w)) (''ns'', ''app'') = Some i'" "fsm i' = FsmProtected"
    by auto
  from protected_after_first_sync [OF a b i'] i' show ?thesis unfolding Let_def by blast
qed

section \<open>Role drift\<close>

text \<open>The workloads of a cluster that an instance protects, namespace by namespace.\<close>

definition protectedNamespaces :: "DisasterInstance \<Rightarrow> string list" where
  "protectedNamespaces i = (if di_namespaces (in_spec i) = [] then [[]] else di_namespaces (in_spec i))"

definition protectedIn :: "instReconciler \<Rightarrow> DisasterInstance \<Rightarrow> world \<Rightarrow> string \<Rightarrow> string \<Rightarrow> Workload list" where
  "protectedIn r i w c ns =
     (case roleDriftListOptions r i ns of Inl _ \<Rightarrow> [] | Inr p \<Rightarrow> filter p (w_deploys w c) @ filter p (w_sts w c))"

definition protectedWorkloads :: "instReconciler \<Rightarrow> DisasterInstance \<Rightarrow> world \<Rightarrow> string \<Rightarrow> Workload list" where
  "protectedWorkloads r i w c = concat (map (protectedIn r i w c) (protectedNamespaces i))"

lemma addWorkloads_append: "addWorkloads (xs @ ys) s = addWorkloads ys (addWorkloads xs s)"
  by (simp add: addWorkloads_def)

lemma addWorkloads_counts:
  "cs_workloadCount (addWorkloads ds s) = cs_workloadCount s + int (length ds)"
  "cs_nonZero (addWorkloads ds s) = cs_nonZero s + int (length (filter (\<lambda>d. sampleReplicas d > 0) ds))"
  by (induction ds arbitrary: s) (auto simp: addWorkloads_def addWorkload_def Let_def)

lemma run_sampleNamespaces:
  assumes "w_faults w = []" and "\<And>ns. \<exists>p. roleDriftListOptions r i ns = Inr p"
  shows "run_state (forEach (sampleNamespace r i c) nss s) w = (Inr (addWorkloads (concat (map (protectedIn r i w c) nss)) s), w)"
proof (induction nss arbitrary: s)
  case Nil
  then show ?case by (simp add: runs addWorkloads_def)
next
  case (Cons ns nss)
  obtain p where p: "roleDriftListOptions r i ns = Inr p" using assms(2) by blast
  then have "run_state (sampleNamespace r i c ns s) w = (Inr (addWorkloads (protectedIn r i w c ns) s), w)"
    using assms(1) by (simp add: sampleNamespace_def runs protectedIn_def addWorkloads_append)
  with Cons show ?case by (simp add: runs addWorkloads_append)
qed

text \<open>A cluster the controller can reach.\<close>

definition reachable :: "world \<Rightarrow> string \<Rightarrow> bool" where
  "reachable w c \<longleftrightarrow> (\<exists>cl. lookup clusterKind w ([], c) = Some cl \<and> (cl_kubeConfig cl \<noteq> [] \<or> cl_token cl \<noteq> [] \<and> cl_endpoint cl \<noteq> []))"

definition roleOf :: "Workload list \<Rightarrow> sampledClusterRole" where
  "roleOf ds = (if ds = [] then RoleUnknown else if \<exists>d \<in> set ds. sampleReplicas d > 0 then RoleActive else RoleStandby)"

lemma run_sampleCluster:
  assumes "w_faults w = []" and "\<And>ns. \<exists>p. roleDriftListOptions r i ns = Inr p" and "reachable w c"
  shows "\<exists>s. run_state (sampleClusterReplicaRole r i c) w = (Inr s, w) \<and> cs_role s = roleOf (protectedWorkloads r i w c)"
proof -
  let ?z = "\<lparr>cs_clusterName = c, cs_role = RoleUnknown, cs_workloadCount = 0, cs_nonZero = 0, cs_zero = 0, cs_desiredTotal = 0\<rparr>"
  have "sampledRole (addWorkloads ds ?z) = roleOf ds" for ds
    by (auto simp: sampledRole_def addWorkloads_counts roleOf_def filter_empty_conv)
  moreover have "run_state (GetKubeClientSet c) w = (Inr (), w)"
    using assms(1,3) by (auto simp: GetKubeClientSet_def runs reachable_def)
  ultimately show ?thesis
    by (simp add: sampleClusterReplicaRole_def runs run_sampleNamespaces [OF assms(1,2)] protectedWorkloads_def protectedNamespaces_def)
qed

text \<open>C27. Functional: with both clusters reachable, the controller reports a hard role drift exactly when the recorded primary
  runs protected workloads but none with a replica while the recorded secondary has protected
  workloads too, and finds the roles in order exactly when the primary runs a replica and the
  secondary has protected workloads; the check itself changes nothing.\<close>

theorem role_drift_exact:
  assumes "w_faults w = []" and "\<And>ns. \<exists>p. roleDriftListOptions r i ns = Inr p"
    and "p = trimSpace (is_primaryCluster (in_status i))" and "s = trimSpace (is_secondaryCluster (in_status i))"
    and "p \<noteq> []" and "s \<noteq> []" and "reachable w p" and "reachable w s"
  shows "\<exists>e. run_state (evaluateRoleDrift r i) w = (e, w) \<and>
    (rd_hardFailure e \<longleftrightarrow> protectedWorkloads r i w p \<noteq> [] \<and> (\<forall>d \<in> set (protectedWorkloads r i w p). sampleReplicas d \<le> 0) \<and>
       protectedWorkloads r i w s \<noteq> []) \<and>
    (rd_status e = ConditionFalse \<longleftrightarrow> (\<exists>d \<in> set (protectedWorkloads r i w p). sampleReplicas d > 0) \<and> protectedWorkloads r i w s \<noteq> [])"
proof -
  obtain a where a: "run_state (sampleClusterReplicaRole r i p) w = (Inr a, w)" "cs_role a = roleOf (protectedWorkloads r i w p)"
    using run_sampleCluster [OF assms(1,2,7)] by blast
  obtain b where b: "run_state (sampleClusterReplicaRole r i s) w = (Inr b, w)" "cs_role b = roleOf (protectedWorkloads r i w s)"
    using run_sampleCluster [OF assms(1,2,8)] by blast
  have "run_state (evaluateRoleDrift r i) w = (judgeRoles p s a b, w)"
    using assms(5,6) by (simp add: evaluateRoleDrift_def Let_def runs a(1) b(1) flip: assms(3,4))
  then show ?thesis
    by (auto simp: judgeRoles_def Let_def a(2) b(2) roleOf_def split: if_splits) (force simp: not_less)+
qed

text \<open>The roles are recorded the wrong way round.\<close>

theorem role_drift_exact_witness:
  "let i = sInst FsmProtected ''west'' ''east''; w = sWorld [] i ''east''; e = fst (run_state (evaluateRoleDrift sIRec i) w) in
   rd_hardFailure e \<and> (\<forall>d \<in> set (protectedWorkloads sIRec i w ''west''). sampleReplicas d \<le> 0)"
proof -
  let ?i = "sInst FsmProtected ''west'' ''east''"
  let ?w = "sWorld [] ?i ''east''"
  have a: "w_faults ?w = []" by code_simp
  have "di_labelSelector (in_spec ?i) = None" by code_simp
  then have b: "\<exists>p. roleDriftListOptions sIRec ?i ns = Inr p" for ns by (simp add: roleDriftListOptions_def)
  have c: "''west'' = trimSpace (is_primaryCluster (in_status ?i))" by code_simp
  have d: "''east'' = trimSpace (is_secondaryCluster (in_status ?i))" by code_simp
  have "lookup clusterKind ?w ([], ''west'') = Some (sCluster ''west'')" "lookup clusterKind ?w ([], ''east'') = Some (sCluster ''east'')"
    "cl_kubeConfig (sCluster n) = ''kc''" for n by (code_simp, code_simp, simp add: sCluster_def)
  then have r: "reachable ?w ''west''" "reachable ?w ''east''" by (auto simp: reachable_def)
  have h: "rd_hardFailure (fst (run_state (evaluateRoleDrift sIRec ?i) ?w))" by code_simp
  have "\<exists>e. run_state (evaluateRoleDrift sIRec ?i) ?w = (e, ?w) \<and>
    (rd_hardFailure e \<longleftrightarrow> protectedWorkloads sIRec ?i ?w ''west'' \<noteq> [] \<and> (\<forall>d \<in> set (protectedWorkloads sIRec ?i ?w ''west''). sampleReplicas d \<le> 0) \<and>
       protectedWorkloads sIRec ?i ?w ''east'' \<noteq> [])"
    using role_drift_exact [OF a b c d _ _ r] by blast
  with h show ?thesis unfolding Let_def by auto
qed

section \<open>Deletion\<close>

text \<open>A reconcile of an instance under deletion that holds no other finalizer removes the
  instance; with other finalizers the instance stays and only this controller's one is gone.\<close>

theorem deleted_instance_is_released:
  assumes "w_faults w = []" and "lookup instKind w k = Some i" and "m_deletion (in_meta i) \<noteq> None"
  shows "lookup instKind (snd (run_state (instReconcile r k) w)) k =
    (if \<forall>f \<in> set (m_finalizers (in_meta i)). f = finalizerName then None
     else Some (i\<lparr>in_meta := (in_meta i)\<lparr>m_finalizers := filter (\<lambda>f. f \<noteq> finalizerName) (m_finalizers (in_meta i)),
       m_rv := Suc (m_rv (in_meta i))\<rparr>\<rparr>))"
proof -
  have k: "instKey i = k" using assms(2) by (rule lookup_instKey)
  have kk: "keyOf instKind (i\<lparr>in_meta := (in_meta i)\<lparr>m_finalizers := fs, m_rv := n\<rparr>\<rparr>) = k" for fs n
    using k by (simp add: keyOf_def instKey_def metaKey_def)
  have none: "lookup instKind (v\<lparr>w_insts := filter (\<lambda>x. keyOf instKind x \<noteq> k) xs\<rparr>) k = None" for v xs
    by (simp add: lookup_def find_None_iff)
  have fe: "filter (\<lambda>f. f \<noteq> finalizerName) fs = [] \<longleftrightarrow> (\<forall>f \<in> set fs. f = finalizerName)" for fs :: "string list"
    by (simp add: filter_empty_conv)
  have sm: "k_setMeta instKind m i = i\<lparr>in_meta := m\<rparr>" for m by (simp add: instKind_def)
  show ?thesis
    using assms
    by (auto simp: instReconcile_def reconcileInstance_def instHandleDeletion_def runs k apiPatchFinalizers_def storePatchFinalizers_def fe none
        instK.lookup_replaceObj kk sm split: if_splits)
qed

theorem deleted_instance_is_released_witness:
  "let i0 = sFull (sInst FsmProtected ''east'' ''west''); i = i0\<lparr>in_meta := (in_meta i0)\<lparr>m_deletion := Some 9\<rparr>\<rparr> in
   lookup instKind (snd (run_state (instReconcile sIRec (''ns'', ''app'')) (sWorld [] i ''east''))) (''ns'', ''app'') = None"
proof -
  let ?b = "sFull (sInst FsmProtected ''east'' ''west'')"
  let ?i = "?b\<lparr>in_meta := (in_meta ?b)\<lparr>m_deletion := Some 9\<rparr>\<rparr>"
  let ?w = "sWorld [] ?i ''east''"
  have a: "w_faults ?w = []" by code_simp
  have b: "lookup instKind ?w (''ns'', ''app'') = Some ?i" by code_simp
  have c: "m_deletion (in_meta ?i) \<noteq> None" by simp
  have "m_finalizers (in_meta ?i) = [finalizerName]" by code_simp
  with deleted_instance_is_released [OF a b c, of sIRec] show ?thesis unfolding Let_def by simp
qed

end
