(* ===== verification/InstFindings.thy ===== *)
theory InstFindings
  imports InstHealth
begin

text \<open>
  Two behaviours of the instance controller that contradict what the rest of the system means
  by its states: a reprotected instance that fails and recovers is taken for one that still has
  to be reprotected, and an instance whose compensation failed is reported as protected.
\<close>

section \<open>Recovery of a reprotected instance\<close>

lemma recoverable_not_drift: "isRecoverableSyncFailureReason reason \<Longrightarrow> trimSpace reason \<noteq> ''RoleDriftDetected''"
  by (auto simp: isRecoverableSyncFailureReason_def)

text \<open>A sync that has run and has not failed.\<close>

definition healthySync :: "SyncObject kind \<Rightarrow> world \<Rightarrow> string \<Rightarrow> string \<Rightarrow> bool" where
  "healthySync K w ns n \<longleftrightarrow> n \<noteq> [] \<and> (\<exists>s. lookup K w (ns, n) = Some s \<and> ss_state (so_status s) \<noteq> SyncFailed \<and> ss_lastSyncTime (so_status s) \<noteq> None)"

lemma run_getSync:
  assumes "w_faults w = []" and "healthySync K w ns n"
  shows "\<exists>s. run_state (getSync K ns n) w = (Inr (Some s), w) \<and> \<not> syncFailed (Some s) \<and> lastSync (Some s) \<noteq> None"
  using assms by (auto simp: healthySync_def getSync_def runs syncFailed_def lastSync_def)

text \<open>Error: when the syncs of a failed instance are healthy again, the instance is put into the Active state
  whenever its primary is the target cluster of its configuration. After a reprotect the roles
  stay exchanged, so a protected instance comes back as Active, offering reprotect and undo,
  although nothing failed over.\<close>

theorem reprotected_instance_recovers_as_active:
  assumes "w_faults w = []" and "lookup instKind w k = Some i" and "isRecoverableSyncFailureReason (is_reason (in_status i))"
    and "healthySync dsKind w (instNs i) (is_dataSyncName (in_status i))" and "healthySync rsKind w (instNs i) (is_resourceSyncName (in_status i))"
    and "trimSpace (di_config (in_spec i)) \<noteq> []" and "lookup cfgKind w ([], di_config (in_spec i)) = Some c"
    and "is_primaryCluster (in_status i) = cfg_targetCluster c" and "is_secondaryCluster (in_status i) = cfg_sourceCluster c"
  shows "\<exists>i'. lookup instKind (snd (run_state (handleFailed r i) w)) k = Some i' \<and> fsm i' = FsmActive \<and>
    is_availableOperations (in_status i') = activeOps"
proof -
  obtain d where d: "run_state (getSync dsKind (instNs i) (is_dataSyncName (in_status i))) w = (Inr (Some d), w)" "\<not> syncFailed (Some d)" "lastSync (Some d) \<noteq> None"
    using run_getSync [OF assms(1,4)] by blast
  obtain s where s: "run_state (getSync rsKind (instNs i) (is_resourceSyncName (in_status i))) w = (Inr (Some s), w)" "\<not> syncFailed (Some s)" "lastSync (Some s) \<noteq> None"
    using run_getSync [OF assms(1,5)] by blast
  let ?j = "setSyncTimes (lastSync (Some d)) (lastSync (Some s)) i"
  let ?x = "setOps activeOps (clearStatusError (setFsm FsmActive ?j))"
  have j: "in_status ?j = (in_status i)\<lparr>is_lastDataSyncTime := lastSync (Some d), is_lastResourceSyncTime := lastSync (Some s)\<rparr>" "in_spec ?j = in_spec i"
    by (simp_all add: setSyncTimes_def)
  have health: "run_state (evaluateSteadySyncHealth i) w = (Inr (([], []), lastSync (Some d), lastSync (Some s)), w)"
    using d s by (simp add: evaluateSteadySyncHealth_def runs deriveInstanceSteadyFailure_def)
  have "run_state (handleFailed r i) w = run_state (recoverInst ''SteadySyncRecovered'' ?j) w"
    using assms(3) recoverable_not_drift [OF assms(3)] d(3) s(3)
    by (simp add: handleFailed_def failedSync_def runs health j Let_def del: not_None_eq)
  moreover have "run_state (resolveRecoveredSteadyState ?j) w = ((FsmActive, activeOps), w)"
    using assms(1,6-9) by (simp add: resolveRecoveredSteadyState_def runs j)
  moreover have "run_state (apiStatusUpdate instKind ?x) w =
      (Inr (bumpRv instKind i (i\<lparr>in_status := in_status ?x\<rparr>)), replaceObj instKind (bumpRv instKind i (i\<lparr>in_status := in_status ?x\<rparr>)) w)"
    by (rule run_instStatus [OF assms(1,2)]) simp
  ultimately have "lookup instKind (snd (run_state (handleFailed r i) w)) k = Some (bumpRv instKind i (i\<lparr>in_status := in_status ?x\<rparr>))"
    using lookup_settled [OF assms(2)] by (simp add: recoverInst_def runs)
  then show ?thesis by (simp add: fsm_def bump_inst_status setOps_def clearStatusError_def setFsm_def)
qed

text \<open>
  A protected instance whose roles are exchanged: its data sync fails, the instance fails, the
  data sync is ready again.
\<close>

definition sReprotected :: DisasterInstance where
  "sReprotected = sInst FsmProtected ''west'' ''east''"

definition sFailedSync :: SyncObject where
  "sFailedSync = (let s = sSync ''dr-ds-app'' False in s\<lparr>so_status := (so_status s)\<lparr>ss_state := SyncFailed\<rparr>\<rparr>)"

definition sAfterFailure :: DisasterInstance where
  "sAfterFailure = the (lookup instKind (snd (run_state (handleProtected sIRec sReprotected)
     ((sWorld [] sReprotected ''west'')\<lparr>w_ds := [sFailedSync]\<rparr>))) (''ns'', ''app''))"

theorem reprotected_instance_recovers_as_active_witness:
  "fsm sReprotected = FsmProtected \<and> fsm sAfterFailure = FsmFailed \<and>
   (\<exists>i'. lookup instKind (snd (run_state (handleFailed sIRec sAfterFailure) (sWorld [] sAfterFailure ''west''))) (''ns'', ''app'') = Some i' \<and>
      fsm i' = FsmActive)"
proof -
  let ?w = "sWorld [] sAfterFailure ''west''"
  have a: "w_faults ?w = []" by code_simp
  have b: "lookup instKind ?w (''ns'', ''app'') = Some sAfterFailure" by code_simp
  have c: "isRecoverableSyncFailureReason (is_reason (in_status sAfterFailure))" by code_simp
  have n: "instNs sAfterFailure = ''ns''" "is_dataSyncName (in_status sAfterFailure) = ''dr-ds-app''"
    "is_resourceSyncName (in_status sAfterFailure) = ''dr-rs-app''" by code_simp+
  have s: "lookup dsKind ?w (''ns'', ''dr-ds-app'') = Some (sSync ''dr-ds-app'' False)"
    "lookup rsKind ?w (''ns'', ''dr-rs-app'') = Some (sSync ''dr-rs-app'' False)" by code_simp+
  have r: "ss_state (so_status (sSync x False)) = SyncReady" "ss_lastSyncTime (so_status (sSync x False)) = Some 5" for x
    by (simp_all add: sSync_def)
  have d: "healthySync dsKind ?w (instNs sAfterFailure) (is_dataSyncName (in_status sAfterFailure))"
    "healthySync rsKind ?w (instNs sAfterFailure) (is_resourceSyncName (in_status sAfterFailure))"
    by (simp_all add: healthySync_def n s r)
  have e: "trimSpace (di_config (in_spec sAfterFailure)) \<noteq> []" by code_simp
  have f: "lookup cfgKind ?w ([], di_config (in_spec sAfterFailure)) = Some sCfg" by code_simp
  have g: "is_primaryCluster (in_status sAfterFailure) = cfg_targetCluster sCfg" by code_simp
  have h: "is_secondaryCluster (in_status sAfterFailure) = cfg_sourceCluster sCfg" by code_simp
  have "fsm sReprotected = FsmProtected" "fsm sAfterFailure = FsmFailed" by code_simp+
  with reprotected_instance_recovers_as_active [OF a b c d e f g h, of sIRec] show ?thesis by blast
qed

section \<open>A failed compensation\<close>

text \<open>Error: a failover whose step PauseSchedules or FinalSync failed, and whose automatic compensation did
  not succeed, leaves the syncs paused and asks for manual intervention; when the instance is
  still failing over, the instance controller reports it as protected, without an error, and
  offers a failover, and the syncs stay as they are.\<close>

theorem failed_compensation_reported_as_protected:
  assumes "w_faults w = []" and "lookup instKind w k = Some i" and "fsm i = FsmFailingOver" and "opsOf w k OpFailover = {op}"
    and "os_state (op_status op) = OpFailed" and "\<not> failoverRecoveredByAutoCancel op"
    and "failoverFailedStep op = StepPauseSchedules \<or> failoverFailedStep op = StepFinalSync"
  shows "\<exists>i'. lookup instKind (snd (run_state (handleFailingOver r i) w)) k = Some i' \<and> fsm i' = FsmProtected \<and>
    is_reason (in_status i') = [] \<and> is_availableOperations (in_status i') = protectedOps \<and>
    w_ds (snd (run_state (handleFailingOver r i) w)) = w_ds w \<and> w_rs (snd (run_state (handleFailingOver r i) w)) = w_rs w"
proof -
  let ?ops = "filter (inNamespace opKind (instNs i)) (w_ops w)"
  let ?snap = "snapshotOf i OpFailover ?ops"
  have k: "instKey i = k" using assms(2) by (rule lookup_instKey)
  have rel: "x \<in> set ?ops \<and> relevant i OpFailover x \<longleftrightarrow> x = op" for x
    using relevant_opsOf [OF k, of w OpFailover] assms(4) by blast
  have nr: "\<not> ws_runningCount ?snap > 0"
  proof -
    have "\<not> isOperationInFlight (os_state (op_status x))" if "x \<in> set ?ops" "relevant i OpFailover x" for x
      using rel [of x] that assms(5) by (simp add: isOperationInFlight_def)
    then show ?thesis unfolding snapshot_none_running by blast
  qed
  have "ws_latestTerminal (foldl (observeOperation i OpFailover) z ?ops) \<noteq> None" for z
    by (rule snapshot_terminal_exists [of op]) (use rel [of op] assms(5) in \<open>auto simp: isOperationInFlight_def\<close>)
  then have "ws_latestTerminal ?snap \<noteq> None" by (simp add: snapshotOf_def Let_def)
  then obtain x where x: "ws_latestTerminal ?snap = Some x" by auto
  then have "x = op" using snapshotOf_terminal [OF x] rel by (auto simp: terminalOp_def)
  have "settleFailingOver r i ?snap = settleVia r i (whileIn FsmFailingOver (settleFailoverFailed op)) (after_result (ir_failedRequeue r))"
    using nr x \<open>x = op\<close> assms(5,6) by (simp add: settleFailingOver_def)
  then have run: "run_state (handleFailingOver r i) w = (Inr (after_result (ir_failedRequeue r)),
      replaceObj instKind (bumpRv instKind i (i\<lparr>in_status := in_status (settleFailoverFailed op i)\<rparr>)) w)"
    using run_settleVia [OF assms(1-3), of "settleFailoverFailed op"] settleFailoverFailed_fsm(2)
    by (simp add: handleFailingOver_def collectOperationWatchdogSnapshot_def runs assms(1))
  have "settleFailoverFailed op i = setOps protectedOps (clearStatusError (setFsm FsmProtected i))"
    using assms(7) by (auto simp: settleFailoverFailed_def shouldRollbackFailoverStepToProtected_def)
  then show ?thesis
    using lookup_settled [OF assms(2)]
    by (simp add: run fsm_def bump_inst_status setOps_def clearStatusError_def setFsm_def replaceObj_def)
qed

text \<open>The compensation of a failed final sync failed itself; both syncs are paused.\<close>

definition sUncompensated :: DisasterOperation where
  "sUncompensated = (let op = sOp ''fo'' OpFailover [sStep StepPreCheck StepCompleted, sStep StepPauseSchedules StepCompleted, sStep StepFinalSync StepFailed] in
     op\<lparr>op_status := (op_status op)\<lparr>os_state := OpFailed, os_acTriggered := True, os_acStatus := AcFailed, os_manualIntervention := True\<rparr>\<rparr>)"

theorem failed_compensation_reported_as_protected_witness:
  "let i = sInst FsmFailingOver ''east'' ''west'';
       w = (sWorld [sUncompensated] i ''east'')\<lparr>w_ds := [sSync ''dr-ds-app'' True], w_rs := [sSync ''dr-rs-app'' True]\<rparr>;
       w' = snd (run_state (handleFailingOver sIRec i) w)
   in os_manualIntervention (op_status sUncompensated) \<and> (\<exists>i'. lookup instKind w' (''ns'', ''app'') = Some i' \<and> fsm i' = FsmProtected) \<and>
      w_ds w' = [sSync ''dr-ds-app'' True]"
proof -
  let ?i = "sInst FsmFailingOver ''east'' ''west''"
  let ?w = "(sWorld [sUncompensated] ?i ''east'')\<lparr>w_ds := [sSync ''dr-ds-app'' True], w_rs := [sSync ''dr-rs-app'' True]\<rparr>"
  have a: "w_faults ?w = []" by code_simp
  have b: "lookup instKind ?w (''ns'', ''app'') = Some ?i" by code_simp
  have c: "fsm ?i = FsmFailingOver" by code_simp
  have o: "w_ops ?w = [sUncompensated]" by code_simp
  have "inNamespace opKind ''ns'' sUncompensated \<and> sp_instanceName (op_spec sUncompensated) = ''app'' \<and>
      sp_operationType (op_spec sUncompensated) = OpFailover" by code_simp
  then have d: "opsOf ?w (''ns'', ''app'') OpFailover = {sUncompensated}" by (auto simp: opsOf_def o)
  have e: "os_state (op_status sUncompensated) = OpFailed" by code_simp
  have f: "\<not> failoverRecoveredByAutoCancel sUncompensated" by code_simp
  have g: "failoverFailedStep sUncompensated = StepPauseSchedules \<or> failoverFailedStep sUncompensated = StepFinalSync" by code_simp
  have m: "os_manualIntervention (op_status sUncompensated)" by code_simp
  have "w_ds ?w = [sSync ''dr-ds-app'' True]" by simp
  with failed_compensation_reported_as_protected [OF a b c d e f g, of sIRec] m show ?thesis unfolding Let_def by metis
qed

end
