(* ===== verification/ModifierMerge.thy ===== *)
theory ModifierMerge
  imports Modifier
begin

text \<open>
  What the merge of compiled modifier rules amounts to. The loop over a map of selected
  patches is compared with a definition that looks at the whole list of candidates: for
  every field the first patch in the order of priority and rule name, unless a protected
  rule of the system says otherwise.
\<close>

type_synonym candidatePatch = "compiledCandidate \<times> JSONPatch"

definition patchKey :: "matchers \<Rightarrow> candidatePatch \<Rightarrow> string" where
  "patchKey M x = makeConflictKey M (mr_conditions (cc_rule (fst x))) (snd x)"

definition protects :: "candidatePatch \<Rightarrow> bool" where
  "protects x = cc_isSystemProtect (fst x)"

abbreviation valueOf :: "candidatePatch \<Rightarrow> string" where
  "valueOf x \<equiv> jp_value (snd x)"

text \<open>The patch that wins among those for one field, given in the order of the rules.\<close>

fun winner :: "candidatePatch list \<Rightarrow> candidatePatch option" where
  "winner [] = None"
| "winner (h # xs) =
     Some (if protects h then h
           else (case find (\<lambda>x. protects x \<and> valueOf x \<noteq> valueOf h) xs of None \<Rightarrow> h | Some q \<Rightarrow> q))"

definition patchesFor :: "matchers \<Rightarrow> string \<Rightarrow> candidatePatch list \<Rightarrow> candidatePatch list" where
  "patchesFor M k xs = filter (\<lambda>x. patchKey M x = k) xs"

text \<open>The keys in the order of their first occurrence.\<close>

definition firstKeys :: "matchers \<Rightarrow> candidatePatch list \<Rightarrow> string list" where
  "firstKeys M xs = rev (remdups (rev (map (patchKey M) xs)))"

definition ruleOf :: "candidatePatch \<Rightarrow> ResourceModifierRule" where
  "ruleOf x = \<lparr>mr_conditions = mr_conditions (cc_rule (fst x)), mr_patches = [snd x]\<rparr>"

definition mergeReference :: "matchers \<Rightarrow> compiledCandidate list \<Rightarrow> ResourceModifierRule list" where
  "mergeReference M cs =
     (let xs = patchesOf (sort_key ruleOrder cs) in
      map (\<lambda>k. ruleOf (the (winner (patchesFor M k xs)))) (firstKeys M xs))"

section \<open>The invariant of the loop\<close>

definition asPair :: "selectedPatch \<Rightarrow> candidatePatch" where
  "asPair s = (sl_candidate s, sl_patch s)"

lemma selectedRule_asPair: "selectedRule s = ruleOf (asPair s)"
  by (simp add: selectedRule_def ruleOf_def asPair_def)

definition merged :: "matchers \<Rightarrow> candidatePatch list \<Rightarrow> mergeState \<Rightarrow> bool" where
  "merged M xs st \<longleftrightarrow>
     mg_order st = firstKeys M xs \<and>
     (\<forall>k. map_option asPair (map_of (mg_selected st) k) = winner (patchesFor M k xs))"

lemma firstKeys_snoc:
  "firstKeys M (xs @ [x]) = (if patchesFor M (patchKey M x) xs = [] then firstKeys M xs @ [patchKey M x] else firstKeys M xs)"
  by (auto simp: firstKeys_def patchesFor_def filter_empty_conv image_iff)

lemma set_firstKeys: "set (firstKeys M xs) = patchKey M ` set xs"
  by (simp add: firstKeys_def)

lemma distinct_firstKeys: "distinct (firstKeys M xs)"
  by (simp add: firstKeys_def)

lemma winner_snoc:
  "winner (xs @ [x]) =
     (case winner xs of
        None \<Rightarrow> Some x
      | Some e \<Rightarrow> Some (if \<not> protects e \<and> protects x \<and> valueOf x \<noteq> valueOf e then x else e))"
proof (cases xs)
  case (Cons h ys)
  have "find P (ys @ [x]) = (case find P ys of None \<Rightarrow> if P x then Some x else None | Some q \<Rightarrow> Some q)" for P
    by (induction ys) auto
  moreover have "find P ys = Some q \<Longrightarrow> P q" for P q by (simp add: find_Some_iff) blast
  ultimately show ?thesis by (auto simp: Cons split: option.splits)
qed simp

lemma winner_None_iff: "winner xs = None \<longleftrightarrow> xs = []"
  by (cases xs) auto

lemma winner_member: "winner xs = Some x \<Longrightarrow> x \<in> set xs"
  by (cases xs) (auto simp: find_Some_iff split: if_splits option.splits)

lemma patchesFor_snoc:
  "patchesFor M k (xs @ [x]) = (if patchKey M x = k then patchesFor M k xs @ [x] else patchesFor M k xs)"
  by (simp add: patchesFor_def)

text \<open>In the order of the rules priorities never rise, so a later patch never wins by priority.\<close>

lemma mergePatch_merged:
  assumes "merged M xs st" and "mergePatch M st x = Inr st'" and "\<forall>y \<in> set xs. cc_priority (fst x) \<le> cc_priority (fst y)"
  shows "merged M (xs @ [x]) st'"
proof -
  obtain c p where x: "x = (c, p)" by (cases x)
  let ?k = "patchKey M x"
  have k: "makeConflictKey M (mr_conditions (cc_rule c)) p = ?k" by (simp add: patchKey_def x)
  from assms(1) have ord: "mg_order st = firstKeys M xs"
    and sel: "map_option asPair (map_of (mg_selected st) k) = winner (patchesFor M k xs)" for k
    by (simp_all add: merged_def)
  show ?thesis
  proof (cases "map_of (mg_selected st) ?k")
    case None
    with sel [of ?k] have e: "patchesFor M ?k xs = []" using winner_None_iff [of "patchesFor M ?k xs"] by simp
    from None assms(2) have "st' = st\<lparr>mg_selected := AList.update ?k \<lparr>sl_candidate = c, sl_patch = p\<rparr> (mg_selected st), mg_order := mg_order st @ [?k]\<rparr>"
      by (simp add: mergePatch_def x k [unfolded x] Let_def)
    then show ?thesis using ord sel e
      by (auto simp: merged_def firstKeys_snoc patchesFor_snoc update_conv' asPair_def x)
  next
    case (Some ex)
    with sel [of ?k] have w: "winner (patchesFor M ?k xs) = Some (asPair ex)" by simp
    then have ne: "patchesFor M ?k xs \<noteq> []" by auto
    have "asPair ex \<in> set xs" using winner_member [OF w] by (simp add: patchesFor_def)
    with assms(3) have pr: "cc_priority c \<le> cc_priority (sl_candidate ex)" by (force simp: x asPair_def)
    let ?new = "\<not> cc_isSystemProtect (sl_candidate ex) \<and> cc_isSystemProtect c \<and> jp_value p \<noteq> jp_value (sl_patch ex)"
    have sel': "mg_order st' = mg_order st \<and> map_of (mg_selected st') =
        (if ?new then (map_of (mg_selected st))(?k \<mapsto> \<lparr>sl_candidate = c, sl_patch = p\<rparr>) else map_of (mg_selected st))"
      using assms(2) pr by (auto simp: mergePatch_def x k [unfolded x] Some [unfolded x] Let_def update_conv' split: if_splits)
    have "map_option asPair (map_of (mg_selected st') k) = winner (patchesFor M k (xs @ [x]))" for k
      using sel [of k] sel' w Some
      by (auto simp: patchesFor_snoc winner_snoc asPair_def protects_def x)
    with sel' ord ne show ?thesis by (simp add: merged_def firstKeys_snoc)
  qed
qed

lemma foldE_merged:
  assumes "foldE (mergePatch M) st ys = Inr st'" and "merged M xs st"
    and "sorted_wrt (\<lambda>a b. cc_priority (fst b) \<le> cc_priority (fst a)) (xs @ ys)"
  shows "merged M (xs @ ys) st'"
  using assms
proof (induction ys arbitrary: xs st)
  case (Cons y ys)
  from Cons.prems(1) obtain t where t: "mergePatch M st y = Inr t" "foldE (mergePatch M) t ys = Inr st'"
    by (auto split: sum.splits)
  have "merged M (xs @ [y]) t"
    using Cons.prems(2,3) t(1) by (intro mergePatch_merged) (auto simp: sorted_wrt_append)
  with Cons.IH [OF t(2), of "xs @ [y]"] Cons.prems(3) show ?case by simp
qed simp

lemma patches_in_order:
  "sorted_wrt (\<lambda>a b. cc_priority (fst b) \<le> cc_priority (fst a)) (patchesOf (sort_key ruleOrder cs))"
proof -
  have "sorted_wrt (\<lambda>a b. cc_priority (fst b) \<le> cc_priority (fst a)) (patchesOf ds)" if "sorted (map ruleOrder ds)" for ds
    using that
  proof (induction ds)
    case (Cons d ds)
    then have "\<forall>b \<in> set (patchesOf ds). cc_priority (fst b) \<le> cc_priority d"
      by (auto simp: patchesOf_def ruleOrder_def less_eq_prod_def)
    moreover have "sorted_wrt (\<lambda>a b. cc_priority (fst b) \<le> cc_priority (fst a)) (map (Pair d) ps)" for ps :: "JSONPatch list"
      by (simp add: sorted_wrt_map sorted_wrt_true)
    ultimately show ?case using Cons by (auto simp: patchesOf_def sorted_wrt_append)
  qed (simp add: patchesOf_def)
  then show ?thesis by simp
qed

lemma merge_result:
  assumes "mergeCompiledCandidates M cs n = Inr (rules, n')"
  shows "rules = mergeReference M cs"
proof -
  let ?xs = "patchesOf (sort_key ruleOrder cs)"
  from assms obtain st where st: "foldE (mergePatch M) \<lparr>mg_selected = [], mg_order = [], mg_skipped = n\<rparr> ?xs = Inr st"
    and rules: "rules = map (\<lambda>k. selectedRule (the (map_of (mg_selected st) k))) (mg_order st)"
    by (auto simp: mergeCompiledCandidates_def andThen_Inr_iff)
  have "merged M ([] @ ?xs) st"
    using patches_in_order by (intro foldE_merged [OF st]) (auto simp: merged_def firstKeys_def patchesFor_def)
  then have m: "mg_order st = firstKeys M ?xs" "map_option asPair (map_of (mg_selected st) k) = winner (patchesFor M k ?xs)" for k
    by (simp_all add: merged_def)
  have "selectedRule (the (map_of (mg_selected st) k)) = ruleOf (the (winner (patchesFor M k ?xs)))" if "k \<in> set (firstKeys M ?xs)" for k
  proof -
    from that have "patchesFor M k ?xs \<noteq> []" by (auto simp: set_firstKeys patchesFor_def filter_empty_conv)
    then have "winner (patchesFor M k ?xs) \<noteq> None" by (simp add: winner_None_iff)
    with m(2) [of k] obtain s where "map_of (mg_selected st) k = Some s" by (cases "map_of (mg_selected st) k") auto
    with m(2) [of k, symmetric] show ?thesis by (simp add: selectedRule_asPair)
  qed
  then show ?thesis by (simp add: rules m(1) mergeReference_def Let_def)
qed

section \<open>When the merge fails\<close>

text \<open>A patch clashes with the one selected for its field when the values differ, neither side
  is protected against the other, the priorities are equal and the rule is not to be skipped.\<close>

definition clashes :: "candidatePatch option \<Rightarrow> candidatePatch \<Rightarrow> bool" where
  "clashes e x = (case e of None \<Rightarrow> False
     | Some e \<Rightarrow> valueOf e \<noteq> valueOf x \<and> protects e = protects x \<and> cc_priority (fst x) = cc_priority (fst e) \<and> cc_onConflict (fst x) \<noteq> ''Skip'')"

definition conflicting :: "matchers \<Rightarrow> compiledCandidate list \<Rightarrow> bool" where
  "conflicting M cs \<longleftrightarrow>
     (\<exists>ys x zs. patchesOf (sort_key ruleOrder cs) = ys @ x # zs \<and> clashes (winner (patchesFor M (patchKey M x) ys)) x)"

lemma mergePatch_fails_iff:
  assumes "merged M xs st"
  shows "(\<exists>e. mergePatch M st x = Inl e) \<longleftrightarrow> clashes (winner (patchesFor M (patchKey M x) xs)) x"
proof -
  obtain c p where x: "x = (c, p)" by (cases x)
  from assms have "winner (patchesFor M (patchKey M x) xs) = map_option asPair (map_of (mg_selected st) (patchKey M x))"
    by (simp add: merged_def)
  then show ?thesis
    by (auto simp: mergePatch_def x patchKey_def clashes_def Let_def asPair_def protects_def split: option.splits)
qed

lemma foldE_fails_iff:
  assumes "merged M xs st" and "sorted_wrt (\<lambda>a b. cc_priority (fst b) \<le> cc_priority (fst a)) (xs @ ys)"
  shows "(\<exists>e. foldE (mergePatch M) st ys = Inl e) \<longleftrightarrow>
    (\<exists>us x vs. ys = us @ x # vs \<and> clashes (winner (patchesFor M (patchKey M x) (xs @ us))) x)"
  using assms
proof (induction ys arbitrary: xs st)
  case (Cons y ys)
  let ?C = "\<lambda>us x. clashes (winner (patchesFor M (patchKey M x) us)) x"
  have split: "(\<exists>us x vs. y # ys = us @ x # vs \<and> ?C (xs @ us) x) \<longleftrightarrow>
      ?C xs y \<or> (\<exists>us x vs. ys = us @ x # vs \<and> ?C ((xs @ [y]) @ us) x)" (is "?l \<longleftrightarrow> ?a \<or> ?b")
  proof
    assume ?l
    then obtain us x vs where e: "y # ys = us @ x # vs" and c: "?C (xs @ us) x" by blast
    show "?a \<or> ?b"
    proof (cases us)
      case Nil
      then show ?thesis using e c by simp
    next
      case (Cons a us')
      then have "ys = us' @ x # vs" "?C ((xs @ [y]) @ us') x" using e c by simp_all
      then show ?thesis by blast
    qed
  next
    assume "?a \<or> ?b"
    then show ?l
    proof
      assume ?a
      then have "y # ys = [] @ y # ys \<and> ?C (xs @ []) y" by simp
      then show ?l by blast
    next
      assume ?b
      then obtain us x vs where "ys = us @ x # vs" "?C ((xs @ [y]) @ us) x" by blast
      then have "y # ys = (y # us) @ x # vs \<and> ?C (xs @ (y # us)) x" by simp
      then show ?l by blast
    qed
  qed
  show ?case
  proof (cases "mergePatch M st y")
    case (Inl e)
    then show ?thesis using mergePatch_fails_iff [OF Cons.prems(1), of y] split by auto
  next
    case (Inr t)
    have "merged M (xs @ [y]) t"
      using Cons.prems Inr by (intro mergePatch_merged) (auto simp: sorted_wrt_append)
    from Cons.IH [OF this] Cons.prems(2) mergePatch_fails_iff [OF Cons.prems(1), of y] split Inr show ?thesis by simp
  qed
qed simp

lemma merge_fails_iff: "(\<exists>e. mergeCompiledCandidates M cs n = Inl e) \<longleftrightarrow> conflicting M cs"
proof -
  let ?xs = "patchesOf (sort_key ruleOrder cs)"
  let ?st = "\<lparr>mg_selected = [], mg_order = [], mg_skipped = n\<rparr>"
  have "merged M [] ?st" by (simp add: merged_def firstKeys_def patchesFor_def)
  from foldE_fails_iff [OF this] patches_in_order
  have "(\<exists>e. foldE (mergePatch M) ?st ?xs = Inl e) \<longleftrightarrow> conflicting M cs" by (simp add: conflicting_def)
  moreover have "(\<exists>e. mergeCompiledCandidates M cs n = Inl e) \<longleftrightarrow> (\<exists>e. foldE (mergePatch M) ?st ?xs = Inl e)"
    by (auto simp: mergeCompiledCandidates_def andThen_def split: sum.splits)
  ultimately show ?thesis by simp
qed

text \<open>C28. Equivalence: merging the compiled rules with a map of selected patches gives exactly the
  reference merge: one rule per field, in the order of first occurrence, holding the first patch by
  priority and rule name unless a protected system rule has another value; and it fails
  exactly when two patches of one field clash.\<close>

theorem merge_equals_reference:
  "(\<exists>n'. mergeCompiledCandidates M cs n = Inr (rules, n')) \<longleftrightarrow> \<not> conflicting M cs \<and> rules = mergeReference M cs"
proof (cases "mergeCompiledCandidates M cs n")
  case (Inl e)
  then show ?thesis using merge_fails_iff [of M cs n] by auto
next
  case (Inr x)
  obtain r n' where x: "x = (r, n')" by (cases x)
  show ?thesis using Inr x merge_fails_iff [of M cs n] merge_result [of M cs n] by auto
qed

end
