(* ===== verification/ModifierProps.thy ===== *)
theory ModifierProps
  imports ModifierMerge
begin

text \<open>
  Properties of the compiled modifier rules: no patch reaches a field that is out of bounds,
  protected rules of the system cannot be overridden, a restore in the other direction is the
  restore of the mirrored policy, and JSON pointers are read back as they were written.
\<close>

section \<open>Where the candidates come from\<close>

definition governed :: "compiledCandidate \<Rightarrow> bool" where
  "governed c \<longleftrightarrow> (\<forall>p \<in> set (mr_patches (cc_rule c)). validatePatchGovernance (mr_conditions (cc_rule c)) p (cc_isSystem c) = Inr ())"

definition userMade :: "compiledCandidate \<Rightarrow> bool" where
  "userMade c \<longleftrightarrow> governed c \<and> \<not> cc_isSystem c \<and> \<not> cc_isSystemProtect c"

definition systemMade :: "bool \<Rightarrow> compiledCandidate \<Rightarrow> bool" where
  "systemMade protect c \<longleftrightarrow> governed c \<and> cc_isSystem c \<and> cc_isSystemProtect c = protect \<and> cc_priority c = 0 \<and> cc_onConflict c = ''Fail''"

lemma foldE_collect:
  assumes "foldE (\<lambda>cs x. andThen (f x) (\<lambda>c. Inr (cs @ [c]))) cs xs = Inr cs'"
  shows "\<exists>ds. cs' = cs @ ds \<and> list_all2 (\<lambda>x d. f x = Inr d) xs ds"
  using assms
proof (induction xs arbitrary: cs)
  case (Cons x xs)
  from Cons.prems obtain c where c: "f x = Inr c" and r: "foldE (\<lambda>cs x. andThen (f x) (\<lambda>c. Inr (cs @ [c]))) (cs @ [c]) xs = Inr cs'"
    by (cases "f x") auto
  from Cons.IH [OF r] obtain ds where "cs' = (cs @ [c]) @ ds" "list_all2 (\<lambda>x d. f x = Inr d) xs ds" by blast
  with c show ?case by (intro exI [of _ "c # ds"]) simp
qed simp

lemma systemCandidate_made:
  "systemCandidate M pre b x = Inr c \<Longrightarrow> cc_rule c = snd x \<and> systemMade b c"
  by (cases x) (auto simp: systemCandidate_def systemMade_def governed_def andThen_Inr_iff checkAll_Inr_iff Let_def rejected_def split: if_splits)

lemma compileSystemRules_made:
  assumes "compileSystemRules M pre b rules cs = Inr cs'"
  shows "\<exists>ds. cs' = cs @ ds \<and> map cc_rule ds = rules \<and> (\<forall>d \<in> set ds. systemMade b d)"
proof -
  from foldE_collect [OF assms [unfolded compileSystemRules_def]] obtain ds
    where ds: "cs' = cs @ ds" "list_all2 (\<lambda>x d. systemCandidate M pre b x = Inr d) (List.enumerate 0 rules) ds" by blast
  from ds(2) have "list_all2 (\<lambda>x d. cc_rule d = snd x \<and> systemMade b d) (List.enumerate 0 rules) ds"
    by (rule list_all2_mono) (rule systemCandidate_made)
  then have "map cc_rule ds = map snd (List.enumerate 0 rules) \<and> (\<forall>d \<in> set ds. systemMade b d)"
    by (induction rule: list_all2_induct) auto
  with ds(1) show ?thesis by auto
qed

lemma compileOne_made:
  assumes "compileOneModifierRule M x flow ao = Inr c"
  shows "userMade c"
  using assms
  by (auto simp: compileOneModifierRule_def compileVeleroNativeRule_def compileReversibleRule_def userMade_def governed_def userCandidate_def
      andThen_Inr_iff checkAll_Inr_iff Let_def rejected_def notReversible_def split: sum.splits if_splits option.splits)

lemma compileRule_made: "compileRule M flow ao x = Inr (Some c) \<Longrightarrow> userMade c"
  by (cases x) (auto simp: compileRule_def andThen_Inr_iff userMade_def governed_def dest!: compileOne_made split: if_splits)

lemma compileRules_made:
  assumes "compileRules M flow ao rules s = Inr s'"
  shows "\<exists>ds. fst s' = fst s @ ds \<and> (\<forall>d \<in> set ds. userMade d)"
proof -
  let ?P = "\<lambda>t. \<exists>ds. fst t = fst s @ ds \<and> (\<forall>d \<in> set ds. userMade d)"
  show ?thesis
  proof (rule foldE_invariant [OF assms [unfolded compileRules_def], of ?P])
    fix t x t' assume t: "?P t" "andThen (compileRule M flow ao x) (\<lambda>y.
        Inr (case y of None \<Rightarrow> (fst t, snd t + 1) | Some c \<Rightarrow> (fst t @ [c], snd t))) = Inr t'"
    from t(1) obtain ds where ds: "fst t = fst s @ ds" "\<forall>d \<in> set ds. userMade d" by auto
    from t(2) obtain y where y: "compileRule M flow ao x = Inr y" "t' = (case y of None \<Rightarrow> (fst t, snd t + 1) | Some c \<Rightarrow> (fst t @ [c], snd t))"
      by (auto simp: andThen_Inr_iff)
    show "?P t'"
    proof (cases y)
      case (Some c)
      with y ds compileRule_made [of M flow ao x c] show ?thesis by (intro exI [of _ "ds @ [c]"]) auto
    qed (use y ds in auto)
  qed simp
qed

lemma compile_candidates:
  assumes "compileModifierRulesForInstance M i ao = Inr (rules, sm)"
  obtains sys prot us where "map cc_rule sys = ao_systemRules ao" and "map cc_rule prot = ao_systemProtectRules ao"
    and "\<forall>c \<in> set sys. systemMade False c" and "\<forall>c \<in> set prot. systemMade True c" and "\<forall>c \<in> set us. userMade c"
    and "\<not> conflicting M (sys @ prot @ us)" and "rules = mergeReference M (sys @ prot @ us)"
proof -
  have fin: "\<not> conflicting M cs \<and> rules = mergeReference M cs" if "finishCompile M f d (cs, n) = Inr (rules, sm)" for f d cs n
  proof -
    from that obtain n' where "mergeCompiledCandidates M cs n = Inr (rules, n')" by (auto simp: finishCompile_def andThen_Inr_iff)
    then show ?thesis using merge_fails_iff [of M cs n] merge_result [of M cs n] by auto
  qed
  from assms obtain system where sysm: "compileSystemRuleCandidates M ao = Inr system"
    by (auto simp: compileModifierRulesForInstance_def andThen_Inr_iff)
  have fin': "(\<exists>f d. finishCompile M f d (system, 0) = Inr (rules, sm)) \<or>
      (\<exists>f d s1 s2 input. compileRules M f ao (ao_runtimeModifierRules ao) (system, 0) = Inr s1 \<and> compileRules M f ao input s1 = Inr s2 \<and>
         finishCompile M (flowString f) d s2 = Inr (rules, sm))" (is "?A \<or> ?B")
  proof (cases "di_restorePolicy (in_spec i)")
    case None
    then show ?thesis using assms sysm by (auto simp: compileModifierRulesForInstance_def)
  next
    case (Some policy)
    show ?thesis
    proof (rule ccontr)
      assume n: "\<not> (?A \<or> ?B)"
      then have "finishCompile M [] [] (system, 0) \<noteq> Inr (rules, sm)" by blast
      moreover obtain input where "effectiveModifierRuleInput policy = Inr input"
        using assms sysm Some by (auto simp: compileModifierRulesForInstance_def andThen_Inr_iff)
      ultimately have "andThen (resolveModifierFlow (ao_baselineSourceCluster ao) (ao_baselineTargetCluster ao)
          (is_primaryCluster (in_status i)) (is_secondaryCluster (in_status i))) (\<lambda>(flow, source).
        andThen (compileRules M flow ao (ao_runtimeModifierRules ao) (system, 0)) (\<lambda>s1.
        andThen (compileRules M flow ao input s1) (finishCompile M (flowString flow) source))) = Inr (rules, sm)"
        using assms sysm Some
        by (cases "validateRuleCountLimit (int (length (ao_systemRules ao) + length (ao_systemProtectRules ao) + length (ao_runtimeModifierRules ao) + length input))")
           (simp_all add: compileModifierRulesForInstance_def split: if_splits)
      then have ?B by (simp add: andThen_Inr_iff case_prod_beta) blast
      with n show False by blast
    qed
  qed
  from sysm obtain s1 where s1: "compileSystemRules M ''system'' False (ao_systemRules ao) [] = Inr s1"
      "compileSystemRules M ''system-protect'' True (ao_systemProtectRules ao) s1 = Inr system"
    by (auto simp: compileSystemRuleCandidates_def andThen_Inr_iff)
  from compileSystemRules_made [OF s1(1)] obtain sys where sys: "s1 = sys" "map cc_rule sys = ao_systemRules ao" "\<forall>c \<in> set sys. systemMade False c"
    by auto
  from compileSystemRules_made [OF s1(2)] obtain prot
    where prot: "system = sys @ prot" "map cc_rule prot = ao_systemProtectRules ao" "\<forall>c \<in> set prot. systemMade True c"
    using sys(1) by auto
  from fin' obtain us where us: "\<forall>c \<in> set us. userMade c" and m: "\<not> conflicting M (system @ us) \<and> rules = mergeReference M (system @ us)"
  proof (elim disjE exE conjE)
    fix f d assume "finishCompile M f d (system, 0) = Inr (rules, sm)"
    from fin [OF this] that [of "[]"] show thesis by simp
  next
    fix f d t1 t2 input
    assume t: "compileRules M f ao (ao_runtimeModifierRules ao) (system, 0) = Inr t1" "compileRules M f ao input t1 = Inr t2"
      "finishCompile M (flowString f) d t2 = Inr (rules, sm)"
    from compileRules_made [OF t(1)] compileRules_made [OF t(2)] have "\<exists>us. fst t2 = system @ us \<and> (\<forall>c \<in> set us. userMade c)"
      by (metis Un_iff append.assoc fst_conv set_append)
    moreover have "\<not> conflicting M (fst t2) \<and> rules = mergeReference M (fst t2)" using fin [of _ _ "fst t2" "snd t2"] t(3) by simp
    ultimately show thesis using that by metis
  qed
  from that [OF sys(2) prot(2) sys(3) prot(3) us] m prot(1) show ?thesis by simp
qed

lemma reference_rule:
  assumes "rule \<in> set (mergeReference M cs)"
  obtains c p where "c \<in> set cs" and "p \<in> set (mr_patches (cc_rule c))" and "rule = \<lparr>mr_conditions = mr_conditions (cc_rule c), mr_patches = [p]\<rparr>"
    and "winner (patchesFor M (patchKey M (c, p)) (patchesOf (sort_key ruleOrder cs))) = Some (c, p)"
proof -
  let ?xs = "patchesOf (sort_key ruleOrder cs)"
  from assms obtain k where k: "k \<in> set (firstKeys M ?xs)" "rule = ruleOf (the (winner (patchesFor M k ?xs)))"
    by (auto simp: mergeReference_def Let_def)
  then have "patchesFor M k ?xs \<noteq> []" by (auto simp: set_firstKeys patchesFor_def filter_empty_conv)
  then obtain x where x: "winner (patchesFor M k ?xs) = Some x" using winner_None_iff by blast
  from winner_member [OF x] have "x \<in> set ?xs" "patchKey M x = k" by (simp_all add: patchesFor_def)
  with x k(2) that [of "fst x" "snd x"] show ?thesis by (auto simp: patchesOf_def ruleOf_def)
qed

section \<open>Governance\<close>

definition protectedField :: "string \<Rightarrow> bool" where
  "protectedField path \<longleftrightarrow> path = ''/status'' \<or> hasPrefix path ''/status/'' \<or> path = ''/metadata/finalizers'' \<or> hasPrefix path ''/metadata/finalizers/''"

definition ownerField :: "string \<Rightarrow> bool" where
  "ownerField path \<longleftrightarrow> path = ''/metadata/ownerReferences'' \<or> hasPrefix path ''/metadata/ownerReferences/''"

lemma governance_ok:
  "validatePatchGovernance c p sys = Inr () \<Longrightarrow>
     \<not> protectedField (trimSpace (jp_path p)) \<and> jsonPointerDepth (trimSpace (jp_path p)) \<le> 32 \<and>
     (ownerField (trimSpace (jp_path p)) \<longrightarrow> sys \<and> isTrafficlessOwnerReferenceException c p)"
  by (auto simp: validatePatchGovernance_def protectedField_def ownerField_def Let_def rejected_def forbiddenPath_def maxJSONPointerDepth_def
      split: if_splits)

text \<open>C30. Safety: every rule that a compilation returns has exactly one patch, whose target path is not the status or the
  finalizers of an object or anything below them, is at most 32 levels deep, and is not below the
  owner references, which it names only to drop those of pods. (The path of the source of a move or copy and patches of all metadata are not
  restricted.)\<close>

theorem compiled_patches_governed:
  assumes "compileModifierRulesForInstance M i ao = Inr (rules, sm)" and "rule \<in> set rules"
  shows "\<exists>p. mr_patches rule = [p] \<and> \<not> protectedField (trimSpace (jp_path p)) \<and> jsonPointerDepth (trimSpace (jp_path p)) \<le> 32 \<and>
    (ownerField (trimSpace (jp_path p)) \<longrightarrow> isTrafficlessOwnerReferenceException (mr_conditions rule) p)"
proof -
  from assms(1) obtain sys prot us where c: "\<forall>c \<in> set sys. systemMade False c" "\<forall>c \<in> set prot. systemMade True c" "\<forall>c \<in> set us. userMade c"
    and r: "rules = mergeReference M (sys @ prot @ us)" by (rule compile_candidates)
  from assms(2) obtain c p where cp: "c \<in> set (sys @ prot @ us)" "p \<in> set (mr_patches (cc_rule c))"
      "rule = \<lparr>mr_conditions = mr_conditions (cc_rule c), mr_patches = [p]\<rparr>"
    unfolding r by (rule reference_rule)
  from c cp(1) have "governed c" by (auto simp: systemMade_def userMade_def)
  with cp(2) have "validatePatchGovernance (mr_conditions (cc_rule c)) p (cc_isSystem c) = Inr ()" by (simp add: governed_def)
  from governance_ok [OF this] cp(3) show ?thesis by simp
qed

section \<open>Protected rules\<close>

definition ruleKey :: "matchers \<Rightarrow> ResourceModifierRule \<Rightarrow> string" where
  "ruleKey M x = makeConflictKey M (mr_conditions x) (hd (mr_patches x))"

lemma reference_for_key:
  assumes "x \<in> set (patchesOf (sort_key ruleOrder cs))"
  shows "\<exists>y. winner (patchesFor M (patchKey M x) (patchesOf (sort_key ruleOrder cs))) = Some y \<and>
     filter (\<lambda>z. ruleKey M z = patchKey M x) (mergeReference M cs) = [ruleOf y]"
proof -
  let ?xs = "patchesOf (sort_key ruleOrder cs)"
  let ?k = "patchKey M x"
  let ?f = "\<lambda>k. ruleOf (the (winner (patchesFor M k ?xs)))"
  have key: "ruleKey M (?f k) = k" if "k \<in> set (firstKeys M ?xs)" for k
  proof -
    from that have "patchesFor M k ?xs \<noteq> []" by (auto simp: set_firstKeys patchesFor_def filter_empty_conv)
    then obtain y where "winner (patchesFor M k ?xs) = Some y" using winner_None_iff by blast
    with winner_member [OF this] show ?thesis by (simp add: patchesFor_def ruleKey_def ruleOf_def patchKey_def)
  qed
  have k: "?k \<in> set (firstKeys M ?xs)" using assms by (simp add: set_firstKeys)
  have "filter (\<lambda>z. ruleKey M z = ?k) (map ?f ks) = (if ?k \<in> set ks then [?f ?k] else [])"
    if "distinct ks" "\<forall>k \<in> set ks. ruleKey M (?f k) = k" for ks
    using that by (induction ks) auto
  from this [OF distinct_firstKeys] key k have "filter (\<lambda>z. ruleKey M z = ?k) (mergeReference M cs) = [?f ?k]"
    by (simp add: mergeReference_def Let_def)
  moreover have "patchesFor M ?k ?xs \<noteq> []" using assms by (auto simp: patchesFor_def filter_empty_conv)
  then obtain y where "winner (patchesFor M ?k ?xs) = Some y" using winner_None_iff by blast
  ultimately show ?thesis by auto
qed

lemma winner_unprotected:
  "winner xs = Some y \<Longrightarrow> \<not> protects y \<Longrightarrow> x \<in> set xs \<Longrightarrow> protects x \<Longrightarrow> valueOf x = valueOf y"
  by (cases x; cases xs) (auto simp: find_None_iff find_Some_iff split: if_splits option.splits)

text \<open>C29. Safety: a protected rule of the system wins every conflict. Rules are in conflict when they have the same conditions,
  operation and path. Whatever the rules of the user and their priorities, and given that the protected rules that are in
  conflict with each other have the same value, a successful compilation has exactly one rule with the conditions, operation and path of a
  patch of a protected rule, and that rule has the protected value.\<close>

theorem system_protect_wins:
  assumes "compileModifierRulesForInstance M i ao = Inr (rules, sm)" and "rule \<in> set (ao_systemProtectRules ao)" and "p \<in> set (mr_patches rule)"
    and "\<forall>rule' \<in> set (ao_systemProtectRules ao). \<forall>p' \<in> set (mr_patches rule').
      makeConflictKey M (mr_conditions rule') p' = makeConflictKey M (mr_conditions rule) p \<longrightarrow> jp_value p' = jp_value p"
  shows "\<exists>q. filter (\<lambda>x. ruleKey M x = makeConflictKey M (mr_conditions rule) p) rules = [q] \<and> jp_value (hd (mr_patches q)) = jp_value p"
proof -
  from assms(1) obtain sys prot us where prot: "map cc_rule prot = ao_systemProtectRules ao" "\<forall>c \<in> set prot. systemMade True c"
    and other: "\<forall>c \<in> set sys. systemMade False c" "\<forall>c \<in> set us. userMade c"
    and r: "rules = mergeReference M (sys @ prot @ us)" by (rule compile_candidates)
  let ?xs = "patchesOf (sort_key ruleOrder (sys @ prot @ us))"
  from assms(2) prot(1) obtain c where c: "c \<in> set prot" "cc_rule c = rule" by (metis (no_types, lifting) imageE list.set_map)
  have x: "(c, p) \<in> set ?xs" using c assms(3) by (auto simp: patchesOf_def)
  have k: "patchKey M (c, p) = makeConflictKey M (mr_conditions rule) p" by (simp add: patchKey_def c(2))
  from reference_for_key [OF x, of M] obtain y where y: "winner (patchesFor M (patchKey M (c, p)) ?xs) = Some y"
      "filter (\<lambda>z. ruleKey M z = patchKey M (c, p)) rules = [ruleOf y]" unfolding r by blast
  have "valueOf y = jp_value p"
  proof (cases "protects y")
    case False
    from winner_unprotected [OF y(1) False, of "(c, p)"] x c(1) prot(2) show ?thesis by (auto simp: patchesFor_def protects_def systemMade_def)
  next
    case True
    from winner_member [OF y(1)] have m: "y \<in> set ?xs" "patchKey M y = patchKey M (c, p)" by (simp_all add: patchesFor_def)
    then have d: "fst y \<in> set (sys @ prot @ us)" "snd y \<in> set (mr_patches (cc_rule (fst y)))" by (auto simp: patchesOf_def)
    with True other have "fst y \<in> set prot" by (auto simp: protects_def systemMade_def userMade_def)
    with prot(1) have "cc_rule (fst y) \<in> set (ao_systemProtectRules ao)" by (metis image_eqI list.set_map)
    with assms(4) d(2) m(2) k show ?thesis by (simp add: patchKey_def [of M y])
  qed
  with y(2) k show ?thesis by (simp add: ruleOf_def)
qed

section \<open>JSON pointers\<close>

definition pointerOf :: "string list \<Rightarrow> string" where
  "pointerOf ts = concat (map (\<lambda>t. CHR ''/'' # escapeJSONPointerSegment t) ts)"

lemma replaceChar_append [simp]: "replaceChar c r (s @ t) = replaceChar c r s @ replaceChar c r t"
  by (simp add: replaceChar_def)

lemma escape_Nil [simp]: "escapeJSONPointerSegment [] = []"
  by (simp add: escapeJSONPointerSegment_def replaceChar_def)

lemma escape_Cons:
  "escapeJSONPointerSegment (c # s) =
     (if c = CHR ''~'' then ''~0'' else if c = CHR ''/'' then ''~1'' else [c]) @ escapeJSONPointerSegment s"
  by (simp add: escapeJSONPointerSegment_def replaceChar_def)

lemma decode_escape: "decodeJSONPointerToken (escapeJSONPointerSegment s) = Inr s"
  by (induction s) (simp_all add: escape_Cons)

lemma escape_no_slash: "CHR ''/'' \<notin> set (escapeJSONPointerSegment s)"
  by (induction s) (simp_all add: escape_Cons)

lemma splitOn_not_empty: "splitOn c s \<noteq> []"
  by (induction s) (auto split: list.splits)

lemma splitOn_segment: "c \<notin> set s \<Longrightarrow> splitOn c (s @ c # t) = s # splitOn c t"
  by (induction s) auto

lemma splitOn_last: "c \<notin> set s \<Longrightarrow> splitOn c s = [s]"
  by (induction s) auto

lemma split_pointer:
  assumes "ts \<noteq> []"
  shows "splitOn (CHR ''/'') (tl (pointerOf ts)) = map escapeJSONPointerSegment ts"
  using assms
proof (induction ts)
  case (Cons t ts)
  show ?case
  proof (cases ts)
    case Nil
    then show ?thesis by (simp add: pointerOf_def splitOn_last escape_no_slash)
  next
    case (Cons u us)
    then have "tl (pointerOf (t # ts)) = escapeJSONPointerSegment t @ CHR ''/'' # tl (pointerOf ts)" by (simp add: pointerOf_def)
    with Cons.IH Cons show ?thesis by (simp add: splitOn_segment escape_no_slash)
  qed
qed simp

lemma foldE_decode:
  "foldE (\<lambda>ts raw. andThen (decodeJSONPointerToken raw) (\<lambda>t. Inr (ts @ [t]))) us (map escapeJSONPointerSegment ts) = Inr (us @ ts)"
  by (induction ts arbitrary: us) (simp_all add: decode_escape)

lemma trim_pointer:
  assumes "ts \<noteq> []" and "last ts \<noteq> []" and "\<not> isSpace (last (last ts))"
  shows "trimSpace (pointerOf ts) = pointerOf ts"
proof -
  have lst: "last (escapeJSONPointerSegment s) = (if last s = CHR ''~'' then CHR ''0'' else if last s = CHR ''/'' then CHR ''1'' else last s)
      \<and> escapeJSONPointerSegment s \<noteq> []" if "s \<noteq> []" for s
    using that by (induction s) (auto simp: escape_Cons)
  have "pointerOf ts = pointerOf (butlast ts) @ CHR ''/'' # escapeJSONPointerSegment (last ts)"
  proof -
    have "pointerOf (us @ [t]) = pointerOf us @ CHR ''/'' # escapeJSONPointerSegment t" for us t by (simp add: pointerOf_def)
    from this [of "butlast ts" "last ts"] assms(1) show ?thesis by simp
  qed
  then have l: "last (pointerOf ts) = last (escapeJSONPointerSegment (last ts))" "pointerOf ts \<noteq> []"
    using lst [OF assms(2)] by simp_all
  have "\<not> isSpace (last (pointerOf ts))"
    using lst [OF assms(2)] assms(3) unfolding l(1) by (simp add: isSpace_def split: if_splits)
  moreover have "\<not> isSpace (hd (pointerOf ts))" using assms(1) by (cases ts) (simp_all add: pointerOf_def isSpace_def)
  ultimately show ?thesis using l(2) by (intro trimSpace_id)
qed

text \<open>The path built from escaped segments is decoded to the same segments, whatever
  characters they contain.\<close>

theorem json_pointer_roundtrip:
  assumes "ts \<noteq> []" and "last ts \<noteq> []" and "\<not> isSpace (last (last ts))"
  shows "decodeJSONPointerPath (pointerOf ts) = Inr ts"
proof -
  obtain t us where ts: "ts = t # us" using assms(1) by (cases ts) auto
  have p: "hasPrefix (pointerOf ts) ''/''" "pointerOf ts \<noteq> []" by (simp_all add: ts pointerOf_def hasPrefix_def)
  have "pointerOf ts \<noteq> ''/''"
  proof
    assume a: "pointerOf ts = ''/''"
    from split_pointer [OF assms(1)] have "map escapeJSONPointerSegment ts = [[]]" by (simp add: a)
    then have "escapeJSONPointerSegment (last ts) = []" by (auto simp: ts)
    with decode_escape [of "last ts"] assms(2) show False by simp
  qed
  with p show ?thesis
    by (simp add: decodeJSONPointerPath_def trim_pointer [OF assms] Let_def split_pointer [OF assms(1)] foldE_decode)
qed

theorem json_pointer_roundtrip_witness:
  "decodeJSONPointerPath (pointerOf [''metadata'', ''labels'', ''app.io/a~b'']) = Inr [''metadata'', ''labels'', ''app.io/a~b'']"
  using json_pointer_roundtrip [of "[''metadata'', ''labels'', ''app.io/a~b'']"] by (simp add: isSpace_def)

end
