(* ===== verification/RestoreProps.thy ===== *)
theory RestoreProps
  imports ModifierProps ModifierSubmission OpHandlers Samples Runs
begin

text \<open>
  Properties that join the restore policies with the rest: the direction of a restore after
  a failover has switched the roles, what the webhook guarantees about the rules it admits,
  and the limits of the class mappings.
\<close>

section \<open>Restores in the other direction\<close>

definition mirrorPair :: "RestoreModifierPair \<Rightarrow> RestoreModifierPair" where
  "mirrorPair p = p\<lparr>pa_sourceValue := pa_targetValue p, pa_targetValue := pa_sourceValue p\<rparr>"

definition mirrorDirection :: "string \<Rightarrow> string" where
  "mirrorDirection d =
     (let n = normalizeDirectionPolicy d in if n = ''ForwardOnly'' then ''ReverseOnly'' else if n = ''ReverseOnly'' then ''ForwardOnly'' else ''Auto'')"

definition mirrorRule :: "RestoreModifierRule \<Rightarrow> RestoreModifierRule" where
  "mirrorRule x = x\<lparr>rm_pair := map_option mirrorPair (rm_pair x), rm_directionPolicy := mirrorDirection (rm_directionPolicy x)\<rparr>"

definition mirrorPolicy :: "RestorePolicy \<Rightarrow> RestorePolicy" where
  "mirrorPolicy p = p\<lparr>rp_modifierRules := map mirrorRule (rp_modifierRules p), rp_modifierRuleSnapshot := map mirrorRule (rp_modifierRuleSnapshot p)\<rparr>"

definition mirrorInstance :: "DisasterInstance \<Rightarrow> DisasterInstance" where
  "mirrorInstance i = i\<lparr>in_spec := (in_spec i)\<lparr>di_restorePolicy := map_option mirrorPolicy (di_restorePolicy (in_spec i))\<rparr>\<rparr>"

definition mirrorOptions :: "ApplyInstanceRestorePolicyOptions \<Rightarrow> ApplyInstanceRestorePolicyOptions" where
  "mirrorOptions ao = ao\<lparr>ao_runtimeModifierRules := map mirrorRule (ao_runtimeModifierRules ao)\<rparr>"

text \<open>A rule whose values hold no placeholder.\<close>

definition plainRule :: "RestoreModifierRule \<Rightarrow> bool" where
  "plainRule x = (case rm_pair x of None \<Rightarrow> True
     | Some p \<Rightarrow> \<not> contains (trimSpace (pa_sourceValue p)) ''{{'' \<and> \<not> contains (trimSpace (pa_targetValue p)) ''{{'')"

lemma mirror_direction: "directionPolicyAllows (mirrorDirection d) FlowForward = directionPolicyAllows d FlowReverse"
proof -
  have t: "trimSpace ''ReverseOnly'' = ''ReverseOnly''" "trimSpace ''ForwardOnly'' = ''ForwardOnly''" "trimSpace ''Auto'' = ''Auto''" by code_simp+
  show ?thesis by (auto simp: directionPolicyAllows_def mirrorDirection_def normalizeDirectionPolicy_def Let_def t)
qed

lemma mirror_reversible:
  assumes "plainRule x"
  shows "compileReversibleRule x FlowReverse ao = Inr c \<longleftrightarrow> compileReversibleRule (mirrorRule x) FlowForward (mirrorOptions ao) = Inr c"
  using assms
  by (cases "rm_pair x")
     (auto simp: compileReversibleRule_def mirrorRule_def mirrorPair_def plainRule_def resolvePairValue_def renderRestrictedPairValue_def
       notReversible_def Let_def)

lemma mirror_one:
  assumes "plainRule x"
  shows "compileOneModifierRule M x FlowReverse ao = Inr c \<longleftrightarrow> compileOneModifierRule M (mirrorRule x) FlowForward (mirrorOptions ao) = Inr c"
proof -
  have "rm_conditions (mirrorRule x) = rm_conditions x" "rm_mode (mirrorRule x) = rm_mode x"
    "compileVeleroNativeRule (mirrorRule x) = compileVeleroNativeRule x"
    by (cases "rm_veleroRule x"; simp add: mirrorRule_def compileVeleroNativeRule_def)+
  then show ?thesis using mirror_reversible [OF assms, of ao c]
    by (simp add: compileOneModifierRule_def Let_def rejected_def split: sum.splits)
qed

lemma mirror_rule:
  assumes "plainRule (snd x)"
  shows "compileRule M FlowReverse ao x = Inr y \<longleftrightarrow> compileRule M FlowForward (mirrorOptions ao) (apsnd mirrorRule x) = Inr y"
proof -
  obtain n z where x: "x = (n, z)" by (cases x)
  have "modifierRuleEnabled (mirrorRule z) = modifierRuleEnabled z" "modifierRuleAppliesToTarget (mirrorRule z) t = modifierRuleAppliesToTarget z t"
    "rm_priority (mirrorRule z) = rm_priority z" "normalizedRuleID (mirrorRule z) n = normalizedRuleID z n" "rm_onConflict (mirrorRule z) = rm_onConflict z"
    "rm_directionPolicy (mirrorRule z) = mirrorDirection (rm_directionPolicy z)" "ao_applyTarget (mirrorOptions ao) = ao_applyTarget ao" for t
    by (simp_all add: mirrorRule_def mirrorOptions_def modifierRuleEnabled_def modifierRuleAppliesToTarget_def normalizedRuleID_def)
  then show ?thesis using mirror_one [of z M ao] assms
    by (simp add: x compileRule_def mirror_direction andThen_Inr_iff)
qed

lemma mirror_rules:
  assumes "\<forall>x \<in> set rules. plainRule x"
  shows "compileRules M FlowReverse ao rules s = Inr s' \<longleftrightarrow> compileRules M FlowForward (mirrorOptions ao) (map mirrorRule rules) s = Inr s'"
proof -
  have fold: "foldE f s xs = Inr s' \<longleftrightarrow> foldE g s (map h xs) = Inr s'" if "\<And>t x y. x \<in> set xs \<Longrightarrow> f t x = Inr y \<longleftrightarrow> g t (h x) = Inr y"
    for f g :: "'s \<Rightarrow> 'x \<Rightarrow> err + 's" and h xs s s'
    using that
  proof (induction xs arbitrary: s)
    case (Cons x xs)
    from Cons.prems [of x s] show ?case
    proof (cases "f s x")
      case (Inl e)
      with Cons.prems [of x s] have "\<nexists>y. g s (h x) = Inr y" by auto
      then obtain e' where "g s (h x) = Inl e'" by (cases "g s (h x)") auto
      with Inl show ?thesis by simp
    next
      case (Inr t)
      with Cons.prems [of x s t] have g: "g s (h x) = Inr t" by simp
      have "foldE f t xs = Inr s' \<longleftrightarrow> foldE g t (map h xs) = Inr s'" by (rule Cons.IH) (use Cons.prems in simp)
      with Inr g show ?thesis by simp
    qed
  qed simp
  have enum: "List.enumerate n (map mirrorRule rules) = map (apsnd mirrorRule) (List.enumerate n rules)" for n
    by (induction rules arbitrary: n) simp_all
  have plain: "plainRule (snd x)" if "x \<in> set (List.enumerate 0 rules)" for x
    using assms that nth_mem [of "fst x" rules] by (auto simp: in_set_enumerate_eq)
  show ?thesis unfolding compileRules_def enum by (rule fold) (simp add: andThen_Inr_iff mirror_rule plain)
qed

lemma mirror_input:
  "effectiveModifierRuleInput (mirrorPolicy p) = map_sum id (map mirrorRule) (effectiveModifierRuleInput p)"
  "isUnifiedDirectionResolverEnabled (mirrorPolicy p) = isUnifiedDirectionResolverEnabled p"
  "hasNewDSLRules (mirrorPolicy p) = hasNewDSLRules p"
  by (simp_all add: effectiveModifierRuleInput_def mirrorPolicy_def hasSnapshotBulkModifierActions_def effectiveSnapshotBulkModifierActions_def
      effectiveBulkModifierActions_def isUnifiedDirectionResolverEnabled_def hasNewDSLRules_def rejected_def)

lemma mirror_system: "compileSystemRuleCandidates M (mirrorOptions ao) = compileSystemRuleCandidates M ao"
  by (simp add: compileSystemRuleCandidates_def mirrorOptions_def)

definition rolesSwitched :: "DisasterInstance \<Rightarrow> DisasterInstance" where
  "rolesSwitched i = i\<lparr>in_status := (in_status i)\<lparr>is_primaryCluster := is_secondaryCluster (in_status i),
     is_secondaryCluster := is_primaryCluster (in_status i)\<rparr>\<rparr>"

definition deployedAsConfigured :: "DisasterInstance \<Rightarrow> ApplyInstanceRestorePolicyOptions \<Rightarrow> bool" where
  "deployedAsConfigured i ao \<longleftrightarrow>
     trimSpace (is_primaryCluster (in_status i)) = trimSpace (ao_baselineSourceCluster ao) \<and>
     trimSpace (is_secondaryCluster (in_status i)) = trimSpace (ao_baselineTargetCluster ao) \<and>
     trimSpace (ao_baselineSourceCluster ao) \<noteq> [] \<and> trimSpace (ao_baselineTargetCluster ao) \<noteq> [] \<and>
     trimSpace (ao_baselineSourceCluster ao) \<noteq> trimSpace (ao_baselineTargetCluster ao)"

lemma finish_rules:
  "(\<exists>sm. finishCompile M f d s = Inr (rules, sm)) \<longleftrightarrow> (\<exists>n. mergeCompiledCandidates M (fst s) (snd s) = Inr (rules, n))"
  by (auto simp: finishCompile_def andThen_Inr_iff)

text \<open>A compilation up to its counters.\<close>

definition compiledTo :: "err + ResourceModifierRule list \<times> ModifierCompileSummary \<Rightarrow> ResourceModifierRule list \<Rightarrow> bool" where
  "compiledTo x rules \<longleftrightarrow> (case x of Inr (rs, _) \<Rightarrow> rs = rules | Inl _ \<Rightarrow> False)"

lemma compiledTo_andThen: "compiledTo (andThen x f) rules \<longleftrightarrow> (\<exists>y. x = Inr y \<and> compiledTo (f y) rules)"
  by (cases x) (simp_all add: compiledTo_def)

lemma compiledTo_finish: "compiledTo (finishCompile M f d s) rules \<longleftrightarrow> (\<exists>n. mergeCompiledCandidates M (fst s) (snd s) = Inr (rules, n))"
  by (cases "mergeCompiledCandidates M (fst s) (snd s)") (auto simp: compiledTo_def finishCompile_def)

lemma compile_mirrored:
  assumes d: "deployedAsConfigured i ao" and p: "di_restorePolicy (in_spec i) = Some p" and inp: "effectiveModifierRuleInput p = Inr input"
    and plain: "\<forall>x \<in> set (input @ ao_runtimeModifierRules ao). plainRule x"
  shows "compiledTo (compileModifierRulesForInstance M (rolesSwitched i) ao) rules \<longleftrightarrow>
    compiledTo (compileModifierRulesForInstance M (mirrorInstance i) (mirrorOptions ao)) rules"
proof -
  let ?ao = "mirrorOptions ao"
  have flows: "resolveModifierFlow (ao_baselineSourceCluster ao) (ao_baselineTargetCluster ao)
      (is_primaryCluster (in_status (rolesSwitched i))) (is_secondaryCluster (in_status (rolesSwitched i))) = Inr (FlowReverse, ''runtimeStatus'')"
    "resolveModifierFlow (ao_baselineSourceCluster ?ao) (ao_baselineTargetCluster ?ao)
      (is_primaryCluster (in_status (mirrorInstance i))) (is_secondaryCluster (in_status (mirrorInstance i))) = Inr (FlowForward, ''runtimeStatus'')"
    using d by (auto simp: resolveModifierFlow_def deployedAsConfigured_def rolesSwitched_def mirrorInstance_def mirrorOptions_def Let_def)
  have pol: "di_restorePolicy (in_spec (rolesSwitched i)) = Some p" "di_restorePolicy (in_spec (mirrorInstance i)) = Some (mirrorPolicy p)"
    "effectiveModifierRuleInput (mirrorPolicy p) = Inr (map mirrorRule input)"
    using p by (simp_all add: rolesSwitched_def mirrorInstance_def mirror_input inp)
  have opts: "ao_runtimeModifierRules ?ao = map mirrorRule (ao_runtimeModifierRules ao)" "ao_systemRules ?ao = ao_systemRules ao"
    "ao_systemProtectRules ?ao = ao_systemProtectRules ao"
    by (simp_all add: mirrorOptions_def)
  have rules: "compileRules M FlowForward ?ao (map mirrorRule (ao_runtimeModifierRules ao)) s = Inr t \<longleftrightarrow>
      compileRules M FlowReverse ao (ao_runtimeModifierRules ao) s = Inr t"
    "compileRules M FlowForward ?ao (map mirrorRule input) s = Inr t \<longleftrightarrow> compileRules M FlowReverse ao input s = Inr t" for s t
    using plain by (auto simp: mirror_rules)
  show ?thesis
    unfolding compileModifierRulesForInstance_def mirror_system compiledTo_andThen
    by (simp add: pol inp opts mirror_input compiledTo_andThen flows rules compiledTo_finish)
qed

text \<open>C31. Equivalence: a restore back to the original cluster compiles the rules of the mirrored
  policy. When the roles recorded in the status are those of the configuration and no value of the rules, of the policy
  and of the runtime, holds a placeholder (these name the clusters of the configuration in both directions), switching
  the roles compiles exactly the rules that are compiled without the switch once every pair of values and every
  direction is swapped, in the policy and in the runtime rules.\<close>

theorem failback_compiles_mirrored_policy:
  assumes "deployedAsConfigured i ao" and "di_restorePolicy (in_spec i) = Some p" and "effectiveModifierRuleInput p = Inr input"
    and "\<forall>x \<in> set (input @ ao_runtimeModifierRules ao). plainRule x"
  shows "compiledTo (compileModifierRulesForInstance M (rolesSwitched i) ao) rules =
    compiledTo (compileModifierRulesForInstance M (mirrorInstance i) (mirrorOptions ao)) rules"
  using compile_mirrored [OF assms] .

section \<open>Sample rules\<close>

definition sConditions :: "string \<Rightarrow> Conditions" where
  "sConditions gr = \<lparr>co_groupResource = gr, co_resourceNameRegex = [], co_namespaces = [''web''], co_labelSelector = None\<rparr>"

text \<open>A host name that differs between the clusters.\<close>

definition sPairRule :: "string \<Rightarrow> RestoreModifierRule" where
  "sPairRule d = \<lparr>rm_id = ''host'', rm_mode = ''reversible'', rm_enabled = None, rm_applyTo = [], rm_priority = 10,
     rm_conditions = sConditions ''ingresses.networking.k8s.io'', rm_veleroRule = None,
     rm_pair = Some \<lparr>pa_path = ''/spec/host'', pa_sourceValue = ''e.io'', pa_targetValue = ''w.io''\<rparr>,
     rm_directionPolicy = d, rm_onConflict = ''Fail''\<rparr>"

definition sPolicy :: "RestoreModifierRule list \<Rightarrow> RestoreClassMappingPolicy option \<Rightarrow> RestorePolicy" where
  "sPolicy rules storage = \<lparr>rp_resourceSelection = None, rp_execution = None, rp_storageClassMapping = storage, rp_ingressClassMapping = None,
     rp_bulkModifierActions = [], rp_modifierRules = rules, rp_modifierRuleSnapshot = [], rp_modifierRuleSnapshotHash = [],
     rp_useUnifiedDirectionResolver = Some True\<rparr>"

definition sPolicyInst :: "RestorePolicy \<Rightarrow> string \<Rightarrow> string \<Rightarrow> DisasterInstance" where
  "sPolicyInst p a b = (sInst FsmProtected a b)\<lparr>in_spec := (in_spec (sInst FsmProtected a b))\<lparr>di_restorePolicy := Some p\<rparr>\<rparr>"

definition sOptions :: ApplyInstanceRestorePolicyOptions where
  "sOptions = WithBaselineClusters ''east'' ''west'' defaultApplyInstanceRestorePolicyOptions"

definition sPatchRule :: "string \<Rightarrow> string \<Rightarrow> string \<Rightarrow> ResourceModifierRule" where
  "sPatchRule gr path v = \<lparr>mr_conditions = sConditions gr,
     mr_patches = [\<lparr>jp_operation = ''add'', jp_path = path, jp_value = v, jp_from = []\<rparr>]\<rparr>"

theorem failback_compiles_mirrored_policy_witness:
  "compiledTo (compileModifierRulesForInstance (r_matchers sRec) (mirrorInstance (sPolicyInst (sPolicy [sPairRule ''Auto''] None) ''east'' ''west''))
     (mirrorOptions sOptions)) [sPatchRule ''ingresses.networking.k8s.io'' ''/spec/host'' ''e.io'']"
proof -
  have "deployedAsConfigured (sPolicyInst (sPolicy [sPairRule ''Auto''] None) ''east'' ''west'') sOptions"
    "di_restorePolicy (in_spec (sPolicyInst (sPolicy [sPairRule ''Auto''] None) ''east'' ''west'')) = Some (sPolicy [sPairRule ''Auto''] None)"
    "effectiveModifierRuleInput (sPolicy [sPairRule ''Auto''] None) = Inr [sPairRule ''Auto'']"
    "\<forall>x \<in> set ([sPairRule ''Auto''] @ ao_runtimeModifierRules sOptions). plainRule x"
    "compiledTo (compileModifierRulesForInstance (r_matchers sRec) (rolesSwitched (sPolicyInst (sPolicy [sPairRule ''Auto''] None) ''east'' ''west'')) sOptions)
       [sPatchRule ''ingresses.networking.k8s.io'' ''/spec/host'' ''e.io'']"
    by code_simp+
  then show ?thesis by (simp only: failback_compiles_mirrored_policy [symmetric])
qed

text \<open>The rule of the user competes with a protected rule of the system for the same field.\<close>

definition sProtected :: ApplyInstanceRestorePolicyOptions where
  "sProtected = sOptions\<lparr>ao_systemProtectRules := [sPatchRule ''ingresses.networking.k8s.io'' ''/spec/host'' ''none'']\<rparr>"

definition sContest :: "ResourceModifierRule list \<times> ModifierCompileSummary" where
  "sContest = ([sPatchRule ''ingresses.networking.k8s.io'' ''/spec/host'' ''none''],
     \<lparr>mcs_flow = ''forward'', mcs_directionSource = ''runtimeStatus'', mcs_applied = 1, mcs_skipped = 0\<rparr>)"

lemma contest_compiles:
  "compileModifierRulesForInstance (r_matchers sRec) (sPolicyInst (sPolicy [sPairRule ''Auto''] None) ''east'' ''west'') sProtected =
     Inr (fst sContest, snd sContest)"
  by code_simp

text \<open>What the two limits do not cover: a rule of the user with another operation on the protected field is kept beside the
  protected rule, and a patch may move the finalizers away or replace all metadata.\<close>

definition sNativeRule :: "JSONPatch \<Rightarrow> RestoreModifierRule" where
  "sNativeRule p = \<lparr>rm_id = ''native'', rm_mode = ''veleroNative'', rm_enabled = None, rm_applyTo = [], rm_priority = 10,
     rm_conditions = sConditions ''ingresses.networking.k8s.io'',
     rm_veleroRule = Some \<lparr>vr_patches = [p], vr_mergePatches = [], vr_strategicPatches = []\<rparr>,
     rm_pair = None, rm_directionPolicy = ''Auto'', rm_onConflict = ''Fail''\<rparr>"

lemma other_operation_survives_protection:
  "compiledTo (compileModifierRulesForInstance (r_matchers sRec) (sPolicyInst (sPolicy [sNativeRule
      \<lparr>jp_operation = ''replace'', jp_path = ''/spec/host'', jp_value = ''e.io'', jp_from = []\<rparr>] None) ''east'' ''west'') sProtected)
     [\<lparr>mr_conditions = sConditions ''ingresses.networking.k8s.io'',
       mr_patches = [\<lparr>jp_operation = ''replace'', jp_path = ''/spec/host'', jp_value = ''e.io'', jp_from = []\<rparr>]\<rparr>,
      sPatchRule ''ingresses.networking.k8s.io'' ''/spec/host'' ''none'']"
  by code_simp

lemma finalizers_can_be_moved:
  "\<forall>p \<in> set [\<lparr>jp_operation = ''move'', jp_path = ''/metadata/annotations/x'', jp_value = [], jp_from = ''/metadata/finalizers''\<rparr>,
             \<lparr>jp_operation = ''replace'', jp_path = ''/metadata'', jp_value = ''{}'', jp_from = []\<rparr>].
     compiledTo (compileModifierRulesForInstance (r_matchers sRec) (sPolicyInst (sPolicy [sNativeRule p] None) ''east'' ''west'') sOptions)
       [\<lparr>mr_conditions = sConditions ''ingresses.networking.k8s.io'', mr_patches = [p]\<rparr>]"
  by code_simp

theorem compiled_patches_governed_witness:
  "\<exists>p. mr_patches (hd (fst sContest)) = [p] \<and> \<not> protectedField (trimSpace (jp_path p)) \<and> jsonPointerDepth (trimSpace (jp_path p)) \<le> 32"
proof -
  have "hd (fst sContest) \<in> set (fst sContest)" by (simp add: sContest_def)
  from compiled_patches_governed [OF contest_compiles this] show ?thesis by blast
qed

theorem system_protect_wins_witness:
  "\<exists>q. filter (\<lambda>x. ruleKey (r_matchers sRec) x = makeConflictKey (r_matchers sRec) (sConditions ''ingresses.networking.k8s.io'')
       \<lparr>jp_operation = ''add'', jp_path = ''/spec/host'', jp_value = ''none'', jp_from = []\<rparr>) (fst sContest) = [q] \<and>
     jp_value (hd (mr_patches q)) = ''none''"
  using system_protect_wins [OF contest_compiles, of "sPatchRule ''ingresses.networking.k8s.io'' ''/spec/host'' ''none''"
      "\<lparr>jp_operation = ''add'', jp_path = ''/spec/host'', jp_value = ''none'', jp_from = []\<rparr>"]
  by (simp add: sProtected_def sPatchRule_def)

section \<open>Mappings of storage classes\<close>

definition fails :: "'a result \<Rightarrow> bool" where
  "fails m \<longleftrightarrow> (\<forall>w. \<exists>e. fst (run_state m w) = Inl e)"

lemma fails_chk: "(\<And>x. fails (f x)) \<Longrightarrow> fails (chk m f)" "fails m \<Longrightarrow> fails (chk m f)"
  by (auto simp: fails_def run_chk split: prod.splits sum.splits) (metis fst_conv Inl_Inr_False)+

lemma fails_lift: "(\<And>y. x = Inr y \<Longrightarrow> fails (f y)) \<Longrightarrow> fails (chk (lift x) f)" "fails (lift (Inl e))"
  by (cases x; auto simp: fails_def run_chk run_ret lift_def)+

lemma reverse_storage_fails:
  assumes "a \<in> set (cmp_mappings m)" and "b \<in> set (cmp_mappings m)" and "cma_sourceClass a \<noteq> cma_sourceClass b"
  shows "fails (buildStorageClassRules target (Some m) nss FlowReverse)"
proof -
  have "{cma_sourceClass a, cma_sourceClass b} \<subseteq> set (map cma_targetClass (reverseClassMappings (cmp_mappings m)))"
    using assms(1,2) by (force simp: reverseClassMappings_def)
  from card_mono [OF _ this] assms(3) have "card (set (map cma_targetClass (reverseClassMappings (cmp_mappings m)))) > 1" by simp
  then have "1 < length (sort (remdups (map cma_targetClass (reverseClassMappings (cmp_mappings m)))))"
    by (simp add: length_remdups_card_conv)
  then have "\<exists>e. storageRules nss (reverseClassMappings (cmp_mappings m)) = Inl e" by (simp add: storageRules_def Let_def)
  moreover have "ms = reverseClassMappings (cmp_mappings m)" if "effectiveMappings f m FlowReverse = Inr ms" for f ms
    using that by (auto simp: effectiveMappings_def andThen_Inr_iff split: if_splits)
  ultimately have "fails (lift (storageRules nss ms))" if "effectiveMappings f m FlowReverse = Inr ms" for f ms
    using that fails_lift(2) by metis
  then show ?thesis unfolding buildStorageClassRules_def option.case by (intro fails_lift(1) fails_chk(1)) simp
qed

text \<open>Storage classes that are merged cannot be restored back. When the mapping of storage
  classes names two different source classes and the direction of the restore resolves to the
  reverse one, applying the policy always returns an error, so that an application whose two
  classes become one on the recovery site can fail over but not fail back.\<close>

theorem many_to_one_mapping_cannot_fail_back:
  assumes "EffectiveRestorePolicy i (ao_restorePolicyOverride ao) = Some p" and "isUnifiedDirectionResolverEnabled p"
    and "rp_storageClassMapping p = Some m" and "a \<in> set (cmp_mappings m)" and "b \<in> set (cmp_mappings m)"
    and "cma_sourceClass a \<noteq> cma_sourceClass b"
    and "resolveModifierFlow (ao_baselineSourceCluster ao) (ao_baselineTargetCluster ao)
      (is_primaryCluster (in_status i)) (is_secondaryCluster (in_status i)) = Inr (FlowReverse, src)"
  shows "\<exists>e. fst (run_state (ApplyInstanceRestorePolicy M spec i target ao) w) = Inl e"
proof -
  have "mappingDirection i p ao = Inr (FlowReverse, flowString FlowReverse, src)"
    using assms by (simp add: mappingDirection_def)
  then have "fails (ApplyInstanceRestorePolicy M spec i target ao)"
    unfolding ApplyInstanceRestorePolicy_def assms(1,3) Let_def option.case
    by (intro fails_lift(1)) (auto intro!: fails_chk(2) reverse_storage_fails [OF assms(4-6)])
  then show ?thesis by (simp add: fails_def)
qed

definition sMerging :: RestoreClassMappingPolicy where
  "sMerging = \<lparr>cmp_mappings = [\<lparr>cma_sourceClass = ''ssd'', cma_targetClass = ''std'', cma_namespaces = []\<rparr>,
      \<lparr>cma_sourceClass = ''hdd'', cma_targetClass = ''std'', cma_namespaces = []\<rparr>],
     cmp_unmatchedPolicy = ''Keep'', cmp_strict = False\<rparr>"

text \<open>The same policy is applied without an error before the failover.\<close>

theorem many_to_one_mapping_cannot_fail_back_witness:
  "(\<exists>x. fst (run_state (ApplyInstanceRestorePolicy (r_matchers sRec) emptyRestoreSpec (sPolicyInst (sPolicy [] (Some sMerging)) ''east'' ''west'') None sOptions)
       (sWorld [] (sInst FsmProtected ''east'' ''west'') ''east'')) = Inr x) \<and>
   (\<exists>e. fst (run_state (ApplyInstanceRestorePolicy (r_matchers sRec) emptyRestoreSpec (sPolicyInst (sPolicy [] (Some sMerging)) ''west'' ''east'') None sOptions)
       (sWorld [] (sInst FsmProtected ''east'' ''west'') ''east'')) = Inl e)" (is "?A \<and> ?B")
proof
  have "isl (fst (run_state (ApplyInstanceRestorePolicy (r_matchers sRec) emptyRestoreSpec (sPolicyInst (sPolicy [] (Some sMerging)) ''east'' ''west'') None sOptions)
       (sWorld [] (sInst FsmProtected ''east'' ''west'') ''east''))) = False" by code_simp
  then show ?A by (metis isl_def old.sum.exhaust)
  have a: "EffectiveRestorePolicy (sPolicyInst (sPolicy [] (Some sMerging)) ''west'' ''east'') (ao_restorePolicyOverride sOptions)
      = Some (sPolicy [] (Some sMerging))"
    "isUnifiedDirectionResolverEnabled (sPolicy [] (Some sMerging))" "rp_storageClassMapping (sPolicy [] (Some sMerging)) = Some sMerging"
    "cmp_mappings sMerging ! 0 \<in> set (cmp_mappings sMerging)" "cmp_mappings sMerging ! 1 \<in> set (cmp_mappings sMerging)"
    "cma_sourceClass (cmp_mappings sMerging ! 0) \<noteq> cma_sourceClass (cmp_mappings sMerging ! 1)"
    "resolveModifierFlow (ao_baselineSourceCluster sOptions) (ao_baselineTargetCluster sOptions)
       (is_primaryCluster (in_status (sPolicyInst (sPolicy [] (Some sMerging)) ''west'' ''east'')))
       (is_secondaryCluster (in_status (sPolicyInst (sPolicy [] (Some sMerging)) ''west'' ''east''))) = Inr (FlowReverse, ''runtimeStatus'')"
    by code_simp+
  show ?B by (rule many_to_one_mapping_cannot_fail_back [OF a])
qed

section \<open>What the webhook admits\<close>

lemma shadow_compiles:
  assumes "di_restorePolicy (in_spec i) = Some p" and "effectiveModifierRuleInput p = Inr input"
  shows "compileModifierRulesForInstance M (withRoles a b (i\<lparr>in_spec := (in_spec i)\<lparr>di_restorePolicy := Some (p\<lparr>rp_modifierRules := input\<rparr>)\<rparr>\<rparr>)) ao
    = compileModifierRulesForInstance M (withRoles a b i) ao"
proof -
  let ?q = "p\<lparr>rp_modifierRules := input\<rparr>"
  have "effectiveModifierRuleInput ?q = effectiveModifierRuleInput p \<and> hasNewDSLRules ?q = hasNewDSLRules p \<and>
      isUnifiedDirectionResolverEnabled ?q = isUnifiedDirectionResolverEnabled p"
    using assms(2) by (auto simp: effectiveModifierRuleInput_def hasNewDSLRules_def hasSnapshotBulkModifierActions_def rejected_def
        effectiveSnapshotBulkModifierActions_def effectiveBulkModifierActions_def isUnifiedDirectionResolverEnabled_def split: if_splits)
  with assms show ?thesis by (simp add: compileModifierRulesForInstance_def withRoles_def cong: if_cong)
qed

definition submissionOptions :: "DisasterConfig \<Rightarrow> string \<Rightarrow> ApplyInstanceRestorePolicyOptions" where
  "submissionOptions cfg target = (WithBaselineClusters (cfg_sourceCluster cfg) (cfg_targetCluster cfg) defaultApplyInstanceRestorePolicyOptions)
     \<lparr>ao_applyTarget := target\<rparr>"

definition compilesBothWays :: "matchers \<Rightarrow> DisasterInstance \<Rightarrow> DisasterConfig \<Rightarrow> string \<Rightarrow> bool" where
  "compilesBothWays M i cfg target \<longleftrightarrow>
     (let source = trimSpace (cfg_sourceCluster cfg); dest = trimSpace (cfg_targetCluster cfg) in
      \<not> isl (compileModifierRulesForInstance M (withRoles source dest i) (submissionOptions cfg target)) \<and>
      \<not> isl (compileModifierRulesForInstance M (withRoles dest source i) (submissionOptions cfg target)))"

lemma submission_compiles:
  assumes "rp_modifierRules q \<noteq> []" and "di_restorePolicy (in_spec j) = Some q" and "target \<in> set submissionValidationApplyTargets"
  shows "wp (ValidateModifierRulesAtSubmission M j (trimSpace (cfg_sourceCluster cfg)) (trimSpace (cfg_targetCluster cfg)))
    (\<lambda>r _. r = Inr () \<longrightarrow> compilesBothWays M j cfg target) w"
proof -
  let ?s = "trimSpace (cfg_sourceCluster cfg)"
  let ?t = "trimSpace (cfg_targetCluster cfg)"
  have "compilesBothWays M j cfg target" if "validateModifierCompileAtSubmission M j ?s ?t = Inr ()"
    using that assms(3)
    by (auto simp: validateModifierCompileAtSubmission_def compilesBothWays_def checkAll_Inr_iff andThen_Inr_iff submissionOptions_def
        WithBaselineClusters_def defaultApplyInstanceRestorePolicyOptions_def Let_def isl_def)
  then show ?thesis
    by (cases "validateModifierCompileAtSubmission M j ?s ?t")
       (auto simp: ValidateModifierRulesAtSubmission_def assms(1,2) lift_def Let_def rejected_def intro!: wp_any)
qed

lemma admission_compiles:
  assumes "di_restorePolicy (in_spec i) = Some p" and "effectiveModifierRuleInput p = Inr input" and "input \<noteq> []"
    and "target \<in> set submissionValidationApplyTargets"
  shows "wp (validateRestorePolicy M i) (\<lambda>r _. r = Inr () \<longrightarrow>
    (\<exists>cfg. lookup cfgKind w ([], trimSpace (di_config (in_spec i))) = Some cfg \<and> compilesBothWays M i cfg target)) w"
proof -
  let ?j = "i\<lparr>in_spec := (in_spec i)\<lparr>di_restorePolicy := Some (p\<lparr>rp_modifierRules := input\<rparr>)\<rparr>\<rparr>"
  have shadow: "compilesBothWays M ?j cfg target = compilesBothWays M i cfg target" for cfg
    by (simp add: compilesBothWays_def shadow_compiles [OF assms(1,2)])
  have sub: "wp (ValidateModifierRulesAtSubmission M ?j (trimSpace (cfg_sourceCluster cfg)) (trimSpace (cfg_targetCluster cfg)))
      (\<lambda>r _. r = Inr () \<longrightarrow> compilesBothWays M i cfg target) v" for cfg v
    using submission_compiles [of "p\<lparr>rp_modifierRules := input\<rparr>" ?j target M cfg v] assms(3,4) shadow by simp
  have src: "wp (validateSourceCluster M ?j (trimSpace (cfg_sourceCluster cfg)) (trimSpace (cfg_targetCluster cfg)))
      (\<lambda>r _. r = Inr () \<longrightarrow> compilesBothWays M i cfg target) v" for cfg v
    unfolding validateSourceCluster_def wp_chkWrap by (rule wp_any) (auto split: sum.split intro!: wp_any sub)
  show ?thesis
    apply (cases "ValidateRestoreResourceSelectionAtSubmission (rp_resourceSelection p)")
     apply (simp add: validateRestorePolicy_def assms lift_def Let_def)
    apply (simp add: validateRestorePolicy_def assms lift_def Let_def rejected_def)
    apply (intro impI wp_apiGet)
     apply simp
    apply (auto simp: lift_def rejected_def intro!: wp_mono [OF src])
    done
qed

text \<open>C32. Safety: rules that the webhook admits can be compiled whichever cluster serves. When a request to
  create or update an instance with modifier rules is allowed, the configuration the instance
  names exists, and its rules compile without an error for every use (data sync, resource
  sync, drill), both with the roles of the configuration and with the roles switched.\<close>

theorem admitted_rules_compile_both_ways:
  assumes "fst (run_state (handleInstanceAdmission M opn (Some i)) w) = Allowed msg" and "opn \<noteq> AdmitOther"
    and "di_restorePolicy (in_spec i) = Some p" and "effectiveModifierRuleInput p = Inr input" and "input \<noteq> []"
    and "target \<in> {''dataSync'', ''resourceSync'', ''drill''}"
  shows "\<exists>cfg. lookup cfgKind w ([], trimSpace (di_config (in_spec i))) = Some cfg \<and> compilesBothWays M i cfg target"
proof -
  from assms(1,2) have "fst (run_state (validateRestorePolicy M i) w) = Inr ()"
    by (auto simp: handleInstanceAdmission_def run_bind run_ret split: prod.splits sum.splits)
  moreover have "wp (validateRestorePolicy M i) (\<lambda>r _. r = Inr () \<longrightarrow>
    (\<exists>cfg. lookup cfgKind w ([], trimSpace (di_config (in_spec i))) = Some cfg \<and> compilesBothWays M i cfg target)) w"
    using assms(6) by (intro admission_compiles [OF assms(3-5)]) (auto simp: submissionValidationApplyTargets_def)
  ultimately show ?thesis by (cases "run_state (validateRestorePolicy M i) w") (auto dest: wp_run)
qed

theorem admitted_rules_compile_both_ways_witness:
  "\<exists>cfg. lookup cfgKind (sWorld [] (sInst FsmProtected ''east'' ''west'') ''east'') ([], ''cfg'') = Some cfg \<and>
     compilesBothWays (r_matchers sRec) (sPolicyInst (sPolicy [sPairRule ''Auto''] None) ''east'' ''west'') cfg ''drill''"
proof -
  have a: "fst (run_state (handleInstanceAdmission (r_matchers sRec) AdmitCreate (Some (sPolicyInst (sPolicy [sPairRule ''Auto''] None) ''east'' ''west'')))
      (sWorld [] (sInst FsmProtected ''east'' ''west'') ''east'')) = Allowed ''restore policy rules are valid''"
    "AdmitCreate \<noteq> AdmitOther"
    "di_restorePolicy (in_spec (sPolicyInst (sPolicy [sPairRule ''Auto''] None) ''east'' ''west'')) = Some (sPolicy [sPairRule ''Auto''] None)"
    "effectiveModifierRuleInput (sPolicy [sPairRule ''Auto''] None) = Inr [sPairRule ''Auto'']" "[sPairRule ''Auto''] \<noteq> []"
    "''drill'' \<in> {''dataSync'', ''resourceSync'', ''drill''}"
    "trimSpace (di_config (in_spec (sPolicyInst (sPolicy [sPairRule ''Auto''] None) ''east'' ''west''))) = ''cfg''"
    by code_simp+
  show ?thesis using admitted_rules_compile_both_ways [OF a(1-6)] a(7) by simp
qed

end
