(* ===== verification/GroupController.thy ===== *)
theory GroupController
  imports OpReconcile
begin

text \<open>
  The group controller (\<open>disastergroup/controller.go\<close>): it keeps the dependency labels of a
  group, marks its creation, and aggregates the state of its instances in the status.
  The library function that sets a condition is a parameter.
\<close>

section \<open>Summaries\<close>

record groupReconciler =
  gc_base :: reconciler
  gc_setCondition :: "Condition \<Rightarrow> Condition list \<Rightarrow> Condition list"

definition annotationGroupCreateTaskEmitted :: string where
  "annotationGroupCreateTaskEmitted = ''testudo.softcdata.com/group-create-task-emitted''"

definition groupReasonInstanceNotFound :: string where "groupReasonInstanceNotFound = ''InstanceNotFound''"
definition groupReasonInstanceFailed :: string where "groupReasonInstanceFailed = ''InstanceFailed''"

definition groupContainsInstance :: "DisasterGroup \<Rightarrow> string \<Rightarrow> bool" where
  "groupContainsInstance g n \<longleftrightarrow> list_ex (list_ex (\<lambda>x. x = n)) (gr_levels g)"

text \<open>The groups to reconcile when an instance changes; none when they cannot be listed.\<close>

definition mapInstanceToGroups :: "DisasterInstance \<Rightarrow> key list action" where
  "mapInstanceToGroups i = do {
     l \<leftarrow> apiList groupKind (m_ns (in_meta i));
     ret (case l of Inl _ \<Rightarrow> []
          | Inr gs \<Rightarrow> map (keyOf groupKind) (filter (\<lambda>g. groupContainsInstance g (m_name (in_meta i))) gs)) }"

definition summarizeInstanceError :: "DisasterInstance \<Rightarrow> string" where
  "summarizeInstanceError i =
     (let n = m_name (in_meta i); reason = is_reason (in_status i) in
      if reason = [] then n
      else if fsm i \<noteq> FsmNone then n @ ''['' @ fsmString (fsm i) @ '':'' @ reason @ '']''
      else n @ ''['' @ reason @ '']'')"

definition summarizeGroupError :: "string list \<Rightarrow> string list \<Rightarrow> string \<times> string" where
  "summarizeGroupError missing errs =
     (if missing \<noteq> [] then (groupReasonInstanceNotFound, ''instances not found: '' @ joinWith '','' (sort missing))
      else if errs \<noteq> [] then (groupReasonInstanceFailed, ''instances in error state: '' @ joinWith '','' (sort errs))
      else ([], []))"

definition classifyGroupStatusEvent :: "int \<Rightarrow> int \<Rightarrow> string \<Rightarrow> string" where
  "classifyGroupStatusEvent ready n reason = (if reason \<noteq> [] \<or> ready < n then ''GroupDegraded'' else ''GroupHealthy'')"

section \<open>Aggregation\<close>

record groupCount =
  gn_total :: int
  gn_ready :: int
  gn_missing :: "string list"
  gn_errors :: "string list"

definition inErrorState :: "DisasterInstance \<Rightarrow> bool" where
  "inErrorState i \<longleftrightarrow> fsm i = FsmFailed \<or> fsm i = FsmConfigError \<or> is_reason (in_status i) \<noteq> []"

definition countInstance :: "string \<Rightarrow> string \<Rightarrow> groupCount \<Rightarrow> groupCount result" where
  "countInstance ns n c0 =
     (let c = c0\<lparr>gn_total := gn_total c0 + 1\<rparr> in do {
        g \<leftarrow> apiGet instKind (ns, n);
        (case g of
           Inl e \<Rightarrow> if err_kind e \<noteq> NotFound then fail e else ok (c\<lparr>gn_missing := gn_missing c @ [n]\<rparr>)
         | Inr i \<Rightarrow> ok (c\<lparr>gn_ready := (if fsm i = FsmProtected then gn_ready c + 1 else gn_ready c),
                        gn_errors := (if inErrorState i then gn_errors c @ [summarizeInstanceError i] else gn_errors c)\<rparr>)) })"

definition emptyCount :: groupCount where
  "emptyCount = \<lparr>gn_total = 0, gn_ready = 0, gn_missing = [], gn_errors = []\<rparr>"

definition setGroupError :: "groupReconciler \<Rightarrow> string \<Rightarrow> string \<Rightarrow> DisasterGroupStatus \<Rightarrow> DisasterGroupStatus" where
  "setGroupError r reason msg s = s\<lparr>gs_reason := reason, gs_message := msg,
     gs_conditions := gc_setCondition r
       (if reason = [] then \<lparr>c_type = ''Error'', c_status = ConditionFalse, c_reason = ''Healthy'', c_message = ''all instances are available'',
          c_ltt = r_now (gc_base r), c_observedGeneration = 0\<rparr>
        else \<lparr>c_type = ''Error'', c_status = ConditionTrue, c_reason = reason, c_message = msg,
          c_ltt = r_now (gc_base r), c_observedGeneration = 0\<rparr>) (gs_conditions s)\<rparr>"

text \<open>The status to store, or nothing when it is up to date.\<close>

definition nextGroupStatus :: "groupReconciler \<Rightarrow> groupCount \<Rightarrow> DisasterGroupStatus \<Rightarrow> DisasterGroupStatus option" where
  "nextGroupStatus r c s =
     (let e = summarizeGroupError (gn_missing c) (gn_errors c);
          changed = (gs_reason s \<noteq> fst e \<or> gs_message s \<noteq> snd e);
          s1 = (if changed then setGroupError r (fst e) (snd e) s else s) in
      if gs_total s \<noteq> gn_total c \<or> gs_ready s \<noteq> gn_ready c \<or> changed
      then Some (s1\<lparr>gs_total := gn_total c, gs_ready := gn_ready c\<rparr>) else None)"

section \<open>Labels and the creation task\<close>

text \<open>An instance that cannot be read has no edge.\<close>

fun groupEdges :: "reconciler \<Rightarrow> string \<Rightarrow> string list \<Rightarrow> DependencyEdge list action" where
  "groupEdges r ns [] = ret []"
| "groupEdges r ns (n # names) =
     (if n = [] then groupEdges r ns names
      else do {
        g \<leftarrow> apiGet instKind (ns, n);
        es \<leftarrow> groupEdges r ns names;
        ret (case g of Inl _ \<Rightarrow> es | Inr i \<Rightarrow> edgeTo r (m_uid (in_meta i)) ''spec.levels'' # es) })"

definition groupSyncDependencyLabels :: "reconciler \<Rightarrow> DisasterGroup \<Rightarrow> (bool \<times> DisasterGroup) action" where
  "groupSyncDependencyLabels r g =
     (let tk = EnsureDependencyTokenLabel (r_sha256hex r) (m_labels (gr_meta g)) (m_uid (gr_meta g)) in do {
        es \<leftarrow> groupEdges r (m_ns (gr_meta g)) (concat (gr_levels g));
        (let rb = RebuildDependencyToLabels (fst tk) es in
         ret (snd (snd tk) \<or> snd rb, g\<lparr>gr_meta := (gr_meta g)\<lparr>m_labels := fst rb\<rparr>\<rparr>)) })"

text \<open>
  The patch goes to the group as it is stored, and what it returns is dropped: the group the
  reconcile works on keeps the resource version it was read with.
\<close>

definition ensureGroupCreateEvent :: "reconciler \<Rightarrow> DisasterGroup \<Rightarrow> unit action" where
  "ensureGroupCreateEvent r g =
     (if mget (m_ann (gr_meta g)) annotationGroupCreateTaskEmitted \<noteq> [] then ret ()
      else do {
        emit (m_name (gr_meta g)) ''ExecutionStarted'';
        emit (m_name (gr_meta g)) ''ExecutionFinished'';
        l \<leftarrow> apiGet groupKind (keyOf groupKind g);
        (case l of
           Inl _ \<Rightarrow> ret ()
         | Inr latest \<Rightarrow>
             if mget (m_ann (gr_meta latest)) annotationGroupCreateTaskEmitted \<noteq> [] then ret ()
             else do {
               _ \<leftarrow> apiPatchAnnotation groupKind (keyOf groupKind g) annotationGroupCreateTaskEmitted (r_fmtTimeNano r (r_now r));
               ret () }) })"

section \<open>The reconcile loop\<close>

definition aggregateGroup :: "groupReconciler \<Rightarrow> DisasterGroup \<Rightarrow> Result result" where
  "aggregateGroup r g =
     chk (forEach (countInstance (m_ns (gr_meta g))) (concat (gr_levels g)) emptyCount) (\<lambda>c.
     case nextGroupStatus r c (gr_status g) of
       None \<Rightarrow> ok done_result
     | Some s \<Rightarrow> chk (apiStatusUpdate groupKind (g\<lparr>gr_status := s\<rparr>)) (\<lambda>_. do {
         emit (m_name (gr_meta g)) (classifyGroupStatusEvent (gs_ready s) (gs_total s) (gs_reason s));
         ok done_result }))"

definition reconcileGroup :: "groupReconciler \<Rightarrow> DisasterGroup \<Rightarrow> Result result" where
  "reconcileGroup r g0 = do {
     x \<leftarrow> groupSyncDependencyLabels (gc_base r) g0;
     (if fst x then chk (apiUpdate groupKind (snd x)) (\<lambda>_. ok requeue_result)
      else do {
        ensureGroupCreateEvent (gc_base r) (snd x);
        aggregateGroup r (snd x) }) }"

definition groupReconcile :: "groupReconciler \<Rightarrow> key \<Rightarrow> Result result" where
  "groupReconcile r k = do {
     g \<leftarrow> apiGet groupKind k;
     (case g of
        Inl e \<Rightarrow> if err_kind e = NotFound then ok done_result else fail e
      | Inr g \<Rightarrow> reconcileGroup r g) }"

end
