(* ===== verification/LabelProps.thy ===== *)
theory LabelProps
  imports Labels
begin

text \<open>
  Properties of the dependency labels: every relation code becomes a valid label value, the
  edges written to the labels of an object are the edges read back from them, and writing
  the same edges again changes nothing.
\<close>

section \<open>Values of labels\<close>

definition labelChar :: "char \<Rightarrow> bool" where
  "labelChar c \<longleftrightarrow> isAlphaNum c \<or> c = CHR ''-'' \<or> c = CHR ''_'' \<or> c = CHR ''.''"

text \<open>What the Kubernetes API accepts as a non-empty value of a label.\<close>

definition validLabelValue :: "string \<Rightarrow> bool" where
  "validLabelValue v \<longleftrightarrow> v \<noteq> [] \<and> length v \<le> 63 \<and> list_all labelChar v \<and> isAlphaNum (hd v) \<and> isAlphaNum (last v)"

lemma labelRune_char: "labelChar (labelRune c)"
  by (simp add: labelRune_def labelChar_def)

lemma unknown_valid: "validLabelValue ''unknown''"
  by code_simp

lemma normalized_valid:
  assumes "n = trimFunc (\<lambda>r. \<not> isAlphaNum r) s" and "n \<noteq> []" and "length n \<le> 63" and "list_all labelChar s"
  shows "validLabelValue n"
  using assms trimFunc_hd [of "\<lambda>r. \<not> isAlphaNum r" s] trimFunc_last [of "\<lambda>r. \<not> isAlphaNum r" s] set_trimFunc [of "\<lambda>r. \<not> isAlphaNum r" s]
  by (auto simp: validLabelValue_def list_all_iff)

lemma normalized_code_valid: "validLabelValue (NormalizeRelationCode code)"
proof -
  let ?s = "map labelRune (filter (\<lambda>b. \<not> isContinuation b) (trimSpace code))"
  let ?n = "trimFunc (\<lambda>r. \<not> isAlphaNum r) ?s"
  have s: "list_all labelChar ?s" by (simp add: list_all_iff labelRune_char)
  have n: "list_all labelChar (take 63 ?n)"
    using s set_trimFunc [of "\<lambda>r. \<not> isAlphaNum r" ?s] by (auto simp: list_all_iff dest!: in_set_takeD)
  have l: "length (trimFunc (\<lambda>r. \<not> isAlphaNum r) (take 63 ?n)) \<le> 63"
    by (rule order_trans [OF length_trimFunc]) simp
  show ?thesis
    using normalized_valid [OF refl _ _ s] normalized_valid [OF refl _ l n] unknown_valid
    by (simp add: NormalizeRelationCode_def Let_def)
qed

text \<open>C35. Type: whatever the relation code, its normal form is a valid label value: one to 63
  characters, letters, digits, dashes, underscores and dots, with a letter or digit at both
  ends.\<close>

theorem relation_code_is_label_value: "validLabelValue (NormalizeRelationCode code)"
  by (rule normalized_code_valid)

section \<open>Reading the edges back\<close>

text \<open>Edges as the parser returns them: sorted by token, one edge per token, tokens and codes normal.\<close>

definition normalEdge :: "DependencyEdge \<Rightarrow> bool" where
  "normalEdge e \<longleftrightarrow> de_targetToken e \<noteq> [] \<and> normalizeToken (de_targetToken e) = de_targetToken e \<and>
     NormalizeRelationCode (de_relationCode e) = de_relationCode e"

definition canonicalEdges :: "DependencyEdge list \<Rightarrow> bool" where
  "canonicalEdges es \<longleftrightarrow> sorted (map de_targetToken es) \<and> distinct (map de_targetToken es) \<and> (\<forall>e \<in> set es. normalEdge e)"

definition edgeLabel :: "DependencyEdge \<Rightarrow> string \<times> string" where
  "edgeLabel e = (DependencyToLabelKey (de_targetToken e), de_relationCode e)"

lemma normalToken_hex: "normalizeToken t = t \<Longrightarrow> list_all isHexLower t"
proof -
  assume t: "normalizeToken t = t"
  have "list_all isHexLower (normalizeToken t)" by (auto simp: normalizeToken_def Let_def list_all_iff dest!: in_set_takeD)
  with t show ?thesis by simp
qed

lemma hex_plain: "isHexLower c \<Longrightarrow> lowerChar c = c \<and> \<not> isSpace c"
  by (auto simp: isHexLower_def lowerChar_def isSpace_def Let_def)

lemma normalToken_key:
  assumes "normalizeToken t = t" and "t \<noteq> []"
  shows "DependencyToLabelKey t = LabelDependencyToPrefix @ t"
proof -
  have h: "list_all isHexLower t" by (rule normalToken_hex [OF assms(1)])
  then have "toLower t = t" by (simp add: toLower_def list_all_iff hex_plain map_idI)
  moreover have "trimSpace t = t" using h assms(2) by (intro trimSpace_id) (simp_all add: list_all_iff hex_plain)
  ultimately show ?thesis by (simp add: DependencyToLabelKey_def)
qed

lemma parse_edgeLabel: "normalEdge e \<Longrightarrow> parseEdge (edgeLabel e) = Some e"
  by (simp add: parseEdge_def edgeLabel_def normalEdge_def Let_def) (simp add: normalToken_key)

lemma edgeLabel_key_inj:
  "normalEdge e \<Longrightarrow> normalEdge f \<Longrightarrow> fst (edgeLabel e) = fst (edgeLabel f) \<Longrightarrow> de_targetToken e = de_targetToken f"
  by (simp add: edgeLabel_def normalEdge_def normalToken_key)

lemma mput_fresh: "k \<notin> fst ` set m \<Longrightarrow> mput m k v = m @ [(k, v)]"
  by (induction m) (auto simp: mput_def)

lemma nextLabels_canonical:
  assumes "canonicalEdges es"
  shows "nextLabels es = map edgeLabel es"
proof -
  have "foldl (\<lambda>m e. let t = normalizeToken (de_targetToken e) in
      if t = [] then m else mput m (DependencyToLabelKey t) (NormalizeRelationCode (de_relationCode e))) (map edgeLabel fs) es = map edgeLabel (fs @ es)"
    if "\<forall>e \<in> set (fs @ es). normalEdge e" "distinct (map de_targetToken (fs @ es))" for fs
    using that
  proof (induction es arbitrary: fs)
    case (Cons e es)
    have "fst (edgeLabel e) \<notin> fst ` set (map edgeLabel fs)"
    proof
      assume "fst (edgeLabel e) \<in> fst ` set (map edgeLabel fs)"
      then obtain f where f: "f \<in> set fs" "fst (edgeLabel e) = fst (edgeLabel f)" by auto
      with edgeLabel_key_inj [of e f] Cons.prems(1) have "de_targetToken e = de_targetToken f" by simp
      with f(1) Cons.prems(2) show False by auto
    qed
    then have "mput (map edgeLabel fs) (fst (edgeLabel e)) (snd (edgeLabel e)) = map edgeLabel (fs @ [e])" by (simp add: mput_fresh)
    moreover have "normalEdge e" using Cons.prems(1) by simp
    ultimately have "(let t = normalizeToken (de_targetToken e) in if t = [] then map edgeLabel fs
        else mput (map edgeLabel fs) (DependencyToLabelKey t) (NormalizeRelationCode (de_relationCode e))) = map edgeLabel (fs @ [e])"
      unfolding edgeLabel_def fst_conv snd_conv by (simp add: normalEdge_def)
    with Cons.IH [of "fs @ [e]"] Cons.prems show ?case by simp
  qed simp
  from this [of "[]"] assms show ?thesis by (simp add: nextLabels_def canonicalEdges_def)
qed

lemma distinct_putAll: "distinct (map fst m) \<Longrightarrow> distinct (map fst (putAll m xs))"
  unfolding putAll_def by (induction xs arbitrary: m) (auto simp: distinct_mput)

lemma distinct_rebuild:
  assumes "distinct (map fst labels)"
  shows "distinct (map fst (fst (RebuildDependencyToLabels labels es)))"
proof -
  have "distinct (map fst (filter P labels))" for P using assms by (simp add: distinct_map_filter)
  with assms show ?thesis by (simp add: RebuildDependencyToLabels_def Let_def distinct_putAll)
qed

lemma distinct_parsed:
  assumes "distinct (map fst m)"
    and "\<And>x y e f. x \<in> set m \<Longrightarrow> y \<in> set m \<Longrightarrow> parseEdge x = Some e \<Longrightarrow> parseEdge y = Some f \<Longrightarrow> de_targetToken e = de_targetToken f \<Longrightarrow> fst x = fst y"
  shows "distinct (map de_targetToken (List.map_filter parseEdge m))"
  using assms
proof (induction m)
  case (Cons x m)
  have "de_targetToken e \<notin> de_targetToken ` set (List.map_filter parseEdge m)" if "parseEdge x = Some e" for e
  proof
    assume "de_targetToken e \<in> de_targetToken ` set (List.map_filter parseEdge m)"
    then obtain y f where y: "y \<in> set m" "parseEdge y = Some f" "de_targetToken e = de_targetToken f" by (auto simp: map_filter_def)
    from Cons.prems(2) [of x y e f] y that have "fst x = fst y" by simp
    with y(1) Cons.prems(1) show False by auto
  qed
  moreover have "distinct (map de_targetToken (List.map_filter parseEdge m))" 
  proof (rule Cons.IH)
    show "distinct (map fst m)" using Cons.prems(1) by simp
    fix y z e f assume "y \<in> set m" "z \<in> set m" "parseEdge y = Some e" "parseEdge z = Some f" "de_targetToken e = de_targetToken f"
    with Cons.prems(2) [of y z e f] show "fst y = fst z" by simp
  qed
  ultimately show ?case by (cases "parseEdge x") (simp_all add: map_filter_simps)
qed (simp add: map_filter_simps)

lemma parsed_iff:
  assumes "distinct (map fst labels)" and "canonicalEdges es" and "map_of (nextLabels written) = map_of (nextLabels es)"
  shows "(k, v) \<in> set (fst (RebuildDependencyToLabels labels written)) \<and> isDependencyTo k \<longleftrightarrow> (\<exists>e \<in> set es. edgeLabel e = (k, v))"
proof -
  have "(k, v) \<in> set (fst (RebuildDependencyToLabels labels written)) \<longleftrightarrow> map_of (fst (RebuildDependencyToLabels labels written)) k = Some v"
    by (metis distinct_rebuild [OF assms(1)] map_of_eq_Some_iff)
  moreover have "map_of (nextLabels es) k = Some v \<longleftrightarrow> (k, v) \<in> set (nextLabels es)"
    by (metis distinct_nextLabels map_of_eq_Some_iff)
  moreover have "isDependencyTo k" if "(k, v) \<in> set (nextLabels es)" using that by (rule nextLabels_keys)
  moreover have "(k, v) \<in> edgeLabel ` set es \<longleftrightarrow> (\<exists>e \<in> set es. edgeLabel e = (k, v))" by force
  ultimately show ?thesis by (auto simp: rebuild_lookup [OF assms(1)] assms(3) nextLabels_canonical [OF assms(2)])
qed

lemma read_canonical:
  assumes "distinct (map fst labels)" and "canonicalEdges es" and "map_of (nextLabels written) = map_of (nextLabels es)"
  shows "ParseDownstreamFromLabels (fst (RebuildDependencyToLabels labels written)) = es"
proof -
  let ?m = "fst (RebuildDependencyToLabels labels written)"
  let ?p = "List.map_filter parseEdge ?m"
  have dep: "\<exists>e' \<in> set es. edgeLabel e' = x" if "x \<in> set ?m" "parseEdge x = Some e" for x e
  proof -
    obtain k v where x: "x = (k, v)" by (cases x)
    from that(2) have "isDependencyTo k" by (auto simp: x parseEdge_def split: if_splits)
    with that(1) parsed_iff [OF assms, of k v] show ?thesis by (simp add: x)
  qed
  have normal: "normalEdge e" if "e \<in> set es" for e using that assms(2) by (simp add: canonicalEdges_def)
  have st: "set ?p = set es"
  proof
    show "set ?p \<subseteq> set es" using dep parse_edgeLabel normal by (auto simp: map_filter_def) (metis option.inject)
    show "set es \<subseteq> set ?p"
    proof
      fix e assume e: "e \<in> set es"
      obtain k v where kv: "edgeLabel e = (k, v)" by (cases "edgeLabel e")
      with e have "(k, v) \<in> set ?m" using parsed_iff [OF assms, of k v] by blast
      moreover have "parseEdge (k, v) = Some e" using parse_edgeLabel [OF normal [OF e]] kv by simp
      ultimately show "e \<in> set ?p" by (force simp: map_filter_def)
    qed
  qed
  have "distinct (map de_targetToken ?p)"
  proof (rule distinct_parsed [OF distinct_rebuild [OF assms(1)]])
    fix x y e f assume "x \<in> set ?m" "y \<in> set ?m" "parseEdge x = Some e" "parseEdge y = Some f" "de_targetToken e = de_targetToken f"
    with dep [of x e] dep [of y f] normal parse_edgeLabel show "fst x = fst y" by (metis edgeLabel_def fst_conv option.inject)
  qed
  let ?f = "\<lambda>e. (de_targetToken e, de_relationCode e)"
  have inj: "distinct (map ?f xs)" if "distinct (map de_targetToken xs)" for xs :: "DependencyEdge list"
    using that by (induction xs) auto
  have sr: "sorted (map ?f es)" if "sorted (map de_targetToken es)" "distinct (map de_targetToken es)" for es :: "DependencyEdge list"
    using that by (induction es) (auto simp: less_eq_prod_def order_le_less image_iff)
  have "sort_key ?f ?p = es"
  proof (rule map_sorted_distinct_set_unique [of ?f])
    show "inj_on ?f (set (sort_key ?f ?p) \<union> set es)" by (auto simp: inj_on_def)
    show "distinct (map ?f (sort_key ?f ?p))"
      using inj [OF \<open>distinct (map de_targetToken ?p)\<close>] by (simp add: distinct_map)
    show "sorted (map ?f es)" "distinct (map ?f es)" using assms(2) sr inj by (simp_all add: canonicalEdges_def)
  qed (simp_all add: st)
  then show ?thesis by (simp add: ParseDownstreamFromLabels_def)
qed

text \<open>What a list of edges says: tokens and codes in normal form, the last edge of a token counts, sorted by token.\<close>

definition writtenPairs :: "DependencyEdge list \<Rightarrow> (string \<times> string) list" where
  "writtenPairs es = rev (map (\<lambda>e. (normalizeToken (de_targetToken e), NormalizeRelationCode (de_relationCode e)))
     (filter (\<lambda>e. normalizeToken (de_targetToken e) \<noteq> []) es))"

definition writtenEdges :: "DependencyEdge list \<Rightarrow> DependencyEdge list" where
  "writtenEdges es = sort_key de_targetToken (map (\<lambda>(t, c). \<lparr>de_targetToken = t, de_relationCode = c\<rparr>) (AList.clearjunk (writtenPairs es)))"

lemma normalizeToken_hex: "list_all isHexLower (normalizeToken t)"
  by (auto simp: normalizeToken_def Let_def list_all_iff dest!: in_set_takeD)

lemma normalizeToken_idem: "normalizeToken (normalizeToken t) = normalizeToken t"
proof -
  let ?n = "normalizeToken t"
  have h: "\<forall>c \<in> set ?n. isHexLower c" using normalizeToken_hex by (simp add: list_all_iff)
  then have "toLower ?n = ?n" by (simp add: toLower_def hex_plain map_idI)
  moreover have "trimSpace ?n = ?n"
  proof (cases "?n = []")
    case False
    then show ?thesis using h by (intro trimSpace_id) (simp_all add: hex_plain)
  qed (simp add: trimSpace_def trimFunc_def)
  moreover have "filter isHexLower ?n = ?n" using h by (simp add: filter_id_conv)
  moreover have "length ?n \<le> 32" by (simp add: normalizeToken_def Let_def)
  ultimately show ?thesis by (simp add: normalizeToken_def [of ?n] Let_def)
qed

lemma alnum_plain: "isAlphaNum c \<Longrightarrow> \<not> isSpace c \<and> \<not> isContinuation c"
  by (auto simp: isAlphaNum_def isSpace_def isContinuation_def Let_def)

lemma valid_code_fixed:
  assumes "validLabelValue v"
  shows "NormalizeRelationCode v = v"
proof -
  have v: "v \<noteq> []" "length v \<le> 63" "\<forall>c \<in> set v. labelChar c" "isAlphaNum (hd v)" "isAlphaNum (last v)"
    using assms by (simp_all add: validLabelValue_def list_all_iff)
  have plain: "labelRune c = c \<and> \<not> isContinuation c" if "labelChar c" for c
    using that alnum_plain [of c] by (auto simp: labelChar_def labelRune_def isContinuation_def Let_def)
  have "trimSpace v = v" using v alnum_plain by (intro trimSpace_id) auto
  moreover have "filter (\<lambda>b. \<not> isContinuation b) v = v" using v(3) plain by (auto simp: filter_id_conv)
  moreover have "map labelRune v = v" using v(3) plain by (intro map_idI) auto
  moreover have "trimFunc (\<lambda>r. \<not> isAlphaNum r) v = v" using v by (intro trimFunc_id) auto
  ultimately show ?thesis using v(1,2) by (simp add: NormalizeRelationCode_def Let_def)
qed

lemma normalizeCode_idem: "NormalizeRelationCode (NormalizeRelationCode c) = NormalizeRelationCode c"
  by (rule valid_code_fixed [OF normalized_code_valid])

lemma writtenPairs_snoc: "writtenPairs (es @ [e]) =
    (if normalizeToken (de_targetToken e) = [] then [] else [(normalizeToken (de_targetToken e), NormalizeRelationCode (de_relationCode e))]) @ writtenPairs es"
  by (simp add: writtenPairs_def)

lemma writtenPairs_normal: "(t, c) \<in> set (writtenPairs es) \<Longrightarrow> t \<noteq> [] \<and> normalizeToken t = t \<and> NormalizeRelationCode c = c"
  by (auto simp: writtenPairs_def normalizeToken_idem normalizeCode_idem)

lemma map_of_nextLabels: "map_of (nextLabels es) k =
    (if \<exists>t c. (t, c) \<in> set (writtenPairs es) \<and> k = DependencyToLabelKey t then map_of (writtenPairs es) (drop (length LabelDependencyToPrefix) k) else None)"
proof (induction es rule: rev_induct)
  case Nil
  then show ?case by (simp add: nextLabels_def writtenPairs_def)
next
  case (snoc e es)
  let ?t = "normalizeToken (de_targetToken e)" and ?c = "NormalizeRelationCode (de_relationCode e)"
  have step: "nextLabels (es @ [e]) = (if ?t = [] then nextLabels es else mput (nextLabels es) (DependencyToLabelKey ?t) ?c)"
    by (simp add: nextLabels_def Let_def)
  show ?case
  proof (cases "?t = []")
    case True
    show ?thesis unfolding step writtenPairs_snoc if_P [OF True] append_Nil by (rule snoc)
  next
    case False
    have key: "DependencyToLabelKey t = LabelDependencyToPrefix @ t" if "t = ?t \<or> (t, c) \<in> set (writtenPairs es)" for t c
    proof -
      have "normalizeToken t = t \<and> t \<noteq> []" using that False writtenPairs_normal [of t c es] by (auto simp: normalizeToken_idem)
      then show ?thesis by (intro normalToken_key) simp_all
    qed
    have "drop (length LabelDependencyToPrefix) (DependencyToLabelKey ?t) = ?t" using key [of ?t] by simp
    moreover have "drop (length LabelDependencyToPrefix) k \<noteq> ?t" if "(t, c) \<in> set (writtenPairs es)" "k = DependencyToLabelKey t" "k \<noteq> DependencyToLabelKey ?t" for t c
      using that key [of t c] key [of ?t] by auto
    ultimately show ?thesis using False by (auto simp: step writtenPairs_snoc snoc)
  qed
qed

lemma written_member: "\<lparr>de_targetToken = t, de_relationCode = c\<rparr> \<in> set (writtenEdges es) \<longleftrightarrow> map_of (writtenPairs es) t = Some c"
proof -
  have "(t, c) \<in> set (AList.clearjunk (writtenPairs es)) \<longleftrightarrow> map_of (writtenPairs es) t = Some c"
    by (metis distinct_clearjunk map_of_clearjunk map_of_eq_Some_iff)
  then show ?thesis by (auto simp: writtenEdges_def)
qed

lemma written_edge: "e \<in> set (writtenEdges es) \<longleftrightarrow> map_of (writtenPairs es) (de_targetToken e) = Some (de_relationCode e)"
  by (cases e) (simp add: written_member)

lemma written_canonical: "canonicalEdges (writtenEdges es)"
proof -
  have tokens: "map de_targetToken (map (\<lambda>(t, c). \<lparr>de_targetToken = t, de_relationCode = c\<rparr>) xs) = map fst xs" for xs
    by (simp add: case_prod_beta comp_def)
  have "distinct (map de_targetToken (writtenEdges es))"
  proof -
    have sorted: "distinct (map f (sort_key g xs)) = distinct (map f xs)" for f g :: "DependencyEdge \<Rightarrow> string" and xs
      by (simp add: distinct_map)
    show ?thesis unfolding writtenEdges_def sorted tokens by (rule distinct_clearjunk)
  qed
  moreover have "normalEdge e" if "e \<in> set (writtenEdges es)" for e
  proof -
    have "map_of (writtenPairs es) (de_targetToken e) = Some (de_relationCode e)" using that by (simp add: written_edge)
    then show ?thesis using writtenPairs_normal [OF map_of_SomeD] by (auto simp: normalEdge_def)
  qed
  ultimately show ?thesis by (simp add: canonicalEdges_def writtenEdges_def)
qed

lemma written_labels: "map_of (nextLabels es) = map_of (nextLabels (writtenEdges es))"
proof
  fix k
  note c = written_canonical [of es]
  have inj: "distinct (map fst (map edgeLabel (writtenEdges es)))" using distinct_nextLabels [of "writtenEdges es"] nextLabels_canonical [OF c] by simp
  have edge: "(k, v) \<in> set (map edgeLabel (writtenEdges es)) \<longleftrightarrow> map_of (nextLabels es) k = Some v" for v
  proof
    assume "(k, v) \<in> set (map edgeLabel (writtenEdges es))"
    then obtain e where e: "e \<in> set (writtenEdges es)" "k = DependencyToLabelKey (de_targetToken e)" "v = de_relationCode e"
      by (auto simp: edgeLabel_def)
    have m: "map_of (writtenPairs es) (de_targetToken e) = Some v" using e by (simp add: written_edge)
    have "k = LabelDependencyToPrefix @ de_targetToken e" using e(2) writtenPairs_normal [OF map_of_SomeD [OF m]] normalToken_key by simp
    then have "drop (length LabelDependencyToPrefix) k = de_targetToken e" by simp
    with m map_of_SomeD [OF m] e(2) show "map_of (nextLabels es) k = Some v" unfolding map_of_nextLabels by (metis (no_types))
  next
    assume v: "map_of (nextLabels es) k = Some v"
    then obtain t c where t: "(t, c) \<in> set (writtenPairs es)" "k = DependencyToLabelKey t"
      "map_of (writtenPairs es) (drop (length LabelDependencyToPrefix) k) = Some v" by (auto simp: map_of_nextLabels split: if_splits)
    have "k = LabelDependencyToPrefix @ t" using t(2) writtenPairs_normal [OF t(1)] normalToken_key by simp
    then have "\<lparr>de_targetToken = t, de_relationCode = v\<rparr> \<in> set (writtenEdges es)" using t(3) by (simp add: written_member)
    then show "(k, v) \<in> set (map edgeLabel (writtenEdges es))" using t(2) by (force simp: edgeLabel_def)
  qed
  show "map_of (nextLabels es) k = map_of (nextLabels (writtenEdges es)) k"
    unfolding nextLabels_canonical [OF c]
    using edge map_of_eq_Some_iff [OF inj] by (metis not_None_eq)
qed

text \<open>C34. Round trip: the edges written to the labels of an object, whatever dependency labels it had before, are read back
  as what they say: in normal form and sorted by token, with the last code of a token that is given twice and without the edges
  whose token has no hexadecimal digit. Edges that are in this form already are read back as they are.\<close>

theorem dependency_labels_roundtrip:
  assumes "distinct (map fst labels)"
  shows "ParseDownstreamFromLabels (fst (RebuildDependencyToLabels labels es)) = writtenEdges es \<and> (canonicalEdges es \<longrightarrow> writtenEdges es = es)"
proof -
  have "writtenEdges es = es" if "canonicalEdges es"
    using read_canonical [OF assms that refl] read_canonical [OF assms written_canonical written_labels] by simp
  with read_canonical [OF assms written_canonical written_labels] show ?thesis by blast
qed

theorem dependency_labels_roundtrip_witness:
  "ParseDownstreamFromLabels (fst (RebuildDependencyToLabels [(LabelDependencyToPrefix @ ''0'', ''old''), (''app'', ''web'')]
     [\<lparr>de_targetToken = ''ff'', de_relationCode = '' spec/config ''\<rparr>, \<lparr>de_targetToken = ''0A'', de_relationCode = ''spec.config''\<rparr>, \<lparr>de_targetToken = ''ff'', de_relationCode = []\<rparr>])) =
   [\<lparr>de_targetToken = ''0a'', de_relationCode = ''spec.config''\<rparr>, \<lparr>de_targetToken = ''ff'', de_relationCode = ''unknown''\<rparr>]"
proof -
  let ?es = "[\<lparr>de_targetToken = ''ff'', de_relationCode = '' spec/config ''\<rparr>, \<lparr>de_targetToken = ''0A'', de_relationCode = ''spec.config''\<rparr>, \<lparr>de_targetToken = ''ff'', de_relationCode = []\<rparr>]"
  have "distinct (map fst [(LabelDependencyToPrefix @ ''0'', ''old''), (''app'', ''web'')])" by code_simp
  moreover have "writtenEdges ?es = [\<lparr>de_targetToken = ''0a'', de_relationCode = ''spec.config''\<rparr>, \<lparr>de_targetToken = ''ff'', de_relationCode = ''unknown''\<rparr>]" by code_simp
  ultimately show ?thesis using dependency_labels_roundtrip [of "[(LabelDependencyToPrefix @ ''0'', ''old''), (''app'', ''web'')]" ?es] by simp
qed

section \<open>Writing the same edges again\<close>

lemma rebuild_settled:
  assumes "distinct (map fst labels)"
  shows "RebuildDependencyToLabels (fst (RebuildDependencyToLabels labels es)) es = (fst (RebuildDependencyToLabels labels es), False)"
proof -
  let ?m = "fst (RebuildDependencyToLabels labels es)"
  have "\<not> snd (RebuildDependencyToLabels ?m es)"
    by (simp add: rebuild_changed_iff distinct_rebuild assms rebuild_lookup)
  then show ?thesis by (auto simp: RebuildDependencyToLabels_def Let_def split: if_splits)
qed

end
