(* ===== verification/GroupProps.thy ===== *)
theory GroupProps
  imports GroupController LabelProps Runs Samples
begin

text \<open>
  Properties of the group controller: the status it stores is the aggregate of the
  instances of the group, and repeated reconciles settle.
\<close>

section \<open>The aggregate\<close>

definition isReady :: "DisasterInstance option \<Rightarrow> bool" where
  "isReady x \<longleftrightarrow> (case x of None \<Rightarrow> False | Some i \<Rightarrow> fsm i = FsmProtected)"

definition errorOf :: "DisasterInstance option \<Rightarrow> string list" where
  "errorOf x = (case x of None \<Rightarrow> [] | Some i \<Rightarrow> if inErrorState i then [summarizeInstanceError i] else [])"

text \<open>What the named instances of a namespace add up to.\<close>

definition health :: "world \<Rightarrow> string \<Rightarrow> string list \<Rightarrow> groupCount" where
  "health w ns names = (let f = (\<lambda>n. lookup instKind w (ns, n)) in
     \<lparr>gn_total = int (length names), gn_ready = int (length (filter (\<lambda>n. isReady (f n)) names)),
      gn_missing = filter (\<lambda>n. f n = None) names, gn_errors = concat (map (\<lambda>n. errorOf (f n)) names)\<rparr>)"

definition addCount :: "groupCount \<Rightarrow> groupCount \<Rightarrow> groupCount" where
  "addCount a b = \<lparr>gn_total = gn_total a + gn_total b, gn_ready = gn_ready a + gn_ready b,
     gn_missing = gn_missing a @ gn_missing b, gn_errors = gn_errors a @ gn_errors b\<rparr>"

lemma addCount_simps [simp]:
  "addCount c (health w ns []) = c"
  "addCount (addCount a b) c = addCount a (addCount b c)"
  "addCount emptyCount c = c"
  by (simp_all add: addCount_def health_def emptyCount_def)

lemma health_Cons: "health w ns (n # names) = addCount (health w ns [n]) (health w ns names)"
  by (simp add: health_def addCount_def Let_def)

lemma health_faults [simp]: "health (w\<lparr>w_faults := fs\<rparr>) = health w"
  by (simp add: health_def fun_eq_iff)

lemma health_events [simp]: "health (w\<lparr>w_events := es\<rparr>) = health w"
  by (simp add: health_def fun_eq_iff)

lemma wp_countInstance:
  "wp (countInstance ns n c) (\<lambda>r w'. (\<exists>fs. w' = w\<lparr>w_faults := fs\<rparr>) \<and> (\<forall>c'. r = Inr c' \<longrightarrow> c' = addCount c (health w ns [n]))) w"
  unfolding countInstance_def Let_def wp_bind
  by (rule wp_apiGet_notFound) (auto simp: addCount_def health_def isReady_def errorOf_def)

lemma wp_countAll:
  "wp (forEach (countInstance ns) names c)
     (\<lambda>r w'. (\<exists>fs. w' = w\<lparr>w_faults := fs\<rparr>) \<and> (\<forall>c'. r = Inr c' \<longrightarrow> c' = addCount c (health w ns names))) w"
proof (induction names arbitrary: c w)
  case (Cons n names)
  let ?Q = "\<lambda>r w'. (\<exists>fs. w' = w\<lparr>w_faults := fs\<rparr>) \<and> (\<forall>c'. r = Inr c' \<longrightarrow> c' = addCount c (health w ns (n # names)))"
  have "wp (forEach (countInstance ns) names (addCount c (health w ns [n]))) ?Q (w\<lparr>w_faults := fs\<rparr>)" for fs
    using Cons.IH [of "addCount c (health w ns [n])" "w\<lparr>w_faults := fs\<rparr>"]
    by (elim wp_mono) (auto simp: health_Cons [of w ns n names])
  then show ?case
    unfolding forEach.simps wp_chk by (intro wp_mono [OF wp_countInstance]) (auto split: sum.splits)
next
  case Nil
  have "\<exists>fs. w = w\<lparr>w_faults := fs\<rparr>" by (intro exI [of _ "w_faults w"]) simp
  then show ?case by simp
qed

definition contentOf :: "world \<Rightarrow> key \<Rightarrow> (string list list \<times> DisasterGroupStatus) option" where
  "contentOf w k = map_option (\<lambda>g. (gr_levels g, gr_status g)) (lookup groupKind w k)"

definition sameHealth :: "world \<Rightarrow> world \<Rightarrow> bool" where
  "sameHealth w w' \<longleftrightarrow> health w' = health w \<and> contentOf w' = contentOf w"

lemma contentOf_simps [simp]:
  "contentOf (w\<lparr>w_faults := fs\<rparr>) = contentOf w" "contentOf (w\<lparr>w_events := es\<rparr>) = contentOf w"
  by (simp_all add: contentOf_def fun_eq_iff)

lemma wp_ret_fun: "wp (ret x) Q = Q x"
  by (simp add: fun_eq_iff)

lemma wp_groupEdges: "wp (groupEdges r ns names) (\<lambda>_ w'. \<exists>fs. w' = w\<lparr>w_faults := fs\<rparr>) w"
proof (induction names arbitrary: w)
  case (Cons n names)
  have "wp (groupEdges r ns names) (\<lambda>_ w'. \<exists>fs. w' = w\<lparr>w_faults := fs\<rparr>) (w\<lparr>w_faults := fs'\<rparr>)" for fs'
    using Cons.IH [of "w\<lparr>w_faults := fs'\<rparr>"] by (elim wp_mono) auto
  then show ?case using Cons.IH [of w] by (auto simp: wp_ret_fun intro!: wp_apiGet)
next
  case Nil
  have "\<exists>fs. w = w\<lparr>w_faults := fs\<rparr>" by (intro exI [of _ "w_faults w"]) simp
  then show ?case by simp
qed

lemma sameHealth_faults [simp]: "sameHealth w (w'\<lparr>w_faults := fs\<rparr>) = sameHealth w w'"
  by (simp add: sameHealth_def)

lemma sameHealth_events [simp]: "sameHealth w (w'\<lparr>w_events := es\<rparr>) = sameHealth w w'"
  by (simp add: sameHealth_def)

lemma sameHealth_replace:
  assumes "sameHealth w w'" and "lookup groupKind w' (keyOf groupKind x) = Some s" and "gr_levels x = gr_levels s" and "gr_status x = gr_status s"
  shows "sameHealth w (replaceObj groupKind x w')"
proof -
  have "health (replaceObj groupKind x w') = health w'" by (simp add: health_def replaceObj_def lookup_def fun_eq_iff)
  moreover have "contentOf (replaceObj groupKind x w') k = contentOf w' k" for k
    using assms(2-4) by (auto simp: contentOf_def groupK.lookup_replaceObj)
  ultimately show ?thesis using assms(1) by (simp add: sameHealth_def fun_eq_iff)
qed

lemma wp_createEvent: "sameHealth w v \<Longrightarrow> wp (ensureGroupCreateEvent r g) (\<lambda>_. sameHealth w) v"
proof -
  assume v: "sameHealth w v"
  have "wp (storePatchAnnotation groupKind k a x) (\<lambda>_. sameHealth w) v" if "sameHealth w v" for k a x v
  proof (cases "lookup groupKind v k")
    case (Some s)
    let ?s = "s\<lparr>gr_meta := (gr_meta s)\<lparr>m_ann := mput (m_ann (gr_meta s)) a x, m_rv := Suc (m_rv (gr_meta s))\<rparr>\<rparr>"
    have "keyOf groupKind ?s = keyOf groupKind s" by (simp add: keyOf_def metaKey_def)
    with Some sameHealth_replace [OF that, of ?s s] groupK.lookup_self [OF Some] show ?thesis
      by (simp add: storePatchAnnotation_def wp_def Let_def groupKind_def)
  qed (use that in \<open>simp add: storePatchAnnotation_def wp_def\<close>)
  then have patch: "wp (apiPatchAnnotation groupKind k a x) (\<lambda>_. sameHealth w) v" if "sameHealth w v" for k a x v
    unfolding apiPatchAnnotation_def by (intro wp_faulty) (use that in simp_all)
  show ?thesis unfolding ensureGroupCreateEvent_def using v by (auto simp: wp_ret_fun intro!: wp_apiGet patch)
qed

definition healthStatus :: "groupCount \<Rightarrow> int \<times> int \<times> string \<times> string" where
  "healthStatus c = (gn_total c, gn_ready c, summarizeGroupError (gn_missing c) (gn_errors c))"

definition statusFields :: "DisasterGroupStatus \<Rightarrow> int \<times> int \<times> string \<times> string" where
  "statusFields s = (gs_total s, gs_ready s, gs_reason s, gs_message s)"

lemma nextGroupStatus_fields:
  "nextGroupStatus r c s = None \<Longrightarrow> statusFields s = healthStatus c"
  "nextGroupStatus r c s = Some s' \<Longrightarrow> statusFields s' = healthStatus c"
  by (auto simp: nextGroupStatus_def statusFields_def healthStatus_def setGroupError_def Let_def prod_eq_iff split: if_splits)

definition statusCorrect :: "world \<Rightarrow> key \<Rightarrow> string list list \<Rightarrow> world \<Rightarrow> bool" where
  "statusCorrect w k ls w' \<longleftrightarrow> (\<exists>g. lookup groupKind w' k = Some g \<and>
     statusFields (gr_status g) = healthStatus (health w (fst k) (concat ls)))"

lemma statusCorrect_events [simp]: "statusCorrect w k ls (w'\<lparr>w_events := es\<rparr>) = statusCorrect w k ls w'"
  by (simp add: statusCorrect_def)

lemma wp_aggregate:
  assumes "sameHealth w v" and "lookup groupKind w k = Some g0" and "gr_levels g = gr_levels g0" and "gr_status g = gr_status g0"
    and "keyOf groupKind g = k"
  shows "wp (aggregateGroup r g) (\<lambda>x w'. x = Inr done_result \<longrightarrow> statusCorrect w k (gr_levels g) w') v"
proof -
  let ?c = "health w (m_ns (gr_meta g)) (concat (gr_levels g))"
  have k: "fst k = m_ns (gr_meta g)" using assms(5) by (auto simp: keyOf_def metaKey_def)
  have "contentOf v k = Some (gr_levels g, gr_status g)" using assms(1-4) by (simp add: sameHealth_def) (simp add: contentOf_def)
  then have stored: "\<exists>s. lookup groupKind (v\<lparr>w_faults := fs\<rparr>) k = Some s \<and> gr_levels s = gr_levels g \<and> gr_status s = gr_status g" for fs
    by (auto simp: contentOf_def)
  have tail: "wp (case nextGroupStatus r ?c (gr_status g) of None \<Rightarrow> ok done_result
      | Some s \<Rightarrow> chk (apiStatusUpdate groupKind (g\<lparr>gr_status := s\<rparr>)) (\<lambda>_. do {
         emit (m_name (gr_meta g)) (classifyGroupStatusEvent (gs_ready s) (gs_total s) (gs_reason s)); ok done_result }))
     (\<lambda>x w'. x = Inr done_result \<longrightarrow> statusCorrect w k (gr_levels g) w') (v\<lparr>w_faults := fs\<rparr>)" for fs
  proof (cases "nextGroupStatus r ?c (gr_status g)")
    case None
    with stored [of fs] nextGroupStatus_fields(1) [OF None] k show ?thesis by (auto simp: statusCorrect_def)
  next
    case (Some s)
    have merge: "k_mergeStatus groupKind s0 x = s0\<lparr>gr_status := gr_status x\<rparr>" for s0 x by (simp add: groupKind_def)
    have "keyOf groupKind (g\<lparr>gr_status := s\<rparr>) = k" using assms(5) by (simp add: keyOf_def)
    moreover have "statusCorrect w k (gr_levels g) (replaceObj groupKind (bumpRv groupKind s0 (k_mergeStatus groupKind s0 (g\<lparr>gr_status := s\<rparr>))) (v\<lparr>w_faults := fs'\<rparr>))"
      if "lookup groupKind v k = Some s0" for fs' s0
    proof -
      have "gr_levels s0 = gr_levels g" using stored [of fs] that by auto
      moreover have "gr_levels (bumpRv groupKind s0 x) = gr_levels x" "gr_status (bumpRv groupKind s0 x) = gr_status x" for x
        by (simp_all add: bumpRv_def groupKind_def)
      moreover have "keyOf groupKind s0 = k" using that by (rule groupK.lookup_key)
      ultimately show ?thesis using that nextGroupStatus_fields(2) [OF Some] k
        by (auto simp: statusCorrect_def groupK.lookup_replaceObj merge)
    qed
    ultimately show ?thesis unfolding Some option.case wp_chk
      by (intro wp_apiStatusUpdate) (simp_all add: Let_def)
  qed
  have "wp (forEach (countInstance (m_ns (gr_meta g))) (concat (gr_levels g)) emptyCount)
     (\<lambda>x w'. (\<exists>fs. w' = v\<lparr>w_faults := fs\<rparr>) \<and> (\<forall>c. x = Inr c \<longrightarrow> c = ?c)) v"
    using wp_countAll [of "m_ns (gr_meta g)" "concat (gr_levels g)" emptyCount v] assms(1) by (simp add: sameHealth_def)
  then show ?thesis unfolding aggregateGroup_def wp_chk
  proof (rule wp_mono)
    fix x w' assume a: "(\<exists>fs. w' = v\<lparr>w_faults := fs\<rparr>) \<and> (\<forall>c. x = Inr c \<longrightarrow> c = ?c)"
    then obtain fs where "w' = v\<lparr>w_faults := fs\<rparr>" by blast
    with a tail [of fs] show "case x of Inl e \<Rightarrow> Inl e = Inr done_result \<longrightarrow> statusCorrect w k (gr_levels g) w'
      | Inr c \<Rightarrow> wp (case nextGroupStatus r c (gr_status g) of None \<Rightarrow> ok done_result
          | Some s \<Rightarrow> chk (apiStatusUpdate groupKind (g\<lparr>gr_status := s\<rparr>)) (\<lambda>_. do {
             emit (m_name (gr_meta g)) (classifyGroupStatusEvent (gs_ready s) (gs_total s) (gs_reason s)); ok done_result }))
         (\<lambda>x w'. x = Inr done_result \<longrightarrow> statusCorrect w k (gr_levels g) w') w'"
      by (cases x) simp_all
  qed
qed

lemma wp_groupSync:
  "wp (groupSyncDependencyLabels r g) (\<lambda>x w'. (\<exists>fs. w' = w\<lparr>w_faults := fs\<rparr>) \<and> gr_levels (snd x) = gr_levels g \<and>
     gr_status (snd x) = gr_status g \<and> keyOf groupKind (snd x) = keyOf groupKind g) w"
  unfolding groupSyncDependencyLabels_def Let_def wp_bind
  by (rule wp_mono [OF wp_groupEdges]) (auto simp: keyOf_def metaKey_def)

text \<open>Functional: the status of a group is the aggregate of its instances. Whatever calls of the API
  fail, a reconcile that ends well and asks for no other one leaves, in the stored status of
  the group, the number of its instances, how many of them are Protected, and the summary of
  those that are missing or else of those in an error state.\<close>

theorem group_status_exact:
  assumes "fst (run_state (groupReconcile r k) w) = Inr done_result" and "lookup groupKind w k = Some g"
  shows "\<exists>g'. lookup groupKind (snd (run_state (groupReconcile r k) w)) k = Some g' \<and>
    statusFields (gr_status g') = healthStatus (health w (fst k) (concat (gr_levels g)))"
proof -
  let ?Q = "\<lambda>x w'. x = Inr done_result \<longrightarrow> statusCorrect w k (gr_levels g) w'"
  have agg: "wp (aggregateGroup r g') ?Q v"
    if "sameHealth w v" "gr_levels g' = gr_levels g" "gr_status g' = gr_status g" "keyOf groupKind g' = k" for g' v
    using wp_aggregate [OF that(1) assms(2) that(2-4)] that(2) by simp
  have same: "sameHealth w w" by (simp add: sameHealth_def)
  have ev: "wp (ensureGroupCreateEvent (gc_base r) g') (\<lambda>_. wp (aggregateGroup r g') ?Q) (w\<lparr>w_faults := fs\<rparr>)"
    if "gr_levels g' = gr_levels g" "gr_status g' = gr_status g" "keyOf groupKind g' = k" for g' fs
    by (rule wp_mono [OF wp_createEvent [of w]]) (use that same agg in auto)
  have upd: "wp (chk (apiUpdate groupKind g') (\<lambda>_. ok requeue_result)) ?Q v" for g' v
    unfolding wp_chk by (rule wp_any) (auto simp: done_result_def requeue_result_def split: sum.splits)
  have key: "keyOf groupKind g = k" using assms(2) by (rule groupK.lookup_key)
  have "wp (reconcileGroup r g) ?Q (w\<lparr>w_faults := fs\<rparr>)" for fs
    unfolding reconcileGroup_def wp_bind
  proof (rule wp_mono [OF wp_groupSync], elim conjE exE)
    fix x :: "bool \<times> DisasterGroup" and w' fs'
    assume x: "gr_levels (snd x) = gr_levels g" "gr_status (snd x) = gr_status g" "keyOf groupKind (snd x) = keyOf groupKind g"
      "w' = w\<lparr>w_faults := fs, w_faults := fs'\<rparr>"
    show "wp (if fst x then chk (apiUpdate groupKind (snd x)) (\<lambda>_. ok requeue_result)
        else do { ensureGroupCreateEvent (gc_base r) (snd x); aggregateGroup r (snd x) }) ?Q w'"
      unfolding wp_if wp_bind using upd ev [OF x(1-2) x(3) [unfolded key]] x(4) by simp
  qed
  then have "wp (groupReconcile r k) ?Q w"
    unfolding groupReconcile_def wp_bind using assms(2) by (intro wp_apiGet_notFound) auto
  with assms(1) show ?thesis by (cases "run_state (groupReconcile r k) w") (auto simp: statusCorrect_def dest: wp_run)
qed

text \<open>A group of two levels with a protected instance and one that does not exist.\<close>

definition sScaledGroup :: DisasterGroup where
  "sScaledGroup = \<lparr>gr_meta = sMeta ''ns'' ''grp'', gr_levels = [[''app''], [''db'']], gr_failPolicy = ''Stop'',
     gr_status = \<lparr>gs_total = 0, gs_ready = 0, gs_reason = [], gs_message = [], gs_conditions = []\<rparr>\<rparr>"

definition sGroupRec :: groupReconciler where
  "sGroupRec = \<lparr>gc_base = sRec, gc_setCondition = (\<lambda>c cs. c # filter (\<lambda>x. c_type x \<noteq> c_type c) cs)\<rparr>"

definition sGroupWorld :: world where
  "sGroupWorld = (sWorld [] (sInst FsmProtected ''east'' ''west'') ''east'')\<lparr>w_groups := [sScaledGroup]\<rparr>"

definition groupStep :: "groupReconciler \<Rightarrow> key \<Rightarrow> world \<Rightarrow> world" where
  "groupStep r k w = snd (run_state (groupReconcile r k) w)"

theorem group_status_exact_witness:
  "\<exists>g'. lookup groupKind (groupStep sGroupRec (''ns'', ''grp'') ((groupStep sGroupRec (''ns'', ''grp'') ^^ 2) sGroupWorld)) (''ns'', ''grp'') = Some g' \<and>
    statusFields (gr_status g') = (2, 1, ''InstanceNotFound'', ''instances not found: db'')"
proof -
  let ?w = "(groupStep sGroupRec (''ns'', ''grp'') ^^ 2) sGroupWorld"
  have fin: "fst (run_state (groupReconcile sGroupRec (''ns'', ''grp'')) ?w) = Inr done_result" by code_simp
  have "map_option gr_levels (lookup groupKind ?w (''ns'', ''grp'')) = Some [[''app''], [''db'']]" by code_simp
  then obtain g where g: "lookup groupKind ?w (''ns'', ''grp'') = Some g" "gr_levels g = [[''app''], [''db'']]" by auto
  have "\<exists>g'. lookup groupKind (groupStep sGroupRec (''ns'', ''grp'') ?w) (''ns'', ''grp'') = Some g' \<and>
    statusFields (gr_status g') = healthStatus (health ?w (fst (''ns'', ''grp'')) (concat (gr_levels g)))"
    using group_status_exact [OF fin g(1)] by (simp only: groupStep_def)
  moreover have "healthStatus (health ?w (fst (''ns'', ''grp'')) (concat [[''app''], [''db'']])) = (2, 1, ''InstanceNotFound'', ''instances not found: db'')"
    by code_simp
  ultimately show ?thesis by (simp only: g(2))
qed

section \<open>Settling\<close>

definition edgesIn :: "reconciler \<Rightarrow> world \<Rightarrow> string \<Rightarrow> string list \<Rightarrow> DependencyEdge list" where
  "edgesIn r w ns names = concat (map (\<lambda>n. if n = [] then [] else
     case lookup instKind w (ns, n) of None \<Rightarrow> [] | Some i \<Rightarrow> [edgeTo r (m_uid (in_meta i)) ''spec.levels'']) names)"

definition labelUpdate :: "reconciler \<Rightarrow> world \<Rightarrow> DisasterGroup \<Rightarrow> smap \<times> bool" where
  "labelUpdate r w g =
     (let tk = EnsureDependencyTokenLabel (r_sha256hex r) (m_labels (gr_meta g)) (m_uid (gr_meta g));
          rb = RebuildDependencyToLabels (fst tk) (edgesIn r w (m_ns (gr_meta g)) (concat (gr_levels g))) in
      (fst rb, snd (snd tk) \<or> snd rb))"

lemma run_groupEdges: "w_faults w = [] \<Longrightarrow> run_state (groupEdges r ns names) w = (edgesIn r w ns names, w)"
  by (induction names) (auto simp: edgesIn_def run_ret run_bind run_apiGet split: option.splits)

lemma run_groupSync:
  "w_faults w = [] \<Longrightarrow> run_state (groupSyncDependencyLabels r g) w =
     ((snd (labelUpdate r w g), g\<lparr>gr_meta := (gr_meta g)\<lparr>m_labels := fst (labelUpdate r w g)\<rparr>\<rparr>), w)"
  by (simp add: groupSyncDependencyLabels_def labelUpdate_def run_bind run_groupEdges run_ret Let_def)

lemma run_countAll:
  assumes "w_faults w = []"
  shows "run_state (forEach (countInstance ns) names c) w = (Inr (addCount c (health w ns names)), w)"
proof (induction names arbitrary: c)
  case (Cons n names)
  have "run_state (countInstance ns n c) w = (Inr (addCount c (health w ns [n])), w)"
    using assms by (auto simp: countInstance_def Let_def run_bind run_apiGet run_ret addCount_def health_def isReady_def errorOf_def split: option.splits)
  with Cons show ?case by (simp add: run_chk health_Cons [of w ns n names])
qed (simp add: run_ret)

text \<open>What is outstanding: the labels, the mark of the creation, the status.\<close>

definition staleStatus :: "groupReconciler \<Rightarrow> world \<Rightarrow> DisasterGroup \<Rightarrow> DisasterGroupStatus option" where
  "staleStatus r w g = nextGroupStatus r (health w (m_ns (gr_meta g)) (concat (gr_levels g))) (gr_status g)"

definition unmarked :: "DisasterGroup \<Rightarrow> bool" where
  "unmarked g \<longleftrightarrow> mget (m_ann (gr_meta g)) annotationGroupCreateTaskEmitted = []"

definition groupDebt :: "groupReconciler \<Rightarrow> world \<Rightarrow> DisasterGroup \<Rightarrow> nat" where
  "groupDebt r w g = of_bool (snd (labelUpdate (gc_base r) w g)) + of_bool (unmarked g) + of_bool (staleStatus r w g \<noteq> None)"

definition groupAt :: "world \<Rightarrow> key \<Rightarrow> DisasterGroup \<Rightarrow> bool" where
  "groupAt w k g \<longleftrightarrow> w_faults w = [] \<and> lookup groupKind w k = Some g \<and> distinct (map fst (m_labels (gr_meta g)))"

lemma labels_kept:
  assumes "\<not> snd (labelUpdate r w g)"
  shows "fst (labelUpdate r w g) = m_labels (gr_meta g)"
  using assms by (auto simp: labelUpdate_def EnsureDependencyTokenLabel_def RebuildDependencyToLabels_def Let_def split: if_splits)

lemma token_label: "\<not> isDependencyTo LabelDependencyToken"
  by code_simp

lemma labels_settled:
  assumes "distinct (map fst (m_labels (gr_meta g)))" and "m_labels (gr_meta g') = fst (labelUpdate r w g)"
    and "m_uid (gr_meta g') = m_uid (gr_meta g)" and "edgesIn r w' (m_ns (gr_meta g')) (concat (gr_levels g')) = edgesIn r w (m_ns (gr_meta g)) (concat (gr_levels g))"
  shows "\<not> snd (labelUpdate r w' g')" and "distinct (map fst (m_labels (gr_meta g')))"
proof -
  let ?tk = "fst (EnsureDependencyTokenLabel (r_sha256hex r) (m_labels (gr_meta g)) (m_uid (gr_meta g)))"
  let ?es = "edgesIn r w (m_ns (gr_meta g)) (concat (gr_levels g))"
  have d: "distinct (map fst ?tk)" using assms(1) by (simp add: EnsureDependencyTokenLabel_def Let_def distinct_mput)
  have l: "m_labels (gr_meta g') = fst (RebuildDependencyToLabels ?tk ?es)" using assms(2) by (simp add: labelUpdate_def Let_def)
  then show "distinct (map fst (m_labels (gr_meta g')))" using distinct_rebuild [OF d] by simp
  have "mget (m_labels (gr_meta g')) LabelDependencyToken = mget ?tk LabelDependencyToken"
    unfolding l by (simp add: mget_def rebuild_lookup [OF d] token_label)
  moreover have "BuildDependencyToken (r_sha256hex r) (m_uid (gr_meta g)) \<noteq> [] \<Longrightarrow>
      mget ?tk LabelDependencyToken = BuildDependencyToken (r_sha256hex r) (m_uid (gr_meta g))"
    by (simp add: EnsureDependencyTokenLabel_def Let_def)
  ultimately have "EnsureDependencyTokenLabel (r_sha256hex r) (m_labels (gr_meta g')) (m_uid (gr_meta g')) =
      (m_labels (gr_meta g'), BuildDependencyToken (r_sha256hex r) (m_uid (gr_meta g)), False)"
    using assms(3) by (auto simp: EnsureDependencyTokenLabel_def [of _ "m_labels (gr_meta g')"] Let_def)
  then show "\<not> snd (labelUpdate r w' g')" using rebuild_settled [OF d, of ?es] by (simp add: labelUpdate_def Let_def assms(4) l)
qed

lemma insts_kept:
  "lookup instKind (replaceObj groupKind x w) = lookup instKind w" "lookup instKind (w\<lparr>w_events := es\<rparr>) = lookup instKind w"
  by (simp_all add: lookup_def replaceObj_def fun_eq_iff)

lemma context_kept:
  assumes "lookup instKind w' = lookup instKind w"
  shows "health w' = health w" and "edgesIn r w' = edgesIn r w"
  by (intro ext, simp only: health_def edgesIn_def assms)+

text \<open>The three kinds of step, on a group that is stored as \<open>g\<close>.\<close>

lemma step_labels:
  assumes "groupAt w k g" and "snd (labelUpdate (gc_base r) w g)"
  shows "\<exists>g'. groupAt (groupStep r k w) k g' \<and> groupDebt r (groupStep r k w) g' + 1 = groupDebt r w g"
proof -
  let ?g1 = "g\<lparr>gr_meta := (gr_meta g)\<lparr>m_labels := fst (labelUpdate (gc_base r) w g)\<rparr>\<rparr>"
  let ?g = "bumpRv groupKind g (k_mergeSpec groupKind g ?g1)"
  let ?w = "replaceObj groupKind ?g w"
  from assms(1) have a: "w_faults w = []" "lookup groupKind w k = Some g" "distinct (map fst (m_labels (gr_meta g)))" by (simp_all add: groupAt_def)
  have key: "keyOf groupKind g = k" using a(2) by (rule groupK.lookup_key)
  then have "keyOf groupKind ?g1 = k" by (simp add: keyOf_def metaKey_def)
  with a assms(2) have "groupStep r k w = ?w"
    by (simp add: groupStep_def groupReconcile_def reconcileGroup_def run_bind run_apiGet run_groupSync run_chk run_ret apiUpdate_def
        run_faulty storeWrite_def Let_def)
  moreover have "lookup groupKind ?w k = Some ?g" using a(2) key by (simp add: groupK.lookup_replaceObj)
  moreover have same: "gr_levels ?g = gr_levels g" "gr_status ?g = gr_status g" "m_ns (gr_meta ?g) = m_ns (gr_meta g)" "m_uid (gr_meta ?g) = m_uid (gr_meta g)"
    "m_ann (gr_meta ?g) = m_ann (gr_meta g)" "m_labels (gr_meta ?g) = fst (labelUpdate (gc_base r) w g)"
    by (simp_all add: bumpRv_def groupKind_def)
  note ctx = context_kept [OF insts_kept(1)]
  have settled: "\<not> snd (labelUpdate (gc_base r) ?w ?g)" "distinct (map fst (m_labels (gr_meta ?g)))"
    by (rule labels_settled [OF a(3) same(6) same(4)]; simp add: same ctx)+
  moreover have "w_faults ?w = []" using a(1) by (simp add: replaceObj_def)
  moreover have "groupDebt r ?w ?g + 1 = groupDebt r w g"
    using settled(1) assms(2) by (simp add: groupDebt_def unmarked_def staleStatus_def same ctx)
  ultimately show ?thesis by (auto simp: groupAt_def)
qed

lemma run_create_marked: "\<not> unmarked g \<Longrightarrow> run_state (ensureGroupCreateEvent r g) w = ((), w)"
  by (simp add: ensureGroupCreateEvent_def unmarked_def run_ret)

lemma step_settled_labels:
  assumes "groupAt w k g" and "\<not> snd (labelUpdate (gc_base r) w g)"
  shows "groupStep r k w = snd (run_state (do { ensureGroupCreateEvent (gc_base r) g; aggregateGroup r g }) w)"
proof -
  have "g\<lparr>gr_meta := (gr_meta g)\<lparr>m_labels := fst (labelUpdate (gc_base r) w g)\<rparr>\<rparr> = g" using labels_kept [OF assms(2)] by simp
  with assms show ?thesis
    by (simp add: groupStep_def groupReconcile_def reconcileGroup_def run_bind run_apiGet run_groupSync groupAt_def)
qed

lemma step_mark:
  assumes "groupAt w k g" and "\<not> snd (labelUpdate (gc_base r) w g)" and "unmarked g" and "r_fmtTimeNano (gc_base r) (r_now (gc_base r)) \<noteq> []"
  shows "\<exists>g'. groupAt (groupStep r k w) k g' \<and> groupDebt r (groupStep r k w) g' + 1 = groupDebt r w g"
proof -
  let ?b = "gc_base r"
  let ?w0 = "w\<lparr>w_events := w_events w @ [\<lparr>ev_object = m_name (gr_meta g), ev_reason = ''ExecutionStarted''\<rparr>,
     \<lparr>ev_object = m_name (gr_meta g), ev_reason = ''ExecutionFinished''\<rparr>]\<rparr>"
  let ?g = "g\<lparr>gr_meta := (gr_meta g)\<lparr>m_ann := mput (m_ann (gr_meta g)) annotationGroupCreateTaskEmitted (r_fmtTimeNano ?b (r_now ?b)),
     m_rv := Suc (m_rv (gr_meta g))\<rparr>\<rparr>"
  let ?w = "replaceObj groupKind ?g ?w0"
  from assms(1) have a: "w_faults w = []" "lookup groupKind w k = Some g" "distinct (map fst (m_labels (gr_meta g)))" by (simp_all add: groupAt_def)
  have key: "keyOf groupKind g = k" using a(2) by (rule groupK.lookup_key)
  have keyg: "keyOf groupKind ?g = k" using key by (simp add: keyOf_def metaKey_def)
  have event: "run_state (ensureGroupCreateEvent ?b g) w = ((), ?w)"
    using assms(3) a(1,2) by (simp add: ensureGroupCreateEvent_def unmarked_def run_bind run_ret run_emit run_apiGet key apiPatchAnnotation_def
        run_faulty storePatchAnnotation_def Let_def) (simp add: groupKind_def)
  have stored: "lookup groupKind ?w k = Some ?g" using a(2) keyg by (simp add: groupK.lookup_replaceObj)
  have faults: "w_faults ?w = []" using a(1) by (simp add: replaceObj_def)
  have insts: "lookup instKind ?w = lookup instKind w" by (simp only: insts_kept)
  have "snd (run_state (aggregateGroup r g) ?w) = ?w"
    unfolding aggregateGroup_def
    by (simp add: run_chk run_countAll [OF faults] run_ret apiStatusUpdate_def run_faulty [OF faults] storeWrite_def stored keyOf_def [of groupKind "g\<lparr>gr_status := s\<rparr>" for s]
        key [unfolded keyOf_def, simplified] split: option.splits)
  with event assms(1,2) have "groupStep r k w = ?w" by (simp add: step_settled_labels run_bind)
  moreover have "groupDebt r ?w ?g + 1 = groupDebt r w g"
    using assms(2-4) by (simp add: groupDebt_def unmarked_def staleStatus_def labelUpdate_def context_kept [OF insts] Let_def)
  ultimately show ?thesis using stored faults a(3) by (auto simp: groupAt_def)
qed

lemma step_status:
  assumes "groupAt w k g" and "\<not> snd (labelUpdate (gc_base r) w g)" and "\<not> unmarked g" and "staleStatus r w g = Some s"
  shows "\<exists>g'. groupAt (groupStep r k w) k g' \<and> groupDebt r (groupStep r k w) g' + 1 = groupDebt r w g"
proof -
  let ?x = "g\<lparr>gr_status := s\<rparr>"
  let ?g = "bumpRv groupKind g (k_mergeStatus groupKind g ?x)"
  from assms(1) have a: "w_faults w = []" "lookup groupKind w k = Some g" "distinct (map fst (m_labels (gr_meta g)))" by (simp_all add: groupAt_def)
  have key: "keyOf groupKind g = k" using a(2) by (rule groupK.lookup_key)
  then have keyx: "keyOf groupKind ?x = k" by (simp add: keyOf_def)
  obtain es where es: "groupStep r k w = (replaceObj groupKind ?g w)\<lparr>w_events := es\<rparr>"
    using assms a keyx by (auto simp: step_settled_labels run_bind run_create_marked aggregateGroup_def run_chk run_countAll run_ret run_emit
        staleStatus_def apiStatusUpdate_def run_faulty storeWrite_def Let_def)
  let ?w = "(replaceObj groupKind ?g w)\<lparr>w_events := es\<rparr>"
  have same: "gr_levels ?g = gr_levels g" "gr_status ?g = s" "m_ns (gr_meta ?g) = m_ns (gr_meta g)" "m_uid (gr_meta ?g) = m_uid (gr_meta g)"
    "m_ann (gr_meta ?g) = m_ann (gr_meta g)" "m_labels (gr_meta ?g) = m_labels (gr_meta g)"
    by (simp_all add: bumpRv_def groupKind_def)
  have insts: "lookup instKind ?w = lookup instKind w" by (simp only: insts_kept)
  have "nextGroupStatus r c s = None" if "nextGroupStatus r c t = Some s" for c t
    using that by (auto simp: nextGroupStatus_def setGroupError_def Let_def split: if_splits)
  then have "staleStatus r ?w ?g = None" using assms(4) by (simp add: staleStatus_def same context_kept [OF insts] context_kept [OF insts_kept(1)])
  then have "groupDebt r ?w ?g + 1 = groupDebt r w g"
    using assms(2-4) by (simp add: groupDebt_def unmarked_def same labelUpdate_def context_kept [OF insts] context_kept [OF insts_kept(1)])
  moreover have "groupAt ?w k ?g" using a key by (simp add: groupAt_def groupK.lookup_replaceObj same) (simp add: replaceObj_def)
  ultimately show ?thesis unfolding es by blast
qed

lemma step_idle:
  assumes "groupAt w k g" and "groupDebt r w g = 0"
  shows "groupStep r k w = w"
proof -
  from assms(2) have d: "\<not> snd (labelUpdate (gc_base r) w g)" "\<not> unmarked g" "staleStatus r w g = None"
    by (simp_all add: groupDebt_def)
  from assms(1) d(2,3) show ?thesis unfolding step_settled_labels [OF assms(1) d(1)]
    by (simp add: run_bind run_create_marked aggregateGroup_def run_chk run_countAll run_ret groupAt_def staleStatus_def)
qed

lemma step_debt:
  assumes "groupAt w k g" and "r_fmtTimeNano (gc_base r) (r_now (gc_base r)) \<noteq> []" and "groupDebt r w g = Suc n"
  shows "\<exists>g'. groupAt (groupStep r k w) k g' \<and> groupDebt r (groupStep r k w) g' = n"
proof -
  have "\<exists>g'. groupAt (groupStep r k w) k g' \<and> groupDebt r (groupStep r k w) g' + 1 = groupDebt r w g"
  proof (cases "snd (labelUpdate (gc_base r) w g)")
    case True
    with assms(1) show ?thesis by (rule step_labels)
  next
    case False
    show ?thesis
    proof (cases "unmarked g")
      case True
      with assms False show ?thesis by (intro step_mark)
    next
      case u: False
      with False assms(3) obtain s where "staleStatus r w g = Some s" by (cases "staleStatus r w g") (simp_all add: groupDebt_def)
      with assms(1) False u show ?thesis by (rule step_status)
    qed
  qed
  with assms(3) show ?thesis by auto
qed

lemma settles:
  assumes "groupAt w k g" and "r_fmtTimeNano (gc_base r) (r_now (gc_base r)) \<noteq> []" and "groupDebt r w g \<le> n"
  shows "groupStep r k ((groupStep r k ^^ n) w) = (groupStep r k ^^ n) w"
  using assms(1,3)
proof (induction n arbitrary: w g)
  case 0
  then show ?case by (simp add: step_idle)
next
  case (Suc n)
  show ?case
  proof (cases "groupDebt r w g")
    case 0
    with Suc.prems(1) have "groupStep r k w = w" by (rule step_idle)
    moreover from this have "(groupStep r k ^^ m) w = w" for m by (induction m) simp_all
    ultimately show ?thesis by metis
  next
    case (Suc m)
    then obtain g' where "groupAt (groupStep r k w) k g'" "groupDebt r (groupStep r k w) g' = m"
      using step_debt [OF Suc.prems(1) assms(2)] by blast
    with Suc.IH [of "groupStep r k w" g'] Suc.prems(2) Suc show ?thesis by (simp add: funpow_swap1)
  qed
qed

text \<open>C33. Termination: the reconciles of a group settle. When the API answers, three reconciles in a row
  reach a state that every further reconcile leaves exactly as it is, events included: one of
  them corrects the labels, one marks the creation, one stores the status.\<close>

theorem group_reconcile_settles:
  assumes "w_faults w = []" and "lookup groupKind w k = Some g" and "distinct (map fst (m_labels (gr_meta g)))"
    and "r_fmtTimeNano (gc_base r) (r_now (gc_base r)) \<noteq> []"
  shows "groupStep r k ((groupStep r k ^^ 3) w) = (groupStep r k ^^ 3) w"
  using assms(1-3) by (intro settles [OF _ assms(4), of w k g]) (simp_all add: groupAt_def groupDebt_def)

theorem group_reconcile_settles_witness:
  "groupStep sGroupRec (''ns'', ''grp'') ((groupStep sGroupRec (''ns'', ''grp'') ^^ 3) sGroupWorld) =
     (groupStep sGroupRec (''ns'', ''grp'') ^^ 3) sGroupWorld"
proof -
  have "w_faults sGroupWorld = []" "lookup groupKind sGroupWorld (''ns'', ''grp'') = Some sScaledGroup" "distinct (map fst (m_labels (gr_meta sScaledGroup)))"
    "r_fmtTimeNano (gc_base sGroupRec) (r_now (gc_base sGroupRec)) \<noteq> []"
    by code_simp+
  then show ?thesis by (rule group_reconcile_settles)
qed

text \<open>
  The reconcile that marks the creation cannot store the status: the patch has raised the
  resource version, and the status is written with the old one.
\<close>

lemma marking_loses_status:
  "fst (run_state (groupReconcile sGroupRec (''ns'', ''grp'')) (groupStep sGroupRec (''ns'', ''grp'') sGroupWorld)) =
     Inl \<lparr>err_kind = Conflict, err_text = ''grp: the object has been modified''\<rparr>"
  by code_simp

end
