(* ===== verification/Json.thy ===== *)
theory Json
  imports Prelude "HOL-Library.Char_ord" "HOL-Library.List_Lexorder"
begin

text \<open>
  What \<open>encoding/json\<close> writes for the values the controllers marshal: strings with the
  escapes of \<open>json.Marshal\<close> (which also escapes the HTML characters and the two Unicode line
  separators), integers, booleans, lists, and the entries of a struct or a map in the order
  they are written. Strings are valid UTF-8.
\<close>

datatype json = JString string | JInt int | JBool bool | JArray "json list" | JObject "(string \<times> json) list"

definition jsonChar :: "char \<Rightarrow> string" where
  "jsonChar c =
     (let n = (of_char c :: nat) in
      if n = 34 \<or> n = 92 then [CHR 0x5C, c]
      else if n = 8 then [CHR 0x5C, CHR ''b''] else if n = 9 then [CHR 0x5C, CHR ''t'']
      else if n = 10 then [CHR 0x5C, CHR ''n''] else if n = 12 then [CHR 0x5C, CHR ''f'']
      else if n = 13 then [CHR 0x5C, CHR ''r'']
      else if n < 32 \<or> n = 60 \<or> n = 62 \<or> n = 38
      then [CHR 0x5C] @ ''u00'' @ [hexDigit (n div 16), hexDigit (n mod 16)]
      else [c])"

fun jsonEscape :: "string \<Rightarrow> string" where
  "jsonEscape [] = []"
| "jsonEscape (c # s) =
     (if c = CHR 0xE2 \<and> take 2 s = [CHR 0x80, CHR 0xA8] then [CHR 0x5C] @ ''u2028'' @ jsonEscape (drop 2 s)
      else if c = CHR 0xE2 \<and> take 2 s = [CHR 0x80, CHR 0xA9] then [CHR 0x5C] @ ''u2029'' @ jsonEscape (drop 2 s)
      else jsonChar c @ jsonEscape s)"

definition jsonString :: "string \<Rightarrow> string" where
  "jsonString s = [CHR 0x22] @ jsonEscape s @ [CHR 0x22]"

fun jsonText :: "json \<Rightarrow> string" where
  "jsonText (JString s) = jsonString s"
| "jsonText (JInt i) = dec i"
| "jsonText (JBool b) = (if b then ''true'' else ''false'')"
| "jsonText (JArray xs) = ''['' @ joinWith '','' (map jsonText xs) @ '']''"
| "jsonText (JObject kvs) = ''{'' @ joinWith '','' (map (\<lambda>kv. jsonString (fst kv) @ '':'' @ jsonText (snd kv)) kvs) @ ''}''"

text \<open>A field with \<open>omitempty\<close>.\<close>

definition omitEmpty :: "string \<Rightarrow> json \<Rightarrow> (string \<times> json) list" where
  "omitEmpty k v = (if v = JString [] \<or> v = JInt 0 \<or> v = JBool False \<or> v = JArray [] then [] else [(k, v)])"

end
