(* ===== verification/RestoreBuild.thy ===== *)
theory RestoreBuild
  imports RestorePolicies Json
begin

text \<open>
  The specification of a restore built from a backup (\<open>restore/builder.go\<close>), for resources
  (nothing is started: the replica counts are set to zero) or for data (the pods that mount
  the volumes are stripped of their labels and commands), and the annotations that record
  how the restore policy was applied (\<open>restore/policy.go\<close>).
\<close>

section \<open>The builder\<close>

datatype RestoreType = RestoreTypeResource | RestoreTypeData | RestoreTypeOther string

record BuilderConfig =
  bc_restoreType :: RestoreType
  bc_backupSource :: string
  bc_backupName :: string
  bc_targetCluster :: string
  bc_sourceCluster :: string
  bc_storageRepository :: string
  bc_includedNamespaces :: "string list"
  bc_namespaceMapping :: smap
  bc_isForDrill :: bool
  bc_extraResourceModifierRules :: "ResourceModifierRule list"
  bc_dataResourceModifierRules :: "ResourceModifierRule list"
  bc_dataRestoreHooks :: "RestoreHooks option"

definition patchOf :: "string \<Rightarrow> string \<Rightarrow> string \<Rightarrow> JSONPatch" where
  "patchOf opn path v = \<lparr>jp_operation = opn, jp_path = path, jp_value = v, jp_from = []\<rparr>"

definition forResource :: "string \<Rightarrow> string list \<Rightarrow> Conditions" where
  "forResource g nss = \<lparr>co_groupResource = g, co_resourceNameRegex = [], co_namespaces = nss, co_labelSelector = None\<rparr>"

definition makeSkeletonModifiers :: "ResourceModifierRule list" where
  "makeSkeletonModifiers =
     [\<lparr>mr_conditions = forResource ''deployments.apps'' [], mr_patches = [patchOf ''add'' ''/spec/replicas'' ''0'']\<rparr>,
      \<lparr>mr_conditions = forResource ''statefulsets.apps'' [], mr_patches = [patchOf ''add'' ''/spec/replicas'' ''0'']\<rparr>]"

definition trafficlessLabels :: string where
  "trafficlessLabels = ''{'' @ [CHR 0x22] @ ''trafficless'' @ [CHR 0x22] @ '': '' @ [CHR 0x22] @ ''true'' @ [CHR 0x22] @ ''}''"

definition makeTrafficlessModifiers :: "ResourceModifierRule list" where
  "makeTrafficlessModifiers =
     [\<lparr>mr_conditions = forResource ''pods'' [],
       mr_patches =
         [patchOf ''add'' ''/metadata/labels'' trafficlessLabels,
          patchOf ''add'' ''/metadata/ownerReferences'' ''[]'',
          patchOf ''replace'' ''/spec/containers/0/image'' ''busybox:1.36'',
          patchOf ''add'' ''/spec/containers/0/command'' (jsonText (JArray [JString ''/bin/sh'', JString ''-c''])),
          patchOf ''add'' ''/spec/containers/0/args'' (jsonText (JArray [JString ''while true; do sleep 3600; done'']))]\<rparr>]"

definition MakePVCVolumeNameCleanupRule :: "string list \<Rightarrow> ResourceModifierRule" where
  "MakePVCVolumeNameCleanupRule namespaces =
     \<lparr>mr_conditions = forResource ''persistentvolumeclaims'' namespaces, mr_patches = [patchOf ''add'' ''/spec/volumeName'' []]\<rparr>"

definition volumeResources :: "string list" where
  "volumeResources = [''pods'', ''persistentvolumeclaims'', ''persistentvolumes'']"

definition restoreTemplate :: "BuilderConfig \<Rightarrow> RestoreTemplate" where
  "restoreTemplate cfg = \<lparr>rt_backupName = bc_backupName cfg, rt_includedNamespaces = bc_includedNamespaces cfg, rt_excludedNamespaces = [],
     rt_includedResources = [], rt_excludedResources = [], rt_labelSelector = None, rt_includeClusterResources = None,
     rt_namespaceMapping = bc_namespaceMapping cfg, rt_restorePVs = None, rt_preserveNodePorts = None,
     rt_existingResourcePolicy = [], rt_itemOperationTimeout = 0, rt_hooks = []\<rparr>"

definition restoreSpecOf :: "BuilderConfig \<Rightarrow> RestoreTemplate \<Rightarrow> ResourceModifierRule list \<Rightarrow> AppRestoreSpec" where
  "restoreSpecOf cfg t rules = \<lparr>ars_backupSource = bc_backupSource cfg, ars_cluster = bc_targetCluster cfg, ars_template = t,
     ars_sourceCluster = bc_sourceCluster cfg, ars_storageRepository = bc_storageRepository cfg, ars_modifierRules = rules, ars_timeout = None\<rparr>"

definition buildResourceRestoreSpec :: "BuilderConfig \<Rightarrow> AppRestoreSpec" where
  "buildResourceRestoreSpec cfg =
     restoreSpecOf cfg ((restoreTemplate cfg)\<lparr>rt_restorePVs := Some False, rt_excludedResources := volumeResources,
         rt_existingResourcePolicy := ''update''\<rparr>)
       (makeSkeletonModifiers @ bc_extraResourceModifierRules cfg)"

definition buildDataRestoreSpec :: "BuilderConfig \<Rightarrow> AppRestoreSpec" where
  "buildDataRestoreSpec cfg =
     restoreSpecOf cfg ((restoreTemplate cfg)\<lparr>rt_includedResources := volumeResources, rt_restorePVs := Some True,
         rt_preserveNodePorts := Some True, rt_existingResourcePolicy := (if bc_isForDrill cfg then ''update'' else ''none''),
         rt_hooks := (case bc_dataRestoreHooks cfg of None \<Rightarrow> [] | Some h \<Rightarrow> h)\<rparr>)
       (if bc_dataResourceModifierRules cfg = [] then makeTrafficlessModifiers else bc_dataResourceModifierRules cfg)"

definition BuildAppRestoreSpec :: "BuilderConfig \<Rightarrow> AppRestoreSpec" where
  "BuildAppRestoreSpec cfg =
     (case bc_restoreType cfg of RestoreTypeResource \<Rightarrow> buildResourceRestoreSpec cfg
      | RestoreTypeData \<Rightarrow> buildDataRestoreSpec cfg | _ \<Rightarrow> buildResourceRestoreSpec cfg)"

section \<open>What is recorded of the policy\<close>

text \<open>The counters of rejected and conflicting rules are zero in the summary of a success.\<close>

definition annotationValue :: "PolicySummary \<Rightarrow> string" where
  "annotationValue s = jsonText (JObject
     ([(''source'', JString (ps_source s)), (''storageClassRuleCount'', JInt (ps_storageRuleCount s)),
       (''ingressClassRuleCount'', JInt (ps_ingressRuleCount s)), (''storageClassMappingCount'', JInt (ms_mappingCount (ps_storage s))),
       (''ingressClassMappingCount'', JInt (ms_mappingCount (ps_ingress s))),
       (''storageUnmatchedPolicy'', JString (ms_unmatchedPolicy (ps_storage s))),
       (''ingressUnmatchedPolicy'', JString (ms_unmatchedPolicy (ps_ingress s))),
       (''storageStrictValidation'', JBool (ms_strictValidation (ps_storage s))),
       (''ingressStrictValidation'', JBool (ms_strictValidation (ps_ingress s)))] @
      omitEmpty ''flow'' (JString (ps_flow s)) @ omitEmpty ''directionSource'' (JString (ps_directionSource s)) @
      omitEmpty ''appliedRuleCount'' (JInt (ps_applied s)) @ omitEmpty ''skippedRuleCount'' (JInt (ps_skipped s)) @
      omitEmpty ''modifierSource'' (JString (ps_modifierSource s)) @ omitEmpty ''modifierBulkActionCount'' (JInt (ps_bulkActionCount s)) @
      omitEmpty ''modifierSnapshotHash'' (JString (ps_snapshotHash s)) @
      omitEmpty ''resourceSelectionMode'' (JString (ps_selectionMode s))))"

text \<open>A Go map is marshalled in the order of its keys.\<close>

definition modifierAnnotationValue :: "PolicySummary \<Rightarrow> string" where
  "modifierAnnotationValue s = jsonText (JObject
     [(''appliedRuleCount'', JInt (ps_applied s)), (''conflictCount'', JInt 0), (''directionSource'', JString (ps_directionSource s)),
      (''flow'', JString (ps_flow s)), (''modifierBulkCount'', JInt (ps_bulkActionCount s)),
      (''modifierSnapshotHash'', JString (ps_snapshotHash s)), (''modifierSource'', JString (ps_modifierSource s)),
      (''rejectedRuleCount'', JInt 0), (''skippedRuleCount'', JInt (ps_skipped s))])"

definition putUnless :: "bool \<Rightarrow> string \<Rightarrow> string \<Rightarrow> smap \<Rightarrow> smap" where
  "putUnless skip k v a = (if skip then a else mput a (''testudo.softcdata.com/'' @ k) v)"

definition ApplyPolicySummaryAnnotations :: "PolicySummary \<Rightarrow> ObjectMeta \<Rightarrow> ObjectMeta" where
  "ApplyPolicySummaryAnnotations s m = m\<lparr>m_ann :=
     putUnless False ''modifier-summary'' (modifierAnnotationValue s)
    (putUnless (ps_selectionMode s = []) ''resource-selection-mode'' (ps_selectionMode s)
    (putUnless (ps_snapshotHash s = []) ''modifier-snapshot-hash'' (ps_snapshotHash s)
    (putUnless (\<not> ps_bulkActionCount s > 0) ''modifier-bulk-action-count'' (dec (ps_bulkActionCount s))
    (putUnless (ps_modifierSource s = []) ''modifier-source'' (ps_modifierSource s)
    (putUnless (ps_directionSource s = []) ''modifier-direction-source'' (ps_directionSource s)
    (putUnless (ps_flow s = []) ''modifier-flow'' (ps_flow s)
    (putUnless False ''restore-policy-summary'' (annotationValue s)
    (putUnless False ''restore-policy-source'' (ps_source s) (m_ann m)))))))))\<rparr>"

end
