(* ===== verification/Trafficless.thy ===== *)
theory Trafficless
  imports Kube Modifier Json
begin

text \<open>
  The runtime of the pods that receive restored volumes without taking traffic
  (\<open>trafficless_runtime.go\<close>: image, command and pull secret), and the restore hooks that must
  still find those pods once their labels are gone (\<open>restore/trafficless_hooks.go\<close>). A Go map
  is iterated in the order of its list.
\<close>

section \<open>The runtime\<close>

record TrafficlessRuntime =
  tlr_image :: string
  tlr_command :: "string list"
  tlr_pullSecretName :: string
  tlr_source :: string
  tlr_targetCluster :: string

definition DefaultTrafficlessImage :: string where "DefaultTrafficlessImage = ''busybox:1.36''"
definition LegacyDefaultTrafficlessImage :: string where "LegacyDefaultTrafficlessImage = ''busybox:latest''"

definition ManagementNamespace :: "string \<Rightarrow> string" where
  "ManagementNamespace configured = (if trimSpace configured \<noteq> [] then trimSpace configured else ''disaster-system'')"

definition IsDefaultTrafficlessImage :: "string \<Rightarrow> bool" where
  "IsDefaultTrafficlessImage im \<longleftrightarrow>
     List.member [[], DefaultTrafficlessImage, LegacyDefaultTrafficlessImage] (trimSpace im)"

definition ResolveTrafficlessCommand :: "TrafficlessConfig option \<Rightarrow> string list" where
  "ResolveTrafficlessCommand cfg =
     (case cfg of None \<Rightarrow> [''sleep'', ''3600''] | Some c \<Rightarrow> if tc_command c \<noteq> [] then tc_command c else [''sleep'', ''3600''])"

definition normalizeVeleroImageRegistry :: "string \<Rightarrow> string" where
  "normalizeVeleroImageRegistry registry = trimFunc (\<lambda>c. c = CHR ''/'') (trimSpace registry)"

definition joinRegistryRepository :: "string \<Rightarrow> string \<Rightarrow> string" where
  "joinRegistryRepository registry name =
     (let r = normalizeVeleroImageRegistry registry in if r = [] then name else r @ ''/'' @ name)"

definition veleroRegistryTargetSecretName :: "string \<Rightarrow> string" where
  "veleroRegistryTargetSecretName c = ''velero-regcred-'' @ c"

text \<open>The name of the registry secret of a cluster, trimmed; empty when there is none.\<close>

definition registryCredential :: "Cluster \<Rightarrow> string" where
  "registryCredential cl = (case Option.bind (cl_veleroInstall cl) vi_credentialSecret of None \<Rightarrow> [] | Some n \<Rightarrow> trimSpace n)"

definition trafficlessImageFor :: "string \<Rightarrow> Cluster \<Rightarrow> TrafficlessRuntime \<Rightarrow> TrafficlessRuntime" where
  "trafficlessImageFor explicit cl rt =
     (case cl_veleroInstall cl of
        None \<Rightarrow> rt
      | Some vi \<Rightarrow>
          if IsDefaultTrafficlessImage explicit \<and> normalizeVeleroImageRegistry (vi_imageRegistry vi) \<noteq> []
          then rt\<lparr>tlr_image := joinRegistryRepository (normalizeVeleroImageRegistry (vi_imageRegistry vi)) DefaultTrafficlessImage,
                  tlr_source := ''targetClusterRegistry''\<rparr>
          else rt)"

definition trafficlessDefaults :: "string \<Rightarrow> TrafficlessConfig option \<Rightarrow> TrafficlessRuntime" where
  "trafficlessDefaults targetCluster cfg =
     (let explicit = (case cfg of None \<Rightarrow> [] | Some c \<Rightarrow> trimSpace (tc_image c));
          custom = (explicit \<noteq> [] \<and> \<not> IsDefaultTrafficlessImage explicit)
      in \<lparr>tlr_image = (if custom then explicit else DefaultTrafficlessImage), tlr_command = ResolveTrafficlessCommand cfg,
          tlr_pullSecretName = [], tlr_source = (if custom then ''explicit'' else ''default''), tlr_targetCluster = trimSpace targetCluster\<rparr>)"

definition ResolveTrafficlessRuntime :: "string \<Rightarrow> TrafficlessConfig option \<Rightarrow> (TrafficlessRuntime \<times> Cluster option) result" where
  "ResolveTrafficlessRuntime targetCluster cfg =
     (let rt = trafficlessDefaults targetCluster cfg; explicit = (case cfg of None \<Rightarrow> [] | Some c \<Rightarrow> trimSpace (tc_image c)) in
      if tlr_targetCluster rt = [] then ok (rt, None)
      else do {
        g \<leftarrow> apiGet clusterKind ([], tlr_targetCluster rt);
        (case g of
           Inl e \<Rightarrow> if err_kind e = NotFound then ok (rt, None)
                    else fail (wrapf (''get target cluster '' @ tlr_targetCluster rt @ '' for trafficless runtime: '') e)
         | Inr cl \<Rightarrow>
             let rt1 = trafficlessImageFor explicit cl rt in
             ok (if registryCredential cl \<noteq> [] then rt1\<lparr>tlr_pullSecretName := veleroRegistryTargetSecretName (m_name (cl_meta cl))\<rparr> else rt1,
                 Some cl)) })"

section \<open>Namespaces and pull secrets\<close>

text \<open>\<open>appendNS\<close>: a trimmed, non-empty name that is not there yet is appended.\<close>

definition appendNS :: "string list \<Rightarrow> string \<Rightarrow> string list" where
  "appendNS out ns = (let n = trimSpace ns in if n = [] \<or> List.member out n then out else out @ [n])"

definition restoreNamespace :: "smap \<Rightarrow> string list \<Rightarrow> string \<Rightarrow> string list" where
  "restoreNamespace nm out ns =
     (let n = trimSpace ns in
      if n = [] then out
      else if trimSpace (mget nm n) \<noteq> [] then appendNS out (trimSpace (mget nm n)) else appendNS out n)"

definition TrafficlessRestoreNamespaces :: "string list \<Rightarrow> smap \<Rightarrow> string list" where
  "TrafficlessRestoreNamespaces sourceNamespaces nm =
     foldl appendNS (foldl (restoreNamespace nm) [] sourceNamespaces) (map snd nm)"

definition TrafficlessImagePullSecretsPatch :: "string \<Rightarrow> JSONPatch option" where
  "TrafficlessImagePullSecretsPatch secretName =
     (let n = trimSpace secretName in
      if n = [] then None
      else Some \<lparr>jp_operation = ''add'', jp_path = ''/spec/imagePullSecrets'',
             jp_value = jsonText (JArray [JObject (omitEmpty ''name'' (JString n))]), jp_from = []\<rparr>)"

definition ensureTrafficlessNamespace :: "string \<Rightarrow> string \<Rightarrow> unit result" where
  "ensureTrafficlessNamespace c ns0 =
     (let ns = trimSpace ns0 in
      if ns = [] then ok ()
      else do {
        g \<leftarrow> apiGet (nsKind c) ([], ns);
        (case g of
           Inl e \<Rightarrow> if err_kind e = NotFound then chk (apiCreate (nsKind c) \<lparr>nsp_meta = newMeta [] ns\<rparr>) (\<lambda>_. ok ()) else fail e
         | Inr _ \<Rightarrow> ok ()) })"

definition dockerConfigKey :: string where "dockerConfigKey = ''.dockerconfigjson''"
definition dockerConfigType :: string where "dockerConfigType = ''kubernetes.io/dockerconfigjson''"

definition upsertTrafficlessRegistrySecret :: "string \<Rightarrow> string \<Rightarrow> string \<Rightarrow> string \<Rightarrow> unit result" where
  "upsertTrafficlessRegistrySecret c ns name cfg = do {
     g \<leftarrow> apiGet (secretKind c) (ns, name);
     (case g of
        Inl e \<Rightarrow>
          if err_kind e = NotFound
          then chk (apiCreate (secretKind c) \<lparr>sec_meta = newMeta ns name, sec_type = dockerConfigType, sec_data = [(dockerConfigKey, cfg)]\<rparr>) (\<lambda>_. ok ())
          else fail e
      | Inr s \<Rightarrow> chk (apiUpdate (secretKind c) (s\<lparr>sec_type := dockerConfigType, sec_data := mput (sec_data s) dockerConfigKey cfg\<rparr>)) (\<lambda>_. ok ())) }"

definition SyncTrafficlessRegistryPullSecret :: "string \<Rightarrow> string \<Rightarrow> Cluster option \<Rightarrow> string list \<Rightarrow> string result" where
  "SyncTrafficlessRegistryPullSecret configured c cluster namespaces =
     (case cluster of
        None \<Rightarrow> ok []
      | Some cl \<Rightarrow>
          let src = registryCredential cl; mns = ManagementNamespace configured; name = veleroRegistryTargetSecretName (m_name (cl_meta cl)) in
          if src = [] then ok []
          else chkWrap (''get management-plane trafficless registry secret '' @ mns @ ''/'' @ src @ '': '') (apiGet mgmtSecretKind (mns, src)) (\<lambda>s.
            let full = m_ns (sec_meta s) @ ''/'' @ m_name (sec_meta s) in
            if sec_type s \<noteq> dockerConfigType
            then fail (errorf (''management-plane trafficless registry secret '' @ full @ '' is not dockerconfigjson''))
            else if mget (sec_data s) dockerConfigKey = []
            then fail (errorf (''management-plane trafficless registry secret '' @ full @ '' is missing '' @ dockerConfigKey))
            else chk (forEach (\<lambda>ns _.
                   chkWrap (''ensure trafficless restore namespace '' @ ns @ '': '') (ensureTrafficlessNamespace c ns) (\<lambda>_.
                   chkWrap (''sync trafficless registry secret to '' @ ns @ ''/'' @ name @ '': '')
                     (upsertTrafficlessRegistrySecret c ns name (mget (sec_data s) dockerConfigKey)) ok))
                   (TrafficlessRestoreNamespaces namespaces []) ()) (\<lambda>_. ok name)))"

section \<open>Hooks\<close>

definition DataRestoreHookMarkerLabelKey :: "nat \<Rightarrow> string" where
  "DataRestoreHookMarkerLabelKey idx = ''testudo.softcdata.com/data-restore-hook-'' @ dec (int idx)"

text \<open>The init hooks, the exec hooks, and the hooks that do nothing.\<close>

definition splitRestoreHooks :: "RestoreResourceHook list \<Rightarrow>
    RestoreResourceHook list \<times> RestoreResourceHook list \<times> RestoreResourceHook list" where
  "splitRestoreHooks hooks =
     (map (\<lambda>h. h\<lparr>rh_exec := None\<rparr>) (filter (\<lambda>h. rh_init h \<noteq> None) hooks),
      map (\<lambda>h. h\<lparr>rh_init := None\<rparr>) (filter (\<lambda>h. rh_exec h \<noteq> None) hooks),
      filter (\<lambda>h. rh_init h = None \<and> rh_exec h = None) hooks)"

definition stringSliceContainsPodResource :: "string list \<Rightarrow> bool" where
  "stringSliceContainsPodResource resources \<longleftrightarrow>
     list_ex (\<lambda>x. List.member [''pod'', ''pods''] (toLower (trimSpace x))) resources"

definition restoreHookResourceTargetsPods :: "RestoreResourceHookSpec \<Rightarrow> bool" where
  "restoreHookResourceTargetsPods res =
     (if stringSliceContainsPodResource (rhs_excludedResources res) then False
      else rhs_includedResources res = [] \<or> stringSliceContainsPodResource (rhs_includedResources res))"

definition mapNamespaces :: "string list \<Rightarrow> (string \<Rightarrow> string) \<Rightarrow> string list" where
  "mapNamespaces namespaces f = foldl (\<lambda>out ns. if List.member out (f ns) then out else out @ [f ns]) [] namespaces"

definition toTarget :: "smap \<Rightarrow> string \<Rightarrow> string" where
  "toTarget nm ns = (case map_of nm ns of Some t \<Rightarrow> t | None \<Rightarrow> ns)"

definition mapRestoreHookNamespacesToTarget :: "smap \<Rightarrow> RestoreResourceHookSpec \<Rightarrow> RestoreResourceHookSpec" where
  "mapRestoreHookNamespacesToTarget nm res =
     res\<lparr>rhs_includedNamespaces := mapNamespaces (rhs_includedNamespaces res) (toTarget nm),
         rhs_excludedNamespaces := mapNamespaces (rhs_excludedNamespaces res) (toTarget nm)\<rparr>"

text \<open>Back from a target namespace; of two sources of one target the later one counts.\<close>

definition toBackup :: "smap \<Rightarrow> string \<Rightarrow> string" where
  "toBackup nm ns =
     (if map_of nm ns \<noteq> None then ns
      else case map_of (foldl (\<lambda>m (s, t). mput m t s) [] nm) ns of Some s \<Rightarrow> s | None \<Rightarrow> ns)"

definition mapRestoreHookNamespacesToBackup :: "string list \<Rightarrow> smap \<Rightarrow> string list" where
  "mapRestoreHookNamespacesToBackup namespaces nm = mapNamespaces namespaces (toBackup nm)"

text \<open>The namespaces of a marker; \<open>None\<close> when they cannot be expressed.\<close>

definition restoreHookMarkerNamespaces :: "RestoreResourceHookSpec \<Rightarrow> string list \<Rightarrow> smap \<Rightarrow> string list option" where
  "restoreHookMarkerNamespaces res restoreIncluded nm =
     (let included = (if rhs_includedNamespaces res = [] \<and> restoreIncluded \<noteq> [] then restoreIncluded else rhs_includedNamespaces res);
          excluded = mapRestoreHookNamespacesToBackup (rhs_excludedNamespaces res) nm in
      if included = [] then (if excluded \<noteq> [] then None else Some [])
      else let inc = mapRestoreHookNamespacesToBackup included nm in
        Some (if excluded = [] then inc else filter (\<lambda>n. \<not> List.member excluded n) inc))"

definition buildDataRestoreHookMarkerRule :: "RestoreResourceHookSpec \<Rightarrow> string \<Rightarrow> string list \<Rightarrow> ResourceModifierRule" where
  "buildDataRestoreHookMarkerRule res markerKey namespaces =
     \<lparr>mr_conditions = \<lparr>co_groupResource = ''pods'', co_resourceNameRegex = [], co_namespaces = namespaces, co_labelSelector = rhs_labelSelector res\<rparr>,
      mr_patches = [\<lparr>jp_operation = ''add'', jp_path = ''/metadata/labels/'' @ escapeJSONPointerSegment markerKey,
                     jp_value = [CHR 0x22] @ ''true'' @ [CHR 0x22], jp_from = []\<rparr>]\<rparr>"

definition execResource :: "string \<Rightarrow> RestoreResourceHook list \<Rightarrow> RestoreResourceHookSpec \<Rightarrow> RestoreResourceHookSpec" where
  "execResource markerKey hooks res =
     res\<lparr>rhs_postHooks := hooks, rhs_labelSelector := Some \<lparr>ls_matchLabels = [(markerKey, ''true'')], ls_matchExpressions = []\<rparr>\<rparr>"

definition prepareHookResource :: "string list \<Rightarrow> smap \<Rightarrow> RestoreHooks \<times> ResourceModifierRule list \<Rightarrow> nat \<times> RestoreResourceHookSpec \<Rightarrow>
    RestoreHooks \<times> ResourceModifierRule list" where
  "prepareHookResource restoreIncluded nm acc item =
     (let idx = fst item; res = snd item; (initHooks, execHooks, inertHooks) = splitRestoreHooks (rhs_postHooks res);
          keep = (fst acc @ [mapRestoreHookNamespacesToTarget nm res], snd acc) in
      if rhs_postHooks res = [] \<or> \<not> restoreHookResourceTargetsPods res \<or> execHooks = [] then keep
      else case restoreHookMarkerNamespaces res restoreIncluded nm of
        None \<Rightarrow> keep
      | Some nss \<Rightarrow>
          (fst acc @ (if initHooks \<noteq> [] \<or> inertHooks \<noteq> []
                      then [mapRestoreHookNamespacesToTarget nm (res\<lparr>rhs_postHooks := initHooks @ inertHooks\<rparr>)] else []) @
             [mapRestoreHookNamespacesToTarget nm (execResource (DataRestoreHookMarkerLabelKey idx) execHooks res)],
           snd acc @ [buildDataRestoreHookMarkerRule res (DataRestoreHookMarkerLabelKey idx) nss]))"

definition PrepareTrafficlessDataRestoreHooks :: "RestoreHooks option \<Rightarrow> string list \<Rightarrow> smap \<Rightarrow> RestoreHooks option \<times> ResourceModifierRule list" where
  "PrepareTrafficlessDataRestoreHooks hooks restoreIncluded nm =
     (case hooks of None \<Rightarrow> (None, [])
      | Some h \<Rightarrow> (let x = foldl (prepareHookResource restoreIncluded nm) ([], []) (enumerate 0 h) in (Some (fst x), snd x)))"

end
