(* ===== verification/ImageMapping.thy ===== *)
theory ImageMapping
  imports Kube Modifier
begin

text \<open>
  The rewriting of image registries (\<open>imagemapping/imagemapping.go\<close>): the aliases of a
  configuration are resolved to registries of the current source and target cluster, in the
  configured direction or in the reverse one after a switch of the roles; the images of the
  deployments and stateful sets of the source are rewritten by their longest matching
  registry; and each workload with a changed image gets a rule that replaces it.
\<close>

record RegistryMapping =
  gm_sourceAlias :: string
  gm_sourceRegistry :: string
  gm_targetAlias :: string
  gm_targetRegistry :: string

definition normalizeRegistry :: "string \<Rightarrow> string" where
  "normalizeRegistry registry = trimSuffix (trimSpace registry) ''/''"

text \<open>\<open>regexp.QuoteMeta\<close>.\<close>

definition quoteMeta :: "string \<Rightarrow> string" where
  "quoteMeta s = concat (map (\<lambda>c. if List.member (CHR 0x5C # ''.+*?()|[]{}^$'') c then [CHR 0x5C, c] else [c]) s)"

definition exactResourceRegex :: "string \<Rightarrow> string" where
  "exactResourceRegex name = ''^'' @ quoteMeta name @ ''$''"

section \<open>Resolving aliases\<close>

definition buildRegistryAliasMap :: "ImageSource list \<Rightarrow> string \<Rightarrow> err + smap" where
  "buildRegistryAliasMap sources clusterName =
     foldE (\<lambda>m s. let alias = trimSpace (isrc_name s); registry = normalizeRegistry (isrc_registry s) in
       if alias = [] \<or> registry = [] then Inr m
       else case map_of m alias of
         Some _ \<Rightarrow> Inl (errorf (''duplicate image source alias in cluster '' @ clusterName @ '': '' @ alias))
       | None \<Rightarrow> Inr (mput m alias registry)) [] sources"

text \<open>One mapping of the configuration in the direction of the current clusters.\<close>

definition resolveMapping :: "smap \<Rightarrow> smap \<Rightarrow> string \<Rightarrow> string \<Rightarrow> ImageSourceMapping \<Rightarrow> err + RegistryMapping" where
  "resolveMapping src tgt sname tname item =
     (let sa = trimSpace (ism_source item); ta = trimSpace (ism_target item) in
      case (map_of src sa, map_of tgt ta) of
        (Some sr, Some tr) \<Rightarrow> Inr \<lparr>gm_sourceAlias = sa, gm_sourceRegistry = sr, gm_targetAlias = ta, gm_targetRegistry = tr\<rparr>
      | _ \<Rightarrow> (case (map_of src ta, map_of tgt sa) of
          (Some sr, Some tr) \<Rightarrow> Inr \<lparr>gm_sourceAlias = ta, gm_sourceRegistry = sr, gm_targetAlias = sa, gm_targetRegistry = tr\<rparr>
        | _ \<Rightarrow> Inl (errorf (''image source alias pair not found for current clusters '' @ sname @ '' -> '' @ tname @ '': '' @
                 ism_source item @ '' -> '' @ ism_target item))))"

definition addMapping :: "smap \<Rightarrow> smap \<Rightarrow> string \<Rightarrow> string \<Rightarrow> string list \<times> RegistryMapping list \<Rightarrow> ImageSourceMapping \<Rightarrow>
    err + string list \<times> RegistryMapping list" where
  "addMapping src tgt sname tname acc item =
     (let sa = trimSpace (ism_source item) in
      if sa = [] \<or> trimSpace (ism_target item) = [] then Inl (errorf ''sourceImageSource/targetImageSource must not be empty'')
      else if List.member (fst acc) sa then Inl (errorf (''duplicate sourceImageSource mapping: '' @ sa))
      else andThen (resolveMapping src tgt sname tname item) (\<lambda>m. Inr (fst acc @ [sa], snd acc @ [m])))"

text \<open>The mappings, the policy for unmatched images, and whether rewriting is enabled.\<close>

definition ResolveRegistryMappings :: "Cluster option \<Rightarrow> Cluster option \<Rightarrow> ImageRewriteConfig option \<Rightarrow> string \<Rightarrow>
    err + RegistryMapping list \<times> string \<times> bool" where
  "ResolveRegistryMappings source target rewrite applyTarget =
     (case rewrite of
        None \<Rightarrow> Inr ([], ''Fail'', False)
      | Some cfg \<Rightarrow>
          let policy = (if irc_unmatchedPolicy cfg = ''Keep'' then ''Keep'' else ''Fail'') in
          if \<not> irc_enabled cfg then Inr ([], policy, False)
          else if irc_applyTo cfg \<noteq> [] \<and> \<not> list_ex (\<lambda>t. t = applyTarget) (irc_applyTo cfg) then Inr ([], policy, False)
          else if irc_mappings cfg = [] then Inl (errorf ''imageRewrite enabled but mappings is empty'')
          else (case (source, target) of
            (Some s, Some t) \<Rightarrow>
              andThen (buildRegistryAliasMap (cl_imageSources s) (m_name (cl_meta s))) (\<lambda>src.
              andThen (buildRegistryAliasMap (cl_imageSources t) (m_name (cl_meta t))) (\<lambda>tgt.
              andThen (foldE (addMapping src tgt (m_name (cl_meta s)) (m_name (cl_meta t))) ([], []) (irc_mappings cfg)) (\<lambda>acc.
              Inr (snd acc, policy, True))))
          | _ \<Rightarrow> Inl (errorf ''source/target cluster is nil'')))"

section \<open>The workloads of the source\<close>

definition selectorOf :: "matchers \<Rightarrow> LabelSelector option \<Rightarrow> err + (smap \<Rightarrow> bool)" where
  "selectorOf M sel = (case sel of None \<Rightarrow> Inr (\<lambda>_. True)
     | Some s \<Rightarrow> (case mt_matches M s of Inl e \<Rightarrow> Inl (wrapf ''invalid label selector: '' e) | Inr P \<Rightarrow> Inr P))"

text \<open>\<open>List\<close> in a namespace with a label selector.\<close>

definition listMatching :: "'o kind \<Rightarrow> string \<Rightarrow> (smap \<Rightarrow> bool) \<Rightarrow> 'o list result" where
  "listMatching K ns P = apiListRaw (k_objs K) (\<lambda>x. inNamespace K ns x \<and> P (m_labels (k_meta K x)))"

definition CollectWorkloads :: "matchers \<Rightarrow> string \<Rightarrow> string list \<Rightarrow> LabelSelector option \<Rightarrow> (Workload list \<times> Workload list) result" where
  "CollectWorkloads M c namespaces sel =
     (case selectorOf M sel of
        Inl e \<Rightarrow> fail e
      | Inr P \<Rightarrow> forEach (\<lambda>ns acc.
          chkWrap (''list deployments in '' @ ns @ '': '') (listMatching (deployKind c) ns P) (\<lambda>ds.
          chkWrap (''list statefulsets in '' @ ns @ '': '') (listMatching (stsKind c) ns P) (\<lambda>ss.
          ok (fst acc @ ds, snd acc @ ss)))) namespaces ([], []))"

section \<open>Rewriting an image\<close>

definition registryMatches :: "string \<Rightarrow> string \<Rightarrow> bool" where
  "registryMatches im registry \<longleftrightarrow> im = registry \<or> hasPrefix im (registry @ ''/'')"

definition betterMapping :: "string \<Rightarrow> RegistryMapping option \<Rightarrow> RegistryMapping \<Rightarrow> RegistryMapping option" where
  "betterMapping current best m =
     (let source = normalizeRegistry (gm_sourceRegistry m) in
      if source = [] then best
      else if registryMatches current source then
        (case best of None \<Rightarrow> Some m
         | Some b \<Rightarrow> if length source > length (normalizeRegistry (gm_sourceRegistry b)) then Some m else best)
      else best)"

definition RewriteImage :: "string \<Rightarrow> RegistryMapping list \<Rightarrow> string \<times> bool" where
  "RewriteImage im ms =
     (let current = trimSpace im in
      if current = [] then (im, False)
      else case foldl (betterMapping current) None ms of
        None \<Rightarrow> (im, False)
      | Some m \<Rightarrow>
          let source = normalizeRegistry (gm_sourceRegistry m); target = normalizeRegistry (gm_targetRegistry m) in
          if current = source then (target, True) else (target @ trimPrefix current source, True))"

section \<open>Rules\<close>

text \<open>The patches for the containers of one kind, with the images that match no registry.\<close>

definition imagePatch :: "string \<Rightarrow> string \<Rightarrow> string \<Rightarrow> string \<Rightarrow> RegistryMapping list \<Rightarrow> string \<Rightarrow> JSONPatch list \<times> string list \<Rightarrow>
    nat \<times> string \<Rightarrow> JSONPatch list \<times> string list" where
  "imagePatch namespace name kname path ms policy acc item =
     (let original = trimSpace (snd item) in
      if original = [] then acc
      else let rw = RewriteImage original ms in
        if snd rw then
          (if fst rw \<noteq> original
           then (fst acc @ [\<lparr>jp_operation = ''replace'', jp_path = path @ ''/'' @ dec (int (fst item)) @ ''/image'', jp_value = fst rw, jp_from = []\<rparr>],
                 snd acc)
           else acc)
        else if policy = ''Fail''
        then (fst acc, snd acc @ [namespace @ ''/'' @ name @ '' '' @ kname @ ''['' @ dec (int (fst item)) @ '']='' @ original])
        else acc)"

definition buildWorkloadImagePatches :: "Workload \<Rightarrow> RegistryMapping list \<Rightarrow> string \<Rightarrow> JSONPatch list \<times> string list" where
  "buildWorkloadImagePatches d ms policy =
     (let m = wl_meta d; spec = wl_podSpec d in
      foldl (imagePatch (m_ns m) (m_name m) ''initContainers'' ''/spec/template/spec/initContainers'' ms policy)
        (foldl (imagePatch (m_ns m) (m_name m) ''containers'' ''/spec/template/spec/containers'' ms policy) ([], [])
           (enumerate 0 (ps_images spec)))
        (enumerate 0 (ps_initImages spec)))"

definition workloadRule :: "string \<Rightarrow> RegistryMapping list \<Rightarrow> string \<Rightarrow> ResourceModifierRule list \<times> string list \<Rightarrow> Workload \<Rightarrow>
    ResourceModifierRule list \<times> string list" where
  "workloadRule groupResource ms policy acc d =
     (let x = buildWorkloadImagePatches d ms policy in
      (if fst x \<noteq> [] then fst acc @ [\<lparr>mr_conditions = \<lparr>co_groupResource = groupResource,
           co_resourceNameRegex = exactResourceRegex (m_name (wl_meta d)), co_namespaces = [], co_labelSelector = None\<rparr>, mr_patches = fst x\<rparr>]
       else fst acc, snd acc @ snd x))"

definition BuildRulesFromWorkloads :: "Workload list \<Rightarrow> Workload list \<Rightarrow> RegistryMapping list \<Rightarrow> string \<Rightarrow>
    ResourceModifierRule list \<times> string list" where
  "BuildRulesFromWorkloads deployments statefulSets ms policy =
     (let x = foldl (workloadRule ''statefulsets.apps'' ms policy) (foldl (workloadRule ''deployments.apps'' ms policy) ([], []) deployments) statefulSets
      in (fst x, sort (remdups (snd x))))"

end
