(* ===== verification/DynamicImages.thy ===== *)
theory DynamicImages
  imports ImageMapping RestorePolicies
begin

text \<open>
  Image rewriting by prefix (\<open>restore/dynamic_image_rewrite.go\<close>): the bulk actions that rewrite
  images are compiled, against the objects that live in the source cluster, into reversible
  modifier rules for one path of one object each. In the direction of the configuration the
  source prefix is replaced by the target prefix, in the reverse direction the other way
  round; two prefixes of the same length that disagree are a conflict. The counters of the
  compiler, which every caller drops, are left out.
\<close>

section \<open>Actions\<close>

record imageRewriteActionRule =
  ia_index :: nat
  ia_id :: string
  ia_sourcePrefix :: string
  ia_targetPrefix :: string
  ia_unmatchedPolicy :: string
  ia_directionPolicy :: string

definition normalizeImagePrefix :: "string \<Rightarrow> string" where
  "normalizeImagePrefix p = trimSuffix (trimSpace p) ''/''"

definition normalizeImageRewriteUnmatchedPolicy :: "string \<Rightarrow> string" where
  "normalizeImageRewriteUnmatchedPolicy p = (if p = ''Fail'' then ''Fail'' else ''Keep'')"

definition bulkActionAppliesToTarget :: "BulkModifierAction \<Rightarrow> string \<Rightarrow> bool" where
  "bulkActionAppliesToTarget a target \<longleftrightarrow> target = [] \<or> ba_applyTo a = [] \<or> list_ex (\<lambda>t. t = target) (ba_applyTo a)"

definition rewritesImages :: "string \<Rightarrow> BulkModifierAction \<Rightarrow> bool" where
  "rewritesImages target a \<longleftrightarrow> ba_action a = ''rewriteImage'' \<and> bulkActionAppliesToTarget a target"

definition HasDynamicImageRewriteActions :: "RestorePolicy option \<Rightarrow> string \<Rightarrow> bool" where
  "HasDynamicImageRewriteActions policy target =
     (case policy of None \<Rightarrow> False | Some p \<Rightarrow> list_ex (rewritesImages target) (effectiveBulkModifierActions p))"

definition imageRewriteAction :: "nat \<times> BulkModifierAction \<Rightarrow> err + imageRewriteActionRule" where
  "imageRewriteAction item =
     (let a = snd item; aid = trimSpace (ba_id a) in
      case ba_imageRewrite a of
        None \<Rightarrow> rejected (''rewriteImage action '' @ aid @ '' missing imageRewrite'')
      | Some cfg \<Rightarrow>
          let sp = normalizeImagePrefix (ir_sourcePrefix cfg); tp = normalizeImagePrefix (ir_targetPrefix cfg) in
          if sp = [] \<or> tp = [] then rejected (''rewriteImage action '' @ aid @ '' requires non-empty sourcePrefix/targetPrefix'')
          else if ir_digestPolicy cfg \<noteq> [] \<and> ir_digestPolicy cfg \<noteq> ''Preserve''
          then rejected (''rewriteImage action '' @ aid @ '' unsupported digestPolicy='' @ ir_digestPolicy cfg)
          else Inr \<lparr>ia_index = fst item, ia_id = aid, ia_sourcePrefix = sp, ia_targetPrefix = tp,
                 ia_unmatchedPolicy = normalizeImageRewriteUnmatchedPolicy (ir_unmatchedPolicy cfg),
                 ia_directionPolicy = ba_directionPolicy a\<rparr>)"

definition collectImageRewriteActions :: "RestorePolicy \<Rightarrow> string \<Rightarrow> err + imageRewriteActionRule list" where
  "collectImageRewriteActions p target =
     foldE (\<lambda>out item. if \<not> rewritesImages target (snd item) then Inr out
        else andThen (imageRewriteAction item) (\<lambda>a. Inr (out @ [a]))) [] (enumerate 0 (effectiveBulkModifierActions p))"

definition resolveDynamicImageRewriteFlow :: "DisasterInstance \<Rightarrow> string \<Rightarrow> string \<Rightarrow> err + modifierFlow" where
  "resolveDynamicImageRewriteFlow i bs bt =
     (case resolveModifierFlow bs bt (is_primaryCluster (in_status i)) (is_secondaryCluster (in_status i)) of
        Inr x \<Rightarrow> Inr (fst x)
      | Inl e \<Rightarrow> if trimSpace bs = [] \<or> trimSpace bt = [] then Inr FlowForward else Inl e)"

definition filterImageRewriteActionsForFlow :: "imageRewriteActionRule list \<Rightarrow> modifierFlow \<Rightarrow> imageRewriteActionRule list" where
  "filterImageRewriteActionsForFlow actions flow = filter (\<lambda>a. directionPolicyAllows (ia_directionPolicy a) flow) actions"

section \<open>Matching an image\<close>

definition imagePrefixMatches :: "string \<Rightarrow> string \<Rightarrow> bool" where
  "imagePrefixMatches im p =
     (let i = trimSpace im; n = normalizeImagePrefix p in i = n \<or> hasPrefix i (n @ ''/''))"

definition rewriteImageWithPrefix :: "string \<Rightarrow> string \<Rightarrow> string \<Rightarrow> string" where
  "rewriteImageWithPrefix im sp tp =
     (let i = trimSpace im; s = normalizeImagePrefix sp; t = normalizeImagePrefix tp in if i = s then t else t @ trimPrefix i s)"

definition pairValueForFlow :: "string \<Rightarrow> string \<Rightarrow> modifierFlow \<Rightarrow> string" where
  "pairValueForFlow sourceImage targetImage flow = (if flow = FlowReverse then sourceImage else targetImage)"

record imageCandidate =
  ic_rule :: imageRewriteActionRule
  ic_sourceImage :: string
  ic_targetImage :: string

datatype imageRewriteMatch = Unmatched | Matched imageCandidate | Ambiguous "imageCandidate list"

text \<open>The best length so far with the candidates of that length, from the first action on.\<close>

definition imageCandidates :: "string \<Rightarrow> modifierFlow \<Rightarrow> int \<times> imageCandidate list \<Rightarrow> imageRewriteActionRule \<Rightarrow> int \<times> imageCandidate list" where
  "imageCandidates current flow best a =
     (let matchPrefix = (if flow = FlowReverse then ia_targetPrefix a else ia_sourcePrefix a);
          rewritePrefix = (if flow = FlowReverse then ia_sourcePrefix a else ia_targetPrefix a);
          rewritten = rewriteImageWithPrefix current matchPrefix rewritePrefix;
          l = int (length matchPrefix);
          cand = (if flow = FlowReverse then \<lparr>ic_rule = a, ic_sourceImage = rewritten, ic_targetImage = current\<rparr>
                  else \<lparr>ic_rule = a, ic_sourceImage = current, ic_targetImage = rewritten\<rparr>)
      in if \<not> imagePrefixMatches current matchPrefix then best
         else if l > fst best then (l, [cand])
         else if l = fst best then (fst best, snd best @ [cand])
         else best)"

definition matchImageRewrite :: "string \<Rightarrow> imageRewriteActionRule list \<Rightarrow> modifierFlow \<Rightarrow> imageRewriteMatch" where
  "matchImageRewrite im actions flow =
     (let current = trimSpace im; cands = snd (foldl (imageCandidates current flow) (-1, []) actions) in
      if current = [] \<or> cands = [] then Unmatched
      else if length (remdups (map (\<lambda>c. pairValueForFlow (ic_sourceImage c) (ic_targetImage c) flow) cands)) > 1 then Ambiguous cands
      else Matched (hd (sort_key (\<lambda>c. ia_index (ic_rule c)) cands)))"

section \<open>The objects of the source\<close>

record imageRewriteObject =
  io_groupResource :: string
  io_namespace :: string
  io_name :: string
  io_images :: "(string \<times> string) list"

definition imagesAt :: "string \<Rightarrow> string \<Rightarrow> string list \<Rightarrow> (string \<times> string) list" where
  "imagesAt base field images = map (\<lambda>x. (base @ ''/'' @ field @ ''/'' @ dec (int (fst x)) @ ''/image'', snd x)) (enumerate 0 images)"

definition collectPodSpecImages :: "string \<Rightarrow> PodSpec \<Rightarrow> (string \<times> string) list" where
  "collectPodSpecImages base s = imagesAt base ''containers'' (ps_images s) @ imagesAt base ''initContainers'' (ps_initImages s) @
     imagesAt base ''ephemeralContainers'' (ps_ephemeralImages s)"

definition imageObject :: "string \<Rightarrow> string \<Rightarrow> ObjectMeta \<Rightarrow> PodSpec \<Rightarrow> imageRewriteObject" where
  "imageObject g base m s = \<lparr>io_groupResource = g, io_namespace = m_ns m, io_name = m_name m, io_images = collectPodSpecImages base s\<rparr>"

definition templateKinds :: "(string \<times> string) list" where
  "templateKinds = [(''daemonsets.apps'', ''daemonsets''), (''replicasets.apps'', ''replicasets''),
     (''replicationcontrollers'', ''replicationcontrollers''), (''jobs.batch'', ''jobs''), (''cronjobs.batch'', ''cronjobs'')]"

definition templateBase :: "string \<Rightarrow> string" where
  "templateBase g = (if g = ''cronjobs.batch'' then ''/spec/jobTemplate/spec/template/spec'' else ''/spec/template/spec'')"

definition listTemplates :: "string \<Rightarrow> string \<Rightarrow> string \<Rightarrow> (smap \<Rightarrow> bool) \<Rightarrow> TemplateObject list result" where
  "listTemplates c g ns P = apiListRaw (\<lambda>w. w_templates w c g) (\<lambda>x. m_ns (to_meta x) = ns \<and> P (m_labels (to_meta x)))"

definition collectInNamespace :: "string \<Rightarrow> (smap \<Rightarrow> bool) \<Rightarrow> string \<Rightarrow> imageRewriteObject list \<Rightarrow> imageRewriteObject list result" where
  "collectInNamespace c P ns0 acc =
     (let ns = trimSpace ns0 in
      if ns = [] then ok acc
      else chkWrap (''list deployments in '' @ ns @ '': '') (listMatching (deployKind c) ns P) (\<lambda>ds.
           chkWrap (''list statefulsets in '' @ ns @ '': '') (listMatching (stsKind c) ns P) (\<lambda>ss.
           chk (forEach (\<lambda>g out. chkWrap (''list '' @ snd g @ '' in '' @ ns @ '': '') (listTemplates c (fst g) ns P) (\<lambda>ts.
                  ok (out @ map (\<lambda>t. imageObject (fst g) (templateBase (fst g)) (to_meta t) (to_podSpec t)) ts))) templateKinds
                (acc @ map (\<lambda>d. imageObject ''deployments.apps'' ''/spec/template/spec'' (wl_meta d) (wl_podSpec d)) ds @
                       map (\<lambda>d. imageObject ''statefulsets.apps'' ''/spec/template/spec'' (wl_meta d) (wl_podSpec d)) ss)) (\<lambda>out.
           chkWrap (''list pods in '' @ ns @ '': '') (listMatching (podKind c) ns P) (\<lambda>ps.
           ok (out @ map (\<lambda>p. imageObject ''pods'' ''/spec'' (pod_meta p) (pod_spec p)) ps))))))"

definition collectImageRewriteObjects :: "matchers \<Rightarrow> string \<Rightarrow> DisasterInstance \<Rightarrow> imageRewriteObject list result" where
  "collectImageRewriteObjects M c i =
     (case selectorOf M (di_labelSelector (in_spec i)) of
        Inl e \<Rightarrow> fail e
      | Inr P \<Rightarrow> chk (forEach (collectInNamespace c P) (sort (di_namespaces (in_spec i))) []) (\<lambda>objs.
          ok (sort_key (\<lambda>x. (io_groupResource x, io_namespace x, io_name x)) objs)))"

section \<open>Rules\<close>

definition isForbiddenModifierPath :: "string \<Rightarrow> bool" where
  "isForbiddenModifierPath path0 =
     (let path = trimSpace path0 in
      list_ex (\<lambda>f. path = f \<or> hasPrefix path (f @ ''/'')) [''/status'', ''/metadata/finalizers'', ''/metadata/ownerReferences''])"

definition formatImageRewriteObject :: "imageRewriteObject \<Rightarrow> string" where
  "formatImageRewriteObject x =
     (if trimSpace (io_namespace x) = [] then io_groupResource x @ ''/'' @ io_name x
      else io_groupResource x @ ''/'' @ io_namespace x @ ''/'' @ io_name x)"

definition imageRewriteConflictError :: "imageRewriteObject \<Rightarrow> string \<Rightarrow> string \<Rightarrow> imageCandidate list \<Rightarrow> err" where
  "imageRewriteConflictError x path im cands =
     errorf (ModifierErrorRuleConflict @ '': image rewrite conflict resource='' @ formatImageRewriteObject x @ '' path='' @ path @ '' image='' @ im @
       '' actions='' @ joinWith '','' (sort (map (\<lambda>c.
         (if ia_id (ic_rule c) = [] then ''action['' @ dec (int (ia_index (ic_rule c))) @ '']'' else ia_id (ic_rule c)) @ '':'' @
         ic_sourceImage c @ ''->'' @ ic_targetImage c) cands)))"

definition imageRewriteUnmatchedError :: "string list \<Rightarrow> err" where
  "imageRewriteUnmatchedError unmatched =
     (let n = dec (int (length unmatched)) in
      errorf (ModifierErrorRuleRejected @ '': image rewrite unmatched ('' @ n @
        (if length unmatched > 5 then ''), first 5: '' @ joinWith ''; '' (take 5 unmatched) else ''): '' @ joinWith ''; '' unmatched)))"

text \<open>The rules so far with their keys, in the order they were found, and the images without a match.\<close>

record imageRules =
  im_rules :: "(string \<times> RestoreModifierRule) list"
  im_unmatched :: "string list"

definition imageRule :: "string \<Rightarrow> imageRewriteObject \<Rightarrow> string \<Rightarrow> nat \<Rightarrow> imageCandidate \<Rightarrow> RestoreModifierRule" where
  "imageRule applyTarget x path n c =
     \<lparr>rm_id = ''runtime-image-rewrite-'' @ padDec 4 (ia_index (ic_rule c)) @ ''-'' @ padDec 4 n, rm_mode = ''reversible'', rm_enabled = None,
      rm_applyTo = [applyTarget], rm_priority = -100,
      rm_conditions = \<lparr>co_groupResource = io_groupResource x, co_resourceNameRegex = exactResourceRegex (trimSpace (io_name x)),
         co_namespaces = [io_namespace x], co_labelSelector = None\<rparr>,
      rm_veleroRule = None, rm_pair = Some \<lparr>pa_path = path, pa_sourceValue = ic_sourceImage c, pa_targetValue = ic_targetImage c\<rparr>,
      rm_directionPolicy = normalizeDirectionPolicy (ia_directionPolicy (ic_rule c)), rm_onConflict = ''Fail''\<rparr>"

definition pairTarget :: "RestoreModifierRule \<Rightarrow> string" where
  "pairTarget x = (case rm_pair x of None \<Rightarrow> [] | Some p \<Rightarrow> pa_targetValue p)"

definition addImageRule :: "matchers \<Rightarrow> imageRewriteObject \<Rightarrow> string \<Rightarrow> RestoreModifierRule \<Rightarrow> imageRules \<Rightarrow> err + imageRules" where
  "addImageRule M x path rule st =
     (let key = makeConflictKey M (rm_conditions rule) \<lparr>jp_operation = ''add'', jp_path = path, jp_value = pairTarget rule, jp_from = []\<rparr> in
      case map_of (im_rules st) key of
        Some old \<Rightarrow>
          if pairTarget old \<noteq> pairTarget rule
          then Inl (errorf (ModifierErrorRuleConflict @ '': image rewrite conflict resource='' @ formatImageRewriteObject x @ '' path='' @ path @
                 '' existingRule='' @ rm_id old @ '' currentRule='' @ rm_id rule @ '' existingTarget='' @ pairTarget old @
                 '' currentTarget='' @ pairTarget rule))
          else Inr st
      | None \<Rightarrow> Inr (st\<lparr>im_rules := im_rules st @ [(key, rule)]\<rparr>))"

definition imageLocation :: "matchers \<Rightarrow> string \<Rightarrow> imageRewriteActionRule list \<Rightarrow> modifierFlow \<Rightarrow> imageRules \<Rightarrow>
    imageRewriteObject \<times> string \<times> string \<Rightarrow> err + imageRules" where
  "imageLocation M applyTarget actions flow st loc =
     (let x = fst loc; path = fst (snd loc); im = trimSpace (snd (snd loc)) in
      if im = [] \<or> isForbiddenModifierPath path then Inr st
      else case matchImageRewrite im actions flow of
        Ambiguous cands \<Rightarrow> Inl (imageRewriteConflictError x path im cands)
      | Unmatched \<Rightarrow>
          Inr (if list_ex (\<lambda>a. ia_unmatchedPolicy a = ''Fail'') actions
               then st\<lparr>im_unmatched := im_unmatched st @ [formatImageRewriteObject x @ '' '' @ path @ ''='' @ im]\<rparr> else st)
      | Matched c \<Rightarrow>
          if pairValueForFlow (ic_sourceImage c) (ic_targetImage c) flow = im then Inr st
          else addImageRule M x path (imageRule applyTarget x path (length (im_rules st)) c) st)"

definition imageLocations :: "imageRewriteObject list \<Rightarrow> (imageRewriteObject \<times> string \<times> string) list" where
  "imageLocations objs = concat (map (\<lambda>x. map (\<lambda>l. (x, l)) (io_images x)) objs)"

definition CompileDynamicImageRewriteRules :: "matchers \<Rightarrow> DisasterInstance \<Rightarrow> string \<Rightarrow> string \<Rightarrow> string \<Rightarrow> string \<Rightarrow> RestoreModifierRule list result" where
  "CompileDynamicImageRewriteRules M i c applyTarget baselineSource baselineTarget =
     (let bs = trimSpace baselineSource; bt = trimSpace baselineTarget in
      case di_restorePolicy (in_spec i) of
        None \<Rightarrow> ok []
      | Some p \<Rightarrow>
          chk (lift (collectImageRewriteActions p applyTarget)) (\<lambda>all.
          if all = [] then ok []
          else chk (lift (resolveDynamicImageRewriteFlow i bs bt)) (\<lambda>flow.
            let actions = filterImageRewriteActionsForFlow all flow in
            if actions = [] then ok []
            else chk (collectImageRewriteObjects M c i) (\<lambda>objs.
              chk (lift (foldE (imageLocation M applyTarget actions flow) \<lparr>im_rules = [], im_unmatched = []\<rparr> (imageLocations objs))) (\<lambda>st.
              if im_unmatched st \<noteq> [] then fail (imageRewriteUnmatchedError (sort (im_unmatched st)))
              else ok (map snd (im_rules st)))))))"

end
