(* ===== verification/DrillMessages.thy ===== *)
theory DrillMessages
  imports Prelude
begin

text \<open>
  The status messages of the drills (\<open>handleDrill\<close>, \<open>handleDrillCleanup\<close> and the package
  \<open>disasterdrill\<close>), byte for byte (UTF-8). The first group holds the key words from which
  \<open>mapDrillFailureMessageToReason\<close> derives a reason.
\<close>

text \<open>must not both be given\<close>

definition kwMutex :: "string" where
  "kwMutex =
     [CHR 0xE4, CHR 0xB8, CHR 0x8D, CHR 0xE8, CHR 0x83, CHR 0xBD, CHR 0xE5, CHR 0x90, CHR 0x8C,
     CHR 0xE6, CHR 0x97, CHR 0xB6, CHR 0xE6, CHR 0x8C, CHR 0x87, CHR 0xE5, CHR 0xAE, CHR 0x9A]"

text \<open>must be given\<close>

definition kwRequired :: "string" where
  "kwRequired =
     [CHR 0xE5, CHR 0xBF, CHR 0x85, CHR 0xE9, CHR 0xA1, CHR 0xBB, CHR 0xE6, CHR 0x8C, CHR 0x87,
     CHR 0xE5, CHR 0xAE, CHR 0x9A]"

text \<open>state is not Ready\<close>

definition kwNotReadyState :: "string" where
  "kwNotReadyState =
     [CHR 0xE7, CHR 0x8A, CHR 0xB6, CHR 0xE6, CHR 0x80, CHR 0x81, CHR 0xE4, CHR 0xB8, CHR 0x8D,
     CHR 0xE6, CHR 0x98, CHR 0xAF] @ '' Ready''"

text \<open>validation failed\<close>

definition kwValidation :: "string" where
  "kwValidation =
     [CHR 0xE6, CHR 0xA0, CHR 0xA1, CHR 0xE9, CHR 0xAA, CHR 0x8C, CHR 0xE5, CHR 0xA4, CHR 0xB1,
     CHR 0xE8, CHR 0xB4, CHR 0xA5]"

text \<open>dangerous operation stopped\<close>

definition kwDanger :: "string" where
  "kwDanger =
     [CHR 0xE5, CHR 0x8D, CHR 0xB1, CHR 0xE9, CHR 0x99, CHR 0xA9, CHR 0xE6, CHR 0x93, CHR 0x8D,
     CHR 0xE4, CHR 0xBD, CHR 0x9C, CHR 0xE6, CHR 0x8B, CHR 0xA6, CHR 0xE6, CHR 0x88, CHR 0xAA]"

text \<open>topology\<close>

definition kwTopology :: "string" where
  "kwTopology =
     [CHR 0xE6, CHR 0x8B, CHR 0x93, CHR 0xE6, CHR 0x89, CHR 0x91]"

text \<open>internal error\<close>

definition kwInternal :: "string" where
  "kwInternal =
     [CHR 0xE5, CHR 0x86, CHR 0x85, CHR 0xE9, CHR 0x83, CHR 0xA8, CHR 0xE9, CHR 0x94, CHR 0x99,
     CHR 0xE8, CHR 0xAF, CHR 0xAF]"

text \<open>missing\<close>

definition kwMissing :: "string" where
  "kwMissing =
     [CHR 0xE7, CHR 0xBC, CHR 0xBA, CHR 0xE5, CHR 0xB0, CHR 0x91]"

text \<open>cleanup\<close>

definition kwCleanup :: "string" where
  "kwCleanup =
     [CHR 0xE6, CHR 0xB8, CHR 0x85, CHR 0xE7, CHR 0x90, CHR 0x86]"

text \<open>drill failed\<close>

definition kwDrillFailed :: "string" where
  "kwDrillFailed =
     [CHR 0xE6, CHR 0xBC, CHR 0x94, CHR 0xE7, CHR 0xBB, CHR 0x83, CHR 0xE5, CHR 0xA4, CHR 0xB1,
     CHR 0xE8, CHR 0xB4, CHR 0xA5]"

text \<open>configuration not found\<close>

definition msgConfigNotFound :: "string \<Rightarrow> string" where
  "msgConfigNotFound a =
     ''DisasterConfig '' @ a @ '' '' @ [CHR 0xE6, CHR 0x9C, CHR 0xAA, CHR 0xE6, CHR 0x89, CHR 0xBE,
     CHR 0xE5, CHR 0x88, CHR 0xB0]"

text \<open>drill completed\<close>

definition msgDrillDone :: "string" where
  "msgDrillDone =
     [CHR 0xE6, CHR 0xBC, CHR 0x94, CHR 0xE7, CHR 0xBB, CHR 0x83, CHR 0xE5, CHR 0xAE, CHR 0x8C,
     CHR 0xE6, CHR 0x88, CHR 0x90]"

text \<open>cannot connect to the target cluster\<close>

definition msgCannotConnect :: "string \<Rightarrow> string \<Rightarrow> string" where
  "msgCannotConnect a b =
     [CHR 0xE6, CHR 0x97, CHR 0xA0, CHR 0xE6, CHR 0xB3, CHR 0x95, CHR 0xE8, CHR 0xBF, CHR 0x9E,
     CHR 0xE6, CHR 0x8E, CHR 0xA5, CHR 0xE7, CHR 0x9B, CHR 0xAE, CHR 0xE6, CHR 0xA0, CHR 0x87,
     CHR 0xE9, CHR 0x9B, CHR 0x86, CHR 0xE7, CHR 0xBE, CHR 0xA4] @ '' '' @ a @ '': '' @ b"

text \<open>scaling down for the cleanup failed\<close>

definition msgDrillScaleDownFailed :: "string \<Rightarrow> string" where
  "msgDrillScaleDownFailed a =
     [CHR 0xE6, CHR 0xB8, CHR 0x85, CHR 0xE7, CHR 0x90, CHR 0x86, CHR 0xE7, CHR 0xBC, CHR 0xA9,
     CHR 0xE5, CHR 0xAE, CHR 0xB9, CHR 0xE5, CHR 0xA4, CHR 0xB1, CHR 0xE8, CHR 0xB4, CHR 0xA5] @
     '': '' @ a"

text \<open>reading the mapped namespace failed\<close>

definition msgDrillNsGetFailed :: "string \<Rightarrow> string \<Rightarrow> string" where
  "msgDrillNsGetFailed a b =
     [CHR 0xE8, CHR 0x8E, CHR 0xB7, CHR 0xE5, CHR 0x8F, CHR 0x96, CHR 0xE6, CHR 0x98, CHR 0xA0,
     CHR 0xE5, CHR 0xB0, CHR 0x84, CHR 0xE5, CHR 0x91, CHR 0xBD, CHR 0xE5, CHR 0x90, CHR 0x8D,
     CHR 0xE7, CHR 0xA9, CHR 0xBA, CHR 0xE9, CHR 0x97, CHR 0xB4] @ '' '' @ a @ '' '' @ [CHR 0xE5,
     CHR 0xA4, CHR 0xB1, CHR 0xE8, CHR 0xB4, CHR 0xA5] @ '': '' @ b"

text \<open>deleting the mapped namespace failed\<close>

definition msgDrillNsDeleteFailed :: "string \<Rightarrow> string \<Rightarrow> string" where
  "msgDrillNsDeleteFailed a b =
     [CHR 0xE5, CHR 0x88, CHR 0xA0, CHR 0xE9, CHR 0x99, CHR 0xA4, CHR 0xE6, CHR 0x98, CHR 0xA0,
     CHR 0xE5, CHR 0xB0, CHR 0x84, CHR 0xE5, CHR 0x91, CHR 0xBD, CHR 0xE5, CHR 0x90, CHR 0x8D,
     CHR 0xE7, CHR 0xA9, CHR 0xBA, CHR 0xE9, CHR 0x97, CHR 0xB4] @ '' '' @ a @ '' '' @ [CHR 0xE5,
     CHR 0xA4, CHR 0xB1, CHR 0xE8, CHR 0xB4, CHR 0xA5] @ '': '' @ b"

text \<open>cleanup of the drill completed\<close>

definition msgDrillCleanupDone :: "string" where
  "msgDrillCleanupDone =
     [CHR 0xE6, CHR 0xBC, CHR 0x94, CHR 0xE7, CHR 0xBB, CHR 0x83, CHR 0xE8, CHR 0xB5, CHR 0x84,
     CHR 0xE6, CHR 0xBA, CHR 0x90, CHR 0xE6, CHR 0xB8, CHR 0x85, CHR 0xE7, CHR 0x90, CHR 0x86,
     CHR 0xE5, CHR 0xAE, CHR 0x8C, CHR 0xE6, CHR 0x88, CHR 0x90]"

text \<open>resource sync not found\<close>

definition msgResourceSyncNotFound :: "string" where
  "msgResourceSyncNotFound =
     ''ResourceSync '' @ [CHR 0xE6, CHR 0x9C, CHR 0xAA, CHR 0xE6, CHR 0x89, CHR 0xBE, CHR 0xE5,
     CHR 0x88, CHR 0xB0] @ '': ''"

text \<open>the resource sync has no backup\<close>

definition msgResourceSyncNoBackup :: "string" where
  "msgResourceSyncNoBackup =
     ''ResourceSync '' @ [CHR 0xE6, CHR 0xB2, CHR 0xA1, CHR 0xE6, CHR 0x9C, CHR 0x89, CHR 0xE5,
     CHR 0x8F, CHR 0xAF, CHR 0xE7, CHR 0x94, CHR 0xA8, CHR 0xE7, CHR 0x9A, CHR 0x84, CHR 0xE5,
     CHR 0xA4, CHR 0x87, CHR 0xE4, CHR 0xBB, CHR 0xBD]"

text \<open>data sync not found\<close>

definition msgDataSyncNotFound :: "string" where
  "msgDataSyncNotFound =
     ''DataSync '' @ [CHR 0xE6, CHR 0x9C, CHR 0xAA, CHR 0xE6, CHR 0x89, CHR 0xBE, CHR 0xE5, CHR 0x88,
     CHR 0xB0] @ '': ''"

text \<open>the data sync has no backup\<close>

definition msgDataSyncNoBackup :: "string" where
  "msgDataSyncNoBackup =
     ''DataSync '' @ [CHR 0xE6, CHR 0xB2, CHR 0xA1, CHR 0xE6, CHR 0x9C, CHR 0x89, CHR 0xE5, CHR 0x8F,
     CHR 0xAF, CHR 0xE7, CHR 0x94, CHR 0xA8, CHR 0xE7, CHR 0x9A, CHR 0x84, CHR 0xE5, CHR 0xA4,
     CHR 0x87, CHR 0xE4, CHR 0xBB, CHR 0xBD]"

text \<open>the restore failed\<close>

definition msgAppRestoreFailed :: "string \<Rightarrow> string \<Rightarrow> string \<Rightarrow> string" where
  "msgAppRestoreFailed a b c =
     ''AppRestore '' @ a @ '' '' @ [CHR 0xE5, CHR 0xA4, CHR 0xB1, CHR 0xE8, CHR 0xB4, CHR 0xA5] @
     '': status='' @ b @ '' message='' @ c"

text \<open>drill created, being validated\<close>

definition msgDrillCreated :: "string" where
  "msgDrillCreated =
     [CHR 0xE6, CHR 0xBC, CHR 0x94, CHR 0xE7, CHR 0xBB, CHR 0x83, CHR 0xE5, CHR 0xB7, CHR 0xB2,
     CHR 0xE5, CHR 0x88, CHR 0x9B, CHR 0xE5, CHR 0xBB, CHR 0xBA, CHR 0xEF, CHR 0xBC, CHR 0x8C,
     CHR 0xE6, CHR 0xAD, CHR 0xA3, CHR 0xE5, CHR 0x9C, CHR 0xA8, CHR 0xE6, CHR 0xA0, CHR 0xA1,
     CHR 0xE9, CHR 0xAA, CHR 0x8C] @ ''...''"

text \<open>instance and group must not both be given\<close>

definition msgDrillMutex :: "string" where
  "msgDrillMutex =
     ''InstanceName '' @ [CHR 0xE5, CHR 0x92, CHR 0x8C] @ '' GroupName '' @ [CHR 0xE4, CHR 0xB8,
     CHR 0x8D, CHR 0xE8, CHR 0x83, CHR 0xBD, CHR 0xE5, CHR 0x90, CHR 0x8C, CHR 0xE6, CHR 0x97,
     CHR 0xB6, CHR 0xE6, CHR 0x8C, CHR 0x87, CHR 0xE5, CHR 0xAE, CHR 0x9A]"

text \<open>an instance or a group must be given\<close>

definition msgDrillRequired :: "string" where
  "msgDrillRequired =
     [CHR 0xE5, CHR 0xBF, CHR 0x85, CHR 0xE9, CHR 0xA1, CHR 0xBB, CHR 0xE6, CHR 0x8C, CHR 0x87,
     CHR 0xE5, CHR 0xAE, CHR 0x9A] @ '' InstanceName '' @ [CHR 0xE6, CHR 0x88, CHR 0x96] @
     '' GroupName''"

text \<open>target cluster not found\<close>

definition msgDrillClusterNotFound :: "string \<Rightarrow> string" where
  "msgDrillClusterNotFound a =
     [CHR 0xE7, CHR 0x9B, CHR 0xAE, CHR 0xE6, CHR 0xA0, CHR 0x87, CHR 0xE9, CHR 0x9B, CHR 0x86,
     CHR 0xE7, CHR 0xBE, CHR 0xA4] @ '' '' @ a @ '' '' @ [CHR 0xE6, CHR 0x9C, CHR 0xAA, CHR 0xE6,
     CHR 0x89, CHR 0xBE, CHR 0xE5, CHR 0x88, CHR 0xB0]"

text \<open>target cluster is not Ready, it is s\<close>

definition msgDrillClusterNotReady :: "string \<Rightarrow> string \<Rightarrow> string" where
  "msgDrillClusterNotReady a b =
     [CHR 0xE7, CHR 0x9B, CHR 0xAE, CHR 0xE6, CHR 0xA0, CHR 0x87, CHR 0xE9, CHR 0x9B, CHR 0x86,
     CHR 0xE7, CHR 0xBE, CHR 0xA4] @ '' '' @ a @ '' '' @ [CHR 0xE7, CHR 0x8A, CHR 0xB6, CHR 0xE6,
     CHR 0x80, CHR 0x81, CHR 0xE4, CHR 0xB8, CHR 0x8D, CHR 0xE6, CHR 0x98, CHR 0xAF] @ '' Ready'' @
     [CHR 0xEF, CHR 0xBC, CHR 0x8C, CHR 0xE5, CHR 0xBD, CHR 0x93, CHR 0xE5, CHR 0x89, CHR 0x8D] @
     '': '' @ b"

text \<open>drill ready, waiting for the confirmation\<close>

definition msgDrillReady :: "string" where
  "msgDrillReady =
     [CHR 0xE6, CHR 0xBC, CHR 0x94, CHR 0xE7, CHR 0xBB, CHR 0x83, CHR 0xE5, CHR 0xB7, CHR 0xB2,
     CHR 0xE5, CHR 0xB0, CHR 0xB1, CHR 0xE7, CHR 0xBB, CHR 0xAA, CHR 0xEF, CHR 0xBC, CHR 0x8C,
     CHR 0xE8, CHR 0xAF, CHR 0xB7, CHR 0xE8, CHR 0xAE, CHR 0xBE, CHR 0xE7, CHR 0xBD, CHR 0xAE] @
     '' spec.confirmed=true '' @ [CHR 0xE5, CHR 0xBC, CHR 0x80, CHR 0xE5, CHR 0xA7, CHR 0x8B,
     CHR 0xE6, CHR 0x89, CHR 0xA7, CHR 0xE8, CHR 0xA1, CHR 0x8C]"

text \<open>the instance cannot be read\<close>

definition msgDrillInstanceUnreadable :: "string \<Rightarrow> string \<Rightarrow> string" where
  "msgDrillInstanceUnreadable a b =
     [CHR 0xE6, CHR 0x97, CHR 0xA0, CHR 0xE6, CHR 0xB3, CHR 0x95, CHR 0xE8, CHR 0x8E, CHR 0xB7,
     CHR 0xE5, CHR 0x8F, CHR 0x96, CHR 0xE5, CHR 0x85, CHR 0xB3, CHR 0xE8, CHR 0x81, CHR 0x94,
     CHR 0xE5, CHR 0xAE, CHR 0x9E, CHR 0xE4, CHR 0xBE, CHR 0x8B] @ '' '' @ a @ '': '' @ b"

text \<open>stopped: the target cluster has become the primary of the instance\<close>

definition msgDrillDanger :: "string \<Rightarrow> string" where
  "msgDrillDanger a =
     [CHR 0xE5, CHR 0x8D, CHR 0xB1, CHR 0xE9, CHR 0x99, CHR 0xA9, CHR 0xE6, CHR 0x93, CHR 0x8D,
     CHR 0xE4, CHR 0xBD, CHR 0x9C, CHR 0xE6, CHR 0x8B, CHR 0xA6, CHR 0xE6, CHR 0x88, CHR 0xAA,
     CHR 0xEF, CHR 0xBC, CHR 0x9A, CHR 0xE7, CHR 0x9B, CHR 0xAE, CHR 0xE6, CHR 0xA0, CHR 0x87,
     CHR 0xE9, CHR 0x9B, CHR 0x86, CHR 0xE7, CHR 0xBE, CHR 0xA4] @ '' '' @ a @ '' '' @ [CHR 0xE5,
     CHR 0xB7, CHR 0xB2, CHR 0xE5, CHR 0x8F, CHR 0x98, CHR 0xE6, CHR 0x9B, CHR 0xB4, CHR 0xE4,
     CHR 0xB8, CHR 0xBA, CHR 0xE5, CHR 0xAE, CHR 0x9E, CHR 0xE4, CHR 0xBE, CHR 0x8B, CHR 0xE4,
     CHR 0xB8, CHR 0xBA, CHR 0xE4, CHR 0xB8, CHR 0xBB, CHR 0xE9, CHR 0x9B, CHR 0x86, CHR 0xE7,
     CHR 0xBE, CHR 0xA4, CHR 0xEF, CHR 0xBC, CHR 0x88, CHR 0xE5, CHR 0x8F, CHR 0xAF, CHR 0xE8,
     CHR 0x83, CHR 0xBD, CHR 0xE5, CHR 0x8F, CHR 0x91, CHR 0xE7, CHR 0x94, CHR 0x9F, CHR 0xE4,
     CHR 0xB8, CHR 0xBB, CHR 0xE5, CHR 0xA4, CHR 0x87, CHR 0xE5, CHR 0x88, CHR 0x87, CHR 0xE6,
     CHR 0x8D, CHR 0xA2, CHR 0xEF, CHR 0xBC, CHR 0x89, CHR 0xEF, CHR 0xBC, CHR 0x8C, CHR 0xE8,
     CHR 0xAF, CHR 0xB7, CHR 0xE5, CHR 0x88, CHR 0xA0, CHR 0xE9, CHR 0x99, CHR 0xA4, CHR 0xE5,
     CHR 0xB9, CHR 0xB6, CHR 0xE9, CHR 0x87, CHR 0x8D, CHR 0xE5, CHR 0xBB, CHR 0xBA, CHR 0xE6,
     CHR 0xBC, CHR 0x94, CHR 0xE7, CHR 0xBB, CHR 0x83]"

text \<open>the backups did not pass the check before the execution\<close>

definition msgDrillRecheckFailed :: "string \<Rightarrow> string" where
  "msgDrillRecheckFailed a =
     [CHR 0xE6, CHR 0x89, CHR 0xA7, CHR 0xE8, CHR 0xA1, CHR 0x8C, CHR 0xE5, CHR 0x89, CHR 0x8D,
     CHR 0xE5, CHR 0xA4, CHR 0x87, CHR 0xE4, CHR 0xBB, CHR 0xBD, CHR 0xE5, CHR 0xA4, CHR 0x8D,
     CHR 0xE6, CHR 0xA0, CHR 0xB8, CHR 0xE5, CHR 0xA4, CHR 0xB1, CHR 0xE8, CHR 0xB4, CHR 0xA5] @
     '': '' @ a"

text \<open>drill running\<close>

definition msgDrillExecuting :: "string" where
  "msgDrillExecuting =
     [CHR 0xE6, CHR 0xBC, CHR 0x94, CHR 0xE7, CHR 0xBB, CHR 0x83, CHR 0xE6, CHR 0x89, CHR 0xA7,
     CHR 0xE8, CHR 0xA1, CHR 0x8C, CHR 0xE4, CHR 0xB8, CHR 0xAD] @ ''...''"

text \<open>internal error: no operation name\<close>

definition msgDrillNoOperation :: "string" where
  "msgDrillNoOperation =
     [CHR 0xE5, CHR 0x86, CHR 0x85, CHR 0xE9, CHR 0x83, CHR 0xA8, CHR 0xE9, CHR 0x94, CHR 0x99,
     CHR 0xE8, CHR 0xAF, CHR 0xAF, CHR 0xEF, CHR 0xBC, CHR 0x9A, CHR 0xE7, CHR 0xBC, CHR 0xBA,
     CHR 0xE5, CHR 0xB0, CHR 0x91] @ '' operationName''"

text \<open>operation not found\<close>

definition msgDrillOpNotFound :: "string \<Rightarrow> string" where
  "msgDrillOpNotFound a =
     ''DisasterOperation '' @ a @ '' '' @ [CHR 0xE6, CHR 0x9C, CHR 0xAA, CHR 0xE6, CHR 0x89,
     CHR 0xBE, CHR 0xE5, CHR 0x88, CHR 0xB0]"

text \<open>drill failed: m\<close>

definition msgDrillFailed :: "string \<Rightarrow> string" where
  "msgDrillFailed a =
     [CHR 0xE6, CHR 0xBC, CHR 0x94, CHR 0xE7, CHR 0xBB, CHR 0x83, CHR 0xE5, CHR 0xA4, CHR 0xB1,
     CHR 0xE8, CHR 0xB4, CHR 0xA5] @ '': '' @ a"

text \<open>cleaning up\<close>

definition msgDrillCleaning :: "string" where
  "msgDrillCleaning =
     [CHR 0xE6, CHR 0xAD, CHR 0xA3, CHR 0xE5, CHR 0x9C, CHR 0xA8, CHR 0xE6, CHR 0xB8, CHR 0x85,
     CHR 0xE7, CHR 0x90, CHR 0x86, CHR 0xE6, CHR 0xBC, CHR 0x94, CHR 0xE7, CHR 0xBB, CHR 0x83,
     CHR 0xE8, CHR 0xB5, CHR 0x84, CHR 0xE6, CHR 0xBA, CHR 0x90] @ ''...''"

text \<open>internal error: no name of a cleanup operation\<close>

definition msgDrillNoCleanupOp :: "string" where
  "msgDrillNoCleanupOp =
     [CHR 0xE5, CHR 0x86, CHR 0x85, CHR 0xE9, CHR 0x83, CHR 0xA8, CHR 0xE9, CHR 0x94, CHR 0x99,
     CHR 0xE8, CHR 0xAF, CHR 0xAF, CHR 0xEF, CHR 0xBC, CHR 0x9A, CHR 0xE7, CHR 0xBC, CHR 0xBA,
     CHR 0xE5, CHR 0xB0, CHR 0x91, CHR 0xE6, CHR 0xB8, CHR 0x85, CHR 0xE7, CHR 0x90, CHR 0x86] @
     '' operationName''"

text \<open>cleanup operation not found\<close>

definition msgDrillCleanupOpNotFound :: "string \<Rightarrow> string" where
  "msgDrillCleanupOpNotFound a =
     ''Drill Cleanup Operation '' @ a @ '' '' @ [CHR 0xE6, CHR 0x9C, CHR 0xAA, CHR 0xE6, CHR 0x89,
     CHR 0xBE, CHR 0xE5, CHR 0x88, CHR 0xB0]"

text \<open>cleanup failed: m\<close>

definition msgDrillCleanupFailed :: "string \<Rightarrow> string" where
  "msgDrillCleanupFailed a =
     [CHR 0xE6, CHR 0xBC, CHR 0x94, CHR 0xE7, CHR 0xBB, CHR 0x83, CHR 0xE8, CHR 0xB5, CHR 0x84,
     CHR 0xE6, CHR 0xBA, CHR 0x90, CHR 0xE6, CHR 0xB8, CHR 0x85, CHR 0xE7, CHR 0x90, CHR 0x86,
     CHR 0xE5, CHR 0xA4, CHR 0xB1, CHR 0xE8, CHR 0xB4, CHR 0xA5] @ '': '' @ a"

text \<open>the instance must be Protected or Active\<close>

definition msgDrillInstState :: "string \<Rightarrow> string" where
  "msgDrillInstState a =
     [CHR 0xE5, CHR 0xAE, CHR 0x9E, CHR 0xE4, CHR 0xBE, CHR 0x8B] @ '' '' @ a @ '' '' @ [CHR 0xE7,
     CHR 0x8A, CHR 0xB6, CHR 0xE6, CHR 0x80, CHR 0x81, CHR 0xE5, CHR 0xBF, CHR 0x85, CHR 0xE9,
     CHR 0xA1, CHR 0xBB, CHR 0xE6, CHR 0x98, CHR 0xAF] @ '' Protected '' @ [CHR 0xE6, CHR 0x88,
     CHR 0x96] @ '' Active''"

text \<open>instance of the group not found\<close>

definition msgDrillGroupInstNotFound :: "string \<Rightarrow> string" where
  "msgDrillGroupInstNotFound a =
     [CHR 0xE5, CHR 0xAE, CHR 0xB9, CHR 0xE7, CHR 0x81, CHR 0xBE, CHR 0xE7, CHR 0xBB, CHR 0x84,
     CHR 0xE5, CHR 0x86, CHR 0x85, CHR 0xE5, CHR 0xAE, CHR 0x9E, CHR 0xE4, CHR 0xBE, CHR 0x8B] @
     '' '' @ a @ '' '' @ [CHR 0xE6, CHR 0x9C, CHR 0xAA, CHR 0xE6, CHR 0x89, CHR 0xBE, CHR 0xE5,
     CHR 0x88, CHR 0xB0]"

text \<open>the group has no instance\<close>

definition msgDrillGroupEmpty :: "string \<Rightarrow> string" where
  "msgDrillGroupEmpty a =
     [CHR 0xE5, CHR 0xAE, CHR 0xB9, CHR 0xE7, CHR 0x81, CHR 0xBE, CHR 0xE7, CHR 0xBB, CHR 0x84] @
     '' '' @ a @ '' '' @ [CHR 0xE4, CHR 0xB8, CHR 0x8D, CHR 0xE5, CHR 0x8C, CHR 0x85, CHR 0xE5,
     CHR 0x90, CHR 0xAB, CHR 0xE5, CHR 0x8F, CHR 0xAF, CHR 0xE6, CHR 0xBC, CHR 0x94, CHR 0xE7,
     CHR 0xBB, CHR 0x83, CHR 0xE5, CHR 0xAE, CHR 0x9E, CHR 0xE4, CHR 0xBE, CHR 0x8B]"

text \<open>drill reset, being validated again\<close>

definition msgDrillReset :: "string" where
  "msgDrillReset =
     [CHR 0xE6, CHR 0xBC, CHR 0x94, CHR 0xE7, CHR 0xBB, CHR 0x83, CHR 0xE5, CHR 0xB7, CHR 0xB2,
     CHR 0xE9, CHR 0x87, CHR 0x8D, CHR 0xE7, CHR 0xBD, CHR 0xAE, CHR 0xEF, CHR 0xBC, CHR 0x8C,
     CHR 0xE9, CHR 0x87, CHR 0x8D, CHR 0xE6, CHR 0x96, CHR 0xB0, CHR 0xE5, CHR 0xBC, CHR 0x80,
     CHR 0xE5, CHR 0xA7, CHR 0x8B, CHR 0xE6, CHR 0xA0, CHR 0xA1, CHR 0xE9, CHR 0xAA, CHR 0x8C] @
     ''...''"

text \<open>no resource sync\<close>

definition msgRsMissing :: "string" where
  "msgRsMissing =
     ''ResourceSync '' @ [CHR 0xE6, CHR 0x9C, CHR 0xAA, CHR 0xE6, CHR 0x89, CHR 0xBE, CHR 0xE5,
     CHR 0x88, CHR 0xB0]"

text \<open>resource sync is not Ready, it is s\<close>

definition msgRsNotReady :: "string \<Rightarrow> string" where
  "msgRsNotReady a =
     ''ResourceSync '' @ [CHR 0xE7, CHR 0x8A, CHR 0xB6, CHR 0xE6, CHR 0x80, CHR 0x81, CHR 0xE4,
     CHR 0xB8, CHR 0x8D, CHR 0xE6, CHR 0x98, CHR 0xAF] @ '' Ready'' @ [CHR 0xEF, CHR 0xBC, CHR 0x8C,
     CHR 0xE5, CHR 0xBD, CHR 0x93, CHR 0xE5, CHR 0x89, CHR 0x8D] @ '': '' @ a"

text \<open>no backup of the resources\<close>

definition msgRsNoBackup :: "string" where
  "msgRsNoBackup =
     ''ResourceSync '' @ [CHR 0xE6, CHR 0xB2, CHR 0xA1, CHR 0xE6, CHR 0x9C, CHR 0x89, CHR 0xE5,
     CHR 0x8F, CHR 0xAF, CHR 0xE7, CHR 0x94, CHR 0xA8, CHR 0xE7, CHR 0x9A, CHR 0x84, CHR 0xE8,
     CHR 0xB5, CHR 0x84, CHR 0xE6, CHR 0xBA, CHR 0x90, CHR 0xE5, CHR 0xA4, CHR 0x87, CHR 0xE4,
     CHR 0xBB, CHR 0xBD]"

text \<open>no data sync\<close>

definition msgDsMissing :: "string" where
  "msgDsMissing =
     ''DataSync '' @ [CHR 0xE6, CHR 0x9C, CHR 0xAA, CHR 0xE6, CHR 0x89, CHR 0xBE, CHR 0xE5, CHR 0x88,
     CHR 0xB0]"

text \<open>data sync is not Ready, it is s\<close>

definition msgDsNotReady :: "string \<Rightarrow> string" where
  "msgDsNotReady a =
     ''DataSync '' @ [CHR 0xE7, CHR 0x8A, CHR 0xB6, CHR 0xE6, CHR 0x80, CHR 0x81, CHR 0xE4, CHR 0xB8,
     CHR 0x8D, CHR 0xE6, CHR 0x98, CHR 0xAF] @ '' Ready'' @ [CHR 0xEF, CHR 0xBC, CHR 0x8C, CHR 0xE5,
     CHR 0xBD, CHR 0x93, CHR 0xE5, CHR 0x89, CHR 0x8D] @ '': '' @ a"

text \<open>no volumes declared, but no history of a skipped sync\<close>

definition msgDsNoHistory :: "string" where
  "msgDsNoHistory =
     ''DataSync '' @ [CHR 0xE5, CHR 0xA3, CHR 0xB0, CHR 0xE6, CHR 0x98, CHR 0x8E] @ '' NoPVCFound'' @
     [CHR 0xEF, CHR 0xBC, CHR 0x8C, CHR 0xE4, CHR 0xBD, CHR 0x86, CHR 0xE7, CHR 0xBC, CHR 0xBA,
     CHR 0xE5, CHR 0xB0, CHR 0x91, CHR 0xE6, CHR 0x9C, CHR 0x80, CHR 0xE6, CHR 0x96, CHR 0xB0] @
     '' Skipped '' @ [CHR 0xE5, CHR 0x90, CHR 0x8C, CHR 0xE6, CHR 0xAD, CHR 0xA5, CHR 0xE5, CHR 0x8E,
     CHR 0x86, CHR 0xE5, CHR 0x8F, CHR 0xB2]"

text \<open>no volumes declared, but the latest sync was not skipped\<close>

definition msgDsNotSkipped :: "string \<Rightarrow> string" where
  "msgDsNotSkipped a =
     ''DataSync '' @ [CHR 0xE5, CHR 0xA3, CHR 0xB0, CHR 0xE6, CHR 0x98, CHR 0x8E] @ '' NoPVCFound'' @
     [CHR 0xEF, CHR 0xBC, CHR 0x8C, CHR 0xE4, CHR 0xBD, CHR 0x86, CHR 0xE6, CHR 0x9C, CHR 0x80,
     CHR 0xE6, CHR 0x96, CHR 0xB0, CHR 0xE5, CHR 0x90, CHR 0x8C, CHR 0xE6, CHR 0xAD, CHR 0xA5,
     CHR 0xE5, CHR 0x8E, CHR 0x86, CHR 0xE5, CHR 0x8F, CHR 0xB2, CHR 0xE7, CHR 0x8A, CHR 0xB6,
     CHR 0xE6, CHR 0x80, CHR 0x81, CHR 0xE4, CHR 0xB8, CHR 0xBA] @ '' '' @ a @ [CHR 0xEF, CHR 0xBC,
     CHR 0x8C, CHR 0xE4, CHR 0xB8, CHR 0x8D, CHR 0xE6, CHR 0x98, CHR 0xAF] @ '' Skipped''"

text \<open>no backup of the data, and no volumes not declared\<close>

definition msgDsNoBackup :: "string" where
  "msgDsNoBackup =
     ''DataSync '' @ [CHR 0xE6, CHR 0xB2, CHR 0xA1, CHR 0xE6, CHR 0x9C, CHR 0x89, CHR 0xE5, CHR 0x8F,
     CHR 0xAF, CHR 0xE7, CHR 0x94, CHR 0xA8, CHR 0xE7, CHR 0x9A, CHR 0x84, CHR 0xE6, CHR 0x95,
     CHR 0xB0, CHR 0xE6, CHR 0x8D, CHR 0xAE, CHR 0xE5, CHR 0xA4, CHR 0x87, CHR 0xE4, CHR 0xBB,
     CHR 0xBD, CHR 0xEF, CHR 0xBC, CHR 0x8C, CHR 0xE4, CHR 0xB8, CHR 0x94, CHR 0xE6, CHR 0x9C,
     CHR 0xAA, CHR 0xE6, CHR 0x98, CHR 0x8E, CHR 0xE7, CHR 0xA1, CHR 0xAE, CHR 0xE6, CHR 0xA0,
     CHR 0x87, CHR 0xE8, CHR 0xAE, CHR 0xB0] @ '' NoPVCFound''"

text \<open>the instance has no name of a data sync\<close>

definition msgNoDataSyncName :: "string \<Rightarrow> string" where
  "msgNoDataSyncName a =
     [CHR 0xE5, CHR 0xAE, CHR 0x9E, CHR 0xE4, CHR 0xBE, CHR 0x8B] @ '' '' @ a @ '' '' @ [CHR 0xE6,
     CHR 0x9C, CHR 0xAA, CHR 0xE8, CHR 0xAE, CHR 0xB0, CHR 0xE5, CHR 0xBD, CHR 0x95] @ '' DataSync ''
     @ [CHR 0xE5, CHR 0x90, CHR 0x8D, CHR 0xE7, CHR 0xA7, CHR 0xB0]"

text \<open>the instance has no name of a resource sync\<close>

definition msgNoResourceSyncName :: "string \<Rightarrow> string" where
  "msgNoResourceSyncName a =
     [CHR 0xE5, CHR 0xAE, CHR 0x9E, CHR 0xE4, CHR 0xBE, CHR 0x8B] @ '' '' @ a @ '' '' @ [CHR 0xE6,
     CHR 0x9C, CHR 0xAA, CHR 0xE8, CHR 0xAE, CHR 0xB0, CHR 0xE5, CHR 0xBD, CHR 0x95] @
     '' ResourceSync '' @ [CHR 0xE5, CHR 0x90, CHR 0x8D, CHR 0xE7, CHR 0xA7, CHR 0xB0]"

text \<open>reading the data sync failed\<close>

definition msgGetDataSync :: "string \<Rightarrow> string" where
  "msgGetDataSync a =
     [CHR 0xE8, CHR 0x8E, CHR 0xB7, CHR 0xE5, CHR 0x8F, CHR 0x96] @ '' DataSync '' @ a @ '' '' @
     [CHR 0xE5, CHR 0xA4, CHR 0xB1, CHR 0xE8, CHR 0xB4, CHR 0xA5] @ '': ''"

text \<open>the data sync belongs to another instance\<close>

definition msgDataSyncOwner :: "string \<Rightarrow> string \<Rightarrow> string \<Rightarrow> string" where
  "msgDataSyncOwner a b c =
     ''DataSync '' @ a @ '' '' @ [CHR 0xE5, CHR 0x85, CHR 0xB3, CHR 0xE8, CHR 0x81, CHR 0x94,
     CHR 0xE5, CHR 0xAE, CHR 0x9E, CHR 0xE4, CHR 0xBE, CHR 0x8B, CHR 0xE4, CHR 0xB8, CHR 0xBA] @
     '' '' @ b @ [CHR 0xEF, CHR 0xBC, CHR 0x8C, CHR 0xE4, CHR 0xB8, CHR 0x8D, CHR 0xE6, CHR 0x98,
     CHR 0xAF] @ '' '' @ c"

text \<open>reading the resource sync failed\<close>

definition msgGetResourceSync :: "string \<Rightarrow> string" where
  "msgGetResourceSync a =
     [CHR 0xE8, CHR 0x8E, CHR 0xB7, CHR 0xE5, CHR 0x8F, CHR 0x96] @ '' ResourceSync '' @ a @ '' '' @
     [CHR 0xE5, CHR 0xA4, CHR 0xB1, CHR 0xE8, CHR 0xB4, CHR 0xA5] @ '': ''"

text \<open>the resource sync belongs to another instance\<close>

definition msgResourceSyncOwner :: "string \<Rightarrow> string \<Rightarrow> string \<Rightarrow> string" where
  "msgResourceSyncOwner a b c =
     ''ResourceSync '' @ a @ '' '' @ [CHR 0xE5, CHR 0x85, CHR 0xB3, CHR 0xE8, CHR 0x81, CHR 0x94,
     CHR 0xE5, CHR 0xAE, CHR 0x9E, CHR 0xE4, CHR 0xBE, CHR 0x8B, CHR 0xE4, CHR 0xB8, CHR 0xBA] @
     '' '' @ b @ [CHR 0xEF, CHR 0xBC, CHR 0x8C, CHR 0xE4, CHR 0xB8, CHR 0x8D, CHR 0xE6, CHR 0x98,
     CHR 0xAF] @ '' '' @ c"

text \<open>the backups of the instance are not valid\<close>

definition msgModeInvalid :: "string \<Rightarrow> string" where
  "msgModeInvalid a =
     [CHR 0xE5, CHR 0xAE, CHR 0x9E, CHR 0xE4, CHR 0xBE, CHR 0x8B] @ '' '' @ a @ '' '' @ [CHR 0xE5,
     CHR 0xA4, CHR 0x87, CHR 0xE4, CHR 0xBB, CHR 0xBD, CHR 0xE6, CHR 0xA0, CHR 0xA1, CHR 0xE9,
     CHR 0xAA, CHR 0x8C, CHR 0xE5, CHR 0xA4, CHR 0xB1, CHR 0xE8, CHR 0xB4, CHR 0xA5] @ '': ''"

text \<open>reading the instance failed\<close>

definition msgGetInstance :: "string \<Rightarrow> string" where
  "msgGetInstance a =
     [CHR 0xE8, CHR 0x8E, CHR 0xB7, CHR 0xE5, CHR 0x8F, CHR 0x96] @ '' DisasterInstance '' @ a @
     '' '' @ [CHR 0xE5, CHR 0xA4, CHR 0xB1, CHR 0xE8, CHR 0xB4, CHR 0xA5] @ '': ''"

text \<open>reading the group failed\<close>

definition msgGetGroup :: "string \<Rightarrow> string" where
  "msgGetGroup a =
     [CHR 0xE8, CHR 0x8E, CHR 0xB7, CHR 0xE5, CHR 0x8F, CHR 0x96] @ '' DisasterGroup '' @ a @ '' '' @
     [CHR 0xE5, CHR 0xA4, CHR 0xB1, CHR 0xE8, CHR 0xB4, CHR 0xA5] @ '': ''"

text \<open>reading an instance of the group failed\<close>

definition msgGetGroupInstance :: "string \<Rightarrow> string" where
  "msgGetGroupInstance a =
     [CHR 0xE8, CHR 0x8E, CHR 0xB7, CHR 0xE5, CHR 0x8F, CHR 0x96, CHR 0xE5, CHR 0xAE, CHR 0xB9,
     CHR 0xE7, CHR 0x81, CHR 0xBE, CHR 0xE7, CHR 0xBB, CHR 0x84, CHR 0xE5, CHR 0xAE, CHR 0x9E,
     CHR 0xE4, CHR 0xBE, CHR 0x8B] @ '' '' @ a @ '' '' @ [CHR 0xE5, CHR 0xA4, CHR 0xB1, CHR 0xE8,
     CHR 0xB4, CHR 0xA5] @ '': ''"

text \<open>the group has no instance\<close>

definition msgGroupNoInstance :: "string \<Rightarrow> string" where
  "msgGroupNoInstance a =
     ''DisasterGroup '' @ a @ '' '' @ [CHR 0xE4, CHR 0xB8, CHR 0x8D, CHR 0xE5, CHR 0x8C, CHR 0x85,
     CHR 0xE5, CHR 0x90, CHR 0xAB, CHR 0xE5, CHR 0x8F, CHR 0xAF, CHR 0xE6, CHR 0xBC, CHR 0x94,
     CHR 0xE7, CHR 0xBB, CHR 0x83, CHR 0xE5, CHR 0xAE, CHR 0x9E, CHR 0xE4, CHR 0xBE, CHR 0x8B]"

text \<open>the restore modes have changed since the drill was ready\<close>

definition msgModesChanged :: "string \<Rightarrow> string \<Rightarrow> string" where
  "msgModesChanged a b =
     [CHR 0xE6, CHR 0xBC, CHR 0x94, CHR 0xE7, CHR 0xBB, CHR 0x83] @ '' Ready '' @ [CHR 0xE5,
     CHR 0x90, CHR 0x8E, CHR 0xE5, CHR 0xA4, CHR 0x87, CHR 0xE4, CHR 0xBB, CHR 0xBD, CHR 0xE6,
     CHR 0x81, CHR 0xA2, CHR 0xE5, CHR 0xA4, CHR 0x8D, CHR 0xE6, CHR 0xA8, CHR 0xA1, CHR 0xE5,
     CHR 0xBC, CHR 0x8F, CHR 0xE5, CHR 0x8F, CHR 0x91, CHR 0xE7, CHR 0x94, CHR 0x9F, CHR 0xE5,
     CHR 0x8F, CHR 0x98, CHR 0xE5, CHR 0x8C, CHR 0x96, CHR 0xEF, CHR 0xBC, CHR 0x8C, CHR 0xE5,
     CHR 0x8E, CHR 0x9F, CHR 0xE5, CHR 0xBF, CHR 0xAB, CHR 0xE7, CHR 0x85, CHR 0xA7] @ ''='' @ a @
     [CHR 0xEF, CHR 0xBC, CHR 0x8C, CHR 0xE5, CHR 0xBD, CHR 0x93, CHR 0xE5, CHR 0x89, CHR 0x8D] @
     ''='' @ b @ [CHR 0xEF, CHR 0xBC, CHR 0x8C, CHR 0xE8, CHR 0xAF, CHR 0xB7, CHR 0xE9, CHR 0x87,
     CHR 0x8D, CHR 0xE6, CHR 0x96, CHR 0xB0, CHR 0xE5, CHR 0x88, CHR 0x9B, CHR 0xE5, CHR 0xBB,
     CHR 0xBA, CHR 0xE6, CHR 0x88, CHR 0x96, CHR 0xE9, CHR 0x87, CHR 0x8D, CHR 0xE7, CHR 0xBD,
     CHR 0xAE, CHR 0xE6, CHR 0xBC, CHR 0x94, CHR 0xE7, CHR 0xBB, CHR 0x83]"

lemmas drill_keyword_defs = kwMutex_def kwRequired_def kwNotReadyState_def kwValidation_def kwDanger_def kwTopology_def kwInternal_def kwMissing_def kwCleanup_def kwDrillFailed_def

end
