(* ===== verification/OpDrill.thy ===== *)
theory OpDrill
  imports OpHandlers RestoreBuild Trafficless DynamicImages DrillMessages
begin

text \<open>
  The drill handlers of the operation controller (\<open>handleDrill\<close>, \<open>handleDrillCleanup\<close> and
  what they call in \<open>controller.go\<close>): a drill restores the latest backups into a target
  cluster, data only when the instance has volumes, and scales the workloads up there; its
  cleanup deletes the mapped namespaces, or scales the workloads of the target down when no
  namespace is mapped. A step returns the operation as it is in memory with its outcome,
  since the handler writes that object afterwards, whatever the outcome.
\<close>

section \<open>Image rewriting of a drill\<close>

definition unmatchedError :: "string list \<Rightarrow> err" where
  "unmatchedError unmatched =
     errorf (''image rewrite unmatched ('' @ dec (int (length unmatched)) @ ''): '' @
       (if length unmatched > 5 then joinWith ''; '' (take 5 unmatched) @ '' ...'' else joinWith ''; '' unmatched))"

definition buildImageRewriteRulesForDrill :: "reconciler \<Rightarrow> DisasterConfig \<Rightarrow> DisasterInstance \<Rightarrow> string \<Rightarrow> string \<Rightarrow>
    ResourceModifierRule list result" where
  "buildImageRewriteRulesForDrill r cfg i source target =
     chkWrap (''get source cluster '' @ source @ '': '') (apiGet clusterKind ([], source)) (\<lambda>s.
     chkWrap (''get target cluster '' @ target @ '': '') (apiGet clusterKind ([], target)) (\<lambda>t.
     chk (lift (ResolveRegistryMappings (Some s) (Some t) (cfg_imageRewrite cfg) ''drill'')) (\<lambda>(ms, policy, enabled).
       if \<not> enabled then ok []
       else chkWrap ''build source cluster client for drill image rewrite: '' (getClusterClient source) (\<lambda>_.
            chk (CollectWorkloads (r_matchers r) source (di_namespaces (in_spec i)) (di_labelSelector (in_spec i))) (\<lambda>(ds, ss).
              let x = BuildRulesFromWorkloads ds ss ms policy in
              if policy = ''Fail'' \<and> snd x \<noteq> [] then fail (unmatchedError (snd x)) else ok (fst x))))))"

section \<open>Trafficless pods of a drill\<close>

definition makeDrillTrafficlessModifiers :: "TrafficlessRuntime \<Rightarrow> ResourceModifierRule list" where
  "makeDrillTrafficlessModifiers rt =
     (let im = (if tlr_image rt = [] then DefaultTrafficlessImage else tlr_image rt);
          command = (if tlr_command rt = [] then [''sleep'', ''3600''] else tlr_command rt)
      in [\<lparr>mr_conditions = forResource ''pods'' [],
           mr_patches =
             [patchOf ''add'' ''/metadata/labels'' trafficlessLabels,
              patchOf ''add'' ''/metadata/ownerReferences'' ''[]'',
              patchOf ''add'' ''/spec/nodeName'' [],
              patchOf ''add'' ''/spec/nodeSelector'' ''{}'',
              patchOf ''add'' ''/spec/affinity'' ''{}'',
              patchOf ''replace'' ''/spec/containers/0/image'' im,
              patchOf ''add'' ''/spec/containers/0/command'' (jsonText (JArray (map JString command))),
              patchOf ''add'' ''/spec/containers/0/args'' ''[]''] @
             (case TrafficlessImagePullSecretsPatch (tlr_pullSecretName rt) of None \<Rightarrow> [] | Some p \<Rightarrow> [p])\<rparr>])"

definition isTrafficless :: "string \<Rightarrow> Pod \<Rightarrow> bool" where
  "isTrafficless ns p \<longleftrightarrow> inNamespace (podKind []) ns p \<and> map_of (m_labels (pod_meta p)) ''trafficless'' = Some ''true''"

definition deletePod :: "reconciler \<Rightarrow> string \<Rightarrow> Pod \<Rightarrow> unit result" where
  "deletePod r c p = do {
     x \<leftarrow> apiDelete (r_now r) (podKind c) (metaKey (pod_meta p));
     (case x of Inl e \<Rightarrow> ignoreNotFound e | Inr _ \<Rightarrow> ok ()) }"

definition cleanupTrafficlessPods :: "reconciler \<Rightarrow> DisasterInstance \<Rightarrow> string \<Rightarrow> smap \<Rightarrow> bool result" where
  "cleanupTrafficlessPods r i c nm =
     chk (getClusterClient c) (\<lambda>_.
     forEach (\<lambda>ns allClean.
       chk (apiListRaw (\<lambda>w. w_pods w c) (isTrafficless (mapNamespace nm ns))) (\<lambda>ps.
         if ps = [] then ok allClean
         else chk (forEach (\<lambda>p _. deletePod r c p) ps ()) (\<lambda>_. ok False))) (di_namespaces (in_spec i)) True)"

text \<open>Volumes are unbound from their old volume when a namespace is mapped to another one.\<close>

definition shouldDrillCleanupPVCVolumeName :: "smap \<Rightarrow> bool" where
  "shouldDrillCleanupPVCVolumeName nm \<longleftrightarrow>
     list_ex (\<lambda>(s, t). trimSpace s \<noteq> [] \<and> trimSpace t \<noteq> [] \<and> trimSpace s \<noteq> trimSpace t) nm"

definition drillPVCVolumeCleanupNamespaces :: "string list \<Rightarrow> smap \<Rightarrow> string list" where
  "drillPVCVolumeCleanupNamespaces sources nm = foldl appendNS [] (sources @ map snd nm)"

definition buildDrillPVCVolumeNameCleanupRule :: "DisasterInstance \<Rightarrow> smap \<Rightarrow> ResourceModifierRule option" where
  "buildDrillPVCVolumeNameCleanupRule i nm =
     (if \<not> shouldDrillCleanupPVCVolumeName nm then None
      else Some (MakePVCVolumeNameCleanupRule (drillPVCVolumeCleanupNamespaces (di_namespaces (in_spec i)) nm)))"

definition resolveDrillDataRestoreHooks :: "DisasterInstance \<Rightarrow> DrillConfig option \<Rightarrow> RestoreHooks option" where
  "resolveDrillDataRestoreHooks i dc =
     (case Option.bind dc dc_veleroHooks of
        Some h \<Rightarrow> vh_dataRestore h
      | None \<Rightarrow> Option.bind (di_veleroHooks (in_spec i)) vh_dataRestore)"

section \<open>The restores of a drill\<close>

definition drillPolicy :: "DisasterOperation \<Rightarrow> RestorePolicy option" where
  "drillPolicy op = Option.bind (sp_drillConfig (op_spec op)) dc_restorePolicy"

definition drillMapping :: "DisasterOperation \<Rightarrow> smap" where
  "drillMapping op = (case sp_drillConfig (op_spec op) of None \<Rightarrow> [] | Some dc \<Rightarrow> dc_namespaceMapping dc)"

definition drillRestoreName :: "reconciler \<Rightarrow> string \<Rightarrow> string \<Rightarrow> string" where
  "drillRestoreName r tag name = tag @ ''-'' @ take 10 name @ ''-'' @ take 6 (r_md5hex r name)"

definition drillLabels :: "reconciler \<Rightarrow> DisasterOperation \<Rightarrow> DisasterInstance \<Rightarrow> string \<Rightarrow> smap" where
  "drillLabels r op i ty =
     [(''testudo.softcdata.com/drill'', truncateLabelValue r (opName op)),
      (''testudo.softcdata.com/instance'', truncateLabelValue r (instName i)),
      (''testudo.softcdata.com/restore-type'', ty)]"

definition drillAppRestore :: "reconciler \<Rightarrow> DisasterOperation \<Rightarrow> DisasterInstance \<Rightarrow> string \<Rightarrow> string \<Rightarrow> AppRestoreSpec \<Rightarrow> PolicySummary \<Rightarrow> AppRestore" where
  "drillAppRestore r op i tag ty spec s =
     \<lparr>ar_meta = ApplyPolicySummaryAnnotations s ((newMeta (instNs i) (drillRestoreName r tag (opName op)))\<lparr>m_labels := drillLabels r op i ty\<rparr>),
      ar_spec = spec, ar_phase = PhaseNone, ar_reason = [], ar_message = [], ar_itemsRestored = None, ar_hookStatus = None\<rparr>"

definition drillOptions :: "DisasterConfig \<Rightarrow> DisasterOperation \<Rightarrow> ApplyInstanceRestorePolicyOptions" where
  "drillOptions cfg op =
     (WithBaselineClusters (cfg_sourceCluster cfg) (cfg_targetCluster cfg) defaultApplyInstanceRestorePolicyOptions)
       \<lparr>ao_applyTarget := ''drill'', ao_restorePolicyOverride := drillPolicy op\<rparr>"

text \<open>The policy is applied and the restore is ready to be created.\<close>

definition finishDrillRestore :: "reconciler \<Rightarrow> DisasterOperation \<Rightarrow> DisasterInstance \<Rightarrow> string \<Rightarrow> string \<Rightarrow> string \<Rightarrow> string \<Rightarrow>
    AppRestoreSpec \<Rightarrow> ApplyInstanceRestorePolicyOptions \<Rightarrow> bool \<Rightarrow> AppRestore result" where
  "finishDrillRestore r op i target tag ty errText spec ao haveClient =
     (let strict = RequiresTargetClassValidationWithOverride i (drillPolicy op) in
      chkWrap ''build target cluster client for restore policy: '' (if strict \<and> \<not> haveClient then getClusterClient target else ok ()) (\<lambda>_.
      chkWrap errText (ApplyInstanceRestorePolicy (r_matchers r) spec i (if strict \<or> haveClient then Some target else None) ao) (\<lambda>(spec', s). do {
        emit (opName op) ''ExecutionProgress'';
        ok (drillAppRestore r op i tag ty spec' s) })))"

definition drillRuntimeRules :: "reconciler \<Rightarrow> DisasterOperation \<Rightarrow> DisasterInstance \<Rightarrow> DisasterConfig \<Rightarrow> string \<Rightarrow> RestoreModifierRule list result" where
  "drillRuntimeRules r op i cfg source =
     (let eff = i\<lparr>in_spec := (in_spec i)\<lparr>di_restorePolicy := EffectiveRestorePolicy i (drillPolicy op)\<rparr>\<rparr> in
      if \<not> HasDynamicImageRewriteActions (di_restorePolicy (in_spec eff)) ''drill'' then ok []
      else chkWrap ''build drill source cluster client for dynamic image rewrite: '' (getClusterClient source) (\<lambda>_.
           chkWrap ''compile drill dynamic image rewrite rules: ''
             (CompileDynamicImageRewriteRules (r_matchers r) eff source ''drill'' (cfg_sourceCluster cfg) (cfg_targetCluster cfg)) ok))"

definition drillResourceRestore :: "reconciler \<Rightarrow> DisasterOperation \<Rightarrow> DisasterInstance \<Rightarrow> DisasterConfig \<Rightarrow> string \<Rightarrow> AppRestore result" where
  "drillResourceRestore r op i cfg target =
     chkWrap msgResourceSyncNotFound (apiGet rsKind (instNs i, is_resourceSyncName (in_status i))) (\<lambda>rs.
     let backup = ss_lastBackupName (so_status rs); source = primaryOr i cfg in
     if backup = [] then fail (errorf msgResourceSyncNoBackup)
     else chkWrap ''build drill image rewrite rules: '' (buildImageRewriteRulesForDrill r cfg i source target) (\<lambda>rules.
          chk (drillRuntimeRules r op i cfg source) (\<lambda>runtime.
          finishDrillRestore r op i target ''drr'' ''resource'' ''apply drill restore policy: ''
            (BuildAppRestoreSpec \<lparr>bc_restoreType = RestoreTypeResource, bc_backupSource = backup, bc_backupName = backup,
               bc_targetCluster = target, bc_sourceCluster = source, bc_storageRepository = cfg_storageRepository cfg,
               bc_includedNamespaces = di_namespaces (in_spec i), bc_namespaceMapping = drillMapping op, bc_isForDrill = True,
               bc_extraResourceModifierRules = rules, bc_dataResourceModifierRules = [], bc_dataRestoreHooks = None\<rparr>)
            ((drillOptions cfg op)\<lparr>ao_runtimeModifierRules := runtime\<rparr>) False)))"

text \<open>The trafficless runtime, with its pull secret copied to the target namespaces when it has one.\<close>

definition drillRuntime :: "reconciler \<Rightarrow> DisasterOperation \<Rightarrow> DisasterInstance \<Rightarrow> SyncObject \<Rightarrow> string \<Rightarrow> TrafficlessRuntime result" where
  "drillRuntime r op i dsync target =
     chk (ResolveTrafficlessRuntime target (ss_trafficless (so_spec dsync))) (\<lambda>(rt, cl).
       if tlr_pullSecretName rt = [] then ok rt
       else chkWrap ''build target cluster client for trafficless registry secret: '' (getClusterClient target) (\<lambda>_.
            chkWrap ''sync drill trafficless registry pull secret: ''
              (SyncTrafficlessRegistryPullSecret (r_managementNamespace r) target cl
                 (TrafficlessRestoreNamespaces (di_namespaces (in_spec i)) (drillMapping op))) (\<lambda>_. ok rt)))"

definition drillDataRestore :: "reconciler \<Rightarrow> DisasterOperation \<Rightarrow> DisasterInstance \<Rightarrow> DisasterConfig \<Rightarrow> string \<Rightarrow> AppRestore result" where
  "drillDataRestore r op i cfg target =
     chkWrap msgDataSyncNotFound (apiGet dsKind (instNs i, is_dataSyncName (in_status i))) (\<lambda>dsync.
     let backup = ss_lastBackupName (so_status dsync); nm = drillMapping op;
         hooks = PrepareTrafficlessDataRestoreHooks (resolveDrillDataRestoreHooks i (sp_drillConfig (op_spec op))) (di_namespaces (in_spec i)) nm;
         cleanup = (case buildDrillPVCVolumeNameCleanupRule i nm of None \<Rightarrow> [] | Some x \<Rightarrow> [x]);
         hasPolicy = (di_restorePolicy (in_spec i) \<noteq> None \<or> drillPolicy op \<noteq> None) in
     if backup = [] then fail (errorf msgDataSyncNoBackup)
     else chk (drillRuntime r op i dsync target) (\<lambda>rt.
       let spec = BuildAppRestoreSpec \<lparr>bc_restoreType = RestoreTypeData, bc_backupSource = backup, bc_backupName = backup,
             bc_targetCluster = target, bc_sourceCluster = is_primaryCluster (in_status i), bc_storageRepository = cfg_storageRepository cfg,
             bc_includedNamespaces = di_namespaces (in_spec i), bc_namespaceMapping = nm, bc_isForDrill = True,
             bc_extraResourceModifierRules = [], bc_dataResourceModifierRules = makeDrillTrafficlessModifiers rt, bc_dataRestoreHooks = fst hooks\<rparr> in
       finishDrillRestore r op i target ''ddr'' ''data'' ''apply drill restore policy: ''
         (if hasPolicy then spec else spec\<lparr>ars_modifierRules := ars_modifierRules spec @ snd hooks @ cleanup\<rparr>)
         (if hasPolicy then (drillOptions cfg op)\<lparr>ao_systemProtectRules := cleanup @ snd hooks\<rparr> else drillOptions cfg op)
         (tlr_pullSecretName rt \<noteq> [])))"

section \<open>The steps\<close>

type_synonym stepOutcome = "(DisasterOperation \<times> (err + bool)) action"

definition orFail :: "DisasterOperation \<Rightarrow> 'a result \<Rightarrow> ('a \<Rightarrow> stepOutcome) \<Rightarrow> stepOutcome" where
  "orFail op m k = do { x \<leftarrow> m; (case x of Inl e \<Rightarrow> ret (op, Inl e) | Inr y \<Rightarrow> k y) }"

definition panicErr :: err where
  "panicErr = \<lparr>err_kind = Panic, err_text = ''invalid memory address or nil pointer dereference''\<rparr>"

definition checkAppRestoreStatus :: "string \<Rightarrow> string \<Rightarrow> bool result" where
  "checkAppRestoreStatus ns name =
     chk (apiGet restoreKind (ns, name)) (\<lambda>ar.
       if ar_phase ar = PhaseSucceeded then ok True
       else if IsFailedAppRestorePhase (ar_phase ar) then fail (errorf (msgAppRestoreFailed name (phaseString (ar_phase ar)) (ar_message ar)))
       else ok False)"

definition findAppRestoreByLabel :: "reconciler \<Rightarrow> string \<Rightarrow> string \<Rightarrow> string \<Rightarrow> AppRestore option result" where
  "findAppRestoreByLabel r ns operationName ty =
     chk (apiListRaw w_restores (\<lambda>x. inNamespace restoreKind ns x \<and>
            map_of (m_labels (ar_meta x)) ''testudo.softcdata.com/drill'' = Some (truncateLabelValue r operationName) \<and>
            map_of (m_labels (ar_meta x)) ''testudo.softcdata.com/restore-type'' = Some ty)) (\<lambda>xs.
       ok (case xs of [] \<Rightarrow> None | x # _ \<Rightarrow> Some x))"

text \<open>The name of the restore is recorded in the status, and the step waits.\<close>

definition recordRestore :: "(string \<Rightarrow> DisasterOperation \<Rightarrow> DisasterOperation) \<Rightarrow> string \<Rightarrow> DisasterOperation \<Rightarrow> stepOutcome" where
  "recordRestore setName name op =
     orFail (setName name op) (apiStatusUpdate opKind (setName name op)) (\<lambda>op'. ret (op', Inr False))"

definition setResourceRestore :: "string \<Rightarrow> DisasterOperation \<Rightarrow> DisasterOperation" where
  "setResourceRestore n op = setStatus (\<lambda>s. s\<lparr>os_resourceRestoreName := n\<rparr>) op"

definition setDataRestore :: "string \<Rightarrow> DisasterOperation \<Rightarrow> DisasterOperation" where
  "setDataRestore n op = setStatus (\<lambda>s. s\<lparr>os_dataRestoreName := n\<rparr>) op"

text \<open>An existing restore of the drill is adopted, otherwise one is created.\<close>

definition adoptOrCreate :: "reconciler \<Rightarrow> DisasterOperation \<Rightarrow> DisasterInstance \<Rightarrow> string \<Rightarrow>
    (string \<Rightarrow> DisasterOperation \<Rightarrow> DisasterOperation) \<Rightarrow> AppRestore result \<Rightarrow> stepOutcome" where
  "adoptOrCreate r op i ty setName build =
     orFail op (findAppRestoreByLabel r (instNs i) (opName op) ty) (\<lambda>f.
       case f of
         Some ar \<Rightarrow> recordRestore setName (m_name (ar_meta ar)) op
       | None \<Rightarrow> orFail op build (\<lambda>ar. do {
           x \<leftarrow> apiCreate restoreKind ar;
           (case x of
              Inl e \<Rightarrow> if err_kind e = AlreadyExists then recordRestore setName (m_name (ar_meta ar)) op else ret (op, Inl e)
            | Inr _ \<Rightarrow> recordRestore setName (m_name (ar_meta ar)) op) }))"

definition outcome :: "DisasterOperation \<Rightarrow> bool result \<Rightarrow> stepOutcome" where
  "outcome op m = do { x \<leftarrow> m; ret (op, x) }"

definition executeDrillRestoreResource :: "reconciler \<Rightarrow> DisasterInstance \<Rightarrow> DisasterOperation \<Rightarrow> string \<Rightarrow> stepOutcome" where
  "executeDrillRestoreResource r i op target =
     orFail op (getConfig (configErr i) i ok) (\<lambda>cfg.
       if os_resourceRestoreName (op_status op) \<noteq> []
       then outcome op (checkAppRestoreStatus (instNs i) (os_resourceRestoreName (op_status op)))
       else adoptOrCreate r op i ''resource'' setResourceRestore (drillResourceRestore r op i cfg target))"

definition executeDrillRestoreData :: "reconciler \<Rightarrow> DisasterInstance \<Rightarrow> DisasterOperation \<Rightarrow> string \<Rightarrow> stepOutcome" where
  "executeDrillRestoreData r i op target =
     orFail op (getConfig (configErr i) i ok) (\<lambda>cfg.
       if os_dataRestoreName (op_status op) \<noteq> []
       then orFail op (checkAppRestoreStatus (instNs i) (os_dataRestoreName (op_status op))) (\<lambda>finished.
              if \<not> finished then ret (op, Inr False)
              else case sp_drillConfig (op_spec op) of
                None \<Rightarrow> ret (op, Inl panicErr)
              | Some dc \<Rightarrow> outcome op (cleanupTrafficlessPods r i target (dc_namespaceMapping dc)))
       else adoptOrCreate r op i ''data'' setDataRestore (drillDataRestore r op i cfg target))"

definition executeDrillScaleUp :: "DisasterInstance \<Rightarrow> DisasterOperation \<Rightarrow> string \<Rightarrow> bool result" where
  "executeDrillScaleUp i op target = do {
     m \<leftarrow> fetchReplicasMap i;
     (case sp_drillConfig (op_spec op) of
        None \<Rightarrow> fail panicErr
      | Some dc \<Rightarrow> doScaleUp i target m (resolveWaitUntilReady (Some i) (Some op)) (dc_namespaceMapping dc)) }"

definition executeDrillStep :: "reconciler \<Rightarrow> string \<Rightarrow> DisasterInstance \<Rightarrow> DisasterOperation \<Rightarrow> string \<Rightarrow> RestoreMode \<Rightarrow> stepOutcome" where
  "executeDrillStep r name i op target mode =
     (if name = StepRestoreResource then executeDrillRestoreResource r i op target
      else if name = StepRestoreData then
        (if mode = ResourceOnly then ret (op, Inr True) else executeDrillRestoreData r i op target)
      else if name = StepScaleUp then outcome op (executeDrillScaleUp i op target)
      else ret (op, Inr True))"

section \<open>The handlers\<close>

definition drillTarget :: "DisasterOperation \<Rightarrow> DisasterInstance \<Rightarrow> string" where
  "drillTarget op i =
     (case sp_drillConfig (op_spec op) of
        Some dc \<Rightarrow> if dc_targetCluster dc \<noteq> [] then dc_targetCluster dc else is_secondaryCluster (in_status i)
      | None \<Rightarrow> is_secondaryCluster (in_status i))"

definition drillInit :: "DisasterOperation \<Rightarrow> string list \<Rightarrow> Result result" where
  "drillInit op names =
     chk (apiStatusUpdate opKind (setStatus (\<lambda>s. s\<lparr>os_steps := map pendingStep names, os_currentStep := hd names, os_state := OpRunning\<rparr>) op)) (\<lambda>_. do {
       emit (opName op) ''Started'';
       emit (opName op) ''ExecutionProgress'';
       ok requeue_result })"

definition drillStepFailed :: "DisasterOperation \<Rightarrow> nat \<Rightarrow> err \<Rightarrow> Result result" where
  "drillStepFailed op idx e =
     (let m = ''Failed: '' @ err_text e; step = os_steps (op_status op) ! idx in do {
        emit (opName op) ''StepFailed'';
        emit (opName op) ''ExecutionProgress'';
        saveOpIgnoring (setStatus (\<lambda>s. s\<lparr>os_state := OpFailed, os_message := m\<rparr>) (setSteps idx (step\<lparr>st_state := StepFailed, st_msg := m\<rparr>) op)) done_result })"

definition drillStepRunning :: "reconciler \<Rightarrow> DisasterOperation \<Rightarrow> DisasterInstance \<Rightarrow> nat \<Rightarrow> StepStatus \<Rightarrow> Result result" where
  "drillStepRunning r op i idx step = do {
     x \<leftarrow> executeDrillStep r (st_name step) i op (drillTarget op i) (effectiveDrillRestoreMode (sp_drillConfig (op_spec op)));
     (case snd x of
        Inl e \<Rightarrow> if err_kind e = Panic then fail e else drillStepFailed (fst x) idx e
      | Inr done' \<Rightarrow>
          if \<not> done' then ok (after_result (r_stepRunningRequeue r))
          else let step1 = os_steps (op_status (fst x)) ! idx in do {
            emit (opName op) ''StepCompleted'';
            emit (opName op) ''ExecutionProgress'';
            saveOpIgnoring (setSteps idx (step1\<lparr>st_state := StepCompleted, st_completion := Some (r_now r)\<rparr>) (fst x)) requeue_result }) }"

definition drillRun :: "reconciler \<Rightarrow> DisasterOperation \<Rightarrow> DisasterInstance \<Rightarrow> Result result" where
  "drillRun r op i =
     (case activeStep (os_steps (op_status op)) of
        None \<Rightarrow> do {
          emit (opName op) ''Completed'';
          emit (opName op) ''ExecutionProgress'';
          saveOpIgnoring (setStatus (\<lambda>s. s\<lparr>os_state := OpCompleted, os_completionTime := Some (r_now r), os_message := msgDrillDone\<rparr>) op) done_result }
      | Some idx \<Rightarrow>
          let step = os_steps (op_status op) ! idx in
          if st_state step = StepPending then do {
            emit (opName op) ''StepStarted'';
            emit (opName op) ''ExecutionProgress'';
            saveOpIgnoring (setStatus (\<lambda>s. s\<lparr>os_currentStep := st_name step\<rparr>) (setSteps idx (startStep (r_now r) step) op))
              (after_result (r_stepStartRequeue r)) }
          else drillStepRunning r op i idx step)"

definition handleDrill :: "reconciler \<Rightarrow> DisasterOperation \<Rightarrow> Result result" where
  "handleDrill r op = do {
     g \<leftarrow> apiGet instKind (m_ns (op_meta op), sp_instanceName (op_spec op));
     (case g of
        Inl e \<Rightarrow> failOp msgInstanceNotFound op
      | Inr i \<Rightarrow> do {
          c \<leftarrow> apiGet cfgKind ([], di_config (in_spec i));
          (case c of
             Inl e \<Rightarrow> failOp (msgConfigNotFound (di_config (in_spec i))) op
           | Inr cfg \<Rightarrow>
               if os_steps (op_status op) = []
               then drillInit op (drillOperationSteps (effectiveDrillRestoreMode (sp_drillConfig (op_spec op))))
               else drillRun r op i) }) }"

section \<open>Cleanup\<close>

text \<open>The errors carry the message of the failed operation.\<close>

definition deleteMappedNamespace :: "reconciler \<Rightarrow> string \<Rightarrow> string \<Rightarrow> unit result" where
  "deleteMappedNamespace r c ns = do {
     g \<leftarrow> apiGet (nsKind c) ([], ns);
     (case g of
        Inl e \<Rightarrow> if err_kind e \<noteq> NotFound then fail (errorf (msgDrillNsGetFailed ns (err_text e))) else ok ()
      | Inr x \<Rightarrow>
          if m_deletion (nsp_meta x) \<noteq> None then ok ()
          else do {
            d \<leftarrow> apiDelete (r_now r) (nsKind c) ([], ns);
            (case d of Inl e \<Rightarrow> fail (errorf (msgDrillNsDeleteFailed ns (err_text e))) | Inr _ \<Rightarrow> ok ()) }) }"

definition cleanupDone :: "reconciler \<Rightarrow> DisasterOperation \<Rightarrow> Result result" where
  "cleanupDone r op =
     chk (apiStatusUpdate opKind (setStatus (\<lambda>s. s\<lparr>os_state := OpCompleted, os_completionTime := Some (r_now r), os_message := msgDrillCleanupDone\<rparr>) op)) (\<lambda>_. do {
       emit (opName op) ''Completed'';
       ok done_result })"

definition cleanupTarget :: "reconciler \<Rightarrow> DisasterOperation \<Rightarrow> DisasterInstance \<Rightarrow> string \<Rightarrow> Result result" where
  "cleanupTarget r op i target =
     (if drillMapping op = [] then do {
        x \<leftarrow> doScaleDown i target;
        (case x of
           Inl e \<Rightarrow> do { emit (opName op) ''CleanupFailed''; failOp (msgDrillScaleDownFailed (err_text e)) op }
         | Inr completed \<Rightarrow> if \<not> completed then ok (after_result (3 * second)) else cleanupDone r op) }
      else do {
        x \<leftarrow> forEach (\<lambda>ns _. deleteMappedNamespace r target ns) (map snd (drillMapping op)) ();
        (case x of Inl e \<Rightarrow> failOp (err_text e) op | Inr _ \<Rightarrow> cleanupDone r op) })"

definition handleDrillCleanup :: "reconciler \<Rightarrow> DisasterOperation \<Rightarrow> Result result" where
  "handleDrillCleanup r op = do {
     g \<leftarrow> apiGet instKind (m_ns (op_meta op), sp_instanceName (op_spec op));
     (case g of
        Inl e \<Rightarrow> failOp msgInstanceNotFound op
      | Inr i \<Rightarrow> do {
          c \<leftarrow> getClusterClient (drillTarget op i);
          (case c of
             Inl e \<Rightarrow> failOp (msgCannotConnect (drillTarget op i) (err_text e)) op
           | Inr _ \<Rightarrow> cleanupTarget r op i (drillTarget op i)) }) }"

end
