(* ===== verification/DrillController.thy ===== *)
theory DrillController
  imports OpReconcile OpDrill
begin

text \<open>
  The controller of the drills (\<open>internal/controller/disasterdrill\<close>): a drill is validated,
  waits for the confirmation of the user, runs as an operation whose status is copied, and is
  cleaned up by a second operation. \<open>backup_mode.go\<close> decides from the sync objects whether the
  data of an instance can be restored or there is none. A handler works on the drill as read;
  \<open>saveDrill\<close> is \<open>return res, r.Status().Update(ctx, drill)\<close>. A Go map is iterated in the
  order of its list, except where it is printed.
\<close>

section \<open>Status\<close>

definition drillFinalizer :: string where "drillFinalizer = ''testudo.softcdata.com/disasterdrill-finalizer''"
definition annRestartTimestamp :: string where "annRestartTimestamp = ''testudo.softcdata.com/restart-timestamp''"
definition drillLabel :: string where "drillLabel = ''testudo.softcdata.com/drill''"

definition drillKey :: "DisasterDrill \<Rightarrow> key" where "drillKey d = metaKey (dr_meta d)"
definition drillName :: "DisasterDrill \<Rightarrow> string" where "drillName d = m_name (dr_meta d)"
definition drillNs :: "DisasterDrill \<Rightarrow> string" where "drillNs d = m_ns (dr_meta d)"

definition setDrill :: "(DisasterDrillStatus \<Rightarrow> DisasterDrillStatus) \<Rightarrow> DisasterDrill \<Rightarrow> DisasterDrill" where
  "setDrill f d = d\<lparr>dr_status := f (dr_status d)\<rparr>"

definition saveDrill :: "DisasterDrill \<Rightarrow> Result \<Rightarrow> Result result" where
  "saveDrill d res = chk (apiStatusUpdate drillKind d) (\<lambda>_. ok res)"

definition emptyDrillStatus :: DisasterDrillStatus where
  "emptyDrillStatus = \<lparr>dst_state = DrillNone, dst_reason = [], dst_operationName = [], dst_targetCluster = [],
     dst_restoreMode = ModeUnset, dst_instanceRestoreModes = [], dst_currentStep = [], dst_steps = [], dst_startTime = None,
     dst_readyTime = None, dst_executionTime = None, dst_completionTime = None, dst_message = [], dst_validationResults = None,
     dst_groupProgress = None\<rparr>"

definition noResults :: DrillValidationResults where
  "noResults = \<lparr>vr_instanceValid = False, vr_clusterReachable = False, vr_backupAvailable = False, vr_lastDataSyncTime = None,
     vr_lastResourceSyncTime = None\<rparr>"

text \<open>A change of the validation results, which are created when there are none.\<close>

definition onResults :: "(DrillValidationResults \<Rightarrow> DrillValidationResults) \<Rightarrow> DisasterDrillStatus \<Rightarrow> DisasterDrillStatus" where
  "onResults f s = s\<lparr>dst_validationResults := Some (f (case dst_validationResults s of None \<Rightarrow> noResults | Some v \<Rightarrow> v))\<rparr>"

section \<open>Failure reasons\<close>

definition containsAny :: "string \<Rightarrow> string list \<Rightarrow> bool" where
  "containsAny m parts \<longleftrightarrow> list_ex (\<lambda>p. p \<noteq> [] \<and> contains m p) parts"

definition mapDrillFailureMessageToReason :: "string \<Rightarrow> string" where
  "mapDrillFailureMessageToReason m =
     (if m = [] then []
      else if containsAny m [kwMutex, kwRequired, kwNotReadyState, kwValidation] then ''ValidationFailed''
      else if containsAny m [kwDanger, kwTopology] then ''TopologyChanged''
      else if containsAny m [kwInternal] then ''InternalError''
      else if containsAny m [''Operation'', ''operation''] \<and> containsAny m [kwNotFound, kwMissing] then ''OperationNotFound''
      else if containsAny m [kwCleanup] \<and> containsAny m [kwFailed] then ''CleanupFailed''
      else if containsAny m [kwDrillFailed, kwFailed] then ''OperationFailed''
      else ''DrillFailed'')"

definition deriveDrillFailureReason :: "DisasterDrillStatus \<Rightarrow> string" where
  "deriveDrillFailureReason s =
     (if mapDrillFailureMessageToReason (dst_message s) \<noteq> [] then mapDrillFailureMessageToReason (dst_message s)
      else case find (\<lambda>t. st_state t = StepFailed) (rev (dst_steps s)) of
        Some t \<Rightarrow> if mapDrillFailureMessageToReason (st_msg t) \<noteq> [] then mapDrillFailureMessageToReason (st_msg t) else ''OperationFailed''
      | None \<Rightarrow> ''DrillFailed'')"

definition normalizeDrillStatusError :: "DisasterDrill \<Rightarrow> DisasterDrill \<times> bool" where
  "normalizeDrillStatusError d =
     (let s = dr_status d in
      if dst_state s = DrillFailed then
        if dst_reason s = [] then (setDrill (\<lambda>s. s\<lparr>dst_reason := deriveDrillFailureReason s\<rparr>) d, deriveDrillFailureReason s \<noteq> [])
        else (d, False)
      else if dst_reason s \<noteq> [] then (setDrill (\<lambda>s. s\<lparr>dst_reason := []\<rparr>) d, True)
      else (d, False))"

section \<open>The restore mode of an instance\<close>

definition classifyDrillRestoreMode :: "SyncStatus option \<Rightarrow> SyncStatus option \<Rightarrow> err + RestoreMode" where
  "classifyDrillRestoreMode dataSync resourceSync =
     (case resourceSync of
        None \<Rightarrow> Inl (errorf msgRsMissing)
      | Some rs \<Rightarrow>
          if ss_state rs \<noteq> SyncReady then Inl (errorf (msgRsNotReady (syncStateString (ss_state rs))))
          else if trimSpace (ss_lastBackupName rs) = [] then Inl (errorf msgRsNoBackup)
          else case dataSync of
            None \<Rightarrow> Inl (errorf msgDsMissing)
          | Some ds \<Rightarrow>
              if ss_state ds \<noteq> SyncReady then Inl (errorf (msgDsNotReady (syncStateString (ss_state ds))))
              else if (case find (\<lambda>c. c_type c = ''NoDataVolumes'') (ss_conditions ds) of None \<Rightarrow> False
                       | Some c \<Rightarrow> c_status c = ConditionTrue \<and> c_reason c = ''NoPVCFound'') then
                (if ss_history ds = [] then Inl (errorf msgDsNoHistory)
                 else if shr_status (last (ss_history ds)) \<noteq> ''Skipped'' then Inl (errorf (msgDsNotSkipped (shr_status (last (ss_history ds)))))
                 else Inr ResourceOnly)
              else if trimSpace (ss_lastBackupName ds) = [] then Inl (errorf msgDsNoBackup)
              else Inr FullRestore)"

definition resolveInstanceRestoreMode :: "DisasterInstance \<Rightarrow> RestoreMode result" where
  "resolveInstanceRestoreMode i =
     (let dn = is_dataSyncName (in_status i); rn = is_resourceSyncName (in_status i); n = instName i in
      if trimSpace dn = [] then fail (errorf (msgNoDataSyncName n))
      else if trimSpace rn = [] then fail (errorf (msgNoResourceSyncName n))
      else chkWrap (msgGetDataSync dn) (apiGet dsKind (instNs i, dn)) (\<lambda>ds.
        if ss_instance (so_spec ds) \<noteq> n then fail (errorf (msgDataSyncOwner (m_name (so_meta ds)) (ss_instance (so_spec ds)) n))
        else chkWrap (msgGetResourceSync rn) (apiGet rsKind (instNs i, rn)) (\<lambda>rs.
        if ss_instance (so_spec rs) \<noteq> n then fail (errorf (msgResourceSyncOwner (m_name (so_meta rs)) (ss_instance (so_spec rs)) n))
        else chkWrap (msgModeInvalid n) (lift (classifyDrillRestoreMode (Some (so_status ds)) (Some (so_status rs)))) ok)))"

fun aggregateDrillRestoreMode :: "RestoreMode \<Rightarrow> (string \<times> RestoreMode) list \<Rightarrow> RestoreMode" where
  "aggregateDrillRestoreMode agg [] = agg"
| "aggregateDrillRestoreMode agg (x # xs) =
     (if agg = ModeUnset then aggregateDrillRestoreMode (snd x) xs
      else if agg \<noteq> snd x then ModeMixed else aggregateDrillRestoreMode agg xs)"

definition modeOf :: "(string \<times> RestoreMode) list \<Rightarrow> string \<Rightarrow> RestoreMode" where
  "modeOf m n = (case map_of m n of None \<Rightarrow> ModeUnset | Some x \<Rightarrow> x)"

definition restoreModesEqual :: "(string \<times> RestoreMode) list \<Rightarrow> (string \<times> RestoreMode) list \<Rightarrow> bool" where
  "restoreModesEqual left right \<longleftrightarrow> length left = length right \<and> list_all (\<lambda>(n, m). modeOf right n = m) left"

definition setDrillRestoreModeSnapshot :: "(string \<times> RestoreMode) list \<Rightarrow> DisasterDrillStatus \<Rightarrow> DisasterDrillStatus" where
  "setDrillRestoreModeSnapshot modes s =
     s\<lparr>dst_instanceRestoreModes := modes, dst_restoreMode := aggregateDrillRestoreMode ModeUnset modes\<rparr>"

text \<open>How \<open>fmt\<close> prints a map: in the order of its keys.\<close>

definition modesText :: "(string \<times> RestoreMode) list \<Rightarrow> string" where
  "modesText m = ''map['' @ joinWith '' '' (map (\<lambda>(n, x). n @ '':'' @ restoreModeString x) (sort_key fst m)) @ '']''"

definition groupMode :: "string \<Rightarrow> string \<Rightarrow> (string \<times> RestoreMode) list \<Rightarrow> (string \<times> RestoreMode) list result" where
  "groupMode ns n modes =
     (if map_of modes n \<noteq> None then ok modes
      else chkWrap (msgGetGroupInstance n) (apiGet instKind (ns, n)) (\<lambda>i.
           chk (resolveInstanceRestoreMode i) (\<lambda>m. ok (modes @ [(n, m)]))))"

definition collectCurrentRestoreModes :: "DisasterDrill \<Rightarrow> (string \<times> RestoreMode) list result" where
  "collectCurrentRestoreModes d =
     (let n = ds_instanceName (dr_spec d); g = ds_groupName (dr_spec d) in
      if n \<noteq> [] then
        chkWrap (msgGetInstance n) (apiGet instKind (drillNs d, n)) (\<lambda>i.
        chk (resolveInstanceRestoreMode i) (\<lambda>m. ok [(instName i, m)]))
      else
        chkWrap (msgGetGroup g) (apiGet groupKind (drillNs d, g)) (\<lambda>gr.
        chk (forEach (groupMode (drillNs d)) (concat (gr_levels gr)) []) (\<lambda>modes.
        if modes = [] then fail (errorf (msgGroupNoInstance (m_name (gr_meta gr)))) else ok modes)))"

text \<open>The reason with the error, or whether the snapshot has changed with the drill.\<close>

definition refreshRestoreModeSnapshot :: "DisasterDrill \<Rightarrow> ((string \<times> err) + (bool \<times> DisasterDrill)) action" where
  "refreshRestoreModeSnapshot d = do {
     c \<leftarrow> collectCurrentRestoreModes d;
     ret (case c of
        Inl e \<Rightarrow> Inl (''BackupUnavailable'', e)
      | Inr current \<Rightarrow>
          let old = dst_instanceRestoreModes (dr_status d); agg = aggregateDrillRestoreMode ModeUnset current in
          if old = [] then Inr (True, setDrill (setDrillRestoreModeSnapshot current) d)
          else if \<not> restoreModesEqual old current
          then Inl (''BackupStateChanged'', errorf (msgModesChanged (modesText old) (modesText current)))
          else if dst_restoreMode (dr_status d) \<noteq> agg then Inr (True, setDrill (\<lambda>s. s\<lparr>dst_restoreMode := agg\<rparr>) d)
          else Inr (False, d)) }"

section \<open>Validation\<close>

text \<open>The drill with its new status, and the target cluster or the error.\<close>

type_synonym validation = "(DisasterDrill \<times> (err + string)) action"

definition warnUnmapped :: "DisasterDrill \<Rightarrow> bool \<Rightarrow> unit action" where
  "warnUnmapped d overlap = (if overlap \<and> ds_namespaceMapping (dr_spec d) = [] then emit (drillName d) ''NoNamespaceMapping'' else ret ())"

definition backupUnavailable :: "DisasterDrillStatus \<Rightarrow> DisasterDrillStatus" where
  "backupUnavailable s = (onResults (\<lambda>v. v\<lparr>vr_backupAvailable := False\<rparr>) s)\<lparr>dst_reason := ''BackupUnavailable''\<rparr>"

definition instanceDrillable :: "DisasterDrill \<Rightarrow> DisasterInstance \<Rightarrow> bool" where
  "instanceDrillable d i \<longleftrightarrow> fsm i = FsmProtected \<or> fsm i = FsmActive \<or> ds_skipValidation (dr_spec d)"

definition validateInstanceDrill :: "DisasterDrill \<Rightarrow> validation" where
  "validateInstanceDrill d0 =
     (let n = ds_instanceName (dr_spec d0) in do {
        g \<leftarrow> apiGet instKind (drillNs d0, n);
        (case g of
           Inl e \<Rightarrow> ret (d0, Inl (if err_kind e = NotFound then errorf (msgChildNotFound n) else e))
         | Inr i \<Rightarrow>
             let d1 = setDrill (\<lambda>s. s\<lparr>dst_validationResults := Some noResults\<rparr>) d0 in
             if \<not> instanceDrillable d1 i then ret (d1, Inl (errorf (msgDrillInstState (instName i))))
             else let d2 = setDrill (onResults (\<lambda>v. v\<lparr>vr_instanceValid := True, vr_lastDataSyncTime := is_lastDataSyncTime (in_status i),
                    vr_lastResourceSyncTime := is_lastResourceSyncTime (in_status i)\<rparr>)) d1 in do {
               m \<leftarrow> resolveInstanceRestoreMode i;
               (case m of
                  Inl e \<Rightarrow> ret (setDrill backupUnavailable d2, Inl e)
                | Inr mode \<Rightarrow>
                    let target = (if ds_targetCluster (dr_spec d0) = [] then is_secondaryCluster (in_status i) else ds_targetCluster (dr_spec d0)) in do {
                      warnUnmapped d2 (target = is_secondaryCluster (in_status i));
                      ret (setDrill (\<lambda>s. setDrillRestoreModeSnapshot [(instName i, mode)] (onResults (\<lambda>v. v\<lparr>vr_backupAvailable := True\<rparr>) s)) d2,
                           Inr target) }) }) })"

text \<open>The modes of the instances of a group; an error says whether it concerns the backups.\<close>

fun validateGroupInstances :: "DisasterDrill \<Rightarrow> string list \<Rightarrow> (string \<times> RestoreMode) list \<Rightarrow>
    ((bool \<times> err) + (string \<times> RestoreMode) list) action" where
  "validateGroupInstances d [] modes = ret (Inr modes)"
| "validateGroupInstances d (n # ns) modes = do {
     g \<leftarrow> apiGet instKind (drillNs d, n);
     (case g of
        Inl e \<Rightarrow> ret (Inl (False, if err_kind e = NotFound then errorf (msgDrillGroupInstNotFound n) else e))
      | Inr i \<Rightarrow> do {
          warnUnmapped d ((if ds_targetCluster (dr_spec d) = [] then is_secondaryCluster (in_status i) else ds_targetCluster (dr_spec d)) =
             is_secondaryCluster (in_status i));
          (if map_of modes n \<noteq> None then validateGroupInstances d ns modes
           else do {
             m \<leftarrow> resolveInstanceRestoreMode i;
             (case m of Inl e \<Rightarrow> ret (Inl (True, e)) | Inr mode \<Rightarrow> validateGroupInstances d ns (modes @ [(n, mode)])) }) }) }"

definition validateGroupDrill :: "DisasterDrill \<Rightarrow> validation" where
  "validateGroupDrill d0 =
     (let n = ds_groupName (dr_spec d0); target = ds_targetCluster (dr_spec d0) in do {
        g \<leftarrow> apiGet groupKind (drillNs d0, n);
        (case g of
           Inl e \<Rightarrow> ret (d0, Inl (if err_kind e = NotFound then errorf (msgGroupNotFound n) else e))
         | Inr gr \<Rightarrow>
             let d1 = setDrill (\<lambda>s. s\<lparr>dst_validationResults := Some (noResults\<lparr>vr_instanceValid := True\<rparr>)\<rparr>) d0 in do {
               ms \<leftarrow> validateGroupInstances d1 (concat (gr_levels gr)) [];
               ret (case ms of
                 Inl (backup, e) \<Rightarrow> (if backup then setDrill backupUnavailable d1 else d1, Inl e)
               | Inr modes \<Rightarrow>
                   if modes = [] then (setDrill backupUnavailable d1, Inl (errorf (msgDrillGroupEmpty (m_name (gr_meta gr)))))
                   else (setDrill (\<lambda>s. setDrillRestoreModeSnapshot modes (onResults (\<lambda>v. v\<lparr>vr_backupAvailable := True\<rparr>) s)) d1,
                         Inr (if target = [] then ''(Auto)'' else target))) }) })"

section \<open>Pending\<close>

definition failValidation :: "DisasterDrill \<Rightarrow> string \<Rightarrow> Result result" where
  "failValidation d m = do {
     emit (drillName d) ''ValidationFailed'';
     emit (drillName d) ''ExecutionFinished'';
     saveDrill (setDrill (\<lambda>s. s\<lparr>dst_state := DrillFailed, dst_message := m\<rparr>) d) done_result }"

definition invalidTarget :: "DisasterDrill \<Rightarrow> string \<Rightarrow> Result result" where
  "invalidTarget d m = do {
     emit (drillName d) ''ValidationFailed'';
     saveDrill (setDrill (\<lambda>s. (onResults (\<lambda>v. v\<lparr>vr_clusterReachable := False\<rparr>) s)\<lparr>dst_state := DrillFailed,
       dst_reason := ''ValidationFailed'', dst_message := m\<rparr>) d) done_result }"

definition becomeReady :: "reconciler \<Rightarrow> DisasterDrill \<Rightarrow> Result result" where
  "becomeReady r d = do {
     emit (drillName d) ''Ready'';
     emit (drillName d) ''ExecutionFinished'';
     saveDrill (setDrill (\<lambda>s. s\<lparr>dst_state := DrillReady, dst_reason := [], dst_readyTime := Some (r_now r), dst_message := msgDrillReady\<rparr>) d) done_result }"

definition checkTarget :: "reconciler \<Rightarrow> DisasterDrill \<Rightarrow> string \<Rightarrow> Result result" where
  "checkTarget r d target =
     (if target = [] \<or> target = ''(Auto)'' then becomeReady r d
      else do {
        g \<leftarrow> apiGet clusterKind ([], target);
        (case g of
           Inl e \<Rightarrow> if err_kind e = NotFound then invalidTarget d (msgDrillClusterNotFound target) else fail e
         | Inr cl \<Rightarrow>
             if cl_status cl \<noteq> ''Ready'' \<and> \<not> ds_skipValidation (dr_spec d)
             then invalidTarget d (msgDrillClusterNotReady target (cl_status cl))
             else becomeReady r d) })"

definition handleDrillPending :: "reconciler \<Rightarrow> DisasterDrill \<Rightarrow> Result result" where
  "handleDrillPending r d =
     (let i = ds_instanceName (dr_spec d); g = ds_groupName (dr_spec d) in
      if i \<noteq> [] \<and> g \<noteq> [] then failValidation d msgDrillMutex
      else if i = [] \<and> g = [] then failValidation d msgDrillRequired
      else do {
        v \<leftarrow> (if i \<noteq> [] then validateInstanceDrill d else validateGroupDrill d);
        (case snd v of
           Inl e \<Rightarrow> failValidation (setDrill (\<lambda>s. (onResults (\<lambda>v. v\<lparr>vr_clusterReachable := False\<rparr>) s)\<lparr>
               dst_reason := (if dst_reason s = [] then ''ValidationFailed'' else dst_reason s)\<rparr>) (fst v)) (err_text e)
         | Inr target \<Rightarrow>
             checkTarget r (setDrill (\<lambda>s. onResults (\<lambda>v. v\<lparr>vr_clusterReachable := True\<rparr>) (s\<lparr>dst_targetCluster := target\<rparr>)) (fst v)) target) })"

section \<open>Ready\<close>

definition ofDrill :: "DisasterDrill \<Rightarrow> DisasterOperation \<Rightarrow> bool" where
  "ofDrill d op \<longleftrightarrow> inNamespace opKind (drillNs d) op \<and> map_of (m_labels (op_meta op)) drillLabel = Some (drillName d)"

definition opEnded :: "DisasterOperation \<Rightarrow> bool" where
  "opEnded op \<longleftrightarrow> os_state (op_status op) = OpCompleted \<or> os_state (op_status op) = OpFailed"

definition drillOpTarget :: "DisasterDrill \<Rightarrow> string" where
  "drillOpTarget d = (if dst_targetCluster (dr_status d) = ''(Auto)'' then [] else dst_targetCluster (dr_status d))"

definition drillOpMeta :: "reconciler \<Rightarrow> DisasterDrill \<Rightarrow> string \<Rightarrow> ObjectMeta" where
  "drillOpMeta r d p = (newMeta (drillNs d) (p @ drillName d @ ''-'' @ dec (r_now r div second)))\<lparr>
     m_labels := [(drillLabel, drillName d)],
     m_owners := [\<lparr>ow_kind = ''DisasterDrill'', ow_name = drillName d, ow_uid = m_uid (dr_meta d), ow_controller = True\<rparr>]\<rparr>"

definition drillOpSpec :: "DisasterDrill \<Rightarrow> OperationType \<Rightarrow> DrillConfig \<Rightarrow> DisasterOperationSpec" where
  "drillOpSpec d ty dc = \<lparr>sp_instanceName = ds_instanceName (dr_spec d), sp_groupName = ds_groupName (dr_spec d), sp_operationType = ty,
     sp_drillConfig = Some dc, sp_force = False, sp_skipFinalSync = False, sp_skipScaleDownSource = False, sp_timeoutMinutes = 0,
     sp_skipPodReadyCheck = None, sp_waitUntilReady = False, sp_retryPolicy = None\<rparr>"

definition baseDrillConfig :: "DisasterDrill \<Rightarrow> DrillConfig" where
  "baseDrillConfig d = \<lparr>dc_targetCluster = drillOpTarget d, dc_restoreMode = ModeUnset, dc_instanceRestoreModes = [],
     dc_namespaceMapping = ds_namespaceMapping (dr_spec d), dc_skipValidation = ds_skipValidation (dr_spec d),
     dc_restorePolicy = ds_restorePolicy (dr_spec d), dc_veleroHooks = None\<rparr>"

definition newDrillOperation :: "reconciler \<Rightarrow> DisasterDrill \<Rightarrow> DisasterOperation" where
  "newDrillOperation r d =
     (let modes = dst_instanceRestoreModes (dr_status d); i = ds_instanceName (dr_spec d);
          dc = (baseDrillConfig d)\<lparr>dc_veleroHooks := ds_veleroHooks (dr_spec d)\<rparr>;
          dc' = (if i \<noteq> [] then dc\<lparr>dc_restoreMode := modeOf modes i\<rparr> else dc\<lparr>dc_instanceRestoreModes := modes\<rparr>)
      in \<lparr>op_meta = drillOpMeta r d ''drill-'',
          op_spec = (drillOpSpec d OpDrill dc')\<lparr>sp_skipPodReadyCheck := Some (\<not> ds_waitUntilReady (dr_spec d)),
            sp_waitUntilReady := ds_waitUntilReady (dr_spec d)\<rparr>,
          op_status = emptyOpStatus\<rparr>)"

text \<open>\<open>Create\<close>, where an object of that name may exist already; the name of the operation.\<close>

definition createOperation :: "DisasterOperation \<Rightarrow> string result" where
  "createOperation op = do {
     c \<leftarrow> apiCreate opKind op;
     (case c of Inl e \<Rightarrow> if err_kind e \<noteq> AlreadyExists then fail e else ok (opName op) | Inr x \<Rightarrow> ok (opName x)) }"

definition startDrill :: "reconciler \<Rightarrow> DisasterDrill \<Rightarrow> Result result" where
  "startDrill r d =
     chk (apiListRaw w_ops (ofDrill d)) (\<lambda>ops.
     chk (case find (\<lambda>o'. \<not> opEnded o') ops of Some o' \<Rightarrow> ok (opName o') | None \<Rightarrow> createOperation (newDrillOperation r d)) (\<lambda>name. do {
       emit (drillName d) ''Executing'';
       emit (drillName d) ''ExecutionProgress'';
       saveDrill (setDrill (\<lambda>s. s\<lparr>dst_state := DrillExecuting, dst_operationName := name, dst_executionTime := Some (r_now r),
         dst_message := msgDrillExecuting\<rparr>) d) done_result }))"

definition recheckBackups :: "reconciler \<Rightarrow> DisasterDrill \<Rightarrow> Result result" where
  "recheckBackups r d = do {
     x \<leftarrow> refreshRestoreModeSnapshot d;
     (case x of
        Inl (reason, e) \<Rightarrow> do {
          emit (drillName d) ''BackupValidationFailed'';
          emit (drillName d) ''ExecutionFinished'';
          saveDrill (setDrill (\<lambda>s. (onResults (\<lambda>v. v\<lparr>vr_backupAvailable := False\<rparr>) s)\<lparr>dst_state := DrillFailed, dst_reason := reason,
            dst_completionTime := Some (r_now r), dst_message := msgDrillRecheckFailed (err_text e)\<rparr>) d) done_result }
      | Inr (changed, d') \<Rightarrow> if changed then saveDrill d' requeue_result else startDrill r d') }"

definition handleReady :: "reconciler \<Rightarrow> DisasterDrill \<Rightarrow> Result result" where
  "handleReady r d =
     (let n = ds_instanceName (dr_spec d); target = dst_targetCluster (dr_status d) in
      if \<not> ds_confirmed (dr_spec d) then ok done_result
      else do {
        emit (drillName d) ''UserConfirmed'';
        emit (drillName d) ''ExecutionStarted'';
        (if n = [] then recheckBackups r d
         else do {
           g \<leftarrow> apiGet instKind (drillNs d, n);
           (case g of
              Inl e \<Rightarrow> saveDrill (setDrill (\<lambda>s. s\<lparr>dst_state := DrillFailed, dst_message := msgDrillInstanceUnreadable n (err_text e)\<rparr>) d) done_result
            | Inr i \<Rightarrow>
                if target = is_primaryCluster (in_status i) then do {
                  emit (drillName d) ''TopologyChanged'';
                  emit (drillName d) ''ExecutionFinished'';
                  saveDrill (setDrill (\<lambda>s. s\<lparr>dst_state := DrillFailed, dst_message := msgDrillDanger target\<rparr>) d) done_result }
                else recheckBackups r d) }) })"

section \<open>Executing\<close>

definition copyProgress :: "DisasterOperation \<Rightarrow> DisasterDrillStatus \<Rightarrow> DisasterDrillStatus" where
  "copyProgress op s = s\<lparr>dst_currentStep := os_currentStep (op_status op), dst_steps := os_steps (op_status op),
     dst_groupProgress := os_groupStatus (op_status op)\<rparr>"

definition drillOpMissing :: "DisasterDrill \<Rightarrow> string \<Rightarrow> Result result" where
  "drillOpMissing d m = saveDrill (setDrill (\<lambda>s. s\<lparr>dst_state := DrillFailed, dst_message := m\<rparr>) d) done_result"

definition drillProgress :: "reconciler \<Rightarrow> DisasterDrill \<Rightarrow> DisasterOperation \<Rightarrow> Result result" where
  "drillProgress r d0 op =
     (let d = setDrill (copyProgress op) d0; st = op_status op in
      if os_state st = OpCompleted then do {
        emit (drillName d) ''Completed'';
        emit (drillName d) ''ExecutionFinished'';
        saveDrill (setDrill (\<lambda>s. s\<lparr>dst_state := DrillCompleted, dst_completionTime := Some (r_now r), dst_message := msgDrillDone\<rparr>) d) done_result }
      else if os_state st = OpFailed then do {
        emit (drillName d) ''Failed'';
        emit (drillName d) ''ExecutionFinished'';
        saveDrill (setDrill (\<lambda>s. s\<lparr>dst_state := DrillFailed, dst_reason := os_reason st, dst_completionTime := Some (r_now r),
          dst_message := msgDrillFailed (os_message st)\<rparr>) d) done_result }
      else ok (after_result (5 * second)))"

definition handleExecuting :: "reconciler \<Rightarrow> DisasterDrill \<Rightarrow> Result result" where
  "handleExecuting r d =
     (let n = dst_operationName (dr_status d) in
      if n = [] then drillOpMissing d msgDrillNoOperation
      else do {
        g \<leftarrow> apiGet opKind (drillNs d, n);
        (case g of
           Inl e \<Rightarrow> if err_kind e = NotFound then drillOpMissing d (msgDrillOpNotFound n) else fail e
         | Inr op \<Rightarrow> drillProgress r d op) })"

section \<open>Cleanup\<close>

text \<open>The zero time of an object without a creation time is before every other time.\<close>

definition createdAfter :: "DisasterOperation \<Rightarrow> DisasterOperation \<Rightarrow> bool" where
  "createdAfter a b \<longleftrightarrow> (case (m_creation (op_meta a), m_creation (op_meta b)) of
     (Some s, Some t) \<Rightarrow> s > t | (Some _, None) \<Rightarrow> True | _ \<Rightarrow> False)"

definition newestCleanupOperation :: "DisasterOperation option \<Rightarrow> DisasterOperation \<Rightarrow> DisasterOperation option" where
  "newestCleanupOperation current candidate =
     (case current of
        None \<Rightarrow> Some candidate
      | Some c \<Rightarrow>
          if createdAfter candidate c then Some candidate
          else if m_creation (op_meta candidate) = m_creation (op_meta c) \<and> opName candidate > opName c then Some candidate
          else Some c)"

definition isCleanup :: "DisasterOperation \<Rightarrow> bool" where
  "isCleanup op \<longleftrightarrow> sp_operationType (op_spec op) = OpDrillCleanup"

definition newestOf :: "DisasterOperation list \<Rightarrow> DisasterOperation option" where
  "newestOf ops = foldl newestCleanupOperation None ops"

definition cleanupReported :: "DisasterDrill \<Rightarrow> DrillState \<Rightarrow> DisasterOperation \<Rightarrow> string \<Rightarrow> string \<Rightarrow> bool" where
  "cleanupReported d st op reason m \<longleftrightarrow> dst_state (dr_status d) = st \<and> dst_operationName (dr_status d) = opName op \<and>
     dst_reason (dr_status d) = reason \<and> dst_message (dr_status d) = m"

definition syncCleanupOperationStatus :: "reconciler \<Rightarrow> DisasterDrill \<Rightarrow> DisasterOperation \<Rightarrow> Result result" where
  "syncCleanupOperationStatus r d op =
     (let st = op_status op; reason = (if os_reason st = [] then ''CleanupFailed'' else os_reason st); m = msgDrillCleanupFailed (os_message st) in
      if os_state st = OpCompleted then
        (if cleanupReported d DrillCleanedUp op [] msgDrillCleanupDone then ok done_result
         else do {
           emit (drillName d) ''CleanedUp'';
           emit (drillName d) ''ExecutionFinished'';
           saveDrill (setDrill (\<lambda>s. s\<lparr>dst_state := DrillCleanedUp, dst_operationName := opName op, dst_reason := [],
             dst_completionTime := Some (r_now r), dst_message := msgDrillCleanupDone\<rparr>) d) done_result })
      else if os_state st = OpFailed then
        (if cleanupReported d DrillFailed op reason m then ok done_result
         else do {
           emit (drillName d) ''CleanupFailed'';
           emit (drillName d) ''ExecutionFinished'';
           saveDrill (setDrill (\<lambda>s. s\<lparr>dst_state := DrillFailed, dst_operationName := opName op, dst_reason := reason, dst_message := m\<rparr>) d) done_result })
      else ok (after_result (5 * second)))"

definition newCleanupOperation :: "reconciler \<Rightarrow> DisasterDrill \<Rightarrow> DisasterOperation" where
  "newCleanupOperation r d =
     \<lparr>op_meta = drillOpMeta r d ''drill-cln-'', op_spec = drillOpSpec d OpDrillCleanup (baseDrillConfig d), op_status = emptyOpStatus\<rparr>"

definition cleaningUp :: "DisasterDrill \<Rightarrow> string \<Rightarrow> Result result" where
  "cleaningUp d name = do {
     emit (drillName d) ''CleaningUp'';
     emit (drillName d) ''ExecutionStarted'';
     saveDrill (setDrill (\<lambda>s. s\<lparr>dst_state := DrillCleaningUp, dst_operationName := name, dst_message := msgDrillCleaning\<rparr>) d) done_result }"

text \<open>The operation the drill names, when that is a cleanup that has ended.\<close>

definition endedCleanup :: "DisasterDrill \<Rightarrow> DisasterOperation option result" where
  "endedCleanup d =
     (let n = dst_operationName (dr_status d) in
      if n = [] then ok None
      else do {
        g \<leftarrow> apiGet opKind (drillNs d, n);
        (case g of
           Inl e \<Rightarrow> if err_kind e = NotFound then ok None else fail e
         | Inr op \<Rightarrow> ok (if isCleanup op \<and> opEnded op then Some op else None)) })"

definition triggerCleanup :: "reconciler \<Rightarrow> DisasterDrill \<Rightarrow> Result result" where
  "triggerCleanup r d =
     chk (apiListRaw w_ops (ofDrill d)) (\<lambda>all.
       let ops = filter isCleanup all in
       case newestOf (filter (\<lambda>o'. \<not> opEnded o') ops) of
         Some op \<Rightarrow> cleaningUp d (opName op)
       | None \<Rightarrow>
           (case newestOf (filter opEnded ops) of
              Some op \<Rightarrow> syncCleanupOperationStatus r d op
            | None \<Rightarrow> chk (endedCleanup d) (\<lambda>e.
                case e of
                  Some op \<Rightarrow> syncCleanupOperationStatus r d op
                | None \<Rightarrow> chk (createOperation (newCleanupOperation r d)) (cleaningUp d))))"

definition handleCleaningUp :: "reconciler \<Rightarrow> DisasterDrill \<Rightarrow> Result result" where
  "handleCleaningUp r d =
     (let n = dst_operationName (dr_status d) in
      if n = [] then drillOpMissing d msgDrillNoCleanupOp
      else do {
        g \<leftarrow> apiGet opKind (drillNs d, n);
        (case g of
           Inl e \<Rightarrow> if err_kind e = NotFound then drillOpMissing d (msgDrillCleanupOpNotFound n) else fail e
         | Inr op \<Rightarrow> syncCleanupOperationStatus r d op) })"

section \<open>Deletion and restart\<close>

definition handleDrillDeletion :: "DisasterDrill \<Rightarrow> Result result" where
  "handleDrillDeletion d = do {
     emit (drillName d) ''ExecutionStarted'';
     u \<leftarrow> faulty (storeUpdateDeleting drillKind (d\<lparr>dr_meta := (dr_meta d)\<lparr>m_finalizers := filter (\<lambda>f. f \<noteq> drillFinalizer) (m_finalizers (dr_meta d))\<rparr>\<rparr>));
     emit (drillName d) ''ExecutionFinished'';
     (case u of Inl e \<Rightarrow> fail e | Inr _ \<Rightarrow> do { emit (drillName d) ''Deleted''; ok done_result }) }"

definition shouldRestart :: "reconciler \<Rightarrow> DisasterDrill \<Rightarrow> bool" where
  "shouldRestart r d =
     (case map_of (m_ann (dr_meta d)) annRestartTimestamp of
        None \<Rightarrow> False
      | Some v \<Rightarrow> (case r_parseTime r v of
          None \<Rightarrow> False
        | Some t \<Rightarrow> (case dst_completionTime (dr_status d) of None \<Rightarrow> True | Some c \<Rightarrow> t > c)))"

definition resetDrill :: "reconciler \<Rightarrow> DisasterDrill \<Rightarrow> Result result" where
  "resetDrill r d =
     (if ds_confirmed (dr_spec d)
      then chk (apiUpdate drillKind (d\<lparr>dr_spec := (dr_spec d)\<lparr>ds_confirmed := False\<rparr>\<rparr>)) (\<lambda>_. ok requeue_result)
      else chk (apiStatusUpdate drillKind (d\<lparr>dr_status := emptyDrillStatus\<lparr>dst_state := DrillPending, dst_startTime := Some (r_now r),
             dst_message := msgDrillReset\<rparr>\<rparr>)) (\<lambda>_. do { emit (drillName d) ''Restarted''; ok requeue_result }))"

section \<open>The reconcile loop\<close>

definition drillEdges :: "reconciler \<Rightarrow> DisasterDrill \<Rightarrow> DependencyEdge list action" where
  "drillEdges r d = do {
     a \<leftarrow> (if ds_instanceName (dr_spec d) \<noteq> [] then do {
             g \<leftarrow> apiGet instKind (drillNs d, ds_instanceName (dr_spec d));
             ret (case g of Inl _ \<Rightarrow> [] | Inr i \<Rightarrow> [edgeTo r (m_uid (in_meta i)) ''spec.instanceName'']) }
           else ret []);
     b \<leftarrow> (if ds_groupName (dr_spec d) \<noteq> [] then do {
             g \<leftarrow> apiGet groupKind (drillNs d, ds_groupName (dr_spec d));
             ret (case g of Inl _ \<Rightarrow> [] | Inr gr \<Rightarrow> [edgeTo r (m_uid (gr_meta gr)) ''spec.groupName'']) }
           else ret []);
     ret (a @ b) }"

definition drillSyncDependencyLabels :: "reconciler \<Rightarrow> DisasterDrill \<Rightarrow> (bool \<times> DisasterDrill) action" where
  "drillSyncDependencyLabels r d =
     (let tk = EnsureDependencyTokenLabel (r_sha256hex r) (m_labels (dr_meta d)) (m_uid (dr_meta d)) in do {
        es \<leftarrow> drillEdges r d;
        (let rb = RebuildDependencyToLabels (fst tk) es in
         ret (snd (snd tk) \<or> snd rb, d\<lparr>dr_meta := (dr_meta d)\<lparr>m_labels := fst rb\<rparr>\<rparr>)) })"

definition drillStateMachine :: "reconciler \<Rightarrow> DisasterDrill \<Rightarrow> Result result" where
  "drillStateMachine r d =
     (case dst_state (dr_status d) of
        DrillNone \<Rightarrow> do {
          emit (drillName d) ''ExecutionStarted'';
          chk (apiStatusUpdate drillKind (setDrill (\<lambda>s. s\<lparr>dst_state := DrillPending, dst_startTime := Some (r_now r), dst_message := msgDrillCreated\<rparr>) d)) (\<lambda>_. do {
            emit (drillName d) ''Created'';
            ok requeue_result }) }
      | DrillPending \<Rightarrow> handleDrillPending r d
      | DrillReady \<Rightarrow> handleReady r d
      | DrillExecuting \<Rightarrow> handleExecuting r d
      | DrillCompleted \<Rightarrow> if ds_cleanUp (dr_spec d) then triggerCleanup r d else if shouldRestart r d then resetDrill r d else ok done_result
      | DrillFailed \<Rightarrow> if ds_cleanUp (dr_spec d) then triggerCleanup r d else if shouldRestart r d then resetDrill r d else ok done_result
      | DrillCleaningUp \<Rightarrow> handleCleaningUp r d
      | DrillCleanedUp \<Rightarrow> if \<not> ds_cleanUp (dr_spec d) \<and> shouldRestart r d then resetDrill r d else ok done_result
      | DrillOther s \<Rightarrow> ok done_result)"

definition drillReconcileLabelled :: "reconciler \<Rightarrow> DisasterDrill \<Rightarrow> Result result" where
  "drillReconcileLabelled r d =
     (let x = normalizeDrillStatusError d in
      if snd x then saveDrill (fst x) requeue_result else drillStateMachine r d)"

definition drillReconcile :: "reconciler \<Rightarrow> key \<Rightarrow> Result result" where
  "drillReconcile r k = do {
     g \<leftarrow> apiGet drillKind k;
     (case g of
        Inl e \<Rightarrow> if err_kind e = NotFound then ok done_result else fail e
      | Inr d \<Rightarrow>
          if m_deletion (dr_meta d) \<noteq> None then handleDrillDeletion d
          else if \<not> List.member (m_finalizers (dr_meta d)) drillFinalizer
          then chk (apiUpdate drillKind (d\<lparr>dr_meta := (dr_meta d)\<lparr>m_finalizers := m_finalizers (dr_meta d) @ [drillFinalizer]\<rparr>\<rparr>)) (\<lambda>_. ok requeue_result)
          else do {
            x \<leftarrow> drillSyncDependencyLabels r d;
            (if fst x then chk (apiUpdate drillKind (snd x)) (\<lambda>_. ok requeue_result) else drillReconcileLabelled r (snd x)) }) }"

text \<open>The operation controller with its drill handlers.\<close>

definition operationReconcile :: "reconciler \<Rightarrow> key \<Rightarrow> Result result" where
  "operationReconcile r k = Reconcile (handleDrill r) (handleDrillCleanup r) r k"

end
