(* ===== verification/DrillFrames.thy ===== *)
theory DrillFrames
  imports DrillController OpSteps
begin

text \<open>
  What a drill and its cleanup leave alone. The locale \<open>pull_secret_frame\<close> is the contract of a projection
  of the world that does not see the namespaces of certain names and their copies of the pull secret;
  \<open>drill_frame\<close> puts together what a drill may write: its own operation, the restores, and in
  the target cluster the workloads and pods of the drill's namespaces and the namespaces and
  pull secrets it names. Inside it every step of a drill keeps the projection, and it is
  interpreted on the world with just these objects erased.
\<close>

section \<open>What a listing returns\<close>

lemma find_hit: "find P xs = Some x \<Longrightarrow> P x \<and> x \<in> set xs"
  by (induction xs) (auto split: if_splits)

lemma find_filter_other:
  assumes "find P (filter Q xs) = Some x" and "\<And>y z. P y \<Longrightarrow> P z \<Longrightarrow> Q y = Q z"
  shows "find P xs = Some x"
  using assms(1)
proof (induction xs)
  case (Cons a xs)
  show ?case
  proof (cases "Q a")
    case False
    with Cons.prems have f: "find P (filter Q xs) = Some x" by simp
    then have "P x" and "Q x" by (auto dest: find_hit)
    then have "\<not> P a" using assms(2) [of a x] False by auto
    with Cons.IH f show ?thesis by simp
  qed (use Cons in \<open>auto split: if_splits\<close>)
qed simp

lemma wp_list_members: "wp (apiListRaw objs P) (\<lambda>x _. \<forall>xs. x = Inr xs \<longrightarrow> (\<forall>y \<in> set xs. P y)) w"
  by (rule wp_apiListRaw) auto

lemma wp_list_namespace: "ns \<noteq> [] \<Longrightarrow> wp (apiList K ns) (\<lambda>x _. \<forall>xs. x = Inr xs \<longrightarrow> (\<forall>y \<in> set xs. m_ns (k_meta K y) = ns)) w"
  unfolding apiList_def by (rule wp_mono [OF wp_list_members]) (auto simp: inNamespace_def)

section \<open>The contract\<close>

text \<open>The name of the pull secret that is copied to a target cluster.\<close>

definition pullSecretOf :: "string \<Rightarrow> string" where
  "pullSecretOf c = veleroRegistryTargetSecretName (trimSpace c)"

locale pull_secret_frame = world_frame proj for proj :: "world \<Rightarrow> 'p" +
  fixes c :: string and N :: "string set"
  assumes proj_nss: "filter (\<lambda>n. m_name (nsp_meta n) \<notin> N) ns = filter (\<lambda>n. m_name (nsp_meta n) \<notin> N) (w_nss w c) \<Longrightarrow>
      proj (w\<lparr>w_nss := (w_nss w)(c := ns)\<rparr>) = proj w"
    and proj_secrets: "filter (\<lambda>s. \<not> (m_ns (sec_meta s) \<in> N \<and> m_name (sec_meta s) = pullSecretOf c)) ss =
      filter (\<lambda>s. \<not> (m_ns (sec_meta s) \<in> N \<and> m_name (sec_meta s) = pullSecretOf c)) (w_secrets w c) \<Longrightarrow>
      proj (w\<lparr>w_secrets := (w_secrets w)(c := ss)\<rparr>) = proj w"

sublocale pull_secret_frame \<subseteq> nsH: key_frame proj "nsKind c" "\<lambda>q. snd q \<in> N"
  by unfold_locales (simp_all add: nsK.meta_setMeta keyOf_def metaKey_def proj_nss)

sublocale pull_secret_frame \<subseteq> secretH: key_frame proj "secretKind c" "\<lambda>q. fst q \<in> N \<and> snd q = pullSecretOf c"
  by unfold_locales (simp_all add: secretK.meta_setMeta keyOf_def metaKey_def proj_secrets)

context pull_secret_frame
begin

lemma frame_upsert: "n \<in> N \<Longrightarrow> state_io_rel same (upsertTrafficlessRegistrySecret c n (pullSecretOf c) cfg)"
  unfolding upsertTrafficlessRegistrySecret_def
  by (rule rel_bind_result [where P = "\<lambda>g. \<forall>s. g = Inr s \<longrightarrow> m_ns (sec_meta s) = n \<and> m_name (sec_meta s) = pullSecretOf c"])
    (auto intro!: rel_intros secretH.hidden_update secretH.hidden_create wp_apiGet dest: secretK.lookup_key simp: keyOf_def metaKey_def newMeta_def split: sum.splits)

lemma frame_ensureNs: "trimSpace n \<in> N \<Longrightarrow> state_io_rel same (ensureTrafficlessNamespace c n)"
  unfolding ensureTrafficlessNamespace_def Let_def
  by (intro rel_intros nsH.hidden_create) (simp_all add: keyOf_def metaKey_def newMeta_def)

lemma frame_syncSecret:
  assumes "\<And>n. n \<in> set (TrafficlessRestoreNamespaces nss []) \<Longrightarrow> n \<in> N \<and> trimSpace n \<in> N"
    and "\<And>x. cl = Some x \<Longrightarrow> m_name (cl_meta x) = trimSpace c"
  shows "state_io_rel same (SyncTrafficlessRegistryPullSecret mns c cl nss)"
proof (cases cl)
  case None
  then show ?thesis by (simp add: SyncTrafficlessRegistryPullSecret_def rel_ret)
next
  case (Some x)
  then have "veleroRegistryTargetSecretName (m_name (cl_meta x)) = pullSecretOf c" using assms(2) by (simp add: pullSecretOf_def)
  with Some show ?thesis
    unfolding SyncTrafficlessRegistryPullSecret_def Let_def
    by (simp only: option.case) (intro rel_intros frame_ensureNs frame_upsert, simp_all add: assms(1))
qed

end

locale drill_frame = pull_secret_frame proj c N for proj :: "world \<Rightarrow> 'p" and k :: key and c :: string and T :: "string set" and N :: "string set" +
  assumes proj_ops: "filter (\<lambda>x. opKey x \<noteq> k) xs = filter (\<lambda>x. opKey x \<noteq> k) (w_ops w) \<Longrightarrow> proj (w\<lparr>w_ops := xs\<rparr>) = proj w"
    and proj_restores: "proj (w\<lparr>w_restores := rs\<rparr>) = proj w"
    and proj_deploys: "filter (\<lambda>d. m_ns (wl_meta d) \<notin> T) ds = filter (\<lambda>d. m_ns (wl_meta d) \<notin> T) (w_deploys w c) \<Longrightarrow>
      proj (w\<lparr>w_deploys := (w_deploys w)(c := ds)\<rparr>) = proj w"
    and proj_sts: "filter (\<lambda>d. m_ns (wl_meta d) \<notin> T) ds = filter (\<lambda>d. m_ns (wl_meta d) \<notin> T) (w_sts w c) \<Longrightarrow>
      proj (w\<lparr>w_sts := (w_sts w)(c := ds)\<rparr>) = proj w"
    and proj_pods: "filter (\<lambda>p. m_ns (pod_meta p) \<notin> T) ps = filter (\<lambda>p. m_ns (pod_meta p) \<notin> T) (w_pods w c) \<Longrightarrow>
      proj (w\<lparr>w_pods := (w_pods w)(c := ps)\<rparr>) = proj w"

sublocale drill_frame \<subseteq> opH: key_frame proj opKind "\<lambda>q. q = k"
  by unfold_locales (simp_all add: opK.objs_put opK.objs_faults opK.objs_events opK.meta_setMeta keyOf_def opKey_def proj_ops)

sublocale drill_frame \<subseteq> deployH: key_frame proj "deployKind c" "\<lambda>q. fst q \<in> T"
  by unfold_locales (simp_all add: deployK.meta_setMeta keyOf_def metaKey_def proj_deploys)

sublocale drill_frame \<subseteq> stsH: key_frame proj "stsKind c" "\<lambda>q. fst q \<in> T"
  by unfold_locales (simp_all add: stsK.meta_setMeta keyOf_def metaKey_def proj_sts)

sublocale drill_frame \<subseteq> podH: key_frame proj "podKind c" "\<lambda>q. fst q \<in> T"
  by unfold_locales (simp_all add: podK.meta_setMeta keyOf_def metaKey_def proj_pods)


section \<open>The reads of a drill\<close>

context world_frame
begin

lemma frame_listMatching: "state_io_rel same (listMatching K ns P)"
  unfolding listMatching_def by (rule rel_apiListRaw)

lemma frame_collectWorkloads: "state_io_rel same (CollectWorkloads M c nss sel)"
  unfolding CollectWorkloads_def by (intro rel_intros frame_listMatching)

lemma frame_imageRules: "state_io_rel same (buildImageRewriteRulesForDrill r cfg i source target)"
  unfolding buildImageRewriteRulesForDrill_def lift_def Let_def by (intro rel_intros frame_clusterClient frame_collectWorkloads)

lemma frame_collectNamespace: "state_io_rel same (collectInNamespace c P ns acc)"
  unfolding collectInNamespace_def listTemplates_def Let_def by (intro rel_intros frame_listMatching)

lemma frame_dynamicRules: "state_io_rel same (CompileDynamicImageRewriteRules M i c t bs bt)"
  unfolding CompileDynamicImageRewriteRules_def collectImageRewriteObjects_def lift_def Let_def
  by (intro rel_intros frame_collectNamespace)

lemma frame_runtimeRules: "state_io_rel same (drillRuntimeRules r op i cfg source)"
  unfolding drillRuntimeRules_def Let_def by (intro rel_intros frame_clusterClient frame_dynamicRules)

lemma frame_finishRestore: "state_io_rel same (finishDrillRestore r op i target tag ty e spec ao b)"
  unfolding finishDrillRestore_def Let_def by (intro rel_intros frame_clusterClient frame_applyPolicy)

lemma frame_resourceRestore: "state_io_rel same (drillResourceRestore r op i cfg target)"
  unfolding drillResourceRestore_def Let_def by (intro rel_intros frame_imageRules frame_runtimeRules frame_finishRestore)

lemma frame_resolveRuntime: "state_io_rel same (ResolveTrafficlessRuntime t cfg)"
  unfolding ResolveTrafficlessRuntime_def Let_def by (intro rel_intros)

lemma frame_checkRestore: "state_io_rel same (checkAppRestoreStatus ns n)"
  unfolding checkAppRestoreStatus_def by (intro rel_intros)

lemma frame_findRestore: "state_io_rel same (findAppRestoreByLabel r ns n ty)"
  unfolding findAppRestoreByLabel_def by (intro rel_intros)

lemma frame_orFail: "state_io_rel same m \<Longrightarrow> (\<And>x. state_io_rel same (g x)) \<Longrightarrow> state_io_rel same (orFail op m g)"
  unfolding orFail_def by (intro rel_intros)

lemma frame_outcome: "state_io_rel same m \<Longrightarrow> state_io_rel same (outcome op m)"
  unfolding outcome_def by (intro rel_intros)

end

text \<open>The cluster that the runtime is resolved for has the name it was asked for.\<close>

lemma runtime_cluster: "wp (ResolveTrafficlessRuntime t cfg) (\<lambda>y _. \<forall>z. y = Inr z \<longrightarrow> (\<forall>x. snd z = Some x \<longrightarrow> m_name (cl_meta x) = trimSpace t)) w"
proof -
  have "m_name (cl_meta x) = n" if "lookup clusterKind v ([], n) = Some x" for x n v
    using clusterK.lookup_key [OF that] by (simp add: keyOf_def metaKey_def clusterKind_def)
  then show ?thesis
    unfolding ResolveTrafficlessRuntime_def Let_def
    by (auto simp: trafficlessDefaults_def Let_def intro!: wp_apiGet)
qed

section \<open>The namespaces of a drill\<close>

text \<open>Where a drill restores to, what a list of those namespaces reaches (a list of the empty one is a list of all), and the
  namespaces it may create or delete.\<close>

definition drillNamespaces :: "smap \<Rightarrow> string list \<Rightarrow> string set" where
  "drillNamespaces nm nss = mapNamespace nm ` set nss"

definition reached :: "smap \<Rightarrow> string list \<Rightarrow> string set" where
  "reached nm nss = {n. n \<in> drillNamespaces nm nss \<or> [] \<in> drillNamespaces nm nss}"

definition drillNames :: "smap \<Rightarrow> string list \<Rightarrow> string set" where
  "drillNames nm nss = snd ` set nm \<union> trimSpace ` (set nss \<union> snd ` set nm)"

lemma set_appendNS: "set (appendNS out n) \<subseteq> set out \<union> {trimSpace n}"
  by (auto simp: appendNS_def Let_def)

lemma trimSpace_Nil: "trimSpace [] = []"
  by (simp add: trimSpace_def trimFunc_def)

lemma set_foldl_appendNS: "set (foldl appendNS out xs) \<subseteq> set out \<union> trimSpace ` set xs"
  by (induction xs arbitrary: out) (auto dest: subsetD [OF set_appendNS])

lemma mget_in: "mget m a = [] \<or> mget m a \<in> snd ` set m"
  by (cases "map_of m a") (auto simp: mget_def dest: map_of_SomeD intro: image_eqI [rotated])

lemma set_restoreNamespace: "set (restoreNamespace nm out n) \<subseteq> set out \<union> {trimSpace n} \<union> trimSpace ` snd ` set nm"
  using mget_in [of nm "trimSpace n"] by (auto simp: restoreNamespace_def Let_def appendNS_def trimSpace_Nil)

lemma set_foldl_restore: "set (foldl (restoreNamespace nm) out xs) \<subseteq> set out \<union> trimSpace ` set xs \<union> trimSpace ` snd ` set nm"
  by (induction xs arbitrary: out) (auto dest: subsetD [OF set_restoreNamespace])

lemma set_restoreNamespaces: "set (TrafficlessRestoreNamespaces nss nm) \<subseteq> trimSpace ` (set nss \<union> snd ` set nm)"
  unfolding TrafficlessRestoreNamespaces_def
  using set_foldl_appendNS [of "foldl (restoreNamespace nm) [] nss" "map snd nm"] set_foldl_restore [of nm "[]" nss]
  by (simp add: image_Un) blast

lemma synced_names:
  assumes "n \<in> set (TrafficlessRestoreNamespaces (TrafficlessRestoreNamespaces nss nm) [])"
  shows "n \<in> drillNames nm nss" and "trimSpace n \<in> drillNames nm nss"
proof -
  have "n \<in> trimSpace ` set (TrafficlessRestoreNamespaces nss nm)"
    using assms set_restoreNamespaces [of "TrafficlessRestoreNamespaces nss nm" "[]"] by auto
  then obtain x where "n = trimSpace (trimSpace x)" and "x \<in> set nss \<union> snd ` set nm"
    using set_restoreNamespaces [of nss nm] by blast
  then show "n \<in> drillNames nm nss" and "trimSpace n \<in> drillNames nm nss" by (auto simp: drillNames_def)
qed

section \<open>The steps of a drill\<close>

definition sameKey :: "DisasterOperation \<Rightarrow> DisasterOperation \<times> 'a \<Rightarrow> bool" where
  "sameKey op x \<longleftrightarrow> opKey (fst x) = opKey op"

lemma sameKey_pair [simp]: "sameKey op (op', x) \<longleftrightarrow> opKey op' = opKey op"
  by (simp add: sameKey_def)

lemma opKey_setStatus [simp]: "opKey (setStatus f op) = opKey op" "opKey (setSteps n s op) = opKey op"
  by (simp_all add: opKey_def setStatus_def setSteps_def)

lemma opKey_sets [simp]: "opKey (setResourceRestore n op) = opKey op" "opKey (setDataRestore n op) = opKey op"
  by (simp_all add: setResourceRestore_def setDataRestore_def)

lemma keyOf_op: "keyOf opKind x = opKey x"
  by (simp add: keyOf_def opKey_def)

lemma wp_written_key: "wp (apiStatusUpdate opKind x) (\<lambda>y _. \<forall>z. y = Inr z \<longrightarrow> opKey z = opKey x) w"
  unfolding apiStatusUpdate_def
  by (rule wp_faulty)
    (auto simp: wp_def storeWrite_def Let_def keyOf_op [symmetric] dest: opK.lookup_key split: option.splits)

lemma key_orFail:
  assumes "\<And>w. wp m (\<lambda>x _. \<forall>y. x = Inr y \<longrightarrow> P y) w" and "\<And>x w. P x \<Longrightarrow> wp (g x) (\<lambda>y _. sameKey op y) w" and "opKey op' = opKey op"
  shows "wp (orFail op' m g) (\<lambda>y _. sameKey op y) w"
  unfolding orFail_def wp_bind by (rule wp_mono [OF assms(1)]) (auto simp: assms(2,3) split: sum.splits)

lemma key_orFail':
  "(\<And>x w. wp (g x) (\<lambda>y _. sameKey op y) w) \<Longrightarrow> wp (orFail op m g) (\<lambda>y _. sameKey op y) w"
  by (rule key_orFail [where P = "\<lambda>_. True"]) (auto intro: wp_any)

lemma key_bind: "(\<And>x w. wp (g x) (\<lambda>y _. Q y) w) \<Longrightarrow> wp (State_Monad.bind m g) (\<lambda>y _. Q y) w"
  by (simp add: wp_any)

lemma key_outcome: "wp (outcome op m) (\<lambda>y _. sameKey op y) w"
  unfolding outcome_def by (simp add: sameKey_def wp_any)

lemma key_record:
  assumes "opKey (setName n op) = opKey op"
  shows "wp (recordRestore setName n op) (\<lambda>y _. sameKey op y) w"
  unfolding recordRestore_def
  by (rule key_orFail [where P = "\<lambda>z. opKey z = opKey op"]) (simp_all add: assms wp_mono [OF wp_written_key])

lemma key_adopt:
  assumes "\<And>n. opKey (setName n op) = opKey op"
  shows "wp (adoptOrCreate r op i ty setName build) (\<lambda>y _. sameKey op y) w"
  unfolding adoptOrCreate_def
  by (auto intro!: key_orFail' key_bind key_record simp: assms simp del: wp_bind split: option.splits sum.splits)

lemma key_step: "wp (executeDrillStep r name i op target mode) (\<lambda>y _. sameKey op y) w"
  unfolding executeDrillStep_def executeDrillRestoreResource_def executeDrillRestoreData_def
  by (auto intro!: key_orFail' key_outcome key_adopt split: option.splits)

context drill_frame
begin

lemma frame_opStatus: "opKey x = k \<Longrightarrow> state_io_rel same (apiStatusUpdate opKind x)"
  by (rule opH.hidden_statusUpdate) (simp add: keyOf_op)

lemma frame_saveOp: "opKey op = k \<Longrightarrow> state_io_rel same (saveOp op res)"
  unfolding saveOp_def by (intro rel_intros frame_opStatus)

lemma frame_saveOpIgnoring: "opKey op = k \<Longrightarrow> state_io_rel same (saveOpIgnoring op res)"
  unfolding saveOpIgnoring_def by (intro rel_intros frame_opStatus)

lemma frame_failOp: "opKey op = k \<Longrightarrow> state_io_rel same (failOp m op)"
  unfolding failOp_def by (intro frame_saveOp) simp

lemma frame_restoreCreate: "state_io_rel same (apiCreate restoreKind x)"
  by (rule frame_create) (simp add: proj_restores)

lemma frame_record: "opKey op = k \<Longrightarrow> opKey (setName n op) = k \<Longrightarrow> state_io_rel same (recordRestore setName n op)"
  unfolding recordRestore_def by (intro frame_orFail rel_intros frame_opStatus)

lemma frame_adopt:
  assumes "opKey op = k" and "\<And>n. opKey (setName n op) = k" and "state_io_rel same build"
  shows "state_io_rel same (adoptOrCreate r op i ty setName build)"
  unfolding adoptOrCreate_def
  by (intro frame_orFail rel_intros frame_findRestore frame_record frame_restoreCreate assms)

lemma frame_drillRuntime:
  assumes "drillNames (drillMapping op) (di_namespaces (in_spec i)) \<subseteq> N"
  shows "state_io_rel same (drillRuntime r op i dsync c)"
  unfolding drillRuntime_def
proof (rule rel_chk_result [OF runtime_cluster frame_resolveRuntime])
  fix z :: "TrafficlessRuntime \<times> Cluster option"
  assume z: "\<forall>x. snd z = Some x \<longrightarrow> m_name (cl_meta x) = trimSpace c"
  show "state_io_rel same (case z of (rt, cl) \<Rightarrow> if tlr_pullSecretName rt = [] then ok rt
       else chkWrap ''build target cluster client for trafficless registry secret: '' (getClusterClient c) (\<lambda>_.
            chkWrap ''sync drill trafficless registry pull secret: ''
              (SyncTrafficlessRegistryPullSecret (r_managementNamespace r) c cl
                 (TrafficlessRestoreNamespaces (di_namespaces (in_spec i)) (drillMapping op))) (\<lambda>_. ok rt)))"
    using z assms synced_names [of _ "di_namespaces (in_spec i)" "drillMapping op"]
    by (auto split: prod.split intro!: rel_intros frame_clusterClient frame_syncSecret)
qed

lemma frame_dataRestore:
  assumes "drillNames (drillMapping op) (di_namespaces (in_spec i)) \<subseteq> N"
  shows "state_io_rel same (drillDataRestore r op i cfg c)"
  unfolding drillDataRestore_def Let_def
  by (intro rel_intros frame_drillRuntime [OF assms] frame_finishRestore)

lemma frame_deletePod: "m_ns (pod_meta p) \<in> T \<Longrightarrow> state_io_rel same (deletePod r c p)"
  unfolding deletePod_def by (intro rel_intros podH.hidden_delete) (simp add: metaKey_def)

lemma frame_cleanupPods:
  assumes "drillNamespaces nm (di_namespaces (in_spec i)) \<subseteq> T" and "[] \<in> drillNamespaces nm (di_namespaces (in_spec i)) \<Longrightarrow> T = UNIV"
  shows "state_io_rel same (cleanupTrafficlessPods r i c nm)"
proof -
  have one: "state_io_rel same (chk (apiListRaw (\<lambda>w. w_pods w c) (isTrafficless (mapNamespace nm n))) (\<lambda>ps.
      if ps = [] then ok b else chk (forEach (\<lambda>p _. deletePod r c p) ps ()) (\<lambda>_. ok False)))"
    if "n \<in> set (di_namespaces (in_spec i))" for n b
  proof (rule rel_chk_result [OF wp_list_members rel_apiListRaw])
    fix ps
    assume "\<forall>p \<in> set ps. isTrafficless (mapNamespace nm n) p"
    then have "m_ns (pod_meta p) \<in> T" if "p \<in> set ps" for p
      using assms \<open>n \<in> _\<close> that by (cases "mapNamespace nm n = []") (force simp: isTrafficless_def inNamespace_def drillNamespaces_def)+
    then show "state_io_rel same (if ps = [] then ok b else chk (forEach (\<lambda>p _. deletePod r c p) ps ()) (\<lambda>_. ok False))"
      by (intro rel_intros frame_deletePod)
  qed
  show ?thesis
    unfolding cleanupTrafficlessPods_def by (intro rel_chk frame_clusterClient rel_forEach one)
qed

lemma frame_scaleIn:
  assumes "n \<in> T" and "n = [] \<Longrightarrow> T = UNIV"
    and "\<And>d. m_ns (wl_meta d) \<in> T \<Longrightarrow> state_io_rel same (f d)" and "\<And>d. m_ns (wl_meta d) \<in> T \<Longrightarrow> state_io_rel same (g d)"
  shows "state_io_rel same (chk (apiList (deployKind c) n) (\<lambda>ds. chk (forEach (\<lambda>d _. f d) ds ()) (\<lambda>_.
     chk (apiList (stsKind c) n) (\<lambda>ss. forEach (\<lambda>d _. g d) ss ()))))"
proof -
  have D: "wp (apiList (deployKind c) n) (\<lambda>x _. \<forall>ds. x = Inr ds \<longrightarrow> (\<forall>d \<in> set ds. m_ns (wl_meta d) \<in> T)) w" for w
    by (cases "n = []") (use assms(1,2) in \<open>auto intro: wp_any wp_mono [OF wp_list_namespace [of n "deployKind c" w]]\<close>)
  have S: "wp (apiList (stsKind c) n) (\<lambda>x _. \<forall>ds. x = Inr ds \<longrightarrow> (\<forall>d \<in> set ds. m_ns (wl_meta d) \<in> T)) w" for w
    by (cases "n = []") (use assms(1,2) in \<open>auto intro: wp_any wp_mono [OF wp_list_namespace [of n "stsKind c" w]]\<close>)
  show ?thesis
    by (intro rel_chk_result [OF D] rel_chk_result [OF S] rel_intros assms(3,4)) simp_all
qed

lemma frame_scaleOne:
  assumes "m_ns (wl_meta d) \<in> T"
  shows "state_io_rel same (scaleDownOne (deployKind c) a d)" and "state_io_rel same (scaleDownOne (stsKind c) a d)"
    and "state_io_rel same (doScaleUpOne (deployKind c) m n p d)" and "state_io_rel same (doScaleUpOne (stsKind c) m n p d)"
  unfolding scaleDownOne_def doScaleUpOne_def
  by (intro rel_intros deployH.hidden_update stsH.hidden_update; simp add: assms keyOf_def metaKey_def scaleTo_def)+

lemma frame_scaleUp:
  assumes "drillNamespaces nm (di_namespaces (in_spec i)) \<subseteq> T" and "[] \<in> drillNamespaces nm (di_namespaces (in_spec i)) \<Longrightarrow> T = UNIV"
  shows "state_io_rel same (doScaleUp i c m b nm)"
proof -
  have "state_io_rel same (doScaleUpNamespace c m nm n)" if "n \<in> set (di_namespaces (in_spec i))" for n
    unfolding doScaleUpNamespace_def using assms that by (intro frame_scaleIn frame_scaleOne) (force simp: drillNamespaces_def)+
  then show ?thesis
    unfolding doScaleUp_def by (intro rel_intros frame_clusterClient frame_checkScaledUp)
qed

lemma frame_scaleDown:
  assumes "set (di_namespaces (in_spec i)) \<subseteq> T" and "[] \<in> set (di_namespaces (in_spec i)) \<Longrightarrow> T = UNIV"
  shows "state_io_rel same (doScaleDown i c)"
proof -
  have "state_io_rel same (scaleDownNamespace c a n)" if "n \<in> set (di_namespaces (in_spec i))" for a n
    unfolding scaleDownNamespace_def using assms that by (intro frame_scaleIn frame_scaleOne) auto
  then show ?thesis
    unfolding doScaleDown_def scaleDownAll_def by (intro rel_intros frame_clusterClient)
qed

end

section \<open>The handlers of a drill\<close>

text \<open>
  The operation \<open>op\<close> and its instance \<open>i\<close>: the operation and the cluster are the ones the
  projection is blind for, and its namespaces are among those hidden.
\<close>

definition withinDrill :: "key \<Rightarrow> string \<Rightarrow> string set \<Rightarrow> string set \<Rightarrow> DisasterOperation \<Rightarrow> DisasterInstance \<Rightarrow> bool" where
  "withinDrill k c T N op i \<longleftrightarrow> opKey op = k \<and> drillTarget op i = c \<and>
     drillNamespaces (drillMapping op) (di_namespaces (in_spec i)) \<subseteq> T \<and>
     ([] \<in> drillNamespaces (drillMapping op) (di_namespaces (in_spec i)) \<longrightarrow> T = UNIV) \<and>
     drillNames (drillMapping op) (di_namespaces (in_spec i)) \<subseteq> N"

lemma drillMapping_Some: "sp_drillConfig (op_spec op) = Some dc \<Longrightarrow> drillMapping op = dc_namespaceMapping dc"
  by (simp add: drillMapping_def)

context drill_frame
begin

lemma frame_restoreData:
  assumes "withinDrill k c T N op i"
  shows "state_io_rel same (executeDrillRestoreData r i op c)"
proof -
  have "state_io_rel same (cleanupTrafficlessPods r i c (dc_namespaceMapping dc))" if "sp_drillConfig (op_spec op) = Some dc" for dc
    using assms drillMapping_Some [OF that] by (intro frame_cleanupPods) (simp_all add: withinDrill_def)
  then show ?thesis
    unfolding executeDrillRestoreData_def
    using assms
    by (intro frame_orFail rel_intros frame_getConfig frame_checkRestore frame_outcome frame_adopt frame_dataRestore)
      (auto simp: withinDrill_def)
qed

lemma frame_restoreResource: "opKey op = k \<Longrightarrow> state_io_rel same (executeDrillRestoreResource r i op c)"
  unfolding executeDrillRestoreResource_def
  by (intro frame_orFail rel_intros frame_getConfig frame_checkRestore frame_outcome frame_adopt frame_resourceRestore) simp_all

lemma frame_drillScaleUp:
  assumes "withinDrill k c T N op i"
  shows "state_io_rel same (executeDrillScaleUp i op c)"
proof -
  have "state_io_rel same (doScaleUp i c m b (dc_namespaceMapping dc))" if "sp_drillConfig (op_spec op) = Some dc" for dc m b
    using assms drillMapping_Some [OF that] by (intro frame_scaleUp) (simp_all add: withinDrill_def)
  then show ?thesis
    unfolding executeDrillScaleUp_def by (intro rel_intros frame_fetchReplicas)
qed

lemma frame_drillStep:
  assumes "withinDrill k c T N op i"
  shows "state_io_rel same (executeDrillStep r name i op c mode)"
  unfolding executeDrillStep_def
  using assms by (intro rel_intros frame_outcome frame_restoreResource frame_restoreData frame_drillScaleUp) (simp_all add: withinDrill_def)

lemma frame_stepFailed: "opKey op = k \<Longrightarrow> state_io_rel same (drillStepFailed op idx e)"
  unfolding drillStepFailed_def Let_def by (intro rel_intros frame_saveOpIgnoring) simp

lemma frame_stepRunning:
  assumes "withinDrill k c T N op i"
  shows "state_io_rel same (drillStepRunning r op i idx step)"
  unfolding drillStepRunning_def Let_def
proof (rule rel_bind_result [where P = "sameKey op"])
  show "wp (executeDrillStep r (st_name step) i op (drillTarget op i) (effectiveDrillRestoreMode (sp_drillConfig (op_spec op))))
     (\<lambda>x _. sameKey op x) w" for w by (rule key_step)
  show "state_io_rel same (executeDrillStep r (st_name step) i op (drillTarget op i) (effectiveDrillRestoreMode (sp_drillConfig (op_spec op))))"
    using assms frame_drillStep [OF assms] by (simp add: withinDrill_def)
qed (use assms in \<open>auto simp: withinDrill_def sameKey_def intro!: rel_intros frame_stepFailed frame_saveOpIgnoring split: sum.splits\<close>)

lemma frame_drillRun:
  assumes "withinDrill k c T N op i"
  shows "state_io_rel same (drillRun r op i)"
  unfolding drillRun_def Let_def
  using assms by (intro rel_intros frame_stepRunning frame_saveOpIgnoring) (simp_all add: withinDrill_def)

lemma frame_drillInit: "opKey op = k \<Longrightarrow> state_io_rel same (drillInit op names)"
  unfolding drillInit_def by (intro rel_intros frame_opStatus) simp

lemma frame_cleanupDone: "opKey op = k \<Longrightarrow> state_io_rel same (cleanupDone r op)"
  unfolding cleanupDone_def by (intro rel_intros frame_opStatus) simp

lemma frame_deleteMapped: "n \<in> N \<Longrightarrow> state_io_rel same (deleteMappedNamespace r c n)"
  unfolding deleteMappedNamespace_def by (intro rel_intros nsH.hidden_delete) simp

lemma frame_cleanupTarget:
  assumes "withinDrill k c T N op i"
  shows "state_io_rel same (cleanupTarget r op i c)"
proof -
  have "state_io_rel same (doScaleDown i c)" if "drillMapping op = []"
    using assms that by (intro frame_scaleDown) (auto simp: withinDrill_def drillNamespaces_def mapNamespace_def)
  moreover have "n \<in> N" if "n \<in> set (map snd (drillMapping op))" for n
    using assms that by (auto simp: withinDrill_def drillNames_def)
  ultimately show ?thesis
    unfolding cleanupTarget_def
    using assms by (intro rel_intros frame_failOp frame_cleanupDone frame_deleteMapped) (auto simp: withinDrill_def)
qed

end

section \<open>Isolation\<close>

text \<open>The world without what a drill may write: the operation \<open>k\<close>, the restores, and in the
  cluster \<open>c\<close> the workloads and pods in \<open>T\<close>, the namespaces named in \<open>N\<close> and their copies of the pull secret; the events are not seen.\<close>

definition outside :: "key \<Rightarrow> string \<Rightarrow> string set \<Rightarrow> string set \<Rightarrow> world \<Rightarrow> world" where
  "outside k c T N w = w\<lparr>w_ops := filter (\<lambda>x. opKey x \<noteq> k) (w_ops w), w_restores := [],
     w_deploys := (w_deploys w)(c := filter (\<lambda>d. m_ns (wl_meta d) \<notin> T) (w_deploys w c)),
     w_sts := (w_sts w)(c := filter (\<lambda>d. m_ns (wl_meta d) \<notin> T) (w_sts w c)),
     w_pods := (w_pods w)(c := filter (\<lambda>p. m_ns (pod_meta p) \<notin> T) (w_pods w c)),
     w_nss := (w_nss w)(c := filter (\<lambda>n. m_name (nsp_meta n) \<notin> N) (w_nss w c)),
     w_secrets := (w_secrets w)(c := filter (\<lambda>s. \<not> (m_ns (sec_meta s) \<in> N \<and> m_name (sec_meta s) = pullSecretOf c)) (w_secrets w c)),
     w_events := [], w_faults := []\<rparr>"

interpretation outsideF: drill_frame "outside k c T N" k c T N for k c T N
  by unfold_locales (simp_all add: outside_def)

text \<open>The world outside the drill that an operation runs on its instance.\<close>

definition outsideDrill :: "DisasterOperation \<Rightarrow> DisasterInstance \<Rightarrow> world \<Rightarrow> world" where
  "outsideDrill op i = outside (opKey op) (drillTarget op i) (reached (drillMapping op) (di_namespaces (in_spec i)))
     (drillNames (drillMapping op) (di_namespaces (in_spec i)))"

end
