(* ===== verification/DrillFsm.thy ===== *)
theory DrillFsm
  imports DrillFrames
begin

text \<open>
  The state machine of a drill as an abstract specification, and the proof that a reconcile of
  the drill controller takes at most one of its edges, whatever the API server answers. The
  edges carry what justifies them: the confirmation of the user, the outcome of an operation
  that exists, the restart annotation. With it goes the well-formedness of a status: the times
  a state stands for are recorded.
\<close>

section \<open>The abstract machine\<close>

definition someOp :: "world \<Rightarrow> key \<Rightarrow> OperationState \<Rightarrow> bool" where
  "someOp w k st \<longleftrightarrow> (\<exists>op \<in> set (w_ops w). m_ns (op_meta op) = fst k \<and> os_state (op_status op) = st)"

inductive drillStep :: "reconciler \<Rightarrow> world \<Rightarrow> DisasterDrill \<Rightarrow> DrillState \<Rightarrow> DrillState \<Rightarrow> bool" for r w d where
  created: "drillStep r w d DrillNone DrillPending"
| validated: "drillStep r w d DrillPending DrillReady"
| rejected: "drillStep r w d DrillPending DrillFailed"
| started: "ds_confirmed (dr_spec d) \<Longrightarrow> drillStep r w d DrillReady DrillExecuting"
| refused: "ds_confirmed (dr_spec d) \<Longrightarrow> drillStep r w d DrillReady DrillFailed"
| finished: "someOp w (drillKey d) OpCompleted \<Longrightarrow> drillStep r w d DrillExecuting DrillCompleted"
| broken: "drillStep r w d DrillExecuting DrillFailed"
| cleaning: "ds_cleanUp (dr_spec d) \<Longrightarrow> f = DrillCompleted \<or> f = DrillFailed \<Longrightarrow> drillStep r w d f DrillCleaningUp"
| cleaned: "someOp w (drillKey d) OpCompleted \<Longrightarrow> f = DrillCleaningUp \<or> ds_cleanUp (dr_spec d) \<and> (f = DrillCompleted \<or> f = DrillFailed) \<Longrightarrow>
    drillStep r w d f DrillCleanedUp"
| cleanup_failed: "someOp w (drillKey d) OpFailed \<Longrightarrow> ds_cleanUp (dr_spec d) \<Longrightarrow> drillStep r w d DrillCompleted DrillFailed"
| cleaning_failed: "drillStep r w d DrillCleaningUp DrillFailed"
| restarted: "shouldRestart r d \<Longrightarrow> \<not> ds_confirmed (dr_spec d) \<Longrightarrow> f = DrillCompleted \<or> f = DrillFailed \<or> f = DrillCleanedUp \<Longrightarrow>
    drillStep r w d f DrillPending"

text \<open>The times a state stands for.\<close>

definition drillWf :: "DisasterDrillStatus \<Rightarrow> bool" where
  "drillWf s \<longleftrightarrow> (case dst_state s of
     DrillPending \<Rightarrow> dst_startTime s \<noteq> None
   | DrillReady \<Rightarrow> dst_readyTime s \<noteq> None
   | DrillExecuting \<Rightarrow> dst_executionTime s \<noteq> None
   | DrillCompleted \<Rightarrow> dst_completionTime s \<noteq> None
   | DrillCleanedUp \<Rightarrow> dst_completionTime s \<noteq> None
   | _ \<Rightarrow> True)"

text \<open>What a reconcile may make of the status \<open>s\<close> of the drill.\<close>

definition drillMoves :: "reconciler \<Rightarrow> world \<Rightarrow> DisasterDrill \<Rightarrow> DisasterDrillStatus \<Rightarrow> bool" where
  "drillMoves r w d s \<longleftrightarrow> (dst_state s = dst_state (dr_status d) \<or> drillStep r w d (dst_state (dr_status d)) (dst_state s)) \<and>
     (drillWf (dr_status d) \<longrightarrow> drillWf s)"

section \<open>Following the stored drill\<close>

definition drillInv :: "key \<Rightarrow> (DisasterDrillStatus \<Rightarrow> bool) \<Rightarrow> world \<Rightarrow> bool" where
  "drillInv k P w \<longleftrightarrow> (\<forall>d. lookup drillKind w k = Some d \<longrightarrow> P (dr_status d))"

interpretation drillI: world_inv "drillInv k P" for k P
  by unfold_locales (simp_all add: drillInv_def)

lemma lookup_drills_cong: "w_drills w' = w_drills w \<Longrightarrow> lookup drillKind w' k = lookup drillKind w k"
  by (simp add: lookup_def)

interpretation drillsF: world_frame w_drills
  by unfold_locales simp_all

lemma drillInv_same: "w_drills w' = w_drills w \<Longrightarrow> drillInv k P w \<Longrightarrow> drillInv k P w'"
  using lookup_drills_cong [of w' w k] by (simp add: drillInv_def)

lemma drillI_frame: "state_io_rel drillsF.same m \<Longrightarrow> state_io_rel (drillI.keeps k P) m"
  by (rule drillI.keeps_wp, rule wp_mono, erule drillsF.wp_same, erule drillInv_same)

lemma drill_statuses [simp]: "dr_status (bumpRv drillKind s x) = dr_status x" "dr_status (k_mergeStatus drillKind s x) = dr_status x"
  "dr_status (k_mergeSpec drillKind s x) = dr_status s"
  by (simp_all add: bumpRv_def drillKind_def)

lemma drillInv_replace:
  assumes "lookup drillKind w (keyOf drillKind s) = Some s" and "P (dr_status s) \<Longrightarrow> P (dr_status x)" and "drillInv k P w"
  shows "drillInv k P (replaceObj drillKind (bumpRv drillKind s x) w)"
  using assms by (auto simp: drillInv_def drillK.lookup_replaceObj)

lemma drillI_status: "P (dr_status x) \<Longrightarrow> state_io_rel (drillI.keeps k P) (apiStatusUpdate drillKind x)"
  by (rule drillI.rel_apiStatusUpdate) (auto simp: drillI.keeps_def intro!: drillInv_replace dest: drillK.lookup_self)

lemma drillI_update: "state_io_rel (drillI.keeps k P) (apiUpdate drillKind x)"
  by (rule drillI.rel_apiUpdate) (auto simp: drillI.keeps_def intro!: drillInv_replace dest: drillK.lookup_self)

lemma drillI_save: "P (dr_status d) \<Longrightarrow> state_io_rel (drillI.keeps k P) (saveDrill d res)"
  unfolding saveDrill_def by (intro drillI.rel_intros drillI_status)

lemma drillInv_gone:
  assumes "drillInv k P w"
  shows "drillInv k P (w\<lparr>w_drills := filter (\<lambda>y. keyOf drillKind y \<noteq> q) (w_drills w)\<rparr>)"
proof -
  have "find (\<lambda>y. keyOf drillKind y = k) (w_drills w) = Some d"
    if "find (\<lambda>y. keyOf drillKind y = k) (filter (\<lambda>y. keyOf drillKind y \<noteq> q) (w_drills w)) = Some d" for d
    using that by (rule find_filter_other) simp
  with assms show ?thesis by (simp add: drillInv_def lookup_def)
qed

lemma drillI_deleting: "state_io_rel (drillI.keeps k P) (storeUpdateDeleting drillKind x)"
  unfolding storeUpdateDeleting_def
proof (intro drillI.rel_chk drillI.rel_storeWrite)
  fix s w assume "lookup drillKind w (keyOf drillKind x) = Some s"
  then show "drillI.keeps k P w (replaceObj drillKind (bumpRv drillKind s (k_mergeSpec drillKind s x)) w)"
    by (auto simp: drillI.keeps_def intro!: drillInv_replace dest: drillK.lookup_self)
qed (rule state_io_relI, auto simp: drillI.keeps_def drillInv_gone split: if_splits)

section \<open>The reads of the drill controller\<close>

context world_frame
begin

lemma frame_restoreModeOf: "state_io_rel same (resolveInstanceRestoreMode i)"
  unfolding resolveInstanceRestoreMode_def Let_def lift_def by (intro rel_intros)

lemma frame_currentModes: "state_io_rel same (collectCurrentRestoreModes d)"
  unfolding collectCurrentRestoreModes_def groupMode_def Let_def by (intro rel_intros frame_restoreModeOf)

lemma frame_refreshModes: "state_io_rel same (refreshRestoreModeSnapshot d)"
  unfolding refreshRestoreModeSnapshot_def by (intro rel_intros frame_currentModes)

lemma frame_warn: "state_io_rel same (warnUnmapped d b)"
  unfolding warnUnmapped_def by (intro rel_intros)

lemma frame_validateInstance: "state_io_rel same (validateInstanceDrill d)"
  unfolding validateInstanceDrill_def Let_def by (intro rel_intros frame_restoreModeOf frame_warn)

lemma frame_validateInstances: "state_io_rel same (validateGroupInstances d ns modes)"
  by (induction ns arbitrary: modes) (auto intro!: rel_intros frame_restoreModeOf frame_warn)

lemma frame_validateGroup: "state_io_rel same (validateGroupDrill d)"
  unfolding validateGroupDrill_def Let_def by (intro rel_intros frame_validateInstances)

lemma frame_drillEdges: "state_io_rel same (drillEdges r d)"
  unfolding drillEdges_def by (intro rel_intros)

lemma frame_drillLabels: "state_io_rel same (drillSyncDependencyLabels r d)"
  unfolding drillSyncDependencyLabels_def Let_def by (intro rel_intros frame_drillEdges)

lemma frame_endedCleanup: "state_io_rel same (endedCleanup d)"
  unfolding endedCleanup_def Let_def by (intro rel_intros)

end

section \<open>The handlers take edges\<close>

lemma drillMovesI: "drillStep r w d (dst_state (dr_status d)) (dst_state s) \<Longrightarrow> drillWf s \<Longrightarrow> drillMoves r w d s"
  by (simp add: drillMoves_def)

lemma setDrill_status [simp]: "dr_status (setDrill f d) = f (dr_status d)" "dr_spec (setDrill f d) = dr_spec d" "dr_meta (setDrill f d) = dr_meta d"
  by (simp_all add: setDrill_def)

lemma onResults_keeps [simp]: "dst_state (onResults f s) = dst_state s" "dst_readyTime (onResults f s) = dst_readyTime s"
  by (simp_all add: onResults_def)

lemmas drill_rules = drillI.rel_intros drillI_save drillI_status

lemma keeps_checkTarget:
  assumes "dst_state (dr_status d0) = DrillPending"
  shows "state_io_rel (drillI.keeps k (drillMoves r w d0)) (checkTarget r d target)"
  unfolding checkTarget_def becomeReady_def invalidTarget_def
  by (intro drill_rules; rule drillMovesI; simp add: drillWf_def assms drillStep.intros)

lemma keeps_failValidation:
  assumes "dst_state (dr_status d0) = DrillPending"
  shows "state_io_rel (drillI.keeps k (drillMoves r w d0)) (failValidation d m)"
  unfolding failValidation_def
  by (intro drill_rules; rule drillMovesI; simp add: drillWf_def assms drillStep.intros)

lemma keeps_pending:
  assumes "dst_state (dr_status d) = DrillPending"
  shows "state_io_rel (drillI.keeps k (drillMoves r w d)) (handleDrillPending r d)"
  unfolding handleDrillPending_def Let_def
  by (intro drillI.rel_intros keeps_failValidation [OF assms] keeps_checkTarget [OF assms]
      drillI_frame [OF drillsF.frame_validateInstance] drillI_frame [OF drillsF.frame_validateGroup])

text \<open>What a refresh of the snapshot keeps.\<close>

definition sameRun :: "DisasterDrill \<Rightarrow> DisasterDrill \<Rightarrow> bool" where
  "sameRun d d' \<longleftrightarrow> dst_state (dr_status d') = dst_state (dr_status d) \<and> dst_readyTime (dr_status d') = dst_readyTime (dr_status d)"

lemma refresh_sameRun: "wp (refreshRestoreModeSnapshot d) (\<lambda>x _. \<forall>b d'. x = Inr (b, d') \<longrightarrow> sameRun d d') w"
  unfolding refreshRestoreModeSnapshot_def wp_bind
  by (rule wp_any) (auto simp: Let_def sameRun_def setDrillRestoreModeSnapshot_def split: sum.splits if_splits)

lemma drillI_create: "state_io_rel (drillI.keeps k P) (createOperation op)"
  unfolding createOperation_def by (intro drillI.rel_intros drillI_frame drillsF.frame_create) simp

lemma keeps_startDrill:
  assumes "dst_state (dr_status d0) = DrillReady" and "ds_confirmed (dr_spec d0)"
  shows "state_io_rel (drillI.keeps k (drillMoves r w d0)) (startDrill r d)"
  unfolding startDrill_def
  by (intro drill_rules drillI_create; rule drillMovesI; simp add: drillWf_def assms drillStep.intros)

lemma keeps_recheck:
  assumes "dst_state (dr_status d) = DrillReady" and "ds_confirmed (dr_spec d)"
  shows "state_io_rel (drillI.keeps k (drillMoves r w d)) (recheckBackups r d)"
  unfolding recheckBackups_def
proof (rule drillI.rel_bind_result [OF refresh_sameRun drillI_frame [OF drillsF.frame_refreshModes]], goal_cases)
  case (1 x)
  have "drillMoves r w d (dr_status d')" if "sameRun d d'" for d'
    using that assms by (simp add: drillMoves_def drillWf_def sameRun_def)
  then have moved: "drillMoves r w d (dr_status (snd y))" if "x = Inr y" for y using 1 that by (cases y) simp
  show ?case
  proof (cases x)
    case (Inl e)
    then show ?thesis
      by (auto intro!: drill_rules drillMovesI simp: assms drillWf_def drillStep.intros split: prod.split)
  next
    case (Inr y)
    then show ?thesis
      using moved [OF Inr] by (auto intro!: drill_rules keeps_startDrill assms split: prod.split)
  qed
qed

lemma keeps_ready:
  assumes "dst_state (dr_status d) = DrillReady"
  shows "state_io_rel (drillI.keeps k (drillMoves r w d)) (handleReady r d)"
  unfolding handleReady_def Let_def
  by (intro drill_rules keeps_recheck assms; (rule drillMovesI)?; simp add: drillWf_def assms drillStep.intros)

lemma keeps_reset:
  assumes "shouldRestart r d" and "dst_state (dr_status d) = DrillCompleted \<or> dst_state (dr_status d) = DrillFailed \<or> dst_state (dr_status d) = DrillCleanedUp"
  shows "state_io_rel (drillI.keeps k (drillMoves r w d)) (resetDrill r d)"
  unfolding resetDrill_def
  using assms by (intro drill_rules drillI_update; (rule drillMovesI)?) (auto simp: drillWf_def intro!: drillMovesI drillStep.restarted)

text \<open>The operations a handler reads are those of the world it starts in.\<close>

definition atOps :: "world \<Rightarrow> key \<Rightarrow> (DisasterDrillStatus \<Rightarrow> bool) \<Rightarrow> world \<Rightarrow> bool" where
  "atOps w k P v \<longleftrightarrow> w_ops v = w_ops w \<and> drillInv k P v"

interpretation atI: world_inv "atOps w k P" for w k P
  by unfold_locales (simp_all add: atOps_def drillI.inv_faults drillI.inv_events)

lemma wp_at: "state_io_rel (drillI.keeps k P) m \<Longrightarrow> atOps w k P v \<Longrightarrow> wp m (\<lambda>_. drillInv k P) v"
  by (rule drillI.wp_keeps) (simp_all add: atOps_def)

lemma lookup_op_ns: "lookup opKind v (ns, n) = Some op \<Longrightarrow> op \<in> set (w_ops v) \<and> m_ns (op_meta op) = ns"
  using opK.lookup_key [of v "(ns, n)" op] by (auto simp: lookup_def keyOf_def metaKey_def dest: find_hit)

lemma fst_drillKey [simp]: "fst (drillKey d) = drillNs d"
  by (simp add: drillKey_def metaKey_def drillNs_def)

lemma wp_getOp:
  assumes "atOps w k P v" and "\<And>e v. atOps w k P v \<Longrightarrow> Q (Inl e) v"
    and "\<And>op v. atOps w k P v \<Longrightarrow> op \<in> set (w_ops w) \<Longrightarrow> m_ns (op_meta op) = drillNs d \<Longrightarrow> Q (Inr op) v"
  shows "wp (apiGet opKind (drillNs d, n)) Q v"
proof (rule wp_apiGet, goal_cases)
  case (1 e fs)
  then show ?case using assms(1,2) atI.inv_faults by blast
next
  case (2 x fs)
  from lookup_op_ns [OF this] have "x \<in> set (w_ops w)" "m_ns (op_meta x) = drillNs d" using assms(1) by (simp_all add: atOps_def)
  then show ?case using assms(1,3) atI.inv_faults by blast
qed

definition reads :: "world \<Rightarrow> DisasterDrill \<Rightarrow> DisasterOperation \<Rightarrow> bool" where
  "reads w d op \<longleftrightarrow> op \<in> set (w_ops w) \<and> m_ns (op_meta op) = drillNs d"

lemma reads_some: "reads w d op \<Longrightarrow> os_state (op_status op) = st \<Longrightarrow> someOp w (drillKey d) st"
  by (auto simp: reads_def someOp_def)

lemma keeps_missing:
  assumes "dst_state (dr_status d) = DrillExecuting \<or> dst_state (dr_status d) = DrillCleaningUp"
  shows "state_io_rel (drillI.keeps k (drillMoves r w d)) (drillOpMissing d m)"
  unfolding drillOpMissing_def
  using assms by (intro drill_rules drillMovesI) (auto simp: drillWf_def intro: drillStep.intros)

lemma keeps_progress:
  assumes "dst_state (dr_status d) = DrillExecuting" and "reads w d op"
  shows "state_io_rel (drillI.keeps k (drillMoves r w d)) (drillProgress r d op)"
  unfolding drillProgress_def Let_def
  using assms(1) reads_some [OF assms(2)]
  by (intro drill_rules; (rule drillMovesI)?) (auto simp: drillWf_def copyProgress_def intro!: drillMovesI drillStep.intros)

lemma opHandler_wp:
  assumes "dst_state (dr_status d) = DrillExecuting \<or> dst_state (dr_status d) = DrillCleaningUp" and "atOps w k (drillMoves r w d) v"
    and "\<And>op. reads w d op \<Longrightarrow> state_io_rel (drillI.keeps k (drillMoves r w d)) (f op)"
  shows "wp (if n = [] then drillOpMissing d m else do {
        g \<leftarrow> apiGet opKind (drillNs d, n);
        (case g of
           Inl e \<Rightarrow> if err_kind e = NotFound then drillOpMissing d m' else fail e
         | Inr op \<Rightarrow> f op) }) (\<lambda>_. drillInv k (drillMoves r w d)) v"
proof -
  have missing: "wp (drillOpMissing d x) (\<lambda>_. drillInv k (drillMoves r w d)) u" if "atOps w k (drillMoves r w d) u" for x u
    by (rule wp_at [OF keeps_missing [OF assms(1)] that])
  have found: "wp (f op) (\<lambda>_. drillInv k (drillMoves r w d)) u"
    if "atOps w k (drillMoves r w d) u" "op \<in> set (w_ops w)" "m_ns (op_meta op) = drillNs d" for op u
    by (rule wp_at [OF assms(3) that(1)]) (use that(2,3) in \<open>simp add: reads_def\<close>)
  show ?thesis
    using missing [OF assms(2)] by (auto intro!: wp_getOp [OF assms(2)] missing found simp del: split_paired_All) (simp add: atOps_def)
qed

lemma executing_wp:
  assumes "dst_state (dr_status d) = DrillExecuting" and "atOps w k (drillMoves r w d) v"
  shows "wp (handleExecuting r d) (\<lambda>_. drillInv k (drillMoves r w d)) v"
  unfolding handleExecuting_def Let_def using assms by (intro opHandler_wp keeps_progress) simp_all

lemma keeps_cleanupStatus:
  assumes "reads w d op" and "dst_state (dr_status d) = DrillCleaningUp \<or>
    ds_cleanUp (dr_spec d) \<and> (dst_state (dr_status d) = DrillCompleted \<or> dst_state (dr_status d) = DrillFailed)"
  shows "state_io_rel (drillI.keeps k (drillMoves r w d)) (syncCleanupOperationStatus r d op)"
proof -
  have "drillMoves r w d s" if "os_state (op_status op) = OpCompleted" "dst_state s = DrillCleanedUp" "dst_completionTime s \<noteq> None" for s
    using that assms(2) reads_some [OF assms(1) that(1)] by (auto simp: drillWf_def intro!: drillMovesI drillStep.cleaned)
  moreover have "drillMoves r w d s" if "os_state (op_status op) = OpFailed" "dst_state s = DrillFailed" for s
    using that assms(2) reads_some [OF assms(1) that(1)]
    by (auto simp: drillMoves_def drillWf_def intro: drillStep.cleanup_failed drillStep.cleaning_failed)
  ultimately show ?thesis
    unfolding syncCleanupOperationStatus_def Let_def by (intro drill_rules) simp_all
qed

lemma cleaningUp_wp:
  assumes "dst_state (dr_status d) = DrillCleaningUp" and "atOps w k (drillMoves r w d) v"
  shows "wp (handleCleaningUp r d) (\<lambda>_. drillInv k (drillMoves r w d)) v"
  unfolding handleCleaningUp_def Let_def using assms by (intro opHandler_wp keeps_cleanupStatus) simp_all

section \<open>The newest cleanup operation\<close>

lemma newest_in: "foldl newestCleanupOperation acc ops = Some op \<Longrightarrow> acc = Some op \<or> op \<in> set ops"
proof (induction ops arbitrary: acc)
  case (Cons o' ops)
  from Cons.IH [of "newestCleanupOperation acc o'"] Cons.prems
  have "newestCleanupOperation acc o' = Some op \<or> op \<in> set ops" by simp
  then show ?case by (auto simp: newestCleanupOperation_def split: option.splits if_splits)
qed simp

lemma newestOf_in: "newestOf ops = Some op \<Longrightarrow> op \<in> set ops"
  using newest_in [of None ops op] by (simp add: newestOf_def)

lemma newestOf_None: "newestOf ops = None \<longleftrightarrow> ops = []"
proof
  have "foldl newestCleanupOperation (Some a) xs \<noteq> None" for a xs
    by (induction xs arbitrary: a) (auto simp: newestCleanupOperation_def)
  then show "newestOf ops = None \<Longrightarrow> ops = []"
    by (cases ops) (auto simp: newestOf_def newestCleanupOperation_def)
qed (simp add: newestOf_def)

lemma ofDrill_reads: "drillNs d \<noteq> [] \<Longrightarrow> op \<in> set (filter (ofDrill d) (w_ops w)) \<Longrightarrow> reads w d op"
  by (auto simp: reads_def ofDrill_def inNamespace_def)

lemma keeps_cleaning:
  assumes "ds_cleanUp (dr_spec d)" and "dst_state (dr_status d) = DrillCompleted \<or> dst_state (dr_status d) = DrillFailed"
  shows "state_io_rel (drillI.keeps k (drillMoves r w d)) (cleaningUp d name)"
  unfolding cleaningUp_def
  using assms by (intro drill_rules drillMovesI) (auto simp: drillWf_def intro: drillStep.cleaning)

lemma endedCleanup_wp:
  assumes "atOps w k P v"
  shows "wp (endedCleanup d) (\<lambda>x v. atOps w k P v \<and> (\<forall>op. x = Inr (Some op) \<longrightarrow> reads w d op)) v"
  unfolding endedCleanup_def Let_def
  using assms by (auto intro!: wp_getOp [OF assms] simp: reads_def)

lemma cleanup_wp:
  assumes "ds_cleanUp (dr_spec d)" and "dst_state (dr_status d) = DrillCompleted \<or> dst_state (dr_status d) = DrillFailed"
    and "drillNs d \<noteq> []" and "atOps w k (drillMoves r w d) v"
  shows "wp (triggerCleanup r d) (\<lambda>_. drillInv k (drillMoves r w d)) v"
proof -
  let ?M = "drillMoves r w d"
  have sync: "wp (syncCleanupOperationStatus r d op) (\<lambda>_. drillInv k ?M) u" if "atOps w k ?M u" "reads w d op" for u op
    using wp_at [OF keeps_cleanupStatus [OF that(2)] that(1)] assms(1,2) by blast
  have clean: "wp (cleaningUp d n) (\<lambda>_. drillInv k ?M) u" if "atOps w k ?M u" for u n
    using wp_at [OF keeps_cleaning [OF assms(1,2)] that] .
  have create: "wp (chk (createOperation (newCleanupOperation r d)) (cleaningUp d)) (\<lambda>_. drillInv k ?M) u" if "atOps w k ?M u" for u
    by (rule wp_at [OF _ that]) (intro drillI.rel_intros drillI_create keeps_cleaning assms(1,2))
  have ended: "wp (chk (endedCleanup d) (\<lambda>e. case e of
                  Some op \<Rightarrow> syncCleanupOperationStatus r d op
                | None \<Rightarrow> chk (createOperation (newCleanupOperation r d)) (cleaningUp d))) (\<lambda>_. drillInv k ?M) u" if "atOps w k ?M u" for u
    unfolding wp_chk [of "endedCleanup d"]
    by (rule wp_mono [OF endedCleanup_wp [OF that]]) (auto simp del: wp_chk simp: atOps_def [of w k ?M] intro: sync create split: sum.splits option.splits)
  show ?thesis
    unfolding triggerCleanup_def Let_def wp_chk [of "apiListRaw w_ops (ofDrill d)"]
  proof (rule wp_apiListRaw, goal_cases)
    case (1 e fs)
    then show ?case using assms(4) by (simp add: atOps_def drillI.inv_faults)
  next
    case (2 fs)
    let ?u = "v\<lparr>w_faults := fs\<rparr>"
    have at: "atOps w k ?M ?u" using assms(4) by (rule atI.inv_faults)
    have "reads w d op" if "newestOf (filter Q (filter isCleanup (filter (ofDrill d) (w_ops ?u)))) = Some op" for Q op
      using newestOf_in [OF that] at by (intro ofDrill_reads assms(3)) (auto simp: atOps_def)
    then show ?case using at by (auto simp del: wp_chk intro: clean sync ended split: option.split)
  qed
qed

section \<open>Refinement\<close>

lemma drillInv_refl: "lookup drillKind v k = Some d \<Longrightarrow> drillInv k (drillMoves r w d) v"
  by (simp add: drillInv_def drillMoves_def)

lemma stateMachine_wp:
  assumes "drillNs d \<noteq> []" and "atOps w k (drillMoves r w d) v"
  shows "wp (drillStateMachine r d) (\<lambda>_. drillInv k (drillMoves r w d)) v"
proof (cases "dst_state (dr_status d)")
  case DrillNone
  then have "state_io_rel (drillI.keeps k (drillMoves r w d)) (drillStateMachine r d)"
    unfolding drillStateMachine_def
    by (simp, intro drill_rules drillMovesI) (simp_all add: drillWf_def drillStep.created)
  then show ?thesis using assms(2) by (rule wp_at)
next
  case DrillPending
  then show ?thesis using wp_at [OF keeps_pending assms(2)] by (simp add: drillStateMachine_def)
next
  case DrillReady
  then show ?thesis using wp_at [OF keeps_ready assms(2)] by (simp add: drillStateMachine_def)
next
  case DrillExecuting
  then show ?thesis using executing_wp assms(2) by (simp add: drillStateMachine_def)
next
  case DrillCompleted
  then show ?thesis
    using wp_at [OF keeps_reset assms(2)] cleanup_wp [OF _ _ assms] assms(2) by (simp add: drillStateMachine_def atOps_def)
next
  case DrillFailed
  then show ?thesis
    using wp_at [OF keeps_reset assms(2)] cleanup_wp [OF _ _ assms] assms(2) by (simp add: drillStateMachine_def atOps_def)
next
  case DrillCleaningUp
  then show ?thesis using cleaningUp_wp assms(2) by (simp add: drillStateMachine_def)
next
  case DrillCleanedUp
  then show ?thesis using wp_at [OF keeps_reset assms(2)] assms(2) by (simp add: drillStateMachine_def atOps_def)
next
  case (DrillOther x)
  then show ?thesis using assms(2) by (simp add: drillStateMachine_def atOps_def)
qed

lemma normalized_state: "dst_state (dr_status (fst (normalizeDrillStatusError d))) = dst_state (dr_status d)"
  "drillWf (dr_status (fst (normalizeDrillStatusError d))) = drillWf (dr_status d)"
  by (cases "dst_state (dr_status d)"; simp add: normalizeDrillStatusError_def Let_def drillWf_def)+

lemma normalized_unchanged: "\<not> snd (normalizeDrillStatusError d) \<Longrightarrow> fst (normalizeDrillStatusError d) = d"
  by (auto simp: normalizeDrillStatusError_def Let_def setDrill_def deriveDrillFailureReason_def split: if_splits option.splits)

lemma labelled_wp:
  assumes "drillNs d \<noteq> []" and "atOps w k (drillMoves r w d) v"
  shows "wp (drillReconcileLabelled r d) (\<lambda>_. drillInv k (drillMoves r w d)) v"
proof -
  have "drillMoves r w d (dr_status (fst (normalizeDrillStatusError d)))" by (simp add: drillMoves_def normalized_state)
  then show ?thesis
    unfolding drillReconcileLabelled_def Let_def
    using wp_at [OF drillI_save assms(2)] stateMachine_wp [OF assms] by simp
qed

text \<open>The labels belong to the metadata.\<close>

lemma labels_same: "wp (drillSyncDependencyLabels r d) (\<lambda>x _. dr_status (snd x) = dr_status d \<and> dr_spec (snd x) = dr_spec d \<and>
    (\<exists>ls. dr_meta (snd x) = (dr_meta d)\<lparr>m_labels := ls\<rparr>)) w"
  unfolding drillSyncDependencyLabels_def Let_def wp_bind by (rule wp_any) auto

lemma atI_frames: "state_io_rel drillsF.same m \<Longrightarrow> state_io_rel opsF.same m \<Longrightarrow> state_io_rel (atI.keeps w k P) m"
  by (rule state_io_relI)
    (auto simp: atI.keeps_def atOps_def drillsF.same_def opsF.same_def dest!: state_io_relD intro: drillInv_same)

lemma step_relabelled:
  assumes "drillStep r w d' f g" and "dr_status d' = dr_status d" and "dr_spec d' = dr_spec d" and "dr_meta d' = (dr_meta d)\<lparr>m_labels := ls\<rparr>"
  shows "drillStep r w d f g"
proof -
  have "drillKey d' = drillKey d" and "shouldRestart r d' = shouldRestart r d"
    using assms(2,4) by (simp_all add: drillKey_def metaKey_def shouldRestart_def split: option.split)
  with assms(1,3) show ?thesis by (cases rule: drillStep.cases) (auto intro: drillStep.intros)
qed

text \<open>C4. Refinement: a reconcile of the drill controller, whatever the API server answers, leaves the stored
  drill in its state or takes one edge of the abstract machine: a drill starts only confirmed, is completed or cleaned
  up only when an operation of its namespace has completed, is cleaned up only on request, and starts
  over only when asked to and unconfirmed. The times its state stands for stay recorded.\<close>

theorem drill_refines_fsm:
  assumes "lookup drillKind w k = Some d" and "fst k \<noteq> []" and "lookup drillKind (snd (run_state (drillReconcile r k) w)) k = Some d'"
  shows "(dst_state (dr_status d') = dst_state (dr_status d) \<or> drillStep r w d (dst_state (dr_status d)) (dst_state (dr_status d'))) \<and>
    (drillWf (dr_status d) \<longrightarrow> drillWf (dr_status d'))"
proof -
  let ?M = "drillMoves r w d"
  have "drillKey d = k" using drillK.lookup_key [OF assms(1)] by (simp add: keyOf_def drillKey_def)
  then have ns: "drillNs d = fst k" by (auto simp: drillKey_def metaKey_def drillNs_def)
  have "wp (drillReconcile r k) (\<lambda>_. drillInv k ?M) w"
    unfolding drillReconcile_def wp_bind
  proof (rule wp_apiGet, goal_cases)
    case (1 e fs)
    then show ?case using drillInv_refl [OF assms(1)] by (simp add: drillI.inv_faults)
  next
    case (2 x fs)
    then have x: "x = d" using assms(1) by simp
    let ?S = "\<lambda>s. s = dr_status d"
    have at: "atOps w k ?S (w\<lparr>w_faults := fs\<rparr>)"
      using assms(1) by (simp add: atOps_def drillInv_def lookup_def)
    have weaken: "drillInv k ?M u" if "drillInv k ?S u" for u
      using that by (auto simp: drillInv_def drillMoves_def)
    have del: "state_io_rel (drillI.keeps k ?S) (handleDrillDeletion d)"
      unfolding handleDrillDeletion_def by (intro drill_rules drillI.rel_faulty drillI_deleting)
    have labels: "state_io_rel (atI.keeps w k ?S) (drillSyncDependencyLabels r d)"
      using drillsF.frame_drillLabels opsF.frame_drillLabels
      by (rule atI_frames)
    have fin: "state_io_rel (drillI.keeps k ?S) (apiUpdate drillKind y)" for y by (rule drillI_update)
    have body: "wp (drillReconcileLabelled r y) (\<lambda>_. drillInv k ?M) u"
      if "dr_status y = dr_status d" "dr_spec y = dr_spec d" "dr_meta y = (dr_meta d)\<lparr>m_labels := ls\<rparr>" "atOps w k ?S u" for y u ls
    proof -
      have "atOps w k (drillMoves r w y) u" using that(1,4) by (auto simp: atOps_def drillInv_def drillMoves_def)
      moreover have "drillNs y \<noteq> []" using that(3) ns assms(2) by (simp add: drillNs_def)
      moreover have "drillMoves r w y s \<Longrightarrow> ?M s" for s
        using step_relabelled [OF _ that(1-3)] that(1) by (auto simp: drillMoves_def)
      ultimately show ?thesis
        by (intro wp_mono [OF labelled_wp]) (auto simp: drillInv_def)
    qed
    have labelled: "wp (do { y \<leftarrow> drillSyncDependencyLabels r d;
        (if fst y then chk (apiUpdate drillKind (snd y)) (\<lambda>_. ok requeue_result) else drillReconcileLabelled r (snd y)) })
        (\<lambda>_. drillInv k ?M) (w\<lparr>w_faults := fs\<rparr>)"
      unfolding wp_bind
    proof (rule wp_mono [OF wp_conj [OF labels_same atI.wp_keeps [OF labels at]]], goal_cases)
      case (1 y u)
      then obtain ls where y: "dr_status (snd y) = dr_status d" "dr_spec (snd y) = dr_spec d"
        "dr_meta (snd y) = (dr_meta d)\<lparr>m_labels := ls\<rparr>" and u: "atOps w k ?S u" by blast
      have "wp (chk (apiUpdate drillKind (snd y)) (\<lambda>_. ok requeue_result)) (\<lambda>_. drillInv k ?S) u"
        by (rule wp_at [OF _ u]) (intro drill_rules fin)
      then have "wp (chk (apiUpdate drillKind (snd y)) (\<lambda>_. ok requeue_result)) (\<lambda>_. drillInv k ?M) u"
        by (rule wp_mono) (rule weaken)
      then show ?case using body [OF y u] by (simp del: wp_chk wp_bind)
    qed
    have "wp (handleDrillDeletion d) (\<lambda>_. drillInv k ?M) (w\<lparr>w_faults := fs\<rparr>)"
      using wp_at [OF del at] by (rule wp_mono) (rule weaken)
    moreover have "wp (chk (apiUpdate drillKind y) (\<lambda>_. ok requeue_result)) (\<lambda>_. drillInv k ?M) (w\<lparr>w_faults := fs\<rparr>)" for y
      by (rule wp_mono [OF wp_at [OF _ at]]) (intro drill_rules fin, rule weaken)
    ultimately show ?case
      using labelled unfolding sum.case x by (simp del: wp_chk wp_bind)
  qed
  then have "drillInv k ?M (snd (run_state (drillReconcile r k) w))" by (simp add: wp_snd)
  with assms(3) show ?thesis by (simp add: drillInv_def drillMoves_def)
qed

end
