(* ===== verification/DrillProps.thy ===== *)
theory DrillProps
  imports DrillFsm Runs OpExecProps
begin

text \<open>
  Properties of the drills: a sample drill with the runs that witness them, the isolation of a
  drill from everything outside its namespaces, and the behaviour of restarts and cleanups.
\<close>

section \<open>A sample drill\<close>

definition sDrill :: "DrillState \<Rightarrow> string \<Rightarrow> bool \<Rightarrow> DisasterDrill" where
  "sDrill st target confirmed =
     \<lparr>dr_meta = (sMeta ''ns'' ''d'')\<lparr>m_finalizers := [drillFinalizer],
        m_labels := [(''testudo.softcdata.com/dependency-token'', ''d''), (''testudo.softcdata.com/dependency-to-a'', ''spec.instanceName'')]\<rparr>,
      dr_spec = \<lparr>ds_instanceName = ''app'', ds_groupName = [], ds_targetCluster = target, ds_namespaceMapping = [(''web'', ''web-drill'')],
        ds_skipValidation = False, ds_confirmed = confirmed, ds_waitUntilReady = False, ds_restorePolicy = None, ds_veleroHooks = None, ds_cleanUp = False\<rparr>,
      dr_status = emptyDrillStatus\<lparr>dst_state := st, dst_targetCluster := target, dst_readyTime := Some 1,
        dst_instanceRestoreModes := [(''app'', FullRestore)], dst_restoreMode := FullRestore\<rparr>\<rparr>"

definition sDrillWorld :: "DisasterDrill \<Rightarrow> world" where
  "sDrillWorld d = (sWorld [] (sInst FsmProtected ''east'' ''west'') ''east'')\<lparr>w_drills := [d]\<rparr>"

definition drillAt :: "world \<Rightarrow> DisasterDrill option" where
  "drillAt w = lookup drillKind w (''ns'', ''d'')"

lemma sDrill_at: "drillAt (sDrillWorld (sDrill st t c)) = Some (sDrill st t c)"
  by (simp add: drillAt_def sDrillWorld_def sDrill_def sWorld_def lookup_def keyOf_def metaKey_def sMeta_def)

text \<open>A confirmed drill of the protected instance starts.\<close>

theorem drill_refines_fsm_witness:
  "let d = sDrill DrillReady ''west'' True; w = sDrillWorld d; w' = snd (run_state (drillReconcile sRec (''ns'', ''d'')) w)
   in \<exists>d'. lookup drillKind w' (''ns'', ''d'') = Some d' \<and> dst_state (dr_status d') = DrillExecuting \<and>
        drillStep sRec w d DrillReady DrillExecuting \<and> drillWf (dr_status d')"
proof -
  let ?d = "sDrill DrillReady ''west'' True"
  let ?w = "sDrillWorld ?d"
  have a: "lookup drillKind ?w (''ns'', ''d'') = Some ?d" using sDrill_at by (simp add: drillAt_def)
  have "map_option (\<lambda>d. dst_state (dr_status d)) (drillAt (snd (run_state (drillReconcile sRec (''ns'', ''d'')) ?w))) = Some DrillExecuting"
    by code_simp
  then obtain d' where d': "lookup drillKind (snd (run_state (drillReconcile sRec (''ns'', ''d'')) ?w)) (''ns'', ''d'') = Some d'"
    "dst_state (dr_status d') = DrillExecuting" by (auto simp: drillAt_def)
  have "dst_state (dr_status ?d) = DrillReady" and "drillWf (dr_status ?d)" by (simp_all add: sDrill_def drillWf_def)
  with drill_refines_fsm [OF a _ d'(1)] d' show ?thesis unfolding Let_def by auto
qed

section \<open>Isolation\<close>

lemma drill_outside:
  assumes "lookup instKind w (m_ns (op_meta op), sp_instanceName (op_spec op)) = Some i"
  shows "wp (handleDrill r op) (\<lambda>_ v. outsideDrill op i v = outsideDrill op i w) w"
    and "wp (handleDrillCleanup r op) (\<lambda>_ v. outsideDrill op i v = outsideDrill op i w) w"
proof -
  let ?k = "opKey op" and ?c = "drillTarget op i" and ?T = "reached (drillMapping op) (di_namespaces (in_spec i))"
    and ?N = "drillNames (drillMapping op) (di_namespaces (in_spec i))"
  let ?same = "outsideF.same ?k ?c ?T ?N"
  have within: "withinDrill ?k ?c ?T ?N op i" by (auto simp: withinDrill_def reached_def)
  have start: "outsideDrill op i (w\<lparr>w_faults := fs\<rparr>) = outsideDrill op i w" for fs by (simp add: outsideDrill_def outside_def)
  have run: "wp m (\<lambda>_ v. outsideDrill op i v = outsideDrill op i w) (w\<lparr>w_faults := fs\<rparr>)" if "state_io_rel ?same m" for m :: "Result result" and fs
    using outsideF.wp_same [OF that] by (rule wp_mono) (simp add: outsideDrill_def outside_def)
  have fail: "state_io_rel ?same (failOp m op)" for m by (rule outsideF.frame_failOp) simp
  have body: "state_io_rel ?same (do {
          c \<leftarrow> apiGet cfgKind ([], di_config (in_spec i));
          (case c of
             Inl e \<Rightarrow> failOp (msgConfigNotFound (di_config (in_spec i))) op
           | Inr cfg \<Rightarrow>
               if os_steps (op_status op) = []
               then drillInit op (drillOperationSteps (effectiveDrillRestoreMode (sp_drillConfig (op_spec op))))
               else drillRun r op i) })"
    by (intro outsideF.rel_intros fail outsideF.frame_drillInit outsideF.frame_drillRun within) simp
  have cleanup: "state_io_rel ?same (do {
          c \<leftarrow> getClusterClient ?c;
          (case c of
             Inl e \<Rightarrow> failOp (msgCannotConnect ?c (err_text e)) op
           | Inr _ \<Rightarrow> cleanupTarget r op i ?c) })"
    by (intro outsideF.rel_intros fail outsideF.frame_clusterClient outsideF.frame_cleanupTarget within)
  show "wp (handleDrill r op) (\<lambda>_ v. outsideDrill op i v = outsideDrill op i w) w"
    unfolding handleDrill_def wp_bind [of "apiGet instKind _"]
  proof (rule wp_apiGet, goal_cases)
    case (1 e fs)
    show ?case unfolding sum.case by (rule run [OF fail])
  next
    case (2 x fs)
    then have x: "x = i" using assms by simp
    show ?case unfolding sum.case x by (rule run [OF body])
  qed
  show "wp (handleDrillCleanup r op) (\<lambda>_ v. outsideDrill op i v = outsideDrill op i w) w"
    unfolding handleDrillCleanup_def wp_bind [of "apiGet instKind _"]
  proof (rule wp_apiGet, goal_cases)
    case (1 e fs)
    show ?case unfolding sum.case by (rule run [OF fail])
  next
    case (2 x fs)
    then have x: "x = i" using assms by simp
    show ?case unfolding sum.case x by (rule run [OF cleanup])
  qed
qed

text \<open>C14. Safety: the reconciles of a drill operation and of its cleanup, with any faults, change nothing but the
  operation itself, the restores, the events, and in the target cluster of the drill the workloads and pods of the mapped
  namespaces (of all namespaces, when the mapping sends one to the empty name), the namespaces the drill restores to and the
  copies of the registry pull secret in them. Other operations, the instance and its roles, the syncs, all other secrets and every
  other cluster stay as they are.\<close>

theorem drill_isolated:
  assumes "lookup instKind w (m_ns (op_meta op), sp_instanceName (op_spec op)) = Some i"
  shows "outsideDrill op i (snd (run_state (handleDrill r op) w)) = outsideDrill op i w \<and>
    outsideDrill op i (snd (run_state (handleDrillCleanup r op) w)) = outsideDrill op i w"
  using drill_outside [OF assms, of r] by (simp add: wp_snd)

definition sDrillOp :: "string \<Rightarrow> StepState \<Rightarrow> DisasterOperation" where
  "sDrillOp n st = (newDrillOperation sRec (sDrill DrillReady ''west'' True))\<lparr>
     op_status := emptyOpStatus\<lparr>os_state := OpRunning, os_steps := [sStep n st]\<rparr>\<rparr>"

text \<open>The restore of the resources of the sample is created in the management cluster.\<close>

theorem drill_isolated_witness:
  "let i = sInst FsmProtected ''east'' ''west''; op = sDrillOp StepRestoreResource StepRunning; w = sWorld [op] i ''east'';
       w' = snd (run_state (handleDrill sRec op) w)
   in drillNamespaces (drillMapping op) (di_namespaces (in_spec i)) = {''web-drill''} \<and> map (m_name \<circ> ar_meta) (w_restores w') = [''drr-drill-d-0-drill-''] \<and>
      outsideDrill op i w' = outsideDrill op i w"
proof -
  let ?i = "sInst FsmProtected ''east'' ''west''"
  let ?op = "sDrillOp StepRestoreResource StepRunning"
  let ?w = "sWorld [?op] ?i ''east''"
  have a: "lookup instKind ?w (m_ns (op_meta ?op), sp_instanceName (op_spec ?op)) = Some ?i" by code_simp
  have b: "drillNamespaces (drillMapping ?op) (di_namespaces (in_spec ?i)) = {''web-drill''}" by code_simp
  have c: "map (m_name \<circ> ar_meta) (w_restores (snd (run_state (handleDrill sRec ?op) ?w))) = [''drr-drill-d-0-drill-'']" by code_simp
  show ?thesis using drill_isolated [OF a, of sRec] b c by (simp add: Let_def)
qed

text \<open>Nothing rejects an empty value of the mapping: the drill then starts a standby copy in a namespace of another application.\<close>

lemma empty_mapping_reaches_other_namespaces:
  "let op0 = sDrillOp StepScaleUp StepRunning;
       op = op0\<lparr>op_spec := (op_spec op0)\<lparr>sp_drillConfig := map_option (dc_namespaceMapping_update (\<lambda>_. [(''web'', [])])) (sp_drillConfig (op_spec op0))\<rparr>\<rparr>;
       d = (sWorkload ''db'' 0)\<lparr>wl_meta := (sMeta ''billing'' ''db'')\<lparr>m_ann := [(annOriginalReplicas, ''2'')]\<rparr>\<rparr>;
       w = (sWorld [op] (sInst FsmProtected ''east'' ''west'') ''east'')\<lparr>w_deploys := (\<lambda>c. if c = ''west'' then [d] else [])\<rparr>
   in map (\<lambda>d. (m_ns (wl_meta d), wl_replicas d)) (w_deploys (snd (run_state (handleDrill sRec op) w)) ''west'') = [(''billing'', Some 2)]"
  by code_simp

section \<open>A drill never starts on the primary\<close>

text \<open>The contract of a projection that does not see drills: what the drill controller does without creating an operation.\<close>

locale drills_frame = world_frame proj for proj :: "world \<Rightarrow> 'p" +
  assumes proj_drills: "proj (w\<lparr>w_drills := xs\<rparr>) = proj w"
begin

lemma frame_drillStatus: "state_io_rel same (apiStatusUpdate drillKind d)"
  by (rule frame_statusUpdate) (simp add: proj_drills)

lemma frame_drillUpdate: "state_io_rel same (apiUpdate drillKind d)"
  by (rule frame_update) (simp add: proj_drills)

lemma frame_saveDrill: "state_io_rel same (saveDrill d res)"
  unfolding saveDrill_def by (intro rel_intros frame_drillStatus)

lemma frame_drillDeletion: "state_io_rel same (handleDrillDeletion d)"
proof -
  have "state_io_rel same (storeUpdateDeleting drillKind x)" for x
    unfolding storeUpdateDeleting_def
    by (intro rel_chk rel_storeWrite) (auto simp: same_def replaceObj_def proj_drills intro!: state_io_relI split: if_splits)
  then show ?thesis
    unfolding handleDrillDeletion_def by (intro rel_intros rel_faulty frame_saveDrill)
qed

lemma frame_reset: "state_io_rel same (resetDrill r d)"
  unfolding resetDrill_def by (intro rel_intros frame_drillUpdate frame_drillStatus)

lemma frame_cleanupStatus: "state_io_rel same (syncCleanupOperationStatus r d op)"
  unfolding syncCleanupOperationStatus_def Let_def by (intro rel_intros frame_saveDrill)

lemma frame_cleaning: "state_io_rel same (cleaningUp d n)"
  unfolding cleaningUp_def by (intro rel_intros frame_saveDrill)

end

definition opsAndInsts :: "world \<Rightarrow> DisasterOperation list \<times> DisasterInstance list" where
  "opsAndInsts w = (w_ops w, w_insts w)"

interpretation oiF: drills_frame opsAndInsts
  by unfold_locales (simp_all add: opsAndInsts_def)

text \<open>No operation is created and the drill is not executing.\<close>

definition quiet :: "world \<Rightarrow> key \<Rightarrow> world \<Rightarrow> bool" where
  "quiet w k v \<longleftrightarrow> opsAndInsts v = opsAndInsts w \<and> drillInv k (\<lambda>s. dst_state s \<noteq> DrillExecuting) v"

lemma quiet_wp:
  assumes "state_io_rel oiF.same m" and "state_io_rel (drillI.keeps k (\<lambda>s. dst_state s \<noteq> DrillExecuting)) m" and "quiet w k v"
  shows "wp m (\<lambda>_. quiet w k) v"
  using wp_conj [OF oiF.wp_same [OF assms(1), of v] drillI.wp_keeps [OF assms(2)]] assms(3)
  by (auto simp: quiet_def elim!: wp_mono)

lemma quiet_ready:
  assumes "dst_state (dr_status d) = DrillReady" and "ds_instanceName (dr_spec d) \<noteq> []" and "quiet w k v"
    and "lookup instKind w (drillNs d, ds_instanceName (dr_spec d)) = Some i" and "dst_targetCluster (dr_status d) = is_primaryCluster (in_status i)"
  shows "wp (handleReady r d) (\<lambda>_. quiet w k) v"
proof -
  have save: "wp (saveDrill (setDrill f d) res) (\<lambda>_. quiet w k) u" if "quiet w k u" "dst_state (f (dr_status d)) \<noteq> DrillExecuting" for f res u
    by (rule quiet_wp [OF oiF.frame_saveDrill drillI_save that(1)]) (simp add: that(2))
  have emits: "quiet w k (u\<lparr>w_events := es\<rparr>)" "quiet w k (u\<lparr>w_faults := fs\<rparr>)" if "quiet w k u" for u es fs
    using that by (simp_all add: quiet_def opsAndInsts_def drillI.inv_events drillI.inv_faults)
  have at: "lookup instKind u (drillNs d, ds_instanceName (dr_spec d)) = Some i" if "quiet w k u" for u
    using assms(4) that by (simp add: quiet_def opsAndInsts_def lookup_def)
  show ?thesis
    unfolding handleReady_def Let_def
    using assms(1-3,5) at
    by (auto intro!: wp_apiGet save emits simp: assms(5))
qed

lemma quiet_labelled:
  assumes "dst_state (dr_status d) = DrillReady" and "ds_instanceName (dr_spec d) \<noteq> []" and "quiet w k v"
    and "lookup instKind w (drillNs d, ds_instanceName (dr_spec d)) = Some i" and "dst_targetCluster (dr_status d) = is_primaryCluster (in_status i)"
  shows "wp (drillReconcileLabelled r d) (\<lambda>_. quiet w k) v"
proof -
  have "dst_state (dr_status (fst (normalizeDrillStatusError d))) \<noteq> DrillExecuting" using assms(1) by (simp add: normalized_state)
  then have "wp (saveDrill (fst (normalizeDrillStatusError d)) requeue_result) (\<lambda>_. quiet w k) v"
    by (intro quiet_wp [OF oiF.frame_saveDrill drillI_save assms(3)])
  then show ?thesis
    using quiet_ready [OF assms] by (simp add: drillReconcileLabelled_def Let_def drillStateMachine_def assms(1))
qed

text \<open>C15. Safety: a confirmed drill of an instance whose validated target has become the primary cluster of the
  instance, because the roles were switched after the validation, creates no operation and does not
  start, whatever the API server answers.\<close>

theorem confirmed_drill_avoids_primary:
  assumes "lookup drillKind w k = Some d" and "dst_state (dr_status d) = DrillReady" and "ds_instanceName (dr_spec d) \<noteq> []"
    and "lookup instKind w (fst k, ds_instanceName (dr_spec d)) = Some i" and "dst_targetCluster (dr_status d) = is_primaryCluster (in_status i)"
    and "w' = snd (run_state (drillReconcile r k) w)"
  shows "w_ops w' = w_ops w \<and> (\<forall>d'. lookup drillKind w' k = Some d' \<longrightarrow> dst_state (dr_status d') \<noteq> DrillExecuting)"
proof -
  have ns: "drillNs d = fst k" using drillK.lookup_key [OF assms(1)] by (auto simp: keyOf_def metaKey_def drillNs_def)
  have start: "quiet w k (w\<lparr>w_faults := fs\<rparr>)" for fs
    using assms(1,2) by (simp add: quiet_def opsAndInsts_def drillInv_def lookup_def)
  have update: "wp (chk (apiUpdate drillKind z) (\<lambda>_. ok requeue_result)) (\<lambda>_. quiet w k) u" if "quiet w k u" for z u
    by (rule quiet_wp [OF oiF.rel_chk [OF oiF.frame_drillUpdate oiF.rel_ret] drillI.rel_chk [OF drillI_update drillI.rel_ret] that])
  have del: "state_io_rel (drillI.keeps k P) (handleDrillDeletion d)" for P
    unfolding handleDrillDeletion_def by (intro drill_rules drillI.rel_faulty drillI_deleting)
  have "wp (drillReconcile r k) (\<lambda>_. quiet w k) w"
    unfolding drillReconcile_def wp_bind [of "apiGet drillKind _"]
  proof (rule wp_apiGet, goal_cases)
    case (1 e fs)
    then show ?case using start by simp
  next
    case (2 x fs)
    then have x: "x = d" using assms(1) by simp
    have "wp (drillSyncDependencyLabels r d) (\<lambda>y u. quiet w k u \<and> dr_status (snd y) = dr_status d \<and> dr_spec (snd y) = dr_spec d \<and>
        (\<exists>ls. dr_meta (snd y) = (dr_meta d)\<lparr>m_labels := ls\<rparr>)) (w\<lparr>w_faults := fs\<rparr>)"
      by (rule wp_conj [OF quiet_wp [OF oiF.frame_drillLabels drillI_frame [OF drillsF.frame_drillLabels] start] labels_same])
    then have "wp (do { y \<leftarrow> drillSyncDependencyLabels r d;
        (if fst y then chk (apiUpdate drillKind (snd y)) (\<lambda>_. ok requeue_result) else drillReconcileLabelled r (snd y)) })
        (\<lambda>_. quiet w k) (w\<lparr>w_faults := fs\<rparr>)"
      unfolding wp_bind
    proof (rule wp_mono, goal_cases)
      case (1 y u)
      then have "drillNs (snd y) = fst k" using ns by (auto simp: drillNs_def)
      with 1 have "wp (drillReconcileLabelled r (snd y)) (\<lambda>_. quiet w k) u" by (intro quiet_labelled) (simp_all add: assms)
      then show ?case using update [of u] 1 by (simp del: wp_chk)
    qed
    then show ?case
      using quiet_wp [OF oiF.frame_drillDeletion del start] update [OF start] unfolding sum.case x by (simp del: wp_chk wp_bind)
  qed
  then have "quiet w k w'" by (simp add: wp_snd assms(6))
  then show ?thesis by (simp add: quiet_def opsAndInsts_def drillInv_def)
qed

theorem confirmed_drill_avoids_primary_witness:
  "let w = sDrillWorld (sDrill DrillReady ''east'' True); w' = snd (run_state (drillReconcile sRec (''ns'', ''d'')) w)
   in w_ops w' = [] \<and> (\<forall>d'. lookup drillKind w' (''ns'', ''d'') = Some d' \<longrightarrow> dst_state (dr_status d') \<noteq> DrillExecuting) \<and>
      map_option (\<lambda>d. dst_state (dr_status d)) (drillAt w') = Some DrillFailed"
proof -
  let ?d = "sDrill DrillReady ''east'' True"
  let ?w = "sDrillWorld ?d"
  have a: "lookup drillKind ?w (''ns'', ''d'') = Some ?d" using sDrill_at by (simp add: drillAt_def)
  have b: "dst_state (dr_status ?d) = DrillReady" "ds_instanceName (dr_spec ?d) \<noteq> []" by (simp_all add: sDrill_def)
  have c: "lookup instKind ?w (fst (''ns'', ''d''), ds_instanceName (dr_spec ?d)) = Some (sInst FsmProtected ''east'' ''west'')" by code_simp
  have d: "dst_targetCluster (dr_status ?d) = is_primaryCluster (in_status (sInst FsmProtected ''east'' ''west''))" by code_simp
  have e: "map_option (\<lambda>d. dst_state (dr_status d)) (drillAt (snd (run_state (drillReconcile sRec (''ns'', ''d'')) ?w))) = Some DrillFailed" by code_simp
  have f: "w_ops ?w = []" by code_simp
  from confirmed_drill_avoids_primary [OF a b c d refl, of sRec] e show ?thesis unfolding Let_def f by blast
qed

section \<open>Runs without faults\<close>

lemma keyOf_drill: "keyOf drillKind d = drillKey d"
  by (simp add: keyOf_def drillKey_def)

lemma lookup_drillKey: "lookup drillKind w k = Some d \<Longrightarrow> drillKey d = k"
  using drillK.lookup_key [of w k d] by (simp add: keyOf_drill)

lemma drillKey_setDrill [simp]: "drillKey (setDrill f d) = drillKey d" "drillName (setDrill f d) = drillName d" "drillNs (setDrill f d) = drillNs d"
  by (simp_all add: drillKey_def drillName_def drillNs_def)

text \<open>The stored drill after its status was written.\<close>

definition writtenDrill :: "DisasterDrill \<Rightarrow> DisasterDrillStatus \<Rightarrow> DisasterDrill" where
  "writtenDrill d s = bumpRv drillKind d (d\<lparr>dr_status := s\<rparr>)"

lemma written_sel [simp]: "dr_status (writtenDrill d s) = s" "dr_spec (writtenDrill d s) = dr_spec d"
  "m_ann (dr_meta (writtenDrill d s)) = m_ann (dr_meta d)" "drillName (writtenDrill d s) = drillName d" "drillNs (writtenDrill d s) = drillNs d"
  by (simp_all add: writtenDrill_def bumpRv_def drillKind_def drillName_def drillNs_def)

lemma run_drillStatus:
  assumes "w_faults w = []" and "lookup drillKind w k = Some d" and "dr_meta x = dr_meta d" and "dr_spec x = dr_spec d"
  shows "run_state (apiStatusUpdate drillKind x) w =
    (Inr (writtenDrill d (dr_status x)), replaceObj drillKind (writtenDrill d (dr_status x)) w)"
proof -
  have "keyOf drillKind x = k" using lookup_drillKey [OF assms(2)] assms(3) by (simp add: keyOf_drill drillKey_def)
  moreover have "k_mergeStatus drillKind d x = d\<lparr>dr_status := dr_status x\<rparr>" by (simp add: drillKind_def)
  ultimately show ?thesis using drillK.run_statusUpdate [OF assms(1,2)] assms(3) by (simp add: writtenDrill_def)
qed

lemma run_saveDrill:
  assumes "w_faults w = []" and "lookup drillKind w k = Some d"
  shows "run_state (saveDrill (setDrill f d) res) w = (Inr res, replaceObj drillKind (writtenDrill d (f (dr_status d))) w)"
  using run_drillStatus [OF assms, of "setDrill f d"] by (simp add: saveDrill_def run_chk run_ret)

lemma run_announced:
  assumes "w_faults w = []" and "lookup drillKind w k = Some d"
  shows "run_state (do { emit n a; emit n b; saveDrill (setDrill f d) res }) w =
    (Inr res, replaceObj drillKind (writtenDrill d (f (dr_status d)))
       (w\<lparr>w_events := w_events w @ [\<lparr>ev_object = n, ev_reason = a\<rparr>, \<lparr>ev_object = n, ev_reason = b\<rparr>]\<rparr>))"
  using assms by (simp add: run_bind run_emit run_saveDrill)

lemma lookup_written:
  assumes "lookup drillKind w k = Some d"
  shows "lookup drillKind (replaceObj drillKind (writtenDrill d s) w) k = Some (writtenDrill d s)"
  unfolding writtenDrill_def using assms by (rule drillK.lookup_after_status)

lemma drills_erased: "(replaceObj drillKind x w)\<lparr>w_drills := [], w_events := []\<rparr> = w\<lparr>w_drills := [], w_events := []\<rparr>"
  by (simp add: replaceObj_def)

section \<open>A second cleanup does nothing\<close>

text \<open>Error: a drill that has completed and is to be cleaned up, and has a cleanup operation left from an
  earlier run, is recorded as cleaned up at once when its cleanup operations are all completed: no operation is created
  and nothing else of the world changes, so that what the later run restored stays in the target cluster.\<close>

theorem restarted_drill_is_not_cleaned_again:
  assumes "w_faults w = []" and "lookup drillKind w k = Some d" and "dst_state (dr_status d) = DrillCompleted" and "dst_reason (dr_status d) = []"
    and "ds_cleanUp (dr_spec d)" and "op \<in> set (w_ops w)" and "ofDrill d op" and "isCleanup op"
    and "\<And>o'. o' \<in> set (w_ops w) \<Longrightarrow> ofDrill d o' \<Longrightarrow> isCleanup o' \<Longrightarrow> os_state (op_status o') = OpCompleted"
    and "w' = snd (run_state (drillReconcileLabelled r d) w)"
  shows "w'\<lparr>w_drills := [], w_events := []\<rparr> = w\<lparr>w_drills := [], w_events := []\<rparr> \<and>
    (\<exists>d'. lookup drillKind w' k = Some d' \<and> dst_state (dr_status d') = DrillCleanedUp)"
proof -
  let ?ops = "filter isCleanup (filter (ofDrill d) (w_ops w))"
  have state: "os_state (op_status o') = OpCompleted" if "o' \<in> set ?ops" for o' using that assms(9) by simp
  have running: "filter (\<lambda>o'. \<not> opEnded o') ?ops = []" using state by (simp add: filter_empty_conv opEnded_def)
  have "op \<in> set (filter opEnded ?ops)" using assms(6-8) state [of op] by (simp add: opEnded_def)
  then have "filter opEnded ?ops \<noteq> []" by (metis empty_iff empty_set)
  then obtain x where x: "newestOf (filter opEnded ?ops) = Some x"
    using newestOf_None [of "filter opEnded ?ops"] by blast
  then have c: "os_state (op_status x) = OpCompleted" using newestOf_in [OF x] state by simp
  have "snd (run_state (triggerCleanup r d) w) = snd (run_state (syncCleanupOperationStatus r d x) w)"
    using x running by (simp add: triggerCleanup_def Let_def run_chk run_apiListRaw [OF assms(1)] newestOf_def)
  also have "\<dots> = snd (run_state (do {
           emit (drillName d) ''CleanedUp'';
           emit (drillName d) ''ExecutionFinished'';
           saveDrill (setDrill (\<lambda>s. s\<lparr>dst_state := DrillCleanedUp, dst_operationName := opName x, dst_reason := [],
             dst_completionTime := Some (r_now r), dst_message := msgDrillCleanupDone\<rparr>) d) done_result }) w)"
    using c assms(3) by (simp add: syncCleanupOperationStatus_def cleanupReported_def Let_def)
  finally have "snd (run_state (triggerCleanup r d) w) = \<dots>" .
  moreover have "w' = snd (run_state (triggerCleanup r d) w)"
    using assms(3-5) by (simp add: assms(10) drillReconcileLabelled_def normalizeDrillStatusError_def drillStateMachine_def Let_def)
  ultimately have "w' = replaceObj drillKind (writtenDrill d ((dr_status d)\<lparr>dst_state := DrillCleanedUp, dst_operationName := opName x,
      dst_reason := [], dst_completionTime := Some (r_now r), dst_message := msgDrillCleanupDone\<rparr>))
      (w\<lparr>w_events := w_events w @ [\<lparr>ev_object = drillName d, ev_reason = ''CleanedUp''\<rparr>, \<lparr>ev_object = drillName d, ev_reason = ''ExecutionFinished''\<rparr>]\<rparr>)"
    using assms(1,2) by (simp only: run_announced snd_conv)
  with assms(2) show ?thesis by (simp add: lookup_written drills_erased)
qed

theorem restarted_drill_is_not_cleaned_again_witness:
  "let d = (sDrill DrillCompleted ''west'' False)\<lparr>dr_spec := (dr_spec (sDrill DrillCompleted ''west'' False))\<lparr>ds_cleanUp := True\<rparr>\<rparr>;
       op = (newCleanupOperation sRec d)\<lparr>op_status := emptyOpStatus\<lparr>os_state := OpCompleted\<rparr>\<rparr>;
       w = (sDrillWorld d)\<lparr>w_ops := [op]\<rparr>; w' = snd (run_state (drillReconcileLabelled sRec d) w)
   in w'\<lparr>w_drills := [], w_events := []\<rparr> = w\<lparr>w_drills := [], w_events := []\<rparr> \<and>
      (\<exists>d'. lookup drillKind w' (''ns'', ''d'') = Some d' \<and> dst_state (dr_status d') = DrillCleanedUp)"
proof -
  let ?d = "(sDrill DrillCompleted ''west'' False)\<lparr>dr_spec := (dr_spec (sDrill DrillCompleted ''west'' False))\<lparr>ds_cleanUp := True\<rparr>\<rparr>"
  let ?op = "(newCleanupOperation sRec ?d)\<lparr>op_status := emptyOpStatus\<lparr>os_state := OpCompleted\<rparr>\<rparr>"
  let ?w = "(sDrillWorld ?d)\<lparr>w_ops := [?op]\<rparr>"
  have w: "w_faults ?w = []" "lookup drillKind ?w (''ns'', ''d'') = Some ?d"
    by (simp_all add: sDrillWorld_def sDrill_def sWorld_def lookup_def keyOf_def metaKey_def sMeta_def)
  have d: "dst_state (dr_status ?d) = DrillCompleted" "dst_reason (dr_status ?d) = []" "ds_cleanUp (dr_spec ?d)"
    by (simp_all add: sDrill_def emptyDrillStatus_def)
  have o: "?op \<in> set (w_ops ?w)" "ofDrill ?d ?op" "isCleanup ?op" by (simp, code_simp, code_simp)
  have all: "os_state (op_status o') = OpCompleted" if "o' \<in> set (w_ops ?w)" for o' using that by simp
  from restarted_drill_is_not_cleaned_again [OF w d o _ refl, of sRec] all show ?thesis unfolding Let_def by blast
qed

section \<open>A cleanup without a mapping\<close>

lemma frame_then_down:
  assumes "state_io_rel workloadsF.same m" and "onlyDown c a nss w v"
  shows "wp m (\<lambda>_. onlyDown c a nss w) v"
  using workloadsF.wp_same [OF assms(1), of v] by (rule wp_mono) (use assms(2) in \<open>simp add: onlyDown_def workloads_def\<close>)

lemma uncompleted_failOp:
  "statusInv k (\<lambda>s. os_state s \<noteq> OpCompleted) v \<Longrightarrow> wp (failOp m op) (\<lambda>_. statusInv k (\<lambda>s. os_state s \<noteq> OpCompleted)) v"
  unfolding failOp_def by (rule statI.wp_keeps [OF statI_saveOp]) (simp_all add: setStatus_def)

lemma workloads_statusUpdate: "state_io_rel workloadsF.same (apiStatusUpdate opKind x)"
  by (rule workloadsF.frame_statusUpdate) (simp add: workloads_def)

lemma cleanup_down:
  assumes "drillMapping op = []" and "keysDistinct (deployKind c) w" and "keysDistinct (stsKind c) w"
    and "statusInv k (\<lambda>s. os_state s \<noteq> OpCompleted) w"
  shows "wp (cleanupTarget r op i c) (\<lambda>_ v. statusInv k (\<lambda>s. os_state s \<noteq> OpCompleted) v \<or> onlyDown c False (di_namespaces (in_spec i)) w v) w"
proof -
  let ?U = "statusInv k (\<lambda>s. os_state s \<noteq> OpCompleted)" and ?D = "onlyDown c False (di_namespaces (in_spec i)) w"
  have down: "wp (doScaleDown i c) (\<lambda>x v. ?U v \<and> (\<forall>b. x = Inr b \<longrightarrow> ?D v)) w"
    by (rule wp_conj [OF statI.wp_keeps [OF statI_exec [OF managedF.frame_doScaleDown] assms(4)] doScaleDown_wp [OF assms(2,3)]])
  have failed: "wp (do { emit (opName op) ''CleanupFailed''; failOp (msgDrillScaleDownFailed (err_text e)) op }) (\<lambda>_ v. ?U v \<or> ?D v) v"
    if "?U v" for e v
    using wp_mono [OF uncompleted_failOp [OF statI.inv_events [OF that]]] by simp
  have finished: "wp (cleanupDone r op) (\<lambda>_ v. ?U v \<or> ?D v) v" if "?D v" for v
  proof -
    have "state_io_rel workloadsF.same (cleanupDone r op)"
      unfolding cleanupDone_def by (intro workloadsF.rel_intros workloads_statusUpdate)
    from frame_then_down [OF this that] show ?thesis by (rule wp_mono) simp
  qed
  show ?thesis
    unfolding cleanupTarget_def if_P [OF assms(1)] wp_bind [of "doScaleDown i c"]
    by (rule wp_mono [OF down]) (auto simp del: wp_bind intro: failed finished split: sum.split)
qed

text \<open>Error: the target of a drill is not checked again when it is cleaned up. The cleanup of a drill without a
  namespace mapping, whose target has become the primary cluster of the instance in the meantime, is completed only by
  scaling the workloads of the instance in its primary cluster to zero.\<close>

theorem unmapped_cleanup_stops_primary:
  assumes "lookup instKind w (m_ns (op_meta op), sp_instanceName (op_spec op)) = Some i" and "drillMapping op = []"
    and "drillTarget op i = is_primaryCluster (in_status i)"
    and "keysDistinct (deployKind (is_primaryCluster (in_status i))) w" and "keysDistinct (stsKind (is_primaryCluster (in_status i))) w"
    and "lookup opKind w k = Some op" and "os_state (op_status op) \<noteq> OpCompleted"
    and "w' = snd (run_state (handleDrillCleanup r op) w)" and "lookup opKind w' k = Some op'" and "os_state (op_status op') = OpCompleted"
  shows "onlyDown (is_primaryCluster (in_status i)) False (di_namespaces (in_spec i)) w w'"
proof -
  let ?c = "is_primaryCluster (in_status i)"
  let ?U = "statusInv k (\<lambda>s. os_state s \<noteq> OpCompleted)" and ?D = "onlyDown ?c False (di_namespaces (in_spec i)) w"
  have U: "?U (w\<lparr>w_faults := fs\<rparr>)" for fs using assms(6,7) by (simp add: statusInv_def)
  have failed: "wp (failOp m op) (\<lambda>_ v. ?U v \<or> ?D v) v" if "?U v" for m v using uncompleted_failOp [OF that] by (rule wp_mono) simp
  have "wp (handleDrillCleanup r op) (\<lambda>_ v. ?U v \<or> ?D v) w"
    unfolding handleDrillCleanup_def wp_bind [of "apiGet instKind _"]
  proof (rule wp_apiGet, goal_cases)
    case (1 e fs)
    then show ?case using failed U by simp
  next
    case (2 x fs)
    then have x: "x = i" using assms by simp
    have "wp (getClusterClient ?c) (\<lambda>_ v. ?U v \<and> workloads v = workloads w) (w\<lparr>w_faults := fs\<rparr>)"
      using wp_conj [OF statI.wp_keeps [OF statI_exec [OF managedF.frame_clusterClient] U] workloadsF.wp_same [OF workloadsF.frame_clusterClient]]
      by (rule wp_mono) (simp add: workloads_def)
    then show ?case
      unfolding sum.case x assms(3) wp_bind [of "getClusterClient _"]
    proof (rule wp_mono, goal_cases)
      case (1 y v)
      then have "keysDistinct (deployKind ?c) v" and "keysDistinct (stsKind ?c) v" and D: "onlyDown ?c False (di_namespaces (in_spec i)) v = ?D"
        using assms(4,5) by (simp_all add: keysDistinct_def workloads_def onlyDown_work fun_eq_iff)
      from cleanup_down [OF assms(2) this(1,2), of k r i] 1 have "wp (cleanupTarget r op i ?c) (\<lambda>_ v. ?U v \<or> ?D v) v" by (simp add: D)
      then show ?case using failed [of v] 1 by (auto split: sum.split)
    qed
  qed
  then have "?U w' \<or> ?D w'" by (simp add: wp_snd assms(8))
  with assms(9,10) show ?thesis by (auto simp: statusInv_def)
qed

text \<open>The drill was validated against the secondary west, then a failover made west the primary.\<close>

definition sUnmapped :: DisasterOperation where
  "sUnmapped = (let d = sDrill DrillCompleted ''west'' False in
     (newCleanupOperation sRec (d\<lparr>dr_spec := (dr_spec d)\<lparr>ds_namespaceMapping := []\<rparr>\<rparr>))\<lparr>op_status := emptyOpStatus\<lparr>os_state := OpRunning\<rparr>\<rparr>)"

theorem unmapped_cleanup_stops_primary_witness:
  "let i = sInst FsmActive ''west'' ''east''; w = sWorld [sUnmapped] i ''west''; w' = snd (run_state (handleDrillCleanup sRec sUnmapped) w)
   in onlyDown ''west'' False [''web''] w w' \<and> map wl_replicas (w_deploys w ''west'') = [Some 3] \<and> map wl_replicas (w_deploys w' ''west'') = [Some 0]"
proof -
  let ?i = "sInst FsmActive ''west'' ''east''"
  let ?w = "sWorld [sUnmapped] ?i ''west''"
  let ?w' = "snd (run_state (handleDrillCleanup sRec sUnmapped) ?w)"
  have a: "lookup instKind ?w (m_ns (op_meta sUnmapped), sp_instanceName (op_spec sUnmapped)) = Some ?i" by code_simp
  have b: "drillMapping sUnmapped = []" "drillTarget sUnmapped ?i = is_primaryCluster (in_status ?i)" by code_simp+
  have c: "keysDistinct (deployKind (is_primaryCluster (in_status ?i))) ?w" "keysDistinct (stsKind (is_primaryCluster (in_status ?i))) ?w" by code_simp+
  have d: "lookup opKind ?w (''ns'', ''drill-cln-d-0'') = Some sUnmapped" "os_state (op_status sUnmapped) \<noteq> OpCompleted" by code_simp+
  have "map_option (\<lambda>o'. os_state (op_status o')) (lookup opKind ?w' (''ns'', ''drill-cln-d-0'')) = Some OpCompleted" by code_simp
  then obtain op' where e: "lookup opKind ?w' (''ns'', ''drill-cln-d-0'') = Some op'" "os_state (op_status op') = OpCompleted" by auto
  have "map wl_replicas (w_deploys ?w ''west'') = [Some 3]" "map wl_replicas (w_deploys ?w' ''west'') = [Some 0]" by code_simp+
  moreover have "is_primaryCluster (in_status ?i) = ''west''" "di_namespaces (in_spec ?i) = [''web'']" by (simp_all add: sample_defs)
  ultimately show ?thesis using unmapped_cleanup_stops_primary [OF a b c d refl e] by (simp add: Let_def)
qed

section \<open>A completion that is lost\<close>

text \<open>The last status update of a drill is not checked: when it is refused, the reconcile ends without an error and
  without asking to be called again, and the operation stays running.\<close>

lemma lost_completion_is_not_retried:
  assumes "lookup instKind w (m_ns (op_meta op), sp_instanceName (op_spec op)) = Some i" and "lookup cfgKind w ([], di_config (in_spec i)) = Some cfg"
    and "os_steps (op_status op) \<noteq> []" and "activeStep (os_steps (op_status op)) = None" and "w_faults w = [None, None, Some (Refused t)]"
  shows "fst (run_state (handleDrill r op) w) = Inr done_result \<and> w_ops (snd (run_state (handleDrill r op) w)) = w_ops w"
  using assms
  by (simp add: handleDrill_def drillRun_def saveOpIgnoring_def apiGet_def popFault_def apiStatusUpdate_def faulty_def run_bind run_emit run_ret
      lookup_def)

end
