(* ===== verification/DrillRestart.thy ===== *)
theory DrillRestart
  imports DrillProps
begin

text \<open>
  Restarts of a drill. A drill whose validation fails is recorded as failed without a time of
  completion, so that its restart annotation asks for a restart again: runs without faults of
  the whole reconcile go round for ever.
\<close>

section \<open>Labels\<close>

definition drillEdgesIn :: "reconciler \<Rightarrow> world \<Rightarrow> DisasterDrill \<Rightarrow> DependencyEdge list" where
  "drillEdgesIn r w d =
     (if ds_instanceName (dr_spec d) = [] then [] else
        case lookup instKind w (drillNs d, ds_instanceName (dr_spec d)) of None \<Rightarrow> [] | Some i \<Rightarrow> [edgeTo r (m_uid (in_meta i)) ''spec.instanceName'']) @
     (if ds_groupName (dr_spec d) = [] then [] else
        case lookup groupKind w (drillNs d, ds_groupName (dr_spec d)) of None \<Rightarrow> [] | Some g \<Rightarrow> [edgeTo r (m_uid (gr_meta g)) ''spec.groupName''])"

definition drillLabelUpdate :: "reconciler \<Rightarrow> world \<Rightarrow> DisasterDrill \<Rightarrow> smap \<times> bool" where
  "drillLabelUpdate r w d =
     (let tk = EnsureDependencyTokenLabel (r_sha256hex r) (m_labels (dr_meta d)) (m_uid (dr_meta d));
          rb = RebuildDependencyToLabels (fst tk) (drillEdgesIn r w d) in
      (fst rb, snd (snd tk) \<or> snd rb))"

lemma run_drillEdges: "w_faults w = [] \<Longrightarrow> run_state (drillEdges r d) w = (drillEdgesIn r w d, w)"
  by (auto simp: drillEdges_def drillEdgesIn_def run_bind run_ret run_apiGet split: option.splits)

lemma run_drillLabels:
  "w_faults w = [] \<Longrightarrow> run_state (drillSyncDependencyLabels r d) w =
     ((snd (drillLabelUpdate r w d), d\<lparr>dr_meta := (dr_meta d)\<lparr>m_labels := fst (drillLabelUpdate r w d)\<rparr>\<rparr>), w)"
  by (simp add: drillSyncDependencyLabels_def drillLabelUpdate_def run_bind run_drillEdges run_ret Let_def)

lemma drillLabels_kept: "\<not> snd (drillLabelUpdate r w d) \<Longrightarrow> fst (drillLabelUpdate r w d) = m_labels (dr_meta d)"
  by (auto simp: drillLabelUpdate_def EnsureDependencyTokenLabel_def RebuildDependencyToLabels_def Let_def split: if_splits)

section \<open>The rounds of a restarting drill\<close>

definition drillRound :: "reconciler \<Rightarrow> key \<Rightarrow> world \<Rightarrow> world" where
  "drillRound r k w = snd (run_state (drillReconcile r k) w)"

text \<open>The drill \<open>d\<close> is stored, with its finalizer and its labels in place.\<close>

definition drillSettled :: "reconciler \<Rightarrow> key \<Rightarrow> world \<Rightarrow> DisasterDrill \<Rightarrow> bool" where
  "drillSettled r k w d \<longleftrightarrow> w_faults w = [] \<and> lookup drillKind w k = Some d \<and> m_deletion (dr_meta d) = None \<and>
     List.member (m_finalizers (dr_meta d)) drillFinalizer \<and> \<not> snd (drillLabelUpdate r w d)"

lemma round_settled:
  assumes "drillSettled r k w d"
  shows "drillRound r k w = snd (run_state (drillReconcileLabelled r d) w)"
proof -
  have "d\<lparr>dr_meta := (dr_meta d)\<lparr>m_labels := fst (drillLabelUpdate r w d)\<rparr>\<rparr> = d"
    using assms drillLabels_kept by (simp add: drillSettled_def)
  with assms show ?thesis
    by (simp add: drillSettled_def drillRound_def drillReconcile_def run_bind run_apiGet run_drillLabels)
qed

lemma settled_written:
  assumes "drillSettled r k w d" and "w' = replaceObj drillKind (writtenDrill d s) (w\<lparr>w_events := es\<rparr>)"
  shows "drillSettled r k w' (writtenDrill d s)"
proof -
  have e: "lookup instKind w' = lookup instKind w" "lookup groupKind w' = lookup groupKind w"
    by (simp_all add: assms(2) lookup_def replaceObj_def fun_eq_iff)
  have m: "m_labels (dr_meta (writtenDrill d s)) = m_labels (dr_meta d)" "m_uid (dr_meta (writtenDrill d s)) = m_uid (dr_meta d)"
    "m_deletion (dr_meta (writtenDrill d s)) = m_deletion (dr_meta d)" "m_finalizers (dr_meta (writtenDrill d s)) = m_finalizers (dr_meta d)"
    by (simp_all add: writtenDrill_def bumpRv_def drillKind_def)
  have "drillLabelUpdate r w' (writtenDrill d s) = drillLabelUpdate r w d"
    unfolding drillLabelUpdate_def m drillEdgesIn_def e by simp
  moreover have "lookup drillKind w' k = Some (writtenDrill d s)"
    unfolding assms(2) using assms(1) by (intro lookup_written) (simp add: drillSettled_def)
  moreover have "w_faults w' = []" using assms by (simp add: drillSettled_def replaceObj_def)
  ultimately show ?thesis using assms(1) m by (simp add: drillSettled_def)
qed

text \<open>A drill that names both an instance and a group, or neither, and asks for a restart.\<close>

definition invalidDrill :: "reconciler \<Rightarrow> DisasterDrill \<Rightarrow> bool" where
  "invalidDrill r d \<longleftrightarrow> (ds_instanceName (dr_spec d) = []) = (ds_groupName (dr_spec d) = []) \<and> \<not> ds_confirmed (dr_spec d) \<and> \<not> ds_cleanUp (dr_spec d) \<and>
     (\<exists>v t. map_of (m_ann (dr_meta d)) annRestartTimestamp = Some v \<and> r_parseTime r v = Some t)"

lemma invalid_written: "invalidDrill r (writtenDrill d s) = invalidDrill r d"
  by (simp add: invalidDrill_def)

definition failedInvalid :: "reconciler \<Rightarrow> key \<Rightarrow> world \<Rightarrow> DisasterDrill \<Rightarrow> bool" where
  "failedInvalid r k w d \<longleftrightarrow> drillSettled r k w d \<and> invalidDrill r d \<and> dst_state (dr_status d) = DrillFailed \<and>
     dst_reason (dr_status d) \<noteq> [] \<and> dst_completionTime (dr_status d) = None"

definition pendingInvalid :: "reconciler \<Rightarrow> key \<Rightarrow> world \<Rightarrow> DisasterDrill \<Rightarrow> bool" where
  "pendingInvalid r k w d \<longleftrightarrow> drillSettled r k w d \<and> invalidDrill r d \<and> dst_state (dr_status d) = DrillPending \<and>
     dst_reason (dr_status d) = [] \<and> dst_completionTime (dr_status d) = None"

definition unexplained :: "reconciler \<Rightarrow> key \<Rightarrow> world \<Rightarrow> DisasterDrill \<Rightarrow> bool" where
  "unexplained r k w d \<longleftrightarrow> drillSettled r k w d \<and> invalidDrill r d \<and> dst_state (dr_status d) = DrillFailed \<and>
     dst_reason (dr_status d) = [] \<and> dst_completionTime (dr_status d) = None"

lemma round_resets:
  assumes "failedInvalid r k w d"
  shows "\<exists>d'. pendingInvalid r k (drillRound r k w) d'"
proof -
  have a: "w_faults w = []" "lookup drillKind w k = Some d" using assms by (simp_all add: failedInvalid_def drillSettled_def)
  let ?s = "emptyDrillStatus\<lparr>dst_state := DrillPending, dst_startTime := Some (r_now r), dst_message := msgDrillReset\<rparr>"
  have "shouldRestart r d" using assms by (auto simp: failedInvalid_def invalidDrill_def shouldRestart_def)
  then have "drillRound r k w = snd (run_state (resetDrill r d) w)"
    using assms round_settled [of r k w d] by (simp add: failedInvalid_def drillReconcileLabelled_def normalizeDrillStatusError_def drillStateMachine_def
        invalidDrill_def Let_def)
  also have "run_state (resetDrill r d) w = (Inr requeue_result,
      (replaceObj drillKind (writtenDrill d ?s) w)\<lparr>w_events := w_events (replaceObj drillKind (writtenDrill d ?s) w) @ [\<lparr>ev_object = drillName d, ev_reason = ''Restarted''\<rparr>]\<rparr>)"
    using assms run_drillStatus [OF a, of "d\<lparr>dr_status := ?s\<rparr>"]
    by (simp add: resetDrill_def failedInvalid_def invalidDrill_def run_chk run_bind run_emit run_ret)
  also have "snd (Inr requeue_result,
      (replaceObj drillKind (writtenDrill d ?s) w)\<lparr>w_events := w_events (replaceObj drillKind (writtenDrill d ?s) w) @ [\<lparr>ev_object = drillName d, ev_reason = ''Restarted''\<rparr>]\<rparr>) =
      replaceObj drillKind (writtenDrill d ?s) (w\<lparr>w_events := w_events w @ [\<lparr>ev_object = drillName d, ev_reason = ''Restarted''\<rparr>]\<rparr>)"
    by (simp add: replaceObj_def)
  finally have "drillSettled r k (drillRound r k w) (writtenDrill d ?s)"
    using assms by (intro settled_written) (simp_all add: failedInvalid_def)
  then show ?thesis
    using assms by (intro exI [of _ "writtenDrill d ?s"]) (simp add: failedInvalid_def pendingInvalid_def invalid_written emptyDrillStatus_def)
qed

lemma round_fails:
  assumes "pendingInvalid r k w d"
  shows "\<exists>d'. unexplained r k (drillRound r k w) d'"
proof -
  have a: "w_faults w = []" "lookup drillKind w k = Some d" using assms by (simp_all add: pendingInvalid_def drillSettled_def)
  obtain m where "drillRound r k w = snd (run_state (failValidation d m) w)"
    using assms round_settled [of r k w d] by (auto simp: pendingInvalid_def drillReconcileLabelled_def normalizeDrillStatusError_def drillStateMachine_def
        handleDrillPending_def invalidDrill_def Let_def)
  then have "drillRound r k w = replaceObj drillKind (writtenDrill d ((dr_status d)\<lparr>dst_state := DrillFailed, dst_message := m\<rparr>))
      (w\<lparr>w_events := w_events w @ [\<lparr>ev_object = drillName d, ev_reason = ''ValidationFailed''\<rparr>, \<lparr>ev_object = drillName d, ev_reason = ''ExecutionFinished''\<rparr>]\<rparr>)"
    using run_announced [OF a] by (simp add: failValidation_def)
  then have "drillSettled r k (drillRound r k w) (writtenDrill d ((dr_status d)\<lparr>dst_state := DrillFailed, dst_message := m\<rparr>))"
    using assms by (intro settled_written) (simp_all add: pendingInvalid_def)
  then show ?thesis
    using assms by (intro exI [of _ "writtenDrill d ((dr_status d)\<lparr>dst_state := DrillFailed, dst_message := m\<rparr>)"])
      (simp add: pendingInvalid_def unexplained_def invalid_written)
qed

lemma reason_found: "deriveDrillFailureReason s \<noteq> []"
  by (auto simp: deriveDrillFailureReason_def split: option.splits)

lemma round_explains:
  assumes "unexplained r k w d"
  shows "\<exists>d'. failedInvalid r k (drillRound r k w) d'"
proof -
  have a: "w_faults w = []" "lookup drillKind w k = Some d" using assms by (simp_all add: unexplained_def drillSettled_def)
  let ?s = "(dr_status d)\<lparr>dst_reason := deriveDrillFailureReason (dr_status d)\<rparr>"
  have "drillRound r k w = snd (run_state (saveDrill (setDrill (\<lambda>s. s\<lparr>dst_reason := deriveDrillFailureReason s\<rparr>) d) requeue_result) w)"
    using assms round_settled [of r k w d] by (simp add: unexplained_def drillReconcileLabelled_def normalizeDrillStatusError_def reason_found Let_def)
  then have "drillRound r k w = replaceObj drillKind (writtenDrill d ?s) (w\<lparr>w_events := w_events w\<rparr>)"
    using run_saveDrill [OF a] by simp
  then have "drillSettled r k (drillRound r k w) (writtenDrill d ?s)"
    using assms by (intro settled_written [where es = "w_events w" and w = w]) (simp_all add: unexplained_def)
  then show ?thesis
    using assms by (intro exI [of _ "writtenDrill d ?s"]) (simp add: unexplained_def failedInvalid_def invalid_written reason_found)
qed

lemma restart_cycle: "\<exists>d'. failedInvalid r k w d' \<Longrightarrow> \<exists>d'. failedInvalid r k ((drillRound r k ^^ (3 * n)) w) d'"
proof (induction n)
  case (Suc n)
  then obtain d' where "failedInvalid r k ((drillRound r k ^^ (3 * n)) w) d'" by blast
  then have "\<exists>d'. failedInvalid r k (drillRound r k (drillRound r k (drillRound r k ((drillRound r k ^^ (3 * n)) w)))) d'"
    using round_resets round_fails round_explains by blast
  then show ?case by (simp add: numeral_eq_Suc)
qed simp

text \<open>Liveness: a drill whose validation cannot succeed, because it names both an instance and a group or
  neither, and which carries a restart annotation, never comes to rest, even though no call fails: in the rounds of the
  controller it is failed, starts over, fails again and so on for ever.\<close>

theorem invalid_drill_restarts_forever:
  assumes "failedInvalid r k w d"
  shows "map_option (\<lambda>d. dst_state (dr_status d)) (lookup drillKind ((drillRound r k ^^ (3 * n)) w) k) = Some DrillFailed \<and>
    map_option (\<lambda>d. dst_state (dr_status d)) (lookup drillKind ((drillRound r k ^^ (3 * n + 1)) w) k) = Some DrillPending"
proof -
  obtain d' where d': "failedInvalid r k ((drillRound r k ^^ (3 * n)) w) d'" using restart_cycle assms by blast
  from round_resets [OF this] obtain e where "pendingInvalid r k (drillRound r k ((drillRound r k ^^ (3 * n)) w)) e" ..
  with d' show ?thesis by (simp add: failedInvalid_def pendingInvalid_def drillSettled_def)
qed

definition sInvalid :: DisasterDrill where
  "sInvalid = (sDrill DrillFailed ''west'' False)\<lparr>dr_spec := (dr_spec (sDrill DrillFailed ''west'' False))\<lparr>ds_groupName := ''grp''\<rparr>,
     dr_meta := (dr_meta (sDrill DrillFailed ''west'' False))\<lparr>m_ann := [(annRestartTimestamp, ''now'')]\<rparr>,
     dr_status := emptyDrillStatus\<lparr>dst_state := DrillFailed, dst_reason := ''ValidationFailed''\<rparr>\<rparr>"

theorem invalid_drill_restarts_forever_witness:
  "map_option (\<lambda>d. dst_state (dr_status d)) (lookup drillKind ((drillRound sRec (''ns'', ''d'') ^^ (3 * 1000 + 1)) (sDrillWorld sInvalid)) (''ns'', ''d'')) = Some DrillPending"
proof -
  have "lookup drillKind (sDrillWorld sInvalid) (''ns'', ''d'') = Some sInvalid"
    by (simp add: sDrillWorld_def sInvalid_def sDrill_def sWorld_def lookup_def keyOf_def metaKey_def sMeta_def)
  moreover have "\<not> snd (drillLabelUpdate sRec (sDrillWorld sInvalid) sInvalid)" by code_simp
  ultimately have "failedInvalid sRec (''ns'', ''d'') (sDrillWorld sInvalid) sInvalid"
    by (simp add: failedInvalid_def drillSettled_def invalidDrill_def)
      (simp add: sDrillWorld_def sInvalid_def sDrill_def sWorld_def sMeta_def sRec_def emptyDrillStatus_def)
  from invalid_drill_restarts_forever [OF this, of 1000] show ?thesis by blast
qed

end
