(* ===== verification/ImageProps.thy ===== *)
theory ImageProps
  imports ImageMapping Trafficless Samples
begin

text \<open>
  Properties of the rewriting of images and of the hooks of a restore: a rewrite towards the
  target is undone by the rewrite resolved for the switched clusters, the hooks prepared for
  trafficless pods are those given, and where the rules of rewritten images fall short.
\<close>

section \<open>Registries\<close>

definition sourceReg :: "RegistryMapping \<Rightarrow> string" where
  "sourceReg m = normalizeRegistry (gm_sourceRegistry m)"

definition targetReg :: "RegistryMapping \<Rightarrow> string" where
  "targetReg m = normalizeRegistry (gm_targetRegistry m)"

definition swapMapping :: "RegistryMapping \<Rightarrow> RegistryMapping" where
  "swapMapping m = \<lparr>gm_sourceAlias = gm_targetAlias m, gm_sourceRegistry = gm_targetRegistry m,
     gm_targetAlias = gm_sourceAlias m, gm_targetRegistry = gm_sourceRegistry m\<rparr>"

lemma swap_regs [simp]: "sourceReg (swapMapping m) = targetReg m" "targetReg (swapMapping m) = sourceReg m"
  by (simp_all add: sourceReg_def targetReg_def swapMapping_def)

text \<open>The path of an image below a registry.\<close>

lemma registryMatches_iff: "registryMatches im r \<longleftrightarrow> (\<exists>t. im = r @ t \<and> (t = [] \<or> hd t = CHR ''/''))"
proof -
  have "hasPrefix im (r @ ''/'') \<longleftrightarrow> (\<exists>t. im = r @ t \<and> t \<noteq> [] \<and> hd t = CHR ''/'')"
    unfolding hasPrefix_iff by (metis append.assoc append_Cons append_Nil list.collapse list.sel(1) list.distinct(1))
  then show ?thesis unfolding registryMatches_def by auto
qed

text \<open>Of two registries an image lies below, one lies below the other.\<close>

lemma matches_related:
  assumes "registryMatches im r" and "registryMatches im r'"
  shows "registryMatches r r' \<or> registryMatches r' r"
proof -
  obtain t where t: "im = r @ t" "t = [] \<or> hd t = CHR ''/''" using assms(1) registryMatches_iff by blast
  obtain t' where t': "im = r' @ t'" "t' = [] \<or> hd t' = CHR ''/''" using assms(2) registryMatches_iff by blast
  from t(1) t'(1) obtain u where "r = r' @ u \<and> u @ t = t' \<or> r @ u = r' \<and> t = u @ t'" by (auto simp: append_eq_append_conv2)
  then show ?thesis using t(2) t'(2) by (auto simp: registryMatches_iff hd_append split: if_splits)
qed

section \<open>The mapping chosen for an image\<close>

lemma best_from:
  "foldl (betterMapping im) acc ms = Some m \<Longrightarrow> acc = Some m \<or> m \<in> set ms \<and> sourceReg m \<noteq> [] \<and> registryMatches im (sourceReg m)"
proof (induction ms arbitrary: acc)
  case (Cons a ms)
  from Cons.IH [of "betterMapping im acc a"] Cons.prems show ?case
    by (auto simp: betterMapping_def sourceReg_def Let_def split: if_splits option.splits)
qed simp

lemma best_exists:
  "acc \<noteq> None \<or> (\<exists>m \<in> set ms. sourceReg m \<noteq> [] \<and> registryMatches im (sourceReg m)) \<Longrightarrow> foldl (betterMapping im) acc ms \<noteq> None"
proof (induction ms arbitrary: acc)
  case (Cons a ms)
  have "betterMapping im acc a \<noteq> None \<or> (\<exists>m \<in> set ms. sourceReg m \<noteq> [] \<and> registryMatches im (sourceReg m))"
    using Cons.prems by (auto simp: betterMapping_def sourceReg_def Let_def split: option.splits)
  from Cons.IH [OF this] show ?case by simp
qed auto

text \<open>No target registry lies below another, and each is a name that survives trimming.\<close>

definition separateTargets :: "RegistryMapping list \<Rightarrow> bool" where
  "separateTargets ms \<longleftrightarrow> (\<forall>m \<in> set ms. targetReg m \<noteq> [] \<and> trimSpace (targetReg m) = targetReg m) \<and>
     (\<forall>m \<in> set ms. \<forall>m' \<in> set ms. registryMatches (targetReg m) (targetReg m') \<longrightarrow> m = m')"

lemma best_swapped:
  assumes "separateTargets ms" and "m \<in> set ms" and "registryMatches im (targetReg m)"
  shows "foldl (betterMapping im) None (map swapMapping ms) = Some (swapMapping m)"
proof -
  have "\<exists>x \<in> set (map swapMapping ms). sourceReg x \<noteq> [] \<and> registryMatches im (sourceReg x)"
    using assms by (auto simp: separateTargets_def)
  then obtain x where x: "foldl (betterMapping im) None (map swapMapping ms) = Some x"
    using best_exists [of None "map swapMapping ms" im] by auto
  from best_from [OF this] obtain m' where m': "m' \<in> set ms" "x = swapMapping m'" "registryMatches im (targetReg m')" by auto
  then have "m' = m" using matches_related [OF assms(3) m'(3)] assms(1,2) by (auto simp: separateTargets_def)
  then show ?thesis using x m'(2) by simp
qed

lemma not_space_ends: "trimSpace s = s \<Longrightarrow> s \<noteq> [] \<Longrightarrow> \<not> isSpace (hd s) \<and> \<not> isSpace (last s)"
  using trimFunc_hd [of isSpace s] trimFunc_last [of isSpace s] by (simp add: trimSpace_def)

lemma rewrite_swapped:
  assumes "separateTargets ms" and "trimSpace im = im" and "RewriteImage im ms = (im', True)"
  shows "RewriteImage im' (map swapMapping ms) = (im, True)"
proof -
  from assms(2,3) obtain m where best: "foldl (betterMapping im) None ms = Some m" and ne: "im \<noteq> []"
    by (auto simp: RewriteImage_def Let_def split: if_splits option.splits)
  from best_from [OF best] have m: "m \<in> set ms" "registryMatches im (sourceReg m)" by auto
  then obtain t where t: "im = sourceReg m @ t" "t = [] \<or> hd t = CHR ''/''" by (auto simp: registryMatches_iff)
  have im': "im' = targetReg m @ t"
    using assms(2,3) best ne t(1) by (auto simp: RewriteImage_def Let_def sourceReg_def targetReg_def split: if_splits)
  have target: "targetReg m \<noteq> []" "trimSpace (targetReg m) = targetReg m" using assms(1) m(1) by (auto simp: separateTargets_def)
  have "last im' = (if t = [] then last (targetReg m) else last im)" using t im' by simp
  then have trim: "trimSpace im' = im'"
    using not_space_ends [OF target(2,1)] not_space_ends [OF assms(2) ne] target(1) by (intro trimSpace_id) (auto simp: im')
  have "foldl (betterMapping im') None (map swapMapping ms) = Some (swapMapping m)"
    using assms(1) m(1) by (rule best_swapped) (use t im' in \<open>auto simp: registryMatches_iff\<close>)
  then show ?thesis
    using trim im' target(1) t(1) by (auto simp: RewriteImage_def Let_def swapMapping_def sourceReg_def targetReg_def)
qed

section \<open>The mappings of the switched clusters\<close>

definition aliases :: "Cluster \<Rightarrow> string set" where
  "aliases c = (\<lambda>s. trimSpace (isrc_name s)) ` set (cl_imageSources c)"

text \<open>No mapping of the configuration could be read both ways.\<close>

definition directed :: "ImageRewriteConfig \<Rightarrow> Cluster \<Rightarrow> Cluster \<Rightarrow> bool" where
  "directed cfg s t \<longleftrightarrow> (\<forall>x \<in> set (irc_mappings cfg). \<not> (trimSpace (ism_source x) \<in> aliases t \<and> trimSpace (ism_target x) \<in> aliases s))"

lemma mput_dom: "a \<in> fst ` set (mput m b v) \<Longrightarrow> a = b \<or> a \<in> fst ` set m"
  by (induction m) (auto simp: mput_def split: if_splits)

lemma alias_dom:
  assumes "foldE (\<lambda>m s. let alias = trimSpace (isrc_name s); registry = normalizeRegistry (isrc_registry s) in
       if alias = [] \<or> registry = [] then Inr m
       else case map_of m alias of
         Some _ \<Rightarrow> Inl (errorf (''duplicate image source alias in cluster '' @ n @ '': '' @ alias))
       | None \<Rightarrow> Inr (mput m alias registry)) m0 xs = Inr m" and "map_of m a \<noteq> None"
  shows "map_of m0 a \<noteq> None \<or> a \<in> (\<lambda>s. trimSpace (isrc_name s)) ` set xs"
  using assms
proof (induction xs arbitrary: m0)
  case (Cons x xs)
  then show ?case by (auto simp: Let_def map_of_eq_None_iff split: if_splits option.splits sum.splits dest!: mput_dom)
qed simp

lemma alias_in: "buildRegistryAliasMap (cl_imageSources c) n = Inr m \<Longrightarrow> map_of m a \<noteq> None \<Longrightarrow> a \<in> aliases c"
  unfolding buildRegistryAliasMap_def aliases_def by (drule (1) alias_dom) simp

lemma resolve_swapped:
  assumes "resolveMapping src tgt sn tn x = Inr m" and "map_of tgt (trimSpace (ism_source x)) = None \<or> map_of src (trimSpace (ism_target x)) = None"
  shows "resolveMapping tgt src tn sn x = Inr (swapMapping m)"
  using assms by (auto simp: resolveMapping_def swapMapping_def Let_def split: option.splits)

lemma mappings_swapped:
  assumes "foldE (addMapping src tgt sn tn) (seen, ms) xs = Inr (seen', ms')"
    and "\<And>x. x \<in> set xs \<Longrightarrow> map_of tgt (trimSpace (ism_source x)) = None \<or> map_of src (trimSpace (ism_target x)) = None"
  shows "foldE (addMapping tgt src tn sn) (seen, map swapMapping ms) xs = Inr (seen', map swapMapping ms')"
  using assms
proof (induction xs arbitrary: seen ms)
  case (Cons x xs)
  let ?a = "trimSpace (ism_source x)"
  from Cons.prems(1) obtain m where m: "resolveMapping src tgt sn tn x = Inr m" and ok: "?a \<noteq> []" "trimSpace (ism_target x) \<noteq> []" "\<not> List.member seen ?a"
    and rest: "foldE (addMapping src tgt sn tn) (seen @ [?a], ms @ [m]) xs = Inr (seen', ms')"
    by (auto simp: addMapping_def [of src tgt sn tn "(seen, ms)"] andThen_def Let_def split: if_splits sum.splits)
  from resolve_swapped [OF m] Cons.prems(2) have "resolveMapping tgt src tn sn x = Inr (swapMapping m)" by simp
  with Cons.IH [OF rest] Cons.prems(2) ok show ?case by (simp add: addMapping_def andThen_def Let_def)
qed simp

lemma resolution_swapped:
  assumes "ResolveRegistryMappings (Some s) (Some t) (Some cfg) at = Inr (ms, p, True)" and "directed cfg s t"
  shows "ResolveRegistryMappings (Some t) (Some s) (Some cfg) at = Inr (map swapMapping ms, p, True)"
proof -
  from assms(1) obtain src tgt seen where src: "buildRegistryAliasMap (cl_imageSources s) (m_name (cl_meta s)) = Inr src"
    and tgt: "buildRegistryAliasMap (cl_imageSources t) (m_name (cl_meta t)) = Inr tgt"
    and fold: "foldE (addMapping src tgt (m_name (cl_meta s)) (m_name (cl_meta t))) ([], []) (irc_mappings cfg) = Inr (seen, ms)"
    by (auto simp: ResolveRegistryMappings_def andThen_def Let_def split: if_splits sum.splits)
  have "map_of tgt (trimSpace (ism_source x)) = None \<or> map_of src (trimSpace (ism_target x)) = None" if "x \<in> set (irc_mappings cfg)" for x
  proof (rule ccontr)
    assume "\<not> ?thesis"
    then have "trimSpace (ism_target x) \<in> aliases s" and "trimSpace (ism_source x) \<in> aliases t"
      using alias_in [OF src] alias_in [OF tgt] by blast+
    with assms(2) that show False by (simp add: directed_def)
  qed
  from mappings_swapped [OF fold this]
  have "foldE (addMapping tgt src (m_name (cl_meta t)) (m_name (cl_meta s))) ([], []) (irc_mappings cfg) = Inr (seen, map swapMapping ms)" by simp
  then show ?thesis
    using assms(1) src tgt fold by (auto simp: ResolveRegistryMappings_def andThen_def Let_def split: if_splits)
qed

text \<open>C22. Round trip: what a failover rewrites, a failback restores. When the mappings resolve between a source and
  a target cluster, none of them can be read both ways and no target registry lies below another, they also
  resolve between the switched clusters, and there the image that a rewrite produced is rewritten to the one it came from.\<close>

theorem image_rewrite_roundtrip:
  assumes "ResolveRegistryMappings (Some s) (Some t) (Some cfg) at = Inr (ms, p, True)" and "directed cfg s t" and "separateTargets ms"
    and "trimSpace im = im" and "RewriteImage im ms = (im', True)"
  shows "\<exists>ms'. ResolveRegistryMappings (Some t) (Some s) (Some cfg) at = Inr (ms', p, True) \<and> RewriteImage im' ms' = (im, True)"
  using resolution_swapped [OF assms(1,2)] rewrite_swapped [OF assms(3-5)] by blast

definition sRegistries :: "string \<Rightarrow> string \<Rightarrow> Cluster" where
  "sRegistries c alias = (sCluster c)\<lparr>cl_imageSources := [\<lparr>isrc_name = alias, isrc_registry = c @ ''.example/apps/''\<rparr>]\<rparr>"

definition sRewrite :: "string \<Rightarrow> string \<Rightarrow> ImageRewriteConfig" where
  "sRewrite a b = \<lparr>irc_enabled = True, irc_applyTo = [], irc_unmatchedPolicy = ''Fail'', irc_mappings = [\<lparr>ism_source = a, ism_target = b\<rparr>]\<rparr>"

theorem image_rewrite_roundtrip_witness:
  "\<exists>ms ms'. RewriteImage ''east.example/apps/web/srv:1'' ms = (''west.example/apps/web/srv:1'', True) \<and>
     ResolveRegistryMappings (Some (sRegistries ''east'' ''e'')) (Some (sRegistries ''west'' ''w'')) (Some (sRewrite ''e'' ''w'')) ''drill'' = Inr (ms, ''Fail'', True) \<and>
     ResolveRegistryMappings (Some (sRegistries ''west'' ''w'')) (Some (sRegistries ''east'' ''e'')) (Some (sRewrite ''e'' ''w'')) ''drill'' = Inr (ms', ''Fail'', True) \<and>
     RewriteImage ''west.example/apps/web/srv:1'' ms' = (''east.example/apps/web/srv:1'', True)"
proof -
  let ?m = "\<lparr>gm_sourceAlias = ''e'', gm_sourceRegistry = ''east.example/apps'', gm_targetAlias = ''w'', gm_targetRegistry = ''west.example/apps''\<rparr>"
  have a: "ResolveRegistryMappings (Some (sRegistries ''east'' ''e'')) (Some (sRegistries ''west'' ''w'')) (Some (sRewrite ''e'' ''w'')) ''drill'' =
    Inr ([?m], ''Fail'', True)" by code_simp
  have b: "directed (sRewrite ''e'' ''w'') (sRegistries ''east'' ''e'') (sRegistries ''west'' ''w'')" by code_simp
  have "targetReg ?m \<noteq> []" "trimSpace (targetReg ?m) = targetReg ?m" by code_simp+
  then have c: "separateTargets [?m]" by (simp add: separateTargets_def)
  have d: "trimSpace ''east.example/apps/web/srv:1'' = ''east.example/apps/web/srv:1''" by code_simp
  have e: "RewriteImage ''east.example/apps/web/srv:1'' [?m] = (''west.example/apps/web/srv:1'', True)" by code_simp
  from image_rewrite_roundtrip [OF a b c d e] a e show ?thesis by blast
qed

section \<open>Where rewriting falls short\<close>

text \<open>When both clusters name their registries alike, the switched clusters resolve the mapping as
  configured and not backwards, and the rewritten image is not recognised.\<close>

definition sShared :: "string \<Rightarrow> Cluster" where
  "sShared c = (sCluster c)\<lparr>cl_imageSources := [\<lparr>isrc_name = ''a'', isrc_registry = c @ ''.example/a''\<rparr>, \<lparr>isrc_name = ''b'', isrc_registry = c @ ''.example/b''\<rparr>]\<rparr>"

lemma shared_aliases_are_not_reversed:
  "case (ResolveRegistryMappings (Some (sShared ''east'')) (Some (sShared ''west'')) (Some (sRewrite ''a'' ''b'')) ''drill'',
         ResolveRegistryMappings (Some (sShared ''west'')) (Some (sShared ''east'')) (Some (sRewrite ''a'' ''b'')) ''drill'') of
     (Inr (ms, _), Inr (ms', _)) \<Rightarrow> RewriteImage ''east.example/a/srv:1'' ms = (''west.example/b/srv:1'', True) \<and>
       RewriteImage ''west.example/b/srv:1'' ms' = (''west.example/b/srv:1'', False)
   | _ \<Rightarrow> False"
  by code_simp

text \<open>The rules of two workloads of one name in different namespaces have the same conditions.\<close>

lemma rules_ignore_namespaces:
  assumes "m_name (wl_meta d) = m_name (wl_meta d')" and "fst (buildWorkloadImagePatches d ms p) \<noteq> []" and "fst (buildWorkloadImagePatches d' ms p) \<noteq> []"
  shows "\<exists>x y. fst (BuildRulesFromWorkloads [d, d'] [] ms p) = [x, y] \<and> mr_conditions x = mr_conditions y \<and>
    mr_patches x = fst (buildWorkloadImagePatches d ms p) \<and> mr_patches y = fst (buildWorkloadImagePatches d' ms p)"
  using assms by (simp add: BuildRulesFromWorkloads_def workloadRule_def Let_def)

section \<open>Hooks of trafficless pods\<close>

definition somes :: "('a \<Rightarrow> 'b option) \<Rightarrow> 'a list \<Rightarrow> 'b list" where
  "somes f xs = concat (map (\<lambda>x. case f x of None \<Rightarrow> [] | Some y \<Rightarrow> [y]) xs)"

lemma somes_simps [simp]: "somes f [] = []" "somes f (x # xs) = (case f x of None \<Rightarrow> [] | Some y \<Rightarrow> [y]) @ somes f xs"
  "somes f (xs @ ys) = somes f xs @ somes f ys" "somes f (map g xs) = somes (f \<circ> g) xs"
  by (simp_all add: somes_def comp_def)

lemma somes_filter: "(\<And>x. \<not> P x \<Longrightarrow> f x = None) \<Longrightarrow> somes f (filter P xs) = somes f xs"
  by (induction xs) auto

lemma somes_empty: "(\<And>x. x \<in> set xs \<Longrightarrow> f x = None) \<Longrightarrow> somes f xs = []"
  by (induction xs) auto

text \<open>The init hooks and the exec hooks of a restore, in order.\<close>

definition initsOf :: "RestoreHooks \<Rightarrow> string list" where
  "initsOf hs = somes rh_init (concat (map rhs_postHooks hs))"

definition execsOf :: "RestoreHooks \<Rightarrow> string list" where
  "execsOf hs = somes rh_exec (concat (map rhs_postHooks hs))"

lemma split_keeps:
  assumes "splitRestoreHooks hs = (a, b, c)"
  shows "somes rh_init a = somes rh_init hs" and "somes rh_init b = []" and "somes rh_init c = []"
    and "somes rh_exec a = []" and "somes rh_exec b = somes rh_exec hs" and "somes rh_exec c = []"
  using assms
  by (auto simp: splitRestoreHooks_def comp_def intro!: somes_filter somes_empty)

text \<open>What the preparation makes of one resource.\<close>

definition preparedFrom :: "string list \<Rightarrow> smap \<Rightarrow> nat \<times> RestoreResourceHookSpec \<Rightarrow> RestoreHooks \<times> ResourceModifierRule list" where
  "preparedFrom inc nm item = prepareHookResource inc nm ([], []) item"

lemma prepare_appends:
  "prepareHookResource inc nm acc item = (fst acc @ fst (preparedFrom inc nm item), snd acc @ snd (preparedFrom inc nm item))"
  by (simp add: preparedFrom_def prepareHookResource_def Let_def split: prod.split option.split)

lemma prepare_all:
  "foldl (prepareHookResource inc nm) acc xs =
    (fst acc @ concat (map (fst \<circ> preparedFrom inc nm) xs), snd acc @ concat (map (snd \<circ> preparedFrom inc nm) xs))"
  by (induction xs arbitrary: acc) (simp_all add: prepare_appends [of inc nm])

lemma mapped_hooks [simp]: "rhs_postHooks (mapRestoreHookNamespacesToTarget nm r) = rhs_postHooks r"
  "rhs_labelSelector (mapRestoreHookNamespacesToTarget nm r) = rhs_labelSelector r"
  by (simp_all add: mapRestoreHookNamespacesToTarget_def)

lemma prepared_hooks:
  "somes rh_init (concat (map rhs_postHooks (fst (preparedFrom inc nm (i, res))))) = somes rh_init (rhs_postHooks res)"
  "somes rh_exec (concat (map rhs_postHooks (fst (preparedFrom inc nm (i, res))))) = somes rh_exec (rhs_postHooks res)"
  using split_keeps [of "rhs_postHooks res"]
  by (auto simp: preparedFrom_def prepareHookResource_def execResource_def Let_def split: prod.split option.split)

text \<open>The marker of a resource: its exec hooks select the label that the rule puts on the pods.\<close>

definition marked :: "nat \<Rightarrow> RestoreHooks \<Rightarrow> ResourceModifierRule \<Rightarrow> bool" where
  "marked i hs rule \<longleftrightarrow> (\<exists>res \<in> set hs. rhs_labelSelector res = Some \<lparr>ls_matchLabels = [(DataRestoreHookMarkerLabelKey i, ''true'')], ls_matchExpressions = []\<rparr>) \<and>
     map jp_path (mr_patches rule) = [''/metadata/labels/'' @ escapeJSONPointerSegment (DataRestoreHookMarkerLabelKey i)]"

lemma marked_mono: "marked i hs rule \<Longrightarrow> set hs \<subseteq> set hs' \<Longrightarrow> marked i hs' rule"
  unfolding marked_def by (elim conjE bexE, intro conjI) (rule bexI, assumption, blast, assumption)

lemma prepared_marked: "rule \<in> set (snd (preparedFrom inc nm (i, res))) \<Longrightarrow> marked i (fst (preparedFrom inc nm (i, res))) rule"
  by (auto simp: preparedFrom_def prepareHookResource_def execResource_def buildDataRestoreHookMarkerRule_def marked_def Let_def
      split: prod.splits option.splits if_splits)

text \<open>C23. Functional: preparing the hooks of a data restore for pods without labels loses and reorders no hook: the init
  hooks and the exec hooks of the result are those given, in order, also where a resource is split in two. For each rule
  that marks pods there is a resource of the result that selects exactly that mark.\<close>

theorem prepared_hooks_complete:
  "\<exists>h' rules. PrepareTrafficlessDataRestoreHooks (Some h) inc nm = (Some h', rules) \<and> initsOf h' = initsOf h \<and> execsOf h' = execsOf h \<and>
    (\<forall>rule \<in> set rules. \<exists>i. marked i h' rule)"
proof -
  let ?f = "fst \<circ> preparedFrom inc nm" and ?xs = "enumerate 0 h"
  let ?h = "concat (map ?f ?xs)" and ?rules = "concat (map (snd \<circ> preparedFrom inc nm) ?xs)"
  have P: "PrepareTrafficlessDataRestoreHooks (Some h) inc nm = (Some ?h, ?rules)"
    by (simp add: PrepareTrafficlessDataRestoreHooks_def prepare_all)
  have "initsOf (concat (map ?f (enumerate n xs))) = initsOf xs \<and> execsOf (concat (map ?f (enumerate n xs))) = execsOf xs" for n xs
    by (induction xs arbitrary: n) (simp_all add: initsOf_def execsOf_def prepared_hooks)
  moreover have "\<exists>i. marked i ?h rule" if "rule \<in> set ?rules" for rule
  proof -
    from that obtain i res where x: "(i, res) \<in> set ?xs" "rule \<in> set (snd (preparedFrom inc nm (i, res)))" by auto
    from prepared_marked [OF x(2)] have "marked i (fst (preparedFrom inc nm (i, res))) rule" .
    moreover have "set (fst (preparedFrom inc nm (i, res))) \<subseteq> set ?h" using x(1) by force
    ultimately have "marked i ?h rule" by (rule marked_mono)
    then show ?thesis ..
  qed
  ultimately show ?thesis using P by blast
qed

definition sHooks :: RestoreHooks where
  "sHooks = [\<lparr>rhs_name = ''db'', rhs_includedNamespaces = [], rhs_excludedNamespaces = [], rhs_includedResources = [], rhs_excludedResources = [],
     rhs_labelSelector = None, rhs_postHooks = [\<lparr>rh_init = Some ''fetch'', rh_exec = None\<rparr>, \<lparr>rh_init = None, rh_exec = Some ''import''\<rparr>]\<rparr>]"

theorem prepared_hooks_complete_witness:
  "case PrepareTrafficlessDataRestoreHooks (Some sHooks) [''web''] [(''web'', ''web-drill'')] of
     (Some h', rules) \<Rightarrow> length h' = 2 \<and> initsOf h' = [''fetch''] \<and> execsOf h' = [''import''] \<and> length rules = 1 \<and> (\<exists>i. marked i h' (hd rules))
   | _ \<Rightarrow> False"
proof -
  let ?p = "PrepareTrafficlessDataRestoreHooks (Some sHooks) [''web''] [(''web'', ''web-drill'')]"
  from prepared_hooks_complete [of sHooks "[''web'']" "[(''web'', ''web-drill'')]"] obtain h' rules
    where p: "?p = (Some h', rules)" and q: "initsOf h' = initsOf sHooks" "execsOf h' = execsOf sHooks" "\<forall>rule \<in> set rules. \<exists>i. marked i h' rule"
    by blast
  have "(map_option length (fst ?p), length (snd ?p)) = (Some 2, 1)" by code_simp
  then have l: "length h' = 2" "length rules = 1" by (simp_all only: p fst_conv snd_conv option.map option.inject prod.inject)
  then have "hd rules \<in> set rules" by (cases rules) auto
  moreover have "initsOf sHooks = [''fetch'']" "execsOf sHooks = [''import'']" by code_simp+
  ultimately show ?thesis using q l by (simp only: p prod.case option.case)
qed

end
