(* ===== verification/SyncScheduler.thy ===== *)
theory SyncScheduler
  imports Kube
begin

text \<open>
  The cron scheduler of the sync controllers (\<open>scheduler/sync_scheduler.go\<close>), which both share.
  A job is known by the namespace and the name of its object; of the two maps of the
  scheduler, which have the same keys, one list of jobs is kept. The library that runs the
  jobs is a parameter: whether it accepts a schedule; the text that is put before its error only goes to the log. The removal of a job from the library always succeeds.
\<close>

definition jobKey :: "key \<Rightarrow> string" where
  "jobKey k = fst k @ ''/'' @ snd k"

text \<open>Nothing changes while the schedule is the same, whatever the callback.\<close>

definition AddOrUpdate :: "(string \<Rightarrow> err option) \<Rightarrow> key \<Rightarrow> string \<Rightarrow> syncCallback \<Rightarrow> (string \<times> syncJob) list \<Rightarrow>
    (string \<times> syncJob) list \<times> err option" where
  "AddOrUpdate cronError k schedule callback jobs =
     (let n = jobKey k; new = \<lparr>job_schedule = schedule, job_callback = callback\<rparr>;
          kept = (case map_of jobs n of None \<Rightarrow> jobs | Some j \<Rightarrow> if job_schedule j = schedule then jobs else AList.delete n jobs) in
      case map_of kept n of
        Some _ \<Rightarrow> (jobs, None)
      | None \<Rightarrow> (case cronError schedule of
          Some e \<Rightarrow> (kept, Some e)
        | None \<Rightarrow> (AList.update n new kept, None)))"

definition RemoveJob :: "key \<Rightarrow> (string \<times> syncJob) list \<Rightarrow> (string \<times> syncJob) list" where
  "RemoveJob k jobs = AList.delete (jobKey k) jobs"

definition HasJob :: "key \<Rightarrow> (string \<times> syncJob) list \<Rightarrow> bool" where
  "HasJob k jobs \<longleftrightarrow> map_of jobs (jobKey k) \<noteq> None"

definition JobCount :: "(string \<times> syncJob) list \<Rightarrow> int" where
  "JobCount jobs = int (length jobs)"

section \<open>In a reconcile\<close>

definition addJob :: "(string \<Rightarrow> err option) \<Rightarrow> key \<Rightarrow> string \<Rightarrow> syncCallback \<Rightarrow> err option action" where
  "addJob cronError k schedule callback = State (\<lambda>w. let x = AddOrUpdate cronError k schedule callback (w_jobs w) in (snd x, w\<lparr>w_jobs := fst x\<rparr>))"

definition removeJob :: "key \<Rightarrow> unit action" where
  "removeJob k = State (\<lambda>w. ((), w\<lparr>w_jobs := RemoveJob k (w_jobs w)\<rparr>))"

section \<open>The jobs\<close>

lemma added_job:
  assumes "cronError schedule = None"
  shows "map_option job_schedule (map_of (fst (AddOrUpdate cronError k schedule cb jobs)) (jobKey k)) = Some schedule"
    and "snd (AddOrUpdate cronError k schedule cb jobs) = None"
  using assms by (auto simp: AddOrUpdate_def Let_def update_conv' delete_conv' split: option.splits if_splits)

lemma other_jobs:
  assumes "n \<noteq> jobKey k"
  shows "map_of (fst (AddOrUpdate cronError k schedule cb jobs)) n = map_of jobs n"
    and "map_of (RemoveJob k jobs) n = map_of jobs n"
  using assms by (auto simp: AddOrUpdate_def RemoveJob_def Let_def update_conv' delete_conv' split: option.splits if_splits)

lemma removed_job: "\<not> HasJob k (RemoveJob k jobs)"
  by (simp add: HasJob_def RemoveJob_def delete_conv')

text \<open>A job of one object hides the job of an object of the same name and schedule of the other kind.\<close>

lemma same_name_hides_job:
  assumes "map_of jobs (jobKey k) = Some \<lparr>job_schedule = schedule, job_callback = TriggerDataSync\<rparr>"
  shows "AddOrUpdate cronError k schedule TriggerResourceSync jobs = (jobs, None)"
  using assms by (simp add: AddOrUpdate_def Let_def)

end
