(* ===== verification/SyncMessages.thy ===== *)
theory SyncMessages
  imports Prelude
begin

text \<open>
  The status messages of the syncs (\<open>datasync/controller.go\<close>, and the package \<open>resourcesync\<close>, which
  has most texts in common with it), byte for byte (UTF-8).
\<close>

text \<open>reading the DisasterInstance i failed: err\<close>

definition msgDsGetInstance :: "string \<Rightarrow> string \<Rightarrow> string" where
  "msgDsGetInstance a b =
     [CHR 0xE8, CHR 0x8E, CHR 0xB7, CHR 0xE5, CHR 0x8F, CHR 0x96] @ '' DisasterInstance '' @ a @
     '' '' @ [CHR 0xE5, CHR 0xA4, CHR 0xB1, CHR 0xE8, CHR 0xB4, CHR 0xA5] @ '': '' @ b"

text \<open>reading the DisasterConfig c failed: err\<close>

definition msgDsGetConfig :: "string \<Rightarrow> string \<Rightarrow> string" where
  "msgDsGetConfig a b =
     [CHR 0xE8, CHR 0x8E, CHR 0xB7, CHR 0xE5, CHR 0x8F, CHR 0x96] @ '' DisasterConfig '' @ a @ '' ''
     @ [CHR 0xE5, CHR 0xA4, CHR 0xB1, CHR 0xE8, CHR 0xB4, CHR 0xA5] @ '': '' @ b"

text \<open>checking the children of the DataSync failed: err\<close>

definition msgDsChildren :: "string \<Rightarrow> string" where
  "msgDsChildren a =
     [CHR 0xE6, CHR 0xA3, CHR 0x80, CHR 0xE6, CHR 0x9F, CHR 0xA5] @ '' DataSync '' @ [CHR 0xE5,
     CHR 0xAD, CHR 0x90, CHR 0xE4, CHR 0xBB, CHR 0xBB, CHR 0xE5, CHR 0x8A, CHR 0xA1, CHR 0xE7,
     CHR 0x8A, CHR 0xB6, CHR 0xE6, CHR 0x80, CHR 0x81, CHR 0xE5, CHR 0xA4, CHR 0xB1, CHR 0xE8,
     CHR 0xB4, CHR 0xA5] @ '': '' @ a"

text \<open>no client for the source cluster c: err\<close>

definition msgDsSourceClient :: "string \<Rightarrow> string \<Rightarrow> string" where
  "msgDsSourceClient a b =
     [CHR 0xE6, CHR 0x9E, CHR 0x84, CHR 0xE5, CHR 0xBB, CHR 0xBA, CHR 0xE6, CHR 0xBA, CHR 0x90,
     CHR 0xE9, CHR 0x9B, CHR 0x86, CHR 0xE7, CHR 0xBE, CHR 0xA4] @ '' '' @ a @ '' client '' @
     [CHR 0xE5, CHR 0xA4, CHR 0xB1, CHR 0xE8, CHR 0xB4, CHR 0xA5] @ '': '' @ b"

text \<open>finding the volume claims of the source failed: err\<close>

definition msgDsVolumes :: "string \<Rightarrow> string" where
  "msgDsVolumes a =
     [CHR 0xE5, CHR 0x8F, CHR 0x91, CHR 0xE7, CHR 0x8E, CHR 0xB0, CHR 0xE6, CHR 0xBA, CHR 0x90,
     CHR 0xE9, CHR 0x9B, CHR 0x86, CHR 0xE7, CHR 0xBE, CHR 0xA4, CHR 0xE5, CHR 0x8F, CHR 0xAF,
     CHR 0xE6, CHR 0x81, CHR 0xA2, CHR 0xE5, CHR 0xA4, CHR 0x8D] @ '' PVC '' @ [CHR 0xE5, CHR 0xA4,
     CHR 0xB1, CHR 0xE8, CHR 0xB4, CHR 0xA5] @ '': '' @ a"

text \<open>StorageRepository s not available: err\<close>

definition msgDsStorage :: "string \<Rightarrow> string \<Rightarrow> string" where
  "msgDsStorage a b =
     ''StorageRepository '' @ a @ '' '' @ [CHR 0xE4, CHR 0xB8, CHR 0x8D, CHR 0xE5, CHR 0x8F,
     CHR 0xAF, CHR 0xE7, CHR 0x94, CHR 0xA8] @ '': '' @ b"

text \<open>reading the AppBackup b failed: err\<close>

definition msgDsGetBackup :: "string \<Rightarrow> string \<Rightarrow> string" where
  "msgDsGetBackup a b =
     [CHR 0xE8, CHR 0x8E, CHR 0xB7, CHR 0xE5, CHR 0x8F, CHR 0x96] @ '' AppBackup '' @ a @ '' '' @
     [CHR 0xE5, CHR 0xA4, CHR 0xB1, CHR 0xE8, CHR 0xB4, CHR 0xA5] @ '': '' @ b"

text \<open>AppBackup b failed: m\<close>

definition msgDsBackupFailed :: "string \<Rightarrow> string \<Rightarrow> string" where
  "msgDsBackupFailed a b =
     ''AppBackup '' @ a @ '' '' @ [CHR 0xE5, CHR 0xA4, CHR 0xB1, CHR 0xE8, CHR 0xB4, CHR 0xA5] @
     '': '' @ b"

text \<open>AppBackup b failed\<close>

definition msgDsBackupFailedBare :: "string \<Rightarrow> string" where
  "msgDsBackupFailedBare a =
     ''AppBackup '' @ a @ '' '' @ [CHR 0xE5, CHR 0xA4, CHR 0xB1, CHR 0xE8, CHR 0xB4, CHR 0xA5]"

text \<open>Velero backup b failed: m\<close>

definition msgDsVeleroFailed :: "string \<Rightarrow> string \<Rightarrow> string" where
  "msgDsVeleroFailed a b =
     ''Velero Backup '' @ a @ '' '' @ [CHR 0xE5, CHR 0xA4, CHR 0xB1, CHR 0xE8, CHR 0xB4, CHR 0xA5] @
     '': '' @ b"

text \<open>no volume claim is protected, the data sync is skipped\<close>

definition msgDsNoPVC :: "string" where
  "msgDsNoPVC =
     [CHR 0xE6, CHR 0x9C, CHR 0xAC, CHR 0xE6, CHR 0xAC, CHR 0xA1, CHR 0xE4, CHR 0xBF, CHR 0x9D,
     CHR 0xE6, CHR 0x8A, CHR 0xA4, CHR 0xE8, CHR 0x8C, CHR 0x83, CHR 0xE5, CHR 0x9B, CHR 0xB4,
     CHR 0xE5, CHR 0x86, CHR 0x85, CHR 0xE6, CHR 0x9C, CHR 0xAA, CHR 0xE5, CHR 0x8F, CHR 0x91,
     CHR 0xE7, CHR 0x8E, CHR 0xB0] @ '' PVC'' @ [CHR 0xEF, CHR 0xBC, CHR 0x8C, CHR 0xE5, CHR 0xB7,
     CHR 0xB2, CHR 0xE8, CHR 0xB7, CHR 0xB3, CHR 0xE8, CHR 0xBF, CHR 0x87, CHR 0xE6, CHR 0x95,
     CHR 0xB0, CHR 0xE6, CHR 0x8D, CHR 0xAE, CHR 0xE5, CHR 0x90, CHR 0x8C, CHR 0xE6, CHR 0xAD,
     CHR 0xA5]"

text \<open>building the AppRestore failed: err\<close>

definition msgDsBuildRestore :: "string \<Rightarrow> string" where
  "msgDsBuildRestore a =
     [CHR 0xE6, CHR 0x9E, CHR 0x84, CHR 0xE5, CHR 0xBB, CHR 0xBA] @ '' DataSync AppRestore '' @
     [CHR 0xE5, CHR 0xA4, CHR 0xB1, CHR 0xE8, CHR 0xB4, CHR 0xA5] @ '': '' @ a"

text \<open>building the AppRestore of a resource sync failed: err\<close>

definition msgRsBuildRestore :: "string \<Rightarrow> string" where
  "msgRsBuildRestore a =
     [CHR 0xE6, CHR 0x9E, CHR 0x84, CHR 0xE5, CHR 0xBB, CHR 0xBA] @ '' ResourceSync AppRestore '' @
     [CHR 0xE5, CHR 0xA4, CHR 0xB1, CHR 0xE8, CHR 0xB4, CHR 0xA5] @ '': '' @ a"

text \<open>restoring the resources failed: r in phase p\<close>

definition msgRsRestoreFailed :: "string \<Rightarrow> string \<Rightarrow> string" where
  "msgRsRestoreFailed a b =
     [CHR 0xE8, CHR 0xB5, CHR 0x84, CHR 0xE6, CHR 0xBA, CHR 0x90, CHR 0xE6, CHR 0x81, CHR 0xA2,
     CHR 0xE5, CHR 0xA4, CHR 0x8D, CHR 0xE5, CHR 0xA4, CHR 0xB1, CHR 0xE8, CHR 0xB4, CHR 0xA5] @
     '': '' @ a @ '' status='' @ b"

text \<open>restoring the data failed: r in phase p\<close>

definition msgDsRestoreFailed :: "string \<Rightarrow> string \<Rightarrow> string" where
  "msgDsRestoreFailed a b =
     [CHR 0xE6, CHR 0x95, CHR 0xB0, CHR 0xE6, CHR 0x8D, CHR 0xAE, CHR 0xE6, CHR 0x81, CHR 0xA2,
     CHR 0xE5, CHR 0xA4, CHR 0x8D, CHR 0xE5, CHR 0xA4, CHR 0xB1, CHR 0xE8, CHR 0xB4, CHR 0xA5] @
     '': '' @ a @ '' status='' @ b"


end
