(* ===== verification/DataSyncCore.thy ===== *)
theory DataSyncCore
  imports SyncScheduler SyncMessages InstCore RestoreBuild Trafficless
begin

text \<open>
  What the data sync controller (\<open>datasync/controller.go\<close>, \<open>datasync/trafficless_lifecycle.go\<close>,
  \<open>backup_name.go\<close>) decides and builds without writing: names and labels, the changes of its
  status, the volumes in scope, the readiness of Velero, and the specifications of the backup
  and of the restore. A Go map is iterated in the order of its list.
\<close>

section \<open>The reconciler\<close>

text \<open>
  The runtime settings, the value of \<open>APPBACKUP_PARALLEL_FILES_UPLOAD\<close>, and library functions:
  setting and removing a condition, setting the controller reference of an object, whether the
  cron library refuses a schedule, and a time in UTC as RFC 3339.
\<close>

record syncReconciler =
  sy_base :: reconciler
  sy_setCondition :: "Condition \<Rightarrow> Condition list \<Rightarrow> Condition list"
  sy_removeCondition :: "string \<Rightarrow> Condition list \<Rightarrow> Condition list"
  sy_setController :: "ObjectMeta \<Rightarrow> ObjectMeta \<Rightarrow> err + ObjectMeta"
  sy_cronError :: "string \<Rightarrow> err option"
  sy_fmtTimeUTC :: "time \<Rightarrow> string"
  sy_historyRetention :: nat
  sy_backupObserveRequeue :: duration
  sy_backupInProgressRequeue :: duration
  sy_historyMissingRequeue :: duration
  sy_restoreObserveRequeue :: duration
  sy_podVolumeRestorePendingWait :: duration
  sy_inProgressPollInterval :: duration
  sy_inProgressMaxWait :: duration
  sy_parallelFilesUpload :: string

definition sy_now :: "syncReconciler \<Rightarrow> time" where "sy_now r = r_now (sy_base r)"

definition dataSyncFinalizer :: string where "dataSyncFinalizer = ''testudo.softcdata.com/datasync-finalizer''"

definition dataSyncReasonBackupFailed :: string where "dataSyncReasonBackupFailed = ''BackupFailed''"
definition dataSyncReasonBuildRestoreFailed :: string where "dataSyncReasonBuildRestoreFailed = ''BuildRestoreSpecFailed''"
definition dataSyncReasonRestoreFailed :: string where "dataSyncReasonRestoreFailed = ''RestoreFailed''"
definition dataSyncReasonDependencyFailed :: string where "dataSyncReasonDependencyFailed = ''DependencyFailed''"
definition dataSyncReasonStorageUnavailable :: string where "dataSyncReasonStorageUnavailable = ''StorageUnavailable''"
definition dataSyncReasonNoPVCFound :: string where "dataSyncReasonNoPVCFound = ''NoPVCFound''"
definition dataSyncConditionNoDataVolumes :: string where "dataSyncConditionNoDataVolumes = ''NoDataVolumes''"
definition dataSyncHistoryStatusSkipped :: string where "dataSyncHistoryStatusSkipped = ''Skipped''"

definition dataSyncReasonSourceVeleroRuntimeNotReady :: string where
  "dataSyncReasonSourceVeleroRuntimeNotReady = ''SourceVeleroRuntimeNotReady''"
definition dataSyncReasonTargetVeleroRuntimeNotReady :: string where
  "dataSyncReasonTargetVeleroRuntimeNotReady = ''TargetVeleroRuntimeNotReady''"
definition dataSyncReasonTrafficlessCleanupAmbiguous :: string where
  "dataSyncReasonTrafficlessCleanupAmbiguous = ''TrafficlessCleanupAmbiguous''"
definition dataSyncReasonTrafficlessCleanupTimeout :: string where
  "dataSyncReasonTrafficlessCleanupTimeout = ''TrafficlessCleanupTimeout''"
definition dataSyncReasonTrafficlessCleanupFailed :: string where
  "dataSyncReasonTrafficlessCleanupFailed = ''TrafficlessCleanupFailed''"
definition dataSyncReasonTargetPVCNotReady :: string where "dataSyncReasonTargetPVCNotReady = ''TargetPVCNotReady''"

definition syncNs :: "SyncObject \<Rightarrow> string" where "syncNs ds = m_ns (so_meta ds)"
definition syncName :: "SyncObject \<Rightarrow> string" where "syncName ds = m_name (so_meta ds)"
definition syncKey :: "SyncObject \<Rightarrow> key" where "syncKey ds = metaKey (so_meta ds)"

definition mapSyncStatus :: "(SyncStatus \<Rightarrow> SyncStatus) \<Rightarrow> SyncObject \<Rightarrow> SyncObject" where
  "mapSyncStatus f ds = ds\<lparr>so_status := f (so_status ds)\<rparr>"

text \<open>
  The recorded roles of the instance, once it has them; the clusters of the configuration
  otherwise.
\<close>

definition resolveClusters :: "DisasterInstance \<Rightarrow> DisasterConfig \<Rightarrow> string \<times> string" where
  "resolveClusters i cfg =
     (if is_primaryCluster (in_status i) \<noteq> [] then (is_primaryCluster (in_status i), is_secondaryCluster (in_status i))
      else (cfg_sourceCluster cfg, cfg_targetCluster cfg))"

section \<open>Names of backups\<close>

fun hexN :: "nat \<Rightarrow> string" where
  "hexN n = (if n < 16 then [hexDigit n] else hexN (n div 16) @ [hexDigit (n mod 16)])"

declare hexN.simps [simp del]

definition hexI :: "int \<Rightarrow> string" where
  "hexI i = (if i < 0 then ''-'' @ hexN (nat (- i)) else hexN (nat i))"

definition GenVeleroBackupName :: "reconciler \<Rightarrow> string \<Rightarrow> time \<Rightarrow> string" where
  "GenVeleroBackupName r appBackupName t =
     (let n = (if length appBackupName > 40 then take 33 appBackupName @ ''-'' @ take 6 (r_md5hex r appBackupName) else appBackupName)
      in ''bak-'' @ n @ ''-'' @ hexI (t div second))"

text \<open>The backup the current action asks for, when the action is newer than the last sync.\<close>

definition CurrentBackupActionVeleroBackupName :: "reconciler \<Rightarrow> string \<Rightarrow> AppBackup \<Rightarrow> time option \<Rightarrow> string option" where
  "CurrentBackupActionVeleroBackupName r appBackupName ab lastSync =
     (case abs_action (ab_spec ab) of
        None \<Rightarrow> None
      | Some a \<Rightarrow>
          if bac_type a \<noteq> ''Backup'' then None
          else if (case lastSync of None \<Rightarrow> False | Some l \<Rightarrow> \<not> l < bac_requestAt a) then None
          else Some (GenVeleroBackupName r appBackupName (bac_requestAt a)))"

definition FindBackupRecordByName :: "BackupRecord list \<Rightarrow> string \<Rightarrow> BackupRecord option" where
  "FindBackupRecordByName history n = find (\<lambda>rec. br_name rec = n) history"

definition BackupRecordFailed :: "BackupRecord \<Rightarrow> bool" where
  "BackupRecordFailed rec \<longleftrightarrow>
     List.member [''Failed'', ''PartiallyFailed'', ''FailedValidation'', ''TimeoutFailed''] (br_phase rec) \<or> br_managedStatus rec = ''Failed''"

definition BackupRecordFailureStatus :: "BackupRecord \<Rightarrow> string" where
  "BackupRecordFailureStatus rec =
     (if br_phase rec \<noteq> [] then br_phase rec else if br_managedStatus rec \<noteq> [] then br_managedStatus rec else ''Failed'')"

definition backupStartedForDataSyncRun :: "time option \<Rightarrow> time option \<Rightarrow> bool" where
  "backupStartedForDataSyncRun start lastSync \<longleftrightarrow>
     (case start of None \<Rightarrow> False | Some s \<Rightarrow> (case lastSync of None \<Rightarrow> False | Some l \<Rightarrow> l < s))"

definition appBackupNameOf :: "SyncObject \<Rightarrow> string" where "appBackupNameOf ds = ''ds-'' @ syncName ds"

definition dataSyncRestoreName :: "reconciler \<Rightarrow> SyncObject \<Rightarrow> string \<Rightarrow> string" where
  "dataSyncRestoreName r ds backupName = ''rec-ds-'' @ take 20 (syncName ds) @ ''-'' @ take 6 (r_md5hex r backupName)"

section \<open>Labels of the pods that receive the data\<close>

definition dataSyncTrafficlessOwnerUID :: "SyncObject \<Rightarrow> string" where
  "dataSyncTrafficlessOwnerUID ds =
     (let uid = trimSpace (m_uid (so_meta ds)) in if uid \<noteq> [] then uid else syncNs ds @ ''/'' @ syncName ds)"

definition dataSyncTrafficlessOwnerToken :: "reconciler \<Rightarrow> SyncObject \<Rightarrow> string" where
  "dataSyncTrafficlessOwnerToken r ds = BuildDependencyToken (r_sha256hex r) (dataSyncTrafficlessOwnerUID ds)"

definition dataSyncTrafficlessRunIdentifier :: "string \<Rightarrow> string" where
  "dataSyncTrafficlessRunIdentifier restoreName = NormalizeRelationCode restoreName"

definition trafficlessLabelKey :: string where "trafficlessLabelKey = ''trafficless''"
definition LabelTrafficlessLifecycle :: string where "LabelTrafficlessLifecycle = ''testudo.softcdata.com/trafficless-lifecycle''"
definition LabelTrafficlessRun :: string where "LabelTrafficlessRun = ''testudo.softcdata.com/trafficless-run''"
definition CleanupRelationDataSyncTrafficlessPod :: string where "CleanupRelationDataSyncTrafficlessPod = ''datasync.trafficlessPod''"

definition dataSyncTrafficlessLabels :: "reconciler \<Rightarrow> SyncObject \<Rightarrow> string \<Rightarrow> smap" where
  "dataSyncTrafficlessLabels r ds restoreName =
     fst (EnsureCleanupLabels (r_sha256hex r)
       [(trafficlessLabelKey, ''true''), (LabelTrafficlessRun, dataSyncTrafficlessRunIdentifier restoreName), (LabelTrafficlessLifecycle, ''datasync'')]
       \<lparr>cd_ownerUID = dataSyncTrafficlessOwnerUID ds, cd_relationCode = CleanupRelationDataSyncTrafficlessPod, cd_strategy = ''delete''\<rparr>)"

text \<open>The labels that say where a backup or a restore comes from.\<close>

definition originLabels :: "SyncObject \<Rightarrow> smap" where
  "originLabels ds =
     [(''testudo.softcdata.com/app-resource-origin'', ''disaster-instance''),
      (''testudo.softcdata.com/app-resource-owner-kind'', ''datasync''),
      (''testudo.softcdata.com/app-resource-owner-name'', syncName ds)]"

definition dataSyncTrafficlessAppRestoreLabels :: "reconciler \<Rightarrow> SyncObject \<Rightarrow> string \<Rightarrow> smap" where
  "dataSyncTrafficlessAppRestoreLabels r ds restoreName =
     putAll (originLabels ds) (filter (\<lambda>(k, v). k \<noteq> trafficlessLabelKey) (dataSyncTrafficlessLabels r ds restoreName))"

definition isDataSyncTrafficlessLifecycleRestore :: "AppRestore \<Rightarrow> bool" where
  "isDataSyncTrafficlessLifecycleRestore ar \<longleftrightarrow> trimSpace (mget (m_labels (ar_meta ar)) LabelTrafficlessLifecycle) = ''datasync''"

definition isAmbiguousTrafficlessPod :: "Pod \<Rightarrow> bool" where
  "isAmbiguousTrafficlessPod p \<longleftrightarrow>
     mget (m_labels (pod_meta p)) trafficlessLabelKey = ''true'' \<and>
     list_ex (\<lambda>k. trimSpace (mget (m_labels (pod_meta p)) k) = [])
       [LabelCleanupManagedBy, LabelCleanupOwnerToken, LabelCleanupRelation, LabelCleanupStrategy, LabelTrafficlessRun]"

section \<open>Errors of the lifecycle\<close>

definition newTrafficlessLifecycleError :: "string \<Rightarrow> string \<Rightarrow> err" where
  "newTrafficlessLifecycleError reason msg = \<lparr>err_kind = Lifecycle reason, err_text = msg\<rparr>"

text \<open>The reason and the message to record for an error.\<close>

definition trafficlessLifecycleErrorDetails :: "err \<Rightarrow> string \<Rightarrow> string \<times> string" where
  "trafficlessLifecycleErrorDetails e fallback =
     (case err_kind e of Lifecycle reason \<Rightarrow> (reason, err_text e) | _ \<Rightarrow> (fallback, err_text e))"

section \<open>The status\<close>

definition conditionError :: "syncReconciler \<Rightarrow> string \<Rightarrow> string \<Rightarrow> string \<Rightarrow> Condition list \<Rightarrow> Condition list" where
  "conditionError r ty reason msg cs =
     sy_setCondition r \<lparr>c_type = (if ty = [] then ''Error'' else ty), c_status = ConditionTrue, c_reason = reason, c_message = msg,
       c_ltt = sy_now r, c_observedGeneration = 0\<rparr> cs"

definition clearDataSyncFailureConditions :: "syncReconciler \<Rightarrow> Condition list \<Rightarrow> Condition list" where
  "clearDataSyncFailureConditions r cs =
     foldl (\<lambda>c ty. sy_removeCondition r ty c) cs [''SyncFailed'', ''BackupFailed'', ''BuildRestoreSpecFailed'', ''RestoreFailed'']"

definition keepRecent :: "syncReconciler \<Rightarrow> SyncHistoryRecord list \<Rightarrow> SyncHistoryRecord list" where
  "keepRecent r h = (if length h > sy_historyRetention r then drop (length h - sy_historyRetention r) h else h)"

definition failedStatus :: "syncReconciler \<Rightarrow> string \<Rightarrow> string \<Rightarrow> SyncStatus \<Rightarrow> SyncStatus" where
  "failedStatus r reason msg s = s\<lparr>ss_state := SyncFailed, ss_lastSyncTime := Some (sy_now r), ss_reason := reason, ss_message := msg,
     ss_conditions := conditionError r ''SyncFailed'' reason msg (sy_removeCondition r dataSyncConditionNoDataVolumes (ss_conditions s))\<rparr>"

definition startedStatus :: "syncReconciler \<Rightarrow> SyncStatus \<Rightarrow> SyncStatus" where
  "startedStatus r s = s\<lparr>ss_state := SyncInProgress, ss_lastBackupName := [], ss_lastRestoreName := [], ss_reason := [], ss_message := [],
     ss_conditions := sy_removeCondition r dataSyncConditionNoDataVolumes (clearDataSyncFailureConditions r (ss_conditions s))\<rparr>"

definition skippedRecord :: "syncReconciler \<Rightarrow> SyncHistoryRecord" where
  "skippedRecord r = \<lparr>shr_startTime = Some (sy_now r), shr_completionTime = Some (sy_now r), shr_duration = ''0s'', shr_backupName = [],
     shr_restoreName = [], shr_backupResourceCount = 0, shr_restoreResourceCount = 0, shr_backupHookStatus = None,
     shr_restoreHookStatus = None, shr_status = dataSyncHistoryStatusSkipped\<rparr>"

definition skippedStatus :: "syncReconciler \<Rightarrow> SyncStatus \<Rightarrow> SyncStatus" where
  "skippedStatus r s = s\<lparr>ss_state := SyncReady, ss_lastSyncTime := Some (sy_now r), ss_reason := [], ss_message := [],
     ss_conditions := sy_setCondition r \<lparr>c_type = dataSyncConditionNoDataVolumes, c_status = ConditionTrue, c_reason = dataSyncReasonNoPVCFound,
         c_message = msgDsNoPVC, c_ltt = sy_now r, c_observedGeneration = 0\<rparr> (clearDataSyncFailureConditions r (ss_conditions s)),
     ss_history := keepRecent r (ss_history s @ [skippedRecord r])\<rparr>"

text \<open>What the history of the backup says of one backup: its start, its items and its hooks.\<close>

definition backupFigures :: "AppBackup option \<Rightarrow> string \<Rightarrow> time option \<times> int \<times> HookStatus option" where
  "backupFigures ab backupName =
     (case Option.bind ab (\<lambda>b. FindBackupRecordByName (abt_history (ab_status b)) backupName) of
        None \<Rightarrow> (None, 0, None)
      | Some rec \<Rightarrow> (br_start rec, (case br_itemsBackedUp rec of None \<Rightarrow> 0 | Some n \<Rightarrow> n), br_hookStatus rec))"

definition historyRecord :: "syncReconciler \<Rightarrow> time option \<times> int \<times> HookStatus option \<Rightarrow> string \<Rightarrow> string \<Rightarrow> int \<Rightarrow> HookStatus option \<Rightarrow>
    string \<Rightarrow> SyncHistoryRecord" where
  "historyRecord r f backupName restoreName restoreItems restoreHooks st =
     \<lparr>shr_startTime = fst f, shr_completionTime = Some (sy_now r),
      shr_duration = (case fst f of None \<Rightarrow> [] | Some t \<Rightarrow> durString (since (sy_now r) t)),
      shr_backupName = backupName, shr_restoreName = restoreName, shr_backupResourceCount = fst (snd f),
      shr_restoreResourceCount = restoreItems, shr_backupHookStatus = snd (snd f), shr_restoreHookStatus = restoreHooks, shr_status = st\<rparr>"

definition buildFailedStatus :: "syncReconciler \<Rightarrow> AppBackup option \<Rightarrow> string \<Rightarrow> string \<Rightarrow> string \<Rightarrow> SyncStatus \<Rightarrow> SyncStatus" where
  "buildFailedStatus r ab backupName restoreName msg s = s\<lparr>ss_state := SyncFailed, ss_lastSyncTime := Some (sy_now r),
     ss_reason := dataSyncReasonBuildRestoreFailed, ss_message := msg,
     ss_conditions := conditionError r ''BuildRestoreSpecFailed'' dataSyncReasonBuildRestoreFailed msg (ss_conditions s),
     ss_history := keepRecent r (ss_history s @ [historyRecord r (backupFigures ab backupName) backupName restoreName 0 None (phaseString PhaseFailed)])\<rparr>"

definition veleroFailedStatus :: "syncReconciler \<Rightarrow> string \<Rightarrow> SyncStatus \<Rightarrow> SyncStatus" where
  "veleroFailedStatus r msg s = s\<lparr>ss_state := SyncFailed, ss_lastSyncTime := Some (sy_now r), ss_reason := dataSyncReasonBackupFailed, ss_message := msg,
     ss_conditions := conditionError r ''BackupFailed'' dataSyncReasonBackupFailed msg (ss_conditions s)\<rparr>"

text \<open>The end of a run whose restore succeeded or failed; the history only when the backup can be read.\<close>

definition restoreFailedMessage :: "AppRestore \<Rightarrow> string \<Rightarrow> string" where
  "restoreFailedMessage ar restoreName =
     msgDsRestoreFailed restoreName (phaseString (ar_phase ar)) @ (if ar_message ar = [] then [] else '': '' @ ar_message ar)"

definition restoredState :: "syncReconciler \<Rightarrow> AppRestore \<Rightarrow> string \<Rightarrow> SyncStatus \<Rightarrow> SyncStatus" where
  "restoredState r ar restoreName s =
     (let reason = (if ar_reason ar = [] then dataSyncReasonRestoreFailed else ar_reason ar); msg = restoreFailedMessage ar restoreName in
      if IsFailedAppRestorePhase (ar_phase ar)
      then s\<lparr>ss_state := SyncFailed, ss_lastSyncTime := Some (sy_now r), ss_reason := reason, ss_message := msg,
             ss_conditions := conditionError r ''RestoreFailed'' reason msg (ss_conditions s)\<rparr>
      else s\<lparr>ss_state := SyncReady, ss_lastSyncTime := Some (sy_now r), ss_reason := [], ss_message := []\<rparr>)"

definition restoredHistory :: "syncReconciler \<Rightarrow> AppBackup option \<Rightarrow> string \<Rightarrow> string \<Rightarrow> AppRestore \<Rightarrow> SyncStatus \<Rightarrow> SyncStatus" where
  "restoredHistory r ab backupName restoreName ar s =
     (case ab of None \<Rightarrow> s
      | Some b \<Rightarrow> s\<lparr>ss_history := keepRecent r (ss_history s @ [historyRecord r (backupFigures ab backupName) backupName restoreName
          (case ar_itemsRestored ar of None \<Rightarrow> 0 | Some n \<Rightarrow> n) (ar_hookStatus ar) (phaseString (ar_phase ar))])\<rparr>)"

section \<open>When a sync runs\<close>

definition shouldSync :: "syncReconciler \<Rightarrow> SyncObject \<Rightarrow> bool" where
  "shouldSync r ds =
     (let manual = tr_manual (ss_trigger (so_spec ds)); s = so_status ds;
          triggered = (manual \<noteq> [] \<and>
            (case r_parseTime (sy_base r) manual of None \<Rightarrow> False
             | Some t \<Rightarrow> (case ss_lastSyncTime s of None \<Rightarrow> True | Some l \<Rightarrow> l < t)))
      in if triggered then True
         else if ss_state s = SyncInProgress then True
         else if ss_paused (so_spec ds) then False
         else ss_lastSyncTime s = None)"

definition shouldInjectInitialPVCVolumeNameCleanup :: "SyncObject \<Rightarrow> DisasterInstance \<Rightarrow> bool" where
  "shouldInjectInitialPVCVolumeNameCleanup ds i \<longleftrightarrow>
     (if ss_lastSyncTime (so_status ds) \<noteq> None then False else fsm i = FsmInitializing)"

text \<open>The number of syncs in the history, of those that succeeded, of the others, and of the running one.\<close>

definition countsAsCompleted :: "SyncHistoryRecord \<Rightarrow> bool" where
  "countsAsCompleted h \<longleftrightarrow> List.member [phaseString PhaseSucceeded, ''Completed'', dataSyncHistoryStatusSkipped] (shr_status h)"

section \<open>The backup\<close>

definition resolveDataSyncBackupUploaderConfig :: "string \<Rightarrow> int option" where
  "resolveDataSyncBackupUploaderConfig env =
     (let raw = trimSpace env in
      if raw = [] then None else case atoi raw of None \<Rightarrow> None | Some v \<Rightarrow> if v \<le> 0 then None else Some v)"

definition ResolveAppBackupTimeout :: "DisasterInstance \<Rightarrow> duration option" where
  "ResolveAppBackupTimeout i =
     (if di_operationTimeoutMinutes (in_spec i) \<le> 0 then None else Some (minutes (di_operationTimeoutMinutes (in_spec i))))"

definition dataBackupHooks :: "DisasterInstance \<Rightarrow> string option" where
  "dataBackupHooks i = Option.bind (di_veleroHooks (in_spec i)) vh_dataBackup"

definition dataRestoreHooks :: "DisasterInstance \<Rightarrow> RestoreHooks option" where
  "dataRestoreHooks i = Option.bind (di_veleroHooks (in_spec i)) vh_dataRestore"

definition buildAppBackupSpec :: "syncReconciler \<Rightarrow> DisasterInstance \<Rightarrow> DisasterConfig \<Rightarrow> AppBackupSpec" where
  "buildAppBackupSpec r i cfg =
     \<lparr>abs_cluster = fst (resolveClusters i cfg),
      abs_template = \<lparr>bt_includedNamespaces = di_namespaces (in_spec i), bt_excludedNamespaces = [''velero'', ''kube-system''],
        bt_includedResources = volumeResources, bt_excludedResources = [], bt_labelSelector = di_labelSelector (in_spec i),
        bt_storageLocation = cfg_storageRepository cfg, bt_snapshotVolumes = Some False, bt_defaultVolumesToFsBackup = Some True,
        bt_parallelFilesUpload = resolveDataSyncBackupUploaderConfig (sy_parallelFilesUpload r), bt_hooks = dataBackupHooks i,
        bt_includeClusterResources = None, bt_includedNamespaceScopedResources = [], bt_excludedNamespaceScopedResources = [],
        bt_includedClusterScopedResources = [], bt_excludedClusterScopedResources = []\<rparr>,
      abs_action = None, abs_timeout = ResolveAppBackupTimeout i\<rparr>"

definition AppBackupSpecNeedsUpdate :: "AppBackupSpec \<Rightarrow> AppBackupSpec \<Rightarrow> bool" where
  "AppBackupSpecNeedsUpdate current desired =
     (if abs_cluster current \<noteq> abs_cluster desired then True
      else if abs_template current \<noteq> abs_template desired then True
      else abs_timeout current \<noteq> abs_timeout desired)"

definition currentAction :: "syncReconciler \<Rightarrow> BackupAction" where
  "currentAction r = \<lparr>bac_type = ''Backup'', bac_requestAt = sy_now r\<rparr>"

section \<open>The restore\<close>

definition resolveTrafficlessImage :: "SyncObject \<Rightarrow> string" where
  "resolveTrafficlessImage ds =
     (case ss_trafficless (so_spec ds) of None \<Rightarrow> ''busybox:1.36'' | Some c \<Rightarrow> if tc_image c \<noteq> [] then tc_image c else ''busybox:1.36'')"

definition resolveTrafficlessCommand :: "SyncObject \<Rightarrow> string list" where
  "resolveTrafficlessCommand ds =
     (case ss_trafficless (so_spec ds) of None \<Rightarrow> [''sleep'', ''3600''] | Some c \<Rightarrow> if tc_command c \<noteq> [] then tc_command c else [''sleep'', ''3600''])"

text \<open>A Go map is marshalled in the order of its keys.\<close>

definition labelsJson :: "smap \<Rightarrow> string" where
  "labelsJson m = jsonText (JObject (map (\<lambda>(k, v). (k, JString v)) (sort_key fst m)))"

definition makeDataSyncTrafficlessModifiers :: "reconciler \<Rightarrow> SyncObject \<Rightarrow> TrafficlessRuntime \<Rightarrow> string \<Rightarrow> ResourceModifierRule list" where
  "makeDataSyncTrafficlessModifiers r ds rt restoreName =
     (let im = (if tlr_image rt = [] then resolveTrafficlessImage ds else tlr_image rt);
          command = (if tlr_command rt = [] then resolveTrafficlessCommand ds else tlr_command rt)
      in [\<lparr>mr_conditions = forResource ''pods'' [],
           mr_patches =
             [patchOf ''add'' ''/metadata/labels'' (labelsJson (dataSyncTrafficlessLabels r ds restoreName)),
              patchOf ''add'' ''/metadata/ownerReferences'' ''[]'',
              patchOf ''add'' ''/spec/nodeName'' [],
              patchOf ''add'' ''/spec/nodeSelector'' ''{}'',
              patchOf ''add'' ''/spec/affinity'' ''{}'',
              patchOf ''replace'' ''/spec/containers/0/image'' im,
              patchOf ''add'' ''/spec/containers/0/command'' (jsonText (JArray (map JString command))),
              patchOf ''add'' ''/spec/containers/0/args'' ''[]''] @
             (case TrafficlessImagePullSecretsPatch (tlr_pullSecretName rt) of None \<Rightarrow> [] | Some p \<Rightarrow> [p])\<rparr>])"

text \<open>
  The rules of the data: the pods, and, when there is no policy to protect them, the markers
  of the hooks and the unbinding of the first restore.
\<close>

definition dataSyncRestoreSpec :: "reconciler \<Rightarrow> SyncObject \<Rightarrow> DisasterConfig \<Rightarrow> DisasterInstance \<Rightarrow> string \<Rightarrow> TrafficlessRuntime \<Rightarrow>
    RestoreHooks option \<times> ResourceModifierRule list \<Rightarrow> AppRestoreSpec" where
  "dataSyncRestoreSpec r ds cfg i backupName rt hooks =
     (let cleanup = shouldInjectInitialPVCVolumeNameCleanup ds i; bare = (di_restorePolicy (in_spec i) = None);
          rules = makeDataSyncTrafficlessModifiers r ds rt (dataSyncRestoreName r ds backupName) @ (if bare then snd hooks else []) @
            (if cleanup \<and> bare then [MakePVCVolumeNameCleanupRule (di_namespaces (in_spec i))] else [])
      in (BuildAppRestoreSpec \<lparr>bc_restoreType = RestoreTypeData, bc_backupSource = appBackupNameOf ds, bc_backupName = backupName,
            bc_targetCluster = snd (resolveClusters i cfg), bc_sourceCluster = fst (resolveClusters i cfg),
            bc_storageRepository = cfg_storageRepository cfg, bc_includedNamespaces = di_namespaces (in_spec i), bc_namespaceMapping = [],
            bc_isForDrill = False, bc_extraResourceModifierRules = [], bc_dataResourceModifierRules = rules, bc_dataRestoreHooks = fst hooks\<rparr>)
          \<lparr>ars_timeout := ResolveAppBackupTimeout i\<rparr>)"

definition dataSyncApplyOptions :: "SyncObject \<Rightarrow> DisasterConfig \<Rightarrow> DisasterInstance \<Rightarrow> ResourceModifierRule list \<Rightarrow> ApplyInstanceRestorePolicyOptions" where
  "dataSyncApplyOptions ds cfg i markers =
     (let protect = (if di_restorePolicy (in_spec i) = None then []
                     else (if shouldInjectInitialPVCVolumeNameCleanup ds i then [MakePVCVolumeNameCleanupRule (di_namespaces (in_spec i))] else []) @ markers);
          ao = (WithBaselineClusters (cfg_sourceCluster cfg) (cfg_targetCluster cfg) defaultApplyInstanceRestorePolicyOptions)\<lparr>ao_applyTarget := ''dataSync''\<rparr>
      in if protect = [] then ao else ao\<lparr>ao_systemProtectRules := protect\<rparr>)"

definition buildDataAppRestoreSpec :: "syncReconciler \<Rightarrow> SyncObject \<Rightarrow> DisasterConfig \<Rightarrow> DisasterInstance \<Rightarrow> string \<Rightarrow>
    (AppRestoreSpec \<times> PolicySummary) result" where
  "buildDataAppRestoreSpec r ds cfg i backupName =
     (let target = snd (resolveClusters i cfg);
          hooks = PrepareTrafficlessDataRestoreHooks (dataRestoreHooks i) (di_namespaces (in_spec i)) [];
          strict = RequiresTargetClassValidationWithOverride i None in
      chk (ResolveTrafficlessRuntime target (ss_trafficless (so_spec ds))) (\<lambda>(rt, cl).
      let secret = (tlr_pullSecretName rt \<noteq> []) in
      chk (if \<not> secret then ok ()
           else chkWrap ''build target cluster client for trafficless registry secret: '' (GetKubeClientSet target) (\<lambda>_.
                chkWrap ''sync trafficless registry pull secret: ''
                  (SyncTrafficlessRegistryPullSecret (r_managementNamespace (sy_base r)) target cl (di_namespaces (in_spec i))) (\<lambda>_. ok ()))) (\<lambda>_.
      chkWrap ''build target cluster client for restore policy: '' (if strict \<and> \<not> secret then GetKubeClientSet target else ok ()) (\<lambda>_.
      ApplyInstanceRestorePolicy (r_matchers (sy_base r)) (dataSyncRestoreSpec (sy_base r) ds cfg i backupName rt hooks) i
        (if strict \<or> secret then Some target else None) (dataSyncApplyOptions ds cfg i (snd hooks))))))"

definition dataSyncAppRestore :: "syncReconciler \<Rightarrow> SyncObject \<Rightarrow> string \<Rightarrow> AppRestoreSpec \<Rightarrow> PolicySummary \<Rightarrow> err + AppRestore" where
  "dataSyncAppRestore r ds restoreName spec s =
     andThen (sy_setController r (so_meta ds)
       (ApplyPolicySummaryAnnotations s ((newMeta (syncNs ds) restoreName)\<lparr>m_labels := dataSyncTrafficlessAppRestoreLabels (sy_base r) ds restoreName\<rparr>)))
       (\<lambda>m. Inr \<lparr>ar_meta = m, ar_spec = spec, ar_phase = PhaseNone, ar_reason = [], ar_message = [], ar_itemsRestored = None, ar_hookStatus = None\<rparr>)"

end
