(* ===== verification/DataSync.thy ===== *)
theory DataSync
  imports DataSyncCore
begin

text \<open>
  The data sync controller at work (\<open>datasync/controller.go\<close>, \<open>datasync/trafficless_lifecycle.go\<close>).
  A run backs up the volumes of the serving cluster through an \<open>AppBackup\<close>, restores the backup
  into the other cluster through an \<open>AppRestore\<close>, waits until the volumes are there, and removes
  the pods that received the data. One reconcile takes one step of the run, and a failure ends
  the run.
\<close>

section \<open>Ending a run\<close>

definition dataSyncStatsLabels :: "SyncObject \<Rightarrow> smap" where
  "dataSyncStatsLabels ds = [(''testudo.softcdata.com/owner-kind'', ''DataSync''), (''disaster.io/scope-uid'', m_uid (so_meta ds))]"

text \<open>
  The statistics object of a data sync. Its specification says no more than its name and its
  labels and is left out, as is the time of the update.
\<close>

definition dsSyncStatistics :: "SyncObject \<Rightarrow> unit result" where
  "dsSyncStatistics ds =
     (let h = ss_history (so_status ds); meta = newMeta (syncNs ds) (''ds-'' @ syncName ds @ ''-stats'') in
      chk (createOrUpdate statsKind
             \<lparr>sts_meta = meta, sts_total = 0, sts_completed = 0, sts_failed = 0, sts_inProgress = 0, sts_updateReason = []\<rparr>
             (\<lambda>s. Inr (s\<lparr>sts_meta := (sts_meta s)\<lparr>m_labels := dataSyncStatsLabels ds\<rparr>\<rparr>))) (\<lambda>s.
      chk (apiStatusUpdate statsKind (s\<lparr>sts_total := int (length h), sts_completed := int (length (filter countsAsCompleted h)),
             sts_failed := int (length (filter (\<lambda>x. \<not> countsAsCompleted x) h)),
             sts_inProgress := (if ss_state (so_status ds) = SyncInProgress then 1 else 0)\<rparr>)) (\<lambda>_. ok ())))"

text \<open>The status is written; the statistics and the task events follow, whatever becomes of them.\<close>

definition endRun :: "(SyncStatus \<Rightarrow> SyncStatus) \<Rightarrow> SyncObject \<Rightarrow> Result result" where
  "endRun f ds = chk (apiStatusUpdate dsKind (mapSyncStatus f ds)) (\<lambda>ds'. do {
     _ \<leftarrow> dsSyncStatistics ds';
     emit (syncName ds) ''ExecutionFinished'';
     ok done_result })"

definition failDataSync :: "syncReconciler \<Rightarrow> string \<Rightarrow> string \<Rightarrow> SyncObject \<Rightarrow> Result result" where
  "failDataSync r reason msg ds = endRun (failedStatus r reason msg) ds"

definition completeDataSyncNoPVC :: "syncReconciler \<Rightarrow> SyncObject \<Rightarrow> Result result" where
  "completeDataSyncNoPVC r ds = chk (apiStatusUpdate dsKind (mapSyncStatus (skippedStatus r) ds)) (\<lambda>ds'. do {
     _ \<leftarrow> dsSyncStatistics ds';
     emit (syncName ds) ''SyncSkipped'';
     emit (syncName ds) ''ExecutionFinished'';
     ok done_result })"

text \<open>An error ends the run, with the reason of the step or with the reason it carries.\<close>

definition orFailSync :: "syncReconciler \<Rightarrow> string \<Rightarrow> (string \<Rightarrow> string) \<Rightarrow> SyncObject \<Rightarrow> 'a result \<Rightarrow> ('a \<Rightarrow> Result result) \<Rightarrow> Result result" where
  "orFailSync r reason msg ds m k = do { x \<leftarrow> m; (case x of Inl e \<Rightarrow> failDataSync r reason (msg (err_text e)) ds | Inr y \<Rightarrow> k y) }"

definition orFailLifecycle :: "syncReconciler \<Rightarrow> string \<Rightarrow> SyncObject \<Rightarrow> 'a result \<Rightarrow> ('a \<Rightarrow> Result result) \<Rightarrow> Result result" where
  "orFailLifecycle r fallback ds m k = do {
     x \<leftarrow> m;
     (case x of Inl e \<Rightarrow> (let (reason, msg) = trafficlessLifecycleErrorDetails e fallback in failDataSync r reason msg ds)
      | Inr y \<Rightarrow> k y) }"

section \<open>What a run needs\<close>

definition ensureStorageRepositoryReady :: "syncReconciler \<Rightarrow> string \<Rightarrow> string \<Rightarrow> unit result" where
  "ensureStorageRepositoryReady r ns name =
     (let mns = ManagementNamespace (r_managementNamespace (sy_base r)) in
      if name = [] then ok ()
      else chk (do {
             g \<leftarrow> apiGet storageKind (mns, name);
             (case g of
                Inl e \<Rightarrow> if err_kind e = NotFound \<and> ns \<noteq> [] \<and> ns \<noteq> mns then apiGet storageKind (ns, name) else fail e
              | Inr sr \<Rightarrow> ok sr) }) (\<lambda>sr.
           let t = ''StorageRepository '' @ name @ '' status is '' @ sr_status sr in
           if sr_status sr = ''Available'' then ok ()
           else fail (errorf (if sr_message sr \<noteq> [] then t @ '': '' @ sr_message sr else t))))"

definition shouldRunNoPVCPreflight :: "syncReconciler \<Rightarrow> SyncObject \<Rightarrow> bool result" where
  "shouldRunNoPVCPreflight r ds =
     (let s = so_status ds in
      if ss_state s \<noteq> SyncInProgress then ok True
      else if ss_lastBackupName s \<noteq> [] \<or> ss_lastRestoreName s \<noteq> [] then ok False
      else do {
        g \<leftarrow> apiGet appBackupKind (syncNs ds, appBackupNameOf ds);
        (case g of
           Inl e \<Rightarrow> if err_kind e = NotFound then ok True else fail e
         | Inr ab \<Rightarrow> ok (CurrentBackupActionVeleroBackupName (sy_base r) (appBackupNameOf ds) ab (ss_lastSyncTime s) = None)) })"

definition ValidateTrafficlessVeleroRuntime :: "string \<Rightarrow> unit result" where
  "ValidateTrafficlessVeleroRuntime c = do {
     d \<leftarrow> apiGet (deployKind c) (''velero'', ''velero'');
     (case d of
        Inl e \<Rightarrow> if err_kind e = NotFound then fail (errorf ''deployment velero/velero is not found'')
                 else fail (wrapf ''get deployment velero/velero: '' e)
      | Inr d \<Rightarrow>
          if wl_ready d < 1 \<or> wl_available d < 1
          then fail (errorf (''deployment '' @ m_ns (wl_meta d) @ ''/'' @ m_name (wl_meta d) @ '' ready='' @ dec (wl_ready d) @
                 '' available='' @ dec (wl_available d) @ '' unavailable='' @ dec (wl_unavailable d)))
          else do {
            a \<leftarrow> apiGet (daemonSetKind c) (''velero'', ''node-agent'');
            (case a of
               Inl e \<Rightarrow> if err_kind e = NotFound then fail (errorf ''daemonset velero/node-agent is not found'')
                        else fail (wrapf ''get daemonset velero/node-agent: '' e)
             | Inr a \<Rightarrow>
                 if dmn_desired a < 1 \<or> dmn_ready a < dmn_desired a
                 then fail (errorf (''daemonset '' @ m_ns (dmn_meta a) @ ''/'' @ m_name (dmn_meta a) @ '' ready='' @ dec (dmn_ready a) @
                        '' desired='' @ dec (dmn_desired a)))
                 else ok ()) }) }"

text \<open>A cluster that is not registered counts as ready; \<open>haveClient\<close> says that its client is already there.\<close>

definition ensureDataSyncTrafficlessRuntime :: "string \<Rightarrow> string \<Rightarrow> bool \<Rightarrow> unit result" where
  "ensureDataSyncTrafficlessRuntime c role haveClient =
     (let reason = (if role = ''source'' then dataSyncReasonSourceVeleroRuntimeNotReady else dataSyncReasonTargetVeleroRuntimeNotReady) in do {
        g \<leftarrow> apiGet clusterKind ([], c);
        (case g of
           Inl e \<Rightarrow> if err_kind e = NotFound then ok ()
                    else fail (newTrafficlessLifecycleError reason (''get '' @ role @ '' Cluster '' @ c @ '': '' @ err_text e))
         | Inr cl \<Rightarrow>
             if cl_status cl \<noteq> ''Ready''
             then fail (newTrafficlessLifecycleError reason (role @ '' Cluster '' @ c @ '' is '' @ cl_status cl @
                    (if cl_message cl \<noteq> [] then '': '' @ cl_message cl else [])))
             else do {
               x \<leftarrow> (if haveClient then ok () else GetKubeClientSet c);
               (case x of
                  Inl e \<Rightarrow> fail (newTrafficlessLifecycleError reason (''build '' @ role @ '' cluster client '' @ c @ '': '' @ err_text e))
                | Inr _ \<Rightarrow> do {
                    v \<leftarrow> ValidateTrafficlessVeleroRuntime c;
                    (case v of
                       Inl e \<Rightarrow> fail (newTrafficlessLifecycleError reason (role @ '' cluster '' @ c @ '' Velero runtime is not ready: '' @ err_text e))
                     | Inr _ \<Rightarrow> ok ()) }) }) })"

section \<open>The volumes in scope\<close>

definition addVolume :: "key list \<Rightarrow> key \<Rightarrow> key list" where
  "addVolume vs k = (if List.member vs k then vs else vs @ [k])"

definition liveClaims :: "Pvc list \<Rightarrow> Pvc list" where
  "liveClaims ps = filter (\<lambda>p. m_deletion (pvc_meta p) = None) ps"

text \<open>The existing claims that a pod mounts.\<close>

definition claimsOfPod :: "Pvc list \<Rightarrow> Pod \<Rightarrow> key list" where
  "claimsOfPod pvcs p =
     (if m_deletion (pod_meta p) \<noteq> None then []
      else map (\<lambda>c. (m_ns (pod_meta p), c))
             (filter (\<lambda>c. c \<noteq> [] \<and> list_ex (\<lambda>v. m_name (pvc_meta v) = c) pvcs) (pod_claims p)))"

definition discoverNamespace :: "string \<Rightarrow> DisasterInstance \<Rightarrow> (smap \<Rightarrow> bool) option \<Rightarrow> string \<Rightarrow> key list \<Rightarrow> key list result" where
  "discoverNamespace c i sel ns0 vs =
     (let ns = trimSpace ns0 in
      if ns = [] then fail (errorf (''instance '' @ instNs i @ ''/'' @ instName i @ '' contains empty namespace''))
      else chkWrap (''list pvc in namespace '' @ ns @ '': '') (apiList (pvcKind c) ns) (\<lambda>all.
        let pvcs = liveClaims all in
        case sel of
          None \<Rightarrow> ok (foldl addVolume vs (map (\<lambda>p. metaKey (pvc_meta p)) pvcs))
        | Some P \<Rightarrow>
            let vs1 = foldl addVolume vs (map (\<lambda>p. metaKey (pvc_meta p)) (filter (\<lambda>p. P (m_labels (pvc_meta p))) pvcs)) in
            chkWrap (''list pods in namespace '' @ ns @ '': '')
              (apiListRaw (\<lambda>w. w_pods w c) (\<lambda>p. inNamespace (podKind c) ns p \<and> P (m_labels (pod_meta p)))) (\<lambda>pods.
              ok (foldl addVolume vs1 (concat (map (claimsOfPod pvcs) pods))))))"

definition discoverDataSyncVolumePlan :: "syncReconciler \<Rightarrow> string \<Rightarrow> DisasterInstance \<Rightarrow> key list result" where
  "discoverDataSyncVolumePlan r c i =
     (if di_namespaces (in_spec i) = []
      then fail (errorf (''instance '' @ instNs i @ ''/'' @ instName i @ '' has no namespaces configured''))
      else case di_labelSelector (in_spec i) of
        None \<Rightarrow> forEach (discoverNamespace c i None) (di_namespaces (in_spec i)) []
      | Some sel \<Rightarrow> (case mt_matches (r_matchers (sy_base r)) sel of
          Inl e \<Rightarrow> fail (wrapf ''invalid instance labelSelector: '' e)
        | Inr P \<Rightarrow> forEach (discoverNamespace c i (Some P)) (di_namespaces (in_spec i)) []))"

section \<open>Starting a run\<close>

text \<open>Without volumes the sync is done; with volumes Velero must run in both clusters.\<close>

definition preflight :: "syncReconciler \<Rightarrow> SyncObject \<Rightarrow> DisasterInstance \<Rightarrow> DisasterConfig \<Rightarrow> Result result \<Rightarrow> Result result" where
  "preflight r ds i cfg k =
     (let source = fst (resolveClusters i cfg); target = snd (resolveClusters i cfg) in
      orFailSync r dataSyncReasonDependencyFailed (msgDsSourceClient source) ds (GetKubeClientSet source) (\<lambda>_.
      orFailSync r dataSyncReasonDependencyFailed msgDsVolumes ds (discoverDataSyncVolumePlan r source i) (\<lambda>pvcs.
      if pvcs = [] then completeDataSyncNoPVC r ds
      else orFailLifecycle r dataSyncReasonSourceVeleroRuntimeNotReady ds (ensureDataSyncTrafficlessRuntime source ''source'' True) (\<lambda>_.
           orFailLifecycle r dataSyncReasonTargetVeleroRuntimeNotReady ds (ensureDataSyncTrafficlessRuntime target ''target'' False) (\<lambda>_. k)))))"

definition startRun :: "syncReconciler \<Rightarrow> SyncObject \<Rightarrow> Result result" where
  "startRun r ds = chk (apiStatusUpdate dsKind (mapSyncStatus (startedStatus r) ds)) (\<lambda>ds'. do {
     _ \<leftarrow> dsSyncStatistics ds';
     emit (syncName ds) ''ExecutionStarted'';
     ok requeue_result })"

section \<open>The backup\<close>

definition newAppBackup :: "syncReconciler \<Rightarrow> SyncObject \<Rightarrow> AppBackupSpec \<Rightarrow> err + AppBackup" where
  "newAppBackup r ds spec =
     (let trace = mget (m_ann (so_meta ds)) annTraceID in
      andThen (sy_setController r (so_meta ds) ((newMeta (syncNs ds) (appBackupNameOf ds))
          \<lparr>m_labels := originLabels ds, m_ann := (if trace \<noteq> [] then [(annTraceID, trace)] else [])\<rparr>)) (\<lambda>m.
        Inr \<lparr>ab_meta = m, ab_spec = spec\<lparr>abs_action := Some (currentAction r)\<rparr>,
             ab_status = \<lparr>abt_status = [], abt_message = [], abt_history = []\<rparr>\<rparr>))"

definition createBackup :: "syncReconciler \<Rightarrow> SyncObject \<Rightarrow> AppBackupSpec \<Rightarrow> Result result" where
  "createBackup r ds spec =
     chk (lift (newAppBackup r ds spec)) (\<lambda>ab.
     chk (apiCreate appBackupKind ab) (\<lambda>_. do {
       emit (syncName ds) ''ExecutionProgress'';
       ok requeue_result }))"

definition recordBackup :: "SyncObject \<Rightarrow> BackupRecord \<Rightarrow> Result result" where
  "recordBackup ds rec = chk (apiStatusUpdate dsKind (mapSyncStatus (\<lambda>s. s\<lparr>ss_lastBackupName := br_name rec\<rparr>) ds)) (\<lambda>_. ok requeue_result)"

definition backupFailedMessage :: "SyncObject \<Rightarrow> AppBackup \<Rightarrow> string" where
  "backupFailedMessage ds ab =
     (if abt_message (ab_status ab) = [] then msgDsBackupFailedBare (appBackupNameOf ds)
      else msgDsBackupFailed (appBackupNameOf ds) (abt_message (ab_status ab)))"

definition backupFailed :: "syncReconciler \<Rightarrow> SyncObject \<Rightarrow> AppBackup \<Rightarrow> Result result" where
  "backupFailed r ds ab =
     (let msg = backupFailedMessage ds ab in
      failDataSync r dataSyncReasonBackupFailed msg
        (mapSyncStatus (\<lambda>s. s\<lparr>ss_conditions := conditionError r ''BackupFailed'' dataSyncReasonBackupFailed msg (ss_conditions s)\<rparr>) ds))"

definition requestBackup :: "syncReconciler \<Rightarrow> SyncObject \<Rightarrow> AppBackup \<Rightarrow> Result result" where
  "requestBackup r ds ab =
     chk (apiUpdate appBackupKind (ab\<lparr>ab_spec := (ab_spec ab)\<lparr>abs_action := Some (currentAction r)\<rparr>\<rparr>)) (\<lambda>_. do {
       emit (syncName ds) ''ExecutionProgress'';
       ok requeue_result })"

text \<open>The backup of this run is not known yet.\<close>

definition findBackup :: "syncReconciler \<Rightarrow> SyncObject \<Rightarrow> AppBackup \<Rightarrow> Result result" where
  "findBackup r ds ab =
     (let h = abt_history (ab_status ab); last = ss_lastSyncTime (so_status ds) in
      case CurrentBackupActionVeleroBackupName (sy_base r) (appBackupNameOf ds) ab last of
        Some n \<Rightarrow> (case FindBackupRecordByName h n of
            Some rec \<Rightarrow> recordBackup ds rec
          | None \<Rightarrow> if abt_status (ab_status ab) = ''Failed'' then backupFailed r ds ab
                    else ok (after_result (sy_backupObserveRequeue r)))
      | None \<Rightarrow> (case find (\<lambda>rec. backupStartedForDataSyncRun (br_start rec) last) h of
            Some rec \<Rightarrow> recordBackup ds rec
          | None \<Rightarrow> if abt_status (ab_status ab) = ''Failed'' then backupFailed r ds ab
                    else requestBackup r ds ab))"

section \<open>Removing the pods that received the data\<close>

datatype cleanupScope = CleanupBefore | CleanupAfter

fun cleanupAnnotation :: "cleanupScope \<Rightarrow> string" where
  "cleanupAnnotation CleanupAfter = ''testudo.softcdata.com/datasync-trafficless-cleanup-after-started-at''"
| "cleanupAnnotation CleanupBefore = ''testudo.softcdata.com/datasync-trafficless-cleanup-before-started-at''"

fun scopeString :: "cleanupScope \<Rightarrow> string" where
  "scopeString CleanupBefore = ''before''"
| "scopeString CleanupAfter = ''after''"

definition trafficlessCleanupTimeout :: "syncReconciler \<Rightarrow> duration" where
  "trafficlessCleanupTimeout r = (if sy_podVolumeRestorePendingWait r \<le> 0 then 10 * minute else sy_podVolumeRestorePendingWait r)"

definition trafficlessCleanupRequeueAfter :: "syncReconciler \<Rightarrow> duration" where
  "trafficlessCleanupRequeueAfter r = (if sy_inProgressPollInterval r \<le> 0 then 5 * second else sy_inProgressPollInterval r)"

definition trafficlessCleanupStartedAt :: "reconciler \<Rightarrow> SyncObject \<Rightarrow> string \<Rightarrow> time option" where
  "trafficlessCleanupStartedAt r ds a =
     (let raw = trimSpace (mget (m_ann (so_meta ds)) a) in if raw = [] then None else r_parseTime r raw)"

definition ownsPod :: "reconciler \<Rightarrow> SyncObject \<Rightarrow> string \<Rightarrow> cleanupScope \<Rightarrow> Pod \<Rightarrow> bool" where
  "ownsPod r ds restoreName scope p \<longleftrightarrow>
     list_all (\<lambda>(k, v). map_of (m_labels (pod_meta p)) k = Some v)
       ([(LabelCleanupManagedBy, ''disaster-operator''), (LabelCleanupOwnerToken, dataSyncTrafficlessOwnerToken r ds),
         (LabelCleanupRelation, CleanupRelationDataSyncTrafficlessPod), (LabelCleanupStrategy, ''delete'')] @
        (if scope = CleanupAfter then [(LabelTrafficlessRun, dataSyncTrafficlessRunIdentifier restoreName)] else []))"

definition cleanupError :: "string \<Rightarrow> err" where
  "cleanupError t = newTrafficlessLifecycleError dataSyncReasonTrafficlessCleanupFailed t"

definition matchNamespace :: "reconciler \<Rightarrow> SyncObject \<Rightarrow> string \<Rightarrow> cleanupScope \<Rightarrow> string \<Rightarrow> string \<Rightarrow> Pod list \<Rightarrow> Pod list result" where
  "matchNamespace r ds restoreName scope c ns0 ps =
     (let ns = trimSpace ns0 in
      if ns = [] then ok ps
      else do {
        a \<leftarrow> apiList (podKind c) ns;
        (case a of
           Inl e \<Rightarrow> fail (cleanupError (''list Pods in namespace '' @ ns @ '': '' @ err_text e))
         | Inr all \<Rightarrow> (case find isAmbiguousTrafficlessPod all of
             Some p \<Rightarrow> fail (newTrafficlessLifecycleError dataSyncReasonTrafficlessCleanupAmbiguous
                 (''found unscoped trafficless Pod '' @ m_ns (pod_meta p) @ ''/'' @ m_name (pod_meta p) @ ''; manual review is required''))
           | None \<Rightarrow> do {
               x \<leftarrow> apiListRaw (\<lambda>w. w_pods w c) (\<lambda>p. inNamespace (podKind c) ns p \<and> ownsPod r ds restoreName scope p);
               (case x of
                  Inl e \<Rightarrow> fail (cleanupError (''list scoped trafficless Pods in namespace '' @ ns @ '': '' @ err_text e))
                | Inr exact \<Rightarrow> ok (ps @ exact)) })) })"

definition deleteScopedPod :: "reconciler \<Rightarrow> string \<Rightarrow> Pod \<Rightarrow> unit result" where
  "deleteScopedPod r c p =
     (if m_deletion (pod_meta p) \<noteq> None then ok ()
      else do {
        x \<leftarrow> apiDelete (r_now r) (podKind c) (metaKey (pod_meta p));
        (case x of
           Inl e \<Rightarrow> if err_kind e = NotFound then ok ()
                    else fail (cleanupError (''delete scoped trafficless Pod '' @ m_ns (pod_meta p) @ ''/'' @ m_name (pod_meta p) @ '': '' @ err_text e))
         | Inr _ \<Rightarrow> ok ()) })"

text \<open>
  The sync with its annotation as it is in memory, whether the annotation changed, and the
  error or whether the pods are gone. A label selector that matches nothing is complete.
\<close>

type_synonym cleanupOutcome = "(SyncObject \<times> bool \<times> (err + bool)) action"

definition setAnnotation :: "string \<Rightarrow> string \<Rightarrow> SyncObject \<Rightarrow> SyncObject" where
  "setAnnotation a v ds = ds\<lparr>so_meta := (so_meta ds)\<lparr>m_ann := mput (m_ann (so_meta ds)) a v\<rparr>\<rparr>"

definition dropAnnotation :: "string \<Rightarrow> SyncObject \<Rightarrow> SyncObject" where
  "dropAnnotation a ds = ds\<lparr>so_meta := (so_meta ds)\<lparr>m_ann := mdel (m_ann (so_meta ds)) a\<rparr>\<rparr>"

definition removePods :: "syncReconciler \<Rightarrow> SyncObject \<Rightarrow> string \<Rightarrow> cleanupScope \<Rightarrow> Pod list \<Rightarrow> cleanupOutcome" where
  "removePods r ds c scope ps =
     (let a = cleanupAnnotation scope; known = trafficlessCleanupStartedAt (sy_base r) ds a;
          started = (case known of None \<Rightarrow> sy_now r | Some t \<Rightarrow> t);
          ds1 = (if known = None then setAnnotation a (sy_fmtTimeUTC r started) ds else ds); elapsed = since (sy_now r) started in
      if elapsed > trafficlessCleanupTimeout r
      then ret (ds1, known = None, Inl (newTrafficlessLifecycleError dataSyncReasonTrafficlessCleanupTimeout
             (dec (int (length ps)) @ '' scoped trafficless Pod(s) remain after '' @ durString (roundSecond elapsed) @ '' during '' @ scopeString scope @ '' cleanup'')))
      else do {
        x \<leftarrow> forEach (\<lambda>p _. deleteScopedPod (sy_base r) c p) ps ();
        ret (ds1, known = None, (case x of Inl e \<Rightarrow> Inl e | Inr _ \<Rightarrow> Inr False)) })"

definition reconcileTrafficlessPodCleanup :: "syncReconciler \<Rightarrow> SyncObject \<Rightarrow> DisasterConfig \<Rightarrow> DisasterInstance \<Rightarrow> string \<Rightarrow> cleanupScope \<Rightarrow>
    cleanupOutcome" where
  "reconcileTrafficlessPodCleanup r ds cfg i restoreName scope =
     (let target = snd (resolveClusters i cfg); a = cleanupAnnotation scope in do {
        g \<leftarrow> GetKubeClientSet target;
        (case g of
           Inl e \<Rightarrow> ret (ds, False, Inl (cleanupError (''build target cluster client '' @ target @ '': '' @ err_text e)))
         | Inr _ \<Rightarrow> do {
             m \<leftarrow> forEach (matchNamespace (sy_base r) ds restoreName scope target) (di_namespaces (in_spec i)) [];
             (case m of
                Inl e \<Rightarrow> ret (ds, False, Inl e)
              | Inr ps \<Rightarrow>
                  if ps = [] then ret (if map_of (m_ann (so_meta ds)) a \<noteq> None then (dropAnnotation a ds, True, Inr True) else (ds, False, Inr True))
                  else removePods r ds target scope ps) }) })"

text \<open>The annotation is written when it changed, before the outcome counts.\<close>

definition withCleanup :: "cleanupOutcome \<Rightarrow> (SyncObject \<Rightarrow> err + bool \<Rightarrow> Result result) \<Rightarrow> Result result" where
  "withCleanup m k = do {
     x \<leftarrow> m;
     (case x of (ds, changed, res) \<Rightarrow>
        if changed then chk (apiUpdate dsKind ds) (\<lambda>ds'. k ds' res) else k ds res) }"

definition waitForCleanup :: "syncReconciler \<Rightarrow> SyncObject \<Rightarrow> Result result" where
  "waitForCleanup r ds = do { emit (syncName ds) ''ExecutionProgress''; ok (after_result (trafficlessCleanupRequeueAfter r)) }"

section \<open>Starting the restore\<close>

definition restoreBuildFailed :: "syncReconciler \<Rightarrow> SyncObject \<Rightarrow> string \<Rightarrow> string \<Rightarrow> err \<Rightarrow> Result result" where
  "restoreBuildFailed r ds backupName restoreName e = do {
     emit (syncName ds) ''BuildRestoreSpecFailed'';
     g \<leftarrow> apiGet appBackupKind (syncNs ds, appBackupNameOf ds);
     endRun (buildFailedStatus r (case g of Inl _ \<Rightarrow> None | Inr ab \<Rightarrow> Some ab) backupName restoreName (msgDsBuildRestore (err_text e))) ds }"

definition createRestore :: "syncReconciler \<Rightarrow> SyncObject \<Rightarrow> string \<Rightarrow> AppRestoreSpec \<Rightarrow> PolicySummary \<Rightarrow> Result result" where
  "createRestore r ds restoreName spec s =
     chk (lift (dataSyncAppRestore r ds restoreName spec s)) (\<lambda>ar.
     chk (apiCreate restoreKind ar) (\<lambda>_. do {
       emit (syncName ds) ''ExecutionProgress'';
       emit (syncName ds) ''ExecutionProgress'';
       chk (apiStatusUpdate dsKind (mapSyncStatus (\<lambda>x. x\<lparr>ss_lastRestoreName := restoreName\<rparr>) ds)) (\<lambda>_. ok requeue_result) }))"

definition startRestore :: "syncReconciler \<Rightarrow> SyncObject \<Rightarrow> DisasterConfig \<Rightarrow> DisasterInstance \<Rightarrow> string \<Rightarrow> string \<Rightarrow> Result result" where
  "startRestore r ds cfg i backupName restoreName =
     orFailLifecycle r dataSyncReasonTargetVeleroRuntimeNotReady ds
       (ensureDataSyncTrafficlessRuntime (snd (resolveClusters i cfg)) ''target'' False) (\<lambda>_.
     withCleanup (reconcileTrafficlessPodCleanup r ds cfg i restoreName CleanupBefore) (\<lambda>ds1 res.
     orFailLifecycle r dataSyncReasonTrafficlessCleanupFailed ds1 (lift res) (\<lambda>gone.
     if \<not> gone then waitForCleanup r ds1
     else do {
       x \<leftarrow> buildDataAppRestoreSpec r ds1 cfg i backupName;
       (case x of
          Inl e \<Rightarrow> restoreBuildFailed r ds1 backupName restoreName e
        | Inr (spec, s) \<Rightarrow> createRestore r ds1 restoreName spec s) })))"

section \<open>Judging the restore\<close>

definition dataSyncRestoreTimeout :: "syncReconciler \<Rightarrow> AppRestore \<Rightarrow> DisasterInstance \<Rightarrow> duration" where
  "dataSyncRestoreTimeout r ar i =
     (case ars_timeout (ar_spec ar) of
        Some d \<Rightarrow> if d > 0 then d
                  else if di_operationTimeoutMinutes (in_spec i) > 0 then minutes (di_operationTimeoutMinutes (in_spec i)) else sy_inProgressMaxWait r
      | None \<Rightarrow> if di_operationTimeoutMinutes (in_spec i) > 0 then minutes (di_operationTimeoutMinutes (in_spec i)) else sy_inProgressMaxWait r)"

definition dataSyncPodVolumeRestoreReferenceTime :: "syncReconciler \<Rightarrow> PodVolumeRestore \<Rightarrow> time" where
  "dataSyncPodVolumeRestoreReferenceTime r p =
     (case pvr_start p of Some t \<Rightarrow> t | None \<Rightarrow>
       (case pvr_accepted p of Some t \<Rightarrow> t | None \<Rightarrow>
         (case m_creation (pvr_meta p) of Some t \<Rightarrow> t | None \<Rightarrow> sy_now r)))"

definition pvrStallTimeout :: "syncReconciler \<Rightarrow> AppRestore \<Rightarrow> DisasterInstance \<Rightarrow> duration" where
  "pvrStallTimeout r ar i =
     (let s = dataSyncRestoreTimeout r ar i; p = trafficlessCleanupTimeout r in if p > 0 \<and> (s \<le> 0 \<or> s > p) then p else s)"

text \<open>The first restore of a volume that is not complete decides: an error, or not ready yet.\<close>

fun judgePvrs :: "syncReconciler \<Rightarrow> duration \<Rightarrow> PodVolumeRestore list \<Rightarrow> err + bool" where
  "judgePvrs r stall [] = Inr True"
| "judgePvrs r stall (p # ps) =
     (let m = ''PodVolumeRestore '' @ m_name (pvr_meta p); elapsed = since (sy_now r) (dataSyncPodVolumeRestoreReferenceTime r p) in
      if pvr_phase p = ''Completed'' then judgePvrs r stall ps
      else if pvr_phase p = ''Failed'' \<or> pvr_phase p = ''Canceled''
      then Inl (newTrafficlessLifecycleError ''PodVolumeRestoreFailed''
             (m @ '' is '' @ pvr_phase p @ (if pvr_message p \<noteq> [] then '': '' @ pvr_message p else [])))
      else if elapsed > stall
      then Inl (newTrafficlessLifecycleError ''PodVolumeRestoreStalled'' (m @ '' remains '' @ pvr_phase p @ '' for '' @ durString (roundSecond elapsed)))
      else Inr False)"

definition verifyDataSyncPodVolumeRestores :: "syncReconciler \<Rightarrow> DisasterConfig \<Rightarrow> DisasterInstance \<Rightarrow> AppRestore \<Rightarrow> bool result" where
  "verifyDataSyncPodVolumeRestores r cfg i ar =
     (let target = snd (resolveClusters i cfg); restoreName = ''res-'' @ m_name (ar_meta ar); bad = newTrafficlessLifecycleError ''PodVolumeRestoreFailed'' in do {
        g \<leftarrow> GetKubeClientSet target;
        (case g of
           Inl e \<Rightarrow> fail (bad (''build target cluster client '' @ target @ '': '' @ err_text e))
         | Inr _ \<Rightarrow> do {
             l \<leftarrow> apiListRaw (\<lambda>w. w_pvrs w target) (\<lambda>p. inNamespace (pvrKind target) ''velero'' p \<and>
                    map_of (m_labels (pvr_meta p)) ''velero.io/restore-name'' = Some restoreName);
             (case l of
                Inl e \<Rightarrow> fail (bad (''list PodVolumeRestore for '' @ restoreName @ '': '' @ err_text e))
              | Inr ps \<Rightarrow> lift (judgePvrs r (pvrStallTimeout r ar i) ps)) }) })"

definition pvcError :: "string \<Rightarrow> err" where
  "pvcError t = newTrafficlessLifecycleError dataSyncReasonTargetPVCNotReady t"

text \<open>The first expected claim that is not bound in the target cluster, as a message.\<close>

fun unboundClaim :: "string \<Rightarrow> key list \<Rightarrow> string option result" where
  "unboundClaim c [] = ok None"
| "unboundClaim c (k # ks) = do {
     g \<leftarrow> apiGet (pvcKind c) k;
     (case g of
        Inl e \<Rightarrow> if err_kind e = NotFound then ok (Some (''target PVC '' @ fst k @ ''/'' @ snd k @ '' is not found''))
                 else fail (pvcError (''get target PVC '' @ fst k @ ''/'' @ snd k @ '': '' @ err_text e))
      | Inr p \<Rightarrow>
          let m = ''target PVC '' @ m_ns (pvc_meta p) @ ''/'' @ m_name (pvc_meta p) @ '' is '' in
          if m_deletion (pvc_meta p) \<noteq> None then ok (Some (m @ ''deleting''))
          else if pvc_phase p \<noteq> ''Bound'' then ok (Some (m @ pvc_phase p))
          else unboundClaim c ks) }"

definition verifyDataSyncTargetPVCsReady :: "syncReconciler \<Rightarrow> DisasterConfig \<Rightarrow> DisasterInstance \<Rightarrow> string option result" where
  "verifyDataSyncTargetPVCsReady r cfg i =
     (let source = fst (resolveClusters i cfg); target = snd (resolveClusters i cfg) in do {
        g \<leftarrow> GetKubeClientSet source;
        (case g of
           Inl e \<Rightarrow> fail (pvcError (''build source cluster client '' @ source @ '': '' @ err_text e))
         | Inr _ \<Rightarrow> do {
             p \<leftarrow> discoverDataSyncVolumePlan r source i;
             (case p of
                Inl e \<Rightarrow> fail (pvcError (''discover expected PVCs: '' @ err_text e))
              | Inr ks \<Rightarrow>
                  if ks = [] then ok None
                  else do {
                    t \<leftarrow> GetKubeClientSet target;
                    (case t of
                       Inl e \<Rightarrow> fail (pvcError (''build target cluster client '' @ target @ '': '' @ err_text e))
                     | Inr _ \<Rightarrow> unboundClaim target ks) }) }) })"

text \<open>The restore as it is judged: its phase becomes a failure with the reason found.\<close>

definition failRestore :: "string \<times> string \<Rightarrow> AppRestore \<Rightarrow> AppRestore" where
  "failRestore d ar = ar\<lparr>ar_reason := fst d, ar_message := snd d, ar_phase := PhaseFailed\<rparr>"

definition judgeVolumes :: "syncReconciler \<Rightarrow> SyncObject \<Rightarrow> DisasterConfig \<Rightarrow> DisasterInstance \<Rightarrow> AppRestore \<Rightarrow> (AppRestore \<Rightarrow> Result result) \<Rightarrow> Result result" where
  "judgeVolumes r ds cfg i ar k =
     (if isDataSyncTrafficlessLifecycleRestore ar \<and> ar_phase ar = PhaseSucceeded
      then do {
        v \<leftarrow> verifyDataSyncPodVolumeRestores r cfg i ar;
        (case v of
           Inl e \<Rightarrow> k (failRestore (trafficlessLifecycleErrorDetails e ''PodVolumeRestoreFailed'') ar)
         | Inr ready \<Rightarrow> if ready then k ar else waitForCleanup r ds) }
      else k ar)"

definition judgeClaims :: "syncReconciler \<Rightarrow> SyncObject \<Rightarrow> DisasterConfig \<Rightarrow> DisasterInstance \<Rightarrow> AppRestore \<Rightarrow> (AppRestore \<Rightarrow> Result result) \<Rightarrow> Result result" where
  "judgeClaims r ds cfg i ar k =
     (if isDataSyncTrafficlessLifecycleRestore ar \<and> ar_phase ar = PhaseSucceeded
      then do {
        v \<leftarrow> verifyDataSyncTargetPVCsReady r cfg i;
        (case v of
           Inl e \<Rightarrow> k (failRestore (trafficlessLifecycleErrorDetails e dataSyncReasonTargetPVCNotReady) ar)
         | Inr None \<Rightarrow> k ar
         | Inr (Some m) \<Rightarrow>
             let timeout = dataSyncRestoreTimeout r ar i in
             if (case m_creation (ar_meta ar) of None \<Rightarrow> False | Some t \<Rightarrow> since (sy_now r) t > timeout)
             then k (failRestore (dataSyncReasonTargetPVCNotReady, m @ '' after '' @ durString (roundSecond timeout)) ar)
             else waitForCleanup r ds) }
      else k ar)"

definition cleanupFailureMessage :: "AppRestore \<Rightarrow> string \<Rightarrow> string" where
  "cleanupFailureMessage ar m =
     (if ar_reason ar \<noteq> [] \<or> ar_message ar \<noteq> []
      then m @ ''; AppRestore failure context reason='' @ ar_reason ar @ '' message='' @ ar_message ar else m)"

definition judgeCleanup :: "syncReconciler \<Rightarrow> SyncObject \<Rightarrow> DisasterConfig \<Rightarrow> DisasterInstance \<Rightarrow> string \<Rightarrow> AppRestore \<Rightarrow>
    (SyncObject \<Rightarrow> AppRestore \<Rightarrow> Result result) \<Rightarrow> Result result" where
  "judgeCleanup r ds cfg i restoreName ar k =
     (if isDataSyncTrafficlessLifecycleRestore ar \<and> (ar_phase ar = PhaseSucceeded \<or> IsFailedAppRestorePhase (ar_phase ar))
      then withCleanup (reconcileTrafficlessPodCleanup r ds cfg i restoreName CleanupAfter) (\<lambda>ds1 res.
        case res of
          Inl e \<Rightarrow> (let (reason, m) = trafficlessLifecycleErrorDetails e dataSyncReasonTrafficlessCleanupFailed in
                    k ds1 (failRestore (reason, cleanupFailureMessage ar m) ar))
        | Inr gone \<Rightarrow> if gone then k ds1 ar else waitForCleanup r ds1)
      else k ds ar)"

text \<open>
  The statistics come before the status, from the object in memory. The events say that the
  sync completed also when it failed.
\<close>

definition finishRestore :: "syncReconciler \<Rightarrow> string \<Rightarrow> string \<Rightarrow> SyncObject \<Rightarrow> AppRestore \<Rightarrow> Result result" where
  "finishRestore r backupName restoreName ds ar =
     (if ar_phase ar = PhaseSucceeded \<or> IsFailedAppRestorePhase (ar_phase ar)
      then do {
        g \<leftarrow> apiGet appBackupKind (syncNs ds, appBackupNameOf ds);
        (let ds1 = mapSyncStatus (\<lambda>s. restoredHistory r (case g of Inl _ \<Rightarrow> None | Inr ab \<Rightarrow> Some ab) backupName restoreName ar
                     (restoredState r ar restoreName s)) ds in do {
           _ \<leftarrow> dsSyncStatistics ds1;
           emit (syncName ds) ''SyncCompleted'';
           emit (syncName ds) ''ExecutionFinished'';
           chk (apiStatusUpdate dsKind ds1) (\<lambda>_. ok done_result) }) }
      else ok (after_result (sy_restoreObserveRequeue r)))"

definition judgeRestore :: "syncReconciler \<Rightarrow> SyncObject \<Rightarrow> DisasterConfig \<Rightarrow> DisasterInstance \<Rightarrow> string \<Rightarrow> string \<Rightarrow> AppRestore \<Rightarrow> Result result" where
  "judgeRestore r ds cfg i backupName restoreName ar =
     judgeVolumes r ds cfg i ar (\<lambda>ar1.
     judgeClaims r ds cfg i ar1 (\<lambda>ar2.
     judgeCleanup r ds cfg i restoreName ar2 (finishRestore r backupName restoreName)))"

definition handleRestore :: "syncReconciler \<Rightarrow> SyncObject \<Rightarrow> DisasterConfig \<Rightarrow> DisasterInstance \<Rightarrow> string \<Rightarrow> Result result" where
  "handleRestore r ds cfg i backupName =
     (let restoreName = dataSyncRestoreName (sy_base r) ds backupName in do {
        g \<leftarrow> apiGet restoreKind (syncNs ds, restoreName);
        (case g of
           Inl e \<Rightarrow> if err_kind e = NotFound then startRestore r ds cfg i backupName restoreName else fail e
         | Inr ar \<Rightarrow> judgeRestore r ds cfg i backupName restoreName ar) })"

section \<open>Following the backup\<close>

text \<open>
  A failed backup writes the status and reports the end of the task; the history and the
  statistics stay as they are.
\<close>

definition veleroBackupFailed :: "syncReconciler \<Rightarrow> SyncObject \<Rightarrow> AppBackup \<Rightarrow> BackupRecord \<Rightarrow> Result result" where
  "veleroBackupFailed r ds ab rec =
     (let msg = msgDsVeleroFailed (ss_lastBackupName (so_status ds))
            (if abt_message (ab_status ab) \<noteq> [] then abt_message (ab_status ab) else BackupRecordFailureStatus rec) in
      chk (apiStatusUpdate dsKind (mapSyncStatus (veleroFailedStatus r msg) ds)) (\<lambda>_. do {
        emit (syncName ds) ''ExecutionFinished'';
        ok done_result }))"

definition followBackup :: "syncReconciler \<Rightarrow> SyncObject \<Rightarrow> DisasterConfig \<Rightarrow> DisasterInstance \<Rightarrow> Result result" where
  "followBackup r ds cfg i =
     (let backupName = ss_lastBackupName (so_status ds) in
      chk (apiGet appBackupKind (syncNs ds, appBackupNameOf ds)) (\<lambda>ab.
      case FindBackupRecordByName (abt_history (ab_status ab)) backupName of
        None \<Rightarrow> ok (after_result (sy_historyMissingRequeue r))
      | Some rec \<Rightarrow>
          if br_phase rec = ''Completed'' then do {
            emit (syncName ds) ''ExecutionProgress'';
            handleRestore r ds cfg i backupName }
          else if BackupRecordFailed rec then veleroBackupFailed r ds ab rec
          else ok (after_result (sy_backupInProgressRequeue r))))"

definition runBackup :: "syncReconciler \<Rightarrow> SyncObject \<Rightarrow> DisasterConfig \<Rightarrow> DisasterInstance \<Rightarrow> Result result" where
  "runBackup r ds cfg i =
     (let desired = buildAppBackupSpec r i cfg; known = (ss_lastBackupName (so_status ds) \<noteq> []) in do {
        g \<leftarrow> apiGet appBackupKind (syncNs ds, appBackupNameOf ds);
        (case g of
           Inl e \<Rightarrow>
             if err_kind e = NotFound then createBackup r ds desired
             else failDataSync r dataSyncReasonDependencyFailed (msgDsGetBackup (appBackupNameOf ds) (err_text e)) ds
         | Inr ab \<Rightarrow>
             if AppBackupSpecNeedsUpdate (ab_spec ab) desired
             then chk (apiUpdate appBackupKind (ab\<lparr>ab_spec := (ab_spec ab)\<lparr>abs_cluster := abs_cluster desired,
                      abs_template := abs_template desired, abs_timeout := abs_timeout desired\<rparr>\<rparr>)) (\<lambda>_.
                    if known then followBackup r ds cfg i else ok requeue_result)
             else if known then followBackup r ds cfg i else findBackup r ds ab) })"

definition runStep :: "syncReconciler \<Rightarrow> SyncObject \<Rightarrow> DisasterConfig \<Rightarrow> DisasterInstance \<Rightarrow> Result result" where
  "runStep r ds cfg i =
     orFailSync r dataSyncReasonStorageUnavailable (msgDsStorage (cfg_storageRepository cfg)) ds
       (ensureStorageRepositoryReady r (syncNs ds) (cfg_storageRepository cfg)) (\<lambda>_.
     if ss_state (so_status ds) \<noteq> SyncInProgress then startRun r ds else runBackup r ds cfg i)"

definition executeSync :: "syncReconciler \<Rightarrow> SyncObject \<Rightarrow> Result result" where
  "executeSync r ds =
     orFailSync r dataSyncReasonDependencyFailed (msgDsGetInstance (ss_instance (so_spec ds))) ds
       (apiGet instKind (syncNs ds, ss_instance (so_spec ds))) (\<lambda>i.
     orFailSync r dataSyncReasonDependencyFailed (msgDsGetConfig (di_config (in_spec i))) ds
       (apiGet cfgKind ([], di_config (in_spec i))) (\<lambda>cfg.
     orFailSync r dataSyncReasonDependencyFailed msgDsChildren ds (shouldRunNoPVCPreflight r ds) (\<lambda>needed.
     if needed then preflight r ds i cfg (runStep r ds cfg i) else runStep r ds cfg i)))"

section \<open>The reconcile loop\<close>

definition dsSyncDependencyLabels :: "reconciler \<Rightarrow> SyncObject \<Rightarrow> (bool \<times> SyncObject) action" where
  "dsSyncDependencyLabels r ds =
     (let tk = EnsureDependencyTokenLabel (r_sha256hex r) (m_labels (so_meta ds)) (m_uid (so_meta ds)) in do {
        es \<leftarrow> (if ss_instance (so_spec ds) \<noteq> [] then do {
                 g \<leftarrow> apiGet instKind (syncNs ds, ss_instance (so_spec ds));
                 ret (case g of Inl _ \<Rightarrow> [] | Inr i \<Rightarrow> [edgeTo r (m_uid (in_meta i)) ''spec.instance'']) }
               else ret []);
        (let rb = RebuildDependencyToLabels (fst tk) es in
         ret (snd (snd tk) \<or> snd rb, ds\<lparr>so_meta := (so_meta ds)\<lparr>m_labels := fst rb\<rparr>\<rparr>)) })"

definition deleteSync :: "SyncObject \<Rightarrow> Result result" where
  "deleteSync ds =
     (if \<not> List.member (m_finalizers (so_meta ds)) dataSyncFinalizer then ok done_result
      else do {
        emit (syncName ds) ''ExecutionStarted'';
        removeJob (syncKey ds);
        u \<leftarrow> faulty (storeUpdateDeleting dsKind (ds\<lparr>so_meta := (so_meta ds)\<lparr>m_finalizers :=
               filter (\<lambda>f. f \<noteq> dataSyncFinalizer) (m_finalizers (so_meta ds))\<rparr>\<rparr>));
        emit (syncName ds) ''ExecutionFinished'';
        (case u of Inl e \<Rightarrow> fail e | Inr _ \<Rightarrow> ok done_result) })"

text \<open>The cron job of the sync is there exactly while it has a schedule and is not paused.\<close>

definition scheduleSync :: "syncReconciler \<Rightarrow> syncCallback \<Rightarrow> SyncObject \<Rightarrow> unit action" where
  "scheduleSync r callback ds =
     (let schedule = tr_schedule (ss_trigger (so_spec ds)) in
      if \<not> ss_paused (so_spec ds) \<and> schedule \<noteq> [] then do {
        x \<leftarrow> addJob (sy_cronError r) (syncKey ds) schedule callback;
        (case x of None \<Rightarrow> ret () | Some _ \<Rightarrow> emit (syncName ds) ''ScheduleError'') }
      else removeJob (syncKey ds))"

definition reconcileSync :: "syncReconciler \<Rightarrow> SyncObject \<Rightarrow> Result result" where
  "reconcileSync r ds =
     (if m_deletion (so_meta ds) \<noteq> None then deleteSync ds
      else if \<not> List.member (m_finalizers (so_meta ds)) dataSyncFinalizer
      then chk (apiUpdate dsKind (ds\<lparr>so_meta := (so_meta ds)\<lparr>m_finalizers := m_finalizers (so_meta ds) @ [dataSyncFinalizer]\<rparr>\<rparr>)) (\<lambda>_.
             ok requeue_result)
      else do {
        x \<leftarrow> dsSyncDependencyLabels (sy_base r) ds;
        (let ds1 = snd x in
         if fst x then chk (apiUpdate dsKind ds1) (\<lambda>_. ok requeue_result)
         else if ss_state (so_status ds1) = SyncNone
         then chk (apiStatusUpdate dsKind (mapSyncStatus (\<lambda>s. s\<lparr>ss_state := SyncReady, ss_reason := [], ss_message := []\<rparr>) ds1)) (\<lambda>_.
                ok requeue_result)
         else do {
           scheduleSync r TriggerDataSync ds1;
           (if shouldSync r ds1 then executeSync r ds1 else ok done_result) }) })"

definition dataSyncReconcile :: "syncReconciler \<Rightarrow> key \<Rightarrow> Result result" where
  "dataSyncReconcile r k = do {
     g \<leftarrow> apiGet dsKind k;
     (case g of
        Inl e \<Rightarrow> if err_kind e = NotFound then do { removeJob k; ok done_result } else fail e
      | Inr ds \<Rightarrow> reconcileSync r ds) }"

text \<open>What the cron job calls: the time of the trigger is written, unless a sync runs.\<close>

definition cronTrigger :: "reconciler \<Rightarrow> SyncObject kind \<Rightarrow> key \<Rightarrow> unit action" where
  "cronTrigger r K k = do {
     g \<leftarrow> apiGet K k;
     (case g of
        Inl _ \<Rightarrow> ret ()
      | Inr s \<Rightarrow>
          if ss_paused (so_spec s) \<or> tr_schedule (ss_trigger (so_spec s)) = [] \<or> ss_state (so_status s) = SyncInProgress then ret ()
          else do {
            _ \<leftarrow> apiUpdate K (s\<lparr>so_spec := (so_spec s)\<lparr>ss_trigger := (ss_trigger (so_spec s))\<lparr>tr_manual := r_fmtTime r (r_now r)\<rparr>\<rparr>\<rparr>);
            ret () }) }"

end
