(* ===== verification/DataSyncFsm.thy ===== *)
theory DataSyncFsm
  imports DataSync DrillFrames
begin

text \<open>
  The run of a data sync as an abstract machine, and the proof that a reconcile of the data
  sync controller takes at most one of its edges, whatever the API server answers, and changes
  nothing outside the sync. The edges carry what justifies them: a sync is skipped only when
  no volume is in scope, and ends well only when the backup of the run completed, its restore
  succeeded and the volumes are there.
\<close>

section \<open>What the world says\<close>

definition claimKeys :: "Pvc list \<Rightarrow> key set" where
  "claimKeys ps = (\<lambda>p. metaKey (pvc_meta p)) ` set ps"

text \<open>The claims in scope in one namespace, for a selector when there is one.\<close>

definition namespaceClaims :: "world \<Rightarrow> string \<Rightarrow> (smap \<Rightarrow> bool) option \<Rightarrow> string \<Rightarrow> key set" where
  "namespaceClaims w c sel ns =
     (let pvcs = liveClaims (filter (inNamespace (pvcKind c) ns) (w_pvcs w c)) in
      case sel of
        None \<Rightarrow> claimKeys pvcs
      | Some P \<Rightarrow> claimKeys (filter (\<lambda>p. P (m_labels (pvc_meta p))) pvcs) \<union>
          (\<Union>p \<in> set (filter (\<lambda>p. inNamespace (podKind c) ns p \<and> P (m_labels (pod_meta p))) (w_pods w c)). set (claimsOfPod pvcs p)))"

definition scopeSelector :: "syncReconciler \<Rightarrow> DisasterInstance \<Rightarrow> (smap \<Rightarrow> bool) option" where
  "scopeSelector r i = (case di_labelSelector (in_spec i) of None \<Rightarrow> None
     | Some sel \<Rightarrow> (case mt_matches (r_matchers (sy_base r)) sel of Inl _ \<Rightarrow> None | Inr P \<Rightarrow> Some P))"

definition volumesInScope :: "syncReconciler \<Rightarrow> world \<Rightarrow> string \<Rightarrow> DisasterInstance \<Rightarrow> key set" where
  "volumesInScope r w c i = (\<Union>n \<in> set (di_namespaces (in_spec i)). namespaceClaims w c (scopeSelector r i) (trimSpace n))"

definition boundIn :: "world \<Rightarrow> string \<Rightarrow> key \<Rightarrow> bool" where
  "boundIn w c k \<longleftrightarrow> (\<exists>p. lookup (pvcKind c) w k = Some p \<and> m_deletion (pvc_meta p) = None \<and> pvc_phase p = ''Bound'')"

definition volumesRestored :: "world \<Rightarrow> string \<Rightarrow> AppRestore \<Rightarrow> bool" where
  "volumesRestored w c ar \<longleftrightarrow> (\<forall>p \<in> set (w_pvrs w c). inNamespace (pvrKind c) ''velero'' p \<longrightarrow>
     map_of (m_labels (pvr_meta p)) ''velero.io/restore-name'' = Some (''res-'' @ m_name (ar_meta ar)) \<longrightarrow> pvr_phase p = ''Completed'')"

definition instanceOf :: "world \<Rightarrow> SyncObject \<Rightarrow> DisasterInstance option" where
  "instanceOf w ds = lookup instKind w (syncNs ds, ss_instance (so_spec ds))"

definition configOf :: "world \<Rightarrow> SyncObject \<Rightarrow> DisasterConfig option" where
  "configOf w ds = Option.bind (instanceOf w ds) (\<lambda>i. lookup cfgKind w ([], di_config (in_spec i)))"

definition clustersOf :: "world \<Rightarrow> SyncObject \<Rightarrow> (string \<times> string) option" where
  "clustersOf w ds = Option.bind (instanceOf w ds) (\<lambda>i. map_option (resolveClusters i) (configOf w ds))"

definition historyOf :: "world \<Rightarrow> SyncObject \<Rightarrow> BackupRecord list" where
  "historyOf w ds = (case lookup appBackupKind w (syncNs ds, appBackupNameOf ds) of None \<Rightarrow> [] | Some ab \<Rightarrow> abt_history (ab_status ab))"

section \<open>The abstract machine\<close>

text \<open>A backup of this run: the one the current action asks for, or one that started after the last run.\<close>

definition backupOfRun :: "syncReconciler \<Rightarrow> world \<Rightarrow> SyncObject \<Rightarrow> string \<Rightarrow> bool" where
  "backupOfRun r w ds b \<longleftrightarrow> (\<exists>ab rec. lookup appBackupKind w (syncNs ds, appBackupNameOf ds) = Some ab \<and>
     rec \<in> set (abt_history (ab_status ab)) \<and> br_name rec = b \<and>
     (case CurrentBackupActionVeleroBackupName (sy_base r) (appBackupNameOf ds) ab (ss_lastSyncTime (so_status ds)) of
        Some n \<Rightarrow> n = b | None \<Rightarrow> backupStartedForDataSyncRun (br_start rec) (ss_lastSyncTime (so_status ds))))"

datatype runPhase = Fresh | Idle | Broken | Searching | Copying string

definition phaseOf :: "SyncStatus \<Rightarrow> runPhase" where
  "phaseOf s = (case ss_state s of SyncNone \<Rightarrow> Fresh | SyncReady \<Rightarrow> Idle | SyncFailed \<Rightarrow> Broken
     | SyncInProgress \<Rightarrow> if ss_lastBackupName s = [] then Searching else Copying (ss_lastBackupName s))"

definition nothingToSync :: "syncReconciler \<Rightarrow> world \<Rightarrow> SyncObject \<Rightarrow> bool" where
  "nothingToSync r w ds \<longleftrightarrow> (\<exists>i cl. instanceOf w ds = Some i \<and> clustersOf w ds = Some cl \<and> volumesInScope r w (fst cl) i = {})"

definition restoredIn :: "syncReconciler \<Rightarrow> world \<Rightarrow> SyncObject \<Rightarrow> string \<Rightarrow> bool" where
  "restoredIn r w ds b \<longleftrightarrow>
     (\<exists>rec. FindBackupRecordByName (historyOf w ds) b = Some rec \<and> br_phase rec = ''Completed'') \<and>
     (\<exists>ar. lookup restoreKind w (syncNs ds, dataSyncRestoreName (sy_base r) ds b) = Some ar \<and> ar_phase ar = PhaseSucceeded \<and>
       (isDataSyncTrafficlessLifecycleRestore ar \<longrightarrow>
         (\<exists>i cl. instanceOf w ds = Some i \<and> clustersOf w ds = Some cl \<and> volumesRestored w (snd cl) ar \<and>
           (\<forall>k \<in> volumesInScope r w (fst cl) i. boundIn w (snd cl) k))))"

inductive runEdge :: "syncReconciler \<Rightarrow> world \<Rightarrow> SyncObject \<Rightarrow> runPhase \<Rightarrow> runPhase \<Rightarrow> bool" for r w ds where
  created: "runEdge r w ds Fresh Idle"
| started: "shouldSync r ds \<Longrightarrow> p = Idle \<or> p = Broken \<Longrightarrow> runEdge r w ds p Searching"
| skipped: "shouldSync r ds \<Longrightarrow> nothingToSync r w ds \<Longrightarrow> p = Idle \<or> p = Broken \<or> p = Searching \<Longrightarrow> runEdge r w ds p Idle"
| aborted: "shouldSync r ds \<Longrightarrow> p \<noteq> Fresh \<Longrightarrow> runEdge r w ds p Broken"
| found: "backupOfRun r w ds b \<Longrightarrow> b \<noteq> [] \<Longrightarrow> runEdge r w ds Searching (Copying b)"
| restored: "restoredIn r w ds b \<Longrightarrow> runEdge r w ds (Copying b) Idle"

inductive_cases to_Copying: "runEdge r w ds p (Copying b)"
inductive_cases to_Idle: "runEdge r w ds p Idle"

text \<open>An edge that ends a run records the time; the other edges keep the time of the last run.\<close>

definition endsRun :: "runPhase \<Rightarrow> runPhase \<Rightarrow> bool" where
  "endsRun p q \<longleftrightarrow> (q = Idle \<and> p \<noteq> Fresh) \<or> q = Broken"

definition runMoves :: "syncReconciler \<Rightarrow> world \<Rightarrow> SyncObject \<Rightarrow> SyncStatus \<Rightarrow> bool" where
  "runMoves r w ds s \<longleftrightarrow>
     (phaseOf s = phaseOf (so_status ds) \<and> ss_lastSyncTime s = ss_lastSyncTime (so_status ds)) \<or>
     (runEdge r w ds (phaseOf (so_status ds)) (phaseOf s) \<and>
      ss_lastSyncTime s = (if endsRun (phaseOf (so_status ds)) (phaseOf s) then Some (sy_now r) else ss_lastSyncTime (so_status ds)))"

section \<open>What a sync may write\<close>

text \<open>
  The keys of the pods that carry the token of the sync, and the names of the
  namespaces it restores to; both only in the target cluster.
\<close>

definition bearsToken :: "reconciler \<Rightarrow> SyncObject \<Rightarrow> Pod \<Rightarrow> bool" where
  "bearsToken r ds p \<longleftrightarrow> map_of (m_labels (pod_meta p)) LabelCleanupOwnerToken = Some (dataSyncTrafficlessOwnerToken r ds) \<and>
     map_of (m_labels (pod_meta p)) LabelCleanupRelation = Some CleanupRelationDataSyncTrafficlessPod"

definition ownPodKeys :: "syncReconciler \<Rightarrow> world \<Rightarrow> SyncObject \<Rightarrow> string \<Rightarrow> key set" where
  "ownPodKeys r w ds c =
     (if map_option snd (clustersOf w ds) = Some c
      then {metaKey (pod_meta p) | p. p \<in> set (w_pods w c) \<and> bearsToken (sy_base r) ds p} else {})"

definition restoreNames :: "world \<Rightarrow> SyncObject \<Rightarrow> string \<Rightarrow> string set" where
  "restoreNames w ds c =
     (if map_option snd (clustersOf w ds) = Some c
      then (case instanceOf w ds of None \<Rightarrow> {} | Some i \<Rightarrow> trimSpace ` set (di_namespaces (in_spec i))) else {})"

text \<open>The world without what the sync may write; \<open>w\<close> is the world the reconcile starts in.\<close>

definition outsideSync :: "syncReconciler \<Rightarrow> world \<Rightarrow> SyncObject \<Rightarrow> world \<Rightarrow> world" where
  "outsideSync r w ds v = v\<lparr>w_ds := filter (\<lambda>x. keyOf dsKind x \<noteq> syncKey ds) (w_ds v),
     w_appBackups := filter (\<lambda>x. keyOf appBackupKind x \<noteq> (syncNs ds, appBackupNameOf ds)) (w_appBackups v),
     w_restores := filter (\<lambda>x. keyOf restoreKind x \<noteq> (syncNs ds, dataSyncRestoreName (sy_base r) ds (ss_lastBackupName (so_status ds)))) (w_restores v),
     w_pods := (\<lambda>c. filter (\<lambda>x. keyOf (podKind c) x \<notin> ownPodKeys r w ds c) (w_pods v c)),
     w_nss := (\<lambda>c. filter (\<lambda>x. m_name (nsp_meta x) \<notin> restoreNames w ds c) (w_nss v c)),
     w_secrets := (\<lambda>c. filter (\<lambda>x. \<not> (m_ns (sec_meta x) \<in> restoreNames w ds c \<and> m_name (sec_meta x) = pullSecretOf c)) (w_secrets v c)),
     w_jobs := AList.delete (jobKey (syncKey ds)) (w_jobs v),
     w_stats := [], w_events := [], w_faults := []\<rparr>"

text \<open>What the reads of a run depend on: of the backups, their statuses only.\<close>

definition backupStatuses :: "world \<Rightarrow> key \<Rightarrow> AppBackupStatus option" where
  "backupStatuses v k = map_option ab_status (lookup appBackupKind v k)"

definition runView :: "world \<Rightarrow> world \<times> (key \<Rightarrow> AppBackupStatus option)" where
  "runView v = (v\<lparr>w_ds := [], w_appBackups := [], w_jobs := [], w_stats := [], w_events := [], w_faults := []\<rparr>, backupStatuses v)"

definition earlyView :: "world \<Rightarrow> world" where
  "earlyView v = v\<lparr>w_ds := [], w_jobs := [], w_stats := [], w_events := [], w_faults := []\<rparr>"

lemma run_of_early: "runView (earlyView v) = runView v"
  by (simp add: earlyView_def runView_def backupStatuses_def fun_eq_iff lookup_def)

lemma early_run: "earlyView v = earlyView w \<Longrightarrow> runView v = runView w"
  by (metis run_of_early)

section \<open>Invariants of a reconcile\<close>

definition syncAt :: "key \<Rightarrow> (SyncObject \<Rightarrow> bool) \<Rightarrow> world \<Rightarrow> bool" where
  "syncAt k P v \<longleftrightarrow> (\<forall>d. lookup dsKind v k = Some d \<longrightarrow> P d)"

text \<open>The sync in memory is the one that was read, up to its metadata.\<close>

definition sameSync :: "SyncObject \<Rightarrow> SyncObject \<Rightarrow> bool" where
  "sameSync ds x \<longleftrightarrow> syncKey x = syncKey ds \<and> m_uid (so_meta x) = m_uid (so_meta ds) \<and> so_spec x = so_spec ds \<and> so_status x = so_status ds"

definition untouched :: "SyncObject \<Rightarrow> SyncObject \<Rightarrow> bool" where
  "untouched ds d \<longleftrightarrow> so_status d = so_status ds \<and> m_uid (so_meta d) = m_uid (so_meta ds) \<and> so_spec d = so_spec ds"

definition moved :: "syncReconciler \<Rightarrow> world \<Rightarrow> SyncObject \<Rightarrow> SyncObject \<Rightarrow> bool" where
  "moved r w ds d \<longleftrightarrow> runMoves r w ds (so_status d) \<and> so_spec d = so_spec ds"

definition atEarly :: "syncReconciler \<Rightarrow> world \<Rightarrow> SyncObject \<Rightarrow> world \<Rightarrow> bool" where
  "atEarly r w ds v \<longleftrightarrow> syncAt (syncKey ds) (untouched ds) v \<and> earlyView v = earlyView w \<and> outsideSync r w ds v = outsideSync r w ds w"

definition atRead :: "syncReconciler \<Rightarrow> world \<Rightarrow> SyncObject \<Rightarrow> world \<Rightarrow> bool" where
  "atRead r w ds v \<longleftrightarrow> syncAt (syncKey ds) (untouched ds) v \<and> runView v = runView w \<and> outsideSync r w ds v = outsideSync r w ds w"

definition atLate :: "syncReconciler \<Rightarrow> world \<Rightarrow> SyncObject \<Rightarrow> world \<Rightarrow> bool" where
  "atLate r w ds v \<longleftrightarrow> syncAt (syncKey ds) (untouched ds) v \<and> outsideSync r w ds v = outsideSync r w ds w"

definition atDone :: "syncReconciler \<Rightarrow> world \<Rightarrow> SyncObject \<Rightarrow> world \<Rightarrow> bool" where
  "atDone r w ds v \<longleftrightarrow> syncAt (syncKey ds) (moved r w ds) v \<and> outsideSync r w ds v = outsideSync r w ds w"

lemma early_read: "atEarly r w ds v \<Longrightarrow> atRead r w ds v"
  unfolding atEarly_def atRead_def by (blast intro: early_run)

lemma read_late: "atRead r w ds v \<Longrightarrow> atLate r w ds v"
  by (simp add: atRead_def atLate_def)

lemma moves_refl: "runMoves r w ds (so_status ds)"
  by (simp add: runMoves_def)

lemma late_done: "atLate r w ds v \<Longrightarrow> atDone r w ds v"
  by (auto simp: atLate_def atDone_def syncAt_def untouched_def moved_def moves_refl)

text \<open>Statistics, events and faults are invisible to the invariants.\<close>

definition quiet :: "world \<Rightarrow> world" where
  "quiet v = v\<lparr>w_stats := [], w_events := [], w_faults := []\<rparr>"

interpretation quietF: world_frame quiet
  by unfold_locales (simp_all add: quiet_def)

lemma of_quiet:
  "syncAt k P (quiet v) = syncAt k P v" "earlyView (quiet v) = earlyView v" "runView (quiet v) = runView v"
  "outsideSync r w ds (quiet v) = outsideSync r w ds v"
  by (simp_all add: quiet_def syncAt_def lookup_def earlyView_def runView_def outsideSync_def backupStatuses_def fun_eq_iff)

definition quietInv :: "(world \<Rightarrow> bool) \<Rightarrow> bool" where
  "quietInv I \<longleftrightarrow> (\<forall>v. I (quiet v) = I v)"

lemma quiet_invs: "quietInv (atEarly r w ds)" "quietInv (atRead r w ds)" "quietInv (atLate r w ds)" "quietInv (atDone r w ds)"
  by (simp_all add: quietInv_def atEarly_def atRead_def atLate_def atDone_def of_quiet)

lemma wp_quiet:
  assumes "state_io_rel quietF.same m" and "quietInv I" and "I v" and "\<And>x u. I u \<Longrightarrow> Q x u"
  shows "wp m Q v"
proof (rule wp_mono [OF wp_io [OF assms(1)]])
  fix x u assume "quietF.same v u"
  then have "quiet u = quiet v" by (simp add: quietF.same_def)
  with assms(2,3) have "I u" unfolding quietInv_def by metis
  then show "Q x u" by (rule assms(4))
qed

section \<open>The reads of the controller\<close>

context world_frame
begin

lemma frame_delete: "(\<And>xs w. proj (k_put K xs w) = proj w) \<Longrightarrow> state_io_rel same (apiDelete t K k)"
  unfolding apiDelete_def storeDelete_def
  by (rule rel_faulty, rule state_io_relI) (auto simp: same_def replaceObj_def split: option.splits if_splits)

lemma frame_kubeClientSet: "state_io_rel same (GetKubeClientSet c)"
  unfolding GetKubeClientSet_def by (intro rel_intros)

lemma frame_storage: "state_io_rel same (ensureStorageRepositoryReady r ns n)"
  unfolding ensureStorageRepositoryReady_def Let_def by (intro rel_intros)

lemma frame_shouldPreflight: "state_io_rel same (shouldRunNoPVCPreflight r ds)"
  unfolding shouldRunNoPVCPreflight_def Let_def by (intro rel_intros)

lemma frame_veleroRuntime: "state_io_rel same (ensureDataSyncTrafficlessRuntime c role b)"
  unfolding ensureDataSyncTrafficlessRuntime_def ValidateTrafficlessVeleroRuntime_def Let_def
  by (intro rel_intros frame_kubeClientSet)

lemma frame_discoverNamespace: "state_io_rel same (discoverNamespace c i sel ns vs)"
  unfolding discoverNamespace_def Let_def by (intro rel_intros)

lemma frame_discover: "state_io_rel same (discoverDataSyncVolumePlan r c i)"
  unfolding discoverDataSyncVolumePlan_def by (intro rel_intros frame_discoverNamespace)

lemma frame_matchNamespace: "state_io_rel same (matchNamespace r ds n scope c ns ps)"
  unfolding matchNamespace_def Let_def by (intro rel_intros)

lemma frame_verifyVolumes: "state_io_rel same (verifyDataSyncPodVolumeRestores r cfg i ar)"
  unfolding verifyDataSyncPodVolumeRestores_def lift_def Let_def by (intro rel_intros frame_kubeClientSet)

lemma frame_unbound: "state_io_rel same (unboundClaim c ks)"
  by (induction ks) (auto simp: Let_def intro!: rel_intros)

lemma frame_verifyClaims: "state_io_rel same (verifyDataSyncTargetPVCsReady r cfg i)"
  unfolding verifyDataSyncTargetPVCsReady_def Let_def by (intro rel_intros frame_kubeClientSet frame_discover frame_unbound)

lemma frame_syncEdges: "state_io_rel same (dsSyncDependencyLabels r ds)"
  unfolding dsSyncDependencyLabels_def Let_def by (intro rel_intros)

lemma frame_syncStatistics: "(\<And>xs w. proj (w\<lparr>w_stats := xs\<rparr>) = proj w) \<Longrightarrow> state_io_rel same (dsSyncStatistics ds)"
  unfolding dsSyncStatistics_def Let_def
  by (intro rel_intros rel_createOrUpdate frame_update frame_statusUpdate frame_create) simp_all

end

lemma quiet_stats: "quiet (w\<lparr>w_stats := xs\<rparr>) = quiet w"
  by (simp add: quiet_def)

lemmas quiet_reads = quietF.frame_kubeClientSet quietF.frame_storage quietF.frame_shouldPreflight quietF.frame_veleroRuntime
  quietF.frame_discover quietF.frame_matchNamespace quietF.frame_verifyVolumes quietF.frame_verifyClaims quietF.frame_syncEdges
  quietF.frame_syncStatistics [OF quiet_stats]

text \<open>A quiet action keeps the invariant and hands it to what follows.\<close>

lemma wp_quiet_bind:
  assumes "state_io_rel quietF.same m" and "quietInv I" and "I v" and "\<And>x u. I u \<Longrightarrow> wp (f x) Q u"
  shows "wp (State_Monad.bind m f) Q v"
  unfolding wp_bind using assms by (rule wp_quiet)

section \<open>Writes\<close>

interpretation outF: world_frame "outsideSync r w ds" for r w ds
  by unfold_locales (simp_all add: outsideSync_def)

interpretation ownDs: key_frame "outsideSync r w ds" dsKind "\<lambda>q. q = syncKey ds" for r w ds
  by unfold_locales (simp_all add: dsK.meta_setMeta outsideSync_def)

interpretation ownBackup: key_frame "outsideSync r w ds" appBackupKind "\<lambda>q. q = (syncNs ds, appBackupNameOf ds)" for r w ds
  by unfold_locales (simp_all add: appBackupK.meta_setMeta outsideSync_def)

interpretation ownRestore: key_frame "outsideSync r w ds" restoreKind
    "\<lambda>q. q = (syncNs ds, dataSyncRestoreName (sy_base r) ds (ss_lastBackupName (so_status ds)))" for r w ds
  by unfold_locales (simp_all add: restoreK.meta_setMeta outsideSync_def)

interpretation ownPod: key_frame "outsideSync r w ds" "podKind c" "\<lambda>q. q \<in> ownPodKeys r w ds c" for r w ds c
  by unfold_locales (auto simp: podK.meta_setMeta outsideSync_def fun_eq_iff)

interpretation ownNames: pull_secret_frame "outsideSync r w ds" c "restoreNames w ds c" for r w ds c
  by unfold_locales (auto simp: outsideSync_def fun_eq_iff)

interpretation syncI: world_inv "syncAt k P" for k P
  by unfold_locales (simp_all add: syncAt_def)

interpretation dsF: world_frame w_ds
  by unfold_locales simp_all

lemma sync_frame_keeps: "state_io_rel dsF.same m \<Longrightarrow> state_io_rel (syncI.keeps k P) m"
  by (rule syncI.keeps_wp, rule wp_mono, erule dsF.wp_same, simp add: syncAt_def lookup_def)

lemma sync_meta [simp]: "so_status (bumpRv dsKind s x) = so_status x" "so_spec (bumpRv dsKind s x) = so_spec x"
  "m_uid (so_meta (bumpRv dsKind s x)) = m_uid (so_meta s)" "syncKey (bumpRv dsKind s x) = syncKey s"
  "so_status (k_mergeStatus dsKind s x) = so_status x" "so_status (k_mergeSpec dsKind s x) = so_status s"
  "so_spec (k_mergeStatus dsKind s x) = so_spec s" "so_spec (k_mergeSpec dsKind s x) = so_spec x"
  by (simp_all add: bumpRv_def dsKind_def syncKey_def metaKey_def)

lemma keyOf_sync [simp]: "keyOf dsKind x = syncKey x"
  by (simp add: keyOf_def syncKey_def)

text \<open>The write of a status ends the reconcile's hold on the object.\<close>

lemma syncAt_replace:
  assumes "syncAt k P w" and "lookup dsKind w (syncKey x) = Some s" and "P s \<Longrightarrow> syncKey s = k \<Longrightarrow> Q (bumpRv dsKind s y)" and "\<And>d. P d \<Longrightarrow> Q d"
  shows "syncAt k Q (replaceObj dsKind (bumpRv dsKind s y) w)"
proof -
  have "syncKey s = syncKey x" using dsK.lookup_key [OF assms(2)] by simp
  with assms show ?thesis by (auto simp: syncAt_def dsK.lookup_replaceObj)
qed

lemma wp_both: "wp m (\<lambda>_. P) v \<Longrightarrow> wp m (\<lambda>_. Q) v \<Longrightarrow> wp m (\<lambda>_ u. P u \<and> Q u) v"
  by (rule wp_conj)

lemma wp_outside: "state_io_rel (outF.same r w ds) m \<Longrightarrow> outsideSync r w ds v = outsideSync r w ds w \<Longrightarrow>
    wp m (\<lambda>_ u. outsideSync r w ds u = outsideSync r w ds w) v"
  by (rule wp_mono, erule outF.wp_same) simp

lemma wp_saveStatus:
  assumes "atLate r w ds v" and "syncKey x = syncKey ds" and "runMoves r w ds (so_status x)"
  shows "wp (apiStatusUpdate dsKind x) (\<lambda>_. atDone r w ds) v"
proof -
  have s: "syncAt (syncKey ds) (untouched ds) v" and o': "outsideSync r w ds v = outsideSync r w ds w"
    using assms(1) by (simp_all add: atLate_def)
  have "wp (apiStatusUpdate dsKind x) (\<lambda>_. syncAt (syncKey ds) (moved r w ds)) v"
  proof (rule wp_apiStatusUpdate, goal_cases)
    case (1 e fs)
    with s show ?case by (auto simp: syncAt_def untouched_def moved_def moves_refl)
  next
    case (2 t fs)
    have "syncAt (syncKey ds) (untouched ds) (v\<lparr>w_faults := fs\<rparr>)" using s by (simp add: syncAt_def)
    from syncAt_replace [OF this, of x t "moved r w ds" "k_mergeStatus dsKind t x"] 2(1) assms(3)
    show ?case by (simp add: Let_def untouched_def moved_def moves_refl)
  qed
  moreover have "wp (apiStatusUpdate dsKind x) (\<lambda>_ u. outsideSync r w ds u = outsideSync r w ds w) v"
    by (rule wp_outside [OF ownDs.hidden_statusUpdate o']) (simp add: assms(2))
  ultimately show ?thesis unfolding atDone_def by (rule wp_both)
qed

lemma wp_endRun:
  assumes "atLate r w ds v" and "syncKey x = syncKey ds" and "runMoves r w ds (f (so_status x))"
  shows "wp (endRun f x) (\<lambda>_. atDone r w ds) v"
proof -
  have saved: "wp (apiStatusUpdate dsKind (mapSyncStatus f x)) (\<lambda>_. atDone r w ds) v"
    by (rule wp_saveStatus [OF assms(1)]) (use assms in \<open>simp_all add: mapSyncStatus_def syncKey_def\<close>)
  have tail: "state_io_rel quietF.same (do { _ \<leftarrow> dsSyncStatistics y; emit a b; ok done_result })" for y a b
    by (intro quietF.rel_intros quiet_reads)
  show ?thesis
    unfolding endRun_def wp_chk using saved
  proof (rule wp_mono)
    fix y u assume "atDone r w ds u"
    then show "case y of Inl e \<Rightarrow> atDone r w ds u | Inr z \<Rightarrow>
        wp (do { _ \<leftarrow> dsSyncStatistics z; emit (syncName x) ''ExecutionFinished''; ok done_result }) (\<lambda>_. atDone r w ds) u"
      by (cases y) (simp_all del: wp_bind add: wp_quiet [OF tail quiet_invs(4)])
  qed
qed

text \<open>What a status transformation must do to be the write of a reconcile.\<close>

definition edgeWrite :: "syncReconciler \<Rightarrow> world \<Rightarrow> SyncObject \<Rightarrow> (SyncStatus \<Rightarrow> SyncStatus) \<Rightarrow> bool" where
  "edgeWrite r w ds f \<longleftrightarrow> runMoves r w ds (f (so_status ds))"

lemma sameSync_key: "sameSync ds x \<Longrightarrow> syncKey x = syncKey ds"
  by (simp add: sameSync_def)

lemma sameSync_names:
  assumes "sameSync ds x"
  shows "syncNs x = syncNs ds" "syncName x = syncName ds" "so_status x = so_status ds" "so_spec x = so_spec ds"
    "appBackupNameOf x = appBackupNameOf ds" "dataSyncRestoreName q x b = dataSyncRestoreName q ds b" "ownsPod q x n s p = ownsPod q ds n s p"
    "bearsToken q x p = bearsToken q ds p"
    "shouldSync r x = shouldSync r ds"
  using assms
  by (simp_all add: sameSync_def syncKey_def metaKey_def syncNs_def syncName_def appBackupNameOf_def dataSyncRestoreName_def ownsPod_def bearsToken_def
      dataSyncTrafficlessOwnerToken_def dataSyncTrafficlessOwnerUID_def shouldSync_def Let_def)

lemma sameSync_refl: "sameSync ds ds"
  by (simp add: sameSync_def)

lemma phase_ended [simp]: "phaseOf (s\<lparr>ss_state := SyncFailed, ss_lastSyncTime := t, ss_reason := a, ss_message := m, ss_conditions := cs\<rparr>) = Broken"
  by (simp add: phaseOf_def)

lemma wp_fail:
  assumes "shouldSync r ds" and "phaseOf (so_status ds) \<noteq> Fresh" and "atLate r w ds v" and "sameSync ds x"
  shows "wp (failDataSync r reason msg x) (\<lambda>_. atDone r w ds) v"
  unfolding failDataSync_def
proof (rule wp_endRun [OF assms(3) sameSync_key [OF assms(4)]])
  show "runMoves r w ds (failedStatus r reason msg (so_status x))"
    using runEdge.aborted [OF assms(1,2)] by (simp add: sameSync_names(3) [OF assms(4)] runMoves_def failedStatus_def phaseOf_def endsRun_def)
qed

lemma wp_orFail:
  assumes "shouldSync r ds" and "phaseOf (so_status ds) \<noteq> Fresh" and "sameSync ds x"
    and "wp m (\<lambda>y u. (\<forall>e. y = Inl e \<longrightarrow> atLate r w ds u) \<and> (\<forall>z. y = Inr z \<longrightarrow> wp (f z) (\<lambda>_. atDone r w ds) u)) v"
  shows "wp (orFailSync r reason msg x m f) (\<lambda>_. atDone r w ds) v" "wp (orFailLifecycle r fb x m f) (\<lambda>_. atDone r w ds) v"
  unfolding orFailSync_def orFailLifecycle_def wp_bind
  by (rule wp_mono [OF assms(4)], auto simp: Let_def split: sum.splits prod.splits intro: wp_fail [OF assms(1,2) _ assms(3)])+

lemma wp_saveMeta:
  assumes "atLate r w ds v" and "sameSync ds x"
  shows "wp (apiUpdate dsKind x) (\<lambda>y u. atLate r w ds u \<and> (\<forall>z. y = Inr z \<longrightarrow> sameSync ds z)) v"
proof -
  have s: "syncAt (syncKey ds) (untouched ds) v" and o': "outsideSync r w ds v = outsideSync r w ds w"
    using assms(1) by (simp_all add: atLate_def)
  have k: "syncKey x = syncKey ds" "so_spec x = so_spec ds" using assms(2) by (simp_all add: sameSync_def)
  have "wp (apiUpdate dsKind x) (\<lambda>y u. syncAt (syncKey ds) (untouched ds) u \<and> (\<forall>z. y = Inr z \<longrightarrow> sameSync ds z)) v"
  proof (rule wp_apiUpdate, goal_cases)
    case (1 e fs)
    with s show ?case by (simp add: syncAt_def)
  next
    case (2 t fs)
    have at: "syncAt (syncKey ds) (untouched ds) (v\<lparr>w_faults := fs\<rparr>)" using s by (simp add: syncAt_def)
    have t: "untouched ds t" "syncKey t = syncKey ds" using at 2(1) k(1) dsK.lookup_key [OF 2(1)] by (auto simp: syncAt_def)
    have "syncAt (syncKey ds) (untouched ds) (replaceObj dsKind (bumpRv dsKind t (k_mergeSpec dsKind t x)) (v\<lparr>w_faults := fs\<rparr>))"
      by (rule syncAt_replace [OF at, of x]) (use 2(1) t k in \<open>simp_all add: untouched_def\<close>)
    moreover have "sameSync ds (bumpRv dsKind t (k_mergeSpec dsKind t x))"
      using t k by (simp add: sameSync_def untouched_def)
    ultimately show ?case by (simp add: Let_def)
  qed
  moreover have "wp (apiUpdate dsKind x) (\<lambda>_ u. outsideSync r w ds u = outsideSync r w ds w) v"
    by (rule wp_outside [OF ownDs.hidden_update o']) (simp add: k)
  ultimately show ?thesis unfolding atLate_def by (rule wp_mono [OF wp_conj]) auto
qed

text \<open>An action that does not write syncs and keeps to the outside keeps the late invariant.\<close>

lemma wp_late:
  assumes "state_io_rel (outF.same r w ds) m" and "state_io_rel dsF.same m" and "atLate r w ds v" and "\<And>y u. atLate r w ds u \<Longrightarrow> Q y u"
  shows "wp m Q v"
proof -
  have "wp m (\<lambda>_. syncAt (syncKey ds) (untouched ds)) v"
    by (rule syncI.wp_keeps [OF sync_frame_keeps [OF assms(2)]]) (use assms(3) in \<open>simp add: atLate_def\<close>)
  moreover have "wp m (\<lambda>_ u. outsideSync r w ds u = outsideSync r w ds w) v"
    by (rule wp_outside [OF assms(1)]) (use assms(3) in \<open>simp add: atLate_def\<close>)
  ultimately have "wp m (\<lambda>_. atLate r w ds) v" unfolding atLate_def by (rule wp_both)
  then show ?thesis by (rule wp_mono) (rule assms(4))
qed

lemma wp_forEach_acc:
  assumes "\<And>x s u. x \<in> set xs \<Longrightarrow> I u \<Longrightarrow> P s \<Longrightarrow> wp (f x s) (\<lambda>y u. I u \<and> (\<forall>z. y = Inr z \<longrightarrow> P z)) u" and "I v" and "P s"
  shows "wp (forEach f xs s) (\<lambda>y u. I u \<and> (\<forall>z. y = Inr z \<longrightarrow> P z)) v"
  using assms
proof (induction xs arbitrary: s v)
  case (Cons x xs)
  have IH: "wp (forEach f xs z) (\<lambda>y u. I u \<and> (\<forall>z. y = Inr z \<longrightarrow> P z)) u" if "I u" "P z" for z u
    by (rule Cons.IH) (use Cons.prems(1) that in auto)
  have "wp (f x s) (\<lambda>y u. I u \<and> (\<forall>z. y = Inr z \<longrightarrow> P z)) v" using Cons.prems by simp
  then show ?case by (simp, elim wp_mono) (auto intro: IH split: sum.splits)
qed simp

text \<open>Two ways to go on after an action.\<close>

lemma wp_bindI: "wp m P v \<Longrightarrow> (\<And>y u. P y u \<Longrightarrow> wp (f y) Q u) \<Longrightarrow> wp (State_Monad.bind m f) Q v"
  unfolding wp_bind by (rule wp_mono)

lemma wp_chkI2: "wp m P v \<Longrightarrow> (\<And>e u. P (Inl e) u \<Longrightarrow> Q (Inl e) u) \<Longrightarrow> (\<And>z u. P (Inr z) u \<Longrightarrow> wp (f z) Q u) \<Longrightarrow> wp (chk m f) Q v"
  unfolding wp_chk by (erule wp_mono) (auto split: sum.splits)

section \<open>Removing pods\<close>

lemma ownsPod_bears: "ownsPod q x n s p \<Longrightarrow> bearsToken q x p"
  by (auto simp: ownsPod_def bearsToken_def split: if_splits)

definition ownPods :: "syncReconciler \<Rightarrow> world \<Rightarrow> SyncObject \<Rightarrow> string \<Rightarrow> Pod list \<Rightarrow> bool" where
  "ownPods r w ds c ps \<longleftrightarrow> (\<forall>p \<in> set ps. metaKey (pod_meta p) \<in> ownPodKeys r w ds c)"

lemma runView_sel:
  "w_pods (fst (runView v)) = w_pods v" "w_pvcs (fst (runView v)) = w_pvcs v" "w_pvrs (fst (runView v)) = w_pvrs v"
  "w_restores (fst (runView v)) = w_restores v" "w_insts (fst (runView v)) = w_insts v" "w_cfgs (fst (runView v)) = w_cfgs v"
  "snd (runView v) = backupStatuses v"
  by (simp_all add: runView_def)

lemma runView_eq:
  assumes "runView v = runView w"
  shows "w_pods v = w_pods w" "w_pvcs v = w_pvcs w" "w_pvrs v = w_pvrs w" "w_restores v = w_restores w" "w_insts v = w_insts w"
    "w_cfgs v = w_cfgs w" "backupStatuses v = backupStatuses w"
  using assms by (metis runView_sel)+

lemma read_view: "atRead r w ds v \<Longrightarrow> runView v = runView w"
  by (simp add: atRead_def)

lemma wp_matchNamespace:
  assumes "atRead r w ds v" and "sameSync ds x" and "map_option snd (clustersOf w ds) = Some c" and "ownPods r w ds c ps"
  shows "wp (matchNamespace (sy_base r) x n scope c ns ps) (\<lambda>y u. atRead r w ds u \<and> (\<forall>z. y = Inr z \<longrightarrow> ownPods r w ds c z)) v"
proof -
  have listed: "wp (apiListRaw (\<lambda>w. w_pods w c) (\<lambda>p. inNamespace (podKind c) nn p \<and> ownsPod (sy_base r) x n scope p))
      (\<lambda>y u. atRead r w ds u \<and> (\<forall>z. y = Inr z \<longrightarrow> ownPods r w ds c z)) u" if u: "atRead r w ds u" for u nn
  proof (rule wp_conj [OF wp_quiet [OF quietF.rel_apiListRaw quiet_invs(2) u]])
    have pods: "w_pods u c = w_pods w c" using runView_eq(1) [OF read_view [OF u]] by simp
    show "wp (apiListRaw (\<lambda>w. w_pods w c) (\<lambda>p. inNamespace (podKind c) nn p \<and> ownsPod (sy_base r) x n scope p))
        (\<lambda>y _. \<forall>z. y = Inr z \<longrightarrow> ownPods r w ds c z) u"
      using assms(3) ownsPod_bears [of "sy_base r" x n scope]
      by (intro wp_apiListRaw) (auto simp: ownPods_def ownPodKeys_def pods sameSync_names(8) [OF assms(2)])
  qed
  have app: "ownPods r w ds c (ps @ z)" if "ownPods r w ds c z" for z
    using that assms(4) by (auto simp: ownPods_def)
  show ?thesis
    unfolding matchNamespace_def Let_def
    using assms(1,4)
    by (auto simp: app simp del: wp_bind intro!: wp_quiet_bind [OF quietF.rel_apiList quiet_invs(2)] wp_bindI [OF listed]
        split: sum.splits option.splits if_splits)
qed

lemma wp_deletePods:
  assumes "atLate r w ds v" and "ownPods r w ds c ps"
  shows "wp (forEach (\<lambda>p _. deleteScopedPod q c p) ps ()) (\<lambda>_. atLate r w ds) v"
proof -
  have one: "state_io_rel (outF.same r w ds) (deleteScopedPod q c p)" if "p \<in> set ps" for p
    unfolding deleteScopedPod_def using assms(2) that
    by (intro outF.rel_intros ownPod.hidden_delete) (simp add: ownPods_def)
  have two: "state_io_rel dsF.same (deleteScopedPod q c p)" for p
    unfolding deleteScopedPod_def
    by (intro dsF.rel_intros dsF.frame_delete) simp
  show ?thesis
    by (rule wp_late [OF outF.rel_forEach dsF.rel_forEach assms(1)]) (auto intro: one two)
qed

text \<open>The contract of a cleanup.\<close>

definition cleaned :: "syncReconciler \<Rightarrow> world \<Rightarrow> SyncObject \<Rightarrow> SyncObject \<times> bool \<times> (err + bool) \<Rightarrow> world \<Rightarrow> bool" where
  "cleaned r w ds y u \<longleftrightarrow> atLate r w ds u \<and> sameSync ds (fst y)"

lemma sameSync_annotation: "sameSync ds x \<Longrightarrow> sameSync ds (setAnnotation a t x)" "sameSync ds x \<Longrightarrow> sameSync ds (dropAnnotation a x)"
  by (simp_all add: sameSync_def setAnnotation_def dropAnnotation_def syncKey_def metaKey_def)

lemma wp_removePods:
  assumes "atLate r w ds v" and "ownPods r w ds c ps" and "sameSync ds x"
  shows "wp (removePods r x c scope ps) (cleaned r w ds) v"
  unfolding removePods_def Let_def
  using assms sameSync_annotation
  by (auto simp: cleaned_def simp del: wp_bind intro!: wp_bindI [OF wp_deletePods])

lemma wp_cleanup:
  assumes "atRead r w ds v" and "sameSync ds x" and "clustersOf w ds = Some (resolveClusters i cfg)"
  shows "wp (reconcileTrafficlessPodCleanup r x cfg i n scope) (cleaned r w ds) v"
proof -
  let ?c = "snd (resolveClusters i cfg)"
  have c: "map_option snd (clustersOf w ds) = Some ?c" using assms(3) by simp
  have matched: "wp (forEach (matchNamespace (sy_base r) x n scope ?c) nss [])
      (\<lambda>y u. atRead r w ds u \<and> (\<forall>z. y = Inr z \<longrightarrow> ownPods r w ds ?c z)) u" if "atRead r w ds u" for u nss
    by (rule wp_forEach_acc [OF wp_matchNamespace [OF _ assms(2) c] that]) (simp_all add: ownPods_def)
  show ?thesis
    unfolding reconcileTrafficlessPodCleanup_def Let_def
    using assms(1,2) sameSync_annotation(2) [OF assms(2)]
    by (auto simp: cleaned_def read_late simp del: wp_bind
        intro!: wp_quiet_bind [OF quietF.frame_kubeClientSet quiet_invs(2)] wp_bindI [OF matched]
          wp_removePods [OF read_late] split: sum.splits if_splits)
qed

lemma wp_withCleanup:
  assumes "wp m (cleaned r w ds) v"
    and "\<And>x res u. atLate r w ds u \<Longrightarrow> sameSync ds x \<Longrightarrow> wp (f x res) (\<lambda>_. atDone r w ds) u"
  shows "wp (withCleanup m f) (\<lambda>_. atDone r w ds) v"
  unfolding withCleanup_def
proof (rule wp_bindI [OF assms(1)])
  fix y u assume "cleaned r w ds y u"
  then have y: "atLate r w ds u" "sameSync ds (fst y)" by (simp_all add: cleaned_def)
  have "wp (chk (apiUpdate dsKind (fst y)) (\<lambda>x. f x res)) (\<lambda>_. atDone r w ds) u" for res
    by (rule wp_chkI2 [OF wp_saveMeta [OF y]]) (auto intro: late_done assms(2))
  then show "wp (case y of (x, changed, res) \<Rightarrow> if changed then chk (apiUpdate dsKind x) (\<lambda>z. f z res) else f x res) (\<lambda>_. atDone r w ds) u"
    using assms(2) [OF y] by (auto simp del: wp_chk split: prod.split)
qed

section \<open>Starting the restore\<close>

lemma frame_buildSpec:
  assumes "clustersOf w ds = Some (resolveClusters i cfg)" and "instanceOf w ds = Some i"
  shows "state_io_rel (outF.same r w ds) (buildDataAppRestoreSpec r x cfg i b)"
proof -
  let ?c = "snd (resolveClusters i cfg)"
  have names: "restoreNames w ds ?c = trimSpace ` set (di_namespaces (in_spec i))" using assms by (simp add: restoreNames_def)
  have "n \<in> restoreNames w ds ?c \<and> trimSpace n \<in> restoreNames w ds ?c"
    if "n \<in> set (TrafficlessRestoreNamespaces (di_namespaces (in_spec i)) [])" for n
    using that set_restoreNamespaces [of "di_namespaces (in_spec i)" "[]"] by (auto simp: names)
  then have secret: "state_io_rel (outF.same r w ds) (SyncTrafficlessRegistryPullSecret mns ?c cl (di_namespaces (in_spec i)))"
    if "\<And>x. cl = Some x \<Longrightarrow> m_name (cl_meta x) = trimSpace ?c" for mns cl
    using that by (rule ownNames.frame_syncSecret)
  show ?thesis
    unfolding buildDataAppRestoreSpec_def Let_def
    by (rule outF.rel_chk_result [OF runtime_cluster outF.frame_resolveRuntime], split prod.split)
      (auto intro!: outF.rel_intros outF.frame_kubeClientSet outF.frame_applyPolicy secret)
qed

context world_frame
begin

lemma frame_anySecret:
  assumes "\<And>c xs w. proj (w\<lparr>w_nss := (w_nss w)(c := xs)\<rparr>) = proj w" and "\<And>c xs w. proj (w\<lparr>w_secrets := (w_secrets w)(c := xs)\<rparr>) = proj w"
  shows "state_io_rel same (SyncTrafficlessRegistryPullSecret mns c cl nss)"
  unfolding SyncTrafficlessRegistryPullSecret_def ensureTrafficlessNamespace_def upsertTrafficlessRegistrySecret_def Let_def
  by (intro rel_intros frame_create frame_update) (simp_all add: assms)

end

lemma frame_buildSpec_ds: "state_io_rel dsF.same (buildDataAppRestoreSpec r x cfg i b)"
  unfolding buildDataAppRestoreSpec_def Let_def
  by (intro dsF.rel_intros dsF.frame_resolveRuntime dsF.frame_kubeClientSet dsF.frame_applyPolicy dsF.frame_anySecret) simp_all

text \<open>The status a failed build writes aborts the run.\<close>

lemma wp_buildFailed:
  assumes "shouldSync r ds" and "phaseOf (so_status ds) \<noteq> Fresh" and "atLate r w ds v" and "sameSync ds x"
  shows "wp (restoreBuildFailed r x b n e) (\<lambda>_. atDone r w ds) v"
proof -
  have "runMoves r w ds (buildFailedStatus r ab b n m (so_status x))" for ab m
    using runEdge.aborted [OF assms(1,2)] by (simp add: sameSync_names(3) [OF assms(4)] runMoves_def buildFailedStatus_def phaseOf_def endsRun_def)
  then have "wp (endRun (buildFailedStatus r ab b n m) x) (\<lambda>_. atDone r w ds) u" if "atLate r w ds u" for ab m u
    by (intro wp_endRun [OF that sameSync_key [OF assms(4)]])
  then show ?thesis
    unfolding restoreBuildFailed_def
    by (intro wp_quiet_bind [OF quietF.rel_emit quiet_invs(3) assms(3)] wp_quiet_bind [OF quietF.rel_apiGet quiet_invs(3)])
qed

text \<open>The library function that sets the controller reference changes the owners only.\<close>

definition keepsKey :: "(ObjectMeta \<Rightarrow> ObjectMeta \<Rightarrow> err + ObjectMeta) \<Rightarrow> bool" where
  "keepsKey f \<longleftrightarrow> (\<forall>owner m. case f owner m of Inl _ \<Rightarrow> True | Inr m' \<Rightarrow> metaKey m' = metaKey m)"

lemma keepsKeyD: "keepsKey f \<Longrightarrow> f owner m = Inr m' \<Longrightarrow> metaKey m' = metaKey m"
  unfolding keepsKey_def by (drule spec [of _ owner], drule spec [of _ m]) simp

lemma summary_key: "metaKey (ApplyPolicySummaryAnnotations s m) = metaKey m"
  by (simp add: ApplyPolicySummaryAnnotations_def metaKey_def)

lemma appRestore_key:
  assumes "keepsKey (sy_setController r)" and "dataSyncAppRestore r x n spec s = Inr ar"
  shows "keyOf restoreKind ar = (syncNs x, n)"
proof -
  from assms(2) obtain m where "sy_setController r (so_meta x) (ApplyPolicySummaryAnnotations s
      ((newMeta (syncNs x) n)\<lparr>m_labels := dataSyncTrafficlessAppRestoreLabels (sy_base r) x n\<rparr>)) = Inr m" and "ar_meta ar = m"
    by (auto simp: dataSyncAppRestore_def andThen_Inr_iff)
  then have "metaKey (ar_meta ar) = metaKey ((newMeta (syncNs x) n)\<lparr>m_labels := dataSyncTrafficlessAppRestoreLabels (sy_base r) x n\<rparr>)"
    using keepsKeyD [OF assms(1)] summary_key by metis
  then show ?thesis by (simp add: keyOf_def metaKey_def newMeta_def)
qed

lemma wp_lift: "(\<And>e. Q (Inl e) v) \<Longrightarrow> (\<And>y. x = Inr y \<Longrightarrow> Q (Inr y) v) \<Longrightarrow> wp (lift x) Q v"
  by (cases x) (simp_all add: lift_def)

lemma wp_createRestore:
  assumes "keepsKey (sy_setController r)" and "atLate r w ds v" and "sameSync ds x"
    and "n = dataSyncRestoreName (sy_base r) ds (ss_lastBackupName (so_status ds))"
  shows "wp (createRestore r x n spec s) (\<lambda>_. atDone r w ds) v"
  unfolding createRestore_def
proof (rule wp_chkI2 [where P = "\<lambda>y u. atLate r w ds u \<and> (\<forall>ar. y = Inr ar \<longrightarrow> dataSyncAppRestore r x n spec s = Inr ar)"])
  show "wp (lift (dataSyncAppRestore r x n spec s)) (\<lambda>y u. atLate r w ds u \<and> (\<forall>ar. y = Inr ar \<longrightarrow> dataSyncAppRestore r x n spec s = Inr ar)) v"
    using assms(2) by (intro wp_lift) simp_all
next
  fix ar u assume a: "atLate r w ds u \<and> (\<forall>z. Inr ar = Inr z \<longrightarrow> dataSyncAppRestore r x n spec s = Inr z)"
  then have "keyOf restoreKind ar = (syncNs x, n)" using appRestore_key [OF assms(1), of x n spec s ar] by simp
  then have key: "keyOf restoreKind ar = (syncNs ds, n)" by (simp add: sameSync_names(1) [OF assms(3)])
  have created: "wp (apiCreate restoreKind ar) (\<lambda>_. atLate r w ds) u"
    by (rule wp_late [OF ownRestore.hidden_create dsF.frame_create]) (use a key assms(4) in \<open>simp_all\<close>)
  have saved: "wp (apiStatusUpdate dsKind (mapSyncStatus (\<lambda>y. y\<lparr>ss_lastRestoreName := n\<rparr>) x)) (\<lambda>_. atDone r w ds) t" if "atLate r w ds t" for t
    by (rule wp_saveStatus [OF that])
      (use assms(3) in \<open>simp_all add: mapSyncStatus_def sameSync_def syncKey_def runMoves_def phaseOf_def split: SyncState.splits\<close>)
  have "wp (do { emit (syncName x) ''ExecutionProgress''; emit (syncName x) ''ExecutionProgress'';
      chk (apiStatusUpdate dsKind (mapSyncStatus (\<lambda>y. y\<lparr>ss_lastRestoreName := n\<rparr>) x)) (\<lambda>_. ok requeue_result) }) (\<lambda>_. atDone r w ds) t"
    if "atLate r w ds t" for t
    by (rule wp_quiet_bind [OF quietF.rel_emit quiet_invs(3) that], rule wp_quiet_bind [OF quietF.rel_emit quiet_invs(3)], assumption)
      (rule wp_chkI2 [OF saved], simp_all)
  then show "wp (chk (apiCreate restoreKind ar) (\<lambda>_. do { emit (syncName x) ''ExecutionProgress''; emit (syncName x) ''ExecutionProgress'';
      chk (apiStatusUpdate dsKind (mapSyncStatus (\<lambda>y. y\<lparr>ss_lastRestoreName := n\<rparr>) x)) (\<lambda>_. ok requeue_result) })) (\<lambda>_. atDone r w ds) u"
    by (intro wp_chkI2 [OF created]) (auto intro: late_done)
qed (auto intro: late_done)

lemma wp_wait: "atLate r w ds v \<Longrightarrow> wp (waitForCleanup q x) (\<lambda>_. atDone r w ds) v"
  unfolding waitForCleanup_def
  by (rule wp_quiet_bind [OF quietF.rel_emit quiet_invs(3)]) (auto intro: late_done)

text \<open>What is known of a reconcile in the middle of a run.\<close>

definition running :: "syncReconciler \<Rightarrow> world \<Rightarrow> SyncObject \<Rightarrow> DisasterInstance \<Rightarrow> DisasterConfig \<Rightarrow> bool" where
  "running r w ds i cfg \<longleftrightarrow> keepsKey (sy_setController r) \<and> shouldSync r ds \<and> phaseOf (so_status ds) \<noteq> Fresh \<and>
     instanceOf w ds = Some i \<and> configOf w ds = Some cfg"

lemma runningD:
  assumes "running r w ds i cfg"
  shows "keepsKey (sy_setController r)" "shouldSync r ds" "phaseOf (so_status ds) \<noteq> Fresh" "instanceOf w ds = Some i"
    "clustersOf w ds = Some (resolveClusters i cfg)"
  using assms by (simp_all add: running_def clustersOf_def)

lemma wp_startRestore:
  assumes "running r w ds i cfg" and "atRead r w ds v" and "sameSync ds x"
    and "n = dataSyncRestoreName (sy_base r) ds (ss_lastBackupName (so_status ds))"
  shows "wp (startRestore r x cfg i b n) (\<lambda>_. atDone r w ds) v"
proof -
  note R = runningD [OF assms(1)]
  have built: "wp (do { z \<leftarrow> buildDataAppRestoreSpec r y cfg i b;
        (case z of Inl e \<Rightarrow> restoreBuildFailed r y b n e | Inr (spec, s) \<Rightarrow> createRestore r y n spec s) }) (\<lambda>_. atDone r w ds) u"
    if "atLate r w ds u" and "sameSync ds y" for y u
  proof (rule wp_bindI [OF wp_late [OF frame_buildSpec [OF R(5,4)] frame_buildSpec_ds that(1)]])
    fix z t assume "atLate r w ds t"
    then show "wp (case z of Inl e \<Rightarrow> restoreBuildFailed r y b n e | Inr (spec, s) \<Rightarrow> createRestore r y n spec s) (\<lambda>_. atDone r w ds) t"
      using wp_buildFailed [OF R(2,3) _ that(2)] wp_createRestore [OF R(1) _ that(2) assms(4)] by (auto split: sum.split prod.split)
  qed
  have after: "wp (orFailLifecycle r dataSyncReasonTrafficlessCleanupFailed y (lift res) (\<lambda>gone.
      if \<not> gone then waitForCleanup r y else do { z \<leftarrow> buildDataAppRestoreSpec r y cfg i b;
        (case z of Inl e \<Rightarrow> restoreBuildFailed r y b n e | Inr (spec, s) \<Rightarrow> createRestore r y n spec s) })) (\<lambda>_. atDone r w ds) u"
    if "atLate r w ds u" and "sameSync ds y" for y res u
    by (rule wp_orFail(2) [OF R(2,3) that(2)], rule wp_lift)
      (use that built [OF that] wp_wait [OF that(1)] in \<open>auto simp del: wp_bind\<close>)
  show ?thesis
    unfolding startRestore_def
    by (rule wp_orFail(2) [OF R(2,3) assms(3)], rule wp_quiet [OF quietF.frame_veleroRuntime quiet_invs(2) assms(2)])
      (auto intro: read_late wp_withCleanup [OF wp_cleanup [OF _ assms(3) R(5)]] after)
qed

section \<open>The volumes\<close>

lemma set_addVolumes: "set (foldl addVolume vs xs) = set vs \<union> set xs"
  by (induction xs arbitrary: vs) (auto simp: addVolume_def)

abbreviation knows :: "(world \<Rightarrow> bool) \<Rightarrow> ('a \<Rightarrow> bool) \<Rightarrow> err + 'a \<Rightarrow> world \<Rightarrow> bool" where
  "knows I P y u \<equiv> I u \<and> (\<forall>z. y = Inr z \<longrightarrow> P z)"

text \<open>A quiet read whose answer is a function of the world.\<close>

lemma wp_read:
  assumes "state_io_rel quietF.same m" and "quietInv I" and "I v" and "wp m (\<lambda>y _. \<forall>z. y = Inr z \<longrightarrow> P z) v"
  shows "wp m (knows I P) v"
  by (rule wp_conj [OF wp_quiet [OF assms(1-3)] assms(4)])

lemma wp_chkWrapI: "wp m (knows I P) v \<Longrightarrow> (\<And>z u. I u \<Longrightarrow> P z \<Longrightarrow> wp (f z) (knows I Q) u) \<Longrightarrow> wp (chkWrap t m f) (knows I Q) v"
  unfolding wp_chkWrap by (erule wp_mono) (auto split: sum.splits)

lemma wp_discoverNamespace:
  assumes "atRead r w ds v"
  shows "wp (discoverNamespace c i sel ns vs) (knows (atRead r w ds) (\<lambda>z. set z = set vs \<union> namespaceClaims w c sel (trimSpace ns))) v"
proof -
  let ?n = "trimSpace ns"
  let ?pvcs = "filter (inNamespace (pvcKind c) ?n) (w_pvcs w c)"
  have claims: "wp (apiList (pvcKind c) ?n) (knows (atRead r w ds) (\<lambda>z. z = ?pvcs)) v"
    by (rule wp_read [OF quietF.rel_apiList quiet_invs(2) assms], rule wp_apiList)
      (use runView_eq(2) [OF read_view [OF assms]] in simp_all)
  have pods: "wp (apiListRaw (\<lambda>w. w_pods w c) P) (knows (atRead r w ds) (\<lambda>z. z = filter P (w_pods w c))) u" if "atRead r w ds u" for P u
    by (rule wp_read [OF quietF.rel_apiListRaw quiet_invs(2) that], rule wp_apiListRaw)
      (use runView_eq(1) [OF read_view [OF that]] in simp_all)
  show ?thesis
  proof (cases sel)
    case None
    then show ?thesis
      using assms unfolding discoverNamespace_def Let_def
      by (auto simp del: wp_chkWrap intro!: wp_chkWrapI [OF claims] simp: set_addVolumes namespaceClaims_def claimKeys_def)
  next
    case (Some P)
    then show ?thesis
      using assms unfolding discoverNamespace_def Let_def
      by (auto simp del: wp_chkWrap intro!: wp_chkWrapI [OF claims] wp_chkWrapI [OF pods] simp: set_addVolumes namespaceClaims_def claimKeys_def Let_def)
  qed
qed

lemma wp_discoverAll:
  assumes "atRead r w ds v"
  shows "wp (forEach (discoverNamespace c i sel) nss vs)
    (knows (atRead r w ds) (\<lambda>z. set z = set vs \<union> (\<Union>n \<in> set nss. namespaceClaims w c sel (trimSpace n)))) v"
  using assms
proof (induction nss arbitrary: vs v)
  case (Cons n nss)
  have "wp (forEach (discoverNamespace c i sel) nss z)
      (knows (atRead r w ds) (\<lambda>z. set z = set vs \<union> (\<Union>n \<in> set (n # nss). namespaceClaims w c sel (trimSpace n)))) u"
    if "atRead r w ds u" "set z = set vs \<union> namespaceClaims w c sel (trimSpace n)" for z u
    by (rule wp_mono [OF Cons.IH [OF that(1)]]) (simp add: that(2) Un_assoc)
  then show ?case
    unfolding forEach.simps by (intro wp_chkI2 [OF wp_discoverNamespace [OF Cons.prems]]) simp_all
qed simp

lemma wp_discover:
  assumes "atRead r w ds v"
  shows "wp (discoverDataSyncVolumePlan r c i) (knows (atRead r w ds) (\<lambda>z. set z = volumesInScope r w c i)) v"
proof -
  let ?P = "\<lambda>sel z. set z = (\<Union>n \<in> set (di_namespaces (in_spec i)). namespaceClaims w c sel (trimSpace n))"
  have all: "wp (forEach (discoverNamespace c i sel) (di_namespaces (in_spec i)) []) (knows (atRead r w ds) (?P sel)) v" for sel
    by (rule wp_mono [OF wp_discoverAll [OF assms]]) simp
  show ?thesis
  proof (cases "di_labelSelector (in_spec i)")
    case None
    then show ?thesis
      using all [of None] assms by (simp add: discoverDataSyncVolumePlan_def volumesInScope_def scopeSelector_def)
  next
    case (Some sel)
    show ?thesis
    proof (cases "mt_matches (r_matchers (sy_base r)) sel")
      case (Inl e)
      with Some show ?thesis using assms by (simp add: discoverDataSyncVolumePlan_def)
    next
      case (Inr P)
      with Some show ?thesis
        using all [of "Some P"] assms by (simp add: discoverDataSyncVolumePlan_def volumesInScope_def scopeSelector_def)
    qed
  qed
qed

lemma boundIn_view: "runView u = runView w \<Longrightarrow> boundIn u c k \<longleftrightarrow> boundIn w c k"
  using runView_eq(2) [of u w] by (simp add: boundIn_def lookup_def)

lemma wp_unbound:
  assumes "atRead r w ds v"
  shows "wp (unboundClaim c ks) (knows (atRead r w ds) (\<lambda>z. z = None \<longrightarrow> (\<forall>k \<in> set ks. boundIn w c k))) v"
  using assms
proof (induction ks arbitrary: v)
  case (Cons k ks)
  have got: "wp (apiGet (pvcKind c) k) (knows (atRead r w ds) (\<lambda>p. lookup (pvcKind c) w k = Some p)) v"
    by (rule wp_read [OF quietF.rel_apiGet quiet_invs(2) Cons.prems], rule wp_apiGet)
      (use runView_eq(2) [OF read_view [OF Cons.prems]] in \<open>simp_all add: lookup_def\<close>)
  have bound: "boundIn w c k" if "lookup (pvcKind c) w k = Some p" "m_deletion (pvc_meta p) = None" "pvc_phase p = ''Bound''" for p
    using that by (auto simp: boundIn_def)
  have rest: "wp (unboundClaim c ks) (\<lambda>y u. atRead r w ds u \<and> (y = Inr None \<longrightarrow> (\<forall>q \<in> set (k # ks). boundIn w c q))) u"
    if "atRead r w ds u" "boundIn w c k" for u
    by (rule wp_mono [OF Cons.IH [OF that(1)]]) (use that(2) in auto)
  show ?case
    unfolding unboundClaim.simps
    using bound by (auto simp: Let_def intro!: wp_bindI [OF got] rest split: sum.split simp del: set_simps wp_bind)
qed simp

lemma judged_volumes: "judgePvrs r t ps = Inr True \<Longrightarrow> p \<in> set ps \<Longrightarrow> pvr_phase p = ''Completed''"
  by (induction ps) (auto simp: Let_def split: if_splits)

lemma wp_verifyVolumes:
  assumes "atRead r w ds v"
  shows "wp (verifyDataSyncPodVolumeRestores r cfg i ar)
    (knows (atRead r w ds) (\<lambda>z. z \<longrightarrow> volumesRestored w (snd (resolveClusters i cfg)) ar)) v"
proof -
  let ?c = "snd (resolveClusters i cfg)"
  have listed: "wp (apiListRaw (\<lambda>w. w_pvrs w ?c) P) (knows (atRead r w ds) (\<lambda>z. z = filter P (w_pvrs w ?c))) u" if "atRead r w ds u" for P u
    by (rule wp_read [OF quietF.rel_apiListRaw quiet_invs(2) that], rule wp_apiListRaw)
      (use runView_eq(3) [OF read_view [OF that]] in simp_all)
  have judged: "volumesRestored w ?c ar" if "judgePvrs r t (filter (\<lambda>p. inNamespace (pvrKind ?c) ''velero'' p \<and>
      map_of (m_labels (pvr_meta p)) ''velero.io/restore-name'' = Some (''res-'' @ m_name (ar_meta ar))) (w_pvrs w ?c)) = Inr True" for t
    using judged_volumes [OF that] by (simp add: volumesRestored_def)
  show ?thesis
    unfolding verifyDataSyncPodVolumeRestores_def Let_def
    by (rule wp_quiet_bind [OF quietF.frame_kubeClientSet quiet_invs(2) assms])
      (auto simp del: wp_bind append.simps split: sum.splits intro!: wp_bindI [OF listed] wp_lift elim!: judged)
qed

lemma wp_verifyClaims:
  assumes "atRead r w ds v"
  shows "wp (verifyDataSyncTargetPVCsReady r cfg i) (knows (atRead r w ds) (\<lambda>z. z = None \<longrightarrow>
    (\<forall>k \<in> volumesInScope r w (fst (resolveClusters i cfg)) i. boundIn w (snd (resolveClusters i cfg)) k))) v"
proof -
  let ?s = "fst (resolveClusters i cfg)" and ?t = "snd (resolveClusters i cfg)"
  let ?Q = "knows (atRead r w ds) (\<lambda>z. z = None \<longrightarrow> (\<forall>k \<in> volumesInScope r w ?s i. boundIn w ?t k))"
  have tail: "wp (do { g \<leftarrow> GetKubeClientSet ?t;
      (case g of Inl e \<Rightarrow> fail (pvcError (''build target cluster client '' @ ?t @ '': '' @ err_text e)) | Inr _ \<Rightarrow> unboundClaim ?t ks) }) ?Q u"
    if "atRead r w ds u" "set ks = volumesInScope r w ?s i" for u ks
  proof (rule wp_quiet_bind [OF quietF.frame_kubeClientSet quiet_invs(2) that(1)])
    fix g u assume "atRead r w ds u"
    then show "wp (case g of Inl e \<Rightarrow> fail (pvcError (''build target cluster client '' @ ?t @ '': '' @ err_text e)) | Inr _ \<Rightarrow> unboundClaim ?t ks) ?Q u"
      using wp_unbound [of r w ds u ?t ks] that(2) by (cases g) simp_all
  qed
  have plan: "wp (do { p \<leftarrow> discoverDataSyncVolumePlan r ?s i;
      (case p of Inl e \<Rightarrow> fail (pvcError (''discover expected PVCs: '' @ err_text e))
       | Inr ks \<Rightarrow> if ks = [] then ok None else do { g \<leftarrow> GetKubeClientSet ?t;
      (case g of Inl e \<Rightarrow> fail (pvcError (''build target cluster client '' @ ?t @ '': '' @ err_text e)) | Inr _ \<Rightarrow> unboundClaim ?t ks) }) }) ?Q u"
    if "atRead r w ds u" for u
  proof (rule wp_bindI [OF wp_discover [OF that]])
    fix p u assume p: "knows (atRead r w ds) (\<lambda>z. set z = volumesInScope r w ?s i) p u"
    show "wp (case p of Inl e \<Rightarrow> fail (pvcError (''discover expected PVCs: '' @ err_text e))
       | Inr ks \<Rightarrow> if ks = [] then ok None else do { g \<leftarrow> GetKubeClientSet ?t;
      (case g of Inl e \<Rightarrow> fail (pvcError (''build target cluster client '' @ ?t @ '': '' @ err_text e)) | Inr _ \<Rightarrow> unboundClaim ?t ks) }) ?Q u"
      using p tail by (cases p) (auto simp del: wp_bind append.simps)
  qed
  show ?thesis
    unfolding verifyDataSyncTargetPVCsReady_def Let_def
  proof (rule wp_quiet_bind [OF quietF.frame_kubeClientSet quiet_invs(2) assms], goal_cases)
    case (1 g u)
    then show ?case using plan by (cases g) (simp_all del: wp_bind append.simps)
  qed
qed

end
