(* ===== verification/DataSyncRuns.thy ===== *)
theory DataSyncRuns
  imports DataSyncFsm
begin

text \<open>
  The reconcile of a data sync takes at most one edge of the machine of \<open>DataSyncFsm\<close>, and
  keeps to what the sync owns: the steps of a run, then the reconcile loop.
\<close>

section \<open>Judging the restore\<close>

lemma succeeded_not_failed [simp]: "\<not> IsFailedAppRestorePhase PhaseSucceeded"
  by (simp add: IsFailedAppRestorePhase_def)

lemma restored_status:
  "ss_state (restoredHistory r ab b n ar s) = ss_state s" "ss_lastSyncTime (restoredHistory r ab b n ar s) = ss_lastSyncTime s"
  by (simp_all add: restoredHistory_def split: option.split)

text \<open>The restore that ends the run: a success is justified by what was restored.\<close>

lemma wp_finishRestore:
  assumes "running r w ds i cfg" and "phaseOf (so_status ds) = Copying b" and "atLate r w ds v" and "sameSync ds x"
    and "ar_phase ar = PhaseSucceeded \<Longrightarrow> restoredIn r w ds b"
  shows "wp (finishRestore r bn n x ar) (\<lambda>_. atDone r w ds) v"
proof -
  note R = runningD [OF assms(1)]
  have moves: "runMoves r w ds (restoredHistory r ab bn n ar (restoredState r ar n (so_status x)))"
    if "ar_phase ar = PhaseSucceeded \<or> IsFailedAppRestorePhase (ar_phase ar)" for ab
  proof (cases "IsFailedAppRestorePhase (ar_phase ar)")
    case True
    then show ?thesis
      using runEdge.aborted [OF R(2,3)]
      by (simp add: runMoves_def phaseOf_def endsRun_def restored_status restoredState_def Let_def)
  next
    case False
    with that have "restoredIn r w ds b" using assms(5) by blast
    with False show ?thesis
      using runEdge.restored [of r w ds b] assms(2)
      by (simp add: runMoves_def phaseOf_def [of "restoredHistory r ab bn n ar s" for ab s] endsRun_def restored_status restoredState_def Let_def)
  qed
  have saved: "wp (apiStatusUpdate dsKind (mapSyncStatus (\<lambda>s. restoredHistory r ab bn n ar (restoredState r ar n s)) x)) (\<lambda>_. atDone r w ds) u"
    if "atLate r w ds u" "ar_phase ar = PhaseSucceeded \<or> IsFailedAppRestorePhase (ar_phase ar)" for ab u
    by (rule wp_saveStatus [OF that(1)])
      (use moves [OF that(2)] sameSync_key [OF assms(4)] in \<open>simp_all add: mapSyncStatus_def syncKey_def\<close>)
  show ?thesis
    unfolding finishRestore_def Let_def
    using assms(3)
    by (auto simp del: wp_bind wp_chk intro!: wp_quiet_bind [OF quietF.rel_apiGet quiet_invs(3)] wp_quiet_bind [OF quiet_reads(10) quiet_invs(3)]
        wp_quiet_bind [OF quietF.rel_emit quiet_invs(3)] wp_chkI2 [OF saved] intro: late_done)
qed

lemma read_done: "atRead r w ds v \<Longrightarrow> atDone r w ds v"
  by (rule late_done) (rule read_late)

text \<open>What is known of the restore after each step of its judgement.\<close>

definition judged :: "syncReconciler \<Rightarrow> world \<Rightarrow> AppRestore \<Rightarrow> DisasterInstance \<Rightarrow> string \<times> string \<Rightarrow> bool \<Rightarrow> AppRestore \<Rightarrow> bool" where
  "judged r w ar i cl claims a \<longleftrightarrow> isDataSyncTrafficlessLifecycleRestore a = isDataSyncTrafficlessLifecycleRestore ar \<and>
     (ar_phase a = PhaseSucceeded \<longrightarrow> ar_phase ar = PhaseSucceeded \<and> (isDataSyncTrafficlessLifecycleRestore ar \<longrightarrow>
        volumesRestored w (snd cl) ar \<and> (claims \<longrightarrow> (\<forall>k \<in> volumesInScope r w (fst cl) i. boundIn w (snd cl) k))))"

lemma failRestore_sel [simp]: "ar_phase (failRestore d ar) = PhaseFailed" "ar_meta (failRestore d ar) = ar_meta ar"
  "isDataSyncTrafficlessLifecycleRestore (failRestore d ar) = isDataSyncTrafficlessLifecycleRestore ar"
  by (simp_all add: failRestore_def isDataSyncTrafficlessLifecycleRestore_def)

lemma judged_failed [simp]: "judged r w ar i cl c (failRestore d a) \<longleftrightarrow>
    isDataSyncTrafficlessLifecycleRestore a = isDataSyncTrafficlessLifecycleRestore ar"
  by (simp add: judged_def)

lemma wp_waitRead: "atRead r w ds v \<Longrightarrow> wp (waitForCleanup q x) (\<lambda>_. atDone r w ds) v"
  by (rule wp_wait) (rule read_late)

lemma wp_judgeVolumes:
  assumes "atRead r w ds v" and "\<And>a u. atRead r w ds u \<Longrightarrow> judged r w ar i (resolveClusters i cfg) False a \<Longrightarrow> wp (k a) (\<lambda>_. atDone r w ds) u"
  shows "wp (judgeVolumes r x cfg i ar k) (\<lambda>_. atDone r w ds) v"
proof (cases "isDataSyncTrafficlessLifecycleRestore ar \<and> ar_phase ar = PhaseSucceeded")
  case False
  then show ?thesis
    using assms(1) by (auto simp: judgeVolumes_def judged_def intro: assms(2))
next
  case True
  show ?thesis
    unfolding judgeVolumes_def if_P [OF True]
  proof (rule wp_bindI [OF wp_verifyVolumes [OF assms(1)]])
    fix y u assume y: "knows (atRead r w ds) (\<lambda>z. z \<longrightarrow> volumesRestored w (snd (resolveClusters i cfg)) ar) y u"
    show "wp (case y of Inl e \<Rightarrow> k (failRestore (trafficlessLifecycleErrorDetails e ''PodVolumeRestoreFailed'') ar)
        | Inr ready \<Rightarrow> if ready then k ar else waitForCleanup r x) (\<lambda>_. atDone r w ds) u"
    proof (cases y)
      case (Inl e)
      then show ?thesis using y by (simp add: assms(2))
    next
      case (Inr ready)
      with y have "ready \<Longrightarrow> volumesRestored w (snd (resolveClusters i cfg)) ar" by blast
      with True have "ready \<Longrightarrow> judged r w ar i (resolveClusters i cfg) False ar" by (simp add: judged_def)
      then show ?thesis using Inr y by (cases ready) (simp_all add: assms(2) wp_waitRead)
    qed
  qed
qed

lemma wp_judgeClaims:
  assumes "atRead r w ds v" and "judged r w ar i (resolveClusters i cfg) False a"
    and "\<And>a u. atRead r w ds u \<Longrightarrow> judged r w ar i (resolveClusters i cfg) True a \<Longrightarrow> wp (k a) (\<lambda>_. atDone r w ds) u"
  shows "wp (judgeClaims r x cfg i a k) (\<lambda>_. atDone r w ds) v"
proof (cases "isDataSyncTrafficlessLifecycleRestore a \<and> ar_phase a = PhaseSucceeded")
  case False
  then show ?thesis
    using assms(1,2) by (auto simp: judgeClaims_def judged_def intro: assms(3))
next
  case True
  show ?thesis
    unfolding judgeClaims_def if_P [OF True] Let_def
  proof (rule wp_bindI [OF wp_verifyClaims [OF assms(1)]], goal_cases)
    case (1 y u)
    then have u: "atRead r w ds u" by simp
    have bad: "wp (k (failRestore d a)) (\<lambda>_. atDone r w ds) u" for d
      by (rule assms(3) [OF u]) (use assms(2) in \<open>simp add: judged_def\<close>)
    show ?case
    proof (cases y)
      case (Inl e)
      then show ?thesis by (simp add: bad)
    next
      case (Inr z)
      with 1 have "z = None \<Longrightarrow> judged r w ar i (resolveClusters i cfg) True a" using assms(2) by (auto simp: judged_def)
      then show ?thesis using Inr bad wp_waitRead [OF u] by (cases z) (simp_all add: assms(3) [OF u])
    qed
  qed
qed

lemma wp_judgeCleanup:
  assumes "running r w ds i cfg" and "atRead r w ds v" and "sameSync ds x" and "ar_phase a = PhaseSucceeded \<Longrightarrow> P"
    and "\<And>y a u. atLate r w ds u \<Longrightarrow> sameSync ds y \<Longrightarrow> (ar_phase a = PhaseSucceeded \<Longrightarrow> P) \<Longrightarrow> wp (k y a) (\<lambda>_. atDone r w ds) u"
  shows "wp (judgeCleanup r x cfg i n a k) (\<lambda>_. atDone r w ds) v"
proof -
  have cl: "clustersOf w ds = Some (resolveClusters i cfg)" by (rule runningD [OF assms(1)])
  have after: "wp (case res of Inl e \<Rightarrow> (let (reason, m) = trafficlessLifecycleErrorDetails e dataSyncReasonTrafficlessCleanupFailed in
        k y (failRestore (reason, cleanupFailureMessage a m) a)) | Inr gone \<Rightarrow> if gone then k y a else waitForCleanup r y) (\<lambda>_. atDone r w ds) u"
    if "atLate r w ds u" "sameSync ds y" for res y u
    using that assms(4) by (auto split: sum.split prod.split intro!: assms(5) wp_wait simp: Let_def)
  show ?thesis
  proof (cases "isDataSyncTrafficlessLifecycleRestore a \<and> (ar_phase a = PhaseSucceeded \<or> IsFailedAppRestorePhase (ar_phase a))")
    case True
    show ?thesis
      unfolding judgeCleanup_def if_P [OF True]
      by (rule wp_withCleanup [OF wp_cleanup [OF assms(2,3) cl]]) (rule after)
  next
    case False
    show ?thesis
      unfolding judgeCleanup_def if_not_P [OF False] by (rule assms(5) [OF read_late [OF assms(2)] assms(3,4)])
  qed
qed

lemma wp_judgeRestore:
  assumes "running r w ds i cfg" and "phaseOf (so_status ds) = Copying b" and "atRead r w ds v" and "sameSync ds x"
    and "FindBackupRecordByName (historyOf w ds) b = Some rec" and "br_phase rec = ''Completed''"
    and "lookup restoreKind w (syncNs ds, dataSyncRestoreName (sy_base r) ds b) = Some ar"
  shows "wp (judgeRestore r x cfg i bn n ar) (\<lambda>_. atDone r w ds) v"
proof -
  note R = runningD [OF assms(1)]
  have good: "restoredIn r w ds b" if "judged r w ar i (resolveClusters i cfg) True a" and "ar_phase a = PhaseSucceeded" for a
    using that assms(5-7) R(4,5) by (auto simp: restoredIn_def judged_def)
  show ?thesis
    unfolding judgeRestore_def
  proof (rule wp_judgeVolumes [OF assms(3)])
    fix a u assume u: "atRead r w ds u" and a: "judged r w ar i (resolveClusters i cfg) False a"
    show "wp (judgeClaims r x cfg i a (\<lambda>ar2. judgeCleanup r x cfg i n ar2 (finishRestore r bn n))) (\<lambda>_. atDone r w ds) u"
      by (rule wp_judgeClaims [OF u a], rule wp_judgeCleanup [OF assms(1) _ assms(4) good], assumption+)
        (rule wp_finishRestore [OF assms(1,2)])
  qed
qed

lemma wp_handleRestore:
  assumes "running r w ds i cfg" and "phaseOf (so_status ds) = Copying b" and "atRead r w ds v" and "sameSync ds x"
    and "FindBackupRecordByName (historyOf w ds) b = Some rec" and "br_phase rec = ''Completed''" and "b = ss_lastBackupName (so_status ds)"
  shows "wp (handleRestore r x cfg i b) (\<lambda>_. atDone r w ds) v"
proof -
  let ?k = "(syncNs ds, dataSyncRestoreName (sy_base r) ds b)"
  have got: "wp (apiGet restoreKind ?k) (knows (atRead r w ds) (\<lambda>ar. lookup restoreKind w ?k = Some ar)) v"
    by (rule wp_read [OF quietF.rel_apiGet quiet_invs(2) assms(3)], rule wp_apiGet)
      (use runView_eq(4) [OF read_view [OF assms(3)]] in \<open>simp_all add: lookup_def\<close>)
  have start: "wp (startRestore r x cfg i b (snd ?k)) (\<lambda>_. atDone r w ds) u" if "atRead r w ds u" for u
    by (rule wp_startRestore [OF assms(1) that assms(4)]) (simp add: assms(7))
  show ?thesis
    unfolding handleRestore_def Let_def sameSync_names [OF assms(4)]
    using start wp_judgeRestore [OF assms(1,2) _ assms(4-6)]
    by (auto simp del: wp_bind intro!: wp_bindI [OF got] split: sum.split intro: read_done)
qed

section \<open>Following the backup\<close>

lemma history_of_view:
  assumes "atRead r w ds v" and "lookup appBackupKind v (syncNs ds, appBackupNameOf ds) = Some ab"
  shows "historyOf w ds = abt_history (ab_status ab)"
proof -
  have "map_option ab_status (lookup appBackupKind w (syncNs ds, appBackupNameOf ds)) = Some (ab_status ab)"
    using fun_cong [OF runView_eq(7) [OF read_view [OF assms(1)]], of "(syncNs ds, appBackupNameOf ds)"] assms(2)
    by (simp add: backupStatuses_def)
  then show ?thesis by (auto simp: historyOf_def)
qed

lemma wp_veleroFailed:
  assumes "running r w ds i cfg" and "atLate r w ds v" and "sameSync ds x"
  shows "wp (veleroBackupFailed r x ab rec) (\<lambda>_. atDone r w ds) v"
proof -
  note R = runningD [OF assms(1)]
  have "runMoves r w ds (veleroFailedStatus r m (so_status ds))" for m
    using runEdge.aborted [OF R(2,3)] by (simp add: runMoves_def veleroFailedStatus_def phaseOf_def endsRun_def)
  then have saved: "wp (apiStatusUpdate dsKind (mapSyncStatus (veleroFailedStatus r m) x)) (\<lambda>_. atDone r w ds) v" for m
    by (intro wp_saveStatus [OF assms(2)])
      (use sameSync_key [OF assms(3)] sameSync_names(3) [OF assms(3)] in \<open>simp_all add: mapSyncStatus_def syncKey_def\<close>)
  show ?thesis
    unfolding veleroBackupFailed_def Let_def
    by (rule wp_chkI2 [OF saved]) (auto simp del: wp_bind intro!: wp_quiet_bind [OF quietF.rel_emit quiet_invs(4)])
qed

lemma wp_followBackup:
  assumes "running r w ds i cfg" and "phaseOf (so_status ds) = Copying b" and "atRead r w ds v" and "sameSync ds x"
    and "b = ss_lastBackupName (so_status ds)"
  shows "wp (followBackup r x cfg i) (\<lambda>_. atDone r w ds) v"
proof -
  let ?k = "(syncNs ds, appBackupNameOf ds)"
  have got: "wp (apiGet appBackupKind ?k) (knows (atRead r w ds) (\<lambda>ab. historyOf w ds = abt_history (ab_status ab))) v"
    by (rule wp_read [OF quietF.rel_apiGet quiet_invs(2) assms(3)], rule wp_apiGet)
      (use history_of_view [OF assms(3)] in \<open>simp_all add: lookup_def\<close>)
  have restore: "wp (do { emit n e; handleRestore r x cfg i b }) (\<lambda>_. atDone r w ds) u"
    if "atRead r w ds u" and "FindBackupRecordByName (historyOf w ds) b = Some rec" and "br_phase rec = ''Completed''" for n e rec u
    by (rule wp_quiet_bind [OF quietF.rel_emit quiet_invs(2) that(1)])
      (rule wp_handleRestore [OF assms(1,2) _ assms(4) that(2,3) assms(5)])
  show ?thesis
    unfolding followBackup_def Let_def sameSync_names [OF assms(4)] assms(5) [symmetric]
  proof (rule wp_chkI2 [OF got], goal_cases)
    case (1 e u)
    then show ?case by (auto intro: read_done)
  next
    case (2 ab u)
    then have u: "atRead r w ds u" and h: "abt_history (ab_status ab) = historyOf w ds" by simp_all
    show ?case
      using restore [OF u] wp_veleroFailed [OF assms(1) read_late [OF u] assms(4)] read_done [OF u]
      by (auto simp: h simp del: wp_bind split: option.split)
  qed
qed

section \<open>The backup of the run\<close>

lemma backup_key:
  assumes "keepsKey (sy_setController r)" and "newAppBackup r x spec = Inr ab"
  shows "keyOf appBackupKind ab = (syncNs x, appBackupNameOf x)"
proof -
  let ?m = "\<lambda>a. (newMeta (syncNs x) (appBackupNameOf x))\<lparr>m_labels := originLabels x, m_ann := a\<rparr>"
  from assms(2) obtain a m where "sy_setController r (so_meta x) (?m a) = Inr m" and "ab_meta ab = m"
    by (auto simp: newAppBackup_def andThen_Inr_iff Let_def)
  then have "metaKey (ab_meta ab) = metaKey (?m a)" using keepsKeyD [OF assms(1)] by metis
  then show ?thesis by (simp add: keyOf_def metaKey_def newMeta_def)
qed

lemma wp_createBackup:
  assumes "keepsKey (sy_setController r)" and "atLate r w ds v" and "sameSync ds x"
  shows "wp (createBackup r x spec) (\<lambda>_. atDone r w ds) v"
proof -
  have made: "wp (lift (newAppBackup r x spec)) (knows (atLate r w ds) (\<lambda>ab. keyOf appBackupKind ab = (syncNs ds, appBackupNameOf ds))) v"
    by (rule wp_lift) (use assms(2) backup_key [OF assms(1)] sameSync_names [OF assms(3)] in auto)
  have created: "wp (apiCreate appBackupKind ab) (\<lambda>_. atLate r w ds) u"
    if "atLate r w ds u" and "keyOf appBackupKind ab = (syncNs ds, appBackupNameOf ds)" for ab u
    by (rule wp_late [OF ownBackup.hidden_create dsF.frame_create that(1)]) (use that(2) in simp_all)
  show ?thesis
    unfolding createBackup_def
    by (rule wp_chkI2 [OF made])
      (auto simp del: wp_bind wp_chk intro!: wp_chkI2 [OF created] wp_quiet_bind [OF quietF.rel_emit quiet_invs(3)] intro: late_done)
qed

text \<open>The specification of the backup changes; what the rest of the reconcile reads of it does not.\<close>

lemma backup_meta [simp]: "ab_status (bumpRv appBackupKind s x) = ab_status x" "metaKey (ab_meta (bumpRv appBackupKind s x)) = metaKey (ab_meta s)"
  "ab_status (k_mergeSpec appBackupKind s x) = ab_status s"
  by (simp_all add: bumpRv_def appBackupKind_def metaKey_def)

lemma wp_saveBackup:
  assumes "atRead r w ds v" and "keyOf appBackupKind ab = (syncNs ds, appBackupNameOf ds)"
  shows "wp (apiUpdate appBackupKind ab) (\<lambda>_. atRead r w ds) v"
proof -
  have view: "runView (v\<lparr>w_faults := fs\<rparr>) = runView w" for fs
    using read_view [OF assms(1)] by (simp add: runView_def backupStatuses_def fun_eq_iff lookup_def)
  have "wp (apiUpdate appBackupKind ab) (\<lambda>_ u. runView u = runView w) v"
  proof (rule wp_apiUpdate, goal_cases)
    case (1 e fs)
    then show ?case by (rule view)
  next
    case (2 s fs)
    let ?v = "v\<lparr>w_faults := fs\<rparr>"
    let ?s = "bumpRv appBackupKind s (k_mergeSpec appBackupKind s ab)"
    have "backupStatuses (replaceObj appBackupKind ?s ?v) = backupStatuses ?v"
      using 2(1) appBackupK.lookup_key [OF 2(1)] by (auto simp: backupStatuses_def fun_eq_iff appBackupK.lookup_replaceObj)
    then have "runView (replaceObj appBackupKind ?s ?v) = runView ?v" by (simp add: runView_def replaceObj_def)
    then show ?case by (simp add: Let_def view)
  qed
  moreover have "wp (apiUpdate appBackupKind ab) (\<lambda>_. atLate r w ds) v"
    by (rule wp_late [OF ownBackup.hidden_update dsF.frame_update read_late [OF assms(1)]]) (use assms(2) in simp_all)
  ultimately show ?thesis by (rule wp_mono [OF wp_both]) (simp add: atRead_def atLate_def)
qed

lemma wp_recordBackup:
  assumes "running r w ds i cfg" and "phaseOf (so_status ds) = Searching" and "atLate r w ds v" and "sameSync ds x"
    and "backupOfRun r w ds (br_name rec)"
  shows "wp (recordBackup x rec) (\<lambda>_. atDone r w ds) v"
proof -
  have state: "ss_state (so_status ds) = SyncInProgress" "ss_lastBackupName (so_status ds) = []"
    using assms(2) by (auto simp: phaseOf_def split: SyncState.splits if_splits)
  have "runMoves r w ds ((so_status ds)\<lparr>ss_lastBackupName := br_name rec\<rparr>)"
    using runEdge.found [OF assms(5)] assms(2) state by (cases "br_name rec = []") (simp_all add: runMoves_def phaseOf_def endsRun_def)
  then have "wp (apiStatusUpdate dsKind (mapSyncStatus (\<lambda>s. s\<lparr>ss_lastBackupName := br_name rec\<rparr>) x)) (\<lambda>_. atDone r w ds) v"
    by (intro wp_saveStatus [OF assms(3)])
      (use sameSync_key [OF assms(4)] sameSync_names(3) [OF assms(4)] in \<open>simp_all add: mapSyncStatus_def syncKey_def\<close>)
  then show ?thesis unfolding recordBackup_def by (rule wp_chkI2) simp_all
qed

lemma wp_backupFailed:
  assumes "running r w ds i cfg" and "atLate r w ds v" and "sameSync ds x"
  shows "wp (backupFailed r x ab) (\<lambda>_. atDone r w ds) v"
proof -
  note R = runningD [OF assms(1)]
  have moves: "runMoves r w ds (failedStatus r a m ((so_status ds)\<lparr>ss_conditions := cs\<rparr>))" for a m cs
    using runEdge.aborted [OF R(2,3)] by (simp add: runMoves_def failedStatus_def phaseOf_def endsRun_def)
  show ?thesis
    unfolding backupFailed_def failDataSync_def Let_def
    by (rule wp_endRun [OF assms(2)])
      (use moves sameSync_key [OF assms(3)] sameSync_names(3) [OF assms(3)] in \<open>simp_all add: mapSyncStatus_def syncKey_def\<close>)
qed

lemma wp_requestBackup:
  assumes "atLate r w ds v" and "keyOf appBackupKind ab = (syncNs ds, appBackupNameOf ds)"
  shows "wp (requestBackup r x ab) (\<lambda>_. atDone r w ds) v"
proof -
  have saved: "wp (apiUpdate appBackupKind (ab\<lparr>ab_spec := sp\<rparr>)) (\<lambda>_. atLate r w ds) v" for sp
    by (rule wp_late [OF ownBackup.hidden_update dsF.frame_update assms(1)]) (use assms(2) in \<open>simp_all add: keyOf_def\<close>)
  show ?thesis
    unfolding requestBackup_def
    by (rule wp_chkI2 [OF saved]) (auto simp del: wp_bind intro!: wp_quiet_bind [OF quietF.rel_emit quiet_invs(3)] intro: late_done)
qed

lemma wp_findBackup:
  assumes "running r w ds i cfg" and "phaseOf (so_status ds) = Searching" and "atEarly r w ds v" and "sameSync ds x"
    and "lookup appBackupKind w (syncNs ds, appBackupNameOf ds) = Some ab"
  shows "wp (findBackup r x ab) (\<lambda>_. atDone r w ds) v"
proof -
  have late: "atLate r w ds v" by (rule read_late) (rule early_read [OF assms(3)])
  have key: "keyOf appBackupKind ab = (syncNs ds, appBackupNameOf ds)" by (rule appBackupK.lookup_key [OF assms(5)])
  let ?a = "CurrentBackupActionVeleroBackupName (sy_base r) (appBackupNameOf ds) ab (ss_lastSyncTime (so_status ds))"
  have own: "backupOfRun r w ds (br_name rec)" if "?a = Some n" and "FindBackupRecordByName (abt_history (ab_status ab)) n = Some rec" for n rec
    using that assms(5) by (auto simp: backupOfRun_def FindBackupRecordByName_def dest: find_hit)
  have new: "backupOfRun r w ds (br_name rec)" if "?a = None"
    and "find (\<lambda>rec. backupStartedForDataSyncRun (br_start rec) (ss_lastSyncTime (so_status ds))) (abt_history (ab_status ab)) = Some rec" for rec
    using that assms(5) by (auto simp: backupOfRun_def dest: find_hit)
  show ?thesis
    unfolding findBackup_def Let_def sameSync_names [OF assms(4)]
    using wp_recordBackup [OF assms(1,2) late assms(4)] own new wp_backupFailed [OF assms(1) late assms(4)] wp_requestBackup [OF late key] late_done [OF late]
    by (auto split: option.split)
qed

lemma early_eq:
  assumes "atEarly r w ds v"
  shows "w_appBackups v = w_appBackups w" "w_insts v = w_insts w" "w_cfgs v = w_cfgs w"
proof -
  have "w_appBackups (earlyView v) = w_appBackups (earlyView w)" "w_insts (earlyView v) = w_insts (earlyView w)" "w_cfgs (earlyView v) = w_cfgs (earlyView w)"
    using assms by (simp_all add: atEarly_def)
  then show "w_appBackups v = w_appBackups w" "w_insts v = w_insts w" "w_cfgs v = w_cfgs w" by (simp_all add: earlyView_def)
qed

lemma wp_runBackup:
  assumes "running r w ds i cfg" and "ss_state (so_status ds) = SyncInProgress" and "atEarly r w ds v" and "sameSync ds x"
  shows "wp (runBackup r x cfg i) (\<lambda>_. atDone r w ds) v"
proof -
  note R = runningD [OF assms(1)]
  let ?k = "(syncNs ds, appBackupNameOf ds)"
  let ?b = "ss_lastBackupName (so_status ds)"
  have same: "w_appBackups v = w_appBackups w" by (rule early_eq [OF assms(3)])
  have got: "wp (apiGet appBackupKind ?k) (knows (atEarly r w ds) (\<lambda>ab. lookup appBackupKind w ?k = Some ab)) v"
    by (rule wp_read [OF quietF.rel_apiGet quiet_invs(1) assms(3)], rule wp_apiGet) (use same in \<open>simp_all add: lookup_def\<close>)
  have follow: "wp (followBackup r x cfg i) (\<lambda>_. atDone r w ds) u" if "atRead r w ds u" "?b \<noteq> []" for u
    by (rule wp_followBackup [OF assms(1) _ that(1) assms(4) refl]) (use that(2) assms(2) in \<open>simp add: phaseOf_def\<close>)
  have saved: "wp (apiUpdate appBackupKind (ab\<lparr>ab_spec := sp\<rparr>)) (\<lambda>_. atRead r w ds) u"
    if "atEarly r w ds u" and "lookup appBackupKind w ?k = Some ab" for u ab sp
    by (rule wp_saveBackup [OF early_read [OF that(1)]]) (use appBackupK.lookup_key [OF that(2)] in \<open>simp add: keyOf_def\<close>)
  have search: "wp (findBackup r x ab) (\<lambda>_. atDone r w ds) u"
    if "atEarly r w ds u" and "lookup appBackupKind w ?k = Some ab" and "?b = []" for u ab
    by (rule wp_findBackup [OF assms(1) _ that(1) assms(4) that(2)]) (use that(3) assms(2) in \<open>simp add: phaseOf_def\<close>)
  show ?thesis
    unfolding runBackup_def Let_def sameSync_names [OF assms(4)]
  proof (rule wp_bindI [OF got], goal_cases)
    case (1 y u)
    then have u: "atEarly r w ds u" by simp
    show ?case
    proof (cases y)
      case (Inl e)
      then show ?thesis
        using wp_createBackup [OF R(1) read_late [OF early_read [OF u]] assms(4)] wp_fail [OF R(2,3) read_late [OF early_read [OF u]] assms(4)]
        by simp
    next
      case (Inr ab)
      with 1 have ab: "lookup appBackupKind w ?k = Some ab" by simp
      have "wp (chk (apiUpdate appBackupKind (ab\<lparr>ab_spec := sp\<rparr>)) (\<lambda>_. if ?b \<noteq> [] then followBackup r x cfg i else ok requeue_result)) (\<lambda>_. atDone r w ds) u" for sp
        by (rule wp_chkI2 [OF saved [OF u ab]]) (auto intro: read_done follow)
      then show ?thesis using Inr follow [OF early_read [OF u]] search [OF u ab] by (simp del: wp_chk)
    qed
  qed
qed

section \<open>The steps of a run\<close>

lemma wp_startRun:
  assumes "running r w ds i cfg" and "ss_state (so_status ds) \<noteq> SyncInProgress" and "atLate r w ds v" and "sameSync ds x"
  shows "wp (startRun r x) (\<lambda>_. atDone r w ds) v"
proof -
  note R = runningD [OF assms(1)]
  have "phaseOf (so_status ds) = Idle \<or> phaseOf (so_status ds) = Broken"
    using R(3) assms(2) by (auto simp: phaseOf_def split: SyncState.splits)
  from runEdge.started [OF R(2) this] have "runMoves r w ds (startedStatus r (so_status ds))"
    by (auto simp: runMoves_def startedStatus_def phaseOf_def endsRun_def)
  then have saved: "wp (apiStatusUpdate dsKind (mapSyncStatus (startedStatus r) x)) (\<lambda>_. atDone r w ds) v"
    by (intro wp_saveStatus [OF assms(3)])
      (use sameSync_key [OF assms(4)] sameSync_names(3) [OF assms(4)] in \<open>simp_all add: mapSyncStatus_def syncKey_def\<close>)
  show ?thesis
    unfolding startRun_def
    by (rule wp_chkI2 [OF saved])
      (auto simp del: wp_bind intro!: wp_quiet_bind [OF quiet_reads(10) quiet_invs(4)] wp_quiet_bind [OF quietF.rel_emit quiet_invs(4)])
qed

lemma wp_skip:
  assumes "running r w ds i cfg" and "nothingToSync r w ds" and "\<And>b. phaseOf (so_status ds) \<noteq> Copying b" and "atLate r w ds v" and "sameSync ds x"
  shows "wp (completeDataSyncNoPVC r x) (\<lambda>_. atDone r w ds) v"
proof -
  note R = runningD [OF assms(1)]
  have "phaseOf (so_status ds) = Idle \<or> phaseOf (so_status ds) = Broken \<or> phaseOf (so_status ds) = Searching"
    using R(3) assms(3) by (cases "phaseOf (so_status ds)") auto
  from runEdge.skipped [OF R(2) assms(2) this] have "runMoves r w ds (skippedStatus r (so_status ds))"
    using R(3) by (simp add: runMoves_def skippedStatus_def phaseOf_def [of "s\<lparr>ss_state := t, ss_lastSyncTime := l, ss_reason := a, ss_message := m, ss_conditions := c, ss_history := h\<rparr>" for s t l a m c h] endsRun_def)
  then have saved: "wp (apiStatusUpdate dsKind (mapSyncStatus (skippedStatus r) x)) (\<lambda>_. atDone r w ds) v"
    by (intro wp_saveStatus [OF assms(4)])
      (use sameSync_key [OF assms(5)] sameSync_names(3) [OF assms(5)] in \<open>simp_all add: mapSyncStatus_def syncKey_def\<close>)
  show ?thesis
    unfolding completeDataSyncNoPVC_def
    by (rule wp_chkI2 [OF saved])
      (auto simp del: wp_bind intro!: wp_quiet_bind [OF quiet_reads(10) quiet_invs(4)] wp_quiet_bind [OF quietF.rel_emit quiet_invs(4)])
qed

lemma wp_runStep:
  assumes "running r w ds i cfg" and "atEarly r w ds v" and "sameSync ds x"
  shows "wp (runStep r x cfg i) (\<lambda>_. atDone r w ds) v"
proof -
  note R = runningD [OF assms(1)]
  show ?thesis
    unfolding runStep_def sameSync_names(3) [OF assms(3)]
    by (rule wp_orFail(1) [OF R(2,3) assms(3)], rule wp_quiet [OF quietF.frame_storage quiet_invs(1) assms(2)])
      (auto intro: read_late early_read wp_startRun [OF assms(1) _ _ assms(3)] wp_runBackup [OF assms(1) _ _ assms(3)])
qed

lemma wp_early_discover:
  assumes "atEarly r w ds v"
  shows "wp (discoverDataSyncVolumePlan r c i) (knows (atEarly r w ds) (\<lambda>z. set z = volumesInScope r w c i)) v"
  by (rule wp_read [OF quietF.frame_discover quiet_invs(1) assms]) (rule wp_mono [OF wp_discover [OF early_read [OF assms]]], simp)

lemma wp_preflight:
  assumes "running r w ds i cfg" and "\<And>b. phaseOf (so_status ds) \<noteq> Copying b" and "atEarly r w ds v" and "sameSync ds x"
    and "\<And>u. atEarly r w ds u \<Longrightarrow> wp k (\<lambda>_. atDone r w ds) u"
  shows "wp (preflight r x i cfg k) (\<lambda>_. atDone r w ds) v"
proof -
  note R = runningD [OF assms(1)]
  have runtime: "wp (orFailLifecycle r a x (ensureDataSyncTrafficlessRuntime c role b) (\<lambda>_. m)) (\<lambda>_. atDone r w ds) u"
    if "atEarly r w ds u" and "\<And>t. atEarly r w ds t \<Longrightarrow> wp m (\<lambda>_. atDone r w ds) t" for a c role b m u
    by (rule wp_orFail(2) [OF R(2,3) assms(4)], rule wp_quiet [OF quietF.frame_veleroRuntime quiet_invs(1) that(1)])
      (auto intro: read_late early_read that(2))
  have skip: "wp (completeDataSyncNoPVC r x) (\<lambda>_. atDone r w ds) u"
    if "atEarly r w ds u" and "volumesInScope r w (fst (resolveClusters i cfg)) i = {}" for u
    by (rule wp_skip [OF assms(1) _ assms(2) read_late [OF early_read [OF that(1)]] assms(4)])
      (use that(2) R(4,5) in \<open>simp add: nothingToSync_def\<close>)
  have volumes: "wp (orFailSync r dataSyncReasonDependencyFailed msgDsVolumes x (discoverDataSyncVolumePlan r (fst (resolveClusters i cfg)) i) (\<lambda>pvcs.
      if pvcs = [] then completeDataSyncNoPVC r x
      else orFailLifecycle r dataSyncReasonSourceVeleroRuntimeNotReady x (ensureDataSyncTrafficlessRuntime (fst (resolveClusters i cfg)) ''source'' True) (\<lambda>_.
           orFailLifecycle r dataSyncReasonTargetVeleroRuntimeNotReady x (ensureDataSyncTrafficlessRuntime (snd (resolveClusters i cfg)) ''target'' False) (\<lambda>_. k))))
      (\<lambda>_. atDone r w ds) u" if "atEarly r w ds u" for u
    by (rule wp_orFail(1) [OF R(2,3) assms(4)], rule wp_mono [OF wp_early_discover [OF that]])
      (auto intro: read_late early_read skip runtime assms(5))
  show ?thesis
    unfolding preflight_def Let_def
    by (rule wp_orFail(1) [OF R(2,3) assms(4)], rule wp_quiet [OF quietF.frame_kubeClientSet quiet_invs(1) assms(3)])
      (auto intro: read_late early_read volumes)
qed

lemma wp_needed:
  assumes "atEarly r w ds v" and "sameSync ds x"
  shows "wp (shouldRunNoPVCPreflight r x) (knows (atEarly r w ds) (\<lambda>z. z \<longrightarrow> (\<forall>b. phaseOf (so_status ds) \<noteq> Copying b))) v"
proof (cases "ss_state (so_status ds) = SyncInProgress \<and> (ss_lastBackupName (so_status ds) \<noteq> [] \<or> ss_lastRestoreName (so_status ds) \<noteq> [])")
  case True
  then show ?thesis using assms(1) by (auto simp: shouldRunNoPVCPreflight_def Let_def sameSync_names [OF assms(2)])
next
  case False
  then have "phaseOf (so_status ds) \<noteq> Copying b" for b by (auto simp: phaseOf_def split: SyncState.splits)
  then show ?thesis
    by (intro wp_read [OF quietF.frame_shouldPreflight quiet_invs(1) assms(1)] wp_any) simp
qed

text \<open>A read whose error ends the run.\<close>

lemma wp_orFail_early:
  assumes "shouldSync r ds" and "phaseOf (so_status ds) \<noteq> Fresh" and "sameSync ds x" and "wp m (knows (atEarly r w ds) P) v"
    and "\<And>z u. atEarly r w ds u \<Longrightarrow> P z \<Longrightarrow> wp (f z) (\<lambda>_. atDone r w ds) u"
  shows "wp (orFailSync r reason msg x m f) (\<lambda>_. atDone r w ds) v"
  by (rule wp_orFail(1) [OF assms(1-3)], rule wp_mono [OF assms(4)]) (use assms(5) in \<open>blast intro: read_late early_read\<close>)

lemma wp_getInstance:
  assumes "atEarly r w ds v"
  shows "wp (apiGet instKind (syncNs ds, ss_instance (so_spec ds))) (knows (atEarly r w ds) (\<lambda>i. instanceOf w ds = Some i)) v"
  by (rule wp_read [OF quietF.rel_apiGet quiet_invs(1) assms], rule wp_apiGet)
    (use early_eq [OF assms] in \<open>simp_all add: instanceOf_def lookup_def\<close>)

lemma wp_getConfig:
  assumes "atEarly r w ds v" and "instanceOf w ds = Some i"
  shows "wp (apiGet cfgKind ([], di_config (in_spec i))) (knows (atEarly r w ds) (\<lambda>c. configOf w ds = Some c)) v"
  by (rule wp_read [OF quietF.rel_apiGet quiet_invs(1) assms(1)], rule wp_apiGet)
    (use early_eq [OF assms(1)] assms(2) in \<open>simp_all add: configOf_def lookup_def\<close>)

lemma wp_executeSync:
  assumes "keepsKey (sy_setController r)" and "shouldSync r ds" and "phaseOf (so_status ds) \<noteq> Fresh" and "atEarly r w ds v" and "sameSync ds x"
  shows "wp (executeSync r x) (\<lambda>_. atDone r w ds) v"
proof -
  note E = wp_orFail_early [OF assms(2,3,5)]
  have step: "wp (if z then preflight r x i c (runStep r x c i) else runStep r x c i) (\<lambda>_. atDone r w ds) u"
    if "instanceOf w ds = Some i" and "configOf w ds = Some c" and "atEarly r w ds u" and "z \<longrightarrow> (\<forall>b. phaseOf (so_status ds) \<noteq> Copying b)" for i c z u
  proof -
    have run: "running r w ds i c" using assms(1-3) that(1,2) by (simp add: running_def)
    show ?thesis
    proof (cases z)
      case True
      then have "\<And>b. phaseOf (so_status ds) \<noteq> Copying b" using that(4) by blast
      from wp_preflight [OF run this that(3) assms(5) wp_runStep [OF run _ assms(5)]] True show ?thesis by simp
    next
      case False
      with wp_runStep [OF run that(3) assms(5)] show ?thesis by simp
    qed
  qed
  show ?thesis
    unfolding executeSync_def sameSync_names [OF assms(5)]
  proof (rule E [OF wp_getInstance [OF assms(4)]], rule E [OF wp_getConfig], assumption+, goal_cases)
    case (1 i u c t)
    show ?case by (rule E [OF wp_needed [OF 1(3) assms(5)]]) (rule step [OF 1(2,4)])
  qed
qed

section \<open>The reconcile loop\<close>

lemma jobs_of_others: "AList.delete (jobKey k) (fst (AddOrUpdate e k s cb jobs)) = AList.delete (jobKey k) jobs"
  "AList.delete (jobKey k) (RemoveJob k jobs) = AList.delete (jobKey k) jobs"
  by (auto simp: AddOrUpdate_def RemoveJob_def Let_def AList.delete_idem delete_update_same split: option.split)

lemma early_jobs:
  assumes "atEarly r w ds v" and "AList.delete (jobKey (syncKey ds)) js = AList.delete (jobKey (syncKey ds)) (w_jobs v)"
  shows "atEarly r w ds (v\<lparr>w_jobs := js\<rparr>)"
  using assms by (simp add: atEarly_def syncAt_def lookup_def earlyView_def outsideSync_def)

lemma wp_removeJob: "atEarly r w ds v \<Longrightarrow> syncKey x = syncKey ds \<Longrightarrow> wp (removeJob (syncKey x)) (\<lambda>_. atEarly r w ds) v"
  by (simp add: removeJob_def wp_def early_jobs jobs_of_others)

lemma wp_schedule:
  assumes "atEarly r w ds v" and "sameSync ds x"
  shows "wp (scheduleSync q cb x) (\<lambda>_. atEarly r w ds) v"
proof -
  have key: "syncKey x = syncKey ds" by (rule sameSync_key [OF assms(2)])
  have add: "wp (addJob e (syncKey x) sch cb) (\<lambda>_. atEarly r w ds) v" for e sch
    by (simp add: addJob_def wp_def Let_def key early_jobs [OF assms(1)] jobs_of_others)
  have told: "wp (emit n t) (\<lambda>_. atEarly r w ds) u" if "atEarly r w ds u" for n t u
    by (rule wp_quiet [OF quietF.rel_emit quiet_invs(1) that])
  show ?thesis
    unfolding scheduleSync_def Let_def
    using assms(1) wp_removeJob [OF assms(1) key]
    by (auto simp del: wp_bind wp_emit intro!: wp_bindI [OF add] told split: option.split)
qed

text \<open>The object that is being deleted disappears with its last finalizer, or stays as it is.\<close>

lemma syncAt_gone:
  assumes "syncAt k P w"
  shows "syncAt k P (w\<lparr>w_ds := filter (\<lambda>y. keyOf dsKind y \<noteq> q) (w_ds w)\<rparr>)"
proof -
  have "find (\<lambda>y. keyOf dsKind y = k) (w_ds w) = Some d"
    if "find (\<lambda>y. keyOf dsKind y = k) (filter (\<lambda>y. keyOf dsKind y \<noteq> q) (w_ds w)) = Some d" for d
    using that by (rule find_filter_other) simp
  with assms show ?thesis by (simp add: syncAt_def lookup_def)
qed

lemma wp_deleting:
  assumes "atLate r w ds v" and "syncKey x = syncKey ds" and "so_spec x = so_spec ds"
  shows "wp (faulty (storeUpdateDeleting dsKind x)) (\<lambda>_. atLate r w ds) v"
proof -
  have "wp (storeUpdateDeleting dsKind x) (\<lambda>_. syncAt (syncKey ds) (untouched ds)) u" if u: "syncAt (syncKey ds) (untouched ds) u" for u
    unfolding storeUpdateDeleting_def wp_chk
  proof (rule wp_storeWrite, goal_cases)
    case (2 s)
    have "syncAt (syncKey ds) (untouched ds) (replaceObj dsKind (bumpRv dsKind s (k_mergeSpec dsKind s x)) u)"
      by (rule syncAt_replace [OF u, of x]) (use 2(1) assms(3) in \<open>simp_all add: untouched_def\<close>)
    then show ?case using syncAt_gone by (simp add: wp_def)
  qed (use u in simp)
  moreover have at: "syncAt (syncKey ds) (untouched ds) (v\<lparr>w_faults := fs\<rparr>)" for fs
    using assms(1) by (simp add: atLate_def syncAt_def)
  ultimately have "wp (faulty (storeUpdateDeleting dsKind x)) (\<lambda>_. syncAt (syncKey ds) (untouched ds)) v"
    by (intro wp_faulty at) simp
  moreover have "wp (faulty (storeUpdateDeleting dsKind x)) (\<lambda>_ u. outsideSync r w ds u = outsideSync r w ds w) v"
    by (rule wp_outside [OF ownDs.hidden_deleting]) (use assms in \<open>simp_all add: atLate_def\<close>)
  ultimately show ?thesis unfolding atLate_def by (rule wp_both)
qed

lemma wp_deleteSync:
  assumes "atEarly r w ds v" and "sameSync ds x"
  shows "wp (deleteSync x) (\<lambda>_. atDone r w ds) v"
proof -
  have key: "syncKey x = syncKey ds" by (rule sameSync_key [OF assms(2)])
  have gone: "wp (faulty (storeUpdateDeleting dsKind (x\<lparr>so_meta := (so_meta x)\<lparr>m_finalizers := fs\<rparr>\<rparr>))) (\<lambda>_. atLate r w ds) u"
    if "atEarly r w ds u" for fs u
    by (rule wp_deleting [OF read_late [OF early_read [OF that]]]) (use key sameSync_names(4) [OF assms(2)] in \<open>simp_all add: syncKey_def metaKey_def\<close>)
  show ?thesis
    unfolding deleteSync_def
    using read_done [OF early_read [OF assms(1)]]
    by (auto simp del: wp_bind simp: key intro!: wp_quiet_bind [OF quietF.rel_emit quiet_invs(1) assms(1)] wp_bindI [OF wp_removeJob [OF _ key, unfolded key]]
        wp_bindI [OF gone] wp_quiet_bind [OF quietF.rel_emit quiet_invs(3)] split: sum.split intro: late_done)
qed

lemma wp_syncEdges:
  assumes "atEarly r w ds v" and "sameSync ds x"
  shows "wp (dsSyncDependencyLabels q x) (\<lambda>y u. atEarly r w ds u \<and> sameSync ds (snd y)) v"
proof -
  have "sameSync ds (x\<lparr>so_meta := (so_meta x)\<lparr>m_labels := ls\<rparr>\<rparr>)" for ls
    using assms(2) by (simp add: sameSync_def syncKey_def metaKey_def)
  then have "wp (dsSyncDependencyLabels q x) (\<lambda>y _. sameSync ds (snd y)) v"
    unfolding dsSyncDependencyLabels_def Let_def by (intro wp_bindI [where P = "\<lambda>_ _. True", OF wp_any]) simp_all
  moreover have "wp (dsSyncDependencyLabels q x) (\<lambda>_. atEarly r w ds) v"
    by (rule wp_quiet [OF quietF.frame_syncEdges quiet_invs(1) assms(1)])
  ultimately show ?thesis by (intro wp_conj)
qed

lemma wp_reconcileSync:
  assumes "keepsKey (sy_setController r)" and "atEarly r w ds v"
  shows "wp (reconcileSync r ds) (\<lambda>_. atDone r w ds) v"
proof -
  have saved: "wp (chk (apiUpdate dsKind x) (\<lambda>_. ok requeue_result)) (\<lambda>_. atDone r w ds) u" if "atEarly r w ds u" and "sameSync ds x" for x u
    by (rule wp_chkI2 [OF wp_saveMeta [OF read_late [OF early_read [OF that(1)]] that(2)]]) (auto intro: late_done)
  have marked: "sameSync ds (ds\<lparr>so_meta := (so_meta ds)\<lparr>m_finalizers := fs\<rparr>\<rparr>)" for fs
    by (simp add: sameSync_def syncKey_def metaKey_def)
  have created: "wp (chk (apiStatusUpdate dsKind (mapSyncStatus (\<lambda>s. s\<lparr>ss_state := SyncReady, ss_reason := [], ss_message := []\<rparr>) x)) (\<lambda>_. ok requeue_result)) (\<lambda>_. atDone r w ds) u"
    if "atEarly r w ds u" and "sameSync ds x" and "ss_state (so_status ds) = SyncNone" for x u
  proof (rule wp_chkI2)
    have "runMoves r w ds ((so_status ds)\<lparr>ss_state := SyncReady, ss_reason := [], ss_message := []\<rparr>)"
      using runEdge.created that(3) by (simp add: runMoves_def phaseOf_def endsRun_def)
    then show "wp (apiStatusUpdate dsKind (mapSyncStatus (\<lambda>s. s\<lparr>ss_state := SyncReady, ss_reason := [], ss_message := []\<rparr>) x)) (\<lambda>_. atDone r w ds) u"
      by (intro wp_saveStatus [OF read_late [OF early_read [OF that(1)]]])
        (use sameSync_key [OF that(2)] sameSync_names(3) [OF that(2)] in \<open>simp_all add: mapSyncStatus_def syncKey_def\<close>)
  qed simp_all
  have run: "wp (if shouldSync r x then executeSync r x else ok done_result) (\<lambda>_. atDone r w ds) u"
    if "atEarly r w ds u" and "sameSync ds x" and "ss_state (so_status ds) \<noteq> SyncNone" for x u
  proof -
    have "phaseOf (so_status ds) \<noteq> Fresh" using that(3) by (auto simp: phaseOf_def split: SyncState.splits)
    then show ?thesis
      using wp_executeSync [OF assms(1) _ _ that(1,2)] read_done [OF early_read [OF that(1)]] by (simp add: sameSync_names(9) [OF that(2)])
  qed
  have steady: "wp (do { scheduleSync r cb x; (if shouldSync r x then executeSync r x else ok done_result) }) (\<lambda>_. atDone r w ds) u"
    if "atEarly r w ds u" and "sameSync ds x" and "ss_state (so_status ds) \<noteq> SyncNone" for cb x u
    by (rule wp_bindI [OF wp_schedule [OF that(1,2)]]) (rule run [OF _ that(2,3)])
  have labelled: "wp (do { x \<leftarrow> dsSyncDependencyLabels (sy_base r) ds;
      (let ds1 = snd x in
       if fst x then chk (apiUpdate dsKind ds1) (\<lambda>_. ok requeue_result)
       else if ss_state (so_status ds1) = SyncNone
       then chk (apiStatusUpdate dsKind (mapSyncStatus (\<lambda>s. s\<lparr>ss_state := SyncReady, ss_reason := [], ss_message := []\<rparr>) ds1)) (\<lambda>_. ok requeue_result)
       else do { scheduleSync r TriggerDataSync ds1; (if shouldSync r ds1 then executeSync r ds1 else ok done_result) }) }) (\<lambda>_. atDone r w ds) v"
  proof (rule wp_bindI [OF wp_syncEdges [OF assms(2) sameSync_refl]], goal_cases)
    case (1 y u)
    then have y: "atEarly r w ds u" "sameSync ds (snd y)" by simp_all
    show ?case
      using saved [OF y] created [OF y] steady [OF y] sameSync_names(3) [OF y(2)] by (simp add: Let_def del: wp_bind wp_chk)
  qed
  show ?thesis
    unfolding reconcileSync_def
    using saved [OF assms(2) marked] wp_deleteSync [OF assms(2) sameSync_refl] labelled by (simp del: wp_bind wp_chk)
qed

lemma early_start: "lookup dsKind w k = Some ds \<Longrightarrow> atEarly r w ds (w\<lparr>w_faults := fs\<rparr>)"
  using dsK.lookup_key [of w k ds] by (simp add: atEarly_def syncAt_def untouched_def earlyView_def outsideSync_def lookup_def)

lemma data_sync_done:
  assumes "keepsKey (sy_setController r)" and "lookup dsKind w k = Some ds"
  shows "wp (dataSyncReconcile r k) (\<lambda>_. atDone r w ds) w"
proof -
  have k: "syncKey ds = k" using dsK.lookup_key [OF assms(2)] by simp
  note early = early_start [OF assms(2)]
  have late: "atDone r w ds (w\<lparr>w_faults := fs\<rparr>)" for fs
    by (rule read_done [OF early_read [OF early]])
  show ?thesis
    unfolding dataSyncReconcile_def wp_bind
  proof (rule wp_apiGet, goal_cases)
    case (1 e fs)
    have "atDone r w ds ((w\<lparr>w_faults := fs\<rparr>)\<lparr>w_jobs := RemoveJob k (w_jobs w)\<rparr>)"
      using read_done [OF early_read [OF early_jobs [OF early]]] jobs_of_others k by simp
    then show ?case using late by (simp add: removeJob_def wp_def)
  next
    case (2 x fs)
    then have "x = ds" using assms(2) by (simp add: lookup_def)
    then show ?case using wp_reconcileSync [OF assms(1) early] by simp
  qed
qed

end
