(* ===== verification/DataSyncProps.thy ===== *)
theory DataSyncProps
  imports DataSyncRuns
begin

text \<open>
  The properties of the data sync controller: the refinement of the machine of \<open>DataSyncFsm\<close>,
  what a sync may change, and the run that cannot succeed again after a failed backup.
\<close>

section \<open>One step of the machine\<close>

definition sSyncRec :: syncReconciler where
  "sSyncRec = \<lparr>sy_base = sRec\<lparr>r_now := 90\<rparr>, sy_setCondition = (\<lambda>c cs. c # filter (\<lambda>x. c_type x \<noteq> c_type c) cs),
     sy_removeCondition = (\<lambda>t. filter (\<lambda>x. c_type x \<noteq> t)), sy_setController = (\<lambda>owner m. Inr (m\<lparr>m_owners := m_owners m @
       [\<lparr>ow_kind = ''DataSync'', ow_name = m_name owner, ow_uid = m_uid owner, ow_controller = True\<rparr>]\<rparr>)),
     sy_cronError = (\<lambda>_. None), sy_fmtTimeUTC = (\<lambda>_. ''now''), sy_historyRetention = 10, sy_backupObserveRequeue = 5 * second,
     sy_backupInProgressRequeue = 10 * second, sy_historyMissingRequeue = 10 * second, sy_restoreObserveRequeue = 10 * second,
     sy_podVolumeRestorePendingWait = 10 * minute, sy_inProgressPollInterval = 5 * second, sy_inProgressMaxWait = 60 * minute,
     sy_parallelFilesUpload = []\<rparr>"

lemma sample_keepsKey: "keepsKey (sy_setController sSyncRec)"
  by (simp add: keepsKey_def sSyncRec_def metaKey_def)

text \<open>A sync in the middle of a run: its backup completed, and the restore of the backup succeeded.\<close>

definition sRunning :: "string \<Rightarrow> SyncObject" where
  "sRunning b = (let s = sSync ''dr-ds-app'' False in s\<lparr>so_meta := (so_meta s)\<lparr>m_finalizers := [dataSyncFinalizer],
     m_labels := fst (RebuildDependencyToLabels (fst (EnsureDependencyTokenLabel (\<lambda>s. s) [] ''dr-ds-app'')) [edgeTo sRec ''app'' ''spec.instance''])\<rparr>,
     so_status := (so_status s)\<lparr>ss_state := SyncInProgress, ss_lastBackupName := b\<rparr>\<rparr>)"

definition sBackup :: "string \<Rightarrow> BackupRecord list \<Rightarrow> AppBackup" where
  "sBackup st h = \<lparr>ab_meta = sMeta ''ns'' ''ds-dr-ds-app'',
     ab_spec = (buildAppBackupSpec sSyncRec (sInst FsmProtected ''east'' ''west'') sCfg)\<lparr>abs_action := Some \<lparr>bac_type = ''Backup'', bac_requestAt = 4\<rparr>\<rparr>,
     ab_status = \<lparr>abt_status = st, abt_message = [], abt_history = h\<rparr>\<rparr>"

definition sCompleted :: BackupRecord where
  "sCompleted = \<lparr>br_name = ''bk'', br_phase = ''Completed'', br_managedStatus = [], br_start = None, br_itemsBackedUp = Some 3, br_hookStatus = None\<rparr>"

definition sRestored :: AppRestore where
  "sRestored = (let ds = sRunning ''bk''; n = dataSyncRestoreName sRec ds ''bk'' in
     \<lparr>ar_meta = (sMeta ''ns'' n)\<lparr>m_labels := dataSyncTrafficlessAppRestoreLabels sRec ds n\<rparr>,
      ar_spec = BuildAppRestoreSpec \<lparr>bc_restoreType = RestoreTypeData, bc_backupSource = appBackupNameOf ds, bc_backupName = ''bk'',
        bc_targetCluster = ''west'', bc_sourceCluster = ''east'', bc_storageRepository = ''repo'', bc_includedNamespaces = [''web''], bc_namespaceMapping = [],
        bc_isForDrill = False, bc_extraResourceModifierRules = [], bc_dataResourceModifierRules = [], bc_dataRestoreHooks = None\<rparr>,
      ar_phase = PhaseSucceeded, ar_reason = [], ar_message = [], ar_itemsRestored = Some 3, ar_hookStatus = None\<rparr>)"

definition sClaim :: Pvc where
  "sClaim = \<lparr>pvc_meta = sMeta ''web'' ''data'', pvc_phase = ''Bound'', pvc_storageClassName = None, pvc_conditionReasons = []\<rparr>"

definition sPod :: "string \<Rightarrow> smap \<Rightarrow> Pod" where
  "sPod n ls = \<lparr>pod_meta = (sMeta ''web'' n)\<lparr>m_labels := ls\<rparr>, pod_phase = ''Running'', pod_initWaiting = [], pod_waiting = [], pod_conditions = [],
     pod_reason = [], pod_spec = \<lparr>ps_images = [], ps_initImages = [], ps_ephemeralImages = []\<rparr>, pod_claims = [''data'']\<rparr>"

definition sCopyWorld :: "SyncObject \<Rightarrow> AppBackup \<Rightarrow> Pod list \<Rightarrow> world" where
  "sCopyWorld ds ab pods = (sWorld [] (sInst FsmProtected ''east'' ''west'') ''east'')\<lparr>w_ds := [ds], w_appBackups := [ab], w_restores := [sRestored],
     w_storageRepos := [\<lparr>sr_meta = sMeta ''disaster-system'' ''repo'', sr_status = ''Available'', sr_message = []\<rparr>],
     w_pvcs := (\<lambda>c. [sClaim]), w_pods := (\<lambda>c. if c = ''west'' then pods else [])\<rparr>"

definition syncAfter :: "world \<Rightarrow> SyncObject option" where
  "syncAfter w = lookup dsKind (snd (run_state (dataSyncReconcile sSyncRec (''ns'', ''dr-ds-app'')) w)) (''ns'', ''dr-ds-app'')"

text \<open>C5. Refinement: a reconcile of the data sync controller, whatever the API server answers, moves the run of the sync by at
  most one edge of the machine: it ends well only when there was no volume to copy, or when the backup of the run completed, its restore
  succeeded and, for a restore of volumes, every volume in scope is bound in the target cluster. A run records its end, and only its end.\<close>

theorem data_sync_refines_run:
  assumes "keepsKey (sy_setController r)" and "lookup dsKind w k = Some ds"
    and "lookup dsKind (snd (run_state (dataSyncReconcile r k) w)) k = Some ds'"
  shows "runMoves r w ds (so_status ds')"
proof -
  have "atDone r w ds (snd (run_state (dataSyncReconcile r k) w))"
    using data_sync_done [OF assms(1,2)] by (simp add: wp_snd)
  moreover have "syncKey ds = k" using dsK.lookup_key [OF assms(2)] by simp
  ultimately show ?thesis using assms(3) by (simp add: atDone_def syncAt_def moved_def)
qed

text \<open>The restore has succeeded: the run ends, and what it restored follows from the theorem.\<close>

theorem data_sync_refines_run_witness:
  "let ds = sRunning ''bk''; w = sCopyWorld ds (sBackup ''Ready'' [sCompleted]) []
   in (\<exists>ds'. syncAfter w = Some ds' \<and> phaseOf (so_status ds') = Idle \<and> ss_lastSyncTime (so_status ds') = Some 90) \<and>
      phaseOf (so_status ds) = Copying ''bk'' \<and> restoredIn sSyncRec w ds ''bk''"
proof -
  let ?ds = "sRunning ''bk''"
  let ?w = "sCopyWorld ?ds (sBackup ''Ready'' [sCompleted]) []"
  have a: "lookup dsKind ?w (''ns'', ''dr-ds-app'') = Some ?ds" by code_simp
  have "map_option (\<lambda>d. phaseOf (so_status d)) (syncAfter ?w) = Some Idle" by code_simp
  then obtain ds' where d: "syncAfter ?w = Some ds'" "phaseOf (so_status ds') = Idle" by auto
  have p: "phaseOf (so_status ?ds) = Copying ''bk''" by code_simp
  have m: "runMoves sSyncRec ?w ?ds (so_status ds')"
    by (rule data_sync_refines_run [OF sample_keepsKey a d(1) [unfolded syncAfter_def]])
  have now: "sy_now sSyncRec = 90" by (simp add: sy_now_def sSyncRec_def)
  from m have "runEdge sSyncRec ?w ?ds (Copying ''bk'') Idle" and "ss_lastSyncTime (so_status ds') = Some 90"
    by (simp_all add: runMoves_def p d(2) endsRun_def now)
  then show ?thesis using d p by (auto simp: Let_def elim: to_Idle)
qed

text \<open>C6. Safety: a reconcile of a data sync, with any faults, changes nothing but the sync itself, its backup, the restore of its
  run, its cron job, the pods of the target cluster that carry its owner token, and there the namespaces the instance lists and
  the copies of the registry pull secret in them; the statistics objects and the events, which it writes too, are not looked at. The instance, the operations, all other
  syncs, backups, restores, secrets and pods, and every workload of every cluster stay as they are.\<close>

theorem data_sync_isolated:
  assumes "keepsKey (sy_setController r)" and "lookup dsKind w k = Some ds"
  shows "outsideSync r w ds (snd (run_state (dataSyncReconcile r k) w)) = outsideSync r w ds w"
  using data_sync_done [OF assms] by (simp add: wp_snd atDone_def)

text \<open>The pod that received the data goes; the pod of the application stays, as it does for any data sync.\<close>

theorem data_sync_isolated_witness:
  "let ds = sRunning ''bk''; own = dataSyncTrafficlessLabels sRec ds (dataSyncRestoreName sRec ds ''bk'');
       w = sCopyWorld ds (sBackup ''Ready'' [sCompleted]) [sPod ''srv'' [], sPod ''mover'' own];
       w' = snd (run_state (dataSyncReconcile sSyncRec (''ns'', ''dr-ds-app'')) w)
   in map (m_name \<circ> pod_meta) (w_pods w' ''west'') = [''srv''] \<and> outsideSync sSyncRec w ds w' = outsideSync sSyncRec w ds w"
proof -
  let ?ds = "sRunning ''bk''"
  let ?w = "sCopyWorld ?ds (sBackup ''Ready'' [sCompleted])
    [sPod ''srv'' [], sPod ''mover'' (dataSyncTrafficlessLabels sRec ?ds (dataSyncRestoreName sRec ?ds ''bk''))]"
  have a: "lookup dsKind ?w (''ns'', ''dr-ds-app'') = Some ?ds" by code_simp
  have b: "map (m_name \<circ> pod_meta) (w_pods (snd (run_state (dataSyncReconcile sSyncRec (''ns'', ''dr-ds-app'')) ?w)) ''west'') = [''srv'']" by code_simp
  show ?thesis using data_sync_isolated [OF sample_keepsKey a] b by (simp add: Let_def)
qed

end
