(* ===== verification/DataSyncBlocked.thy ===== *)
theory DataSyncBlocked
  imports DataSyncProps
begin

text \<open>
  A failed backup blocks its data sync. A run looks for a backup of its own and gives up when
  the backup object is marked as failed; it does not ask for a new one then. Nothing
  in the sync clears the mark, so every later run ends the same way until the controller of backups
  takes the mark away.
\<close>

section \<open>The blocked sync\<close>

text \<open>The backup is marked as failed, its last action and its records are not newer than the last run.\<close>

definition oldBackup :: "AppBackup \<Rightarrow> time \<Rightarrow> bool" where
  "oldBackup ab l \<longleftrightarrow> abt_status (ab_status ab) = ''Failed'' \<and>
     (case abs_action (ab_spec ab) of None \<Rightarrow> True | Some a \<Rightarrow> bac_requestAt a \<le> l) \<and>
     list_all (\<lambda>rec. case br_start rec of None \<Rightarrow> True | Some t \<Rightarrow> t \<le> l) (abt_history (ab_status ab))"

definition blocked :: "syncReconciler \<Rightarrow> world \<Rightarrow> SyncObject \<Rightarrow> bool" where
  "blocked r w ds \<longleftrightarrow> (ss_state (so_status ds) = SyncInProgress \<longrightarrow> ss_lastBackupName (so_status ds) = []) \<and>
     (case (lookup appBackupKind w (syncNs ds, appBackupNameOf ds), ss_lastSyncTime (so_status ds)) of
        (Some ab, Some l) \<Rightarrow> oldBackup ab l \<and>
          (case (instanceOf w ds, configOf w ds) of
             (Some i, Some cfg) \<Rightarrow> \<not> AppBackupSpecNeedsUpdate (ab_spec ab) (buildAppBackupSpec r i cfg)
           | _ \<Rightarrow> True)
      | _ \<Rightarrow> False)"

lemma blockedD:
  assumes "blocked r w ds"
  obtains ab l where "lookup appBackupKind w (syncNs ds, appBackupNameOf ds) = Some ab" and "ss_lastSyncTime (so_status ds) = Some l" and "oldBackup ab l"
    and "\<And>i cfg. instanceOf w ds = Some i \<Longrightarrow> configOf w ds = Some cfg \<Longrightarrow> \<not> AppBackupSpecNeedsUpdate (ab_spec ab) (buildAppBackupSpec r i cfg)"
    and "\<And>b. phaseOf (so_status ds) \<noteq> Copying b"
proof -
  have "phaseOf (so_status ds) \<noteq> Copying b" for b
    using assms by (auto simp: blocked_def phaseOf_def split: SyncState.splits)
  moreover from assms obtain ab l where "lookup appBackupKind w (syncNs ds, appBackupNameOf ds) = Some ab"
    "ss_lastSyncTime (so_status ds) = Some l" "oldBackup ab l" by (auto simp: blocked_def split: option.splits)
  ultimately show thesis using assms by (intro that [of ab l]) (simp_all add: blocked_def)
qed

lemma oldBackup_later: "oldBackup ab l \<Longrightarrow> l \<le> l' \<Longrightarrow> oldBackup ab l'"
  by (auto simp: oldBackup_def list_all_iff split: option.splits)

lemma old_action:
  assumes "oldBackup ab l"
  shows "CurrentBackupActionVeleroBackupName q n ab (Some l) = None"
  using assms by (auto simp: oldBackup_def CurrentBackupActionVeleroBackupName_def split: option.splits)

lemma old_records:
  assumes "oldBackup ab l"
  shows "find (\<lambda>rec. backupStartedForDataSyncRun (br_start rec) (Some l)) (abt_history (ab_status ab)) = None"
  using assms by (auto simp: oldBackup_def list_all_iff find_None_iff backupStartedForDataSyncRun_def split: option.splits)

lemma no_backup_of_run: "blocked r w ds \<Longrightarrow> \<not> backupOfRun r w ds b"
proof (erule blockedD)
  fix ab l assume ab: "lookup appBackupKind w (syncNs ds, appBackupNameOf ds) = Some ab" "ss_lastSyncTime (so_status ds) = Some l" and old: "oldBackup ab l"
  have "\<not> backupStartedForDataSyncRun (br_start rec) (Some l)" if "rec \<in> set (abt_history (ab_status ab))" for rec
    using old_records [OF old] that by (auto simp: find_None_iff)
  then show "\<not> backupOfRun r w ds b" by (auto simp: backupOfRun_def ab old_action [OF old])
qed

section \<open>The backup stays as it is\<close>

interpretation abF: world_frame w_appBackups
  by unfold_locales simp_all

text \<open>Writes of the sync itself do not touch the backups.\<close>

lemma backups_endRun: "state_io_rel abF.same (endRun f x)"
  unfolding endRun_def by (intro abF.rel_intros abF.frame_statusUpdate abF.frame_syncStatistics) simp_all

lemma backups_fail: "state_io_rel abF.same (failDataSync r reason msg x)"
  unfolding failDataSync_def by (rule backups_endRun)

lemma backups_skip: "state_io_rel abF.same (completeDataSyncNoPVC r x)"
  unfolding completeDataSyncNoPVC_def by (intro abF.rel_intros abF.frame_statusUpdate abF.frame_syncStatistics) simp_all

lemma backups_start: "state_io_rel abF.same (startRun r x)"
  unfolding startRun_def by (intro abF.rel_intros abF.frame_statusUpdate abF.frame_syncStatistics) simp_all

lemma backups_failed: "state_io_rel abF.same (backupFailed r x ab)"
  unfolding backupFailed_def Let_def by (rule backups_fail)

lemma backups_deleting: "state_io_rel abF.same (faulty (storeUpdateDeleting dsKind x))"
  unfolding storeUpdateDeleting_def
  by (intro abF.rel_faulty abF.rel_chk abF.rel_storeWrite state_io_relI) (auto simp: abF.same_def replaceObj_def split: if_splits)

lemma backups_jobs: "state_io_rel abF.same (addJob e k s cb)" "state_io_rel abF.same (removeJob k)"
  by (rule state_io_relI; auto simp: abF.same_def addJob_def removeJob_def Let_def)+

lemma backups_delete: "state_io_rel abF.same (deleteSync x)"
  unfolding deleteSync_def by (intro abF.rel_intros backups_deleting backups_jobs)

text \<open>An action that keeps the backups, as a condition on where it starts.\<close>

definition keepsBackups :: "world \<Rightarrow> 'a action \<Rightarrow> world \<Rightarrow> bool" where
  "keepsBackups w m v \<longleftrightarrow> wp m (\<lambda>_ u. w_appBackups u = w_appBackups w) v"

lemma keepsBackups_frame: "state_io_rel abF.same m \<Longrightarrow> w_appBackups v = w_appBackups w \<Longrightarrow> keepsBackups w m v"
  unfolding keepsBackups_def by (rule wp_mono, erule abF.wp_same) simp

lemma keepsBackups_orFail:
  assumes "wp m (knows (atEarly r w ds) P) v" and "\<And>z u. atEarly r w ds u \<Longrightarrow> P z \<Longrightarrow> keepsBackups w (f z) u"
  shows "keepsBackups w (orFailSync r reason msg x m f) v" "keepsBackups w (orFailLifecycle r fb x m f) v"
proof -
  have bad: "wp (failDataSync r a t x) (\<lambda>_ u. w_appBackups u = w_appBackups w) u" if "atEarly r w ds u" for a t u
    using keepsBackups_frame [OF backups_fail early_eq(1) [OF that]] by (simp add: keepsBackups_def)
  show "keepsBackups w (orFailSync r reason msg x m f) v" "keepsBackups w (orFailLifecycle r fb x m f) v"
    unfolding orFailSync_def orFailLifecycle_def keepsBackups_def wp_bind
    by (rule wp_mono [OF assms(1)], use bad assms(2) in \<open>auto simp: Let_def keepsBackups_def split: sum.split prod.split\<close>)+
qed

lemma wp_early: "state_io_rel quietF.same m \<Longrightarrow> atEarly r w ds v \<Longrightarrow> wp m (knows (atEarly r w ds) (\<lambda>_. True)) v"
  by (rule wp_quiet [OF _ quiet_invs(1)]) simp_all

section \<open>A reconcile of a blocked sync\<close>

lemma backups_findBackup:
  assumes "blocked r w ds" and "lookup appBackupKind w (syncNs ds, appBackupNameOf ds) = Some ab" and "sameSync ds x" and "w_appBackups v = w_appBackups w"
  shows "keepsBackups w (findBackup r x ab) v"
  using assms(1)
proof (rule blockedD)
  fix a l assume a: "lookup appBackupKind w (syncNs ds, appBackupNameOf ds) = Some a" and l: "ss_lastSyncTime (so_status ds) = Some l" and old: "oldBackup a l"
  have "findBackup r x ab = backupFailed r x ab"
    using a assms(2) old_action [OF old] old_records [OF old] old
    by (simp add: findBackup_def Let_def sameSync_names [OF assms(3)] l oldBackup_def)
  then show ?thesis using keepsBackups_frame [OF backups_failed assms(4)] by simp
qed

lemma backups_runBackup:
  assumes "blocked r w ds" and "instanceOf w ds = Some i" and "configOf w ds = Some cfg" and "ss_state (so_status ds) = SyncInProgress"
    and "atEarly r w ds v" and "sameSync ds x"
  shows "keepsBackups w (runBackup r x cfg i) v"
  using assms(1)
proof (rule blockedD)
  let ?k = "(syncNs ds, appBackupNameOf ds)"
  fix ab l assume ab: "lookup appBackupKind w ?k = Some ab" and spec: "\<And>i cfg. instanceOf w ds = Some i \<Longrightarrow> configOf w ds = Some cfg \<Longrightarrow>
      \<not> AppBackupSpecNeedsUpdate (ab_spec ab) (buildAppBackupSpec r i cfg)"
  have fresh: "ss_lastBackupName (so_status ds) = []" using assms(1,4) by (simp add: blocked_def)
  have found: "lookup appBackupKind (v\<lparr>w_faults := fs\<rparr>) ?k = Some ab" for fs
    using ab early_eq(1) [OF assms(5)] by (simp add: lookup_def)
  have "wp (apiGet appBackupKind ?k) (\<lambda>y _. (\<forall>z. y = Inr z \<longrightarrow> z = ab) \<and> (\<forall>e. y = Inl e \<longrightarrow> err_kind e \<noteq> NotFound)) v"
    by (rule wp_apiGet_notFound) (use found in auto)
  from wp_conj [OF wp_early [OF quietF.rel_apiGet assms(5)] this]
  have got: "wp (apiGet appBackupKind ?k) (\<lambda>y u. atEarly r w ds u \<and> (\<forall>z. y = Inr z \<longrightarrow> z = ab) \<and> (\<forall>e. y = Inl e \<longrightarrow> err_kind e \<noteq> NotFound)) v"
    by (rule wp_mono) simp
  show ?thesis
    unfolding keepsBackups_def runBackup_def Let_def sameSync_names [OF assms(6)]
  proof (rule wp_bindI [OF got], goal_cases)
    case (1 y u)
    then have same: "w_appBackups u = w_appBackups w" using early_eq(1) by blast
    show ?case
      using 1 keepsBackups_frame [OF backups_fail same] backups_findBackup [OF assms(1) ab assms(6) same] spec [OF assms(2,3)] fresh
      by (cases y) (simp_all add: keepsBackups_def)
  qed
qed

lemma backups_runStep:
  assumes "blocked r w ds" and "instanceOf w ds = Some i" and "configOf w ds = Some cfg" and "atEarly r w ds v" and "sameSync ds x"
  shows "keepsBackups w (runStep r x cfg i) v"
  unfolding runStep_def sameSync_names(3) [OF assms(5)]
proof (rule keepsBackups_orFail(1) [OF wp_early [OF quietF.frame_storage assms(4)]], goal_cases)
  case (1 z u)
  then show ?case
    using backups_runBackup [OF assms(1-3) _ 1(1) assms(5)] keepsBackups_frame [OF backups_start early_eq(1) [OF 1(1)]] by simp
qed

lemma backups_preflight:
  assumes "atEarly r w ds v" and "\<And>u. atEarly r w ds u \<Longrightarrow> keepsBackups w k u"
  shows "keepsBackups w (preflight r x i cfg k) v"
proof -
  have runtime: "keepsBackups w (orFailLifecycle r a x (ensureDataSyncTrafficlessRuntime c role b) (\<lambda>_. m)) u"
    if "atEarly r w ds u" and "\<And>t. atEarly r w ds t \<Longrightarrow> keepsBackups w m t" for a c role b m u
    by (rule keepsBackups_orFail(2) [OF wp_early [OF quietF.frame_veleroRuntime that(1)]]) (rule that(2))
  show ?thesis
    unfolding preflight_def Let_def
  proof (rule keepsBackups_orFail(1) [OF wp_early [OF quietF.frame_kubeClientSet assms(1)]],
      rule keepsBackups_orFail(1) [OF wp_early [OF quietF.frame_discover]], assumption, goal_cases)
    case (1 _ _ vs u)
    then show ?case using keepsBackups_frame [OF backups_skip early_eq(1) [OF 1(3)]] by (auto intro: runtime assms(2))
  qed
qed

lemma backups_execute:
  assumes "blocked r w ds" and "atEarly r w ds v" and "sameSync ds x"
  shows "keepsBackups w (executeSync r x) v"
proof -
  have inst: "wp (apiGet instKind (syncNs ds, ss_instance (so_spec ds))) (knows (atEarly r w ds) (\<lambda>i. instanceOf w ds = Some i)) v"
    by (rule wp_getInstance [OF assms(2)])
  show ?thesis
    unfolding executeSync_def sameSync_names [OF assms(3)]
  proof (rule keepsBackups_orFail(1) [OF inst], rule keepsBackups_orFail(1) [OF wp_getConfig], assumption+,
      rule keepsBackups_orFail(1) [OF wp_early [OF quietF.frame_shouldPreflight]], assumption, goal_cases)
    case (1 i t c u z s)
    then show ?case
      using backups_runStep [OF assms(1) 1(2,4) _ assms(3)] by (auto intro: backups_preflight)
  qed
qed

lemma backups_reconcile:
  assumes "blocked r w ds" and "atEarly r w ds v"
  shows "keepsBackups w (reconcileSync r ds) v"
proof -
  have save: "keepsBackups w (chk (apiUpdate dsKind x) (\<lambda>_. ok requeue_result)) u" if "atEarly r w ds u" for x u
    by (rule keepsBackups_frame [OF _ early_eq(1) [OF that]]) (intro abF.rel_intros abF.frame_update, simp)
  have status: "keepsBackups w (chk (apiStatusUpdate dsKind x) (\<lambda>_. ok requeue_result)) u" if "atEarly r w ds u" for x u
    by (rule keepsBackups_frame [OF _ early_eq(1) [OF that]]) (intro abF.rel_intros abF.frame_statusUpdate, simp)
  have run: "keepsBackups w (if shouldSync r x then executeSync r x else ok done_result) u" if "atEarly r w ds u" and "sameSync ds x" for x u
    using backups_execute [OF assms(1) that] early_eq(1) [OF that(1)] by (simp add: keepsBackups_def)
  have steady: "keepsBackups w (do { scheduleSync r cb x; (if shouldSync r x then executeSync r x else ok done_result) }) u"
    if "atEarly r w ds u" and "sameSync ds x" for cb x u
    unfolding keepsBackups_def
    by (rule wp_bindI [OF wp_schedule [OF that]]) (rule run [unfolded keepsBackups_def, OF _ that(2)])
  have labelled: "keepsBackups w (do { x \<leftarrow> dsSyncDependencyLabels (sy_base r) ds;
      (let ds1 = snd x in
       if fst x then chk (apiUpdate dsKind ds1) (\<lambda>_. ok requeue_result)
       else if ss_state (so_status ds1) = SyncNone
       then chk (apiStatusUpdate dsKind (mapSyncStatus (\<lambda>s. s\<lparr>ss_state := SyncReady, ss_reason := [], ss_message := []\<rparr>) ds1)) (\<lambda>_. ok requeue_result)
       else do { scheduleSync r TriggerDataSync ds1; (if shouldSync r ds1 then executeSync r ds1 else ok done_result) }) }) v"
    unfolding keepsBackups_def
  proof (rule wp_bindI [OF wp_syncEdges [OF assms(2) sameSync_refl]], goal_cases)
    case (1 y u)
    then have y: "atEarly r w ds u" "sameSync ds (snd y)" by simp_all
    show ?case
      using save [OF y(1)] status [OF y(1)] steady [OF y] by (simp add: Let_def keepsBackups_def del: wp_bind wp_chk)
  qed
  show ?thesis
    unfolding reconcileSync_def
    using save [OF assms(2)] keepsBackups_frame [OF backups_delete early_eq(1) [OF assms(2)]] labelled by simp
qed

lemma backups_kept:
  assumes "lookup dsKind w k = Some ds" and "blocked r w ds"
  shows "w_appBackups (snd (run_state (dataSyncReconcile r k) w)) = w_appBackups w"
proof -
  have "wp (dataSyncReconcile r k) (\<lambda>_ u. w_appBackups u = w_appBackups w) w"
    unfolding dataSyncReconcile_def wp_bind
  proof (rule wp_apiGet, goal_cases)
    case (1 e fs)
    show ?case by (simp add: removeJob_def wp_def)
  next
    case (2 x fs)
    then have "x = ds" using assms(1) by (simp add: lookup_def)
    then show ?case using backups_reconcile [OF assms(2) early_start [OF assms(1)]] by (simp add: keepsBackups_def)
  qed
  then show ?thesis by (simp add: wp_snd)
qed

section \<open>Every later round\<close>

lemma blocked_again:
  assumes "keepsKey (sy_setController r)" and "lookup dsKind w k = Some ds" and "blocked r w ds"
    and "ss_lastSyncTime (so_status ds) = Some l" and "l \<le> sy_now r"
    and "lookup dsKind (snd (run_state (dataSyncReconcile r k) w)) k = Some ds'"
  shows "blocked r (snd (run_state (dataSyncReconcile r k) w)) ds' \<and> (\<exists>l'. ss_lastSyncTime (so_status ds') = Some l' \<and> l' \<le> sy_now r)"
proof -
  let ?w = "snd (run_state (dataSyncReconcile r k) w)"
  have fin: "atDone r w ds ?w" using data_sync_done [OF assms(1,2)] by (simp add: wp_snd)
  have keys: "syncKey ds = k" "syncKey ds' = k" using dsK.lookup_key [OF assms(2)] dsK.lookup_key [OF assms(6)] by simp_all
  then have names: "syncNs ds' = syncNs ds" "appBackupNameOf ds' = appBackupNameOf ds"
    by (auto simp: syncKey_def metaKey_def syncNs_def syncName_def appBackupNameOf_def)
  have moves: "runMoves r w ds (so_status ds')" and spec: "so_spec ds' = so_spec ds"
    using fin assms(6) keys(1) by (simp_all add: atDone_def syncAt_def moved_def)
  have "w_insts (outsideSync r w ds ?w) = w_insts (outsideSync r w ds w)" "w_cfgs (outsideSync r w ds ?w) = w_cfgs (outsideSync r w ds w)"
    using fin by (simp_all add: atDone_def)
  then have reads: "instanceOf ?w ds' = instanceOf w ds" "configOf ?w ds' = configOf w ds"
    by (simp_all add: outsideSync_def instanceOf_def configOf_def lookup_def names spec)
  have ab: "lookup appBackupKind ?w q = lookup appBackupKind w q" for q
    using backups_kept [OF assms(2,3)] by (simp add: lookup_def)
  from assms(3) obtain a where old: "lookup appBackupKind w (syncNs ds, appBackupNameOf ds) = Some a" "oldBackup a l"
    using assms(4) by (auto elim: blockedD)
  have "\<not> runEdge r w ds p (Copying b)" for p b
    using no_backup_of_run [OF assms(3)] by (auto elim: to_Copying)
  moreover have "phaseOf (so_status ds) \<noteq> Copying b" for b using assms(3) by (auto elim: blockedD)
  ultimately have "phaseOf (so_status ds') \<noteq> Copying b" for b using moves by (auto simp: runMoves_def)
  from this [of "ss_lastBackupName (so_status ds')"]
  have phase: "ss_state (so_status ds') = SyncInProgress \<Longrightarrow> ss_lastBackupName (so_status ds') = []"
    by (simp add: phaseOf_def split: if_splits)
  obtain l' where l': "ss_lastSyncTime (so_status ds') = Some l'" "l \<le> l'" "l' \<le> sy_now r"
    using moves assms(4,5) by (auto simp: runMoves_def split: if_splits)
  show ?thesis
    using assms(3,4) phase l' old oldBackup_later [OF old(2) l'(2)] by (auto simp: blocked_def names ab reads split: option.splits)
qed

text \<open>The user asks for a sync by hand, at any time.\<close>

definition askSync :: "key \<Rightarrow> string \<Rightarrow> world \<Rightarrow> world" where
  "askSync k t w = (case lookup dsKind w k of
     None \<Rightarrow> w
   | Some d \<Rightarrow> replaceObj dsKind (d\<lparr>so_spec := (so_spec d)\<lparr>ss_trigger := (ss_trigger (so_spec d))\<lparr>tr_manual := t\<rparr>\<rparr>\<rparr>) w)"

fun rounds :: "(syncReconciler \<times> string) list \<Rightarrow> key \<Rightarrow> world \<Rightarrow> world" where
  "rounds [] k w = w"
| "rounds ((r, t) # rs) k w = rounds rs k (snd (run_state (dataSyncReconcile r k) (askSync k t w)))"

lemma ask_lookup: "lookup dsKind w k = None \<Longrightarrow> askSync k t w = w"
  by (simp add: askSync_def)

lemma ask_blocked:
  assumes "lookup dsKind w k = Some ds" and "blocked r w ds"
  obtains d where "lookup dsKind (askSync k t w) k = Some d" and "so_status d = so_status ds" and "blocked r (askSync k t w) d"
    and "w_appBackups (askSync k t w) = w_appBackups w"
proof -
  let ?d = "ds\<lparr>so_spec := (so_spec ds)\<lparr>ss_trigger := (ss_trigger (so_spec ds))\<lparr>tr_manual := t\<rparr>\<rparr>\<rparr>"
  have key: "keyOf dsKind ?d = k" using dsK.lookup_key [OF assms(1)] by (simp add: syncKey_def)
  have ask: "askSync k t w = replaceObj dsKind ?d w" by (simp add: askSync_def assms(1))
  have same: "w_appBackups (askSync k t w) = w_appBackups w" "w_insts (askSync k t w) = w_insts w" "w_cfgs (askSync k t w) = w_cfgs w"
    by (simp_all add: ask replaceObj_def)
  have d: "lookup dsKind (askSync k t w) k = Some ?d" unfolding ask using assms(1) key by (simp add: dsK.lookup_replaceObj)
  have names: "syncNs ?d = syncNs ds" "appBackupNameOf ?d = appBackupNameOf ds"
    by (simp_all add: syncNs_def syncName_def appBackupNameOf_def)
  then have reads: "instanceOf (askSync k t w) ?d = instanceOf w ds" "configOf (askSync k t w) ?d = configOf w ds"
    by (simp_all add: instanceOf_def configOf_def lookup_def same)
  have ab: "lookup appBackupKind (askSync k t w) p = lookup appBackupKind w p" for p by (simp add: lookup_def same)
  have "blocked r (askSync k t w) ?d = blocked r w ds" unfolding blocked_def names reads ab by simp
  with assms(2) d same(1) show thesis by (intro that [of ?d]) simp_all
qed

lemma gone_round:
  assumes "lookup dsKind w k = None"
  shows "lookup dsKind (snd (run_state (dataSyncReconcile r k) w)) k = None \<and>
    w_appBackups (snd (run_state (dataSyncReconcile r k) w)) = w_appBackups w"
proof -
  have "wp (dataSyncReconcile r k) (\<lambda>_ u. lookup dsKind u k = None \<and> w_appBackups u = w_appBackups w) w"
    unfolding dataSyncReconcile_def wp_bind
    by (rule wp_apiGet) (use assms in \<open>simp_all add: lookup_def removeJob_def wp_def\<close>)
  then show ?thesis by (simp add: wp_snd)
qed

lemma gone_rounds: "lookup dsKind w k = None \<Longrightarrow> lookup dsKind (rounds rs k w) k = None \<and> w_appBackups (rounds rs k w) = w_appBackups w"
  by (induction rs arbitrary: w) (auto simp: ask_lookup gone_round)

lemma blocked_env: "sy_parallelFilesUpload r = sy_parallelFilesUpload q \<Longrightarrow> blocked r w ds = blocked q w ds"
proof -
  assume "sy_parallelFilesUpload r = sy_parallelFilesUpload q"
  then have spec: "buildAppBackupSpec r = buildAppBackupSpec q" by (intro ext) (simp add: buildAppBackupSpec_def)
  show ?thesis unfolding blocked_def spec ..
qed

text \<open>C37. Liveness (of a fault): let the backup object of a data sync be marked as failed, with the specification the sync
  would give it, with no action and no record newer than the last run, and let no copy be under way. As long as only the sync controller runs, that is, until the
  controller of backups reconciles the object and takes the mark away, which no status update and no request for a sync makes it do, and
  its settings stay and its clock does not go back, no reconcile asks the object for a backup, however
  often and whenever the user asks for a sync and whatever calls fail: the object stays as it is and the sync never copies.\<close>

theorem failed_backup_blocks_every_sync:
  assumes "lookup dsKind w k = Some ds" and "blocked q w ds" and "ss_lastSyncTime (so_status ds) = Some l"
    and "sorted (l # map (\<lambda>(r, t). sy_now r) rs)"
    and "list_all (\<lambda>(r, t). keepsKey (sy_setController r) \<and> sy_parallelFilesUpload r = sy_parallelFilesUpload q) rs"
  shows "w_appBackups (rounds rs k w) = w_appBackups w \<and>
    (\<forall>d b. lookup dsKind (rounds rs k w) k = Some d \<longrightarrow> phaseOf (so_status d) \<noteq> Copying b)"
  using assms
proof (induction rs arbitrary: w ds l)
  case Nil
  then show ?case by (auto elim: blockedD)
next
  case (Cons x rs)
  obtain r t where x: "x = (r, t)" by (cases x)
  obtain d where d: "lookup dsKind (askSync k t w) k = Some d" "so_status d = so_status ds" "blocked q (askSync k t w) d"
    "w_appBackups (askSync k t w) = w_appBackups w" by (rule ask_blocked [OF Cons.prems(1,2)])
  have r: "keepsKey (sy_setController r)" "sy_parallelFilesUpload r = sy_parallelFilesUpload q" and l: "l \<le> sy_now r"
    using Cons.prems(4,5) by (simp_all add: x)
  have b: "blocked r (askSync k t w) d" using d(3) blocked_env [OF r(2)] by simp
  let ?w = "snd (run_state (dataSyncReconcile r k) (askSync k t w))"
  have kept: "w_appBackups ?w = w_appBackups w" using backups_kept [OF d(1) b] d(4) by simp
  show ?case
  proof (cases "lookup dsKind ?w k")
    case None
    then show ?thesis using gone_rounds [OF None, of rs] kept by (simp add: x)
  next
    case (Some ds')
    from blocked_again [OF r(1) d(1) b _ l Some] d(2) Cons.prems(3)
    obtain l' where "blocked r ?w ds'" "ss_lastSyncTime (so_status ds') = Some l'" "l' \<le> sy_now r" by auto
    moreover from this have "sorted (l' # map (\<lambda>(r, t). sy_now r) rs)" using Cons.prems(4) by (auto simp: x intro: order_trans)
    ultimately show ?thesis
      using Cons.IH [OF Some, of l'] Cons.prems(5) blocked_env [OF r(2)] kept by (simp add: x)
  qed
qed

definition sAt :: "time \<Rightarrow> syncReconciler" where
  "sAt t = sSyncRec\<lparr>sy_base := sRec\<lparr>r_now := t, r_parseTime := (\<lambda>s. if s = ''later'' then Some 95 else None)\<rparr>\<rparr>"

definition sBlocked :: world where
  "sBlocked = (sCopyWorld (sRunning []) (sBackup ''Failed'' []) [])\<lparr>
     w_deploys := (\<lambda>c. [(sWorkload ''velero'' 1)\<lparr>wl_meta := sMeta ''velero'' ''velero''\<rparr>]),
     w_daemonSets := (\<lambda>c. [\<lparr>dmn_meta = sMeta ''velero'' ''node-agent'', dmn_desired = 1, dmn_ready = 1\<rparr>])\<rparr>"

text \<open>No call fails and Velero runs in both clusters; the sync fails, is asked for again, starts, and fails for the same reason.\<close>

theorem failed_backup_blocks_every_sync_witness:
  "let rs = [(sAt 90, []), (sAt 100, ''later''), (sAt 101, ''later'')]; w = rounds rs (''ns'', ''dr-ds-app'') sBlocked
   in map_option (\<lambda>d. (ss_state (so_status d), ss_reason (so_status d), ss_lastSyncTime (so_status d))) (lookup dsKind w (''ns'', ''dr-ds-app'')) =
        Some (SyncFailed, ''BackupFailed'', Some 101) \<and> w_appBackups w = w_appBackups sBlocked"
proof -
  let ?rs = "[(sAt 90, []), (sAt 100, ''later''), (sAt 101, ''later'')]"
  have a: "lookup dsKind sBlocked (''ns'', ''dr-ds-app'') = Some (sRunning [])" by code_simp
  have b: "blocked (sAt 90) sBlocked (sRunning [])" by code_simp
  have c: "ss_lastSyncTime (so_status (sRunning [])) = Some 5" by code_simp
  have d: "map_option (\<lambda>d. (ss_state (so_status d), ss_reason (so_status d), ss_lastSyncTime (so_status d)))
      (lookup dsKind (rounds ?rs (''ns'', ''dr-ds-app'') sBlocked) (''ns'', ''dr-ds-app'')) = Some (SyncFailed, ''BackupFailed'', Some 101)" by code_simp
  have "keepsKey (sy_setController (sAt t))" for t using sample_keepsKey by (simp add: sAt_def)
  then show ?thesis
    using failed_backup_blocks_every_sync [OF a b c, of ?rs] d by (simp add: Let_def sAt_def sy_now_def)
qed

end
