(* ===== verification/ResourceSyncCore.thy ===== *)
theory ResourceSyncCore
  imports DataSyncCore OpDrill
begin

text \<open>
  What the resource sync controller (\<open>resourcesync/controller.go\<close>, \<open>selection_plan.go\<close>,
  \<open>restore_phases.go\<close>, \<open>restore_finalize.go\<close>) decides and builds without writing: what the policy of
  the instance selects, the phases of a restore, names, statuses, the backup, and the
  record of the replicas. The reconciler is that of the data syncs. An empty slice and a nil one are the same list.
\<close>

definition resourceSyncFinalizer :: string where "resourceSyncFinalizer = ''testudo.softcdata.com/resourcesync-finalizer''"

definition resourceSyncReasonBackupFailed :: string where "resourceSyncReasonBackupFailed = ''BackupFailed''"
definition resourceSyncReasonBuildRestoreSpecFailed :: string where "resourceSyncReasonBuildRestoreSpecFailed = ''BuildRestoreSpecFailed''"
definition resourceSyncReasonRestoreFailed :: string where "resourceSyncReasonRestoreFailed = ''RestoreFailed''"
definition resourceSyncReasonDependencyFailed :: string where "resourceSyncReasonDependencyFailed = ''DependencyFailed''"
definition resourceSyncReasonStorageUnavailable :: string where "resourceSyncReasonStorageUnavailable = ''StorageUnavailable''"

section \<open>What is selected\<close>

definition resourceSyncMandatoryExcludedResources :: "string list" where
  "resourceSyncMandatoryExcludedResources = [''pods'', ''persistentvolumeclaims'', ''persistentvolumes'']"

record resourceSyncSelectionPlan =
  sel_scoped :: bool
  sel_includedNamespaces :: "string list"
  sel_excludedNamespaces :: "string list"
  sel_labelSelector :: "LabelSelector option"
  sel_includedNamespaceScopedResources :: "string list"
  sel_excludedNamespaceScopedResources :: "string list"
  sel_includedClusterScopedResources :: "string list"
  sel_excludedClusterScopedResources :: "string list"

definition normalizeResourceSyncFilterValues :: "string list \<Rightarrow> string list" where
  "normalizeResourceSyncFilterValues values = filter (\<lambda>v. v \<noteq> []) (map trimSpace values)"

definition mergeUniqueResourceSyncValues :: "string list list \<Rightarrow> string list" where
  "mergeUniqueResourceSyncValues parts =
     foldl (\<lambda>out item. let v = trimSpace item in if v = [] \<or> List.member out v then out else out @ [v]) [] (concat parts)"

definition filterOutValues :: "string list \<Rightarrow> string list \<Rightarrow> string list" where
  "filterOutValues values blocked =
     filter (\<lambda>v. v \<noteq> [] \<and> \<not> List.member (map trimSpace blocked) v) (map trimSpace values)"

definition hasResourceSyncScopedFilters :: "RestoreResourceSelectionPolicy \<Rightarrow> bool" where
  "hasResourceSyncScopedFilters p \<longleftrightarrow> rs_includedNamespaceScoped p \<noteq> [] \<or> rs_excludedNamespaceScoped p \<noteq> [] \<or>
     rs_includedClusterScoped p \<noteq> [] \<or> rs_excludedClusterScoped p \<noteq> []"

definition noSelection :: resourceSyncSelectionPlan where
  "noSelection = \<lparr>sel_scoped = False, sel_includedNamespaces = [], sel_excludedNamespaces = [], sel_labelSelector = None,
     sel_includedNamespaceScopedResources = [], sel_excludedNamespaceScopedResources = [], sel_includedClusterScopedResources = [],
     sel_excludedClusterScopedResources = []\<rparr>"

definition resolveResourceSyncSelectionPlan :: "DisasterInstance \<Rightarrow> resourceSyncSelectionPlan" where
  "resolveResourceSyncSelectionPlan i =
     (case Option.bind (di_restorePolicy (in_spec i)) rp_resourceSelection of
        None \<Rightarrow> noSelection
      | Some p \<Rightarrow>
          if rs_includeClusterResources p = Some True then noSelection
          else if \<not> hasResourceSyncScopedFilters p then noSelection
          else \<lparr>sel_scoped = True,
            sel_includedNamespaces = normalizeResourceSyncFilterValues (rs_includedNamespaces p),
            sel_excludedNamespaces = normalizeResourceSyncFilterValues (rs_excludedNamespaces p),
            sel_labelSelector = rs_labelSelector p,
            sel_includedNamespaceScopedResources = normalizeResourceSyncFilterValues (rs_includedNamespaceScoped p),
            sel_excludedNamespaceScopedResources = normalizeResourceSyncFilterValues (rs_excludedNamespaceScoped p),
            sel_includedClusterScopedResources = normalizeResourceSyncFilterValues (rs_includedClusterScoped p),
            sel_excludedClusterScopedResources = normalizeResourceSyncFilterValues (rs_excludedClusterScoped p)\<rparr>)"

definition effectiveNamespacedIncludedResources :: "resourceSyncSelectionPlan \<Rightarrow> string list" where
  "effectiveNamespacedIncludedResources p = filterOutValues (sel_includedNamespaceScopedResources p) resourceSyncMandatoryExcludedResources"

definition effectiveNamespacedExcludedResources :: "resourceSyncSelectionPlan \<Rightarrow> string list" where
  "effectiveNamespacedExcludedResources p =
     mergeUniqueResourceSyncValues [sel_excludedNamespaceScopedResources p, resourceSyncMandatoryExcludedResources]"

definition clusterPhaseEnabled :: "resourceSyncSelectionPlan \<Rightarrow> bool" where
  "clusterPhaseEnabled p \<longleftrightarrow> sel_scoped p \<and> sel_includedClusterScopedResources p \<noteq> []"

definition namespacePhaseEnabled :: "resourceSyncSelectionPlan \<Rightarrow> bool" where
  "namespacePhaseEnabled p \<longleftrightarrow>
     (if \<not> sel_scoped p then True
      else if sel_includedNamespaceScopedResources p = [] then True
      else effectiveNamespacedIncludedResources p \<noteq> [])"

section \<open>The backup\<close>

definition applyScopedSelectionToResourceSyncBackupSpec :: "resourceSyncSelectionPlan \<Rightarrow> BackupTemplate \<Rightarrow> BackupTemplate" where
  "applyScopedSelectionToResourceSyncBackupSpec p t =
     (if \<not> sel_scoped p then t
      else let inc = effectiveNamespacedIncludedResources p;
               none = (sel_includedNamespaceScopedResources p \<noteq> [] \<and> inc = []);
               cluster = clusterPhaseEnabled p
           in t\<lparr>bt_includedNamespaces := (if sel_includedNamespaces p \<noteq> [] then sel_includedNamespaces p else bt_includedNamespaces t),
                bt_excludedNamespaces := (if sel_excludedNamespaces p \<noteq> []
                  then mergeUniqueResourceSyncValues [bt_excludedNamespaces t, sel_excludedNamespaces p] else bt_excludedNamespaces t),
                bt_labelSelector := (case sel_labelSelector p of None \<Rightarrow> bt_labelSelector t | Some l \<Rightarrow> Some l),
                bt_includedResources := [], bt_excludedResources := [], bt_includeClusterResources := None,
                bt_includedNamespaceScopedResources := (if none then [] else inc),
                bt_excludedNamespaceScopedResources := (if none then [''*''] else effectiveNamespacedExcludedResources p),
                bt_includedClusterScopedResources := (if cluster then sel_includedClusterScopedResources p else []),
                bt_excludedClusterScopedResources := (if cluster then sel_excludedClusterScopedResources p else [''*''])\<rparr>)"

definition buildResourceBackupSpec :: "DisasterInstance \<Rightarrow> DisasterConfig \<Rightarrow> AppBackupSpec" where
  "buildResourceBackupSpec i cfg =
     \<lparr>abs_cluster = fst (resolveClusters i cfg),
      abs_template = applyScopedSelectionToResourceSyncBackupSpec (resolveResourceSyncSelectionPlan i)
        \<lparr>bt_includedNamespaces = di_namespaces (in_spec i), bt_excludedNamespaces = [''velero'', ''kube-system''],
         bt_includedResources = [], bt_excludedResources = [''pods'', ''persistentvolumeclaims'', ''persistentvolumes''],
         bt_labelSelector = di_labelSelector (in_spec i), bt_storageLocation = cfg_storageRepository cfg,
         bt_snapshotVolumes = Some False, bt_defaultVolumesToFsBackup = None, bt_parallelFilesUpload = None, bt_hooks = None,
         bt_includeClusterResources = None, bt_includedNamespaceScopedResources = [], bt_excludedNamespaceScopedResources = [],
         bt_includedClusterScopedResources = [], bt_excludedClusterScopedResources = []\<rparr>,
      abs_action = None, abs_timeout = ResolveAppBackupTimeout i\<rparr>"

definition backupStartedForResourceSyncRun :: "time option \<Rightarrow> time option \<Rightarrow> bool" where
  "backupStartedForResourceSyncRun start lastSync \<longleftrightarrow>
     (case start of None \<Rightarrow> False | Some s \<Rightarrow> (case lastSync of None \<Rightarrow> False | Some l \<Rightarrow> l < s))"

definition rsBackupName :: "SyncObject \<Rightarrow> string" where "rsBackupName rs = ''rs-'' @ syncName rs"

definition rsOriginLabels :: "SyncObject \<Rightarrow> smap" where
  "rsOriginLabels rs =
     [(''testudo.softcdata.com/app-resource-origin'', ''disaster-instance''),
      (''testudo.softcdata.com/app-resource-owner-kind'', ''resourcesync''),
      (''testudo.softcdata.com/app-resource-owner-name'', syncName rs)]"

section \<open>The phases of a restore\<close>

datatype resourceSyncRestorePhaseKind = RestoreLegacy | RestoreCluster | RestoreNamespace

definition planResourceSyncRestorePhases :: "DisasterInstance \<Rightarrow> resourceSyncRestorePhaseKind list" where
  "planResourceSyncRestorePhases i =
     (let p = resolveResourceSyncSelectionPlan i in
      if \<not> sel_scoped p then [RestoreLegacy]
      else (if clusterPhaseEnabled p then [RestoreCluster] else []) @ (if namespacePhaseEnabled p then [RestoreNamespace] else []))"

definition resourceSyncRestoreName :: "reconciler \<Rightarrow> string \<Rightarrow> string \<Rightarrow> resourceSyncRestorePhaseKind \<Rightarrow> string" where
  "resourceSyncRestoreName r name backupName phase =
     ''rec-rs-'' @ take 20 name @ ''-'' @ take 6 (r_md5hex r backupName) @
     (case phase of RestoreCluster \<Rightarrow> ''-cluster'' | RestoreNamespace \<Rightarrow> ''-ns'' | RestoreLegacy \<Rightarrow> [])"

definition enforceResourceSyncMandatoryRestoreExclusions :: "RestoreTemplate \<Rightarrow> RestoreTemplate" where
  "enforceResourceSyncMandatoryRestoreExclusions t =
     t\<lparr>rt_includedResources := filterOutValues (rt_includedResources t) resourceSyncMandatoryExcludedResources,
       rt_excludedResources := mergeUniqueResourceSyncValues [rt_excludedResources t, resourceSyncMandatoryExcludedResources]\<rparr>"

definition applyResourceSyncNamespacedRestoreSelection :: "resourceSyncSelectionPlan \<Rightarrow> RestoreTemplate \<Rightarrow> RestoreTemplate" where
  "applyResourceSyncNamespacedRestoreSelection p t =
     (enforceResourceSyncMandatoryRestoreExclusions
        (if sel_scoped p
         then t\<lparr>rt_includedResources := effectiveNamespacedIncludedResources p, rt_excludedResources := effectiveNamespacedExcludedResources p,
                rt_includeClusterResources := Some False\<rparr>
         else t))\<lparr>rt_existingResourcePolicy := ''update''\<rparr>"

definition applyResourceSyncClusterRestoreSelection :: "resourceSyncSelectionPlan \<Rightarrow> RestoreTemplate \<Rightarrow> RestoreTemplate" where
  "applyResourceSyncClusterRestoreSelection p t =
     t\<lparr>rt_includedResources := sel_includedClusterScopedResources p, rt_excludedResources := sel_excludedClusterScopedResources p,
       rt_includeClusterResources := Some True, rt_existingResourcePolicy := ''none''\<rparr>"

definition applyPhaseSelection :: "resourceSyncRestorePhaseKind \<Rightarrow> DisasterInstance \<Rightarrow> AppRestoreSpec \<Rightarrow> AppRestoreSpec" where
  "applyPhaseSelection phase i s =
     (let p = resolveResourceSyncSelectionPlan i in
      onTemplate (case phase of
          RestoreCluster \<Rightarrow> applyResourceSyncClusterRestoreSelection p
        | RestoreNamespace \<Rightarrow> applyResourceSyncNamespacedRestoreSelection p
        | RestoreLegacy \<Rightarrow> enforceResourceSyncMandatoryRestoreExclusions) s)"

section \<open>The restore\<close>

definition buildImageRewriteRules :: "reconciler \<Rightarrow> DisasterConfig \<Rightarrow> DisasterInstance \<Rightarrow> string \<Rightarrow> string \<Rightarrow> ResourceModifierRule list result" where
  "buildImageRewriteRules r cfg i source target =
     chkWrap (''get source cluster '' @ source @ '': '') (apiGet clusterKind ([], source)) (\<lambda>s.
     chkWrap (''get target cluster '' @ target @ '': '') (apiGet clusterKind ([], target)) (\<lambda>t.
     chk (lift (ResolveRegistryMappings (Some s) (Some t) (cfg_imageRewrite cfg) ''resourceSync'')) (\<lambda>(ms, policy, enabled).
       if \<not> enabled then ok []
       else chkWrap ''build source cluster client for image rewrite: '' (GetKubeClientSet source) (\<lambda>_.
            chk (CollectWorkloads (r_matchers r) source (di_namespaces (in_spec i)) (di_labelSelector (in_spec i))) (\<lambda>(ds, ss).
              let x = BuildRulesFromWorkloads ds ss ms policy in
              if policy = ''Fail'' \<and> snd x \<noteq> [] then fail (unmatchedError (snd x)) else ok (fst x))))))"

definition phaseImageRules :: "reconciler \<Rightarrow> DisasterConfig \<Rightarrow> DisasterInstance \<Rightarrow> resourceSyncRestorePhaseKind \<Rightarrow>
    (ResourceModifierRule list \<times> RestoreModifierRule list) result" where
  "phaseImageRules r cfg i phase =
     (let source = fst (resolveClusters i cfg); target = snd (resolveClusters i cfg) in
      if phase = RestoreCluster then ok ([], [])
      else chk (buildImageRewriteRules r cfg i source target) (\<lambda>rules.
           if \<not> HasDynamicImageRewriteActions (di_restorePolicy (in_spec i)) ''resourceSync'' then ok (rules, [])
           else chkWrap ''build source cluster client for dynamic image rewrite: '' (GetKubeClientSet source) (\<lambda>_.
                chkWrap ''compile dynamic image rewrite rules: ''
                  (CompileDynamicImageRewriteRules (r_matchers r) i source ''resourceSync'' (cfg_sourceCluster cfg) (cfg_targetCluster cfg)) (\<lambda>runtime.
                ok (rules, runtime)))))"

definition resourceRestoreBase :: "SyncObject \<Rightarrow> DisasterConfig \<Rightarrow> DisasterInstance \<Rightarrow> string \<Rightarrow> ResourceModifierRule list \<Rightarrow> AppRestoreSpec" where
  "resourceRestoreBase rs cfg i backupName rules =
     BuildAppRestoreSpec \<lparr>bc_restoreType = RestoreTypeResource, bc_backupSource = rsBackupName rs, bc_backupName = backupName,
       bc_targetCluster = snd (resolveClusters i cfg), bc_sourceCluster = fst (resolveClusters i cfg),
       bc_storageRepository = cfg_storageRepository cfg, bc_includedNamespaces = di_namespaces (in_spec i), bc_namespaceMapping = [],
       bc_isForDrill = False, bc_extraResourceModifierRules = rules, bc_dataResourceModifierRules = [], bc_dataRestoreHooks = None\<rparr>"

definition resourceApplyOptions :: "DisasterConfig \<Rightarrow> RestoreModifierRule list \<Rightarrow> ApplyInstanceRestorePolicyOptions" where
  "resourceApplyOptions cfg runtime =
     (WithBaselineClusters (cfg_sourceCluster cfg) (cfg_targetCluster cfg) defaultApplyInstanceRestorePolicyOptions)
       \<lparr>ao_applyTarget := ''resourceSync'', ao_runtimeModifierRules := runtime\<rparr>"

definition buildResourceSyncRestoreSpecForPhase :: "reconciler \<Rightarrow> SyncObject \<Rightarrow> DisasterConfig \<Rightarrow> DisasterInstance \<Rightarrow> string \<Rightarrow>
    resourceSyncRestorePhaseKind \<Rightarrow> (AppRestoreSpec \<times> PolicySummary) result" where
  "buildResourceSyncRestoreSpecForPhase r rs cfg i backupName phase =
     (let target = snd (resolveClusters i cfg); strict = RequiresTargetClassValidationWithOverride i None in
      chk (phaseImageRules r cfg i phase) (\<lambda>(rules, runtime).
      chkWrap ''build target cluster client for restore policy: '' (if strict then GetKubeClientSet target else ok ()) (\<lambda>_.
      chk (ApplyInstanceRestorePolicy (r_matchers r) (resourceRestoreBase rs cfg i backupName rules) i (if strict then Some target else None)
            (resourceApplyOptions cfg runtime)) (\<lambda>(spec, summary).
      ok (applyPhaseSelection phase i spec, summary)))))"

definition buildAppRestoreSpec :: "reconciler \<Rightarrow> SyncObject \<Rightarrow> DisasterConfig \<Rightarrow> DisasterInstance \<Rightarrow> string \<Rightarrow> (AppRestoreSpec \<times> PolicySummary) result" where
  "buildAppRestoreSpec r rs cfg i backupName = buildResourceSyncRestoreSpecForPhase r rs cfg i backupName
     (if sel_scoped (resolveResourceSyncSelectionPlan i) then RestoreNamespace else RestoreLegacy)"

definition buildPhaseRestoreSpec :: "reconciler \<Rightarrow> SyncObject \<Rightarrow> DisasterConfig \<Rightarrow> DisasterInstance \<Rightarrow> string \<Rightarrow> resourceSyncRestorePhaseKind \<Rightarrow>
    (AppRestoreSpec \<times> PolicySummary) result" where
  "buildPhaseRestoreSpec r rs cfg i backupName phase =
     (if phase = RestoreCluster then buildResourceSyncRestoreSpecForPhase r rs cfg i backupName RestoreCluster
      else buildAppRestoreSpec r rs cfg i backupName)"

definition resourceAppRestore :: "syncReconciler \<Rightarrow> SyncObject \<Rightarrow> string \<Rightarrow> AppRestoreSpec \<Rightarrow> PolicySummary \<Rightarrow> err + AppRestore" where
  "resourceAppRestore r rs restoreName spec s =
     andThen (sy_setController r (so_meta rs)
       (ApplyPolicySummaryAnnotations s ((newMeta (syncNs rs) restoreName)\<lparr>m_labels := rsOriginLabels rs\<rparr>)))
       (\<lambda>m. Inr \<lparr>ar_meta = m, ar_spec = spec, ar_phase = PhaseNone, ar_reason = [], ar_message = [], ar_itemsRestored = None, ar_hookStatus = None\<rparr>)"

section \<open>The status\<close>

text \<open>A field is set when it differs, so something changed exactly when the status did.\<close>

definition updateResourceSyncRestorePhaseStatus :: "resourceSyncRestorePhaseKind \<Rightarrow> string \<Rightarrow> AppRestorePhase \<Rightarrow> SyncStatus \<Rightarrow> SyncStatus \<times> bool" where
  "updateResourceSyncRestorePhaseStatus phase name st s =
     (let s' = (case phase of
          RestoreCluster \<Rightarrow> s\<lparr>ss_lastRestoreName := (if ss_lastNamespaceRestoreName s = [] then name else ss_lastRestoreName s),
            ss_lastClusterRestoreName := name, ss_clusterRestoreStatus := st\<rparr>
        | RestoreNamespace \<Rightarrow> s\<lparr>ss_lastRestoreName := name, ss_lastNamespaceRestoreName := name, ss_namespaceRestoreStatus := st\<rparr>
        | RestoreLegacy \<Rightarrow> s\<lparr>ss_lastRestoreName := name, ss_namespaceRestoreStatus := st\<rparr>)
      in (s', s' \<noteq> s))"

definition phaseMutation :: "resourceSyncRestorePhaseKind \<Rightarrow> string \<Rightarrow> AppRestorePhase \<Rightarrow> SyncStatus \<Rightarrow> SyncStatus option" where
  "phaseMutation phase name st s =
     (let x = updateResourceSyncRestorePhaseStatus phase name st s in if snd x then Some (fst x) else None)"

definition rsFailedStatus :: "syncReconciler \<Rightarrow> string \<Rightarrow> string \<Rightarrow> SyncStatus \<Rightarrow> SyncStatus" where
  "rsFailedStatus r reason msg s = s\<lparr>ss_state := SyncFailed, ss_lastSyncTime := Some (sy_now r), ss_reason := reason, ss_message := msg,
     ss_conditions := conditionError r ''SyncFailed'' reason msg (ss_conditions s)\<rparr>"

definition rsStartedStatus :: "SyncStatus \<Rightarrow> SyncStatus option" where
  "rsStartedStatus s =
     (if ss_state s = SyncInProgress then None
      else Some (s\<lparr>ss_state := SyncInProgress, ss_lastBackupName := [], ss_lastRestoreName := [], ss_lastClusterRestoreName := [],
             ss_clusterRestoreStatus := PhaseNone, ss_lastNamespaceRestoreName := [], ss_namespaceRestoreStatus := PhaseNone,
             ss_reason := [], ss_message := []\<rparr>))"

definition rsVeleroFailedStatus :: "syncReconciler \<Rightarrow> string \<Rightarrow> SyncStatus \<Rightarrow> SyncStatus" where
  "rsVeleroFailedStatus r msg s = s\<lparr>ss_state := SyncFailed, ss_lastSyncTime := Some (sy_now r), ss_reason := resourceSyncReasonBackupFailed,
     ss_message := msg, ss_conditions := conditionError r ''BackupFailed'' resourceSyncReasonBackupFailed msg (ss_conditions s)\<rparr>"

definition lookupResourceSyncBackupCycle :: "AppBackup option \<Rightarrow> string \<Rightarrow> int \<times> time option" where
  "lookupResourceSyncBackupCycle ab backupName =
     (case Option.bind ab (\<lambda>b. find (\<lambda>rec. br_name rec = backupName) (abt_history (ab_status b))) of
        None \<Rightarrow> (0, None)
      | Some rec \<Rightarrow> ((case br_itemsBackedUp rec of None \<Rightarrow> 0 | Some n \<Rightarrow> n), br_start rec))"

definition lookupResourceSyncRestoreItems :: "AppRestore \<Rightarrow> int" where
  "lookupResourceSyncRestoreItems ar = (case ar_itemsRestored ar of None \<Rightarrow> 0 | Some n \<Rightarrow> n)"

definition rsHistoryRecord :: "syncReconciler \<Rightarrow> string \<Rightarrow> string \<Rightarrow> int \<times> time option \<Rightarrow> int \<Rightarrow> AppRestorePhase \<Rightarrow> SyncHistoryRecord" where
  "rsHistoryRecord r backupName restoreName f restoreItems st =
     \<lparr>shr_startTime = snd f, shr_completionTime = Some (sy_now r),
      shr_duration = (case snd f of None \<Rightarrow> [] | Some t \<Rightarrow> durString (roundSecond (since (sy_now r) t))),
      shr_backupName = backupName, shr_restoreName = restoreName, shr_backupResourceCount = fst f, shr_restoreResourceCount = restoreItems,
      shr_backupHookStatus = None, shr_restoreHookStatus = None, shr_status = phaseString st\<rparr>"

text \<open>The first record of the same backup and restore is replaced; otherwise the record is added.\<close>

fun replaceRecord :: "SyncHistoryRecord \<Rightarrow> SyncHistoryRecord list \<Rightarrow> SyncHistoryRecord list option" where
  "replaceRecord x [] = None"
| "replaceRecord x (h # hs) =
     (if shr_backupName h = shr_backupName x \<and> shr_restoreName h = shr_restoreName x then Some (x # hs)
      else map_option ((#) h) (replaceRecord x hs))"

definition appendResourceSyncHistory :: "syncReconciler \<Rightarrow> SyncHistoryRecord \<Rightarrow> SyncHistoryRecord list \<Rightarrow> SyncHistoryRecord list" where
  "appendResourceSyncHistory r x h = (case replaceRecord x h of Some h' \<Rightarrow> h' | None \<Rightarrow> keepRecent r (h @ [x]))"

definition rsBuildFailedStatus :: "syncReconciler \<Rightarrow> string \<Rightarrow> SyncHistoryRecord \<Rightarrow> SyncStatus \<Rightarrow> SyncStatus" where
  "rsBuildFailedStatus r msg x s = s\<lparr>ss_state := SyncFailed, ss_lastSyncTime := Some (sy_now r),
     ss_reason := resourceSyncReasonBuildRestoreSpecFailed, ss_message := msg,
     ss_conditions := conditionError r ''BuildRestoreSpecFailed'' resourceSyncReasonBuildRestoreSpecFailed msg (ss_conditions s),
     ss_history := appendResourceSyncHistory r x (ss_history s)\<rparr>"

definition rsFinalStatus :: "syncReconciler \<Rightarrow> bool \<Rightarrow> string \<Rightarrow> SyncHistoryRecord \<Rightarrow> SyncStatus \<Rightarrow> SyncStatus" where
  "rsFinalStatus r failed msg x s =
     (if failed
      then s\<lparr>ss_state := SyncFailed, ss_lastSyncTime := Some (sy_now r), ss_reason := resourceSyncReasonRestoreFailed, ss_message := msg,
             ss_conditions := conditionError r ''RestoreFailed'' resourceSyncReasonRestoreFailed msg (ss_conditions s),
             ss_history := appendResourceSyncHistory r x (ss_history s)\<rparr>
      else s\<lparr>ss_state := SyncReady, ss_lastSyncTime := Some (sy_now r), ss_reason := [], ss_message := [],
             ss_history := appendResourceSyncHistory r x (ss_history s)\<rparr>)"

definition rsShouldSync :: "syncReconciler \<Rightarrow> SyncObject \<Rightarrow> bool" where
  "rsShouldSync r rs =
     (let manual = tr_manual (ss_trigger (so_spec rs)); s = so_status rs;
          triggered = (manual \<noteq> [] \<and>
            (case r_parseTime (sy_base r) manual of None \<Rightarrow> False
             | Some t \<Rightarrow> (case ss_lastSyncTime s of None \<Rightarrow> True | Some l \<Rightarrow> l < t)))
      in if triggered then True
         else if ss_state s = SyncInProgress then True
         else if ss_paused (so_spec rs) then False
         else ss_lastSyncTime s = None)"

lemma rsShouldSync_same: "rsShouldSync r rs = shouldSync r rs"
  by (simp add: rsShouldSync_def shouldSync_def)

definition rsCountsAsCompleted :: "SyncHistoryRecord \<Rightarrow> bool" where
  "rsCountsAsCompleted h \<longleftrightarrow> shr_status h = phaseString PhaseSucceeded \<or> shr_status h = ''Completed''"

section \<open>The record of the replicas\<close>

definition scannedReplicas :: "Workload \<Rightarrow> int" where
  "scannedReplicas d = (case wl_replicas d of Some n \<Rightarrow> n | None \<Rightarrow> 1)"

definition scanWorkloads :: "string \<Rightarrow> string \<Rightarrow> Workload list \<Rightarrow> (string \<times> int) list \<Rightarrow> (string \<times> int) list" where
  "scanWorkloads ns plural ds m = foldl (\<lambda>m d. AList.update (workloadKey ns plural d) (scannedReplicas d) m) m ds"

text \<open>A scan that finds only zeros does not replace a record that has a replica.\<close>

definition keepsRecord :: "(string \<times> int) list \<Rightarrow> ConfigMap \<Rightarrow> bool" where
  "keepsRecord m cm \<longleftrightarrow>
     (case map_of (cm_data cm) ''replicas'' of
        Some (JsonReplicas old) \<Rightarrow> \<not> list_ex (\<lambda>x. snd x > 0) m \<and> list_ex (\<lambda>x. snd x > 0) old
      | _ \<Rightarrow> False)"

definition mergeReplicas :: "syncReconciler \<Rightarrow> SyncObject \<Rightarrow> (string \<times> int) list \<Rightarrow> ConfigMap \<Rightarrow> err + ConfigMap" where
  "mergeReplicas r rs m cm =
     (if keepsRecord m cm then Inr cm
      else andThen (sy_setController r (so_meta rs) (cm_meta cm)) (\<lambda>meta.
           Inr (cm\<lparr>cm_meta := meta, cm_data := AList.update ''replicas'' (JsonReplicas m) (cm_data cm)\<rparr>)))"

end
