(* ===== verification/ResourceSync.thy ===== *)
theory ResourceSync
  imports ResourceSyncCore DataSync
begin

text \<open>
  The resource sync controller at work (\<open>resourcesync/controller.go\<close>, \<open>restore_finalize.go\<close>,
  \<open>status_retry.go\<close>). A run records the replicas of the source, backs up the manifests through an \<open>AppBackup\<close>, and
  restores the backup through one \<open>AppRestore\<close> per phase, the cluster-scoped objects before the
  namespaced ones. Every write of a status reads the sync anew and is tried again after a conflict. What the two sync
  controllers have in common (the storage, the schedule) is taken from \<open>DataSync\<close>.
\<close>

section \<open>Writing the status\<close>

text \<open>The mutation says \<open>None\<close> when there is nothing to write; the object in memory gets the status that is stored.\<close>

definition updateResourceSyncStatusWithRetry :: "syncReconciler \<Rightarrow> SyncObject \<Rightarrow> (SyncStatus \<Rightarrow> SyncStatus option) \<Rightarrow> SyncObject result" where
  "updateResourceSyncStatusWithRetry r rs mutate =
     chk (retryOnConflict (r_retrySteps (sy_base r))
       (chk (apiGet rsKind (syncKey rs)) (\<lambda>latest.
          case mutate (so_status latest) of
            None \<Rightarrow> ok (so_status latest)
          | Some s \<Rightarrow> chk (apiStatusUpdate rsKind (latest\<lparr>so_status := s\<rparr>)) (\<lambda>x. ok (so_status x))))) (\<lambda>s.
     ok (rs\<lparr>so_status := s\<rparr>))"

definition rsStatsLabels :: "SyncObject \<Rightarrow> smap" where
  "rsStatsLabels rs = [(''testudo.softcdata.com/owner-kind'', ''ResourceSync''), (''disaster.io/scope-uid'', m_uid (so_meta rs))]"

definition rsSyncStatistics :: "SyncObject \<Rightarrow> unit result" where
  "rsSyncStatistics rs =
     (let h = ss_history (so_status rs); meta = newMeta (syncNs rs) (''rs-'' @ syncName rs @ ''-stats'') in
      chk (createOrUpdate statsKind
             \<lparr>sts_meta = meta, sts_total = 0, sts_completed = 0, sts_failed = 0, sts_inProgress = 0, sts_updateReason = []\<rparr>
             (\<lambda>s. Inr (s\<lparr>sts_meta := (sts_meta s)\<lparr>m_labels := rsStatsLabels rs\<rparr>\<rparr>))) (\<lambda>s.
      chk (apiStatusUpdate statsKind (s\<lparr>sts_total := int (length h), sts_completed := int (length (filter rsCountsAsCompleted h)),
             sts_failed := int (length (filter (\<lambda>x. \<not> rsCountsAsCompleted x) h)),
             sts_inProgress := (if ss_state (so_status rs) = SyncInProgress then 1 else 0)\<rparr>)) (\<lambda>_. ok ())))"

text \<open>A run ends: the status, then the statistics and the events, one more when the restores are over.\<close>

definition endResourceRun :: "syncReconciler \<Rightarrow> SyncObject \<Rightarrow> (SyncStatus \<Rightarrow> SyncStatus) \<Rightarrow> bool \<Rightarrow> Result result" where
  "endResourceRun r rs f restored =
     chk (updateResourceSyncStatusWithRetry r rs (\<lambda>s. Some (f s))) (\<lambda>rs'. do {
       _ \<leftarrow> rsSyncStatistics rs';
       (if restored then emit (syncName rs) ''SyncCompleted'' else ret ());
       emit (syncName rs) ''ExecutionFinished'';
       ok done_result })"

definition failResourceSync :: "syncReconciler \<Rightarrow> string \<Rightarrow> string \<Rightarrow> SyncObject \<Rightarrow> Result result" where
  "failResourceSync r reason msg rs = endResourceRun r rs (rsFailedStatus r reason msg) False"

definition orFailResource :: "syncReconciler \<Rightarrow> string \<Rightarrow> (string \<Rightarrow> string) \<Rightarrow> SyncObject \<Rightarrow> 'a result \<Rightarrow> ('a \<Rightarrow> Result result) \<Rightarrow> Result result" where
  "orFailResource r reason msg rs m k =
     do { x \<leftarrow> m; (case x of Inl e \<Rightarrow> failResourceSync r reason (msg (err_text e)) rs | Inr y \<Rightarrow> k y) }"

section \<open>The record of the replicas\<close>

text \<open>A selector is converted once, before the namespaces are read.\<close>

definition scanReplicas :: "string \<Rightarrow> (smap \<Rightarrow> bool) \<Rightarrow> string list \<Rightarrow> (string \<times> int) list result" where
  "scanReplicas c P nss = forEach (\<lambda>ns m.
     chk (listMatching (deployKind c) ns P) (\<lambda>ds.
     chk (listMatching (stsKind c) ns P) (\<lambda>ss.
     ok (scanWorkloads ns ''statefulsets'' ss (scanWorkloads ns ''deployments'' ds m))))) nss []"

definition recordReplicasToConfigMap :: "syncReconciler \<Rightarrow> DisasterInstance \<Rightarrow> DisasterConfig \<Rightarrow> SyncObject \<Rightarrow> unit result" where
  "recordReplicasToConfigMap r i cfg rs =
     (let source = primaryOr i cfg in
      chkWrap (''failed to connect to source cluster '' @ source @ '': '') (GetKubeClientSet source) (\<lambda>_.
      chk (case di_labelSelector (in_spec i) of None \<Rightarrow> ok (\<lambda>_. True)
           | Some l \<Rightarrow> lift (mt_matches (r_matchers (sy_base r)) l)) (\<lambda>P.
      chk (scanReplicas source P (di_namespaces (in_spec i))) (\<lambda>m.
      chk (createOrUpdate cmKind \<lparr>cm_meta = newMeta (syncNs rs) (''replicas-'' @ syncName rs), cm_data = []\<rparr> (mergeReplicas r rs m)) (\<lambda>_.
      ok ())))))"

section \<open>Starting a run\<close>

text \<open>The replicas of a source that cannot be reached are not recorded, and the run goes on.\<close>

definition startResourceRun :: "syncReconciler \<Rightarrow> SyncObject \<Rightarrow> DisasterInstance \<Rightarrow> DisasterConfig \<Rightarrow> Result result" where
  "startResourceRun r rs i cfg = do {
     _ \<leftarrow> recordReplicasToConfigMap r i cfg rs;
     chk (updateResourceSyncStatusWithRetry r rs rsStartedStatus) (\<lambda>rs'. do {
       _ \<leftarrow> rsSyncStatistics rs';
       emit (syncName rs) ''ExecutionStarted'';
       ok requeue_result }) }"

section \<open>The backup\<close>

definition newResourceBackup :: "syncReconciler \<Rightarrow> SyncObject \<Rightarrow> AppBackupSpec \<Rightarrow> err + AppBackup" where
  "newResourceBackup r rs spec =
     andThen (sy_setController r (so_meta rs) ((newMeta (syncNs rs) (rsBackupName rs))\<lparr>m_labels := rsOriginLabels rs\<rparr>)) (\<lambda>m.
       Inr \<lparr>ab_meta = m, ab_spec = spec\<lparr>abs_action := Some (currentAction r)\<rparr>,
            ab_status = \<lparr>abt_status = [], abt_message = [], abt_history = []\<rparr>\<rparr>)"

definition createResourceBackup :: "syncReconciler \<Rightarrow> SyncObject \<Rightarrow> AppBackupSpec \<Rightarrow> Result result" where
  "createResourceBackup r rs spec =
     chk (lift (newResourceBackup r rs spec)) (\<lambda>ab.
     chk (apiCreate appBackupKind ab) (\<lambda>_. do {
       emit (syncName rs) ''ExecutionProgress'';
       ok requeue_result }))"

definition recordResourceBackup :: "syncReconciler \<Rightarrow> SyncObject \<Rightarrow> string \<Rightarrow> Result result" where
  "recordResourceBackup r rs n =
     chk (updateResourceSyncStatusWithRetry r rs
       (\<lambda>s. if ss_lastBackupName s = n then None else Some (s\<lparr>ss_lastBackupName := n\<rparr>))) (\<lambda>_. ok requeue_result)"

text \<open>The condition is set on the object in memory only; the status that is written starts from the stored one.\<close>

definition resourceBackupFailed :: "syncReconciler \<Rightarrow> SyncObject \<Rightarrow> AppBackup \<Rightarrow> Result result" where
  "resourceBackupFailed r rs ab =
     (let msg = (if abt_message (ab_status ab) = [] then msgDsBackupFailedBare (rsBackupName rs)
                 else msgDsBackupFailed (rsBackupName rs) (abt_message (ab_status ab))) in
      failResourceSync r resourceSyncReasonBackupFailed msg
        (mapSyncStatus (\<lambda>s. s\<lparr>ss_conditions := conditionError r ''BackupFailed'' resourceSyncReasonBackupFailed msg (ss_conditions s)\<rparr>) rs))"

definition requestResourceBackup :: "syncReconciler \<Rightarrow> SyncObject \<Rightarrow> AppBackup \<Rightarrow> AppBackupSpec \<Rightarrow> Result result" where
  "requestResourceBackup r rs ab desired =
     chk (apiUpdate appBackupKind (ab\<lparr>ab_spec := (ab_spec ab)\<lparr>abs_template := abs_template desired, abs_cluster := abs_cluster desired,
            abs_action := Some (currentAction r)\<rparr>\<rparr>)) (\<lambda>_. do {
       emit (syncName rs) ''ExecutionProgress'';
       ok requeue_result })"

definition findResourceBackup :: "syncReconciler \<Rightarrow> SyncObject \<Rightarrow> AppBackup \<Rightarrow> AppBackupSpec \<Rightarrow> Result result" where
  "findResourceBackup r rs ab desired =
     (let h = abt_history (ab_status ab); last = ss_lastSyncTime (so_status rs) in
      case CurrentBackupActionVeleroBackupName (sy_base r) (rsBackupName rs) ab last of
        Some n \<Rightarrow> (case FindBackupRecordByName h n of
            Some rec \<Rightarrow> recordResourceBackup r rs (br_name rec)
          | None \<Rightarrow> if abt_status (ab_status ab) = ''Failed'' then resourceBackupFailed r rs ab
                    else ok (after_result (sy_backupObserveRequeue r)))
      | None \<Rightarrow> (case find (\<lambda>rec. backupStartedForResourceSyncRun (br_start rec) last) h of
            Some rec \<Rightarrow> recordResourceBackup r rs (br_name rec)
          | None \<Rightarrow> if abt_status (ab_status ab) = ''Failed'' then resourceBackupFailed r rs ab
                    else requestResourceBackup r rs ab desired))"

section \<open>The restores\<close>

definition lookupRestoreHistorySource :: "SyncObject \<Rightarrow> string \<Rightarrow> (int \<times> time option) action" where
  "lookupRestoreHistorySource rs backupName = do {
     g \<leftarrow> apiGet appBackupKind (syncNs rs, rsBackupName rs);
     ret (lookupResourceSyncBackupCycle (case g of Inl _ \<Rightarrow> None | Inr ab \<Rightarrow> Some ab) backupName) }"

definition failRestoreBuild :: "syncReconciler \<Rightarrow> SyncObject \<Rightarrow> string \<Rightarrow> string \<Rightarrow> err \<Rightarrow> int \<Rightarrow> Result result" where
  "failRestoreBuild r rs backupName restoreName e items =
     (let msg = msgRsBuildRestore (err_text e) in do {
        emit (syncName rs) ''BuildRestoreSpecFailed'';
        f \<leftarrow> lookupRestoreHistorySource rs backupName;
        endResourceRun r rs (rsBuildFailedStatus r msg (rsHistoryRecord r backupName restoreName f items PhaseFailed)) False })"

definition finalizeRestoreResult :: "syncReconciler \<Rightarrow> SyncObject \<Rightarrow> string \<Rightarrow> string \<Rightarrow> bool \<Rightarrow> AppRestorePhase \<Rightarrow> int \<Rightarrow> Result result" where
  "finalizeRestoreResult r rs backupName restoreName failed st items = do {
     f \<leftarrow> lookupRestoreHistorySource rs backupName;
     endResourceRun r rs (rsFinalStatus r failed (msgRsRestoreFailed restoreName (phaseString st))
       (rsHistoryRecord r backupName restoreName f items st)) True }"

definition startPhase :: "syncReconciler \<Rightarrow> SyncObject \<Rightarrow> DisasterConfig \<Rightarrow> DisasterInstance \<Rightarrow> string \<Rightarrow> string \<Rightarrow>
    resourceSyncRestorePhaseKind \<Rightarrow> int \<Rightarrow> Result result" where
  "startPhase r rs cfg i backupName restoreName phase items = do {
     x \<leftarrow> buildPhaseRestoreSpec (sy_base r) rs cfg i backupName phase;
     (case x of
        Inl e \<Rightarrow> failRestoreBuild r rs backupName restoreName e items
      | Inr (spec, summary) \<Rightarrow>
          chk (lift (resourceAppRestore r rs restoreName spec summary)) (\<lambda>ar.
          chk (apiCreate restoreKind ar) (\<lambda>_. do {
            emit (syncName rs) ''ExecutionProgress'';
            emit (syncName rs) ''ExecutionProgress'';
            chk (updateResourceSyncStatusWithRetry r rs (phaseMutation phase restoreName PhasePending)) (\<lambda>_. ok requeue_result) }))) }"

text \<open>What an existing restore says of its phase; the next phase gets the sync and the items restored so far.\<close>

definition followPhase :: "syncReconciler \<Rightarrow> SyncObject \<Rightarrow> string \<Rightarrow> string \<Rightarrow> resourceSyncRestorePhaseKind \<Rightarrow> AppRestore \<Rightarrow> int \<Rightarrow>
    (SyncObject \<Rightarrow> int \<Rightarrow> Result result) \<Rightarrow> Result result" where
  "followPhase r rs backupName restoreName phase ar items k =
     (let st = ar_phase ar; x = updateResourceSyncRestorePhaseStatus phase restoreName st (so_status rs);
          rs1 = rs\<lparr>so_status := fst x\<rparr>; items1 = items + lookupResourceSyncRestoreItems ar;
          save = (\<lambda>k. if snd x then chk (updateResourceSyncStatusWithRetry r rs1 (phaseMutation phase restoreName st)) k else k rs1)
      in if st \<noteq> PhaseSucceeded \<and> \<not> IsFailedAppRestorePhase st then save (\<lambda>_. ok (after_result (sy_restoreObserveRequeue r)))
         else if IsFailedAppRestorePhase st then finalizeRestoreResult r rs1 backupName restoreName True st items1
         else save (\<lambda>rs2. k rs2 items1))"

fun restorePhases :: "syncReconciler \<Rightarrow> DisasterConfig \<Rightarrow> DisasterInstance \<Rightarrow> string \<Rightarrow> string \<Rightarrow> resourceSyncRestorePhaseKind list \<Rightarrow>
    SyncObject \<Rightarrow> int \<Rightarrow> Result result" where
  "restorePhases r cfg i backupName lastName [] rs items = finalizeRestoreResult r rs backupName lastName False PhaseSucceeded items"
| "restorePhases r cfg i backupName lastName (p # ps) rs items =
     (let restoreName = resourceSyncRestoreName (sy_base r) (syncName rs) backupName p in do {
        g \<leftarrow> apiGet restoreKind (syncNs rs, restoreName);
        (case g of
           Inl e \<Rightarrow> if err_kind e = NotFound then startPhase r rs cfg i backupName restoreName p items else fail e
         | Inr ar \<Rightarrow> followPhase r rs backupName restoreName p ar items (restorePhases r cfg i backupName lastName ps)) })"

text \<open>A plan without a phase is done at once.\<close>

definition handleResourceRestore :: "syncReconciler \<Rightarrow> SyncObject \<Rightarrow> DisasterConfig \<Rightarrow> DisasterInstance \<Rightarrow> string \<Rightarrow> Result result" where
  "handleResourceRestore r rs cfg i backupName =
     (let ps = planResourceSyncRestorePhases i in
      restorePhases r cfg i backupName
        (if ps = [] then [] else resourceSyncRestoreName (sy_base r) (syncName rs) backupName (last ps)) ps rs 0)"

section \<open>Following the backup\<close>

definition resourceVeleroFailed :: "syncReconciler \<Rightarrow> SyncObject \<Rightarrow> AppBackup \<Rightarrow> BackupRecord \<Rightarrow> Result result" where
  "resourceVeleroFailed r rs ab rec =
     (let msg = msgDsVeleroFailed (ss_lastBackupName (so_status rs))
            (if abt_message (ab_status ab) \<noteq> [] then abt_message (ab_status ab) else BackupRecordFailureStatus rec) in
      chk (updateResourceSyncStatusWithRetry r rs (\<lambda>s. Some (rsVeleroFailedStatus r msg s))) (\<lambda>_. do {
        emit (syncName rs) ''ExecutionFinished'';
        ok done_result }))"

definition followResourceBackup :: "syncReconciler \<Rightarrow> SyncObject \<Rightarrow> DisasterConfig \<Rightarrow> DisasterInstance \<Rightarrow> Result result" where
  "followResourceBackup r rs cfg i =
     (let backupName = ss_lastBackupName (so_status rs) in
      chk (apiGet appBackupKind (syncNs rs, rsBackupName rs)) (\<lambda>ab.
      case find (\<lambda>rec. br_name rec = backupName) (abt_history (ab_status ab)) of
        None \<Rightarrow> ok (after_result (sy_historyMissingRequeue r))
      | Some rec \<Rightarrow>
          if br_phase rec = ''Completed'' then do {
            emit (syncName rs) ''ExecutionProgress'';
            handleResourceRestore r rs cfg i backupName }
          else if BackupRecordFailed rec then resourceVeleroFailed r rs ab rec
          else ok (after_result (sy_backupInProgressRequeue r))))"

definition runResourceBackup :: "syncReconciler \<Rightarrow> SyncObject \<Rightarrow> DisasterConfig \<Rightarrow> DisasterInstance \<Rightarrow> Result result" where
  "runResourceBackup r rs cfg i =
     (let desired = buildResourceBackupSpec i cfg in do {
        g \<leftarrow> apiGet appBackupKind (syncNs rs, rsBackupName rs);
        (case g of
           Inl e \<Rightarrow>
             if err_kind e = NotFound then createResourceBackup r rs desired
             else failResourceSync r resourceSyncReasonDependencyFailed (msgDsGetBackup (rsBackupName rs) (err_text e)) rs
         | Inr ab \<Rightarrow>
             if AppBackupSpecNeedsUpdate (ab_spec ab) desired
             then chk (apiUpdate appBackupKind (ab\<lparr>ab_spec := (ab_spec ab)\<lparr>abs_cluster := abs_cluster desired,
                      abs_template := abs_template desired, abs_timeout := abs_timeout desired\<rparr>\<rparr>)) (\<lambda>_. ok requeue_result)
             else if ss_lastBackupName (so_status rs) = [] then findResourceBackup r rs ab desired
             else followResourceBackup r rs cfg i) })"

definition executeResourceSync :: "syncReconciler \<Rightarrow> SyncObject \<Rightarrow> Result result" where
  "executeResourceSync r rs =
     orFailResource r resourceSyncReasonDependencyFailed (msgDsGetInstance (ss_instance (so_spec rs))) rs
       (apiGet instKind (syncNs rs, ss_instance (so_spec rs))) (\<lambda>i.
     orFailResource r resourceSyncReasonDependencyFailed (msgDsGetConfig (di_config (in_spec i))) rs
       (apiGet cfgKind ([], di_config (in_spec i))) (\<lambda>cfg.
     orFailResource r resourceSyncReasonStorageUnavailable (msgDsStorage (cfg_storageRepository cfg)) rs
       (ensureStorageRepositoryReady r (syncNs rs) (cfg_storageRepository cfg)) (\<lambda>_.
     if ss_state (so_status rs) \<noteq> SyncInProgress then startResourceRun r rs i cfg else runResourceBackup r rs cfg i)))"

section \<open>The reconcile loop\<close>

definition rsSyncDependencyLabels :: "reconciler \<Rightarrow> SyncObject \<Rightarrow> (bool \<times> SyncObject) action" where
  "rsSyncDependencyLabels r rs =
     (let tk = EnsureDependencyTokenLabel (r_sha256hex r) (m_labels (so_meta rs)) (m_uid (so_meta rs)) in do {
        es \<leftarrow> (if ss_instance (so_spec rs) \<noteq> [] then do {
                 g \<leftarrow> apiGet instKind (syncNs rs, ss_instance (so_spec rs));
                 ret (case g of Inl _ \<Rightarrow> [] | Inr i \<Rightarrow> [edgeTo r (m_uid (in_meta i)) ''spec.instance'']) }
               else ret []);
        (let rb = RebuildDependencyToLabels (fst tk) es in
         ret (snd (snd tk) \<or> snd rb, rs\<lparr>so_meta := (so_meta rs)\<lparr>m_labels := fst rb\<rparr>\<rparr>)) })"

definition deleteResourceSync :: "SyncObject \<Rightarrow> Result result" where
  "deleteResourceSync rs =
     (if \<not> List.member (m_finalizers (so_meta rs)) resourceSyncFinalizer then ok done_result
      else do {
        emit (syncName rs) ''ExecutionStarted'';
        removeJob (syncKey rs);
        u \<leftarrow> faulty (storeUpdateDeleting rsKind (rs\<lparr>so_meta := (so_meta rs)\<lparr>m_finalizers :=
               filter (\<lambda>f. f \<noteq> resourceSyncFinalizer) (m_finalizers (so_meta rs))\<rparr>\<rparr>));
        emit (syncName rs) ''ExecutionFinished'';
        (case u of Inl e \<Rightarrow> fail e | Inr _ \<Rightarrow> ok done_result) })"

definition rsInitialStatus :: "SyncStatus \<Rightarrow> SyncStatus option" where
  "rsInitialStatus s = (if ss_state s \<noteq> SyncNone then None else Some (s\<lparr>ss_state := SyncReady, ss_reason := [], ss_message := []\<rparr>))"

definition reconcileResourceSync :: "syncReconciler \<Rightarrow> SyncObject \<Rightarrow> Result result" where
  "reconcileResourceSync r rs =
     (if m_deletion (so_meta rs) \<noteq> None then deleteResourceSync rs
      else if \<not> List.member (m_finalizers (so_meta rs)) resourceSyncFinalizer
      then chk (apiUpdate rsKind (rs\<lparr>so_meta := (so_meta rs)\<lparr>m_finalizers := m_finalizers (so_meta rs) @ [resourceSyncFinalizer]\<rparr>\<rparr>)) (\<lambda>_.
             ok requeue_result)
      else do {
        x \<leftarrow> rsSyncDependencyLabels (sy_base r) rs;
        (let rs1 = snd x in
         if fst x then chk (apiUpdate rsKind rs1) (\<lambda>_. ok requeue_result)
         else if ss_state (so_status rs1) = SyncNone
         then chk (updateResourceSyncStatusWithRetry r rs1 rsInitialStatus) (\<lambda>_. ok requeue_result)
         else do {
           scheduleSync r TriggerResourceSync rs1;
           (if rsShouldSync r rs1 then executeResourceSync r rs1 else ok done_result) }) })"

definition resourceSyncReconcile :: "syncReconciler \<Rightarrow> key \<Rightarrow> Result result" where
  "resourceSyncReconcile r k = do {
     g \<leftarrow> apiGet rsKind k;
     (case g of
        Inl e \<Rightarrow> if err_kind e = NotFound then do { removeJob k; ok done_result } else fail e
      | Inr rs \<Rightarrow> reconcileResourceSync r rs) }"

text \<open>What the cron job calls.\<close>

definition rsCronTrigger :: "reconciler \<Rightarrow> key \<Rightarrow> unit action" where
  "rsCronTrigger r k = do {
     g \<leftarrow> apiGet rsKind k;
     (case g of
        Inl _ \<Rightarrow> ret ()
      | Inr s \<Rightarrow>
          if ss_paused (so_spec s) \<or> tr_schedule (ss_trigger (so_spec s)) = [] then ret ()
          else if ss_state (so_status s) = SyncInProgress then ret ()
          else do {
            _ \<leftarrow> apiUpdate rsKind (s\<lparr>so_spec := (so_spec s)\<lparr>ss_trigger := (ss_trigger (so_spec s))\<lparr>tr_manual := r_fmtTime r (r_now r)\<rparr>\<rparr>\<rparr>);
            ret () }) }"

end
