(* ===== verification/ResourceSyncPlan.thy ===== *)
theory ResourceSyncPlan
  imports ResourceSyncCore
begin

text \<open>
  What a resource sync selects: the manifests of pods, claims and volumes stay out of its backups and of
  its restores of namespaces, whatever the policy of the instance says, and the restores of the phases ask for exactly
  what the backup was told to hold.
\<close>

section \<open>Lists of names\<close>

definition tidy :: "string list \<Rightarrow> bool" where
  "tidy xs \<longleftrightarrow> distinct xs \<and> (\<forall>x \<in> set xs. x \<noteq> [] \<and> trimSpace x = x)"

definition addName :: "string list \<Rightarrow> string \<Rightarrow> string list" where
  "addName out item = (let v = trimSpace item in if v = [] \<or> List.member out v then out else out @ [v])"

lemma merge_addName: "mergeUniqueResourceSyncValues parts = foldl addName [] (concat parts)"
  unfolding mergeUniqueResourceSyncValues_def addName_def [abs_def] ..

lemma set_addNames: "set (foldl addName out xs) = set out \<union> (trimSpace ` set xs - {[]})"
  by (induction xs arbitrary: out) (auto simp: addName_def Let_def)

lemma tidy_addName: "tidy out \<Longrightarrow> tidy (addName out x)"
  by (auto simp: tidy_def addName_def Let_def)

lemma tidy_addNames: "tidy out \<Longrightarrow> tidy (foldl addName out xs)"
  by (induction xs arbitrary: out) (simp_all add: tidy_addName)

lemma addNames_tidy: "tidy (out @ xs) \<Longrightarrow> foldl addName out xs = out @ xs"
proof (induction xs arbitrary: out)
  case (Cons x xs)
  then have "addName out x = out @ [x]" by (auto simp: tidy_def addName_def Let_def)
  with Cons show ?case by simp
qed simp

lemma addNames_known: "trimSpace ` set xs - {[]} \<subseteq> set out \<Longrightarrow> foldl addName out xs = out"
proof (induction xs)
  case (Cons x xs)
  have "addName out x = out" using Cons.prems by (auto simp: addName_def Let_def)
  moreover have "foldl addName out xs = out" using Cons.prems by (intro Cons.IH) auto
  ultimately show ?case by simp
qed simp

lemma set_merge: "set (mergeUniqueResourceSyncValues parts) = trimSpace ` set (concat parts) - {[]}"
  by (simp add: merge_addName set_addNames)

lemma set_filterOut: "set (filterOutValues xs ys) = trimSpace ` set xs - {[]} - trimSpace ` set ys"
  by (auto simp: filterOutValues_def)

lemma filterOut_again: "filterOutValues (filterOutValues xs ys) ys = filterOutValues xs ys"
  unfolding filterOutValues_def by (rule trans [OF arg_cong [OF map_idI]]) auto

section \<open>The resources a resource sync never copies\<close>

lemma mandatory_trim: "trimSpace ` set resourceSyncMandatoryExcludedResources = set resourceSyncMandatoryExcludedResources"
  "[] \<notin> set resourceSyncMandatoryExcludedResources"
  by (simp_all add: resourceSyncMandatoryExcludedResources_def; code_simp)+

definition leavesOut :: "string list \<Rightarrow> string list \<Rightarrow> bool" where
  "leavesOut inc exc \<longleftrightarrow> set resourceSyncMandatoryExcludedResources \<inter> set inc = {} \<and>
     (set resourceSyncMandatoryExcludedResources \<subseteq> set exc \<or> exc = [''*''])"

lemma merged_mandatory: "set resourceSyncMandatoryExcludedResources \<subseteq> set (mergeUniqueResourceSyncValues [xs, resourceSyncMandatoryExcludedResources])"
  using mandatory_trim by (auto simp: set_merge)

lemma filtered_mandatory: "set resourceSyncMandatoryExcludedResources \<inter> set (filterOutValues xs resourceSyncMandatoryExcludedResources) = {}"
  using mandatory_trim by (auto simp: set_filterOut)

lemma enforced: "leavesOut (rt_includedResources (enforceResourceSyncMandatoryRestoreExclusions t)) (rt_excludedResources (enforceResourceSyncMandatoryRestoreExclusions t))"
  by (simp add: leavesOut_def enforceResourceSyncMandatoryRestoreExclusions_def merged_mandatory filtered_mandatory)

lemma phase_leaves_out:
  assumes "phase \<noteq> RestoreCluster"
  shows "leavesOut (rt_includedResources (ars_template (applyPhaseSelection phase i s))) (rt_excludedResources (ars_template (applyPhaseSelection phase i s)))"
  using assms enforced
  by (cases phase) (simp_all add: applyPhaseSelection_def Let_def onTemplate_def applyResourceSyncNamespacedRestoreSelection_def)

lemma effective_leaves_out: "leavesOut (effectiveNamespacedIncludedResources p) (effectiveNamespacedExcludedResources p)"
  by (simp add: leavesOut_def effectiveNamespacedIncludedResources_def effectiveNamespacedExcludedResources_def merged_mandatory filtered_mandatory)

text \<open>The backup of a resource sync holds no pods, claims or volumes among the namespaced objects, whatever
  the policy of the instance selects: without a scoped selection the three are excluded, with one they are taken out of what
  is included and excluded as well, or nothing namespaced is backed up.\<close>

theorem resource_backup_leaves_volumes_out:
  "let t = abs_template (buildResourceBackupSpec i cfg) in
     if sel_scoped (resolveResourceSyncSelectionPlan i)
     then bt_includedResources t = [] \<and> bt_excludedResources t = [] \<and>
          leavesOut (bt_includedNamespaceScopedResources t) (bt_excludedNamespaceScopedResources t)
     else leavesOut (bt_includedResources t) (bt_excludedResources t)"
proof -
  have "leavesOut [] [''*'']" by (simp add: leavesOut_def)
  moreover have "leavesOut [] [''pods'', ''persistentvolumeclaims'', ''persistentvolumes'']"
    by (simp add: leavesOut_def resourceSyncMandatoryExcludedResources_def)
  ultimately show ?thesis
    using effective_leaves_out
    by (auto simp: buildResourceBackupSpec_def applyScopedSelectionToResourceSyncBackupSpec_def Let_def)
qed

section \<open>The restores fit the backup\<close>

lemma selected_cluster [simp]: "applyPhaseSelection RestoreCluster i s = onTemplate (applyResourceSyncClusterRestoreSelection (resolveResourceSyncSelectionPlan i)) s"
  "applyPhaseSelection RestoreNamespace i s = onTemplate (applyResourceSyncNamespacedRestoreSelection (resolveResourceSyncSelectionPlan i)) s"
  by (simp_all add: applyPhaseSelection_def)

lemma tidy_excluded: "tidy (effectiveNamespacedExcludedResources p)"
  unfolding effectiveNamespacedExcludedResources_def merge_addName by (rule tidy_addNames) (simp add: tidy_def)

lemma enforce_effective:
  "filterOutValues (effectiveNamespacedIncludedResources p) resourceSyncMandatoryExcludedResources = effectiveNamespacedIncludedResources p"
  "mergeUniqueResourceSyncValues [effectiveNamespacedExcludedResources p, resourceSyncMandatoryExcludedResources] = effectiveNamespacedExcludedResources p"
proof -
  show "filterOutValues (effectiveNamespacedIncludedResources p) resourceSyncMandatoryExcludedResources = effectiveNamespacedIncludedResources p"
    by (simp add: effectiveNamespacedIncludedResources_def filterOut_again)
  have "foldl addName [] (effectiveNamespacedExcludedResources p) = effectiveNamespacedExcludedResources p"
    using addNames_tidy [of "[]"] tidy_excluded by simp
  moreover have "trimSpace ` set resourceSyncMandatoryExcludedResources - {[]} \<subseteq> set (effectiveNamespacedExcludedResources p)"
    using merged_mandatory mandatory_trim by (auto simp: effectiveNamespacedExcludedResources_def)
  ultimately show "mergeUniqueResourceSyncValues [effectiveNamespacedExcludedResources p, resourceSyncMandatoryExcludedResources] = effectiveNamespacedExcludedResources p"
    by (simp add: merge_addName addNames_known)
qed

text \<open>C11. Equivalence: a scoped restore asks for exactly what the backup was told to hold: the phase of the cluster-scoped objects
  is planned when and only when the backup includes some, and names the same ones; the phase of the namespaced objects names the included and
  excluded ones of the backup, and no cluster-scoped object.\<close>

theorem phases_restore_what_is_backed_up:
  assumes "sel_scoped (resolveResourceSyncSelectionPlan i)"
  shows "let t = abs_template (buildResourceBackupSpec i cfg);
             u = ars_template (applyPhaseSelection RestoreCluster i s); v = ars_template (applyPhaseSelection RestoreNamespace i s);
             ps = set (planResourceSyncRestorePhases i) in
     RestoreLegacy \<notin> ps \<and>
     (RestoreCluster \<in> ps) = (bt_includedClusterScopedResources t \<noteq> []) \<and>
     (RestoreNamespace \<in> ps) = (sel_includedNamespaceScopedResources (resolveResourceSyncSelectionPlan i) = [] \<or> bt_includedNamespaceScopedResources t \<noteq> []) \<and>
     (if RestoreCluster \<in> ps
      then rt_includedResources u = bt_includedClusterScopedResources t \<and> rt_excludedResources u = bt_excludedClusterScopedResources t \<and>
           rt_includeClusterResources u = Some True
      else bt_excludedClusterScopedResources t = [''*'']) \<and>
     (if RestoreNamespace \<in> ps
      then rt_includedResources v = bt_includedNamespaceScopedResources t \<and> rt_excludedResources v = bt_excludedNamespaceScopedResources t \<and>
           rt_includeClusterResources v = Some False
      else bt_excludedNamespaceScopedResources t = [''*''])"
proof -
  let ?p = "resolveResourceSyncSelectionPlan i"
  have "effectiveNamespacedIncludedResources ?p = []" if "sel_includedNamespaceScopedResources ?p = []"
    using that by (simp add: effectiveNamespacedIncludedResources_def filterOutValues_def)
  with assms show ?thesis
    by (auto simp: buildResourceBackupSpec_def applyScopedSelectionToResourceSyncBackupSpec_def planResourceSyncRestorePhases_def clusterPhaseEnabled_def
        namespacePhaseEnabled_def onTemplate_def applyResourceSyncClusterRestoreSelection_def applyResourceSyncNamespacedRestoreSelection_def
        enforceResourceSyncMandatoryRestoreExclusions_def enforce_effective Let_def)
qed

end
