(* ===== verification/ResourceSyncFsm.thy ===== *)
theory ResourceSyncFsm
  imports ResourceSync ResourceSyncPlan DataSyncRuns
begin

text \<open>
  The abstract machine of a resource sync and the invariants of one reconcile. The phases of a run are those
  of a data sync; what ends it well is that every restore of its plan succeeded. A restore
  is made only when the restores of the earlier phases succeeded, and leaves pods, claims and volumes out.
\<close>

section \<open>The abstract machine\<close>

definition resourceBackupOfRun :: "syncReconciler \<Rightarrow> world \<Rightarrow> SyncObject \<Rightarrow> string \<Rightarrow> bool" where
  "resourceBackupOfRun r w rs b \<longleftrightarrow> (\<exists>ab rec. lookup appBackupKind w (syncNs rs, rsBackupName rs) = Some ab \<and>
     rec \<in> set (abt_history (ab_status ab)) \<and> br_name rec = b \<and>
     (case CurrentBackupActionVeleroBackupName (sy_base r) (rsBackupName rs) ab (ss_lastSyncTime (so_status rs)) of
        Some n \<Rightarrow> n = b | None \<Rightarrow> backupStartedForResourceSyncRun (br_start rec) (ss_lastSyncTime (so_status rs))))"

definition phaseKey :: "syncReconciler \<Rightarrow> SyncObject \<Rightarrow> string \<Rightarrow> resourceSyncRestorePhaseKind \<Rightarrow> key" where
  "phaseKey r rs b p = (syncNs rs, resourceSyncRestoreName (sy_base r) (syncName rs) b p)"

definition phaseSucceeded :: "syncReconciler \<Rightarrow> world \<Rightarrow> SyncObject \<Rightarrow> string \<Rightarrow> resourceSyncRestorePhaseKind \<Rightarrow> bool" where
  "phaseSucceeded r w rs b p \<longleftrightarrow> (\<exists>ar. lookup restoreKind w (phaseKey r rs b p) = Some ar \<and> ar_phase ar = PhaseSucceeded)"

definition resourceBackupCompleted :: "world \<Rightarrow> SyncObject \<Rightarrow> string \<Rightarrow> bool" where
  "resourceBackupCompleted w rs b \<longleftrightarrow> (\<exists>ab rec. lookup appBackupKind w (syncNs rs, rsBackupName rs) = Some ab \<and>
     find (\<lambda>rec. br_name rec = b) (abt_history (ab_status ab)) = Some rec \<and> br_phase rec = ''Completed'')"

definition resourcesRestored :: "syncReconciler \<Rightarrow> world \<Rightarrow> SyncObject \<Rightarrow> string \<Rightarrow> bool" where
  "resourcesRestored r w rs b \<longleftrightarrow> resourceBackupCompleted w rs b \<and>
     (\<exists>i. instanceOf w rs = Some i \<and> (\<forall>p \<in> set (planResourceSyncRestorePhases i). phaseSucceeded r w rs b p))"

inductive resourceEdge :: "syncReconciler \<Rightarrow> world \<Rightarrow> SyncObject \<Rightarrow> runPhase \<Rightarrow> runPhase \<Rightarrow> bool" for r w rs where
  created: "resourceEdge r w rs Fresh Idle"
| started: "rsShouldSync r rs \<Longrightarrow> p = Idle \<or> p = Broken \<Longrightarrow> resourceEdge r w rs p Searching"
| aborted: "rsShouldSync r rs \<Longrightarrow> p \<noteq> Fresh \<Longrightarrow> resourceEdge r w rs p Broken"
| found: "resourceBackupOfRun r w rs b \<Longrightarrow> b \<noteq> [] \<Longrightarrow> resourceEdge r w rs Searching (Copying b)"
| restored: "resourcesRestored r w rs b \<Longrightarrow> resourceEdge r w rs (Copying b) Idle"

inductive_cases resource_to_Idle: "resourceEdge r w rs p Idle"

definition resourceMoves :: "syncReconciler \<Rightarrow> world \<Rightarrow> SyncObject \<Rightarrow> SyncStatus \<Rightarrow> bool" where
  "resourceMoves r w rs s \<longleftrightarrow>
     (phaseOf s = phaseOf (so_status rs) \<and> ss_lastSyncTime s = ss_lastSyncTime (so_status rs)) \<or>
     (resourceEdge r w rs (phaseOf (so_status rs)) (phaseOf s) \<and>
      ss_lastSyncTime s = (if endsRun (phaseOf (so_status rs)) (phaseOf s) then Some (sy_now r) else ss_lastSyncTime (so_status rs)))"

section \<open>What a resource sync may write\<close>

definition phaseKeys :: "syncReconciler \<Rightarrow> SyncObject \<Rightarrow> key set" where
  "phaseKeys r rs = range (phaseKey r rs (ss_lastBackupName (so_status rs)))"

definition replicasKey :: "SyncObject \<Rightarrow> key" where
  "replicasKey rs = (syncNs rs, ''replicas-'' @ syncName rs)"

text \<open>The world without the sync, its backup, the restores of its run, its record of replicas and its cron job.\<close>

definition outsideResource :: "syncReconciler \<Rightarrow> SyncObject \<Rightarrow> world \<Rightarrow> world" where
  "outsideResource r rs v = v\<lparr>w_rs := filter (\<lambda>x. keyOf rsKind x \<noteq> syncKey rs) (w_rs v),
     w_appBackups := filter (\<lambda>x. keyOf appBackupKind x \<noteq> (syncNs rs, rsBackupName rs)) (w_appBackups v),
     w_restores := filter (\<lambda>x. keyOf restoreKind x \<notin> phaseKeys r rs) (w_restores v),
     w_cms := filter (\<lambda>x. keyOf cmKind x \<noteq> replicasKey rs) (w_cms v),
     w_jobs := AList.delete (jobKey (syncKey rs)) (w_jobs v),
     w_stats := [], w_events := [], w_faults := []\<rparr>"

text \<open>A restore that was not there before: for the run, in the order of the plan, without what a resource sync never copies.\<close>

definition justifiedRestore :: "syncReconciler \<Rightarrow> world \<Rightarrow> SyncObject \<Rightarrow> AppRestore \<Rightarrow> bool" where
  "justifiedRestore r w rs ar \<longleftrightarrow> (\<exists>i b p pre post. instanceOf w rs = Some i \<and> phaseOf (so_status rs) = Copying b \<and>
     resourceBackupCompleted w rs b \<and> planResourceSyncRestorePhases i = pre @ p # post \<and> keyOf restoreKind ar = phaseKey r rs b p \<and>
     (\<forall>q \<in> set pre. phaseSucceeded r w rs b q) \<and>
     (p = RestoreCluster \<or> leavesOut (rt_includedResources (ars_template (ar_spec ar))) (rt_excludedResources (ars_template (ar_spec ar)))))"

definition restoresGrow :: "syncReconciler \<Rightarrow> world \<Rightarrow> SyncObject \<Rightarrow> AppRestore list \<Rightarrow> bool" where
  "restoresGrow r w rs xs \<longleftrightarrow> (\<forall>ar \<in> set xs. ar \<in> set (w_restores w) \<or> justifiedRestore r w rs ar)"

section \<open>Invariants of a reconcile\<close>

definition rsAt :: "key \<Rightarrow> (SyncStatus \<Rightarrow> bool) \<Rightarrow> world \<Rightarrow> bool" where
  "rsAt k P v \<longleftrightarrow> (\<forall>d. lookup rsKind v k = Some d \<longrightarrow> P (so_status d))"

definition steady :: "SyncObject \<Rightarrow> SyncStatus \<Rightarrow> bool" where
  "steady rs s \<longleftrightarrow> ss_state s = ss_state (so_status rs) \<and> ss_lastBackupName s = ss_lastBackupName (so_status rs) \<and>
     ss_lastSyncTime s = ss_lastSyncTime (so_status rs)"

definition resourceView :: "world \<Rightarrow> world" where
  "resourceView v = v\<lparr>w_rs := [], w_cms := [], w_jobs := [], w_stats := [], w_events := [], w_faults := []\<rparr>"

definition rsRead :: "syncReconciler \<Rightarrow> world \<Rightarrow> SyncObject \<Rightarrow> world \<Rightarrow> bool" where
  "rsRead r w rs v \<longleftrightarrow> rsAt (syncKey rs) (steady rs) v \<and> resourceView v = resourceView w \<and> outsideResource r rs v = outsideResource r rs w"

definition rsLate :: "syncReconciler \<Rightarrow> world \<Rightarrow> SyncObject \<Rightarrow> world \<Rightarrow> bool" where
  "rsLate r w rs v \<longleftrightarrow> rsAt (syncKey rs) (steady rs) v \<and> restoresGrow r w rs (w_restores v) \<and> outsideResource r rs v = outsideResource r rs w"

definition rsDone :: "syncReconciler \<Rightarrow> world \<Rightarrow> SyncObject \<Rightarrow> world \<Rightarrow> bool" where
  "rsDone r w rs v \<longleftrightarrow> rsAt (syncKey rs) (resourceMoves r w rs) v \<and> restoresGrow r w rs (w_restores v) \<and> outsideResource r rs v = outsideResource r rs w"

lemma steady_phase: "steady rs s \<Longrightarrow> phaseOf s = phaseOf (so_status rs)"
  by (auto simp: steady_def phaseOf_def split: SyncState.splits)

lemma steady_moves: "steady rs s \<Longrightarrow> resourceMoves r w rs s"
  using steady_phase [of rs s] by (simp add: steady_def resourceMoves_def)

lemma view_restores: "resourceView v = resourceView w \<Longrightarrow> w_restores v = w_restores w"
  by (drule arg_cong [where f = w_restores]) (simp add: resourceView_def)

lemma rs_read_late: "rsRead r w rs v \<Longrightarrow> rsLate r w rs v"
  by (auto simp: rsRead_def rsLate_def restoresGrow_def dest: view_restores)

lemma rs_late_done: "rsLate r w rs v \<Longrightarrow> rsDone r w rs v"
  by (auto simp: rsLate_def rsDone_def rsAt_def steady_moves)

lemma rs_read_done: "rsRead r w rs v \<Longrightarrow> rsDone r w rs v"
  by (intro rs_late_done rs_read_late)

lemma of_quiet_rs:
  "rsAt k P (quiet v) = rsAt k P v" "resourceView (quiet v) = resourceView v" "outsideResource r rs (quiet v) = outsideResource r rs v"
  "w_restores (quiet v) = w_restores v"
  by (simp_all add: quiet_def rsAt_def lookup_def resourceView_def outsideResource_def)

lemma quiet_rs: "quietInv (rsRead r w rs)" "quietInv (rsLate r w rs)" "quietInv (rsDone r w rs)"
  by (simp_all add: quietInv_def rsRead_def rsLate_def rsDone_def of_quiet_rs)

lemma rsAt_faults [simp]: "rsAt k P (v\<lparr>w_faults := fs\<rparr>) = rsAt k P v"
  by (simp add: rsAt_def lookup_def)

text \<open>The sync in memory has the names of the one that was read, and is in the same stage of the run.\<close>

definition sameRun :: "SyncObject \<Rightarrow> SyncObject \<Rightarrow> bool" where
  "sameRun rs x \<longleftrightarrow> syncKey x = syncKey rs \<and> so_spec x = so_spec rs \<and> steady rs (so_status x)"

lemma sameRun_names:
  assumes "sameRun rs x"
  shows "syncKey x = syncKey rs" "syncNs x = syncNs rs" "syncName x = syncName rs" "so_spec x = so_spec rs" "rsBackupName x = rsBackupName rs"
    "ss_state (so_status x) = ss_state (so_status rs)" "ss_lastBackupName (so_status x) = ss_lastBackupName (so_status rs)"
    "ss_lastSyncTime (so_status x) = ss_lastSyncTime (so_status rs)" "phaseKey r x b p = phaseKey r rs b p"
  using assms
  by (simp_all add: sameRun_def steady_def syncKey_def metaKey_def syncNs_def syncName_def rsBackupName_def phaseKey_def)

lemma sameRun_refl: "sameRun rs rs"
  by (simp add: sameRun_def steady_def)

section \<open>Frames\<close>

interpretation outR: world_frame "outsideResource r rs" for r rs
  by unfold_locales (simp_all add: outsideResource_def)

interpretation ownRs: key_frame "outsideResource r rs" rsKind "\<lambda>q. q = syncKey rs" for r rs
  by unfold_locales (simp_all add: rsK.meta_setMeta outsideResource_def)

interpretation ownResourceBackup: key_frame "outsideResource r rs" appBackupKind "\<lambda>q. q = (syncNs rs, rsBackupName rs)" for r rs
  by unfold_locales (simp_all add: appBackupK.meta_setMeta outsideResource_def)

interpretation ownPhase: key_frame "outsideResource r rs" restoreKind "\<lambda>q. q \<in> phaseKeys r rs" for r rs
  by unfold_locales (simp_all add: restoreK.meta_setMeta outsideResource_def)

interpretation ownRecord: key_frame "outsideResource r rs" cmKind "\<lambda>q. q = replicasKey rs" for r rs
  by unfold_locales (simp_all add: cmK.meta_setMeta outsideResource_def)

interpretation rsF: world_frame w_rs
  by unfold_locales simp_all

interpretation restoresF: world_frame w_restores
  by unfold_locales simp_all

interpretation viewR: world_frame resourceView
  by unfold_locales (simp_all add: resourceView_def)

lemma keyOf_rs [simp]: "keyOf rsKind x = syncKey x"
  by (simp add: keyOf_def syncKey_def)

lemma rs_meta [simp]: "so_status (bumpRv rsKind s x) = so_status x" "syncKey (bumpRv rsKind s x) = syncKey s"
  "so_status (k_mergeStatus rsKind s x) = so_status x" "so_status (k_mergeSpec rsKind s x) = so_status s"
  "so_spec (k_mergeSpec rsKind s x) = so_spec x" "so_spec (bumpRv rsKind s x) = so_spec x"
  by (simp_all add: bumpRv_def rsKind_def syncKey_def metaKey_def)

lemma rsAt_replace:
  assumes "rsAt k P v" and "syncKey x = k" and "P (so_status x)"
  shows "rsAt k P (replaceObj rsKind x v)"
  using assms by (auto simp: rsAt_def rsK.lookup_replaceObj)

text \<open>An action that does not write resource syncs keeps what is known of the stored one.\<close>

lemma wp_rsAt: "state_io_rel rsF.same m \<Longrightarrow> rsAt k P v \<Longrightarrow> wp m (\<lambda>_. rsAt k P) v"
  by (rule wp_mono, erule rsF.wp_same) (simp add: rsAt_def lookup_def)

lemma wp_rsLate:
  assumes "state_io_rel rsF.same m" and "state_io_rel restoresF.same m" and "state_io_rel (outR.same r rs) m" and "rsLate r w rs v"
  shows "wp m (\<lambda>_. rsLate r w rs) v"
proof -
  have "wp m (\<lambda>_. rsAt (syncKey rs) (steady rs)) v" by (rule wp_rsAt [OF assms(1)]) (use assms(4) in \<open>simp add: rsLate_def\<close>)
  moreover have "wp m (\<lambda>_ u. w_restores u = w_restores v) v" by (rule restoresF.wp_same [OF assms(2)])
  moreover have "wp m (\<lambda>_ u. outsideResource r rs u = outsideResource r rs v) v" by (rule outR.wp_same [OF assms(3)])
  ultimately have "wp m (\<lambda>_ u. rsAt (syncKey rs) (steady rs) u \<and> w_restores u = w_restores v \<and> outsideResource r rs u = outsideResource r rs v) v"
    by (intro wp_conj)
  then show ?thesis by (rule wp_mono) (use assms(4) in \<open>simp add: rsLate_def\<close>)
qed

section \<open>Writing the status\<close>

text \<open>The update with its retries keeps what the mutation keeps, and what does not depend on the stored sync.\<close>

lemma wp_rsUpdate:
  assumes mut: "\<And>s s'. P s \<Longrightarrow> mutate s = Some s' \<Longrightarrow> P s'" and key: "syncKey x = k"
    and F1: "\<And>u fs. F (u\<lparr>w_faults := fs\<rparr>) = F u" and F2: "\<And>y u. syncKey y = k \<Longrightarrow> F (replaceObj rsKind y u) = F u"
    and at: "rsAt k P v" "F v = c"
  shows "wp (updateResourceSyncStatusWithRetry r x mutate)
    (\<lambda>y u. (rsAt k P u \<and> F u = c) \<and> (\<forall>z. y = Inr z \<longrightarrow> P (so_status z) \<and> so_meta z = so_meta x \<and> so_spec z = so_spec x)) v"
proof -
  let ?I = "\<lambda>u. rsAt k P u \<and> F u = c"
  have writes: "wp (apiStatusUpdate rsKind (l\<lparr>so_status := s\<rparr>)) (\<lambda>y u. ?I u \<and> (\<forall>z. y = Inr z \<longrightarrow> P (so_status z))) u"
    if "?I u" and "P s" and "syncKey l = k" for l s u
  proof (rule wp_apiStatusUpdate, goal_cases)
    case (1 e fs)
    with that(1) F1 show ?case by simp
  next
    case (2 t fs)
    have "syncKey t = k" using rsK.lookup_key [OF 2(1)] that(3) by (simp add: syncKey_def)
    with that(1,2) F1 F2 show ?case by (auto simp: Let_def intro!: rsAt_replace)
  qed
  have attempt: "wp (chk (apiGet rsKind k) (\<lambda>l. case mutate (so_status l) of None \<Rightarrow> ok (so_status l)
        | Some s \<Rightarrow> chk (apiStatusUpdate rsKind (l\<lparr>so_status := s\<rparr>)) (\<lambda>y. ok (so_status y))))
      (\<lambda>y u. ?I u \<and> (\<forall>s. y = Inr s \<longrightarrow> P s)) u" if "?I u" for u
    unfolding wp_chk
  proof (rule wp_apiGet, goal_cases)
    case (1 e fs)
    with that F1 show ?case by simp
  next
    case (2 l fs)
    have l: "P (so_status l)" "syncKey l = k" using that 2 rsK.lookup_key [OF 2] by (auto simp: rsAt_def lookup_def)
    have I: "?I (u\<lparr>w_faults := fs\<rparr>)" using that F1 by simp
    show ?case
    proof (cases "mutate (so_status l)")
      case None
      with l I show ?thesis by simp
    next
      case (Some s)
      from wp_mono [OF writes [OF I mut [OF l(1) Some] l(2)]] Some show ?thesis
        by (auto elim!: wp_mono split: sum.splits)
    qed
  qed
  show ?thesis
    unfolding updateResourceSyncStatusWithRetry_def wp_chk key
    by (rule wp_mono [OF wp_retry [OF attempt]]) (use at in \<open>auto split: sum.splits\<close>)
qed

end
