(* ===== verification/ResourceSyncRuns.thy ===== *)
theory ResourceSyncRuns
  imports ResourceSyncFsm
begin

text \<open>
  The stages of a resource sync, each with the invariant it needs and the one it leaves: what is read is that of the start
  of the reconcile until something but the sync is written, and the last write of the status is an edge of the machine.
\<close>

section \<open>Writes of the status\<close>

text \<open>A write that ends the reconcile: \<open>Q\<close> is what the mutation establishes, and keeps when it is tried again.\<close>

lemma wp_rsSave:
  assumes "rsLate r w rs v" and "syncKey x = syncKey rs"
    and "\<And>s s'. steady rs s \<or> Q s \<Longrightarrow> mutate s = Some s' \<Longrightarrow> Q s'" and "\<And>s. Q s \<Longrightarrow> resourceMoves r w rs s"
  shows "wp (updateResourceSyncStatusWithRetry r x mutate) (\<lambda>_. rsDone r w rs) v"
proof (rule wp_mono [OF wp_rsUpdate [where P = "\<lambda>s. steady rs s \<or> Q s" and F = "\<lambda>u. (outsideResource r rs u, w_restores u)"
      and k = "syncKey rs" and c = "(outsideResource r rs v, w_restores v)"]], goal_cases)
  case (3 u fs)
  show ?case by (simp add: outsideResource_def)
next
  case (4 y u)
  then show ?case using ownRs.hidden_replace [of y rs r u] by (simp add: replaceObj_def)
next
  case (5)
  then show ?case using assms(1) by (auto simp: rsLate_def rsAt_def)
next
  case (7 y u)
  then show ?case using assms(1,4) by (auto simp: rsLate_def rsDone_def rsAt_def steady_moves)
qed (use assms(2,3) in auto)

text \<open>A write within the run.\<close>

lemma wp_rsMark:
  assumes "rsRead r w rs v" and "syncKey x = syncKey rs" and "\<And>s s'. steady rs s \<Longrightarrow> mutate s = Some s' \<Longrightarrow> steady rs s'" and "so_spec x = so_spec rs"
  shows "wp (updateResourceSyncStatusWithRetry r x mutate) (\<lambda>y u. rsRead r w rs u \<and> (\<forall>z. y = Inr z \<longrightarrow> sameRun rs z)) v"
proof (rule wp_mono [OF wp_rsUpdate [where P = "steady rs" and F = "\<lambda>u. (outsideResource r rs u, resourceView u)"
      and k = "syncKey rs" and c = "(outsideResource r rs v, resourceView v)"]], goal_cases)
  case (3 u fs)
  show ?case by (simp add: outsideResource_def resourceView_def)
next
  case (4 y u)
  then show ?case using ownRs.hidden_replace [of y rs r u] by (simp add: replaceObj_def resourceView_def)
next
  case (7 y u)
  then have u: "rsRead r w rs u" using assms(1) by (simp add: rsRead_def)
  have "sameRun rs z" if "y = Inr z" for z
    using 7 that assms(2,4) by (simp add: sameRun_def syncKey_def)
  with u show ?case by blast
next
  case (1 s s')
  then show ?case by (rule assms(3))
next
  case 5
  show ?case using assms(1) by (simp add: rsRead_def)
qed (rule assms(2) refl)+

lemma aborted_moves:
  assumes "rsShouldSync r rs" and "phaseOf (so_status rs) \<noteq> Fresh" and "ss_state s = SyncFailed" and "ss_lastSyncTime s = Some (sy_now r)"
  shows "resourceMoves r w rs s"
proof -
  have "phaseOf s = Broken" using assms(3) by (simp add: phaseOf_def)
  then show ?thesis using resourceEdge.aborted [OF assms(1,2)] assms(4) by (simp add: resourceMoves_def endsRun_def)
qed

section \<open>The end of a run\<close>

context world_frame
begin

lemma frame_rsStatistics: "(\<And>xs w. proj (w\<lparr>w_stats := xs\<rparr>) = proj w) \<Longrightarrow> state_io_rel same (rsSyncStatistics rs)"
  unfolding rsSyncStatistics_def Let_def
  by (intro rel_intros rel_createOrUpdate frame_update frame_statusUpdate frame_create) simp_all

lemma frame_rsEdges: "state_io_rel same (rsSyncDependencyLabels q rs)"
  unfolding rsSyncDependencyLabels_def Let_def by (intro rel_intros)

lemma frame_historySource: "state_io_rel same (lookupRestoreHistorySource rs b)"
  unfolding lookupRestoreHistorySource_def by (intro rel_intros)

end

lemma wp_endResourceRun:
  assumes "rsLate r w rs v" and "syncKey x = syncKey rs" and "\<And>s. resourceMoves r w rs (f s)"
  shows "wp (endResourceRun r x f b) (\<lambda>_. rsDone r w rs) v"
proof -
  have saved: "wp (updateResourceSyncStatusWithRetry r x (\<lambda>s. Some (f s))) (\<lambda>_. rsDone r w rs) v"
    by (rule wp_rsSave [OF assms(1,2), where Q = "resourceMoves r w rs"]) (use assms(3) in auto)
  have tail: "state_io_rel quietF.same (do { _ \<leftarrow> rsSyncStatistics y; (if b then emit n t else ret ()); emit n t'; ok done_result })" for y n t t'
    by (intro quietF.rel_intros quietF.frame_rsStatistics quiet_stats)
  show ?thesis
    unfolding endResourceRun_def
    by (rule wp_chkI2 [OF saved], assumption, rule wp_quiet [OF tail quiet_rs(3)])
qed

lemma wp_failResource:
  assumes "rsShouldSync r rs" and "phaseOf (so_status rs) \<noteq> Fresh" and "rsLate r w rs v" and "syncKey x = syncKey rs"
  shows "wp (failResourceSync r reason msg x) (\<lambda>_. rsDone r w rs) v"
  unfolding failResourceSync_def
  by (rule wp_endResourceRun [OF assms(3,4)], rule aborted_moves [OF assms(1,2)]) (simp_all add: rsFailedStatus_def)

lemma wp_orFailResource:
  assumes "rsShouldSync r rs" and "phaseOf (so_status rs) \<noteq> Fresh" and "syncKey x = syncKey rs" and "wp m (knows (rsRead r w rs) P) v"
    and "\<And>z u. rsRead r w rs u \<Longrightarrow> P z \<Longrightarrow> wp (f z) (\<lambda>_. rsDone r w rs) u"
  shows "wp (orFailResource r reason msg x m f) (\<lambda>_. rsDone r w rs) v"
  unfolding orFailResource_def
proof (rule wp_bindI [OF assms(4)])
  fix y u assume y: "knows (rsRead r w rs) P y u"
  then have "wp (failResourceSync r reason (msg e) x) (\<lambda>_. rsDone r w rs) u" for e
    using wp_failResource [OF assms(1,2) rs_read_late assms(3)] by blast
  with y assms(5) show "wp (case y of Inl e \<Rightarrow> failResourceSync r reason (msg (err_text e)) x | Inr z \<Rightarrow> f z) (\<lambda>_. rsDone r w rs) u"
    by (cases y) simp_all
qed

section \<open>The start of a run\<close>

context key_frame
begin

lemma hidden_createOrUpdate:
  assumes "p (keyOf K fresh)" and "\<And>s x. mutate s = Inr x \<Longrightarrow> keyOf K x = keyOf K s"
  shows "state_io_rel same (createOrUpdate K fresh mutate)"
proof -
  have "wp (createOrUpdate K fresh mutate) (\<lambda>_ u. proj u = proj v) v" for v
    unfolding createOrUpdate_def wp_bind
  proof (rule wp_apiGet, goal_cases)
    case (1 e fs)
    have "wp (apiCreate K x) (\<lambda>_ u. proj u = proj v) (v\<lparr>w_faults := fs\<rparr>)" if "mutate fresh = Inr x" for x
      by (rule wp_mono [OF wp_same [OF hidden_create]]) (use assms that in \<open>simp_all add: proj_faults\<close>)
    then show ?case by (cases "mutate fresh") (simp_all add: proj_faults)
  next
    case (2 s fs)
    have "p (keyOf K s)" using lookup_key [OF 2] assms(1) by simp
    then have "wp (apiUpdate K x) (\<lambda>_ u. proj u = proj v) (v\<lparr>w_faults := fs\<rparr>)" if "mutate s = Inr x" for x
      by (intro wp_mono [OF wp_same [OF hidden_update]]) (use assms(2) that in \<open>simp_all add: proj_faults\<close>)
    then show ?case by (cases "mutate s") (simp_all add: proj_faults)
  qed
  then have "same v u" if "run_state (createOrUpdate K fresh mutate) v = (y, u)" for v y u
    using wp_run [OF \<open>wp (createOrUpdate K fresh mutate) (\<lambda>_ u. proj u = proj v) v\<close> that] by (simp add: same_def)
  then show ?thesis by (rule state_io_relI)
qed

end

lemma mergeReplicas_key:
  assumes "keepsKey (sy_setController r)" and "mergeReplicas r rs m cm = Inr cm'"
  shows "keyOf cmKind cm' = keyOf cmKind cm"
  using assms(2) keepsKeyD [OF assms(1)]
  by (auto simp: mergeReplicas_def andThen_Inr_iff keyOf_def split: if_splits)

context world_frame
begin

lemma frame_scan: "state_io_rel same (scanReplicas c P nss)"
  unfolding scanReplicas_def listMatching_def by (intro rel_intros)

lemma frame_recordReplicas:
  assumes "\<And>m. state_io_rel same (createOrUpdate cmKind \<lparr>cm_meta = newMeta (syncNs rs) (''replicas-'' @ syncName rs), cm_data = []\<rparr> (mergeReplicas r rs m))"
  shows "state_io_rel same (recordReplicasToConfigMap r i cfg rs)"
  unfolding recordReplicasToConfigMap_def lift_def Let_def by (intro rel_intros frame_kubeClientSet frame_scan assms)

end

lemma wp_recordReplicas:
  assumes "keepsKey (sy_setController r)" and "rsLate r w rs v" and "sameRun rs x"
  shows "wp (recordReplicasToConfigMap r i cfg x) (\<lambda>_. rsLate r w rs) v"
proof (rule wp_rsLate [OF _ _ _ assms(2)])
  have fresh: "keyOf cmKind \<lparr>cm_meta = newMeta (syncNs x) (''replicas-'' @ syncName x), cm_data = []\<rparr> = replicasKey rs"
    using sameRun_names(2,3) [OF assms(3)] by (simp add: keyOf_def metaKey_def newMeta_def replicasKey_def cmKind_def)
  show "state_io_rel (outR.same r rs) (recordReplicasToConfigMap r i cfg x)"
    by (rule outR.frame_recordReplicas, rule ownRecord.hidden_createOrUpdate) (rule fresh, rule mergeReplicas_key [OF assms(1)])
qed (rule rsF.frame_recordReplicas restoresF.frame_recordReplicas, rule rsF.rel_createOrUpdate restoresF.rel_createOrUpdate,
    auto intro!: rsF.frame_update rsF.frame_create restoresF.frame_update restoresF.frame_create)+

lemma wp_startResourceRun:
  assumes "keepsKey (sy_setController r)" and "rsShouldSync r rs" and "phaseOf (so_status rs) \<noteq> Fresh" and "ss_state (so_status rs) \<noteq> SyncInProgress"
    and "rsLate r w rs v" and "sameRun rs x"
  shows "wp (startResourceRun r x i cfg) (\<lambda>_. rsDone r w rs) v"
proof -
  have p: "phaseOf (so_status rs) = Idle \<or> phaseOf (so_status rs) = Broken"
    using assms(3,4) by (auto simp: phaseOf_def split: SyncState.splits)
  have "wp (updateResourceSyncStatusWithRetry r x rsStartedStatus) (\<lambda>_. rsDone r w rs) u" if "rsLate r w rs u" for u
  proof (rule wp_rsSave [OF that sameRun_names(1) [OF assms(6)],
        where Q = "\<lambda>s. phaseOf s = Searching \<and> ss_state s = SyncInProgress \<and> ss_lastSyncTime s = ss_lastSyncTime (so_status rs)"])
    fix s s' assume "steady rs s \<or> phaseOf s = Searching \<and> ss_state s = SyncInProgress \<and> ss_lastSyncTime s = ss_lastSyncTime (so_status rs)"
      and "rsStartedStatus s = Some s'"
    then show "phaseOf s' = Searching \<and> ss_state s' = SyncInProgress \<and> ss_lastSyncTime s' = ss_lastSyncTime (so_status rs)"
      using assms(4) by (auto simp: rsStartedStatus_def steady_def phaseOf_def split: if_splits)
  next
    fix s assume "phaseOf s = Searching \<and> ss_state s = SyncInProgress \<and> ss_lastSyncTime s = ss_lastSyncTime (so_status rs)"
    then show "resourceMoves r w rs s" using resourceEdge.started [OF assms(2) p] by (simp add: resourceMoves_def endsRun_def)
  qed
  then show ?thesis
    unfolding startResourceRun_def
    by (auto simp del: wp_bind intro!: wp_bindI [OF wp_recordReplicas [OF assms(1,5,6)]] wp_chkI2
        wp_quiet_bind [OF quietF.frame_rsStatistics [OF quiet_stats] quiet_rs(3)] wp_quiet_bind [OF quietF.rel_emit quiet_rs(3)])
qed

end
