(* ===== verification/ResourceSyncSteps.thy ===== *)
theory ResourceSyncSteps
  imports ResourceSyncRuns
begin

text \<open>
  The backup and the restores of a resource sync, and its reconcile loop: every reconcile leaves the last
  invariant, from which the properties are read off.
\<close>

text \<open>What is known of a reconcile in the middle of a run.\<close>

definition resourceRunning :: "syncReconciler \<Rightarrow> world \<Rightarrow> SyncObject \<Rightarrow> DisasterInstance \<Rightarrow> SyncObject \<Rightarrow> bool" where
  "resourceRunning r w rs i x \<longleftrightarrow> keepsKey (sy_setController r) \<and> rsShouldSync r rs \<and> phaseOf (so_status rs) \<noteq> Fresh \<and>
     instanceOf w rs = Some i \<and> sameRun rs x"

lemma resourceRunningD:
  assumes "resourceRunning r w rs i x"
  shows "keepsKey (sy_setController r)" "rsShouldSync r rs" "phaseOf (so_status rs) \<noteq> Fresh" "instanceOf w rs = Some i" "sameRun rs x" "syncKey x = syncKey rs"
  using assms by (simp_all add: resourceRunning_def sameRun_def)

lemma progress_tail:
  assumes "rsLate r w rs v" and "syncKey x = syncKey rs" and "\<And>u. rsLate r w rs u \<Longrightarrow> wp m (\<lambda>_. rsDone r w rs) u"
  shows "wp (do { emit n t; m }) (\<lambda>_. rsDone r w rs) v"
  by (rule wp_quiet_bind [OF quietF.rel_emit quiet_rs(2) assms(1)]) (rule assms(3))

section \<open>The backup\<close>

lemma newBackup_key:
  assumes "keepsKey (sy_setController r)" and "newResourceBackup r x spec = Inr ab"
  shows "keyOf appBackupKind ab = (syncNs x, rsBackupName x)"
proof -
  let ?m = "(newMeta (syncNs x) (rsBackupName x))\<lparr>m_labels := rsOriginLabels x\<rparr>"
  from assms(2) obtain m where "sy_setController r (so_meta x) ?m = Inr m" and "ab_meta ab = m"
    by (auto simp: newResourceBackup_def andThen_Inr_iff)
  then have "metaKey (ab_meta ab) = metaKey ?m" using keepsKeyD [OF assms(1)] by metis
  then show ?thesis by (simp add: keyOf_def metaKey_def newMeta_def)
qed

lemma wp_createResourceBackup:
  assumes "resourceRunning r w rs i x" and "rsLate r w rs v"
  shows "wp (createResourceBackup r x spec) (\<lambda>_. rsDone r w rs) v"
proof -
  note R = resourceRunningD [OF assms(1)]
  have created: "wp (apiCreate appBackupKind ab) (\<lambda>_. rsLate r w rs) v" if "newResourceBackup r x spec = Inr ab" for ab
    by (rule wp_rsLate [OF rsF.frame_create restoresF.frame_create ownResourceBackup.hidden_create assms(2)])
      (use newBackup_key [OF R(1) that] sameRun_names [OF R(5)] in simp_all)
  have "wp (chk (apiCreate appBackupKind ab) (\<lambda>_. do { emit (syncName x) ''ExecutionProgress''; ok requeue_result })) (\<lambda>_. rsDone r w rs) v"
    if "newResourceBackup r x spec = Inr ab" for ab
    by (rule wp_chkI2 [OF created [OF that]])
      (auto simp del: wp_bind intro: rs_late_done intro!: wp_quiet_bind [OF quietF.rel_emit quiet_rs(2)])
  then show ?thesis
    unfolding createResourceBackup_def wp_chk [of "lift (newResourceBackup r x spec)"]
    by (intro wp_lift) (use rs_late_done [OF assms(2)] in simp_all)
qed

lemma wp_writeBackup:
  assumes "resourceRunning r w rs i x" and "rsLate r w rs v" and "keyOf appBackupKind ab = (syncNs rs, rsBackupName rs)"
    and "\<And>u. rsLate r w rs u \<Longrightarrow> wp m (\<lambda>_. rsDone r w rs) u"
  shows "wp (chk (apiUpdate appBackupKind ab) (\<lambda>_. m)) (\<lambda>_. rsDone r w rs) v"
proof (rule wp_chkI2)
  show "wp (apiUpdate appBackupKind ab) (\<lambda>_. rsLate r w rs) v"
    by (rule wp_rsLate [OF rsF.frame_update restoresF.frame_update ownResourceBackup.hidden_update assms(2)]) (use assms(3) in simp_all)
qed (auto intro: rs_late_done assms(4))

lemma wp_recordResourceBackup:
  assumes "resourceRunning r w rs i x" and "rsLate r w rs v" and "phaseOf (so_status rs) = Searching" and "resourceBackupOfRun r w rs b"
  shows "wp (recordResourceBackup r x b) (\<lambda>_. rsDone r w rs) v"
proof -
  note R = resourceRunningD [OF assms(1)]
  let ?Q = "\<lambda>s :: SyncStatus. ss_state s = SyncInProgress \<and> ss_lastBackupName s = b \<and> ss_lastSyncTime s = ss_lastSyncTime (so_status rs)"
  have running: "ss_state (so_status rs) = SyncInProgress" "ss_lastBackupName (so_status rs) = []"
    using assms(3) by (auto simp: phaseOf_def split: SyncState.splits if_splits)
  have "wp (updateResourceSyncStatusWithRetry r x (\<lambda>s. if ss_lastBackupName s = b then None else Some (s\<lparr>ss_lastBackupName := b\<rparr>))) (\<lambda>_. rsDone r w rs) v"
  proof (rule wp_rsSave [OF assms(2) R(6), where Q = ?Q])
    fix s s' assume "steady rs s \<or> ?Q s" and "(if ss_lastBackupName s = b then None else Some (s\<lparr>ss_lastBackupName := b\<rparr>)) = Some s'"
    then show "?Q s'" using running by (auto simp: steady_def split: if_splits)
  next
    fix s assume s: "?Q s"
    show "resourceMoves r w rs s"
    proof (cases "b = []")
      case True
      with s running show ?thesis by (simp add: resourceMoves_def phaseOf_def)
    next
      case False
      from resourceEdge.found [OF assms(4) this] s False assms(3) show ?thesis by (simp add: resourceMoves_def phaseOf_def endsRun_def)
    qed
  qed
  then show ?thesis unfolding recordResourceBackup_def by (rule wp_chkI2) simp_all
qed

lemma wp_resourceBackupFailed:
  assumes "resourceRunning r w rs i x" and "rsLate r w rs v"
  shows "wp (resourceBackupFailed r x ab) (\<lambda>_. rsDone r w rs) v"
  unfolding resourceBackupFailed_def Let_def
  by (rule wp_failResource [OF resourceRunningD(2,3) [OF assms(1)] assms(2)])
    (use resourceRunningD(6) [OF assms(1)] in \<open>simp_all add: mapSyncStatus_def syncKey_def\<close>)

lemma find_someD: "find P xs = Some x \<Longrightarrow> x \<in> set xs \<and> P x"
  by (auto simp: find_Some_iff)

lemma wp_findResourceBackup:
  assumes "resourceRunning r w rs i x" and "rsRead r w rs v" and "phaseOf (so_status rs) = Searching"
    and "lookup appBackupKind w (syncNs rs, rsBackupName rs) = Some ab" and "keyOf appBackupKind ab = (syncNs rs, rsBackupName rs)"
  shows "wp (findResourceBackup r x ab desired) (\<lambda>_. rsDone r w rs) v"
proof -
  note R = resourceRunningD [OF assms(1)] note N = sameRun_names [OF R(5)] note late = rs_read_late [OF assms(2)]
  have rec: "wp (recordResourceBackup r x (br_name rec)) (\<lambda>_. rsDone r w rs) v" if "rec \<in> set (abt_history (ab_status ab))"
    "case CurrentBackupActionVeleroBackupName (sy_base r) (rsBackupName rs) ab (ss_lastSyncTime (so_status rs)) of
        Some n \<Rightarrow> n = br_name rec | None \<Rightarrow> backupStartedForResourceSyncRun (br_start rec) (ss_lastSyncTime (so_status rs))" for rec
    by (rule wp_recordResourceBackup [OF assms(1) late assms(3)]) (use that assms(4) in \<open>auto simp: resourceBackupOfRun_def\<close>)
  have failed: "wp (resourceBackupFailed r x ab) (\<lambda>_. rsDone r w rs) v" by (rule wp_resourceBackupFailed [OF assms(1) late])
  have ask: "wp (requestResourceBackup r x ab desired) (\<lambda>_. rsDone r w rs) v"
    unfolding requestResourceBackup_def
    by (rule wp_writeBackup [OF assms(1) late]) (use assms(5) in \<open>auto simp del: wp_bind simp: keyOf_def appBackupKind_def
        intro!: wp_quiet_bind [OF quietF.rel_emit quiet_rs(2)] intro: rs_late_done\<close>)
  have wait: "wp (ok (after_result t)) (\<lambda>_. rsDone r w rs) v" for t using rs_late_done [OF late] by simp
  show ?thesis
    unfolding findResourceBackup_def Let_def N FindBackupRecordByName_def
  proof (cases "CurrentBackupActionVeleroBackupName (sy_base r) (rsBackupName rs) ab (ss_lastSyncTime (so_status rs))", goal_cases)
    case 1
    then show ?case using rec failed ask by (auto split: option.splits dest!: find_someD)
  next
    case (2 n)
    then show ?case using rec failed wait by (auto split: option.splits dest!: find_someD)
  qed
qed

section \<open>The restores\<close>

lemma wp_finalize:
  assumes "resourceRunning r w rs i x" and "rsLate r w rs v" and "failed \<or> resourcesRestored r w rs b" and "phaseOf (so_status rs) = Copying b"
  shows "wp (finalizeRestoreResult r x b n failed st items) (\<lambda>_. rsDone r w rs) v"
  unfolding finalizeRestoreResult_def
proof (rule wp_quiet_bind [OF quietF.frame_historySource quiet_rs(2) assms(2)])
  note R = resourceRunningD [OF assms(1)]
  fix f u assume "rsLate r w rs u"
  then show "wp (endResourceRun r x (rsFinalStatus r failed (msgRsRestoreFailed n (phaseString st)) (rsHistoryRecord r b n f items st)) True)
      (\<lambda>_. rsDone r w rs) u"
  proof (rule wp_endResourceRun [OF _ R(6)])
    fix s
    show "resourceMoves r w rs (rsFinalStatus r failed (msgRsRestoreFailed n (phaseString st)) (rsHistoryRecord r b n f items st) s)"
    proof (cases failed)
      case True
      then show ?thesis by (intro aborted_moves [OF R(2,3)]) (simp_all add: rsFinalStatus_def)
    next
      case False
      with assms(3) have "resourceEdge r w rs (Copying b) Idle" by (blast intro: resourceEdge.restored)
      with False assms(4) show ?thesis by (simp add: rsFinalStatus_def resourceMoves_def phaseOf_def endsRun_def)
    qed
  qed
qed

lemma wp_failRestoreBuild:
  assumes "resourceRunning r w rs i x" and "rsLate r w rs v"
  shows "wp (failRestoreBuild r x b n e items) (\<lambda>_. rsDone r w rs) v"
  unfolding failRestoreBuild_def Let_def
  by (rule wp_quiet_bind [OF quietF.rel_emit quiet_rs(2) assms(2)], rule wp_quiet_bind [OF quietF.frame_historySource quiet_rs(2)], assumption,
      rule wp_endResourceRun, assumption, rule resourceRunningD(6) [OF assms(1)],
      rule aborted_moves [OF resourceRunningD(2,3) [OF assms(1)]]) (simp_all add: rsBuildFailedStatus_def)

context world_frame
begin

lemma frame_phaseRules: "state_io_rel same (phaseImageRules q cfg i p)"
  unfolding phaseImageRules_def buildImageRewriteRules_def lift_def Let_def
  by (intro rel_intros frame_kubeClientSet frame_collectWorkloads frame_dynamicRules)

lemma frame_phaseSpec: "state_io_rel same (buildPhaseRestoreSpec q x cfg i b p)"
  unfolding buildPhaseRestoreSpec_def buildAppRestoreSpec_def buildResourceSyncRestoreSpecForPhase_def Let_def
  by (intro rel_intros frame_kubeClientSet frame_applyPolicy frame_phaseRules)

end

lemma wp_chk_any: "(\<And>e u. Q (Inl e) u) \<Longrightarrow> (\<And>z u. wp (f z) Q u) \<Longrightarrow> wp (chk m f) Q v" "(\<And>e u. Q (Inl e) u) \<Longrightarrow> (\<And>z u. wp (f z) Q u) \<Longrightarrow> wp (chkWrap t m f) Q v"
  unfolding wp_chk wp_chkWrap by (rule wp_any, simp split: sum.split)+

lemma phaseSpec_leaves_out:
  assumes "p \<noteq> RestoreCluster"
  shows "wp (buildPhaseRestoreSpec q x cfg i b p) (\<lambda>y _. \<forall>z. y = Inr z \<longrightarrow>
    leavesOut (rt_includedResources (ars_template (fst z))) (rt_excludedResources (ars_template (fst z)))) v"
proof -
  have "wp (buildResourceSyncRestoreSpecForPhase q x cfg i b phase) (\<lambda>y _. \<forall>z. y = Inr z \<longrightarrow>
    leavesOut (rt_includedResources (ars_template (fst z))) (rt_excludedResources (ars_template (fst z)))) v" if "phase \<noteq> RestoreCluster" for phase
    unfolding buildResourceSyncRestoreSpecForPhase_def Let_def
    by (intro wp_chk_any) (auto split: prod.splits simp del: wp_chk wp_chkWrap simp: phase_leaves_out [OF that] intro!: wp_chk_any)
  then show ?thesis using assms by (simp add: buildPhaseRestoreSpec_def buildAppRestoreSpec_def)
qed

lemma resourceRestore_key:
  assumes "keepsKey (sy_setController r)" and "resourceAppRestore r x n spec s = Inr ar"
  shows "keyOf restoreKind ar = (syncNs x, n)" "ar_spec ar = spec"
proof -
  let ?m = "ApplyPolicySummaryAnnotations s ((newMeta (syncNs x) n)\<lparr>m_labels := rsOriginLabels x\<rparr>)"
  from assms(2) obtain m where "sy_setController r (so_meta x) ?m = Inr m" and ar: "ar_meta ar = m" "ar_spec ar = spec"
    by (auto simp: resourceAppRestore_def andThen_Inr_iff)
  then have "metaKey (ar_meta ar) = metaKey ((newMeta (syncNs x) n)\<lparr>m_labels := rsOriginLabels x\<rparr>)"
    using keepsKeyD [OF assms(1)] summary_key by metis
  then show "keyOf restoreKind ar = (syncNs x, n)" by (simp add: keyOf_def metaKey_def newMeta_def)
  show "ar_spec ar = spec" by (rule ar(2))
qed

text \<open>A new restore is justified by the phases before it.\<close>

lemma justified_rv: "justifiedRestore r w rs (k_setMeta restoreKind ((k_meta restoreKind ar)\<lparr>m_rv := n\<rparr>) ar) = justifiedRestore r w rs ar"
  by (simp add: justifiedRestore_def keyOf_def metaKey_def restoreKind_def)

interpretation growI: world_inv "\<lambda>v. restoresGrow r w rs (w_restores v)" for r w rs
  by unfold_locales simp_all

lemma wp_createPhase:
  assumes "rsLate r w rs v" and "justifiedRestore r w rs ar" and "keyOf restoreKind ar \<in> phaseKeys r rs"
  shows "wp (apiCreate restoreKind ar) (\<lambda>_. rsLate r w rs) v"
proof -
  have "state_io_rel (growI.keeps r w rs) (apiCreate restoreKind ar)"
    by (rule growI.rel_apiCreate, unfold growI.keeps_def) (use assms(2) justified_rv [of r w rs _ ar] in \<open>auto simp: restoresGrow_def\<close>)
  then have "wp (apiCreate restoreKind ar) (\<lambda>_ u. restoresGrow r w rs (w_restores u)) v"
    by (rule growI.wp_keeps) (use assms(1) in \<open>simp add: rsLate_def\<close>)
  moreover have "wp (apiCreate restoreKind ar) (\<lambda>_. rsAt (syncKey rs) (steady rs)) v"
    by (rule wp_rsAt [OF rsF.frame_create]) (use assms(1) in \<open>simp_all add: rsLate_def\<close>)
  moreover have "wp (apiCreate restoreKind ar) (\<lambda>_ u. outsideResource r rs u = outsideResource r rs v) v"
    by (rule outR.wp_same [OF ownPhase.hidden_create]) (rule assms(3))
  ultimately have "wp (apiCreate restoreKind ar) (\<lambda>_ u. restoresGrow r w rs (w_restores u) \<and> rsAt (syncKey rs) (steady rs) u \<and>
      outsideResource r rs u = outsideResource r rs v) v"
    by (intro wp_conj)
  then show ?thesis by (rule wp_mono) (use assms(1) in \<open>simp add: rsLate_def\<close>)
qed

text \<open>The phase fields of the status do not belong to the stage of the run.\<close>

lemma phase_steady: "steady rs s \<Longrightarrow> steady rs (fst (updateResourceSyncRestorePhaseStatus p n st s))"
  by (cases p) (simp_all add: updateResourceSyncRestorePhaseStatus_def steady_def Let_def)

lemma mutation_steady: "steady rs s \<Longrightarrow> phaseMutation p n st s = Some s' \<Longrightarrow> steady rs s'"
  using phase_steady by (auto simp: phaseMutation_def Let_def split: if_splits)

lemma wp_markLate:
  assumes "rsLate r w rs v" and "syncKey x = syncKey rs"
  shows "wp (chk (updateResourceSyncStatusWithRetry r x (phaseMutation p n st)) (\<lambda>_. ok z)) (\<lambda>_. rsDone r w rs) v"
  by (rule wp_chkI2 [OF wp_rsSave [OF assms, where Q = "steady rs"]]) (auto intro: mutation_steady steady_moves)

text \<open>Where the loop over the phases stands: \<open>ps\<close> are left, and what came before them succeeded.\<close>

definition phasesLeft :: "syncReconciler \<Rightarrow> world \<Rightarrow> SyncObject \<Rightarrow> DisasterInstance \<Rightarrow> string \<Rightarrow> resourceSyncRestorePhaseKind list \<Rightarrow> bool" where
  "phasesLeft r w rs i b ps \<longleftrightarrow> phaseOf (so_status rs) = Copying b \<and> resourceBackupCompleted w rs b \<and>
     (\<exists>pre. planResourceSyncRestorePhases i = pre @ ps \<and> (\<forall>q \<in> set pre. phaseSucceeded r w rs b q))"

lemma phasesLeft_name: "phasesLeft r w rs i b ps \<Longrightarrow> ss_lastBackupName (so_status rs) = b"
  by (auto simp: phasesLeft_def phaseOf_def split: SyncState.splits if_splits)

lemma phasesLeft_next: "phasesLeft r w rs i b (p # ps) \<Longrightarrow> phaseSucceeded r w rs b p \<Longrightarrow> phasesLeft r w rs i b ps"
  unfolding phasesLeft_def by (elim conjE exE, intro conjI exI [where x = "_ @ [p]"]) auto

lemma wp_startPhase:
  assumes "resourceRunning r w rs i x" and "rsRead r w rs v" and "phasesLeft r w rs i b (p # ps)" and "n = snd (phaseKey r rs b p)"
  shows "wp (startPhase r x cfg i b n p items) (\<lambda>_. rsDone r w rs) v"
proof -
  note R = resourceRunningD [OF assms(1)] note N = sameRun_names [OF R(5)]
  let ?P = "\<lambda>y. \<forall>z. y = Inr z \<longrightarrow> p = RestoreCluster \<or> leavesOut (rt_includedResources (ars_template (fst z))) (rt_excludedResources (ars_template (fst z)))"
  let ?m = "buildPhaseRestoreSpec (sy_base r) x cfg i b p"
  have "wp ?m (\<lambda>y _. ?P y) v"
    using phaseSpec_leaves_out [of p "sy_base r" x cfg i b v] by (cases "p = RestoreCluster") (auto elim: wp_mono intro: wp_any)
  moreover have "wp ?m (\<lambda>_. rsLate r w rs) v"
    by (rule wp_quiet [OF quietF.frame_phaseSpec quiet_rs(2) rs_read_late [OF assms(2)]])
  ultimately have built: "wp ?m (\<lambda>y u. ?P y \<and> rsLate r w rs u) v" by (rule wp_conj)
  have made: "wp (chk (apiCreate restoreKind ar) (\<lambda>_. do { emit (syncName x) ''ExecutionProgress''; emit (syncName x) ''ExecutionProgress'';
      chk (updateResourceSyncStatusWithRetry r x (phaseMutation p n PhasePending)) (\<lambda>_. ok requeue_result) })) (\<lambda>_. rsDone r w rs) u"
    if "rsLate r w rs u" and "resourceAppRestore r x n spec s = Inr ar"
      and "p = RestoreCluster \<or> leavesOut (rt_includedResources (ars_template spec)) (rt_excludedResources (ars_template spec))" for spec s ar u
  proof -
    have k: "keyOf restoreKind ar = phaseKey r rs b p" "ar_spec ar = spec"
      using resourceRestore_key [OF R(1) that(2)] N(2) assms(4) by (simp_all add: phaseKey_def)
    have "justifiedRestore r w rs ar"
      using assms(3) that(3) R(4) k unfolding justifiedRestore_def phasesLeft_def by blast
    moreover have "keyOf restoreKind ar \<in> phaseKeys r rs" using k(1) phasesLeft_name [OF assms(3)] by (simp add: phaseKeys_def)
    ultimately have "wp (apiCreate restoreKind ar) (\<lambda>_. rsLate r w rs) u" by (rule wp_createPhase [OF that(1)])
    then show ?thesis
    proof (rule wp_chkI2)
      fix z t assume "rsLate r w rs t"
      then show "wp (do { emit (syncName x) ''ExecutionProgress''; emit (syncName x) ''ExecutionProgress'';
          chk (updateResourceSyncStatusWithRetry r x (phaseMutation p n PhasePending)) (\<lambda>_. ok requeue_result) }) (\<lambda>_. rsDone r w rs) t"
        by (intro progress_tail [OF _ R(6)] wp_markLate R(6))
    qed (rule rs_late_done)
  qed
  have tail: "wp (chk (lift (resourceAppRestore r x n spec s)) (\<lambda>ar. chk (apiCreate restoreKind ar) (\<lambda>_. do { emit (syncName x) ''ExecutionProgress'';
      emit (syncName x) ''ExecutionProgress''; chk (updateResourceSyncStatusWithRetry r x (phaseMutation p n PhasePending)) (\<lambda>_. ok requeue_result) })))
      (\<lambda>_. rsDone r w rs) u"
    if "rsLate r w rs u" and "p = RestoreCluster \<or> leavesOut (rt_includedResources (ars_template spec)) (rt_excludedResources (ars_template spec))" for spec s u
    unfolding wp_chk [of "lift (resourceAppRestore r x n spec s)"]
    by (intro wp_lift) (use rs_late_done [OF that(1)] made [OF that(1) _ that(2)] in simp_all)
  show ?thesis
    unfolding startPhase_def
  proof (rule wp_bindI [OF built], goal_cases)
    case (1 y u)
    then show ?case
      using wp_failRestoreBuild [OF assms(1)] tail by (auto simp del: wp_chk wp_bind split: sum.split prod.split)
  qed
qed

lemma wp_followPhase:
  assumes "resourceRunning r w rs i x" and "rsRead r w rs v" and "phasesLeft r w rs i b (p # ps)"
    and "lookup restoreKind w (phaseKey r rs b p) = Some ar"
    and "\<And>y u t. resourceRunning r w rs i y \<Longrightarrow> rsRead r w rs u \<Longrightarrow> phasesLeft r w rs i b ps \<Longrightarrow> wp (k y t) (\<lambda>_. rsDone r w rs) u"
  shows "wp (followPhase r x b n p ar items k) (\<lambda>_. rsDone r w rs) v"
proof -
  note R = resourceRunningD [OF assms(1)] note N = sameRun_names [OF R(5)]
  define x1 where "x1 = x\<lparr>so_status := fst (updateResourceSyncRestorePhaseStatus p n (ar_phase ar) (so_status x))\<rparr>"
  have same: "sameRun rs x1" using R(5) phase_steady by (simp add: x1_def sameRun_def syncKey_def)
  then have run: "resourceRunning r w rs i x1" using assms(1) by (simp add: resourceRunning_def)
  have b: "phaseOf (so_status rs) = Copying b" using assms(3) by (simp add: phasesLeft_def)
  have save: "wp (if c then chk (updateResourceSyncStatusWithRetry r x1 (phaseMutation p n (ar_phase ar))) f else f x1) (\<lambda>_. rsDone r w rs) v"
    if f: "\<And>y u. sameRun rs y \<Longrightarrow> rsRead r w rs u \<Longrightarrow> wp (f y) (\<lambda>_. rsDone r w rs) u" for c f
  proof -
    have "wp (chk (updateResourceSyncStatusWithRetry r x1 (phaseMutation p n (ar_phase ar))) f) (\<lambda>_. rsDone r w rs) v"
      by (rule wp_chkI2 [OF wp_rsMark [OF assms(2) sameRun_names(1) [OF same] mutation_steady sameRun_names(4) [OF same]]])
        (auto intro: rs_read_done f)
    with f [OF same assms(2)] show ?thesis by simp
  qed
  have stop: "wp (ok z) (\<lambda>_. rsDone r w rs) u" if "rsRead r w rs u" for z :: Result and u using rs_read_done [OF that] by simp
  have next': "wp (k y t) (\<lambda>_. rsDone r w rs) u" if "ar_phase ar = PhaseSucceeded" and "sameRun rs y" and "rsRead r w rs u" for y t u
  proof (rule assms(5) [OF _ that(3)])
    show "resourceRunning r w rs i y" using assms(1) that(2) by (simp add: resourceRunning_def)
    show "phasesLeft r w rs i b ps"
      by (rule phasesLeft_next [OF assms(3)]) (use assms(4) that(1) in \<open>simp add: phaseSucceeded_def\<close>)
  qed
  consider (wait) "ar_phase ar \<noteq> PhaseSucceeded" "\<not> IsFailedAppRestorePhase (ar_phase ar)" | (failed) "IsFailedAppRestorePhase (ar_phase ar)"
    | (good) "ar_phase ar = PhaseSucceeded" "\<not> IsFailedAppRestorePhase (ar_phase ar)" by blast
  then show ?thesis
  proof cases
    case wait
    then show ?thesis
      unfolding followPhase_def Let_def x1_def [symmetric] using save [of "\<lambda>_. ok (after_result (sy_restoreObserveRequeue r))", OF stop] by (simp del: wp_if wp_chk)
  next
    case failed
    then have "ar_phase ar \<noteq> PhaseSucceeded" by (auto simp: IsFailedAppRestorePhase_def)
    with failed show ?thesis
      unfolding followPhase_def Let_def x1_def [symmetric] using wp_finalize [OF run rs_read_late [OF assms(2)] _ b, of True] by simp
  next
    case good
    then show ?thesis
      unfolding followPhase_def Let_def x1_def [symmetric]
      using save [of "\<lambda>y. k y (items + lookupResourceSyncRestoreItems ar)", OF next' [OF good(1)]] by (simp del: wp_if wp_chk)
  qed
qed

lemma wp_restorePhases:
  assumes "resourceRunning r w rs i x" and "rsRead r w rs v" and "phasesLeft r w rs i b ps"
  shows "wp (restorePhases r cfg i b lastName ps x items) (\<lambda>_. rsDone r w rs) v"
  using assms
proof (induction ps arbitrary: x v items)
  case Nil
  then have "resourcesRestored r w rs b" and "phaseOf (so_status rs) = Copying b"
    using resourceRunningD(4) by (auto simp: phasesLeft_def resourcesRestored_def)
  with Nil show ?case by (simp add: wp_finalize rs_read_late)
next
  case (Cons p ps)
  note N = sameRun_names [OF resourceRunningD(5) [OF Cons.prems(1)]]
  have key: "(syncNs x, resourceSyncRestoreName (sy_base r) (syncName x) b p) = phaseKey r rs b p" by (simp add: phaseKey_def N)
  have quiet: "rsRead r w rs (v\<lparr>w_faults := fs\<rparr>)" for fs
    using Cons.prems(2) outR.proj_faults viewR.proj_faults by (simp add: rsRead_def)
  show ?case
    unfolding restorePhases.simps Let_def wp_bind key
  proof (rule wp_apiGet, goal_cases)
    case (1 e fs)
    show ?case
      using wp_startPhase [OF Cons.prems(1) quiet Cons.prems(3)] rs_read_done [OF quiet] N by (simp add: phaseKey_def)
  next
    case (2 ar fs)
    have "lookup restoreKind w (phaseKey r rs b p) = Some ar"
      using 2 view_restores [of v w] Cons.prems(2) by (simp add: rsRead_def lookup_def)
    then show ?case using wp_followPhase [OF Cons.prems(1) quiet Cons.prems(3) _ Cons.IH] by simp
  qed
qed

section \<open>Following the backup\<close>

lemma read_lookup:
  assumes "rsRead r w rs v"
  shows "lookup appBackupKind (v\<lparr>w_faults := fs\<rparr>) k = lookup appBackupKind w k" "lookup instKind (v\<lparr>w_faults := fs\<rparr>) k = lookup instKind w k"
proof -
  have e: "resourceView v = resourceView w" using assms by (simp add: rsRead_def)
  have "w_appBackups v = w_appBackups w" using arg_cong [OF e, of w_appBackups] by (simp add: resourceView_def)
  then show "lookup appBackupKind (v\<lparr>w_faults := fs\<rparr>) k = lookup appBackupKind w k" by (simp add: lookup_def)
  have "w_insts v = w_insts w" using arg_cong [OF e, of w_insts] by (simp add: resourceView_def)
  then show "lookup instKind (v\<lparr>w_faults := fs\<rparr>) k = lookup instKind w k" by (simp add: lookup_def)
qed

lemma read_faults: "rsRead r w rs v \<Longrightarrow> rsRead r w rs (v\<lparr>w_faults := fs\<rparr>)"
  using outR.proj_faults viewR.proj_faults by (simp add: rsRead_def)

lemma wp_readBackup:
  assumes "rsRead r w rs v"
  shows "wp (apiGet appBackupKind k) (knows (rsRead r w rs) (\<lambda>ab. lookup appBackupKind w k = Some ab)) v"
  by (rule wp_apiGet) (use read_faults [OF assms] read_lookup(1) [OF assms] in simp_all)

lemma wp_followResourceBackup:
  assumes "resourceRunning r w rs i x" and "rsRead r w rs v" and "phaseOf (so_status rs) = Copying b"
  shows "wp (followResourceBackup r x cfg i) (\<lambda>_. rsDone r w rs) v"
proof -
  note R = resourceRunningD [OF assms(1)] note N = sameRun_names [OF R(5)]
  have name: "ss_lastBackupName (so_status rs) = b" using assms(3) by (auto simp: phaseOf_def split: SyncState.splits if_splits)
  have restore: "wp (do { emit n t; handleResourceRestore r x cfg i b }) (\<lambda>_. rsDone r w rs) u"
    if "rsRead r w rs u" and "resourceBackupCompleted w rs b" for u n t
    unfolding handleResourceRestore_def Let_def
    by (rule wp_quiet_bind [OF quietF.rel_emit quiet_rs(1) that(1)], rule wp_restorePhases [OF assms(1)], assumption)
      (use that(2) assms(3) in \<open>simp add: phasesLeft_def\<close>)
  have failed: "wp (resourceVeleroFailed r x ab rec) (\<lambda>_. rsDone r w rs) u" if "rsRead r w rs u" for ab rec u
    unfolding resourceVeleroFailed_def Let_def
    by (rule wp_chkI2 [OF wp_rsSave [OF rs_read_late [OF that] R(6), where Q = "resourceMoves r w rs"]])
      (auto simp del: wp_bind intro!: wp_quiet_bind [OF quietF.rel_emit quiet_rs(3)] aborted_moves [OF R(2,3)] simp: rsVeleroFailedStatus_def)
  have stop: "wp (ok z) (\<lambda>_. rsDone r w rs) u" if "rsRead r w rs u" for z :: Result and u using rs_read_done [OF that] by simp
  show ?thesis
    unfolding followResourceBackup_def Let_def N name
  proof (rule wp_chkI2 [OF wp_readBackup [OF assms(2)]], goal_cases)
    case (1 e u)
    then show ?case by (blast intro: rs_read_done)
  next
    case (2 ab u)
    then have u: "rsRead r w rs u" and ab: "lookup appBackupKind w (syncNs rs, rsBackupName rs) = Some ab" by simp_all
    show ?case
    proof (cases "find (\<lambda>rec. br_name rec = b) (abt_history (ab_status ab))")
      case None
      then show ?thesis using stop [OF u] by simp
    next
      case (Some rec)
      show ?thesis
      proof (cases "br_phase rec = ''Completed''")
        case True
        with ab Some have "resourceBackupCompleted w rs b" by (auto simp: resourceBackupCompleted_def)
        from restore [OF u this] Some True show ?thesis by (simp del: wp_bind)
      next
        case False
        with Some stop [OF u] failed [OF u] show ?thesis by simp
      qed
    qed
  qed
qed

lemma wp_runResourceBackup:
  assumes "resourceRunning r w rs i x" and "rsRead r w rs v" and "ss_state (so_status rs) = SyncInProgress"
  shows "wp (runResourceBackup r x cfg i) (\<lambda>_. rsDone r w rs) v"
proof -
  note R = resourceRunningD [OF assms(1)] note N = sameRun_names [OF R(5)]
  have fail': "wp (failResourceSync r a m x) (\<lambda>_. rsDone r w rs) u" if "rsRead r w rs u" for a m u
    by (rule wp_failResource [OF R(2,3) rs_read_late [OF that] R(6)])
  show ?thesis
    unfolding runResourceBackup_def Let_def N
  proof (rule wp_bindI [OF wp_readBackup [OF assms(2)]], goal_cases)
    case (1 y u)
    then have u: "rsRead r w rs u" by simp
    show ?case
    proof (cases y)
      case (Inl e)
      with wp_createResourceBackup [OF assms(1) rs_read_late [OF u]] fail' [OF u] show ?thesis by simp
    next
      case (Inr ab)
      with 1 have ab: "lookup appBackupKind w (syncNs rs, rsBackupName rs) = Some ab" by simp
      have key: "keyOf appBackupKind ab = (syncNs rs, rsBackupName rs)" by (rule appBackupK.lookup_key [OF ab])
      have update: "wp (chk (apiUpdate appBackupKind (ab\<lparr>ab_spec := sp\<rparr>)) (\<lambda>_. ok requeue_result)) (\<lambda>_. rsDone r w rs) u" for sp
        by (rule wp_writeBackup [OF assms(1) rs_read_late [OF u]]) (use key rs_late_done in \<open>simp_all add: keyOf_def\<close>)
      show ?thesis
      proof (cases "ss_lastBackupName (so_status rs) = []")
        case True
        then have "phaseOf (so_status rs) = Searching" using assms(3) by (simp add: phaseOf_def)
        from wp_findResourceBackup [OF assms(1) u this ab key] update True Inr show ?thesis by (simp del: wp_chk)
      next
        case False
        then have "phaseOf (so_status rs) = Copying (ss_lastBackupName (so_status rs))" using assms(3) by (simp add: phaseOf_def)
        from wp_followResourceBackup [OF assms(1) u this] update False Inr show ?thesis by (simp del: wp_chk)
      qed
    qed
  qed
qed

lemma wp_executeResourceSync:
  assumes "keepsKey (sy_setController r)" and "rsShouldSync r rs" and "phaseOf (so_status rs) \<noteq> Fresh" and "rsRead r w rs v" and "sameRun rs x"
  shows "wp (executeResourceSync r x) (\<lambda>_. rsDone r w rs) v"
proof -
  note N = sameRun_names [OF assms(5)] note E = wp_orFailResource [OF assms(2,3) N(1)]
  have inst: "wp (apiGet instKind (syncNs rs, ss_instance (so_spec rs))) (knows (rsRead r w rs) (\<lambda>i. instanceOf w rs = Some i)) v"
    by (rule wp_apiGet) (use read_faults [OF assms(4)] read_lookup(2) [OF assms(4)] in \<open>simp_all add: instanceOf_def\<close>)
  have quietly: "wp m (knows (rsRead r w rs) (\<lambda>_. True)) u" if "state_io_rel quietF.same m" and "rsRead r w rs u" for m :: "'b result" and u
    by (rule wp_quiet [OF that(1) quiet_rs(1) that(2)]) simp
  have body: "wp (if ss_state (so_status x) \<noteq> SyncInProgress then startResourceRun r x i cfg else runResourceBackup r x cfg i) (\<lambda>_. rsDone r w rs) u"
    if "rsRead r w rs u" and "instanceOf w rs = Some i" for i cfg u
    using wp_startResourceRun [OF assms(1-3) _ rs_read_late [OF that(1)] assms(5)]
      wp_runResourceBackup [of r w rs i x u cfg] that assms by (simp add: resourceRunning_def N)
  show ?thesis
    unfolding executeResourceSync_def N(2,4)
    by (rule E [OF inst], rule E [OF quietly [OF quietF.rel_apiGet]], assumption,
        rule E [OF quietly [OF quietF.frame_storage]], assumption, rule body)
qed

section \<open>The reconcile loop\<close>

lemma read_jobs:
  assumes "rsRead r w rs v" and "AList.delete (jobKey (syncKey rs)) js = AList.delete (jobKey (syncKey rs)) (w_jobs v)"
  shows "rsRead r w rs (v\<lparr>w_jobs := js\<rparr>)"
  using assms by (simp add: rsRead_def rsAt_def lookup_def resourceView_def outsideResource_def)

lemma wp_removeResourceJob: "rsRead r w rs v \<Longrightarrow> syncKey x = syncKey rs \<Longrightarrow> wp (removeJob (syncKey x)) (\<lambda>_. rsRead r w rs) v"
  by (simp add: removeJob_def wp_def read_jobs jobs_of_others)

lemma wp_scheduleResource:
  assumes "rsRead r w rs v" and "sameRun rs x"
  shows "wp (scheduleSync q cb x) (\<lambda>_. rsRead r w rs) v"
proof -
  have key: "syncKey x = syncKey rs" by (rule sameRun_names(1) [OF assms(2)])
  have add: "wp (addJob e (syncKey x) sch cb) (\<lambda>_. rsRead r w rs) v" for e sch
    by (simp add: addJob_def wp_def Let_def key read_jobs [OF assms(1)] jobs_of_others)
  have told: "wp (emit n t) (\<lambda>_. rsRead r w rs) u" if "rsRead r w rs u" for n t u
    by (rule wp_quiet [OF quietF.rel_emit quiet_rs(1) that])
  show ?thesis
    unfolding scheduleSync_def Let_def
    using assms(1) wp_removeResourceJob [OF assms(1) key]
    by (auto simp del: wp_bind wp_emit intro!: wp_bindI [OF add] told split: option.split)
qed

lemma rsAt_gone:
  assumes "rsAt k P v"
  shows "rsAt k P (v\<lparr>w_rs := filter (\<lambda>y. syncKey y \<noteq> q) (w_rs v)\<rparr>)"
proof -
  have "find (\<lambda>y. syncKey y = k) (w_rs v) = Some d"
    if "find (\<lambda>y. syncKey y = k) (filter (\<lambda>y. syncKey y \<noteq> q) (w_rs v)) = Some d" for d
    using that by (rule find_filter_other) simp
  with assms show ?thesis by (simp add: rsAt_def lookup_def)
qed

text \<open>A write of the metadata, or of an object that is being deleted, leaves the status.\<close>

lemma wp_rsMeta:
  assumes "rsLate r w rs v" and "syncKey x = syncKey rs"
  shows "wp (apiUpdate rsKind x) (\<lambda>_. rsLate r w rs) v" "wp (faulty (storeUpdateDeleting rsKind x)) (\<lambda>_. rsLate r w rs) v"
proof -
  have stored: "rsAt (syncKey rs) (steady rs) (replaceObj rsKind (bumpRv rsKind t (k_mergeSpec rsKind t x)) u)"
    if "rsAt (syncKey rs) (steady rs) u" and "lookup rsKind u (syncKey x) = Some t" for t u
  proof -
    have t: "syncKey t = syncKey rs" "steady rs (so_status t)" using that rsK.lookup_key [OF that(2)] assms(2) by (auto simp: rsAt_def)
    show ?thesis by (rule rsAt_replace [OF that(1)]) (use t in simp_all)
  qed
  have at: "rsAt (syncKey rs) (steady rs) v" using assms(1) by (simp add: rsLate_def)
  have one: "wp (apiUpdate rsKind x) (\<lambda>_. rsAt (syncKey rs) (steady rs)) v"
    by (rule wp_apiUpdate) (use at stored in \<open>simp_all add: Let_def\<close>)
  have "wp (storeUpdateDeleting rsKind x) (\<lambda>_. rsAt (syncKey rs) (steady rs)) u" if u: "rsAt (syncKey rs) (steady rs) u" for u
    unfolding storeUpdateDeleting_def wp_chk
    by (rule wp_storeWrite) (use u stored [OF u] in \<open>simp_all add: wp_def rsAt_gone\<close>)
  then have two: "wp (faulty (storeUpdateDeleting rsKind x)) (\<lambda>_. rsAt (syncKey rs) (steady rs)) v"
    by (intro wp_faulty) (use at in simp_all)
  have late: "wp m (\<lambda>_. rsLate r w rs) v" if "wp m (\<lambda>_. rsAt (syncKey rs) (steady rs)) v" and "state_io_rel restoresF.same m"
    and "state_io_rel (outR.same r rs) m" for m :: "'b action"
    using wp_conj [OF that(1) wp_conj [OF restoresF.wp_same [OF that(2)] outR.wp_same [OF that(3)]]]
    by (rule wp_mono) (use assms(1) in \<open>simp add: rsLate_def\<close>)
  have gone: "state_io_rel restoresF.same (faulty (storeUpdateDeleting rsKind x))"
    unfolding storeUpdateDeleting_def
    by (intro restoresF.rel_faulty restoresF.rel_chk restoresF.rel_storeWrite, simp_all add: restoresF.same_def replaceObj_def)
      (rule state_io_relI, auto simp: restoresF.same_def)
  show "wp (apiUpdate rsKind x) (\<lambda>_. rsLate r w rs) v"
    by (rule late [OF one restoresF.frame_update ownRs.hidden_update]) (use assms(2) in simp_all)
  show "wp (faulty (storeUpdateDeleting rsKind x)) (\<lambda>_. rsLate r w rs) v"
    by (rule late [OF two gone ownRs.hidden_deleting]) (use assms(2) in simp_all)
qed

lemma wp_deleteResourceSync:
  assumes "rsRead r w rs v" and "sameRun rs x"
  shows "wp (deleteResourceSync x) (\<lambda>_. rsDone r w rs) v"
proof -
  have key: "syncKey x = syncKey rs" by (rule sameRun_names(1) [OF assms(2)])
  have gone: "wp (faulty (storeUpdateDeleting rsKind (x\<lparr>so_meta := (so_meta x)\<lparr>m_finalizers := fs\<rparr>\<rparr>))) (\<lambda>_. rsLate r w rs) u"
    if "rsRead r w rs u" for fs u
    by (rule wp_rsMeta(2) [OF rs_read_late [OF that]]) (use key in \<open>simp add: syncKey_def metaKey_def\<close>)
  show ?thesis
    unfolding deleteResourceSync_def
    using rs_read_done [OF assms(1)]
    by (auto simp del: wp_bind simp: key intro!: wp_quiet_bind [OF quietF.rel_emit quiet_rs(1) assms(1)]
        wp_bindI [OF wp_removeResourceJob [OF _ key, unfolded key]]
        wp_bindI [OF gone] wp_quiet_bind [OF quietF.rel_emit quiet_rs(2)] split: sum.split intro: rs_late_done)
qed

lemma wp_resourceEdges:
  assumes "rsRead r w rs v" and "sameRun rs x"
  shows "wp (rsSyncDependencyLabels q x) (\<lambda>y u. rsRead r w rs u \<and> sameRun rs (snd y)) v"
proof -
  have "sameRun rs (x\<lparr>so_meta := (so_meta x)\<lparr>m_labels := ls\<rparr>\<rparr>)" for ls
    using assms(2) by (simp add: sameRun_def syncKey_def metaKey_def)
  then have "wp (rsSyncDependencyLabels q x) (\<lambda>y _. sameRun rs (snd y)) v"
    unfolding rsSyncDependencyLabels_def Let_def by (intro wp_bindI [where P = "\<lambda>_ _. True", OF wp_any]) simp_all
  moreover have "wp (rsSyncDependencyLabels q x) (\<lambda>_. rsRead r w rs) v"
    by (rule wp_quiet [OF quietF.frame_rsEdges quiet_rs(1) assms(1)])
  ultimately show ?thesis by (intro wp_conj)
qed

end
