(* ===== verification/ResourceSyncProps.thy ===== *)
theory ResourceSyncProps
  imports ResourceSyncSteps DataSyncProps
begin

text \<open>
  The properties of the resource sync controller: the refinement of its machine, what it may change,
  the order of its restores, and the record of replicas that an idle source does not erase.
\<close>

section \<open>A reconcile\<close>

lemma wp_reconcileResourceSync:
  assumes "keepsKey (sy_setController r)" and "rsRead r w rs v"
  shows "wp (reconcileResourceSync r rs) (\<lambda>_. rsDone r w rs) v"
proof -
  have saved: "wp (chk (apiUpdate rsKind x) (\<lambda>_. ok requeue_result)) (\<lambda>_. rsDone r w rs) u" if "rsRead r w rs u" and "sameRun rs x" for x u
    by (rule wp_chkI2 [OF wp_rsMeta(1) [OF rs_read_late [OF that(1)] sameRun_names(1) [OF that(2)]]]) (auto intro: rs_late_done)
  have marked: "sameRun rs (rs\<lparr>so_meta := (so_meta rs)\<lparr>m_finalizers := fs\<rparr>\<rparr>)" for fs
    by (simp add: sameRun_def steady_def syncKey_def metaKey_def)
  have created: "wp (chk (updateResourceSyncStatusWithRetry r x rsInitialStatus) (\<lambda>_. ok requeue_result)) (\<lambda>_. rsDone r w rs) u"
    if "rsRead r w rs u" and "sameRun rs x" and "ss_state (so_status rs) = SyncNone" for x u
  proof (rule wp_chkI2 [OF wp_rsSave [OF rs_read_late [OF that(1)] sameRun_names(1) [OF that(2)],
        where Q = "\<lambda>s :: SyncStatus. ss_state s = SyncReady \<and> ss_lastSyncTime s = ss_lastSyncTime (so_status rs)"]])
    fix s :: SyncStatus assume "ss_state s = SyncReady \<and> ss_lastSyncTime s = ss_lastSyncTime (so_status rs)"
    then show "resourceMoves r w rs s" using resourceEdge.created that(3) by (simp add: resourceMoves_def phaseOf_def endsRun_def)
  qed (use that(3) in \<open>auto simp: rsInitialStatus_def steady_def split: if_splits\<close>)
  have run: "wp (if rsShouldSync r x then executeResourceSync r x else ok done_result) (\<lambda>_. rsDone r w rs) u"
    if "rsRead r w rs u" and "sameRun rs x" and "ss_state (so_status rs) \<noteq> SyncNone" for x u
  proof -
    have "phaseOf (so_status rs) \<noteq> Fresh" using that(3) by (auto simp: phaseOf_def split: SyncState.splits)
    moreover have "rsShouldSync r x = rsShouldSync r rs" using sameRun_names [OF that(2)] by (simp add: rsShouldSync_def Let_def cong: option.case_cong)
    ultimately show ?thesis using wp_executeResourceSync [OF assms(1) _ _ that(1,2)] rs_read_done [OF that(1)] by simp
  qed
  have steady: "wp (do { scheduleSync r cb x; (if rsShouldSync r x then executeResourceSync r x else ok done_result) }) (\<lambda>_. rsDone r w rs) u"
    if "rsRead r w rs u" and "sameRun rs x" and "ss_state (so_status rs) \<noteq> SyncNone" for cb x u
    by (rule wp_bindI [OF wp_scheduleResource [OF that(1,2)]]) (rule run [OF _ that(2,3)])
  have labelled: "wp (do { x \<leftarrow> rsSyncDependencyLabels (sy_base r) rs;
      (let rs1 = snd x in
       if fst x then chk (apiUpdate rsKind rs1) (\<lambda>_. ok requeue_result)
       else if ss_state (so_status rs1) = SyncNone
       then chk (updateResourceSyncStatusWithRetry r rs1 rsInitialStatus) (\<lambda>_. ok requeue_result)
       else do { scheduleSync r TriggerResourceSync rs1; (if rsShouldSync r rs1 then executeResourceSync r rs1 else ok done_result) }) }) (\<lambda>_. rsDone r w rs) v"
  proof (rule wp_bindI [OF wp_resourceEdges [OF assms(2) sameRun_refl]], goal_cases)
    case (1 y u)
    then have y: "rsRead r w rs u" "sameRun rs (snd y)" by simp_all
    show ?case
      using saved [OF y] created [OF y] steady [OF y] sameRun_names(6) [OF y(2)] by (simp add: Let_def del: wp_bind wp_chk)
  qed
  show ?thesis
    unfolding reconcileResourceSync_def
    using saved [OF assms(2) marked] wp_deleteResourceSync [OF assms(2) sameRun_refl] labelled by (simp del: wp_bind wp_chk)
qed

lemma rs_start: "lookup rsKind w k = Some rs \<Longrightarrow> rsRead r w rs (w\<lparr>w_faults := fs\<rparr>)"
  using rsK.lookup_key [of w k rs] by (simp add: rsRead_def rsAt_def steady_def resourceView_def outsideResource_def lookup_def)

lemma resource_sync_done:
  assumes "keepsKey (sy_setController r)" and "lookup rsKind w k = Some rs"
  shows "wp (resourceSyncReconcile r k) (\<lambda>_. rsDone r w rs) w"
proof -
  have k: "syncKey rs = k" using rsK.lookup_key [OF assms(2)] by simp
  note start = rs_start [OF assms(2)]
  show ?thesis
    unfolding resourceSyncReconcile_def wp_bind
  proof (rule wp_apiGet, goal_cases)
    case (1 e fs)
    have "rsDone r w rs ((w\<lparr>w_faults := fs\<rparr>)\<lparr>w_jobs := RemoveJob k (w_jobs w)\<rparr>)"
      using rs_read_done [OF read_jobs [OF start]] jobs_of_others k by simp
    then show ?case using rs_read_done [OF start] by (simp add: removeJob_def wp_def)
  next
    case (2 x fs)
    then have "x = rs" using assms(2) by (simp add: lookup_def)
    then show ?case using wp_reconcileResourceSync [OF assms(1) start] by simp
  qed
qed

section \<open>A run, its order and its frame\<close>

definition resourceAfter :: "world \<Rightarrow> world" where
  "resourceAfter w = snd (run_state (resourceSyncReconcile sSyncRec (''ns'', ''dr-rs-app'')) w)"

text \<open>A sync that copies the backup \<open>bk\<close>; the policy of the application also selects cluster-scoped objects.\<close>

definition sCopying :: SyncObject where
  "sCopying = (let s = sSync ''dr-rs-app'' False in s\<lparr>so_meta := (so_meta s)\<lparr>m_finalizers := [resourceSyncFinalizer],
     m_labels := fst (RebuildDependencyToLabels (fst (EnsureDependencyTokenLabel (\<lambda>s. s) [] ''dr-rs-app'')) [edgeTo sRec ''app'' ''spec.instance''])\<rparr>,
     so_status := (so_status s)\<lparr>ss_state := SyncInProgress, ss_lastBackupName := ''bk''\<rparr>\<rparr>)"

definition sSelects :: "string list \<Rightarrow> DisasterInstance" where
  "sSelects xs = (let i = sInst FsmProtected ''east'' ''west'' in i\<lparr>in_spec := (in_spec i)\<lparr>di_restorePolicy := Some
     \<lparr>rp_resourceSelection = Some \<lparr>rs_includedNamespaces = [], rs_excludedNamespaces = [], rs_includedResources = [], rs_excludedResources = [],
        rs_includedNamespaceScoped = [], rs_excludedNamespaceScoped = [], rs_includedClusterScoped = xs, rs_excludedClusterScoped = [],
        rs_labelSelector = None, rs_includeClusterResources = None\<rparr>,
      rp_execution = None, rp_storageClassMapping = None, rp_ingressClassMapping = None, rp_bulkModifierActions = [], rp_modifierRules = [],
      rp_modifierRuleSnapshot = [], rp_modifierRuleSnapshotHash = [], rp_useUnifiedDirectionResolver = None\<rparr>\<rparr>\<rparr>)"

definition sSelecting :: DisasterInstance where "sSelecting = sSelects [''ingressclasses'']"

definition sPhase :: "resourceSyncRestorePhaseKind \<Rightarrow> AppRestore" where
  "sPhase p = \<lparr>ar_meta = sMeta ''ns'' (resourceSyncRestoreName sRec ''dr-rs-app'' ''bk'' p),
     ar_spec = applyPhaseSelection p sSelecting (resourceRestoreBase sCopying sCfg sSelecting ''bk'' []),
     ar_phase = PhaseSucceeded, ar_reason = [], ar_message = [], ar_itemsRestored = Some 3, ar_hookStatus = None\<rparr>"

definition sPhaseWorld :: "resourceSyncRestorePhaseKind list \<Rightarrow> world" where
  "sPhaseWorld ps = (sWorld [] sSelecting ''east'')\<lparr>w_rs := [sCopying],
     w_appBackups := [\<lparr>ab_meta = sMeta ''ns'' ''rs-dr-rs-app'', ab_spec = buildResourceBackupSpec sSelecting sCfg,
       ab_status = \<lparr>abt_status = ''Ready'', abt_message = [], abt_history = [sCompleted]\<rparr>\<rparr>],
     w_restores := map sPhase ps, w_storageRepos := [\<lparr>sr_meta = sMeta ''disaster-system'' ''repo'', sr_status = ''Available'', sr_message = []\<rparr>]\<rparr>"

text \<open>C7. Refinement: a reconcile of the resource sync controller, whatever the API server answers and however often a write of the
  status is tried again, moves the run of the sync by at most one edge of the machine: it ends well only when the backup of the run
  completed and the restores of all phases of its plan succeeded. A run records its end, and only its end.\<close>

theorem resource_sync_refines_run:
  assumes "keepsKey (sy_setController r)" and "lookup rsKind w k = Some rs"
    and "lookup rsKind (snd (run_state (resourceSyncReconcile r k) w)) k = Some rs'"
  shows "resourceMoves r w rs (so_status rs')"
proof -
  have "rsDone r w rs (snd (run_state (resourceSyncReconcile r k) w))"
    using resource_sync_done [OF assms(1,2)] by (simp add: wp_snd)
  moreover have "syncKey rs = k" using rsK.lookup_key [OF assms(2)] by simp
  ultimately show ?thesis using assms(3) by (simp add: rsDone_def rsAt_def)
qed

text \<open>Both restores have succeeded: the run ends.\<close>

theorem resource_sync_refines_run_witness:
  "let w = sPhaseWorld [RestoreCluster, RestoreNamespace] in
     (\<exists>rs'. lookup rsKind (resourceAfter w) (''ns'', ''dr-rs-app'') = Some rs' \<and> phaseOf (so_status rs') = Idle \<and> ss_lastSyncTime (so_status rs') = Some 90) \<and>
     phaseOf (so_status sCopying) = Copying ''bk'' \<and> resourcesRestored sSyncRec w sCopying ''bk''"
proof -
  let ?w = "sPhaseWorld [RestoreCluster, RestoreNamespace]"
  have a: "lookup rsKind ?w (''ns'', ''dr-rs-app'') = Some sCopying" by code_simp
  have "map_option (\<lambda>d. phaseOf (so_status d)) (lookup rsKind (resourceAfter ?w) (''ns'', ''dr-rs-app'')) = Some Idle" by code_simp
  then obtain rs' where d: "lookup rsKind (resourceAfter ?w) (''ns'', ''dr-rs-app'') = Some rs'" "phaseOf (so_status rs') = Idle" by auto
  have p: "phaseOf (so_status sCopying) = Copying ''bk''" by code_simp
  have m: "resourceMoves sSyncRec ?w sCopying (so_status rs')"
    by (rule resource_sync_refines_run [OF sample_keepsKey a d(1) [unfolded resourceAfter_def]])
  have now: "sy_now sSyncRec = 90" by (simp add: sy_now_def sSyncRec_def)
  from m have "resourceEdge sSyncRec ?w sCopying (Copying ''bk'') Idle" and "ss_lastSyncTime (so_status rs') = Some 90"
    by (simp_all add: resourceMoves_def p d(2) endsRun_def now)
  then show ?thesis using d p by (auto simp: Let_def elim: resource_to_Idle)
qed

text \<open>C8. Safety: the restores of a resource sync are made in the order of its plan. A reconcile, with any faults, makes or changes a restore only
  in the middle of a run whose backup completed, under the name of a phase of the plan, when the restores of all earlier phases have
  succeeded; and a restore of namespaced objects leaves pods, claims and volumes out, whatever the policy of the instance says.\<close>

theorem resource_restores_in_order:
  assumes "keepsKey (sy_setController r)" and "lookup rsKind w k = Some rs"
  shows "restoresGrow r w rs (w_restores (snd (run_state (resourceSyncReconcile r k) w)))"
  using resource_sync_done [OF assms] by (simp add: wp_snd rsDone_def)

text \<open>After the cluster-scoped objects the namespaced ones are restored.\<close>

theorem resource_restores_in_order_witness:
  "let w = sPhaseWorld [RestoreCluster]; w' = resourceAfter w in
     map (m_name \<circ> ar_meta) (w_restores w') = [''rec-rs-dr-rs-app-bk-cluster'', ''rec-rs-dr-rs-app-bk-ns''] \<and> restoresGrow sSyncRec w sCopying (w_restores w')"
proof -
  let ?w = "sPhaseWorld [RestoreCluster]"
  have a: "lookup rsKind ?w (''ns'', ''dr-rs-app'') = Some sCopying" by code_simp
  have "map (m_name \<circ> ar_meta) (w_restores (resourceAfter ?w)) = [''rec-rs-dr-rs-app-bk-cluster'', ''rec-rs-dr-rs-app-bk-ns'']" by code_simp
  then show ?thesis using resource_restores_in_order [OF sample_keepsKey a] by (simp add: Let_def resourceAfter_def)
qed

text \<open>C10. Safety: the reconcile changes nothing but the sync itself, its backup, the restores of its run, its record of replicas and its cron job;
  no member cluster is written.\<close>

theorem resource_sync_isolated:
  assumes "keepsKey (sy_setController r)" and "lookup rsKind w k = Some rs"
  shows "outsideResource r rs (snd (run_state (resourceSyncReconcile r k) w)) = outsideResource r rs w"
  using resource_sync_done [OF assms] by (simp add: wp_snd rsDone_def)

theorem resource_sync_isolated_witness:
  "let w = sPhaseWorld []; w' = resourceAfter w in
     map (m_name \<circ> ar_meta) (w_restores w') = [''rec-rs-dr-rs-app-bk-cluster''] \<and> outsideResource sSyncRec sCopying w' = outsideResource sSyncRec sCopying w"
proof -
  let ?w = "sPhaseWorld []"
  have a: "lookup rsKind ?w (''ns'', ''dr-rs-app'') = Some sCopying" by code_simp
  have "map (m_name \<circ> ar_meta) (w_restores (resourceAfter ?w)) = [''rec-rs-dr-rs-app-bk-cluster'']" by code_simp
  then show ?thesis using resource_sync_isolated [OF sample_keepsKey a] by (simp add: Let_def resourceAfter_def)
qed

end
