(* ===== verification/ResourceSyncRecord.thy ===== *)
theory ResourceSyncRecord
  imports ResourceSyncProps
begin

text \<open>
  The record of the replicas that a resource sync keeps. A failover scales the source to zero and the syncs go on;
  a record that has a positive count outlives them. All actions but the one that writes the record are
  shown to leave it alone by one frame, whose assumptions are the writes of the controller.
\<close>

section \<open>A frame of the controller\<close>

locale resource_frame = world_frame +
  assumes proj_rs: "proj (w\<lparr>w_rs := xs\<rparr>) = proj w" and proj_backups: "proj (w\<lparr>w_appBackups := bs\<rparr>) = proj w"
    and proj_restores: "proj (w\<lparr>w_restores := ars\<rparr>) = proj w" and proj_stats: "proj (w\<lparr>w_stats := sts\<rparr>) = proj w"
    and proj_jobs: "proj (w\<lparr>w_jobs := js\<rparr>) = proj w"

context resource_frame
begin

lemma puts: "proj (k_put rsKind xs w) = proj w" "proj (k_put appBackupKind bs w) = proj w" "proj (k_put restoreKind ars w) = proj w"
  by (simp_all add: proj_rs proj_backups proj_restores)

lemma frame_status: "state_io_rel same (updateResourceSyncStatusWithRetry r rs f)"
  unfolding updateResourceSyncStatusWithRetry_def by (intro rel_intros frame_statusUpdate puts)

lemma frame_endRun: "state_io_rel same (endResourceRun r rs f b)"
  unfolding endResourceRun_def by (intro rel_intros frame_status frame_rsStatistics proj_stats)

lemma frame_fail: "state_io_rel same (failResourceSync r reason msg rs)"
  unfolding failResourceSync_def by (rule frame_endRun)

lemma frame_buildFailed: "state_io_rel same (failRestoreBuild r rs b n e items)"
  unfolding failRestoreBuild_def Let_def by (intro rel_intros frame_endRun frame_historySource)

lemma frame_finalize: "state_io_rel same (finalizeRestoreResult r rs b n failed st items)"
  unfolding finalizeRestoreResult_def by (intro rel_intros frame_endRun frame_historySource)

lemma frame_startPhase: "state_io_rel same (startPhase r rs cfg i b n p items)"
  unfolding startPhase_def lift_def
  by (intro rel_intros frame_phaseSpec frame_buildFailed frame_create puts frame_status)

lemma frame_followPhase: "(\<And>x n. state_io_rel same (k x n)) \<Longrightarrow> state_io_rel same (followPhase r rs b n p ar items k)"
  unfolding followPhase_def Let_def by (intro rel_intros frame_status frame_finalize) simp_all

lemma frame_restorePhases: "state_io_rel same (restorePhases r cfg i b n ps rs items)"
  by (induction ps arbitrary: rs items) (auto simp: Let_def intro!: rel_intros frame_finalize frame_startPhase frame_followPhase)

lemma frame_findBackup: "state_io_rel same (findResourceBackup r rs ab desired)"
  unfolding findResourceBackup_def recordResourceBackup_def resourceBackupFailed_def requestResourceBackup_def Let_def
  by (intro rel_intros frame_status frame_fail frame_update puts)

lemma frame_followBackup: "state_io_rel same (followResourceBackup r rs cfg i)"
  unfolding followResourceBackup_def resourceVeleroFailed_def handleResourceRestore_def Let_def
  by (intro rel_intros frame_status frame_restorePhases)

lemma frame_runBackup: "state_io_rel same (runResourceBackup r rs cfg i)"
  unfolding runResourceBackup_def createResourceBackup_def lift_def Let_def
  by (intro rel_intros frame_fail frame_create frame_update puts frame_findBackup frame_followBackup)

lemma frame_removeJob: "state_io_rel same (removeJob k)"
  by (rule state_io_relI) (auto simp: removeJob_def same_def proj_jobs)

lemma frame_schedule: "state_io_rel same (scheduleSync r cb rs)"
proof -
  have "state_io_rel same (addJob e k sch cb)" for e k sch
    by (rule state_io_relI) (auto simp: addJob_def same_def proj_jobs Let_def)
  then show ?thesis unfolding scheduleSync_def Let_def by (intro rel_intros frame_removeJob)
qed

lemma frame_deleteSync: "state_io_rel same (deleteResourceSync rs)"
proof -
  have "state_io_rel same (storeUpdateDeleting rsKind x)" for x
    unfolding storeUpdateDeleting_def
    by (intro rel_chk rel_storeWrite, simp_all add: same_def replaceObj_def proj_rs)
      (rule state_io_relI, auto simp: same_def proj_rs)
  then show ?thesis unfolding deleteResourceSync_def by (intro rel_intros rel_faulty frame_removeJob)
qed

end

section \<open>The record\<close>

definition recordView :: "world \<Rightarrow> ConfigMap list \<times> (string \<Rightarrow> Workload list) \<times> (string \<Rightarrow> Workload list) \<times> DisasterInstance list \<times> DisasterConfig list" where
  "recordView v = (w_cms v, w_deploys v, w_sts v, w_insts v, w_cfgs v)"

interpretation recF: world_frame recordView
  by unfold_locales (simp_all add: recordView_def)

interpretation rec: resource_frame recordView
  by unfold_locales (simp_all add: recordView_def)

definition hasCounts :: "ConfigMap \<Rightarrow> bool" where
  "hasCounts cm \<longleftrightarrow> (case map_of (cm_data cm) ''replicas'' of Some (JsonReplicas m) \<Rightarrow> list_ex (\<lambda>x. snd x > 0) m | _ \<Rightarrow> False)"

text \<open>The label selector of an instance picks an object; no workload it picks is asked to run in the primary cluster.\<close>

definition selectedBy :: "syncReconciler \<Rightarrow> DisasterInstance \<Rightarrow> smap \<Rightarrow> bool" where
  "selectedBy r i ls \<longleftrightarrow> (case di_labelSelector (in_spec i) of None \<Rightarrow> True
     | Some l \<Rightarrow> (case mt_matches (r_matchers (sy_base r)) l of Inl _ \<Rightarrow> False | Inr P \<Rightarrow> P ls))"

definition idleIn :: "syncReconciler \<Rightarrow> world \<Rightarrow> DisasterInstance \<Rightarrow> DisasterConfig \<Rightarrow> bool" where
  "idleIn r w i cfg \<longleftrightarrow> list_all (\<lambda>d. scannedReplicas d > 0 \<and> selectedBy r i (m_labels (wl_meta d)) \<longrightarrow>
       \<not> list_ex (\<lambda>ns. ns = [] \<or> m_ns (wl_meta d) = ns) (di_namespaces (in_spec i)))
     (w_deploys w (primaryOr i cfg) @ w_sts w (primaryOr i cfg))"

text \<open>No workload of the instance of the sync is asked to run in its primary cluster.\<close>

definition idleSource :: "syncReconciler \<Rightarrow> world \<Rightarrow> SyncObject \<Rightarrow> bool" where
  "idleSource r w rs \<longleftrightarrow> (case instanceOf w rs of None \<Rightarrow> True
     | Some i \<Rightarrow> (case lookup cfgKind w ([], di_config (in_spec i)) of None \<Rightarrow> True | Some cfg \<Rightarrow> idleIn r w i cfg))"

lemma no_counts:
  assumes "\<not> list_ex (\<lambda>x. snd x > 0) m" and "\<And>d. d \<in> set ds \<Longrightarrow> scannedReplicas d \<le> 0"
  shows "\<not> list_ex (\<lambda>x. snd x > 0) (scanWorkloads ns plural ds m)"
proof -
  have step: "\<not> list_ex (\<lambda>x. snd x > 0) (AList.update q n m)" if "\<not> list_ex (\<lambda>x. snd x > 0) m" and "n \<le> 0" for q n and m :: "(string \<times> int) list"
    using that by (induction m) auto
  show ?thesis
    unfolding scanWorkloads_def using assms
  proof (induction ds arbitrary: m)
    case (Cons d ds)
    have "\<not> list_ex (\<lambda>x. snd x > 0) (AList.update (workloadKey ns plural d) (scannedReplicas d) m)"
      by (rule step) (use Cons.prems in auto)
    then show ?case using Cons.IH Cons.prems(2) by simp
  qed simp
qed

lemma wp_idleScan:
  assumes "idleIn r w i cfg" and "recordView v = recordView w" and "\<And>ls. P ls \<Longrightarrow> selectedBy r i ls"
  shows "wp (scanReplicas (primaryOr i cfg) P (di_namespaces (in_spec i)))
     (\<lambda>y u. recordView u = recordView w \<and> (\<forall>m. y = Inr m \<longrightarrow> \<not> list_ex (\<lambda>x. snd x > 0) m)) v"
  unfolding scanReplicas_def
proof (rule wp_forEach_acc)
  let ?c = "primaryOr i cfg"
  fix ns u and m :: "(string \<times> int) list" assume ns: "ns \<in> set (di_namespaces (in_spec i))" and u: "recordView u = recordView w" and m: "\<not> list_ex (\<lambda>x. snd x > 0) m"
  have idle: "scannedReplicas d \<le> 0" if "d \<in> set (filter (\<lambda>x. (ns = [] \<or> m_ns (wl_meta x) = ns) \<and> P (m_labels (wl_meta x))) xs)" and "xs = w_deploys w ?c \<or> xs = w_sts w ?c" for d xs R
  proof -
    have "d \<in> set (w_deploys w ?c @ w_sts w ?c)" using that by auto
    then have "scannedReplicas d > 0 \<and> selectedBy r i (m_labels (wl_meta d)) \<longrightarrow> \<not> list_ex (\<lambda>ns. ns = [] \<or> m_ns (wl_meta d) = ns) (di_namespaces (in_spec i))"
      using assms(1) unfolding idleIn_def list_all_iff by blast
    moreover have "list_ex (\<lambda>ns. ns = [] \<or> m_ns (wl_meta d) = ns) (di_namespaces (in_spec i))"
      unfolding list_ex_iff using ns that(1) by auto
    moreover have "selectedBy r i (m_labels (wl_meta d))" using that(1) by (auto intro: assms(3))
    ultimately show ?thesis by simp
  qed
  have views: "w_deploys t ?c = w_deploys w ?c" "w_sts t ?c = w_sts w ?c" if "recordView t = recordView w" for t
    using that by (simp_all add: recordView_def)
  have lists: "wp (listMatching K ns P) (\<lambda>y t. recordView t = recordView w \<and> (\<forall>ds. y = Inr ds \<longrightarrow> (\<forall>d \<in> set ds. scannedReplicas d \<le> 0))) t"
    if "recordView t = recordView w" and "K = deployKind ?c \<or> K = stsKind ?c" for K t
    unfolding listMatching_def
  proof (rule wp_apiListRaw, goal_cases)
    case (1 e fs)
    then show ?case using that(1) by (simp add: recF.proj_faults)
  next
    case (2 fs)
    have "k_objs K (t\<lparr>w_faults := fs\<rparr>) = w_deploys w ?c \<or> k_objs K (t\<lparr>w_faults := fs\<rparr>) = w_sts w ?c"
      using that(2) views [OF that(1)] by (auto simp: deployKind_def stsKind_def)
    moreover have "inNamespace K ns x = (ns = [] \<or> m_ns (wl_meta x) = ns)" for x
      using that(2) by (auto simp: inNamespace_def deployKind_def stsKind_def)
    moreover have "k_meta K x = wl_meta x" for x using that(2) by (auto simp: deployKind_def stsKind_def)
    ultimately show ?case using idle [of _ "k_objs K (t\<lparr>w_faults := fs\<rparr>)"] that(1) by (simp add: recF.proj_faults)
  qed
  show "wp (chk (listMatching (deployKind ?c) ns P) (\<lambda>ds. chk (listMatching (stsKind ?c) ns P) (\<lambda>ss.
      ok (scanWorkloads ns ''statefulsets'' ss (scanWorkloads ns ''deployments'' ds m)))))
    (\<lambda>y u. recordView u = recordView w \<and> (\<forall>z. y = Inr z \<longrightarrow> \<not> list_ex (\<lambda>x. snd x > 0) z)) u"
  proof (rule wp_chkI2 [OF lists [OF u]], goal_cases)
    case (3 ds t)
    then have t: "recordView t = recordView w" and ds: "\<forall>d \<in> set ds. scannedReplicas d \<le> 0" by auto
    show ?case
    proof (rule wp_chkI2 [OF lists [OF t]], goal_cases)
      case (3 ss s)
      then have ss: "\<forall>d \<in> set ss. scannedReplicas d \<le> 0" and s: "recordView s = recordView w" by auto
      have "\<not> list_ex (\<lambda>x. snd x > 0) (scanWorkloads ns ''statefulsets'' ss (scanWorkloads ns ''deployments'' ds m))"
        by (rule no_counts [OF no_counts [OF m]]) (use ds ss in blast)+
      with s show ?case by simp
    qed auto
  qed auto
qed (use assms(2) in simp_all)

lemma keeps_counts: "hasCounts cm \<Longrightarrow> \<not> list_ex (\<lambda>x. snd x > 0) m \<Longrightarrow> mergeReplicas r rs m cm = Inr cm"
  by (auto simp: hasCounts_def mergeReplicas_def keepsRecord_def split: option.splits ConfigValue.splits)

lemma wp_keepsRecord:
  assumes "recordView v = recordView w" and "lookup cmKind w (replicasKey x) = Some cm" and "hasCounts cm" and "\<not> list_ex (\<lambda>x. snd x > 0) m"
  shows "wp (createOrUpdate cmKind \<lparr>cm_meta = newMeta (syncNs x) (''replicas-'' @ syncName x), cm_data = []\<rparr> (mergeReplicas r x m))
     (\<lambda>_ u. recordView u = recordView w) v"
proof -
  have key: "keyOf cmKind \<lparr>cm_meta = newMeta (syncNs x) (''replicas-'' @ syncName x), cm_data = []\<rparr> = replicasKey x"
    by (simp add: keyOf_def metaKey_def newMeta_def replicasKey_def cmKind_def)
  have stored: "lookup cmKind (v\<lparr>w_faults := fs\<rparr>) (replicasKey x) = Some cm" for fs
    using assms(1,2) by (simp add: lookup_def recordView_def cmKind_def)
  show ?thesis
    unfolding createOrUpdate_def wp_bind key
  proof (rule wp_apiGet_notFound, goal_cases)
    case (1 e fs)
    then show ?case using stored assms(1) by (auto simp: recF.proj_faults)
  next
    case (2 y fs)
    then have "y = cm" using stored by simp
    then show ?case using assms(1) keeps_counts [OF assms(3,4)] by (simp add: recF.proj_faults)
  qed
qed

lemma wp_idleRecord:
  assumes "recordView v = recordView w" and "lookup cmKind w (replicasKey x) = Some cm" and "hasCounts cm" and "idleIn r w i cfg"
  shows "wp (recordReplicasToConfigMap r i cfg x) (\<lambda>_ u. recordView u = recordView w) v"
proof -
  have same: "wp m (\<lambda>_ u. recordView u = recordView w) u" if "state_io_rel recF.same m" and "recordView u = recordView w" for m :: "'b action" and u
    by (rule wp_mono [OF recF.wp_same [OF that(1)]]) (use that(2) in simp)
  have scanned: "wp (chk (scanReplicas (primaryOr i cfg) P (di_namespaces (in_spec i))) (\<lambda>m. chk (createOrUpdate cmKind
      \<lparr>cm_meta = newMeta (syncNs x) (''replicas-'' @ syncName x), cm_data = []\<rparr> (mergeReplicas r x m)) (\<lambda>_. ok ())))
      (\<lambda>_ u. recordView u = recordView w) u" if "recordView u = recordView w" and "\<And>ls. P ls \<Longrightarrow> selectedBy r i ls" for P u
  proof (rule wp_chkI2 [OF wp_idleScan [OF assms(4) that(1)]], goal_cases)
    case (3 m t)
    then have t: "recordView t = recordView w" "\<not> list_ex (\<lambda>x. snd x > 0) m" by blast+
    show ?case by (rule wp_chkI2 [OF wp_keepsRecord [OF t(1) assms(2,3) t(2)]]) (simp_all only: wp_ret)
  qed (use that(2) in blast)+
  let ?S = "case di_labelSelector (in_spec i) of None \<Rightarrow> ok (\<lambda>_. True) | Some l \<Rightarrow> lift (mt_matches (r_matchers (sy_base r)) l)"
  have lifted: "state_io_rel recF.same ?S"
    unfolding lift_def by (intro recF.rel_intros)
  show ?thesis
    unfolding recordReplicasToConfigMap_def Let_def wp_chkWrap
  proof (rule wp_mono [OF same [OF recF.frame_kubeClientSet assms(1)]], goal_cases)
    case (1 y u)
    show ?case
    proof (cases y)
      case (Inr z)
      have picks: "wp ?S (\<lambda>y u. recordView u = recordView w \<and> (\<forall>P. y = Inr P \<longrightarrow> (\<forall>ls. P ls \<longrightarrow> selectedBy r i ls))) u"
        by (rule wp_conj [OF same [OF lifted 1]]) (auto simp: selectedBy_def lift_def split: option.splits sum.splits)
      show ?thesis unfolding Inr sum.case by (rule wp_chkI2 [OF picks], blast, rule scanned; blast)
    qed (use 1 in \<open>simp only: sum.case\<close>)
  qed
qed

section \<open>The reconcile\<close>

lemma wp_same_view: "state_io_rel recF.same m \<Longrightarrow> recordView v = recordView w \<Longrightarrow> wp m (\<lambda>_ u. recordView u = recordView w) v"
  by (rule wp_mono [OF recF.wp_same]) simp_all

lemma wp_idleStart:
  assumes "recordView v = recordView w" and "lookup cmKind w (replicasKey x) = Some cm" and "hasCounts cm" and "idleIn r w i cfg"
  shows "wp (startResourceRun r x i cfg) (\<lambda>_ u. recordView u = recordView w) v"
proof -
  have rest: "state_io_rel recF.same (chk (updateResourceSyncStatusWithRetry r x rsStartedStatus) (\<lambda>y. do {
      _ \<leftarrow> rsSyncStatistics y; emit n t; ok requeue_result }))" for n t
    by (intro recF.rel_intros rec.frame_status recF.frame_rsStatistics rec.proj_stats)
  show ?thesis
    unfolding startResourceRun_def by (rule wp_bindI [OF wp_idleRecord [OF assms]], rule wp_same_view [OF rest])
qed

lemma wp_orFail_view:
  assumes "wp m (\<lambda>y u. recordView u = recordView w \<and> (\<forall>z. y = Inr z \<longrightarrow> P z)) v"
    and "\<And>z u. recordView u = recordView w \<Longrightarrow> P z \<Longrightarrow> wp (f z) (\<lambda>_ u. recordView u = recordView w) u"
  shows "wp (orFailResource r reason msg x m f) (\<lambda>_ u. recordView u = recordView w) v"
  unfolding orFailResource_def
  by (rule wp_bindI [OF assms(1)]) (auto intro: assms(2) wp_same_view [OF rec.frame_fail] split: sum.split)

lemma wp_getView:
  assumes "recordView v = recordView w" and "\<And>u. recordView u = recordView w \<Longrightarrow> k_objs K u = k_objs K w"
  shows "wp (apiGet K k) (\<lambda>y u. recordView u = recordView w \<and> (\<forall>z. y = Inr z \<longrightarrow> lookup K w k = Some z)) v"
proof (rule wp_apiGet, goal_cases)
  case (2 x fs)
  have "recordView (v\<lparr>w_faults := fs\<rparr>) = recordView w" using assms(1) by (simp add: recF.proj_faults)
  moreover from this have "k_objs K (v\<lparr>w_faults := fs\<rparr>) = k_objs K w" by (rule assms(2))
  ultimately show ?case using 2 unfolding lookup_def by simp
qed (use assms(1) in \<open>simp add: recF.proj_faults\<close>)

lemma wp_idleExecute:
  assumes "recordView v = recordView w" and "lookup cmKind w (replicasKey rs) = Some cm" and "hasCounts cm" and "idleSource r w rs"
    and "syncNs x = syncNs rs" and "syncName x = syncName rs" and "so_spec x = so_spec rs"
  shows "wp (executeResourceSync r x) (\<lambda>_ u. recordView u = recordView w) v"
proof -
  have key: "replicasKey x = replicasKey rs" using assms(5,6) by (simp add: replicasKey_def)
  have body: "wp (if ss_state (so_status x) \<noteq> SyncInProgress then startResourceRun r x i cfg else runResourceBackup r x cfg i)
      (\<lambda>_ u. recordView u = recordView w) u" if "recordView u = recordView w" and "idleIn r w i cfg" for i cfg u
  proof (cases "ss_state (so_status x) = SyncInProgress")
    case True
    show ?thesis unfolding True by (simp only: simp_thms if_False) (rule wp_same_view [OF rec.frame_runBackup that(1)])
  next
    case False
    show ?thesis
      by (simp only: False simp_thms if_True) (rule wp_idleStart [OF that(1) _ assms(3) that(2)], simp only: key assms(2))
  qed
  show ?thesis
    unfolding executeResourceSync_def assms(5,7)
  proof (rule wp_orFail_view [OF wp_getView [OF assms(1)]], goal_cases)
    case (1 u)
    then show ?case by (simp add: recordView_def instKind_def)
  next
    case (2 i u)
    show ?case
    proof (rule wp_orFail_view [OF wp_getView [OF 2(1)]], goal_cases)
      case (1 u)
      then show ?case by (simp add: recordView_def cfgKind_def)
    next
      case (2 cfg t)
      have idle: "idleIn r w i cfg" using assms(4) 2(2) \<open>lookup instKind w (syncNs rs, ss_instance (so_spec rs)) = Some i\<close>
        by (simp add: idleSource_def instanceOf_def)
      show ?case
      proof (rule wp_orFail_view [where P = "\<lambda>_. True"], goal_cases)
        case 1
        show ?case by (rule wp_mono [OF wp_same_view [OF recF.frame_storage 2(1)]]) blast
      next
        case (2 z s)
        show ?case by (rule body [OF 2(1) idle])
      qed
    qed
  qed
qed

lemma wp_idleReconcile:
  assumes "recordView v = recordView w" and "lookup cmKind w (replicasKey rs) = Some cm" and "hasCounts cm" and "idleSource r w rs"
  shows "wp (reconcileResourceSync r rs) (\<lambda>_ u. recordView u = recordView w) v"
proof -
  note view = wp_same_view [where w = w]
  have edges: "wp (rsSyncDependencyLabels q rs) (\<lambda>y u. recordView u = recordView w \<and>
      syncNs (snd y) = syncNs rs \<and> syncName (snd y) = syncName rs \<and> so_spec (snd y) = so_spec rs) v" for q
  proof (rule wp_conj [OF view [OF recF.frame_rsEdges assms(1)]])
    show "wp (rsSyncDependencyLabels q rs) (\<lambda>y u. syncNs (snd y) = syncNs rs \<and> syncName (snd y) = syncName rs \<and> so_spec (snd y) = so_spec rs) v"
      unfolding rsSyncDependencyLabels_def Let_def
      by (intro wp_bindI [where P = "\<lambda>_ _. True", OF wp_any]) (simp_all add: syncNs_def syncName_def)
  qed
  have steady: "wp (do { scheduleSync r cb x; (if rsShouldSync r x then executeResourceSync r x else ok done_result) })
      (\<lambda>_ u. recordView u = recordView w) u"
    if "recordView u = recordView w" "syncNs x = syncNs rs" "syncName x = syncName rs" "so_spec x = so_spec rs" for cb x u
  proof (rule wp_bindI [OF view [OF rec.frame_schedule that(1)]], goal_cases)
    case (1 y t)
    show ?case
    proof (cases "rsShouldSync r x")
      case True
      then show ?thesis by (simp only: if_True) (rule wp_idleExecute [OF 1 assms(2-4) that(2-4)])
    qed (use 1 in simp)
  qed
  have save: "wp (chk (apiUpdate rsKind x) (\<lambda>_. ok z)) (\<lambda>_ u. recordView u = recordView w) u"
    "wp (chk (updateResourceSyncStatusWithRetry r x f) (\<lambda>_. ok z)) (\<lambda>_ u. recordView u = recordView w) u"
    if "recordView u = recordView w" for x f u and z :: Result
    by (rule view [OF _ that], intro recF.rel_intros recF.frame_update rec.frame_status rec.puts)+
  have labelled: "wp (do {
      x \<leftarrow> rsSyncDependencyLabels (sy_base r) rs;
      (let rs1 = snd x in
       if fst x then chk (apiUpdate rsKind rs1) (\<lambda>_. ok requeue_result)
       else if ss_state (so_status rs1) = SyncNone
       then chk (updateResourceSyncStatusWithRetry r rs1 rsInitialStatus) (\<lambda>_. ok requeue_result)
       else do { scheduleSync r TriggerResourceSync rs1; (if rsShouldSync r rs1 then executeResourceSync r rs1 else ok done_result) }) })
    (\<lambda>_ u. recordView u = recordView w) v"
  proof (rule wp_bindI [OF edges], goal_cases)
    case (1 y u)
    then show ?case using save steady by (simp add: Let_def del: wp_bind wp_chk)
  qed
  show ?thesis
    unfolding reconcileResourceSync_def
    using view [OF rec.frame_deleteSync assms(1)] save [OF assms(1)] labelled by (simp del: wp_bind wp_chk)
qed

text \<open>C9. Safety: while no workload of the instance, that is, none in its namespaces that its label selector picks, is asked to run in
  its primary cluster, as after a failover has scaled it down, a reconcile of its resource sync leaves a record of replicas with a positive count exactly as it is, whatever calls fail.\<close>

theorem idle_source_keeps_replicas:
  assumes "lookup rsKind w k = Some rs" and "lookup cmKind w (replicasKey rs) = Some cm" and "hasCounts cm" and "idleSource r w rs"
  shows "lookup cmKind (snd (run_state (resourceSyncReconcile r k) w)) (replicasKey rs) = Some cm"
proof -
  have "wp (resourceSyncReconcile r k) (\<lambda>_ u. recordView u = recordView w) w"
    unfolding resourceSyncReconcile_def wp_bind
  proof (rule wp_apiGet, goal_cases)
    case (1 e fs)
    show ?case using wp_same_view [OF rec.frame_removeJob] by (simp add: recordView_def removeJob_def wp_def)
  next
    case (2 x fs)
    then have "x = rs" using assms(1) by (simp add: lookup_def)
    then show ?case using wp_idleReconcile [OF _ assms(2-4)] by (simp add: recF.proj_faults)
  qed
  then have "recordView (snd (run_state (resourceSyncReconcile r k) w)) = recordView w" by (simp add: wp_snd)
  then show ?thesis using assms(2) by (simp add: lookup_def recordView_def cmKind_def)
qed

text \<open>A run starts: the record stays when the workload runs in the other cluster only, and is replaced when it runs at the source.\<close>

definition sRecord :: ConfigMap where
  "sRecord = \<lparr>cm_meta = sMeta ''ns'' ''replicas-dr-rs-app'', cm_data = [(''replicas'', JsonReplicas [(''web/deployments/srv'', 2)])]\<rparr>"

definition sStarting :: SyncObject where
  "sStarting = sCopying\<lparr>so_status := (so_status sCopying)\<lparr>ss_state := SyncReady, ss_lastBackupName := [], ss_lastSyncTime := None\<rparr>\<rparr>"

definition sRecorded :: "string \<Rightarrow> world" where
  "sRecorded active = (sPhaseWorld [])\<lparr>w_rs := [sStarting], w_deploys := w_deploys (sWorld [] sSelecting active), w_cms := [sRecord]\<rparr>"

theorem idle_source_keeps_replicas_witness:
  "let k = (''ns'', ''replicas-dr-rs-app'') in
     lookup cmKind (resourceAfter (sRecorded ''west'')) k = Some sRecord \<and>
     map_option (\<lambda>cm. map_of (cm_data cm) ''replicas'') (lookup cmKind (resourceAfter (sRecorded ''east'')) k) = Some (Some (JsonReplicas [(''web/deployments/srv'', 3)])) \<and>
     map (ss_state \<circ> so_status) (w_rs (resourceAfter (sRecorded ''west''))) = [SyncInProgress]"
proof -
  have k: "replicasKey sStarting = (''ns'', ''replicas-dr-rs-app'')" by code_simp
  have a: "lookup rsKind (sRecorded ''west'') (''ns'', ''dr-rs-app'') = Some sStarting" by code_simp
  have b: "lookup cmKind (sRecorded ''west'') (''ns'', ''replicas-dr-rs-app'') = Some sRecord" by code_simp
  have c: "hasCounts sRecord" "idleSource sSyncRec (sRecorded ''west'') sStarting" by code_simp+
  have d: "map (ss_state \<circ> so_status) (w_rs (resourceAfter (sRecorded ''west''))) = [SyncInProgress]" by code_simp
  have e: "map_option (\<lambda>cm. map_of (cm_data cm) ''replicas'') (lookup cmKind (resourceAfter (sRecorded ''east'')) (''ns'', ''replicas-dr-rs-app'')) =
      Some (Some (JsonReplicas [(''web/deployments/srv'', 3)]))" by code_simp
  show ?thesis
    using idle_source_keeps_replicas [OF a b [folded k] c] d e by (simp add: Let_def resourceAfter_def k)
qed

section \<open>The phases of a selecting policy\<close>

theorem phases_restore_what_is_backed_up_witness:
  "let s = resourceRestoreBase sCopying sCfg sSelecting ''bk'' []; t = abs_template (buildResourceBackupSpec sSelecting sCfg);
       v = ars_template (applyPhaseSelection RestoreNamespace sSelecting s) in
     planResourceSyncRestorePhases sSelecting = [RestoreCluster, RestoreNamespace] \<and> bt_includedClusterScopedResources t = [''ingressclasses''] \<and>
     rt_includedResources (ars_template (applyPhaseSelection RestoreCluster sSelecting s)) = [''ingressclasses''] \<and>
     rt_excludedResources v = bt_excludedNamespaceScopedResources t \<and> rt_includeClusterResources v = Some False"
proof -
  have scoped: "sel_scoped (resolveResourceSyncSelectionPlan sSelecting)" by code_simp
  have plan: "planResourceSyncRestorePhases sSelecting = [RestoreCluster, RestoreNamespace]" by code_simp
  have held: "bt_includedClusterScopedResources (abs_template (buildResourceBackupSpec sSelecting sCfg)) = [''ingressclasses'']" by code_simp
  show ?thesis
    using phases_restore_what_is_backed_up [OF scoped, where cfg = sCfg and s = "resourceRestoreBase sCopying sCfg sSelecting ''bk'' []"]
    unfolding Let_def plan held by simp
qed

text \<open>Volumes are kept out of the namespaced objects only: a policy that names them among the cluster-scoped objects gets them copied.\<close>

lemma selected_volumes_are_restored:
  "let i = sSelects [''persistentvolumes'']; s = resourceRestoreBase sCopying sCfg i ''bk'' [] in
     bt_includedClusterScopedResources (abs_template (buildResourceBackupSpec i sCfg)) = [''persistentvolumes''] \<and>
     planResourceSyncRestorePhases i = [RestoreCluster, RestoreNamespace] \<and>
     rt_includedResources (ars_template (applyPhaseSelection RestoreCluster i s)) = [''persistentvolumes'']"
  by code_simp

end
