(* ===== verification/Spec2Isabelle.thy ===== *)
theory Spec2Isabelle
  imports OpOrder OpFindings OpGroupSync InstFindings RestoreProps GroupProps LabelProps DrillRestart ImageProps DataSyncBlocked ResourceSyncRecord
begin

text \<open>
  Testudo operator: disaster recovery for applications on Kubernetes.

  A protected application is a \<open>DisasterInstance\<close>: the namespaces of an application, a primary
  and a secondary cluster, and two syncs (\<open>DataSync\<close> for volumes, \<open>ResourceSync\<close> for
  manifests) that copy it from one to the other. A \<open>DisasterOperation\<close> is one action on an
  instance or on a \<open>DisasterGroup\<close> of instances: failover, reprotect, undo, cancel, pause, resume, sync,
  drill, drill cleanup. Controllers watch these objects and reconcile them: each reads the
  store of the management cluster, acts on it and on the member clusters, and writes the status back.
  They share no memory; they interact through the store only.

  The world. \<open>Kube\<close> models the store: lists of objects per kind with resource versions
  and conflicts, the workloads, pods, namespaces and secrets of each member cluster, the
  events, and a schedule of faults. A call of the API takes the next fault: it may be
  refused, or be carried out with its answer lost. A reconcile is a function on the world in
  the state monad of the library, with the error as a value; theorems that say "with any faults" hold
  for every schedule. \<open>Actions\<close> has the program logic: \<open>wp\<close> for postconditions and the locales
  \<open>world_rel\<close> and \<open>world_frame\<close> for relations and frames that every call
  respects, interpreted for each invariant below; \<open>key_frame\<close> of \<open>OpFrames\<close> extends a frame to writes of objects under
  keys it does not see. \<open>UpdateLoops\<close>, \<open>Runs\<close> and \<open>Samples\<close> have loops
  over objects, runs without faults, and the concrete world of the witnesses. \<open>Prelude\<close> has errors,
  Go's strings, numbers and durations, \<open>Json\<close> the JSON texts, \<open>Types\<close> and \<open>RestoreTypes\<close> the API
  types of \<open>src/pkg/apis/disaster/v1\<close>, \<open>Messages\<close> and \<open>DrillMessages\<close> the status texts
  as UTF-8 bytes.

  The operation controller (\<open>src/internal/controller/disasteroperation\<close>).
  \<open>OpCore\<close>: the pure decisions; \<open>OpExec\<close>: the executors of the steps; \<open>OpCheck\<close>: the
  precheck and the check of replicas (\<open>controller_check.go\<close>); \<open>OpHandlers\<close>: failover with its
  automatic compensation, reprotect, cancel, undo, pause and resume; \<open>OpReconcile\<close>: manual syncs, groups,
  the take-over of running operations and the loop itself; \<open>OpDrill\<close>: drills and their cleanup.
  What is shown: the handlers refine a state machine of the roles and the state of an
  instance (\<open>OpFsm\<close>); a failover exchanges the roles once, after all its steps, its steps
  stay in order, and workloads are scaled only in their step (\<open>OpSafety\<close>, \<open>OpSteps\<close>,
  \<open>OpOrder\<close>); an ended operation is final, concurrent failovers are refused or taken over
  (\<open>OpLifecycle\<close>); what scaling and recording achieve (\<open>OpExecProps\<close>, \<open>OpReplicas\<close>);
  groups go level by level, syncs complete only when synced, retries are bounded (\<open>OpGroupSync\<close>);
  and behaviours that look like defects (\<open>OpFindings\<close>).

  The drill controller (\<open>src/internal/controller/disasterdrill\<close>) is in \<open>DrillController\<close>:
  validation, confirmation, execution, cleanup, restart. \<open>DrillFsm\<close> shows that it refines a
  state machine, \<open>DrillFrames\<close> and \<open>DrillProps\<close> that a drill touches only its target and never starts
  on the primary cluster, and what its cleanup gets wrong; \<open>DrillRestart\<close> a restart without end.

  The instance controller (\<open>src/internal/controller/disasterinstance\<close>). \<open>InstCore\<close>: the
  watchdog over operations, failure reasons, role drift (\<open>role_drift.go\<close>); \<open>InstController\<close>: the
  handlers of all states, provisioning, deletion, labels. \<open>InstFrame\<close> has what a reconcile leaves alone; \<open>InstFsm\<close> shows that it refines a
  state machine whose transitions are justified by operations; \<open>InstHealth\<close> and \<open>InstProps\<close> the way into a
  configuration error and back, the first sync, role drift and that a failover is settled;
  \<open>InstFindings\<close> two defects.

  The data sync controller (\<open>src/internal/controller/datasync\<close>). \<open>DataSyncCore\<close>: names of backups and
  restores, the tokens that mark a run and its pods, every status a run can end with, the specifications of
  the \<open>AppBackup\<close> and the \<open>AppRestore\<close>; \<open>DataSync\<close>: preflight, discovery of volumes, backup,
  restore, the removal of the pods that received the data (\<open>trafficless_lifecycle.go\<close>), the checks at the
  end, the reconcile loop and what a cron job calls; \<open>SyncScheduler\<close>: the jobs of
  \<open>scheduler/sync_scheduler.go\<close>; \<open>SyncMessages\<close>: the status texts. \<open>DataSyncFsm\<close> states the abstract
  machine of a run (fresh, searching, copying a backup), the justification of each edge, and the views of
  the world each stage of a run keeps; \<open>DataSyncRuns\<close> proves each stage, \<open>DataSyncProps\<close> that
  the controller refines the machine and touches only what belongs to the sync, \<open>DataSyncBlocked\<close>
  that a failed backup object blocks every later sync until the controller of backups clears it. Velero is seen through the status of
  the two objects and through the pods, claims and volume restores of the target cluster.

  The resource sync controller (\<open>src/internal/controller/resourcesync\<close>) shares with it the record of a sync
  (\<open>SyncObject\<close>; the fields of the phases are used by resource syncs only), the check of the storage and the schedule.
  \<open>ResourceSyncCore\<close>: what the policy of the instance selects (\<open>selection_plan.go\<close>), the backup, the phases and their
  restores (\<open>restore_phases.go\<close>), history and statuses (\<open>restore_finalize.go\<close>), the record of replicas;
  \<open>ResourceSync\<close>: the status updates with retries (\<open>status_retry.go\<close>), the run and the reconcile loop. \<open>ResourceSyncPlan\<close>
  shows that backup and restores select the same objects and leave volumes out; \<open>ResourceSyncFsm\<close> has the machine
  and the invariants of a reconcile, \<open>ResourceSyncRuns\<close> and \<open>ResourceSyncSteps\<close> take each stage through them, \<open>ResourceSyncProps\<close>
  reads off that the machine is refined, that the restores come in the order of the plan and that nothing else is
  written; \<open>ResourceSyncRecord\<close> that a source scaled to zero does not erase the recorded replicas, by one frame of all writes.

  The group controller (\<open>src/internal/controller/disastergroup\<close>) is in \<open>GroupController\<close> with
  \<open>GroupProps\<close> (the stored status is exact; a group settles). The labels of \<open>src/pkg/metadata\<close> are
  in \<open>Labels\<close> and \<open>LabelProps\<close>.

  Restores (\<open>src/internal/controller/restore\<close>, \<open>imagemapping\<close>, \<open>trafficless_runtime.go\<close>).
  \<open>Modifier\<close>: directions, limits, governance, JSON pointers and placeholders of modifier
  rules; \<open>ModifierMerge\<close>: their merging, with a reference definition it equals;
  \<open>ModifierSubmission\<close>: the admission webhook; \<open>RestorePolicies\<close>: class mappings and the application of
  a policy; \<open>RestoreBuild\<close>: the restores themselves; \<open>ImageMapping\<close> and \<open>DynamicImages\<close>: the rewriting of
  images by registries and by prefixes; \<open>Trafficless\<close>: the pods that receive volumes without traffic, and
  their hooks. \<open>ModifierProps\<close>, \<open>RestoreProps\<close> and \<open>ImageProps\<close> show governance, protection of system
  rules, mirroring in the other direction, admission, and round trips of images and hooks.

  Bounds. No definition needs fuel: recursion is over lists, and the number of attempts of
  \<open>retry.RetryOnConflict\<close> is the field \<open>r_retrySteps\<close> of the reconciler, arbitrary in every theorem.
  Integers of the source that may wrap have the wrap-around of their width written out. A reconcile reads the clock once.

  What is idealised. Strings are byte lists; \<open>strings.ToLower\<close> and the classes of letters are those of ASCII.
  A Go map is a list of pairs, iterated in its order. The replica map stored as JSON
  is kept decoded. A deletion removes an object without finalizers at once. Every update
  raises the resource version, and created objects get no creation time. A panic
  ends the reconcile as an error of its own kind. Event texts, logs and metrics are not kept.
  Library functions are parameters: hashes, label selectors, regular expressions, parsing of
  timestamps, controller references, conditions. The search for live objects of a modifier rule and
  the dry run of a restore may succeed or fail. Facts about stored lists assume that keys are
  distinct (\<open>keysDistinct\<close>), as the API server guarantees.

  That a controller reference keeps the key of the object it is set on is the hypothesis
  \<open>keepsKey\<close>; the parser of cron expressions and the clock of the cron library are parameters.

  Not modelled: the controllers of \<open>AppBackup\<close>, \<open>AppRestore\<close>, clusters, storage
  repositories and the older backup jobs, mostly calls of Velero, Helm and client-go whose effect
  is outside the repository; the licence, whose substance are signatures; the webhook that limits the number of
  clusters by the licence; the runtime configuration, whose values are parameters here; the
  dependency backfill, a job at start-up; generated code and start-up.
\<close>

end
